(* ===== verification/F64.thy ===== *)
theory F64
  imports Complex_Main
begin

text \<open>
  The \<open>f64\<close> of the Rust sources: IEEE-754 binary64 values with round-to-nearest-even
  arithmetic. A finite value is the exact rational it denotes; infinities and NaN are
  constructors of their own. Two things are collapsed: the sign of zero and the payload of a
  NaN (no comparison of the program distinguishes either). Every arithmetic operation is the
  exact rational operation followed by \<open>f64_of_rat\<close>, which rounds to 53 significant bits (fewer
  below the subnormal threshold) and overflows to an infinity at \<open>2 ^ 1024\<close>.
  The main results are that rounding is monotone and exact on integers up to \<open>2 ^ 53\<close>, that
  adding or dividing by a fixed value is monotone, and that \<open>clamp\<close> lands in its interval.
\<close>

section \<open>Integer logarithm and rounding to an integer\<close>

function ilog2 :: "int \<Rightarrow> nat" where
  "ilog2 n = (if n < 2 then 0 else Suc (ilog2 (n div 2)))"
  by pat_completeness auto
termination
  by (relation "measure nat") auto

declare ilog2.simps [simp del]

lemma ilog2_bounds: "0 < n \<Longrightarrow> 2 ^ ilog2 n \<le> n \<and> n < 2 ^ Suc (ilog2 n)"
proof (induction n rule: ilog2.induct)
  case (1 n)
  show ?case
  proof (cases "n < 2")
    case True
    with "1.prems" show ?thesis by (simp add: ilog2.simps [of n])
  next
    case False
    with "1.IH" have ih: "2 ^ ilog2 (n div 2) \<le> n div 2" "n div 2 < 2 ^ Suc (ilog2 (n div 2))"
      by auto
    from False have eq: "ilog2 n = Suc (ilog2 (n div 2))"
      by (simp add: ilog2.simps [of n])
    define p :: int where "p = 2 ^ ilog2 (n div 2)"
    from ih have "p \<le> n div 2" "n div 2 < 2 * p" by (simp_all add: p_def)
    then have "2 * p \<le> n" "n < 4 * p" by linarith+
    then show ?thesis unfolding eq by (simp add: p_def)
  qed
qed

definition floor_log2 :: "rat \<Rightarrow> int" where
  "floor_log2 x =
     (if 1 \<le> x then int (ilog2 \<lfloor>x\<rfloor>)
      else (let n = \<lceil>1 / x\<rceil>
            in - int (if 2 ^ ilog2 n = n then ilog2 n else Suc (ilog2 n))))"

definition two_powi :: "int \<Rightarrow> rat" where
  "two_powi e = (if 0 \<le> e then 2 ^ nat e else 1 / 2 ^ nat (- e))"

lemma two_powi_pos [simp]: "0 < two_powi e"
  by (simp add: two_powi_def)

lemma two_powi_nonneg [simp]: "0 \<le> two_powi e"
  by (rule less_imp_le) simp

lemma two_powi_neq0 [simp]: "two_powi e \<noteq> 0"
  using two_powi_pos [of e] by (simp add: less_le)

lemma two_powi_powi: "two_powi e = 2 powi e"
  by (simp add: two_powi_def power_int_def inverse_eq_divide power_one_over)

lemma two_powi_add: "two_powi (a + b) = two_powi a * two_powi b"
  by (simp add: two_powi_powi power_int_add)

lemma two_powi_mono: "a \<le> b \<Longrightarrow> two_powi a \<le> two_powi b"
  by (simp add: two_powi_powi power_int_increasing)

lemma two_powi_le_iff: "two_powi a \<le> two_powi b \<longleftrightarrow> a \<le> b"
  using power_int_strict_increasing [of b a "2 :: rat"] power_int_increasing [of a b "2 :: rat"]
  by (auto simp: two_powi_powi not_le [symmetric])

lemma two_powi_nat: "two_powi (int n) = of_int (2 ^ n)"
  by (simp add: two_powi_def)

lemma two_powi_neg: "two_powi (- int k) = 1 / 2 ^ k"
  by (cases k) (simp_all add: two_powi_def nat_add_distrib)

lemma floor_log2_ge1:
  assumes "1 \<le> x"
  shows "two_powi (floor_log2 x) \<le> x \<and> x < two_powi (floor_log2 x + 1)"
proof -
  define n where "n = \<lfloor>x\<rfloor>"
  from assms have n: "0 < n" by (simp add: n_def)
  from ilog2_bounds [OF n] have lo: "2 ^ ilog2 n \<le> \<lfloor>x\<rfloor>" and hi: "\<lfloor>x\<rfloor> < 2 ^ Suc (ilog2 n)"
    by (simp_all add: n_def)
  from lo have lo': "2 ^ ilog2 n \<le> x" by (simp add: le_floor_iff)
  from hi have hi': "x < 2 ^ Suc (ilog2 n)" by (simp add: floor_less_iff)
  from assms have L: "floor_log2 x = int (ilog2 n)" by (simp add: floor_log2_def n_def)
  have "two_powi (int (ilog2 n) + 1) = 2 ^ Suc (ilog2 n)"
    using two_powi_nat [of "Suc (ilog2 n)"] by (simp add: add.commute)
  then show ?thesis using lo' hi' two_powi_nat [of "ilog2 n"] by (simp add: L)
qed

lemma floor_log2_lt1:
  assumes "0 < x" "x < 1"
  shows "two_powi (floor_log2 x) \<le> x \<and> x < two_powi (floor_log2 x + 1)"
proof -
  define n where "n = \<lceil>1 / x\<rceil>"
  define k where "k = ilog2 n"
  define m where "m = (if 2 ^ k = n then k else Suc k)"
  from assms have gt: "1 < 1 / x" by (simp add: field_simps)
  then have n2: "2 \<le> n" unfolding n_def by (simp add: less_ceiling_iff add1_zle_eq [symmetric])
  have up: "1 / x \<le> of_int n" unfolding n_def by (rule le_of_int_ceiling)
  have low: "of_int n - 1 < 1 / x" unfolding n_def using ceiling_correct [of "1 / x"] by simp
  from n2 have b: "2 ^ k \<le> n" "n < 2 ^ Suc k" using ilog2_bounds [of n] by (auto simp: k_def)
  have mpos: "0 < m" using n2 by (cases k) (auto simp: m_def)
  have le: "n \<le> 2 ^ m" using b by (simp add: m_def)
  have ge: "2 ^ (m - 1) + 1 \<le> n"
  proof (cases "2 ^ k = n")
    case True
    then obtain j where j: "k = Suc j" using mpos by (cases k) (auto simp: m_def)
    have "1 \<le> (2 :: int) ^ j" by simp
    then have "2 ^ j + 1 \<le> (2 :: int) ^ Suc j" by simp
    moreover have "m - 1 = j" using True j by (simp add: m_def)
    ultimately show ?thesis using True j by (simp only:)
  next
    case False
    then show ?thesis using b by (simp add: m_def)
  qed
  have "(of_int n :: rat) \<le> of_int (2 ^ m)" using le by (simp only: of_int_le_iff)
  with up have "1 / x \<le> of_int (2 ^ m)" by (rule order_trans)
  then have lo: "1 / 2 ^ m \<le> x" using assms by (simp add: field_simps)
  have "(of_int (2 ^ (m - 1) + 1) :: rat) \<le> of_int n" using ge by (simp only: of_int_le_iff)
  then have "2 ^ (m - 1) < 1 / x" using low by simp
  then have hi: "x < 1 / 2 ^ (m - 1)" using assms by (simp add: field_simps)
  have L: "floor_log2 x = - int m" using assms by (simp add: floor_log2_def n_def k_def m_def Let_def)
  have "- int m + 1 = - int (m - 1)" using mpos by simp
  then show ?thesis using lo hi unfolding L by (metis two_powi_neg)
qed

lemma floor_log2_bounds:
  assumes "0 < x"
  shows "two_powi (floor_log2 x) \<le> x" and "x < two_powi (floor_log2 x + 1)"
  using floor_log2_ge1 [of x] floor_log2_lt1 [of x] assms by force+

lemma floor_log2_mono:
  assumes "0 < x" "x \<le> y"
  shows "floor_log2 x \<le> floor_log2 y"
proof (rule ccontr)
  assume "\<not> ?thesis"
  then have "two_powi (floor_log2 y + 1) \<le> two_powi (floor_log2 x)" by (simp add: two_powi_mono)
  with floor_log2_bounds(1) [of x] floor_log2_bounds(2) [of y] assms show False by simp
qed

text \<open>Round to the nearest integer, ties to even.\<close>

definition rne :: "rat \<Rightarrow> int" where
  "rne x =
     (let f = \<lfloor>x\<rfloor>; d = x - of_int f
      in if d < 1 / 2 then f else if 1 / 2 < d then f + 1 else if even f then f else f + 1)"

lemma rne_of_int [simp]: "rne (of_int i) = i"
  by (simp add: rne_def)

lemma rne_bounds: "\<lfloor>x\<rfloor> \<le> rne x \<and> rne x \<le> \<lfloor>x\<rfloor> + 1"
  by (simp add: rne_def Let_def)

lemma rne_mono: "x \<le> y \<Longrightarrow> rne x \<le> rne y"
proof -
  assume le: "x \<le> y"
  then have fl: "\<lfloor>x\<rfloor> \<le> \<lfloor>y\<rfloor>" by (rule floor_mono)
  show ?thesis
  proof (cases "\<lfloor>x\<rfloor> = \<lfloor>y\<rfloor>")
    case True
    with le show ?thesis by (auto simp: rne_def Let_def)
  next
    case False
    with fl have "\<lfloor>x\<rfloor> + 1 \<le> \<lfloor>y\<rfloor>" by simp
    with rne_bounds [of x] rne_bounds [of y] show ?thesis by linarith
  qed
qed

section \<open>Rounding to the binary64 grid\<close>

definition grid_exp :: "rat \<Rightarrow> int" where
  "grid_exp x = max (floor_log2 x - 52) (- 1074)"

definition rnd_pos :: "rat \<Rightarrow> rat" where
  "rnd_pos x = of_int (rne (x / two_powi (grid_exp x))) * two_powi (grid_exp x)"

definition rnd :: "rat \<Rightarrow> rat" where
  "rnd x = (if x = 0 then 0 else if 0 < x then rnd_pos x else - rnd_pos (- x))"

lemma rnd_0 [simp]: "rnd 0 = 0" by (simp add: rnd_def)

lemma rnd_minus: "rnd (- x) = - rnd x"
  by (simp add: rnd_def)

lemma rnd_pos_nonneg:
  assumes "0 < x"
  shows "0 \<le> rnd_pos x"
proof -
  have "rne 0 \<le> rne (x / two_powi (grid_exp x))"
    using assms by (intro rne_mono) (simp add: less_imp_le)
  moreover have "rne 0 = 0" using rne_of_int [of 0] by simp
  ultimately show ?thesis by (simp add: rnd_pos_def)
qed

lemma rnd_pos_mono:
  assumes "0 < x" "x \<le> y"
  shows "rnd_pos x \<le> rnd_pos y"
proof (cases "grid_exp x = grid_exp y")
  case True
  have "rne (x / two_powi (grid_exp y)) \<le> rne (y / two_powi (grid_exp y))"
    using assms by (intro rne_mono divide_right_mono) simp_all
  then show ?thesis by (simp add: rnd_pos_def True mult_right_mono)
next
  case False
  have L: "floor_log2 x \<le> floor_log2 y" using assms by (rule floor_log2_mono)
  with False have e: "grid_exp x < grid_exp y" "floor_log2 x < floor_log2 y"
    by (auto simp: grid_exp_def)
  define l where "l = floor_log2 y"
  have ey: "grid_exp y = l - 52" using e L by (auto simp: grid_exp_def l_def)
  have yl: "two_powi l \<le> y" using floor_log2_bounds(1) [of y] assms by (simp add: l_def)
  have "x < two_powi (floor_log2 x + 1)" using floor_log2_bounds(2) assms by blast
  also have "\<dots> \<le> two_powi l" using e by (simp add: l_def two_powi_mono)
  finally have xl: "x \<le> two_powi l" by simp
  have step: "\<And>e. e \<le> l \<Longrightarrow> rne (two_powi l / two_powi e) = 2 ^ nat (l - e)"
  proof -
    fix e :: int
    assume "e \<le> l"
    then have "two_powi l / two_powi e = two_powi (int (nat (l - e)))"
      using two_powi_add [of "l - e" e] by (simp add: field_simps)
    then show "rne (two_powi l / two_powi e) = 2 ^ nat (l - e)"
      by (simp only: two_powi_nat rne_of_int)
  qed
  have unscale: "\<And>e. e \<le> l \<Longrightarrow> of_int (2 ^ nat (l - e)) * two_powi e = two_powi l"
    by (simp add: two_powi_nat [symmetric] two_powi_add [symmetric] del: of_int_power)
  have ex: "grid_exp x \<le> l" using e ey by simp
  have "rne (x / two_powi (grid_exp x)) \<le> 2 ^ nat (l - grid_exp x)"
    unfolding step [OF ex, symmetric] using xl by (intro rne_mono divide_right_mono) simp_all
  then have "rnd_pos x \<le> of_int (2 ^ nat (l - grid_exp x)) * two_powi (grid_exp x)"
    unfolding rnd_pos_def by (intro mult_right_mono) (simp_all only: of_int_le_iff two_powi_nonneg)
  then have A: "rnd_pos x \<le> two_powi l" using unscale [OF ex] by simp
  have ey': "grid_exp y \<le> l" using ey by simp
  have "2 ^ nat (l - grid_exp y) \<le> rne (y / two_powi (grid_exp y))"
    unfolding step [OF ey', symmetric] using yl by (intro rne_mono divide_right_mono) simp_all
  then have "of_int (2 ^ nat (l - grid_exp y)) * two_powi (grid_exp y) \<le> rnd_pos y"
    unfolding rnd_pos_def by (intro mult_right_mono) (simp_all only: of_int_le_iff two_powi_nonneg)
  then have "two_powi l \<le> rnd_pos y" using unscale [OF ey'] by simp
  with A show ?thesis by simp
qed

lemma rnd_mono:
  assumes "x \<le> y"
  shows "rnd x \<le> rnd y"
proof -
  consider "0 < x" | "x \<le> 0" "0 \<le> y" | "y < 0" by linarith
  then show ?thesis
  proof cases
    case 1
    with assms show ?thesis by (simp add: rnd_def rnd_pos_mono)
  next
    case 2
    have "rnd x \<le> 0" using 2(1) rnd_pos_nonneg [of "- x"] by (simp add: rnd_def)
    moreover have "0 \<le> rnd y" using 2(2) rnd_pos_nonneg [of y] by (simp add: rnd_def)
    ultimately show ?thesis by simp
  next
    case 3
    with assms show ?thesis using rnd_pos_mono [of "- y" "- x"] by (simp add: rnd_def)
  qed
qed

text \<open>Rounding is exact on every integer of at most 53 bits.\<close>

lemma rnd_pos_nat:
  assumes "0 < n" "n \<le> 2 ^ 53"
  shows "rnd_pos (of_nat n) = of_nat n"
proof -
  define l where "l = floor_log2 (of_nat n)"
  have x: "(0 :: rat) < of_nat n" using assms by simp
  have "two_powi l \<le> of_nat n" using floor_log2_bounds(1) [OF x] by (simp add: l_def)
  also have "(of_nat n :: rat) \<le> of_nat (2 ^ 53)" using assms(2) by (simp only: of_nat_le_iff)
  also have "\<dots> = two_powi 53" by (simp add: two_powi_def)
  finally have "l \<le> 53" by (simp add: two_powi_le_iff)
  show ?thesis
  proof (cases "grid_exp (of_nat n) \<le> 0")
    case True
    define e where "e = nat (- grid_exp (of_nat n))"
    have ge: "grid_exp (of_nat n) = - int e" using True by (simp add: e_def)
    have "of_nat n / two_powi (- int e) = of_int (int n * 2 ^ e)"
      by (simp add: two_powi_neg)
    then have "rne (of_nat n / two_powi (- int e)) = int n * 2 ^ e" by (simp only: rne_of_int)
    then show ?thesis by (simp add: rnd_pos_def ge two_powi_neg)
  next
    case False
    with \<open>l \<le> 53\<close> have l: "l = 53" and g: "grid_exp (of_nat n) = 1" by (auto simp: grid_exp_def l_def)
    have "two_powi 53 \<le> of_nat n" using \<open>two_powi l \<le> of_nat n\<close> l by simp
    then have "(of_nat (2 ^ 53) :: rat) \<le> of_nat n" by (simp add: two_powi_def)
    then have n53: "n = 2 ^ 53" using assms(2) by (simp only: of_nat_le_iff)
    then have "(of_nat n :: rat) / two_powi 1 = of_int (2 ^ 52)" by (simp add: two_powi_def)
    then have "rne (of_nat n / two_powi 1) = 2 ^ 52" by (simp only: rne_of_int)
    then have "rnd_pos (of_nat n) = of_int (2 ^ 52) * two_powi 1" by (simp only: rnd_pos_def g)
    also have "\<dots> = of_nat n" by (simp add: n53 two_powi_def)
    finally show ?thesis .
  qed
qed

lemma rnd_of_nat: "n \<le> 2 ^ 53 \<Longrightarrow> rnd (of_nat n) = of_nat n"
  by (cases "n = 0") (simp_all add: rnd_def rnd_pos_nat)

lemma rnd_1 [simp]: "rnd 1 = 1"
  using rnd_of_nat [of 1] by simp

lemma rnd_nonneg: "0 \<le> x \<Longrightarrow> 0 \<le> rnd x"
  using rnd_mono [of 0 x] by simp

lemma rnd_le1: "x \<le> 1 \<Longrightarrow> rnd x \<le> 1"
  using rnd_mono [of x 1] by simp

text \<open>The rounding of a value near a grid point of its binade, for concrete values.\<close>

lemma floor_log2_eqI:
  assumes "two_powi e \<le> x" "x < two_powi (e + 1)"
  shows "floor_log2 x = e"
proof -
  have "0 < x" using assms(1) two_powi_pos [of e] by linarith
  from floor_log2_bounds [OF this] have b: "two_powi (floor_log2 x) \<le> x" "x < two_powi (floor_log2 x + 1)" by auto
  have "two_powi e < two_powi (floor_log2 x + 1)" "two_powi (floor_log2 x) < two_powi (e + 1)"
    using assms b by linarith+
  then have "\<not> floor_log2 x + 1 \<le> e" "\<not> e + 1 \<le> floor_log2 x"
    by (simp_all add: two_powi_le_iff [symmetric] not_le)
  then show ?thesis by linarith
qed

lemma rne_near: "\<bar>x - of_int m\<bar> < 1 / 2 \<Longrightarrow> rne x = m"
proof -
  assume a: "\<bar>x - of_int m\<bar> < 1 / 2"
  show ?thesis
  proof (cases "of_int m \<le> x")
    case True
    with a have "\<lfloor>x\<rfloor> = m" by (intro floor_unique) (simp_all add: abs_if)
    with a True show ?thesis by (simp add: rne_def)
  next
    case False
    with a have "of_int (m - 1) \<le> x" "x < of_int (m - 1) + 1" by (simp_all add: abs_if)
    then have "\<lfloor>x\<rfloor> = m - 1" by (rule floor_unique)
    with a False show ?thesis by (simp add: rne_def)
  qed
qed

lemma rnd_near:
  assumes "two_powi (e + 52) \<le> x" "x < two_powi (e + 53)" "- 1074 \<le> e"
    and "\<bar>x / two_powi e - of_int m\<bar> < 1 / 2"
  shows "rnd x = of_int m * two_powi e"
proof -
  have "0 < x" using assms(1) two_powi_pos [of "e + 52"] by linarith
  moreover have "floor_log2 x = e + 52" using assms(1,2) by (intro floor_log2_eqI) (simp_all add: add.assoc)
  ultimately show ?thesis
    using assms(3) rne_near [OF assms(4)] by (simp add: rnd_def rnd_pos_def grid_exp_def)
qed

section \<open>The type and its comparisons\<close>

datatype f64 = Fin rat | PInf | NInf | NaN

datatype ordering = Less | Eql | Greater

definition is_nan :: "f64 \<Rightarrow> bool" where
  "is_nan a \<longleftrightarrow> a = NaN"

fun is_finite :: "f64 \<Rightarrow> bool" where
  "is_finite (Fin _) = True"
| "is_finite _ = False"

text \<open>\<open><\<close>, \<open><=\<close> and \<open>==\<close>: false as soon as one side is NaN.\<close>

fun flt :: "f64 \<Rightarrow> f64 \<Rightarrow> bool" where
  "flt (Fin x) (Fin y) = (x < y)"
| "flt (Fin _) PInf = True"
| "flt NInf (Fin _) = True"
| "flt NInf PInf = True"
| "flt _ _ = False"

fun feq :: "f64 \<Rightarrow> f64 \<Rightarrow> bool" where
  "feq (Fin x) (Fin y) = (x = y)"
| "feq PInf PInf = True"
| "feq NInf NInf = True"
| "feq _ _ = False"

definition fle :: "f64 \<Rightarrow> f64 \<Rightarrow> bool" where
  "fle a b \<longleftrightarrow> flt a b \<or> feq a b"

text \<open>\<open>a.partial_cmp(&b).unwrap_or(Ordering::Equal)\<close>.\<close>

definition fcmp :: "f64 \<Rightarrow> f64 \<Rightarrow> ordering" where
  "fcmp a b = (if flt a b then Less else if flt b a then Greater else Eql)"

lemma feq_eq: "feq a b \<longleftrightarrow> a = b \<and> a \<noteq> NaN"
  by (cases a; cases b) auto

lemma fle_refl: "a \<noteq> NaN \<Longrightarrow> fle a a"
  by (simp add: fle_def feq_eq)

lemma fle_trans: "fle a b \<Longrightarrow> fle b c \<Longrightarrow> fle a c"
  by (cases a; cases b; cases c) (auto simp: fle_def)

lemma fle_antisym: "fle a b \<Longrightarrow> fle b a \<Longrightarrow> a = b"
  by (cases a; cases b) (auto simp: fle_def)

lemma fle_total: "a \<noteq> NaN \<Longrightarrow> b \<noteq> NaN \<Longrightarrow> fle a b \<or> fle b a"
  by (cases a; cases b) (auto simp: fle_def)

lemma fle_not_nan: "fle a b \<Longrightarrow> a \<noteq> NaN \<and> b \<noteq> NaN"
  by (cases a; cases b) (auto simp: fle_def)

lemma flt_not_nan: "flt a b \<Longrightarrow> a \<noteq> NaN \<and> b \<noteq> NaN"
  by (cases a; cases b) auto

lemma flt_irrefl [simp]: "\<not> flt a a"
  by (cases a) auto

lemma flt_trans: "flt a b \<Longrightarrow> flt b c \<Longrightarrow> flt a c"
  by (cases a; cases b; cases c) auto

lemma flt_fle_trans: "flt a b \<Longrightarrow> fle b c \<Longrightarrow> flt a c"
  by (cases a; cases b; cases c) (auto simp: fle_def)

lemma fle_flt_trans: "fle a b \<Longrightarrow> flt b c \<Longrightarrow> flt a c"
  by (cases a; cases b; cases c) (auto simp: fle_def)

lemma flt_imp_fle: "flt a b \<Longrightarrow> fle a b"
  by (simp add: fle_def)

lemma not_flt_fle: "a \<noteq> NaN \<Longrightarrow> b \<noteq> NaN \<Longrightarrow> (\<not> flt a b) = fle b a"
  by (cases a; cases b) (auto simp: fle_def)

lemma fle_Fin [simp]: "fle (Fin x) (Fin y) \<longleftrightarrow> x \<le> y"
  by (auto simp: fle_def)

section \<open>Arithmetic\<close>

text \<open>\<open>f64::total_cmp\<close>\<close>

fun frank :: "f64 \<Rightarrow> int" where
  "frank NInf = 0"
| "frank (Fin _) = 1"
| "frank PInf = 2"
| "frank NaN = 3"

definition ftotal_cmp :: "f64 \<Rightarrow> f64 \<Rightarrow> ordering" where
  "ftotal_cmp a b =
     (if frank a < frank b \<or> flt a b then Less else if frank b < frank a \<or> flt b a then Greater else Eql)"

lemma ftotal_not_greater: "ftotal_cmp a b \<noteq> Greater \<longleftrightarrow> fle a b \<or> b = NaN"
  by (cases a; cases b) (auto simp: ftotal_cmp_def fle_def)

definition f64_of_rat :: "rat \<Rightarrow> f64" where
  "f64_of_rat x =
     (let r = rnd x in if 2 ^ 1024 \<le> r then PInf else if r \<le> - (2 ^ 1024) then NInf else Fin r)"

definition f64_of_int :: "int \<Rightarrow> f64" where
  "f64_of_int i = f64_of_rat (of_int i)"

fun fneg :: "f64 \<Rightarrow> f64" where
  "fneg (Fin x) = Fin (- x)"
| "fneg PInf = NInf"
| "fneg NInf = PInf"
| "fneg NaN = NaN"

fun fabs :: "f64 \<Rightarrow> f64" where
  "fabs (Fin x) = Fin \<bar>x\<bar>"
| "fabs NInf = PInf"
| "fabs a = a"

fun fadd :: "f64 \<Rightarrow> f64 \<Rightarrow> f64" where
  "fadd (Fin x) (Fin y) = f64_of_rat (x + y)"
| "fadd NaN _ = NaN"
| "fadd _ NaN = NaN"
| "fadd PInf NInf = NaN"
| "fadd NInf PInf = NaN"
| "fadd PInf _ = PInf"
| "fadd _ PInf = PInf"
| "fadd NInf _ = NInf"
| "fadd _ NInf = NInf"

definition fsub :: "f64 \<Rightarrow> f64 \<Rightarrow> f64" where
  "fsub a b = fadd a (fneg b)"

definition inf_of_sign :: "rat \<Rightarrow> f64" where
  "inf_of_sign s = (if s = 0 then NaN else if 0 < s then PInf else NInf)"

fun fsgn :: "f64 \<Rightarrow> rat" where
  "fsgn (Fin x) = sgn x"
| "fsgn PInf = 1"
| "fsgn NInf = - 1"
| "fsgn NaN = 0"

definition fmul :: "f64 \<Rightarrow> f64 \<Rightarrow> f64" where
  "fmul a b =
     (case (a, b) of
        (Fin x, Fin y) \<Rightarrow> f64_of_rat (x * y)
      | (NaN, _) \<Rightarrow> NaN
      | (_, NaN) \<Rightarrow> NaN
      | _ \<Rightarrow> inf_of_sign (fsgn a * fsgn b))"

text \<open>Division by a zero takes the zero as positive: every zero the program divides by is an
  integer converted to \<open>f64\<close>.\<close>

definition fdiv :: "f64 \<Rightarrow> f64 \<Rightarrow> f64" where
  "fdiv a b =
     (case (a, b) of
        (Fin x, Fin y) \<Rightarrow> if y = 0 then inf_of_sign (sgn x) else f64_of_rat (x / y)
      | (NaN, _) \<Rightarrow> NaN
      | (_, NaN) \<Rightarrow> NaN
      | (Fin _, _) \<Rightarrow> Fin 0
      | (_, Fin y) \<Rightarrow> inf_of_sign (fsgn a * (if y = 0 then 1 else sgn y))
      | _ \<Rightarrow> NaN)"

text \<open>\<open>f64::min\<close>, \<open>f64::max\<close> (a NaN argument loses) and \<open>f64::clamp\<close>.\<close>

definition fmin :: "f64 \<Rightarrow> f64 \<Rightarrow> f64" where
  "fmin a b = (if is_nan a then b else if is_nan b then a else if flt b a then b else a)"

definition fmax :: "f64 \<Rightarrow> f64 \<Rightarrow> f64" where
  "fmax a b = (if is_nan a then b else if is_nan b then a else if flt a b then b else a)"

definition fclamp :: "f64 \<Rightarrow> f64 \<Rightarrow> f64 \<Rightarrow> f64" where
  "fclamp a lo hi = (if flt a lo then lo else if flt hi a then hi else a)"

text \<open>\<open>f64::floor\<close>, \<open>f64::round\<close> (half away from zero) and \<open>as i32\<close> (saturating, NaN to 0).\<close>

fun ffloor :: "f64 \<Rightarrow> f64" where
  "ffloor (Fin x) = Fin (of_int \<lfloor>x\<rfloor>)"
| "ffloor a = a"

fun fround :: "f64 \<Rightarrow> f64" where
  "fround (Fin x) = Fin (if 0 \<le> x then of_int \<lfloor>x + 1 / 2\<rfloor> else of_int \<lceil>x - 1 / 2\<rceil>)"
| "fround a = a"

fun f64_as_i32 :: "f64 \<Rightarrow> int" where
  "f64_as_i32 (Fin x) =
     max (- (2 ^ 31)) (min (2 ^ 31 - 1) (if 0 \<le> x then \<lfloor>x\<rfloor> else \<lceil>x\<rceil>))"
| "f64_as_i32 PInf = 2 ^ 31 - 1"
| "f64_as_i32 NInf = - (2 ^ 31)"
| "f64_as_i32 NaN = 0"

text \<open>
  \<open>f64::sqrt\<close>, correctly rounded: the integer square root of the argument scaled by an even
  power of two, with one extra low bit telling whether the root was exact, is rounded once.
\<close>

function isqrt :: "int \<Rightarrow> int" where
  "isqrt n =
     (if n \<le> 0 then 0
      else (let r = 2 * isqrt (n div 4) in if (r + 1) * (r + 1) \<le> n then r + 1 else r))"
  by pat_completeness auto
termination
  by (relation "measure nat") auto

declare isqrt.simps [simp del]

definition sqrt_scaled :: "rat \<Rightarrow> rat" where
  "sqrt_scaled x =
     (let s = nat (60 - floor_log2 x div 2); y = x * of_int (4 ^ s); r = isqrt \<lfloor>y\<rfloor>
      in of_int (2 * r + (if of_int (r * r) = y then 0 else 1)) / of_int (2 * 2 ^ s))"

fun fsqrt :: "f64 \<Rightarrow> f64" where
  "fsqrt (Fin x) = (if x < 0 then NaN else if x = 0 then Fin 0 else f64_of_rat (sqrt_scaled x))"
| "fsqrt PInf = PInf"
| "fsqrt NInf = NaN"
| "fsqrt NaN = NaN"

definition EPSILON :: f64 where
  "EPSILON = Fin (1 / 2 ^ 52)"

section \<open>Laws\<close>

lemma f64_of_rat_not_nan [simp]: "f64_of_rat x \<noteq> NaN"
  by (simp add: f64_of_rat_def Let_def)

lemma f64_of_rat_mono: "x \<le> y \<Longrightarrow> fle (f64_of_rat x) (f64_of_rat y)"
  using rnd_mono [of x y] by (simp add: f64_of_rat_def Let_def fle_def) linarith

lemma f64_of_nat: "n \<le> 2 ^ 53 \<Longrightarrow> f64_of_rat (of_nat n) = Fin (of_nat n)"
proof -
  assume n: "n \<le> 2 ^ 53"
  then have "(of_nat n :: rat) \<le> of_nat (2 ^ 53)" by (simp only: of_nat_le_iff)
  also have "\<dots> < 2 ^ 1024" by simp
  finally have "(of_nat n :: rat) < 2 ^ 1024" .
  moreover have "- (2 ^ 1024) < (of_nat n :: rat)"
    by (rule less_le_trans [of _ 0]) simp_all
  ultimately show ?thesis by (simp add: f64_of_rat_def rnd_of_nat [OF n] Let_def not_le)
qed

lemma f64_of_rat_0 [simp]: "f64_of_rat 0 = Fin 0" and f64_of_rat_1 [simp]: "f64_of_rat 1 = Fin 1"
  using f64_of_nat [of 0] f64_of_nat [of 1] by simp_all

lemma f64_of_rat_nonneg: "0 \<le> x \<Longrightarrow> fle (Fin 0) (f64_of_rat x)"
  using f64_of_rat_mono [of 0 x] by simp

lemma f64_of_rat_unit: "0 \<le> x \<Longrightarrow> x \<le> 1 \<Longrightarrow> \<exists>r. f64_of_rat x = Fin r \<and> 0 \<le> r \<and> r \<le> 1"
  using f64_of_rat_mono [of 0 x] f64_of_rat_mono [of x 1]
  by (cases "f64_of_rat x") (auto simp: fle_def)

lemma f64_of_rat_upto:
  assumes "0 \<le> x" "x \<le> of_nat n" "n \<le> 2 ^ 53"
  shows "\<exists>r. f64_of_rat x = Fin r \<and> 0 \<le> r \<and> r \<le> of_nat n"
proof -
  have "fle (f64_of_rat x) (Fin (of_nat n))"
    using f64_of_rat_mono [OF assms(2)] f64_of_nat [OF assms(3)] by simp
  moreover have "fle (Fin 0) (f64_of_rat x)" using assms(1) by (rule f64_of_rat_nonneg)
  ultimately show ?thesis by (cases "f64_of_rat x") (auto simp: fle_def)
qed

lemma fadd_mono:
  assumes "fle a b" "fadd a c \<noteq> NaN" "fadd b c \<noteq> NaN"
  shows "fle (fadd a c) (fadd b c)"
  using assms by (cases a; cases b; cases c) (auto simp: f64_of_rat_mono fle_refl, auto simp: fle_def f64_of_rat_def Let_def)

lemma fmax_ge: "a \<noteq> NaN \<Longrightarrow> b \<noteq> NaN \<Longrightarrow> fle a (fmax a b) \<and> fle b (fmax a b)"
  by (cases a; cases b) (auto simp: fmax_def is_nan_def fle_def)

lemma fmin_le: "a \<noteq> NaN \<Longrightarrow> b \<noteq> NaN \<Longrightarrow> fle (fmin a b) a \<and> fle (fmin a b) b"
  by (cases a; cases b) (auto simp: fmin_def is_nan_def fle_def)

lemma fclamp_bounds:
  assumes "a \<noteq> NaN" "fle lo hi"
  shows "fle lo (fclamp a lo hi) \<and> fle (fclamp a lo hi) hi"
  using assms fle_not_nan [OF assms(2)]
  by (auto simp: fclamp_def fle_refl not_flt_fle flt_imp_fle)

lemma fclamp_unit: "a \<noteq> NaN \<Longrightarrow> \<exists>r. fclamp a (Fin 0) (Fin 1) = Fin r \<and> 0 \<le> r \<and> r \<le> 1"
  by (cases a) (auto simp: fclamp_def)

lemma f64_as_i32_range: "- (2 ^ 31) \<le> f64_as_i32 a \<and> f64_as_i32 a < 2 ^ 31"
  by (cases a) auto

lemma less_mult_succ_div: "n < 4 * (n div 4 + 1)" for n :: int
proof -
  have m: "n mod 4 < 4" by simp
  have "n = 4 * (n div 4) + n mod 4" by (rule mult_div_mod_eq [symmetric])
  also from m have "\<dots> < 4 * (n div 4) + 4" by (rule add_strict_left_mono)
  finally show ?thesis by (simp only: distrib_left mult_1_right)
qed

lemma isqrt_bounds: "0 \<le> n \<Longrightarrow> 0 \<le> isqrt n \<and> isqrt n * isqrt n \<le> n \<and> n < (isqrt n + 1) * (isqrt n + 1)"
proof (induction n rule: isqrt.induct)
  case (1 n)
  show ?case
  proof (cases "n \<le> 0")
    case True
    with "1.prems" show ?thesis by (simp add: isqrt.simps)
  next
    case False
    define s where "s = isqrt (n div 4)"
    from "1.IH" False have ih: "0 \<le> s" "s * s \<le> n div 4" "n div 4 < (s + 1) * (s + 1)"
      by (auto simp: s_def)
    from ih(2) have lo: "(2 * s) * (2 * s) \<le> n" by simp
    have "n div 4 + 1 \<le> (s + 1) * (s + 1)" using ih(3) by simp
    then have "4 * (n div 4 + 1) \<le> 4 * ((s + 1) * (s + 1))" by simp
    moreover have "n < 4 * (n div 4 + 1)"
      by (rule less_mult_succ_div)
    moreover have "4 * ((s + 1) * (s + 1)) = (2 * s + 1 + 1) * (2 * s + 1 + 1)"
      by (simp add: algebra_simps)
    ultimately have hi: "n < (2 * s + 1 + 1) * (2 * s + 1 + 1)" by linarith
    have eq: "isqrt n = (if (2 * s + 1) * (2 * s + 1) \<le> n then 2 * s + 1 else 2 * s)"
      using False by (subst isqrt.simps) (simp add: s_def Let_def)
    show ?thesis unfolding eq using lo hi ih(1) by (simp add: not_le)
  qed
qed

lemma sqrt_scaled_nonneg: "0 \<le> x \<Longrightarrow> 0 \<le> sqrt_scaled x"
  using isqrt_bounds [of "\<lfloor>x * of_int (4 ^ nat (60 - floor_log2 x div 2))\<rfloor>"]
  by (auto simp: sqrt_scaled_def Let_def simp del: of_int_power of_int_mult of_int_add)

lemma fsqrt_nonneg: "fsqrt a \<noteq> NaN \<Longrightarrow> fle (Fin 0) (fsqrt a)"
proof (cases a)
  case (Fin x)
  assume "fsqrt a \<noteq> NaN"
  with Fin show ?thesis using f64_of_rat_nonneg [OF sqrt_scaled_nonneg, of x] by auto
qed (auto simp: fle_def)

end
