(* ===== verification/Prelude.thy ===== *)
theory Prelude
  imports F64 "HOL-Library.Word" "HOL-Library.AList" "HOL-Library.Sublist" "HOL-Library.Multiset"
begin

text \<open>
  What the components share: the integer types, strings as lists of UTF-8 bytes with the string
  operations of Rust's standard library the program uses, JSON values, hash maps as association
  lists (the order of the list is the iteration order, on which no theorem depends unless it
  says so), the \<open>?\<close> operator, stable sorting by a comparator, and the collections of lemmas
  the component theories extend.
\<close>

named_theorems model_defs \<open>definitions unfolded when a model is evaluated\<close>

type_synonym u8 = "8 word"
type_synonym u64 = "64 word"

type_synonym 'v hmap = "(string \<times> 'v) list"

datatype json =
    JNull
  | JBool bool
  | JInt int
  | JFloat f64
  | JStr string
  | JArr "json list"
  | JObj "(string \<times> json) list"

section \<open>The question-mark operator\<close>

definition rbind :: "'e + 'a \<Rightarrow> ('a \<Rightarrow> 'e + 'b) \<Rightarrow> 'e + 'b" where
  "rbind r f = (case r of Inl e \<Rightarrow> Inl e | Inr a \<Rightarrow> f a)"

lemma rbind_simps [simp]: "rbind (Inl e) f = Inl e" "rbind (Inr a) f = f a"
  by (simp_all add: rbind_def)

lemma rbind_eq_Inr: "rbind r f = Inr b \<longleftrightarrow> (\<exists>a. r = Inr a \<and> f a = Inr b)"
  by (cases r) auto

lemma rbind_eq_Inl: "rbind r f = Inl e \<longleftrightarrow> r = Inl e \<or> (\<exists>a. r = Inr a \<and> f a = Inl e)"
  by (cases r) auto

definition map_err :: "('e \<Rightarrow> 'f) \<Rightarrow> 'e + 'a \<Rightarrow> 'f + 'a" where
  "map_err f r = (case r of Inl e \<Rightarrow> Inl (f e) | Inr a \<Rightarrow> Inr a)"

lemma map_err_simps [simp]: "map_err f (Inl e) = Inl (f e)" "map_err f (Inr a) = Inr a"
  by (simp_all add: map_err_def)

section \<open>Strings\<close>

definition ascii_lower_char :: "char \<Rightarrow> char" where
  "ascii_lower_char c =
     (let n = of_char c :: nat in if 65 \<le> n \<and> n \<le> 90 then char_of (n + 32) else c)"

definition ascii_upper_char :: "char \<Rightarrow> char" where
  "ascii_upper_char c =
     (let n = of_char c :: nat in if 97 \<le> n \<and> n \<le> 122 then char_of (n - 32) else c)"

definition to_ascii_lowercase :: "string \<Rightarrow> string" where
  "to_ascii_lowercase = List.map ascii_lower_char"

definition to_ascii_uppercase :: "string \<Rightarrow> string" where
  "to_ascii_uppercase = List.map ascii_upper_char"

definition is_ascii_alphabetic :: "char \<Rightarrow> bool" where
  "is_ascii_alphabetic c =
     (let n = of_char c :: nat in (65 \<le> n \<and> n \<le> 90) \<or> (97 \<le> n \<and> n \<le> 122))"

text \<open>The UTF-8 encodings of the Unicode \<open>White_Space\<close> characters, which \<open>str::trim\<close> removes.\<close>

definition ws_codes :: "string list" where
  "ws_codes =
     [[CHR 0x20], [CHR 0x09], [CHR 0x0A], [CHR 0x0B], [CHR 0x0C], [CHR 0x0D],
      [CHR 0xC2, CHR 0x85], [CHR 0xC2, CHR 0xA0], [CHR 0xE1, CHR 0x9A, CHR 0x80],
      [CHR 0xE2, CHR 0x80, CHR 0x80], [CHR 0xE2, CHR 0x80, CHR 0x81],
      [CHR 0xE2, CHR 0x80, CHR 0x82], [CHR 0xE2, CHR 0x80, CHR 0x83],
      [CHR 0xE2, CHR 0x80, CHR 0x84], [CHR 0xE2, CHR 0x80, CHR 0x85],
      [CHR 0xE2, CHR 0x80, CHR 0x86], [CHR 0xE2, CHR 0x80, CHR 0x87],
      [CHR 0xE2, CHR 0x80, CHR 0x88], [CHR 0xE2, CHR 0x80, CHR 0x89],
      [CHR 0xE2, CHR 0x80, CHR 0x8A], [CHR 0xE2, CHR 0x80, CHR 0xA8],
      [CHR 0xE2, CHR 0x80, CHR 0xA9], [CHR 0xE2, CHR 0x80, CHR 0xAF],
      [CHR 0xE2, CHR 0x81, CHR 0x9F], [CHR 0xE3, CHR 0x80, CHR 0x80]]"

function strip_codes :: "string list \<Rightarrow> string \<Rightarrow> string" where
  "strip_codes ws s =
     (case find (\<lambda>w. w \<noteq> [] \<and> prefix w s) ws of
        None \<Rightarrow> s
      | Some w \<Rightarrow> strip_codes ws (drop (length w) s))"
  by pat_completeness auto
termination
  by (relation "measure (\<lambda>(ws, s). length s)")
    (auto simp: find_Some_iff prefix_def)

declare strip_codes.simps [simp del]

definition trim :: "string \<Rightarrow> string" where
  "trim s = rev (strip_codes (map rev ws_codes) (rev (strip_codes ws_codes s)))"

fun split_on :: "char \<Rightarrow> string \<Rightarrow> string list" where
  "split_on c [] = [[]]"
| "split_on c (x # xs) =
     (if x = c then [] # split_on c xs
      else (case split_on c xs of [] \<Rightarrow> [[x]] | w # ws \<Rightarrow> (x # w) # ws))"

text \<open>\<open>[..].join(sep)\<close> and \<open>str::contains\<close>.\<close>

fun join_with :: "string \<Rightarrow> string list \<Rightarrow> string" where
  "join_with sep [] = []"
| "join_with sep [s] = s"
| "join_with sep (s # t # ts) = s @ sep @ join_with sep (t # ts)"

definition str_contains :: "string \<Rightarrow> string \<Rightarrow> bool" where
  "str_contains s pat = sublist pat s"

lemma split_on_join: "join_with [c] (split_on c s) = s"
proof (induction s)
  case (Cons x s)
  show ?case
  proof (cases "split_on c s")
    case Nil
    have "split_on c s \<noteq> []" by (cases s) (auto split: list.splits)
    with Nil show ?thesis by simp
  next
    case C: (Cons w ws)
    with Cons show ?thesis by (cases ws) auto
  qed
qed simp

section \<open>Hash maps in iteration order\<close>

definition hm_insert :: "'k \<Rightarrow> 'v \<Rightarrow> ('k \<times> 'v) list \<Rightarrow> ('k \<times> 'v) list" where
  "hm_insert = AList.update"

definition hm_remove :: "'k \<Rightarrow> ('k \<times> 'v) list \<Rightarrow> ('k \<times> 'v) list" where
  "hm_remove = AList.delete"

abbreviation hm_ok :: "('k \<times> 'v) list \<Rightarrow> bool" where
  "hm_ok m \<equiv> distinct (map fst m)"

lemma map_of_hm_insert [simp]: "map_of (hm_insert k v m) = (map_of m)(k \<mapsto> v)"
  by (simp add: hm_insert_def update_conv')

lemma map_of_hm_remove [simp]: "map_of (hm_remove k m) = (map_of m)(k := None)"
  by (simp add: hm_remove_def delete_conv')

lemma hm_ok_insert [simp]: "hm_ok m \<Longrightarrow> hm_ok (hm_insert k v m)"
  by (simp add: hm_insert_def distinct_update)

lemma hm_ok_remove [simp]: "hm_ok m \<Longrightarrow> hm_ok (hm_remove k m)"
  by (simp add: hm_remove_def distinct_delete)

lemma keys_hm_insert [simp]: "fst ` set (hm_insert k v m) = insert k (fst ` set m)"
  by (simp add: hm_insert_def dom_update)

lemma keys_hm_remove [simp]: "fst ` set (hm_remove k m) = fst ` set m - {k}"
  by (auto simp: hm_remove_def AList.delete_eq)

lemma hm_length_insert:
  "length (hm_insert k v m) = (if k \<in> fst ` set m then length m else Suc (length m))"
  by (induction m) (auto simp: hm_insert_def)

lemma hm_length_remove_le: "length (hm_remove k m) \<le> length m"
  by (simp add: hm_remove_def length_delete_le)

lemma hm_length_remove:
  assumes "k \<in> fst ` set m"
  shows "length (hm_remove k m) < length m"
  using assms by (auto simp: hm_remove_def AList.delete_eq intro!: length_filter_less)

section \<open>Stable sorting by a comparator\<close>

fun insert_by :: "('a \<Rightarrow> 'a \<Rightarrow> ordering) \<Rightarrow> 'a \<Rightarrow> 'a list \<Rightarrow> 'a list" where
  "insert_by c x [] = [x]"
| "insert_by c x (y # ys) = (if c x y = Greater then y # insert_by c x ys else x # y # ys)"

definition sort_by :: "('a \<Rightarrow> 'a \<Rightarrow> ordering) \<Rightarrow> 'a list \<Rightarrow> 'a list" where
  "sort_by c xs = foldr (insert_by c) xs []"

lemma mset_insert_by: "mset (insert_by c x ys) = add_mset x (mset ys)"
  by (induction ys) auto

lemma mset_sort_by [simp]: "mset (sort_by c xs) = mset xs"
  by (induction xs) (simp_all add: sort_by_def mset_insert_by)

lemma set_sort_by [simp]: "set (sort_by c xs) = set xs"
  by (metis mset_sort_by set_mset_mset)

lemma length_sort_by [simp]: "length (sort_by c xs) = length xs"
  by (metis mset_sort_by size_mset)

definition total_cmp_on :: "'a set \<Rightarrow> ('a \<Rightarrow> 'a \<Rightarrow> ordering) \<Rightarrow> bool" where
  "total_cmp_on A c \<longleftrightarrow>
     (\<forall>x\<in>A. \<forall>y\<in>A. c x y = Greater \<longrightarrow> c y x \<noteq> Greater) \<and>
     (\<forall>x\<in>A. \<forall>y\<in>A. \<forall>z\<in>A. c x y \<noteq> Greater \<longrightarrow> c y z \<noteq> Greater \<longrightarrow> c x z \<noteq> Greater)"

lemma total_cmp_on_subset: "total_cmp_on A c \<Longrightarrow> B \<subseteq> A \<Longrightarrow> total_cmp_on B c"
  unfolding total_cmp_on_def by (meson subsetD)

lemma total_cmp_on_asym:
  "total_cmp_on A c \<Longrightarrow> x \<in> A \<Longrightarrow> y \<in> A \<Longrightarrow> c x y = Greater \<Longrightarrow> c y x \<noteq> Greater"
  unfolding total_cmp_on_def by meson

lemma total_cmp_on_trans:
  "total_cmp_on A c \<Longrightarrow> x \<in> A \<Longrightarrow> y \<in> A \<Longrightarrow> z \<in> A \<Longrightarrow> c x y \<noteq> Greater \<Longrightarrow> c y z \<noteq> Greater \<Longrightarrow>
     c x z \<noteq> Greater"
  unfolding total_cmp_on_def by meson

lemma sorted_insert_by:
  assumes "total_cmp_on (insert x (set ys)) c" "sorted_wrt (\<lambda>a b. c a b \<noteq> Greater) ys"
  shows "sorted_wrt (\<lambda>a b. c a b \<noteq> Greater) (insert_by c x ys)"
  using assms
proof (induction ys)
  case (Cons y ys)
  have sub: "total_cmp_on (insert x (set ys)) c"
    using Cons.prems(1) by (rule total_cmp_on_subset) auto
  have set_eq: "set (insert_by c x ys) = insert x (set ys)"
    using mset_insert_by [of c x ys] by (metis set_mset_add_mset_insert set_mset_mset)
  show ?case
  proof (cases "c x y = Greater")
    case True
    then have "c y x \<noteq> Greater" by (intro total_cmp_on_asym [OF Cons.prems(1)]) simp_all
    with True Cons.IH [OF sub] Cons.prems(2) show ?thesis by (auto simp: set_eq)
  next
    case False
    have "\<And>z. z \<in> set ys \<Longrightarrow> c x z \<noteq> Greater"
    proof -
      fix z
      assume z: "z \<in> set ys"
      with Cons.prems(2) have "c y z \<noteq> Greater" by auto
      with False z show "c x z \<noteq> Greater"
        by (intro total_cmp_on_trans [OF Cons.prems(1), of x y z]) simp_all
    qed
    with False Cons.prems(2) show ?thesis by auto
  qed
qed simp

lemma sorted_sort_by:
  assumes "total_cmp_on (set xs) c"
  shows "sorted_wrt (\<lambda>a b. c a b \<noteq> Greater) (sort_by c xs)"
  using assms
proof (induction xs)
  case (Cons x xs)
  have "total_cmp_on (set xs) c" using Cons.prems by (rule total_cmp_on_subset) auto
  with Cons.IH have "sorted_wrt (\<lambda>a b. c a b \<noteq> Greater) (sort_by c xs)" .
  moreover have "total_cmp_on (insert x (set (sort_by c xs))) c" using Cons.prems by simp
  ultimately show ?case using sorted_insert_by [of x "sort_by c xs" c] by (simp add: sort_by_def)
qed (simp add: sort_by_def)

lemma total_cmp_by_ftotal: "total_cmp_on A (\<lambda>x y. ftotal_cmp (k x) (k y))"
  unfolding total_cmp_on_def
proof (intro conjI ballI impI)
  fix x y
  assume "ftotal_cmp (k x) (k y) = Greater"
  then have "\<not> (fle (k x) (k y) \<or> k y = NaN)" using ftotal_not_greater [of "k x" "k y"] by simp
  then have "fle (k y) (k x) \<or> k x = NaN" using fle_total [of "k x" "k y"] by blast
  then show "ftotal_cmp (k y) (k x) \<noteq> Greater" by (simp only: ftotal_not_greater)
next
  fix x y z
  assume "ftotal_cmp (k x) (k y) \<noteq> Greater" "ftotal_cmp (k y) (k z) \<noteq> Greater"
  then show "ftotal_cmp (k x) (k z) \<noteq> Greater" unfolding ftotal_not_greater using fle_trans fle_not_nan by blast
qed

section \<open>Association lists by entry\<close>

text \<open>\<open>entry(k).or_insert(d)\<close>, then an update of the entry.\<close>

definition hm_entry :: "'k \<Rightarrow> 'v \<Rightarrow> ('v \<Rightarrow> 'v) \<Rightarrow> ('k \<times> 'v) list \<Rightarrow> ('k \<times> 'v) list" where
  "hm_entry k d f m = hm_insert k (f (case map_of m k of Some v \<Rightarrow> v | None \<Rightarrow> d)) m"

lemma set_hm_insert: "set (hm_insert k v m) \<subseteq> insert (k, v) (set m)"
  unfolding hm_insert_def by (induction m) auto

lemma set_hm_remove: "set (hm_remove k m) \<subseteq> set m"
  by (auto simp: hm_remove_def AList.delete_eq)

lemma map_of_hm_entry [simp]:
  "map_of (hm_entry k d f m) = (map_of m)(k \<mapsto> f (case map_of m k of Some v \<Rightarrow> v | None \<Rightarrow> d))"
  by (simp add: hm_entry_def)

lemma hm_ok_entry [simp]: "hm_ok m \<Longrightarrow> hm_ok (hm_entry k d f m)"
  by (simp add: hm_entry_def)

lemma hm_entry_all:
  assumes "\<forall>kv \<in> set m. P (snd kv)" "P d" "\<And>v. P v \<Longrightarrow> P (f v)"
  shows "\<forall>kv \<in> set (hm_entry k d f m). P (snd kv)"
proof -
  have "P (case map_of m k of Some v \<Rightarrow> v | None \<Rightarrow> d)"
    using assms(1,2) by (auto dest!: map_of_SomeD split: option.split)
  then have "P (f (case map_of m k of Some v \<Rightarrow> v | None \<Rightarrow> d))" by (rule assms(3))
  with assms(1) set_hm_insert [of k "f (case map_of m k of Some v \<Rightarrow> v | None \<Rightarrow> d)" m] show ?thesis
    unfolding hm_entry_def by auto
qed

lemma foldl_invariant: "P a \<Longrightarrow> (\<And>a x. P a \<Longrightarrow> x \<in> set xs \<Longrightarrow> P (f a x)) \<Longrightarrow> P (foldl f a xs)"
  by (induction xs arbitrary: a) auto

section \<open>Extrema\<close>

text \<open>Of several maxima Rust returns the last one, of several minima the first one.\<close>

fun max_by :: "('a \<Rightarrow> 'a \<Rightarrow> ordering) \<Rightarrow> 'a list \<Rightarrow> 'a option" where
  "max_by c [] = None"
| "max_by c (x # xs) = Some (foldl (\<lambda>acc y. if c acc y = Greater then acc else y) x xs)"

fun min_by :: "('a \<Rightarrow> 'a \<Rightarrow> ordering) \<Rightarrow> 'a list \<Rightarrow> 'a option" where
  "min_by c [] = None"
| "min_by c (x # xs) = Some (foldl (\<lambda>acc y. if c acc y = Greater then y else acc) x xs)"

fun max_by_key :: "('a \<Rightarrow> 'b::linorder) \<Rightarrow> 'a list \<Rightarrow> 'a option" where
  "max_by_key k [] = None"
| "max_by_key k (x # xs) = Some (foldl (\<lambda>acc y. if k y < k acc then acc else y) x xs)"

lemma max_by_mem: "max_by c xs = Some x \<Longrightarrow> x \<in> set xs"
proof (cases xs)
  case (Cons y ys)
  have "foldl (\<lambda>acc y. if c acc y = Greater then acc else y) y ys \<in> set (y # ys)"
    by (induction ys rule: rev_induct) auto
  then show "max_by c xs = Some x \<Longrightarrow> x \<in> set xs" using Cons by auto
qed simp

lemma min_by_mem: "min_by c xs = Some x \<Longrightarrow> x \<in> set xs"
proof (cases xs)
  case (Cons y ys)
  have "foldl (\<lambda>acc y. if c acc y = Greater then y else acc) y ys \<in> set (y # ys)"
    by (induction ys rule: rev_induct) auto
  then show "min_by c xs = Some x \<Longrightarrow> x \<in> set xs" using Cons by auto
qed simp

lemma max_by_key_fold:
  "\<exists>ys zs. y # xs = ys @ foldl (\<lambda>acc y. if k y < k acc then acc else y) y xs # zs \<and>
      (\<forall>v \<in> set ys. k v \<le> k (foldl (\<lambda>acc y. if k y < k acc then acc else y) y xs)) \<and>
      (\<forall>z \<in> set zs. k z < k (foldl (\<lambda>acc y. if k y < k acc then acc else y) y xs))"
  for k :: "'a \<Rightarrow> 'b::linorder"
proof (induction xs rule: rev_induct)
  case Nil
  show ?case by (intro exI [of _ "[]"]) simp
next
  case (snoc z xs)
  let ?m = "foldl (\<lambda>acc y. if k y < k acc then acc else y) y xs"
  obtain ys zs where i: "y # xs = ys @ ?m # zs" "\<forall>v \<in> set ys. k v \<le> k ?m" "\<forall>v \<in> set zs. k v < k ?m"
    using snoc.IH by blast
  show ?case
  proof (cases "k z < k ?m")
    case True
    have "y # xs @ [z] = ys @ ?m # (zs @ [z])" using i(1) by (simp only: append_Cons [symmetric] append_assoc [symmetric])
    moreover have "\<forall>v \<in> set (zs @ [z]). k v < k ?m" using True i(3) by simp
    ultimately show ?thesis unfolding foldl_append foldl.simps if_P [OF True] using i(2) by blast
  next
    case False
    have "k v \<le> k z" if "v \<in> set (y # xs)" for v
    proof -
      from that have "v \<in> set (ys @ ?m # zs)" unfolding i(1) .
      then have "v \<in> set ys \<or> v = ?m \<or> v \<in> set zs" by auto
      then have "k v \<le> k ?m" using i(2,3) by (auto intro: less_imp_le)
      with False show ?thesis by simp
    qed
    then have "y # xs @ [z] = (y # xs) @ z # [] \<and> (\<forall>v \<in> set (y # xs). k v \<le> k z) \<and> (\<forall>v \<in> set []. k v < k z)" by simp
    then show ?thesis unfolding foldl_append foldl.simps if_not_P [OF False] by blast
  qed
qed

lemma max_by_key_last:
  assumes "max_by_key k xs = Some x"
  obtains ys zs where "xs = ys @ x # zs" "\<forall>y \<in> set ys. k y \<le> k x" "\<forall>z \<in> set zs. k z < k x"
proof (cases xs)
  case (Cons y ys)
  with assms have "x = foldl (\<lambda>acc y. if k y < k acc then acc else y) y ys" by simp
  with max_by_key_fold [of y ys k] Cons that show ?thesis by blast
qed (use assms in simp)

lemma max_by_key_None: "max_by_key k xs = None \<longleftrightarrow> xs = []"
  by (cases xs) simp_all

section \<open>Lists and options\<close>

lemma find_map_of: "hm_ok m \<Longrightarrow> (k, v) \<in> set m \<Longrightarrow> map_of m k = Some v"
  by (simp add: map_of_eq_Some_iff)

definition opt_or :: "'a option \<Rightarrow> 'a option \<Rightarrow> 'a option" where
  "opt_or a b = (case a of None \<Rightarrow> b | Some _ \<Rightarrow> a)"

lemma opt_or_simps [simp]: "opt_or None b = b" "opt_or (Some x) b = Some x"
  by (simp_all add: opt_or_def)

definition opt_filter :: "('a \<Rightarrow> bool) \<Rightarrow> 'a option \<Rightarrow> 'a option" where
  "opt_filter p a = (case a of None \<Rightarrow> None | Some x \<Rightarrow> if p x then Some x else None)"

lemma opt_filter_simps [simp]:
  "opt_filter p None = None" "opt_filter p (Some x) = (if p x then Some x else None)"
  by (simp_all add: opt_filter_def)

lemma opt_filter_Some_iff: "opt_filter p a = Some x \<longleftrightarrow> a = Some x \<and> p x"
  by (cases a) auto

definition unwrap_or :: "'a option \<Rightarrow> 'a \<Rightarrow> 'a" where
  "unwrap_or a d = (case a of None \<Rightarrow> d | Some x \<Rightarrow> x)"

lemma unwrap_or_simps [simp]: "unwrap_or None d = d" "unwrap_or (Some x) d = x"
  by (simp_all add: unwrap_or_def)

end
