(* ===== verification/Euclid_Ast.thy ===== *)
theory Euclid_Ast
  imports Prelude
begin

text \<open>
  The rule language of \<open>src/src/euclid/ast.rs\<close> and the value types of
  \<open>src/src/euclid/types.rs\<close>: values, comparisons, nested if statements, rules, outputs and
  programs. A number is a 64-bit word; a statement nests through an optional list, as in the
  source, so that a statement without a nested block and one with an empty block differ.
\<close>

section \<open>Values\<close>

record metadata_value =
  md_key :: string
  md_value :: string

datatype comparison_type =
    Equal
  | NotEqual
  | LessThan
  | LessThanEqual
  | GreaterThan
  | GreaterThanEqual

record number_comparison =
  nc_comparison_type :: comparison_type
  nc_number :: u64

datatype value_type =
    Number u64
  | EnumVariant string
  | MetadataVariant metadata_value
  | StrValue string
  | GlobalRef string
  | NumberArray "u64 list"
  | EnumVariantArray "string list"
  | NumberComparisonArray "number_comparison list"

datatype data_type = DT_Number | DT_EnumVariant | DT_MetadataValue | DT_StrValue | DT_GlobalRef

fun is_metadata :: "value_type \<Rightarrow> bool" where
  "is_metadata (MetadataVariant _) = True"
| "is_metadata _ = False"

fun get_type :: "value_type \<Rightarrow> data_type" where
  "get_type (Number _) = DT_Number"
| "get_type (StrValue _) = DT_StrValue"
| "get_type (MetadataVariant _) = DT_MetadataValue"
| "get_type (EnumVariant _) = DT_EnumVariant"
| "get_type (GlobalRef _) = DT_GlobalRef"
| "get_type (NumberComparisonArray _) = DT_Number"
| "get_type (NumberArray _) = DT_Number"
| "get_type (EnumVariantArray _) = DT_EnumVariant"

text \<open>The \<open>strum\<close> display of a data type, in snake case.\<close>

fun data_type_to_string :: "data_type \<Rightarrow> string" where
  "data_type_to_string DT_Number = ''number''"
| "data_type_to_string DT_EnumVariant = ''enum_variant''"
| "data_type_to_string DT_MetadataValue = ''metadata_value''"
| "data_type_to_string DT_StrValue = ''str_value''"
| "data_type_to_string DT_GlobalRef = ''global_ref''"

lemma is_metadata_iff: "is_metadata v \<longleftrightarrow> get_type v = DT_MetadataValue"
  by (cases v) auto

section \<open>Statements, rules, outputs, programs\<close>

type_synonym metadata = "json hmap"

record comparison =
  lhs :: string
  cmp_type :: comparison_type
  cmp_value :: value_type
  cmp_metadata :: metadata

type_synonym if_condition = "comparison list"

datatype if_statement =
  IfStatement (if_condition_of: "comparison list") (nested_of: "if_statement list option")

datatype routing_type = RT_Priority | RT_VolumeSplit | RT_VolumeSplitPriority

record 'a volume_split =
  vs_split :: u8
  vs_output :: 'a

record connector_info =
  gateway_name :: string
  gateway_id :: "string option"

datatype algo_output =
    Single connector_info
  | Priority "connector_info list"
  | VolumeSplit "connector_info volume_split list"
  | VolumeSplitPriority "connector_info list volume_split list"

record rule =
  rule_name :: string
  rule_routing_type :: routing_type
  rule_output :: algo_output
  rule_statements :: "if_statement list"

type_synonym globals = "string \<rightharpoonup> value_type set"

record program =
  prog_globals :: globals
  default_selection :: algo_output
  prog_rules :: "rule list"
  prog_metadata :: "metadata option"

abbreviation conn :: "string \<Rightarrow> connector_info" where
  "conn n \<equiv> \<lparr>gateway_name = n, gateway_id = None\<rparr>"

abbreviation weighted :: "u8 \<Rightarrow> 'a \<Rightarrow> 'a volume_split" where
  "weighted w x \<equiv> \<lparr>vs_split = w, vs_output = x\<rparr>"

text \<open>\<open>impl Display for ConnectorInfo\<close>.\<close>

definition connector_to_string :: "connector_info \<Rightarrow> string" where
  "connector_to_string c =
     (case gateway_id c of
        Some i \<Rightarrow> gateway_name c @ '' ('' @ i @ '')''
      | None \<Rightarrow> gateway_name c)"

text \<open>\<open>Context\<close>: the request's parameters, a value or an explicit null under each key.\<close>

type_synonym ctx = "string \<rightharpoonup> value_type option"

section \<open>Static routing algorithms\<close>

text \<open>Per-arm overrides of an A/B test and the test itself (\<open>types.rs\<close>).\<close>

record sr_config_override =
  ov_hedging_percent :: "f64 option"
  ov_elimination_threshold :: "f64 option"
  ov_enable_multi_objective :: "bool option"
  ov_margin :: "f64 option"
  ov_use_autopilot :: "bool option"

record ab_test_data =
  control_algorithm_id :: string
  variant_algorithm_id :: string
  variant_split_pct :: u8
  min_sample_size :: "32 word"
  guardrail_threshold_pp :: f64
  variant_sr_config :: "sr_config_override option"
  control_sr_config :: "sr_config_override option"

datatype static_routing_algorithm =
    Alg_Single connector_info
  | Alg_Priority "connector_info list"
  | Alg_VolumeSplit "connector_info volume_split list"
  | Alg_Advanced program
  | Alg_AbTest ab_test_data

datatype algorithm_type = Payment | Payout | ThreeDsAuthentication

record routing_rule =
  rr_rule_id :: "string option"
  rr_name :: string
  rr_description :: "string option"
  rr_created_by :: string
  rr_algorithm :: static_routing_algorithm
  rr_algorithm_for :: algorithm_type
  rr_metadata :: "json option"

section \<open>The paths of a statement\<close>

text \<open>
  A statement is a decision tree: it is taken when all conditions along one root-to-leaf path
  hold. \<open>stmt_paths\<close> lists those paths in the order the interpreter tries them, and
  \<open>stmt_comparisons\<close> every comparison of the tree.
\<close>

fun stmt_paths :: "if_statement \<Rightarrow> comparison list list" where
  "stmt_paths (IfStatement c None) = [c]"
| "stmt_paths (IfStatement c (Some ns)) = List.map ((@) c) (concat (List.map stmt_paths ns))"

fun stmt_comparisons :: "if_statement \<Rightarrow> comparison list" where
  "stmt_comparisons (IfStatement c None) = c"
| "stmt_comparisons (IfStatement c (Some ns)) = c @ concat (List.map stmt_comparisons ns)"

definition rule_paths :: "rule \<Rightarrow> comparison list list" where
  "rule_paths r = concat (List.map stmt_paths (rule_statements r))"

definition rule_comparisons :: "rule \<Rightarrow> comparison list" where
  "rule_comparisons r = concat (List.map stmt_comparisons (rule_statements r))"

lemma stmt_paths_comparisons:
  "p \<in> set (stmt_paths s) \<Longrightarrow> c \<in> set p \<Longrightarrow> c \<in> set (stmt_comparisons s)"
proof (induction s arbitrary: p rule: stmt_paths.induct)
  case (2 cs ns)
  then obtain n q where "n \<in> set ns" "q \<in> set (stmt_paths n)" "p = cs @ q" by auto
  with 2 show ?case by auto
qed simp

lemma rule_paths_comparisons:
  "p \<in> set (rule_paths r) \<Longrightarrow> c \<in> set p \<Longrightarrow> c \<in> set (rule_comparisons r)"
  by (auto simp: rule_paths_def rule_comparisons_def dest: stmt_paths_comparisons)

end
