(* ===== verification/CGraph.thy ===== *)
theory CGraph
  imports Euclid_Ast
begin

text \<open>
  The constraint graph of \<open>src/src/euclid/cgraph.rs\<close>: nodes and edges in dense maps, the check of
  a value against a context, the mutually recursive check of a node with its trace, and loading
  a graph from its data. A loaded graph may have a cycle, on which the source recurses without
  end, so the check takes fuel and \<open>None\<close> is running out of it; a graph whose edges go down a
  rank never does with fuel above the rank.
\<close>

section \<open>Graphs\<close>

datatype strength = Weak | Normal | Strong

datatype relation = Positive | Negative

fun relation_bool :: "relation \<Rightarrow> bool" where
  "relation_bool Positive = True"
| "relation_bool Negative = False"

record clause =
  clause_key :: string
  clause_comparison :: comparison_type
  clause_value :: value_type

datatype node_value = NV_Key string | NV_Value clause

datatype node_kind = AllAggregator | AnyAggregator | NK_Value node_value

type_synonym node_id = nat
type_synonym edge_id = nat

record node =
  node_kind_of :: node_kind
  preds :: "edge_id list"
  succs :: "edge_id list"

record edge =
  edge_strength :: strength
  edge_relation :: relation
  edge_pred :: node_id
  edge_succ :: node_id

record constraint_graph_data =
  cgd_nodes :: "node list"
  cgd_edges :: "edge list"

record constraint_graph =
  cg_nodes :: "node list"
  cg_edges :: "edge list"
  cg_value_map :: "node_value \<rightharpoonup> node_id"

definition dm_get :: "'v list \<Rightarrow> nat \<Rightarrow> 'v option" where
  "dm_get data i = (if i < length data then Some (data ! i) else None)"

datatype analysis_trace =
    TraceValue node_value relation "value_trace_predecessor option"
  | TraceAll "analysis_trace list"
  | TraceAny "analysis_trace list"
and value_trace_predecessor =
    Mandatory analysis_trace
  | OneOf "analysis_trace list"

datatype cgraph_error =
    InvalidOperation
  | NodeNotFound
  | EdgeNotFound
  | CheckFailure analysis_trace

fun get_trace :: "cgraph_error \<Rightarrow> cgraph_error + analysis_trace" where
  "get_trace (CheckFailure trace) = Inr trace"
| "get_trace err = Inl err"

text \<open>\<open>TryFrom\<close>: the value map, refused when two nodes hold the same value.\<close>

fun build_value_map ::
  "nat \<Rightarrow> node list \<Rightarrow> (node_value \<rightharpoonup> node_id) \<Rightarrow> string + (node_value \<rightharpoonup> node_id)" where
  "build_value_map i [] vm = Inr vm"
| "build_value_map i (n # ns) vm =
     (case node_kind_of n of
        NK_Value v \<Rightarrow>
          if vm v \<noteq> None then Inl ''duplicate key/value node found''
          else build_value_map (Suc i) ns (vm(v \<mapsto> i))
      | _ \<Rightarrow> build_value_map (Suc i) ns vm)"

definition try_from :: "constraint_graph_data \<Rightarrow> string + constraint_graph" where
  "try_from d =
     rbind (build_value_map 0 (cgd_nodes d) Map.empty)
       (\<lambda>vm. Inr \<lparr>cg_nodes = cgd_nodes d, cg_edges = cgd_edges d, cg_value_map = vm\<rparr>)"

definition into_data :: "constraint_graph \<Rightarrow> constraint_graph_data" where
  "into_data g = \<lparr>cgd_nodes = cg_nodes g, cgd_edges = cg_edges g\<rparr>"

section \<open>Checking a value\<close>

type_synonym check_ctx = "string \<rightharpoonup> value_type"

definition check_ctx_from :: "ctx \<Rightarrow> check_ctx" where
  "check_ctx_from c k = (case c k of Some (Some v) \<Rightarrow> Some v | _ \<Rightarrow> None)"

definition check_match :: "value_type \<Rightarrow> comparison_type \<Rightarrow> value_type \<Rightarrow> cgraph_error + bool" where
  "check_match v ct rhs =
     (case (v, ct, rhs) of
        (EnumVariant e1, Equal, EnumVariant e2) \<Rightarrow> Inr (e1 = e2)
      | (EnumVariant e1, NotEqual, EnumVariant e2) \<Rightarrow> Inr (e1 \<noteq> e2)
      | (Number n1, Equal, Number n2) \<Rightarrow> Inr (n1 = n2)
      | (Number n1, NotEqual, Number n2) \<Rightarrow> Inr (n1 \<noteq> n2)
      | (Number n1, GreaterThanEqual, Number n2) \<Rightarrow> Inr (n1 \<ge> n2)
      | (Number n1, LessThanEqual, Number n2) \<Rightarrow> Inr (n1 \<le> n2)
      | (Number n1, GreaterThan, Number n2) \<Rightarrow> Inr (n1 > n2)
      | (Number n1, LessThan, Number n2) \<Rightarrow> Inr (n1 < n2)
      | (MetadataVariant m1, Equal, MetadataVariant m2) \<Rightarrow> Inr (m1 = m2)
      | (MetadataVariant m1, NotEqual, MetadataVariant m2) \<Rightarrow> Inr (m1 \<noteq> m2)
      | (StrValue s1, Equal, StrValue s2) \<Rightarrow> Inr (s1 = s2)
      | (StrValue s1, NotEqual, StrValue s2) \<Rightarrow> Inr (s1 = s2)
      | _ \<Rightarrow> Inl InvalidOperation)"

fun check :: "check_ctx \<Rightarrow> node_value \<Rightarrow> strength \<Rightarrow> cgraph_error + bool" where
  "check ctx (NV_Key k) strength = Inr (ctx k \<noteq> None \<or> strength = Weak)"
| "check ctx (NV_Value c) strength =
     (case ctx (clause_key c) of
        None \<Rightarrow> Inr (strength = Weak)
      | Some v \<Rightarrow> check_match v (clause_comparison c) (clause_value c))"

section \<open>Checking a node\<close>

text \<open>
  The result of a check that may run out of fuel. The three validation loops take the recursive
  call on a predecessor as an argument.
\<close>

type_synonym check_result = "(cgraph_error + unit) option"
type_synonym check_rec = "node_id \<Rightarrow> relation \<Rightarrow> strength \<Rightarrow> check_result"

fun validate_all_loop ::
  "check_rec \<Rightarrow> edge list \<Rightarrow> edge_id list \<Rightarrow> analysis_trace list \<Rightarrow> check_result" where
  "validate_all_loop rec edges [] unsatisfied =
     Some (if unsatisfied \<noteq> [] then Inl (CheckFailure (TraceAll unsatisfied)) else Inr ())"
| "validate_all_loop rec edges (p # ps) unsatisfied =
     (case dm_get edges p of
        None \<Rightarrow> Some (Inl EdgeNotFound)
      | Some e \<Rightarrow>
          (case rec (edge_pred e) (edge_relation e) (edge_strength e) of
             None \<Rightarrow> None
           | Some (Inr _) \<Rightarrow> validate_all_loop rec edges ps unsatisfied
           | Some (Inl err) \<Rightarrow>
               (case get_trace err of
                  Inl err' \<Rightarrow> Some (Inl err')
                | Inr t \<Rightarrow> validate_all_loop rec edges ps (unsatisfied @ [t]))))"

definition validate_all_aggregator :: "check_rec \<Rightarrow> edge list \<Rightarrow> node \<Rightarrow> check_result" where
  "validate_all_aggregator rec edges n = validate_all_loop rec edges (preds n) []"

fun validate_any_loop ::
  "check_rec \<Rightarrow> edge list \<Rightarrow> bool \<Rightarrow> edge_id list \<Rightarrow> bool \<Rightarrow> analysis_trace list \<Rightarrow> check_result" where
  "validate_any_loop rec edges no_preds [] matched_one unsatisfied =
     Some (if matched_one \<or> no_preds then Inr ()
           else Inl (CheckFailure (TraceAny unsatisfied)))"
| "validate_any_loop rec edges no_preds (p # ps) matched_one unsatisfied =
     (case dm_get edges p of
        None \<Rightarrow> Some (Inl EdgeNotFound)
      | Some e \<Rightarrow>
          (case rec (edge_pred e) (edge_relation e) (edge_strength e) of
             None \<Rightarrow> None
           | Some (Inl err) \<Rightarrow>
               (case get_trace err of
                  Inl err' \<Rightarrow> Some (Inl err')
                | Inr t \<Rightarrow>
                    validate_any_loop rec edges no_preds ps matched_one (unsatisfied @ [t]))
           | Some (Inr _) \<Rightarrow> validate_any_loop rec edges no_preds ps True unsatisfied))"

definition validate_any_aggregator :: "check_rec \<Rightarrow> edge list \<Rightarrow> node \<Rightarrow> check_result" where
  "validate_any_aggregator rec edges n =
     validate_any_loop rec edges (preds n = []) (preds n) False []"

fun validate_value_loop ::
  "check_rec \<Rightarrow> edge list \<Rightarrow> node_value \<Rightarrow> relation \<Rightarrow> bool \<Rightarrow> edge_id list \<Rightarrow> bool \<Rightarrow>
   analysis_trace list \<Rightarrow> check_result" where
  "validate_value_loop rec edges val rel no_preds [] matched_one unsatisfied =
     Some (if matched_one \<or> no_preds then Inr ()
           else Inl (CheckFailure (TraceValue val rel (Some (OneOf unsatisfied)))))"
| "validate_value_loop rec edges val rel no_preds (p # ps) matched_one unsatisfied =
     (case dm_get edges p of
        None \<Rightarrow> Some (Inl EdgeNotFound)
      | Some e \<Rightarrow>
          (case rec (edge_pred e) (edge_relation e) (edge_strength e) of
             None \<Rightarrow> None
           | Some (Inl err) \<Rightarrow>
               (case get_trace err of
                  Inl err' \<Rightarrow> Some (Inl err')
                | Inr t \<Rightarrow>
                    if edge_strength e = Strong
                    then Some (Inl (CheckFailure (TraceValue val rel (Some (Mandatory t)))))
                    else validate_value_loop rec edges val rel no_preds ps matched_one
                           (unsatisfied @ [t]))
           | Some (Inr _) \<Rightarrow>
               validate_value_loop rec edges val rel no_preds ps True unsatisfied))"

definition validate_value ::
  "check_rec \<Rightarrow> edge list \<Rightarrow> node_value \<Rightarrow> strength \<Rightarrow> relation \<Rightarrow> edge_id list \<Rightarrow> check_ctx \<Rightarrow>
   check_result" where
  "validate_value rec edges val strength rel ps ctx =
     (case check ctx val strength of
        Inl e \<Rightarrow> Some (Inl e)
      | Inr in_context \<Rightarrow>
          if in_context \<noteq> relation_bool rel
          then Some (Inl (CheckFailure (TraceValue val rel None)))
          else validate_value_loop rec edges val rel (ps = []) ps False [])"

fun check_node ::
  "nat \<Rightarrow> constraint_graph \<Rightarrow> node_id \<Rightarrow> check_ctx \<Rightarrow> relation \<Rightarrow> strength \<Rightarrow> check_result" where
  "check_node 0 g n ctx rel strength = None"
| "check_node (Suc fuel) g n ctx rel strength =
     (case dm_get (cg_nodes g) n of
        None \<Rightarrow> Some (Inl NodeNotFound)
      | Some nd \<Rightarrow>
          (let rec = (\<lambda>m r s. check_node fuel g m ctx r s) in
           case node_kind_of nd of
             AllAggregator \<Rightarrow> validate_all_aggregator rec (cg_edges g) nd
           | AnyAggregator \<Rightarrow> validate_any_aggregator rec (cg_edges g) nd
           | NK_Value val \<Rightarrow> validate_value rec (cg_edges g) val strength rel (preds nd) ctx))"

definition check_clause_validity ::
  "nat \<Rightarrow> constraint_graph \<Rightarrow> clause \<Rightarrow> check_ctx \<Rightarrow> (cgraph_error + bool) option" where
  "check_clause_validity fuel g c ctx =
     (case cg_value_map g (NV_Value c) of
        None \<Rightarrow> Some (Inr False)
      | Some n \<Rightarrow>
          (case check_node fuel g n ctx Positive Strong of
             None \<Rightarrow> None
           | Some (Inr _) \<Rightarrow> Some (Inr True)
           | Some (Inl e) \<Rightarrow>
               (case get_trace e of Inl e' \<Rightarrow> Some (Inl e') | Inr _ \<Rightarrow> Some (Inr False))))"

section \<open>What a satisfied node means\<close>

definition pred_edges :: "constraint_graph \<Rightarrow> node \<Rightarrow> edge list" where
  "pred_edges g nd = List.map (\<lambda>p. cg_edges g ! p) (preds nd)"

inductive node_sat :: "constraint_graph \<Rightarrow> check_ctx \<Rightarrow> node_id \<Rightarrow> relation \<Rightarrow> strength \<Rightarrow> bool"
  for g :: constraint_graph and ctx :: check_ctx where
  sat_all: "\<lbrakk>n < length (cg_nodes g); node_kind_of (cg_nodes g ! n) = AllAggregator;
    \<And>e. e \<in> set (pred_edges g (cg_nodes g ! n)) \<Longrightarrow>
      node_sat g ctx (edge_pred e) (edge_relation e) (edge_strength e)\<rbrakk>
   \<Longrightarrow> node_sat g ctx n rel s"
| sat_any: "\<lbrakk>n < length (cg_nodes g); node_kind_of (cg_nodes g ! n) = AnyAggregator;
    pred_edges g (cg_nodes g ! n) = [] \<or>
    (\<exists>e\<in>set (pred_edges g (cg_nodes g ! n)).
       node_sat g ctx (edge_pred e) (edge_relation e) (edge_strength e))\<rbrakk>
   \<Longrightarrow> node_sat g ctx n rel s"
| sat_value: "\<lbrakk>n < length (cg_nodes g); node_kind_of (cg_nodes g ! n) = NK_Value v;
    check ctx v s = Inr (relation_bool rel);
    \<And>e. e \<in> set (pred_edges g (cg_nodes g ! n)) \<Longrightarrow> edge_strength e = Strong \<Longrightarrow>
      node_sat g ctx (edge_pred e) (edge_relation e) (edge_strength e);
    pred_edges g (cg_nodes g ! n) = [] \<or>
    (\<exists>e\<in>set (pred_edges g (cg_nodes g ! n)).
       node_sat g ctx (edge_pred e) (edge_relation e) (edge_strength e))\<rbrakk>
   \<Longrightarrow> node_sat g ctx n rel s"

inductive_cases node_satE: "node_sat g ctx n rel s"

section \<open>The check decides satisfaction\<close>

lemma get_trace_iff:
  "get_trace err = Inr t \<longleftrightarrow> err = CheckFailure t"
  "get_trace err = Inl e \<longleftrightarrow> err = e \<and> (\<forall>t. err \<noteq> CheckFailure t)"
  by (cases err; auto)+

lemma dm_get_iff: "dm_get xs i = Some x \<longleftrightarrow> i < length xs \<and> x = xs ! i"
  by (auto simp: dm_get_def)

definition on_edge :: "check_rec \<Rightarrow> edge \<Rightarrow> check_result" where
  "on_edge rec e = rec (edge_pred e) (edge_relation e) (edge_strength e)"

lemma check_result_cases:
  obtains (missing) "dm_get edges p = None"
  | (fuel) "dm_get edges p = Some (edges ! p)" "on_edge rec (edges ! p) = None"
  | (passed) "dm_get edges p = Some (edges ! p)" "on_edge rec (edges ! p) = Some (Inr ())"
  | (failed) t where "dm_get edges p = Some (edges ! p)"
      "on_edge rec (edges ! p) = Some (Inl (CheckFailure t))"
  | (error) err where "dm_get edges p = Some (edges ! p)"
      "on_edge rec (edges ! p) = Some (Inl err)" "get_trace err = Inl err"
      "\<And>t. err \<noteq> CheckFailure t"
proof (cases "dm_get edges p")
  case (Some e)
  then have e: "dm_get edges p = Some (edges ! p)" by (simp add: dm_get_iff)
  show ?thesis
  proof (cases "on_edge rec (edges ! p)")
    case (Some r)
    then show ?thesis
    proof (cases r)
      case (Inl err)
      with Some e show ?thesis using that(4,5) by (cases err) auto
    next
      case (Inr u)
      with Some e show ?thesis using that(3) by simp
    qed
  qed (use e that(2) in simp)
qed (use that(1) in simp)

lemma validate_all_loop_sound:
  "validate_all_loop rec edges ps uns = Some r \<Longrightarrow>
     (r = Inr () \<longrightarrow> uns = [] \<and> (\<forall>p\<in>set ps. on_edge rec (edges ! p) = Some (Inr ()))) \<and>
     (\<forall>t. r = Inl (CheckFailure t) \<longrightarrow>
        uns \<noteq> [] \<or> (\<exists>p\<in>set ps. \<exists>t. on_edge rec (edges ! p) = Some (Inl (CheckFailure t))))"
proof (induction ps arbitrary: uns)
  case (Cons p ps)
  show ?case
    by (rule check_result_cases [where edges = edges and p = p and rec = rec])
      (use Cons.prems Cons.IH in \<open>auto simp: on_edge_def\<close>)
qed (auto split: if_splits)

lemma validate_any_loop_sound:
  "validate_any_loop rec edges np ps mo uns = Some r \<Longrightarrow>
     (r = Inr () \<longrightarrow> mo \<or> np \<or> (\<exists>p\<in>set ps. on_edge rec (edges ! p) = Some (Inr ()))) \<and>
     (\<forall>t. r = Inl (CheckFailure t) \<longrightarrow>
        \<not> mo \<and> \<not> np \<and> (\<forall>p\<in>set ps. \<exists>t. on_edge rec (edges ! p) = Some (Inl (CheckFailure t))))"
proof (induction ps arbitrary: mo uns)
  case (Cons p ps)
  show ?case
    by (rule check_result_cases [where edges = edges and p = p and rec = rec])
      (use Cons.prems Cons.IH in \<open>auto simp: on_edge_def\<close>)
qed (auto split: if_splits)

lemma validate_value_loop_sound:
  "validate_value_loop rec edges v rel np ps mo uns = Some r \<Longrightarrow>
     (r = Inr () \<longrightarrow> (mo \<or> np \<or> (\<exists>p\<in>set ps. on_edge rec (edges ! p) = Some (Inr ()))) \<and>
        (\<forall>p\<in>set ps. edge_strength (edges ! p) = Strong \<longrightarrow> on_edge rec (edges ! p) = Some (Inr ()))) \<and>
     (\<forall>t. r = Inl (CheckFailure t) \<longrightarrow>
        (\<exists>p\<in>set ps. edge_strength (edges ! p) = Strong \<and>
           (\<exists>t. on_edge rec (edges ! p) = Some (Inl (CheckFailure t)))) \<or>
        \<not> mo \<and> \<not> np \<and> (\<forall>p\<in>set ps. \<exists>t. on_edge rec (edges ! p) = Some (Inl (CheckFailure t))))"
proof (induction ps arbitrary: mo uns)
  case (Cons p ps)
  show ?case
    by (rule check_result_cases [where edges = edges and p = p and rec = rec])
      (use Cons.prems Cons.IH [of True uns] Cons.IH in \<open>auto simp: on_edge_def split: if_splits\<close>)
qed (auto split: if_splits)

abbreviation edge_sat :: "constraint_graph \<Rightarrow> check_ctx \<Rightarrow> edge \<Rightarrow> bool" where
  "edge_sat g ctx e \<equiv> node_sat g ctx (edge_pred e) (edge_relation e) (edge_strength e)"

lemma all_image_iff: "(\<forall>x. x \<in> f ` S \<longrightarrow> Q x) \<longleftrightarrow> (\<forall>p\<in>S. Q (f p))"
  by blast

lemma node_sat_all_iff:
  "n < length (cg_nodes g) \<Longrightarrow> node_kind_of (cg_nodes g ! n) = AllAggregator \<Longrightarrow>
     node_sat g ctx n rel s \<longleftrightarrow> (\<forall>p\<in>set (preds (cg_nodes g ! n)). edge_sat g ctx (cg_edges g ! p))"
  by (subst node_sat.simps) (simp add: pred_edges_def all_image_iff)

lemma node_sat_any_iff:
  "n < length (cg_nodes g) \<Longrightarrow> node_kind_of (cg_nodes g ! n) = AnyAggregator \<Longrightarrow>
     node_sat g ctx n rel s \<longleftrightarrow> preds (cg_nodes g ! n) = [] \<or>
       (\<exists>p\<in>set (preds (cg_nodes g ! n)). edge_sat g ctx (cg_edges g ! p))"
  by (subst node_sat.simps) (simp add: pred_edges_def all_image_iff)

lemma node_sat_value_iff:
  "n < length (cg_nodes g) \<Longrightarrow> node_kind_of (cg_nodes g ! n) = NK_Value v \<Longrightarrow>
     node_sat g ctx n rel s \<longleftrightarrow> check ctx v s = Inr (relation_bool rel) \<and>
       (\<forall>p\<in>set (preds (cg_nodes g ! n)). edge_strength (cg_edges g ! p) = Strong \<longrightarrow>
          edge_sat g ctx (cg_edges g ! p)) \<and>
       (preds (cg_nodes g ! n) = [] \<or>
       (\<exists>p\<in>set (preds (cg_nodes g ! n)). edge_sat g ctx (cg_edges g ! p)))"
  by (subst node_sat.simps) (simp add: pred_edges_def all_image_iff)

lemma node_sat_range: "node_sat g ctx n rel s \<Longrightarrow> n < length (cg_nodes g)"
  by (auto elim: node_satE)

lemma check_node_sound:
  "check_node fuel g n ctx rel s = Some r \<Longrightarrow>
     (r = Inr () \<longrightarrow> node_sat g ctx n rel s) \<and>
     (\<forall>t. r = Inl (CheckFailure t) \<longrightarrow> \<not> node_sat g ctx n rel s)"
proof (induction fuel arbitrary: n rel s r)
  case (Suc fuel)
  let ?rec = "\<lambda>m r s. check_node fuel g m ctx r s" and ?nd = "cg_nodes g ! n"
  have pass: "edge_sat g ctx e" if "on_edge ?rec e = Some (Inr ())" for e
    using Suc.IH that unfolding on_edge_def by blast
  have fail: "\<not> edge_sat g ctx e" if "on_edge ?rec e = Some (Inl (CheckFailure t))" for e t
    using Suc.IH that unfolding on_edge_def by blast
  show ?case
  proof (cases "n < length (cg_nodes g)")
    case False
    with Suc.prems show ?thesis by (auto simp: dm_get_def)
  next
    case n: True
    show ?thesis
    proof (cases "node_kind_of ?nd")
      case AllAggregator
      with Suc.prems n have "validate_all_loop ?rec (cg_edges g) (preds ?nd) [] = Some r"
        by (simp add: dm_get_def validate_all_aggregator_def)
      from validate_all_loop_sound [OF this] show ?thesis
        unfolding node_sat_all_iff [OF n AllAggregator] using pass fail by blast
    next
      case AnyAggregator
      with Suc.prems n
      have "validate_any_loop ?rec (cg_edges g) (preds ?nd = []) (preds ?nd) False [] = Some r"
        by (simp add: dm_get_def validate_any_aggregator_def)
      from validate_any_loop_sound [OF this] show ?thesis
        unfolding node_sat_any_iff [OF n AnyAggregator] using pass fail by blast
    next
      case (NK_Value v)
      then have v: "validate_value ?rec (cg_edges g) v s rel (preds ?nd) ctx = Some r"
        using Suc.prems n by (simp add: dm_get_def)
      show ?thesis
      proof (cases "check ctx v s = Inr (relation_bool rel)")
        case True
        with v have "validate_value_loop ?rec (cg_edges g) v rel (preds ?nd = []) (preds ?nd)
            False [] = Some r"
          by (simp add: validate_value_def)
        from validate_value_loop_sound [OF this] show ?thesis
          unfolding node_sat_value_iff [OF n NK_Value] using True pass fail by blast
      next
        case False
        with v show ?thesis
          unfolding node_sat_value_iff [OF n NK_Value]
          by (cases "check ctx v s") (auto simp: validate_value_def split: if_splits)
      qed
    qed
  qed
qed simp

section \<open>Enough fuel\<close>

text \<open>A rank of the nodes that decreases along every edge: the graph has no cycle.\<close>

definition ranked :: "(node_id \<Rightarrow> nat) \<Rightarrow> constraint_graph \<Rightarrow> bool" where
  "ranked rk g \<longleftrightarrow> (\<forall>n<length (cg_nodes g). \<forall>p\<in>set (preds (cg_nodes g ! n)).
     p < length (cg_edges g) \<longrightarrow> rk (edge_pred (cg_edges g ! p)) < rk n)"

lemma validate_all_loop_returns:
  "(\<And>p. p \<in> set ps \<Longrightarrow> p < length edges \<Longrightarrow> on_edge rec (edges ! p) \<noteq> None) \<Longrightarrow>
     validate_all_loop rec edges ps uns \<noteq> None"
proof (induction ps arbitrary: uns)
  case (Cons p ps)
  show ?case
    by (rule check_result_cases [where edges = edges and p = p and rec = rec])
      (use Cons.prems [of p] Cons.prems Cons.IH in \<open>auto simp: on_edge_def dm_get_def split: if_splits\<close>)
qed simp

lemma validate_any_loop_returns:
  "(\<And>p. p \<in> set ps \<Longrightarrow> p < length edges \<Longrightarrow> on_edge rec (edges ! p) \<noteq> None) \<Longrightarrow>
     validate_any_loop rec edges np ps mo uns \<noteq> None"
proof (induction ps arbitrary: mo uns)
  case (Cons p ps)
  show ?case
    by (rule check_result_cases [where edges = edges and p = p and rec = rec])
      (use Cons.prems [of p] Cons.prems Cons.IH in \<open>auto simp: on_edge_def dm_get_def split: if_splits\<close>)
qed simp

lemma validate_value_loop_returns:
  "(\<And>p. p \<in> set ps \<Longrightarrow> p < length edges \<Longrightarrow> on_edge rec (edges ! p) \<noteq> None) \<Longrightarrow>
     validate_value_loop rec edges v rel np ps mo uns \<noteq> None"
proof (induction ps arbitrary: mo uns)
  case (Cons p ps)
  show ?case
    by (rule check_result_cases [where edges = edges and p = p and rec = rec])
      (use Cons.prems [of p] Cons.prems Cons.IH in \<open>auto simp: on_edge_def dm_get_def split: if_splits\<close>)
qed simp

lemma check_node_returns:
  "ranked rk g \<Longrightarrow> rk n < fuel \<Longrightarrow> check_node fuel g n ctx rel s \<noteq> None"
proof (induction fuel arbitrary: n rel s)
  case (Suc fuel)
  let ?rec = "\<lambda>m r s. check_node fuel g m ctx r s" and ?nd = "cg_nodes g ! n"
  have sub: "on_edge ?rec (cg_edges g ! p) \<noteq> None"
    if "n < length (cg_nodes g)" "p \<in> set (preds ?nd)" "p < length (cg_edges g)" for p
    using Suc.IH [OF Suc.prems(1)] Suc.prems that unfolding on_edge_def ranked_def
    by (meson less_Suc_eq_le order_less_le_trans)
  show ?case
  proof (cases "n < length (cg_nodes g)")
    case n: True
    note all = validate_all_loop_returns [of "preds ?nd" "cg_edges g" ?rec, OF sub [OF n]]
      and some = validate_any_loop_returns [of "preds ?nd" "cg_edges g" ?rec, OF sub [OF n]]
      and val = validate_value_loop_returns [of "preds ?nd" "cg_edges g" ?rec, OF sub [OF n]]
    show ?thesis
      using n all some val
      by (auto simp: dm_get_def validate_all_aggregator_def validate_any_aggregator_def
          validate_value_def Let_def split: node_kind.splits sum.splits)
  qed (simp add: dm_get_def)
qed simp

text \<open>
  Without dangling ids, and on a context whose values the nodes' comparisons can be checked
  against, a failed check is always a check failure.
\<close>

definition wf_graph :: "constraint_graph \<Rightarrow> bool" where
  "wf_graph g \<longleftrightarrow> (\<forall>n<length (cg_nodes g). \<forall>p\<in>set (preds (cg_nodes g ! n)).
     p < length (cg_edges g) \<and> edge_pred (cg_edges g ! p) < length (cg_nodes g))"

definition checkable :: "constraint_graph \<Rightarrow> check_ctx \<Rightarrow> bool" where
  "checkable g ctx \<longleftrightarrow> (\<forall>nd\<in>set (cg_nodes g). \<forall>v s. node_kind_of nd = NK_Value v \<longrightarrow>
     \<not> isl (check ctx v s))"

definition clean :: "check_result \<Rightarrow> bool" where
  "clean r \<longleftrightarrow> (\<forall>e. r = Some (Inl e) \<longrightarrow> (\<exists>t. e = CheckFailure t))"

lemma loops_clean:
  assumes "\<And>p. p \<in> set ps \<Longrightarrow> p < length edges \<and> clean (on_edge rec (edges ! p))"
  shows "clean (validate_all_loop rec edges ps uns) \<and>
    clean (validate_any_loop rec edges np ps mo uns) \<and>
    clean (validate_value_loop rec edges v rel np ps mo uns)"
  using assms
proof (induction ps arbitrary: uns mo)
  case (Cons p ps)
  have p: "p < length edges" "clean (on_edge rec (edges ! p))" using Cons.prems [of p] by simp_all
  have IH: "clean (validate_all_loop rec edges ps uns)"
    "clean (validate_any_loop rec edges np ps mo uns)"
    "clean (validate_value_loop rec edges v rel np ps mo uns)" for uns mo
    using Cons.IH [of uns mo] Cons.prems by simp_all
  show ?case
    by (rule check_result_cases [where edges = edges and p = p and rec = rec])
      (use p IH in \<open>auto simp: on_edge_def dm_get_def clean_def split: if_splits\<close>)
qed (auto simp: clean_def)

lemma check_node_clean:
  assumes "wf_graph g" "checkable g ctx"
  shows "n < length (cg_nodes g) \<Longrightarrow> clean (check_node fuel g n ctx rel s)"
proof (induction fuel arbitrary: n rel s)
  case (Suc fuel)
  let ?rec = "\<lambda>m r s. check_node fuel g m ctx r s" and ?nd = "cg_nodes g ! n"
  have sub: "p < length (cg_edges g) \<and> clean (on_edge ?rec (cg_edges g ! p))"
    if "p \<in> set (preds ?nd)" for p
    using Suc.IH Suc.prems that assms(1) unfolding on_edge_def wf_graph_def by blast
  have "?nd \<in> set (cg_nodes g)" using Suc.prems by simp
  then have chk: "\<not> isl (check ctx v s)" if "node_kind_of ?nd = NK_Value v" for v
    using assms(2) that unfolding checkable_def by blast
  show ?case
    using Suc.prems chk loops_clean [of "preds ?nd" "cg_edges g" ?rec, OF sub]
    by (auto simp: dm_get_def Let_def validate_all_aggregator_def validate_any_aggregator_def
        validate_value_def clean_def split: node_kind.splits sum.splits)
qed (simp add: clean_def)

lemma check_clause_validity_exact:
  assumes "ranked rk g" "\<And>n. rk n < fuel" "wf_graph g" "checkable g ctx"
    and "\<And>v n. cg_value_map g v = Some n \<Longrightarrow> n < length (cg_nodes g)"
  shows "check_clause_validity fuel g c ctx =
    Some (Inr (case cg_value_map g (NV_Value c) of
       None \<Rightarrow> False | Some n \<Rightarrow> node_sat g ctx n Positive Strong))"
proof (cases "cg_value_map g (NV_Value c)")
  case (Some n)
  obtain r where r: "check_node fuel g n ctx Positive Strong = Some r"
    using check_node_returns [OF assms(1,2)] by blast
  have "clean (Some r)"
    using check_node_clean [OF assms(3,4) assms(5) [OF Some], of fuel Positive Strong] r by simp
  with check_node_sound [OF r] r Some show ?thesis
    by (cases r) (auto simp: check_clause_validity_def clean_def)
qed (simp add: check_clause_validity_def)

text \<open>
  Which values can be compared, by their kinds alone: two enumeration values, two metadata values or
  two strings by equality and inequality, two numbers by anything, and nothing else.
\<close>

fun comparable :: "value_type \<Rightarrow> comparison_type \<Rightarrow> value_type \<Rightarrow> bool" where
  "comparable (EnumVariant _) ct (EnumVariant _) \<longleftrightarrow> ct = Equal \<or> ct = NotEqual"
| "comparable (MetadataVariant _) ct (MetadataVariant _) \<longleftrightarrow> ct = Equal \<or> ct = NotEqual"
| "comparable (StrValue _) ct (StrValue _) \<longleftrightarrow> ct = Equal \<or> ct = NotEqual"
| "comparable (Number _) ct (Number _) \<longleftrightarrow> True"
| "comparable _ _ _ \<longleftrightarrow> False"

definition well_typed :: "constraint_graph \<Rightarrow> check_ctx \<Rightarrow> bool" where
  "well_typed g ctx \<longleftrightarrow> (\<forall>nd \<in> set (cg_nodes g). \<forall>c v. node_kind_of nd = NK_Value (NV_Value c) \<longrightarrow>
     ctx (clause_key c) = Some v \<longrightarrow> comparable v (clause_comparison c) (clause_value c))"

lemma check_match_comparable: "isl (check_match v ct rhs) \<longleftrightarrow> \<not> comparable v ct rhs"
  by (cases v; cases rhs; cases ct) (simp_all add: check_match_def)

lemma well_typed_checkable: "well_typed g ctx \<Longrightarrow> checkable g ctx"
  unfolding checkable_def
proof (intro ballI allI impI)
  fix nd v s
  assume "well_typed g ctx" "nd \<in> set (cg_nodes g)" "node_kind_of nd = NK_Value v"
  then show "\<not> isl (check ctx v s)"
    by (cases v) (auto simp: well_typed_def check_match_comparable split: option.split)
qed

text \<open>
  C5. On a graph without a cycle the check of a node returns with any fuel above the node's rank. If
  no id of the graph dangles and every present value is of a kind its clause can be compared with,
  the check passes exactly on a satisfied node and is a check failure otherwise, never another error.
  On any other graph a pass or a check failure is still right about satisfaction.
\<close>

theorem check_node_decides:
  assumes "ranked rk g" "rk n < fuel"
  shows "\<exists>r. check_node fuel g n ctx rel s = Some r
    \<and> (n < length (cg_nodes g) \<longrightarrow> wf_graph g \<longrightarrow> well_typed g ctx \<longrightarrow>
         (if node_sat g ctx n rel s then r = Inr () else \<exists>trace. r = Inl (CheckFailure trace)))
    \<and> (r = Inr () \<longrightarrow> node_sat g ctx n rel s)
    \<and> (\<forall>trace. r = Inl (CheckFailure trace) \<longrightarrow> \<not> node_sat g ctx n rel s)"
proof -
  obtain r where r: "check_node fuel g n ctx rel s = Some r"
    using check_node_returns [OF assms, of ctx rel s] by auto
  have "clean (Some r)" if "n < length (cg_nodes g)" "wf_graph g" "well_typed g ctx"
    using check_node_clean [OF that(2) well_typed_checkable [OF that(3)] that(1)] r by metis
  then have "r = Inr () \<or> (\<exists>trace. r = Inl (CheckFailure trace))"
    if "n < length (cg_nodes g)" "wf_graph g" "well_typed g ctx"
    using that by (cases r) (auto simp: clean_def)
  with check_node_sound [OF r] r show ?thesis by auto
qed

definition demo_graph :: constraint_graph where
  "demo_graph =
     \<lparr>cg_nodes =
        [\<lparr>node_kind_of = NK_Value (NV_Value \<lparr>clause_key = ''currency'', clause_comparison = Equal,
            clause_value = EnumVariant ''USD''\<rparr>), preds = [], succs = [0]\<rparr>,
         \<lparr>node_kind_of = AnyAggregator, preds = [0], succs = []\<rparr>],
      cg_edges = [\<lparr>edge_strength = Normal, edge_relation = Positive, edge_pred = 0, edge_succ = 1\<rparr>],
      cg_value_map = Map.empty\<rparr>"

lemma check_node_decides_witness:
  "(\<exists>trace. check_node 2 demo_graph 1 [''currency'' \<mapsto> EnumVariant ''EUR''] Positive Strong = Some (Inl (CheckFailure trace)))
   \<and> check_node 2 demo_graph 1 [''currency'' \<mapsto> EnumVariant ''USD''] Positive Strong = Some (Inr ())"
proof -
  have g: "ranked (\<lambda>n. n) demo_graph" "wf_graph demo_graph" "1 < length (cg_nodes demo_graph)"
    by (auto simp: ranked_def wf_graph_def demo_graph_def less_Suc_eq numeral_2_eq_2)
  have typed: "well_typed demo_graph [''currency'' \<mapsto> EnumVariant v]" for v
    by (simp add: well_typed_def demo_graph_def)
  have sat: "node_sat demo_graph [''currency'' \<mapsto> EnumVariant v] 1 Positive Strong \<longleftrightarrow> v = ''USD''" for v
    by (simp add: node_sat_any_iff node_sat_value_iff demo_graph_def check_match_def)
  have decided: "\<exists>r. check_node 2 demo_graph 1 [''currency'' \<mapsto> EnumVariant v] Positive Strong = Some r
      \<and> (if v = ''USD'' then r = Inr () else \<exists>trace. r = Inl (CheckFailure trace))" for v
    using check_node_decides [OF g(1), of 1 2 "[''currency'' \<mapsto> EnumVariant v]" Positive Strong,
        unfolded sat] g(2,3) typed [of v]
    by (simp only: less_numeral_extra one_less_numeral_iff semiring_norm simp_thms) blast
  from decided [of "''EUR''"] decided [of "''USD''"] show ?thesis by auto
qed

section \<open>The graph check against the interpreter\<close>

text \<open>
  The value check accepts fewer shapes than the interpreter; where both give an answer they give
  the same one, except for an inequality between strings, which the graph check answers as an
  equality.
\<close>

text \<open>
  The check of a value that is present answers as the interpreter's equality and order do,
  except that \<open>!=\<close> between two strings is answered with their equality; it is an error exactly
  on the shapes outside its table.
\<close>

theorem check_match_table:
  "check_match v ct rhs =
     (case (v, rhs) of
        (StrValue s1, StrValue s2) \<Rightarrow>
          (if ct = Equal \<or> ct = NotEqual then Inr (s1 = s2) else Inl InvalidOperation)
      | (EnumVariant _, EnumVariant _) \<Rightarrow>
          (if ct = Equal then Inr (v = rhs) else if ct = NotEqual then Inr (v \<noteq> rhs)
           else Inl InvalidOperation)
      | (MetadataVariant _, MetadataVariant _) \<Rightarrow>
          (if ct = Equal then Inr (v = rhs) else if ct = NotEqual then Inr (v \<noteq> rhs)
           else Inl InvalidOperation)
      | (Number n1, Number n2) \<Rightarrow>
          Inr (case ct of Equal \<Rightarrow> n1 = n2 | NotEqual \<Rightarrow> n1 \<noteq> n2 | LessThan \<Rightarrow> n1 < n2
               | LessThanEqual \<Rightarrow> n1 \<le> n2 | GreaterThan \<Rightarrow> n1 > n2 | GreaterThanEqual \<Rightarrow> n1 \<ge> n2)
      | _ \<Rightarrow> Inl InvalidOperation)"
  by (cases v; cases rhs; cases ct) (simp_all add: check_match_def)

end
