(* ===== verification/Euclid_Interp.thy ===== *)
theory Euclid_Interp
  imports Euclid_Ast
begin

text \<open>
  The interpreter of \<open>src/src/euclid/interpreter.rs\<close>: comparisons against the context,
  conditions, nested statements, rules, whole programs, and the evaluation of an output with
  its volume splits. Sampling from a weighted distribution is the crate \<open>rand\<close>; the model takes
  it as the parameter \<open>sampler\<close>, the index \<open>WeightedIndex::new(weights)?.sample(rng)\<close> yields, or
  \<open>None\<close> when the distribution cannot be built.
\<close>

datatype interpreter_error_type =
    InvalidKey string
  | InvalidComparison
  | OutputEvaluationFailed string

record interpreter_error =
  ie_error_type :: interpreter_error_type
  ie_metadata :: metadata

record backend_output =
  bo_rule_name :: "string option"
  bo_output :: algo_output
  bo_evaluated_output :: "connector_info list"

datatype routing_error = VolumeSplitFailed

section \<open>Comparisons\<close>

definition compare_numbers :: "comparison_type \<Rightarrow> u64 \<Rightarrow> u64 \<Rightarrow> bool" where
  "compare_numbers ct num other =
     (case ct of
        GreaterThan \<Rightarrow> num > other
      | LessThan \<Rightarrow> num < other
      | LessThanEqual \<Rightarrow> num \<le> other
      | GreaterThanEqual \<Rightarrow> num \<ge> other
      | Equal \<Rightarrow> num = other
      | NotEqual \<Rightarrow> num \<noteq> other)"

fun eval_number_comparison_array ::
  "u64 \<Rightarrow> number_comparison list \<Rightarrow> interpreter_error + bool" where
  "eval_number_comparison_array num [] = Inr True"
| "eval_number_comparison_array num (c # cs) =
     (if \<not> compare_numbers (nc_comparison_type c) num (nc_number c) then Inr False
      else eval_number_comparison_array num cs)"

text \<open>The match of \<open>eval_comparison\<close> on the context value, the operator and the rule's value.\<close>

definition compare_values ::
  "globals \<Rightarrow> metadata \<Rightarrow> value_type \<Rightarrow> comparison_type \<Rightarrow> value_type \<Rightarrow> interpreter_error + bool" where
  "compare_values globals md v ct rhs =
     (case (v, ct, rhs) of
        (EnumVariant e1, Equal, EnumVariant e2) \<Rightarrow> Inr (e1 = e2)
      | (EnumVariant e1, NotEqual, EnumVariant e2) \<Rightarrow> Inr (e1 \<noteq> e2)
      | (EnumVariant e, Equal, EnumVariantArray evec) \<Rightarrow> Inr (list_ex (\<lambda>x. e = x) evec)
      | (EnumVariant e, NotEqual, EnumVariantArray evec) \<Rightarrow> Inr (list_all (\<lambda>x. e \<noteq> x) evec)
      | (Number n1, Equal, Number n2) \<Rightarrow> Inr (n1 = n2)
      | (Number n1, NotEqual, Number n2) \<Rightarrow> Inr (n1 \<noteq> n2)
      | (Number n1, LessThanEqual, Number n2) \<Rightarrow> Inr (n1 \<le> n2)
      | (Number n1, GreaterThanEqual, Number n2) \<Rightarrow> Inr (n1 \<ge> n2)
      | (Number n1, LessThan, Number n2) \<Rightarrow> Inr (n1 < n2)
      | (Number n1, GreaterThan, Number n2) \<Rightarrow> Inr (n1 > n2)
      | (Number n, Equal, NumberArray nvec) \<Rightarrow> Inr (list_ex (\<lambda>x. x = n) nvec)
      | (Number n, NotEqual, NumberArray nvec) \<Rightarrow> Inr (list_all (\<lambda>x. x \<noteq> n) nvec)
      | (Number n, Equal, NumberComparisonArray ncvec) \<Rightarrow> eval_number_comparison_array n ncvec
      | (MetadataVariant m1, Equal, MetadataVariant m2) \<Rightarrow> Inr (m1 = m2)
      | (MetadataVariant m1, NotEqual, MetadataVariant m2) \<Rightarrow> Inr (m1 \<noteq> m2)
      | (StrValue s1, Equal, StrValue s2) \<Rightarrow> Inr (s1 = s2)
      | (StrValue s1, NotEqual, StrValue s2) \<Rightarrow> Inr (s1 \<noteq> s2)
      | (x, Equal, GlobalRef name) \<Rightarrow>
          Inr (case globals name of Some s \<Rightarrow> x \<in> s | None \<Rightarrow> False)
      | _ \<Rightarrow> Inl \<lparr>ie_error_type = InvalidComparison, ie_metadata = md\<rparr>)"

text \<open>The context value a comparison looks at: a metadata comparison first tries its own key.\<close>

definition lookup_ctx :: "ctx \<Rightarrow> comparison \<Rightarrow> value_type option option" where
  "lookup_ctx ctx c =
     (case cmp_value c of
        MetadataVariant m \<Rightarrow>
          opt_or (opt_filter (\<lambda>v. case v of Some x \<Rightarrow> is_metadata x | None \<Rightarrow> False) (ctx (md_key m)))
            (ctx (lhs c))
      | _ \<Rightarrow> ctx (lhs c))"

definition eval_comparison :: "comparison \<Rightarrow> ctx \<Rightarrow> globals \<Rightarrow> interpreter_error + bool" where
  "eval_comparison c ctx globals =
     (case lookup_ctx ctx c of
        None \<Rightarrow> Inr False
      | Some None \<Rightarrow> Inr False
      | Some (Some v) \<Rightarrow> compare_values globals (cmp_metadata c) v (cmp_type c) (cmp_value c))"

section \<open>Conditions, statements, rules\<close>

fun eval_if_condition :: "if_condition \<Rightarrow> ctx \<Rightarrow> globals \<Rightarrow> interpreter_error + bool" where
  "eval_if_condition [] ctx globals = Inr True"
| "eval_if_condition (c # cs) ctx globals =
     (case eval_comparison c ctx globals of
        Inl e \<Rightarrow> Inl e
      | Inr res \<Rightarrow> if \<not> res then Inr False else eval_if_condition cs ctx globals)"

fun eval_if_statement :: "if_statement \<Rightarrow> ctx \<Rightarrow> globals \<Rightarrow> interpreter_error + bool"
  and eval_rule_statements :: "if_statement list \<Rightarrow> ctx \<Rightarrow> globals \<Rightarrow> interpreter_error + bool" where
  "eval_if_statement (IfStatement cond nested) ctx globals =
     (case eval_if_condition cond ctx globals of
        Inl e \<Rightarrow> Inl e
      | Inr cond_res \<Rightarrow>
          if \<not> cond_res then Inr False
          else (case nested of
                  None \<Rightarrow> Inr True
                | Some ns \<Rightarrow> eval_rule_statements ns ctx globals))"
| "eval_rule_statements [] ctx globals = Inr False"
| "eval_rule_statements (stmt # stmts) ctx globals =
     (case eval_if_statement stmt ctx globals of
        Inl e \<Rightarrow> Inl e
      | Inr res \<Rightarrow> if res then Inr True else eval_rule_statements stmts ctx globals)"

definition eval_rule :: "rule \<Rightarrow> ctx \<Rightarrow> globals \<Rightarrow> interpreter_error + bool" where
  "eval_rule r ctx globals = eval_rule_statements (rule_statements r) ctx globals"

section \<open>Outputs\<close>

definition remove_at :: "nat \<Rightarrow> 'a list \<Rightarrow> 'a list" where
  "remove_at i xs = take i xs @ drop (Suc i) xs"

definition sample_split_winner_first ::
  "(u8 list \<Rightarrow> nat option) \<Rightarrow> 'a volume_split list \<Rightarrow> routing_error + 'a list" where
  "sample_split_winner_first sampler splits =
     (case sampler (List.map vs_split splits) of
        None \<Rightarrow> Inl VolumeSplitFailed
      | Some idx \<Rightarrow>
          if length splits \<le> idx then Inl VolumeSplitFailed
          else Inr (List.map vs_output (splits ! idx # remove_at idx splits)))"

definition perform_volume_split ::
  "(u8 list \<Rightarrow> nat option) \<Rightarrow> connector_info volume_split list \<Rightarrow> routing_error + connector_info list" where
  "perform_volume_split sampler splits = sample_split_winner_first sampler splits"

definition push_new :: "'a list \<Rightarrow> 'a \<Rightarrow> 'a list" where
  "push_new ordered c = (if c \<in> set ordered then ordered else ordered @ [c])"

definition perform_volume_split_priority ::
  "(u8 list \<Rightarrow> nat option) \<Rightarrow> connector_info list volume_split list \<Rightarrow>
   routing_error + connector_info list" where
  "perform_volume_split_priority sampler splits =
     rbind (sample_split_winner_first sampler splits)
       (\<lambda>os. Inr (foldl push_new [] (concat os)))"

fun evaluate_output ::
  "(u8 list \<Rightarrow> nat option) \<Rightarrow> algo_output \<Rightarrow> routing_error + connector_info list" where
  "evaluate_output sampler (Single c) = Inr [c]"
| "evaluate_output sampler (Priority cs) = Inr cs"
| "evaluate_output sampler (VolumeSplit splits) = perform_volume_split sampler splits"
| "evaluate_output sampler (VolumeSplitPriority splits) =
     perform_volume_split_priority sampler splits"

section \<open>Programs\<close>

definition output_error :: "routing_error \<Rightarrow> interpreter_error" where
  "output_error e =
     \<lparr>ie_error_type = OutputEvaluationFailed (case e of VolumeSplitFailed \<Rightarrow> ''VolumeSplitFailed''),
      ie_metadata = []\<rparr>"

fun eval_rules ::
  "(u8 list \<Rightarrow> nat option) \<Rightarrow> program \<Rightarrow> ctx \<Rightarrow> rule list \<Rightarrow> interpreter_error + backend_output" where
  "eval_rules sampler p ctx [] =
     rbind (map_err output_error (evaluate_output sampler (default_selection p)))
       (\<lambda>ev. Inr \<lparr>bo_rule_name = None, bo_output = default_selection p, bo_evaluated_output = ev\<rparr>)"
| "eval_rules sampler p ctx (r # rs) =
     (case eval_rule r ctx (prog_globals p) of
        Inl e \<Rightarrow> Inl e
      | Inr res \<Rightarrow>
          if res then
            rbind (map_err output_error (evaluate_output sampler (rule_output r)))
              (\<lambda>ev. Inr \<lparr>bo_rule_name = Some (rule_name r), bo_output = rule_output r,
                        bo_evaluated_output = ev\<rparr>)
          else eval_rules sampler p ctx rs)"

definition eval_program ::
  "(u8 list \<Rightarrow> nat option) \<Rightarrow> program \<Rightarrow> ctx \<Rightarrow> interpreter_error + backend_output" where
  "eval_program sampler p ctx = eval_rules sampler p ctx (prog_rules p)"

section \<open>The interpreter decides the paths\<close>

definition cmp_holds :: "ctx \<Rightarrow> globals \<Rightarrow> comparison \<Rightarrow> bool" where
  "cmp_holds ctx globals c \<longleftrightarrow> eval_comparison c ctx globals = Inr True"

definition rule_holds :: "ctx \<Rightarrow> globals \<Rightarrow> rule \<Rightarrow> bool" where
  "rule_holds ctx globals r \<longleftrightarrow> list_ex (list_all (cmp_holds ctx globals)) (rule_paths r)"

lemma eval_number_comparison_array_all:
  "eval_number_comparison_array n ncs =
     Inr (list_all (\<lambda>c. compare_numbers (nc_comparison_type c) n (nc_number c)) ncs)"
  by (induction ncs) auto

lemma eval_if_condition_cases:
  "case eval_if_condition cs ctx g of
     Inr b \<Rightarrow> b \<longleftrightarrow> list_all (cmp_holds ctx g) cs
   | Inl e \<Rightarrow> \<exists>c\<in>set cs. eval_comparison c ctx g = Inl e"
  by (induction cs) (auto simp: cmp_holds_def split: sum.splits if_splits)

definition paths_hold :: "ctx \<Rightarrow> globals \<Rightarrow> if_statement list \<Rightarrow> bool" where
  "paths_hold ctx g ss \<longleftrightarrow> list_ex (list_all (cmp_holds ctx g)) (concat (List.map stmt_paths ss))"

definition agrees ::
  "ctx \<Rightarrow> globals \<Rightarrow> if_statement list \<Rightarrow> interpreter_error + bool \<Rightarrow> bool" where
  "agrees ctx g ss res \<longleftrightarrow>
     (case res of
        Inr b \<Rightarrow> b \<longleftrightarrow> paths_hold ctx g ss
      | Inl e \<Rightarrow> \<exists>c\<in>set (concat (List.map stmt_comparisons ss)). eval_comparison c ctx g = Inl e)"

lemma paths_hold_Cons:
  "paths_hold ctx g (s # ss) \<longleftrightarrow> paths_hold ctx g [s] \<or> paths_hold ctx g ss"
  by (simp add: paths_hold_def)

lemma paths_hold_nested:
  "paths_hold ctx g [IfStatement c (Some ns)] \<longleftrightarrow> list_all (cmp_holds ctx g) c \<and> paths_hold ctx g ns"
  by (auto simp: paths_hold_def list_ex_iff list_all_iff)

lemma paths_hold_leaf:
  "paths_hold ctx g [IfStatement c None] \<longleftrightarrow> list_all (cmp_holds ctx g) c"
  by (simp add: paths_hold_def)

lemma eval_statements_agree:
  "agrees ctx g [s] (eval_if_statement s ctx g)"
  "agrees ctx g ss (eval_rule_statements ss ctx g)"
proof (induction s ctx g and ss ctx g rule: eval_if_statement_eval_rule_statements.induct)
  case (1 cond nested ctx g)
  note cond = eval_if_condition_cases [of cond ctx g]
  show ?case
  proof (cases nested)
    case None
    with cond show ?thesis
      by (auto simp: agrees_def paths_hold_leaf split: sum.splits)
  next
    case (Some ns)
    have IH: "agrees ctx g ns (eval_rule_statements ns ctx g)"
      if "eval_if_condition cond ctx g = Inr True"
      using 1 that Some by simp
    show ?thesis
    proof (cases "eval_if_condition cond ctx g")
      case (Inl e)
      with cond Some show ?thesis by (auto simp: agrees_def)
    next
      case (Inr b)
      with cond Some IH show ?thesis
        by (cases b) (auto simp: agrees_def paths_hold_nested split: sum.splits)
    qed
  qed
next
  case (2 ctx g)
  show ?case by (simp add: agrees_def paths_hold_def)
next
  case (3 s ss ctx g)
  show ?case
  proof (cases "eval_if_statement s ctx g")
    case (Inl e)
    with 3(1) show ?thesis by (auto simp: agrees_def)
  next
    case (Inr b)
    show ?thesis
    proof (cases b)
      case True
      with 3(1) Inr show ?thesis by (simp add: agrees_def paths_hold_Cons [of _ _ s ss])
    next
      case False
      with 3 Inr have "agrees ctx g ss (eval_rule_statements ss ctx g)" "\<not> paths_hold ctx g [s]"
        by (simp_all add: agrees_def)
      with Inr False show ?thesis
        by (auto simp: agrees_def paths_hold_Cons [of _ _ s ss] split: sum.splits)
    qed
  qed
qed

text \<open>
  C9. A rule is decided by the root-to-leaf paths of its statements: an answer without error is
  true exactly when every comparison along some path holds, and an error is the error of one of
  the rule's own comparisons.
\<close>

theorem eval_rule_decides_paths:
  "case eval_rule r ctx g of
     Inr b \<Rightarrow> b \<longleftrightarrow> rule_holds ctx g r
   | Inl e \<Rightarrow> \<exists>c\<in>set (rule_comparisons r). eval_comparison c ctx g = Inl e"
  using eval_statements_agree(2) [of ctx g "rule_statements r"]
  by (auto simp: agrees_def eval_rule_def rule_holds_def paths_hold_def rule_paths_def
      rule_comparisons_def split: sum.splits)

lemma eval_rule_decides:
  "eval_rule r ctx g = Inr b \<Longrightarrow> b \<longleftrightarrow> rule_holds ctx g r"
  "eval_rule r ctx g = Inl e \<Longrightarrow> \<exists>c\<in>set (rule_comparisons r). eval_comparison c ctx g = Inl e"
  using eval_statements_agree(2) [of ctx g "rule_statements r"]
  by (auto simp: agrees_def eval_rule_def rule_holds_def paths_hold_def rule_paths_def
      rule_comparisons_def split: sum.splits)

definition first_rule :: "program \<Rightarrow> ctx \<Rightarrow> rule option" where
  "first_rule p ctx = find (rule_holds ctx (prog_globals p)) (prog_rules p)"

definition selected_output :: "program \<Rightarrow> ctx \<Rightarrow> string option \<times> algo_output" where
  "selected_output p ctx =
     (case first_rule p ctx of
        Some r \<Rightarrow> (Some (rule_name r), rule_output r)
      | None \<Rightarrow> (None, default_selection p))"

definition no_comparison_error :: "program \<Rightarrow> ctx \<Rightarrow> bool" where
  "no_comparison_error p ctx \<longleftrightarrow>
     (\<forall>r\<in>set (prog_rules p). \<forall>c\<in>set (rule_comparisons r).
        \<not> isl (eval_comparison c ctx (prog_globals p)))"

lemma eval_rules_first:
  "eval_rules sampler p ctx rs = Inr out \<Longrightarrow>
     (case find (rule_holds ctx (prog_globals p)) rs of
        Some r \<Rightarrow> bo_rule_name out = Some (rule_name r) \<and> bo_output out = rule_output r
      | None \<Rightarrow> bo_rule_name out = None \<and> bo_output out = default_selection p) \<and>
     evaluate_output sampler (bo_output out) = Inr (bo_evaluated_output out)"
  by (induction rs)
    (auto simp: rbind_eq_Inr map_err_def dest: eval_rule_decides(1) split: sum.splits if_splits)

text \<open>
  C1. A program that evaluates selects the output of the first rule one of whose paths holds, and
  the default selection exactly when no rule has such a path; the connectors it returns are the
  evaluation of the selected output.
\<close>

theorem eval_program_first_match:
  assumes "eval_program sampler p ctx = Inr out"
  shows "(bo_rule_name out, bo_output out) = selected_output p ctx \<and>
    evaluate_output sampler (bo_output out) = Inr (bo_evaluated_output out)"
  using eval_rules_first [OF assms [unfolded eval_program_def]]
  by (auto simp: selected_output_def first_rule_def split: option.splits)

lemma eval_program_first_match_witness:
  "\<exists>out. eval_program (\<lambda>_. Some 0)
      \<lparr>prog_globals = (\<lambda>_. None), default_selection = Priority [],
       prog_rules = [\<lparr>rule_name = ''r'', rule_routing_type = RT_Priority,
                      rule_output = Single (conn ''stripe''),
                      rule_statements =
                        [IfStatement [\<lparr>lhs = ''amount'', cmp_type = GreaterThan,
                                      cmp_value = Number 100, cmp_metadata = []\<rparr>] None]\<rparr>],
       prog_metadata = None\<rparr> [''amount'' \<mapsto> Some (Number 500)] = Inr out \<and>
     bo_output out = Single (conn ''stripe'') \<and>
     evaluate_output (\<lambda>_. Some 0) (bo_output out) = Inr (bo_evaluated_output out)"
proof -
  let ?p = "\<lparr>prog_globals = (\<lambda>_. None), default_selection = Priority [],
       prog_rules = [\<lparr>rule_name = ''r'', rule_routing_type = RT_Priority,
                      rule_output = Single (conn ''stripe''),
                      rule_statements =
                        [IfStatement [\<lparr>lhs = ''amount'', cmp_type = GreaterThan,
                                      cmp_value = Number 100, cmp_metadata = []\<rparr>] None]\<rparr>],
       prog_metadata = None\<rparr>"
  obtain out where out: "eval_program (\<lambda>_. Some 0) ?p [''amount'' \<mapsto> Some (Number 500)] = Inr out"
    "bo_output out = Single (conn ''stripe'')"
    by (simp add: eval_program_def eval_rule_def eval_comparison_def lookup_ctx_def
        compare_values_def)
  with eval_program_first_match [OF out(1)] show ?thesis by blast
qed

lemma eval_rule_no_error:
  assumes "\<forall>c\<in>set (rule_comparisons r). \<not> isl (eval_comparison c ctx g)"
  shows "eval_rule r ctx g = Inr (rule_holds ctx g r)"
  using assms eval_rule_decides [of r ctx g]
  by (cases "eval_rule r ctx g") (auto simp: isl_def)

lemma eval_rules_no_error:
  assumes "\<forall>r\<in>set rs. \<forall>c\<in>set (rule_comparisons r).
      \<not> isl (eval_comparison c ctx (prog_globals p))"
  shows "eval_rules sampler p ctx rs =
    (let (n, sel) = (case find (rule_holds ctx (prog_globals p)) rs of
         Some r \<Rightarrow> (Some (rule_name r), rule_output r) | None \<Rightarrow> (None, default_selection p))
     in rbind (map_err output_error (evaluate_output sampler sel))
          (\<lambda>ev. Inr \<lparr>bo_rule_name = n, bo_output = sel, bo_evaluated_output = ev\<rparr>))"
  using assms by (induction rs) (auto simp: eval_rule_no_error)

text \<open>
  C2. When none of the program's comparisons is malformed for the request, evaluation never
  reports an invalid comparison: it is the evaluation of the selected output, tagged with the
  name of the rule that supplied it, and the only error left is a volume split that cannot be
  sampled.
\<close>

theorem eval_program_total:
  assumes "no_comparison_error p ctx"
  shows "eval_program sampler p ctx =
    rbind (map_err output_error (evaluate_output sampler (snd (selected_output p ctx))))
      (\<lambda>ev. Inr \<lparr>bo_rule_name = fst (selected_output p ctx),
                bo_output = snd (selected_output p ctx), bo_evaluated_output = ev\<rparr>)"
  using assms unfolding eval_program_def no_comparison_error_def selected_output_def first_rule_def
  by (subst eval_rules_no_error) (auto split: option.splits)

lemma eval_program_total_witness:
  "eval_program (\<lambda>_. None)
      \<lparr>prog_globals = (\<lambda>_. None),
       default_selection = VolumeSplit [weighted 0 (conn ''a'')],
       prog_rules = [\<lparr>rule_name = ''r'', rule_routing_type = RT_Priority, rule_output = Priority [],
                      rule_statements =
                        [IfStatement [\<lparr>lhs = ''amount'', cmp_type = LessThan,
                                      cmp_value = Number 100, cmp_metadata = []\<rparr>] None]\<rparr>],
       prog_metadata = None\<rparr> [''amount'' \<mapsto> Some (Number 500)]
   = Inl (output_error VolumeSplitFailed)"
  by (subst eval_program_total)
    (simp_all add: no_comparison_error_def selected_output_def first_rule_def rule_holds_def
      rule_paths_def rule_comparisons_def cmp_holds_def eval_comparison_def lookup_ctx_def
      compare_values_def perform_volume_split_def sample_split_winner_first_def)

section \<open>Volume splits\<close>

lemma mset_remove_at: "i < length xs \<Longrightarrow> add_mset (xs ! i) (mset (remove_at i xs)) = mset xs"
  by (metis append_take_drop_id id_take_nth_drop remove_at_def add_mset_add_single
      mset.simps(2) mset_append union_mset_add_mset_right)

lemma sample_split_winner_first_Inr:
  assumes "sample_split_winner_first sampler splits = Inr os"
  obtains i where "sampler (List.map vs_split splits) = Some i" "i < length splits"
    "os = vs_output (splits ! i) # List.map vs_output (remove_at i splits)"
  using assms by (auto simp: sample_split_winner_first_def not_le split: option.splits if_splits)

lemma sample_split_winner_first_mset:
  assumes "sample_split_winner_first sampler splits = Inr os"
  shows "mset os = image_mset vs_output (mset splits)"
proof -
  obtain i where i: "i < length splits"
    "os = vs_output (splits ! i) # List.map vs_output (remove_at i splits)"
    using assms by (rule sample_split_winner_first_Inr)
  have "mset os = image_mset vs_output (add_mset (splits ! i) (mset (remove_at i splits)))"
    using i(2) by simp
  then show ?thesis using mset_remove_at [OF i(1)] by simp
qed

lemma push_new_foldl:
  "distinct acc \<Longrightarrow> distinct (foldl push_new acc cs) \<and>
     set (foldl push_new acc cs) = set acc \<union> set cs \<and> prefix acc (foldl push_new acc cs)"
proof (induction cs arbitrary: acc)
  case (Cons c cs)
  have "distinct (push_new acc c)" "prefix acc (push_new acc c)"
    "set (push_new acc c) = insert c (set acc)"
    using Cons.prems by (auto simp: push_new_def)
  with Cons.IH [of "push_new acc c"] show ?case by (auto intro: prefix_order.trans)
qed simp

lemma push_new_foldl_distinct:
  "distinct (acc @ cs) \<Longrightarrow> foldl push_new acc cs = acc @ cs"
  by (induction cs arbitrary: acc) (auto simp: push_new_def)

text \<open>
  A volume split over connectors returns every connector of the split exactly as often as it
  was listed, with the sampled one first and the others in their listed order.
\<close>

theorem perform_volume_split_perm:
  assumes "perform_volume_split sampler splits = Inr cs"
  shows "mset cs = image_mset vs_output (mset splits) \<and>
    (\<exists>i < length splits. sampler (List.map vs_split splits) = Some i \<and>
       hd cs = vs_output (splits ! i) \<and>
       tl cs = List.map vs_output (take i splits @ drop (Suc i) splits))"
  using assms unfolding perform_volume_split_def
  by (auto elim: sample_split_winner_first_Inr intro: sample_split_winner_first_mset
      simp: remove_at_def)

lemma perform_volume_split_perm_witness:
  "mset [conn ''b'', conn ''a'', conn ''c''] =
     image_mset vs_output (mset [weighted 20 (conn ''a''), weighted 50 (conn ''b''), weighted 30 (conn ''c'')])"
proof -
  have "perform_volume_split (\<lambda>ws. if ws = [20, 50, 30] then Some 1 else None)
      [weighted 20 (conn ''a''), weighted 50 (conn ''b''), weighted 30 (conn ''c'')]
    = Inr [conn ''b'', conn ''a'', conn ''c'']"
    by (simp add: perform_volume_split_def sample_split_winner_first_def remove_at_def)
  from perform_volume_split_perm [OF this] show ?thesis by blast
qed

text \<open>
  A volume split over priority lists returns every connector of every list exactly once, and
  opens with the sampled list whenever that list names no connector twice.
\<close>

theorem perform_volume_split_priority_order:
  assumes "perform_volume_split_priority sampler splits = Inr cs"
  shows "distinct cs \<and> set cs = (\<Union>s\<in>set splits. set (vs_output s)) \<and>
    (\<exists>i < length splits. sampler (List.map vs_split splits) = Some i \<and>
       (distinct (vs_output (splits ! i)) \<longrightarrow> prefix (vs_output (splits ! i)) cs))"
proof -
  obtain os where os: "sample_split_winner_first sampler splits = Inr os"
    and cs: "cs = foldl push_new [] (concat os)"
    using assms by (auto simp: perform_volume_split_priority_def rbind_eq_Inr)
  obtain i where i: "sampler (List.map vs_split splits) = Some i" "i < length splits"
    "os = vs_output (splits ! i) # List.map vs_output (remove_at i splits)"
    using os by (rule sample_split_winner_first_Inr)
  have "set_mset (mset os) = set_mset (image_mset vs_output (mset splits))"
    using sample_split_winner_first_mset [OF os] by simp
  then have set_os: "set os = vs_output ` set splits" by simp
  have "prefix (vs_output (splits ! i)) cs" if d: "distinct (vs_output (splits ! i))"
    using push_new_foldl [of "vs_output (splits ! i)" "concat (tl os)"] d
      push_new_foldl_distinct [of "[]" "vs_output (splits ! i)"]
    by (simp add: cs i(3))
  then show ?thesis
    using push_new_foldl [of "[]" "concat os"] i(1,2) by (auto simp: cs set_os)
qed

lemma perform_volume_split_priority_order_witness:
  "distinct [conn ''b'', conn ''a''] \<and> set [conn ''b'', conn ''a''] =
     (\<Union>s\<in>set [weighted 70 [conn ''a''], weighted 30 [conn ''b'', conn ''a'']]. set (vs_output s))"
proof -
  have "perform_volume_split_priority (\<lambda>ws. Some 1)
      [weighted 70 [conn ''a''], weighted 30 [conn ''b'', conn ''a'']]
    = Inr [conn ''b'', conn ''a'']"
    by (simp add: perform_volume_split_priority_def sample_split_winner_first_def remove_at_def
        push_new_def)
  from perform_volume_split_priority_order [OF this] show ?thesis by blast
qed

end
