(* ===== verification/Euclid_Validate.thy ===== *)
theory Euclid_Validate
  imports Euclid_Interp
begin

text \<open>
  Validation of routing rules against the key configuration: \<open>src/src/euclid/utils.rs\<close> with
  \<open>KeyConfig\<close>, \<open>FieldValidationRules\<close> and \<open>TomlConfig\<close> of \<open>types.rs\<close>. A message is kept as its
  format string and arguments. The crate \<open>regex\<close> is the parameter \<open>regex_new\<close>: the matcher of a
  pattern, or \<open>None\<close> when the pattern does not compile.
\<close>

section \<open>Key configuration\<close>

datatype key_data_type = KInteger | KEnum | KUdf | KStrValue | KGlobalRef

fun key_type_as_str :: "key_data_type \<Rightarrow> string" where
  "key_type_as_str KInteger = ''integer''"
| "key_type_as_str KEnum = ''enum''"
| "key_type_as_str KUdf = ''udf''"
| "key_type_as_str KStrValue = ''str_value''"
| "key_type_as_str KGlobalRef = ''global_ref''"

record key_config =
  kc_data_type :: key_data_type
  kc_values :: "string option"
  kc_min_value :: "int option"
  kc_max_value :: "int option"
  kc_min_length :: "nat option"
  kc_max_length :: "nat option"
  kc_exact_length :: "nat option"
  kc_regex :: "string option"

record field_validation_rules =
  fv_min_value :: "int option"
  fv_max_value :: "int option"
  fv_min_length :: "nat option"
  fv_max_length :: "nat option"
  fv_exact_length :: "nat option"
  fv_regex_pattern :: "(string \<Rightarrow> bool) option"

type_synonym regex_new = "string \<Rightarrow> (string \<Rightarrow> bool) option"

record toml_config =
  toml_keys :: "key_config hmap"

datatype fmt_arg =
    AStr string
  | ANat nat
  | AInt int
  | ACmp comparison_type
  | AKeyType key_data_type
  | AType data_type
  | AStrs "string list"

datatype message =
    Msg string "fmt_arg list"
  | Element nat message
  | Joined "message list"

record validation_error_details =
  ve_field :: string
  ve_error_type :: string
  ve_message :: message

record validation_result =
  is_valid :: bool
  vr_errors :: "validation_error_details list"
  error_summary :: "message option"

datatype euclid_error = GlobalRoutingConfigsUnavailable

definition vr_success :: validation_result where
  "vr_success = \<lparr>is_valid = True, vr_errors = [], error_summary = None\<rparr>"

definition vr_failure :: "validation_error_details list \<Rightarrow> validation_result" where
  "vr_failure errors =
     \<lparr>is_valid = False, vr_errors = errors,
      error_summary = (if errors = [] then None else Some (Joined (List.map ve_message errors)))\<rparr>"

definition to_error_message :: "validation_result \<Rightarrow> message" where
  "to_error_message r = unwrap_or (error_summary r) (Msg ''Validation failed'' [])"

definition has_validation_constraints :: "key_config \<Rightarrow> bool" where
  "has_validation_constraints k \<longleftrightarrow>
     kc_min_value k \<noteq> None \<or> kc_max_value k \<noteq> None \<or> kc_min_length k \<noteq> None \<or>
     kc_max_length k \<noteq> None \<or> kc_exact_length k \<noteq> None \<or> kc_regex k \<noteq> None"

definition build_validation_rules ::
  "regex_new \<Rightarrow> key_config \<Rightarrow> message + field_validation_rules" where
  "build_validation_rules regex_new k =
     rbind
       (case kc_regex k of
          Some pattern \<Rightarrow>
            (case regex_new pattern of
               Some rx \<Rightarrow> Inr (Some rx)
             | None \<Rightarrow> Inl (Msg ''Invalid regex pattern '' [AStr pattern]))
        | None \<Rightarrow> Inr None)
       (\<lambda>rx. Inr \<lparr>fv_min_value = kc_min_value k, fv_max_value = kc_max_value k,
                 fv_min_length = kc_min_length k, fv_max_length = kc_max_length k,
                 fv_exact_length = kc_exact_length k, fv_regex_pattern = rx\<rparr>)"

definition parse_enum_values :: "key_config \<Rightarrow> string list" where
  "parse_enum_values k =
     (case kc_values k of
        Some s \<Rightarrow> List.map trim (split_on (CHR '','') s)
      | None \<Rightarrow> [])"

definition get_all_enum_definitions :: "toml_config \<Rightarrow> (string list) hmap" where
  "get_all_enum_definitions config =
     foldl (\<lambda>result (key, k).
         if kc_data_type k = KEnum then
           (let values = parse_enum_values k in
            if values \<noteq> [] then hm_insert key values result else result)
         else result)
       [] (toml_keys config)"

definition is_valid_enum_value :: "toml_config \<Rightarrow> string \<Rightarrow> string \<Rightarrow> bool" where
  "is_valid_enum_value config key value \<longleftrightarrow>
     (case map_of (toml_keys config) key of
        Some k \<Rightarrow> if kc_data_type k = KEnum then value \<in> set (parse_enum_values k) else False
      | None \<Rightarrow> False)"

definition get_keys_by_type :: "toml_config \<Rightarrow> (string list) hmap" where
  "get_keys_by_type config =
     foldl (\<lambda>result (key, k).
         (let t = key_type_as_str (kc_data_type k) in
          case map_of result t of
            Some keys \<Rightarrow> hm_insert t (keys @ [key]) result
          | None \<Rightarrow> result))
       [(''enum'', []), (''integer'', []), (''udf'', []), (''str_value'', [])]
       (toml_keys config)"

section \<open>Field checks\<close>

definition validate_numeric_range ::
  "string \<Rightarrow> int \<Rightarrow> field_validation_rules \<Rightarrow> message + unit" where
  "validate_numeric_range field value rules =
     rbind
       (case fv_min_value rules of
          Some mn \<Rightarrow>
            if value < mn
            then Inl (Msg ''value is below minimum'' [AStr field, AInt value, AInt mn])
            else Inr ()
        | None \<Rightarrow> Inr ())
       (\<lambda>_. case fv_max_value rules of
          Some mx \<Rightarrow>
            if value > mx
            then Inl (Msg ''value exceeds maximum'' [AStr field, AInt value, AInt mx])
            else Inr ()
        | None \<Rightarrow> Inr ())"

definition validate_string_length ::
  "string \<Rightarrow> string \<Rightarrow> nat option \<Rightarrow> nat option \<Rightarrow> message + unit" where
  "validate_string_length field value min_length max_length =
     (let len = length value in
      rbind
        (case min_length of
           Some mn \<Rightarrow>
             if len < mn
             then Inl (Msg ''length is below minimum'' [AStr field, ANat len, ANat mn])
             else Inr ()
         | None \<Rightarrow> Inr ())
        (\<lambda>_. case max_length of
           Some mx \<Rightarrow>
             if len > mx
             then Inl (Msg ''length exceeds maximum'' [AStr field, ANat len, ANat mx])
             else Inr ()
         | None \<Rightarrow> Inr ()))"

definition validate_exact_length :: "string \<Rightarrow> string \<Rightarrow> nat \<Rightarrow> message + unit" where
  "validate_exact_length field value expected =
     (if length value \<noteq> expected
      then Inl (Msg ''expected characters'' [AStr field, ANat expected, ANat (length value)])
      else Inr ())"

definition validate_regex_pattern ::
  "string \<Rightarrow> string \<Rightarrow> (string \<Rightarrow> bool) option \<Rightarrow> message + unit" where
  "validate_regex_pattern field value pattern =
     (case pattern of
        Some rx \<Rightarrow>
          if \<not> rx value
          then Inl (Msg ''value does not match required pattern'' [AStr field]) else Inr ()
      | None \<Rightarrow> Inr ())"

definition push_err :: "message + unit \<Rightarrow> message list \<Rightarrow> message list" where
  "push_err r errors = (case r of Inl e \<Rightarrow> errors @ [e] | Inr _ \<Rightarrow> errors)"

definition validate_string_value ::
  "string \<Rightarrow> string \<Rightarrow> field_validation_rules \<Rightarrow> message + unit" where
  "validate_string_value field value rules =
     (let errors =
        (case fv_exact_length rules of
           Some exact \<Rightarrow> push_err (validate_exact_length field value exact) []
         | None \<Rightarrow>
             if fv_min_length rules \<noteq> None \<or> fv_max_length rules \<noteq> None
             then push_err
               (validate_string_length field value (fv_min_length rules) (fv_max_length rules)) []
             else []);
        errors = push_err (validate_regex_pattern field value (fv_regex_pattern rules)) errors
      in if errors = [] then Inr () else Inl (Joined errors))"

section \<open>Conditions\<close>

definition ve_new :: "string \<Rightarrow> string \<Rightarrow> message \<Rightarrow> validation_error_details" where
  "ve_new field ty m = \<lparr>ve_field = field, ve_error_type = ty, ve_message = m\<rparr>"

text \<open>The first match of \<open>validate_condition\<close>: does the operator suit the key's type?\<close>

definition check_operator :: "comparison \<Rightarrow> key_config \<Rightarrow> validation_error_details list" where
  "check_operator c k =
     (case (kc_data_type k, cmp_type c) of
        (KInteger, _) \<Rightarrow> []
      | (KEnum, Equal) \<Rightarrow> []
      | (KEnum, NotEqual) \<Rightarrow> []
      | (KEnum, _) \<Rightarrow>
          [ve_new (lhs c) ''invalid_comparison''
             (Msg ''expected Equal or NotEqual'' [AStr (lhs c), ACmp (cmp_type c)])]
      | (_, ct) \<Rightarrow>
          if ct \<noteq> Equal \<and> ct \<noteq> NotEqual
          then [ve_new (lhs c) ''comparison_warning''
                 (Msg ''may not be appropriate''
                    [ACmp (cmp_type c), AStr (lhs c), AKeyType (kc_data_type k)])]
          else [])"

text \<open>\<open>*n as i64\<close> reinterprets the 64 bits.\<close>

definition as_i64 :: "u64 \<Rightarrow> int" where
  "as_i64 n = sint n"

definition check_rules ::
  "regex_new \<Rightarrow> key_config \<Rightarrow> (field_validation_rules \<Rightarrow> validation_error_details list) \<Rightarrow>
   validation_error_details list" where
  "check_rules regex_new k f =
     (if has_validation_constraints k then
        (case build_validation_rules regex_new k of Inr rules \<Rightarrow> f rules | Inl _ \<Rightarrow> [])
      else [])"

definition range_error ::
  "string \<Rightarrow> u64 \<Rightarrow> field_validation_rules \<Rightarrow> (message \<Rightarrow> message) \<Rightarrow> validation_error_details list" where
  "range_error field n rules wrap =
     (case validate_numeric_range field (as_i64 n) rules of
        Inl e \<Rightarrow> [ve_new field ''value_out_of_range'' (wrap e)]
      | Inr _ \<Rightarrow> [])"

definition string_error ::
  "string \<Rightarrow> string \<Rightarrow> field_validation_rules \<Rightarrow> validation_error_details list" where
  "string_error field s rules =
     (case validate_string_value field s rules of
        Inl e \<Rightarrow> [ve_new field ''length_invalid'' e]
      | Inr _ \<Rightarrow> [])"

definition type_mismatch :: "comparison \<Rightarrow> string \<Rightarrow> validation_error_details" where
  "type_mismatch c expected =
     ve_new (lhs c) ''type_mismatch''
       (Msg expected [AStr (lhs c), AType (get_type (cmp_value c))])"

text \<open>The second match: the value against the key's type, its values and its constraints.\<close>

definition check_value ::
  "regex_new \<Rightarrow> toml_config \<Rightarrow> comparison \<Rightarrow> key_config \<Rightarrow> validation_error_details list" where
  "check_value regex_new config c k =
     (case (kc_data_type k, cmp_value c) of
        (KEnum, EnumVariant value) \<Rightarrow>
          if \<not> is_valid_enum_value config (lhs c) value
          then [ve_new (lhs c) ''invalid_enum_value''
                 (Msg ''expected one of'' [AStr (lhs c), AStrs (parse_enum_values k), AStr value])]
          else []
      | (KEnum, EnumVariantArray arr) \<Rightarrow>
          (let invalid = filter (\<lambda>v. \<not> is_valid_enum_value config (lhs c) v) arr in
           if invalid \<noteq> []
           then [ve_new (lhs c) ''invalid_enum_values''
                  (Msg ''expected values from''
                     [AStr (lhs c), AStrs (parse_enum_values k), AStrs invalid])]
           else [])
      | (KEnum, _) \<Rightarrow> [type_mismatch c ''expected enum variant'']
      | (KInteger, Number n) \<Rightarrow>
          check_rules regex_new k (\<lambda>rules. range_error (lhs c) n rules id)
      | (KInteger, NumberArray arr) \<Rightarrow>
          (if cmp_type c \<noteq> Equal \<and> cmp_type c \<noteq> NotEqual
           then [ve_new (lhs c) ''invalid_comparison''
                  (Msg ''Only '==' or '!=' allowed with number arrays'' [AStr (lhs c)])]
           else []) @
          check_rules regex_new k
            (\<lambda>rules. concat (List.map (\<lambda>(i, n). range_error (lhs c) n rules (Element (i + 1)))
               (enumerate 0 arr)))
      | (KInteger, NumberComparisonArray _) \<Rightarrow>
          (if cmp_type c \<noteq> Equal
           then [ve_new (lhs c) ''invalid_comparison''
                  (Msg ''Only '==' allowed with number comparison arrays'' [AStr (lhs c)])]
           else [])
      | (KInteger, _) \<Rightarrow> [type_mismatch c ''expected number'']
      | (KUdf, MetadataVariant m) \<Rightarrow>
          check_rules regex_new k (string_error (lhs c) (md_value m))
      | (KUdf, _) \<Rightarrow> [type_mismatch c ''expected metadata variant'']
      | (KStrValue, StrValue s) \<Rightarrow> check_rules regex_new k (string_error (lhs c) s)
      | _ \<Rightarrow>
          if data_type_to_string (get_type (cmp_value c)) \<noteq> key_type_as_str (kc_data_type k)
          then [type_mismatch c (key_type_as_str (kc_data_type k))]
          else [])"

definition validate_condition ::
  "regex_new \<Rightarrow> toml_config \<Rightarrow> comparison \<Rightarrow> validation_error_details list \<Rightarrow>
   validation_error_details list" where
  "validate_condition regex_new config c errors =
     (case map_of (toml_keys config) (lhs c) of
        None \<Rightarrow>
          errors @ [ve_new (lhs c) ''unknown_key''
                      (Msg ''Unknown key in condition'' [AStr (lhs c)])]
      | Some k \<Rightarrow> errors @ check_operator c k @ check_value regex_new config c k)"

section \<open>Statements, rules, algorithms\<close>

fun validate_statement ::
  "regex_new \<Rightarrow> toml_config \<Rightarrow> if_statement \<Rightarrow> validation_error_details list \<Rightarrow>
   validation_error_details list" where
  "validate_statement regex_new config (IfStatement cond nested) errors =
     (let errors = fold (validate_condition regex_new config) cond errors in
      case nested of
        None \<Rightarrow> errors
      | Some ns \<Rightarrow> fold (validate_statement regex_new config) ns errors)"

definition validate_rule ::
  "regex_new \<Rightarrow> toml_config \<Rightarrow> rule \<Rightarrow> validation_error_details list \<Rightarrow>
   validation_error_details list" where
  "validate_rule regex_new config r errors =
     fold (validate_statement regex_new config) (rule_statements r) errors"

definition validate_routing_rule ::
  "regex_new \<Rightarrow> routing_rule \<Rightarrow> toml_config option \<Rightarrow> euclid_error + validation_result" where
  "validate_routing_rule regex_new r config =
     (case config of
        None \<Rightarrow> Inl GlobalRoutingConfigsUnavailable
      | Some config \<Rightarrow>
          (case rr_algorithm r of
             Alg_Advanced p \<Rightarrow>
               (let errors = fold (validate_rule regex_new config) (prog_rules p) [] in
                if errors = [] then Inr vr_success else Inr (vr_failure errors))
           | _ \<Rightarrow> Inr vr_success))"

section \<open>Every comparison is checked, in order\<close>

definition condition_errors ::
  "regex_new \<Rightarrow> toml_config \<Rightarrow> comparison \<Rightarrow> validation_error_details list" where
  "condition_errors regex_new config c = validate_condition regex_new config c []"

definition program_comparisons :: "program \<Rightarrow> comparison list" where
  "program_comparisons p = concat (List.map rule_comparisons (prog_rules p))"

lemma validate_condition_append:
  "validate_condition regex_new config c errors = errors @ condition_errors regex_new config c"
  by (simp add: validate_condition_def condition_errors_def split: option.splits)

lemma fold_append_each:
  assumes "\<And>x acc. x \<in> set xs \<Longrightarrow> f x acc = acc @ g x"
  shows "fold f xs acc = acc @ concat (List.map g xs)"
  using assms by (induction xs arbitrary: acc) auto

lemma concat_map_concat:
  "concat (List.map (\<lambda>x. concat (List.map f (g x))) xs) = concat (List.map f (concat (List.map g xs)))"
  by (induction xs) auto

lemma validate_statement_append:
  "validate_statement regex_new config s errors =
     errors @ concat (List.map (condition_errors regex_new config) (stmt_comparisons s))"
proof (induction s arbitrary: errors)
  case (IfStatement cond nested)
  have conds: "fold (validate_condition regex_new config) cond acc =
      acc @ concat (List.map (condition_errors regex_new config) cond)" for acc
    by (rule fold_append_each) (rule validate_condition_append)
  show ?case
  proof (cases nested)
    case (Some ns)
    have "fold (validate_statement regex_new config) ns acc = acc @ concat (List.map
        (\<lambda>s. concat (List.map (condition_errors regex_new config) (stmt_comparisons s))) ns)" for acc
      using IfStatement Some by (intro fold_append_each) simp
    then show ?thesis using Some conds by (simp add: concat_map_concat)
  qed (simp add: conds)
qed

lemma validate_rule_append:
  "validate_rule regex_new config r errors =
     errors @ concat (List.map (condition_errors regex_new config) (rule_comparisons r))"
  unfolding validate_rule_def rule_comparisons_def concat_map_concat [symmetric]
  by (rule fold_append_each) (rule validate_statement_append)

lemma validate_rules_append:
  "fold (validate_rule regex_new config) (prog_rules p) [] =
     concat (List.map (condition_errors regex_new config) (program_comparisons p))"
proof -
  have "fold (validate_rule regex_new config) (prog_rules p) [] = [] @
      concat (List.map (\<lambda>r. concat (List.map (condition_errors regex_new config) (rule_comparisons r)))
        (prog_rules p))"
    by (rule fold_append_each) (rule validate_rule_append)
  then show ?thesis by (simp add: program_comparisons_def concat_map_concat)
qed

text \<open>
  C3. Validation of an advanced rule reports the errors of every comparison of every rule, at any
  depth of nesting and in program order, and calls the rule valid exactly when there are none.
\<close>

theorem validate_routing_rule_reports_all:
  assumes "rr_algorithm r = Alg_Advanced p"
  shows "\<exists>res. validate_routing_rule regex_new r (Some config) = Inr res \<and>
     vr_errors res = concat (List.map (condition_errors regex_new config) (program_comparisons p)) \<and>
     (is_valid res \<longleftrightarrow> (\<forall>c\<in>set (program_comparisons p). condition_errors regex_new config c = []))"
  using assms
  by (simp add: validate_routing_rule_def validate_rules_append vr_success_def vr_failure_def)

section \<open>A validated rule does not fail at run time\<close>

text \<open>The request agrees with the key configuration: under each configured key a value of its type.\<close>

fun type_ok :: "key_data_type \<Rightarrow> value_type \<Rightarrow> bool" where
  "type_ok KInteger (Number _) = True"
| "type_ok KEnum (EnumVariant _) = True"
| "type_ok KUdf (MetadataVariant _) = True"
| "type_ok KStrValue (StrValue _) = True"
| "type_ok KGlobalRef _ = True"
| "type_ok _ _ = False"

definition ctx_typed :: "toml_config \<Rightarrow> ctx \<Rightarrow> bool" where
  "ctx_typed config ctx \<longleftrightarrow>
     (\<forall>(key, _)\<in>set (toml_keys config).
        case (map_of (toml_keys config) key, ctx key) of
          (Some k, Some (Some v)) \<Rightarrow> type_ok (kc_data_type k) v
        | _ \<Rightarrow> True)"

text \<open>The one shape validation accepts although the interpreter cannot evaluate it.\<close>

definition negated_global :: "comparison \<Rightarrow> bool" where
  "negated_global c \<longleftrightarrow>
     cmp_type c = NotEqual \<and> (case cmp_value c of GlobalRef _ \<Rightarrow> True | _ \<Rightarrow> False)"

lemma ctx_typedD:
  "ctx_typed config ctx \<Longrightarrow> map_of (toml_keys config) key = Some k \<Longrightarrow> ctx key = Some (Some v) \<Longrightarrow>
     type_ok (kc_data_type k) v"
  unfolding ctx_typed_def by (drule bspec, erule map_of_SomeD) simp

lemma check_operator_Nil:
  "check_operator c k = [] \<Longrightarrow> kc_data_type k \<noteq> KInteger \<Longrightarrow>
     cmp_type c = Equal \<or> cmp_type c = NotEqual"
  by (auto simp: check_operator_def split: key_data_type.splits comparison_type.splits if_splits)

lemma check_value_shape:
  assumes "check_value regex_new config c k = []"
  shows "case kc_data_type k of
      KInteger \<Rightarrow> (\<exists>n. cmp_value c = Number n) \<or>
        (\<exists>ns. cmp_value c = NumberArray ns \<and> (cmp_type c = Equal \<or> cmp_type c = NotEqual)) \<or>
        (\<exists>ns. cmp_value c = NumberComparisonArray ns \<and> cmp_type c = Equal)
    | KEnum \<Rightarrow> (\<exists>e. cmp_value c = EnumVariant e) \<or> (\<exists>es. cmp_value c = EnumVariantArray es)
    | KUdf \<Rightarrow> \<exists>m. cmp_value c = MetadataVariant m
    | KStrValue \<Rightarrow> \<exists>s. cmp_value c = StrValue s
    | KGlobalRef \<Rightarrow> \<exists>g. cmp_value c = GlobalRef g"
  using assms
  by (cases "kc_data_type k"; cases "cmp_value c") (simp_all add: check_value_def split: if_splits)

lemma lookup_ctx_typed:
  assumes "ctx_typed config ctx" "map_of (toml_keys config) (lhs c) = Some k"
    and "lookup_ctx ctx c = Some (Some v)"
  shows "type_ok (kc_data_type k) v \<or> is_metadata v \<and> is_metadata (cmp_value c)"
proof -
  have "ctx (lhs c) = Some (Some v) \<or> is_metadata v \<and> is_metadata (cmp_value c)"
    using assms(3)
    by (auto simp: lookup_ctx_def opt_or_def opt_filter_Some_iff split: value_type.splits option.splits)
  with ctx_typedD [OF assms(1,2)] show ?thesis by blast
qed

lemma compare_values_ok:
  assumes "type_ok t v \<or> is_metadata v \<and> is_metadata rhs"
    and "case t of
      KInteger \<Rightarrow> (\<exists>n. rhs = Number n) \<or> (\<exists>ns. rhs = NumberArray ns \<and> (ct = Equal \<or> ct = NotEqual)) \<or>
        (\<exists>ns. rhs = NumberComparisonArray ns \<and> ct = Equal)
    | KEnum \<Rightarrow> (\<exists>e. rhs = EnumVariant e) \<or> (\<exists>es. rhs = EnumVariantArray es)
    | KUdf \<Rightarrow> \<exists>m. rhs = MetadataVariant m
    | KStrValue \<Rightarrow> \<exists>s. rhs = StrValue s
    | KGlobalRef \<Rightarrow> \<exists>g. rhs = GlobalRef g"
    and "t \<noteq> KInteger \<Longrightarrow> ct = Equal \<or> ct = NotEqual"
    and "\<not> (t = KGlobalRef \<and> ct = NotEqual)"
  shows "\<not> isl (compare_values globals md v ct rhs)"
  using assms
  by (cases t; cases v; cases rhs; cases ct)
    (simp_all add: compare_values_def eval_number_comparison_array_all)

lemma validated_comparison_ok:
  assumes typed: "ctx_typed config ctx"
    and valid: "condition_errors regex_new config c = []"
    and glob: "\<not> negated_global c"
  shows "\<not> isl (eval_comparison c ctx g)"
proof -
  obtain k where k: "map_of (toml_keys config) (lhs c) = Some k"
    and op: "check_operator c k = []" and val: "check_value regex_new config c k = []"
    using valid
    by (cases "map_of (toml_keys config) (lhs c)")
      (auto simp: condition_errors_def validate_condition_def)
  have "\<not> isl (compare_values g (cmp_metadata c) v (cmp_type c) (cmp_value c))"
    if look: "lookup_ctx ctx c = Some (Some v)" for v
    using check_value_shape [OF val] glob
    by (intro compare_values_ok [OF lookup_ctx_typed [OF typed k look]])
      (auto simp: negated_global_def dest: check_operator_Nil [OF op])
  then show ?thesis by (simp add: eval_comparison_def split: option.splits)
qed

text \<open>
  C4. Validation is sound for the interpreter up to one gap. When an advanced rule passes validation and
  the request's values have the configured types, the only comparisons of the program that can fail are
  those that negate a global reference. If there is none of these, the outcome is the evaluation of the
  output the first satisfied rule selects, or of the default.
\<close>

theorem validated_program_runs:
  assumes "validate_routing_rule regex_new r (Some config) = Inr res" "is_valid res"
    and "rr_algorithm r = Alg_Advanced p"
    and "ctx_typed config ctx"
  shows "(\<forall>rl\<in>set (prog_rules p). \<forall>c\<in>set (rule_comparisons rl).
      isl (eval_comparison c ctx (prog_globals p)) \<longrightarrow> negated_global c) \<and>
    ((\<forall>c\<in>set (program_comparisons p). \<not> negated_global c) \<longrightarrow> no_comparison_error p ctx \<and>
      map_err ie_error_type (eval_program sampler p ctx) =
        rbind (map_err (\<lambda>_. OutputEvaluationFailed ''VolumeSplitFailed'')
            (evaluate_output sampler (snd (selected_output p ctx))))
          (\<lambda>ev. Inr \<lparr>bo_rule_name = fst (selected_output p ctx),
                    bo_output = snd (selected_output p ctx), bo_evaluated_output = ev\<rparr>))"
proof -
  have "\<forall>c\<in>set (program_comparisons p). condition_errors regex_new config c = []"
    using assms(1-3)
    by (auto simp: validate_routing_rule_def validate_rules_append vr_failure_def Let_def
        split: if_splits)
  then have only: "negated_global c"
    if "rl \<in> set (prog_rules p)" "c \<in> set (rule_comparisons rl)" "isl (eval_comparison c ctx (prog_globals p))" for rl c
    using that validated_comparison_ok [OF assms(4), of regex_new c "prog_globals p"]
    by (auto simp: program_comparisons_def)
  have "no_comparison_error p ctx" if "\<forall>c\<in>set (program_comparisons p). \<not> negated_global c"
    using that only by (auto simp: no_comparison_error_def program_comparisons_def)
  then show ?thesis
    using only eval_rules_no_error [of "prog_rules p" ctx p sampler]
    by (auto simp: no_comparison_error_def eval_program_def selected_output_def first_rule_def
        rbind_def map_err_def output_error_def split: option.splits sum.splits routing_error.splits)
qed

text \<open>
  The gap is real: a \<open>!=\<close> against a global reference passes validation, and evaluating
  it on a request that carries the key is an \<open>InvalidComparison\<close> error.
\<close>

theorem negated_global_passes_then_fails:
  "map_of (toml_keys config) (lhs c) = Some k \<Longrightarrow> kc_data_type k = KGlobalRef \<Longrightarrow>
   negated_global c \<Longrightarrow> ctx (lhs c) = Some (Some v) \<Longrightarrow>
   condition_errors regex_new config c = [] \<and>
   eval_comparison c ctx g =
     Inl \<lparr>ie_error_type = InvalidComparison, ie_metadata = cmp_metadata c\<rparr>"
  by (cases v)
    (auto simp: condition_errors_def validate_condition_def check_operator_def check_value_def
      negated_global_def eval_comparison_def lookup_ctx_def compare_values_def
      split: value_type.splits)

lemma sint_as_uint: "sint (n :: u64) = (if uint n < 2 ^ 63 then uint n else uint n - 2 ^ 64)"
proof -
  have b: "0 \<le> uint n" "uint n < 2 ^ 64" using uint_lt2p [of n] by simp_all
  then have tb: "take_bit 64 (uint n) = uint n" by (simp add: take_bit_int_eq_self_iff)
  show ?thesis
  proof (cases "uint n < 2 ^ 63")
    case True
    moreover have "- (2 ^ 63) \<le> uint n" using b(1) by (simp add: order_trans [of _ 0])
    ultimately show ?thesis by (simp add: sint_uint signed_take_bit_int_eq_self_iff)
  next
    case False
    with b have "uint n div 2 ^ 63 = 1" by (intro int_div_pos_eq [of _ _ _ "uint n - 2 ^ 63"]) auto
    then have "bit (uint n) 63" by (simp add: bit_iff_odd)
    with False tb show ?thesis
      by (simp add: sint_uint signed_take_bit_eq_take_bit_minus)
  qed
qed

text \<open>
  For a number below two to the sixty-third, the range check of an integer key accepts
  exactly the numbers between the configured bounds; a larger number is read as a negative one,
  so it passes every maximum and fails every nonnegative minimum.
\<close>

theorem integer_range_check:
  "check_value regex_new config
     \<lparr>lhs = key, cmp_type = ct, cmp_value = Number n, cmp_metadata = md\<rparr>
     (k\<lparr>kc_data_type := KInteger, kc_regex := None\<rparr>) = [] \<longleftrightarrow>
   (let i = (if uint n < 2 ^ 63 then uint n else uint n - 2 ^ 64) in
      (case kc_min_value k of Some mn \<Rightarrow> mn \<le> i | None \<Rightarrow> True) \<and>
      (case kc_max_value k of Some mx \<Rightarrow> i \<le> mx | None \<Rightarrow> True))"
proof -
  show ?thesis
    by (auto simp: check_value_def check_rules_def sint_as_uint has_validation_constraints_def
        build_validation_rules_def range_error_def validate_numeric_range_def as_i64_def Let_def
        split: option.splits)
qed

definition demo_config :: toml_config where
  "demo_config =
     (let k = \<lparr>kc_data_type = KInteger, kc_values = None, kc_min_value = None, kc_max_value = None,
              kc_min_length = None, kc_max_length = None, kc_exact_length = None, kc_regex = None\<rparr>
      in \<lparr>toml_keys =
           [(''amount'', k\<lparr>kc_max_value := Some 1000\<rparr>),
            (''card'', k\<lparr>kc_data_type := KEnum, kc_values := Some ''debit,credit''\<rparr>),
            (''ref'', k\<lparr>kc_data_type := KGlobalRef\<rparr>)]\<rparr>)"

definition demo_program :: program where
  "demo_program =
     \<lparr>prog_globals = (\<lambda>_. None), default_selection = Priority [conn ''b''],
      prog_rules =
        [\<lparr>rule_name = ''r'', rule_routing_type = RT_Priority, rule_output = Single (conn ''a''),
          rule_statements =
            [IfStatement [\<lparr>lhs = ''card'', cmp_type = NotEqual,
                           cmp_value = EnumVariant ''debit'', cmp_metadata = []\<rparr>]
               (Some [IfStatement [\<lparr>lhs = ''amount'', cmp_type = GreaterThan,
                                    cmp_value = Number 100, cmp_metadata = []\<rparr>] None])]\<rparr>],
      prog_metadata = None\<rparr>"

definition demo_rule :: "program \<Rightarrow> routing_rule" where
  "demo_rule p =
     \<lparr>rr_rule_id = None, rr_name = ''demo'', rr_description = None, rr_created_by = ''m'',
      rr_algorithm = Alg_Advanced p, rr_algorithm_for = Payment, rr_metadata = None\<rparr>"

lemma demo_valid: "validate_routing_rule (\<lambda>_. None) (demo_rule demo_program) (Some demo_config) = Inr vr_success"
  by code_simp

lemma validate_routing_rule_reports_all_witness:
  "\<exists>res. validate_routing_rule (\<lambda>_. None) (demo_rule demo_program) (Some demo_config) = Inr res \<and>
     vr_errors res = concat (List.map (condition_errors (\<lambda>_. None) demo_config)
       (program_comparisons demo_program))"
  using validate_routing_rule_reports_all [of "demo_rule demo_program" demo_program "\<lambda>_. None"
      demo_config] by (auto simp: demo_rule_def)

lemma validated_program_runs_witness:
  "no_comparison_error demo_program
     [''card'' \<mapsto> Some (EnumVariant ''credit''), ''amount'' \<mapsto> Some (Number 500)]"
proof -
  let ?ctx = "[''card'' \<mapsto> Some (EnumVariant ''credit''), ''amount'' \<mapsto> Some (Number 500)]"
  have "is_valid vr_success" "rr_algorithm (demo_rule demo_program) = Alg_Advanced demo_program"
    by (simp_all add: vr_success_def demo_rule_def)
  moreover have "ctx_typed demo_config ?ctx"
    by (simp add: ctx_typed_def demo_config_def Let_def)
  moreover have "\<forall>c\<in>set (program_comparisons demo_program). \<not> negated_global c"
    by (simp add: program_comparisons_def rule_comparisons_def demo_program_def negated_global_def)
  ultimately show ?thesis using validated_program_runs [OF demo_valid] by blast
qed

lemma negated_global_passes_then_fails_witness:
  "let c = \<lparr>lhs = ''ref'', cmp_type = NotEqual, cmp_value = GlobalRef ''g'', cmp_metadata = []\<rparr> in
     condition_errors (\<lambda>_. None) demo_config c = [] \<and>
     eval_comparison c [''ref'' \<mapsto> Some (Number 1)] (\<lambda>_. None) =
       Inl \<lparr>ie_error_type = InvalidComparison, ie_metadata = []\<rparr>"
  using negated_global_passes_then_fails [of demo_config
      "\<lparr>lhs = ''ref'', cmp_type = NotEqual, cmp_value = GlobalRef ''g'', cmp_metadata = []\<rparr>"
      _ "[''ref'' \<mapsto> Some (Number 1)]" "Number 1" "\<lambda>_. None" "\<lambda>_. None"]
  by (simp add: demo_config_def Let_def negated_global_def)

end
