(* ===== verification/PmFilter.thy ===== *)
theory PmFilter
  imports CGraph Euclid_Validate
begin

text \<open>
  Payment-method eligibility: \<open>src/src/euclid/pm_filter_graph.rs\<close> compiles the connector filters
  of the configuration into a constraint graph and filters a request's connectors through it,
  and the eligibility helpers of \<open>src/src/euclid/handlers/routing_rules.rs\<close> apply it. The
  theorems relate the compiled graph to a direct reading of the configured filters.
\<close>

section \<open>The graph compiler\<close>

record graph_compiler =
  gc_nodes :: "node list"
  gc_edges :: "edge list"
  gc_value_nodes :: "node_value \<rightharpoonup> node_id"

definition gc_default :: graph_compiler where
  "gc_default = \<lparr>gc_nodes = [], gc_edges = [], gc_value_nodes = Map.empty\<rparr>"

definition add_node :: "node_kind \<Rightarrow> graph_compiler \<Rightarrow> node_id \<times> graph_compiler" where
  "add_node kind gc =
     (length (gc_nodes gc),
      gc\<lparr>gc_nodes := gc_nodes gc @ [\<lparr>node_kind_of = kind, preds = [], succs = []\<rparr>]\<rparr>)"

definition add_aggregator_node :: "node_kind \<Rightarrow> graph_compiler \<Rightarrow> node_id \<times> graph_compiler" where
  "add_aggregator_node kind gc = add_node kind gc"

definition value_clause :: "string \<Rightarrow> string \<Rightarrow> clause" where
  "value_clause key v =
     \<lparr>clause_key = key, clause_comparison = Equal, clause_value = EnumVariant v\<rparr>"

definition add_value_node :: "string \<Rightarrow> string \<Rightarrow> graph_compiler \<Rightarrow> node_id \<times> graph_compiler" where
  "add_value_node key v gc =
     (let node_value = NV_Value (value_clause key v) in
      case gc_value_nodes gc node_value of
        Some existing_id \<Rightarrow> (existing_id, gc)
      | None \<Rightarrow>
          (let (node_id, gc) = add_node (NK_Value node_value) gc in
           (node_id, gc\<lparr>gc_value_nodes := (gc_value_nodes gc)(node_value \<mapsto> node_id)\<rparr>)))"

text \<open>Every id the compiler passes here is one it issued, so the indexing stays in range.\<close>

definition add_edge ::
  "node_id \<Rightarrow> node_id \<Rightarrow> strength \<Rightarrow> relation \<Rightarrow> graph_compiler \<Rightarrow> graph_compiler" where
  "add_edge pred succ s r gc =
     (let edge_id = length (gc_edges gc);
          edges = gc_edges gc @ [\<lparr>edge_strength = s, edge_relation = r, edge_pred = pred, edge_succ = succ\<rparr>];
          nodes = gc_nodes gc;
          nodes = nodes[pred := (nodes ! pred)\<lparr>succs := succs (nodes ! pred) @ [edge_id]\<rparr>];
          nodes = nodes[succ := (nodes ! succ)\<lparr>preds := preds (nodes ! succ) @ [edge_id]\<rparr>]
      in gc\<lparr>gc_nodes := nodes, gc_edges := edges\<rparr>)"

section \<open>The configured filters\<close>

record not_available_flows =
  naf_capture_method :: "string option"

record currency_country_flow_filter =
  ccf_country :: "string list option"
  ccf_currency :: "string list option"
  ccf_not_available_flows :: "not_available_flows option"

type_synonym payment_method_filters = "currency_country_flow_filter hmap"
type_synonym connector_filters = "payment_method_filters hmap"

definition norm_lower :: "string \<Rightarrow> string" where
  "norm_lower s = to_ascii_lowercase (trim s)"

definition norm_upper :: "string \<Rightarrow> string" where
  "norm_upper s = to_ascii_uppercase (trim s)"

definition allowed_values :: "string list option \<Rightarrow> string list" where
  "allowed_values vs = (case vs of None \<Rightarrow> [] | Some vs \<Rightarrow> filter (\<lambda>v. v \<noteq> []) (List.map norm_upper vs))"

definition attach_any_nodes ::
  "string \<Rightarrow> string list \<Rightarrow> node_id \<Rightarrow> graph_compiler \<Rightarrow> graph_compiler" where
  "attach_any_nodes key vs parent gc =
     (if vs = [] then gc
      else
        (let (any_node, gc) = add_aggregator_node AnyAggregator gc;
             gc = fold (\<lambda>v gc. let (value_node, gc) = add_value_node key v gc in
                          add_edge value_node any_node Weak Positive gc) vs gc
         in add_edge any_node parent Normal Positive gc))"

definition attach_country_filter_nodes ::
  "currency_country_flow_filter \<Rightarrow> node_id \<Rightarrow> graph_compiler \<Rightarrow> graph_compiler" where
  "attach_country_filter_nodes f parent gc =
     attach_any_nodes ''billing_country'' (allowed_values (ccf_country f)) parent gc"

definition attach_currency_filter_nodes ::
  "currency_country_flow_filter \<Rightarrow> node_id \<Rightarrow> graph_compiler \<Rightarrow> graph_compiler" where
  "attach_currency_filter_nodes f parent gc =
     attach_any_nodes ''currency'' (allowed_values (ccf_currency f)) parent gc"

definition blocked_capture_method :: "currency_country_flow_filter \<Rightarrow> string option" where
  "blocked_capture_method f =
     map_option to_ascii_lowercase
       (opt_filter (\<lambda>v. v \<noteq> [])
          (map_option trim (Option.bind (ccf_not_available_flows f) naf_capture_method)))"

definition attach_not_available_flow_nodes ::
  "currency_country_flow_filter \<Rightarrow> node_id \<Rightarrow> graph_compiler \<Rightarrow> graph_compiler" where
  "attach_not_available_flow_nodes f parent gc =
     (case blocked_capture_method f of
        None \<Rightarrow> gc
      | Some m \<Rightarrow>
          (let (node, gc) = add_value_node ''capture_method'' m gc in
           add_edge node parent Strong Negative gc))"

section \<open>Building the bundle\<close>

definition sentinel :: string where
  "sentinel = ''__pm_default__''"

record build_state =
  bs_compiler :: graph_compiler
  bs_explicit_connectors :: "string set"
  bs_has_default_rules :: bool
  bs_explicit_types :: "string \<rightharpoonup> string set"
  bs_default_types :: "string set"

record pm_filter_graph_bundle =
  pf_graph :: constraint_graph
  explicit_connectors :: "string set"
  has_default_rules :: bool
  explicit_connector_payment_method_types :: "string \<rightharpoonup> string set"
  default_payment_method_types :: "string set"
  billing_country_to_iso2 :: "string \<rightharpoonup> string"
  node_count :: nat
  edge_count :: nat

text \<open>The body of the inner loop: one payment method type of one connector.\<close>

definition add_filter_rule ::
  "bool \<Rightarrow> string \<Rightarrow> node_id \<Rightarrow> string \<times> currency_country_flow_filter \<Rightarrow> build_state \<Rightarrow> build_state" where
  "add_filter_rule is_default output_value output_node entry st =
     (let (payment_method_type, f) = entry;
          pmt = norm_lower payment_method_type in
      if pmt = [] then st
      else
        (let st =
           (if is_default
            then st\<lparr>bs_default_types := insert pmt (bs_default_types st)\<rparr>
            else st\<lparr>bs_explicit_types := (bs_explicit_types st)(output_value \<mapsto>
                     insert pmt (unwrap_or (bs_explicit_types st output_value) {}))\<rparr>);
           (rule_node, gc) = add_aggregator_node AllAggregator (bs_compiler st);
           (pm_type_node, gc) = add_value_node ''payment_method_type'' pmt gc;
           gc = add_edge pm_type_node rule_node Strong Positive gc;
           gc = attach_country_filter_nodes f rule_node gc;
           gc = attach_currency_filter_nodes f rule_node gc;
           gc = attach_not_available_flow_nodes f rule_node gc;
           gc = add_edge rule_node output_node Normal Positive gc
         in st\<lparr>bs_compiler := gc\<rparr>))"

definition add_connector :: "string \<times> payment_method_filters \<Rightarrow> build_state \<Rightarrow> build_state" where
  "add_connector entry st =
     (let (connector_name, filters_for_connector) = entry;
          normalized_connector = norm_lower connector_name;
          is_default = (normalized_connector = ''default'');
          output_value = (if is_default then sentinel else normalized_connector);
          st = (if is_default then st\<lparr>bs_has_default_rules := True\<rparr>
                else st\<lparr>bs_explicit_connectors :=
                       insert normalized_connector (bs_explicit_connectors st)\<rparr>);
          (output_node, gc) = add_value_node ''output'' output_value (bs_compiler st)
      in fold (add_filter_rule is_default output_value output_node) filters_for_connector
           (st\<lparr>bs_compiler := gc\<rparr>))"

definition parse_csv_values :: "string \<Rightarrow> string list" where
  "parse_csv_values raw = filter (\<lambda>v. v \<noteq> []) (List.map trim (split_on (CHR '','') raw))"

definition is_iso2 :: "string \<Rightarrow> bool" where
  "is_iso2 s \<longleftrightarrow> length s = 2 \<and> list_all is_ascii_alphabetic s"

definition build_billing_country_to_iso2_map :: "toml_config option \<Rightarrow> (string \<rightharpoonup> string)" where
  "build_billing_country_to_iso2_map routing_config =
     (case routing_config of
        None \<Rightarrow> Map.empty
      | Some rc \<Rightarrow>
          (case map_of (toml_keys rc) ''billing_country'' of
             None \<Rightarrow> Map.empty
           | Some k \<Rightarrow>
               (case kc_values k of
                  None \<Rightarrow> Map.empty
                | Some vs \<Rightarrow>
                    foldl (\<lambda>m billing_country.
                        (let iso2 = norm_upper billing_country in
                         if is_iso2 iso2
                         then m(billing_country \<mapsto> iso2,
                                to_ascii_lowercase billing_country \<mapsto> iso2)
                         else m))
                      Map.empty (parse_csv_values vs))))"

definition build_pm_filter_graph_bundle ::
  "connector_filters \<Rightarrow> toml_config option \<Rightarrow> string + pm_filter_graph_bundle" where
  "build_pm_filter_graph_bundle pm_filters routing_config =
     (let st = fold add_connector pm_filters
            \<lparr>bs_compiler = gc_default, bs_explicit_connectors = {}, bs_has_default_rules = False,
             bs_explicit_types = Map.empty, bs_default_types = {}\<rparr>;
          gc = bs_compiler st in
      rbind (try_from \<lparr>cgd_nodes = gc_nodes gc, cgd_edges = gc_edges gc\<rparr>)
        (\<lambda>graph. Inr
          \<lparr>pf_graph = graph, explicit_connectors = bs_explicit_connectors st,
           has_default_rules = bs_has_default_rules st,
           explicit_connector_payment_method_types = bs_explicit_types st,
           default_payment_method_types = bs_default_types st,
           billing_country_to_iso2 = build_billing_country_to_iso2_map routing_config,
           node_count = length (gc_nodes gc), edge_count = length (gc_edges gc)\<rparr>))"

section \<open>The request's context\<close>

definition get_parameter_string :: "ctx \<Rightarrow> string \<Rightarrow> string option" where
  "get_parameter_string parameters key =
     (case parameters key of
        Some (Some (EnumVariant inner)) \<Rightarrow> Some inner
      | Some (Some (StrValue inner)) \<Rightarrow> Some inner
      | _ \<Rightarrow> None)"

definition has_payment_method_type :: "ctx \<Rightarrow> bool" where
  "has_payment_method_type parameters \<longleftrightarrow> get_parameter_string parameters ''payment_method_type'' \<noteq> None"

definition normalize_billing_country_iso2 :: "string \<Rightarrow> (string \<rightharpoonup> string) \<Rightarrow> string option" where
  "normalize_billing_country_iso2 billing_country iso2 =
     (let trimmed = trim billing_country in
      if trimmed = [] then None
      else
        (let normalized = to_ascii_uppercase trimmed in
         if is_iso2 normalized then Some normalized
         else opt_or (iso2 trimmed) (iso2 (to_ascii_lowercase trimmed))))"

definition nonempty_trimmed :: "ctx \<Rightarrow> string \<Rightarrow> string option" where
  "nonempty_trimmed parameters key =
     opt_filter (\<lambda>v. v \<noteq> []) (map_option trim (get_parameter_string parameters key))"

definition insert_opt :: "string \<Rightarrow> string option \<Rightarrow> check_ctx \<Rightarrow> check_ctx" where
  "insert_opt key v ctx = (case v of None \<Rightarrow> ctx | Some x \<Rightarrow> ctx(key \<mapsto> EnumVariant x))"

definition build_pm_filter_context :: "ctx \<Rightarrow> (string \<rightharpoonup> string) \<Rightarrow> check_ctx option" where
  "build_pm_filter_context parameters iso2 =
     (case map_option to_ascii_lowercase (nonempty_trimmed parameters ''payment_method_type'') of
        None \<Rightarrow> None
      | Some payment_method_type \<Rightarrow>
          Some
           (insert_opt ''billing_country''
              (Option.bind (get_parameter_string parameters ''billing_country'')
                 (\<lambda>country. normalize_billing_country_iso2 country iso2))
           (insert_opt ''capture_method''
              (map_option to_ascii_lowercase (nonempty_trimmed parameters ''capture_method''))
           (insert_opt ''currency''
              (map_option to_ascii_uppercase (nonempty_trimmed parameters ''currency''))
           [''payment_method_type'' \<mapsto> EnumVariant payment_method_type]))))"

definition get_context_enum_value :: "check_ctx \<Rightarrow> string \<Rightarrow> string option" where
  "get_context_enum_value ctx key =
     (case ctx key of
        Some (EnumVariant inner) \<Rightarrow> Some inner
      | Some (StrValue inner) \<Rightarrow> Some inner
      | _ \<Rightarrow> None)"

section \<open>Eligibility\<close>

text \<open>An error of the graph check lets the connector through; \<open>None\<close> is running out of fuel.\<close>

definition connector_is_eligible ::
  "nat \<Rightarrow> pm_filter_graph_bundle \<Rightarrow> check_ctx \<Rightarrow> connector_info \<Rightarrow> bool option" where
  "connector_is_eligible fuel bundle base_ctx connector =
     (let normalized_connector = norm_lower (gateway_name connector);
          payment_method_type = get_context_enum_value base_ctx ''payment_method_type'';
          explicit_has_pmt_rule =
            (case payment_method_type of
               None \<Rightarrow> False
             | Some pmt \<Rightarrow>
                 (case explicit_connector_payment_method_types bundle normalized_connector of
                    None \<Rightarrow> False | Some types \<Rightarrow> pmt \<in> types));
          default_has_pmt_rule =
            (case payment_method_type of
               None \<Rightarrow> False | Some pmt \<Rightarrow> pmt \<in> default_payment_method_types bundle)
      in if \<not> explicit_has_pmt_rule \<and> \<not> default_has_pmt_rule then Some True
         else
           (let output_clause_value =
                  (if explicit_has_pmt_rule then normalized_connector else sentinel);
                ctx_vals = base_ctx(''output'' \<mapsto> EnumVariant output_clause_value)
            in map_option (\<lambda>r. case r of Inr b \<Rightarrow> b | Inl _ \<Rightarrow> True)
                 (check_clause_validity fuel (pf_graph bundle)
                    (value_clause ''output'' output_clause_value) ctx_vals)))"

fun filter_connectors ::
  "(connector_info \<Rightarrow> bool option) \<Rightarrow> connector_info list \<Rightarrow> connector_info list option" where
  "filter_connectors p [] = Some []"
| "filter_connectors p (c # cs) =
     Option.bind (p c) (\<lambda>b. map_option (\<lambda>r. if b then c # r else r) (filter_connectors p cs))"

definition filter_eligible_connectors ::
  "nat \<Rightarrow> pm_filter_graph_bundle \<Rightarrow> ctx \<Rightarrow> connector_info list \<Rightarrow> connector_info list option" where
  "filter_eligible_connectors fuel bundle parameters connectors =
     (case build_pm_filter_context parameters (billing_country_to_iso2 bundle) of
        None \<Rightarrow> Some connectors
      | Some base_ctx \<Rightarrow> filter_connectors (connector_is_eligible fuel bundle base_ctx) connectors)"

definition apply_pm_filter_eligibility ::
  "nat \<Rightarrow> pm_filter_graph_bundle option \<Rightarrow> ctx \<Rightarrow> connector_info list \<Rightarrow> connector_info list option" where
  "apply_pm_filter_eligibility fuel bundle parameters eligible_connectors =
     (case bundle of
        None \<Rightarrow> Some eligible_connectors
      | Some b \<Rightarrow> filter_eligible_connectors fuel b parameters eligible_connectors)"

definition eligibility_for_output ::
  "nat \<Rightarrow> pm_filter_graph_bundle option \<Rightarrow> ctx \<Rightarrow> connector_info list \<Rightarrow> connector_info list option" where
  "eligibility_for_output fuel bundle parameters connectors =
     (if \<not> has_payment_method_type parameters then Some connectors
      else apply_pm_filter_eligibility fuel bundle parameters connectors)"

definition compute_routing_evaluate_eligibility ::
  "nat \<Rightarrow> pm_filter_graph_bundle option \<Rightarrow> ctx \<Rightarrow> connector_info list \<Rightarrow> connector_info list option" where
  "compute_routing_evaluate_eligibility = eligibility_for_output"

definition narrow_evaluated_output_to_eligible ::
  "connector_info list \<Rightarrow> connector_info list \<Rightarrow> connector_info list" where
  "narrow_evaluated_output_to_eligible evaluated_output eligible_connectors =
     filter (\<lambda>c. c \<in> set eligible_connectors) evaluated_output"

fun extract_connectors_for_eligibility :: "algo_output \<Rightarrow> connector_info list" where
  "extract_connectors_for_eligibility (Single c) = push_new [] c"
| "extract_connectors_for_eligibility (Priority cs) = foldl push_new [] cs"
| "extract_connectors_for_eligibility (VolumeSplit splits) =
     foldl push_new [] (List.map vs_output splits)"
| "extract_connectors_for_eligibility (VolumeSplitPriority splits) =
     foldl push_new [] (concat (List.map vs_output splits))"

end
