(* ===== verification/PmFilter_Correct.thy ===== *)
theory PmFilter_Correct
  imports PmFilter
begin

text \<open>
  The compiled eligibility graph against a direct reading of the filters. The compiler is seen
  through two observations, the kind of a node and the list of its incoming edges; each of its
  operations is characterised by what it does to them.
\<close>

section \<open>Observing a compiler\<close>

definition kind :: "graph_compiler \<Rightarrow> node_id \<Rightarrow> node_kind" where
  "kind gc n = node_kind_of (gc_nodes gc ! n)"

definition view :: "graph_compiler \<Rightarrow> node_id \<Rightarrow> (node_id \<times> relation \<times> strength) list" where
  "view gc n =
     List.map (\<lambda>p. let e = gc_edges gc ! p in (edge_pred e, edge_relation e, edge_strength e))
       (preds (gc_nodes gc ! n))"

abbreviation nodes_of :: "graph_compiler \<Rightarrow> nat" where
  "nodes_of gc \<equiv> length (gc_nodes gc)"

fun kind_rank :: "node_kind \<Rightarrow> nat" where
  "kind_rank (NK_Value (NV_Key _)) = 0"
| "kind_rank (NK_Value (NV_Value c)) = (if clause_key c = ''output'' then 3 else 0)"
| "kind_rank AnyAggregator = 1"
| "kind_rank AllAggregator = 2"

fun compiled_kind :: "node_kind \<Rightarrow> bool" where
  "compiled_kind (NK_Value (NV_Key _)) = False"
| "compiled_kind (NK_Value (NV_Value c)) = (\<exists>k v. c = value_clause k v)"
| "compiled_kind _ = True"

definition gc_inv :: "graph_compiler \<Rightarrow> bool" where
  "gc_inv gc \<longleftrightarrow>
     (\<forall>n<nodes_of gc. \<forall>p\<in>set (preds (gc_nodes gc ! n)). p < length (gc_edges gc)) \<and>
     (\<forall>n<nodes_of gc. \<forall>(m, _, _)\<in>set (view gc n).
        m < nodes_of gc \<and> kind_rank (kind gc m) < kind_rank (kind gc n)) \<and>
     (\<forall>v n. gc_value_nodes gc v = Some n \<longleftrightarrow> n < nodes_of gc \<and> kind gc n = NK_Value v) \<and>
     (\<forall>n<nodes_of gc. compiled_kind (kind gc n))"

definition ext :: "node_id set \<Rightarrow> graph_compiler \<Rightarrow> graph_compiler \<Rightarrow> bool" where
  "ext S gc gc' \<longleftrightarrow> nodes_of gc \<le> nodes_of gc' \<and>
     (\<forall>n<nodes_of gc. kind gc' n = kind gc n \<and> (n \<notin> S \<longrightarrow> view gc' n = view gc n)) \<and>
     (\<forall>v n. gc_value_nodes gc v = Some n \<longrightarrow> gc_value_nodes gc' v = Some n)"

lemma ext_refl: "ext S gc gc"
  by (simp add: ext_def)

lemma ext_trans: "ext S a b \<Longrightarrow> ext T b c \<Longrightarrow> S \<union> T \<subseteq> U \<union> {n. nodes_of a \<le> n} \<Longrightarrow> ext U a c"
  unfolding ext_def by (auto simp: subset_iff) (metis leD order_less_le_trans)+

lemma inv_value_nodes:
  "gc_inv gc \<Longrightarrow> gc_value_nodes gc v = Some n \<longleftrightarrow> n < nodes_of gc \<and> kind gc n = NK_Value v"
  by (simp add: gc_inv_def)

lemma leaf_view:
  assumes "gc_inv gc" "gc_value_nodes gc (NV_Value (value_clause k v)) = Some n" "k \<noteq> ''output''"
  shows "view gc n = []"
proof -
  have n: "n < nodes_of gc" "kind gc n = NK_Value (NV_Value (value_clause k v))"
    using assms(1,2) by (simp_all add: inv_value_nodes)
  then have "kind_rank (kind gc n) = 0" using assms(3) by (simp add: value_clause_def)
  then have "\<forall>(m, _, _)\<in>set (view gc n). False" using assms(1) n(1) unfolding gc_inv_def by fastforce
  then show ?thesis by (cases "view gc n") auto
qed

section \<open>The compiler's operations\<close>

lemma add_node_nth:
  "add_node k gc = (i, gc') \<Longrightarrow> i = nodes_of gc \<and> nodes_of gc' = Suc (nodes_of gc) \<and>
     gc_edges gc' = gc_edges gc \<and> gc_value_nodes gc' = gc_value_nodes gc \<and>
     kind gc' i = k \<and> view gc' i = [] \<and>
     (\<forall>n<nodes_of gc. gc_nodes gc' ! n = gc_nodes gc ! n)"
  by (auto simp: add_node_def kind_def view_def nth_append)

lemma same_nodes_same_view:
  "gc_nodes gc' ! n = gc_nodes gc ! n \<Longrightarrow> gc_edges gc' = gc_edges gc \<Longrightarrow>
     kind gc' n = kind gc n \<and> view gc' n = view gc n"
  by (simp add: kind_def view_def)

lemma inv_new_node:
  assumes "gc_inv gc" "add_node k gc = (i, gc')" "compiled_kind k"
    and "vm = (case k of NK_Value v \<Rightarrow> (gc_value_nodes gc)(v \<mapsto> i) | _ \<Rightarrow> gc_value_nodes gc)"
    and "\<And>v. k = NK_Value v \<Longrightarrow> gc_value_nodes gc v = None"
  shows "gc_inv (gc'\<lparr>gc_value_nodes := vm\<rparr>) \<and> ext {} gc (gc'\<lparr>gc_value_nodes := vm\<rparr>) \<and>
    i = nodes_of gc \<and> kind (gc'\<lparr>gc_value_nodes := vm\<rparr>) i = k \<and>
    view (gc'\<lparr>gc_value_nodes := vm\<rparr>) i = []"
proof -
  let ?gc = "gc'\<lparr>gc_value_nodes := vm\<rparr>"
  note N = add_node_nth [OF assms(2)]
  have old: "kind ?gc n = kind gc n" "view ?gc n = view gc n" if "n < nodes_of gc" for n
    using N that by (auto simp: kind_def view_def)
  have new: "kind ?gc i = k" "view ?gc i = []" "preds (gc_nodes ?gc ! i) = []"
    using N by (auto simp: kind_def view_def)
  have lt: "n < nodes_of ?gc \<longleftrightarrow> n < nodes_of gc \<or> n = i" for n using N by auto
  have nk: "n < nodes_of ?gc \<and> kind ?gc n = NK_Value v \<longleftrightarrow>
      (n < nodes_of gc \<and> kind gc n = NK_Value v) \<or> (n = i \<and> k = NK_Value v)" for v n
    using lt old(1) new(1) N by (cases "n = i") auto
  have vm: "vm v = Some n \<longleftrightarrow> n < nodes_of ?gc \<and> kind ?gc n = NK_Value v" for v n
    unfolding nk using assms(4,5) inv_value_nodes [OF assms(1), of v n] N
    by (cases k) (auto split: if_splits)
  have "gc_inv ?gc"
    unfolding gc_inv_def
  proof (intro conjI allI impI)
    fix n assume n: "n < nodes_of ?gc"
    show "\<forall>p\<in>set (preds (gc_nodes ?gc ! n)). p < length (gc_edges ?gc)"
      using n lt new(3) N assms(1) unfolding gc_inv_def by (cases "n = i") auto
    show "compiled_kind (kind ?gc n)"
      using n lt new(1) old(1) assms(1,3) unfolding gc_inv_def by (cases "n = i") auto
    show "\<forall>(m, _, _)\<in>set (view ?gc n). m < nodes_of ?gc \<and> kind_rank (kind ?gc m) < kind_rank (kind ?gc n)"
    proof (cases "n = i")
      case False
      with n lt have "n < nodes_of gc" by simp
      with assms(1) have "\<forall>(m, _, _)\<in>set (view gc n). m < nodes_of gc \<and>
          kind_rank (kind gc m) < kind_rank (kind gc n)" unfolding gc_inv_def by blast
      with \<open>n < nodes_of gc\<close> old show ?thesis by (auto simp: N less_Suc_eq)
    qed (simp add: new)
  next
    fix v n show "gc_value_nodes ?gc v = Some n \<longleftrightarrow> n < nodes_of ?gc \<and> kind ?gc n = NK_Value v"
      using vm by simp
  qed
  moreover have "ext {} gc ?gc"
    using old lt vm inv_value_nodes [OF assms(1)] by (auto simp: ext_def) (simp add: N)
  ultimately show ?thesis using N new by simp
qed

lemma add_aggregator_node_spec:
  assumes "gc_inv gc" "add_aggregator_node k gc = (i, gc')" "k = AllAggregator \<or> k = AnyAggregator"
  shows "gc_inv gc' \<and> ext {} gc gc' \<and> i = nodes_of gc \<and> i < nodes_of gc' \<and> kind gc' i = k \<and> view gc' i = []"
proof -
  have a: "add_node k gc = (i, gc')" using assms(2) by (simp add: add_aggregator_node_def)
  have "gc'\<lparr>gc_value_nodes := gc_value_nodes gc\<rparr> = gc'"
    using add_node_nth [OF a] by (cases gc') simp
  with inv_new_node [OF assms(1) a, of "gc_value_nodes gc"] assms(3) add_node_nth [OF a]
  show ?thesis by auto
qed

lemma add_value_node_spec:
  assumes "gc_inv gc" "add_value_node k v gc = (i, gc')"
  shows "gc_inv gc' \<and> ext {} gc gc' \<and> gc_value_nodes gc' (NV_Value (value_clause k v)) = Some i \<and>
    i < nodes_of gc' \<and> kind gc' i = NK_Value (NV_Value (value_clause k v)) \<and>
    (gc_value_nodes gc (NV_Value (value_clause k v)) = None \<longrightarrow> view gc' i = []) \<and>
    (\<forall>w. w \<noteq> NV_Value (value_clause k v) \<longrightarrow> gc_value_nodes gc' w = gc_value_nodes gc w)"
proof (cases "gc_value_nodes gc (NV_Value (value_clause k v))")
  case (Some j)
  then have "i = j" "gc' = gc" using assms(2) by (simp_all add: add_value_node_def)
  moreover have "j < nodes_of gc" "kind gc j = NK_Value (NV_Value (value_clause k v))"
    using Some inv_value_nodes [OF assms(1)] by simp_all
  ultimately show ?thesis using Some assms(1) by (simp add: ext_refl)
next
  case None
  let ?w = "NV_Value (value_clause k v)"
  obtain gc1 where a: "add_node (NK_Value ?w) gc = (i, gc1)"
    and gc': "gc' = gc1\<lparr>gc_value_nodes := (gc_value_nodes gc)(?w \<mapsto> i)\<rparr>"
    using assms(2) None by (auto simp: add_value_node_def add_node_def Let_def)
  have "gc_inv gc' \<and> ext {} gc gc' \<and> i = nodes_of gc \<and> kind gc' i = NK_Value ?w \<and> view gc' i = []"
    unfolding gc' by (rule inv_new_node [OF assms(1) a]) (auto simp: None)
  then show ?thesis
    using inv_value_nodes [of gc'] by (auto simp: gc' add_node_nth [OF a])
qed

lemma add_edge_spec:
  assumes "gc_inv gc" "a < nodes_of gc" "b < nodes_of gc" "kind_rank (kind gc a) < kind_rank (kind gc b)"
  shows "gc_inv (add_edge a b s r gc) \<and> ext {b} gc (add_edge a b s r gc) \<and>
    nodes_of (add_edge a b s r gc) = nodes_of gc \<and>
    view (add_edge a b s r gc) b = view gc b @ [(a, r, s)] \<and>
    gc_value_nodes (add_edge a b s r gc) = gc_value_nodes gc"
proof -
  let ?gc = "add_edge a b s r gc" and ?E = "gc_edges gc"
  have ab: "a \<noteq> b" using assms(4) by auto
  have len: "nodes_of ?gc = nodes_of gc" by (simp add: add_edge_def Let_def)
  have K: "kind ?gc n = kind gc n" if "n < nodes_of gc" for n
    using that assms(2,3) ab by (auto simp: add_edge_def kind_def Let_def nth_list_update)
  have P: "preds (gc_nodes ?gc ! n) =
      (if n = b then preds (gc_nodes gc ! n) @ [length ?E] else preds (gc_nodes gc ! n))"
    if "n < nodes_of gc" for n
    using that assms(2,3) ab by (auto simp: add_edge_def Let_def nth_list_update)
  have E: "gc_edges ?gc = ?E @ [\<lparr>edge_strength = s, edge_relation = r, edge_pred = a, edge_succ = b\<rparr>]"
    by (simp add: add_edge_def Let_def)
  have inr: "p < length ?E" if "n < nodes_of gc" "p \<in> set (preds (gc_nodes gc ! n))" for n p
    using assms(1) that unfolding gc_inv_def by blast
  have V: "view ?gc n = (if n = b then view gc n @ [(a, r, s)] else view gc n)" if "n < nodes_of gc" for n
    using P [OF that] inr [OF that] by (auto simp: view_def E nth_append Let_def)
  have VM: "gc_value_nodes ?gc = gc_value_nodes gc" by (simp add: add_edge_def Let_def)
  have "gc_inv ?gc"
    unfolding gc_inv_def len VM
  proof (intro conjI allI impI)
    fix n assume n: "n < nodes_of gc"
    show "\<forall>p\<in>set (preds (gc_nodes ?gc ! n)). p < length (gc_edges ?gc)"
      using inr [OF n] by (auto simp: P [OF n] E less_Suc_eq)
    show "compiled_kind (kind ?gc n)"
      using assms(1) n unfolding gc_inv_def by (simp add: K)
    have "\<forall>(m, _, _)\<in>set (view gc n). m < nodes_of gc \<and> kind_rank (kind gc m) < kind_rank (kind gc n)"
      using assms(1) n unfolding gc_inv_def by blast
    then show "\<forall>(m, _, _)\<in>set (view ?gc n). m < nodes_of gc \<and> kind_rank (kind ?gc m) < kind_rank (kind ?gc n)"
      using n assms(2-4) by (auto simp: V K)
  next
    fix v n show "gc_value_nodes gc v = Some n \<longleftrightarrow> n < nodes_of gc \<and> kind ?gc n = NK_Value v"
      using assms(1) by (auto simp: inv_value_nodes K)
  qed
  moreover have "ext {b} gc ?gc" by (auto simp: ext_def len K V VM)
  ultimately show ?thesis using assms(3) by (simp add: len V VM)
qed

section \<open>The parts of a rule\<close>

definition leaf :: "graph_compiler \<Rightarrow> string \<Rightarrow> string \<Rightarrow> node_id \<Rightarrow> bool" where
  "leaf gc k v n \<longleftrightarrow> gc_value_nodes gc (NV_Value (value_clause k v)) = Some n"

definition any_part ::
  "graph_compiler \<Rightarrow> string \<Rightarrow> string list \<Rightarrow> (node_id \<times> relation \<times> strength) list \<Rightarrow> bool" where
  "any_part gc k vs xs \<longleftrightarrow>
     (if vs = [] then xs = []
      else \<exists>a ids. xs = [(a, Positive, Normal)] \<and> a < nodes_of gc \<and> kind gc a = AnyAggregator \<and>
        view gc a = List.map (\<lambda>i. (i, Positive, Weak)) ids \<and> list_all2 (\<lambda>i v. leaf gc k v i) ids vs)"

definition capture_part ::
  "graph_compiler \<Rightarrow> string option \<Rightarrow> (node_id \<times> relation \<times> strength) list \<Rightarrow> bool" where
  "capture_part gc m xs \<longleftrightarrow>
     (case m of
        None \<Rightarrow> xs = []
      | Some c \<Rightarrow> \<exists>i. leaf gc ''capture_method'' c i \<and> xs = [(i, Negative, Strong)])"

definition rule_part ::
  "graph_compiler \<Rightarrow> node_id \<Rightarrow> string \<times> currency_country_flow_filter \<Rightarrow> bool" where
  "rule_part gc n pf \<longleftrightarrow> n < nodes_of gc \<and> kind gc n = AllAggregator \<and>
     (\<exists>p xs ys zs. leaf gc ''payment_method_type'' (fst pf) p \<and>
        view gc n = (p, Positive, Strong) # xs @ ys @ zs \<and>
        any_part gc ''billing_country'' (allowed_values (ccf_country (snd pf))) xs \<and>
        any_part gc ''currency'' (allowed_values (ccf_currency (snd pf))) ys \<and>
        capture_part gc (blocked_capture_method (snd pf)) zs)"

lemma ext_leaf: "ext S gc gc' \<Longrightarrow> leaf gc k v n \<Longrightarrow> leaf gc' k v n"
  by (simp add: ext_def leaf_def)

lemma ext_any_part:
  assumes "ext S gc gc'" "any_part gc k vs xs" "\<And>n. n \<in> S \<Longrightarrow> n < nodes_of gc \<Longrightarrow> kind gc n \<noteq> AnyAggregator"
  shows "any_part gc' k vs xs"
proof (cases "vs = []")
  case False
  with assms(2) obtain a ids where a: "xs = [(a, Positive, Normal)]" "a < nodes_of gc"
    "kind gc a = AnyAggregator" "view gc a = List.map (\<lambda>i. (i, Positive, Weak)) ids"
    "list_all2 (\<lambda>i v. leaf gc k v i) ids vs"
    by (auto simp: any_part_def)
  have "list_all2 (\<lambda>i v. leaf gc' k v i) ids vs"
    using a(5) by (rule list_all2_mono) (rule ext_leaf [OF assms(1)])
  moreover have "a \<notin> S" using assms(3) a(2,3) by blast
  ultimately show ?thesis
    using assms(1) a False by (auto simp: any_part_def ext_def)
qed (use assms(2) in \<open>simp add: any_part_def\<close>)

lemma ext_capture_part: "ext S gc gc' \<Longrightarrow> capture_part gc m xs \<Longrightarrow> capture_part gc' m xs"
  by (auto simp: capture_part_def dest: ext_leaf split: option.splits)

lemma ext_rule_part:
  assumes "ext S gc gc'" "rule_part gc n pf"
    and "\<And>n. n \<in> S \<Longrightarrow> n < nodes_of gc \<Longrightarrow> kind gc n \<noteq> AnyAggregator \<and> kind gc n \<noteq> AllAggregator"
  shows "rule_part gc' n pf"
proof -
  obtain p xs ys zs where r: "n < nodes_of gc" "kind gc n = AllAggregator"
    "leaf gc ''payment_method_type'' (fst pf) p" "view gc n = (p, Positive, Strong) # xs @ ys @ zs"
    "any_part gc ''billing_country'' (allowed_values (ccf_country (snd pf))) xs"
    "any_part gc ''currency'' (allowed_values (ccf_currency (snd pf))) ys"
    "capture_part gc (blocked_capture_method (snd pf)) zs"
    using assms(2) by (auto simp: rule_part_def)
  have "n \<notin> S" using assms(3) r(1,2) by blast
  then have "n < nodes_of gc'" "kind gc' n = AllAggregator"
    "view gc' n = (p, Positive, Strong) # xs @ ys @ zs"
    using assms(1) r(1,2,4) by (auto simp: ext_def)
  moreover have "leaf gc' ''payment_method_type'' (fst pf) p"
    "any_part gc' ''billing_country'' (allowed_values (ccf_country (snd pf))) xs"
    "any_part gc' ''currency'' (allowed_values (ccf_currency (snd pf))) ys"
    "capture_part gc' (blocked_capture_method (snd pf)) zs"
    using assms(3) by (auto intro: ext_leaf [OF assms(1) r(3)] ext_any_part [OF assms(1) r(5)]
        ext_any_part [OF assms(1) r(6)] ext_capture_part [OF assms(1) r(7)])
  ultimately show ?thesis unfolding rule_part_def by blast
qed

lemma leaf_rank: "gc_inv gc \<Longrightarrow> leaf gc k v n \<Longrightarrow> k \<noteq> ''output'' \<Longrightarrow> n < nodes_of gc \<and> kind_rank (kind gc n) = 0"
  by (simp add: leaf_def inv_value_nodes value_clause_def)

section \<open>Attaching the parts\<close>

abbreviation add_any_value :: "string \<Rightarrow> node_id \<Rightarrow> string \<Rightarrow> graph_compiler \<Rightarrow> graph_compiler" where
  "add_any_value k a v gc \<equiv>
     (let (value_node, gc) = add_value_node k v gc in add_edge value_node a Weak Positive gc)"

lemma add_any_value_spec:
  assumes "gc_inv gc" "a < nodes_of gc" "kind gc a = AnyAggregator" "k \<noteq> ''output''"
  shows "\<exists>i. gc_inv (add_any_value k a v gc) \<and> ext {a} gc (add_any_value k a v gc) \<and>
    leaf (add_any_value k a v gc) k v i \<and>
    view (add_any_value k a v gc) a = view gc a @ [(i, Positive, Weak)]"
proof -
  obtain i gc1 where v: "add_value_node k v gc = (i, gc1)" by fastforce
  note V = add_value_node_spec [OF assms(1) v]
  have a: "a < nodes_of gc1" "kind gc1 a = AnyAggregator" "view gc1 a = view gc a"
    using V assms(2,3) by (auto simp: ext_def)
  have "kind_rank (kind gc1 i) < kind_rank (kind gc1 a)"
    using V assms(4) a(2) by (simp add: value_clause_def)
  then have E: "gc_inv (add_edge i a Weak Positive gc1)" "ext {a} gc1 (add_edge i a Weak Positive gc1)"
    "view (add_edge i a Weak Positive gc1) a = view gc1 a @ [(i, Positive, Weak)]"
    "gc_value_nodes (add_edge i a Weak Positive gc1) = gc_value_nodes gc1"
    using add_edge_spec [of gc1 i a Weak Positive] V a(1) by simp_all
  have "ext {a} gc (add_edge i a Weak Positive gc1)" using ext_trans [of "{}" gc gc1 "{a}" _ "{a}"] V E(2) by simp
  with E V a(3) show ?thesis by (auto simp: v leaf_def)
qed

lemma add_any_values_spec:
  assumes "gc_inv gc" "a < nodes_of gc" "kind gc a = AnyAggregator" "k \<noteq> ''output''"
    and "view gc a = List.map (\<lambda>i. (i, Positive, Weak)) ids" "list_all2 (\<lambda>i v. leaf gc k v i) ids us"
  shows "\<exists>ids'. gc_inv (fold (add_any_value k a) vs gc) \<and> ext {a} gc (fold (add_any_value k a) vs gc) \<and>
    view (fold (add_any_value k a) vs gc) a = List.map (\<lambda>i. (i, Positive, Weak)) ids' \<and>
    list_all2 (\<lambda>i v. leaf (fold (add_any_value k a) vs gc) k v i) ids' (us @ vs)"
  using assms
proof (induction vs arbitrary: gc ids us)
  case Nil
  then show ?case by (auto simp: ext_refl)
next
  case (Cons v vs)
  let ?gc1 = "add_any_value k a v gc"
  obtain i where i: "gc_inv ?gc1" "ext {a} gc ?gc1" "leaf ?gc1 k v i"
    "view ?gc1 a = view gc a @ [(i, Positive, Weak)]"
    using add_any_value_spec [OF Cons.prems(1-4)] by blast
  have a: "a < nodes_of ?gc1" "kind ?gc1 a = AnyAggregator"
    using i(2) Cons.prems(2,3) by (auto simp: ext_def)
  have "list_all2 (\<lambda>i v. leaf ?gc1 k v i) ids us"
    using Cons.prems(6) by (rule list_all2_mono) (rule ext_leaf [OF i(2)])
  then have "list_all2 (\<lambda>i v. leaf ?gc1 k v i) (ids @ [i]) (us @ [v])"
    using i(3) by (simp add: list_all2_appendI)
  from Cons.IH [OF i(1) a Cons.prems(4) _ this] i(4) Cons.prems(5)
  obtain ids' where "gc_inv (fold (add_any_value k a) vs ?gc1)"
    "ext {a} ?gc1 (fold (add_any_value k a) vs ?gc1)"
    "view (fold (add_any_value k a) vs ?gc1) a = List.map (\<lambda>i. (i, Positive, Weak)) ids'"
    "list_all2 (\<lambda>i v. leaf (fold (add_any_value k a) vs ?gc1) k v i) ids' ((us @ [v]) @ vs)"
    by auto
  then show ?case using ext_trans [OF i(2), of "{a}"] by (intro exI [of _ ids']) simp
qed

lemma attach_any_nodes_spec:
  assumes "gc_inv gc" "b < nodes_of gc" "kind gc b = AllAggregator" "k \<noteq> ''output''"
  shows "\<exists>xs. gc_inv (attach_any_nodes k vs b gc) \<and> ext {b} gc (attach_any_nodes k vs b gc) \<and>
    any_part (attach_any_nodes k vs b gc) k vs xs \<and>
    view (attach_any_nodes k vs b gc) b = view gc b @ xs"
proof (cases "vs = []")
  case True
  then show ?thesis using assms(1) by (simp add: attach_any_nodes_def any_part_def ext_refl)
next
  case False
  obtain a gc1 where a: "add_aggregator_node AnyAggregator gc = (a, gc1)" by fastforce
  note A = add_aggregator_node_spec [OF assms(1) a, simplified]
  let ?gc2 = "fold (add_any_value k a) vs gc1"
  obtain ids where F: "gc_inv ?gc2" "ext {a} gc1 ?gc2"
    "view ?gc2 a = List.map (\<lambda>i. (i, Positive, Weak)) ids"
    "list_all2 (\<lambda>i v. leaf ?gc2 k v i) ids vs"
    using add_any_values_spec [of gc1 a k "[]" "[]" vs] A assms(4) by auto
  have b: "b < nodes_of ?gc2" "kind ?gc2 b = AllAggregator" "view ?gc2 b = view gc b" "b \<noteq> a"
    and a2: "a < nodes_of ?gc2" "kind ?gc2 a = AnyAggregator"
    using A F(2) assms(2,3) by (auto simp: ext_def)
  let ?gc3 = "add_edge a b Normal Positive ?gc2"
  have E: "gc_inv ?gc3" "ext {b} ?gc2 ?gc3" "view ?gc3 b = view ?gc2 b @ [(a, Positive, Normal)]"
    using add_edge_spec [OF F(1) a2(1) b(1), of Normal Positive] a2 b by simp_all
  have "any_part ?gc2 k vs [(a, Positive, Normal)]"
    using F(3,4) a2 False by (auto simp: any_part_def)
  then have "any_part ?gc3 k vs [(a, Positive, Normal)]"
    using b(2) by (intro ext_any_part [OF E(2)]) auto
  moreover have "ext {a} gc ?gc2" using ext_trans [of "{}" gc gc1 "{a}" ?gc2 "{a}"] A F(2) by simp
  then have "ext {b} gc ?gc3" using ext_trans [of "{a}" gc ?gc2 "{b}" ?gc3 "{b}"] A E(2) by simp
  moreover have "attach_any_nodes k vs b gc = ?gc3" using False by (simp add: attach_any_nodes_def a)
  ultimately show ?thesis using E(1,3) b(3) by auto
qed

lemma attach_capture_spec:
  assumes "gc_inv gc" "b < nodes_of gc" "kind gc b = AllAggregator"
  shows "\<exists>xs. gc_inv (attach_not_available_flow_nodes f b gc) \<and>
    ext {b} gc (attach_not_available_flow_nodes f b gc) \<and>
    capture_part (attach_not_available_flow_nodes f b gc) (blocked_capture_method f) xs \<and>
    view (attach_not_available_flow_nodes f b gc) b = view gc b @ xs"
proof (cases "blocked_capture_method f")
  case None
  then show ?thesis
    using assms(1) by (simp add: attach_not_available_flow_nodes_def capture_part_def ext_refl)
next
  case (Some m)
  obtain i gc1 where v: "add_value_node ''capture_method'' m gc = (i, gc1)" by fastforce
  note V = add_value_node_spec [OF assms(1) v]
  have b: "b < nodes_of gc1" "kind gc1 b = AllAggregator" "view gc1 b = view gc b"
    using V assms(2,3) by (auto simp: ext_def)
  let ?gc2 = "add_edge i b Strong Negative gc1"
  have "kind_rank (kind gc1 i) < kind_rank (kind gc1 b)" using V b(2) by (simp add: value_clause_def)
  then have E: "gc_inv ?gc2" "ext {b} gc1 ?gc2" "view ?gc2 b = view gc1 b @ [(i, Negative, Strong)]"
    "gc_value_nodes ?gc2 = gc_value_nodes gc1"
    using add_edge_spec [of gc1 i b Strong Negative] V b(1) by simp_all
  have "ext {b} gc ?gc2" using ext_trans [of "{}" gc gc1 "{b}" ?gc2 "{b}"] V E(2) by simp
  moreover have "attach_not_available_flow_nodes f b gc = ?gc2"
    using Some by (simp add: attach_not_available_flow_nodes_def v)
  ultimately show ?thesis using E V b(3) Some by (auto simp: capture_part_def leaf_def)
qed

definition make_rule :: "string \<times> currency_country_flow_filter \<Rightarrow> graph_compiler \<Rightarrow> node_id \<times> graph_compiler" where
  "make_rule pf gc =
     (let (rule_node, gc) = add_aggregator_node AllAggregator gc;
          (pm_type_node, gc) = add_value_node ''payment_method_type'' (fst pf) gc;
          gc = add_edge pm_type_node rule_node Strong Positive gc;
          gc = attach_country_filter_nodes (snd pf) rule_node gc;
          gc = attach_currency_filter_nodes (snd pf) rule_node gc
      in (rule_node, attach_not_available_flow_nodes (snd pf) rule_node gc))"

lemma make_rule_spec:
  assumes "gc_inv gc" "make_rule pf gc = (r, gc')"
  shows "gc_inv gc' \<and> ext {} gc gc' \<and> rule_part gc' r pf \<and> r = nodes_of gc"
proof -
  obtain r0 gc1 where r0: "add_aggregator_node AllAggregator gc = (r0, gc1)" by fastforce
  note A = add_aggregator_node_spec [OF assms(1) r0, simplified]
  obtain p gc2 where p: "add_value_node ''payment_method_type'' (fst pf) gc1 = (p, gc2)" by fastforce
  note V = add_value_node_spec [OF _ p]
  have inv2: "gc_inv gc2" and e2: "ext {} gc1 gc2" and p2: "p < nodes_of gc2"
    "leaf gc2 ''payment_method_type'' (fst pf) p" "kind_rank (kind gc2 p) = 0"
    using V A by (simp_all add: leaf_def value_clause_def)
  have n2: "r0 < nodes_of gc2" "kind gc2 r0 = AllAggregator" "view gc2 r0 = []"
    using e2 A by (auto simp: ext_def)
  let ?gc3 = "add_edge p r0 Strong Positive gc2"
  have E3: "gc_inv ?gc3" "ext {r0} gc2 ?gc3" "view ?gc3 r0 = [(p, Positive, Strong)]"
    using add_edge_spec [OF inv2 p2(1) n2(1), of Strong Positive] n2(2,3) p2(3) by simp_all
  have n3: "r0 < nodes_of ?gc3" "kind ?gc3 r0 = AllAggregator" using E3(2) n2 by (auto simp: ext_def)
  let ?gc4 = "attach_country_filter_nodes (snd pf) r0 ?gc3"
  obtain xs where E4: "gc_inv ?gc4" "ext {r0} ?gc3 ?gc4" "view ?gc4 r0 = (p, Positive, Strong) # xs"
    "any_part ?gc4 ''billing_country'' (allowed_values (ccf_country (snd pf))) xs"
    using attach_any_nodes_spec [OF E3(1) n3, of "''billing_country''"] E3(3)
    unfolding attach_country_filter_nodes_def by auto
  have n4: "r0 < nodes_of ?gc4" "kind ?gc4 r0 = AllAggregator" using E4(2) n3 by (auto simp: ext_def)
  let ?gc5 = "attach_currency_filter_nodes (snd pf) r0 ?gc4"
  obtain ys where E5: "gc_inv ?gc5" "ext {r0} ?gc4 ?gc5" "view ?gc5 r0 = (p, Positive, Strong) # xs @ ys"
    "any_part ?gc5 ''currency'' (allowed_values (ccf_currency (snd pf))) ys"
    using attach_any_nodes_spec [OF E4(1) n4, of "''currency''"] E4(3)
    unfolding attach_currency_filter_nodes_def by auto
  have n5: "r0 < nodes_of ?gc5" "kind ?gc5 r0 = AllAggregator" using E5(2) n4 by (auto simp: ext_def)
  let ?gc6 = "attach_not_available_flow_nodes (snd pf) r0 ?gc5"
  obtain zs where E6: "gc_inv ?gc6" "ext {r0} ?gc5 ?gc6" "view ?gc6 r0 = (p, Positive, Strong) # xs @ ys @ zs"
    "capture_part ?gc6 (blocked_capture_method (snd pf)) zs"
    using attach_capture_spec [OF E5(1) n5] E5(3) by fastforce
  have "make_rule pf gc = (r0, ?gc6)" by (simp add: make_rule_def r0 p Let_def)
  then have r: "r = r0" "gc' = ?gc6" using assms(2) by auto
  have e45: "ext {r0} ?gc4 ?gc6" using ext_trans [OF E5(2) E6(2), of "{r0}"] by simp
  have e36: "ext {r0} ?gc3 ?gc6" using ext_trans [OF E4(2) e45, of "{r0}"] by simp
  have e26: "ext {r0} gc2 ?gc6" using ext_trans [OF E3(2) e36, of "{r0}"] by simp
  have e16: "ext {r0} gc1 ?gc6" using ext_trans [OF e2 e26, of "{r0}"] by simp
  have "ext {} gc ?gc6" using ext_trans [of "{}" gc gc1 "{r0}" ?gc6 "{}"] A e16 by simp
  moreover have "any_part ?gc6 ''billing_country'' (allowed_values (ccf_country (snd pf))) xs"
    using n4(2) by (intro ext_any_part [OF e45 E4(4)]) auto
  moreover have "any_part ?gc6 ''currency'' (allowed_values (ccf_currency (snd pf))) ys"
    using n5(2) by (intro ext_any_part [OF E6(2) E5(4)]) auto
  moreover have "leaf ?gc6 ''payment_method_type'' (fst pf) p" by (rule ext_leaf [OF e26 p2(2)])
  moreover have "r0 < nodes_of ?gc6" "kind ?gc6 r0 = AllAggregator"
    using E6(2) n5 by (auto simp: ext_def)
  ultimately show ?thesis
    using E6 A r unfolding rule_part_def by (simp, blast)
qed

section \<open>Rules under their outputs\<close>

definition keeps_outputs :: "graph_compiler \<Rightarrow> graph_compiler \<Rightarrow> bool" where
  "keeps_outputs gc gc' \<longleftrightarrow>
     (\<forall>v. gc_value_nodes gc' (NV_Value (value_clause ''output'' v)) =
          gc_value_nodes gc (NV_Value (value_clause ''output'' v)))"

lemma keeps_outputs_trans: "keeps_outputs a b \<Longrightarrow> keeps_outputs b c \<Longrightarrow> keeps_outputs a c"
  by (simp add: keeps_outputs_def)

lemma keeps_outputs_steps:
  "keeps_outputs gc (snd (add_aggregator_node k gc))"
  "key \<noteq> ''output'' \<Longrightarrow> keeps_outputs gc (snd (add_value_node key v gc))"
  "keeps_outputs gc (add_edge a b s r gc)"
  by (auto simp: keeps_outputs_def add_aggregator_node_def add_node_def add_value_node_def add_edge_def
      Let_def value_clause_def split: option.splits prod.splits)

lemma keeps_outputs_any_value: "key \<noteq> ''output'' \<Longrightarrow> keeps_outputs gc (add_any_value key a v gc)"
  using keeps_outputs_trans [OF keeps_outputs_steps(2) keeps_outputs_steps(3)]
  by (auto simp: split_beta)

lemma keeps_outputs_any_values: "key \<noteq> ''output'' \<Longrightarrow> keeps_outputs gc (fold (add_any_value key a) vs gc)"
proof (induction vs arbitrary: gc)
  case (Cons v vs)
  then show ?case
    using keeps_outputs_trans [OF keeps_outputs_any_value [where key = key and gc = gc and a = a and v = v]]
    by simp
qed (simp add: keeps_outputs_def)

lemma keeps_outputs_attach:
  assumes "key \<noteq> ''output''"
  shows "keeps_outputs gc (attach_any_nodes key vs b gc)"
proof (cases "vs = []")
  case False
  obtain a gc1 where a: "add_aggregator_node AnyAggregator gc = (a, gc1)" by fastforce
  have "keeps_outputs gc gc1" using keeps_outputs_steps(1) [of gc AnyAggregator] a by simp
  moreover have "keeps_outputs gc1 (fold (add_any_value key a) vs gc1)"
    by (rule keeps_outputs_any_values [OF assms])
  ultimately have "keeps_outputs gc (fold (add_any_value key a) vs gc1)" by (rule keeps_outputs_trans)
  from keeps_outputs_trans [OF this keeps_outputs_steps(3)] show ?thesis
    using False by (simp add: attach_any_nodes_def a)
qed (simp add: attach_any_nodes_def keeps_outputs_def)

lemma keeps_outputs_capture: "keeps_outputs gc (attach_not_available_flow_nodes f b gc)"
proof (cases "blocked_capture_method f")
  case (Some m)
  then show ?thesis
    using keeps_outputs_trans [OF keeps_outputs_steps(2) keeps_outputs_steps(3)]
    by (simp add: attach_not_available_flow_nodes_def split_beta)
qed (simp add: attach_not_available_flow_nodes_def keeps_outputs_def)

lemma keeps_outputs_make_rule:
  assumes "make_rule pf gc = (r, gc')"
  shows "keeps_outputs gc gc'"
proof -
  obtain r0 gc1 where r0: "add_aggregator_node AllAggregator gc = (r0, gc1)" by fastforce
  obtain p gc2 where p: "add_value_node ''payment_method_type'' (fst pf) gc1 = (p, gc2)" by fastforce
  have "keeps_outputs gc gc1" using keeps_outputs_steps(1) [of gc AllAggregator] r0 by simp
  moreover have "keeps_outputs gc1 gc2"
    using keeps_outputs_steps(2) [of "''payment_method_type''" gc1 "fst pf"] p by simp
  ultimately have "keeps_outputs gc (add_edge p r0 Strong Positive gc2)"
    using keeps_outputs_steps(3) keeps_outputs_trans by metis
  then have "keeps_outputs gc (attach_country_filter_nodes (snd pf) r0 (add_edge p r0 Strong Positive gc2))"
    unfolding attach_country_filter_nodes_def
    by (rule keeps_outputs_trans) (rule keeps_outputs_attach, simp)
  then have "keeps_outputs gc (attach_currency_filter_nodes (snd pf) r0
      (attach_country_filter_nodes (snd pf) r0 (add_edge p r0 Strong Positive gc2)))"
    unfolding attach_currency_filter_nodes_def
    by (rule keeps_outputs_trans) (rule keeps_outputs_attach, simp)
  from keeps_outputs_trans [OF this keeps_outputs_capture, of "snd pf" r0] show ?thesis
    using assms by (auto simp: make_rule_def r0 p Let_def)
qed

type_synonym filter_rule = "string \<times> currency_country_flow_filter"

definition outs :: "graph_compiler \<Rightarrow> (string \<Rightarrow> filter_rule list) \<Rightarrow> bool" where
  "outs gc rs \<longleftrightarrow> gc_inv gc \<and>
     (\<forall>ov. case gc_value_nodes gc (NV_Value (value_clause ''output'' ov)) of
        None \<Rightarrow> rs ov = []
      | Some n \<Rightarrow> \<exists>ids. view gc n = List.map (\<lambda>i. (i, Positive, Normal)) ids \<and>
          list_all2 (rule_part gc) ids (rs ov))"

lemma outs_ext:
  assumes "outs gc rs" "gc_inv gc'" "ext {} gc gc'"
    and "\<And>v. gc_value_nodes gc' (NV_Value (value_clause ''output'' v)) =
          gc_value_nodes gc (NV_Value (value_clause ''output'' v)) \<or>
        (rs v = [] \<and> (\<exists>n. gc_value_nodes gc' (NV_Value (value_clause ''output'' v)) = Some n \<and>
           view gc' n = []))"
  shows "outs gc' rs"
  unfolding outs_def
proof (intro conjI allI)
  fix v
  let ?o = "NV_Value (value_clause ''output'' v)"
  show "case gc_value_nodes gc' ?o of None \<Rightarrow> rs v = []
      | Some n \<Rightarrow> \<exists>ids. view gc' n = List.map (\<lambda>i. (i, Positive, Normal)) ids \<and>
          list_all2 (rule_part gc') ids (rs v)"
  proof (cases "gc_value_nodes gc' ?o = gc_value_nodes gc ?o")
    case False
    with assms(4) [of v] show ?thesis by auto
  next
    case same: True
    show ?thesis
    proof (cases "gc_value_nodes gc ?o")
      case None
      with same assms(1) show ?thesis by (auto simp: outs_def dest!: spec [of _ v])
    next
      case (Some n)
      with assms(1) obtain ids where "view gc n = List.map (\<lambda>i. (i, Positive, Normal)) ids"
        "list_all2 (rule_part gc) ids (rs v)" by (auto simp: outs_def dest!: spec [of _ v])
      moreover have "view gc' n = view gc n"
        using Some assms(1,3) by (simp add: outs_def inv_value_nodes ext_def)
      moreover have "list_all2 (rule_part gc') ids (rs v)"
        using calculation(2) by (rule list_all2_mono) (rule ext_rule_part [OF assms(3)]; simp)
      ultimately show ?thesis using Some same by auto
    qed
  qed
qed (rule assms(2))

lemma outs_add_rule:
  assumes "outs gc rs" "gc_value_nodes gc (NV_Value (value_clause ''output'' ov)) = Some n"
    and "make_rule pf gc = (r, gc1)" "gc2 = add_edge r n Normal Positive gc1"
  shows "outs gc2 (rs(ov := rs ov @ [pf])) \<and>
    gc_value_nodes gc2 (NV_Value (value_clause ''output'' ov)) = Some n"
proof -
  have inv0: "gc_inv gc" using assms(1) by (simp add: outs_def)
  note R = make_rule_spec [OF inv0 assms(3)] and K = keeps_outputs_make_rule [OF assms(3)]
  have o1: "outs gc1 rs"
    using R K by (intro outs_ext [OF assms(1)]) (auto simp: keeps_outputs_def)
  have n1: "gc_value_nodes gc1 (NV_Value (value_clause ''output'' ov)) = Some n"
    using K assms(2) by (simp add: keeps_outputs_def)
  then have n: "n < nodes_of gc1" "kind gc1 n = NK_Value (NV_Value (value_clause ''output'' ov))"
    using R by (simp_all add: inv_value_nodes)
  have r: "r < nodes_of gc1" "kind gc1 r = AllAggregator" using R by (auto simp: rule_part_def)
  have E: "gc_inv gc2" "ext {n} gc1 gc2" "view gc2 n = view gc1 n @ [(r, Positive, Normal)]"
    "gc_value_nodes gc2 = gc_value_nodes gc1"
    using add_edge_spec [of gc1 r n Normal Positive] R n r assms(4) by (auto simp: value_clause_def)
  have rp: "rule_part gc2 i q" if "rule_part gc1 i q" for i q
    using n(2) by (intro ext_rule_part [OF E(2) that]) auto
  have "case gc_value_nodes gc2 (NV_Value (value_clause ''output'' v)) of
      None \<Rightarrow> (rs(ov := rs ov @ [pf])) v = []
    | Some m \<Rightarrow> \<exists>ids. view gc2 m = List.map (\<lambda>i. (i, Positive, Normal)) ids \<and>
        list_all2 (rule_part gc2) ids ((rs(ov := rs ov @ [pf])) v)" for v
  proof (cases "gc_value_nodes gc1 (NV_Value (value_clause ''output'' v))")
    case None
    with o1 n1 show ?thesis by (auto simp: E(4) outs_def dest!: spec [of _ v])
  next
    case (Some m)
    with o1 obtain ids where ids: "view gc1 m = List.map (\<lambda>i. (i, Positive, Normal)) ids"
      "list_all2 (rule_part gc1) ids (rs v)" by (auto simp: outs_def dest!: spec [of _ v])
    have ids2: "list_all2 (rule_part gc2) ids (rs v)" using ids(2) rp by (rule list_all2_mono)
    show ?thesis
    proof (cases "v = ov")
      case True
      with Some n1 have "m = n" by simp
      have "rule_part gc2 r pf" using rp R by blast
      with ids2 True have "list_all2 (rule_part gc2) (ids @ [r]) (rs ov @ [pf])"
        by (intro list_all2_appendI) simp_all
      with True \<open>m = n\<close> Some ids E show ?thesis
        by (auto intro!: exI [of _ "ids @ [r]"])
    next
      case False
      have "m < nodes_of gc1" "kind gc1 m = NK_Value (NV_Value (value_clause ''output'' v))"
        using Some R by (simp_all add: inv_value_nodes)
      moreover from this have "m \<noteq> n" using n(2) False by (auto simp: value_clause_def)
      ultimately have "view gc2 m = view gc1 m" using E(2) by (simp add: ext_def)
      with Some False ids ids2 show ?thesis by (auto simp: E(4))
    qed
  qed
  then show ?thesis using E(1,4) n1 by (simp add: outs_def)
qed

section \<open>The filters, read directly\<close>

definition output_of :: "string \<Rightarrow> string" where
  "output_of name = (if norm_lower name = ''default'' then sentinel else norm_lower name)"

definition conn_rules :: "payment_method_filters \<Rightarrow> filter_rule list" where
  "conn_rules fs =
     concat (List.map (\<lambda>(t, f). if norm_lower t = [] then [] else [(norm_lower t, f)]) fs)"

definition rules_of :: "connector_filters \<Rightarrow> string \<Rightarrow> filter_rule list" where
  "rules_of filters ov =
     concat (List.map (\<lambda>(name, fs). if output_of name = ov then conn_rules fs else []) filters)"

definition explicit_pmts :: "connector_filters \<Rightarrow> string \<Rightarrow> string set" where
  "explicit_pmts filters x = (\<Union>(name, fs)\<in>set filters.
     if norm_lower name = x \<and> x \<noteq> ''default'' then fst ` set (conn_rules fs) else {})"

definition default_pmts :: "connector_filters \<Rightarrow> string set" where
  "default_pmts filters = (\<Union>(name, fs)\<in>set filters.
     if norm_lower name = ''default'' then fst ` set (conn_rules fs) else {})"

definition etypes :: "build_state \<Rightarrow> string \<Rightarrow> string set" where
  "etypes st x = unwrap_or (bs_explicit_types st x) {}"

lemma conn_rules_Cons:
  "conn_rules ((t, f) # fs) = (if norm_lower t = [] then [] else [(norm_lower t, f)]) @ conn_rules fs"
  by (simp add: conn_rules_def)

lemma add_filter_rule_eq:
  assumes "norm_lower t \<noteq> []" "make_rule (norm_lower t, f) (bs_compiler st) = (r, gc1)"
  shows "bs_compiler (add_filter_rule d ov n (t, f) st) = add_edge r n Normal Positive gc1"
    and "etypes (add_filter_rule d ov n (t, f) st) =
      (if d then etypes st else (etypes st)(ov := insert (norm_lower t) (etypes st ov)))"
    and "bs_default_types (add_filter_rule d ov n (t, f) st) =
      (if d then insert (norm_lower t) (bs_default_types st) else bs_default_types st)"
  using assms
  by (auto simp: add_filter_rule_def make_rule_def Let_def etypes_def fun_eq_iff split: prod.splits)

lemma add_filter_rules_spec:
  fixes fs d
  assumes "outs (bs_compiler st) rs"
    and "gc_value_nodes (bs_compiler st) (NV_Value (value_clause ''output'' ov)) = Some n"
  defines "st' \<equiv> fold (add_filter_rule d ov n) fs st"
  shows "outs (bs_compiler st') (rs(ov := rs ov @ conn_rules fs)) \<and>
    etypes st' = (if d then etypes st
      else (etypes st)(ov := etypes st ov \<union> fst ` set (conn_rules fs))) \<and>
    bs_default_types st' = (if d then bs_default_types st \<union> fst ` set (conn_rules fs)
      else bs_default_types st)"
  using assms(1,2) unfolding st'_def
proof (induction fs arbitrary: st rs)
  case Nil
  then show ?case by (simp add: conn_rules_def)
next
  case (Cons tf fs)
  obtain t f where tf: "tf = (t, f)" by fastforce
  show ?case
  proof (cases "norm_lower t = []")
    case True
    then have "add_filter_rule d ov n tf st = st" by (simp add: add_filter_rule_def tf)
    with Cons True show ?thesis by (simp add: conn_rules_Cons tf)
  next
    case False
    obtain r gc1 where r: "make_rule (norm_lower t, f) (bs_compiler st) = (r, gc1)" by fastforce
    note eqs = add_filter_rule_eq [OF False r, of d ov n]
    let ?st = "add_filter_rule d ov n (t, f) st" and ?rs = "rs(ov := rs ov @ [(norm_lower t, f)])"
    have o: "outs (bs_compiler ?st) ?rs"
      "gc_value_nodes (bs_compiler ?st) (NV_Value (value_clause ''output'' ov)) = Some n"
      using outs_add_rule [OF Cons.prems r refl] by (simp_all add: eqs(1))
    have rs: "?rs(ov := ?rs ov @ conn_rules fs) = rs(ov := rs ov @ conn_rules ((t, f) # fs))"
      using False by (simp add: conn_rules_Cons)
    have im: "fst ` set (conn_rules ((t, f) # fs)) = insert (norm_lower t) (fst ` set (conn_rules fs))"
      using False by (simp add: conn_rules_Cons)
    have IH: "outs (bs_compiler (fold (add_filter_rule d ov n) fs ?st))
        (rs(ov := rs ov @ conn_rules ((t, f) # fs)))"
      "etypes (fold (add_filter_rule d ov n) fs ?st) = (if d then etypes ?st
        else (etypes ?st)(ov := etypes ?st ov \<union> fst ` set (conn_rules fs)))"
      "bs_default_types (fold (add_filter_rule d ov n) fs ?st) =
        (if d then bs_default_types ?st \<union> fst ` set (conn_rules fs) else bs_default_types ?st)"
      using Cons.IH [OF o] unfolding rs by blast+
    show ?thesis
      unfolding tf fold_Cons o_apply
      by (intro conjI IH(1)) (simp_all only: IH(2,3) eqs(2,3) im, auto simp: fun_eq_iff)
  qed
qed

lemma add_connector_spec:
  fixes name fs
  assumes "outs (bs_compiler st) rs"
  defines "st' \<equiv> add_connector (name, fs) st"
  shows "outs (bs_compiler st') (\<lambda>ov. rs ov @ rules_of [(name, fs)] ov) \<and>
    etypes st' = (\<lambda>x. etypes st x \<union> explicit_pmts [(name, fs)] x) \<and>
    bs_default_types st' = bs_default_types st \<union> default_pmts [(name, fs)]"
proof -
  let ?d = "norm_lower name = ''default''" and ?ov = "output_of name"
  let ?st1 = "if ?d then st\<lparr>bs_has_default_rules := True\<rparr>
    else st\<lparr>bs_explicit_connectors := insert (norm_lower name) (bs_explicit_connectors st)\<rparr>"
  obtain n gc where n: "add_value_node ''output'' ?ov (bs_compiler st) = (n, gc)" by fastforce
  have inv0: "gc_inv (bs_compiler st)" using assms(1) by (simp add: outs_def)
  note V = add_value_node_spec [OF inv0 n]
  have "gc_value_nodes gc (NV_Value (value_clause ''output'' v)) =
        gc_value_nodes (bs_compiler st) (NV_Value (value_clause ''output'' v)) \<or>
      (rs v = [] \<and> (\<exists>n. gc_value_nodes gc (NV_Value (value_clause ''output'' v)) = Some n \<and> view gc n = []))"
    for v
  proof (cases "v = ?ov")
    case True
    then show ?thesis
    proof (cases "gc_value_nodes (bs_compiler st) (NV_Value (value_clause ''output'' v))")
      case None
      with assms(1) have "rs v = []" by (auto simp: outs_def dest!: spec [of _ v])
      with None V True show ?thesis by auto
    next
      case (Some m)
      with V True show ?thesis by (auto simp: ext_def)
    qed
  next
    case False
    then have "NV_Value (value_clause ''output'' v) \<noteq> NV_Value (value_clause ''output'' ?ov)"
      by (simp add: value_clause_def)
    with V show ?thesis by blast
  qed
  with V have o1: "outs gc rs" by (intro outs_ext [OF assms(1)]) simp_all
  have st': "st' = fold (add_filter_rule ?d ?ov n) fs (?st1\<lparr>bs_compiler := gc\<rparr>)"
    using n unfolding st'_def
    by (cases ?d) (simp_all add: add_connector_def output_of_def Let_def)
  have ety: "etypes (?st1\<lparr>bs_compiler := gc\<rparr>) = etypes st" by (simp add: etypes_def fun_eq_iff)
  have dty: "bs_default_types (?st1\<lparr>bs_compiler := gc\<rparr>) = bs_default_types st" by simp
  have F: "outs (bs_compiler st') (rs(?ov := rs ?ov @ conn_rules fs)) \<and>
    etypes st' = (if ?d then etypes st
      else (etypes st)(?ov := etypes st ?ov \<union> fst ` set (conn_rules fs))) \<and>
    bs_default_types st' = (if ?d then bs_default_types st \<union> fst ` set (conn_rules fs)
      else bs_default_types st)"
    using add_filter_rules_spec [of "?st1\<lparr>bs_compiler := gc\<rparr>" rs ?ov n ?d fs] o1 V
    unfolding st' ety dty by simp
  have rs: "rs(?ov := rs ?ov @ conn_rules fs) = (\<lambda>ov. rs ov @ rules_of [(name, fs)] ov)"
    by (auto simp: rules_of_def fun_eq_iff)
  have "outs (bs_compiler st') (\<lambda>ov. rs ov @ rules_of [(name, fs)] ov)" using F unfolding rs by blast
  then show ?thesis using conjunct2 [OF F]
    by (auto simp: explicit_pmts_def default_pmts_def output_of_def fun_eq_iff)
qed

lemma rules_of_Cons: "rules_of (e # es) ov = rules_of [e] ov @ rules_of es ov"
  by (simp add: rules_of_def)

lemma pmts_Cons:
  "explicit_pmts (e # es) x = explicit_pmts [e] x \<union> explicit_pmts es x"
  "default_pmts (e # es) = default_pmts [e] \<union> default_pmts es"
  by (auto simp: explicit_pmts_def default_pmts_def)

lemma add_connectors_spec:
  assumes "outs (bs_compiler st) rs"
  shows "outs (bs_compiler (fold add_connector es st)) (\<lambda>ov. rs ov @ rules_of es ov) \<and>
    etypes (fold add_connector es st) = (\<lambda>x. etypes st x \<union> explicit_pmts es x) \<and>
    bs_default_types (fold add_connector es st) = bs_default_types st \<union> default_pmts es"
  using assms
proof (induction es arbitrary: st rs)
  case Nil
  then show ?case by (simp add: rules_of_def explicit_pmts_def default_pmts_def)
next
  case (Cons e es)
  obtain name fs where e: "e = (name, fs)" by fastforce
  note A = add_connector_spec [OF Cons.prems, of name fs, folded e]
  show ?case
    using Cons.IH [OF conjunct1 [OF A]] A rules_of_Cons [of e es] pmts_Cons [of e es]
    by (simp add: Un_assoc)
qed

section \<open>What the compiled graph decides\<close>

definition allows :: "check_ctx \<Rightarrow> string \<Rightarrow> string list \<Rightarrow> bool" where
  "allows ctx k vs \<longleftrightarrow> vs = [] \<or> ctx k = None \<or> (\<exists>v\<in>set vs. ctx k = Some (EnumVariant v))"

text \<open>
  A filter rule lets a request through when it is about the request's payment method type, the
  country and the currency are unconstrained, unknown or listed, and the capture method is not
  the blocked one.
\<close>

definition rule_ok :: "check_ctx \<Rightarrow> filter_rule \<Rightarrow> bool" where
  "rule_ok ctx pf \<longleftrightarrow>
     ctx ''payment_method_type'' = Some (EnumVariant (fst pf)) \<and>
     allows ctx ''billing_country'' (allowed_values (ccf_country (snd pf))) \<and>
     allows ctx ''currency'' (allowed_values (ccf_currency (snd pf))) \<and>
     (case blocked_capture_method (snd pf) of
        None \<Rightarrow> True | Some m \<Rightarrow> ctx ''capture_method'' \<noteq> Some (EnumVariant m))"

definition enum_ctx :: "check_ctx \<Rightarrow> bool" where
  "enum_ctx ctx \<longleftrightarrow> (\<forall>k v. ctx k = Some v \<longrightarrow> (\<exists>x. v = EnumVariant x))"

definition graph_of :: "graph_compiler \<Rightarrow> constraint_graph" where
  "graph_of gc = \<lparr>cg_nodes = gc_nodes gc, cg_edges = gc_edges gc, cg_value_map = gc_value_nodes gc\<rparr>"

abbreviation pred_sat :: "graph_compiler \<Rightarrow> check_ctx \<Rightarrow> node_id \<times> relation \<times> strength \<Rightarrow> bool" where
  "pred_sat gc ctx e \<equiv> (case e of (m, r, s) \<Rightarrow> node_sat (graph_of gc) ctx m r s)"

lemma view_edges:
  "(\<forall>p\<in>set (preds (gc_nodes gc ! n)). edge_sat (graph_of gc) ctx (gc_edges gc ! p)) \<longleftrightarrow>
     (\<forall>e\<in>set (view gc n). pred_sat gc ctx e)"
  "(\<exists>p\<in>set (preds (gc_nodes gc ! n)). edge_sat (graph_of gc) ctx (gc_edges gc ! p)) \<longleftrightarrow>
     (\<exists>e\<in>set (view gc n). pred_sat gc ctx e)"
  "preds (gc_nodes gc ! n) = [] \<longleftrightarrow> view gc n = []"
  by (auto simp: view_def Let_def)

lemma sat_all_view:
  "n < nodes_of gc \<Longrightarrow> kind gc n = AllAggregator \<Longrightarrow>
     node_sat (graph_of gc) ctx n r s \<longleftrightarrow> (\<forall>e\<in>set (view gc n). pred_sat gc ctx e)"
  using node_sat_all_iff [of n "graph_of gc" ctx r s] view_edges(1) [of gc n ctx]
  by (simp add: graph_of_def kind_def)

lemma sat_any_view:
  "n < nodes_of gc \<Longrightarrow> kind gc n = AnyAggregator \<Longrightarrow>
     node_sat (graph_of gc) ctx n r s \<longleftrightarrow> view gc n = [] \<or> (\<exists>e\<in>set (view gc n). pred_sat gc ctx e)"
  using node_sat_any_iff [of n "graph_of gc" ctx r s] view_edges(2,3) [of gc n]
  by (simp add: graph_of_def kind_def)

lemma sat_value_view:
  assumes "n < nodes_of gc" "kind gc n = NK_Value v" "\<forall>(m, r, s)\<in>set (view gc n). s \<noteq> Strong"
  shows "node_sat (graph_of gc) ctx n r s \<longleftrightarrow> check ctx v s = Inr (relation_bool r) \<and>
    (view gc n = [] \<or> (\<exists>e\<in>set (view gc n). pred_sat gc ctx e))"
proof -
  have "\<forall>p\<in>set (preds (gc_nodes gc ! n)). edge_strength (gc_edges gc ! p) \<noteq> Strong"
    using assms(3) by (auto simp: view_def Let_def)
  then show ?thesis
    using node_sat_value_iff [of n "graph_of gc" v ctx r s] view_edges(2,3) [of gc n] assms(1,2)
    by (simp add: graph_of_def kind_def)
qed

lemma check_enum:
  "enum_ctx ctx \<Longrightarrow> check ctx (NV_Value (value_clause k v)) s =
     Inr (if ctx k = None then s = Weak else ctx k = Some (EnumVariant v))"
proof (cases "ctx k")
  case (Some w)
  moreover assume "enum_ctx ctx"
  ultimately obtain x where "w = EnumVariant x" unfolding enum_ctx_def by blast
  with Some show ?thesis by (simp add: value_clause_def check_match_def)
qed (simp add: value_clause_def)

lemma sat_leaf:
  assumes "gc_inv gc" "leaf gc k v n" "k \<noteq> ''output''" "enum_ctx ctx"
  shows "node_sat (graph_of gc) ctx n r s \<longleftrightarrow>
    (if ctx k = None then s = Weak else ctx k = Some (EnumVariant v)) = relation_bool r"
proof -
  have "view gc n = []" by (rule leaf_view [OF assms(1) assms(2) [unfolded leaf_def] assms(3)])
  moreover have "n < nodes_of gc" "kind gc n = NK_Value (NV_Value (value_clause k v))"
    using assms(1,2) by (simp_all add: leaf_def inv_value_nodes)
  ultimately show ?thesis using sat_value_view [of n gc] check_enum [OF assms(4)] by simp
qed

lemma sat_any_part:
  assumes "gc_inv gc" "any_part gc k vs xs" "k \<noteq> ''output''" "enum_ctx ctx"
  shows "(\<forall>e\<in>set xs. pred_sat gc ctx e) \<longleftrightarrow> allows ctx k vs"
proof (cases "vs = []")
  case True
  with assms(2) show ?thesis by (simp add: any_part_def allows_def)
next
  case False
  with assms(2) obtain a ids where a: "xs = [(a, Positive, Normal)]" "a < nodes_of gc"
    "kind gc a = AnyAggregator" "view gc a = List.map (\<lambda>i. (i, Positive, Weak)) ids"
    "list_all2 (\<lambda>i v. leaf gc k v i) ids vs" by (auto simp: any_part_def)
  have "(\<exists>i\<in>set ids. node_sat (graph_of gc) ctx i Positive Weak) \<longleftrightarrow>
      (\<exists>v\<in>set vs. ctx k = None \<or> ctx k = Some (EnumVariant v))"
    using a(5)
  proof (induction rule: list_all2_induct)
    case (Cons i js v vs)
    then show ?case using sat_leaf [OF assms(1) _ assms(3,4), of v i Positive Weak]
      by (cases "ctx k") auto
  qed simp
  moreover have "ids \<noteq> []" using a(5) False by auto
  ultimately show ?thesis
    using False a(1,4) sat_any_view [OF a(2,3), of ctx Positive Normal] by (auto simp: allows_def)
qed

lemma sat_rule_part:
  assumes "gc_inv gc" "rule_part gc n pf" "enum_ctx ctx"
  shows "node_sat (graph_of gc) ctx n r s \<longleftrightarrow> rule_ok ctx pf"
proof -
  obtain p xs ys zs where R: "n < nodes_of gc" "kind gc n = AllAggregator"
    "leaf gc ''payment_method_type'' (fst pf) p" "view gc n = (p, Positive, Strong) # xs @ ys @ zs"
    "any_part gc ''billing_country'' (allowed_values (ccf_country (snd pf))) xs"
    "any_part gc ''currency'' (allowed_values (ccf_currency (snd pf))) ys"
    "capture_part gc (blocked_capture_method (snd pf)) zs"
    using assms(2) by (auto simp: rule_part_def)
  have "(\<forall>e\<in>set zs. pred_sat gc ctx e) \<longleftrightarrow> (case blocked_capture_method (snd pf) of
      None \<Rightarrow> True | Some m \<Rightarrow> ctx ''capture_method'' \<noteq> Some (EnumVariant m))"
    using R(7) sat_leaf [OF assms(1) _ _ assms(3), of "''capture_method''"]
    by (auto simp: capture_part_def split: option.splits)
  moreover have "node_sat (graph_of gc) ctx p Positive Strong \<longleftrightarrow>
      ctx ''payment_method_type'' = Some (EnumVariant (fst pf))"
    using sat_leaf [OF assms(1) R(3) _ assms(3)] by auto
  ultimately show ?thesis
    using sat_all_view [OF R(1,2), of ctx r s] sat_any_part [OF assms(1) R(5) _ assms(3)]
      sat_any_part [OF assms(1) R(6) _ assms(3)]
    by (simp add: R(4) rule_ok_def ball_Un)
qed

lemma sat_output:
  assumes "outs gc rs" "gc_value_nodes gc (NV_Value (value_clause ''output'' ov)) = Some n"
    and "enum_ctx ctx" "ctx ''output'' = Some (EnumVariant ov)"
  shows "node_sat (graph_of gc) ctx n Positive Strong \<longleftrightarrow> rs ov = [] \<or> (\<exists>pf\<in>set (rs ov). rule_ok ctx pf)"
proof -
  have inv: "gc_inv gc" using assms(1) by (simp add: outs_def)
  then have n: "n < nodes_of gc" "kind gc n = NK_Value (NV_Value (value_clause ''output'' ov))"
    using assms(2) by (simp_all add: inv_value_nodes)
  obtain ids where ids: "view gc n = List.map (\<lambda>i. (i, Positive, Normal)) ids"
    "list_all2 (rule_part gc) ids (rs ov)"
    using assms(1,2) by (auto simp: outs_def dest!: spec [of _ ov])
  have "(\<exists>i\<in>set ids. node_sat (graph_of gc) ctx i Positive Normal) \<longleftrightarrow> (\<exists>pf\<in>set (rs ov). rule_ok ctx pf)"
    using ids(2)
    by (induction rule: list_all2_induct) (use sat_rule_part [OF inv _ assms(3)] in auto)
  moreover have "ids = [] \<longleftrightarrow> rs ov = []" using ids(2) by auto
  ultimately show ?thesis
    using sat_value_view [OF n, of ctx Positive Strong] check_enum [OF assms(3)] assms(4)
    by (auto simp: ids(1))
qed

section \<open>The bundle\<close>

lemma build_value_map_spec:
  "(\<forall>j<length ns. \<forall>v. node_kind_of (ns ! j) = NK_Value v \<longrightarrow> vm v = None \<and>
       (\<forall>l<length ns. node_kind_of (ns ! l) = NK_Value v \<longrightarrow> l = j)) \<Longrightarrow>
   \<exists>vm'. build_value_map i ns vm = Inr vm' \<and>
     (\<forall>v n. vm' v = Some n \<longleftrightarrow> vm v = Some n \<or>
        (i \<le> n \<and> n < i + length ns \<and> node_kind_of (ns ! (n - i)) = NK_Value v))"
proof (induction ns arbitrary: i vm)
  case (Cons nd ns)
  have tail: "\<forall>j<length ns. \<forall>v. node_kind_of (ns ! j) = NK_Value v \<longrightarrow> vm v = None \<and>
      node_kind_of nd \<noteq> NK_Value v \<and> (\<forall>l<length ns. node_kind_of (ns ! l) = NK_Value v \<longrightarrow> l = j)"
    using Cons.prems
    by (metis Suc_less_eq length_Cons nth_Cons_0 nth_Cons_Suc old.nat.distinct(1) nat.inject
        zero_less_Suc)
  let ?vm = "case node_kind_of nd of NK_Value v \<Rightarrow> vm(v \<mapsto> i) | _ \<Rightarrow> vm"
  have "\<forall>j<length ns. \<forall>v. node_kind_of (ns ! j) = NK_Value v \<longrightarrow> ?vm v = None \<and>
      (\<forall>l<length ns. node_kind_of (ns ! l) = NK_Value v \<longrightarrow> l = j)"
    using tail by (auto split: node_kind.splits)
  from Cons.IH [OF this, of "Suc i"] obtain vm' where
    vm': "build_value_map (Suc i) ns ?vm = Inr vm'"
    "\<And>v n. vm' v = Some n \<longleftrightarrow> ?vm v = Some n \<or>
        (Suc i \<le> n \<and> n < Suc i + length ns \<and> node_kind_of (ns ! (n - Suc i)) = NK_Value v)"
    by blast
  have head: "vm v = None" if "node_kind_of nd = NK_Value v" for v
    using Cons.prems that by (auto dest: spec [of _ 0])
  have step: "build_value_map i (nd # ns) vm = build_value_map (Suc i) ns ?vm"
    using head by (auto split: node_kind.splits)
  have cases_n: "i \<le> n \<and> n < i + length (nd # ns) \<and> node_kind_of ((nd # ns) ! (n - i)) = NK_Value v \<longleftrightarrow>
      (n = i \<and> node_kind_of nd = NK_Value v) \<or>
      (Suc i \<le> n \<and> n < Suc i + length ns \<and> node_kind_of (ns ! (n - Suc i)) = NK_Value v)" for n v
    by (cases "n = i") (auto simp: nth_Cons' Suc_le_eq)
  have "vm' v = Some n \<longleftrightarrow> vm v = Some n \<or>
      (i \<le> n \<and> n < i + length (nd # ns) \<and> node_kind_of ((nd # ns) ! (n - i)) = NK_Value v)" for v n
    unfolding vm'(2) cases_n using head [of v]
    by (cases "node_kind_of nd") auto
  with vm'(1) step show ?case by auto
qed auto

lemma try_from_compiled:
  assumes "gc_inv gc"
  shows "try_from \<lparr>cgd_nodes = gc_nodes gc, cgd_edges = gc_edges gc\<rparr> = Inr (graph_of gc)"
proof -
  have "\<forall>j<nodes_of gc. \<forall>v. node_kind_of (gc_nodes gc ! j) = NK_Value v \<longrightarrow> Map.empty v = (None :: nat option) \<and>
      (\<forall>l<nodes_of gc. node_kind_of (gc_nodes gc ! l) = NK_Value v \<longrightarrow> l = j)"
    using inv_value_nodes [OF assms] unfolding kind_def by (metis option.inject)
  from build_value_map_spec [OF this, of 0] obtain vm where
    vm: "build_value_map 0 (gc_nodes gc) Map.empty = Inr vm"
    "\<And>v n. vm v = Some n \<longleftrightarrow> n < nodes_of gc \<and> kind gc n = NK_Value v"
    by (auto simp: kind_def)
  have "vm v = gc_value_nodes gc v" for v
    using vm(2) [of v] inv_value_nodes [OF assms, of v]
    by (cases "vm v"; cases "gc_value_nodes gc v") auto
  then have "vm = gc_value_nodes gc" by (rule ext)
  with vm(1) show ?thesis by (simp add: try_from_def graph_of_def)
qed

lemma compiled_graph_facts:
  assumes "gc_inv gc" "enum_ctx ctx"
  shows "ranked (\<lambda>n. kind_rank (kind gc n)) (graph_of gc)"
    and "wf_graph (graph_of gc)" and "checkable (graph_of gc) ctx"
proof -
  have edge: "edge_pred (gc_edges gc ! p) < nodes_of gc \<and>
      kind_rank (kind gc (edge_pred (gc_edges gc ! p))) < kind_rank (kind gc n) \<and> p < length (gc_edges gc)"
    if "n < nodes_of gc" "p \<in> set (preds (gc_nodes gc ! n))" for n p
  proof -
    let ?e = "gc_edges gc ! p"
    have "(edge_pred ?e, edge_relation ?e, edge_strength ?e) \<in> set (view gc n)"
      using that(2) by (auto simp: view_def Let_def)
    with that assms(1) show ?thesis unfolding gc_inv_def by fast
  qed
  then show "ranked (\<lambda>n. kind_rank (kind gc n)) (graph_of gc)" "wf_graph (graph_of gc)"
    by (simp_all add: ranked_def wf_graph_def graph_of_def)
  have "\<not> isl (check ctx v s)" if "n < nodes_of gc" "node_kind_of (gc_nodes gc ! n) = NK_Value v" for n v s
  proof -
    have "compiled_kind (NK_Value v)" using assms(1) that unfolding gc_inv_def kind_def by metis
    then show ?thesis using check_enum [OF assms(2)] by (cases v) auto
  qed
  then show "checkable (graph_of gc) ctx"
    by (auto simp: checkable_def graph_of_def in_set_conv_nth)
qed

lemma kind_rank_le: "kind_rank k < 4"
  by (cases k rule: kind_rank.cases) auto

definition rules_pass :: "connector_filters \<Rightarrow> check_ctx \<Rightarrow> string \<Rightarrow> bool" where
  "rules_pass filters ctx ov \<longleftrightarrow> (\<exists>pf\<in>set (rules_of filters ov). rule_ok ctx pf)"

text \<open>
  What the configuration says of a connector: the rules listed under its own name decide when one
  of them is about the request's payment method type, else the default rules when one of those
  is, else the connector is let through.
\<close>

definition eligible_spec :: "connector_filters \<Rightarrow> check_ctx \<Rightarrow> connector_info \<Rightarrow> bool" where
  "eligible_spec filters ctx c \<longleftrightarrow>
     (let n = norm_lower (gateway_name c) in
      case ctx ''payment_method_type'' of
        Some (EnumVariant pmt) \<Rightarrow>
          if pmt \<in> explicit_pmts filters n then rules_pass filters ctx n
          else if pmt \<in> default_pmts filters then rules_pass filters ctx sentinel
          else True
      | _ \<Rightarrow> True)"

definition init_state :: build_state where
  "init_state = \<lparr>bs_compiler = gc_default, bs_explicit_connectors = {}, bs_has_default_rules = False,
     bs_explicit_types = Map.empty, bs_default_types = {}\<rparr>"

lemma build_facts:
  fixes filters
  defines "st \<equiv> fold add_connector filters init_state"
  shows "outs (bs_compiler st) (rules_of filters)" "etypes st = explicit_pmts filters"
    "bs_default_types st = default_pmts filters"
proof -
  have "gc_inv gc_default" by (simp add: gc_inv_def gc_default_def)
  then have "outs gc_default (\<lambda>_. [])" by (simp add: outs_def) (simp add: gc_default_def)
  then have "outs (bs_compiler init_state) (\<lambda>_. [])" by (simp add: init_state_def)
  from add_connectors_spec [OF this, of filters]
  show "outs (bs_compiler st) (rules_of filters)" "etypes st = explicit_pmts filters"
    "bs_default_types st = default_pmts filters"
    by (simp_all add: st_def init_state_def etypes_def)
qed

lemma rules_of_nonempty:
  "pmt \<in> explicit_pmts filters n \<Longrightarrow> rules_of filters n \<noteq> []"
  "pmt \<in> default_pmts filters \<Longrightarrow> rules_of filters sentinel \<noteq> []"
  by (fastforce simp: explicit_pmts_def default_pmts_def rules_of_def output_of_def split: if_splits)+

lemma compiled_clause_check:
  assumes "4 \<le> fuel" "enum_ctx ctx" "rules_of filters ov \<noteq> []"
  defines "gc \<equiv> bs_compiler (fold add_connector filters init_state)"
  shows "check_clause_validity fuel (graph_of gc) (value_clause ''output'' ov)
      (ctx(''output'' \<mapsto> EnumVariant ov)) = Some (Inr (rules_pass filters ctx ov))"
proof -
  let ?ctx = "ctx(''output'' \<mapsto> EnumVariant ov)"
  have o: "outs gc (rules_of filters)" unfolding gc_def by (rule build_facts(1))
  then have inv: "gc_inv gc" by (simp add: outs_def)
  have ctx: "enum_ctx ?ctx" using assms(2) by (auto simp: enum_ctx_def)
  obtain n where n: "gc_value_nodes gc (NV_Value (value_clause ''output'' ov)) = Some n"
    using o assms(3) by (auto simp: outs_def dest!: spec [of _ ov] split: option.splits)
  have "rule_ok ?ctx pf \<longleftrightarrow> rule_ok ctx pf" for pf
    by (simp add: rule_ok_def allows_def split: option.splits)
  then have "node_sat (graph_of gc) ?ctx n Positive Strong \<longleftrightarrow> rules_pass filters ctx ov"
    using sat_output [OF o n ctx] assms(3) by (simp add: rules_pass_def)
  moreover have "kind_rank (kind gc m) < fuel" for m
    using kind_rank_le [of "kind gc m"] assms(1) by simp
  ultimately show ?thesis
    using check_clause_validity_exact [OF compiled_graph_facts(1) [OF inv ctx] _
        compiled_graph_facts(2,3) [OF inv ctx], of fuel "value_clause ''output'' ov"]
      n inv_value_nodes [OF inv] by (simp add: graph_of_def)
qed

lemma connector_is_eligible_spec:
  assumes "4 \<le> fuel" "enum_ctx ctx"
    and "pf_graph b = graph_of (bs_compiler (fold add_connector filters init_state))"
    and "explicit_connector_payment_method_types b = bs_explicit_types (fold add_connector filters init_state)"
    and "default_payment_method_types b = bs_default_types (fold add_connector filters init_state)"
  shows "connector_is_eligible fuel b ctx c = Some (eligible_spec filters ctx c)"
proof (cases "ctx ''payment_method_type''")
  case None
  then show ?thesis
    by (simp add: connector_is_eligible_def eligible_spec_def get_context_enum_value_def)
next
  case (Some w)
  then obtain pmt where w: "w = EnumVariant pmt" using assms(2) unfolding enum_ctx_def by blast
  let ?n = "norm_lower (gateway_name c)"
  have e: "(case bs_explicit_types (fold add_connector filters init_state) ?n of
      None \<Rightarrow> False | Some types \<Rightarrow> pmt \<in> types) \<longleftrightarrow> pmt \<in> explicit_pmts filters ?n"
    unfolding build_facts(2) [symmetric, of filters] etypes_def by (simp split: option.splits)
  show ?thesis
    using compiled_clause_check [OF assms(1,2) rules_of_nonempty(1) [of pmt filters ?n]]
      compiled_clause_check [OF assms(1,2) rules_of_nonempty(2) [of pmt filters]]
    by (simp add: connector_is_eligible_def eligible_spec_def get_context_enum_value_def Some w
        assms(3-5) e build_facts(3) Let_def)
qed

lemma enum_ctx_insert_opt: "enum_ctx ctx \<Longrightarrow> enum_ctx (insert_opt k v ctx)"
  by (auto simp: enum_ctx_def insert_opt_def split: option.splits if_splits)

lemma build_context_enum: "build_pm_filter_context params iso2 = Some ctx \<Longrightarrow> enum_ctx ctx"
  by (auto simp: build_pm_filter_context_def split: option.splits
      intro!: enum_ctx_insert_opt) (simp add: enum_ctx_def)

lemma filter_connectors_total:
  "(\<And>c. p c = Some (q c)) \<Longrightarrow> filter_connectors p cs = Some (filter q cs)"
  by (induction cs) simp_all

text \<open>The request and the configured country table, as the direct reading takes them.\<close>

definition connector_allowed ::
  "connector_filters \<Rightarrow> toml_config option \<Rightarrow> ctx \<Rightarrow> connector_info \<Rightarrow> bool" where
  "connector_allowed filters config params c \<longleftrightarrow>
     (case build_pm_filter_context params (build_billing_country_to_iso2_map config) of
        None \<Rightarrow> True
      | Some ctx \<Rightarrow> eligible_spec filters ctx c)"

lemma filter_connectors_exact:
  assumes "4 \<le> fuel"
  shows "\<exists>bundle. build_pm_filter_graph_bundle filters config = Inr bundle \<and>
    (\<forall>conns. filter_eligible_connectors fuel bundle params conns =
      Some (filter (connector_allowed filters config params) conns))"
proof -
  let ?st = "fold add_connector filters init_state"
  have "gc_inv (bs_compiler ?st)" using build_facts(1) [of filters] by (simp add: outs_def)
  from try_from_compiled [OF this] obtain b where
    b: "build_pm_filter_graph_bundle filters config = Inr b"
    "pf_graph b = graph_of (bs_compiler ?st)"
    "explicit_connector_payment_method_types b = bs_explicit_types ?st"
    "default_payment_method_types b = bs_default_types ?st"
    "billing_country_to_iso2 b = build_billing_country_to_iso2_map config"
    by (auto simp: build_pm_filter_graph_bundle_def init_state_def Let_def)
  have "filter_eligible_connectors fuel b params conns =
      Some (filter (connector_allowed filters config params) conns)" for conns
  proof (cases "build_pm_filter_context params (build_billing_country_to_iso2_map config)")
    case None
    then show ?thesis by (simp add: filter_eligible_connectors_def connector_allowed_def b(5))
  next
    case (Some ctx)
    have "connector_is_eligible fuel b ctx c = Some (connector_allowed filters config params c)" for c
      using connector_is_eligible_spec [OF assms build_context_enum [OF Some] b(2-4)] Some
      by (simp add: connector_allowed_def)
    then show ?thesis
      using Some by (simp add: filter_eligible_connectors_def b(5) filter_connectors_total)
  qed
  with b(1) show ?thesis by blast
qed

text \<open>
  C6. Compiling the configured filters always succeeds, and with four units of fuel the check of
  the compiled graph always returns: the connectors it keeps are, in order, exactly those the
  configuration allows when it is read directly, the connector's own rules first, then the
  default rules, then letting the connector through.
\<close>

theorem filter_eligible_connectors_exact:
  assumes "4 \<le> fuel"
  shows "\<exists>bundle. build_pm_filter_graph_bundle filters config = Inr bundle \<and>
    filter_eligible_connectors fuel bundle params conns =
      Some (filter (connector_allowed filters config params) conns)"
  using filter_connectors_exact [OF assms, of filters config params] by blast

lemma filter_eligible_connectors_exact_witness:
  "\<exists>bundle. build_pm_filter_graph_bundle
      [(''Stripe'', [(''credit'', \<lparr>ccf_country = None, ccf_currency = Some [''usd''],
         ccf_not_available_flows = None\<rparr>)])] None = Inr bundle \<and>
    filter_eligible_connectors 4 bundle
      [''payment_method_type'' \<mapsto> Some (EnumVariant ''Credit''), ''currency'' \<mapsto> Some (EnumVariant ''EUR'')]
      [conn ''stripe'', conn ''adyen''] = Some [conn ''adyen'']"
proof -
  let ?fs = "[(''Stripe'', [(''credit'', \<lparr>ccf_country = None, ccf_currency = Some [''usd''],
         ccf_not_available_flows = None\<rparr>)])] :: connector_filters"
  let ?ps = "[''payment_method_type'' \<mapsto> Some (EnumVariant ''Credit''),
      ''currency'' \<mapsto> Some (EnumVariant ''EUR'')] :: ctx"
  have "filter (connector_allowed ?fs None ?ps) [conn ''stripe'', conn ''adyen''] = [conn ''adyen'']"
    by code_simp
  with filter_eligible_connectors_exact [of 4 ?fs None ?ps "[conn ''stripe'', conn ''adyen'']"]
  show ?thesis by simp
qed

end
