(* ===== verification/Mem_Cache.thy ===== *)
theory Mem_Cache
  imports Prelude
begin

text \<open>
  The in-process caches of \<open>src/src/redis/mem_cache.rs\<close>: the score cache and the typed cache,
  which skip an access when their lock is taken, and the registry with per-entry expiry. Clock
  readings, in milliseconds, are arguments, as is whether a lock could be taken; a hash map is
  its list of entries in iteration order.
\<close>

section \<open>The two caches with a fixed time to live\<close>

record sr_score_cache =
  sc_data :: "(f64 \<times> nat) hmap"
  sc_ttl :: nat
  sc_max_size :: nat

definition sc_new :: "nat \<Rightarrow> nat \<Rightarrow> sr_score_cache" where
  "sc_new ttl_ms max_size = \<lparr>sc_data = [], sc_ttl = ttl_ms, sc_max_size = max_size\<rparr>"

text \<open>\<open>locked\<close>: the lock is taken by another access. Elapsed time saturates at zero.\<close>

definition sc_get :: "sr_score_cache \<Rightarrow> bool \<Rightarrow> nat \<Rightarrow> string \<Rightarrow> f64 option" where
  "sc_get c locked now key =
     (if locked then None
      else (case map_of (sc_data c) key of
              Some (score, stored_at) \<Rightarrow> if now - stored_at < sc_ttl c then Some score else None
            | None \<Rightarrow> None))"

definition evict_key :: "nat \<Rightarrow> nat \<Rightarrow> ('v \<times> nat) hmap \<Rightarrow> string option" where
  "evict_key ttl now data =
     opt_or (map_option fst (find (\<lambda>(_, _, stored_at). now - stored_at \<ge> ttl) data))
       (case data of [] \<Rightarrow> None | (k, _) # _ \<Rightarrow> Some k)"

definition make_room :: "nat \<Rightarrow> nat \<Rightarrow> nat \<Rightarrow> ('v \<times> nat) hmap \<Rightarrow> ('v \<times> nat) hmap" where
  "make_room max_size ttl now data =
     (if length data \<ge> max_size
      then (case evict_key ttl now data of Some k \<Rightarrow> hm_remove k data | None \<Rightarrow> data)
      else data)"

definition sc_store ::
  "sr_score_cache \<Rightarrow> bool \<Rightarrow> nat \<Rightarrow> nat \<Rightarrow> string \<Rightarrow> f64 \<Rightarrow> sr_score_cache" where
  "sc_store c locked t_scan t_insert key score =
     (if locked then c
      else c\<lparr>sc_data := hm_insert key (score, t_insert)
               (make_room (sc_max_size c) (sc_ttl c) t_scan (sc_data c))\<rparr>)"

record 'v typed_cache =
  tc_data :: "('v \<times> nat) hmap"
  tc_ttl :: nat
  tc_max_size :: nat

definition tc_new :: "nat \<Rightarrow> nat \<Rightarrow> 'v typed_cache" where
  "tc_new ttl_ms max_size = \<lparr>tc_data = [], tc_ttl = ttl_ms, tc_max_size = max_size\<rparr>"

definition tc_get :: "'v typed_cache \<Rightarrow> bool \<Rightarrow> nat \<Rightarrow> string \<Rightarrow> 'v option" where
  "tc_get c locked now key =
     (if locked then None
      else Option.bind (map_of (tc_data c) key)
             (\<lambda>(value, stored_at). if now - stored_at \<ge> tc_ttl c then None else Some value))"

definition tc_store ::
  "'v typed_cache \<Rightarrow> bool \<Rightarrow> nat \<Rightarrow> nat \<Rightarrow> string \<Rightarrow> 'v \<Rightarrow> 'v typed_cache" where
  "tc_store c locked t_scan t_insert key value =
     (if locked then c
      else c\<lparr>tc_data := hm_insert key (value, t_insert)
               (make_room (tc_max_size c) (tc_ttl c) t_scan (tc_data c))\<rparr>)"

section \<open>The contract of a cache with a time to live\<close>

text \<open>
  What a caller relies on: an access to a taken lock does nothing, a stored value is found until
  its time to live has passed and not after, and storing under one key never changes what
  another key holds, except to drop it.
\<close>

locale ttl_cache =
  fixes get :: "'c \<Rightarrow> bool \<Rightarrow> nat \<Rightarrow> string \<Rightarrow> 'v option"
    and store :: "'c \<Rightarrow> bool \<Rightarrow> nat \<Rightarrow> nat \<Rightarrow> string \<Rightarrow> 'v \<Rightarrow> 'c"
    and ttl :: "'c \<Rightarrow> nat"
    and empty_cache :: "'c \<Rightarrow> bool"
    and invar :: "'c \<Rightarrow> bool"
  assumes get_locked: "get c True t k = None"
    and store_locked: "store c True t_scan t_ins k v = c"
    and get_store_same: "invar c \<Longrightarrow>
      get (store c False t_scan t_ins k v) False t k = (if t - t_ins < ttl c then Some v else None)"
    and get_store_other: "invar c \<Longrightarrow> k' \<noteq> k \<Longrightarrow>
      get (store c False t_scan t_ins k v) False t k' \<in> {None, get c False t k'}"
    and ttl_store: "ttl (store c l t_scan t_ins k v) = ttl c"
    and invar_store: "invar c \<Longrightarrow> invar (store c l t_scan t_ins k v)"
    and invar_empty: "empty_cache c \<Longrightarrow> invar c"
    and get_empty: "empty_cache c \<Longrightarrow> get c l t k = None"
begin

text \<open>A history of stores: whether the lock was taken, the two clock readings, key and value.\<close>

definition run :: "'c \<Rightarrow> (bool \<times> nat \<times> nat \<times> string \<times> 'v) list \<Rightarrow> 'c" where
  "run c evs = foldl (\<lambda>c (l, ts, ti, k, v). store c l ts ti k v) c evs"

lemma run_snoc: "run c (evs @ [(l, ts, ti, k, v)]) = store (run c evs) l ts ti k v"
  by (simp add: run_def)

lemma run_invar: "invar c \<Longrightarrow> invar (run c evs) \<and> ttl (run c evs) = ttl c"
  by (induction evs rule: rev_induct) (auto simp: run_snoc invar_store ttl_store run_def split: prod.splits)

lemma hit_is_last_store:
  assumes "empty_cache c" "get (run c evs) l t k = Some v"
  shows "\<exists>pre post ts ti. evs = pre @ (False, ts, ti, k, v) # post \<and> t - ti < ttl c \<and>
    (\<forall>(l', _, _, k', _)\<in>set post. l' \<or> k' \<noteq> k)"
  using assms(2)
proof (induction evs rule: rev_induct)
  case Nil
  then show ?case using get_empty [OF assms(1)] by (simp add: run_def)
next
  case (snoc e evs)
  obtain l' ts ti k' v' where e: "e = (l', ts, ti, k', v')" by (cases e)
  have inv: "invar (run c evs)" "ttl (run c evs) = ttl c"
    using run_invar [OF invar_empty [OF assms(1)]] by auto
  have nl: "\<not> l" using snoc.prems get_locked by (cases l) auto
  show ?case
  proof (cases "\<not> l' \<and> k' = k")
    case True
    with snoc.prems nl get_store_same [OF inv(1)]
    have "t - ti < ttl c" "v' = v" by (auto simp: e run_snoc inv(2) split: if_splits)
    with True e show ?thesis by (intro exI [of _ evs] exI [of _ "[]"]) auto
  next
    case False
    then have "get (run c evs) l t k = Some v"
      using snoc.prems nl get_store_other [OF inv(1), of k k' ts ti v' t] store_locked
      by (cases l') (auto simp: e run_snoc)
    from snoc.IH [OF this] obtain pre post ts0 ti0 where
      "evs = pre @ (False, ts0, ti0, k, v) # post" "t - ti0 < ttl c"
      "\<forall>(l', _, _, k', _)\<in>set post. l' \<or> k' \<noteq> k" by blast
    with False e show ?thesis
      by (intro exI [of _ pre] exI [of _ "post @ [e]"]) auto
  qed
qed

end

section \<open>Both caches keep the contract\<close>

lemma map_of_make_room:
  "map_of (make_room m ttl t data) k = None \<or> map_of (make_room m ttl t data) k = map_of data k"
  by (auto simp: make_room_def split: option.splits)

lemma make_room_ok: "hm_ok data \<Longrightarrow> hm_ok (make_room m ttl t data)"
  by (auto simp: make_room_def split: option.splits)

lemma sc_other: "k' \<noteq> k \<Longrightarrow>
  sc_get (sc_store c False ts ti k v) False t k' \<in> {None, sc_get c False t k'}"
  using map_of_make_room [of "sc_max_size c" "sc_ttl c" ts "sc_data c" k']
  by (elim disjE) (simp_all add: sc_get_def sc_store_def split: option.splits)

lemma tc_other: "k' \<noteq> k \<Longrightarrow>
  tc_get (tc_store c False ts ti k v) False t k' \<in> {None, tc_get c False t k'}"
  using map_of_make_room [of "tc_max_size c" "tc_ttl c" ts "tc_data c" k']
  by (elim disjE) (simp_all add: tc_get_def tc_store_def split: option.splits)

interpretation sr: ttl_cache sc_get sc_store sc_ttl "\<lambda>c. sc_data c = []" "\<lambda>c. hm_ok (sc_data c)"
proof unfold_locales
  fix c and k k' :: string and ts ti v t
  assume "k' \<noteq> k"
  then show "sc_get (sc_store c False ts ti k v) False t k' \<in> {None, sc_get c False t k'}"
    by (rule sc_other)
qed (simp_all add: sc_get_def sc_store_def make_room_ok)

interpretation tc: ttl_cache tc_get tc_store tc_ttl "\<lambda>c. tc_data c = []" "\<lambda>c. hm_ok (tc_data c)"
proof unfold_locales
  fix c :: "'v typed_cache" and k k' :: string and ts ti v t
  assume "k' \<noteq> k"
  then show "tc_get (tc_store c False ts ti k v) False t k' \<in> {None, tc_get c False t k'}"
    by (rule tc_other)
qed (simp_all add: tc_get_def tc_store_def make_room_ok)

section \<open>Size and eviction\<close>

lemma evict_key_mem: "evict_key ttl t data = Some k \<Longrightarrow> k \<in> fst ` set data"
proof (cases "find (\<lambda>(_, _, stored_at). t - stored_at \<ge> ttl) data")
  case None
  moreover assume "evict_key ttl t data = Some k"
  ultimately show ?thesis by (cases data) (auto simp: evict_key_def)
next
  case (Some e)
  then have "e \<in> set data" by (auto simp: find_Some_iff in_set_conv_nth)
  moreover assume "evict_key ttl t data = Some k"
  ultimately show ?thesis using Some by (auto simp: evict_key_def)
qed

lemma evict_key_ex: "data \<noteq> [] \<Longrightarrow> \<exists>k. evict_key ttl t data = Some k"
  by (cases "find (\<lambda>(_, _, stored_at). t - stored_at \<ge> ttl) data"; cases data)
    (auto simp: evict_key_def)

lemma make_room_length:
  assumes "length data \<le> max m 1"
  shows "length (make_room m ttl t data) < m \<or> make_room m ttl t data = []"
proof (cases "length data \<ge> m")
  case True
  show ?thesis
  proof (cases data)
    case (Cons x xs)
    then obtain k where k: "evict_key ttl t data = Some k" using evict_key_ex [of data] by blast
    have "length (hm_remove k data) < length data" by (rule hm_length_remove [OF evict_key_mem [OF k]])
    with assms k True show ?thesis
      by (cases m) (auto simp: make_room_def less_Suc_eq simp flip: length_0_conv)
  qed (simp add: make_room_def evict_key_def)
qed (simp add: make_room_def)

lemma hm_insert_bound:
  "length xs < m \<or> xs = [] \<Longrightarrow> length (hm_insert k v xs) \<le> max m 1"
  by (auto simp: hm_length_insert)

text \<open>
  A hit in the typed cache is the value of the latest store under that key that got the lock,
  and that store is younger than the time to live; whatever was stored in between, whichever
  accesses found the lock taken.
\<close>

theorem typed_cache_hit:
  assumes "tc_data c = []" "tc_get (tc.run c evs) locked now key = Some v"
  shows "\<exists>pre post t_scan t_ins. evs = pre @ (False, t_scan, t_ins, key, v) # post \<and>
    now - t_ins < tc_ttl c \<and> (\<forall>(l, _, _, k, _)\<in>set post. l \<or> k \<noteq> key)"
  using assms by (rule tc.hit_is_last_store)

definition demo_stores :: "(bool \<times> nat \<times> nat \<times> string \<times> nat) list" where
  "demo_stores = [(False, 0, 0, ''a'', 1), (True, 5, 5, ''a'', 2)]"

lemma typed_cache_hit_witness:
  "\<exists>pre post ts ti. demo_stores = pre @ (False, ts, ti, ''a'', 1) # post \<and> 50 - ti < 75"
proof -
  have e: "tc_data (tc_new 75 10 :: nat typed_cache) = []" by (simp add: tc_new_def)
  have "tc_get (tc.run (tc_new 75 10) demo_stores) False 50 ''a'' = Some 1"
    by (simp add: tc.run_def tc_new_def tc_get_def tc_store_def make_room_def hm_insert_def
        demo_stores_def)
  from typed_cache_hit [OF e this] show ?thesis by (simp add: tc_new_def) blast
qed

text \<open>
  Storing in the score cache with the lock free always stores: the score is found until its
  time to live has passed, even when the cache is full of fresh entries; a cache within its
  bound stays within it, and a full cache gives up an expired entry if it has one.
\<close>

theorem score_cache_store:
  fixes score key t_ins t_scan now
  assumes "hm_ok (sc_data c)" "length (sc_data c) \<le> max (sc_max_size c) 1"
  defines "c' \<equiv> sc_store c False t_scan t_ins key score"
  shows "sc_get c' False now key = (if now - t_ins < sc_ttl c then Some score else None) \<and>
    length (sc_data c') \<le> max (sc_max_size c) 1 \<and>
    (length (sc_data c) \<ge> sc_max_size c \<longrightarrow>
     (\<exists>(k, _, t)\<in>set (sc_data c). t_scan - t \<ge> sc_ttl c) \<longrightarrow>
     (\<exists>(k, _, t)\<in>set (sc_data c). t_scan - t \<ge> sc_ttl c \<and>
        make_room (sc_max_size c) (sc_ttl c) t_scan (sc_data c) = hm_remove k (sc_data c)))"
proof (intro conjI impI)
  show "sc_get c' False now key = (if now - t_ins < sc_ttl c then Some score else None)"
    unfolding c'_def by (rule sr.get_store_same [OF assms(1)])
  show "length (sc_data c') \<le> max (sc_max_size c) 1"
    using hm_insert_bound [OF make_room_length [OF assms(2)]] by (simp add: c'_def sc_store_def)
  let ?old = "\<lambda>(_ :: string, _ :: f64, t). t_scan - t \<ge> sc_ttl c"
  assume full: "length (sc_data c) \<ge> sc_max_size c"
    and "\<exists>(k, _, t)\<in>set (sc_data c). t_scan - t \<ge> sc_ttl c"
  then obtain e where e: "find ?old (sc_data c) = Some e"
    by (cases "find ?old (sc_data c)") (auto simp: find_None_iff)
  then have "e \<in> set (sc_data c)" "?old e" by (auto simp: find_Some_iff in_set_conv_nth)
  moreover have "make_room (sc_max_size c) (sc_ttl c) t_scan (sc_data c) = hm_remove (fst e) (sc_data c)"
    using full e by (simp add: make_room_def evict_key_def)
  ultimately show "\<exists>(k, _, t)\<in>set (sc_data c). t_scan - t \<ge> sc_ttl c \<and>
      make_room (sc_max_size c) (sc_ttl c) t_scan (sc_data c) = hm_remove k (sc_data c)"
    by force
qed

lemma score_cache_store_witness:
  "let c = sc_store (sc_new 75 1) False 0 0 ''a'' (Fin 1) in
     sc_get (sc_store c False 10 10 ''b'' (Fin 0)) False 20 ''b'' = Some (Fin 0)"
proof -
  let ?c = "sc_store (sc_new 75 1) False 0 0 ''a'' (Fin 1)"
  have "hm_ok (sc_data ?c)" "length (sc_data ?c) \<le> max (sc_max_size ?c) 1" "sc_ttl ?c = 75"
    by (simp_all add: sc_store_def sc_new_def make_room_def evict_key_def hm_insert_def)
  with score_cache_store [where c = ?c and now = 20 and t_scan = 10 and key = "''b''" and score = "Fin 0" and t_ins = 10] show ?thesis by (simp add: Let_def)
qed

section \<open>The registry\<close>

record cache_entry =
  ce_value :: json
  ce_expires_at :: "nat option"

record registry =
  rg_data :: "cache_entry hmap"
  rg_max_size :: nat

definition rg_new :: "nat \<Rightarrow> registry" where
  "rg_new max_size = \<lparr>rg_data = [], rg_max_size = max_size\<rparr>"

definition expired :: "nat \<Rightarrow> cache_entry \<Rightarrow> bool" where
  "expired now e \<longleftrightarrow> (case ce_expires_at e of Some t \<Rightarrow> now > t | None \<Rightarrow> False)"

text \<open>
  \<open>get\<close> releases the read lock before it takes the write lock, so the state \<open>r'\<close> under the write
  lock may differ from the state \<open>r\<close> it read. \<open>read_ok\<close> and \<open>write_ok\<close> say that the locks are not
  poisoned; \<open>from_value\<close> and \<open>to_value\<close> stand for serde.
\<close>

definition rg_get ::
  "(json \<Rightarrow> string + 't) \<Rightarrow> bool \<Rightarrow> bool \<Rightarrow> registry \<Rightarrow> registry \<Rightarrow> nat \<Rightarrow> nat \<Rightarrow> string \<Rightarrow>
   (string + 't) \<times> registry" where
  "rg_get from_value read_ok write_ok r r' now now' key =
     (if \<not> read_ok then (Inl ''Read lock error'', r)
      else
        (case map_of (rg_data r) key of
           None \<Rightarrow> (Inl ''Key not found'', r)
         | Some e \<Rightarrow>
             if \<not> expired now e
             then (map_err ((@) ''Deserialization error: '') (from_value (ce_value e)), r)
             else if \<not> write_ok then (Inl ''Write lock error'', r')
             else
               (case map_of (rg_data r') key of
                  None \<Rightarrow> (Inl ''Key not found'', r')
                | Some e' \<Rightarrow>
                    (case ce_expires_at e' of
                       None \<Rightarrow> (Inl ''Key not found'', r')
                     | Some _ \<Rightarrow>
                         if expired now' e'
                         then (Inl ''Key expired'', r'\<lparr>rg_data := hm_remove key (rg_data r')\<rparr>)
                         else (map_err ((@) ''Deserialization error: '')
                                 (from_value (ce_value e')), r')))))"

definition cleanup_expired :: "nat \<Rightarrow> cache_entry hmap \<Rightarrow> cache_entry hmap" where
  "cleanup_expired now data = filter (\<lambda>(_, e). \<not> expired now e) data"

definition rg_store ::
  "('t \<Rightarrow> string + json) \<Rightarrow> bool \<Rightarrow> registry \<Rightarrow> nat \<Rightarrow> nat \<Rightarrow> string \<Rightarrow> 't \<Rightarrow> nat option \<Rightarrow>
   (string + unit) \<times> registry" where
  "rg_store to_value write_ok r now now' key value ttl_seconds =
     (if \<not> write_ok then (Inl ''Write lock error'', r)
      else
        (let data = cleanup_expired now (rg_data r);
             data = (if length data \<ge> rg_max_size r
                     then (case data of [] \<Rightarrow> data | (k, _) # _ \<Rightarrow> hm_remove k data)
                     else data)
         in case to_value value of
              Inl e \<Rightarrow> (Inl (''Serialization error: '' @ e), r\<lparr>rg_data := data\<rparr>)
            | Inr json_value \<Rightarrow>
                (Inr (), r\<lparr>rg_data := hm_insert key
                    \<lparr>ce_value = json_value,
                     ce_expires_at = map_option (\<lambda>ttl. now' + 1000 * ttl) ttl_seconds\<rparr> data\<rparr>)))"

definition rg_remove :: "bool \<Rightarrow> registry \<Rightarrow> string \<Rightarrow> (string + unit) \<times> registry" where
  "rg_remove write_ok r key =
     (if \<not> write_ok then (Inl ''Write lock error'', r)
      else (Inr (), r\<lparr>rg_data := hm_remove key (rg_data r)\<rparr>))"

definition rg_size :: "registry \<Rightarrow> nat" where
  "rg_size r = length (rg_data r)"

definition rg_clear :: "bool \<Rightarrow> registry \<Rightarrow> (string + unit) \<times> registry" where
  "rg_clear write_ok r =
     (if \<not> write_ok then (Inl ''Write lock error'', r) else (Inr (), r\<lparr>rg_data := []\<rparr>))"

text \<open>
  A value stored in the registry is returned by every read up to its expiry, and by none
  after it: then the read is an error and the entry is gone. Without a time to live it never
  expires.
\<close>

theorem registry_get_after_store:
  assumes "to_value v = Inr j" "from_value j = Inr v"
    and "rg_store to_value True r t t' key v ttl = (res, r1)"
  shows "res = Inr () \<and>
    (let alive = (case ttl of None \<Rightarrow> True | Some s \<Rightarrow> now \<le> t' + 1000 * s);
         (got, r2) = rg_get from_value True True r1 r1 now now key
     in (if alive then got = Inr v \<and> r2 = r1
         else got = Inl ''Key expired'' \<and> map_of (rg_data r2) key = None))"
  using assms
  by (auto simp: rg_store_def rg_get_def expired_def Let_def split: option.splits)

lemma registry_get_after_store_witness:
  "\<exists>r1. rg_store (\<lambda>n. Inr (JInt n)) True (rg_new 2) 0 0 ''k'' 7 (Some 5) = (Inr (), r1)"
  using registry_get_after_store [of "\<lambda>n. Inr (JInt n)" 7 "JInt 7" "\<lambda>_. Inr 7" "rg_new 2" 0 0 "''k''" "Some 5"]
  by (cases "rg_store (\<lambda>n. Inr (JInt n)) True (rg_new 2) 0 0 ''k'' 7 (Some 5)") (simp add: Let_def)

end
