(* ===== verification/Feature.thy ===== *)
theory Feature
  imports Prelude
begin

text \<open>
  Feature flags with a percentage rollout: \<open>src/src/redis/feature.rs\<close> with the configuration types
  of \<open>src/src/redis/types.rs\<close>. The configuration found in the store is an argument, each draw of
  the random number generator from 1 to 100 too, and so is Unicode lower-casing, \<open>lc\<close>.
\<close>

section \<open>Configurations\<close>

record merchant_feature =
  mf_merchantId :: string
  mf_rollout :: int

record feature_conf =
  fc_enableAll :: bool
  fc_enableAllRollout :: "int option"
  fc_disableAny :: "string list option"
  fc_merchants :: "merchant_feature list option"

record feature_dimension =
  fd_dimension :: string
  fd_rollout :: int

datatype dimension_type = JuspayBankCode | DT_Gateway | CardBrand | Scof | Fido

record dimension_conf =
  dc_enableAll :: bool
  dc_enableAllRollout :: "int option"
  dc_disableAny :: "feature_dimension list option"
  dc_dimensions :: "feature_dimension list option"
  dc_dimensionType :: dimension_type

section \<open>Flags\<close>

definition roller :: "int \<Rightarrow> int \<Rightarrow> bool" where
  "roller draw num \<longleftrightarrow> draw \<le> num"

definition check_merchant_enabled ::
  "(string \<Rightarrow> string) \<Rightarrow> int \<Rightarrow> feature_conf option \<Rightarrow> string \<Rightarrow> bool" where
  "check_merchant_enabled lc draw conf mid =
     (case conf of
        None \<Rightarrow> False
      | Some c \<Rightarrow>
          if fc_enableAll c then
            (case fc_disableAny c of
               Some disable_any \<Rightarrow> mid \<notin> set disable_any
             | None \<Rightarrow>
                 (case fc_enableAllRollout c of
                    Some rollout \<Rightarrow> roller draw rollout
                  | None \<Rightarrow> True))
          else
            (case fc_merchants c of
               Some merchants \<Rightarrow>
                 (case find (\<lambda>m. lc (mf_merchantId m) = lc mid) merchants of
                    Some m \<Rightarrow> roller draw (mf_rollout m)
                  | None \<Rightarrow> False)
             | None \<Rightarrow> False))"

definition is_feature_enabled ::
  "(string \<Rightarrow> string) \<Rightarrow> int \<Rightarrow> (string \<Rightarrow> feature_conf option) \<Rightarrow> string \<Rightarrow> string \<Rightarrow> bool" where
  "is_feature_enabled lc draw find_by_name f_name mid =
     check_merchant_enabled lc draw (find_by_name f_name) mid"

definition is_dimension_config_enabled ::
  "(string \<Rightarrow> string) \<Rightarrow> int \<Rightarrow> dimension_conf \<Rightarrow> string \<Rightarrow> bool \<Rightarrow> bool" where
  "is_dimension_config_enabled lc draw conf dimension is_enabled =
     (case (is_enabled, dc_disableAny conf) of
        (True, Some disabled) \<Rightarrow>
          (case find (\<lambda>d. lc (fd_dimension d) \<noteq> lc dimension) disabled of
             Some d \<Rightarrow> roller draw (fd_rollout d)
           | None \<Rightarrow> is_enabled)
      | _ \<Rightarrow> is_enabled)"

text \<open>\<open>draw\<close> is the draw of the enabling step and \<open>draw'\<close> that of the disabling step.\<close>

definition check_dimension_enabled ::
  "(string \<Rightarrow> string) \<Rightarrow> int \<Rightarrow> int \<Rightarrow> dimension_conf option \<Rightarrow> string \<Rightarrow> bool" where
  "check_dimension_enabled lc draw draw' conf dimension =
     (case conf of
        None \<Rightarrow> False
      | Some c \<Rightarrow>
          (let is_enabled =
             (if dc_enableAll c then
                (case dc_enableAllRollout c of
                   Some rollout \<Rightarrow> roller draw rollout
                 | None \<Rightarrow> True)
              else
                (case dc_dimensions c of
                   Some dimensions \<Rightarrow>
                     (case find (\<lambda>d. lc (fd_dimension d) = lc dimension) dimensions of
                        Some d \<Rightarrow> roller draw (fd_rollout d)
                      | None \<Rightarrow> False)
                 | None \<Rightarrow> False))
           in is_dimension_config_enabled lc draw' c dimension is_enabled))"

section \<open>Compression of stored values\<close>

record redis_compression_config =
  compEnabled :: bool
  dictId :: string
  compLevel :: "string option"

datatype redis_data_struct = RDS_STRING | RDS_HASHMAP | RDS_STREAM | RDS_StreamV2

fun rds_as_str :: "redis_data_struct \<Rightarrow> string" where
  "rds_as_str RDS_STRING = ''STRING''"
| "rds_as_str RDS_HASHMAP = ''HASHMAP''"
| "rds_as_str RDS_STREAM = ''STREAM''"
| "rds_as_str RDS_StreamV2 = ''STREAM_V2''"

record redis_comp_enabled_merchant =
  rc_merchant_id :: string
  rc_rollout :: nat
  enabled_dict_id :: "string option"

record redis_comp_feature_conf =
  rc_enable_all :: bool
  rc_enable_all_rollout :: "nat option"
  global_dict_id :: string
  rc_disable_any :: "string list option"
  explicit_enabled_merchants :: "redis_comp_enabled_merchant list"

datatype redis_compression_cutover =
    MultiDataStructCutover "(redis_data_struct \<times> redis_comp_feature_conf) list"
  | StringDataStructCutover redis_comp_feature_conf

definition is_merchant_enabled_explicitly ::
  "(string \<Rightarrow> string) \<Rightarrow> nat \<Rightarrow> redis_comp_feature_conf \<Rightarrow> string \<Rightarrow> string option" where
  "is_merchant_enabled_explicitly lc draw conf mid =
     (case find (\<lambda>m. lc (rc_merchant_id m) = lc mid) (explicit_enabled_merchants conf) of
        Some m \<Rightarrow>
          if draw \<le> rc_rollout m
          then opt_or (enabled_dict_id m) (Some (global_dict_id conf))
          else None
      | None \<Rightarrow> None)"

definition is_merchant_enabled_after_disable_check ::
  "(string \<Rightarrow> string) \<Rightarrow> redis_comp_feature_conf \<Rightarrow> string \<Rightarrow> string option \<Rightarrow> string option" where
  "is_merchant_enabled_after_disable_check lc conf mid result =
     (case (result, rc_disable_any conf) of
        (Some dict_id, Some disable_list) \<Rightarrow>
          if list_ex (\<lambda>d. lc d = lc mid) disable_list then None else Some dict_id
      | (res, _) \<Rightarrow> res)"

text \<open>The draws \<open>(explicit, global)\<close> of one check.\<close>

definition check_merchant_enabled_for_compression ::
  "(string \<Rightarrow> string) \<Rightarrow> nat \<times> nat \<Rightarrow> redis_comp_feature_conf option \<Rightarrow> string \<Rightarrow> string option" where
  "check_merchant_enabled_for_compression lc draws maybe_conf mid =
     (case maybe_conf of
        None \<Rightarrow> None
      | Some conf \<Rightarrow>
          (case is_merchant_enabled_explicitly lc (fst draws) conf mid of
             Some d \<Rightarrow> Some d
           | None \<Rightarrow>
               (let maybe_global =
                  (if rc_enable_all conf then
                     (case rc_enable_all_rollout conf of
                        Some rollout \<Rightarrow>
                          if snd draws \<le> rollout then Some (global_dict_id conf) else None
                      | None \<Rightarrow> Some (global_dict_id conf))
                   else None)
                in is_merchant_enabled_after_disable_check lc conf mid maybe_global)))"

definition comp_config :: "string \<Rightarrow> redis_compression_config" where
  "comp_config d = \<lparr>compEnabled = True, dictId = d, compLevel = None\<rparr>"

definition check_redis_comp_merchant_flag ::
  "(string \<Rightarrow> string) \<Rightarrow> (redis_data_struct \<Rightarrow> nat \<times> nat) \<Rightarrow> redis_compression_cutover option \<Rightarrow>
   string \<Rightarrow> redis_compression_config hmap option" where
  "check_redis_comp_merchant_flag lc draws mb_conf mid =
     (case mb_conf of
        None \<Rightarrow> None
      | Some (MultiDataStructCutover ds_map) \<Rightarrow>
          (let final_map = foldl (\<lambda>m (k, conf).
                 case check_merchant_enabled_for_compression lc (draws k) (Some conf) mid of
                   Some d \<Rightarrow> hm_insert (rds_as_str k) (comp_config d) m
                 | None \<Rightarrow> m) [] ds_map
           in if final_map \<noteq> [] then Some final_map else None)
      | Some (StringDataStructCutover conf) \<Rightarrow>
          (case check_merchant_enabled_for_compression lc (draws RDS_STRING) (Some conf) mid of
             Some d \<Rightarrow> Some (hm_insert ''STRING'' (comp_config d) [])
           | None \<Rightarrow> None))"

section \<open>Rollout shares\<close>

text \<open>Of the hundred equally likely draws, how many turn a flag on.\<close>

definition share :: "(int \<Rightarrow> bool) \<Rightarrow> nat" where
  "share p = card {draw \<in> {1..100}. p draw}"

definition percent :: "int \<Rightarrow> nat" where
  "percent n = nat (max 0 (min 100 n))"

lemma share_const [simp]: "share (\<lambda>_. True) = 100" "share (\<lambda>_. False) = 0"
proof -
  have "{draw :: int. 1 \<le> draw \<and> draw \<le> 100} = {1..100}" by auto
  then show "share (\<lambda>_. True) = 100" by (simp add: share_def)
qed (simp add: share_def)

lemma share_roller [simp]: "share (\<lambda>draw. roller draw n) = percent n"
proof -
  have "{draw \<in> {1..100}. roller draw n} = {1..min 100 n}" by (auto simp: roller_def)
  then show ?thesis by (simp add: share_def percent_def)
qed

text \<open>
  The share of draws that enable a merchant is the configured rollout, held between zero and
  a hundred percent: of the whole flag, or of the first listed merchant with that id up to case.
  A list of disabled merchants replaces the rollout of the flag, and its entries are compared
  exactly.
\<close>

theorem merchant_rollout_share:
  "share (\<lambda>draw. check_merchant_enabled lc draw (Some c) mid) =
     (if fc_enableAll c then
        (case fc_disableAny c of
           Some ds \<Rightarrow> if mid \<in> set ds then 0 else 100
         | None \<Rightarrow> (case fc_enableAllRollout c of Some n \<Rightarrow> percent n | None \<Rightarrow> 100))
      else
        (case Option.bind (fc_merchants c) (find (\<lambda>m. lc (mf_merchantId m) = lc mid)) of
           Some m \<Rightarrow> percent (mf_rollout m) | None \<Rightarrow> 0))"
  by (cases "fc_enableAll c"; cases "fc_merchants c"; cases "fc_disableAny c";
      cases "fc_enableAllRollout c";
      cases "find (\<lambda>m. lc (mf_merchantId m) = lc mid) (the (fc_merchants c))")
    (simp_all add: check_merchant_enabled_def)

text \<open>
  The list of disabled dimensions works the wrong way round: a dimension that is the only one
  listed is left as enabled as it was, while a dimension that is not listed is enabled with at
  most the rollout of the first listed one.
\<close>

theorem disable_any_inverted:
  "share (\<lambda>draw'. check_dimension_enabled lc draw draw'
      (Some (c\<lparr>dc_enableAll := True, dc_enableAllRollout := None, dc_disableAny := Some [d]\<rparr>)) dimension) =
    (if lc (fd_dimension d) = lc dimension then 100 else percent (fd_rollout d))"
  by (simp add: check_dimension_enabled_def is_dimension_config_enabled_def)

end
