(* ===== verification/Decider_Types.thy ===== *)
theory Decider_Types
  imports Prelude
begin

text \<open>
  The decider's own vocabulary, from \<open>src/src/decider/gatewaydecider/types.rs\<close>: the approach that
  chose a gateway, the downtime of a group of gateways, resets and the decision a request is
  answered with. Nested reports of other components are carried as JSON.
\<close>

datatype gateway_decider_approach =
    SrSelection | SrSelectionV2Routing | SrSelectionV3Routing | PriorityLogic | Default
  | Approach_None | MerchantPreference | PlAllDowntimeRouting | PlDowntimeRouting
  | PlGlobalDowntimeRouting | SrV2AllDowntimeRouting | SrV2DowntimeRouting
  | SrV2GlobalDowntimeRouting | SrV2Hedging | SrV2AllDowntimeHedging | SrV2DowntimeHedging
  | SrV2GlobalDowntimeHedging | SrV3AllDowntimeRouting | SrV3DowntimeRouting
  | SrV3GlobalDowntimeRouting | SrV3Hedging | SrV3AllDowntimeHedging | SrV3DowntimeHedging
  | SrV3GlobalDowntimeHedging | NtwBasedRouting | AbTestStaticAlgorithm | SrSelectionMultiObjective

datatype down_time = AllDowntime | GlobalDowntime | Downtime | NoDowntime

datatype reset_approach =
    EliminationReset | Srv2Reset | Srv3Reset | NoReset | Srv2EliminationReset | Srv3EliminationReset

datatype ranking_algorithm = RA_SrBasedRouting | RA_PlBasedRouting | RA_NtwBasedRouting | RA_NtwSrHybridRouting

fun ranking_algorithm_to_string :: "ranking_algorithm \<Rightarrow> string" where
  "ranking_algorithm_to_string RA_SrBasedRouting = ''SR_BASED_ROUTING''"
| "ranking_algorithm_to_string RA_PlBasedRouting = ''PL_BASED_ROUTING''"
| "ranking_algorithm_to_string RA_NtwBasedRouting = ''NTW_BASED_ROUTING''"
| "ranking_algorithm_to_string RA_NtwSrHybridRouting = ''NTW_SR_HYBRID_ROUTING''"

definition is_hedging :: "gateway_decider_approach \<Rightarrow> bool" where
  "is_hedging a \<longleftrightarrow>
     a \<in> {SrV2Hedging, SrV2AllDowntimeHedging, SrV2DowntimeHedging, SrV2GlobalDowntimeHedging,
          SrV3Hedging, SrV3AllDowntimeHedging, SrV3DowntimeHedging, SrV3GlobalDowntimeHedging}"

record decided_gateway =
  dg_decided_gateway :: string
  dg_fallback_gateways :: "string list"
  dg_gateway_priority_map :: "json option"
  dg_filter_wise_gateways :: "json option"
  dg_priority_logic_tag :: "string option"
  dg_routing_approach :: gateway_decider_approach
  dg_gateway_before_evaluation :: "string option"
  dg_priority_logic_output :: "json option"
  dg_debit_routing_output :: "json option"
  dg_reset_approach :: reset_approach
  dg_routing_dimension :: "string option"
  dg_routing_dimension_level :: "string option"
  dg_is_scheduled_outage :: bool
  dg_is_dynamic_mga_enabled :: bool
  dg_gateway_mga_id_map :: "json option"
  dg_is_rust_based_decider :: bool
  dg_latency :: "u64 option"
  dg_multi_objective_info :: "json option"

end
