(* ===== verification/Ab_Test.thy ===== *)
theory Ab_Test
  imports Euclid_Interp Feature Decider_Types
begin

text \<open>
  A/B experiments on real payments: \<open>src/src/decider/gatewaydecider/ab_test/\<close>. Arm assignment
  (\<open>common.rs\<close>), static arms (\<open>evaluator.rs\<close>), the interception of a request (\<open>interceptor.rs\<close>),
  the in-flight record behind the outcome events (\<open>outcome.rs\<close>) and the preview of an arm
  (\<open>preview.rs\<close>). The algorithm table and the store are maps; an access to the store may fail,
  which a flag says. Payment fields the experiment reads are a record.
\<close>

section \<open>Arm assignment\<close>

definition djb2 :: "string \<Rightarrow> u64" where
  "djb2 s = foldl (\<lambda>acc b. acc * 33 + of_char b) 5381 s"

definition assign_arm :: "string \<Rightarrow> u8 \<Rightarrow> string" where
  "assign_arm payment_id pct =
     (let hash = djb2 payment_id in
      if hash mod 100 < ucast pct then ''variant'' else ''control'')"

section \<open>Static arms\<close>

record ab_payment =
  ap_merchant_id :: string
  ap_payment_id :: string
  ap_payment_method :: string
  ap_payment_method_type :: string
  ap_card_type :: "string option"
  ap_amount :: f64

record static_arm_result =
  sa_decided_gateway :: string
  sa_fallback_gateways :: "string list"
  sa_rule_name :: "string option"

definition build_card_context :: "(string \<Rightarrow> string) \<Rightarrow> ab_payment \<Rightarrow> ctx" where
  "build_card_context lc dreq =
     (let params = [''payment_method'' \<mapsto> Some (EnumVariant (lc (ap_payment_method dreq))),
                    ''payment_method_type'' \<mapsto> Some (EnumVariant (lc (ap_payment_method_type dreq)))]
      in case ap_card_type dreq of
           Some card_type \<Rightarrow>
             params(''card_type'' \<mapsto> Some (EnumVariant (lc card_type)),
                    ''card'' \<mapsto> Some (EnumVariant (lc card_type)))
         | None \<Rightarrow> params)"

text \<open>The loop over the splits with its running total; weights are bytes, so the total stays small.\<close>

fun pick_slot :: "nat \<Rightarrow> nat \<Rightarrow> u8 list \<Rightarrow> nat option" where
  "pick_slot slot cumulative [] = None"
| "pick_slot slot cumulative (w # ws) =
     (let cumulative = cumulative + unat w in
      if slot < cumulative then Some 0 else map_option Suc (pick_slot slot cumulative ws))"

definition total_weight :: "u8 list \<Rightarrow> nat" where
  "total_weight ws = sum_list (List.map unat ws)"

definition arm_pick :: "string \<Rightarrow> u8 list \<Rightarrow> nat option" where
  "arm_pick payment_id ws =
     (if total_weight ws = 0 then None
      else pick_slot (unat (djb2 payment_id) mod total_weight ws) 0 ws)"

definition evaluate_static_arm ::
  "(string \<Rightarrow> string) \<Rightarrow> (u8 list \<Rightarrow> nat option) \<Rightarrow> (string \<Rightarrow> static_routing_algorithm option) \<Rightarrow>
   string \<Rightarrow> string \<Rightarrow> ab_payment \<Rightarrow> static_arm_result option" where
  "evaluate_static_arm lc sampler find_algorithm algorithm_id payment_id dreq =
     (case find_algorithm algorithm_id of
        None \<Rightarrow> None
      | Some (Alg_Single c) \<Rightarrow>
          Some \<lparr>sa_decided_gateway = gateway_name c, sa_fallback_gateways = [],
                sa_rule_name = Some ''ab_test_static_single''\<rparr>
      | Some (Alg_Priority connectors) \<Rightarrow>
          (case connectors of
             [] \<Rightarrow> None
           | first # rest \<Rightarrow>
               Some \<lparr>sa_decided_gateway = gateway_name first,
                     sa_fallback_gateways = List.map gateway_name rest,
                     sa_rule_name = Some ''ab_test_static_priority''\<rparr>)
      | Some (Alg_VolumeSplit splits) \<Rightarrow>
          (case arm_pick payment_id (List.map vs_split splits) of
             None \<Rightarrow> None
           | Some i \<Rightarrow>
               Some \<lparr>sa_decided_gateway = gateway_name (vs_output (splits ! i)),
                     sa_fallback_gateways = [],
                     sa_rule_name = Some ''ab_test_static_volume_split''\<rparr>)
      | Some (Alg_Advanced p) \<Rightarrow>
          (case eval_program sampler p (build_card_context lc dreq) of
             Inl _ \<Rightarrow> None
           | Inr result \<Rightarrow>
               (case List.map gateway_name (bo_evaluated_output result) of
                  [] \<Rightarrow> None
                | decided # gateways \<Rightarrow>
                    Some \<lparr>sa_decided_gateway = decided, sa_fallback_gateways = gateways,
                          sa_rule_name = opt_or (bo_rule_name result) (Some ''ab_test_rule_based'')\<rparr>))
      | Some (Alg_AbTest _) \<Rightarrow> None)"

section \<open>The in-flight record\<close>

record inflight_context =
  ic_experiment_id :: string
  ic_variant_arm :: string
  ic_gateway :: "string option"
  ic_is_static_arm :: bool
  ic_cost_saved_bps :: "f64 option"
  ic_chosen_cost_bps :: "f64 option"
  ic_margin :: "f64 option"
  ic_amount :: "f64 option"
  ic_first_outcome_emitted :: bool

type_synonym inflight_store = "string \<rightharpoonup> inflight_context"

definition inflight_key :: "string \<Rightarrow> string" where
  "inflight_key payment_id = ''ab_test_inflight:'' @ payment_id"

definition store_get :: "bool \<Rightarrow> inflight_store \<Rightarrow> string \<Rightarrow> inflight_context option" where
  "store_get ok st key = (if ok then st key else None)"

definition store_set :: "bool \<Rightarrow> inflight_store \<Rightarrow> string \<Rightarrow> inflight_context \<Rightarrow> inflight_store" where
  "store_set ok st key c = (if ok then st(key \<mapsto> c) else st)"

definition is_static_arm_inflight :: "bool \<Rightarrow> inflight_store \<Rightarrow> string \<Rightarrow> bool" where
  "is_static_arm_inflight ok st payment_id =
     unwrap_or (map_option ic_is_static_arm (store_get ok st (inflight_key payment_id))) False"

definition existing_first_outcome_emitted :: "bool \<Rightarrow> inflight_store \<Rightarrow> string \<Rightarrow> bool" where
  "existing_first_outcome_emitted ok st payment_id =
     unwrap_or (map_option ic_first_outcome_emitted (store_get ok st (inflight_key payment_id))) False"

text \<open>
  \<open>store_inflight\<close> and \<open>record_cost_outcome\<close> read the flag of an earlier record and then write;
  another task may run in between, so the two halves are separate and the whole is their
  composition.
\<close>

definition store_inflight_write ::
  "bool \<Rightarrow> bool \<Rightarrow> inflight_store \<Rightarrow> string \<Rightarrow> string \<Rightarrow> string \<Rightarrow> string option \<Rightarrow> bool \<Rightarrow>
   f64 option \<Rightarrow> inflight_store" where
  "store_inflight_write first_outcome_emitted ok st payment_id experiment_id arm gateway is_static amount =
     store_set ok st (inflight_key payment_id)
       \<lparr>ic_experiment_id = experiment_id, ic_variant_arm = arm, ic_gateway = gateway,
        ic_is_static_arm = is_static, ic_cost_saved_bps = None, ic_chosen_cost_bps = None,
        ic_margin = None, ic_amount = amount, ic_first_outcome_emitted = first_outcome_emitted\<rparr>"

definition store_inflight ::
  "bool \<Rightarrow> bool \<Rightarrow> inflight_store \<Rightarrow> string \<Rightarrow> string \<Rightarrow> string \<Rightarrow> string option \<Rightarrow> bool \<Rightarrow>
   f64 option \<Rightarrow> inflight_store" where
  "store_inflight ok_get ok_set st payment_id experiment_id arm gateway is_static amount =
     store_inflight_write (existing_first_outcome_emitted ok_get st payment_id) ok_set st
       payment_id experiment_id arm gateway is_static amount"

definition record_cost_outcome ::
  "bool \<Rightarrow> bool \<Rightarrow> inflight_store \<Rightarrow> string \<Rightarrow> string \<Rightarrow> string \<Rightarrow> string option \<Rightarrow>
   f64 option \<Rightarrow> f64 option \<Rightarrow> f64 option \<Rightarrow> f64 option \<Rightarrow> inflight_store" where
  "record_cost_outcome ok_get ok_set st payment_id experiment_id arm gateway
     cost_saved_bps chosen_cost_bps margin amount =
     store_set ok_set st (inflight_key payment_id)
       \<lparr>ic_experiment_id = experiment_id, ic_variant_arm = arm, ic_gateway = gateway,
        ic_is_static_arm = False, ic_cost_saved_bps = cost_saved_bps,
        ic_chosen_cost_bps = chosen_cost_bps, ic_margin = margin, ic_amount = amount,
        ic_first_outcome_emitted = existing_first_outcome_emitted ok_get st payment_id\<rparr>"

record outcome_event =
  oe_context :: inflight_context
  oe_success :: bool
  oe_first_attempt :: bool

definition emit_if_in_flight ::
  "bool \<Rightarrow> bool \<Rightarrow> inflight_store \<Rightarrow> string \<Rightarrow> bool \<Rightarrow> outcome_event option \<times> inflight_store" where
  "emit_if_in_flight ok_get ok_set st payment_id is_success =
     (let key = inflight_key payment_id in
      case store_get ok_get st key of
        None \<Rightarrow> (None, st)
      | Some c \<Rightarrow>
          (Some \<lparr>oe_context = c, oe_success = is_success,
                 oe_first_attempt = \<not> ic_first_outcome_emitted c\<rparr>,
           if is_success then (if ok_set then st(key := None) else st)
           else store_set ok_set st key (c\<lparr>ic_first_outcome_emitted := True\<rparr>)))"

section \<open>Intercepting a request\<close>

datatype ab_test_intercept =
    Disabled
  | SrArm string string "sr_config_override option"
  | StaticArm decided_gateway string string

record routing_event =
  re_payment_id :: string
  re_merchant_id :: string
  re_experiment_id :: string
  re_variant_arm :: string
  re_arm_algorithm :: string
  re_gateway :: "string option"

definition sr_routing :: string where
  "sr_routing = ''sr_routing''"

text \<open>\<open>enabled\<close> and \<open>active\<close> are what the feature flag and the loaded mapper say of the merchant.\<close>

definition load_active_ab_test ::
  "(string \<Rightarrow> string option) \<Rightarrow> (string \<Rightarrow> static_routing_algorithm option) \<Rightarrow> string \<Rightarrow>
   (string \<times> ab_test_data) option" where
  "load_active_ab_test mapper find_algorithm merchant_id =
     (case mapper merchant_id of
        None \<Rightarrow> None
      | Some experiment_id \<Rightarrow>
          (case find_algorithm experiment_id of
             Some (Alg_AbTest data) \<Rightarrow> Some (experiment_id, data)
           | _ \<Rightarrow> None))"

definition ab_is_enabled :: "(string \<Rightarrow> string) \<Rightarrow> int \<Rightarrow> feature_conf option \<Rightarrow> string \<Rightarrow> bool" where
  "ab_is_enabled lc draw conf merchant_id =
     (case conf of Some c \<Rightarrow> check_merchant_enabled lc draw (Some c) merchant_id | None \<Rightarrow> False)"

definition arm_algorithm_id :: "string \<Rightarrow> ab_test_data \<Rightarrow> string" where
  "arm_algorithm_id arm data =
     (if arm = ''variant'' then variant_algorithm_id data else control_algorithm_id data)"

definition intercept ::
  "(string \<Rightarrow> string) \<Rightarrow> (u8 list \<Rightarrow> nat option) \<Rightarrow> bool \<Rightarrow> (string \<times> ab_test_data) option \<Rightarrow>
   (string \<Rightarrow> static_routing_algorithm option) \<Rightarrow> bool \<Rightarrow> bool \<Rightarrow> inflight_store \<Rightarrow> ab_payment \<Rightarrow>
   ab_test_intercept \<times> routing_event list \<times> inflight_store" where
  "intercept lc sampler enabled active find_algorithm ok_get ok_set st dreq =
     (if \<not> enabled then (Disabled, [], st)
      else
        (case active of
           None \<Rightarrow> (Disabled, [], st)
         | Some (experiment_id, data) \<Rightarrow>
             (let payment_id = ap_payment_id dreq;
                  arm = assign_arm payment_id (variant_split_pct data);
                  alg = arm_algorithm_id arm data;
                  event = (\<lambda>gw. \<lparr>re_payment_id = payment_id, re_merchant_id = ap_merchant_id dreq,
                     re_experiment_id = experiment_id, re_variant_arm = arm,
                     re_arm_algorithm = alg, re_gateway = gw\<rparr>)
              in if alg = sr_routing then
                   (SrArm experiment_id arm
                      (if arm = ''variant'' then variant_sr_config data else control_sr_config data),
                    [event None],
                    store_inflight ok_get ok_set st payment_id experiment_id arm None False
                      (Some (ap_amount dreq)))
                 else
                   (case evaluate_static_arm lc sampler find_algorithm alg payment_id dreq of
                      Some r \<Rightarrow>
                        (StaticArm
                           \<lparr>dg_decided_gateway = sa_decided_gateway r,
                            dg_fallback_gateways = sa_fallback_gateways r,
                            dg_gateway_priority_map = None, dg_filter_wise_gateways = None,
                            dg_priority_logic_tag = sa_rule_name r,
                            dg_routing_approach = AbTestStaticAlgorithm,
                            dg_gateway_before_evaluation = None,
                            dg_priority_logic_output = None, dg_debit_routing_output = None,
                            dg_reset_approach = NoReset, dg_routing_dimension = None,
                            dg_routing_dimension_level = None, dg_is_scheduled_outage = False,
                            dg_is_dynamic_mga_enabled = False, dg_gateway_mga_id_map = None,
                            dg_is_rust_based_decider = True, dg_latency = None,
                            dg_multi_objective_info = None\<rparr>
                           experiment_id arm,
                         [event (Some (sa_decided_gateway r))],
                         store_inflight ok_get ok_set st payment_id experiment_id arm
                           (Some (sa_decided_gateway r)) True (Some (ap_amount dreq)))
                    | None \<Rightarrow> (Disabled, [], st)))))"

section \<open>Previewing an arm\<close>

datatype preview_error =
    PE_InvalidRequest string
  | PE_FailedToEvaluateOutput string
  | PE_StorageError

record ab_test_arm_output =
  ao_output :: algo_output
  ao_evaluated_output :: "connector_info list"
  ao_rule_name :: "string option"

text \<open>\<open>find_algorithm\<close> fails with \<open>Inl\<close> on a storage error and \<open>Inr None\<close> is data that does not parse.\<close>

definition evaluate_arm ::
  "(u8 list \<Rightarrow> nat option) \<Rightarrow> (string \<Rightarrow> unit + static_routing_algorithm option) \<Rightarrow> string \<Rightarrow> string \<Rightarrow>
   ctx \<Rightarrow> connector_info list option \<Rightarrow> bool \<Rightarrow> preview_error + ab_test_arm_output" where
  "evaluate_arm sampler find_algorithm arm alg_id parameters fallback_output default_output_present =
     (if alg_id = sr_routing then
        (case fallback_output of
           Some (chosen # _) \<Rightarrow>
             rbind (map_err (\<lambda>_. PE_FailedToEvaluateOutput ''ab_test sr routing arm evaluation'')
                 (evaluate_output sampler (Single chosen)))
               (\<lambda>ev. Inr \<lparr>ao_output = Single chosen, ao_evaluated_output = ev,
                         ao_rule_name = Some (''ab_test_'' @ arm @ ''_sr_routing'')\<rparr>)
         | _ \<Rightarrow> Inl (PE_InvalidRequest
             ''SR routing arm requires at least one connector in fallback_output''))
      else
        (case find_algorithm alg_id of
           Inl _ \<Rightarrow> Inl PE_StorageError
         | Inr None \<Rightarrow> Inl (PE_InvalidRequest ''Invalid arm algorithm data format'')
         | Inr (Some (Alg_Single c)) \<Rightarrow>
             rbind (map_err (\<lambda>_. PE_FailedToEvaluateOutput (''ab_test arm single: '' @ gateway_name c))
                 (evaluate_output sampler (Single c)))
               (\<lambda>ev. Inr \<lparr>ao_output = Single c, ao_evaluated_output = ev,
                         ao_rule_name = Some (''ab_test_'' @ arm @ ''_straight_through'')\<rparr>)
         | Inr (Some (Alg_Priority cs)) \<Rightarrow>
             rbind (map_err (\<lambda>_. PE_FailedToEvaluateOutput ''ab_test arm priority'')
                 (evaluate_output sampler (Priority cs)))
               (\<lambda>ev. Inr \<lparr>ao_output = Priority cs, ao_evaluated_output = ev,
                         ao_rule_name = Some (''ab_test_'' @ arm @ ''_priority'')\<rparr>)
         | Inr (Some (Alg_VolumeSplit splits)) \<Rightarrow>
             rbind (map_err (\<lambda>_. PE_FailedToEvaluateOutput ''ab_test arm volume_split'')
                 (evaluate_output sampler (VolumeSplit splits)))
               (\<lambda>ev. Inr \<lparr>ao_output = VolumeSplit splits, ao_evaluated_output = ev,
                         ao_rule_name = Some (''ab_test_'' @ arm @ ''_volume_split'')\<rparr>)
         | Inr (Some (Alg_Advanced p)) \<Rightarrow>
             rbind (map_err (\<lambda>_. PE_InvalidRequest ''AB test arm interpreter error'')
                 (eval_program sampler p parameters))
               (\<lambda>ir. Inr
                  (case (default_output_present \<and> bo_output ir = default_selection p, fallback_output) of
                     (True, Some fallback) \<Rightarrow>
                       \<lparr>ao_output = Priority fallback, ao_evaluated_output = fallback,
                        ao_rule_name = Some ''default_fallback''\<rparr>
                   | _ \<Rightarrow>
                       \<lparr>ao_output = bo_output ir, ao_evaluated_output = bo_evaluated_output ir,
                        ao_rule_name = bo_rule_name ir\<rparr>))
         | Inr (Some (Alg_AbTest _)) \<Rightarrow>
             Inl (PE_InvalidRequest ''Nested ab_test algorithms are not supported'')))"

section \<open>Arms and slots\<close>

text \<open>
  A payment's arm is fixed by its id and the split: it never changes between attempts, no
  payment is in the variant at zero percent and every payment is at a hundred, and raising the
  split never moves a payment out of the variant.
\<close>

theorem assign_arm_monotone:
  assumes "unat pct \<le> unat pct'"
  shows "assign_arm pid pct \<in> {''variant'', ''control''} \<and> assign_arm pid 0 = ''control'' \<and>
    (unat pct \<ge> 100 \<longrightarrow> assign_arm pid pct = ''variant'') \<and>
    (assign_arm pid pct = ''variant'' \<longrightarrow> assign_arm pid pct' = ''variant'')"
proof -
  have u: "unat (ucast p :: u64) = unat p" for p :: u8
  proof -
    have "unat p < 2 ^ 64" using unsigned_less [of p, where ?'a = nat] by simp
    then show ?thesis by (simp add: unsigned_ucast_eq take_bit_nat_eq_self_iff)
  qed
  have h: "djb2 pid mod 100 < ucast p \<longleftrightarrow> unat (djb2 pid) mod 100 < unat p" for p :: u8
    by (simp add: word_less_nat_alt unat_mod u)
  show ?thesis
    using assms by (auto simp: assign_arm_def Let_def h intro: less_le_trans)
qed

lemma assign_arm_monotone_witness: "assign_arm ''pay_1'' 0 = ''control''"
  using assign_arm_monotone [of 0 0 "''pay_1''"] by simp

text \<open>What a caller may assume of a weighted choice: it stays in range, never takes an index of
  weight zero, and only fails when there is nothing to choose from.\<close>

locale weighted_choice =
  fixes pick :: "u8 list \<Rightarrow> nat option"
  assumes pick_range: "pick ws = Some i \<Longrightarrow> i < length ws \<and> ws ! i \<noteq> 0"
    and pick_total: "total_weight ws \<noteq> 0 \<Longrightarrow> pick ws \<noteq> None"
begin

lemma split_winner:
  assumes "total_weight (List.map vs_split splits) \<noteq> 0"
  shows "\<exists>s cs. perform_volume_split pick splits = Inr (vs_output s # cs) \<and> s \<in> set splits \<and> vs_split s \<noteq> 0"
proof -
  obtain i where i: "pick (List.map vs_split splits) = Some i" using pick_total [OF assms] by auto
  with pick_range [OF i] show ?thesis
    by (auto simp: perform_volume_split_def sample_split_winner_first_def intro!: exI [of _ "splits ! i"])
qed

end

lemma pick_slot_spec:
  "pick_slot slot c ws = Some i \<Longrightarrow> i < length ws \<and> slot < c + total_weight (take (Suc i) ws) \<and>
     (c \<le> slot \<longrightarrow> c + total_weight (take i ws) \<le> slot)"
proof (induction ws arbitrary: c i)
  case (Cons w ws)
  show ?case
  proof (cases "slot < c + unat w")
    case True
    with Cons.prems show ?thesis by (auto simp: total_weight_def)
  next
    case False
    with Cons.prems obtain j where j: "i = Suc j" "pick_slot slot (c + unat w) ws = Some j" by auto
    from Cons.IH [OF j(2)] j(1) False show ?thesis by (simp add: total_weight_def add.assoc)
  qed
qed simp

lemma pick_slot_ex: "c \<le> slot \<Longrightarrow> slot < c + total_weight ws \<Longrightarrow> pick_slot slot c ws \<noteq> None"
proof (induction ws arbitrary: c)
  case (Cons w ws)
  show ?case
  proof (cases "slot < c + unat w")
    case False
    with Cons.prems Cons.IH [of "c + unat w"] show ?thesis by (simp add: total_weight_def add.assoc)
  qed (simp add: Let_def)
qed (simp add: total_weight_def)

lemma arm_pick_spec:
  assumes "arm_pick pid ws = Some i"
  shows "i < length ws \<and> total_weight (take i ws) \<le> unat (djb2 pid) mod total_weight ws \<and>
    unat (djb2 pid) mod total_weight ws < total_weight (take (Suc i) ws)"
  using assms pick_slot_spec [of "unat (djb2 pid) mod total_weight ws" 0 ws i]
  by (auto simp: arm_pick_def split: if_splits)

interpretation arm: weighted_choice "arm_pick pid" for pid
proof
  fix ws i
  assume "arm_pick pid ws = Some i"
  from arm_pick_spec [OF this] show "i < length ws \<and> ws ! i \<noteq> 0"
    by (auto simp: total_weight_def take_Suc_conv_app_nth)
next
  fix ws
  assume "total_weight ws \<noteq> 0"
  then show "arm_pick pid ws \<noteq> None"
    using pick_slot_ex [of 0 "unat (djb2 pid) mod total_weight ws" ws] by (simp add: arm_pick_def)
qed

text \<open>
  A volume-split arm picks, for a given payment id, always the same split: the one whose band
  of the cumulative weights holds the payment's slot. It has a gateway whenever some weight is
  positive, and never takes a split of weight zero.
\<close>

theorem static_volume_split:
  assumes "find_algorithm alg = Some (Alg_VolumeSplit splits)"
  defines "ws \<equiv> List.map vs_split splits"
  shows "case evaluate_static_arm lc sampler find_algorithm alg pid dreq of
      None \<Rightarrow> total_weight ws = 0
    | Some r \<Rightarrow> \<exists>i < length splits. ws ! i \<noteq> 0 \<and>
        sa_decided_gateway r = gateway_name (vs_output (splits ! i)) \<and>
        total_weight (take i ws) \<le> unat (djb2 pid) mod total_weight ws \<and>
        unat (djb2 pid) mod total_weight ws < total_weight (take (Suc i) ws)"
proof (cases "arm_pick pid ws")
  case None
  with assms(1) arm.pick_total [of ws pid] show ?thesis by (auto simp: evaluate_static_arm_def ws_def)
next
  case (Some i)
  with assms(1) arm.pick_range [of pid ws i] arm_pick_spec [OF Some] show ?thesis
    by (auto simp: evaluate_static_arm_def ws_def)
qed

lemma static_volume_split_witness:
  "\<forall>dreq. \<exists>r. evaluate_static_arm id (\<lambda>_. None) [''alg'' \<mapsto> Alg_VolumeSplit [weighted 0 (conn ''a''), weighted 5 (conn ''b'')]]
      ''alg'' ''pay_1'' dreq = Some r \<and> sa_decided_gateway r = ''b''"
proof
  fix dreq :: ab_payment
  let ?sp = "[weighted 0 (conn ''a''), weighted 5 (conn ''b'')]"
  have "[''alg'' \<mapsto> Alg_VolumeSplit ?sp] ''alg'' = Some (Alg_VolumeSplit ?sp)" by simp
  note static_volume_split [where find_algorithm = "[''alg'' \<mapsto> Alg_VolumeSplit ?sp]" and alg = "''alg''"
      and splits = ?sp and lc = id and sampler = "\<lambda>_. None" and pid = "''pay_1''" and dreq = dreq, OF this]
  moreover have "total_weight (List.map vs_split ?sp) = 5" by (simp add: total_weight_def)
  ultimately obtain r i where "evaluate_static_arm id (\<lambda>_. None) [''alg'' \<mapsto> Alg_VolumeSplit ?sp]
      ''alg'' ''pay_1'' dreq = Some r" "i < Suc (Suc 0)" "List.map vs_split ?sp ! i \<noteq> 0"
    "sa_decided_gateway r = gateway_name (vs_output (?sp ! i))"
    by (auto split: option.splits)
  moreover from this have "i = 1" by (cases i) auto
  ultimately show "\<exists>r. evaluate_static_arm id (\<lambda>_. None) [''alg'' \<mapsto> Alg_VolumeSplit ?sp]
      ''alg'' ''pay_1'' dreq = Some r \<and> sa_decided_gateway r = ''b''" by simp
qed

section \<open>One first attempt per episode\<close>

text \<open>
  The life of one payment's record: routing stores it, the post-step may rewrite it, an outcome
  emits an event and the record may expire. The trail, newest first, is what was emitted.
\<close>

datatype log_entry = Ev outcome_event | Expired

inductive life :: "string \<Rightarrow> inflight_store \<Rightarrow> log_entry list \<Rightarrow> bool" for pid :: string where
  life_new: "life pid Map.empty []"
| life_route: "life pid st trail \<Longrightarrow>
    life pid (store_inflight True ok st pid experiment arm gw is_static amount) trail"
| life_cost: "life pid st trail \<Longrightarrow>
    life pid (record_cost_outcome True ok st pid experiment arm gw saved cost margin amount) trail"
| life_outcome: "life pid st trail \<Longrightarrow> emit_if_in_flight True True st pid success = (Some ev, st') \<Longrightarrow>
    life pid st' (Ev ev # trail)"
| life_no_record: "life pid st trail \<Longrightarrow> emit_if_in_flight ok True st pid success = (None, st') \<Longrightarrow>
    life pid st' trail"
| life_expire: "life pid st trail \<Longrightarrow> life pid (st(inflight_key pid := None)) (Expired # trail)"

text \<open>A failed outcome was already emitted in the current episode: since the last success or expiry.\<close>

fun failed_before :: "log_entry list \<Rightarrow> bool" where
  "failed_before [] = False"
| "failed_before (Expired # trail) = False"
| "failed_before (Ev e # trail) = (\<not> oe_success e)"

definition flag_of :: "inflight_store \<Rightarrow> string \<Rightarrow> bool" where
  "flag_of st pid = existing_first_outcome_emitted True st pid"

lemma life_flag: "life pid st trail \<Longrightarrow> flag_of st pid \<longleftrightarrow> failed_before trail"
proof (induction rule: life.induct)
  case (life_outcome st trail success ev st')
  then show ?case
    by (auto simp: flag_of_def existing_first_outcome_emitted_def emit_if_in_flight_def store_get_def
        store_set_def Let_def split: option.splits if_splits)
next
  case (life_no_record st trail ok success st')
  then show ?case
    by (auto simp: flag_of_def existing_first_outcome_emitted_def emit_if_in_flight_def store_get_def
        Let_def split: option.splits if_splits)
qed (auto simp: flag_of_def existing_first_outcome_emitted_def store_inflight_def
    store_inflight_write_def record_cost_outcome_def store_get_def store_set_def)

text \<open>
  As long as routing, the post-step and outcomes of a payment run one after the other and the
  store answers, an outcome is marked a first attempt exactly when no failed outcome of the same
  episode was emitted before it: however often the payment is routed again, an episode has one
  first attempt.
\<close>

theorem first_attempt_once:
  assumes "life pid st trail" "emit_if_in_flight True ok st pid success = (Some ev, st')"
  shows "oe_first_attempt ev \<longleftrightarrow> \<not> failed_before trail"
  using life_flag [OF assms(1)] assms(2)
  by (auto simp: flag_of_def existing_first_outcome_emitted_def emit_if_in_flight_def store_get_def
      Let_def split: option.splits if_splits)

definition demo_store :: inflight_store where
  "demo_store = store_inflight True True Map.empty ''p'' ''e'' ''variant'' None False None"

lemma first_attempt_once_witness:
  "\<exists>ev st'. emit_if_in_flight True True demo_store ''p'' False = (Some ev, st') \<and> oe_first_attempt ev"
proof -
  have l: "life ''p'' demo_store []" unfolding demo_store_def by (intro life_route life_new)
  obtain ev st' where e: "emit_if_in_flight True True demo_store ''p'' False = (Some ev, st')"
    by (simp add: demo_store_def store_inflight_def store_inflight_write_def store_set_def
        emit_if_in_flight_def store_get_def)
  from first_attempt_once [OF l e] have "oe_first_attempt ev" by simp
  with e show ?thesis by blast
qed

text \<open>
  The two halves of storing a record are not atomic: when a failed outcome is emitted between
  a later routing's read of the flag and its write, the write brings the old flag back, and the
  next outcome of the episode is marked a first attempt a second time.
\<close>

theorem interleaved_store_repeats_first_attempt:
  assumes "st (inflight_key pid) = Some c" "\<not> ic_first_outcome_emitted c"
  defines "prior \<equiv> existing_first_outcome_emitted True st pid"
  shows "\<exists>ev1 st1 ev2 st2. emit_if_in_flight True True st pid False = (Some ev1, st1) \<and>
    emit_if_in_flight True True
      (store_inflight_write prior True st1 pid experiment arm gw is_static amount) pid False = (Some ev2, st2) \<and>
    oe_first_attempt ev1 \<and> oe_first_attempt ev2"
  using assms
  by (simp add: existing_first_outcome_emitted_def emit_if_in_flight_def store_get_def store_set_def
      store_inflight_write_def Let_def)

lemma interleaved_store_repeats_first_attempt_witness:
  "\<exists>ev1 st1 ev2 st2. emit_if_in_flight True True demo_store ''p'' False = (Some ev1, st1) \<and>
    emit_if_in_flight True True
      (store_inflight_write (existing_first_outcome_emitted True demo_store ''p'') True st1
         ''p'' ''e'' ''variant'' None False None) ''p'' False = (Some ev2, st2) \<and>
    oe_first_attempt ev1 \<and> oe_first_attempt ev2"
  by (rule interleaved_store_repeats_first_attempt [where c = "the (demo_store (inflight_key ''p''))"])
    (simp_all add: demo_store_def store_inflight_def store_inflight_write_def store_set_def
      existing_first_outcome_emitted_def store_get_def)

section \<open>What an interception leaves behind\<close>

text \<open>
  C7. A payment takes part in an experiment as a whole or not at all: either nothing is emitted
  and nothing stored and the payment is routed as if there were no experiment, or one routing event
  is emitted and the record is written under the same experiment, arm and gateway. If Redis does not
  take the write, the event stands alone and the store is as before; if it does, no other record
  changes. A static arm that has no gateway opts the payment out.
\<close>

theorem intercept_all_or_nothing:
  assumes "intercept lc sampler enabled active find_algorithm ok_get ok_set st dreq = (res, evs, st')"
  shows "(res = Disabled \<and> evs = [] \<and> st' = st) \<or>
    (\<exists>experiment data e c. enabled \<and> active = Some (experiment, data) \<and> evs = [e] \<and>
       (if ok_set
        then st' (inflight_key (ap_payment_id dreq)) = Some c \<and>
          st'(inflight_key (ap_payment_id dreq) := st (inflight_key (ap_payment_id dreq))) = st \<and>
          ic_experiment_id c = experiment \<and> ic_variant_arm c = re_variant_arm e \<and>
          ic_gateway c = re_gateway e \<and> ic_is_static_arm c = (re_gateway e \<noteq> None)
        else st' = st) \<and>
       re_experiment_id e = experiment \<and>
       re_variant_arm e = assign_arm (ap_payment_id dreq) (variant_split_pct data) \<and>
       (case res of
          SrArm x a _ \<Rightarrow> x = experiment \<and> a = re_variant_arm e \<and> re_gateway e = None
        | StaticArm g x a \<Rightarrow> x = experiment \<and> a = re_variant_arm e \<and>
            re_gateway e = Some (dg_decided_gateway g)
        | Disabled \<Rightarrow> False))"
  using assms
  by (auto simp: intercept_def store_inflight_def store_inflight_write_def store_set_def Let_def
      split: if_splits option.splits prod.splits)

definition demo_payment :: ab_payment where
  "demo_payment = \<lparr>ap_merchant_id = ''m'', ap_payment_id = ''p'', ap_payment_method = ''card'',
     ap_payment_method_type = ''credit'', ap_card_type = None, ap_amount = Fin 10\<rparr>"

definition demo_test :: ab_test_data where
  "demo_test = \<lparr>control_algorithm_id = ''sr_routing'', variant_algorithm_id = ''alg'',
     variant_split_pct = 100, min_sample_size = 10, guardrail_threshold_pp = Fin 1,
     variant_sr_config = None, control_sr_config = None\<rparr>"

lemma intercept_all_or_nothing_witness:
  "\<exists>evs st' e. intercept id (\<lambda>_. None) True (Some (''e'', demo_test\<lparr>variant_algorithm_id := ''sr_routing''\<rparr>))
       (\<lambda>_. None) True True Map.empty demo_payment = (SrArm ''e'' ''variant'' None, evs, st')
     \<and> evs = [e] \<and> re_variant_arm e = ''variant'' \<and> map_option ic_experiment_id (st' (inflight_key ''p'')) = Some ''e''"
proof -
  have arm: "assign_arm ''p'' 100 = ''variant''" by code_simp
  let ?run = "intercept id (\<lambda>_. None) True (Some (''e'', demo_test\<lparr>variant_algorithm_id := ''sr_routing''\<rparr>)) (\<lambda>_. None)
    True True Map.empty demo_payment"
  obtain evs st' where run: "?run = (SrArm ''e'' ''variant'' None, evs, st')"
    using arm by (simp add: intercept_def demo_payment_def demo_test_def arm_algorithm_id_def sr_routing_def Let_def)
  from intercept_all_or_nothing [OF run] run arm show ?thesis
    by (auto simp: demo_payment_def demo_test_def)
qed

end
