(* ===== verification/Sr_Config.thy ===== *)
theory Sr_Config
  imports Decider_Types
begin

text \<open>
  The configuration of the success-rate scorer (SR v3): \<open>SrV3InputConfig\<close> and its sub-level entries
  from \<open>src/src/decider/gatewaydecider/types.rs\<close>, and the lookups of
  \<open>src/src/decider/gatewaydecider/utils.rs\<close> that resolve one value for a transaction: first in the
  merchant's configuration, then in the default one, then a constant; inside a configuration the
  most specific sub-level entry first. An \<open>i32\<close> is the integer it denotes; nothing here computes
  with one. The locale \<open>specificity_fold\<close> holds the laws of the fold that keeps the best entry.
\<close>

section \<open>Configuration records\<close>

record gateway_wise_extra_score =
  ge_gateway_name :: string
  ge_gateway_sigma_factor :: f64

record sr_v3_sub_level_input_config =
  sl_payment_method_type :: "string option"
  sl_payment_method :: "string option"
  sl_card_network :: "string option"
  sl_card_is_in :: "string option"
  sl_currency :: "string option"
  sl_country :: "string option"
  sl_auth_type :: "string option"
  sl_latency_threshold :: "f64 option"
  sl_bucket_size :: "int option"
  sl_hedging_percent :: "f64 option"
  sl_lower_reset_factor :: "f64 option"
  sl_upper_reset_factor :: "f64 option"
  sl_gateway_extra_score :: "gateway_wise_extra_score list option"
  sl_source :: "string option"

record sr_v3_input_config =
  default_latency_threshold :: "f64 option"
  default_bucket_size :: "int option"
  default_hedging_percent :: "f64 option"
  default_lower_reset_factor :: "f64 option"
  default_upper_reset_factor :: "f64 option"
  default_gateway_extra_score :: "gateway_wise_extra_score list option"
  sub_level_input_config :: "sr_v3_sub_level_input_config list option"

record sr_routing_dimensions =
  rd_card_network :: "string option"
  rd_card_isin :: "string option"
  rd_currency :: "string option"
  rd_country :: "string option"
  rd_auth_type :: "string option"

definition AUTOPILOT_SOURCE :: string where
  "AUTOPILOT_SOURCE = ''autopilot''"

definition DEFAULT_SR_V3_BASED_BUCKET_SIZE :: int where
  "DEFAULT_SR_V3_BASED_BUCKET_SIZE = 125"

definition DEFAULT_SR_V3_BASED_UPPER_RESET_FACTOR :: f64 where
  "DEFAULT_SR_V3_BASED_UPPER_RESET_FACTOR = Fin 3"

definition DEFAULT_SR_V3_BASED_LOWER_RESET_FACTOR :: f64 where
  "DEFAULT_SR_V3_BASED_LOWER_RESET_FACTOR = Fin 3"

definition DEFAULT_SR_V3_BASED_HEDGING_PERCENT :: f64 where
  "DEFAULT_SR_V3_BASED_HEDGING_PERCENT = Fin 5"

definition DEFAULT_SR_V3_BASED_GATEWAY_SIGMA_FACTOR :: f64 where
  "DEFAULT_SR_V3_BASED_GATEWAY_SIGMA_FACTOR = Fin 0"

section \<open>Matching a sub-level entry\<close>

definition is_sr_v3_config_match ::
  "sr_v3_sub_level_input_config \<Rightarrow> string option \<Rightarrow> string option \<Rightarrow> sr_routing_dimensions \<Rightarrow> bool" where
  "is_sr_v3_config_match config pmt pm dims =
     (let pmt_matches = (sl_payment_method_type config = pmt);
          pm_matches = (sl_payment_method config = None \<or> sl_payment_method config = pm);
          card_network_matches =
            (sl_card_network config = None \<or> sl_card_network config = rd_card_network dims);
          card_isin_matches =
            (sl_card_is_in config = None \<or> sl_card_is_in config = rd_card_isin dims);
          currency_matches = (sl_currency config = None \<or> sl_currency config = rd_currency dims);
          country_matches = (sl_country config = None \<or> sl_country config = rd_country dims);
          auth_type_matches = (sl_auth_type config = None \<or> sl_auth_type config = rd_auth_type dims)
      in pmt_matches \<and> pm_matches \<and> card_network_matches \<and> card_isin_matches \<and>
         currency_matches \<and> auth_type_matches \<and> country_matches)"

definition config_specificity :: "sr_v3_sub_level_input_config \<Rightarrow> nat" where
  "config_specificity config =
     length (filter (\<lambda>present. present)
       [sl_payment_method config \<noteq> None, sl_card_network config \<noteq> None,
        sl_card_is_in config \<noteq> None, sl_currency config \<noteq> None,
        sl_country config \<noteq> None, sl_auth_type config \<noteq> None])"

definition keep_best ::
  "sr_v3_sub_level_input_config option \<Rightarrow> sr_v3_sub_level_input_config \<Rightarrow>
   sr_v3_sub_level_input_config option" where
  "keep_best best config =
     (case best of
        Some b \<Rightarrow> if config_specificity b \<ge> config_specificity config then Some b else Some config
      | None \<Rightarrow> Some config)"

definition get_sr_v3_sub_level_input_config ::
  "sr_v3_sub_level_input_config list option \<Rightarrow> string \<Rightarrow> string \<Rightarrow> sr_routing_dimensions \<Rightarrow>
   (sr_v3_sub_level_input_config \<Rightarrow> bool) \<Rightarrow> sr_v3_sub_level_input_config option" where
  "get_sr_v3_sub_level_input_config configs pmt pm dims is_input_non_null =
     Option.bind configs
       (\<lambda>cs. foldl keep_best None
          (filter (\<lambda>c. is_sr_v3_config_match c (Some pmt) (Some pm) dims \<and> is_input_non_null c) cs))"

definition is_autopilot_sourced :: "sr_v3_sub_level_input_config \<Rightarrow> bool" where
  "is_autopilot_sourced cfg \<longleftrightarrow> sl_source cfg = Some AUTOPILOT_SOURCE"

section \<open>The lookups\<close>

definition get_sr_v3_latency_threshold ::
  "sr_v3_input_config option \<Rightarrow> string \<Rightarrow> string \<Rightarrow> sr_routing_dimensions \<Rightarrow> f64 option" where
  "get_sr_v3_latency_threshold cfg pmt pm dims =
     Option.bind cfg (\<lambda>config.
       opt_or
         (Option.bind
            (get_sr_v3_sub_level_input_config (sub_level_input_config config) pmt pm dims
               (\<lambda>x. sl_latency_threshold x \<noteq> None))
            sl_latency_threshold)
         (default_latency_threshold config))"

definition get_sr_v3_bucket_size ::
  "sr_v3_input_config option \<Rightarrow> string \<Rightarrow> string \<Rightarrow> sr_routing_dimensions \<Rightarrow> bool \<Rightarrow> int option" where
  "get_sr_v3_bucket_size cfg pmt pm dims use_autopilot =
     Option.bind cfg (\<lambda>config.
       opt_filter (\<lambda>size. size > 0)
         (opt_or
            (Option.bind
               (get_sr_v3_sub_level_input_config (sub_level_input_config config) pmt pm dims
                  (\<lambda>x. sl_bucket_size x \<noteq> None \<and> (use_autopilot \<or> \<not> is_autopilot_sourced x)))
               sl_bucket_size)
            (default_bucket_size config)))"

definition get_sr_v3_hedging_percent ::
  "sr_v3_input_config option \<Rightarrow> string \<Rightarrow> string \<Rightarrow> sr_routing_dimensions \<Rightarrow> bool \<Rightarrow> f64 option" where
  "get_sr_v3_hedging_percent cfg pmt pm dims use_autopilot =
     Option.bind cfg (\<lambda>config.
       opt_filter (\<lambda>percent. fle (Fin 0) percent)
         (opt_or
            (Option.bind
               (get_sr_v3_sub_level_input_config (sub_level_input_config config) pmt pm dims
                  (\<lambda>x. sl_hedging_percent x \<noteq> None \<and> (use_autopilot \<or> \<not> is_autopilot_sourced x)))
               sl_hedging_percent)
            (default_hedging_percent config)))"

definition get_sr_v3_lower_reset_factor ::
  "sr_v3_input_config option \<Rightarrow> string \<Rightarrow> string \<Rightarrow> sr_routing_dimensions \<Rightarrow> f64 option" where
  "get_sr_v3_lower_reset_factor cfg pmt pm dims =
     Option.bind cfg (\<lambda>config.
       opt_filter (\<lambda>factor. fle (Fin 0) factor)
         (opt_or
            (Option.bind
               (get_sr_v3_sub_level_input_config (sub_level_input_config config) pmt pm dims
                  (\<lambda>x. sl_lower_reset_factor x \<noteq> None))
               sl_lower_reset_factor)
            (default_lower_reset_factor config)))"

definition get_sr_v3_upper_reset_factor ::
  "sr_v3_input_config option \<Rightarrow> string \<Rightarrow> string \<Rightarrow> sr_routing_dimensions \<Rightarrow> f64 option" where
  "get_sr_v3_upper_reset_factor cfg pmt pm dims =
     Option.bind cfg (\<lambda>config.
       opt_filter (\<lambda>factor. fle (Fin 0) factor)
         (opt_or
            (Option.bind
               (get_sr_v3_sub_level_input_config (sub_level_input_config config) pmt pm dims
                  (\<lambda>x. sl_upper_reset_factor x \<noteq> None))
               sl_upper_reset_factor)
            (default_upper_reset_factor config)))"

definition find_gateway_sigma_factor ::
  "gateway_wise_extra_score list option \<Rightarrow> string \<Rightarrow> f64 option" where
  "find_gateway_sigma_factor scores gw =
     Option.bind scores
       (\<lambda>s. map_option ge_gateway_sigma_factor (find (\<lambda>x. ge_gateway_name x = gw) s))"

definition get_sr_v3_gateway_sigma_factor ::
  "sr_v3_input_config option \<Rightarrow> string \<Rightarrow> string \<Rightarrow> string \<Rightarrow> sr_routing_dimensions \<Rightarrow> f64 option" where
  "get_sr_v3_gateway_sigma_factor cfg pmt pm gw dims =
     Option.bind cfg (\<lambda>config.
       opt_or
         (Option.bind
            (get_sr_v3_sub_level_input_config (sub_level_input_config config) pmt pm dims
               (\<lambda>x. case sl_gateway_extra_score x of
                      Some scores \<Rightarrow> list_ex (\<lambda>s. ge_gateway_name s = gw) scores
                    | None \<Rightarrow> False))
            (\<lambda>sub. find_gateway_sigma_factor (sl_gateway_extra_score sub) gw))
         (find_gateway_sigma_factor (default_gateway_extra_score config) gw))"

definition filter_upto_pmt ::
  "sr_v3_sub_level_input_config list \<Rightarrow> string \<Rightarrow> (sr_v3_sub_level_input_config \<Rightarrow> bool) \<Rightarrow>
   sr_v3_sub_level_input_config option" where
  "filter_upto_pmt configs pmt is_input_non_null =
     find (\<lambda>x. sl_payment_method_type x = Some pmt \<and> sl_payment_method x = None \<and> is_input_non_null x)
       configs"

definition get_payment_method :: "string \<Rightarrow> string \<Rightarrow> string \<Rightarrow> string" where
  "get_payment_method payment_method_type pm source_object =
     (if payment_method_type = ''UPI'' \<and> pm = ''UPI'' then source_object else pm)"

text \<open>
  The bucket size a transaction is scored with, on the routing side (\<open>use_autopilot\<close> comes from
  an A/B arm) and on the feedback side (always true): the merchant's value, else the default
  configuration's, else the constant.
\<close>

definition merchant_bucket_size ::
  "sr_v3_input_config option \<Rightarrow> sr_v3_input_config option \<Rightarrow> string \<Rightarrow> string \<Rightarrow>
   sr_routing_dimensions \<Rightarrow> bool \<Rightarrow> int" where
  "merchant_bucket_size merchant_cfg default_cfg pmt pm dims ab_use_autopilot =
     unwrap_or
       (opt_or (get_sr_v3_bucket_size merchant_cfg pmt pm dims ab_use_autopilot)
          (get_sr_v3_bucket_size default_cfg pmt pm dims ab_use_autopilot))
       DEFAULT_SR_V3_BASED_BUCKET_SIZE"

definition getSrV3MerchantBucketSize ::
  "sr_v3_input_config option \<Rightarrow> sr_v3_input_config option \<Rightarrow> string \<Rightarrow> string \<Rightarrow> string option \<Rightarrow>
   sr_routing_dimensions \<Rightarrow> int" where
  "getSrV3MerchantBucketSize merchant_cfg default_cfg pmt payment_method source_object dims =
     (let pm = get_payment_method pmt payment_method (unwrap_or source_object []) in
      case get_sr_v3_bucket_size merchant_cfg pmt pm dims True of
        None \<Rightarrow>
          unwrap_or (get_sr_v3_bucket_size default_cfg pmt pm dims True)
            DEFAULT_SR_V3_BASED_BUCKET_SIZE
      | Some bucket_size \<Rightarrow> bucket_size)"

section \<open>The fold that keeps the best entry\<close>

locale specificity_fold =
  fixes rank :: "'a \<Rightarrow> nat" and pick :: "'a option \<Rightarrow> 'a \<Rightarrow> 'a option"
  assumes pick_None: "pick None x = Some x"
    and pick_Some: "pick (Some b) x = (if rank b \<ge> rank x then Some b else Some x)"
begin

definition first_best :: "'a list \<Rightarrow> 'a \<Rightarrow> bool" where
  "first_best xs b \<longleftrightarrow>
     (\<exists>pre post. xs = pre @ b # post \<and> list_all (\<lambda>x. rank x < rank b) pre \<and>
        list_all (\<lambda>x. rank x \<le> rank b) post)"

lemma first_bestI:
  "xs = pre @ b # post \<Longrightarrow> list_all (\<lambda>x. rank x < rank b) pre \<Longrightarrow>
     list_all (\<lambda>x. rank x \<le> rank b) post \<Longrightarrow> first_best xs b"
  unfolding first_best_def by blast

lemma fold_is_first_best:
  "case foldl pick None xs of None \<Rightarrow> xs = [] | Some b \<Rightarrow> first_best xs b"
proof (induction xs rule: rev_induct)
  case (snoc x xs)
  show ?case
  proof (cases "foldl pick None xs")
    case None
    with snoc have "xs = []" by simp
    then have "first_best (xs @ [x]) x" by (intro first_bestI [where pre = "[]" and post = "[]"]) simp_all
    with None show ?thesis by (simp add: pick_None)
  next
    case (Some b)
    with snoc obtain pre post where p: "xs = pre @ b # post"
      "list_all (\<lambda>x. rank x < rank b) pre" "list_all (\<lambda>x. rank x \<le> rank b) post"
      by (auto simp: first_best_def)
    show ?thesis
    proof (cases "rank b \<ge> rank x")
      case True
      with p have "first_best (xs @ [x]) b"
        by (intro first_bestI [where pre = pre and post = "post @ [x]"]) simp_all
      with True Some show ?thesis by (simp add: pick_Some)
    next
      case False
      have "list_all (\<lambda>y. rank y < rank x) xs"
        using p False by (auto simp: list_all_iff)
      then have "first_best (xs @ [x]) x" by (intro first_bestI [where pre = xs and post = "[]"]) simp_all
      with False Some show ?thesis by (simp add: pick_Some)
    qed
  qed
qed simp

lemma fold_in: "foldl pick None xs = Some b \<Longrightarrow> b \<in> set xs"
  using fold_is_first_best [of xs] by (auto simp: first_best_def)

lemma fold_None: "foldl pick None xs = None \<longleftrightarrow> xs = []"
  using fold_is_first_best [of xs] by (auto simp: pick_None split: option.splits)

end

interpretation sub: specificity_fold config_specificity keep_best
  by unfold_locales (simp_all add: keep_best_def)

lemmas sub_level_defs = get_sr_v3_sub_level_input_config_def

lemma sub_level_in:
  assumes "get_sr_v3_sub_level_input_config configs pmt pm dims p = Some c"
  shows "p c" "is_sr_v3_config_match c (Some pmt) (Some pm) dims"
  using assms sub.fold_in by (auto simp: sub_level_defs bind_eq_Some_conv dest!: sub.fold_in)

text \<open>
  The sub-level entry a value is taken from is the most specific of the entries that match the
  transaction and carry the value, the earliest of them when several are equally specific; there is
  none exactly when no such entry exists.
\<close>

theorem most_specific_entry:
  "case get_sr_v3_sub_level_input_config (Some configs) pmt pm dims p of
     None \<Rightarrow>
       filter (\<lambda>c. is_sr_v3_config_match c (Some pmt) (Some pm) dims \<and> p c) configs = []
   | Some b \<Rightarrow>
       (\<exists>pre post. filter (\<lambda>c. is_sr_v3_config_match c (Some pmt) (Some pm) dims \<and> p c) configs =
          pre @ b # post \<and>
          list_all (\<lambda>c. config_specificity c < config_specificity b) pre \<and>
          list_all (\<lambda>c. config_specificity c \<le> config_specificity b) post)"
  using sub.fold_is_first_best
    [of "filter (\<lambda>c. is_sr_v3_config_match c (Some pmt) (Some pm) dims \<and> p c) configs"]
  by (simp add: sub_level_defs sub.first_best_def split: option.splits)

lemma bucket_size_pos: "get_sr_v3_bucket_size cfg pmt pm dims auto = Some n \<Longrightarrow> 0 < n"
  by (auto simp: get_sr_v3_bucket_size_def bind_eq_Some_conv opt_filter_Some_iff)

lemma merchant_bucket_size_pos: "1 \<le> merchant_bucket_size mc dc pmt pm dims auto"
  by (auto simp: merchant_bucket_size_def DEFAULT_SR_V3_BASED_BUCKET_SIZE_def unwrap_or_def
      opt_or_def dest!: bucket_size_pos split: option.splits)

text \<open>
  The bucket size a transaction is routed with and the one its outcome is fed back with are
  both positive, and they are the same whenever the payment method is read the same way and no A/B
  arm sets the autopilot's entries aside. A non-positive size of the most specific entry hides
  the default size of the same configuration, not the one of the default configuration.
\<close>

theorem bucket_size_agreement:
  "1 \<le> merchant_bucket_size mc dc pmt pm dims auto \<and>
   getSrV3MerchantBucketSize mc dc pmt method src dims =
     merchant_bucket_size mc dc pmt (get_payment_method pmt method (unwrap_or src [])) dims True \<and>
   (case Option.bind (get_sr_v3_sub_level_input_config (sub_level_input_config cfg) pmt pm dims
        (\<lambda>x. sl_bucket_size x \<noteq> None \<and> (if is_autopilot_sourced x then auto else True))) sl_bucket_size of
      Some n \<Rightarrow> merchant_bucket_size (Some cfg) dc pmt pm dims auto =
        (if 0 < n then n else merchant_bucket_size None dc pmt pm dims auto)
    | None \<Rightarrow> merchant_bucket_size (Some cfg) dc pmt pm dims auto =
        unwrap_or (opt_filter (\<lambda>n. 0 < n) (default_bucket_size cfg))
          (merchant_bucket_size None dc pmt pm dims auto))"
proof -
  have "getSrV3MerchantBucketSize mc dc pmt method src dims =
     merchant_bucket_size mc dc pmt (get_payment_method pmt method (unwrap_or src [])) dims True"
    by (simp add: getSrV3MerchantBucketSize_def merchant_bucket_size_def Let_def split: option.splits)
  moreover have "(if is_autopilot_sourced x then auto else True) = (auto \<or> \<not> is_autopilot_sourced x)" for x
    by simp
  ultimately show ?thesis
    using merchant_bucket_size_pos [of mc dc pmt pm dims auto]
    by (simp add: merchant_bucket_size_def get_sr_v3_bucket_size_def opt_or_def unwrap_or_def
        opt_filter_def split: option.splits)
qed

end
