(* ===== verification/Redis_Store.thy ===== *)
theory Redis_Store
  imports Decider_Types
begin

text \<open>
  What the program sees of Redis and of the standard library's number formats. Redis is not part
  of the sources: a store is an abstract state with the calls the program makes, a record of
  functions. A transaction is the list of commands the code queues. \<open>redis_documented\<close> states the
  documented effect of those commands on the keys and is the hypothesis of every theorem about
  stored scores; \<open>mem_redis\<close> is a store that satisfies it.
\<close>

section \<open>Displaying and parsing numbers\<close>

function show_nat :: "nat \<Rightarrow> string" where
  "show_nat n =
     (if n < 10 then [char_of (48 + n)] else show_nat (n div 10) @ [char_of (48 + n mod 10)])"
  by pat_completeness auto
termination by (relation "measure id") auto

declare show_nat.simps [simp del]

definition show_int :: "int \<Rightarrow> string" where
  "show_int i = (if i < 0 then ''-'' @ show_nat (nat (- i)) else show_nat (nat i))"

definition is_digit :: "char \<Rightarrow> bool" where
  "is_digit c = (let n = of_char c :: nat in 48 \<le> n \<and> n \<le> 57)"

definition digits_value :: "string \<Rightarrow> nat" where
  "digits_value ds = foldl (\<lambda>acc d. 10 * acc + (of_char d - 48)) 0 ds"

definition split_sign :: "string \<Rightarrow> bool \<times> string" where
  "split_sign s =
     (case s of
        c # cs \<Rightarrow> if c = CHR ''-'' then (True, cs) else if c = CHR ''+'' then (False, cs) else (False, s)
      | [] \<Rightarrow> (False, s))"

definition split_digits :: "string \<Rightarrow> string \<times> string" where
  "split_digits s = (takeWhile is_digit s, dropWhile is_digit s)"

definition parse_exponent :: "string \<Rightarrow> int option" where
  "parse_exponent s =
     (case s of
        [] \<Rightarrow> Some 0
      | c # cs \<Rightarrow>
          if c = CHR ''e'' \<or> c = CHR ''E'' then
            (let (neg, r) = split_sign cs; (ds, rest) = split_digits r in
             if ds = [] \<or> rest \<noteq> [] then None
             else Some (if neg then - int (digits_value ds) else int (digits_value ds)))
          else None)"

definition pow10 :: "int \<Rightarrow> rat" where
  "pow10 e = (if 0 \<le> e then 10 ^ nat e else 1 / 10 ^ nat (- e))"

definition parse_number :: "string \<Rightarrow> f64 option" where
  "parse_number s =
     (let (whole, r) = split_digits s;
          (frac, r) = (case r of
             c # cs \<Rightarrow> if c = CHR ''.'' then split_digits cs else ([], r)
           | [] \<Rightarrow> ([], r)) in
      if whole @ frac = [] then None
      else map_option
        (\<lambda>e. f64_of_rat (of_nat (digits_value (whole @ frac)) * pow10 (e - int (length frac))))
        (parse_exponent r))"

text \<open>\<open>str::parse::<f64>\<close>: an optional sign, then an infinity, a NaN or a decimal number.\<close>

definition parse_f64 :: "string \<Rightarrow> f64 option" where
  "parse_f64 s =
     (let (neg, r) = split_sign s; l = to_ascii_lowercase r;
          v = (if l = ''inf'' \<or> l = ''infinity'' then Some PInf
               else if l = ''nan'' then Some NaN else parse_number r)
      in map_option (\<lambda>x. if neg then fneg x else x) v)"

section \<open>A store\<close>

datatype redis_value = RList "string list" | RStr string

datatype redis_cmd =
    Cmd_Del string
  | Cmd_LPush string "string list"
  | Cmd_LTrim string int int
  | Cmd_Set string string
  | Cmd_Expire string int

text \<open>
  \<open>r_multi\<close> runs a transaction, the others are reads; a read that fails is \<open>None\<close>. \<open>r_get_i32\<close> is
  \<open>get_key::<i32>\<close>, which also decodes the stored text; \<open>r_view\<close> is the content of the keys that
  have not expired.
\<close>

record 's redis =
  r_view :: "'s \<Rightarrow> string \<Rightarrow> redis_value option"
  r_multi :: "redis_cmd list \<Rightarrow> 's \<Rightarrow> 's"
  r_lrange :: "'s \<Rightarrow> string \<Rightarrow> int \<Rightarrow> int \<Rightarrow> string list option"
  r_get_i32 :: "'s \<Rightarrow> string \<Rightarrow> int option"
  r_exists :: "'s \<Rightarrow> string \<Rightarrow> bool option"

section \<open>The documented behaviour\<close>

text \<open>Indices of \<open>LRANGE\<close> and \<open>LTRIM\<close> are inclusive, a negative one counts from the end.\<close>

definition list_index :: "int \<Rightarrow> 'a list \<Rightarrow> int" where
  "list_index i xs = (if i < 0 then max 0 (int (length xs) + i) else i)"

definition list_slice :: "int \<Rightarrow> int \<Rightarrow> 'a list \<Rightarrow> 'a list" where
  "list_slice a b xs =
     drop (nat (list_index a xs))
       (take (nat ((if b < 0 then int (length xs) + b else b) + 1)) xs)"

lemma list_slice_prefix: "0 \<le> b \<Longrightarrow> list_slice 0 b xs = take (nat (b + 1)) xs"
  by (simp add: list_slice_def list_index_def)

text \<open>\<open>LPUSH\<close> pushes its values one after the other, so the last one ends at the head.\<close>

definition cmd_effect ::
  "redis_cmd \<Rightarrow> (string \<Rightarrow> redis_value option) \<Rightarrow> string \<Rightarrow> redis_value option" where
  "cmd_effect c v =
     (case c of
        Cmd_Del k \<Rightarrow> v(k := None)
      | Cmd_LPush k xs \<Rightarrow>
          (if xs = [] then v
           else (case v k of
                   None \<Rightarrow> v(k \<mapsto> RList (rev xs))
                 | Some (RList l) \<Rightarrow> v(k \<mapsto> RList (rev xs @ l))
                 | Some (RStr _) \<Rightarrow> v))
      | Cmd_LTrim k a b \<Rightarrow>
          (case v k of
             Some (RList l) \<Rightarrow>
               v(k := (let l' = list_slice a b l in if l' = [] then None else Some (RList l')))
           | _ \<Rightarrow> v)
      | Cmd_Set k x \<Rightarrow> v(k \<mapsto> RStr x)
      | Cmd_Expire k ttl \<Rightarrow> (if ttl \<le> 0 then v(k := None) else v))"

definition redis_documented :: "'s redis \<Rightarrow> bool" where
  "redis_documented R \<longleftrightarrow>
     (\<forall>cs s. r_view R (r_multi R cs s) = fold cmd_effect cs (r_view R s)) \<and>
     (\<forall>s k a b. r_lrange R s k a b =
        (case r_view R s k of
           None \<Rightarrow> Some []
         | Some (RList l) \<Rightarrow> Some (list_slice a b l)
         | Some (RStr _) \<Rightarrow> None)) \<and>
     (\<forall>s k i. - (2 ^ 31) \<le> i \<longrightarrow> i < 2 ^ 31 \<longrightarrow> r_view R s k = Some (RStr (show_int i)) \<longrightarrow>
        r_get_i32 R s k = Some i) \<and>
     (\<forall>s k. r_view R s k = None \<longrightarrow> r_get_i32 R s k = None) \<and>
     (\<forall>s k. r_exists R s k = Some (r_view R s k \<noteq> None))"

lemma documented_multi:
  "redis_documented R \<Longrightarrow> r_view R (r_multi R cs s) = fold cmd_effect cs (r_view R s)"
  by (simp add: redis_documented_def)

lemma documented_lrange:
  "redis_documented R \<Longrightarrow> r_lrange R s k a b =
     (case r_view R s k of
        None \<Rightarrow> Some [] | Some (RList l) \<Rightarrow> Some (list_slice a b l) | Some (RStr _) \<Rightarrow> None)"
  by (simp add: redis_documented_def)

lemma documented_get:
  "redis_documented R \<Longrightarrow> - (2 ^ 31) \<le> i \<Longrightarrow> i < 2 ^ 31 \<Longrightarrow> r_view R s k = Some (RStr (show_int i)) \<Longrightarrow>
     r_get_i32 R s k = Some i"
  by (simp add: redis_documented_def)

lemma documented_get_absent: "redis_documented R \<Longrightarrow> r_view R s k = None \<Longrightarrow> r_get_i32 R s k = None"
  by (simp add: redis_documented_def)

lemma documented_exists: "redis_documented R \<Longrightarrow> r_exists R s k = Some (r_view R s k \<noteq> None)"
  by (simp add: redis_documented_def)

section \<open>A store that behaves so\<close>

definition parse_int :: "string \<Rightarrow> int option" where
  "parse_int s =
     (case s of
        [] \<Rightarrow> None
      | c # cs \<Rightarrow>
          if c = CHR ''-'' then (if cs \<noteq> [] \<and> list_all is_digit cs then Some (- int (digits_value cs)) else None)
          else if list_all is_digit s then Some (int (digits_value s)) else None)"

definition mem_redis :: "(string \<Rightarrow> redis_value option) redis" where
  "mem_redis =
     \<lparr>r_view = (\<lambda>s. s), r_multi = fold cmd_effect,
      r_lrange = (\<lambda>s k a b. case s k of
         None \<Rightarrow> Some [] | Some (RList l) \<Rightarrow> Some (list_slice a b l) | Some (RStr _) \<Rightarrow> None),
      r_get_i32 = (\<lambda>s k. case s k of
         Some (RStr x) \<Rightarrow> opt_filter (\<lambda>i. - (2 ^ 31) \<le> i \<and> i < 2 ^ 31) (parse_int x) | _ \<Rightarrow> None),
      r_exists = (\<lambda>s k. Some (s k \<noteq> None))\<rparr>"

lemma is_digit_char [simp]: "n < 10 \<Longrightarrow> is_digit (char_of (48 + n :: nat))"
  by (simp add: is_digit_def)

lemma digits_value_snoc: "digits_value (ds @ [d]) = 10 * digits_value ds + (of_char d - 48)"
  by (simp add: digits_value_def)

lemma show_nat_digits: "list_all is_digit (show_nat n) \<and> digits_value (show_nat n) = n \<and> show_nat n \<noteq> []"
proof (induction n rule: show_nat.induct)
  case (1 n)
  show ?case
  proof (cases "n < 10")
    case True
    then show ?thesis by (simp add: show_nat.simps [of n] digits_value_def)
  next
    case False
    with 1 show ?thesis
      by (simp add: show_nat.simps [of n] digits_value_snoc)
  qed
qed

lemma parse_show_int: "parse_int (show_int i) = Some i"
proof (cases "i < 0")
  case True
  with show_nat_digits [of "nat (- i)"] show ?thesis by (simp add: show_int_def parse_int_def)
next
  case False
  from show_nat_digits [of "nat i"] obtain c cs where c: "show_nat (nat i) = c # cs" "is_digit c"
    by (cases "show_nat (nat i)") auto
  then have "c \<noteq> CHR ''-''" by (auto simp: is_digit_def)
  with False c show_nat_digits [of "nat i"] show ?thesis
    by (simp add: show_int_def parse_int_def)
qed

lemma mem_redis_documented: "redis_documented mem_redis"
  by (auto simp: redis_documented_def mem_redis_def parse_show_int)

end
