(* ===== verification/Sr_Score.thy ===== *)
theory Sr_Score
  imports Sr_Config Redis_Store Mem_Cache
begin

text \<open>
  The success-rate score of a gateway (SR v3). The feedback path
  (\<open>src/src/feedback/gateway_selection_scoring_v3/flow.rs\<close>, \<open>src/src/feedback/utils.rs\<close>) keeps a
  window of outcomes per gateway in a Redis list, newest first; the routing path
  (\<open>src/src/decider/gatewaydecider/gw_scoring.rs\<close>) reads the window as a score in \<open>[0, 1]\<close>, resets
  gateways that fell behind, adds the configured extra score and may sample from a distribution.
  Logging, metrics and the computation of the Redis keys are left out; a panic is \<open>None\<close>.
\<close>

section \<open>Writing the window\<close>

datatype gateway_scoring_type = Penalise | PenaliseSrv3 | Reward

definition create_moving_window_and_score ::
  "'s redis \<Rightarrow> string \<Rightarrow> string \<Rightarrow> int \<Rightarrow> string list \<Rightarrow> 's \<Rightarrow> 's" where
  "create_moving_window_and_score R queue_key score_key score score_list s =
     r_multi R
       [Cmd_Del queue_key, Cmd_LPush queue_key score_list, Cmd_Set score_key (show_int score),
        Cmd_Expire queue_key 10000000, Cmd_Expire score_key 10000000] s"

definition isKeyExistsRedis :: "'s redis \<Rightarrow> 's \<Rightarrow> string \<Rightarrow> bool" where
  "isKeyExistsRedis R s key = unwrap_or (r_exists R s key) False"

definition createKeysIfNotExist ::
  "'s redis \<Rightarrow> string \<Rightarrow> string \<Rightarrow> int \<Rightarrow> 's \<Rightarrow> 's" where
  "createKeysIfNotExist R queue_key score_key bucket_size s =
     (if isKeyExistsRedis R s queue_key \<and> isKeyExistsRedis R s score_key then s
      else
        (let merchant_bucket_size = max bucket_size 1 in
         create_moving_window_and_score R queue_key score_key merchant_bucket_size
           (replicate (nat merchant_bucket_size) ''1'') s))"

definition updateQueue ::
  "'s redis \<Rightarrow> string \<Rightarrow> string \<Rightarrow> string \<Rightarrow> int \<Rightarrow> 's \<Rightarrow> 's" where
  "updateQueue R queue_key score_key value bucket_size s =
     (let last_index = max bucket_size 1 - 1 in
      r_multi R
        [Cmd_LPush queue_key [value], Cmd_LTrim queue_key 0 last_index,
         Cmd_Expire queue_key 10000000, Cmd_Expire score_key 10000000] s)"

definition updateMovingWindow ::
  "'s redis \<Rightarrow> string \<Rightarrow> string \<Rightarrow> string \<Rightarrow> int \<Rightarrow> 's \<Rightarrow> 's" where
  "updateMovingWindow R queue_key score_key value bucket_size s =
     updateQueue R queue_key score_key value bucket_size s"

definition updateScoreAndQueue ::
  "'s redis \<Rightarrow> string \<Rightarrow> string \<Rightarrow> gateway_scoring_type \<Rightarrow> int \<Rightarrow> 's \<Rightarrow> 's" where
  "updateScoreAndQueue R queue_key score_key ty bucket_size s =
     (let s = createKeysIfNotExist R queue_key score_key bucket_size s;
          value = (case ty of PenaliseSrv3 \<Rightarrow> ''0'' | Reward \<Rightarrow> ''1'' | _ \<Rightarrow> ''0'')
      in updateMovingWindow R queue_key score_key value bucket_size s)"

text \<open>
  The keys hang off one unified key of the transaction; the second pair is derived from the same
  unified key, so the guard on it never holds.
\<close>

definition update_sr_v3_score ::
  "'s redis \<Rightarrow> gateway_scoring_type \<Rightarrow> string option \<Rightarrow> string option \<Rightarrow> string \<Rightarrow> int \<Rightarrow> 's \<Rightarrow> 's" where
  "update_sr_v3_score R ty gateway unified_sr_v3_key payment_method_type bucket_size s =
     (case gateway of
        None \<Rightarrow> s
      | Some _ \<Rightarrow>
          (let key = unwrap_or unified_sr_v3_key [];
               s = updateScoreAndQueue R (key @ ''_}queue'') (key @ ''_}score'') ty bucket_size s in
           if payment_method_type \<in> {''CARD'', ''UPI''} then
             (let key3d = unwrap_or unified_sr_v3_key [] in
              if key3d \<noteq> key
              then updateScoreAndQueue R (key3d @ ''_}queue'') (key3d @ ''_}score'') ty bucket_size s
              else s)
           else s))"

section \<open>Reading the score\<close>

definition get_score_from_redis :: "'s redis \<Rightarrow> int \<Rightarrow> string \<Rightarrow> 's \<Rightarrow> f64" where
  "get_score_from_redis R bucket_size redis_key s =
     (let queue_key = redis_key @ ''_}queue''; score_key = redis_key @ ''_}score'';
          bucket_size = max bucket_size 1;
          queue_window = opt_filter (\<lambda>values. values \<noteq> []) (r_lrange R s queue_key 0 (bucket_size - 1));
          fallback =
            (let success_count = unwrap_or (r_get_i32 R s score_key) bucket_size in
             fclamp (fdiv (f64_of_int success_count) (f64_of_int bucket_size)) (Fin 0) (Fin 1))
      in case queue_window of
           Some values \<Rightarrow>
             (let parsed_scores = List.map_filter parse_f64 values in
              if parsed_scores \<noteq> [] then
                (let success_count = foldl fadd (Fin 0) parsed_scores in
                 fclamp (fdiv success_count (f64_of_int (int (length parsed_scores)))) (Fin 0) (Fin 1))
              else fallback)
         | None \<Rightarrow> fallback)"

text \<open>The lock flags and clock readings of one access to the process-wide score cache.\<close>

record cache_access =
  ca_get_locked :: bool
  ca_get_now :: nat
  ca_store_locked :: bool
  ca_scan_now :: nat
  ca_insert_now :: nat

definition get_cached_score_from_redis ::
  "'s redis \<Rightarrow> cache_access \<Rightarrow> int \<Rightarrow> string \<Rightarrow> 's \<Rightarrow> sr_score_cache \<Rightarrow> f64 \<times> sr_score_cache" where
  "get_cached_score_from_redis R a bucket_size redis_key s cache =
     (let cache_key = redis_key @ '':'' @ show_int bucket_size in
      case sc_get cache (ca_get_locked a) (ca_get_now a) cache_key of
        Some cached \<Rightarrow> (cached, cache)
      | None \<Rightarrow>
          (let score = get_score_from_redis R bucket_size redis_key s in
           (score, sc_store cache (ca_store_locked a) (ca_scan_now a) (ca_insert_now a) cache_key score)))"

definition create_score_map :: "string list \<Rightarrow> f64 hmap" where
  "create_score_map gateways = foldl (\<lambda>m gw. hm_insert gw (Fin 1) m) [] gateways"

section \<open>The window is the latest outcomes\<close>

definition succeeded :: "gateway_scoring_type \<Rightarrow> bool" where
  "succeeded ty \<longleftrightarrow> ty = Reward"

definition outcome_text :: "bool \<Rightarrow> string" where
  "outcome_text b = (if b then ''1'' else ''0'')"

text \<open>
  The abstract window of a gateway after a history of outcomes, newest first, each with the bucket
  size configured at the time: the first outcome finds a window of successes.
\<close>

fun window_after :: "(int \<times> gateway_scoring_type) list \<Rightarrow> bool list" where
  "window_after [] = []"
| "window_after ((n, ty) # hist) =
     take (nat (max n 1))
       (succeeded ty # (if hist = [] then replicate (nat (max n 1)) True else window_after hist))"

definition window_score :: "bool list \<Rightarrow> f64" where
  "window_score w =
     (if w = [] then Fin 1
      else f64_of_rat (of_nat (length (filter (\<lambda>b. b) w)) / of_nat (length w)))"

definition feed ::
  "'s redis \<Rightarrow> string \<Rightarrow> string \<Rightarrow> (int \<times> gateway_scoring_type) list \<Rightarrow> 's \<Rightarrow> 's" where
  "feed R key pmt hist s =
     foldr (\<lambda>(n, ty) s. update_sr_v3_score R ty (Some ''gateway'') (Some key) pmt n s) hist s"

lemma feed_simps [simp]:
  "feed R key pmt [] s = s"
  "feed R key pmt ((n, ty) # hist) s =
     updateScoreAndQueue R (key @ ''_}queue'') (key @ ''_}score'') ty n (feed R key pmt hist s)"
  by (simp_all add: feed_def update_sr_v3_score_def Let_def)

lemma window_after_Nil_iff [simp]: "window_after hist = [] \<longleftrightarrow> hist = []"
  by (cases hist rule: window_after.cases) auto

text \<open>One update of the stored window, from its content before.\<close>

lemma updateScoreAndQueue_view:
  assumes R: "redis_documented R" and "qk \<noteq> sk"
    and pre: "if r_view R s qk \<noteq> None \<and> r_view R s sk \<noteq> None then r_view R s qk = Some (RList w)
      else w = replicate (nat (max n 1)) ''1''"
  shows "r_view R (updateScoreAndQueue R qk sk ty n s) qk =
      Some (RList (take (nat (max n 1)) (outcome_text (succeeded ty) # w))) \<and>
    r_view R (updateScoreAndQueue R qk sk ty n s) sk \<noteq> None"
proof -
  have v: "(case ty of PenaliseSrv3 \<Rightarrow> ''0'' | Reward \<Rightarrow> ''1'' | _ \<Rightarrow> ''0'') = outcome_text (succeeded ty)"
    by (cases ty) (auto simp: outcome_text_def succeeded_def)
  have pos: "nat (max n 1) = Suc (nat (max n 1 - 1))" by simp
  let ?s1 = "createKeysIfNotExist R qk sk n s"
  have "r_view R ?s1 qk = Some (RList w)" and k: "r_view R ?s1 sk \<noteq> None"
    using pre assms(2) pos
    by (auto simp: createKeysIfNotExist_def isKeyExistsRedis_def documented_exists [OF R] Let_def
        create_moving_window_and_score_def documented_multi [OF R] cmd_effect_def replicate_append_same split: if_splits)
  then show ?thesis
    using pos assms(2)
    by (auto simp: updateScoreAndQueue_def updateMovingWindow_def updateQueue_def Let_def v
        documented_multi [OF R] cmd_effect_def list_slice_prefix)
qed

lemma feed_view:
  assumes R: "redis_documented R" and "hist \<noteq> []"
    and none: "r_view R s (key @ ''_}queue'') = None" "r_view R s (key @ ''_}score'') = None"
  shows "r_view R (feed R key pmt hist s) (key @ ''_}queue'') =
      Some (RList (List.map outcome_text (window_after hist))) \<and>
    r_view R (feed R key pmt hist s) (key @ ''_}score'') \<noteq> None"
  using assms(2)
proof (induction hist rule: window_after.induct)
  case (2 n ty hist)
  let ?q = "key @ ''_}queue''" and ?k = "key @ ''_}score''" and ?s = "feed R key pmt hist s"
  let ?w = "if hist = [] then replicate (nat (max n 1)) ''1''
    else List.map outcome_text (window_after hist)"
  have "r_view R (updateScoreAndQueue R ?q ?k ty n ?s) ?q =
      Some (RList (take (nat (max n 1)) (outcome_text (succeeded ty) # ?w))) \<and>
    r_view R (updateScoreAndQueue R ?q ?k ty n ?s) ?k \<noteq> None"
    by (rule updateScoreAndQueue_view [OF R]) (use 2 none in \<open>cases hist; simp\<close>)+
  moreover have "List.map outcome_text (window_after ((n, ty) # hist)) =
      take (nat (max n 1)) (outcome_text (succeeded ty) # ?w)"
    by (simp add: take_map [symmetric] outcome_text_def del: take_Cons')
  ultimately show ?case by simp
qed simp

lemmas parse_defs = parse_f64_def split_sign_def parse_number_def split_digits_def is_digit_def
  parse_exponent_def digits_value_def pow10_def to_ascii_lowercase_def ascii_lower_char_def

lemma parse_1: "parse_f64 ''1'' = Some (Fin 1)"
  by (simp add: parse_defs)
lemma parse_0: "parse_f64 ''0'' = Some (Fin 0)"
  by (simp add: parse_defs)

lemma parse_outcome: "parse_f64 (outcome_text b) = Some (Fin (of_bool b))"
  by (cases b) (simp_all only: outcome_text_def parse_1 parse_0 if_True if_False of_bool_eq)

lemma map_filter_outcomes:
  "List.map_filter parse_f64 (List.map outcome_text w) = List.map (\<lambda>b. Fin (of_bool b)) w"
  by (induction w) (simp_all only: List.map_filter_simps parse_outcome option.case list.map)

lemma sum_outcomes:
  "k + length w \<le> 2 ^ 53 \<Longrightarrow>
     foldl fadd (Fin (of_nat k)) (List.map (\<lambda>b. Fin (of_bool b)) w) =
       Fin (of_nat (k + length (filter (\<lambda>b. b) w)))"
proof (induction w arbitrary: k)
  case (Cons b w)
  have "fadd (Fin (of_nat k)) (Fin (of_bool b)) = f64_of_rat (of_nat (k + of_bool b))" by simp
  also have "\<dots> = Fin (of_nat (k + of_bool b))"
    using Cons.prems by (intro f64_of_nat) (auto split: if_splits)
  finally show ?case using Cons.IH [of "k + of_bool b"] Cons.prems by (cases b) (simp_all add: algebra_simps)
qed simp

lemma window_score_value:
  assumes "w \<noteq> []" "length w \<le> 2 ^ 53"
  shows "fclamp (fdiv (foldl fadd (Fin 0) (List.map (\<lambda>b. Fin (of_bool b)) w))
      (f64_of_int (int (length w)))) (Fin 0) (Fin 1) = window_score w"
proof -
  let ?k = "length (filter (\<lambda>b. b) w)"
  have k: "?k \<le> length w" by simp
  have "foldl fadd (Fin 0) (List.map (\<lambda>b. Fin (of_bool b)) w) = Fin (of_nat ?k)"
    using sum_outcomes [of 0 w] assms(2) by simp
  moreover have "f64_of_int (int (length w)) = Fin (of_nat (length w))"
    using f64_of_nat [OF assms(2)] by (simp add: f64_of_int_def)
  ultimately have d: "fdiv (foldl fadd (Fin 0) (List.map (\<lambda>b. Fin (of_bool b)) w))
      (f64_of_int (int (length w))) = f64_of_rat (of_nat ?k / of_nat (length w))"
    using assms(1) by (simp add: fdiv_def)
  have "(of_nat ?k :: rat) / of_nat (length w) \<le> 1" using k assms(1) by simp
  then obtain r where "f64_of_rat (of_nat ?k / of_nat (length w)) = Fin r" "0 \<le> r" "r \<le> 1"
    using f64_of_rat_unit by (metis divide_nonneg_nonneg of_nat_0_le_iff)
  with d assms(1) show ?thesis by (simp add: window_score_def fclamp_def)
qed

lemma f64_of_i32: "0 \<le> i \<Longrightarrow> i < 2 ^ 31 \<Longrightarrow> f64_of_int i = Fin (of_int i)"
  using f64_of_nat [of "nat i"] by (simp add: f64_of_int_def)

lemma window_after_length: "length (window_after hist) \<le> nat (max (fst (hd hist)) 1)"
  by (cases hist rule: window_after.cases) (auto simp: min_def)

lemma score_without_outcomes:
  assumes "redis_documented R" "1 \<le> b" "b < 2 ^ 31"
    and "r_view R s (key @ ''_}queue'') = None" "r_view R s (key @ ''_}score'') = None"
  shows "get_score_from_redis R b key s = Fin 1"
  using assms f64_of_i32 [of b]
  by (simp add: get_score_from_redis_def documented_lrange documented_get_absent fdiv_def fclamp_def)

text \<open>
  C8. Whatever outcomes were fed back and whatever the bucket size was at each of them, the score
  of a gateway is the share of successes among its latest outcomes, at most one bucket of them:
  missing outcomes count as successes up to the bucket size of the first outcome, shrinking the
  bucket drops the oldest outcomes, growing it keeps the window. A gateway without outcomes
  scores 1.
\<close>

theorem sr_score_of_history:
  assumes "redis_documented R" "1 \<le> b" "b < 2 ^ 31"
    and "r_view R s (key @ ''_}queue'') = None" "r_view R s (key @ ''_}score'') = None"
  shows "get_score_from_redis R b key (feed R key pmt hist s) =
    window_score (take (nat b) (window_after hist))"
proof (cases "hist = []")
  case True
  with score_without_outcomes [OF assms] show ?thesis by (simp add: window_score_def)
next
  case False
  let ?w = "take (nat b) (window_after hist)"
  have "length ?w \<le> nat b" by simp
  also have "\<dots> \<le> 2 ^ 53" using assms(3) by simp
  finally have len: "length ?w \<le> 2 ^ 53" .
  have ne: "?w \<noteq> []" using False assms(2) by simp
  have "r_lrange R (feed R key pmt hist s) (key @ ''_}queue'') 0 (b - 1) =
      Some (List.map outcome_text ?w)"
    using feed_view [OF assms(1) False assms(4,5)] assms(2)
    by (simp add: documented_lrange [OF assms(1)] list_slice_prefix take_map)
  with ne assms(2) window_score_value [OF ne len] show ?thesis
    by (simp add: get_score_from_redis_def map_filter_outcomes del: take_eq_Nil)
qed

lemma sr_score_of_history_witness:
  "get_score_from_redis mem_redis 2 ''k'' (feed mem_redis ''k'' ''CARD''
      [(3, Reward), (3, PenaliseSrv3)] (\<lambda>_. None)) = window_score [True, False]"
proof -
  have "r_view mem_redis (\<lambda>_. None) k = None" for k by (simp add: mem_redis_def)
  with sr_score_of_history [OF mem_redis_documented, of 2 "\<lambda>_. None" "''k''" "''CARD''"
      "[(3, Reward), (3, PenaliseSrv3)]"]
  show ?thesis by (simp add: succeeded_def)
qed

end
