(* ===== verification/Sr_Reset.thy ===== *)
theory Sr_Reset
  imports Sr_Score
begin

text \<open>
  The routing side of the success-rate scorer, from
  \<open>src/src/decider/gatewaydecider/gw_scoring.rs\<close>: the scores of the functional gateways, the reset
  of the gateways that fell behind the best one, the extra score of a gateway, the draws from a
  binomial or a beta distribution, and their composition. The crate \<open>rand_distr\<close> is a parameter: a
  draw is \<open>None\<close> where the constructor of the distribution refuses its parameters, on which the
  code panics. A panic of the whole is \<open>None\<close>.
\<close>

section \<open>The best gateway\<close>

definition get_max_score_gateway :: "f64 hmap \<Rightarrow> (string \<times> f64) option" where
  "get_max_score_gateway gsm = max_by (\<lambda>a b. fcmp (snd a) (snd b)) gsm"

section \<open>Resetting gateways that fell behind\<close>

definition clamp_i32 :: "int \<Rightarrow> int \<Rightarrow> int \<Rightarrow> int option" where
  "clamp_i32 lo hi x = (if hi < lo then None else Some (max lo (min hi x)))"

definition reset_sigma :: "f64 \<Rightarrow> int \<Rightarrow> f64" where
  "reset_sigma max_score bucket_size =
     fsqrt (fdiv (fmax (fmul max_score (fsub (Fin 1) max_score)) (f64_of_rat (9 / 100)))
       (f64_of_int bucket_size))"

definition score_reset_threshold :: "f64 \<Rightarrow> int \<Rightarrow> f64 \<Rightarrow> f64" where
  "score_reset_threshold max_score bucket_size upper_reset_factor =
     fsub max_score (fmul upper_reset_factor (reset_sigma max_score bucket_size))"

definition number_of_zeros :: "f64 \<Rightarrow> int \<Rightarrow> f64 \<Rightarrow> int option" where
  "number_of_zeros max_score bucket_size lower_reset_factor =
     clamp_i32 2 bucket_size
       (f64_as_i32 (ffloor
         (fmul (fadd (fsub (Fin 1) max_score)
             (fmul lower_reset_factor (reset_sigma max_score bucket_size)))
           (f64_of_int bucket_size))))"

definition reset_step :: "f64 \<Rightarrow> f64 \<Rightarrow> int \<times> string list \<Rightarrow> int \<Rightarrow> int \<times> string list" where
  "reset_step float_bucket_size interval_between_zeros zc_acc i =
     (let (zc, acc) = zc_acc in
      if fle (fmul (f64_of_int zc) interval_between_zeros) (fsub float_bucket_size (f64_of_int i))
      then (zc + 1, acc @ [''0'']) else (zc, acc @ [''1'']))"

definition reset_score_list :: "int \<Rightarrow> int \<Rightarrow> string list" where
  "reset_score_list bucket_size zeros =
     (let float_bucket_size = f64_of_int bucket_size;
          interval_between_zeros =
            fdiv (fsub float_bucket_size (Fin 1)) (fsub (f64_of_int zeros) (Fin 1))
      in rev (snd (foldl (reset_step float_bucket_size interval_between_zeros) (0, [])
           (rev [1..bucket_size]))))"

definition reset_gateway_for_sr_v3 ::
  "'s redis \<Rightarrow> int \<Rightarrow> string list \<Rightarrow> string \<Rightarrow> 's \<Rightarrow> 's" where
  "reset_gateway_for_sr_v3 R score_reset_value score_list redis_key s =
     create_moving_window_and_score R (redis_key @ ''_}queue'') (redis_key @ ''_}score'')
       score_reset_value score_list s"

definition keys_for_reset :: "f64 hmap \<Rightarrow> string hmap \<Rightarrow> f64 \<Rightarrow> string list" where
  "keys_for_reset score_map redis_key_map threshold =
     List.map fst (filter (\<lambda>(_, score). flt score threshold)
       (List.map_filter
          (\<lambda>(gw, score). map_option (\<lambda>key. (key, score)) (map_of redis_key_map gw)) score_map))"

definition reset_sr_v3_score ::
  "'s redis \<Rightarrow> f64 hmap \<Rightarrow> int \<Rightarrow> string hmap \<Rightarrow> f64 \<Rightarrow> f64 \<Rightarrow> 's \<Rightarrow> (f64 hmap \<times> bool \<times> 's) option" where
  "reset_sr_v3_score R score_map bucket_size redis_key_map upper_reset_factor lower_reset_factor s =
     (let max_score = unwrap_or (map_option snd (get_max_score_gateway score_map)) (Fin 1);
          threshold = score_reset_threshold max_score bucket_size upper_reset_factor in
      case number_of_zeros max_score bucket_size lower_reset_factor of
        None \<Rightarrow> None
      | Some zeros \<Rightarrow>
          (let score_list = reset_score_list bucket_size zeros;
               score_reset_value = bucket_size - zeros;
               keys = keys_for_reset score_map redis_key_map threshold;
               updated_score_map =
                 List.map (\<lambda>(gw, score).
                   (gw, if flt score threshold
                        then fdiv (f64_of_int score_reset_value) (f64_of_int bucket_size)
                        else score)) score_map
           in Some (updated_score_map, keys \<noteq> [],
                fold (reset_gateway_for_sr_v3 R score_reset_value score_list) keys s)))"

section \<open>Extra scores and draws\<close>

definition gateway_sigma_factor ::
  "sr_v3_input_config option \<Rightarrow> sr_v3_input_config option \<Rightarrow> string \<Rightarrow> string \<Rightarrow> string \<Rightarrow>
   sr_routing_dimensions \<Rightarrow> f64" where
  "gateway_sigma_factor merchant_cfg default_cfg pmt pm gw dims =
     unwrap_or
       (opt_or (get_sr_v3_gateway_sigma_factor merchant_cfg pmt pm gw dims)
          (get_sr_v3_gateway_sigma_factor default_cfg pmt pm gw dims))
       DEFAULT_SR_V3_BASED_GATEWAY_SIGMA_FACTOR"

definition add_extra_score ::
  "f64 hmap \<Rightarrow> int \<Rightarrow> sr_v3_input_config option \<Rightarrow> sr_v3_input_config option \<Rightarrow> string \<Rightarrow> string \<Rightarrow>
   string \<Rightarrow> sr_routing_dimensions \<Rightarrow> f64" where
  "add_extra_score score_map bucket_size merchant_cfg default_cfg pmt pm gw dims =
     (let factor = gateway_sigma_factor merchant_cfg default_cfg pmt pm gw dims;
          score = unwrap_or (map_of score_map gw) (Fin 1);
          var = fdiv (fmul score (fsub (Fin 1) score)) (f64_of_int bucket_size);
          sigma = fsqrt var;
          extra_score = fmul sigma factor
      in fclamp (fadd score extra_score) (Fin 0) (Fin 1))"

definition sample_from_binomial_distribution ::
  "(nat \<Rightarrow> f64 \<Rightarrow> nat option) \<Rightarrow> f64 hmap \<Rightarrow> int \<Rightarrow> string \<Rightarrow> f64 option" where
  "sample_from_binomial_distribution draw_binomial score_map bucket_size gw =
     (let gw_score = unwrap_or (map_of score_map gw) (Fin 1) in
      map_option (\<lambda>sample. fdiv (f64_of_int (int sample)) (f64_of_int bucket_size))
        (draw_binomial (nat (bucket_size mod 2 ^ 64)) gw_score))"

definition sample_from_beta_distribution ::
  "(f64 \<Rightarrow> f64 \<Rightarrow> f64 option) \<Rightarrow> f64 hmap \<Rightarrow> int \<Rightarrow> string \<Rightarrow> f64 option" where
  "sample_from_beta_distribution draw_beta score_map bucket_size gw =
     (let gw_score = unwrap_or (map_of score_map gw) (Fin 1);
          gw_success = fmul (f64_of_int bucket_size) gw_score;
          gw_failure = fsub (f64_of_int bucket_size) gw_success
      in draw_beta gw_success gw_failure)"

text \<open>The loops that fill a new map with one value per functional gateway.\<close>

fun map_gateways :: "(string \<Rightarrow> f64 option) \<Rightarrow> string list \<Rightarrow> f64 hmap \<Rightarrow> f64 hmap option" where
  "map_gateways f [] m = Some m"
| "map_gateways f (gw # gws) m =
     (case f gw of None \<Rightarrow> None | Some x \<Rightarrow> map_gateways f gws (hm_insert gw x m))"

section \<open>The scores of the functional gateways\<close>

record srv3_flags =
  fl_reset :: bool
  fl_extra_score :: bool
  fl_binomial :: bool
  fl_beta :: bool

record srv3_input =
  in_merchant_cfg :: "sr_v3_input_config option"
  in_default_cfg :: "sr_v3_input_config option"
  in_pmt :: string
  in_pm :: string
  in_dims :: sr_routing_dimensions
  in_ab_use_autopilot :: bool
  in_gateways :: "string list"
  in_redis_keys :: "string hmap"

fun cached_scores ::
  "'s redis \<Rightarrow> (string \<Rightarrow> cache_access) \<Rightarrow> int \<Rightarrow> string hmap \<Rightarrow> string list \<Rightarrow> 's \<Rightarrow>
   f64 hmap \<times> sr_score_cache \<Rightarrow> f64 hmap \<times> sr_score_cache" where
  "cached_scores R acc bucket_size redis_keys [] s mc = mc"
| "cached_scores R acc bucket_size redis_keys (gw # gws) s mc =
     (let (m, cache) = mc;
          mc = (case map_of redis_keys gw of
                  Some key \<Rightarrow>
                    (let (score, cache) =
                       get_cached_score_from_redis R (acc gw) bucket_size key s cache
                     in (hm_insert gw score m, cache))
                | None \<Rightarrow> (m, cache))
      in cached_scores R acc bucket_size redis_keys gws s mc)"

definition input_bucket_size :: "srv3_input \<Rightarrow> int" where
  "input_bucket_size i =
     merchant_bucket_size (in_merchant_cfg i) (in_default_cfg i) (in_pmt i) (in_pm i) (in_dims i)
       (in_ab_use_autopilot i)"

definition upper_reset_factor_of :: "srv3_input \<Rightarrow> f64" where
  "upper_reset_factor_of i =
     unwrap_or
       (opt_or (get_sr_v3_upper_reset_factor (in_merchant_cfg i) (in_pmt i) (in_pm i) (in_dims i))
          (get_sr_v3_upper_reset_factor (in_default_cfg i) (in_pmt i) (in_pm i) (in_dims i)))
       DEFAULT_SR_V3_BASED_UPPER_RESET_FACTOR"

definition lower_reset_factor_of :: "srv3_input \<Rightarrow> f64" where
  "lower_reset_factor_of i =
     unwrap_or
       (opt_or (get_sr_v3_lower_reset_factor (in_merchant_cfg i) (in_pmt i) (in_pm i) (in_dims i))
          (get_sr_v3_lower_reset_factor (in_default_cfg i) (in_pmt i) (in_pm i) (in_dims i)))
       DEFAULT_SR_V3_BASED_LOWER_RESET_FACTOR"

text \<open>
  \<open>acc\<close> is the access to the score cache for each gateway; \<open>draw_binomial\<close> and \<open>draw_beta\<close> are the draws for
  each gateway. The result is the score map, the reset approach the flow is marked with, and the
  store and the cache afterwards.
\<close>

definition get_cached_scores_based_on_srv3 ::
  "'s redis \<Rightarrow> (string \<Rightarrow> cache_access) \<Rightarrow> (string \<Rightarrow> nat \<Rightarrow> f64 \<Rightarrow> nat option) \<Rightarrow>
   (string \<Rightarrow> f64 \<Rightarrow> f64 \<Rightarrow> f64 option) \<Rightarrow> srv3_flags \<Rightarrow> srv3_input \<Rightarrow> 's \<Rightarrow> sr_score_cache \<Rightarrow>
   (f64 hmap \<times> reset_approach option \<times> 's \<times> sr_score_cache) option" where
  "get_cached_scores_based_on_srv3 R acc draw_binomial draw_beta flags i s cache =
     (let bucket_size = input_bucket_size i;
          (score_map, cache) =
            cached_scores R acc bucket_size (in_redis_keys i) (in_gateways i) s ([], cache) in
      case (if fl_reset flags
            then reset_sr_v3_score R score_map bucket_size (in_redis_keys i)
                   (upper_reset_factor_of i) (lower_reset_factor_of i) s
            else Some (score_map, False, s)) of
        None \<Rightarrow> None
      | Some (after_reset, is_reset_done, s) \<Rightarrow>
          (case (if fl_extra_score flags
                 then map_gateways
                   (\<lambda>gw. Some (add_extra_score after_reset bucket_size (in_merchant_cfg i)
                      (in_default_cfg i) (in_pmt i) (in_pm i) gw (in_dims i))) (in_gateways i) []
                 else Some after_reset) of
             None \<Rightarrow> None
           | Some final_map \<Rightarrow>
               map_option (\<lambda>m. (m, if is_reset_done then Some Srv3Reset else None, s, cache))
                 (if fl_binomial flags
                  then map_gateways
                    (\<lambda>gw. sample_from_binomial_distribution (draw_binomial gw) final_map bucket_size gw)
                    (in_gateways i) []
                  else if fl_beta flags
                  then map_gateways
                    (\<lambda>gw. sample_from_beta_distribution (draw_beta gw) final_map bucket_size gw)
                    (in_gateways i) []
                  else Some final_map)))"

section \<open>A reset touches only gateways worse than the best\<close>

lemma fmul_nonneg:
  "fle (Fin 0) a \<Longrightarrow> fle (Fin 0) b \<Longrightarrow> fmul a b \<noteq> NaN \<Longrightarrow> fle (Fin 0) (fmul a b)"
  by (cases a; cases b)
    (simp_all add: fmul_def f64_of_rat_nonneg, auto simp: fle_def inf_of_sign_def sgn_if split: if_splits)

lemma fsub_nonneg_le:
  assumes "f64_of_rat m = Fin m" "fle (Fin 0) p"
  shows "fle (fsub (Fin m) p) (Fin m)"
proof (cases p)
  case (Fin x)
  with assms f64_of_rat_mono [of "m - x" m] show ?thesis by (simp add: fsub_def)
qed (use assms in \<open>auto simp: fsub_def fle_def\<close>)

lemma best_not_below_threshold:
  assumes "f64_of_rat m = Fin m" "fle (Fin 0) u"
    and "flt x (score_reset_threshold (Fin m) b u)"
  shows "flt x (Fin m)"
proof -
  let ?p = "fmul u (reset_sigma (Fin m) b)"
  have "fsub (Fin m) ?p \<noteq> NaN"
    using flt_not_nan [OF assms(3)] by (simp add: score_reset_threshold_def)
  then have p: "?p \<noteq> NaN" by (cases ?p) (auto simp: fsub_def)
  then have "reset_sigma (Fin m) b \<noteq> NaN" by (cases u) (auto simp: fmul_def)
  then have "fle (Fin 0) (reset_sigma (Fin m) b)" by (simp add: reset_sigma_def fsqrt_nonneg)
  with p assms(2) have "fle (Fin 0) ?p" by (intro fmul_nonneg)
  with fsub_nonneg_le [OF assms(1)] have "fle (score_reset_threshold (Fin m) b u) (Fin m)"
    by (simp add: score_reset_threshold_def)
  with assms(3) show ?thesis by (rule flt_fle_trans)
qed

lemma reset_gateway_view:
  assumes "redis_documented R" "xs \<noteq> []"
  shows "r_view R (reset_gateway_for_sr_v3 R v xs key s) =
    (r_view R s)(key @ ''_}queue'' \<mapsto> RList (rev xs), key @ ''_}score'' \<mapsto> RStr (show_int v))"
  using assms(2)
  by (auto simp: reset_gateway_for_sr_v3_def create_moving_window_and_score_def
      documented_multi [OF assms(1)] cmd_effect_def)

lemma reset_all_view:
  assumes "redis_documented R" "xs \<noteq> []"
    and "k \<notin> (\<lambda>key. key @ ''_}queue'') ` set keys" "k \<notin> (\<lambda>key. key @ ''_}score'') ` set keys"
  shows "r_view R (fold (reset_gateway_for_sr_v3 R v xs) keys s) k = r_view R s k"
  using assms(3,4)
  by (induction keys arbitrary: s) (auto simp: reset_gateway_view [OF assms(1,2)])

lemma keys_for_reset_mem:
  "key \<in> set (keys_for_reset sm keys thr) \<longleftrightarrow>
     (\<exists>gw x. (gw, x) \<in> set sm \<and> map_of keys gw = Some key \<and> flt x thr)"
  by (force simp: keys_for_reset_def List.map_filter_def)

lemma reset_step_simp:
  "reset_step fb iv (zc, acc) i =
     (let z = fle (fmul (f64_of_int zc) iv) (fsub fb (f64_of_int i))
      in (zc + int (length (filter Not [\<not> z])), acc @ [outcome_text (\<not> z)]))"
  by (simp add: reset_step_def outcome_text_def)

lemma reset_step_fold:
  "\<exists>bs. foldl (reset_step fb iv) (zc, acc) is = (zc + int (length (filter Not bs)), acc @ List.map outcome_text bs)
     \<and> length bs = length is"
proof (induction "is" arbitrary: zc acc)
  case (Cons i "is")
  let ?z = "fle (fmul (f64_of_int zc) iv) (fsub fb (f64_of_int i))"
  from Cons [of "zc + int (length (filter Not [\<not> ?z]))" "acc @ [outcome_text (\<not> ?z)]"] obtain bs where
    "foldl (reset_step fb iv) (zc + int (length (filter Not [\<not> ?z])), acc @ [outcome_text (\<not> ?z)]) is =
      (zc + int (length (filter Not [\<not> ?z])) + int (length (filter Not bs)),
       (acc @ [outcome_text (\<not> ?z)]) @ List.map outcome_text bs)" "length bs = length is" by blast
  then show ?case
    by (intro exI [of _ "(\<not> ?z) # bs"], cases ?z) (simp_all add: reset_step_simp)
qed simp

lemma reset_score_list_outcomes:
  "\<exists>bs. rev (reset_score_list b z) = List.map outcome_text bs \<and> length bs = nat b"
proof -
  let ?f = "reset_step (f64_of_int b) (fdiv (fsub (f64_of_int b) (Fin 1)) (fsub (f64_of_int z) (Fin 1)))"
  obtain bs where "foldl ?f (0, []) (rev [1..b]) = (int (length (filter Not bs)), List.map outcome_text bs)"
    "length bs = length (rev [1..b])"
    using reset_step_fold [of _ _ 0 "[]" "rev [1..b]"] by fastforce
  then show ?thesis by (intro exI [of _ bs]) (simp add: reset_score_list_def)
qed

text \<open>
  C10. A reset keeps the gateways of the score map and the score of the best of them, and the only
  keys it writes are the window and the score of gateways that are strictly worse than the best.
\<close>

theorem reset_spares_the_best:
  assumes R: "redis_documented R"
    and r: "reset_sr_v3_score R sm b keys u l s = Some (sm', changed, s')"
    and best: "get_max_score_gateway sm = Some (g, Fin m)"
    and rep: "f64_of_rat m = Fin m" and u: "fle (Fin 0) u" and b: "1 \<le> b"
  shows "List.map fst sm' = List.map fst sm \<and> (g, Fin m) \<in> set sm' \<and>
    {k. r_view R s' k \<noteq> r_view R s k} \<subseteq>
      {k. \<exists>gw x key. (gw, x) \<in> set sm \<and> map_of keys gw = Some key \<and> flt x (Fin m) \<and>
         k \<in> {key @ ''_}queue'', key @ ''_}score''}}"
proof -
  let ?thr = "score_reset_threshold (Fin m) b u"
  from r best obtain z where z: "number_of_zeros (Fin m) b l = Some z"
    and sm': "sm' = List.map (\<lambda>(gw, score). (gw, if flt score ?thr
        then fdiv (f64_of_int (b - z)) (f64_of_int b) else score)) sm"
    and s': "s' = fold (reset_gateway_for_sr_v3 R (b - z) (reset_score_list b z))
        (keys_for_reset sm keys ?thr) s"
    by (auto simp: reset_sr_v3_score_def Let_def split: option.splits)
  have ne: "reset_score_list b z \<noteq> []"
    using reset_score_list_outcomes [of b z] b by auto
  have below: "flt x ?thr \<Longrightarrow> flt x (Fin m)" for x using best_not_below_threshold [OF rep u] .
  have "(g, Fin m) \<in> set sm" by (rule max_by_mem [OF best [unfolded get_max_score_gateway_def]])
  then have "(g, Fin m) \<in> set sm'" using below [of "Fin m"] by (force simp: sm')
  moreover have "List.map fst sm' = List.map fst sm" by (auto simp: sm')
  moreover have "\<exists>gw x key. (gw, x) \<in> set sm \<and> map_of keys gw = Some key \<and> flt x (Fin m) \<and>
      k \<in> {key @ ''_}queue'', key @ ''_}score''}" if k: "r_view R s' k \<noteq> r_view R s k" for k
  proof -
    from k reset_all_view [OF R ne, of k "keys_for_reset sm keys ?thr"] obtain key where
      "key \<in> set (keys_for_reset sm keys ?thr)" "k \<in> {key @ ''_}queue'', key @ ''_}score''}"
      unfolding s' by blast
    then show ?thesis using below unfolding keys_for_reset_mem by blast
  qed
  ultimately show ?thesis by blast
qed

lemma number_of_zeros_Some: "number_of_zeros m b l = Some z \<Longrightarrow> 2 \<le> z \<and> z \<le> b"
  by (auto simp: number_of_zeros_def clamp_i32_def split: if_splits)

lemma number_of_zeros_None_iff: "number_of_zeros m b l = None \<longleftrightarrow> b < 2"
  by (simp add: number_of_zeros_def clamp_i32_def)

lemma reset_spares_the_best_witness:
  "\<exists>sm' changed s'. reset_sr_v3_score mem_redis [(''a'', Fin 1), (''b'', Fin 0)] 125
      [(''a'', ''ka''), (''b'', ''kb'')] (Fin 3) (Fin 3) Map.empty = Some (sm', changed, s') \<and>
    (''a'', Fin 1) \<in> set sm'"
proof -
  let ?sm = "[(''a'', Fin 1), (''b'', Fin 0)]" and ?ks = "[(''a'', ''ka''), (''b'', ''kb'')]"
  have best: "get_max_score_gateway ?sm = Some (''a'', Fin 1)"
    by (simp add: get_max_score_gateway_def fcmp_def)
  obtain z where "number_of_zeros (Fin 1) 125 (Fin 3) = Some z"
    using number_of_zeros_None_iff [of "Fin 1" 125 "Fin 3"] by fastforce
  with best obtain sm' changed s' where
    r: "reset_sr_v3_score mem_redis ?sm 125 ?ks (Fin 3) (Fin 3) Map.empty = Some (sm', changed, s')"
    by (simp add: reset_sr_v3_score_def Let_def)
  have "(''a'', Fin 1) \<in> set sm'"
    using reset_spares_the_best [OF mem_redis_documented r best] by simp
  with r show ?thesis by blast
qed

section \<open>The window of a reset can be one failure short\<close>

lemma score_after_reset:
  assumes R: "redis_documented R" and b: "1 \<le> b" "b < 2 ^ 31"
    and bs: "rev (reset_score_list b z) = List.map outcome_text bs" "length bs = nat b"
  shows "get_score_from_redis R b key
    (reset_gateway_for_sr_v3 R v (reset_score_list b z) key s) = window_score bs"
proof -
  have ne: "reset_score_list b z \<noteq> []" "bs \<noteq> []" using bs b by auto
  have len: "length bs \<le> 2 ^ 53" using bs(2) b(2) by simp
  have "r_lrange R (reset_gateway_for_sr_v3 R v (reset_score_list b z) key s)
      (key @ ''_}queue'') 0 (b - 1) = Some (List.map outcome_text bs)"
    using bs b by (simp add: documented_lrange [OF R] reset_gateway_view [OF R ne(1)] list_slice_prefix)
  with ne(2) b window_score_value [OF ne(2) len] show ?thesis
    by (simp add: get_score_from_redis_def map_filter_outcomes)
qed

text \<open>The counter of zeros never passes a count whose next position lies beyond the window.\<close>

lemma reset_step_cap:
  assumes "\<And>i. i \<in> set is \<Longrightarrow> \<not> fle (fmul (f64_of_int c) iv) (fsub fb (f64_of_int i))" "zc \<le> c"
  shows "fst (foldl (reset_step fb iv) (zc, acc) is) \<le> c"
  using assms
proof (induction "is" arbitrary: zc acc)
  case (Cons i "is")
  show ?case
  proof (cases "fle (fmul (f64_of_int zc) iv) (fsub fb (f64_of_int i))")
    case True
    with Cons.prems(1) [of i] have "zc \<noteq> c" by auto
    with True Cons show ?thesis by (simp add: reset_step_simp)
  next
    case False
    with Cons show ?thesis by (simp add: reset_step_simp)
  qed
qed simp

lemma interval_125_16: "fdiv (Fin 124) (Fin 15) = Fin (4653719614949513 / 2 ^ 49)"
  using rnd_near [of "- 49" "124 / 15" 4653719614949513]
  by (simp add: fdiv_def f64_of_rat_def two_powi_def abs_if)

lemma last_zero_125_16: "fmul (Fin 15) (Fin (4653719614949513 / 2 ^ 49)) = Fin (124 + 1 / 2 ^ 46)"
  using rnd_near [of "- 46" "15 * 4653719614949513 / 2 ^ 49" "124 * 2 ^ 46 + 1"]
  by (simp add: fmul_def f64_of_rat_def two_powi_def abs_if)

lemma zeros_125_16:
  "\<exists>bs. rev (reset_score_list 125 16) = List.map outcome_text bs \<and> length bs = 125 \<and>
     length (filter Not bs) \<le> 15"
proof -
  have f: "f64_of_int i = Fin (of_int i)" if "0 \<le> i" "i \<le> 125" for i
    using that f64_of_i32 [of i] by simp
  have d: "fsub (Fin 125) (Fin (of_int i)) = Fin (125 - of_int i)" if "1 \<le> i" "i \<le> 125" for i
  proof -
    have "fsub (Fin 125) (Fin (of_int i)) = f64_of_rat (of_nat (nat (125 - i)))"
      using that by (simp add: fsub_def)
    also have "\<dots> = Fin (of_nat (nat (125 - i)))" using that by (intro f64_of_nat) simp
    finally show ?thesis using that by simp
  qed
  have sixteen: "fsub (Fin 16) (Fin 1) = Fin 15"
    using f64_of_nat [of 15] by (simp add: fsub_def)
  let ?iv = "Fin (4653719614949513 / 2 ^ 49)"
  have "reset_score_list 125 16 =
      rev (snd (foldl (reset_step (Fin 125) ?iv) (0, []) (rev [1..125])))"
    using interval_125_16 d [of 1] by (simp add: reset_score_list_def Let_def f sixteen)
  moreover obtain bs where bs: "foldl (reset_step (Fin 125) ?iv) (0, []) (rev [1..125]) =
      (0 + int (length (filter Not bs)), [] @ List.map outcome_text bs)" "length bs = length (rev [1..125])"
    using reset_step_fold by blast
  moreover have "fst (foldl (reset_step (Fin 125) ?iv) (0, []) (rev [1..125])) \<le> 15"
  proof (rule reset_step_cap)
    fix i :: int
    assume "i \<in> set (rev [1..125])"
    then have i: "1 \<le> i" "i \<le> 125" by auto
    then have "(1 :: rat) \<le> of_int i" by simp
    with f [of 15] d [OF i] last_zero_125_16 i
    show "\<not> fle (fmul (f64_of_int 15) ?iv) (fsub (Fin 125) (f64_of_int i))"
      by (simp add: f)
  qed simp
  ultimately show ?thesis by (intro exI [of _ bs]) simp
qed

text \<open>
  With the default bucket size and sixteen failures to spread (the number a best score of 119
  out of 125 leads to), rounding loses the last one: the score recorded for a reset gateway is 109
  successes out of 125, the window written beside it holds at least 110, and the next read scores
  the window.
\<close>

theorem reset_window_one_failure_short:
  assumes "redis_documented R"
  shows "\<exists>bs. get_score_from_redis R 125 key
      (reset_gateway_for_sr_v3 R (125 - 16) (reset_score_list 125 16) key s) = window_score bs \<and>
    length bs = 125 \<and> 110 \<le> length (filter (\<lambda>b. b) bs) \<and>
    r_view R (reset_gateway_for_sr_v3 R (125 - 16) (reset_score_list 125 16) key s)
      (key @ ''_}score'') = Some (RStr (show_int 109))"
proof -
  obtain bs where bs: "rev (reset_score_list 125 16) = List.map outcome_text bs" "length bs = 125"
    "length (filter Not bs) \<le> 15" using zeros_125_16 by blast
  then have "110 \<le> length (filter (\<lambda>b. b) bs)"
    using sum_length_filter_compl [of "\<lambda>b. b" bs] by simp
  moreover have "reset_score_list 125 16 \<noteq> []" using bs by auto
  ultimately show ?thesis
    using score_after_reset [OF assms, of 125 16 bs] bs
    by (intro exI [of _ bs]) (simp add: reset_gateway_view [OF assms])
qed

lemma reset_window_one_failure_short_witness:
  "\<exists>bs. get_score_from_redis mem_redis 125 ''k''
      (reset_gateway_for_sr_v3 mem_redis (125 - 16) (reset_score_list 125 16) ''k'' Map.empty) =
      window_score bs \<and> 110 \<le> length (filter (\<lambda>b. b) bs)"
  using reset_window_one_failure_short [OF mem_redis_documented] by blast

section \<open>Panics\<close>

lemma map_gateways_panics:
  "gw \<in> set gws \<Longrightarrow> f gw = None \<Longrightarrow> map_gateways f gws m = None"
  by (induction gws arbitrary: m) (auto split: option.splits)

text \<open>
  \<open>rand_distr\<close> documents that a beta distribution needs two positive shapes, the constructor fails
  otherwise.
\<close>

definition beta_documented :: "(f64 \<Rightarrow> f64 \<Rightarrow> f64 option) \<Rightarrow> bool" where
  "beta_documented draw \<longleftrightarrow>
     (\<forall>a b. (draw a b = None) = (\<not> flt (Fin 0) a \<or> \<not> flt (Fin 0) b))"

text \<open>
  Scoring panics in two configurations it accepts: with resets enabled and a bucket of one
  outcome, for any gateways; and with the beta distribution enabled and a gateway whose score is 1,
  the score of every gateway without outcomes.
\<close>

theorem srv3_scoring_panics:
  assumes "\<And>gw. beta_documented (draw_beta gw)"
    and "(fl_reset flags \<and> input_bucket_size i = 1) \<or>
      (\<not> fl_reset flags \<and> \<not> fl_extra_score flags \<and> \<not> fl_binomial flags \<and> fl_beta flags \<and>
       gw \<in> set (in_gateways i) \<and> input_bucket_size i < 2 ^ 31 \<and>
       map_of (fst (cached_scores R acc (input_bucket_size i) (in_redis_keys i) (in_gateways i) s
         ([], cache))) gw = Some (Fin 1))"
  shows "get_cached_scores_based_on_srv3 R acc draw_binomial draw_beta flags i s cache = None"
  using assms(2)
proof
  assume "fl_reset flags \<and> input_bucket_size i = 1"
  then show ?thesis
    using number_of_zeros_None_iff [of _ 1]
    by (simp add: get_cached_scores_based_on_srv3_def reset_sr_v3_score_def Let_def split: prod.splits)
next
  let ?b = "input_bucket_size i"
  obtain m c where mc: "cached_scores R acc ?b (in_redis_keys i) (in_gateways i) s ([], cache) = (m, c)"
    by fastforce
  assume a: "\<not> fl_reset flags \<and> \<not> fl_extra_score flags \<and> \<not> fl_binomial flags \<and> fl_beta flags \<and>
       gw \<in> set (in_gateways i) \<and> ?b < 2 ^ 31 \<and>
       map_of (fst (cached_scores R acc ?b (in_redis_keys i) (in_gateways i) s ([], cache))) gw =
         Some (Fin 1)"
  have "1 \<le> ?b"
    by (simp add: input_bucket_size_def merchant_bucket_size_pos)
  then have f: "f64_of_int ?b = Fin (of_int ?b)" using a f64_of_i32 by simp
  then have r: "f64_of_rat (of_int ?b) = Fin (of_int ?b)" by (simp add: f64_of_int_def)
  have "sample_from_beta_distribution (draw_beta gw) m ?b gw = draw_beta gw (Fin (of_int ?b)) (Fin 0)"
    using a mc by (simp add: sample_from_beta_distribution_def f fmul_def r fsub_def)
  also have "\<dots> = None" using assms(1) [of gw] by (simp add: beta_documented_def)
  finally have "map_gateways (\<lambda>gw. sample_from_beta_distribution (draw_beta gw) m ?b gw)
      (in_gateways i) [] = None"
    using a by (intro map_gateways_panics) auto
  with a mc show ?thesis by (simp add: get_cached_scores_based_on_srv3_def Let_def)
qed

definition demo_beta :: "f64 \<Rightarrow> f64 \<Rightarrow> f64 option" where
  "demo_beta a b = (if flt (Fin 0) a \<and> flt (Fin 0) b then Some (Fin (1 / 2)) else None)"

definition demo_input :: srv3_input where
  "demo_input = \<lparr>in_merchant_cfg = None, in_default_cfg = None, in_pmt = ''CARD'', in_pm = ''VISA'',
     in_dims = \<lparr>rd_card_network = None, rd_card_isin = None, rd_currency = None, rd_country = None,
       rd_auth_type = None\<rparr>,
     in_ab_use_autopilot = True, in_gateways = [''g''], in_redis_keys = [(''g'', ''k'')]\<rparr>"

definition demo_access :: cache_access where
  "demo_access = \<lparr>ca_get_locked = False, ca_get_now = 0, ca_store_locked = False, ca_scan_now = 0,
     ca_insert_now = 0\<rparr>"

lemma srv3_scoring_panics_witness:
  "get_cached_scores_based_on_srv3 mem_redis (\<lambda>_. demo_access) (\<lambda>_ _ _. None) (\<lambda>_. demo_beta)
     \<lparr>fl_reset = False, fl_extra_score = False, fl_binomial = False, fl_beta = True\<rparr>
     demo_input Map.empty (sc_new 75 100) = None"
proof -
  have b: "input_bucket_size demo_input = 125"
    by (simp add: input_bucket_size_def demo_input_def merchant_bucket_size_def
        get_sr_v3_bucket_size_def DEFAULT_SR_V3_BASED_BUCKET_SIZE_def)
  have "get_score_from_redis mem_redis 125 ''k'' Map.empty = Fin 1"
    by (rule score_without_outcomes [OF mem_redis_documented]) (simp_all add: mem_redis_def)
  then have "map_of (fst (cached_scores mem_redis (\<lambda>_. demo_access) (input_bucket_size demo_input)
      (in_redis_keys demo_input) (in_gateways demo_input) Map.empty ([], sc_new 75 100))) ''g'' =
      Some (Fin 1)"
    unfolding b by (simp add: demo_input_def get_cached_score_from_redis_def sc_get_def sc_new_def
        demo_access_def Let_def)
  then show ?thesis
    by (intro srv3_scoring_panics [where gw = "''g''"])
      (simp_all add: beta_documented_def demo_beta_def b, simp add: demo_input_def)
qed

section \<open>Every score is a probability\<close>

definition unit_score :: "f64 \<Rightarrow> bool" where
  "unit_score x \<longleftrightarrow> (case x of Fin r \<Rightarrow> 0 \<le> r \<and> r \<le> 1 | _ \<Rightarrow> False)"

lemma unit_scoreE: "unit_score x \<Longrightarrow> (\<And>r. x = Fin r \<Longrightarrow> 0 \<le> r \<Longrightarrow> r \<le> 1 \<Longrightarrow> P) \<Longrightarrow> P"
  by (cases x) (auto simp: unit_score_def)

lemma unit_score_clamp: "x \<noteq> NaN \<Longrightarrow> unit_score (fclamp x (Fin 0) (Fin 1))"
  using fclamp_unit [of x] by (auto simp: unit_score_def)

lemma unit_score_ratio:
  assumes "0 \<le> k" "k \<le> n" "0 < n" "n < 2 ^ 31"
  shows "unit_score (fdiv (f64_of_int k) (f64_of_int n))"
proof -
  have "(of_int k :: rat) / of_int n \<le> 1" "0 \<le> (of_int k :: rat) / of_int n" using assms by simp_all
  then show ?thesis
    using assms f64_of_i32 [of k] f64_of_i32 [of n] f64_of_rat_unit [of "of_int k / of_int n"]
    by (auto simp: fdiv_def unit_score_def)
qed

definition outcome_windows :: "'s redis \<Rightarrow> 's \<Rightarrow> bool" where
  "outcome_windows R s \<longleftrightarrow>
     (\<forall>key l. r_view R s (key @ ''_}queue'') = Some (RList l) \<longrightarrow>
        (\<exists>bs. l = List.map outcome_text bs))"

lemma unit_window_score: "unit_score (window_score bs)"
proof (cases "bs = []")
  case False
  then have "(of_nat (length (filter (\<lambda>b. b) bs)) :: rat) / of_nat (length bs) \<le> 1" by simp
  with False f64_of_rat_unit [of "of_nat (length (filter (\<lambda>b. b) bs)) / of_nat (length bs)"]
  show ?thesis by (auto simp: window_score_def unit_score_def)
qed (simp add: window_score_def unit_score_def)

lemma fdiv_not_nan: "fdiv (f64_of_int a) (Fin b) \<noteq> NaN" if "0 < b"
  using that by (cases "f64_of_int a") (auto simp: fdiv_def f64_of_int_def inf_of_sign_def)

lemma unit_score_read:
  assumes R: "redis_documented R" and w: "outcome_windows R s" and b: "1 \<le> b" "b < 2 ^ 31"
  shows "unit_score (get_score_from_redis R b key s)"
proof -
  have fallback: "unit_score (fclamp (fdiv (f64_of_int k) (f64_of_int b)) (Fin 0) (Fin 1))" for k
    using b f64_of_i32 [of b] by (intro unit_score_clamp) (simp add: fdiv_not_nan)
  show ?thesis
  proof (cases "r_view R s (key @ ''_}queue'')")
    case None
    with fallback b show ?thesis by (simp add: get_score_from_redis_def documented_lrange [OF R])
  next
    case (Some v)
    show ?thesis
    proof (cases v)
      case (RStr x)
      with Some fallback b show ?thesis
        by (simp add: get_score_from_redis_def documented_lrange [OF R])
    next
      case (RList l)
      with Some w obtain bs where l: "l = List.map outcome_text bs" by (auto simp: outcome_windows_def)
      let ?w = "take (nat b) bs"
      have "length ?w \<le> nat b" by simp
      also have "\<dots> \<le> 2 ^ 53" using b(2) by simp
      finally have len: "length ?w \<le> 2 ^ 53" .
      have "r_lrange R s (key @ ''_}queue'') 0 (b - 1) = Some (List.map outcome_text ?w)"
        using Some RList l b by (simp add: documented_lrange [OF R] list_slice_prefix take_map)
      with b fallback unit_window_score [of ?w] window_score_value [OF _ len] show ?thesis
        by (cases "?w = []")
          (simp_all add: get_score_from_redis_def map_filter_outcomes del: take_eq_Nil)
    qed
  qed
qed

definition unit_map :: "f64 hmap \<Rightarrow> bool" where
  "unit_map m \<longleftrightarrow> list_all (\<lambda>(_, x). unit_score x) m"

lemma unit_map_Nil [simp]: "unit_map []"
  by (simp add: unit_map_def)

lemma unit_map_insert: "unit_map m \<Longrightarrow> unit_score x \<Longrightarrow> unit_map (hm_insert k x m)"
  unfolding unit_map_def hm_insert_def by (induction m) auto

lemma unit_map_lookup: "unit_map m \<Longrightarrow> unit_score (unwrap_or (map_of m gw) (Fin 1))"
  by (cases "map_of m gw")
    (auto simp: unit_map_def list_all_iff unit_score_def dest: map_of_SomeD)

lemma map_gateways_unit:
  assumes "map_gateways f gws m = Some m'" "unit_map m" "\<And>gw x. f gw = Some x \<Longrightarrow> unit_score x"
  shows "unit_map m'"
  using assms by (induction gws arbitrary: m) (auto split: option.splits intro: unit_map_insert)

definition unit_cache :: "sr_score_cache \<Rightarrow> bool" where
  "unit_cache c \<longleftrightarrow> list_all (\<lambda>(_, x, _). unit_score x) (sc_data c)"

lemma unit_cache_get: "unit_cache c \<Longrightarrow> sc_get c l now key = Some x \<Longrightarrow> unit_score x"
  by (auto simp: unit_cache_def sc_get_def list_all_iff split: if_splits option.splits
      dest!: map_of_SomeD)

lemma set_make_room: "set (make_room n ttl now data) \<subseteq> set data"
  by (auto simp: make_room_def hm_remove_def AList.delete_eq split: option.splits)

lemma unit_cache_store: "unit_cache c \<Longrightarrow> unit_score x \<Longrightarrow> unit_cache (sc_store c l t1 t2 key x)"
  unfolding unit_cache_def sc_store_def list_all_iff
  using set_make_room set_hm_insert by (fastforce split: if_splits)

lemma cached_scores_unit:
  assumes R: "redis_documented R" "outcome_windows R s" "1 \<le> b" "b < 2 ^ 31"
  shows "unit_map (fst mc) \<Longrightarrow> unit_cache (snd mc) \<Longrightarrow>
    unit_map (fst (cached_scores R acc b keys gws s mc)) \<and>
    unit_cache (snd (cached_scores R acc b keys gws s mc))"
proof (induction gws arbitrary: mc)
  case (Cons gw gws)
  obtain m cache where mc: "mc = (m, cache)" by fastforce
  show ?case
  proof (cases "map_of keys gw")
    case None
    with Cons mc show ?thesis by simp
  next
    case (Some key)
    obtain x c' where x: "get_cached_score_from_redis R (acc gw) b key s cache = (x, c')" by fastforce
    have "unit_score x \<and> unit_cache c'"
      using x Cons.prems unit_score_read [OF R, of key] mc
      by (auto simp: get_cached_score_from_redis_def Let_def unit_cache_get unit_cache_store
          split: option.splits)
    with Cons mc Some x show ?thesis by (simp add: unit_map_insert)
  qed
qed simp

lemma unit_map_reset:
  assumes "reset_sr_v3_score R sm b keys u l s = Some (sm', changed, s')" "unit_map sm"
    "1 \<le> b" "b < 2 ^ 31"
  shows "unit_map sm'"
proof -
  let ?m = "unwrap_or (map_option snd (get_max_score_gateway sm)) (Fin 1)"
  from assms(1) obtain z where "number_of_zeros ?m b l = Some z"
    "sm' = List.map (\<lambda>(gw, score). (gw, if flt score (score_reset_threshold ?m b u)
        then fdiv (f64_of_int (b - z)) (f64_of_int b) else score)) sm"
    by (auto simp: reset_sr_v3_score_def Let_def split: option.splits)
  moreover from this number_of_zeros_Some [of ?m b l z]
  have "unit_score (fdiv (f64_of_int (b - z)) (f64_of_int b))"
    using assms(3,4) by (intro unit_score_ratio) auto
  ultimately show ?thesis using assms(2) by (auto simp: unit_map_def list_all_iff)
qed

lemma fsqrt_unit: "0 \<le> x \<Longrightarrow> x \<le> 1 \<Longrightarrow> \<exists>r. fsqrt (Fin x) = Fin r"
proof -
  assume x: "0 \<le> x" "x \<le> 1"
  define k where "k = nat (60 - floor_log2 x div 2)"
  define y where "y = x * of_int (4 ^ k)"
  define r where "r = isqrt \<lfloor>y\<rfloor>"
  have y: "0 \<le> y" "y \<le> of_int (4 ^ k)" using x by (simp_all add: y_def mult_left_le_one_le)
  then have fl: "0 \<le> \<lfloor>y\<rfloor>" "\<lfloor>y\<rfloor> \<le> 4 ^ k" by (simp_all add: floor_le_iff)
  have "r * r \<le> 4 ^ k" "0 \<le> r" using isqrt_bounds [OF fl(1)] fl(2) unfolding r_def by linarith+
  moreover have "(4 :: int) ^ k = 2 ^ k * 2 ^ k" by (simp add: power_mult_distrib [symmetric])
  ultimately have rr: "r * r \<le> 2 ^ k * 2 ^ k" by simp
  have "r \<le> 2 ^ k"
  proof (rule ccontr)
    assume "\<not> r \<le> 2 ^ k"
    then have "(2 :: int) ^ k * 2 ^ k < r * r" by (intro mult_strict_mono') simp_all
    with rr show False by linarith
  qed
  define c :: int where "c = (if of_int (r * r) = y then 0 else 1)"
  have "(1 :: int) \<le> 2 ^ k" "c \<le> 1" by (simp_all add: c_def)
  with \<open>r \<le> 2 ^ k\<close> have "2 * r + c \<le> 2 * (2 * 2 ^ k)" by linarith
  then have "(of_int (2 * r + c) :: rat) \<le> of_int (2 * (2 * 2 ^ k))" by (simp only: of_int_le_iff)
  moreover have "sqrt_scaled x = of_int (2 * r + c) / of_int (2 * 2 ^ k)"
    by (simp only: sqrt_scaled_def Let_def k_def y_def r_def c_def)
  moreover have "(0 :: rat) < of_int (2 * 2 ^ k)" by simp
  ultimately have "sqrt_scaled x \<le> 2" by (simp add: pos_divide_le_eq)
  then have "fle (f64_of_rat (sqrt_scaled x)) (f64_of_rat 2)" by (rule f64_of_rat_mono)
  moreover have "f64_of_rat 2 = Fin 2" using f64_of_nat [of 2] by simp
  moreover have "fle (Fin 0) (f64_of_rat (sqrt_scaled x))"
    by (rule f64_of_rat_nonneg) (use x in \<open>simp add: sqrt_scaled_nonneg\<close>)
  ultimately show ?thesis using x
    by (cases "f64_of_rat (sqrt_scaled x)") (auto simp: fle_def)
qed

lemma extra_score_unit:
  assumes "unit_score x" "1 \<le> b" "b < 2 ^ 31" "is_finite f"
  shows "unit_score (fclamp (fadd x (fmul (fsqrt (fdiv (fmul x (fsub (Fin 1) x)) (f64_of_int b))) f))
    (Fin 0) (Fin 1))"
proof -
  from assms(1) obtain r where r: "x = Fin r" "0 \<le> r" "r \<le> 1" by (rule unit_scoreE)
  obtain p where p: "fsub (Fin 1) x = Fin p" "0 \<le> p" "p \<le> 1"
    using r f64_of_rat_unit [of "1 - r"] by (auto simp: fsub_def)
  obtain q where q: "fmul x (fsub (Fin 1) x) = Fin q" "0 \<le> q" "q \<le> 1"
    using r p f64_of_rat_unit [of "r * p"] by (auto simp: fmul_def mult_le_one)
  have "q / of_int b \<le> 1" "0 \<le> q / of_int b" using q assms(2) by (simp_all add: divide_le_eq)
  then obtain v where v: "fdiv (Fin q) (f64_of_int b) = Fin v" "0 \<le> v" "v \<le> 1"
    using assms(2,3) f64_of_i32 [of b] f64_of_rat_unit [of "q / of_int b"] by (auto simp: fdiv_def)
  obtain sg where sg: "fsqrt (Fin v) = Fin sg" using fsqrt_unit v by blast
  obtain fr where "f = Fin fr" using assms(4) by (cases f) auto
  then have "fmul (Fin sg) f \<noteq> NaN" by (simp add: fmul_def)
  then have "fadd x (fmul (Fin sg) f) \<noteq> NaN" by (cases "fmul (Fin sg) f") (auto simp: r)
  then show ?thesis using q v sg by (intro unit_score_clamp) simp
qed

text \<open>
  C11. Every score the routing works with is a number in the unit interval, whatever combination of
  reset, extra score and distribution is enabled: given windows of outcomes in the store, cached
  scores in the interval, finite configured factors and draws in their range.
\<close>

theorem srv3_scores_in_unit:
  assumes "get_cached_scores_based_on_srv3 R acc draw_binomial draw_beta flags i s cache =
      Some (m, approach, s', cache')"
    and "redis_documented R" "outcome_windows R s" "unit_cache cache" "input_bucket_size i < 2 ^ 31"
    and "\<And>gw. is_finite (gateway_sigma_factor (in_merchant_cfg i) (in_default_cfg i) (in_pmt i)
      (in_pm i) gw (in_dims i))"
    and "\<And>gw n x k. draw_binomial gw n x = Some k \<Longrightarrow> k \<le> n"
    and "\<And>gw a b x. draw_beta gw a b = Some x \<Longrightarrow> unit_score x"
  shows "unit_map m \<and> unit_cache cache'"
proof -
  let ?b = "input_bucket_size i"
  have b: "1 \<le> ?b" by (simp add: input_bucket_size_def merchant_bucket_size_pos)
  obtain sm c where sm: "cached_scores R acc ?b (in_redis_keys i) (in_gateways i) s ([], cache) = (sm, c)"
    by fastforce
  with cached_scores_unit [OF assms(2,3) b assms(5), of "([], cache)"] assms(4)
  have u: "unit_map sm" "unit_cache c" by (metis fst_conv snd_conv unit_map_Nil)+
  from assms(1) sm obtain m1 ch s1 m2 where
    m1: "(if fl_reset flags then reset_sr_v3_score R sm ?b (in_redis_keys i)
           (upper_reset_factor_of i) (lower_reset_factor_of i) s else Some (sm, False, s)) = Some (m1, ch, s1)"
    and m2: "(if fl_extra_score flags then map_gateways (\<lambda>gw. Some (add_extra_score m1 ?b
           (in_merchant_cfg i) (in_default_cfg i) (in_pmt i) (in_pm i) gw (in_dims i))) (in_gateways i) []
         else Some m1) = Some m2"
    and m: "(if fl_binomial flags then map_gateways
           (\<lambda>gw. sample_from_binomial_distribution (draw_binomial gw) m2 ?b gw) (in_gateways i) []
         else if fl_beta flags then map_gateways
           (\<lambda>gw. sample_from_beta_distribution (draw_beta gw) m2 ?b gw) (in_gateways i) []
         else Some m2) = Some m" and c: "cache' = c"
    by (auto simp: get_cached_scores_based_on_srv3_def Let_def split: option.splits)
  have "unit_map m1"
    using m1 u(1) unit_map_reset [OF _ u(1) b assms(5)] by (auto split: if_splits)
  moreover have "unit_score (add_extra_score m1 ?b (in_merchant_cfg i) (in_default_cfg i) (in_pmt i)
      (in_pm i) gw (in_dims i))" if "unit_map m1" for gw
    using extra_score_unit [OF unit_map_lookup [OF that] b assms(5,6)]
    by (simp add: add_extra_score_def Let_def)
  ultimately have "unit_map m2"
    using m2 by (auto split: if_splits intro: map_gateways_unit)
  moreover have "unit_score x" if "sample_from_binomial_distribution (draw_binomial gw) m2 ?b gw = Some x"
    for gw x
  proof -
    from that obtain k where k: "draw_binomial gw (nat (?b mod 2 ^ 64))
        (unwrap_or (map_of m2 gw) (Fin 1)) = Some k" "x = fdiv (f64_of_int (int k)) (f64_of_int ?b)"
      by (auto simp: sample_from_binomial_distribution_def Let_def)
    have "?b mod 2 ^ 64 = ?b" using b assms(5) by (intro mod_pos_pos_trivial) auto
    with assms(7) [OF k(1)] have "int k \<le> ?b" using b by simp
    with k(2) b assms(5) show ?thesis by (auto intro: unit_score_ratio)
  qed
  moreover have "unit_score x" if "sample_from_beta_distribution (draw_beta gw) m2 ?b gw = Some x" for gw x
    using that assms(8) by (auto simp: sample_from_beta_distribution_def Let_def)
  ultimately have "unit_map m"
    using m map_gateways_unit [where m' = m and m = "[]"] by (auto split: if_splits)
  with u(2) c show ?thesis by simp
qed

lemma srv3_scores_in_unit_witness:
  "\<exists>m approach s' cache'. get_cached_scores_based_on_srv3 mem_redis (\<lambda>_. demo_access)
     (\<lambda>_ n _. Some n) (\<lambda>_. demo_beta)
     \<lparr>fl_reset = True, fl_extra_score = True, fl_binomial = True, fl_beta = True\<rparr>
     demo_input Map.empty (sc_new 75 100) = Some (m, approach, s', cache') \<and> unit_map m"
proof -
  let ?fl = "\<lparr>fl_reset = True, fl_extra_score = True, fl_binomial = True, fl_beta = True\<rparr>"
  have b: "input_bucket_size demo_input = 125"
    by (simp add: input_bucket_size_def demo_input_def merchant_bucket_size_def
        get_sr_v3_bucket_size_def DEFAULT_SR_V3_BASED_BUCKET_SIZE_def)
  obtain sm c where sm: "cached_scores mem_redis (\<lambda>_. demo_access) 125 (in_redis_keys demo_input)
      (in_gateways demo_input) Map.empty ([], sc_new 75 100) = (sm, c)" by fastforce
  obtain z where z: "number_of_zeros (unwrap_or (map_option snd (get_max_score_gateway sm)) (Fin 1)) 125
      (lower_reset_factor_of demo_input) = Some z"
    using number_of_zeros_None_iff [of _ 125] by fastforce
  have g: "in_gateways demo_input = [''g'']" by (simp add: demo_input_def)
  obtain m approach s' cache' where r: "get_cached_scores_based_on_srv3 mem_redis (\<lambda>_. demo_access)
     (\<lambda>_ n _. Some n) (\<lambda>_. demo_beta) ?fl demo_input Map.empty (sc_new 75 100) =
     Some (m, approach, s', cache')"
    by (simp add: get_cached_scores_based_on_srv3_def b sm [unfolded g] reset_sr_v3_score_def Let_def z g
        sample_from_binomial_distribution_def del: cached_scores.simps)
  have "outcome_windows mem_redis Map.empty" by (simp add: outcome_windows_def mem_redis_def)
  moreover have "unit_cache (sc_new 75 100)" by (simp add: unit_cache_def sc_new_def)
  moreover have "is_finite (gateway_sigma_factor (in_merchant_cfg demo_input) (in_default_cfg demo_input)
      (in_pmt demo_input) (in_pm demo_input) gw (in_dims demo_input))" for gw
    by (simp add: demo_input_def gateway_sigma_factor_def get_sr_v3_gateway_sigma_factor_def
        DEFAULT_SR_V3_BASED_GATEWAY_SIGMA_FACTOR_def)
  moreover have "demo_beta a b = Some x \<Longrightarrow> unit_score x" for a b x
    by (auto simp: demo_beta_def unit_score_def split: if_splits)
  ultimately have "unit_map m"
    using srv3_scores_in_unit [OF r mem_redis_documented] b by simp
  with r show ?thesis by blast
qed

end
