(* ===== verification/Sr_Calibration.thy ===== *)
theory Sr_Calibration
  imports Sr_Config Feature
begin

text \<open>
  The periodic job that tunes the bucket size and the hedging percentage of every cluster of a
  merchant's traffic, from \<open>src/src/sr_auto_calibration.rs\<close>: the formulas, the matching of a
  cluster with a sub-level entry of the stored configuration and one calibration of a merchant. The
  configuration is edited as JSON, as in the code; the query of the analytics store, the feature
  flags and the database around it are parameters. A panic is \<open>None\<close>. The locale \<open>tuner\<close> is the
  contract under which a second run changes nothing.
\<close>

section \<open>Parameters and formulas\<close>

record sr_auto_calibration_config =
  sc_min_bucket_size :: "int option"
  sc_max_bucket_size :: "int option"
  sc_max_hedging_percent :: "f64 option"
  sc_reaction_horizon_secs :: "nat option"
  sc_lookback_secs :: "nat option"
  sc_min_volume :: "int option"

record calibration_params =
  cp_min_bucket :: int
  cp_max_bucket :: int
  cp_max_hedging_pct :: f64
  cp_reaction_horizon_secs :: f64
  cp_lookback_secs :: f64
  cp_min_volume :: int

definition DEFAULT_LOOKBACK_SECS :: nat where "DEFAULT_LOOKBACK_SECS = 3600"
definition DEFAULT_MIN_VOLUME :: int where "DEFAULT_MIN_VOLUME = 100"
definition DEFAULT_MIN_BUCKET :: int where "DEFAULT_MIN_BUCKET = 100"
definition DEFAULT_MAX_BUCKET :: int where "DEFAULT_MAX_BUCKET = 2000"
definition DEFAULT_MAX_HEDGING_PCT :: f64 where "DEFAULT_MAX_HEDGING_PCT = Fin 30"
definition BUCKET_DEADBAND :: int where "BUCKET_DEADBAND = 25"
definition HEDGE_DEADBAND_PCT :: f64 where "HEDGE_DEADBAND_PCT = Fin 1"

definition from_config :: "sr_auto_calibration_config \<Rightarrow> calibration_params" where
  "from_config cfg =
     (let lookback = f64_of_int (int (unwrap_or (opt_filter (\<lambda>v. v > 0) (sc_lookback_secs cfg))
            DEFAULT_LOOKBACK_SECS)) in
      \<lparr>cp_min_bucket = unwrap_or (opt_filter (\<lambda>v. v > 0) (sc_min_bucket_size cfg)) DEFAULT_MIN_BUCKET,
       cp_max_bucket = unwrap_or (opt_filter (\<lambda>v. v > 0) (sc_max_bucket_size cfg)) DEFAULT_MAX_BUCKET,
       cp_max_hedging_pct =
         unwrap_or (opt_filter (\<lambda>v. flt (Fin 0) v) (sc_max_hedging_percent cfg)) DEFAULT_MAX_HEDGING_PCT,
       cp_reaction_horizon_secs =
         unwrap_or (map_option (\<lambda>v. f64_of_int (int v))
           (opt_filter (\<lambda>v. v > 0) (sc_reaction_horizon_secs cfg))) lookback,
       cp_lookback_secs = lookback,
       cp_min_volume = unwrap_or (opt_filter (\<lambda>v. v > 0) (sc_min_volume cfg)) DEFAULT_MIN_VOLUME\<rparr>)"

definition round25 :: "f64 \<Rightarrow> int" where
  "round25 x = f64_as_i32 (fmul (fround (fdiv x (Fin 25))) (Fin 25))"

text \<open>\<open>i32::clamp\<close> panics when its bounds are out of order.\<close>

definition auto_bucket :: "int \<Rightarrow> int \<Rightarrow> calibration_params \<Rightarrow> int option" where
  "auto_bucket volume gateways params =
     (if gateways < 2 \<or> volume \<le> 0 then Some (cp_min_bucket params)
      else
        (let denom = f64_of_int (gateways - 1);
             b = round25 (fmul (Fin 5) (fsqrt (fdiv (f64_of_int volume) denom))) in
         if cp_min_bucket params \<le> cp_max_bucket params
         then Some (max (cp_min_bucket params) (min (cp_max_bucket params) b))
         else None))"

definition auto_hedge_pct :: "int \<Rightarrow> int \<Rightarrow> int \<Rightarrow> calibration_params \<Rightarrow> f64" where
  "auto_hedge_pct bucket volume gateways params =
     (if gateways < 2 \<or> volume \<le> 0 then Fin 5
      else
        (let n_minus_1 = f64_of_int (gateways - 1);
             per_pg_cap = fdiv (fdiv (cp_max_hedging_pct params) (Fin 100)) n_minus_1;
             volume_in_horizon =
               fmul (f64_of_int volume) (fdiv (cp_reaction_horizon_secs params) (cp_lookback_secs params));
             refresh_share =
               (if flt (Fin 0) volume_in_horizon then fdiv (f64_of_int bucket) volume_in_horizon
                else per_pg_cap);
             per_pg = fmax (fmin refresh_share per_pg_cap) (f64_of_rat (1 / 100));
             total_pct = fmin (fmul (fmul per_pg n_minus_1) (Fin 100)) (cp_max_hedging_pct params)
         in fdiv (fround (fmul total_pct (Fin 100))) (Fin 100)))"

section \<open>Clusters and sub-level entries\<close>

record segment_traffic =
  st_payment_method_type :: string
  st_payment_method :: string
  st_card_network :: "string option"
  st_currency :: "string option"
  st_country :: "string option"
  st_auth_type :: "string option"
  st_volume :: int
  st_gateway_count :: int

definition json_get :: "string \<Rightarrow> json \<Rightarrow> json option" where
  "json_get k j = (case j of JObj obj \<Rightarrow> map_of obj k | _ \<Rightarrow> None)"

definition json_as_str :: "json \<Rightarrow> string option" where
  "json_as_str j = (case j of JStr s \<Rightarrow> Some s | _ \<Rightarrow> None)"

definition json_as_i64 :: "json \<Rightarrow> int option" where
  "json_as_i64 j = (case j of JInt i \<Rightarrow> if - (2 ^ 63) \<le> i \<and> i < 2 ^ 63 then Some i else None | _ \<Rightarrow> None)"

definition json_as_f64 :: "json \<Rightarrow> f64 option" where
  "json_as_f64 j = (case j of JInt i \<Rightarrow> Some (f64_of_int i) | JFloat f \<Rightarrow> Some f | _ \<Rightarrow> None)"

text \<open>\<open>v[k] = x\<close>: null becomes an object, anything else that is not one panics.\<close>

definition json_set :: "string \<Rightarrow> json \<Rightarrow> json \<Rightarrow> json option" where
  "json_set k x j =
     (case j of JObj obj \<Rightarrow> Some (JObj (hm_insert k x obj)) | JNull \<Rightarrow> Some (JObj [(k, x)]) | _ \<Rightarrow> None)"

definition dim_matches :: "json \<Rightarrow> string \<Rightarrow> string option \<Rightarrow> bool" where
  "dim_matches entry key expected =
     (case (opt_filter (\<lambda>s. s \<noteq> []) (Option.bind (json_get key entry) json_as_str), expected) of
        (Some s, Some e) \<Rightarrow> to_ascii_lowercase s = to_ascii_lowercase e
      | (None, None) \<Rightarrow> True
      | _ \<Rightarrow> False)"

definition segment_entry_matches :: "json \<Rightarrow> segment_traffic \<Rightarrow> bool" where
  "segment_entry_matches entry seg \<longleftrightarrow>
     dim_matches entry ''paymentMethodType'' (Some (st_payment_method_type seg)) \<and>
     dim_matches entry ''paymentMethod'' (Some (st_payment_method seg)) \<and>
     dim_matches entry ''cardNetwork'' (st_card_network seg) \<and>
     dim_matches entry ''cardIsIn'' None \<and>
     dim_matches entry ''currency'' (st_currency seg) \<and>
     dim_matches entry ''country'' (st_country seg) \<and>
     dim_matches entry ''authType'' (st_auth_type seg)"

definition opt_field :: "string \<Rightarrow> string option \<Rightarrow> (string \<times> json) list \<Rightarrow> (string \<times> json) list" where
  "opt_field k v obj = (case v of Some s \<Rightarrow> hm_insert k (JStr s) obj | None \<Rightarrow> obj)"

text \<open>\<open>json!\<close> of a float that is not finite is null.\<close>

definition json_of_f64 :: "f64 \<Rightarrow> json" where
  "json_of_f64 x = (if is_finite x then JFloat x else JNull)"

definition new_segment_entry :: "segment_traffic \<Rightarrow> int \<Rightarrow> f64 \<Rightarrow> json" where
  "new_segment_entry seg bucket hedge =
     JObj (opt_field ''authType'' (st_auth_type seg)
       (opt_field ''country'' (st_country seg)
       (opt_field ''currency'' (st_currency seg)
       (opt_field ''cardNetwork'' (st_card_network seg)
         [(''paymentMethodType'', JStr (st_payment_method_type seg)),
          (''paymentMethod'', JStr (st_payment_method seg)),
          (''bucketSize'', JInt bucket),
          (''hedgingPercent'', json_of_f64 hedge),
          (''source'', JStr AUTOPILOT_SOURCE)]))))"

section \<open>One calibration\<close>

record calibration_event =
  ev_segment :: segment_traffic
  ev_prev_bucket :: "int option"
  ev_new_bucket :: int
  ev_prev_hedge :: "f64 option"
  ev_new_hedge :: f64

definition as_i32 :: "int \<Rightarrow> int" where
  "as_i32 i = (i + 2 ^ 31) mod 2 ^ 32 - 2 ^ 31"

definition is_autopilot_entry :: "json \<Rightarrow> bool" where
  "is_autopilot_entry e \<longleftrightarrow> Option.bind (json_get ''source'' e) json_as_str = Some AUTOPILOT_SOURCE"

definition bucket_changed :: "int option \<Rightarrow> int \<Rightarrow> bool" where
  "bucket_changed cur new_bucket \<longleftrightarrow>
     (case cur of None \<Rightarrow> True | Some c \<Rightarrow> as_i32 \<bar>as_i32 (as_i32 c - new_bucket)\<bar> \<ge> BUCKET_DEADBAND)"

definition hedge_changed :: "f64 option \<Rightarrow> f64 \<Rightarrow> bool" where
  "hedge_changed cur new_hedge \<longleftrightarrow>
     (case cur of None \<Rightarrow> True | Some c \<Rightarrow> fle HEDGE_DEADBAND_PCT (fabs (fsub c new_hedge)))"

definition retune_entry :: "int \<Rightarrow> f64 \<Rightarrow> json \<Rightarrow> json option" where
  "retune_entry new_bucket new_hedge e =
     Option.bind (json_set ''bucketSize'' (JInt new_bucket) e) (\<lambda>e.
     Option.bind (json_set ''hedgingPercent'' (json_of_f64 new_hedge) e) (\<lambda>e.
     json_set ''source'' (JStr AUTOPILOT_SOURCE) e))"

fun position :: "('a \<Rightarrow> bool) \<Rightarrow> 'a list \<Rightarrow> nat option" where
  "position p [] = None"
| "position p (x # xs) = (if p x then Some 0 else map_option Suc (position p xs))"

definition calibrate_segment ::
  "calibration_params \<Rightarrow> segment_traffic \<Rightarrow> json list \<times> nat \<times> calibration_event list \<Rightarrow>
   (json list \<times> nat \<times> calibration_event list) option" where
  "calibrate_segment params seg st =
     (let (entries, changed, events) = st in
      Option.bind (auto_bucket (st_volume seg) (st_gateway_count seg) params) (\<lambda>new_bucket.
        (let new_hedge = auto_hedge_pct new_bucket (st_volume seg) (st_gateway_count seg) params;
             event = (\<lambda>prev_bucket prev_hedge.
               \<lparr>ev_segment = seg, ev_prev_bucket = prev_bucket, ev_new_bucket = new_bucket,
                ev_prev_hedge = prev_hedge, ev_new_hedge = new_hedge\<rparr>) in
         case position (\<lambda>e. segment_entry_matches e seg) entries of
           Some i \<Rightarrow>
             if \<not> is_autopilot_entry (entries ! i) then Some st
             else
               (let cur_bucket = Option.bind (json_get ''bucketSize'' (entries ! i)) json_as_i64;
                    cur_hedge = Option.bind (json_get ''hedgingPercent'' (entries ! i)) json_as_f64 in
                if bucket_changed cur_bucket new_bucket \<or> hedge_changed cur_hedge new_hedge
                then map_option
                  (\<lambda>e. (entries[i := e], Suc changed,
                        events @ [event (map_option as_i32 cur_bucket) cur_hedge]))
                  (retune_entry new_bucket new_hedge (entries ! i))
                else Some st)
         | None \<Rightarrow>
             Some (entries @ [new_segment_entry seg new_bucket new_hedge], Suc changed,
               events @ [event None None]))))"

fun calibrate_segments ::
  "calibration_params \<Rightarrow> segment_traffic list \<Rightarrow> json list \<times> nat \<times> calibration_event list \<Rightarrow>
   (json list \<times> nat \<times> calibration_event list) option" where
  "calibrate_segments params [] st = Some st"
| "calibrate_segments params (seg # segs) st =
     Option.bind (calibrate_segment params seg st) (calibrate_segments params segs)"

text \<open>
  The result of one calibration: an error, or the configuration to write (none when nothing
  changed) with the events emitted. \<open>cfg\<close> is the stored configuration, an empty object when there is
  none or it does not parse.
\<close>

definition sub_level_entries :: "json \<Rightarrow> json list" where
  "sub_level_entries cfg =
     (case json_get ''subLevelInputConfig'' cfg of Some (JArr es) \<Rightarrow> es | _ \<Rightarrow> [])"

definition qualifying :: "calibration_params \<Rightarrow> segment_traffic list \<Rightarrow> segment_traffic list" where
  "qualifying params segs = filter (\<lambda>s. st_volume s \<ge> cp_min_volume params \<and> st_gateway_count s \<ge> 2) segs"

definition calibrate_merchant ::
  "calibration_params \<Rightarrow> segment_traffic list \<Rightarrow> json \<Rightarrow>
   (string + json option \<times> calibration_event list) option" where
  "calibrate_merchant params segments cfg =
     (let segs = qualifying params segments in
      if segs = [] then Some (Inl ''no segment with enough volume / PSPs'')
      else
        Option.bind (calibrate_segments params segs (sub_level_entries cfg, 0, []))
          (\<lambda>(entries, changed, events).
             if changed = 0 then Some (Inr (None, events))
             else map_option (\<lambda>cfg. Inr (Some cfg, events))
                    (json_set ''subLevelInputConfig'' (JArr entries) cfg)))"

text \<open>The merchants the job runs for: listed under both flags, the second ignoring case.\<close>

definition enrolled_merchants ::
  "(string \<Rightarrow> string) \<Rightarrow> feature_conf option \<Rightarrow> feature_conf option \<Rightarrow> string list" where
  "enrolled_merchants lc self_tuning_conf autopilot_conf =
     (let flag = (\<lambda>conf. case conf of None \<Rightarrow> []
                    | Some c \<Rightarrow> List.map mf_merchantId (unwrap_or (fc_merchants c) []));
          self_tuning = flag self_tuning_conf in
      if self_tuning = [] then []
      else (let autopilot = lc ` set (flag autopilot_conf) in
            filter (\<lambda>m. lc m \<in> autopilot) self_tuning))"

definition LOW_CARD_DIMS :: "string list" where
  "LOW_CARD_DIMS = [''card_network'', ''currency'', ''country'', ''auth_type'']"

definition active_low_card_dims :: "string list option \<Rightarrow> string list" where
  "active_low_card_dims configured = filter (\<lambda>f. f \<in> set LOW_CARD_DIMS) (unwrap_or configured [])"

section \<open>When a second run changes nothing\<close>

locale tuner =
  fixes step :: "'seg \<Rightarrow> 'st \<Rightarrow> 'st option"
    and settled :: "'st \<Rightarrow> 'seg \<Rightarrow> bool"
    and apart :: "'seg \<Rightarrow> 'seg \<Rightarrow> bool"
    and tunable :: "'seg \<Rightarrow> bool"
  assumes step_settles: "tunable seg \<Longrightarrow> step seg st = Some st' \<Longrightarrow> settled st' seg"
    and step_keeps: "apart seg seg' \<Longrightarrow> settled st seg \<Longrightarrow> step seg' st = Some st' \<Longrightarrow> settled st' seg"
    and settled_step: "settled st seg \<Longrightarrow> step seg st = Some st"
begin

fun run :: "'seg list \<Rightarrow> 'st \<Rightarrow> 'st option" where
  "run [] st = Some st"
| "run (seg # segs) st = Option.bind (step seg st) (run segs)"

lemma run_keeps:
  "run segs st = Some st' \<Longrightarrow> settled st seg \<Longrightarrow> list_all (apart seg) segs \<Longrightarrow> settled st' seg"
  by (induction segs arbitrary: st) (auto simp: bind_eq_Some_conv intro: step_keeps)

lemma run_settles:
  "run segs st = Some st' \<Longrightarrow> list_all tunable segs \<Longrightarrow> sorted_wrt apart segs \<Longrightarrow>
     list_all (settled st') segs"
proof (induction segs arbitrary: st)
  case (Cons seg segs)
  then obtain st1 where "step seg st = Some st1" "run segs st1 = Some st'"
    by (auto simp: bind_eq_Some_conv)
  with Cons step_settles [of seg st st1] run_keeps [of segs st1 st' seg] show ?case
    by (auto simp: list_all_iff)
qed simp

lemma settled_run: "list_all (settled st) segs \<Longrightarrow> run segs st = Some st"
  by (induction segs) (auto simp: settled_step)

end

section \<open>The calibration meets the contract\<close>

lemma json_get_set:
  "json_set k x e = Some e' \<Longrightarrow> json_get k' e' = (if k' = k then Some x else json_get k' e)"
  by (cases e) (auto simp: json_set_def json_get_def)

lemma retune_entry_get:
  assumes "retune_entry b h e = Some e'"
  shows "json_get k e' =
    (if k = ''source'' then Some (JStr AUTOPILOT_SOURCE)
     else if k = ''hedgingPercent'' then Some (json_of_f64 h)
     else if k = ''bucketSize'' then Some (JInt b) else json_get k e)"
proof -
  from assms obtain e1 e2 where "json_set ''bucketSize'' (JInt b) e = Some e1"
    "json_set ''hedgingPercent'' (json_of_f64 h) e1 = Some e2"
    "json_set ''source'' (JStr AUTOPILOT_SOURCE) e2 = Some e'"
    by (auto simp: retune_entry_def bind_eq_Some_conv)
  from this [THEN json_get_set] show ?thesis by simp
qed

lemma matches_cong:
  assumes "\<And>k. k \<notin> {''bucketSize'', ''hedgingPercent'', ''source''} \<Longrightarrow> json_get k e' = json_get k e"
  shows "segment_entry_matches e' seg = segment_entry_matches e seg"
  using assms by (simp add: segment_entry_matches_def dim_matches_def)

lemma retune_entry_matches:
  "retune_entry b h e = Some e' \<Longrightarrow> segment_entry_matches e' seg = segment_entry_matches e seg"
  by (rule matches_cong) (simp add: retune_entry_get)

lemma position_Some: "position p xs = Some i \<Longrightarrow> i < length xs \<and> p (xs ! i)"
  by (induction xs arbitrary: i) (auto split: if_splits)

lemma position_None: "position p xs = None \<longleftrightarrow> \<not> list_ex p xs"
  by (induction xs) auto

lemma position_update:
  "i < length xs \<Longrightarrow> p y = p (xs ! i) \<Longrightarrow> position p (xs[i := y]) = position p xs"
  by (induction xs arbitrary: i) (auto split: nat.splits)

lemma position_append:
  "position p (xs @ ys) =
     (case position p xs of Some i \<Rightarrow> Some i | None \<Rightarrow> map_option ((+) (length xs)) (position p ys))"
  by (cases "position p ys"; induction xs) (auto split: option.splits)

definition entry_in_band :: "calibration_params \<Rightarrow> segment_traffic \<Rightarrow> int \<Rightarrow> json \<Rightarrow> bool" where
  "entry_in_band params seg b e \<longleftrightarrow>
     \<not> is_autopilot_entry e \<or>
     (\<not> bucket_changed (Option.bind (json_get ''bucketSize'' e) json_as_i64) b \<and>
      \<not> hedge_changed (Option.bind (json_get ''hedgingPercent'' e) json_as_f64)
        (auto_hedge_pct b (st_volume seg) (st_gateway_count seg) params))"

definition settled_segment ::
  "calibration_params \<Rightarrow> json list \<times> nat \<times> calibration_event list \<Rightarrow> segment_traffic \<Rightarrow> bool" where
  "settled_segment params st seg \<longleftrightarrow>
     (case auto_bucket (st_volume seg) (st_gateway_count seg) params of
        None \<Rightarrow> False
      | Some b \<Rightarrow>
          (case position (\<lambda>e. segment_entry_matches e seg) (fst st) of
             None \<Rightarrow> False
           | Some i \<Rightarrow> entry_in_band params seg b (fst st ! i)))"

text \<open>Two clusters are the same when no dimension tells them apart, ignoring case.\<close>

definition cluster_key :: "segment_traffic \<Rightarrow> string \<times> string \<times> string option list" where
  "cluster_key s =
     (to_ascii_lowercase (st_payment_method_type s), to_ascii_lowercase (st_payment_method s),
      List.map (map_option to_ascii_lowercase)
        [st_card_network s, st_currency s, st_country s, st_auth_type s])"

definition apart_segments :: "segment_traffic \<Rightarrow> segment_traffic \<Rightarrow> bool" where
  "apart_segments s t \<longleftrightarrow> cluster_key s \<noteq> cluster_key t"

definition named_segment :: "segment_traffic \<Rightarrow> bool" where
  "named_segment s \<longleftrightarrow>
     st_payment_method_type s \<noteq> [] \<and> st_payment_method s \<noteq> [] \<and>
     Some [] \<notin> {st_card_network s, st_currency s, st_country s, st_auth_type s}"

definition tunable_segment :: "calibration_params \<Rightarrow> segment_traffic \<Rightarrow> bool" where
  "tunable_segment params s \<longleftrightarrow>
     named_segment s \<and> - (2 ^ 31) \<le> cp_min_bucket params \<and> cp_min_bucket params < 2 ^ 31 \<and>
     cp_max_bucket params < 2 ^ 31 \<and>
     (case cp_max_hedging_pct params of Fin h \<Rightarrow> 0 \<le> h \<and> h \<le> 100 | _ \<Rightarrow> False) \<and>
     st_gateway_count s < 2 ^ 31"

lemma dim_matches_both:
  "dim_matches e k x \<Longrightarrow> dim_matches e k y \<Longrightarrow> map_option to_ascii_lowercase x = map_option to_ascii_lowercase y"
  by (auto simp: dim_matches_def split: option.splits)

lemma matches_both_same_cluster:
  assumes "segment_entry_matches e s" "segment_entry_matches e t"
  shows "cluster_key s = cluster_key t"
proof -
  note a = assms [unfolded segment_entry_matches_def]
  have "map_option to_ascii_lowercase (Some (st_payment_method_type s)) =
      map_option to_ascii_lowercase (Some (st_payment_method_type t))"
    "map_option to_ascii_lowercase (Some (st_payment_method s)) =
      map_option to_ascii_lowercase (Some (st_payment_method t))"
    "map_option to_ascii_lowercase (st_card_network s) = map_option to_ascii_lowercase (st_card_network t)"
    "map_option to_ascii_lowercase (st_currency s) = map_option to_ascii_lowercase (st_currency t)"
    "map_option to_ascii_lowercase (st_country s) = map_option to_ascii_lowercase (st_country t)"
    "map_option to_ascii_lowercase (st_auth_type s) = map_option to_ascii_lowercase (st_auth_type t)"
    using a by (blast intro: dim_matches_both)+
  then show ?thesis by (simp add: cluster_key_def)
qed

lemma opt_field_get:
  "map_of (opt_field k v obj) k' =
     (if k' = k then (case v of Some x \<Rightarrow> Some (JStr x) | None \<Rightarrow> map_of obj k) else map_of obj k')"
  by (auto simp: opt_field_def split: option.splits)

lemma new_entry_get:
  "json_get k (new_segment_entry seg b h) =
     (if k = ''authType'' then map_option JStr (st_auth_type seg)
      else if k = ''country'' then map_option JStr (st_country seg)
      else if k = ''currency'' then map_option JStr (st_currency seg)
      else if k = ''cardNetwork'' then map_option JStr (st_card_network seg)
      else if k = ''paymentMethodType'' then Some (JStr (st_payment_method_type seg))
      else if k = ''paymentMethod'' then Some (JStr (st_payment_method seg))
      else if k = ''bucketSize'' then Some (JInt b)
      else if k = ''hedgingPercent'' then Some (json_of_f64 h)
      else if k = ''source'' then Some (JStr AUTOPILOT_SOURCE) else None)"
  by (simp add: new_segment_entry_def json_get_def opt_field_get split: option.splits)

lemma dim_matches_new:
  "json_get k e = map_option JStr v \<Longrightarrow> v \<noteq> Some [] \<Longrightarrow> dim_matches e k v"
  by (cases v) (auto simp: dim_matches_def json_as_str_def)

lemma new_entry_matches: "named_segment seg \<Longrightarrow> segment_entry_matches (new_segment_entry seg b h) seg"
  unfolding segment_entry_matches_def named_segment_def
  by (intro conjI dim_matches_new) (auto simp: new_entry_get)

lemma dim_matches_empty: "\<not> dim_matches e k (Some [])"
  by (auto simp: dim_matches_def to_ascii_lowercase_def opt_filter_Some_iff split: option.splits)

lemma unnamed_never_matches:
  "st_payment_method seg = [] \<Longrightarrow> \<not> segment_entry_matches e seg"
  by (simp add: segment_entry_matches_def dim_matches_empty)

lemma as_i32_small: "- (2 ^ 31) \<le> i \<Longrightarrow> i < 2 ^ 31 \<Longrightarrow> as_i32 i = i"
  by (simp add: as_i32_def)

lemma bucket_unchanged: "- (2 ^ 31) \<le> b \<Longrightarrow> b < 2 ^ 31 \<Longrightarrow> \<not> bucket_changed (Some b) b"
  by (simp add: bucket_changed_def as_i32_small BUCKET_DEADBAND_def as_i32_def)

lemma hedge_unchanged: "is_finite h \<Longrightarrow> \<not> hedge_changed (Some h) h"
  by (cases h) (auto simp: hedge_changed_def HEDGE_DEADBAND_PCT_def fsub_def)

lemma auto_bucket_range:
  "auto_bucket v g params = Some b \<Longrightarrow> - (2 ^ 31) \<le> cp_min_bucket params \<Longrightarrow>
     cp_min_bucket params < 2 ^ 31 \<Longrightarrow> cp_max_bucket params < 2 ^ 31 \<Longrightarrow> - (2 ^ 31) \<le> b \<and> b < 2 ^ 31"
  by (auto simp: auto_bucket_def Let_def split: if_splits)

lemma hedge_bounds:
  assumes h: "cp_max_hedging_pct params = Fin h" "0 \<le> h" "h \<le> 100" and g: "g < 2 ^ 31"
  shows "\<exists>x. auto_hedge_pct b v g params = Fin x \<and> 0 \<le> x \<and> x \<le> 101"
proof (cases "g < 2 \<or> v \<le> 0")
  case True
  then show ?thesis by (auto simp: auto_hedge_pct_def)
next
  case False
  define n :: rat where "n = of_int (g - 1)"
  have n: "f64_of_int (g - 1) = Fin n" "1 \<le> n" "n \<le> of_nat (2 ^ 31)"
    using False g f64_of_nat [of "nat (g - 1)"] by (simp_all add: f64_of_int_def n_def)
  obtain c0 where c0: "fdiv (Fin h) (Fin 100) = Fin c0" "0 \<le> c0" "c0 \<le> 1"
    using h f64_of_rat_unit [of "h / 100"] by (auto simp: fdiv_def)
  have "c0 / n \<le> 1" using c0 n by (simp add: divide_le_eq)
  then obtain c where c: "fdiv (Fin c0) (Fin n) = Fin c" "0 \<le> c" "c \<le> 1"
    using c0 n f64_of_rat_unit [of "c0 / n"] by (auto simp: fdiv_def)
  obtain q where q: "f64_of_rat (1 / 100) = Fin q" "0 \<le> q" "q \<le> 1"
    using f64_of_rat_unit [of "1 / 100"] by auto
  have per: "\<exists>p. fmax (fmin s (Fin c)) (Fin q) = Fin p \<and> 0 \<le> p \<and> p \<le> 1" for s
    using c q by (cases s) (auto simp: fmax_def fmin_def is_nan_def)
  define s where "s = (let w = fmul (f64_of_int v) (fdiv (cp_reaction_horizon_secs params)
      (cp_lookback_secs params)) in if flt (Fin 0) w then fdiv (f64_of_int b) w else Fin c)"
  from per [of s] obtain p where p: "fmax (fmin s (Fin c)) (Fin q) = Fin p" "0 \<le> p" "p \<le> 1" by blast
  have "p * n \<le> 1 * n" "0 \<le> p * n" using p n by (intro mult_right_mono, auto)
  then have "p * n \<le> of_nat (2 ^ 31)" "0 \<le> p * n" using n by linarith+
  then obtain t0 where t0: "fmul (Fin p) (Fin n) = Fin t0" "0 \<le> t0" "t0 \<le> of_nat (2 ^ 31)"
    using f64_of_rat_upto [of "p * n" "2 ^ 31"] by (auto simp: fmul_def)
  then obtain t1 where t1: "fmul (Fin t0) (Fin 100) = Fin t1" "0 \<le> t1"
    using f64_of_rat_upto [of "t0 * 100" "2 ^ 31 * 100"] by (auto simp: fmul_def)
  have t: "fmin (Fin t1) (Fin h) = Fin (min t1 h)" by (simp add: fmin_def is_nan_def min_def)
  have "0 \<le> min t1 h * 100" "min t1 h * 100 \<le> of_nat 10000" using t1 h by simp_all
  then obtain u where u: "fmul (Fin (min t1 h)) (Fin 100) = Fin u" "0 \<le> u" "u \<le> 10000"
    using f64_of_rat_upto [of "min t1 h * 100" 10000] by (auto simp: fmul_def simp del: mult_le_cancel_right)
  define k where "k = \<lfloor>u + 1 / 2\<rfloor>"
  have k: "0 \<le> k" "k \<le> 10000" using u unfolding k_def by (simp_all add: floor_le_iff)
  have "(of_int k :: rat) \<le> 10000" using k(2) by linarith
  then obtain x where "fdiv (Fin (of_int k)) (Fin 100) = Fin x" "0 \<le> x" "x \<le> 100"
    using k f64_of_rat_upto [of "of_int k / 100" 100] by (auto simp: fdiv_def)
  moreover have "auto_hedge_pct b v g params =
      fdiv (fround (fmul (fmin (fmul (fmul (fmax (fmin s (Fin c)) (Fin q)) (Fin n)) (Fin 100)) (Fin h))
        (Fin 100))) (Fin 100)"
    using False by (simp only: auto_hedge_pct_def Let_def s_def h(1) n(1) c0(1) c(1) q(1) if_False)
  then have "auto_hedge_pct b v g params = fdiv (Fin (of_int k)) (Fin 100)"
    using u(2) by (simp only: p(1) t0(1) t1(1) t u(1) fround.simps k_def if_True)
  ultimately show ?thesis by auto
qed

text \<open>An entry the job has just written lies in its band.\<close>

lemma written_in_band:
  assumes "tunable_segment params seg" "auto_bucket (st_volume seg) (st_gateway_count seg) params = Some b"
    and "json_get ''bucketSize'' e = Some (JInt b)"
    and "json_get ''hedgingPercent'' e =
      Some (json_of_f64 (auto_hedge_pct b (st_volume seg) (st_gateway_count seg) params))"
  shows "entry_in_band params seg b e"
proof -
  have "- (2 ^ 31) \<le> b \<and> b < 2 ^ 31"
    using auto_bucket_range [OF assms(2)] assms(1) by (simp add: tunable_segment_def)
  moreover obtain h where "cp_max_hedging_pct params = Fin h" "0 \<le> h" "h \<le> 100"
    using assms(1) by (auto simp: tunable_segment_def split: f64.splits)
  then have "is_finite (auto_hedge_pct b (st_volume seg) (st_gateway_count seg) params)"
    using hedge_bounds [of params h "st_gateway_count seg" b "st_volume seg"] assms(1)
    by (auto simp: tunable_segment_def)
  ultimately show ?thesis
    using assms bucket_unchanged [of b] hedge_unchanged
    by (simp add: entry_in_band_def json_of_f64_def json_as_i64_def json_as_f64_def)
qed

lemma calibrate_segment_settles:
  assumes t: "tunable_segment params seg" and c: "calibrate_segment params seg st = Some st'"
  shows "settled_segment params st' seg"
proof -
  obtain es ch evs where st: "st = (es, ch, evs)" by (cases st)
  from c st obtain b where b: "auto_bucket (st_volume seg) (st_gateway_count seg) params = Some b"
    by (auto simp: calibrate_segment_def bind_eq_Some_conv)
  let ?p = "\<lambda>e. segment_entry_matches e seg"
  let ?h = "auto_hedge_pct b (st_volume seg) (st_gateway_count seg) params"
  show ?thesis
  proof (cases "position ?p es")
    case None
    have "?p (new_segment_entry seg b ?h)"
      using t by (intro new_entry_matches) (simp add: tunable_segment_def)
    moreover have "entry_in_band params seg b (new_segment_entry seg b ?h)"
      by (rule written_in_band [OF t b]) (simp_all add: new_entry_get)
    ultimately show ?thesis
      using c None b by (auto simp: st calibrate_segment_def settled_segment_def position_append Let_def)
  next
    case (Some i)
    show ?thesis
    proof (cases "entry_in_band params seg b (es ! i)")
      case True
      with c Some b show ?thesis
        by (auto simp: st calibrate_segment_def settled_segment_def entry_in_band_def Let_def
            split: if_splits)
    next
      case False
      with c Some b obtain e where e: "retune_entry b ?h (es ! i) = Some e" "fst st' = es[i := e]"
        by (auto simp: st calibrate_segment_def entry_in_band_def Let_def split: if_splits)
      have "position ?p (es[i := e]) = Some i"
        using position_Some [OF Some] Some retune_entry_matches [OF e(1)]
        by (simp add: position_update)
      moreover have "entry_in_band params seg b e"
        by (rule written_in_band [OF t b]) (simp_all add: retune_entry_get [OF e(1)])
      ultimately show ?thesis
        using e(2) b position_Some [OF Some] by (simp add: settled_segment_def)
    qed
  qed
qed

lemma settled_calibrate: "settled_segment params st seg \<Longrightarrow> calibrate_segment params seg st = Some st"
  by (cases st) (auto simp: settled_segment_def calibrate_segment_def entry_in_band_def
      Let_def split: option.splits)

lemma calibrate_segment_keeps:
  assumes apart: "apart_segments seg seg'" and s: "settled_segment params st seg"
    and c: "calibrate_segment params seg' st = Some st'"
  shows "settled_segment params st' seg"
proof -
  obtain es ch evs where st: "st = (es, ch, evs)" by (cases st)
  from s st obtain b i where b: "auto_bucket (st_volume seg) (st_gateway_count seg) params = Some b"
    and i: "position (\<lambda>e. segment_entry_matches e seg) es = Some i" "entry_in_band params seg b (es ! i)"
    by (auto simp: settled_segment_def split: option.splits)
  from c st obtain b' where b': "auto_bucket (st_volume seg') (st_gateway_count seg') params = Some b'"
    by (auto simp: calibrate_segment_def bind_eq_Some_conv)
  note i_ok = position_Some [OF i(1)]
  show ?thesis
  proof (cases "position (\<lambda>e. segment_entry_matches e seg') es")
    case None
    with c b' i b i_ok show ?thesis
      by (auto simp: st calibrate_segment_def settled_segment_def position_append nth_append Let_def)
  next
    case (Some j)
    note j_ok = position_Some [OF Some]
    have "i \<noteq> j"
      using i_ok j_ok apart matches_both_same_cluster [of "es ! i" seg seg'] by (auto simp: apart_segments_def)
    show ?thesis
    proof (cases "fst st' = es")
      case True
      with i b show ?thesis by (simp add: settled_segment_def)
    next
      case False
      with c Some b' obtain h e where e: "retune_entry b' h (es ! j) = Some e" "fst st' = es[j := e]"
        by (auto simp: st calibrate_segment_def Let_def split: if_splits)
      have "position (\<lambda>e. segment_entry_matches e seg) (es[j := e]) = Some i"
        using j_ok i(1) retune_entry_matches [OF e(1)] by (simp add: position_update)
      with e(2) b i \<open>i \<noteq> j\<close> show ?thesis by (simp add: settled_segment_def)
    qed
  qed
qed

interpretation calibration: tuner "calibrate_segment params" "settled_segment params" apart_segments
  "tunable_segment params" for params
  by unfold_locales (fact calibrate_segment_settles calibrate_segment_keeps settled_calibrate)+

lemma calibrate_segments_run: "calibrate_segments params segs st = calibration.run params segs st"
proof (induction segs arbitrary: st)
  case (Cons seg segs)
  then have "calibrate_segments params segs = calibration.run params segs" by auto
  then show ?case by simp
qed simp

lemma settled_segment_cong: "settled_segment params (es, ch, evs) seg = settled_segment params (es, ch', evs') seg"
  by (simp only: settled_segment_def fst_conv)

lemma sub_level_entries_set:
  "json_set ''subLevelInputConfig'' (JArr es) cfg = Some cfg' \<Longrightarrow> sub_level_entries cfg' = es"
  by (simp add: sub_level_entries_def json_get_set)

lemma calibrate_merchant_written:
  assumes "calibrate_merchant params segs cfg = Some (Inr (Some cfg', evs))"
  obtains es ch where "calibrate_segments params (qualifying params segs) (sub_level_entries cfg, 0, []) =
      Some (es, ch, evs)" "json_set ''subLevelInputConfig'' (JArr es) cfg = Some cfg'"
    "qualifying params segs \<noteq> []"
  using assms by (auto simp: calibrate_merchant_def Let_def bind_eq_Some_conv split: if_splits)

text \<open>
  A calibration reaches a fixed point in one run: running the job again on the configuration it
  wrote, with the same traffic, changes nothing, emits nothing and writes nothing. The clusters are
  told apart by a dimension and none has an empty name.
\<close>

theorem calibration_idempotent:
  assumes "calibrate_merchant params segs cfg = Some (Inr (Some cfg', evs))"
    and "list_all (tunable_segment params) (qualifying params segs)"
    and "sorted_wrt apart_segments (qualifying params segs)"
  shows "calibrate_merchant params segs cfg' = Some (Inr (None, []))"
proof -
  from assms(1) obtain es ch where es: "calibrate_segments params (qualifying params segs)
      (sub_level_entries cfg, 0, []) = Some (es, ch, evs)"
    "json_set ''subLevelInputConfig'' (JArr es) cfg = Some cfg'" "qualifying params segs \<noteq> []"
    by (rule calibrate_merchant_written)
  have "list_all (settled_segment params (es, ch, evs)) (qualifying params segs)"
    using calibration.run_settles [OF es(1) [unfolded calibrate_segments_run] assms(2,3)] .
  then have "list_all (settled_segment params (es, 0, [])) (qualifying params segs)"
    using settled_segment_cong [of params es ch evs _ 0 "[]"] by (simp add: list_all_iff)
  then have "calibrate_segments params (qualifying params segs) (es, 0, []) = Some (es, 0, [])"
    by (simp add: calibrate_segments_run calibration.settled_run)
  with es show ?thesis by (simp add: calibrate_merchant_def sub_level_entries_set)
qed

section \<open>What a human wrote stays\<close>

definition entry_kept :: "json \<Rightarrow> json \<Rightarrow> bool" where
  "entry_kept e e' \<longleftrightarrow> e' = e \<or>
     is_autopilot_entry e \<and> is_autopilot_entry e' \<and>
     (\<forall>k. k \<notin> {''bucketSize'', ''hedgingPercent'', ''source''} \<longrightarrow> json_get k e' = json_get k e)"

definition entries_kept :: "json list \<Rightarrow> json list \<Rightarrow> bool" where
  "entries_kept es es' \<longleftrightarrow>
     length es \<le> length es' \<and> (\<forall>i < length es. entry_kept (es ! i) (es' ! i))"

lemma entry_kept_trans: "entry_kept a b \<Longrightarrow> entry_kept b c \<Longrightarrow> entry_kept a c"
  unfolding entry_kept_def by metis

lemma entries_kept_trans: "entries_kept a b \<Longrightarrow> entries_kept b c \<Longrightarrow> entries_kept a c"
  unfolding entries_kept_def by (meson entry_kept_trans le_trans less_le_trans)

lemma calibrate_segment_result:
  assumes "calibrate_segment params seg (es, ch, evs) = Some (es', ch', evs')"
  shows "es' = es \<or> (\<exists>e. es' = es @ [e]) \<or>
    (\<exists>i b h e. es' = es[i := e] \<and> retune_entry b h (es ! i) = Some e \<and>
       is_autopilot_entry (es ! i) \<and> i < length es)"
proof (cases "position (\<lambda>e. segment_entry_matches e seg) es")
  case None
  with assms show ?thesis by (auto simp: calibrate_segment_def bind_eq_Some_conv Let_def)
next
  case (Some i)
  with assms position_Some [OF Some] show ?thesis
    by (cases "is_autopilot_entry (es ! i)")
      (auto simp: calibrate_segment_def bind_eq_Some_conv Let_def split: if_splits)
qed

lemma calibrate_segment_kept:
  assumes "calibrate_segment params seg (es, ch, evs) = Some (es', ch', evs')"
  shows "entries_kept es es'"
  using calibrate_segment_result [OF assms]
proof (elim disjE exE conjE)
  fix i b h e
  assume 3: "es' = es[i := e]" "retune_entry b h (es ! i) = Some e" "is_autopilot_entry (es ! i)"
    "i < length es"
  have "entry_kept (es ! i) e"
    using 3 by (auto simp: entry_kept_def is_autopilot_entry_def retune_entry_get json_as_str_def)
  with 3 show ?thesis by (auto simp: entries_kept_def nth_list_update entry_kept_def)
qed (auto simp: entries_kept_def entry_kept_def nth_append)

lemma calibrate_segments_kept:
  "calibrate_segments params segs (es, ch, evs) = Some (es', ch', evs') \<Longrightarrow> entries_kept es es'"
proof (induction segs arbitrary: es ch evs)
  case Nil
  then show ?case by (simp add: entries_kept_def entry_kept_def)
next
  case (Cons seg segs)
  then obtain es1 ch1 evs1 where "calibrate_segment params seg (es, ch, evs) = Some (es1, ch1, evs1)"
    "calibrate_segments params segs (es1, ch1, evs1) = Some (es', ch', evs')"
    by (auto simp: bind_eq_Some_conv)
  with Cons.IH calibrate_segment_kept show ?case by (blast intro: entries_kept_trans)
qed

text \<open>
  C12. A calibration never touches what it does not manage: every stored entry stays in its place,
  unchanged unless the job itself wrote it, and then only its bucket size, hedging percentage and
  source; new entries come after them, and the rest of the configuration stays as it is.
\<close>

theorem calibration_respects_humans:
  assumes "calibrate_merchant params segs cfg = Some (Inr (Some cfg', evs))"
  shows "entries_kept (sub_level_entries cfg) (sub_level_entries cfg') \<and>
    (\<forall>k. json_get k cfg' = (if k = ''subLevelInputConfig'' then Some (JArr (sub_level_entries cfg'))
       else json_get k cfg))"
proof -
  from assms obtain es ch where es: "calibrate_segments params (qualifying params segs)
      (sub_level_entries cfg, 0, []) = Some (es, ch, evs)"
    "json_set ''subLevelInputConfig'' (JArr es) cfg = Some cfg'"
    by (rule calibrate_merchant_written)
  with calibrate_segments_kept [OF es(1)] show ?thesis
    by (simp add: json_get_set sub_level_entries_set)
qed

section \<open>Two faults\<close>

text \<open>
  Two settings defeat the calibration. With the small bucket cap the configuration's comment
  suggests and the default lower bound, every run over traffic that qualifies panics. And a cluster
  whose payment method is empty never matches the entry written for it, so every run appends
  another.
\<close>

theorem calibration_faults:
  "(sc_min_bucket_size cfg = None \<and> sc_max_bucket_size cfg = Some 25 \<and>
      qualifying (from_config cfg) segs \<noteq> [] \<longrightarrow> calibrate_merchant (from_config cfg) segs stored = None) \<and>
   (st_payment_method seg = [] \<and> calibrate_segment params seg (es, ch, evs) = Some (es', ch', evs') \<longrightarrow>
      length es' = Suc (length es))"
proof (intro conjI impI)
  let ?p = "from_config cfg"
  assume a: "sc_min_bucket_size cfg = None \<and> sc_max_bucket_size cfg = Some 25 \<and> qualifying ?p segs \<noteq> []"
  then obtain s ss where q: "qualifying ?p segs = s # ss" by (cases "qualifying ?p segs") auto
  then have "s \<in> set (qualifying ?p segs)" by simp
  then have s: "st_volume s \<ge> cp_min_volume ?p" "st_gateway_count s \<ge> 2" by (auto simp: qualifying_def)
  have "0 < cp_min_volume ?p"
    by (auto simp: from_config_def Let_def DEFAULT_MIN_VOLUME_def unwrap_or_def opt_filter_def
        split: option.splits)
  with s a have "auto_bucket (st_volume s) (st_gateway_count s) ?p = None"
    by (simp add: auto_bucket_def Let_def from_config_def DEFAULT_MIN_BUCKET_def)
  then show "calibrate_merchant ?p segs stored = None"
    by (simp add: calibrate_merchant_def q calibrate_segment_def)
next
  assume a: "st_payment_method seg = [] \<and> calibrate_segment params seg (es, ch, evs) = Some (es', ch', evs')"
  then have "position (\<lambda>e. segment_entry_matches e seg) es = None"
    by (simp add: position_None unnamed_never_matches list_ex_iff)
  with a show "length es' = Suc (length es)"
    by (auto simp: calibrate_segment_def bind_eq_Some_conv Let_def)
qed

definition demo_config :: sr_auto_calibration_config where
  "demo_config = \<lparr>sc_min_bucket_size = None, sc_max_bucket_size = None, sc_max_hedging_percent = None,
     sc_reaction_horizon_secs = None, sc_lookback_secs = None, sc_min_volume = None\<rparr>"

definition demo_segment :: "string \<Rightarrow> segment_traffic" where
  "demo_segment pm = \<lparr>st_payment_method_type = ''CARD'', st_payment_method = pm,
     st_card_network = Some ''VISA'', st_currency = None, st_country = None, st_auth_type = None,
     st_volume = 400, st_gateway_count = 2\<rparr>"

lemma demo_params [simp]:
  "cp_min_bucket (from_config demo_config) = 100" "cp_max_bucket (from_config demo_config) = 2000"
  "cp_min_volume (from_config demo_config) = 100" "cp_max_hedging_pct (from_config demo_config) = Fin 30"
  by (simp_all add: from_config_def demo_config_def Let_def DEFAULT_MIN_BUCKET_def
      DEFAULT_MAX_BUCKET_def DEFAULT_MIN_VOLUME_def DEFAULT_MAX_HEDGING_PCT_def)

lemma demo_qualifying [simp]: "qualifying (from_config demo_config) [demo_segment pm] = [demo_segment pm]"
  by (simp add: qualifying_def demo_segment_def)

lemma auto_bucket_defined:
  "cp_min_bucket params \<le> cp_max_bucket params \<Longrightarrow> \<exists>b. auto_bucket v g params = Some b"
  by (simp add: auto_bucket_def Let_def)

lemma calibrate_new_segment:
  assumes "cp_min_bucket params \<le> cp_max_bucket params"
    and "position (\<lambda>e. segment_entry_matches e seg) es = None"
  shows "\<exists>e ev. calibrate_segment params seg (es, ch, evs) = Some (es @ [e], Suc ch, evs @ [ev])"
  using auto_bucket_defined [OF assms(1), of "st_volume seg" "st_gateway_count seg"] assms(2)
  by (auto simp: calibrate_segment_def Let_def)

lemma demo_calibrated:
  "\<exists>cfg' evs. calibrate_merchant (from_config demo_config) [demo_segment pm] (JObj []) =
     Some (Inr (Some cfg', evs))"
proof -
  obtain e ev where "calibrate_segment (from_config demo_config) (demo_segment pm) ([], 0, []) =
      Some ([e], Suc 0, [ev])"
    using calibrate_new_segment [of "from_config demo_config" "demo_segment pm" "[]" 0 "[]"] by auto
  then show ?thesis
    by (simp add: calibrate_merchant_def sub_level_entries_def json_get_def json_set_def)
qed

lemma calibration_idempotent_witness:
  "\<exists>cfg'. calibrate_merchant (from_config demo_config) [demo_segment ''VISA''] cfg' = Some (Inr (None, []))"
proof -
  obtain cfg' evs where c: "calibrate_merchant (from_config demo_config) [demo_segment ''VISA''] (JObj []) =
      Some (Inr (Some cfg', evs))" using demo_calibrated by blast
  have "tunable_segment (from_config demo_config) (demo_segment ''VISA'')"
    by (simp add: tunable_segment_def named_segment_def demo_segment_def)
  then show ?thesis by (intro exI [of _ cfg'] calibration_idempotent [OF c]) simp_all
qed

lemma calibration_respects_humans_witness:
  "\<exists>cfg' evs. calibrate_merchant (from_config demo_config) [demo_segment ''VISA''] (JObj []) =
     Some (Inr (Some cfg', evs)) \<and> entries_kept [] (sub_level_entries cfg')"
proof -
  obtain cfg' evs where c: "calibrate_merchant (from_config demo_config) [demo_segment ''VISA''] (JObj []) =
      Some (Inr (Some cfg', evs))" using demo_calibrated by blast
  have "sub_level_entries (JObj []) = []" by (simp add: sub_level_entries_def json_get_def)
  with calibration_respects_humans [OF c] have "entries_kept [] (sub_level_entries cfg')" by metis
  with c show ?thesis by blast
qed

lemma calibration_faults_witness:
  "calibrate_merchant (from_config (demo_config\<lparr>sc_max_bucket_size := Some 25\<rparr>)) [demo_segment ''VISA'']
     (JObj []) = None \<and>
   (\<exists>es ch evs. calibrate_segment (from_config demo_config) (demo_segment []) ([JObj []], 0, []) =
     Some (es, ch, evs) \<and> length es = 2)"
proof -
  let ?c = "demo_config\<lparr>sc_max_bucket_size := Some 25\<rparr>"
  have "qualifying (from_config ?c) [demo_segment ''VISA''] \<noteq> []"
    by (simp add: qualifying_def from_config_def demo_config_def demo_segment_def Let_def
        DEFAULT_MIN_VOLUME_def)
  then have 1: "calibrate_merchant (from_config ?c) [demo_segment ''VISA''] (JObj []) = None"
    using calibration_faults [of ?c "[demo_segment ''VISA'']" "JObj []"] by (simp add: demo_config_def)
  obtain e ev where r: "calibrate_segment (from_config demo_config) (demo_segment []) ([JObj []], 0, []) =
      Some ([JObj []] @ [e], Suc 0, [] @ [ev])"
    using calibrate_new_segment [of "from_config demo_config" "demo_segment []" "[JObj []]" 0 "[]"]
    by (auto simp: position_None unnamed_never_matches demo_segment_def simp del: position.simps)
  have "st_payment_method (demo_segment []) = []" by (simp add: demo_segment_def)
  with r have "length ([JObj []] @ [e]) = 2"
    using calibration_faults [where seg = "demo_segment []" and es = "[JObj []]" and es' = "[JObj []] @ [e]"]
    by fastforce
  with 1 r show ?thesis by blast
qed

end
