(* ===== verification/Txn_Types.thy ===== *)
theory Txn_Types
  imports Decider_Types Euclid_Ast
begin

text \<open>
  The transaction as the scoring code reads it: the enumerations with their text forms, the
  payment (\<open>TxnDetail\<close>), its instrument (\<open>TxnCardInfo\<close>), the dimensions scores are kept by
  (\<open>GatewayScoringData\<close>) and the part of \<open>DeciderState\<close> that the scoring stages write. Only
  the fields some modelled operation reads or writes are there. Times are milliseconds.
\<close>

section \<open>Enumerations\<close>

datatype txn_object_type =
    OrderPayment | MandateRegister | EmandateRegister | MandatePayment | EmandatePayment
  | TpvPayment | TpvEmandateRegister | TpvMandateRegister | TpvEmandatePayment
  | TpvMandatePayment | PartialCapture | PartialVoid | VanPayment | MotoPayment | TO_Unknown

fun txn_object_type_to_text :: "txn_object_type \<Rightarrow> string" where
  "txn_object_type_to_text OrderPayment = ''ORDER_PAYMENT''"
| "txn_object_type_to_text MandateRegister = ''MANDATE_REGISTER''"
| "txn_object_type_to_text EmandateRegister = ''EMANDATE_REGISTER''"
| "txn_object_type_to_text MandatePayment = ''MANDATE_PAYMENT''"
| "txn_object_type_to_text EmandatePayment = ''EMANDATE_PAYMENT''"
| "txn_object_type_to_text TpvPayment = ''TPV_PAYMENT''"
| "txn_object_type_to_text TpvEmandateRegister = ''TPV_EMANDATE_REGISTER''"
| "txn_object_type_to_text TpvMandateRegister = ''TPV_MANDATE_REGISTER''"
| "txn_object_type_to_text TpvEmandatePayment = ''TPV_EMANDATE_PAYMENT''"
| "txn_object_type_to_text TpvMandatePayment = ''TPV_MANDATE_PAYMENT''"
| "txn_object_type_to_text PartialCapture = ''PARTIAL_CAPTURE''"
| "txn_object_type_to_text PartialVoid = ''PARTIAL_VOID''"
| "txn_object_type_to_text VanPayment = ''VAN_PAYMENT''"
| "txn_object_type_to_text MotoPayment = ''MOTO_PAYMENT''"
| "txn_object_type_to_text TO_Unknown = ''UNKNOWN''"

definition txn_object_type_from_text :: "string \<Rightarrow> txn_object_type option" where
  "txn_object_type_from_text t = map_of
     [(''ORDER_PAYMENT'', OrderPayment),
      (''MANDATE_REGISTER'', MandateRegister),
      (''EMANDATE_REGISTER'', EmandateRegister),
      (''MANDATE_PAYMENT'', MandatePayment),
      (''EMANDATE_PAYMENT'', EmandatePayment),
      (''TPV_PAYMENT'', TpvPayment),
      (''TPV_EMANDATE_REGISTER'', TpvEmandateRegister),
      (''TPV_MANDATE_REGISTER'', TpvMandateRegister),
      (''TPV_EMANDATE_PAYMENT'', TpvEmandatePayment),
      (''TPV_MANDATE_PAYMENT'', TpvMandatePayment),
      (''PARTIAL_CAPTURE'', PartialCapture),
      (''PARTIAL_VOID'', PartialVoid),
      (''VAN_PAYMENT'', VanPayment),
      (''MOTO_PAYMENT'', MotoPayment),
      (''UNKNOWN'', TO_Unknown)] t"

lemma txn_object_type_from_text_txn_object_type_to_text [simp]: "txn_object_type_from_text (txn_object_type_to_text x) = Some x"
  by (cases x) (simp_all add: txn_object_type_from_text_def)

lemma txn_object_type_from_text_Some: "txn_object_type_from_text t = Some x \<Longrightarrow> t = txn_object_type_to_text x"
  by (auto simp: txn_object_type_from_text_def split: if_splits)

datatype card_type =
    CT_Aadhaar | CT_AtmCard | CT_Cash | CT_Credit | CT_Debit | CT_Nb | CT_Paylater
  | CT_Prepaid | CT_Reward | CT_Upi | CT_Wallet | CT_VirtualAccount | CT_Otc | CT_Rtp
  | CT_Crypto | CT_Blank | CT_Pan

fun card_type_to_text :: "card_type \<Rightarrow> string" where
  "card_type_to_text CT_Aadhaar = ''AADHAAR''"
| "card_type_to_text CT_AtmCard = ''ATM_CARD''"
| "card_type_to_text CT_Cash = ''CASH''"
| "card_type_to_text CT_Credit = ''CREDIT''"
| "card_type_to_text CT_Debit = ''DEBIT''"
| "card_type_to_text CT_Nb = ''NB''"
| "card_type_to_text CT_Paylater = ''PAYLATER''"
| "card_type_to_text CT_Prepaid = ''PREPAID''"
| "card_type_to_text CT_Reward = ''REWARD''"
| "card_type_to_text CT_Upi = ''UPI''"
| "card_type_to_text CT_Wallet = ''WALLET''"
| "card_type_to_text CT_VirtualAccount = ''VIRTUAL_ACCOUNT''"
| "card_type_to_text CT_Otc = ''OTC''"
| "card_type_to_text CT_Rtp = ''RTP''"
| "card_type_to_text CT_Crypto = ''CRYPTO''"
| "card_type_to_text CT_Blank = ''BLANK''"
| "card_type_to_text CT_Pan = ''PAN''"

definition to_card_type :: "string \<Rightarrow> card_type option" where
  "to_card_type t = map_of
     [(''AADHAAR'', CT_Aadhaar),
      (''ATM_CARD'', CT_AtmCard),
      (''CASH'', CT_Cash),
      (''CREDIT'', CT_Credit),
      (''DEBIT'', CT_Debit),
      (''NB'', CT_Nb),
      (''PAYLATER'', CT_Paylater),
      (''PREPAID'', CT_Prepaid),
      (''REWARD'', CT_Reward),
      (''UPI'', CT_Upi),
      (''WALLET'', CT_Wallet),
      (''VIRTUAL_ACCOUNT'', CT_VirtualAccount),
      (''OTC'', CT_Otc),
      (''RTP'', CT_Rtp),
      (''CRYPTO'', CT_Crypto),
      (''BLANK'', CT_Blank),
      (''PAN'', CT_Pan)] t"

lemma to_card_type_card_type_to_text [simp]: "to_card_type (card_type_to_text x) = Some x"
  by (cases x) (simp_all add: to_card_type_def)

lemma to_card_type_Some: "to_card_type t = Some x \<Longrightarrow> t = card_type_to_text x"
  by (auto simp: to_card_type_def split: if_splits)

datatype auth_type =
    Atmpin | ThreeDs | ThreeDs2 | Otp | OboOtp | Vies | NoThreeDs | NetworkToken | Moto | Fido
  | Ctp

fun auth_type_to_text :: "auth_type \<Rightarrow> string" where
  "auth_type_to_text Atmpin = ''ATMPIN''"
| "auth_type_to_text ThreeDs = ''THREE_DS''"
| "auth_type_to_text ThreeDs2 = ''THREE_DS_2''"
| "auth_type_to_text Otp = ''OTP''"
| "auth_type_to_text OboOtp = ''OBO_OTP''"
| "auth_type_to_text Vies = ''VIES''"
| "auth_type_to_text NoThreeDs = ''NO_THREE_DS''"
| "auth_type_to_text NetworkToken = ''NETWORK_TOKEN''"
| "auth_type_to_text Moto = ''MOTO''"
| "auth_type_to_text Fido = ''FIDO''"
| "auth_type_to_text Ctp = ''CTP''"

definition text_to_auth_type :: "string \<Rightarrow> auth_type option" where
  "text_to_auth_type t = map_of
     [(''ATMPIN'', Atmpin),
      (''THREE_DS'', ThreeDs),
      (''THREE_DS_2'', ThreeDs2),
      (''OTP'', Otp),
      (''OBO_OTP'', OboOtp),
      (''VIES'', Vies),
      (''NO_THREE_DS'', NoThreeDs),
      (''NETWORK_TOKEN'', NetworkToken),
      (''MOTO'', Moto),
      (''FIDO'', Fido),
      (''CTP'', Ctp)] t"

lemma text_to_auth_type_auth_type_to_text [simp]: "text_to_auth_type (auth_type_to_text x) = Some x"
  by (cases x) (simp_all add: text_to_auth_type_def)

lemma text_to_auth_type_Some: "text_to_auth_type t = Some x \<Longrightarrow> t = auth_type_to_text x"
  by (auto simp: text_to_auth_type_def split: if_splits)

section \<open>The transaction\<close>

record txn_detail =
  td_txn_id :: string
  td_date_created :: string
  td_merchant_id :: string
  td_gateway :: "string option"
  td_txn_object_type :: "txn_object_type option"
  td_source_object :: "string option"
  td_country :: "string option"

record txn_card_info =
  tci_card_isin :: "string option"
  tci_card_switch_provider :: "string option"
  tci_card_type :: "card_type option"
  tci_payment_method_type :: string
  tci_payment_method :: string
  tci_payment_source :: "string option"
  tci_auth_type :: "auth_type option"

definition get_payment_source_last :: "txn_card_info \<Rightarrow> string option" where
  "get_payment_source_last i =
     map_option (\<lambda>ps. last (split_on CHR ''@'' ps)) (tci_payment_source i)"

definition get_payment_source :: "txn_card_info \<Rightarrow> string option" where
  "get_payment_source i = tci_payment_source i"

definition is_card_transaction :: "txn_card_info \<Rightarrow> bool" where
  "is_card_transaction i \<longleftrightarrow> tci_card_isin i \<noteq> Some [] \<and> tci_card_isin i \<noteq> None"

record gateway_scoring_data =
  gsd_merchant_id :: string
  gsd_payment_method_type :: string
  gsd_payment_method :: string
  gsd_order_type :: string
  gsd_card_type :: "string option"
  gsd_bank_code :: "string option"
  gsd_auth_type :: "string option"
  gsd_payment_source :: "string option"
  gsd_is_payment_source_enabled_for_sr_routing :: bool
  gsd_is_auth_level_enabled_for_sr_routing :: bool
  gsd_is_bank_level_enabled_for_sr_routing :: bool
  gsd_is_gri_enabled_for_elimination :: bool
  gsd_is_gri_enabled_for_sr_routing :: bool
  gsd_elimination_enabled :: bool
  gsd_card_is_in :: "string option"
  gsd_card_switch_provider :: "string option"
  gsd_currency :: "string option"
  gsd_country :: "string option"
  gsd_is_legacy_decider_flow :: bool
  gsd_gateway_reference_id :: "string option"
  gsd_udfs :: "(int \<times> string) list option"
  gsd_udfs_consumed_for_routing :: "string option"

datatype score_key_type =
    EliminationGlobalKey | EliminationMerchantKey | OutageGlobalKey | OutageMerchantKey | SrV2Key
  | SrV3Key

section \<open>What scoring writes\<close>

type_synonym gateway_score_map = "f64 hmap"

datatype decider_scoring_name =
    UpdateScoreForIssuer | UpdateScoreForIsin | UpdateScoreForCardBrand | UpdateScoreWithHealth
  | UpdateScoreIfLastTxnFailure | UpdateScoreForOutage
  | ScoringByGatewayScoreBasedOnGlobalSuccessRate | UpdateGatewayScoreBasedOnSuccessRate
  | FinalScoring | GetScoreWithPriority | GetCachedScoresBasedOnSuccessRate
  | GetCachedScoresBasedOnSrV3

record sr_metric_log_data =
  ml_gateway_after_evaluation :: "string option"
  ml_gateway_before_evaluation :: "string option"
  ml_merchant_gateway_score :: "json option"
  ml_downtime_status :: "string list"
  ml_date_created :: string
  ml_gateway_before_downtime_evaluation :: "string option"

record decider_state =
  ds_functional_gateways :: "string list"
  ds_gw_score_map :: gateway_score_map
  ds_debug_scoring_list :: "(decider_scoring_name \<times> (string \<times> f64) list) list"
  ds_reset_gateway_list :: "string list"
  ds_sr_metric_log_data :: sr_metric_log_data
  ds_gw_decider_approach :: gateway_decider_approach
  ds_sr_elimination_approach_info :: "string list"
  ds_top_gateway_before_sr_downtime_evaluation :: "string option"
  ds_is_optimized_based_on_sr_metric_enabled :: bool
  ds_is_sr_v3_metric_enabled :: bool
  ds_reset_approach :: reset_approach
  ds_is_scheduled_outage :: bool
  ds_sr_gateway_scores :: "(string \<times> f64) list option"
  ds_elimination_scores :: "(string \<times> f64) list option"
  ds_srv3_bucket_size :: "int option"
  ds_sr_v3_hedging_percent :: "f64 option"
  ds_ab_test_sr_override :: "sr_config_override option"

definition initial_decider_state :: "string \<Rightarrow> decider_state" where
  "initial_decider_state date_created =
     \<lparr>ds_functional_gateways = [], ds_gw_score_map = [], ds_debug_scoring_list = [],
      ds_reset_gateway_list = [],
      ds_sr_metric_log_data =
        \<lparr>ml_gateway_after_evaluation = None, ml_gateway_before_evaluation = None,
         ml_merchant_gateway_score = None, ml_downtime_status = [],
         ml_date_created = date_created, ml_gateway_before_downtime_evaluation = None\<rparr>,
      ds_gw_decider_approach = Approach_None, ds_sr_elimination_approach_info = [],
      ds_top_gateway_before_sr_downtime_evaluation = None,
      ds_is_optimized_based_on_sr_metric_enabled = False, ds_is_sr_v3_metric_enabled = False,
      ds_reset_approach = NoReset, ds_is_scheduled_outage = False, ds_sr_gateway_scores = None,
      ds_elimination_scores = None, ds_srv3_bucket_size = None, ds_sr_v3_hedging_percent = None,
      ds_ab_test_sr_override = None\<rparr>"

definition return_sm_with_log :: "decider_scoring_name \<Rightarrow> bool \<Rightarrow> decider_state \<Rightarrow> decider_state" where
  "return_sm_with_log s_name do_or_not st =
     (if do_or_not
      then st\<lparr>ds_debug_scoring_list :=
                ds_debug_scoring_list st @ [(s_name, ds_gw_score_map st)]\<rparr>
      else st)"

lemma return_sm_with_log_simps [simp]:
  "ds_gw_score_map (return_sm_with_log n b st) = ds_gw_score_map st"
  "ds_gw_decider_approach (return_sm_with_log n b st) = ds_gw_decider_approach st"
  "ds_is_scheduled_outage (return_sm_with_log n b st) = ds_is_scheduled_outage st"
  "ds_sr_elimination_approach_info (return_sm_with_log n b st) = ds_sr_elimination_approach_info st"
  "ds_sr_metric_log_data (return_sm_with_log n b st) = ds_sr_metric_log_data st"
  "ds_reset_gateway_list (return_sm_with_log n b st) = ds_reset_gateway_list st"
  "ds_top_gateway_before_sr_downtime_evaluation (return_sm_with_log n b st) =
     ds_top_gateway_before_sr_downtime_evaluation st"
  "ds_ab_test_sr_override (return_sm_with_log n b st) = ds_ab_test_sr_override st"
  by (simp_all add: return_sm_with_log_def)

text \<open>The date is carried as the text the log shows.\<close>

definition reset_metric_log_data :: "string \<Rightarrow> decider_state \<Rightarrow> decider_state" where
  "reset_metric_log_data date_created st =
     st\<lparr>ds_sr_metric_log_data :=
          \<lparr>ml_gateway_after_evaluation = None, ml_gateway_before_evaluation = None,
           ml_merchant_gateway_score = None, ml_downtime_status = [],
           ml_date_created = date_created,
           ml_gateway_before_downtime_evaluation =
             ds_top_gateway_before_sr_downtime_evaluation st\<rparr>\<rparr>"

end
