(* ===== verification/Outage.thy ===== *)
theory Outage
  imports Txn_Types Mem_Cache
begin

text \<open>
  Scheduled outages (\<open>update_score_for_outage\<close> of \<open>src/src/decider/gatewaydecider/gw_scoring.rs\<close>,
  the table rows of \<open>src/src/types/gateway_outage.rs\<close>): the rows of the database that are current
  are cached, filtered by a sanity check and matched against the transaction; the score of the
  gateway of every matching outage is divided by ten. The rows, the bank code of the transaction
  and the parser of the JSON text of a row's metadata come from outside the sources and are
  parameters. Times are nanoseconds, the validation duration is in seconds.
\<close>

record scheduled_outage_metadata =
  om_card_type :: "card_type option"
  om_flow_type :: "string option"
  om_txn_object_type :: "txn_object_type option"
  om_app :: "string option"
  om_handle :: "string option"
  om_source_object :: "string option"

record gateway_outage =
  go_id :: string
  go_end_time :: int
  go_gateway :: "string option"
  go_merchant_id :: "string option"
  go_start_time :: int
  go_bank :: "string option"
  go_payment_method_type :: "string option"
  go_payment_method :: "string option"
  go_juspay_bank_code_id :: "int option"
  go_metadata :: "scheduled_outage_metadata option"

record db_gateway_outage =
  dgo_id :: string
  dgo_end_time :: int
  dgo_gateway :: "string option"
  dgo_merchant_id :: "string option"
  dgo_start_time :: int
  dgo_bank :: "string option"
  dgo_payment_method_type :: "string option"
  dgo_payment_method :: "string option"
  dgo_juspay_bank_code_id :: "int option"
  dgo_metadata :: "string option"

record bank_code =
  bc_id :: int
  bc_bank_code :: string
  bc_bank_name :: string

section \<open>Loading the outages\<close>

text \<open>\<open>parse\<close> stands for \<open>serde_json::from_str\<close>; a row with metadata it rejects is dropped.\<close>

definition try_from_outage ::
  "(string \<Rightarrow> scheduled_outage_metadata option) \<Rightarrow> db_gateway_outage \<Rightarrow> gateway_outage option" where
  "try_from_outage parse d =
     (case (case dgo_metadata d of
              None \<Rightarrow> Some None
            | Some t \<Rightarrow> map_option Some (parse t)) of
        None \<Rightarrow> None
      | Some md \<Rightarrow> Some
          \<lparr>go_id = dgo_id d, go_end_time = dgo_end_time d, go_gateway = dgo_gateway d,
           go_merchant_id = dgo_merchant_id d, go_start_time = dgo_start_time d,
           go_bank = dgo_bank d, go_payment_method_type = dgo_payment_method_type d,
           go_payment_method = dgo_payment_method d,
           go_juspay_bank_code_id = dgo_juspay_bank_code_id d, go_metadata = md\<rparr>)"

definition getPotentialGwOutagesDB ::
  "db_gateway_outage list option \<Rightarrow> int \<Rightarrow> db_gateway_outage list option" where
  "getPotentialGwOutagesDB rows time_now =
     map_option
       (filter (\<lambda>d. dgo_start_time d < time_now \<and> dgo_end_time d > time_now \<and> dgo_gateway d \<noteq> None))
       rows"

definition getPotentialGwOutages ::
  "(string \<Rightarrow> scheduled_outage_metadata option) \<Rightarrow> db_gateway_outage list option \<Rightarrow> int \<Rightarrow>
   gateway_outage list" where
  "getPotentialGwOutages parse rows time_now =
     (case getPotentialGwOutagesDB rows time_now of
        None \<Rightarrow> []
      | Some ds \<Rightarrow> List.map_filter (try_from_outage parse) ds)"

text \<open>\<open>Duration::as_seconds_f64\<close>: the whole seconds plus the fraction.\<close>

definition as_seconds_f64 :: "int \<Rightarrow> f64" where
  "as_seconds_f64 ns =
     fadd (f64_of_int (ns div 10 ^ 9)) (fdiv (f64_of_int (ns mod 10 ^ 9)) (Fin (10 ^ 9)))"

definition check_duration :: "gateway_outage \<Rightarrow> int \<Rightarrow> bool" where
  "check_duration g validation_duration \<longleftrightarrow>
     flt (as_seconds_f64 (abs (go_end_time g - go_start_time g))) (f64_of_int validation_duration)"

definition check_pmt_outage :: "gateway_outage \<Rightarrow> bool" where
  "check_pmt_outage g \<longleftrightarrow>
     (case go_payment_method_type g of
        None \<Rightarrow> True
      | Some pmt \<Rightarrow>
          if pmt = ''UPI'' then True
          else go_gateway g \<noteq> None \<or> go_bank g \<noteq> None \<or> go_payment_method g \<noteq> None \<or>
            go_juspay_bank_code_id g \<noteq> None \<or> go_metadata g \<noteq> None)"

definition validate_scheduled_outage :: "int \<Rightarrow> gateway_outage \<Rightarrow> bool" where
  "validate_scheduled_outage validation_duration g \<longleftrightarrow>
     check_duration g validation_duration \<and> check_pmt_outage g"

text \<open>
  The result and the cache afterwards; \<open>t_get\<close>, \<open>t_scan\<close>, \<open>t_insert\<close> are the cache's own clock
  and the two flags whether another thread holds its lock at the read and at the write.
\<close>

definition get_scheduled_outage ::
  "(string \<Rightarrow> scheduled_outage_metadata option) \<Rightarrow> db_gateway_outage list option \<Rightarrow> int \<Rightarrow> int \<Rightarrow>
   bool \<Rightarrow> bool \<Rightarrow> nat \<Rightarrow> nat \<Rightarrow> nat \<Rightarrow> gateway_outage list typed_cache \<Rightarrow>
   gateway_outage list \<times> gateway_outage list typed_cache" where
  "get_scheduled_outage parse rows validation_duration now locked_get locked_store t_get t_scan t_insert cache =
     (case tc_get cache locked_get t_get ''gw_outages'' of
        Some cached \<Rightarrow> (cached, cache)
      | None \<Rightarrow>
          (let validated = filter (validate_scheduled_outage validation_duration)
                             (getPotentialGwOutages parse rows now) in
           (validated, tc_store cache locked_store t_scan t_insert ''gw_outages'' validated)))"

section \<open>Matching a transaction\<close>

definition schedule_equal_to :: "('a \<Rightarrow> 'b \<Rightarrow> bool) \<Rightarrow> 'a option \<Rightarrow> 'b option \<Rightarrow> bool" where
  "schedule_equal_to cmp input schedule_outage =
     (case (input, schedule_outage) of
        (_, None) \<Rightarrow> True
      | (None, _) \<Rightarrow> False
      | (Some a, Some b) \<Rightarrow> cmp a b)"

lemma schedule_equal_to_simps [simp]:
  "schedule_equal_to cmp x None"
  "\<not> schedule_equal_to cmp None (Some b)"
  "schedule_equal_to cmp (Some a) (Some b) = cmp a b"
  by (simp_all add: schedule_equal_to_def split: option.splits)

lemma schedule_equal_to_eq: "schedule_equal_to (=) a b \<longleftrightarrow> b \<in> {None, a}"
  by (cases a; cases b) auto

definition check_scheduled_outage_metadata ::
  "txn_detail \<Rightarrow> txn_card_info \<Rightarrow> scheduled_outage_metadata option \<Rightarrow> bool" where
  "check_scheduled_outage_metadata txn info md =
     (case md of
        None \<Rightarrow> True
      | Some md \<Rightarrow>
          schedule_equal_to (=) (td_txn_object_type txn) (om_txn_object_type md) \<and>
          schedule_equal_to (=) (td_source_object txn) (om_source_object md) \<and>
          schedule_equal_to (\<lambda>x y. x = Some y) (Some None) (om_flow_type md) \<and>
          (if tci_payment_method_type info = ''CARD'' then
             schedule_equal_to (=) (tci_card_type info) (om_card_type md)
           else if tci_payment_method_type info = ''UPI'' then
             (case tci_payment_source info of
                None \<Rightarrow> False
              | Some payment_source \<Rightarrow>
                  if str_contains payment_source ''@'' then False
                  else
                    schedule_equal_to (=) (Some payment_source) (om_app md) \<and>
                    schedule_equal_to (=) (Some payment_source) (om_handle md))
           else True))"

definition check_scheduled_outage ::
  "txn_detail \<Rightarrow> txn_card_info \<Rightarrow> string \<Rightarrow> bank_code option \<Rightarrow> gateway_outage \<Rightarrow> bool" where
  "check_scheduled_outage txn info merchant_id juspay_bank_code g \<longleftrightarrow>
     schedule_equal_to (=) (Some merchant_id) (go_merchant_id g) \<and>
     (if tci_payment_method_type info = ''UPI''
      then schedule_equal_to (=) (td_source_object txn) (go_payment_method g)
      else schedule_equal_to (=) (Some (tci_payment_method info)) (go_payment_method g)) \<and>
     schedule_equal_to (=) (Some (tci_payment_method_type info)) (go_payment_method_type g) \<and>
     schedule_equal_to
       (\<lambda>jbc outage_bank.
          case jbc of
            Some j \<Rightarrow> bc_bank_code j = outage_bank \<or> bc_bank_name j = outage_bank
          | None \<Rightarrow> False)
       (Some juspay_bank_code) (go_bank g) \<and>
     check_scheduled_outage_metadata txn info (go_metadata g)"

section \<open>The scores\<close>

definition outage_penalty :: "gateway_outage \<Rightarrow> gateway_score_map \<Rightarrow> gateway_score_map" where
  "outage_penalty g acc =
     (case go_gateway g of
        None \<Rightarrow> acc
      | Some gw \<Rightarrow> hm_insert gw (fdiv (unwrap_or (map_of acc gw) (Fin 1)) (Fin 10)) acc)"

definition update_score_for_outage ::
  "gateway_outage list \<Rightarrow> txn_detail \<Rightarrow> txn_card_info \<Rightarrow> string \<Rightarrow> bank_code option \<Rightarrow>
   decider_state \<Rightarrow> decider_state" where
  "update_score_for_outage potential_outages txn info merchant_id bank_code st =
     (let out_gws = filter (check_scheduled_outage txn info merchant_id bank_code) potential_outages;
          new_sm = fold outage_penalty out_gws (ds_gw_score_map st);
          st = (if out_gws \<noteq> [] then st\<lparr>ds_is_scheduled_outage := True\<rparr> else st)
      in return_sm_with_log UpdateScoreForOutage True (st\<lparr>ds_gw_score_map := new_sm\<rparr>))"

section \<open>What is penalized\<close>

definition tenth :: "f64 \<Rightarrow> f64" where
  "tenth x = fdiv x (Fin 10)"

lemma map_of_outage_penalty:
  "map_of (outage_penalty g acc) gw =
     (if go_gateway g = Some gw then Some (tenth (unwrap_or (map_of acc gw) (Fin 1)))
      else map_of acc gw)"
  by (auto simp: outage_penalty_def tenth_def split: option.splits)

definition outages_of :: "string \<Rightarrow> gateway_outage list \<Rightarrow> nat" where
  "outages_of gw gs = length (filter (\<lambda>g. go_gateway g = Some gw) gs)"

lemma map_of_fold_outage:
  "map_of (fold outage_penalty gs acc) gw =
     (if outages_of gw gs = 0 then map_of acc gw
      else Some ((tenth ^^ outages_of gw gs) (unwrap_or (map_of acc gw) (Fin 1))))"
proof (induction gs arbitrary: acc)
  case (Cons g gs)
  show ?case
    by (auto simp: Cons map_of_outage_penalty outages_of_def simp flip: funpow_swap1)
qed (simp add: outages_of_def)

text \<open>
  The outages that count are those that match the transaction. The score of a gateway is
  divided by ten once per matching outage that names it, all other scores are kept, and the
  transaction is flagged exactly when some outage matches. A gateway that is named but was not
  scored is scored from one, so it joins the candidates although no filter admitted it.
\<close>

theorem outage_scores:
  "let st' = update_score_for_outage gs txn info mid bc st;
       matching = filter (check_scheduled_outage txn info mid bc) gs in
    map_of (ds_gw_score_map st') gw =
      (case outages_of gw matching of
         0 \<Rightarrow> map_of (ds_gw_score_map st) gw
       | Suc n \<Rightarrow> Some ((tenth ^^ Suc n) (unwrap_or (map_of (ds_gw_score_map st) gw) (Fin 1)))) \<and>
    ds_is_scheduled_outage st' = (if matching = [] then ds_is_scheduled_outage st else True) \<and>
    ds_gw_decider_approach st' = ds_gw_decider_approach st"
  by (simp add: update_score_for_outage_def Let_def map_of_fold_outage split: nat.split)

section \<open>UPI payments\<close>

text \<open>
  The matching of UPI metadata the comment above the code asks for: a source with an at sign is
  compared with the handle, any other one with the app.
\<close>

definition upi_matches_intended :: "string \<Rightarrow> scheduled_outage_metadata \<Rightarrow> bool" where
  "upi_matches_intended payment_source md \<longleftrightarrow>
     schedule_equal_to (=) (Some payment_source)
       (if str_contains payment_source ''@'' then om_handle md else om_app md)"

definition handle_outage :: "string \<Rightarrow> string \<Rightarrow> gateway_outage" where
  "handle_outage gw handle =
     \<lparr>go_id = ''o1'', go_end_time = 0, go_gateway = Some gw, go_merchant_id = None,
      go_start_time = 0, go_bank = None, go_payment_method_type = Some ''UPI'',
      go_payment_method = None, go_juspay_bank_code_id = None,
      go_metadata = Some \<lparr>om_card_type = None, om_flow_type = None, om_txn_object_type = None,
        om_app = None, om_handle = Some handle, om_source_object = None\<rparr>\<rparr>"

lemma upi_metadata_match:
  assumes "tci_payment_method_type info = ''UPI''" "check_scheduled_outage_metadata txn info (Some md)"
  shows "\<exists>src. tci_payment_source info = Some src \<and> \<not> str_contains src ''@'' \<and>
    om_app md \<in> {None, Some src} \<and> om_handle md \<in> {None, Some src}"
  using assms
  by (auto simp: check_scheduled_outage_metadata_def schedule_equal_to_eq split: option.splits if_splits)

text \<open>
  An outage with metadata never matches a UPI payment whose source is an address with an at
  sign, whatever handle it names, although a comparison with the handle is what the comment asks
  for; a payment whose source is an app matches only if the handle is absent or equal to the app.
\<close>

theorem upi_handle_outage_never_matches:
  assumes "tci_payment_method_type info = ''UPI''" "tci_payment_source info = Some src"
    "go_metadata g = Some md"
  shows "(str_contains src ''@'' \<longrightarrow> \<not> check_scheduled_outage txn info mid bc g) \<and>
    (check_scheduled_outage txn info mid bc g \<longrightarrow>
       upi_matches_intended src md \<and> om_handle md \<in> {None, Some src})"
  using assms upi_metadata_match [of info txn md]
  by (auto simp: check_scheduled_outage_def upi_matches_intended_def schedule_equal_to_eq)

definition upi_payment :: txn_card_info where
  "upi_payment =
     \<lparr>tci_card_isin = None, tci_card_switch_provider = None, tci_card_type = None,
      tci_payment_method_type = ''UPI'', tci_payment_method = ''UPI'',
      tci_payment_source = Some ''a@ybl'', tci_auth_type = None\<rparr>"

definition some_payment :: txn_detail where
  "some_payment =
     \<lparr>td_txn_id = ''t'', td_date_created = [], td_merchant_id = ''m'', td_gateway = None,
      td_txn_object_type = Some OrderPayment, td_source_object = Some ''UPI_COLLECT'',
      td_country = None\<rparr>"

lemma upi_handle_outage_never_matches_witness:
  "\<not> check_scheduled_outage some_payment upi_payment ''m'' None (handle_outage ''PAYU'' ''a@ybl'') \<and>
   upi_matches_intended ''a@ybl'' (the (go_metadata (handle_outage ''PAYU'' ''a@ybl'')))"
proof -
  have at: "str_contains ''a@ybl'' ''@''"
    by (simp add: str_contains_def sublist_code)
  have "(str_contains ''a@ybl'' ''@'' \<longrightarrow>
     \<not> check_scheduled_outage some_payment upi_payment ''m'' None (handle_outage ''PAYU'' ''a@ybl''))"
    using upi_handle_outage_never_matches [of upi_payment "''a@ybl''" "handle_outage ''PAYU'' ''a@ybl''"
      "the (go_metadata (handle_outage ''PAYU'' ''a@ybl''))" some_payment "''m''" None]
    by (simp add: upi_payment_def handle_outage_def)
  with at show ?thesis
    by (simp add: upi_matches_intended_def handle_outage_def)
qed

end
