(* ===== verification/Elim_Config.thy ===== *)
theory Elim_Config
  imports Txn_Types Redis_Store
begin

text \<open>
  The configuration of gateway elimination: the routing inputs of a merchant and of the platform
  (\<open>src/src/types/gateway_routing_input.rs\<close>), the thresholds every gateway is judged by and the
  success rates the second version of elimination derives its thresholds and factors from
  (\<open>src/src/decider/gatewaydecider/gw_scoring.rs\<close>, \<open>calculate_alpha\<close> of
  \<open>src/src/feedback/gateway_elimination_scoring/flow.rs\<close>). Values of the service configuration
  and of Redis arrive as arguments, decoded; \<open>powf\<close> is the standard library's function.
\<close>

datatype elimination_level =
    Lvl_Gateway | Lvl_PaymentMethodType | Lvl_PaymentMethod | Lvl_None | Lvl_ForcedPaymentMethod

datatype selection_level = SlPaymentMode | SlPaymentMethod

datatype config_source = GlobalDefault | MerchantDefault | ServiceConfig | CS_REDIS

datatype filter_level = FL_TxnObjectType | FL_PaymentMethod | FL_PaymentMethodType

record gateway_wise_sr_input =
  gi_gateway :: string
  gi_elimination_threshold :: "f64 option"
  gi_elimination_max_count_threshold :: "int option"
  gi_selection_max_count_threshold :: "int option"
  gi_soft_txn_reset_count :: "int option"
  gi_gateway_level_elimination_threshold :: "f64 option"
  gi_elimination_level :: "elimination_level option"
  gi_current_score :: "f64 option"
  gi_last_reset_time_stamp :: "int option"

record elimination_success_rate_input =
  ei_success_rate :: f64
  ei_payment_method_type :: string
  ei_payment_method :: "string option"
  ei_txn_object_type :: "string option"

record gateway_sr_input =
  si_gateway_wise_inputs :: "gateway_wise_sr_input list option"
  si_default_elimination_threshold :: f64
  si_default_elimination_level :: elimination_level
  si_default_selection_level :: "selection_level option"
  si_enabled_payment_method_types :: "string list"
  si_elimination_v2_success_rate_inputs :: "elimination_success_rate_input list option"
  si_global_gateway_wise_inputs :: "gateway_wise_sr_input list option"
  si_default_global_elimination_threshold :: "f64 option"
  si_default_global_elimination_max_count_threshold :: "int option"
  si_default_global_elimination_level :: "elimination_level option"
  si_default_global_selection_max_count_threshold :: "int option"
  si_selection_transaction_count_threshold :: "int option"
  si_default_global_soft_txn_reset_count :: "int option"
  si_default_gateway_level_elimination_threshold :: "f64 option"
  si_default_elimination_v2_success_rate :: "f64 option"
  si_txn_latency :: "f64 option option"

definition from_elimination_threshold :: "f64 \<Rightarrow> f64 option option \<Rightarrow> gateway_sr_input" where
  "from_elimination_threshold threshold latency =
     \<lparr>si_gateway_wise_inputs = None, si_default_elimination_threshold = threshold,
      si_default_elimination_level = Lvl_PaymentMethod, si_default_selection_level = None,
      si_enabled_payment_method_types = [], si_elimination_v2_success_rate_inputs = None,
      si_global_gateway_wise_inputs = None, si_default_global_elimination_threshold = None,
      si_default_global_elimination_max_count_threshold = None,
      si_default_global_elimination_level = None,
      si_default_global_selection_max_count_threshold = None,
      si_selection_transaction_count_threshold = None,
      si_default_global_soft_txn_reset_count = None,
      si_default_gateway_level_elimination_threshold = None,
      si_default_elimination_v2_success_rate = None, si_txn_latency = latency\<rparr>"

definition default_sr_input :: gateway_sr_input where
  "default_sr_input = from_elimination_threshold (Fin 0) None"

record success_rate1_and_n_config =
  sn_success_rate :: f64
  sn_n_value :: f64
  sn_payment_method_type :: string
  sn_payment_method :: "string option"
  sn_txn_object_type :: "string option"
  sn_gateway_reference_id :: "string option"

record metric_entry =
  me_n_value :: f64
  me_success_rate :: f64
  me_sigma_factor :: f64
  me_average_latency :: f64
  me_tp99_latency :: f64
  me_default_success_threshold :: f64

text \<open>\<open>sr1\<close>, \<open>sr2\<close>, \<open>n\<close>, \<open>n_prime\<close>, the payment method type, method and object type they are for.\<close>

type_synonym sr_values =
  "f64 \<times> f64 \<times> f64 \<times> f64 option \<times> string option \<times> string option \<times> string option \<times> config_source"

section \<open>Inputs by level of detail\<close>

definition filter_inputs_upto_txn_object_type ::
  "string \<Rightarrow> string option \<Rightarrow> string \<Rightarrow> elimination_success_rate_input list \<Rightarrow>
   elimination_success_rate_input option" where
  "filter_inputs_upto_txn_object_type pmt pm txn_obj_type inputs =
     Option.bind pm (\<lambda>pm. find (\<lambda>x.
       ei_payment_method_type x = pmt \<and> ei_payment_method x = Some pm \<and>
       ei_txn_object_type x = Some txn_obj_type) inputs)"

definition filter_inputs_upto_payment_method ::
  "string \<Rightarrow> string option \<Rightarrow> elimination_success_rate_input list \<Rightarrow>
   elimination_success_rate_input option" where
  "filter_inputs_upto_payment_method pmt pm inputs =
     Option.bind pm (\<lambda>pm. find (\<lambda>x.
       ei_payment_method_type x = pmt \<and> ei_payment_method x = Some pm \<and>
       ei_txn_object_type x = None) inputs)"

definition filter_inputs_upto_payment_method_type ::
  "string \<Rightarrow> elimination_success_rate_input list \<Rightarrow> elimination_success_rate_input option" where
  "filter_inputs_upto_payment_method_type pmt inputs =
     find (\<lambda>x. ei_payment_method_type x = pmt \<and> ei_payment_method x = None \<and>
       ei_txn_object_type x = None) inputs"

definition filter_inputs_upto ::
  "filter_level \<Rightarrow> string \<Rightarrow> string option \<Rightarrow> string \<Rightarrow> elimination_success_rate_input list \<Rightarrow>
   elimination_success_rate_input option" where
  "filter_inputs_upto level pmt pm txn_obj_type inputs =
     (case level of
        FL_TxnObjectType \<Rightarrow> filter_inputs_upto_txn_object_type pmt pm txn_obj_type inputs
      | FL_PaymentMethod \<Rightarrow> filter_inputs_upto_payment_method pmt pm inputs
      | FL_PaymentMethodType \<Rightarrow> filter_inputs_upto_payment_method_type pmt inputs)"

definition filter_configs_upto_txn_object_type ::
  "string \<Rightarrow> string option \<Rightarrow> string \<Rightarrow> success_rate1_and_n_config list \<Rightarrow>
   success_rate1_and_n_config option" where
  "filter_configs_upto_txn_object_type pmt pm txn_obj_type configs =
     Option.bind pm (\<lambda>pm. find (\<lambda>x.
       sn_payment_method_type x = pmt \<and> sn_payment_method x = Some pm \<and>
       sn_txn_object_type x = Some txn_obj_type) configs)"

definition filter_configs_upto_payment_method ::
  "string \<Rightarrow> string option \<Rightarrow> success_rate1_and_n_config list \<Rightarrow>
   success_rate1_and_n_config option" where
  "filter_configs_upto_payment_method pmt pm configs =
     Option.bind pm (\<lambda>pm. find (\<lambda>x.
       sn_payment_method_type x = pmt \<and> sn_payment_method x = Some pm \<and>
       sn_txn_object_type x = None) configs)"

definition filter_configs_upto_payment_method_type ::
  "string \<Rightarrow> success_rate1_and_n_config list \<Rightarrow> success_rate1_and_n_config option" where
  "filter_configs_upto_payment_method_type pmt configs =
     find (\<lambda>x. sn_payment_method_type x = pmt \<and> sn_payment_method x = None \<and>
       sn_txn_object_type x = None) configs"

section \<open>Success rates from the service configuration\<close>

definition fetch_sr1_and_n_from_service_config_upto ::
  "filter_level \<Rightarrow> string \<Rightarrow> string option \<Rightarrow> string \<Rightarrow> elimination_success_rate_input list \<Rightarrow>
   success_rate1_and_n_config list \<Rightarrow> sr_values option" where
  "fetch_sr1_and_n_from_service_config_upto level pmt pm txn_obj_type inputs configs =
     (case (filter_inputs_upto level pmt pm txn_obj_type inputs,
            case level of
              FL_TxnObjectType \<Rightarrow> filter_configs_upto_txn_object_type pmt pm txn_obj_type configs
            | FL_PaymentMethod \<Rightarrow> filter_configs_upto_payment_method pmt pm configs
            | FL_PaymentMethodType \<Rightarrow> filter_configs_upto_payment_method_type pmt configs) of
        (Some i, Some c) \<Rightarrow> Some
          (sn_success_rate c, ei_success_rate i, sn_n_value c, None,
           Some (ei_payment_method_type i), ei_payment_method i, ei_txn_object_type i, ServiceConfig)
      | _ \<Rightarrow> None)"

definition filter_using_service_config ::
  "success_rate1_and_n_config list option \<Rightarrow> string \<Rightarrow> string option \<Rightarrow> string \<Rightarrow>
   elimination_success_rate_input list option \<Rightarrow> sr_values option" where
  "filter_using_service_config m_configs pmt pm txn_obj_type inputs =
     (let inputs_vec = unwrap_or inputs []; configs = unwrap_or m_configs [] in
      opt_or (fetch_sr1_and_n_from_service_config_upto FL_TxnObjectType pmt pm txn_obj_type inputs_vec configs)
        (opt_or (fetch_sr1_and_n_from_service_config_upto FL_PaymentMethod pmt pm txn_obj_type inputs_vec configs)
           (fetch_sr1_and_n_from_service_config_upto FL_PaymentMethodType pmt pm txn_obj_type inputs_vec configs)))"

section \<open>Success rates from the metrics in Redis\<close>

definition construct_dimension_key :: "string \<Rightarrow> string option \<Rightarrow> string \<Rightarrow> string option \<Rightarrow> string option" where
  "construct_dimension_key pmt m_pm txn_obj_type card_type =
     (if pmt = ''CARD''
      then Some (txn_obj_type @ ''_'' @ pmt @ ''_'' @ unwrap_or m_pm [] @ ''_'' @ unwrap_or card_type [])
      else Some (txn_obj_type @ ''_'' @ pmt @ ''_'' @ unwrap_or m_pm []))"

definition construct_aggregate_key :: "string \<Rightarrow> string" where
  "construct_aggregate_key merchant_id = ''aggregate_data_'' @ merchant_id"

text \<open>\<open>hget\<close> is the hash lookup of Redis with the JSON of the entry decoded.\<close>

type_synonym metric_hash = "string \<Rightarrow> string \<Rightarrow> metric_entry option"

definition fetch_from_redis :: "metric_hash \<Rightarrow> string \<Rightarrow> string option \<Rightarrow> metric_entry option" where
  "fetch_from_redis hget key dim_key = Option.bind dim_key (hget key)"

definition get_metric_entry_data ::
  "metric_hash \<Rightarrow> string \<Rightarrow> string \<Rightarrow> string option \<Rightarrow> string \<Rightarrow> string option \<Rightarrow> bool \<Rightarrow>
   string option \<Rightarrow> metric_entry option" where
  "get_metric_entry_data hget merchant_id pmt m_pm txn_obj_type card_type gri_enabled reference_id =
     (let aggregate_key = construct_aggregate_key merchant_id;
          dim_key = construct_dimension_key pmt m_pm txn_obj_type card_type in
      if gri_enabled \<and> reference_id \<noteq> None
      then fetch_from_redis hget aggregate_key
             (Some (unwrap_or dim_key [] @ ''_'' @ unwrap_or reference_id []))
      else fetch_from_redis hget aggregate_key dim_key)"

definition filter_using_redis_upto ::
  "metric_hash \<Rightarrow> metric_entry option \<Rightarrow> filter_level \<Rightarrow> string \<Rightarrow> string \<Rightarrow> string option \<Rightarrow>
   string \<Rightarrow> bool \<Rightarrow> string option \<Rightarrow> elimination_success_rate_input list \<Rightarrow> string option \<Rightarrow>
   sr_values option" where
  "filter_using_redis_upto hget m_metric_entry level merchant_id pmt pm txn_obj_type gri_enabled
       reference_id inputs card_type =
     (let m_input = filter_inputs_upto level pmt pm txn_obj_type inputs;
          m_entry = (case m_metric_entry of
            Some entry \<Rightarrow> Some entry
          | None \<Rightarrow> get_metric_entry_data hget merchant_id pmt pm txn_obj_type card_type gri_enabled
              reference_id) in
      case (m_input, m_entry) of
        (Some i, Some e) \<Rightarrow> Some
          (me_success_rate e, ei_success_rate i, me_sigma_factor e, Some (me_n_value e),
           Some (ei_payment_method_type i), ei_payment_method i, ei_txn_object_type i, CS_REDIS)
      | (None, Some e) \<Rightarrow> Some
          (me_success_rate e, me_default_success_threshold e, me_sigma_factor e, Some (me_n_value e),
           Some pmt, pm, Some txn_obj_type, CS_REDIS)
      | _ \<Rightarrow> None)"

definition filter_using_redis ::
  "metric_hash \<Rightarrow> string \<Rightarrow> string \<Rightarrow> string option \<Rightarrow> string \<Rightarrow>
   elimination_success_rate_input list option \<Rightarrow> bool \<Rightarrow> string option \<Rightarrow> sr_values option" where
  "filter_using_redis hget merchant_id pmt pm txn_obj_type inputs gri_enabled reference_id =
     (let inputs_vec = unwrap_or inputs [];
          upto = (\<lambda>level. filter_using_redis_upto hget None level merchant_id pmt pm txn_obj_type
                    gri_enabled reference_id inputs_vec None) in
      opt_or (opt_or (upto FL_TxnObjectType) (upto FL_PaymentMethod)) (upto FL_PaymentMethodType))"

section \<open>The three sources in order\<close>

text \<open>The keyed floats of Redis (\<open>redis\<close>) and the two of the service configuration.\<close>

definition fetch_default_sr1_and_n_and_mk_result ::
  "(string \<Rightarrow> f64 option) \<Rightarrow> f64 option \<Rightarrow> f64 option \<Rightarrow> f64 \<Rightarrow> string \<Rightarrow> sr_values option" where
  "fetch_default_sr1_and_n_and_mk_result redis s_config_sr1 s_config_n sr2 merchant_id =
     (case (redis (''sr1_'' @ merchant_id), redis (''n_'' @ merchant_id)) of
        (Some sr1, Some n) \<Rightarrow> Some (sr1, sr2, n, None, None, None, None, MerchantDefault)
      | _ \<Rightarrow>
          (case (s_config_sr1, s_config_n) of
             (Some sr1, Some n) \<Rightarrow> Some (sr1, sr2, n, None, None, None, None, GlobalDefault)
           | _ \<Rightarrow> None))"

definition fetch_default_sr1_and_sr2_and_n ::
  "(string \<Rightarrow> f64 option) \<Rightarrow> f64 option \<Rightarrow> f64 option \<Rightarrow> gateway_sr_input \<Rightarrow> string \<Rightarrow>
   sr_values option" where
  "fetch_default_sr1_and_sr2_and_n redis s_config_sr1 s_config_n i merchant_id =
     (case si_default_elimination_v2_success_rate i of
        Some sr2 \<Rightarrow> fetch_default_sr1_and_n_and_mk_result redis s_config_sr1 s_config_n sr2 merchant_id
      | None \<Rightarrow> None)"

text \<open>What the lookups read, gathered for one merchant.\<close>

record sr_sources =
  src_hget :: metric_hash
  src_configs :: "success_rate1_and_n_config list option"
  src_redis :: "string \<Rightarrow> f64 option"
  src_config_sr1 :: "f64 option"
  src_config_n :: "f64 option"

definition get_sr1_and_sr2_and_n ::
  "sr_sources \<Rightarrow> gateway_sr_input option \<Rightarrow> string \<Rightarrow> txn_card_info \<Rightarrow> txn_detail \<Rightarrow> bool \<Rightarrow>
   string option \<Rightarrow> sr_values option" where
  "get_sr1_and_sr2_and_n S m_input merchant_id info txn gri_enabled reference_id =
     (let pmt = tci_payment_method_type info;
          pm = (if tci_payment_method_type info = ''UPI'' then td_source_object txn
                else Some (tci_payment_method info)) in
      case td_txn_object_type txn of
        None \<Rightarrow> None
      | Some obj_type \<Rightarrow>
          (let txn_obj_type = txn_object_type_to_text obj_type in
           case m_input of
             None \<Rightarrow> filter_using_redis (src_hget S) merchant_id pmt pm txn_obj_type None gri_enabled
                       reference_id
           | Some i \<Rightarrow>
               (let inputs = si_elimination_v2_success_rate_inputs i in
                case filter_using_redis (src_hget S) merchant_id pmt pm txn_obj_type inputs gri_enabled
                       reference_id of
                  Some r \<Rightarrow> Some r
                | None \<Rightarrow>
                    (case filter_using_service_config (src_configs S) pmt pm txn_obj_type inputs of
                       Some r \<Rightarrow> Some r
                     | None \<Rightarrow> fetch_default_sr1_and_sr2_and_n (src_redis S) (src_config_sr1 S)
                                 (src_config_n S) i merchant_id))))"

section \<open>Thresholds and factors\<close>

definition v2_threshold :: "f64 \<Rightarrow> f64 \<Rightarrow> f64" where
  "v2_threshold sr1 sr2 =
     fdiv (fadd (fmul (f64_of_rat (29 / 100)) sr1) (fmul (f64_of_rat (71 / 100)) sr2)) (Fin 100)"

definition get_elimination_v2_threshold ::
  "sr_sources \<Rightarrow> gateway_sr_input option \<Rightarrow> string \<Rightarrow> txn_card_info \<Rightarrow> txn_detail \<Rightarrow> bool \<Rightarrow>
   string option \<Rightarrow> f64 option" where
  "get_elimination_v2_threshold S m_input merchant_id info txn gri_enabled reference_id =
     map_option (\<lambda>(sr1, sr2, _). v2_threshold sr1 sr2)
       (get_sr1_and_sr2_and_n S m_input merchant_id info txn gri_enabled reference_id)"

definition calculate_alpha ::
  "(f64 \<Rightarrow> f64 \<Rightarrow> f64) \<Rightarrow> f64 \<Rightarrow> f64 \<Rightarrow> f64 \<Rightarrow> f64 option \<Rightarrow> f64" where
  "calculate_alpha powf sr1 sr2 n n_prime =
     (let val1 = fdiv (fmul (fsub sr1 sr2) (fsub sr1 sr2))
                   (fmul (fmul n n) (fmul sr1 (fsub (Fin 100) sr1))) in
      case n_prime of
        None \<Rightarrow> val1
      | Some n_val \<Rightarrow>
          (let val2 = powf (fdiv (v2_threshold sr1 sr2) (fdiv sr1 (Fin 100))) (fdiv (Fin 1) n_val)
           in fmin val1 val2))"

definition eliminationV2RewardFactor ::
  "(f64 \<Rightarrow> f64 \<Rightarrow> f64) \<Rightarrow> sr_sources \<Rightarrow> gateway_sr_input option \<Rightarrow> string \<Rightarrow> txn_card_info \<Rightarrow>
   txn_detail \<Rightarrow> bool \<Rightarrow> string option \<Rightarrow> f64 option" where
  "eliminationV2RewardFactor powf S m_input merchant_id info txn gri_enabled reference_id =
     map_option (\<lambda>(sr1, sr2, n, n', _). calculate_alpha powf sr1 sr2 n n')
       (get_sr1_and_sr2_and_n S m_input merchant_id info txn gri_enabled reference_id)"

end
