(* ===== verification/Score_Store.thy ===== *)
theory Score_Store
  imports Txn_Types
begin

text \<open>
  The scores of gateway elimination as JSON documents in Redis: the record the feedback path
  writes (\<open>CachedGatewayScore\<close> of \<open>src/src/feedback/types.rs\<close>) and the ones the decision path
  reads and writes (\<open>GatewayScore\<close>, \<open>GlobalGatewayScore\<close> of
  \<open>src/src/types/gateway_routing_input.rs\<close>), with the encoding their serde derivations stand for,
  and the two calls on the store: \<open>GET\<close> and \<open>SET .. EX\<close> with a time to live in seconds. The store is a
  parameter; \<open>store_documented\<close> states what Redis documents of it, \<open>mem_store\<close> satisfies it. The
  clock is in milliseconds.
\<close>

section \<open>The records\<close>

record merchant_scoring_details =
  msd_merchant_id :: string
  msd_transaction_count :: int
  msd_score :: f64
  msd_last_reset_timestamp :: int

record cached_gateway_score =
  cg_merchants :: "merchant_scoring_details list option"
  cg_score :: "f64 option"
  cg_timestamp :: nat
  cg_last_reset_timestamp :: "nat option"
  cg_transaction_count :: "int option"

record gateway_score =
  gs_timestamp :: int
  gs_score :: f64
  gs_transaction_count :: int
  gs_last_reset_timestamp :: int

record global_score =
  gl_transaction_count :: int
  gl_score :: f64
  gl_merchant_id :: string

record global_gateway_score =
  gg_timestamp :: int
  gg_merchants :: "global_score list"

section \<open>Documents\<close>

text \<open>A number that is not finite is written as \<open>null\<close>; an absent optional field reads as none.\<close>

fun json_of_f64 :: "f64 \<Rightarrow> json" where
  "json_of_f64 (Fin x) = JFloat (Fin x)"
| "json_of_f64 _ = JNull"

definition json_of_opt :: "('a \<Rightarrow> json) \<Rightarrow> 'a option \<Rightarrow> json" where
  "json_of_opt f a = (case a of None \<Rightarrow> JNull | Some x \<Rightarrow> f x)"

fun f64_of_json :: "json \<Rightarrow> f64 option" where
  "f64_of_json (JFloat x) = Some x"
| "f64_of_json (JInt i) = Some (f64_of_int i)"
| "f64_of_json _ = None"

fun str_of_json :: "json \<Rightarrow> string option" where
  "str_of_json (JStr s) = Some s"
| "str_of_json _ = None"

fun int_of_json :: "int \<Rightarrow> int \<Rightarrow> json \<Rightarrow> int option" where
  "int_of_json lo hi (JInt i) = (if lo \<le> i \<and> i \<le> hi then Some i else None)"
| "int_of_json lo hi _ = None"

abbreviation i32_of_json :: "json \<Rightarrow> int option" where
  "i32_of_json \<equiv> int_of_json (- (2 ^ 31)) (2 ^ 31 - 1)"

abbreviation i64_of_json :: "json \<Rightarrow> int option" where
  "i64_of_json \<equiv> int_of_json (- (2 ^ 63)) (2 ^ 63 - 1)"

definition u128_of_json :: "json \<Rightarrow> nat option" where
  "u128_of_json j = map_option nat (int_of_json 0 (2 ^ 128 - 1) j)"

fun list_of_json :: "(json \<Rightarrow> 'a option) \<Rightarrow> json \<Rightarrow> 'a list option" where
  "list_of_json f (JArr js) = those (map f js)"
| "list_of_json f _ = None"

text \<open>A field that must be there, and one that may be missing or \<open>null\<close>.\<close>

fun req_field :: "(json \<Rightarrow> 'a option) \<Rightarrow> string \<Rightarrow> json \<Rightarrow> 'a option" where
  "req_field f k (JObj fs) = Option.bind (map_of fs k) f"
| "req_field f k _ = None"

fun opt_field_of :: "(json \<Rightarrow> 'a option) \<Rightarrow> string \<Rightarrow> json \<Rightarrow> 'a option option" where
  "opt_field_of f k (JObj fs) =
     (case map_of fs k of None \<Rightarrow> Some None | Some JNull \<Rightarrow> Some None | Some j \<Rightarrow> map_option Some (f j))"
| "opt_field_of f k _ = None"

definition json_of_msd :: "merchant_scoring_details \<Rightarrow> json" where
  "json_of_msd m = JObj
     [(''merchantId'', JStr (msd_merchant_id m)),
      (''transactionCount'', JInt (msd_transaction_count m)),
      (''score'', json_of_f64 (msd_score m)),
      (''lastResetTimestamp'', JInt (msd_last_reset_timestamp m))]"

definition msd_of_json :: "json \<Rightarrow> merchant_scoring_details option" where
  "msd_of_json j =
     Option.bind (req_field str_of_json ''merchantId'' j) (\<lambda>m.
     Option.bind (req_field i32_of_json ''transactionCount'' j) (\<lambda>c.
     Option.bind (req_field f64_of_json ''score'' j) (\<lambda>s.
     Option.bind (req_field i32_of_json ''lastResetTimestamp'' j) (\<lambda>l.
       Some \<lparr>msd_merchant_id = m, msd_transaction_count = c, msd_score = s,
             msd_last_reset_timestamp = l\<rparr>))))"

definition json_of_cached :: "cached_gateway_score \<Rightarrow> json" where
  "json_of_cached c = JObj
     [(''merchants'', json_of_opt (\<lambda>ms. JArr (map json_of_msd ms)) (cg_merchants c)),
      (''score'', json_of_opt json_of_f64 (cg_score c)),
      (''timestamp'', JInt (int (cg_timestamp c))),
      (''lastResetTimestamp'', json_of_opt (\<lambda>n. JInt (int n)) (cg_last_reset_timestamp c)),
      (''transactionCount'', json_of_opt JInt (cg_transaction_count c))]"

definition cached_of_json :: "json \<Rightarrow> cached_gateway_score option" where
  "cached_of_json j =
     Option.bind (opt_field_of (list_of_json msd_of_json) ''merchants'' j) (\<lambda>m.
     Option.bind (opt_field_of f64_of_json ''score'' j) (\<lambda>s.
     Option.bind (req_field u128_of_json ''timestamp'' j) (\<lambda>t.
     Option.bind (opt_field_of u128_of_json ''lastResetTimestamp'' j) (\<lambda>l.
     Option.bind (opt_field_of i32_of_json ''transactionCount'' j) (\<lambda>c.
       Some \<lparr>cg_merchants = m, cg_score = s, cg_timestamp = t, cg_last_reset_timestamp = l,
             cg_transaction_count = c\<rparr>)))))"

definition json_of_score :: "gateway_score \<Rightarrow> json" where
  "json_of_score g = JObj
     [(''timestamp'', JInt (gs_timestamp g)),
      (''score'', json_of_f64 (gs_score g)),
      (''transactionCount'', JInt (gs_transaction_count g)),
      (''lastResetTimestamp'', JInt (gs_last_reset_timestamp g))]"

definition score_of_json :: "json \<Rightarrow> gateway_score option" where
  "score_of_json j =
     Option.bind (req_field i64_of_json ''timestamp'' j) (\<lambda>t.
     Option.bind (req_field f64_of_json ''score'' j) (\<lambda>s.
     Option.bind (req_field i64_of_json ''transactionCount'' j) (\<lambda>c.
     Option.bind (req_field i64_of_json ''lastResetTimestamp'' j) (\<lambda>l.
       Some \<lparr>gs_timestamp = t, gs_score = s, gs_transaction_count = c,
             gs_last_reset_timestamp = l\<rparr>))))"

definition global_score_of_json :: "json \<Rightarrow> global_score option" where
  "global_score_of_json j =
     Option.bind (req_field i64_of_json ''transactionCount'' j) (\<lambda>c.
     Option.bind (req_field f64_of_json ''score'' j) (\<lambda>s.
     Option.bind (req_field str_of_json ''merchantId'' j) (\<lambda>m.
       Some \<lparr>gl_transaction_count = c, gl_score = s, gl_merchant_id = m\<rparr>)))"

definition global_gateway_score_of_json :: "json \<Rightarrow> global_gateway_score option" where
  "global_gateway_score_of_json j =
     Option.bind (req_field i64_of_json ''timestamp'' j) (\<lambda>t.
     Option.bind (req_field (list_of_json global_score_of_json) ''merchants'' j) (\<lambda>m.
       Some \<lparr>gg_timestamp = t, gg_merchants = m\<rparr>))"

section \<open>The store\<close>

record 's score_store =
  ss_get :: "'s \<Rightarrow> nat \<Rightarrow> string \<Rightarrow> json option"
  ss_setx :: "string \<Rightarrow> json \<Rightarrow> int \<Rightarrow> nat \<Rightarrow> 's \<Rightarrow> 's option"

text \<open>
  A write is refused (\<open>None\<close>) or takes effect at once and until its time to live is over; keys do
  not influence one another.
\<close>

definition store_documented :: "'s score_store \<Rightarrow> bool" where
  "store_documented S \<longleftrightarrow>
     (\<forall>k j ttl t s s'. ss_setx S k j ttl t s = Some s' \<longrightarrow>
        (\<forall>k' t'. t \<le> t' \<longrightarrow> ss_get S s' t' k' =
           (if k' = k then (if int t' < int t + 1000 * ttl then Some j else None)
            else ss_get S s t' k')))"

lemma documented_setx:
  "store_documented S \<Longrightarrow> ss_setx S k j ttl t s = Some s' \<Longrightarrow> t \<le> t' \<Longrightarrow>
     ss_get S s' t' k' =
       (if k' = k then (if int t' < int t + 1000 * ttl then Some j else None) else ss_get S s t' k')"
  by (simp add: store_documented_def)

definition mem_store :: "(string \<Rightarrow> (json \<times> int) option) score_store" where
  "mem_store =
     \<lparr>ss_get = (\<lambda>s now k. case s k of
        None \<Rightarrow> None | Some (j, until) \<Rightarrow> if int now < until then Some j else None),
      ss_setx = (\<lambda>k j ttl now s. if 0 < ttl then Some (s(k \<mapsto> (j, int now + 1000 * ttl))) else None)\<rparr>"

lemma mem_store_documented: "store_documented mem_store"
  by (auto simp: store_documented_def mem_store_def split: if_splits)

section \<open>Reading back\<close>

definition msd_ok :: "merchant_scoring_details \<Rightarrow> bool" where
  "msd_ok m \<longleftrightarrow> is_finite (msd_score m) \<and> - (2 ^ 31) \<le> msd_transaction_count m \<and>
     msd_transaction_count m \<le> 2 ^ 31 - 1 \<and> - (2 ^ 31) \<le> msd_last_reset_timestamp m \<and>
     msd_last_reset_timestamp m \<le> 2 ^ 31 - 1"

definition cached_ok :: "cached_gateway_score \<Rightarrow> bool" where
  "cached_ok c \<longleftrightarrow>
     (case cg_merchants c of None \<Rightarrow> True | Some ms \<Rightarrow> list_all msd_ok ms) \<and>
     (case cg_score c of None \<Rightarrow> True | Some x \<Rightarrow> is_finite x) \<and> cg_timestamp c < 2 ^ 63 \<and>
     (case cg_last_reset_timestamp c of None \<Rightarrow> True | Some n \<Rightarrow> n < 2 ^ 63) \<and>
     (case cg_transaction_count c of None \<Rightarrow> True | Some i \<Rightarrow> - (2 ^ 31) \<le> i \<and> i \<le> 2 ^ 31 - 1)"

lemma json_of_finite: "is_finite x \<Longrightarrow> json_of_f64 x = JFloat x"
  by (cases x) auto

lemma those_map_Some: "list_all (\<lambda>x. f (g x) = Some x) xs \<Longrightarrow> those (map (f \<circ> g) xs) = Some xs"
  by (induction xs) auto

lemma msd_roundtrip: "msd_ok m \<Longrightarrow> msd_of_json (json_of_msd m) = Some m"
  by (cases m) (simp add: msd_ok_def json_of_msd_def msd_of_json_def json_of_finite)

lemma msds_roundtrip:
  "list_all msd_ok ms \<Longrightarrow> list_of_json msd_of_json (JArr (map json_of_msd ms)) = Some ms"
  using those_map_Some [of msd_of_json json_of_msd ms]
  by (simp add: list_all_iff msd_roundtrip)

lemma opt_field_roundtrip:
  assumes "map_of fs k = Some (json_of_opt g a)" "\<And>x. a = Some x \<Longrightarrow> f (g x) = Some x \<and> g x \<noteq> JNull"
  shows "opt_field_of f k (JObj fs) = Some a"
proof (cases a)
  case (Some x)
  with assms show ?thesis by (cases "g x") (auto simp: json_of_opt_def)
qed (use assms in \<open>simp add: json_of_opt_def\<close>)

lemma cached_roundtrip:
  assumes "cached_ok c"
  shows "cached_of_json (json_of_cached c) = Some c"
proof -
  note ok = assms [unfolded cached_ok_def]
  have m: "opt_field_of (list_of_json msd_of_json) ''merchants'' (json_of_cached c) = Some (cg_merchants c)"
    unfolding json_of_cached_def
    by (rule opt_field_roundtrip) (use ok in \<open>auto simp: msds_roundtrip simp del: list_of_json.simps\<close>)
  have s: "opt_field_of f64_of_json ''score'' (json_of_cached c) = Some (cg_score c)"
    unfolding json_of_cached_def
    by (rule opt_field_roundtrip) (use ok in \<open>auto simp: json_of_finite\<close>)
  have l: "opt_field_of u128_of_json ''lastResetTimestamp'' (json_of_cached c) =
      Some (cg_last_reset_timestamp c)"
    unfolding json_of_cached_def
    by (rule opt_field_roundtrip) (use ok in \<open>auto simp: u128_of_json_def\<close>)
  have n: "opt_field_of i32_of_json ''transactionCount'' (json_of_cached c) =
      Some (cg_transaction_count c)"
    unfolding json_of_cached_def by (rule opt_field_roundtrip) (use ok in auto)
  have t: "req_field u128_of_json ''timestamp'' (json_of_cached c) = Some (cg_timestamp c)"
    using ok by (simp add: json_of_cached_def u128_of_json_def)
  show ?thesis by (cases c) (use m s l n t in \<open>simp add: cached_of_json_def\<close>)
qed

text \<open>What the decision path sees of a score the feedback path wrote.\<close>

lemma score_of_cached:
  assumes "cached_ok c" "cg_score c = Some x" "cg_last_reset_timestamp c = Some l"
    "cg_transaction_count c = Some n"
  shows "score_of_json (json_of_cached c) =
    Some \<lparr>gs_timestamp = int (cg_timestamp c), gs_score = x, gs_transaction_count = n,
          gs_last_reset_timestamp = int l\<rparr>"
  using assms by (simp add: cached_ok_def json_of_cached_def score_of_json_def json_of_opt_def json_of_finite)

definition score_ok :: "gateway_score \<Rightarrow> bool" where
  "score_ok g \<longleftrightarrow> is_finite (gs_score g) \<and> 0 \<le> gs_timestamp g \<and> gs_timestamp g \<le> 2 ^ 63 - 1 \<and>
     0 \<le> gs_last_reset_timestamp g \<and> gs_last_reset_timestamp g \<le> 2 ^ 63 - 1 \<and>
     - (2 ^ 31) \<le> gs_transaction_count g \<and> gs_transaction_count g \<le> 2 ^ 31 - 1"

lemma score_roundtrip: "score_ok g \<Longrightarrow> score_of_json (json_of_score g) = Some g"
  by (cases g) (simp add: score_ok_def json_of_score_def score_of_json_def json_of_finite)

lemma cached_of_score:
  "score_ok g \<Longrightarrow> cached_of_json (json_of_score g) =
     Some \<lparr>cg_merchants = None, cg_score = Some (gs_score g), cg_timestamp = nat (gs_timestamp g),
           cg_last_reset_timestamp = Some (nat (gs_last_reset_timestamp g)),
           cg_transaction_count = Some (gs_transaction_count g)\<rparr>"
  by (cases g) (simp add: score_ok_def json_of_score_def cached_of_json_def json_of_finite u128_of_json_def)

end
