(* ===== verification/Elim_Feedback.thy ===== *)
theory Elim_Feedback
  imports Elim_Config Score_Store Sr_Score
begin

text \<open>
  The elimination scores a feedback updates
  (\<open>src/src/feedback/gateway_elimination_scoring/flow.rs\<close>): a failure lowers the score of a
  gateway by the penalty factor, a success raises it by the reward factor, and the score is kept
  per merchant or, for the platform, in an array with one score per merchant. The build is the
  release one: unsigned subtraction and the counters wrap. Locks, metrics and logging are left
  out, and the merchant's input arrives decoded.
\<close>

definition u128_sub :: "nat \<Rightarrow> nat \<Rightarrow> nat" where
  "u128_sub a b = (if b \<le> a then a - b else a + 2 ^ 128 - b)"

definition wrap_i32 :: "int \<Rightarrow> int" where
  "wrap_i32 i = (i + 2 ^ 31) mod 2 ^ 32 - 2 ^ 31"

fun f64_as_u128 :: "f64 \<Rightarrow> nat" where
  "f64_as_u128 (Fin x) = (if x \<le> 0 then 0 else min (nat \<lfloor>x\<rfloor>) (2 ^ 128 - 1))"
| "f64_as_u128 PInf = 2 ^ 128 - 1"
| "f64_as_u128 _ = 0"

definition nat_as_i64 :: "nat \<Rightarrow> int" where
  "nat_as_i64 n = (int n + 2 ^ 63) mod 2 ^ 64 - 2 ^ 63"

text \<open>The values of the service configuration this component reads, by key, and its two features.\<close>

record score_config =
  sc_minimum_gateway_score :: "f64 option"
  sc_gateway_penalty_factor :: "f64 option"
  sc_outage_penalty_factor :: "f64 option"
  sc_gateway_reward_factor :: "f64 option"
  sc_outage_reward_factor :: "f64 option"
  sc_merchant_arr_max_length :: "int option"
  sc_global_outage_ttl :: "f64 option"
  sc_outage_ttl :: "f64 option"
  sc_global_ttl :: "f64 option"
  sc_third_dimension_ttl :: "f64 option"
  sc_elimination_v2 :: "string \<Rightarrow> bool"
  sc_outage_v2 :: "string \<Rightarrow> bool"

record elim_env =
  ev_powf :: "f64 \<Rightarrow> f64 \<Rightarrow> f64"
  ev_sources :: sr_sources
  ev_merchant_input :: "gateway_sr_input option"
  ev_config :: score_config

section \<open>Keys, factors and lifetimes\<close>

definition isGlobalKey :: "score_key_type \<Rightarrow> bool" where
  "isGlobalKey k \<longleftrightarrow> k = EliminationGlobalKey \<or> k = OutageGlobalKey"

definition isKeyOutage :: "score_key_type \<Rightarrow> bool" where
  "isKeyOutage k \<longleftrightarrow> k = OutageGlobalKey \<or> k = OutageMerchantKey"

definition defaultGWScoringRewardFactor :: f64 where
  "defaultGWScoringRewardFactor = f64_of_rat (526 / 100)"

definition defaultGWScoringPenaltyFactor :: f64 where
  "defaultGWScoringPenaltyFactor = Fin 5"

definition defaultScoreKeysTTL :: nat where "defaultScoreKeysTTL = 9000000"

definition defaultScoreGlobalKeysTTL :: nat where "defaultScoreGlobalKeysTTL = 1800000"

definition defaultMinimumGatewayScore :: f64 where "defaultMinimumGatewayScore = Fin 0"

definition defaultMerchantArrMaxLength :: int where "defaultMerchantArrMaxLength = 40"

definition getPenaltyFactor :: "score_config \<Rightarrow> score_key_type \<Rightarrow> f64" where
  "getPenaltyFactor C k =
     (if isKeyOutage k then unwrap_or (sc_outage_penalty_factor C) defaultGWScoringPenaltyFactor
      else unwrap_or (sc_gateway_penalty_factor C) defaultGWScoringPenaltyFactor)"

definition getRewardFactor :: "score_config \<Rightarrow> score_key_type \<Rightarrow> f64" where
  "getRewardFactor C k =
     (if isKeyOutage k then unwrap_or (sc_outage_reward_factor C) defaultGWScoringRewardFactor
      else unwrap_or (sc_outage_reward_factor C) defaultGWScoringRewardFactor)"

definition getDefaultTTL :: "score_key_type \<Rightarrow> nat" where
  "getDefaultTTL k = (if isGlobalKey k then defaultScoreGlobalKeysTTL else defaultScoreKeysTTL)"

definition getTTLForKey :: "score_config \<Rightarrow> score_key_type \<Rightarrow> nat" where
  "getTTLForKey C k =
     (let key = (case (isGlobalKey k, isKeyOutage k) of
            (True, True) \<Rightarrow> sc_global_outage_ttl C
          | (False, True) \<Rightarrow> sc_outage_ttl C
          | (True, False) \<Rightarrow> sc_global_ttl C
          | _ \<Rightarrow> sc_third_dimension_ttl C)
      in case key of None \<Rightarrow> getDefaultTTL k | Some ttl \<Rightarrow> f64_as_u128 (ffloor ttl))"

definition getMerchantArrMaxLength :: "score_config \<Rightarrow> int" where
  "getMerchantArrMaxLength C = unwrap_or (sc_merchant_arr_max_length C) defaultMerchantArrMaxLength"

section \<open>One score\<close>

definition getSuccessKeyScore :: "bool \<Rightarrow> f64 \<Rightarrow> f64 \<Rightarrow> f64" where
  "getSuccessKeyScore use_elimination_v2 current_score reward_factor =
     (let score =
        (if use_elimination_v2 then fadd current_score reward_factor
         else fadd current_score (fmul current_score (fdiv reward_factor (Fin 100))))
      in if flt (Fin 1) score then Fin 1 else score)"

definition getFailureKeyScore :: "score_config \<Rightarrow> bool \<Rightarrow> f64 \<Rightarrow> f64 \<Rightarrow> f64" where
  "getFailureKeyScore C use_elimination_v2 current_score penalty_factor =
     (let minimum_failure_score = unwrap_or (sc_minimum_gateway_score C) defaultMinimumGatewayScore;
          score =
            (if use_elimination_v2 then fmul current_score penalty_factor
             else fsub current_score (fmul current_score (fdiv penalty_factor (Fin 100))))
      in if flt score minimum_failure_score then minimum_failure_score else score)"

definition reward_factor_v2 ::
  "elim_env \<Rightarrow> string \<Rightarrow> txn_card_info \<Rightarrow> txn_detail \<Rightarrow> gateway_scoring_data \<Rightarrow> f64 option" where
  "reward_factor_v2 E merchant_id info txn gsd =
     eliminationV2RewardFactor (ev_powf E) (ev_sources E) (ev_merchant_input E) merchant_id info txn
       (gsd_is_gri_enabled_for_elimination gsd) (gsd_gateway_reference_id gsd)"

definition updateScoreWithPenalty ::
  "elim_env \<Rightarrow> bool \<Rightarrow> bool \<Rightarrow> bool \<Rightarrow> string \<Rightarrow> txn_card_info \<Rightarrow> txn_detail \<Rightarrow> f64 \<Rightarrow>
   score_key_type \<Rightarrow> gateway_scoring_data \<Rightarrow> f64" where
  "updateScoreWithPenalty E v2 is_outage_key outage_v2 merchant_id info txn current_key_score k gsd =
     (case (v2, is_outage_key, outage_v2) of
        (True, _, _) \<Rightarrow>
          (case reward_factor_v2 E merchant_id info txn gsd of
             None \<Rightarrow> getFailureKeyScore (ev_config E) False current_key_score (getPenaltyFactor (ev_config E) k)
           | Some factor \<Rightarrow> getFailureKeyScore (ev_config E) True current_key_score (fsub (Fin 1) factor))
      | _ \<Rightarrow> getFailureKeyScore (ev_config E) False current_key_score (getPenaltyFactor (ev_config E) k))"

definition updateScoreWithReward ::
  "elim_env \<Rightarrow> bool \<Rightarrow> bool \<Rightarrow> bool \<Rightarrow> string \<Rightarrow> txn_card_info \<Rightarrow> txn_detail \<Rightarrow> f64 \<Rightarrow>
   score_key_type \<Rightarrow> gateway_scoring_data \<Rightarrow> f64" where
  "updateScoreWithReward E v2 is_outage_key outage_v2 merchant_id info txn current_key_score k gsd =
     (case (v2, is_outage_key, outage_v2) of
        (True, _, _) \<Rightarrow>
          (case reward_factor_v2 E merchant_id info txn gsd of
             None \<Rightarrow> getSuccessKeyScore False current_key_score (getRewardFactor (ev_config E) k)
           | Some factor \<Rightarrow> getSuccessKeyScore True current_key_score factor)
      | _ \<Rightarrow> getSuccessKeyScore False current_key_score (getRewardFactor (ev_config E) k))"

definition updateKeyScoreForTxnStatus ::
  "elim_env \<Rightarrow> txn_detail \<Rightarrow> txn_card_info \<Rightarrow> string \<Rightarrow> gateway_scoring_type \<Rightarrow> f64 \<Rightarrow>
   score_key_type \<Rightarrow> gateway_scoring_data \<Rightarrow> f64" where
  "updateKeyScoreForTxnStatus E txn info merchant_id ty current_key_score k gsd =
     (let v2 = sc_elimination_v2 (ev_config E) merchant_id;
          outage_v2 = sc_outage_v2 (ev_config E) merchant_id;
          is_outage_key = isKeyOutage k in
      case ty of
        Penalise \<Rightarrow>
          updateScoreWithPenalty E v2 is_outage_key outage_v2 merchant_id info txn current_key_score k gsd
      | Reward \<Rightarrow>
          updateScoreWithReward E v2 is_outage_key outage_v2 merchant_id info txn current_key_score k gsd
      | _ \<Rightarrow> current_key_score)"

section \<open>A cached score\<close>

definition getTransactionCount ::
  "int option \<Rightarrow> score_key_type \<Rightarrow> gateway_scoring_type \<Rightarrow> int option" where
  "getTransactionCount previous k ty =
     (if isGlobalKey k then None
      else (case previous of
              None \<Rightarrow> Some 1
            | Some n \<Rightarrow> Some (if ty = Penalise then wrap_i32 (n + 1) else n)))"

definition getDefaultMerchantScoringDetailsArray ::
  "nat \<Rightarrow> string \<Rightarrow> f64 \<Rightarrow> int \<Rightarrow> int option \<Rightarrow> merchant_scoring_details" where
  "getDefaultMerchantScoringDetailsArray now merchant_id score n m_last_reset =
     \<lparr>msd_merchant_id = merchant_id, msd_transaction_count = n, msd_score = score,
      msd_last_reset_timestamp = unwrap_or m_last_reset (wrap_i32 (int now))\<rparr>"

definition getNewCachedGatewayScore ::
  "nat \<Rightarrow> score_key_type \<Rightarrow> txn_detail \<Rightarrow> cached_gateway_score" where
  "getNewCachedGatewayScore now k txn =
     (if isGlobalKey k
      then \<lparr>cg_merchants =
              Some [getDefaultMerchantScoringDetailsArray now (td_merchant_id txn) (Fin 1) 0 None],
            cg_score = None, cg_timestamp = now, cg_last_reset_timestamp = None,
            cg_transaction_count = None\<rparr>
      else \<lparr>cg_merchants = None, cg_score = Some (Fin 1), cg_timestamp = now,
            cg_last_reset_timestamp = Some now, cg_transaction_count = Some 0\<rparr>)"

definition findMerchantFromMerchantArray ::
  "string \<Rightarrow> merchant_scoring_details list \<Rightarrow> merchant_scoring_details list" where
  "findMerchantFromMerchantArray merchant_id ms = filter (\<lambda>m. msd_merchant_id m = merchant_id) ms"

definition replaceTransactionCount ::
  "elim_env \<Rightarrow> txn_detail \<Rightarrow> txn_card_info \<Rightarrow> gateway_scoring_type \<Rightarrow> score_key_type \<Rightarrow>
   gateway_scoring_data \<Rightarrow> merchant_scoring_details \<Rightarrow> merchant_scoring_details" where
  "replaceTransactionCount E txn info ty k gsd m =
     (if msd_merchant_id m = td_merchant_id txn
      then m\<lparr>msd_score := updateKeyScoreForTxnStatus E txn info (msd_merchant_id m) ty (msd_score m) k gsd,
             msd_transaction_count :=
               (if ty = Penalise then wrap_i32 (msd_transaction_count m + 1)
                else msd_transaction_count m)\<rparr>
      else m)"

definition getUpdatedMerchantDetailsForGlobalKey ::
  "elim_env \<Rightarrow> nat \<Rightarrow> cached_gateway_score \<Rightarrow> score_key_type \<Rightarrow> gateway_scoring_type \<Rightarrow>
   txn_detail \<Rightarrow> txn_card_info \<Rightarrow> gateway_scoring_data \<Rightarrow> merchant_scoring_details list option" where
  "getUpdatedMerchantDetailsForGlobalKey E now c k ty txn info gsd =
     (let merchant_id = td_merchant_id txn in
      if isGlobalKey k then
        (case cg_merchants c of
           Some ms \<Rightarrow>
             if findMerchantFromMerchantArray merchant_id ms = [] then
               (if int (length ms) \<ge> getMerchantArrMaxLength (ev_config E) then Some ms
                else Some (ms @ [getDefaultMerchantScoringDetailsArray now merchant_id (Fin 1) 1 None]))
             else Some (map (replaceTransactionCount E txn info ty k gsd) ms)
         | None \<Rightarrow> Some [getDefaultMerchantScoringDetailsArray now merchant_id (Fin 1) 1 None])
      else None)"

definition updated_cached_score ::
  "elim_env \<Rightarrow> nat \<Rightarrow> cached_gateway_score \<Rightarrow> score_key_type \<Rightarrow> gateway_scoring_type \<Rightarrow>
   txn_detail \<Rightarrow> txn_card_info \<Rightarrow> gateway_scoring_data \<Rightarrow> cached_gateway_score" where
  "updated_cached_score E now c k ty txn info gsd =
     \<lparr>cg_merchants = getUpdatedMerchantDetailsForGlobalKey E now c k ty txn info gsd,
      cg_score = map_option
        (\<lambda>score. updateKeyScoreForTxnStatus E txn info (td_merchant_id txn) ty score k gsd) (cg_score c),
      cg_timestamp = cg_timestamp c,
      cg_last_reset_timestamp = cg_last_reset_timestamp c,
      cg_transaction_count = getTransactionCount (cg_transaction_count c) k ty\<rparr>"

section \<open>A feedback\<close>

definition readGatewayScoreFromRedis :: "'s score_store \<Rightarrow> nat \<Rightarrow> string \<Rightarrow> 's \<Rightarrow> cached_gateway_score option" where
  "readGatewayScoreFromRedis S now key s = Option.bind (ss_get S s now key) cached_of_json"

definition score_to_be_updated ::
  "cached_gateway_score option \<Rightarrow> nat \<Rightarrow> nat \<Rightarrow> score_key_type \<Rightarrow> txn_detail \<Rightarrow> cached_gateway_score" where
  "score_to_be_updated m_cached now hard_ttl k txn =
     (case m_cached of
        None \<Rightarrow> getNewCachedGatewayScore now k txn
      | Some c \<Rightarrow>
          if u128_sub now (cg_timestamp c) > u128_sub hard_ttl 1000
          then getNewCachedGatewayScore now k txn else c)"

definition safe_remaining_ttl :: "nat \<Rightarrow> nat \<Rightarrow> nat \<Rightarrow> int" where
  "safe_remaining_ttl now timestamp hard_ttl =
     (let remaining = hard_ttl - (now - timestamp) in
      if remaining < 1000 then nat_as_i64 hard_ttl else nat_as_i64 remaining)"

definition updateKeyScoreForKeysFromConsumer ::
  "'s score_store \<Rightarrow> elim_env \<Rightarrow> nat \<Rightarrow> txn_detail \<Rightarrow> txn_card_info \<Rightarrow> gateway_scoring_type \<Rightarrow>
   gateway_scoring_data \<Rightarrow> score_key_type \<times> string option \<Rightarrow> 's \<Rightarrow>
   ((score_key_type \<times> string) \<times> cached_gateway_score) option \<times> 's" where
  "updateKeyScoreForKeysFromConsumer S E now txn info ty gsd gateway_scoring_key s =
     (case gateway_scoring_key of
        (k, Some key) \<Rightarrow>
          (let hard_ttl = getTTLForKey (ev_config E) k;
               c = score_to_be_updated (readGatewayScoreFromRedis S now key s) now hard_ttl k txn;
               c' = updated_cached_score E now c k ty txn info gsd;
               s' = (case ss_setx S key (json_of_cached c')
                          (safe_remaining_ttl now (cg_timestamp c') hard_ttl) now s of
                       Some s' \<Rightarrow> s' | None \<Rightarrow> s)
           in (Some ((k, key), c'), s'))
      | (_, None) \<Rightarrow> (None, s))"

text \<open>
  The keys of a transaction; \<open>key_of\<close> stands for \<open>getProducerKey\<close>, the arguments are the four
  switches in the order the code evaluates them.
\<close>

definition getAllUnifiedKeys ::
  "(score_key_type \<Rightarrow> string option) \<Rightarrow> bool \<Rightarrow> bool \<Rightarrow> bool \<Rightarrow> bool \<Rightarrow> bool \<Rightarrow>
   (score_key_type \<times> string option) list" where
  "getAllUnifiedKeys key_of global_enabled elimination_enabled merchant_flow_enabled
       global_outage_enabled merchant_outage_enabled =
     [(EliminationGlobalKey, if global_enabled then key_of EliminationGlobalKey else None),
      (EliminationMerchantKey,
        if elimination_enabled \<or> merchant_flow_enabled then key_of EliminationMerchantKey else None),
      (OutageGlobalKey, if global_outage_enabled then key_of OutageGlobalKey else None),
      (OutageMerchantKey, if merchant_outage_enabled then key_of OutageMerchantKey else None)]"

end
