(* ===== verification/Elim_Decide.thy ===== *)
theory Elim_Decide
  imports Elim_Feedback Sr_Reset
begin

text \<open>
  Gateway elimination in a routing decision
  (\<open>src/src/decider/gatewaydecider/gw_scoring.rs\<close>): gateways whose platform-wide or merchant
  score is below its threshold have their routing score divided by five, the approach is marked as
  a downtime one, and the stored score of a gateway that has been down longer than its soft time to
  live is reset. The Redis keys of the gateways, the switches and the configuration values are
  arguments; the clock is in milliseconds; a panic is \<open>None\<close>. Logging and metrics are left out,
  apart from the metric record the code itself reads back.
\<close>

definition as_usize :: "int \<Rightarrow> nat" where
  "as_usize i = nat (i mod 2 ^ 64)"

fun f64_as_i64 :: "f64 \<Rightarrow> int" where
  "f64_as_i64 (Fin x) =
     max (- (2 ^ 63)) (min (2 ^ 63 - 1) (if 0 \<le> x then \<lfloor>x\<rfloor> else \<lceil>x\<rceil>))"
| "f64_as_i64 PInf = 2 ^ 63 - 1"
| "f64_as_i64 NInf = - (2 ^ 63)"
| "f64_as_i64 NaN = 0"

definition round_off_to_3 :: "f64 \<Rightarrow> f64" where
  "round_off_to_3 db = fdiv (fround (fmul db (Fin 1000))) (Fin 1000)"

section \<open>Platform-wide scores\<close>

record global_score_log =
  gsl_transaction_count :: int
  gsl_current_score :: f64
  gsl_merchant_id :: string
  gsl_elimination_threshold :: f64
  gsl_elimination_max_count_threshold :: int

record global_sr_evaluation_score_log =
  gel_transaction_count :: int
  gel_current_score :: f64
  gel_merchant_id :: string
  gel_elimination_threshold :: f64
  gel_elimination_max_count_threshold :: int
  gel_gateway :: string

record sr_global_routing_defaults =
  rd_default_global_elimination_threshold :: "f64 option"
  rd_default_global_elimination_max_count_threshold :: "int option"
  rd_default_global_elimination_level :: "elimination_level option"

definition mk_gsl :: "global_score \<Rightarrow> f64 \<Rightarrow> int \<Rightarrow> global_score_log" where
  "mk_gsl gs score_threshold max_count =
     \<lparr>gsl_transaction_count = gl_transaction_count gs,
      gsl_current_score = round_off_to_3 (gl_score gs), gsl_merchant_id = gl_merchant_id gs,
      gsl_elimination_threshold = round_off_to_3 score_threshold,
      gsl_elimination_max_count_threshold = max_count\<rparr>"

definition global_should_penalize :: "global_gateway_score \<Rightarrow> int \<Rightarrow> f64 \<Rightarrow> bool" where
  "global_should_penalize g max_count score_threshold \<longleftrightarrow>
     (let ms = take (as_usize max_count) (gg_merchants g) in
      length ms \<ge> as_usize max_count \<and> list_all (\<lambda>x. flt (gl_score x) score_threshold) ms)"

definition get_global_gateway_score ::
  "'s score_store \<Rightarrow> nat \<Rightarrow> 's \<Rightarrow> string \<Rightarrow> int option \<Rightarrow> f64 option \<Rightarrow>
   (global_score_log list \<times> f64) option" where
  "get_global_gateway_score S now s redis_key max_count score_threshold =
     (case (max_count, score_threshold) of
        (Some mc, Some th) \<Rightarrow>
          (case Option.bind (ss_get S s now redis_key) global_gateway_score_of_json of
             None \<Rightarrow> None
           | Some g \<Rightarrow> Some
               (List.map (\<lambda>gs. mk_gsl gs th mc) (take (as_usize mc) (gg_merchants g)),
                if global_should_penalize g mc th then fsub th (f64_of_rat (1 / 10)) else th))
      | _ \<Rightarrow> None)"

definition mk_new_entry :: "string \<Rightarrow> sr_global_routing_defaults \<Rightarrow> gateway_wise_sr_input" where
  "mk_new_entry gw d =
     \<lparr>gi_gateway = gw, gi_elimination_threshold = rd_default_global_elimination_threshold d,
      gi_elimination_max_count_threshold = rd_default_global_elimination_max_count_threshold d,
      gi_selection_max_count_threshold = None, gi_soft_txn_reset_count = None,
      gi_gateway_level_elimination_threshold = None,
      gi_elimination_level = rd_default_global_elimination_level d, gi_current_score = None,
      gi_last_reset_time_stamp = None\<rparr>"

definition adjust_defs ::
  "gateway_sr_input option \<Rightarrow> sr_global_routing_defaults \<Rightarrow> gateway_wise_sr_input \<Rightarrow>
   gateway_wise_sr_input" where
  "adjust_defs global_input d gri =
     gri\<lparr>gi_elimination_level :=
           opt_or (opt_or (gi_elimination_level gri)
                     (Option.bind global_input si_default_global_elimination_level))
             (Some Lvl_PaymentMethod),
         gi_elimination_max_count_threshold :=
           opt_or (gi_elimination_max_count_threshold gri)
             (rd_default_global_elimination_max_count_threshold d),
         gi_elimination_threshold :=
           opt_or (gi_elimination_threshold gri) (rd_default_global_elimination_threshold d)\<rparr>"

definition get_gateway_wise_routing_inputs_for_global_sr ::
  "string \<Rightarrow> gateway_sr_input option \<Rightarrow> gateway_sr_input option \<Rightarrow> sr_global_routing_defaults \<Rightarrow>
   gateway_wise_sr_input" where
  "get_gateway_wise_routing_inputs_for_global_sr gateway merchant_input global_input d =
     (let inputs_of = (\<lambda>i. unwrap_or (Option.bind i si_global_gateway_wise_inputs) []);
          entry_of = (\<lambda>i. find (\<lambda>ri. gi_gateway ri = gateway) (inputs_of i)) in
      adjust_defs global_input d
        (unwrap_or (opt_or (entry_of merchant_input) (entry_of global_input)) (mk_new_entry gateway d)))"

definition get_global_elimination_gateway_score ::
  "'s score_store \<Rightarrow> nat \<Rightarrow> 's \<Rightarrow> string hmap \<Rightarrow> gateway_wise_sr_input \<Rightarrow>
   (global_score_log list \<times> f64) option" where
  "get_global_elimination_gateway_score S now s gateway_key_map gsri =
     (if gi_elimination_level gsri \<noteq> Some Lvl_None
      then get_global_gateway_score S now s
             (unwrap_or (map_of gateway_key_map (gi_gateway gsri)) [])
             (gi_elimination_max_count_threshold gsri) (gi_elimination_threshold gsri)
      else None)"

definition is_forced_pm :: "gateway_sr_input \<Rightarrow> bool" where
  "is_forced_pm v \<longleftrightarrow> si_default_global_elimination_level v = Some Lvl_ForcedPaymentMethod"

definition global_elim_lvl_not_none :: "gateway_sr_input \<Rightarrow> bool" where
  "global_elim_lvl_not_none v \<longleftrightarrow> si_default_global_elimination_level v \<noteq> Some Lvl_None"

text \<open>The error is a message for the log; it is kept as the inputs it shows.\<close>

datatype sr_routing_error =
    BothInputs "elimination_level option" "elimination_level option"
  | OnlyGlobalInput "elimination_level option"
  | OnlyMerchantInput "elimination_level option"
  | NoInputs

definition routing_defaults_of :: "gateway_sr_input \<Rightarrow> sr_global_routing_defaults" where
  "routing_defaults_of i =
     \<lparr>rd_default_global_elimination_threshold = si_default_global_elimination_threshold i,
      rd_default_global_elimination_max_count_threshold =
        si_default_global_elimination_max_count_threshold i,
      rd_default_global_elimination_level = si_default_global_elimination_level i\<rparr>"

definition check_sr_global_routing_defaults ::
  "gateway_sr_input option \<Rightarrow> gateway_sr_input option \<Rightarrow> sr_routing_error + sr_global_routing_defaults" where
  "check_sr_global_routing_defaults global_input merchant_input =
     (case (global_input, merchant_input) of
        (Some g, Some m) \<Rightarrow>
          if (global_elim_lvl_not_none g \<and> global_elim_lvl_not_none m) \<or> is_forced_pm m then
            Inr \<lparr>rd_default_global_elimination_threshold =
                   opt_or (si_default_global_elimination_threshold m)
                     (si_default_global_elimination_threshold g),
                 rd_default_global_elimination_max_count_threshold =
                   opt_or (si_default_global_elimination_max_count_threshold m)
                     (si_default_global_elimination_max_count_threshold g),
                 rd_default_global_elimination_level =
                   opt_or (si_default_global_elimination_level m)
                     (si_default_global_elimination_level g)\<rparr>
          else Inl (BothInputs (si_default_global_elimination_level g)
                      (si_default_global_elimination_level m))
      | (Some g, None) \<Rightarrow>
          if global_elim_lvl_not_none g then Inr (routing_defaults_of g)
          else Inl (OnlyGlobalInput (si_default_global_elimination_level g))
      | (None, Some m) \<Rightarrow>
          if is_forced_pm m then Inr (routing_defaults_of m)
          else Inl (OnlyMerchantInput (si_default_global_elimination_level m))
      | (None, None) \<Rightarrow> Inl NoInputs)"

definition update_global_score :: "string \<Rightarrow> global_score_log \<Rightarrow> global_sr_evaluation_score_log" where
  "update_global_score gateway l =
     \<lparr>gel_transaction_count = gsl_transaction_count l, gel_current_score = gsl_current_score l,
      gel_merchant_id = gsl_merchant_id l,
      gel_elimination_threshold = gsl_elimination_threshold l,
      gel_elimination_max_count_threshold = gsl_elimination_max_count_threshold l,
      gel_gateway = gateway\<rparr>"

definition update_global_score_log ::
  "string \<Rightarrow> global_score_log list \<Rightarrow> global_sr_evaluation_score_log list" where
  "update_global_score_log gateway score_list =
     foldl (\<lambda>acc l. acc @ [update_global_score gateway l]) [] score_list"

definition json_of_global_log :: "global_sr_evaluation_score_log \<Rightarrow> json" where
  "json_of_global_log l = JObj
     [(''transaction_count'', JInt (gel_transaction_count l)),
      (''current_score'', json_of_f64 (gel_current_score l)),
      (''merchant_id'', JStr (gel_merchant_id l)),
      (''elimination_threshold'', json_of_f64 (gel_elimination_threshold l)),
      (''elimination_max_count_threshold'', JInt (gel_elimination_max_count_threshold l)),
      (''gateway'', JStr (gel_gateway l))]"

definition penalize_gsr :: "gateway_score_map \<Rightarrow> gateway_wise_sr_input \<Rightarrow> gateway_score_map" where
  "penalize_gsr gs sri =
     List.map (\<lambda>(gw, v). (gw, if gw = gi_gateway sri then fdiv v (Fin 5) else v)) gs"

definition below_threshold :: "gateway_wise_sr_input \<Rightarrow> bool" where
  "below_threshold x \<longleftrightarrow>
     (case (gi_current_score x, gi_elimination_threshold x) of
        (Some cs, Some et) \<Rightarrow> flt cs et
      | _ \<Rightarrow> False)"

definition top_gateway :: "gateway_score_map \<Rightarrow> string option" where
  "top_gateway sm = map_option fst (get_max_score_gateway sm)"

text \<open>The inputs with their scores and the log entries, gateway by gateway.\<close>

definition global_scores ::
  "'s score_store \<Rightarrow> nat \<Rightarrow> 's \<Rightarrow> string hmap \<Rightarrow> gateway_wise_sr_input list \<Rightarrow>
   gateway_wise_sr_input list \<times> global_sr_evaluation_score_log list" where
  "global_scores S now s keys inputs =
     foldl (\<lambda>(upd, logs) gsri.
        case get_global_elimination_gateway_score S now s keys gsri of
          None \<Rightarrow> (upd, logs)
        | Some (l, sc) \<Rightarrow>
            (upd @ [gsri\<lparr>gi_current_score := Some sc\<rparr>],
             logs @ update_global_score_log (gi_gateway gsri) l)) ([], []) inputs"

definition update_gateway_score_based_on_global_success_rate ::
  "'s score_store \<Rightarrow> nat \<Rightarrow> 's \<Rightarrow> string hmap \<Rightarrow> txn_detail \<Rightarrow> gateway_sr_input option \<Rightarrow>
   gateway_sr_input option \<Rightarrow> decider_state \<Rightarrow>
   decider_state \<times> gateway_wise_sr_input list option \<times> bool" where
  "update_gateway_score_based_on_global_success_rate S now s keys txn merchant_input global_input st =
     (let gateway_score = ds_gw_score_map st;
          (st, occurred, filtered) =
            (case check_sr_global_routing_defaults global_input merchant_input of
               Inl _ \<Rightarrow> (st, False, None)
             | Inr defaults \<Rightarrow>
                 (let inputs = List.map
                        (\<lambda>(k, _). get_gateway_wise_routing_inputs_for_global_sr k merchant_input
                           global_input defaults) gateway_score;
                      (upd, logs) = global_scores S now s keys inputs;
                      filtered = filter below_threshold upd;
                      st = reset_metric_log_data (td_date_created txn) st;
                      st = st\<lparr>ds_sr_metric_log_data := (ds_sr_metric_log_data st)
                             \<lparr>ml_gateway_before_evaluation := top_gateway (ds_gw_score_map st),
                              ml_downtime_status := List.map gi_gateway filtered\<rparr>\<rparr>;
                      new_score = foldl penalize_gsr gateway_score filtered;
                      st = (if filtered \<noteq> []
                            then st\<lparr>ds_gw_score_map := new_score,
                                    ds_sr_metric_log_data := (ds_sr_metric_log_data st)
                                      \<lparr>ml_gateway_after_evaluation := top_gateway new_score\<rparr>\<rparr>
                            else st\<lparr>ds_sr_metric_log_data := (ds_sr_metric_log_data st)
                                      \<lparr>ml_gateway_after_evaluation := top_gateway gateway_score\<rparr>\<rparr>);
                      old = ds_sr_metric_log_data st;
                      occurred = (ml_gateway_before_evaluation old \<noteq> None \<and>
                        ml_gateway_before_evaluation old \<noteq> ml_gateway_after_evaluation old);
                      st = (if logs \<noteq> []
                            then st\<lparr>ds_sr_metric_log_data := old
                                   \<lparr>ml_merchant_gateway_score :=
                                      Some (JArr (List.map json_of_global_log logs))\<rparr>\<rparr>
                            else st)
                  in (st, occurred, Some filtered)))
      in (return_sm_with_log ScoringByGatewayScoreBasedOnGlobalSuccessRate False st, filtered, occurred))"

end
