(* ===== verification/Elim_Merchant.thy ===== *)
theory Elim_Merchant
  imports Elim_Decide
begin

text \<open>
  The merchant's own elimination scores in a decision
  (\<open>update_gateway_score_based_on_success_rate\<close> and what it calls in
  \<open>src/src/decider/gatewaydecider/gw_scoring.rs\<close>, \<open>is_reset_eligible\<close>, \<open>get_reset_score\<close>,
  \<open>get_penality_factor_\<close> and \<open>modify_gateway_decider_approach\<close> in \<open>utils.rs\<close>). The gateway
  reference of a reset request is only logged and left out.
\<close>

text \<open>The configuration a decision reads besides \<open>score_config\<close>: thresholds and soft times to live.\<close>

record decision_config =
  dc_elimination_threshold :: f64
  dc_soft_txn_reset_count :: int
  dc_first_dimension_ttl :: "f64 option"
  dc_second_dimension_ttl :: "f64 option"
  dc_third_dimension_ttl :: "f64 option"
  dc_fourth_dimension_ttl :: "f64 option"
  dc_reset_score_enabled :: bool
  dc_optimization_during_downtime :: bool
  dc_payment_flow_enabled :: bool

definition DEFAULT_SR_BASED_GATEWAY_ELIMINATION_THRESHOLD :: f64 where
  "DEFAULT_SR_BASED_GATEWAY_ELIMINATION_THRESHOLD = f64_of_rat (5 / 100)"

definition GW_DEFAULT_TXN_SOFT_RESET_COUNT :: int where
  "GW_DEFAULT_TXN_SOFT_RESET_COUNT = 10"

definition DEF_SRBASED_GW_LEVEL_ELIMINATION_THRESHOLD :: f64 where
  "DEF_SRBASED_GW_LEVEL_ELIMINATION_THRESHOLD = f64_of_rat (2 / 100)"

definition DEF_SCORE_KEYS_TTL :: f64 where
  "DEF_SCORE_KEYS_TTL = Fin 900000"

section \<open>Thresholds of a gateway\<close>

definition get_gateway_wise_routing_inputs_for_merchant_sr ::
  "decision_config \<Rightarrow> elim_env \<Rightarrow> gateway_scoring_data \<Rightarrow> string \<Rightarrow> txn_detail \<Rightarrow> txn_card_info \<Rightarrow>
   string \<Rightarrow> gateway_sr_input option \<Rightarrow> gateway_sr_input option \<Rightarrow> f64 option \<Rightarrow>
   gateway_wise_sr_input" where
  "get_gateway_wise_routing_inputs_for_merchant_sr D E gsd merchant_id txn info gateway merchant_input
       default_input ab_test_elimination_threshold =
     (let merchant_level = map_option si_default_elimination_level merchant_input;
          default_level = map_option si_default_elimination_level default_input;
          elimination_threshold = unwrap_or ab_test_elimination_threshold
            (unwrap_or (map_option si_default_elimination_threshold merchant_input)
               (unwrap_or (map_option si_default_elimination_threshold default_input)
                  (dc_elimination_threshold D)));
          elimination_threshold_updated =
            (if sc_elimination_v2 (ev_config E) merchant_id
             then unwrap_or
               (get_elimination_v2_threshold (ev_sources E) (ev_merchant_input E) merchant_id info txn
                  (gsd_is_gri_enabled_for_elimination gsd) (gsd_gateway_reference_id gsd))
               elimination_threshold
             else elimination_threshold);
          gateway_wise_inputs_list =
            unwrap_or (Option.bind merchant_input si_gateway_wise_inputs) [] in
      case find (\<lambda>ri. gi_gateway ri = gateway) gateway_wise_inputs_list of
        Some e \<Rightarrow>
          e\<lparr>gi_elimination_level :=
              opt_or (opt_or (gi_elimination_level e) merchant_level) (Some Lvl_Gateway)\<rparr>
      | None \<Rightarrow>
          \<lparr>gi_gateway = gateway, gi_elimination_threshold = Some elimination_threshold_updated,
           gi_elimination_max_count_threshold = None, gi_selection_max_count_threshold = None,
           gi_soft_txn_reset_count =
             unwrap_or (map_option si_default_global_soft_txn_reset_count merchant_input)
               (unwrap_or (map_option si_default_global_soft_txn_reset_count default_input)
                  (Some (dc_soft_txn_reset_count D))),
           gi_gateway_level_elimination_threshold =
             unwrap_or (map_option si_default_gateway_level_elimination_threshold merchant_input)
               (unwrap_or (map_option si_default_gateway_level_elimination_threshold default_input)
                  (Some DEF_SRBASED_GW_LEVEL_ELIMINATION_THRESHOLD)),
           gi_elimination_level =
             opt_or (opt_or merchant_level default_level) (Some Lvl_PaymentMethod),
           gi_current_score = None, gi_last_reset_time_stamp = None\<rparr>)"

definition update_score_with_log :: "gateway_score_map \<Rightarrow> gateway_wise_sr_input \<Rightarrow> gateway_score_map" where
  "update_score_with_log m v =
     List.map (\<lambda>(gw, score). (gw, if gw = gi_gateway v then fdiv score (Fin 5) else score)) m"

definition get_merchant_elimination_gateway_score ::
  "'s score_store \<Rightarrow> nat \<Rightarrow> 's \<Rightarrow> string \<Rightarrow> gateway_score option" where
  "get_merchant_elimination_gateway_score S now s key = Option.bind (ss_get S s now key) score_of_json"

definition update_current_score ::
  "'s score_store \<Rightarrow> nat \<Rightarrow> 's \<Rightarrow> string hmap \<Rightarrow> gateway_wise_sr_input \<Rightarrow> gateway_wise_sr_input" where
  "update_current_score S now s gateway_redis_key_map i =
     (let redis_key = unwrap_or (map_of gateway_redis_key_map (gi_gateway i)) [];
          m_score = get_merchant_elimination_gateway_score S now s redis_key in
      i\<lparr>gi_current_score := map_option gs_score m_score,
        gi_last_reset_time_stamp := map_option gs_last_reset_timestamp m_score\<rparr>)"

section \<open>Resets\<close>

datatype dimension = FIRST | SECOND | THIRD | FOURTH

definition merchantGatewayScoreDimension :: "gateway_wise_sr_input \<Rightarrow> dimension" where
  "merchantGatewayScoreDimension i =
     (case gi_elimination_level i of
        Some Lvl_PaymentMethodType \<Rightarrow> SECOND
      | Some Lvl_PaymentMethod \<Rightarrow> THIRD
      | _ \<Rightarrow> FIRST)"

definition getKeyTTLFromMerchantDimension :: "decision_config \<Rightarrow> dimension \<Rightarrow> f64" where
  "getKeyTTLFromMerchantDimension D d =
     unwrap_or
       (case d of
          FIRST \<Rightarrow> dc_first_dimension_ttl D
        | SECOND \<Rightarrow> dc_second_dimension_ttl D
        | THIRD \<Rightarrow> dc_third_dimension_ttl D
        | FOURTH \<Rightarrow> dc_fourth_dimension_ttl D) DEF_SCORE_KEYS_TTL"

definition soft_ttl_of :: "decision_config \<Rightarrow> gateway_wise_sr_input \<Rightarrow> f64" where
  "soft_ttl_of D i = getKeyTTLFromMerchantDimension D (merchantGatewayScoreDimension i)"

definition evaluate_reset_gateway_score ::
  "decision_config \<Rightarrow> nat \<Rightarrow> gateway_wise_sr_input list \<Rightarrow> string list" where
  "evaluate_reset_gateway_score D now filtered =
     foldl (\<lambda>acc it.
        case gi_last_reset_time_stamp it of
          None \<Rightarrow> acc
        | Some last_reset_time \<Rightarrow>
            if int (now div 1000) * 1000 - last_reset_time > f64_as_i64 (fround (soft_ttl_of D it))
            then acc @ [gi_gateway it] else acc) [] filtered"

text \<open>\<open>None\<close> is the panic of the conversion to \<open>i64\<close>.\<close>

definition is_reset_eligible :: "f64 option \<Rightarrow> nat \<Rightarrow> f64 \<Rightarrow> gateway_score \<Rightarrow> bool option" where
  "is_reset_eligible soft_ttl current_time_in_millis threshold g =
     (if flt (gs_score g) threshold then
        (let d = u128_sub current_time_in_millis (f64_as_u128 (unwrap_or soft_ttl (Fin 0))) in
         if d < 2 ^ 63 then Some (gs_last_reset_timestamp g < int d) else None)
      else Some False)"

definition get_reset_score :: "(f64 \<Rightarrow> f64 \<Rightarrow> f64) \<Rightarrow> f64 \<Rightarrow> f64 \<Rightarrow> int \<Rightarrow> f64" where
  "get_reset_score powf min_threshold penalty_factor max_allowed_failures =
     (let reduction_factor = fsub (Fin 1) (fdiv penalty_factor (Fin 100));
          power = f64_of_int (wrap_i32 (max_allowed_failures - 1));
          denominator = powf reduction_factor power in
      fmin (fdiv min_threshold denominator) (Fin 1))"

definition get_penality_factor ::
  "elim_env \<Rightarrow> string \<Rightarrow> txn_card_info \<Rightarrow> txn_detail \<Rightarrow> gateway_scoring_data \<Rightarrow> f64" where
  "get_penality_factor E merchant_id info txn gsd =
     (if sc_elimination_v2 (ev_config E) merchant_id then
        (case eliminationV2RewardFactor (ev_powf E) (ev_sources E) (ev_merchant_input E) merchant_id info txn
                (gsd_gateway_reference_id gsd \<noteq> None) (gsd_gateway_reference_id gsd) of
           Some reward_factor \<Rightarrow> fsub (Fin 1) reward_factor
         | None \<Rightarrow> getPenaltyFactor (ev_config E) EliminationMerchantKey)
      else getPenaltyFactor (ev_config E) EliminationMerchantKey)"

record reset_gateway_input =
  rg_gateway :: string
  rg_elimination_threshold :: "f64 option"
  rg_elimination_max_count :: "int option"
  rg_gateway_elimination_threshold :: "f64 option"
  rg_key :: "string option"
  rg_hard_ttl :: nat
  rg_soft_ttl :: f64
  rg_gateway_reference_id_enabled :: "bool option"

text \<open>The score a reset writes: the eligible one, the unchanged one or a fresh one.\<close>

definition reset_cached_gateway_score ::
  "(f64 \<Rightarrow> f64 \<Rightarrow> f64) \<Rightarrow> f64 \<Rightarrow> nat \<Rightarrow> f64 \<Rightarrow> f64 \<Rightarrow> int \<Rightarrow> gateway_score option \<Rightarrow>
   gateway_score option" where
  "reset_cached_gateway_score powf penality_factor now soft_ttl threshold max_count score =
     (case score of
        Some sc \<Rightarrow>
          (case is_reset_eligible (Some soft_ttl) now threshold sc of
             None \<Rightarrow> None
           | Some True \<Rightarrow> Some
               \<lparr>gs_timestamp = gs_timestamp sc,
                gs_score = get_reset_score powf threshold penality_factor (wrap_i32 max_count),
                gs_transaction_count = gs_transaction_count sc,
                gs_last_reset_timestamp = nat_as_i64 now\<rparr>
           | Some False \<Rightarrow> Some sc)
      | None \<Rightarrow> Some
          \<lparr>gs_timestamp = nat_as_i64 now, gs_score = Fin 1, gs_transaction_count = 0,
           gs_last_reset_timestamp = nat_as_i64 now\<rparr>)"

definition i64_as_u128 :: "int \<Rightarrow> nat" where
  "i64_as_u128 i = nat (i mod 2 ^ 128)"

definition reset_ttl :: "nat \<Rightarrow> int \<Rightarrow> nat \<Rightarrow> int" where
  "reset_ttl now timestamp hard_ttl =
     (let elapsed_time = now - i64_as_u128 timestamp; remaining_ttl = hard_ttl - elapsed_time in
      if elapsed_time > hard_ttl then nat_as_i64 hard_ttl else nat_as_i64 remaining_ttl)"

definition reset_gateway_score ::
  "'s score_store \<Rightarrow> elim_env \<Rightarrow> string \<Rightarrow> nat \<Rightarrow> txn_detail \<Rightarrow> txn_card_info \<Rightarrow> reset_gateway_input \<Rightarrow>
   gateway_scoring_data \<Rightarrow> 's \<Rightarrow> 's option" where
  "reset_gateway_score S E merchant_id now txn info r gsd s =
     (case (rg_key r, rg_elimination_threshold r, rg_elimination_max_count r) of
        (Some key, Some threshold, Some max_count) \<Rightarrow>
          (case reset_cached_gateway_score (ev_powf E) (get_penality_factor E merchant_id info txn gsd)
                  now (rg_soft_ttl r) threshold max_count
                  (get_merchant_elimination_gateway_score S now s key) of
             None \<Rightarrow> None
           | Some g \<Rightarrow>
               (case ss_setx S key (json_of_score g) (reset_ttl now (gs_timestamp g) (rg_hard_ttl r)) now s of
                  Some s' \<Rightarrow> Some s'
                | None \<Rightarrow> Some s))
      | _ \<Rightarrow> Some s)"

definition get_gateway_success_rate_input ::
  "string \<Rightarrow> gateway_wise_sr_input list \<Rightarrow> gateway_wise_sr_input option" where
  "get_gateway_success_rate_input gw inputs = find (\<lambda>it. gi_gateway it = gw) inputs"

definition reset_request ::
  "decision_config \<Rightarrow> elim_env \<Rightarrow> gateway_scoring_data \<Rightarrow> string hmap \<Rightarrow> string \<Rightarrow>
   gateway_wise_sr_input \<Rightarrow> reset_gateway_input" where
  "reset_request D E gsd keys gw sr_input =
     \<lparr>rg_gateway = gw, rg_elimination_threshold = gi_elimination_threshold sr_input,
      rg_elimination_max_count = gi_soft_txn_reset_count sr_input,
      rg_gateway_elimination_threshold = gi_gateway_level_elimination_threshold sr_input,
      rg_key = map_of keys gw, rg_hard_ttl = getTTLForKey (ev_config E) EliminationMerchantKey,
      rg_soft_ttl = soft_ttl_of D sr_input,
      rg_gateway_reference_id_enabled = Some (gsd_is_gri_enabled_for_elimination gsd)\<rparr>"

fun reset_gateways ::
  "'s score_store \<Rightarrow> decision_config \<Rightarrow> elim_env \<Rightarrow> string \<Rightarrow> nat \<Rightarrow> txn_detail \<Rightarrow> txn_card_info \<Rightarrow>
   gateway_scoring_data \<Rightarrow> string hmap \<Rightarrow> gateway_wise_sr_input list \<Rightarrow> string list \<Rightarrow> 's \<Rightarrow> 's option" where
  "reset_gateways S D E merchant_id now txn info gsd keys inputs [] s = Some s"
| "reset_gateways S D E merchant_id now txn info gsd keys inputs (gw # gws) s =
     (case get_gateway_success_rate_input gw inputs of
        None \<Rightarrow> reset_gateways S D E merchant_id now txn info gsd keys inputs gws s
      | Some sr_input \<Rightarrow>
          (case reset_gateway_score S E merchant_id now txn info
                  (reset_request D E gsd keys gw sr_input) gsd s of
             None \<Rightarrow> None
           | Some s' \<Rightarrow> reset_gateways S D E merchant_id now txn info gsd keys inputs gws s'))"

definition trigger_reset_gateway_score ::
  "'s score_store \<Rightarrow> decision_config \<Rightarrow> elim_env \<Rightarrow> string \<Rightarrow> nat \<Rightarrow> txn_detail \<Rightarrow> txn_card_info \<Rightarrow>
   gateway_scoring_data \<Rightarrow> string hmap \<Rightarrow> gateway_wise_sr_input list \<Rightarrow> string list \<Rightarrow> decider_state \<Rightarrow> 's \<Rightarrow>
   (decider_state \<times> 's) option" where
  "trigger_reset_gateway_score S D E merchant_id now txn info gsd keys inputs reset_list st s =
     (if dc_reset_score_enabled D then
        (case reset_gateways S D E merchant_id now txn info gsd keys inputs reset_list s of
           None \<Rightarrow> None
         | Some s' \<Rightarrow> Some
             (st\<lparr>ds_reset_approach :=
                  (case ds_reset_approach st of
                     Srv2Reset \<Rightarrow> Srv2EliminationReset
                   | Srv3Reset \<Rightarrow> Srv3EliminationReset
                   | _ \<Rightarrow> EliminationReset)\<rparr>, s'))
      else Some (st, s))"

section \<open>The approach under downtime\<close>

fun modify_gateway_decider_approach ::
  "gateway_decider_approach \<Rightarrow> down_time \<Rightarrow> gateway_decider_approach" where
  "modify_gateway_decider_approach SrSelectionV3Routing d =
     (case d of AllDowntime \<Rightarrow> SrV3AllDowntimeRouting | GlobalDowntime \<Rightarrow> SrV3GlobalDowntimeRouting
      | Downtime \<Rightarrow> SrV3DowntimeRouting | NoDowntime \<Rightarrow> SrSelectionV3Routing)"
| "modify_gateway_decider_approach SrV3Hedging d =
     (case d of AllDowntime \<Rightarrow> SrV3AllDowntimeHedging | GlobalDowntime \<Rightarrow> SrV3GlobalDowntimeHedging
      | Downtime \<Rightarrow> SrV3DowntimeHedging | NoDowntime \<Rightarrow> SrV3Hedging)"
| "modify_gateway_decider_approach SrSelectionV2Routing d =
     (case d of AllDowntime \<Rightarrow> SrV2AllDowntimeRouting | GlobalDowntime \<Rightarrow> SrV2GlobalDowntimeRouting
      | Downtime \<Rightarrow> SrV2DowntimeRouting | NoDowntime \<Rightarrow> SrSelectionV2Routing)"
| "modify_gateway_decider_approach SrV2Hedging d =
     (case d of AllDowntime \<Rightarrow> SrV2AllDowntimeHedging | GlobalDowntime \<Rightarrow> SrV2GlobalDowntimeHedging
      | Downtime \<Rightarrow> SrV2DowntimeHedging | NoDowntime \<Rightarrow> SrV2Hedging)"
| "modify_gateway_decider_approach _ d =
     (case d of AllDowntime \<Rightarrow> PlAllDowntimeRouting | GlobalDowntime \<Rightarrow> PlGlobalDowntimeRouting
      | Downtime \<Rightarrow> PlDowntimeRouting | NoDowntime \<Rightarrow> PriorityLogic)"

end
