(* ===== verification/Elim_Flow.thy ===== *)
theory Elim_Flow
  imports Elim_Merchant
begin

text \<open>
  The elimination stage of a decision as a whole
  (\<open>update_gateway_score_based_on_success_rate\<close> of
  \<open>src/src/decider/gatewaydecider/gw_scoring.rs\<close>): the platform-wide stage, the merchant stage,
  the resets and the downtime the approach is marked with, on the state of the decision and the
  score store.
\<close>

definition payment_method_type_enabled :: "gateway_sr_input option \<Rightarrow> txn_card_info \<Rightarrow> bool" where
  "payment_method_type_enabled merchant_input info \<longleftrightarrow>
     (let payment_method_type =
            (if is_card_transaction info then ''CARD'' else tci_payment_method_type info);
          enabled = unwrap_or (map_option si_enabled_payment_method_types merchant_input) [] in
      enabled = [] \<or> payment_method_type \<in> set enabled)"

definition merchant_inputs ::
  "decision_config \<Rightarrow> elim_env \<Rightarrow> gateway_scoring_data \<Rightarrow> string \<Rightarrow> txn_detail \<Rightarrow> txn_card_info \<Rightarrow>
   gateway_sr_input option \<Rightarrow> f64 option \<Rightarrow> gateway_score_map \<Rightarrow> gateway_wise_sr_input list" where
  "merchant_inputs D E gsd merchant_id txn info default_input ab_threshold sm =
     List.map (\<lambda>(gw, _). get_gateway_wise_routing_inputs_for_merchant_sr D E gsd merchant_id txn info
        gw (ev_merchant_input E) default_input ab_threshold) sm"

text \<open>
  The metric record is rewritten twice; the second time the code starts again from the record
  before the first, so the gateway before the evaluation is lost.
\<close>

definition merchant_metric_data ::
  "gateway_score_map \<Rightarrow> gateway_score_map \<Rightarrow> gateway_wise_sr_input list \<Rightarrow> sr_metric_log_data \<Rightarrow>
   sr_metric_log_data" where
  "merchant_metric_data before_gwsm new_sm filtered init =
     (let first = init\<lparr>ml_gateway_before_evaluation := top_gateway before_gwsm,
                       ml_downtime_status := List.map gi_gateway filtered\<rparr> in
      if filtered \<noteq> [] then init\<lparr>ml_gateway_after_evaluation := top_gateway new_sm\<rparr>
      else init\<lparr>ml_gateway_after_evaluation := top_gateway before_gwsm\<rparr>)"

definition json_of_gi :: "gateway_wise_sr_input \<Rightarrow> json" where
  "json_of_gi i = JObj
     [(''gateway'', JStr (gi_gateway i)),
      (''elimination_threshold'', json_of_opt json_of_f64 (gi_elimination_threshold i)),
      (''elimination_max_count_threshold'', json_of_opt JInt (gi_elimination_max_count_threshold i)),
      (''selection_max_count_threshold'', json_of_opt JInt (gi_selection_max_count_threshold i)),
      (''soft_txn_reset_count'', json_of_opt JInt (gi_soft_txn_reset_count i)),
      (''gateway_level_elimination_threshold'',
        json_of_opt json_of_f64 (gi_gateway_level_elimination_threshold i)),
      (''elimination_level'', json_of_opt
        (\<lambda>l. JStr (case l of Lvl_Gateway \<Rightarrow> ''GATEWAY'' | Lvl_PaymentMethodType \<Rightarrow> ''PAYMENT_METHOD_TYPE''
           | Lvl_PaymentMethod \<Rightarrow> ''PAYMENT_METHOD'' | Lvl_None \<Rightarrow> ''NONE''
           | Lvl_ForcedPaymentMethod \<Rightarrow> ''FORCED_PAYMENT_METHOD'')) (gi_elimination_level i)),
      (''current_score'', json_of_opt json_of_f64 (gi_current_score i)),
      (''last_reset_time_stamp'', json_of_opt JInt (gi_last_reset_time_stamp i))]"

definition approach_info :: "bool \<Rightarrow> sr_metric_log_data \<Rightarrow> string list" where
  "approach_info global_occurred ml =
     (let info = (if global_occurred then [''GLOBAL''] else []) in
      case (ml_gateway_before_evaluation ml, ml_gateway_after_evaluation ml) of
        (Some before, Some after) \<Rightarrow> if before \<noteq> after then ''MERCHANT'' # info else info
      | _ \<Rightarrow> info)"

text \<open>The scores to go on with, the downtime and the approach information.\<close>

definition downtime_result ::
  "bool \<Rightarrow> bool \<Rightarrow> gateway_score_map \<Rightarrow> gateway_score_map \<Rightarrow> gateway_wise_sr_input list \<Rightarrow>
   gateway_wise_sr_input list option \<Rightarrow> string list \<Rightarrow>
   gateway_score_map \<times> down_time \<times> string list" where
  "downtime_result optimization is_sr_metric_enabled initial_gw_scores new_score filtered global_filtered info =
     (if length filtered > 1 \<and> length new_score = length filtered then
        (if optimization then
           (if is_sr_metric_enabled then (new_score, AllDowntime, []) else (initial_gw_scores, AllDowntime, []))
         else (new_score, AllDowntime, info))
      else if unwrap_or global_filtered [] \<noteq> [] then (new_score, GlobalDowntime, info)
      else if filtered \<noteq> [] then (new_score, Downtime, info)
      else (new_score, NoDowntime, info))"

text \<open>Penalties, the list of gateways to reset and the metric record; the gateways that are down.\<close>

definition merchant_scoring ::
  "decision_config \<Rightarrow> nat \<Rightarrow> txn_detail \<Rightarrow> gateway_wise_sr_input list \<Rightarrow> bool \<Rightarrow> decider_state \<Rightarrow>
   decider_state \<times> gateway_wise_sr_input list \<times> string list" where
  "merchant_scoring D now txn updated global_occurred st =
     (let global_sm = ds_gw_score_map st;
          filtered = filter below_threshold updated;
          st = reset_metric_log_data (td_date_created txn) st;
          before_gwsm = ds_gw_score_map st;
          new_sm = foldl update_score_with_log global_sm filtered;
          old = merchant_metric_data before_gwsm new_sm filtered (ds_sr_metric_log_data st);
          resets = evaluate_reset_gateway_score D now filtered;
          reset_list = (if filtered \<noteq> [] \<and> dc_reset_score_enabled D \<and> resets \<noteq> []
                        then remdups_adj resets else ds_reset_gateway_list st) in
      (st\<lparr>ds_gw_score_map := (if filtered \<noteq> [] then new_sm else before_gwsm),
          ds_reset_gateway_list := reset_list,
          ds_sr_metric_log_data := old
            \<lparr>ml_merchant_gateway_score := Some (JArr (List.map json_of_gi updated))\<rparr>\<rparr>,
       filtered, approach_info global_occurred old))"

definition merchant_elimination ::
  "'s score_store \<Rightarrow> decision_config \<Rightarrow> elim_env \<Rightarrow> string \<Rightarrow> nat \<Rightarrow> txn_detail \<Rightarrow> txn_card_info \<Rightarrow>
   gateway_scoring_data \<Rightarrow> string hmap \<Rightarrow> bool \<Rightarrow> gateway_score_map \<Rightarrow> gateway_wise_sr_input list \<Rightarrow>
   gateway_wise_sr_input list option \<Rightarrow> bool \<Rightarrow> decider_state \<Rightarrow> 's \<Rightarrow> (decider_state \<times> 's) option" where
  "merchant_elimination S D E merchant_id now txn info gsd keys is_sr_metric_enabled initial_gw_scores
       inputs global_filtered global_occurred st s =
     (let (st, filtered, info_list) =
            merchant_scoring D now txn (List.map (update_current_score S now s keys) inputs)
              global_occurred st;
          new_gateway_score = ds_gw_score_map st;
          reset_gw_list = ds_reset_gateway_list st in
      case (if reset_gw_list \<noteq> []
            then trigger_reset_gateway_score S D E merchant_id now txn info gsd keys inputs reset_gw_list st s
            else Some (st, s)) of
        None \<Rightarrow> None
      | Some (st, s) \<Rightarrow>
          (let (gw_score, downtime, info_res) =
                 downtime_result (dc_optimization_during_downtime D) is_sr_metric_enabled initial_gw_scores
                   new_gateway_score filtered global_filtered info_list in
           Some (st\<lparr>ds_gw_score_map := gw_score, ds_elimination_scores := Some gw_score,
                     ds_gw_decider_approach :=
                       modify_gateway_decider_approach (ds_gw_decider_approach st) downtime,
                     ds_sr_elimination_approach_info := info_res\<rparr>, s)))"

definition update_gateway_score_based_on_success_rate ::
  "'s score_store \<Rightarrow> decision_config \<Rightarrow> elim_env \<Rightarrow> string \<Rightarrow> nat \<Rightarrow> txn_detail \<Rightarrow> txn_card_info \<Rightarrow>
   gateway_scoring_data \<Rightarrow> string hmap \<Rightarrow> string hmap \<Rightarrow> gateway_sr_input option \<Rightarrow> bool \<Rightarrow>
   gateway_score_map \<Rightarrow> bool option \<Rightarrow> decider_state \<Rightarrow> 's \<Rightarrow> (decider_state \<times> 's) option" where
  "update_gateway_score_based_on_success_rate S D E merchant_id now txn info gsd global_keys merchant_keys
       default_input is_sr_metric_enabled initial_gw_scores elimination_enabled st s =
     (let enabled = (dc_payment_flow_enabled D \<or> elimination_enabled = Some True);
          finish = (\<lambda>(st, s). (return_sm_with_log UpdateGatewayScoreBasedOnSuccessRate enabled st, s)) in
      if enabled \<and> payment_method_type_enabled (ev_merchant_input E) info then
        (let (st, global_filtered, global_occurred) =
               update_gateway_score_based_on_global_success_rate S now s global_keys txn
                 (ev_merchant_input E) default_input st;
             ab_threshold = Option.bind (ds_ab_test_sr_override st) ov_elimination_threshold;
             inputs = merchant_inputs D E gsd merchant_id txn info default_input ab_threshold
               (ds_gw_score_map st) in
         if inputs \<noteq> [] then
           map_option finish
             (merchant_elimination S D E merchant_id now txn info gsd merchant_keys is_sr_metric_enabled
                initial_gw_scores inputs global_filtered global_occurred st s)
         else Some (finish (st, s)))
      else Some (finish (st, s)))"

end
