(* ===== verification/Elim_Correct.thy ===== *)
theory Elim_Correct
  imports Elim_Flow
begin

text \<open>
  What elimination does to a decision. A gateway is down globally or for the merchant when its
  stored score is below the threshold the configuration gives it; the stage divides the score of
  every gateway by five once for each of the two, keeps the order of the map and derives the
  downtime from the two sets.
\<close>

section \<open>Down gateways\<close>

definition global_down ::
  "'s score_store \<Rightarrow> nat \<Rightarrow> 's \<Rightarrow> string hmap \<Rightarrow> gateway_sr_input option \<Rightarrow> gateway_sr_input option \<Rightarrow>
   string \<Rightarrow> bool" where
  "global_down S now s keys merchant_input default_input gw \<longleftrightarrow>
     (case check_sr_global_routing_defaults default_input merchant_input of
        Inl _ \<Rightarrow> False
      | Inr d \<Rightarrow>
          (let i = get_gateway_wise_routing_inputs_for_global_sr gw merchant_input default_input d in
           case get_global_elimination_gateway_score S now s keys i of
             None \<Rightarrow> False
           | Some (_, sc) \<Rightarrow> below_threshold (i\<lparr>gi_current_score := Some sc\<rparr>)))"

definition merchant_down ::
  "'s score_store \<Rightarrow> decision_config \<Rightarrow> elim_env \<Rightarrow> gateway_scoring_data \<Rightarrow> string \<Rightarrow> txn_detail \<Rightarrow>
   txn_card_info \<Rightarrow> gateway_sr_input option \<Rightarrow> f64 option \<Rightarrow> nat \<Rightarrow> 's \<Rightarrow> string hmap \<Rightarrow> string \<Rightarrow> bool" where
  "merchant_down S D E gsd merchant_id txn info default_input ab now s keys gw \<longleftrightarrow>
     (let i = get_gateway_wise_routing_inputs_for_merchant_sr D E gsd merchant_id txn info gw
                (ev_merchant_input E) default_input ab in
      case (Option.bind (ss_get S s now (unwrap_or (map_of keys gw) [])) score_of_json,
            gi_elimination_threshold i) of
        (Some g, Some th) \<Rightarrow> flt (gs_score g) th
      | _ \<Rightarrow> False)"

definition fifth :: "bool \<Rightarrow> f64 \<Rightarrow> f64" where
  "fifth down x = (if down then fdiv x (Fin 5) else x)"

definition downtime_of :: "(string \<Rightarrow> bool) \<Rightarrow> (string \<Rightarrow> bool) \<Rightarrow> string list \<Rightarrow> down_time" where
  "downtime_of gdown mdown gws =
     (if list_all mdown gws \<and> length gws > 1 then AllDowntime
      else if list_ex gdown gws then GlobalDowntime
      else if list_ex mdown gws then Downtime
      else NoDowntime)"

section \<open>The two stages on the map\<close>

lemma update_score_with_log_eq: "update_score_with_log = penalize_gsr"
  by (rule ext)+ (simp add: update_score_with_log_def penalize_gsr_def)

lemma foldl_penalize:
  "distinct (List.map gi_gateway is) \<Longrightarrow>
   foldl penalize_gsr sm is = List.map (\<lambda>(gw, x). (gw, fifth (gw \<in> gi_gateway ` set is) x)) sm"
proof (induction "is" rule: rev_induct)
  case (snoc i "is")
  then show ?case
    by (auto simp: penalize_gsr_def fifth_def)
qed (simp add: fifth_def)

lemma penalize_named:
  assumes n: "List.map gi_gateway is = filter P (List.map fst sm)" and d: "distinct (List.map fst sm)"
  shows "foldl penalize_gsr sm is = List.map (\<lambda>(gw, x). (gw, fifth (P gw) x)) sm"
proof -
  from n d have "distinct (List.map gi_gateway is)" by simp
  moreover from n have "gi_gateway ` set is = {gw \<in> fst ` set sm. P gw}"
    by (metis list.set_map set_filter)
  then have "gw \<in> gi_gateway ` set is \<longleftrightarrow> P gw" if "(gw, x) \<in> set sm" for gw x
    using that by force
  then have "List.map (\<lambda>(gw, x). (gw, fifth (gw \<in> gi_gateway ` set is) x)) sm =
      List.map (\<lambda>(gw, x). (gw, fifth (P gw) x)) sm"
    by (intro map_cong refl) auto
  ultimately show ?thesis
    by (simp only: foldl_penalize)
qed

lemma global_scores_step:
  "foldl (\<lambda>(upd, logs) gsri.
        case get_global_elimination_gateway_score S now s keys gsri of
          None \<Rightarrow> (upd, logs)
        | Some (l, sc) \<Rightarrow>
            (upd @ [gsri\<lparr>gi_current_score := Some sc\<rparr>],
             logs @ update_global_score_log (gi_gateway gsri) l)) (u, l) is =
   (u @ List.map_filter (\<lambda>i. map_option (\<lambda>(_, sc). i\<lparr>gi_current_score := Some sc\<rparr>)
          (get_global_elimination_gateway_score S now s keys i)) is,
    l @ concat (List.map_filter (\<lambda>i. map_option (\<lambda>(l, _). update_global_score_log (gi_gateway i) l)
          (get_global_elimination_gateway_score S now s keys i)) is))"
  by (induction "is" arbitrary: u l) (auto simp: List.map_filter_simps split: option.splits)

lemma gi_gateway_global [simp]:
  "gi_gateway (get_gateway_wise_routing_inputs_for_global_sr gw mi di d) = gw"
  by (auto simp: get_gateway_wise_routing_inputs_for_global_sr_def adjust_defs_def mk_new_entry_def
      Let_def find_Some_iff unwrap_or_def opt_or_def split: option.splits)

lemma gi_gateway_merchant [simp]:
  "gi_gateway (get_gateway_wise_routing_inputs_for_merchant_sr D E gsd m txn info gw mi di ab) = gw"
  by (auto simp: get_gateway_wise_routing_inputs_for_merchant_sr_def Let_def find_Some_iff
      split: option.splits)

lemma map_filter_names:
  assumes "\<And>k. gi_gateway (h k) = k"
  shows "List.map gi_gateway (filter below_threshold
      (List.map_filter (\<lambda>i. map_option (\<lambda>(_, sc). i\<lparr>gi_current_score := Some sc\<rparr>) (g i)) (List.map h ks))) =
    filter (\<lambda>k. case g (h k) of None \<Rightarrow> False
      | Some (_, sc) \<Rightarrow> below_threshold (h k\<lparr>gi_current_score := Some sc\<rparr>)) ks"
  by (induction ks) (auto simp: List.map_filter_simps assms split: option.splits)

lemma map_fst_split: "List.map (\<lambda>(k, _). f k) sm = List.map f (List.map fst sm)"
  by (induction sm) auto

lemma global_scores_names:
  assumes "check_sr_global_routing_defaults di mi = Inr df"
    and g: "global_scores S now s keys
      (List.map (\<lambda>(k, _). get_gateway_wise_routing_inputs_for_global_sr k mi di df) sm) = (upd, logs)"
  shows "List.map gi_gateway (filter below_threshold upd) =
    filter (global_down S now s keys mi di) (List.map fst sm)"
proof -
  let ?h = "\<lambda>k. get_gateway_wise_routing_inputs_for_global_sr k mi di df"
  let ?g = "get_global_elimination_gateway_score S now s keys"
  have down: "global_down S now s keys mi di =
      (\<lambda>k. case ?g (?h k) of None \<Rightarrow> False | Some (_, sc) \<Rightarrow> below_threshold (?h k\<lparr>gi_current_score := Some sc\<rparr>))"
    by (rule ext) (simp only: global_down_def assms(1) sum.case Let_def)
  from g have "upd = List.map_filter (\<lambda>i. map_option (\<lambda>(_, sc). i\<lparr>gi_current_score := Some sc\<rparr>) (?g i))
      (List.map ?h (List.map fst sm))"
    by (simp add: global_scores_def global_scores_step map_fst_split)
  then show ?thesis
    by (simp only: map_filter_names [of ?h, OF gi_gateway_global] down)
qed

text \<open>The parts of the state the platform-wide stage does not write.\<close>

definition same_rest :: "decider_state \<Rightarrow> decider_state \<Rightarrow> bool" where
  "same_rest st st' \<longleftrightarrow>
     ds_gw_decider_approach st' = ds_gw_decider_approach st \<and>
     ds_reset_gateway_list st' = ds_reset_gateway_list st \<and>
     ds_ab_test_sr_override st' = ds_ab_test_sr_override st \<and>
     ds_reset_approach st' = ds_reset_approach st"

lemma global_stage:
  assumes d: "distinct (List.map fst (ds_gw_score_map st))"
    and r: "update_gateway_score_based_on_global_success_rate S now s keys txn mi di st = (st', f, occ)"
  shows "ds_gw_score_map st' =
      List.map (\<lambda>(gw, x). (gw, fifth (global_down S now s keys mi di gw) x)) (ds_gw_score_map st) \<and>
    List.map gi_gateway (unwrap_or f []) =
      filter (global_down S now s keys mi di) (List.map fst (ds_gw_score_map st)) \<and>
    same_rest st st'"
proof (cases "check_sr_global_routing_defaults di mi")
  case (Inl e)
  then have "global_down S now s keys mi di = (\<lambda>_. False)"
    by (simp add: global_down_def fun_eq_iff)
  with Inl r show ?thesis
    by (auto simp: update_gateway_score_based_on_global_success_rate_def fifth_def return_sm_with_log_def
        same_rest_def)
next
  case (Inr df)
  obtain upd logs where g: "global_scores S now s keys
      (List.map (\<lambda>(k, _). get_gateway_wise_routing_inputs_for_global_sr k mi di df) (ds_gw_score_map st)) =
      (upd, logs)"
    by fastforce
  note names = global_scores_names [OF Inr g]
  note pen = penalize_named [OF names d]
  obtain fs where fs: "fs = filter below_threshold upd" by simp
  from r have f: "f = Some fs"
    by (simp add: update_gateway_score_based_on_global_success_rate_def Inr Let_def g fs)
  from r have "ds_gw_score_map st' = (if fs = [] then ds_gw_score_map st else foldl penalize_gsr (ds_gw_score_map st) fs)
      \<and> same_rest st st'"
    by (cases "fs = []"; cases "logs = []")
      (auto simp: update_gateway_score_based_on_global_success_rate_def Inr Let_def g fs [symmetric]
        reset_metric_log_data_def same_rest_def return_sm_with_log_def)
  then show ?thesis
    using names pen by (auto simp: f fs)
qed

lemma merchant_names:
  fixes sm :: gateway_score_map
  assumes "gi = (\<lambda>gw. get_gateway_wise_routing_inputs_for_merchant_sr D E gsd m txn info gw (ev_merchant_input E) di ab)"
  shows "List.map gi_gateway (filter below_threshold
      (List.map (update_current_score S now s keys) (List.map gi ks))) =
    filter (merchant_down S D E gsd m txn info di ab now s keys) ks"
proof -
  have "below_threshold (update_current_score S now s keys (gi k)) =
      merchant_down S D E gsd m txn info di ab now s keys k" for k
    by (simp add: below_threshold_def update_current_score_def merchant_down_def assms Let_def
        get_merchant_elimination_gateway_score_def split: option.splits)
  moreover have "gi_gateway (update_current_score S now s keys (gi k)) = k" for k
    by (simp add: update_current_score_def assms Let_def)
  ultimately show ?thesis by (induction ks) auto
qed

lemma all_down_length:
  "filter P xs = ys \<Longrightarrow> length xs = length ys \<longleftrightarrow> list_all P xs"
  by (metis filter_True length_filter_less list_all_iff nat_neq_iff)

text \<open>The merchant stage, given the names of the gateways below their thresholds.\<close>

lemma downtime_result_names:
  assumes n: "List.map gi_gateway fs = filter mdown gws"
    and g: "List.map gi_gateway (unwrap_or gf []) = filter gdown gws"
    and l: "length new = length gws"
  shows "downtime_result opt sr initial new fs gf info_list =
    (let d = downtime_of gdown mdown gws in
     (if d = AllDowntime \<and> opt \<and> \<not> sr then initial else new, d,
      if d = AllDowntime \<and> opt then [] else info_list))"
proof -
  have lf: "length fs = length (filter mdown gws)" using n by (metis length_map)
  have 1: "(1 < length fs \<and> length new = length fs) = (list_all mdown gws \<and> 1 < length gws)"
    using l lf all_down_length [of mdown gws] by auto
  have 2: "(unwrap_or gf [] = []) = (\<not> list_ex gdown gws)"
    using g by (metis Nil_is_map_conv filter_empty_conv list_ex_iff)
  have 3: "(fs = []) = (\<not> list_ex mdown gws)"
    using n by (metis Nil_is_map_conv filter_empty_conv list_ex_iff)
  show ?thesis
    by (simp add: downtime_result_def 1 2 3 downtime_of_def Let_def del: One_nat_def)
qed

lemma trigger_state:
  assumes "trigger_reset_gateway_score S D E m now txn info gsd keys is l st s = Some (st', s')"
  obtains ra where "st' = st\<lparr>ds_reset_approach := ra\<rparr>"
proof (cases "dc_reset_score_enabled D")
  case True
  with assms that show ?thesis by (auto simp: trigger_reset_gateway_score_def split: option.splits)
next
  case False
  with assms have "st' = st\<lparr>ds_reset_approach := ds_reset_approach st\<rparr>"
    by (simp add: trigger_reset_gateway_score_def)
  then show ?thesis by (rule that)
qed

lemma approach_info_global:
  "set (approach_info occ (merchant_metric_data b n fs (ds_sr_metric_log_data (reset_metric_log_data t st))))
     \<subseteq> {''GLOBAL''}"
  by (simp add: merchant_metric_data_def reset_metric_log_data_def approach_info_def Let_def)

lemma merchant_scoring_state:
  assumes "merchant_scoring D now txn updated occ st = (st', fs, info_list)"
  shows "fs = filter below_threshold updated \<and>
    ds_gw_score_map st' = foldl penalize_gsr (ds_gw_score_map st) fs \<and>
    ds_gw_decider_approach st' = ds_gw_decider_approach st \<and>
    ds_reset_approach st' = ds_reset_approach st \<and>
    ml_downtime_status (ds_sr_metric_log_data st') = [] \<and> set info_list \<subseteq> {''GLOBAL''} \<and>
    ds_reset_gateway_list st' =
      (if fs \<noteq> [] \<and> dc_reset_score_enabled D \<and> evaluate_reset_gateway_score D now fs \<noteq> []
       then remdups_adj (evaluate_reset_gateway_score D now fs) else ds_reset_gateway_list st)"
proof -
  have "set info_list \<subseteq> {''GLOBAL''}"
    using assms by (simp add: merchant_scoring_def Let_def) (metis approach_info_global)
  with assms show ?thesis
    by (auto simp: merchant_scoring_def Let_def update_score_with_log_eq reset_metric_log_data_def
        merchant_metric_data_def)
qed

lemma merchant_stage:
  assumes r: "merchant_elimination S D E m now txn info gsd keys sr initial inputs gf occ st s = Some (st', s')"
    and d: "distinct (List.map fst (ds_gw_score_map st))"
    and i: "inputs = merchant_inputs D E gsd m txn info di ab (ds_gw_score_map st)"
    and g: "List.map gi_gateway (unwrap_or gf []) = filter gdown (List.map fst (ds_gw_score_map st))"
  defines "mdown \<equiv> merchant_down S D E gsd m txn info di ab now s keys"
  defines "dt \<equiv> downtime_of gdown mdown (List.map fst (ds_gw_score_map st))"
  shows "ds_gw_score_map st' =
      (if dt = AllDowntime \<and> dc_optimization_during_downtime D \<and> \<not> sr then initial
       else List.map (\<lambda>(gw, x). (gw, fifth (mdown gw) x)) (ds_gw_score_map st)) \<and>
    ds_gw_decider_approach st' = modify_gateway_decider_approach (ds_gw_decider_approach st) dt \<and>
    ds_elimination_scores st' = Some (ds_gw_score_map st') \<and>
    set (ds_sr_elimination_approach_info st') \<subseteq> {''GLOBAL''} \<and>
    ml_downtime_status (ds_sr_metric_log_data st') = []"
proof -
  let ?sm = "ds_gw_score_map st"
  obtain st0 fs info_list where ms: "merchant_scoring D now txn
      (List.map (update_current_score S now s keys) inputs) occ st = (st0, fs, info_list)"
    by (metis prod_cases3)
  note st0 = merchant_scoring_state [OF ms]
  have names: "List.map gi_gateway fs = filter mdown (List.map fst ?sm)"
    unfolding conjunct1 [OF st0] i merchant_inputs_def mdown_def map_fst_split
    by (rule merchant_names) (rule refl)
  have sm0: "ds_gw_score_map st0 = List.map (\<lambda>(gw, x). (gw, fifth (mdown gw) x)) ?sm"
    using st0 penalize_named [OF names d] by simp
  then have l: "length (ds_gw_score_map st0) = length (List.map fst ?sm)" by simp
  from r obtain st1 s1 where t: "(if ds_reset_gateway_list st0 \<noteq> []
        then trigger_reset_gateway_score S D E m now txn info gsd keys inputs (ds_reset_gateway_list st0) st0 s
        else Some (st0, s)) = Some (st1, s1)"
    by (auto simp add: merchant_elimination_def ms Let_def split: option.splits)
  have "\<exists>ra. st1 = st0\<lparr>ds_reset_approach := ra\<rparr>"
  proof (cases "ds_reset_gateway_list st0 \<noteq> []")
    case True
    with t show ?thesis by (auto elim: trigger_state)
  next
    case False
    with t have "st1 = st0\<lparr>ds_reset_approach := ds_reset_approach st0\<rparr>" by simp
    then show ?thesis ..
  qed
  then obtain ra where st1: "st1 = st0\<lparr>ds_reset_approach := ra\<rparr>" ..
  let ?new = "if dt = AllDowntime \<and> dc_optimization_during_downtime D \<and> \<not> sr then initial
    else ds_gw_score_map st0"
  have "st' = st1\<lparr>ds_gw_score_map := ?new, ds_elimination_scores := Some ?new,
      ds_gw_decider_approach := modify_gateway_decider_approach (ds_gw_decider_approach st1) dt,
      ds_sr_elimination_approach_info :=
        (if dt = AllDowntime \<and> dc_optimization_during_downtime D then [] else info_list)\<rparr>"
    using r unfolding merchant_elimination_def ms Let_def prod.case t option.case
      downtime_result_names [OF names g l, folded dt_def, unfolded Let_def, folded dt_def] by simp
  then show ?thesis
    using st0 by (simp add: st1 sm0)
qed

lemma resets_off_total:
  assumes "\<not> dc_reset_score_enabled D"
  shows "\<exists>st' s'. update_gateway_score_based_on_success_rate S D E m now txn info gsd gkeys mkeys di sr
    initial enabled st s = Some (st', s')"
proof -
  have "merchant_elimination S D E m now txn info gsd keys sr initial inputs gf occ st s \<noteq> None"
    for keys inputs gf occ st
    using assms by (auto simp: merchant_elimination_def trigger_reset_gateway_score_def Let_def
        split: prod.splits)
  then show ?thesis
    by (fastforce simp: update_gateway_score_based_on_success_rate_def Let_def split: prod.splits)
qed

text \<open>The enabled stage is the merchant stage on the state the platform-wide one leaves.\<close>

lemma fold_enabled:
  assumes "dc_payment_flow_enabled D \<or> enabled = Some True" "payment_method_type_enabled (ev_merchant_input E) info"
    and "ds_gw_score_map st \<noteq> []" "distinct (List.map fst (ds_gw_score_map st))"
    and r: "update_gateway_score_based_on_success_rate S D E m now txn info gsd gkeys mkeys di sr initial
      enabled st s = Some (st', s')"
  obtains st1 gf occ st2 where
    "merchant_elimination S D E m now txn info gsd mkeys sr initial
       (merchant_inputs D E gsd m txn info di (Option.bind (ds_ab_test_sr_override st) ov_elimination_threshold)
          (ds_gw_score_map st1)) gf occ st1 s = Some (st2, s')"
    "st' = return_sm_with_log UpdateGatewayScoreBasedOnSuccessRate True st2"
    "List.map fst (ds_gw_score_map st1) = List.map fst (ds_gw_score_map st)"
    "ds_gw_score_map st1 = List.map (\<lambda>(gw, x). (gw, fifth
       (global_down S now s gkeys (ev_merchant_input E) di gw) x)) (ds_gw_score_map st)"
    "List.map gi_gateway (unwrap_or gf []) =
       filter (global_down S now s gkeys (ev_merchant_input E) di) (List.map fst (ds_gw_score_map st1))"
    "same_rest st st1"
proof -
  obtain st1 gf occ where g: "update_gateway_score_based_on_global_success_rate S now s gkeys txn
      (ev_merchant_input E) di st = (st1, gf, occ)"
    by (metis prod_cases3)
  note gs = global_stage [OF assms(4) g]
  then have keys: "List.map fst (ds_gw_score_map st1) = List.map fst (ds_gw_score_map st)"
    by (simp add: split_def)
  have ab: "ds_ab_test_sr_override st1 = ds_ab_test_sr_override st" using gs by (simp add: same_rest_def)
  have "merchant_inputs D E gsd m txn info di ab (ds_gw_score_map st1) \<noteq> []" for ab
    using assms(3) keys by (auto simp: merchant_inputs_def)
  with r assms(1,2) g ab obtain st2 where
    me: "merchant_elimination S D E m now txn info gsd mkeys sr initial
       (merchant_inputs D E gsd m txn info di (Option.bind (ds_ab_test_sr_override st) ov_elimination_threshold)
          (ds_gw_score_map st1)) gf occ st1 s = Some (st2, s')"
    and st': "st' = return_sm_with_log UpdateGatewayScoreBasedOnSuccessRate True st2"
    by (auto simp: update_gateway_score_based_on_success_rate_def Let_def)
  have names: "List.map gi_gateway (unwrap_or gf []) =
      filter (global_down S now s gkeys (ev_merchant_input E) di) (List.map fst (ds_gw_score_map st1))"
    unfolding keys by (rule conjunct1 [OF conjunct2 [OF gs]])
  show ?thesis
    by (rule that [OF me st' keys conjunct1 [OF gs] names conjunct2 [OF conjunct2 [OF gs]]])
qed

text \<open>
  C13. Let elimination be enabled for the flow and the method of the payment, the scored gateways be
  distinct and some, and the run not panic. Then every gateway keeps its place and its score is divided
  by five once if the platform's score of it is too low and once more if the merchant's is - with one
  exception: when the merchant's scores of all of several gateways are too low, the optimization during
  downtimes is on and the scores are no success rates, the scores before any penalty stand. The approach
  is the variant of the approach before for the downtime found.
\<close>

theorem elimination_scores:
  assumes "distinct (List.map fst (ds_gw_score_map st))" "ds_gw_score_map st \<noteq> []"
    and "dc_payment_flow_enabled D \<or> enabled = Some True" "payment_method_type_enabled (ev_merchant_input E) info"
    and "update_gateway_score_based_on_success_rate S D E m now txn info gsd gkeys mkeys di sr initial enabled st s
      = Some (st', s')"
  shows "let gdown = global_down S now s gkeys (ev_merchant_input E) di;
      mdown = merchant_down S D E gsd m txn info di
        (Option.bind (ds_ab_test_sr_override st) ov_elimination_threshold) now s mkeys;
      dt = downtime_of gdown mdown (List.map fst (ds_gw_score_map st)) in
    ds_gw_score_map st' =
      (if dt = AllDowntime \<and> dc_optimization_during_downtime D \<and> \<not> sr then initial
       else List.map (\<lambda>(gw, x). (gw, fifth (mdown gw) (fifth (gdown gw) x))) (ds_gw_score_map st)) \<and>
    ds_gw_decider_approach st' = modify_gateway_decider_approach (ds_gw_decider_approach st) dt \<and>
    ds_elimination_scores st' = Some (ds_gw_score_map st')"
  using assms(3,4,2,1,5)
proof (rule fold_enabled)
  fix st1 gf occ st2
  assume me: "merchant_elimination S D E m now txn info gsd mkeys sr initial
       (merchant_inputs D E gsd m txn info di (Option.bind (ds_ab_test_sr_override st) ov_elimination_threshold)
          (ds_gw_score_map st1)) gf occ st1 s = Some (st2, s')"
    and st': "st' = return_sm_with_log UpdateGatewayScoreBasedOnSuccessRate True st2"
    and k: "List.map fst (ds_gw_score_map st1) = List.map fst (ds_gw_score_map st)"
    and sm: "ds_gw_score_map st1 = List.map (\<lambda>(gw, x). (gw, fifth
       (global_down S now s gkeys (ev_merchant_input E) di gw) x)) (ds_gw_score_map st)"
    and n: "List.map gi_gateway (unwrap_or gf []) =
       filter (global_down S now s gkeys (ev_merchant_input E) di) (List.map fst (ds_gw_score_map st1))"
    and rest: "same_rest st st1"
  from merchant_stage [OF me _ refl n] assms(1) k rest show ?thesis
    unfolding k by (simp add: st' sm same_rest_def Let_def return_sm_with_log_def comp_def split_def)
qed

section \<open>An example\<close>

definition demo_config :: score_config where
  "demo_config =
     \<lparr>sc_minimum_gateway_score = None, sc_gateway_penalty_factor = None,
      sc_outage_penalty_factor = None, sc_gateway_reward_factor = None,
      sc_outage_reward_factor = None, sc_merchant_arr_max_length = None, sc_global_outage_ttl = None,
      sc_outage_ttl = None, sc_global_ttl = None, sc_third_dimension_ttl = None,
      sc_elimination_v2 = (\<lambda>_. False), sc_outage_v2 = (\<lambda>_. False)\<rparr>"

definition demo_input :: "int option \<Rightarrow> gateway_sr_input" where
  "demo_input resets =
     (from_elimination_threshold (Fin (1 / 2)) None)\<lparr>si_default_global_soft_txn_reset_count := resets\<rparr>"

definition demo_env :: "int option \<Rightarrow> elim_env" where
  "demo_env resets =
     \<lparr>ev_powf = (\<lambda>_ _. Fin 1),
      ev_sources = \<lparr>src_hget = (\<lambda>_ _. None), src_configs = None, src_redis = (\<lambda>_. None),
        src_config_sr1 = None, src_config_n = None\<rparr>,
      ev_merchant_input = Some (demo_input resets), ev_config = demo_config\<rparr>"

definition demo_decision :: "bool \<Rightarrow> decision_config" where
  "demo_decision resets =
     \<lparr>dc_elimination_threshold = Fin (1 / 20), dc_soft_txn_reset_count = 10,
      dc_first_dimension_ttl = None, dc_second_dimension_ttl = None, dc_third_dimension_ttl = None,
      dc_fourth_dimension_ttl = None, dc_reset_score_enabled = resets,
      dc_optimization_during_downtime = False, dc_payment_flow_enabled = True\<rparr>"

definition demo_txn :: txn_detail where
  "demo_txn =
     \<lparr>td_txn_id = ''t'', td_date_created = [], td_merchant_id = ''m'', td_gateway = None,
      td_txn_object_type = Some OrderPayment, td_source_object = None, td_country = None\<rparr>"

definition demo_info :: txn_card_info where
  "demo_info =
     \<lparr>tci_card_isin = None, tci_card_switch_provider = None, tci_card_type = None,
      tci_payment_method_type = ''NB'', tci_payment_method = ''NB_HDFC'', tci_payment_source = None,
      tci_auth_type = None\<rparr>"

definition demo_gsd :: gateway_scoring_data where
  "demo_gsd =
     \<lparr>gsd_merchant_id = ''m'', gsd_payment_method_type = ''NB'', gsd_payment_method = ''NB_HDFC'',
      gsd_order_type = ''ORDER_PAYMENT'', gsd_card_type = None, gsd_bank_code = None,
      gsd_auth_type = None, gsd_payment_source = None,
      gsd_is_payment_source_enabled_for_sr_routing = False,
      gsd_is_auth_level_enabled_for_sr_routing = False,
      gsd_is_bank_level_enabled_for_sr_routing = False, gsd_is_gri_enabled_for_elimination = False,
      gsd_is_gri_enabled_for_sr_routing = False, gsd_elimination_enabled = True,
      gsd_card_is_in = None, gsd_card_switch_provider = None, gsd_currency = None, gsd_country = None,
      gsd_is_legacy_decider_flow = False, gsd_gateway_reference_id = None, gsd_udfs = None,
      gsd_udfs_consumed_for_routing = None\<rparr>"

definition demo_keys :: "string hmap" where
  "demo_keys = [(''A'', ''ka''), (''B'', ''kb'')]"

definition demo_state :: decider_state where
  "demo_state = (initial_decider_state [])
     \<lparr>ds_gw_score_map := [(''A'', Fin 1), (''B'', Fin (9 / 10))],
      ds_gw_decider_approach := PriorityLogic\<rparr>"

definition demo_score :: "rat \<Rightarrow> json" where
  "demo_score x = json_of_score
     \<lparr>gs_timestamp = 0, gs_score = Fin x, gs_transaction_count = 9, gs_last_reset_timestamp = 0\<rparr>"

definition demo_store :: "string \<Rightarrow> (json \<times> int) option" where
  "demo_store = [''ka'' \<mapsto> (demo_score (1 / 4), 10 ^ 12), ''kb'' \<mapsto> (demo_score (3 / 4), 10 ^ 12)]"

lemmas demo_defs = demo_config_def demo_input_def demo_env_def demo_decision_def demo_txn_def
  demo_info_def demo_gsd_def demo_keys_def demo_state_def demo_score_def demo_store_def
  from_elimination_threshold_def initial_decider_state_def

lemma demo_read:
  "ss_get mem_store demo_store 1000000 ''ka'' = Some (demo_score (1 / 4))"
  "ss_get mem_store demo_store 1000000 ''kb'' = Some (demo_score (3 / 4))"
  by (simp_all add: mem_store_def demo_store_def)

lemma demo_score_read:
  "score_of_json (demo_score x) =
     Some \<lparr>gs_timestamp = 0, gs_score = Fin x, gs_transaction_count = 9, gs_last_reset_timestamp = 0\<rparr>"
  unfolding demo_score_def by (rule score_roundtrip) (simp add: score_ok_def)

lemma demo_not_global:
  "global_down S now s keys (Some (demo_input r)) None gw = False"
  by (simp add: global_down_def check_sr_global_routing_defaults_def is_forced_pm_def demo_input_def
      from_elimination_threshold_def)

lemma demo_merchant_threshold:
  "gi_elimination_threshold (get_gateway_wise_routing_inputs_for_merchant_sr (demo_decision b) (demo_env r) gsd
     m txn info gw (Some (demo_input r)) None None) = Some (Fin (1 / 2))"
  by (simp add: get_gateway_wise_routing_inputs_for_merchant_sr_def Let_def demo_env_def demo_config_def
      demo_input_def from_elimination_threshold_def)

lemma demo_merchant_down:
  "merchant_down mem_store (demo_decision b) (demo_env r) demo_gsd m demo_txn demo_info None None 1000000
     demo_store demo_keys gw = (gw = ''A'')" if "gw \<in> {''A'', ''B''}"
proof -
  have e: "ev_merchant_input (demo_env r) = Some (demo_input r)" by (simp add: demo_env_def)
  show ?thesis
    using that by (auto simp: merchant_down_def e demo_merchant_threshold demo_keys_def demo_read demo_score_read)
qed

lemma elimination_scores_witness:
  "\<exists>st' s'. update_gateway_score_based_on_success_rate mem_store (demo_decision False) (demo_env None) ''m''
      1000000 demo_txn demo_info demo_gsd [] demo_keys None False [] None demo_state demo_store = Some (st', s') \<and>
     ds_gw_score_map st' = [(''A'', fdiv (Fin 1) (Fin 5)), (''B'', Fin (9 / 10))] \<and>
     ds_gw_decider_approach st' = PlDowntimeRouting"
proof -
  obtain st' s' where r: "update_gateway_score_based_on_success_rate mem_store (demo_decision False)
      (demo_env None) ''m'' 1000000 demo_txn demo_info demo_gsd [] demo_keys None False [] None demo_state
      demo_store = Some (st', s')"
    using resets_off_total [of "demo_decision False"] by (fastforce simp: demo_decision_def)
  have m: "ds_gw_score_map demo_state = [(''A'', Fin 1), (''B'', Fin (9 / 10))]"
    "ds_gw_decider_approach demo_state = PriorityLogic" "ds_ab_test_sr_override demo_state = None"
    by (simp_all add: demo_state_def initial_decider_state_def)
  have i: "ev_merchant_input (demo_env None) = Some (demo_input None)"
    "payment_method_type_enabled (ev_merchant_input (demo_env None)) demo_info"
    "dc_payment_flow_enabled (demo_decision False)" "\<not> dc_optimization_during_downtime (demo_decision False)"
    by (simp_all add: payment_method_type_enabled_def demo_defs)
  from elimination_scores [OF _ _ _ i(2) r] r show ?thesis
    by (simp add: m i Let_def demo_not_global demo_merchant_down downtime_of_def fifth_def)
qed

end
