(* ===== verification/Elim_Resets.thy ===== *)
theory Elim_Resets
  imports Elim_Correct
begin

text \<open>
  Elimination over time: what of it reaches the report of a decision, when the stored score of an
  eliminated gateway is reset, and that a reset readmits the gateway.
\<close>

section \<open>The report\<close>

text \<open>
  The merchant stage never reports a change of the best gateway: the approach information is at
  most the platform's, and the record of the metrics names no gateway that is down and no gateway
  from before the evaluation, whatever the stage did to the scores.
\<close>

theorem merchant_elimination_unreported:
  assumes "dc_payment_flow_enabled D \<or> enabled = Some True" "payment_method_type_enabled (ev_merchant_input E) info"
    and "ds_gw_score_map st \<noteq> []" "distinct (List.map fst (ds_gw_score_map st))"
    and "update_gateway_score_based_on_success_rate S D E m now txn info gsd gkeys mkeys di sr initial
      enabled st s = Some (st', s')"
  shows "set (ds_sr_elimination_approach_info st') \<subseteq> {''GLOBAL''} \<and>
    ml_downtime_status (ds_sr_metric_log_data st') = []"
  using assms
proof (rule fold_enabled)
  fix st1 gf occ st2
  assume me: "merchant_elimination S D E m now txn info gsd mkeys sr initial
       (merchant_inputs D E gsd m txn info di (Option.bind (ds_ab_test_sr_override st) ov_elimination_threshold)
          (ds_gw_score_map st1)) gf occ st1 s = Some (st2, s')"
    and st': "st' = return_sm_with_log UpdateGatewayScoreBasedOnSuccessRate True st2"
    and k: "List.map fst (ds_gw_score_map st1) = List.map fst (ds_gw_score_map st)"
    and n: "List.map gi_gateway (unwrap_or gf []) =
       filter (global_down S now s gkeys (ev_merchant_input E) di) (List.map fst (ds_gw_score_map st1))"
  from merchant_stage [OF me _ refl n] assms(4) k st' show ?thesis by simp
qed

lemma two_powi_numerals: "two_powi (- 2) = 1 / 4" "two_powi (- 1) = 1 / 2"
  using two_powi_neg [of 2] two_powi_neg [of 1] by simp_all

lemma f64_quarter: "f64_of_rat (1 / 4) = Fin (1 / 4)"
proof -
  have "two_powi (- 2) = two_powi 52 * two_powi (- 54)" by (simp flip: two_powi_add)
  moreover have "two_powi 52 = 2 ^ 52" using two_powi_nat [of 52] by simp
  ultimately have q: "1 / 4 = 2 ^ 52 * two_powi (- 54)" by (simp only: two_powi_numerals)
  have "rnd (1 / 4) = of_int (2 ^ 52) * two_powi (- 54)"
  proof (rule rnd_near)
    show "\<bar>1 / 4 / two_powi (- 54) - of_int (2 ^ 52)\<bar> < 1 / 2"
      by (simp add: q [unfolded times_divide_eq_left])
  qed (simp_all add: two_powi_numerals)
  with q show ?thesis by (simp add: f64_of_rat_def)
qed

lemma fifth_of_one: "\<exists>r. fdiv (Fin 1) (Fin 5) = Fin r \<and> 0 \<le> r \<and> r \<le> 1 / 4"
proof -
  have "fle (Fin 0) (f64_of_rat (1 / 5)) \<and> fle (f64_of_rat (1 / 5)) (Fin (1 / 4))"
    using f64_of_rat_mono [of "1 / 5" "1 / 4"] f64_of_rat_nonneg [of "1 / 5"] by (simp add: f64_quarter)
  then show ?thesis
    by (cases "f64_of_rat (1 / 5)") (auto simp: fdiv_def fle_def)
qed

text \<open>The example's best gateway goes down and the other one takes over.\<close>

lemma demo_scores:
  assumes r: "update_gateway_score_based_on_success_rate mem_store (demo_decision b) (demo_env r) ''m''
      1000000 demo_txn demo_info demo_gsd [] demo_keys None False [] None demo_state demo_store = Some (st', s')"
  shows "top_gateway (ds_gw_score_map demo_state) = Some ''A'' \<and>
    top_gateway (ds_gw_score_map st') = Some ''B''"
proof -
  have m: "ds_gw_score_map demo_state = [(''A'', Fin 1), (''B'', Fin (9 / 10))]"
    "ds_ab_test_sr_override demo_state = None"
    by (simp_all add: demo_state_def initial_decider_state_def)
  have i: "ev_merchant_input (demo_env r) = Some (demo_input r)"
    "payment_method_type_enabled (Some (demo_input r)) demo_info"
    "dc_payment_flow_enabled (demo_decision b)" "\<not> dc_optimization_during_downtime (demo_decision b)"
    by (simp_all add: payment_method_type_enabled_def demo_defs)
  from r obtain st1 gf occ st2 where
    me: "merchant_elimination mem_store (demo_decision b) (demo_env r) ''m'' 1000000 demo_txn demo_info demo_gsd
       demo_keys False [] (merchant_inputs (demo_decision b) (demo_env r) demo_gsd ''m'' demo_txn demo_info None
          (Option.bind (ds_ab_test_sr_override demo_state) ov_elimination_threshold)
          (ds_gw_score_map st1)) gf occ st1 demo_store = Some (st2, s')"
    and st': "st' = return_sm_with_log UpdateGatewayScoreBasedOnSuccessRate True st2"
    and sm: "ds_gw_score_map st1 = ds_gw_score_map demo_state"
    and n: "List.map gi_gateway (unwrap_or gf []) = filter (global_down mem_store 1000000 demo_store []
        (ev_merchant_input (demo_env r)) None) (List.map fst (ds_gw_score_map st1))"
    by (rule fold_enabled [rotated 4]) (simp_all add: i demo_not_global fifth_def m)
  have "ds_gw_score_map st' = [(''A'', fdiv (Fin 1) (Fin 5)), (''B'', Fin (9 / 10))]"
    using merchant_stage [OF me _ refl n] st'
    by (simp add: sm m i demo_not_global demo_merchant_down downtime_of_def fifth_def)
  with fifth_of_one m show ?thesis
    by (auto simp: top_gateway_def get_max_score_gateway_def fcmp_def)
qed

lemma merchant_elimination_unreported_witness:
  "\<exists>st' s'. update_gateway_score_based_on_success_rate mem_store (demo_decision False) (demo_env None) ''m''
      1000000 demo_txn demo_info demo_gsd [] demo_keys None False [] None demo_state demo_store = Some (st', s') \<and>
     top_gateway (ds_gw_score_map demo_state) = Some ''A'' \<and>
     top_gateway (ds_gw_score_map st') = Some ''B'' \<and>
     ''MERCHANT'' \<notin> set (ds_sr_elimination_approach_info st') \<and>
     ml_downtime_status (ds_sr_metric_log_data st') = []"
proof -
  obtain st' s' where r: "update_gateway_score_based_on_success_rate mem_store (demo_decision False)
      (demo_env None) ''m'' 1000000 demo_txn demo_info demo_gsd [] demo_keys None False [] None demo_state
      demo_store = Some (st', s')"
    using resets_off_total [of "demo_decision False"] by (fastforce simp: demo_decision_def)
  have "payment_method_type_enabled (ev_merchant_input (demo_env None)) demo_info"
    "dc_payment_flow_enabled (demo_decision False)" "ds_gw_score_map demo_state \<noteq> []"
    "distinct (List.map fst (ds_gw_score_map demo_state))"
    by (simp_all add: payment_method_type_enabled_def demo_defs)
  with merchant_elimination_unreported [OF _ _ _ _ r] demo_scores [OF r] r show ?thesis by fastforce
qed

section \<open>Resets that never happen\<close>

lemma no_count_no_reset:
  assumes "\<And>i. i \<in> set is \<Longrightarrow> gi_soft_txn_reset_count i = None"
  shows "reset_gateways S D E m now txn info gsd keys is gws s = Some s"
proof (induction gws)
  case (Cons gw gws)
  have "reset_gateway_score S E m now txn info (reset_request D E gsd keys gw i) gsd s = Some s"
    if "get_gateway_success_rate_input gw is = Some i" for i
    using that assms [of i]
    by (auto simp: get_gateway_success_rate_input_def reset_gateway_score_def reset_request_def find_Some_iff
        split: option.splits)
  with Cons show ?case by (auto split: option.splits)
qed simp

lemma api_inputs_no_count:
  assumes "ev_merchant_input E = Some (from_elimination_threshold t l)"
    and "i \<in> set (merchant_inputs D E gsd m txn info di ab sm)"
  shows "gi_soft_txn_reset_count i = None"
  using assms
  by (auto simp: merchant_inputs_def get_gateway_wise_routing_inputs_for_merchant_sr_def
      from_elimination_threshold_def Let_def)

lemma trigger_store:
  "trigger_reset_gateway_score S D E m now txn info gsd keys is l st s = Some (st', s') \<Longrightarrow>
     (if dc_reset_score_enabled D then reset_gateways S D E m now txn info gsd keys is l s else Some s) = Some s'"
  by (auto simp: trigger_reset_gateway_score_def split: if_splits option.splits)

text \<open>
  The configuration the rule API stores for a merchant carries no reset count, and the lookup
  lets that absence stand instead of falling back to the default of ten. So for a merchant
  configured through it no decision ever resets a score, even when resets are enabled.
\<close>

theorem api_elimination_never_resets:
  assumes "ev_merchant_input E = Some (from_elimination_threshold t l)"
  shows "\<exists>st'. update_gateway_score_based_on_success_rate S D E m now txn info gsd gkeys mkeys di sr initial
      enabled st s = Some (st', s)"
proof -
  have "\<exists>st2. merchant_elimination S D E m now txn info gsd mkeys sr initial
      (merchant_inputs D E gsd m txn info di ab sm) gf occ st1 s = Some (st2, s)" for ab sm gf occ st1
  proof -
    obtain st0 fs info_list where ms: "merchant_scoring D now txn (List.map (update_current_score S now s mkeys)
        (merchant_inputs D E gsd m txn info di ab sm)) occ st1 = (st0, fs, info_list)"
      by (metis prod_cases3)
    note keep = no_count_no_reset [of "merchant_inputs D E gsd m txn info di ab sm", OF api_inputs_no_count [OF assms]]
    have "\<exists>st3. trigger_reset_gateway_score S D E m now txn info gsd mkeys
          (merchant_inputs D E gsd m txn info di ab sm) gws st0 s = Some (st3, s)" for gws
      by (simp add: trigger_reset_gateway_score_def keep)
    then obtain st3 where st3: "(if ds_reset_gateway_list st0 \<noteq> []
        then trigger_reset_gateway_score S D E m now txn info gsd mkeys
          (merchant_inputs D E gsd m txn info di ab sm) (ds_reset_gateway_list st0) st0 s
        else Some (st0, s)) = Some (st3, s)"
      by fastforce
    show ?thesis
      by (simp only: merchant_elimination_def ms Let_def prod.case st3 option.case) (simp add: split_def)
  qed
  then show ?thesis
    by (simp add: update_gateway_score_based_on_success_rate_def Let_def split_def)
qed

text \<open>The example's gateway A has been down for longer than its soft time to live and stays so.\<close>

lemma api_elimination_never_resets_witness:
  "\<exists>st'. update_gateway_score_based_on_success_rate mem_store (demo_decision True) (demo_env None) ''m''
     1000000 demo_txn demo_info demo_gsd [] demo_keys None False [] None demo_state demo_store =
       Some (st', demo_store) \<and>
   merchant_down mem_store (demo_decision True) (demo_env None) demo_gsd ''m'' demo_txn demo_info None None
     1000000 demo_store demo_keys ''A''"
proof -
  have "ev_merchant_input (demo_env None) = Some (from_elimination_threshold (Fin (1 / 2)) None)"
    by (simp add: demo_env_def demo_input_def from_elimination_threshold_def)
  from api_elimination_never_resets [OF this] show ?thesis
    by (fastforce simp: demo_merchant_down)
qed

end
