(* ===== verification/Elim_Readmit.thy ===== *)
theory Elim_Readmit
  imports Elim_Resets
begin

text \<open>
  A reset readmits an eliminated gateway: the decision that finds its last reset older than the
  soft time to live writes a score that is no longer below the threshold.
\<close>

definition reset_due :: "decision_config \<Rightarrow> nat \<Rightarrow> gateway_wise_sr_input \<Rightarrow> bool" where
  "reset_due D now i \<longleftrightarrow>
     (case gi_last_reset_time_stamp i of
        None \<Rightarrow> False
      | Some l \<Rightarrow> int (now div 1000) * 1000 - l > f64_as_i64 (fround (soft_ttl_of D i)))"

lemma evaluate_due:
  "evaluate_reset_gateway_score D now fs = List.map gi_gateway (filter (reset_due D now) fs)"
proof -
  have "foldl (\<lambda>acc it. case gi_last_reset_time_stamp it of
        None \<Rightarrow> acc
      | Some l \<Rightarrow> if int (now div 1000) * 1000 - l > f64_as_i64 (fround (soft_ttl_of D it))
                 then acc @ [gi_gateway it] else acc) acc fs =
      acc @ List.map gi_gateway (filter (reset_due D now) fs)" for acc
    by (induction fs arbitrary: acc) (auto simp: reset_due_def split: option.splits)
  then show ?thesis by (simp add: evaluate_reset_gateway_score_def)
qed

lemma distinct_remdups_adj: "distinct xs \<Longrightarrow> remdups_adj xs = xs"
  by (induction xs rule: remdups_adj.induct) auto

section \<open>The store under resets\<close>

lemma reset_gateway_other:
  assumes "store_documented S" "rg_key r \<noteq> Some k" "now \<le> t"
    and "reset_gateway_score S E m now txn info r gsd s = Some s'"
  shows "ss_get S s' t k = ss_get S s t k"
  using assms documented_setx [OF assms(1) _ assms(3), where k' = k]
  by (auto simp: reset_gateway_score_def split: option.splits)

lemma reset_gateways_other:
  assumes S: "store_documented S" and t: "now \<le> t"
    and "\<And>gw. gw \<in> set gws \<Longrightarrow> map_of keys gw \<noteq> Some k"
    and "reset_gateways S D E m now txn info gsd keys is gws s = Some s'"
  shows "ss_get S s' t k = ss_get S s t k"
  using assms(3,4)
proof (induction gws arbitrary: s)
  case (Cons gw gws)
  show ?case
  proof (cases "get_gateway_success_rate_input gw is")
    case None
    with Cons show ?thesis by simp
  next
    case (Some i)
    with Cons.prems(2) obtain s1 where
      r: "reset_gateway_score S E m now txn info (reset_request D E gsd keys gw i) gsd s = Some s1"
      and s1: "reset_gateways S D E m now txn info gsd keys is gws s1 = Some s'"
      by (auto split: option.splits)
    have "ss_get S s1 t k = ss_get S s t k"
      using reset_gateway_other [OF S _ t r] Cons.prems(1) by (simp add: reset_request_def)
    with Cons.IH [OF _ s1] Cons.prems(1) show ?thesis by simp
  qed
qed simp

lemma reset_gateways_append:
  "reset_gateways S D E m now txn info gsd keys is (xs @ ys) s =
     Option.bind (reset_gateways S D E m now txn info gsd keys is xs s)
       (reset_gateways S D E m now txn info gsd keys is ys)"
  by (induction xs arbitrary: s) (auto split: option.splits)

section \<open>The score a reset writes\<close>

lemma reset_score_above:
  assumes "powf (fsub (Fin 1) (fdiv p (Fin 100))) (f64_of_int (wrap_i32 (n - 1))) = Fin d" "0 < d" "d \<le> 1"
    and "f64_of_rat T = Fin T" "0 < T" "T \<le> 1"
  shows "fle (Fin T) (get_reset_score powf (Fin T) p n) \<and> is_finite (get_reset_score powf (Fin T) p n)"
proof -
  have "T \<le> T / d" using assms(2,3,5) by (simp add: field_simps)
  then have "fle (Fin T) (f64_of_rat (T / d))" using f64_of_rat_mono [of T "T / d"] assms(4) by simp
  moreover have "get_reset_score powf (Fin T) p n = fmin (f64_of_rat (T / d)) (Fin 1)"
    using assms(1,2) by (simp add: get_reset_score_def Let_def fdiv_def)
  ultimately show ?thesis
    using assms(6) by (cases "f64_of_rat (T / d)") (auto simp: fmin_def fle_def is_nan_def)
qed

lemma floor_le_round: "0 \<le> x \<Longrightarrow> \<lfloor>x\<rfloor> \<le> \<lfloor>x + 1 / 2\<rfloor>" for x :: rat
  by (simp add: floor_mono)

lemma due_eligible:
  assumes soft: "soft_ttl_of D i = Fin x" "0 \<le> x" "x < 2 ^ 62"
    and "reset_due D now i" "gi_last_reset_time_stamp i = Some (gs_last_reset_timestamp g)"
    and g: "score_ok g" "flt (gs_score g) th" and now: "now < 2 ^ 63"
  shows "is_reset_eligible (Some (soft_ttl_of D i)) now th g = Some True"
proof -
  have fr: "0 \<le> \<lfloor>x\<rfloor>" "\<lfloor>x\<rfloor> < 2 ^ 62" using soft by (simp_all add: floor_less_iff)
  have "\<lfloor>x + 1 / 2\<rfloor> \<le> 2 ^ 62" using soft(3) by (simp add: floor_le_iff)
  then have "f64_as_i64 (fround (Fin x)) = \<lfloor>x + 1 / 2\<rfloor>"
    using soft(2) floor_le_round [of x] fr by simp
  with assms(4,5) soft(1) have
    "int (now div 1000) * 1000 - gs_last_reset_timestamp g > \<lfloor>x + 1 / 2\<rfloor>"
    by (simp add: reset_due_def del: f64_as_i64.simps fround.simps)
  moreover have "int (now div 1000) * 1000 \<le> int now" by linarith
  ultimately have d: "gs_last_reset_timestamp g + \<lfloor>x\<rfloor> < int now" "\<lfloor>x\<rfloor> \<le> int now"
    using floor_le_round [OF soft(2)] g(1) by (simp_all add: score_ok_def)
  have u: "int (f64_as_u128 (Fin x)) = \<lfloor>x\<rfloor>"
    using fr soft(2) by (auto simp: min_def) linarith
  then have "f64_as_u128 (Fin x) \<le> now" using d(2) by linarith
  then have s: "u128_sub now (f64_as_u128 (Fin x)) = now - f64_as_u128 (Fin x)"
    by (simp add: u128_sub_def)
  have "int (now - f64_as_u128 (Fin x)) = int now - \<lfloor>x\<rfloor>"
    using \<open>f64_as_u128 (Fin x) \<le> now\<close> u by linarith
  then show ?thesis
    using g(2) now d(1) unfolding is_reset_eligible_def soft(1)
    by (simp add: s Let_def del: f64_as_u128.simps)
qed

section \<open>Readmission\<close>

text \<open>What one reset leaves under the key of its gateway.\<close>

lemma reset_gateway_writes:
  assumes S: "store_documented S"
    and cfg: "map_of keys gw = Some key" "gi_elimination_threshold i = Some (Fin T)"
      "gi_soft_txn_reset_count i = Some n"
    and T: "f64_of_rat T = Fin T" "0 < T" "T \<le> 1"
    and pow: "ev_powf E (fsub (Fin 1) (fdiv (get_penality_factor E m info txn gsd) (Fin 100)))
        (f64_of_int (wrap_i32 (wrap_i32 n - 1))) = Fin d" "0 < d" "d \<le> 1"
    and g: "get_merchant_elimination_gateway_score S now s key = Some g" "score_ok g"
      "is_reset_eligible (Some (soft_ttl_of D i)) now (Fin T) g = Some True" "now < 2 ^ 63"
    and wr: "\<And>j s. ss_setx S key j (reset_ttl now (gs_timestamp g) (getTTLForKey (ev_config E)
        EliminationMerchantKey)) now s \<noteq> None"
    and r: "reset_gateway_score S E m now txn info (reset_request D E gsd keys gw i) gsd s = Some s'"
    and t: "now \<le> t"
  shows "Option.bind (ss_get S s' t key) score_of_json = None \<or>
    (\<exists>g'. Option.bind (ss_get S s' t key) score_of_json = Some g' \<and> fle (Fin T) (gs_score g'))"
proof -
  let ?sc = "get_reset_score (ev_powf E) (Fin T) (get_penality_factor E m info txn gsd) (wrap_i32 n)"
  let ?g' = "\<lparr>gs_timestamp = gs_timestamp g, gs_score = ?sc, gs_transaction_count = gs_transaction_count g,
      gs_last_reset_timestamp = nat_as_i64 now\<rparr>"
  have sc: "fle (Fin T) ?sc" "is_finite ?sc"
    using reset_score_above [of "ev_powf E" _ "wrap_i32 n", OF pow T] by auto
  have "nat_as_i64 now = int now" using g(4) by (simp add: nat_as_i64_def)
  then have ok: "score_ok ?g'" using g(2,4) sc(2) by (simp add: score_ok_def)
  let ?ttl = "reset_ttl now (gs_timestamp g) (getTTLForKey (ev_config E) EliminationMerchantKey)"
  obtain s1 where w1: "ss_setx S key (json_of_score ?g') ?ttl now s = Some s1"
    using wr [of "json_of_score ?g'" s] by blast
  with r g cfg have "s1 = s'"
    by (simp add: reset_gateway_score_def reset_request_def reset_cached_gateway_score_def)
  with w1 have w: "ss_setx S key (json_of_score ?g') ?ttl now s = Some s'" by simp
  show ?thesis
    using documented_setx [OF S w t, of key] sc(1) score_roundtrip [OF ok] by auto
qed

lemma merchant_down_iff:
  assumes "gi_elimination_threshold (get_gateway_wise_routing_inputs_for_merchant_sr D E gsd m txn info gw
      (ev_merchant_input E) di ab) = Some th" "map_of keys gw = Some key"
  shows "merchant_down S D E gsd m txn info di ab now s keys gw \<longleftrightarrow>
    (case Option.bind (ss_get S s now key) score_of_json of None \<Rightarrow> False | Some g \<Rightarrow> flt (gs_score g) th)"
  using assms by (simp add: merchant_down_def Let_def split: option.splits)

text \<open>The gateways a decision resets are the due ones among those that are down.\<close>

lemma merchant_stage_resets:
  assumes me: "merchant_elimination S D E m now txn info gsd keys sr initial inputs gf occ st s = Some (st', s')"
    and due: "i' \<in> set inputs" "below_threshold (update_current_score S now s keys i')"
      "reset_due D now (update_current_score S now s keys i')"
    and d: "distinct (List.map gi_gateway inputs)" and on: "dc_reset_score_enabled D"
  obtains gws where "reset_gateways S D E m now txn info gsd keys inputs gws s = Some s'"
    "distinct gws" "gi_gateway i' \<in> set gws"
proof -
  obtain st0 fs il where ms: "merchant_scoring D now txn (List.map (update_current_score S now s keys) inputs)
      occ st = (st0, fs, il)"
    by (metis prod_cases3)
  note st0 = merchant_scoring_state [OF ms]
  have gn: "gi_gateway (update_current_score S now s keys i) = gi_gateway i" for i
    by (simp add: update_current_score_def Let_def)
  have "update_current_score S now s keys i' \<in> set (filter (reset_due D now) fs)"
    using conjunct1 [OF st0] due by simp
  then have "gi_gateway (update_current_score S now s keys i') \<in> set (evaluate_reset_gateway_score D now fs)"
    unfolding evaluate_due by (simp only: list.set_map imageI)
  then have mem: "gi_gateway i' \<in> set (evaluate_reset_gateway_score D now fs)" by (simp only: gn)
  have "distinct (List.map gi_gateway (List.map (update_current_score S now s keys) inputs))"
    using d by (simp add: comp_def gn)
  then have dis: "distinct (evaluate_reset_gateway_score D now fs)"
    using st0 by (simp add: evaluate_due distinct_map_filter)
  have ne: "fs \<noteq> []" using mem by (auto simp: evaluate_due)
  have gws: "ds_reset_gateway_list st0 = evaluate_reset_gateway_score D now fs"
    using st0 ne on mem distinct_remdups_adj [OF dis] by auto
  from me mem obtain st1 where "trigger_reset_gateway_score S D E m now txn info gsd keys inputs
      (ds_reset_gateway_list st0) st0 s = Some (st1, s')"
    by (auto simp: merchant_elimination_def ms Let_def gws split: option.splits prod.splits if_splits)
  from trigger_store [OF this] on mem dis show ?thesis
    by (intro that [of "evaluate_reset_gateway_score D now fs"]) (simp_all add: gws)
qed

lemma find_distinct:
  "distinct (List.map f xs) \<Longrightarrow> x \<in> set xs \<Longrightarrow> find (\<lambda>y. f y = f x) xs = Some x"
  by (induction xs) (auto simp: image_iff)

lemma split_distinct:
  assumes "distinct gws" "gw \<in> set gws"
  obtains xs ys where "gws = xs @ gw # ys" "gw \<notin> set xs" "gw \<notin> set ys"
  using assms by (metis distinct.simps(2) distinct_append not_distinct_conv_prefix split_list)

text \<open>The gateway's own reset is the only one that touches its key.\<close>

lemma resets_reach:
  assumes S: "store_documented S" and t: "now \<le> t"
    and rg: "reset_gateways S D E m now txn info gsd keys is gws s = Some s'"
    and gws: "distinct gws" "gw \<in> set gws" and i: "get_gateway_success_rate_input gw is = Some i"
    and inj: "\<And>gw'. map_of keys gw' = Some key \<Longrightarrow> gw' = gw"
  obtains s1 s2 where
    "reset_gateway_score S E m now txn info (reset_request D E gsd keys gw i) gsd s1 = Some s2"
    "\<forall>t\<ge>now. ss_get S s1 t key = ss_get S s t key"
    "ss_get S s' t key = ss_get S s2 t key"
proof -
  obtain xs ys where sp: "gws = xs @ gw # ys" "gw \<notin> set xs" "gw \<notin> set ys"
    using gws by (rule split_distinct)
  from rg sp i obtain s1 s2 where
    1: "reset_gateways S D E m now txn info gsd keys is xs s = Some s1"
    and 2: "reset_gateway_score S E m now txn info (reset_request D E gsd keys gw i) gsd s1 = Some s2"
    and 3: "reset_gateways S D E m now txn info gsd keys is ys s2 = Some s'"
    by (auto simp: reset_gateways_append bind_eq_Some_conv split: option.splits)
  have "map_of keys gw' \<noteq> Some key" if "gw' \<in> set xs \<or> gw' \<in> set ys" for gw'
    using inj [of gw'] sp that by auto
  then show ?thesis
    using reset_gateways_other [OF S _ _ 1] reset_gateways_other [OF S t _ 3]
    by (intro that [OF 2]) auto
qed

text \<open>The enabled stage runs the reset of a gateway that is down and due.\<close>

lemma stage_runs_reset:
  assumes "dc_reset_score_enabled D"
    and en: "dc_payment_flow_enabled D \<or> enabled = Some True" "payment_method_type_enabled (ev_merchant_input E) info"
    and d: "distinct (List.map fst (ds_gw_score_map st))" and gw: "gw \<in> fst ` set (ds_gw_score_map st)"
    and ab: "ab = Option.bind (ds_ab_test_sr_override st) ov_elimination_threshold"
    and i: "i = get_gateway_wise_routing_inputs_for_merchant_sr D E gsd m txn info gw (ev_merchant_input E) di ab"
    and u: "below_threshold (update_current_score S now s mkeys i)" "reset_due D now (update_current_score S now s mkeys i)"
    and r: "update_gateway_score_based_on_success_rate S D E m now txn info gsd gkeys mkeys di sr initial
      enabled st s = Some (st', s')"
  obtains gws ins where "reset_gateways S D E m now txn info gsd mkeys ins gws s = Some s'"
    "distinct gws" "gw \<in> set gws" "get_gateway_success_rate_input gw ins = Some i"
proof -
  from gw have ne: "ds_gw_score_map st \<noteq> []" by auto
  obtain st1 gf occ st2 where
    me: "merchant_elimination S D E m now txn info gsd mkeys sr initial
       (merchant_inputs D E gsd m txn info di ab (ds_gw_score_map st1)) gf occ st1 s = Some (st2, s')"
    and k: "List.map fst (ds_gw_score_map st1) = List.map fst (ds_gw_score_map st)"
    by (rule fold_enabled [OF en ne d r, folded ab]) (rule that; assumption)
  let ?inputs = "merchant_inputs D E gsd m txn info di ab (ds_gw_score_map st1)"
  have gi: "gi_gateway i = gw" by (simp add: i)
  have mem: "i \<in> set ?inputs"
    using gw unfolding i merchant_inputs_def map_fst_split k by force
  have names: "List.map gi_gateway ?inputs = List.map fst (ds_gw_score_map st)"
    unfolding merchant_inputs_def map_fst_split k by (simp add: comp_def)
  then have dn: "distinct (List.map gi_gateway ?inputs)" using d by simp
  obtain gws where "reset_gateways S D E m now txn info gsd mkeys ?inputs gws s = Some s'"
    "distinct gws" "gw \<in> set gws"
    using merchant_stage_resets [OF me mem u dn assms(1)] gi by metis
  then show ?thesis
    using find_distinct [OF dn mem] gi by (intro that) (simp_all add: get_gateway_success_rate_input_def)
qed

text \<open>
  C14. A gateway the merchant's score keeps down is let back in. Let resets and elimination be enabled
  for the payment, the gateway be scored, its score readable under a key no other gateway has, its
  threshold a number in (0, 1] and its soft transaction reset count configured; let its last reset be
  older than its soft time to live, the power function give a number in (0, 1] for the allowed failures
  and Redis accept the write. Then the decision that finds it down writes a score which is, at every
  later time until the next feedback, no longer below the threshold (or has expired).
\<close>

theorem reset_readmits:
  fixes T x d :: rat
  assumes "store_documented S" "dc_reset_score_enabled D"
    and "dc_payment_flow_enabled D \<or> enabled = Some True" "payment_method_type_enabled (ev_merchant_input E) info"
    and "distinct (List.map fst (ds_gw_score_map st))" "gw \<in> fst ` set (ds_gw_score_map st)"
    and "map_of mkeys gw = Some key" "\<And>gw'. map_of mkeys gw' = Some key \<Longrightarrow> gw' = gw"
    and "i = get_gateway_wise_routing_inputs_for_merchant_sr D E gsd m txn info gw (ev_merchant_input E) di ab"
    and "ab = Option.bind (ds_ab_test_sr_override st) ov_elimination_threshold"
    and "gi_elimination_threshold i = Some (Fin T)" "f64_of_rat T = Fin T" "0 < T" "T \<le> 1"
    and "gi_soft_txn_reset_count i = Some n" "soft_ttl_of D i = Fin x" "0 \<le> x" "x < 2 ^ 62" "now < 2 ^ 63"
    and "ev_powf E (fsub (Fin 1) (fdiv (get_penality_factor E m info txn gsd) (Fin 100)))
        (f64_of_int (wrap_i32 (wrap_i32 n - 1))) = Fin d" "0 < d" "d \<le> 1"
    and "get_merchant_elimination_gateway_score S now s key = Some g" "score_ok g" "flt (gs_score g) (Fin T)"
    and "int (now div 1000) * 1000 - gs_last_reset_timestamp g > f64_as_i64 (fround (soft_ttl_of D i))"
    and "\<And>j s. ss_setx S key j (reset_ttl now (gs_timestamp g) (getTTLForKey (ev_config E)
        EliminationMerchantKey)) now s \<noteq> None"
    and "update_gateway_score_based_on_success_rate S D E m now txn info gsd gkeys mkeys di sr initial
      enabled st s = Some (st', s')"
    and "now \<le> t"
  shows "merchant_down S D E gsd m txn info di ab now s mkeys gw \<and>
    \<not> merchant_down S D E gsd m txn info di ab t s' mkeys gw"
proof -
  note md = merchant_down_iff [where th = "Fin T", OF _ assms(7), of D E gsd m txn info di ab,
      folded assms(9), OF assms(11)]
  have down: "merchant_down S D E gsd m txn info di ab now s mkeys gw"
    using assms(23,25) by (simp add: md get_merchant_elimination_gateway_score_def)
  let ?u = "update_current_score S now s mkeys i"
  have u: "gi_current_score ?u = Some (gs_score g)" "gi_elimination_threshold ?u = Some (Fin T)"
    "gi_last_reset_time_stamp ?u = Some (gs_last_reset_timestamp g)" "soft_ttl_of D ?u = soft_ttl_of D i"
    using assms(7,9,11,23)
    by (simp_all add: update_current_score_def Let_def soft_ttl_of_def merchantGatewayScoreDimension_def)
  have below: "below_threshold ?u" using assms(25) u by (simp add: below_threshold_def)
  have due: "reset_due D now ?u" using assms(26) u by (simp add: reset_due_def)
  obtain gws ins where rg: "reset_gateways S D E m now txn info gsd mkeys ins gws s = Some s'"
    "distinct gws" "gw \<in> set gws" "get_gateway_success_rate_input gw ins = Some i"
    by (rule stage_runs_reset [OF assms(2-6,10,9) below due assms(28)])
  obtain s1 s2 where
    w: "reset_gateway_score S E m now txn info (reset_request D E gsd mkeys gw i) gsd s1 = Some s2"
    and s1: "\<forall>t\<ge>now. ss_get S s1 t key = ss_get S s t key"
    and s2: "ss_get S s' t key = ss_get S s2 t key"
    by (rule resets_reach [where key = key, OF assms(1,29) rg]) (erule assms(8), rule that)
  have g1: "get_merchant_elimination_gateway_score S now s1 key = Some g"
    using assms(23) s1 by (simp add: get_merchant_elimination_gateway_score_def)
  have "is_reset_eligible (Some (soft_ttl_of D i)) now (Fin T) g = Some True"
    using due_eligible [of D ?u, OF _ assms(17,18) due u(3) assms(24,25,19)] u(4) assms(16) by simp
  from reset_gateway_writes [OF assms(1,7,11,15,12-14,20-22) g1 assms(24) this assms(19,27) w assms(29)]
  have "\<not> merchant_down S D E gsd m txn info di ab t s' mkeys gw"
    unfolding md s2 by (auto simp: flt_fle_trans flt_irrefl dest: fle_flt_trans)
  with down show ?thesis ..
qed

section \<open>The example, with a reset count\<close>

text \<open>No decision panics when the clock is past every soft time to live.\<close>

lemma resets_total:
  assumes soft: "\<And>i. f64_as_u128 (soft_ttl_of D i) \<le> now" and now: "now < 2 ^ 63"
  shows "\<exists>st' s'. update_gateway_score_based_on_success_rate S D E m now txn info gsd gkeys mkeys di sr
    initial enabled st s = Some (st', s')"
proof -
  have el: "is_reset_eligible (Some (soft_ttl_of D i)) now th g \<noteq> None" for i th g
  proof -
    have "now - f64_as_u128 (soft_ttl_of D i) < 2 ^ 63" using now by linarith
    then show ?thesis using soft [of i] by (simp add: is_reset_eligible_def u128_sub_def Let_def del: not_None_eq)
  qed
  have one: "reset_gateway_score S E m now txn info (reset_request D E gsd keys gw i) gsd s \<noteq> None"
    for keys gw i s
  proof -
    have rc: "reset_cached_gateway_score p pf now (soft_ttl_of D i) th mc sc \<noteq> None" for p pf th mc sc
      using el [of i th "the sc"]
      by (cases sc) (auto simp: reset_cached_gateway_score_def split: option.splits bool.splits)
    show ?thesis
    proof
      assume "reset_gateway_score S E m now txn info (reset_request D E gsd keys gw i) gsd s = None"
      then obtain p pf th mc sc where "reset_cached_gateway_score p pf now (soft_ttl_of D i) th mc sc = None"
        by (auto simp: reset_gateway_score_def reset_request_def split: option.splits)
      with rc show False by blast
    qed
  qed
  have "reset_gateways S D E m now txn info gsd keys is gws s \<noteq> None" for keys "is" gws s
    using one by (induction gws arbitrary: s) (auto split: option.splits, metis option.distinct(1))
  then have "trigger_reset_gateway_score S D E m now txn info gsd keys is gws st s \<noteq> None"
    for keys "is" gws st s
    by (auto simp: trigger_reset_gateway_score_def split: option.splits) (metis option.distinct(1))
  then have "merchant_elimination S D E m now txn info gsd keys sr initial inputs gf occ st s \<noteq> None"
    for keys inputs gf occ st
    by (auto simp: merchant_elimination_def Let_def split_def split: option.splits)
      (metis option.distinct(1))
  then show ?thesis
    by (fastforce simp: update_gateway_score_based_on_success_rate_def Let_def split: prod.splits)
qed

lemma f64_half: "f64_of_rat (1 / 2) = Fin (1 / 2)"
proof -
  have "two_powi (- 1) = two_powi 52 * two_powi (- 53)" by (simp flip: two_powi_add)
  moreover have "two_powi 52 = 2 ^ 52" using two_powi_nat [of 52] by simp
  ultimately have q: "1 / 2 = 2 ^ 52 * two_powi (- 53)" by (simp only: two_powi_numerals)
  have "two_powi 0 = 1" using two_powi_nat [of 0] by simp
  have "rnd (1 / 2) = of_int (2 ^ 52) * two_powi (- 53)"
  proof (rule rnd_near)
    show "\<bar>1 / 2 / two_powi (- 53) - of_int (2 ^ 52)\<bar> < 1 / 2"
      by (simp add: q [unfolded times_divide_eq_left])
  qed (simp_all add: two_powi_numerals \<open>two_powi 0 = 1\<close>)
  with q show ?thesis by (simp add: f64_of_rat_def)
qed

lemma demo_soft: "soft_ttl_of (demo_decision b) i = Fin 900000"
  by (simp add: soft_ttl_of_def getKeyTTLFromMerchantDimension_def demo_decision_def DEF_SCORE_KEYS_TTL_def
      split: dimension.split)

lemma reset_readmits_witness:
  "\<exists>st' s'. update_gateway_score_based_on_success_rate mem_store (demo_decision True) (demo_env (Some 10)) ''m''
      1000000 demo_txn demo_info demo_gsd [] demo_keys None False [] None demo_state demo_store = Some (st', s') \<and>
     merchant_down mem_store (demo_decision True) (demo_env (Some 10)) demo_gsd ''m'' demo_txn demo_info None None
       1000000 demo_store demo_keys ''A'' \<and>
     \<not> merchant_down mem_store (demo_decision True) (demo_env (Some 10)) demo_gsd ''m'' demo_txn demo_info None None
       1000001 s' demo_keys ''A''"
proof -
  obtain st' s' where r: "update_gateway_score_based_on_success_rate mem_store (demo_decision True)
      (demo_env (Some 10)) ''m'' 1000000 demo_txn demo_info demo_gsd [] demo_keys None False [] None demo_state
      demo_store = Some (st', s')"
    using resets_total [of "demo_decision True" 1000000] by (fastforce simp: demo_soft)
  let ?g = "\<lparr>gs_timestamp = 0, gs_score = Fin (1 / 4), gs_transaction_count = 9, gs_last_reset_timestamp = 0\<rparr>"
  have ttl: "getTTLForKey demo_config EliminationMerchantKey = 9000000"
    by (simp add: getTTLForKey_def isGlobalKey_def isKeyOutage_def demo_config_def getDefaultTTL_def
        defaultScoreKeysTTL_def)
  have w: "ss_setx mem_store ''ka'' j (reset_ttl 1000000 0 9000000) 1000000 s \<noteq> None" for j s
    by (simp add: mem_store_def reset_ttl_def i64_as_u128_def nat_as_i64_def)
  have e: "ev_config (demo_env (Some 10)) = demo_config" "ev_merchant_input (demo_env (Some 10)) = Some (demo_input (Some 10))"
    "ev_powf (demo_env (Some 10)) = (\<lambda>_ _. Fin 1)"
    by (simp_all add: demo_env_def)
  have i: "gi_soft_txn_reset_count (get_gateway_wise_routing_inputs_for_merchant_sr (demo_decision True)
      (demo_env (Some 10)) demo_gsd ''m'' demo_txn demo_info ''A'' (Some (demo_input (Some 10))) None None) = Some 10"
    by (simp add: get_gateway_wise_routing_inputs_for_merchant_sr_def demo_input_def
        from_elimination_threshold_def Let_def)
  have p: "payment_method_type_enabled (Some (demo_input (Some 10))) demo_info"
    "dc_reset_score_enabled (demo_decision True)" "dc_payment_flow_enabled (demo_decision True)"
    "ds_gw_score_map demo_state = [(''A'', Fin 1), (''B'', Fin (9 / 10))]"
    "ds_ab_test_sr_override demo_state = None"
    by (simp_all add: payment_method_type_enabled_def demo_defs)
  have g: "get_merchant_elimination_gateway_score mem_store 1000000 demo_store ''ka'' = Some ?g"
    by (simp add: get_merchant_elimination_gateway_score_def demo_read demo_score_read)
  have "merchant_down mem_store (demo_decision True) (demo_env (Some 10)) demo_gsd ''m'' demo_txn demo_info None None
       1000000 demo_store demo_keys ''A'' \<and>
     \<not> merchant_down mem_store (demo_decision True) (demo_env (Some 10)) demo_gsd ''m'' demo_txn demo_info None None
       1000001 s' demo_keys ''A''"
    by (rule reset_readmits [where T = "1 / 2" and x = 900000 and d = 1 and n = 10 and g = ?g and key = "''ka''",
          OF mem_store_documented p(2) _ _ _ _ _ _ refl _ _ f64_half _ _ _ demo_soft _ _ _ _ _ _ g _ _ _ _ r])
      (use w in \<open>auto simp: e p i ttl demo_merchant_threshold demo_soft demo_keys_def score_ok_def split: if_splits\<close>)
  with r show ?thesis by blast
qed

end
