(* ===== verification/Elim_Scores.thy ===== *)
theory Elim_Scores
  imports Elim_Correct
begin

text \<open>
  What the feedback path guarantees of the elimination scores: they stay between zero and one and
  readable through any history, and how long a decision goes on using them. Two settings and the
  merchant's coarser success rates turn out to have no effect.
\<close>

section \<open>The unit interval\<close>

definition unit_f64 :: "f64 \<Rightarrow> bool" where
  "unit_f64 x \<longleftrightarrow> (\<exists>r. x = Fin r \<and> 0 \<le> r \<and> r \<le> 1)"

definition percent_f64 :: "f64 \<Rightarrow> bool" where
  "percent_f64 x \<longleftrightarrow> (\<exists>r. x = Fin r \<and> 0 \<le> r \<and> r \<le> 100)"

lemma unit_simps [simp]: "unit_f64 (Fin r) \<longleftrightarrow> 0 \<le> r \<and> r \<le> 1"
  by (simp add: unit_f64_def)

lemma unit_f64_of_rat: "0 \<le> x \<Longrightarrow> x \<le> 1 \<Longrightarrow> unit_f64 (f64_of_rat x)"
  using f64_of_rat_unit [of x] by auto

lemma unit_fmul: "unit_f64 a \<Longrightarrow> unit_f64 b \<Longrightarrow> unit_f64 (fmul a b)"
  by (auto simp: unit_f64_def fmul_def mult_le_one intro!: f64_of_rat_unit)

lemma percent_fraction: "percent_f64 p \<Longrightarrow> unit_f64 (fdiv p (Fin 100))"
  by (auto simp: percent_f64_def fdiv_def intro!: unit_f64_of_rat)

lemma fsub_Fin: "fsub (Fin x) (Fin y) = f64_of_rat (x - y)"
  by (simp add: fsub_def)

lemma unit_fsub_upper:
  assumes "unit_f64 a" "unit_f64 b"
  shows "\<exists>r. fsub a b = Fin r \<and> r \<le> 1"
proof -
  from assms obtain x y where xy: "a = Fin x" "b = Fin y" "0 \<le> x" "x \<le> 1" "0 \<le> y" "y \<le> 1"
    by (auto simp: unit_f64_def)
  have "fle (Fin (- 1)) (f64_of_rat (x - y))" "fle (f64_of_rat (x - y)) (Fin 1)"
  proof -
    have "f64_of_rat (- 1) = Fin (- 1)" by (simp add: f64_of_rat_def rnd_minus)
    then show "fle (Fin (- 1)) (f64_of_rat (x - y))"
      using f64_of_rat_mono [of "- 1" "x - y"] xy by simp
    show "fle (f64_of_rat (x - y)) (Fin 1)" using f64_of_rat_mono [of "x - y" 1] xy by simp
  qed
  then show ?thesis by (cases "f64_of_rat (x - y)") (auto simp: xy fsub_Fin fle_def)
qed

lemma unit_complement: "unit_f64 a \<Longrightarrow> unit_f64 (fsub (Fin 1) a)"
  by (auto simp: unit_f64_def fsub_Fin intro!: f64_of_rat_unit)

lemma failure_unit:
  assumes "unit_f64 (unwrap_or (sc_minimum_gateway_score C) defaultMinimumGatewayScore)" "unit_f64 x"
    and "if v2 then unit_f64 p else percent_f64 p"
  shows "unit_f64 (getFailureKeyScore C v2 x p)"
proof -
  let ?min = "unwrap_or (sc_minimum_gateway_score C) defaultMinimumGatewayScore"
  let ?s = "if v2 then fmul x p else fsub x (fmul x (fdiv p (Fin 100)))"
  have "\<exists>r. ?s = Fin r \<and> r \<le> 1"
  proof (cases v2)
    case True
    with assms(2,3) unit_fmul [of x p] show ?thesis by (auto simp: unit_f64_def)
  next
    case False
    with assms(2,3) show ?thesis
      using unit_fsub_upper [OF assms(2) unit_fmul [OF assms(2) percent_fraction]] by simp
  qed
  then obtain r where "?s = Fin r" "r \<le> 1" by blast
  with assms(1) show ?thesis
    by (auto simp: getFailureKeyScore_def Let_def unit_f64_def)
qed

lemma success_unit:
  assumes "unit_f64 x" "if v2 then unit_f64 p else percent_f64 p"
  shows "unit_f64 (getSuccessKeyScore v2 x p)"
proof -
  have "\<exists>q. unit_f64 q \<and> (if v2 then fadd x p else fadd x (fmul x (fdiv p (Fin 100)))) = fadd x q"
    using assms unit_fmul [OF assms(1) percent_fraction, of p] by (cases v2) auto
  then obtain q where q: "unit_f64 q"
    "(if v2 then fadd x p else fadd x (fmul x (fdiv p (Fin 100)))) = fadd x q" by blast
  obtain r where "fadd x q = Fin r" "0 \<le> r"
  proof -
    from assms(1) q(1) obtain a b where ab: "x = Fin a" "q = Fin b" "0 \<le> a" "a \<le> 1" "0 \<le> b" "b \<le> 1"
      by (auto simp: unit_f64_def)
    then have "\<exists>r. f64_of_rat (a + b) = Fin r \<and> 0 \<le> r \<and> r \<le> of_nat 2"
      by (intro f64_of_rat_upto) auto
    with ab that show ?thesis by auto
  qed
  with q(2) show ?thesis by (auto simp: getSuccessKeyScore_def Let_def)
qed

text \<open>Factors for which the score is meant: percentages, or fractions in the second version.\<close>

definition factors_ok :: "elim_env \<Rightarrow> bool" where
  "factors_ok E \<longleftrightarrow>
     unit_f64 (unwrap_or (sc_minimum_gateway_score (ev_config E)) defaultMinimumGatewayScore) \<and>
     (\<forall>k. percent_f64 (getPenaltyFactor (ev_config E) k) \<and> percent_f64 (getRewardFactor (ev_config E) k)) \<and>
     (\<forall>m info txn gsd a. sc_elimination_v2 (ev_config E) m \<longrightarrow> reward_factor_v2 E m info txn gsd = Some a \<longrightarrow>
       unit_f64 a)"

lemma updated_unit:
  assumes "factors_ok E" "unit_f64 x"
  shows "unit_f64 (updateKeyScoreForTxnStatus E txn info m ty x k gsd)"
proof -
  have v2: "unit_f64 a" if "sc_elimination_v2 (ev_config E) m" "reward_factor_v2 E m info txn gsd = Some a" for a
    using assms(1) that unfolding factors_ok_def by blast
  have f: "unit_f64 (getFailureKeyScore (ev_config E) False x (getPenaltyFactor (ev_config E) k))"
    "unit_f64 (getSuccessKeyScore False x (getRewardFactor (ev_config E) k))"
    using assms by (auto simp: factors_ok_def intro!: failure_unit success_unit)
  have "unit_f64 (getFailureKeyScore (ev_config E) True x (fsub (Fin 1) a))"
    "unit_f64 (getSuccessKeyScore True x a)" if "unit_f64 a" for a
    using assms that by (auto simp: factors_ok_def unit_complement intro!: failure_unit success_unit)
  with v2 f assms(2) show ?thesis
    by (auto simp: updateKeyScoreForTxnStatus_def updateScoreWithPenalty_def updateScoreWithReward_def
        Let_def split: gateway_scoring_type.split option.split bool.split)
qed

section \<open>Histories\<close>

definition scores_unit :: "cached_gateway_score \<Rightarrow> bool" where
  "scores_unit c \<longleftrightarrow> cached_ok c \<and>
     (case cg_score c of None \<Rightarrow> True | Some x \<Rightarrow> unit_f64 x) \<and>
     (case cg_merchants c of None \<Rightarrow> True | Some ms \<Rightarrow> list_all (\<lambda>m. unit_f64 (msd_score m)) ms)"

definition store_unit :: "'s score_store \<Rightarrow> nat \<Rightarrow> 's \<Rightarrow> bool" where
  "store_unit S t0 s \<longleftrightarrow>
     (\<forall>t\<ge>t0. \<forall>key c. readGatewayScoreFromRedis S t key s = Some c \<longrightarrow> scores_unit c)"

lemma unit_finite: "unit_f64 x \<Longrightarrow> is_finite x"
  by (auto simp: unit_f64_def)

lemma wrap_i32_range: "- (2 ^ 31) \<le> wrap_i32 i \<and> wrap_i32 i \<le> 2 ^ 31 - 1"
proof -
  have "0 \<le> (i + 2 ^ 31) mod 2 ^ 32" "(i + 2 ^ 31) mod 2 ^ 32 < 2 ^ 32"
    by (rule pos_mod_sign, simp, rule pos_mod_bound, simp)
  then show ?thesis by (simp add: wrap_i32_def)
qed

lemma new_score_unit: "now < 2 ^ 63 \<Longrightarrow> scores_unit (getNewCachedGatewayScore now k txn)"
  using wrap_i32_range [of "int now"]
  by (auto simp: scores_unit_def cached_ok_def msd_ok_def getNewCachedGatewayScore_def
      getDefaultMerchantScoringDetailsArray_def)

lemma merchant_entry_unit:
  assumes "factors_ok E" "msd_ok m" "unit_f64 (msd_score m)"
  shows "msd_ok (replaceTransactionCount E txn info ty k gsd m) \<and>
    unit_f64 (msd_score (replaceTransactionCount E txn info ty k gsd m))"
  using assms wrap_i32_range [of "msd_transaction_count m + 1"] updated_unit [OF assms(1,3)]
  by (auto simp: replaceTransactionCount_def msd_ok_def unit_finite)

lemma fresh_entry_unit:
  "msd_ok (getDefaultMerchantScoringDetailsArray now m (Fin 1) 1 None) \<and>
   unit_f64 (msd_score (getDefaultMerchantScoringDetailsArray now m (Fin 1) 1 None))"
  using wrap_i32_range [of "int now"]
  by (auto simp: msd_ok_def getDefaultMerchantScoringDetailsArray_def)

lemma merchants_unit:
  assumes "factors_ok E" "scores_unit c"
    and "getUpdatedMerchantDetailsForGlobalKey E now c k ty txn info gsd = Some ms" "m \<in> set ms"
  shows "msd_ok m \<and> unit_f64 (msd_score m)"
proof -
  have old: "msd_ok m' \<and> unit_f64 (msd_score m')" if "cg_merchants c = Some ms'" "m' \<in> set ms'" for m' ms'
    using assms(2) that by (auto simp: scores_unit_def cached_ok_def list_all_iff)
  show ?thesis
    using assms(3,4) old merchant_entry_unit [OF assms(1)] fresh_entry_unit
    by (auto simp: getUpdatedMerchantDetailsForGlobalKey_def Let_def split: if_splits option.splits)
qed

lemma updated_score_unit:
  assumes "factors_ok E" "scores_unit c"
  shows "scores_unit (updated_cached_score E now c k ty txn info gsd)"
  using assms wrap_i32_range [of "the (cg_transaction_count c) + 1"]
    merchants_unit [OF assms] updated_unit [OF assms(1)]
  by (auto simp: scores_unit_def cached_ok_def updated_cached_score_def getTransactionCount_def
      list_all_iff unit_finite split: option.splits if_splits)

text \<open>One feedback, and a history of them: time, transaction, instrument, outcome, dimensions and key.\<close>

type_synonym score_feedback =
  "nat \<times> txn_detail \<times> txn_card_info \<times> gateway_scoring_type \<times> gateway_scoring_data \<times>
   (score_key_type \<times> string option)"

definition run_feedback :: "'s score_store \<Rightarrow> elim_env \<Rightarrow> score_feedback list \<Rightarrow> 's \<Rightarrow> 's" where
  "run_feedback S E fs s =
     foldl (\<lambda>s (now, txn, info, ty, gsd, key).
       snd (updateKeyScoreForKeysFromConsumer S E now txn info ty gsd key s)) s fs"

lemma feedback_unit:
  assumes S: "store_documented S" and E: "factors_ok E" and u: "store_unit S t0 s"
    and t: "t0 \<le> now" "now < 2 ^ 63"
  shows "store_unit S now (snd (updateKeyScoreForKeysFromConsumer S E now txn info ty gsd ky s))"
proof -
  obtain k m_key where ky: "ky = (k, m_key)" by (cases ky)
  have keep: "store_unit S now s" using u t(1) unfolding store_unit_def by (meson order_trans)
  show ?thesis
  proof (cases m_key)
    case None
    with keep show ?thesis by (simp add: updateKeyScoreForKeysFromConsumer_def ky)
  next
    case (Some key)
    obtain c0 where c0: "c0 = score_to_be_updated (readGatewayScoreFromRedis S now key s) now
        (getTTLForKey (ev_config E) k) k txn" by simp
    have "scores_unit c0"
      using u t new_score_unit [OF t(2), of k txn]
      by (auto simp: c0 score_to_be_updated_def store_unit_def split: option.splits)
    then have c1: "scores_unit (updated_cached_score E now c0 k ty txn info gsd)" (is "scores_unit ?c1")
      by (rule updated_score_unit [OF E])
    let ?ttl = "safe_remaining_ttl now (cg_timestamp ?c1) (getTTLForKey (ev_config E) k)"
    show ?thesis
    proof (cases "ss_setx S key (json_of_cached ?c1) ?ttl now s")
      case None
      with keep show ?thesis
        by (simp add: updateKeyScoreForKeysFromConsumer_def ky Some Let_def c0)
    next
      case (Some s1)
      have "scores_unit c" if "now \<le> t'" "readGatewayScoreFromRedis S t' key' s1 = Some c" for t' key' c
        using that documented_setx [OF S Some that(1), of key'] c1 cached_roundtrip [of ?c1] keep
        by (auto simp: readGatewayScoreFromRedis_def store_unit_def scores_unit_def split: if_splits)
      then have "store_unit S now s1" by (auto simp: store_unit_def)
      then show ?thesis
        using Some by (simp add: updateKeyScoreForKeysFromConsumer_def ky \<open>m_key = Some key\<close> Let_def c0)
    qed
  qed
qed

text \<open>
  C15. Every elimination score stays in the unit interval and readable through any history of
  feedbacks, merchant-wide and platform-wide, whether Redis accepts the writes or not, provided the
  configured factors are percentages (fractions in the second version).
\<close>

theorem elimination_scores_in_unit:
  assumes "store_documented S" "factors_ok E" "store_unit S t0 s"
    and "sorted (t0 # List.map fst fs)" "\<forall>t\<in>fst ` set fs. t < 2 ^ 63"
  shows "store_unit S (last (t0 # List.map fst fs)) (run_feedback S E fs s)"
  using assms(3-5)
proof (induction fs arbitrary: t0 s)
  case (Cons f fs)
  obtain now txn info ty gsd key where f: "f = (now, txn, info, ty, gsd, key)" by (cases f)
  from Cons.prems f have "store_unit S now (snd (updateKeyScoreForKeysFromConsumer S E now txn info ty gsd key s))"
    by (intro feedback_unit [OF assms(1,2), of t0]) auto
  from Cons.IH [OF this] Cons.prems f show ?case
    by (simp add: run_feedback_def)
qed (simp add: run_feedback_def)

definition demo_feedback :: "gateway_scoring_type \<Rightarrow> nat \<Rightarrow> score_feedback" where
  "demo_feedback ty now = (now, demo_txn, demo_info, ty, demo_gsd, EliminationMerchantKey, Some ''ka'')"

lemma demo_factors: "factors_ok (demo_env None)"
proof -
  have "percent_f64 defaultGWScoringRewardFactor" "percent_f64 defaultGWScoringPenaltyFactor"
    using f64_of_rat_upto [of "526 / 100" 100]
    by (auto simp: percent_f64_def defaultGWScoringRewardFactor_def defaultGWScoringPenaltyFactor_def)
  then show ?thesis
    by (auto simp: factors_ok_def demo_env_def demo_config_def getPenaltyFactor_def getRewardFactor_def
        defaultMinimumGatewayScore_def)
qed

lemma elimination_scores_in_unit_witness:
  "store_unit mem_store 5 (run_feedback mem_store (demo_env None) [demo_feedback Penalise 5] (\<lambda>_. None))"
proof -
  have "store_unit mem_store 0 (\<lambda>_. None)"
    by (simp add: store_unit_def readGatewayScoreFromRedis_def mem_store_def)
  from elimination_scores_in_unit [OF mem_store_documented demo_factors this, of "[demo_feedback Penalise 5]"]
  show ?thesis by (simp add: demo_feedback_def)
qed

section \<open>How long a score is used\<close>

text \<open>
  The times to live are kept in milliseconds and handed to Redis as seconds. So the decision
  path still reads a score the feedback path holds to be expired and would replace by a fresh one:
  until a thousand times its remaining life (at least a thousand seconds) after the last feedback.
\<close>

theorem score_outlives_its_ttl:
  assumes "store_documented S" "cached_ok c'" "cg_score c' = Some x" "cg_last_reset_timestamp c' = Some l"
    and "cg_transaction_count c' = Some n"
    and "getTTLForKey (ev_config E) EliminationMerchantKey = hard" "1000 \<le> hard" "hard < 2 ^ 63"
    and "updateKeyScoreForKeysFromConsumer S E now txn info ty gsd (EliminationMerchantKey, Some key) s =
      (Some ((EliminationMerchantKey, key), c'), s')"
    and "ss_setx S key (json_of_cached c') (safe_remaining_ttl now (cg_timestamp c') hard) now s \<noteq> None"
    and "cg_timestamp c' \<le> now" "now + hard < t" "t < now + 1000 * max 1000 (hard - (now - cg_timestamp c'))"
  shows "score_to_be_updated (readGatewayScoreFromRedis S t key s') t hard EliminationMerchantKey txn =
      getNewCachedGatewayScore t EliminationMerchantKey txn \<and>
    map_option gs_score (get_merchant_elimination_gateway_score S t s' key) = Some x"
proof -
  let ?ttl = "safe_remaining_ttl now (cg_timestamp c') hard"
  from assms(10) obtain s1 where s1: "ss_setx S key (json_of_cached c') ?ttl now s = Some s1" by blast
  with assms(9) have "s' = s1" by (auto simp: updateKeyScoreForKeysFromConsumer_def Let_def assms(6))
  have "int (max 1000 (hard - (now - cg_timestamp c'))) \<le> ?ttl"
    using assms(7,8) by (auto simp: safe_remaining_ttl_def Let_def nat_as_i64_def)
  with assms(13) have "int t < int now + 1000 * ?ttl" by linarith
  with documented_setx [OF assms(1) s1, of t key] assms(12) have g: "ss_get S s' t key = Some (json_of_cached c')"
    by (simp add: \<open>s' = s1\<close>)
  have "u128_sub hard 1000 < u128_sub t (cg_timestamp c')"
    using assms(7,11,12) by (simp add: u128_sub_def)
  with g show ?thesis
    by (simp add: readGatewayScoreFromRedis_def cached_roundtrip [OF assms(2)] score_to_be_updated_def
        get_merchant_elimination_gateway_score_def score_of_cached [OF assms(2-5)])
qed

lemma score_outlives_its_ttl_witness:
  "\<exists>c' s'. updateKeyScoreForKeysFromConsumer mem_store (demo_env None) 0 demo_txn demo_info PenaliseSrv3 demo_gsd
      (EliminationMerchantKey, Some ''ka'') (\<lambda>_. None) = (Some ((EliminationMerchantKey, ''ka''), c'), s') \<and>
    map_option gs_score (get_merchant_elimination_gateway_score mem_store 5000000000 s' ''ka'') = Some (Fin 1)"
proof -
  let ?c = "\<lparr>cg_merchants = None, cg_score = Some (Fin 1), cg_timestamp = 0, cg_last_reset_timestamp = Some 0,
    cg_transaction_count = Some 0\<rparr>"
  have ttl: "getTTLForKey (ev_config (demo_env None)) EliminationMerchantKey = 9000000"
    by (simp add: getTTLForKey_def isGlobalKey_def isKeyOutage_def demo_env_def demo_config_def getDefaultTTL_def
        defaultScoreKeysTTL_def)
  have t: "safe_remaining_ttl 0 0 9000000 = 9000000" by (simp add: safe_remaining_ttl_def nat_as_i64_def)
  have c: "updated_cached_score (demo_env None) 0 (getNewCachedGatewayScore 0 EliminationMerchantKey demo_txn)
      EliminationMerchantKey PenaliseSrv3 demo_txn demo_info demo_gsd = ?c"
    by (simp add: updated_cached_score_def getNewCachedGatewayScore_def isGlobalKey_def
        getUpdatedMerchantDetailsForGlobalKey_def getTransactionCount_def updateKeyScoreForTxnStatus_def)
  have r: "readGatewayScoreFromRedis mem_store 0 ''ka'' (\<lambda>_. None) = None"
    by (simp add: readGatewayScoreFromRedis_def mem_store_def)
  have w: "ss_setx mem_store ''ka'' (json_of_cached ?c) 9000000 0 (\<lambda>_. None) \<noteq> None"
    by (simp add: mem_store_def)
  obtain s' where u: "updateKeyScoreForKeysFromConsumer mem_store (demo_env None) 0 demo_txn demo_info PenaliseSrv3
      demo_gsd (EliminationMerchantKey, Some ''ka'') (\<lambda>_. None) = (Some ((EliminationMerchantKey, ''ka''), ?c), s')"
    using w by (auto simp: updateKeyScoreForKeysFromConsumer_def Let_def ttl r score_to_be_updated_def c t)
  have ok: "cached_ok ?c" by (simp add: cached_ok_def)
  have "map_option gs_score (get_merchant_elimination_gateway_score mem_store 5000000000 s' ''ka'') = Some (Fin 1)"
    using score_outlives_its_ttl [OF mem_store_documented ok _ _ _ ttl _ _ u] w by (simp add: t)
  with u show ?thesis by blast
qed

section \<open>Two switches and three levels without effect\<close>

lemma outage_version_ignored:
  "updateKeyScoreForTxnStatus (E\<lparr>ev_config := (ev_config E)\<lparr>sc_outage_v2 := f\<rparr>\<rparr>) txn info m ty x k gsd =
     updateKeyScoreForTxnStatus E txn info m ty x k gsd"
  "updateKeyScoreForTxnStatus (E\<lparr>ev_config := (ev_config E)\<lparr>sc_gateway_reward_factor := r\<rparr>\<rparr>) txn info m ty x k gsd =
     updateKeyScoreForTxnStatus E txn info m ty x k gsd"
  by (simp_all add: updateKeyScoreForTxnStatus_def updateScoreWithPenalty_def updateScoreWithReward_def
      getFailureKeyScore_def getPenaltyFactor_def getRewardFactor_def reward_factor_v2_def Let_def
      cong: option.case_cong split: gateway_scoring_type.split bool.split)

lemma find_none: "find (\<lambda>x. False) xs = None"
  by (induction xs) auto

text \<open>
  The metrics in Redis are looked up with the same key at every level of detail, so an entry
  answers at the first level or not at all: of the merchant's success rates only the one for the
  exact method and object type is used, else the default of the entry. The rates the merchant set
  for the method or its type alone are never used with metrics. The key never has a card type.
\<close>

theorem metric_entry_hides_inputs:
  "filter_using_redis hget m pmt pm obj inputs gri ref =
    (let key = obj @ ''_'' @ pmt @ ''_'' @ unwrap_or pm [] @ (if pmt = ''CARD'' then ''_'' else []) @
           (case (gri, ref) of (True, Some r) \<Rightarrow> ''_'' @ r | _ \<Rightarrow> []) in
     map_option (\<lambda>e.
       case find (\<lambda>x. ei_payment_method_type x = pmt \<and> pm \<noteq> None \<and> ei_payment_method x = pm \<and>
           ei_txn_object_type x = Some obj) (unwrap_or inputs []) of
         Some i \<Rightarrow> (me_success_rate e, ei_success_rate i, me_sigma_factor e, Some (me_n_value e),
                    Some pmt, pm, Some obj, CS_REDIS)
       | None \<Rightarrow> (me_success_rate e, me_default_success_threshold e, me_sigma_factor e,
                   Some (me_n_value e), Some pmt, pm, Some obj, CS_REDIS))
     (hget (''aggregate_data_'' @ m) key))"
proof -
  let ?i = "find (\<lambda>x. ei_payment_method_type x = pmt \<and> pm \<noteq> None \<and> ei_payment_method x = pm \<and>
      ei_txn_object_type x = Some obj) (unwrap_or inputs [])"
  have f: "filter_inputs_upto FL_TxnObjectType pmt pm obj (unwrap_or inputs []) = ?i"
    by (cases pm) (simp_all add: filter_inputs_upto_def filter_inputs_upto_txn_object_type_def find_none)
  have i: "ei_payment_method_type x = pmt \<and> ei_payment_method x = pm \<and> ei_txn_object_type x = Some obj"
    if "?i = Some x" for x using that by (auto simp: find_Some_iff)
  have k: "get_metric_entry_data hget m pmt pm obj None gri ref =
      hget (''aggregate_data_'' @ m) (obj @ ''_'' @ pmt @ ''_'' @ unwrap_or pm [] @ (if pmt = ''CARD'' then ''_'' else []) @
        (case (gri, ref) of (True, Some r) \<Rightarrow> ''_'' @ r | _ \<Rightarrow> []))"
    by (auto simp: get_metric_entry_data_def construct_aggregate_key_def construct_dimension_key_def
        fetch_from_redis_def Let_def split: option.splits bool.splits)
  have one: "filter_using_redis_upto hget None l m pmt pm obj gri ref xs None = None"
    if "get_metric_entry_data hget m pmt pm obj None gri ref = None" for l xs
    using that by (simp add: filter_using_redis_upto_def Let_def split: option.splits)
  show ?thesis
  proof (cases "get_metric_entry_data hget m pmt pm obj None gri ref")
    case None
    then show ?thesis
      unfolding Let_def k [symmetric] by (simp add: filter_using_redis_def one)
  next
    case (Some e)
    have "filter_using_redis hget m pmt pm obj inputs gri ref =
        filter_using_redis_upto hget None FL_TxnObjectType m pmt pm obj gri ref (unwrap_or inputs []) None"
      by (cases ?i) (simp_all add: filter_using_redis_def filter_using_redis_upto_def f Some)
    also have "\<dots> = map_option (\<lambda>e. case ?i of
          Some x \<Rightarrow> (me_success_rate e, ei_success_rate x, me_sigma_factor e, Some (me_n_value e),
            Some pmt, pm, Some obj, CS_REDIS)
        | None \<Rightarrow> (me_success_rate e, me_default_success_threshold e, me_sigma_factor e,
            Some (me_n_value e), Some pmt, pm, Some obj, CS_REDIS)) (Some e)"
    proof (cases ?i)
      case (Some x)
      with i [OF this] show ?thesis by (simp add: filter_using_redis_upto_def f \<open>_ = Some e\<close>)
    qed (simp add: filter_using_redis_upto_def f Some)
    finally show ?thesis unfolding Let_def k [symmetric] by (simp only: Some)
  qed
qed

end
