(* ===== verification/Scoring_Flow.thy ===== *)
theory Scoring_Flow
  imports Elim_Flow Outage Sr_Reset
begin

text \<open>
  The order of the scoring stages (\<open>scoring_flow\<close> of \<open>src/src/decider/gatewaydecider/gw_scoring.rs\<close>):
  success-rate scores with hedging, or scores by priority; then scheduled outages and elimination.
  Feature switches, draws and the configurations read from Redis are arguments. The windows of
  outcomes and the elimination scores live under different keys of one Redis; they are passed as
  two stores. The metric record the success-rate stage fills for its log is left out.
\<close>

section \<open>Scores by priority\<close>

definition get_score_with_priority :: "string list \<Rightarrow> string list \<Rightarrow> gateway_score_map" where
  "get_score_with_priority functional_gateways gateway_priority_list =
     (let (p1, im1) = foldl
            (\<lambda>(p, m) gw. if gw \<in> set functional_gateways
               then (fsub p (f64_of_rat (1 / 10)), hm_insert gw p m) else (p, m))
            (Fin 1, []) gateway_priority_list
      in snd (foldl
            (\<lambda>(p, m) gw. if gw \<notin> set gateway_priority_list then (p, hm_insert gw p m) else (p, m))
            (p1, im1) functional_gateways))"

section \<open>Hedging\<close>

definition route_random_traffic_to_explore :: "f64 \<Rightarrow> f64 \<Rightarrow> bool" where
  "route_random_traffic_to_explore num hedging_percent \<longleftrightarrow> flt num hedging_percent"

text \<open>
  \<open>num\<close> is the number drawn between 0 and 100. The list is split after its head, which panics on an
  empty one.
\<close>

definition route_random_traffic ::
  "f64 \<Rightarrow> gateway_score_map \<Rightarrow> f64 \<Rightarrow> decider_state \<Rightarrow> (gateway_score_map \<times> decider_state) option" where
  "route_random_traffic num gws hedging_percent st =
     (case sort_by (\<lambda>a b. fcmp (snd b) (snd a)) gws of
        [] \<Rightarrow> None
      | head # remaining \<Rightarrow> Some
          (if flt num hedging_percent
           then (List.map (\<lambda>(gw, _). (gw, Fin 1)) remaining @ [(fst head, Fin (1 / 2))],
                 st\<lparr>ds_gw_decider_approach := SrV3Hedging\<rparr>)
           else (head # remaining, st)))"

section \<open>Success-rate routing\<close>

record scoring_flags =
  sf_sr_payment_flow :: bool
  sf_sr_v3_input :: bool
  sf_explore_and_exploit :: bool
  sf_route_random_traffic :: bool
  sf_srv3 :: srv3_flags

record scoring_draws =
  dr_explore :: f64
  dr_random_traffic :: f64
  dr_binomial :: "string \<Rightarrow> nat \<Rightarrow> f64 \<Rightarrow> nat option"
  dr_beta :: "string \<Rightarrow> f64 \<Rightarrow> f64 \<Rightarrow> f64 option"

record 's sr_env =
  se_redis :: "'s redis"
  se_access :: "string \<Rightarrow> cache_access"
  se_merchant_cfg :: "sr_v3_input_config option"
  se_default_cfg :: "sr_v3_input_config option"
  se_keys :: "string hmap"
  se_currency :: string

definition dimensions_of :: "string \<Rightarrow> txn_detail \<Rightarrow> txn_card_info \<Rightarrow> sr_routing_dimensions" where
  "dimensions_of currency txn info =
     \<lparr>rd_card_network = tci_card_switch_provider info, rd_card_isin = tci_card_isin info,
      rd_currency = Some currency, rd_country = td_country txn,
      rd_auth_type = map_option auth_type_to_text (tci_auth_type info)\<rparr>"

definition ab_use_autopilot :: "decider_state \<Rightarrow> bool" where
  "ab_use_autopilot st = unwrap_or (Option.bind (ds_ab_test_sr_override st) ov_use_autopilot) True"

definition hedging_percent_of :: "'s sr_env \<Rightarrow> txn_detail \<Rightarrow> txn_card_info \<Rightarrow> decider_state \<Rightarrow> f64" where
  "hedging_percent_of V txn info st =
     (let pmt = tci_payment_method_type info; pm = tci_payment_method info;
          dims = dimensions_of (se_currency V) txn info;
          lookup = (\<lambda>cfg. get_sr_v3_hedging_percent cfg pmt pm dims (ab_use_autopilot st)) in
      unwrap_or
        (opt_or (opt_or (Option.bind (ds_ab_test_sr_override st) ov_hedging_percent)
                   (lookup (se_merchant_cfg V)))
           (lookup (se_default_cfg V)))
        DEFAULT_SR_V3_BASED_HEDGING_PERCENT)"

definition srv3_input_of :: "'s sr_env \<Rightarrow> txn_detail \<Rightarrow> txn_card_info \<Rightarrow> decider_state \<Rightarrow> srv3_input" where
  "srv3_input_of V txn info st =
     \<lparr>in_merchant_cfg = se_merchant_cfg V, in_default_cfg = se_default_cfg V,
      in_pmt = tci_payment_method_type info,
      in_pm = get_payment_method (tci_payment_method_type info) (tci_payment_method info)
        (unwrap_or (td_source_object txn) []),
      in_dims = dimensions_of (se_currency V) txn info, in_ab_use_autopilot = ab_use_autopilot st,
      in_gateways = ds_functional_gateways st, in_redis_keys = se_keys V\<rparr>"

text \<open>The success-rate scores with what they write to the state: bucket size and reset approach.\<close>

definition srv3_scores ::
  "'s sr_env \<Rightarrow> scoring_flags \<Rightarrow> scoring_draws \<Rightarrow> txn_detail \<Rightarrow> txn_card_info \<Rightarrow> decider_state \<Rightarrow> 's \<Rightarrow>
   sr_score_cache \<Rightarrow> (gateway_score_map \<times> decider_state \<times> 's \<times> sr_score_cache) option" where
  "srv3_scores V F draws txn info st s cache =
     (let i = srv3_input_of V txn info st in
      map_option (\<lambda>(m, reset, s, cache).
          (m, st\<lparr>ds_srv3_bucket_size := Some (input_bucket_size i),
                 ds_reset_approach := unwrap_or reset (ds_reset_approach st)\<rparr>, s, cache))
        (get_cached_scores_based_on_srv3 (se_redis V) (se_access V) (dr_binomial draws) (dr_beta draws)
           (sf_srv3 F) i s cache))"

text \<open>The stage up to the score map; the last component tells whether it scored any gateway.\<close>

definition sr_stage ::
  "'s sr_env \<Rightarrow> scoring_flags \<Rightarrow> scoring_draws \<Rightarrow> txn_detail \<Rightarrow> txn_card_info \<Rightarrow> string list \<Rightarrow>
   decider_state \<Rightarrow> 's \<Rightarrow> sr_score_cache \<Rightarrow> (decider_state \<times> 's \<times> sr_score_cache \<times> bool) option" where
  "sr_stage V F draws txn info functional_gateways st s cache =
     (let hedging_percent = hedging_percent_of V txn info st;
          st = st\<lparr>ds_sr_v3_hedging_percent := Some hedging_percent\<rparr>;
          should_explore = (sf_explore_and_exploit F \<and>
            route_random_traffic_to_explore (dr_explore draws) hedging_percent) in
      case srv3_scores V F draws txn info st s cache of
        None \<Rightarrow> None
      | Some (sr_scores, st, s, cache) \<Rightarrow>
          (let initial = (if should_explore then create_score_map functional_gateways else sr_scores);
               finish = return_sm_with_log GetCachedScoresBasedOnSrV3 True in
           if initial = [] then Some (finish st, s, cache, False)
           else
             (let st = st\<lparr>ds_sr_gateway_scores := Some initial,
                          ds_gw_decider_approach :=
                            (if should_explore then SrV3Hedging else SrSelectionV3Routing)\<rparr> in
              map_option (\<lambda>(m, st). (finish (st\<lparr>ds_gw_score_map := m\<rparr>), s, cache, True))
                (if sf_route_random_traffic F \<and> \<not> sf_explore_and_exploit F
                 then route_random_traffic (dr_random_traffic draws) initial hedging_percent st
                 else Some (initial, st)))))"

definition sr_enabled :: "scoring_flags \<Rightarrow> ranking_algorithm option \<Rightarrow> bool" where
  "sr_enabled F ranking \<longleftrightarrow>
     (sf_sr_payment_flow F \<or> ranking = Some RA_SrBasedRouting) \<and>
     (sf_sr_v3_input F \<or> ranking = Some RA_SrBasedRouting)"

section \<open>The whole flow\<close>

text \<open>What the outage and elimination stages need besides the state.\<close>

record 'k down_env =
  dw_store :: "'k score_store"
  dw_config :: decision_config
  dw_env :: elim_env
  dw_merchant :: string
  dw_now :: nat
  dw_gsd :: gateway_scoring_data
  dw_global_keys :: "string hmap"
  dw_merchant_keys :: "string hmap"
  dw_default_input :: "gateway_sr_input option"
  dw_outages :: "gateway_outage list"
  dw_bank_code :: "bank_code option"

definition eliminate ::
  "'k down_env \<Rightarrow> txn_detail \<Rightarrow> txn_card_info \<Rightarrow> bool \<Rightarrow> bool option \<Rightarrow> decider_state \<Rightarrow> 'k \<Rightarrow>
   (decider_state \<times> 'k) option" where
  "eliminate W txn info is_sr_metric_enabled elimination_enabled st k =
     update_gateway_score_based_on_success_rate (dw_store W) (dw_config W) (dw_env W) (dw_merchant W)
       (dw_now W) txn info (dw_gsd W) (dw_global_keys W) (dw_merchant_keys W) (dw_default_input W)
       is_sr_metric_enabled (ds_gw_score_map st) elimination_enabled st k"

text \<open>The scores before outages and elimination, when there is more than one gateway or none.\<close>

definition initial_scores ::
  "'s sr_env \<Rightarrow> scoring_flags \<Rightarrow> scoring_draws \<Rightarrow> txn_detail \<Rightarrow> txn_card_info \<Rightarrow> string list \<Rightarrow> string list \<Rightarrow>
   ranking_algorithm option \<Rightarrow> decider_state \<Rightarrow> 's \<Rightarrow> sr_score_cache \<Rightarrow>
   (decider_state \<times> 's \<times> sr_score_cache \<times> bool) option" where
  "initial_scores V F draws txn info functional_gateways gateway_priority_list ranking st s cache =
     map_option (\<lambda>(st, s, cache, sr).
        let st = st\<lparr>ds_is_sr_v3_metric_enabled := sr, ds_is_optimized_based_on_sr_metric_enabled := False\<rparr> in
        (if sr then st
         else return_sm_with_log GetScoreWithPriority True
           (st\<lparr>ds_gw_decider_approach := PriorityLogic,
               ds_gw_score_map := get_score_with_priority functional_gateways gateway_priority_list\<rparr>),
         s, cache, sr))
       (if sr_enabled F ranking then sr_stage V F draws txn info functional_gateways st s cache
        else Some (st, s, cache, False))"

definition scoring_flow ::
  "'s sr_env \<Rightarrow> 'k down_env \<Rightarrow> scoring_flags \<Rightarrow> scoring_draws \<Rightarrow> txn_detail \<Rightarrow> txn_card_info \<Rightarrow>
   string list \<Rightarrow> string list \<Rightarrow> ranking_algorithm option \<Rightarrow> bool option \<Rightarrow> decider_state \<Rightarrow>
   's \<times> sr_score_cache \<times> 'k \<Rightarrow> (decider_state \<times> 's \<times> sr_score_cache \<times> 'k) option" where
  "scoring_flow V W F draws txn info functional_gateways gateway_priority_list ranking elimination_enabled st stores =
     (let (s, cache, k) = stores; st = st\<lparr>ds_functional_gateways := functional_gateways\<rparr> in
      case functional_gateways of
        [gw] \<Rightarrow>
          map_option (\<lambda>(st, k). (return_sm_with_log FinalScoring False st, s, cache, k))
            (eliminate W txn info False elimination_enabled
               (st\<lparr>ds_gw_score_map := create_score_map functional_gateways, ds_gw_decider_approach := Default,
                   ds_top_gateway_before_sr_downtime_evaluation := Some gw\<rparr>) k)
      | _ \<Rightarrow>
          (case initial_scores V F draws txn info functional_gateways gateway_priority_list ranking st s cache of
             None \<Rightarrow> None
           | Some (st, s, cache, sr) \<Rightarrow>
               (let st = update_score_for_outage (dw_outages W) txn info (dw_merchant W) (dw_bank_code W) st;
                    st = st\<lparr>ds_top_gateway_before_sr_downtime_evaluation := top_gateway (ds_gw_score_map st)\<rparr> in
                map_option (\<lambda>(st, k). (return_sm_with_log FinalScoring False st, s, cache, k))
                  (eliminate W txn info sr elimination_enabled st k))))"

end
