(* ===== verification/F64_Round.thy ===== *)
theory F64_Round
  imports F64
begin

text \<open>
  More on rounding: it is idempotent, so the values an operation returns are exact under a further
  rounding, and its error is at most half a unit in the last place.
\<close>

section \<open>Rounding twice\<close>

lemma floor_log2_two_powi [simp]: "floor_log2 (two_powi k) = k"
proof (rule floor_log2_eqI)
  show "two_powi k < two_powi (k + 1)" unfolding two_powi_add by (simp add: two_powi_def [of 1])
qed simp

lemma rne_scaled:
  assumes "g \<le> e"
  shows "of_int (rne (of_int m * two_powi e / two_powi g)) * two_powi g = of_int m * two_powi e"
proof -
  have s: "two_powi e = of_int (2 ^ nat (e - g)) * two_powi g"
    using assms two_powi_add [of "e - g" g] two_powi_nat [of "nat (e - g)"] by simp
  then have "of_int m * two_powi e / two_powi g = of_int (m * 2 ^ nat (e - g))" by simp
  then show ?thesis unfolding s by (simp only: rne_of_int) simp
qed

lemma rnd_pos_two_powi: "- 1074 \<le> k \<Longrightarrow> rnd_pos (two_powi k) = two_powi k"
  using rne_scaled [of "grid_exp (two_powi k)" k 1] by (simp add: rnd_pos_def grid_exp_def)

lemma rnd_pos_idem:
  assumes "0 < x" "0 < rnd_pos x"
  shows "rnd_pos (rnd_pos x) = rnd_pos x"
proof (cases "grid_exp (rnd_pos x) \<le> grid_exp x")
  case True
  then show ?thesis
    using rne_scaled [OF True, of "rne (x / two_powi (grid_exp x))"] by (simp add: rnd_pos_def)
next
  case False
  define k where "k = max (floor_log2 x + 1) (- 1074)"
  have "x \<le> two_powi (floor_log2 x + 1)" using floor_log2_bounds(2) [OF assms(1)] by simp
  also have "\<dots> \<le> two_powi k" by (simp add: k_def two_powi_mono)
  finally have le: "rnd_pos x \<le> two_powi k"
    using rnd_pos_mono [OF assms(1)] rnd_pos_two_powi [of k] by (force simp: k_def)
  then have "floor_log2 (rnd_pos x) \<le> k" using floor_log2_mono [OF assms(2) le] by simp
  with False have k: "k = floor_log2 x + 1" "k \<le> floor_log2 (rnd_pos x)"
    by (auto simp: grid_exp_def k_def split: if_splits)
  then have "two_powi k \<le> rnd_pos x"
    using floor_log2_bounds(1) [OF assms(2)] two_powi_mono [OF k(2)] by simp
  with le have "rnd_pos x = two_powi k" by simp
  then show ?thesis using rnd_pos_two_powi [of k] by (simp add: k_def)
qed

lemma rnd_idem [simp]: "rnd (rnd x) = rnd x"
proof -
  have pos: "rnd (rnd_pos x) = rnd_pos x" if "0 < x" for x
    using rnd_pos_idem [OF that] rnd_pos_nonneg [OF that] by (cases "rnd_pos x = 0") (simp_all add: rnd_def)
  show ?thesis
  proof (cases "0 < x")
    case True
    then show ?thesis using pos [OF True] by (simp add: rnd_def)
  next
    case False
    then show ?thesis
      using pos [of "- x"] rnd_minus [of "rnd_pos (- x)"] by (cases "x = 0") (simp_all add: rnd_def)
  qed
qed

text \<open>Every integer of at most 53 bits times a power of two is exact.\<close>

lemma rnd_pos_dyadic:
  assumes "0 < m" "m \<le> 2 ^ 53" "- 1074 \<le> e"
  shows "rnd_pos (of_int m * two_powi e) = of_int m * two_powi e"
proof (cases "m = 2 ^ 53")
  case True
  then have "of_int m * two_powi e = two_powi (53 + e)" by (simp add: two_powi_add two_powi_def [of 53])
  then show ?thesis using rnd_pos_two_powi [of "53 + e"] assms(3) by simp
next
  case False
  let ?x = "of_int m * two_powi e :: rat"
  have pos: "0 < ?x" using assms(1) by simp
  have "(of_int m :: rat) < of_int (2 ^ 53)" using assms(2) False by (simp only: of_int_less_iff)
  then have "?x < two_powi (53 + e)" by (simp add: two_powi_add two_powi_def [of 53])
  then have "\<not> two_powi (53 + e) \<le> two_powi (floor_log2 ?x)"
    using floor_log2_bounds(1) [OF pos] by linarith
  then have "grid_exp ?x \<le> e" using assms(3) by (simp add: two_powi_le_iff grid_exp_def)
  then show ?thesis using rne_scaled [of "grid_exp ?x" e m] by (simp add: rnd_pos_def)
qed

lemma f64_dyadic:
  assumes "0 \<le> m" "m \<le> 2 ^ 53" "k \<le> 1000"
  shows "f64_of_rat (of_int m / 2 ^ k) = Fin (of_int m / 2 ^ k)"
proof (cases "m = 0")
  case False
  have e: "of_int m / 2 ^ k = (of_int m * two_powi (- int k) :: rat)" by (simp add: two_powi_neg)
  have r: "rnd (of_int m / 2 ^ k) = of_int m / 2 ^ k"
    using False assms rnd_pos_dyadic [of m "- int k"] unfolding e by (simp add: rnd_def)
  have "(of_int m :: rat) \<le> of_int (2 ^ 53)" using assms(2) by (simp only: of_int_le_iff)
  moreover have "of_int m / 2 ^ k \<le> (of_int m :: rat)" using assms(1) by (simp add: divide_le_eq mult_le_cancel_left1)
  moreover have "(0 :: rat) \<le> of_int m / 2 ^ k" using assms(1) by simp
  ultimately show ?thesis by (simp add: f64_of_rat_def r)
qed simp

text \<open>A number that survives rounding; every result of an operation is one or not finite.\<close>

definition exact_f64 :: "f64 \<Rightarrow> bool" where
  "exact_f64 a \<longleftrightarrow> (case a of Fin x \<Rightarrow> f64_of_rat x = Fin x | _ \<Rightarrow> True)"

lemma exact_f64_of_rat [simp]: "exact_f64 (f64_of_rat x)"
  by (simp add: exact_f64_def f64_of_rat_def Let_def split: f64.split)

lemma exact_ops [simp]:
  "exact_f64 (fmul a b)" "exact_f64 (fadd a b)" "exact_f64 (fsub a b)" "exact_f64 PInf" "exact_f64 NInf"
  "exact_f64 NaN"
proof -
  have add: "exact_f64 (fadd a b)" for a b
    by (cases a; cases b) (simp_all add: exact_f64_def [of PInf] exact_f64_def [of NInf] exact_f64_def [of NaN])
  then show "exact_f64 (fadd a b)" "exact_f64 (fsub a b)" by (simp_all add: fsub_def)
  show "exact_f64 (fmul a b)"
    by (cases a; cases b)
      (simp_all add: fmul_def inf_of_sign_def exact_f64_def [of PInf] exact_f64_def [of NInf] exact_f64_def [of NaN])
qed (simp_all add: exact_f64_def)

lemma le_fadd_nonneg: "exact_f64 a \<Longrightarrow> a \<noteq> NaN \<Longrightarrow> 0 \<le> c \<Longrightarrow> fle a (fadd a (Fin c))"
  using f64_of_rat_mono [of x "x + c" for x] by (cases a) (auto simp: exact_f64_def fle_refl, metis add_increasing2 order_refl)

section \<open>The error of one rounding\<close>

lemma fle_infs: "fle a PInf \<longleftrightarrow> a \<noteq> NaN" "fle NInf a \<longleftrightarrow> a \<noteq> NaN"
  by (cases a; simp add: fle_def)+

lemma not_fle_infs: "\<not> fle (Fin x) NInf" "\<not> fle PInf (Fin x)"
  by (simp_all add: fle_def)

lemma rne_error: "\<bar>of_int (rne x) - x\<bar> \<le> 1 / 2"
proof -
  have "of_int \<lfloor>x\<rfloor> \<le> x" "x < of_int \<lfloor>x\<rfloor> + 1" by linarith+
  then show ?thesis unfolding rne_def Let_def by (simp split: if_splits; linarith)
qed

lemma rnd_error:
  assumes "\<bar>x\<bar> \<le> two_powi k" "- 1022 \<le> k"
  shows "\<bar>rnd x - x\<bar> \<le> two_powi (k - 53)"
proof -
  have pos: "\<bar>rnd_pos x - x\<bar> \<le> two_powi (k - 53)" if "0 < x" "x \<le> two_powi k" for x
  proof -
    let ?e = "grid_exp x"
    have "floor_log2 x \<le> k" using floor_log2_mono [OF that] by simp
    then have e: "?e \<le> k - 52" using assms(2) by (simp add: grid_exp_def)
    have "rnd_pos x - x = (of_int (rne (x / two_powi ?e)) - x / two_powi ?e) * two_powi ?e"
      by (simp add: rnd_pos_def left_diff_distrib)
    then have "\<bar>rnd_pos x - x\<bar> \<le> 1 / 2 * two_powi ?e"
      using rne_error [of "x / two_powi ?e"] by (simp add: abs_mult mult_right_mono)
    also have "\<dots> = two_powi (?e - 1)" using two_powi_add [of "?e - 1" 1] by (simp add: two_powi_def [of 1])
    also have "\<dots> \<le> two_powi (k - 53)" using e by (simp add: two_powi_mono)
    finally show ?thesis .
  qed
  consider "x = 0" | "0 < x" | "0 < - x" by linarith
  then show ?thesis
  proof cases
    case 2
    then show ?thesis using pos [of x] assms(1) by (simp add: rnd_def)
  next
    case 3
    then show ?thesis using pos [of "- x"] assms(1) by (simp add: rnd_def abs_minus_commute)
  qed simp
qed

end
