(* ===== verification/Multi_Objective.thy ===== *)
theory Multi_Objective
  imports F64_Round Prelude "HOL-Library.Char_ord" "HOL-Library.List_Lexorder"
begin

text \<open>
  Multi-objective routing (\<open>src/src/decider/gatewaydecider/multi_objective/\<close>): among the gateways with
  a known cost the one of the highest expected value per unit of ticket is promoted over the best
  one by success rate. The costs are looked up outside of the model and arrive as a map. Texts of
  reasons are kept as their arguments; the order of strings is the one of their bytes.
\<close>

section \<open>Reports\<close>

datatype cost_source = InHouse | Seed | Hypersense

record cost_model =
  cm_brand :: "string option"
  cm_variant :: "string option"
  cm_issuer :: "string option"
  cm_ccy :: "string option"
  cm_ic_category :: "string option"
  cm_pct_bps :: "f64 option"
  cm_fixed_fee :: "f64 option"

record psp_cost =
  pc_available :: bool
  pc_effective_cost_bps :: f64
  pc_source :: cost_source
  pc_cost_model :: "cost_model option"

record psp_summary =
  ps_psp :: string
  ps_auth_rate :: f64
  ps_cost_bps :: "f64 option"
  ps_cost_source :: "cost_source option"
  ps_cost_model :: "cost_model option"

record ranked_psp =
  rk_summary :: psp_summary
  rk_ev :: f64
  rk_is_sr_head :: bool
  rk_is_chosen :: bool

datatype multi_objective_outcome = CostWon | AuthWon

datatype multi_objective_reason =
    OnlyOnePsp | NoFiniteScore | NoHeadCost
  | HeadRetained nat
  | Promoted string string f64 f64

record multi_objective_info =
  mo_outcome :: multi_objective_outcome
  mo_reason :: multi_objective_reason
  mo_cost_saved_bps :: "f64 option"
  mo_qualified_count :: nat
  mo_margin :: f64
  mo_ev_gap_top2 :: "f64 option"
  mo_ranked :: "ranked_psp list"

record cost_decision =
  cd_chosen :: string
  cd_fallbacks :: "string list"

record reorder_outcome =
  ro_head_moved :: bool
  ro_info :: multi_objective_info
  ro_cost_decision :: "cost_decision option"

definition DEFAULT_MARGIN :: f64 where
  "DEFAULT_MARGIN = Fin 1"

section \<open>Ranking on expected value\<close>

definition auth_won :: "f64 \<Rightarrow> multi_objective_reason \<Rightarrow> reorder_outcome" where
  "auth_won margin reason =
     \<lparr>ro_head_moved = False,
      ro_info = \<lparr>mo_outcome = AuthWon, mo_reason = reason, mo_cost_saved_bps = None,
        mo_qualified_count = 0, mo_margin = margin, mo_ev_gap_top2 = None, mo_ranked = []\<rparr>,
      ro_cost_decision = None\<rparr>"

definition current_head :: "f64 hmap \<Rightarrow> (string \<times> f64) option" where
  "current_head score_map =
     foldl (\<lambda>acc (psp, score).
        case acc of
          None \<Rightarrow> Some (psp, score)
        | Some (_, best) \<Rightarrow> if flt best score then Some (psp, score) else acc) None score_map"

definition cost_bps :: "psp_cost hmap \<Rightarrow> string \<Rightarrow> f64" where
  "cost_bps costs gw =
     (case map_of costs gw of
        Some c \<Rightarrow> if pc_available c then pc_effective_cost_bps c else PInf
      | None \<Rightarrow> PInf)"

text \<open>The lowest name among the gateways with the best score.\<close>

definition head_psp_of :: "f64 hmap \<Rightarrow> f64 \<Rightarrow> string option" where
  "head_psp_of score_map best_auth =
     (case List.map fst (filter (\<lambda>(_, s). flt (fabs (fsub s best_auth)) EPSILON) score_map) of
        [] \<Rightarrow> None
      | gw # gws \<Rightarrow> Some (foldl min gw gws))"

definition ev :: "f64 \<Rightarrow> f64 \<Rightarrow> f64 \<Rightarrow> f64" where
  "ev margin score c_bps = fmul score (fsub margin (fdiv c_bps (Fin 10000)))"

definition top2_gap :: "f64 list \<Rightarrow> f64 option" where
  "top2_gap evs =
     (if length evs < 2 then None
      else (let sorted = sort_by (\<lambda>a b. fcmp b a) evs in Some (fsub (sorted ! 0) (sorted ! 1))))"

definition make_summary :: "string \<Rightarrow> f64 \<Rightarrow> f64 option \<Rightarrow> psp_cost hmap \<Rightarrow> psp_summary" where
  "make_summary psp auth_rate cost costs =
     \<lparr>ps_psp = psp, ps_auth_rate = auth_rate, ps_cost_bps = cost,
      ps_cost_source = map_option pc_source (map_of costs psp),
      ps_cost_model = Option.bind (map_of costs psp) pc_cost_model\<rparr>"

definition build_ranked ::
  "f64 hmap \<Rightarrow> f64 \<Rightarrow> psp_cost hmap \<Rightarrow> string option \<Rightarrow> string option \<Rightarrow> ranked_psp list" where
  "build_ranked score_map margin costs head_psp chosen_psp =
     sort_by
       (\<lambda>a b. case fcmp (rk_ev b) (rk_ev a) of
          Eql \<Rightarrow> (if ps_psp (rk_summary a) < ps_psp (rk_summary b) then Less
                  else if ps_psp (rk_summary b) < ps_psp (rk_summary a) then Greater else Eql)
        | c \<Rightarrow> c)
       (List.map (\<lambda>(gw, score).
          \<lparr>rk_summary = make_summary gw score (Some (cost_bps costs gw)) costs,
           rk_ev = ev margin score (cost_bps costs gw),
           rk_is_sr_head = (head_psp = Some gw), rk_is_chosen = (chosen_psp = Some gw)\<rparr>)
          (filter (\<lambda>(gw, _). is_finite (cost_bps costs gw)) score_map))"

definition build_ev_ordered_fallbacks ::
  "f64 hmap \<Rightarrow> string \<Rightarrow> f64 \<Rightarrow> psp_cost hmap \<Rightarrow> string list" where
  "build_ev_ordered_fallbacks score_map chosen margin costs =
     (let others = filter (\<lambda>(gw, _). gw \<noteq> chosen) score_map;
          desc = sort_by (\<lambda>a b. fcmp (snd b) (snd a));
          with_cost = desc (List.map (\<lambda>(gw, score). (gw, ev margin score (cost_bps costs gw)))
            (filter (\<lambda>(gw, _). is_finite (cost_bps costs gw)) others));
          without_cost = desc (filter (\<lambda>(gw, _). \<not> is_finite (cost_bps costs gw)) others)
      in List.map fst with_cost @ List.map fst without_cost)"

text \<open>The loop over the other gateways: the values seen, and the best gateway so far.\<close>

record ev_pick =
  pk_ranked_evs :: "f64 list"
  pk_psp :: "string option"
  pk_score :: f64
  pk_cost :: f64
  pk_ev :: f64
  pk_ranked_count :: nat

definition ev_step ::
  "f64 \<Rightarrow> psp_cost hmap \<Rightarrow> string option \<Rightarrow> ev_pick \<Rightarrow> string \<times> f64 \<Rightarrow> ev_pick" where
  "ev_step margin costs head_psp k gw_score =
     (let (gw, score) = gw_score; c = cost_bps costs gw in
      if Some gw = head_psp \<or> \<not> is_finite c then k
      else
        (let cand_ev = ev margin score c;
             k = k\<lparr>pk_ranked_count := pk_ranked_count k + 1, pk_ranked_evs := pk_ranked_evs k @ [cand_ev]\<rparr> in
         if flt (fadd (pk_ev k) EPSILON) cand_ev
         then k\<lparr>pk_ev := cand_ev, pk_psp := Some gw, pk_score := score, pk_cost := c\<rparr>
         else k))"

definition reorder_for_cost :: "f64 hmap \<Rightarrow> f64 \<Rightarrow> psp_cost hmap \<Rightarrow> reorder_outcome" where
  "reorder_for_cost score_map margin costs =
     (case current_head score_map of
        Some (_, best_auth) \<Rightarrow>
          if is_finite best_auth then
            (let head_psp = head_psp_of score_map best_auth;
                 head_cost = unwrap_or (map_option (cost_bps costs) head_psp) PInf in
             if \<not> is_finite head_cost then auth_won margin NoHeadCost
             else
               (let head_ev = ev margin best_auth head_cost;
                    k = foldl (ev_step margin costs head_psp)
                      \<lparr>pk_ranked_evs = [head_ev], pk_psp = head_psp, pk_score = best_auth,
                       pk_cost = head_cost, pk_ev = head_ev, pk_ranked_count = 1\<rparr> score_map;
                    gap = top2_gap (pk_ranked_evs k);
                    ranked = build_ranked score_map margin costs head_psp (pk_psp k);
                    chosen = unwrap_or (pk_psp k) [];
                    decision = Some \<lparr>cd_chosen = chosen,
                      cd_fallbacks = build_ev_ordered_fallbacks score_map chosen margin costs\<rparr> in
                if pk_psp k = head_psp then
                  \<lparr>ro_head_moved = False,
                   ro_info = \<lparr>mo_outcome = AuthWon, mo_reason = HeadRetained (pk_ranked_count k),
                     mo_cost_saved_bps = None, mo_qualified_count = pk_ranked_count k,
                     mo_margin = margin, mo_ev_gap_top2 = gap, mo_ranked = ranked\<rparr>,
                   ro_cost_decision = decision\<rparr>
                else
                  (let saved = fsub head_cost (pk_cost k) in
                   \<lparr>ro_head_moved = True,
                    ro_info = \<lparr>mo_outcome = CostWon,
                      mo_reason = Promoted chosen (unwrap_or head_psp []) saved
                        (fmul (fsub best_auth (pk_score k)) (Fin 100)),
                      mo_cost_saved_bps = Some saved, mo_qualified_count = pk_ranked_count k,
                      mo_margin = margin, mo_ev_gap_top2 = gap, mo_ranked = ranked\<rparr>,
                    ro_cost_decision = decision\<rparr>)))
          else auth_won margin NoFiniteScore
      | None \<Rightarrow> auth_won margin NoFiniteScore)"

text \<open>\<open>lookup\<close> stands for the key of the cost cluster and the lookup of the costs under it.\<close>

definition try_apply_multi_objective_post_step ::
  "(string list \<Rightarrow> psp_cost hmap) \<Rightarrow> f64 hmap \<Rightarrow> f64 \<Rightarrow> reorder_outcome" where
  "try_apply_multi_objective_post_step lookup score_map margin =
     (if length score_map < 2 then auth_won margin OnlyOnePsp
      else reorder_for_cost score_map margin (lookup (List.map fst score_map)))"

section \<open>The pick\<close>

lemma current_head_mem: "current_head sm = Some x \<Longrightarrow> x \<in> set sm"
proof -
  have "foldl (\<lambda>acc (psp, score).
        case acc of
          None \<Rightarrow> Some (psp, score)
        | Some (_, best) \<Rightarrow> if flt best score then Some (psp, score) else acc) a sm = Some x \<Longrightarrow>
      x \<in> set sm \<or> a = Some x" for a
  proof (induction sm arbitrary: a)
    case (Cons y sm)
    from Cons.prems have "foldl (\<lambda>acc (psp, score).
        case acc of
          None \<Rightarrow> Some (psp, score)
        | Some (_, best) \<Rightarrow> if flt best score then Some (psp, score) else acc)
        (case y of (psp, score) \<Rightarrow> case a of None \<Rightarrow> Some (psp, score)
          | Some (_, best) \<Rightarrow> if flt best score then Some (psp, score) else a) sm = Some x" by simp
    from Cons.IH [OF this] show ?case by (auto split: prod.splits option.splits if_splits)
  qed simp
  then show "current_head sm = Some x \<Longrightarrow> x \<in> set sm" by (force simp: current_head_def)
qed

lemma foldl_min_mem: "foldl min (x :: string) xs \<in> insert x (set xs)"
proof (induction xs arbitrary: x)
  case (Cons y ys)
  from Cons [of "min x y"] show ?case by (auto simp: min_def split: if_splits)
qed simp

lemma head_psp_of_Some:
  assumes "current_head sm = Some (g, best)" "is_finite best"
  obtains h s where "head_psp_of sm best = Some h" "(h, s) \<in> set sm"
proof -
  let ?gs = "List.map fst (filter (\<lambda>(_, s). flt (fabs (fsub s best)) EPSILON) sm)"
  have "flt (fabs (fsub best best)) EPSILON"
    using assms(2) by (cases best) (simp_all add: fsub_def EPSILON_def)
  with current_head_mem [OF assms(1)] have "g \<in> set ?gs" by force
  then obtain y ys where gs: "?gs = y # ys" by (cases ?gs) auto
  have "foldl min y ys \<in> set ?gs" unfolding gs using foldl_min_mem [of y ys] by simp
  then obtain s where "(foldl min y ys, s) \<in> set sm" by force
  then show ?thesis by (rule that [rotated]) (simp only: head_psp_of_def gs list.case)
qed

text \<open>
  The value a gateway is ranked with; the head is ranked with the best score, which its own equals up
  to \<open>EPSILON\<close>.
\<close>

definition ranked_value :: "f64 \<Rightarrow> psp_cost hmap \<Rightarrow> string option \<Rightarrow> f64 \<Rightarrow> string \<times> f64 \<Rightarrow> f64" where
  "ranked_value margin costs head best_auth gw_score =
     (let (gw, s) = gw_score in ev margin (if Some gw = head then best_auth else s) (cost_bps costs gw))"

definition not_better :: "f64 \<Rightarrow> f64 \<Rightarrow> bool" where
  "not_better e b \<longleftrightarrow> \<not> flt (fadd e EPSILON) b"

lemma le_fadd_EPSILON: "exact_f64 e \<Longrightarrow> e \<noteq> NaN \<Longrightarrow> fle e (fadd e EPSILON)"
  by (simp add: EPSILON_def le_fadd_nonneg)

lemma promote_above:
  "exact_f64 c \<Longrightarrow> flt (fadd e EPSILON) c \<Longrightarrow> flt (fadd c EPSILON) b \<Longrightarrow> flt (fadd e EPSILON) b"
  using flt_not_nan [of "fadd e EPSILON" c] le_fadd_EPSILON [of c]
    flt_fle_trans [of "fadd e EPSILON" c "fadd c EPSILON"] flt_trans [of "fadd e EPSILON" "fadd c EPSILON" b]
  by blast

lemma not_better_self: "exact_f64 e \<Longrightarrow> not_better e e"
  using le_fadd_EPSILON [of e] fle_flt_trans [of e "fadd e EPSILON" e] flt_not_nan [of "fadd e EPSILON" e]
  by (auto simp: not_better_def)

lemma exact_ev [simp]: "exact_f64 (ev m s c)"
  by (simp add: ev_def)

lemma exact_ranked_value [simp]: "exact_f64 (ranked_value m costs h b x)"
  by (simp add: ranked_value_def split: prod.split)

definition pick_inv ::
  "f64 \<Rightarrow> psp_cost hmap \<Rightarrow> string \<Rightarrow> f64 \<Rightarrow> string \<times> f64 \<Rightarrow> (string \<times> f64) list \<Rightarrow> ev_pick \<Rightarrow> bool" where
  "pick_inv margin costs h best hs xs k \<longleftrightarrow>
     (let val = ranked_value margin costs (Some h) best in
      (\<exists>x\<in>insert hs (set xs). pk_psp k = Some (fst x) \<and> pk_ev k = val x \<and> is_finite (cost_bps costs (fst x))) \<and>
      (\<forall>x\<in>insert hs (set xs). is_finite (cost_bps costs (fst x)) \<longrightarrow> not_better (pk_ev k) (val x)) \<and>
      (pk_psp k = Some h \<and> pk_ev k = val hs \<or> flt (fadd (val hs) EPSILON) (pk_ev k)))"

lemma pick_inv_step:
  assumes inv: "pick_inv margin costs h best (h, s) xs k" and d: "fst y = h \<Longrightarrow> y = (h, s)"
  shows "pick_inv margin costs h best (h, s) (y # xs) (ev_step margin costs (Some h) k y)"
proof -
  obtain gw sc where y: "y = (gw, sc)" by fastforce
  let ?val = "ranked_value margin costs (Some h) best" and ?c = "cost_bps costs gw"
  show ?thesis
  proof (cases "gw = h \<or> \<not> is_finite ?c")
    case True
    then have "ev_step margin costs (Some h) k y = k" by (auto simp: ev_step_def y Let_def)
    with True inv d show ?thesis unfolding pick_inv_def Let_def by (auto simp: y)
  next
    case False
    then have val: "?val y = ev margin sc ?c" by (simp add: ranked_value_def y)
    show ?thesis
    proof (cases "flt (fadd (pk_ev k) EPSILON) (?val y)")
      case True
      then have k': "pk_psp (ev_step margin costs (Some h) k y) = Some gw"
        "pk_ev (ev_step margin costs (Some h) k y) = ?val y"
        using False by (simp_all add: ev_step_def y Let_def val [unfolded y])
      have "exact_f64 (?val y)" by (simp add: val)
      with True have up: "not_better (pk_ev k) b \<Longrightarrow> not_better (?val y) b" for b
        unfolding not_better_def by (meson promote_above)
      have nan: "?val y \<noteq> NaN" using True by (auto dest: flt_not_nan)
      then have self: "not_better (?val y) (?val y)"
        using le_fadd_EPSILON [of "?val y"] by (auto simp: not_better_def val dest: flt_fle_trans)
      have "flt (fadd (?val (h, s)) EPSILON) (?val y)"
        using inv True promote_above [of "pk_ev k" "?val (h, s)" "?val y"]
        unfolding pick_inv_def Let_def by fastforce
      with inv up self False show ?thesis
        unfolding pick_inv_def Let_def k' by (auto simp: y)
    next
      case nb: False
      then have "pk_psp (ev_step margin costs (Some h) k y) = pk_psp k"
        "pk_ev (ev_step margin costs (Some h) k y) = pk_ev k"
        using False by (simp_all add: ev_step_def y Let_def val [unfolded y])
      with inv nb show ?thesis
        unfolding pick_inv_def Let_def by (auto simp: not_better_def)
    qed
  qed
qed

lemma pick_inv_fold:
  assumes "pick_inv margin costs h best (h, s) ys k" "\<And>y. y \<in> set xs \<Longrightarrow> fst y = h \<Longrightarrow> y = (h, s)"
  shows "\<exists>zs. set zs = set xs \<union> set ys \<and>
    pick_inv margin costs h best (h, s) zs (foldl (ev_step margin costs (Some h)) k xs)"
  using assms
proof (induction xs arbitrary: ys k)
  case (Cons x xs)
  from Cons.IH [OF pick_inv_step [OF Cons.prems(1), of x]] Cons.prems(2)
  obtain zs where "set zs = set xs \<union> set (x # ys)" "pick_inv margin costs h best (h, s) zs
    (foldl (ev_step margin costs (Some h)) (ev_step margin costs (Some h) k x) xs)" by auto
  then show ?case by (intro exI [of _ zs]) auto
qed auto

lemma mset_map_sort: "mset (List.map f (sort_by c xs)) = mset (List.map f xs)"
  by simp

lemma fallbacks_others:
  assumes "hm_ok sm"
  shows "set (build_ev_ordered_fallbacks sm chosen margin costs) = fst ` set sm - {chosen}"
    and "distinct (build_ev_ordered_fallbacks sm chosen margin costs)"
proof -
  let ?fb = "build_ev_ordered_fallbacks sm chosen margin costs"
  let ?fin = "\<lambda>gw. is_finite (cost_bps costs gw)"
  have split: "mset (List.map f (filter (\<lambda>(gw, _). ?fin gw) xs)) + mset (List.map f (filter (\<lambda>(gw, _). \<not> ?fin gw) xs)) =
      mset (List.map f xs)" for f :: "string \<times> f64 \<Rightarrow> string" and xs
    by (induction xs) auto
  have "mset ?fb = mset (List.map fst (filter (\<lambda>(gw, _). ?fin gw) (filter (\<lambda>(gw, _). gw \<noteq> chosen) sm))) +
      mset (List.map fst (filter (\<lambda>(gw, _). \<not> ?fin gw) (filter (\<lambda>(gw, _). gw \<noteq> chosen) sm)))"
    by (simp add: build_ev_ordered_fallbacks_def Let_def image_mset.compositionality comp_def split_def)
  then have m: "mset ?fb = mset (List.map fst (filter (\<lambda>(gw, _). gw \<noteq> chosen) sm))"
    by (simp only: split)
  show "set ?fb = fst ` set sm - {chosen}"
    using arg_cong [OF m, of set_mset] by (force simp: image_iff)
  show "distinct ?fb"
    using mset_eq_imp_distinct_iff [OF m] assms by (simp add: distinct_map_filter)
qed

text \<open>
  C18. When costs decide, the chosen gateway is one of those with a known cost and no gateway with a
  known cost has an expected value more than \<open>EPSILON\<close> above it; it replaces the best gateway by
  success rate only for a gain above \<open>EPSILON\<close>, and then the outcome says so. The fallbacks are
  all other gateways, each once.
\<close>

theorem best_expected_value:
  assumes "hm_ok sm" "current_head sm = Some (g, best)"
    and "ro_cost_decision (reorder_for_cost sm margin costs) = Some d"
  shows "let R = reorder_for_cost sm margin costs; head = head_psp_of sm best;
      val = ranked_value margin costs head best in
    \<exists>s hs. (cd_chosen d, s) \<in> set sm \<and> is_finite (cost_bps costs (cd_chosen d)) \<and>
      (\<forall>x\<in>set sm. is_finite (cost_bps costs (fst x)) \<longrightarrow> \<not> flt (fadd (val (cd_chosen d, s)) EPSILON) (val x)) \<and>
      set (cd_fallbacks d) = fst ` set sm - {cd_chosen d} \<and> distinct (cd_fallbacks d) \<and>
      ro_head_moved R = (head \<noteq> Some (cd_chosen d)) \<and>
      (mo_outcome (ro_info R) = CostWon) = ro_head_moved R \<and>
      (the head, hs) \<in> set sm \<and>
      (ro_head_moved R \<longrightarrow> flt (fadd (val (the head, hs)) EPSILON) (val (cd_chosen d, s)))"
proof -
  let ?R = "reorder_for_cost sm margin costs"
  have fin: "is_finite best"
    using assms(2,3) by (auto simp: reorder_for_cost_def auth_won_def split: if_splits)
  obtain h s where h: "head_psp_of sm best = Some h" "(h, s) \<in> set sm"
    using assms(2) fin by (rule head_psp_of_Some)
  have hc: "is_finite (cost_bps costs h)"
  proof (rule ccontr)
    assume "\<not> is_finite (cost_bps costs h)"
    with assms(2,3) fin h(1) show False by (simp add: reorder_for_cost_def auth_won_def)
  qed
  let ?k0 = "\<lparr>pk_ranked_evs = [ev margin best (cost_bps costs h)], pk_psp = Some h, pk_score = best,
    pk_cost = cost_bps costs h, pk_ev = ev margin best (cost_bps costs h), pk_ranked_count = 1\<rparr>"
  let ?val = "ranked_value margin costs (Some h) best"
  have v0: "?val (h, s) = ev margin best (cost_bps costs h)" by (simp add: ranked_value_def)
  have "pick_inv margin costs h best (h, s) [] ?k0"
    using hc not_better_self [of "?val (h, s)"] by (simp add: pick_inv_def v0)
  note init = this
  have head_only: "y = (h, s)" if "y \<in> set sm" "fst y = h" for y
    using that h(2) eq_key_imp_eq_value [OF assms(1), of h "snd y" s] by (cases y) auto
  obtain zs where zs: "set zs = set sm"
    and inv: "pick_inv margin costs h best (h, s) zs (foldl (ev_step margin costs (Some h)) ?k0 sm)" (is "pick_inv _ _ _ _ _ _ ?k")
    using pick_inv_fold [OF init head_only] by auto
  from inv h(2) zs obtain x where x: "x \<in> set sm" "pk_psp ?k = Some (fst x)" "pk_ev ?k = ?val x"
    "is_finite (cost_bps costs (fst x))"
    unfolding pick_inv_def Let_def by (auto simp: insert_absorb)
  have R: "ro_cost_decision ?R = Some \<lparr>cd_chosen = fst x,
      cd_fallbacks = build_ev_ordered_fallbacks sm (fst x) margin costs\<rparr>"
    "ro_head_moved ?R = (fst x \<noteq> h)" "mo_outcome (ro_info ?R) = (if fst x = h then AuthWon else CostWon)"
    using x(2) by (simp_all add: reorder_for_cost_def assms(2) fin h(1) hc Let_def)
  have d: "cd_chosen d = fst x" "cd_fallbacks d = build_ev_ordered_fallbacks sm (fst x) margin costs"
    using assms(3) R(1) by auto
  have best: "\<forall>y\<in>set sm. is_finite (cost_bps costs (fst y)) \<longrightarrow> \<not> flt (fadd (?val x) EPSILON) (?val y)"
    using inv x(3) zs unfolding pick_inv_def Let_def not_better_def by auto
  have moved: "fst x \<noteq> h \<Longrightarrow> flt (fadd (?val (h, s)) EPSILON) (?val x)"
    using inv x(2,3) unfolding pick_inv_def Let_def by auto
  show ?thesis
    unfolding Let_def h(1) d R(2,3)
    by (rule exI [of _ "snd x"], rule exI [of _ s])
      (use x(1,4) best moved h(2) fallbacks_others [OF assms(1)] in auto)
qed

text \<open>Two gateways of the same value: the order of iteration decides.\<close>

definition free_cost :: psp_cost where
  "free_cost = \<lparr>pc_available = True, pc_effective_cost_bps = Fin 0, pc_source = InHouse, pc_cost_model = None\<rparr>"

definition tie_costs :: "psp_cost hmap" where
  "tie_costs = [(''a'', free_cost\<lparr>pc_effective_cost_bps := Fin 5000\<rparr>), (''b'', free_cost), (''c'', free_cost)]"

lemma f64_eighths: "f64_of_rat (1 / 2) = Fin (1 / 2)" "f64_of_rat (1 / 4) = Fin (1 / 4)" "f64_of_rat (3 / 4) = Fin (3 / 4)"
  "f64_of_rat (3 / 8) = Fin (3 / 8)" "f64_of_rat (- (1 / 4)) = Fin (- (1 / 4))"
  using f64_dyadic [of 1 1] f64_dyadic [of 1 2] f64_dyadic [of 3 2] f64_dyadic [of 3 3]
  by (simp_all add: f64_of_rat_def rnd_minus Let_def split: if_splits)

lemma tie_head: "head_psp_of ((''a'', Fin (3 / 4)) # bc) (Fin (3 / 4)) = Some ''a''"
  if "set bc = {(''b'', Fin (1 / 2)), (''c'', Fin (1 / 2))}"
proof -
  have "filter (\<lambda>(_, s). flt (fabs (fsub s (Fin (3 / 4)))) EPSILON) bc = []"
    using that by (auto simp: filter_empty_conv fsub_def f64_eighths EPSILON_def)
  then show ?thesis by (simp add: head_psp_of_def fsub_def EPSILON_def)
qed

lemma tie_chosen:
  assumes "b \<in> {''b'', ''c''}" "c \<in> {''b'', ''c''}" "b \<noteq> c"
  shows "ro_cost_decision (reorder_for_cost [(''a'', Fin (3 / 4)), (b, Fin (1 / 2)), (c, Fin (1 / 2))] (Fin 1) tie_costs)
    = Some \<lparr>cd_chosen = b, cd_fallbacks = [c, ''a'']\<rparr>"
proof -
  have half: "\<not> flt (fadd (Fin (1 / 2)) EPSILON) (Fin (1 / 2))" "flt (fadd (Fin (3 / 8)) EPSILON) (Fin (1 / 2))"
    using f64_dyadic [of "2 ^ 51 + 1" 52] f64_dyadic [of "3 * 2 ^ 49 + 1" 52] by (simp_all add: EPSILON_def)
  have val: "ev (Fin 1) (Fin (3 / 4)) (Fin 5000) = Fin (3 / 8)" "ev (Fin 1) (Fin (1 / 2)) (Fin 0) = Fin (1 / 2)"
    by (simp_all add: ev_def fdiv_def fsub_def fmul_def f64_eighths)
  have cost: "cost_bps tie_costs ''a'' = Fin 5000" "cost_bps tie_costs b = Fin 0" "cost_bps tie_costs c = Fin 0"
    using assms by (auto simp: cost_bps_def tie_costs_def free_cost_def)
  have head: "head_psp_of [(''a'', Fin (3 / 4)), (b, Fin (1 / 2)), (c, Fin (1 / 2))] (Fin (3 / 4)) = Some ''a''"
    using assms by (intro tie_head) auto
  have "b \<noteq> ''a''" "c \<noteq> ''a''" using assms by auto
  then show ?thesis
    using assms(3)
    by (simp add: reorder_for_cost_def current_head_def head cost val half ev_step_def Let_def
        build_ev_ordered_fallbacks_def sort_by_def fcmp_def)
qed

lemma tie_follows_iteration:
  "map_of [(''a'', Fin (3 / 4)), (''b'', Fin (1 / 2)), (''c'', Fin (1 / 2))] =
     map_of [(''a'', Fin (3 / 4)), (''c'', Fin (1 / 2)), (''b'', Fin (1 / 2))]"
  "ro_cost_decision (reorder_for_cost [(''a'', Fin (3 / 4)), (''b'', Fin (1 / 2)), (''c'', Fin (1 / 2))] (Fin 1) tie_costs)
     \<noteq> ro_cost_decision (reorder_for_cost [(''a'', Fin (3 / 4)), (''c'', Fin (1 / 2)), (''b'', Fin (1 / 2))] (Fin 1) tie_costs)"
  by (auto simp: tie_chosen fun_eq_iff)


lemma best_expected_value_witness:
  "let sm = [(''a'', Fin (3 / 4)), (''b'', Fin (1 / 2)), (''c'', Fin (1 / 2))]; R = reorder_for_cost sm (Fin 1) tie_costs in
    ro_cost_decision R = Some \<lparr>cd_chosen = ''b'', cd_fallbacks = [''c'', ''a'']\<rparr> \<and> mo_outcome (ro_info R) = CostWon"
proof -
  let ?sm = "[(''a'', Fin (3 / 4)), (''b'', Fin (1 / 2)), (''c'', Fin (1 / 2))]"
  have head: "head_psp_of ?sm (Fin (3 / 4)) = Some ''a''" by (intro tie_head) auto
  have h: "current_head ?sm = Some (''a'', Fin (3 / 4))" by (simp add: current_head_def)
  have c: "ro_cost_decision (reorder_for_cost ?sm (Fin 1) tie_costs) = Some \<lparr>cd_chosen = ''b'', cd_fallbacks = [''c'', ''a'']\<rparr>"
    by (simp add: tie_chosen)
  from best_expected_value [OF _ h c] c show ?thesis by (simp add: head Let_def)
qed

end
