(* ===== verification/Decide.thy ===== *)
theory Decide
  imports Scoring_Flow Multi_Objective Ab_Test
begin

text \<open>
  The decision (\<open>src/src/decider/gatewaydecider/flow_new.rs\<close>): from the eligible gateways of a request,
  the preferred gateway, the priority logic and the scores to the gateway that is answered, its
  fallbacks and the errors, with multi-objective routing as the last step, and the dispatch between
  A/B arms, success-rate and network routing. The priority logic runner, its fallback script,
  debit routing, the cost lookup and the rendering of nested reports as JSON are arguments.
\<close>

section \<open>Requests and answers\<close>

datatype pl_status = Pl_Success | Pl_Failure

datatype priority_logic_failure =
    NoError | ConnectionFailed | CompilationError | MemoryExceeded | GatewayNameParseFailure
  | ResponseContentTypeNotSupported | ResponseDecodeFailure | ResponseParseError | PlEvaluationFailed
  | NullAfterEnforce | UnhandledException | CodeTooLarge

record priority_logic_data =
  pld_name :: "string option"
  pld_status :: pl_status
  pld_failure_reason :: priority_logic_failure

record priority_logic_output =
  plo_is_enforcement :: bool
  plo_gws :: "string list"
  plo_priority_logic_tag :: "string option"
  plo_gateway_reference_ids :: "string hmap"
  plo_primary_logic :: "priority_logic_data option"
  plo_fallback_logic :: "priority_logic_data option"

record error_response =
  er_status :: string
  er_error_code :: string
  er_error_message :: string
  er_priority_logic_tag :: "string option"
  er_routing_approach :: "gateway_decider_approach option"
  er_info_code :: string
  er_priority_logic_output :: "priority_logic_output option"
  er_is_dynamic_mga_enabled :: bool

type_synonym decision = "error_response + decided_gateway"

text \<open>What a request carries, and what the code it calls answers.\<close>

record decide_request =
  dq_enforce_list :: "string list option"
  dq_txn_gateway :: "string option"
  dq_order_preferred :: "string option"
  dq_priority_output :: "priority_logic_output option"
  dq_ranking :: "ranking_algorithm option"
  dq_elimination_enabled :: "bool option"
  dq_enable_multi_objective :: "bool option"
  dq_udfs :: "(int \<times> string) list"
  dq_dynamic_mga :: bool
  dq_latency :: u64

record decide_env =
  de_gateway_priority :: priority_logic_output
  de_fallback :: "priority_logic_output \<Rightarrow> priority_logic_output"
  de_multi_objective_feature :: bool
  de_margin :: "f64 option"
  de_costs :: "string list \<Rightarrow> psp_cost hmap"
  de_render_plo :: "priority_logic_output \<Rightarrow> json"
  de_render_info :: "multi_objective_info \<Rightarrow> json"

section \<open>Candidates\<close>

definition handle_enforced_gateway :: "string list option \<Rightarrow> string list option" where
  "handle_enforced_gateway gateway_list = (if gateway_list = Some [] then None else gateway_list)"

definition dynamic_switching_enabled :: "string list option \<Rightarrow> bool" where
  "dynamic_switching_enabled enforced = unwrap_or (map_option (\<lambda>list. 1 < length list) enforced) False"

definition add_preferred_gateways_to_priority_list :: "string list \<Rightarrow> string option \<Rightarrow> string list" where
  "add_preferred_gateways_to_priority_list gw_priority preferred =
     (case preferred of
        None \<Rightarrow> gw_priority
      | Some pgw \<Rightarrow> pgw # filter (\<lambda>gw. gw \<noteq> pgw) gw_priority)"

definition filter_functional_gateways_with_enforcement ::
  "(priority_logic_output \<Rightarrow> priority_logic_output) \<Rightarrow> bool \<Rightarrow> string list \<Rightarrow> string list \<Rightarrow>
   priority_logic_output \<Rightarrow> string option \<Rightarrow> string list \<times> priority_logic_output" where
  "filter_functional_gateways_with_enforcement fallback no_output_given fgws priority_gws pl_op preferred =
     (let enforced = filter (\<lambda>gw. gw \<in> set priority_gws) fgws in
      if enforced = [] \<and> no_output_given then
        (let updated = fallback pl_op;
             fallback_priority = add_preferred_gateways_to_priority_list (plo_gws updated) preferred in
         if plo_is_enforcement updated then
           (let enforced' = filter (\<lambda>gw. gw \<in> set fallback_priority) fgws in
            if enforced' = [] then (enforced', fallback updated) else (enforced', updated))
         else (fgws, updated))
      else (enforced, pl_op))"

section \<open>The choice\<close>

definition random_gateway_selection_for_same_score :: "gateway_score_map \<Rightarrow> f64 option \<Rightarrow> string option" where
  "random_gateway_selection_for_same_score st max_score =
     Option.bind max_score (\<lambda>value.
       case List.map fst (filter (\<lambda>(_, score). feq score value) st) of
         [] \<Rightarrow> None
       | gw # _ \<Rightarrow> Some gw)"

definition get_gateway_decider_approach ::
  "gateway_score_map \<Rightarrow> gateway_decider_approach \<Rightarrow> gateway_decider_approach" where
  "get_gateway_decider_approach gwsm approach =
     (let n = card (fst ` set gwsm) in
      if n \<noteq> 0 then (if 1 < n then approach else Default) else Approach_None)"

definition fallback_gateways_from_score_map :: "gateway_score_map \<Rightarrow> string \<Rightarrow> string list" where
  "fallback_gateways_from_score_map score_map decided =
     filter (\<lambda>gw. gw \<noteq> decided) (List.map fst (sort_by (\<lambda>a b. fcmp (snd b) (snd a)) score_map))"

text \<open>The margin configured by the merchant counts when it is positive.\<close>

definition load_margin :: "f64 option \<Rightarrow> f64" where
  "load_margin configured = unwrap_or (opt_filter (flt (Fin 0)) configured) DEFAULT_MARGIN"

definition load_srv3_default_bucket_size :: "int option \<Rightarrow> int" where
  "load_srv3_default_bucket_size configured =
     unwrap_or (opt_filter (\<lambda>b. 0 < b) configured) DEFAULT_SR_V3_BASED_BUCKET_SIZE"

definition multi_objective_on :: "decide_env \<Rightarrow> decide_request \<Rightarrow> decider_state \<Rightarrow> bool" where
  "multi_objective_on D q st =
     (case Option.bind (ds_ab_test_sr_override st) ov_enable_multi_objective of
        Some b \<Rightarrow> b
      | None \<Rightarrow>
          (case dq_enable_multi_objective q of
             Some b \<Rightarrow> b
           | None \<Rightarrow> de_multi_objective_feature D))"

text \<open>The gateway, the fallbacks if costs give them, the approach and the report.\<close>

definition choose_gateway ::
  "decide_env \<Rightarrow> decide_request \<Rightarrow> decider_state \<Rightarrow>
   string option \<times> string list option \<times> gateway_decider_approach \<times> multi_objective_info option" where
  "choose_gateway D q st =
     (let sm = ds_gw_score_map st;
          decided = random_gateway_selection_for_same_score sm (map_option snd (get_max_score_gateway sm)) in
      if multi_objective_on D q st \<and> \<not> is_hedging (ds_gw_decider_approach st) then
        (let margin = (case Option.bind (ds_ab_test_sr_override st) ov_margin of
               Some m \<Rightarrow> m | None \<Rightarrow> load_margin (de_margin D));
             outcome = try_apply_multi_objective_post_step (de_costs D) sm margin;
             approach = (if mo_outcome (ro_info outcome) = CostWon then SrSelectionMultiObjective
                         else ds_gw_decider_approach st) in
         case ro_cost_decision outcome of
           Some d \<Rightarrow> (Some (cd_chosen d), Some (cd_fallbacks d), approach, Some (ro_info outcome))
         | None \<Rightarrow> (decided, None, approach, Some (ro_info outcome)))
      else (decided, None, ds_gw_decider_approach st, None))"

section \<open>Answers\<close>

definition gateway_not_found ::
  "string option \<Rightarrow> gateway_decider_approach \<Rightarrow> priority_logic_output option \<Rightarrow> bool \<Rightarrow> error_response" where
  "gateway_not_found tag approach plo dynamic_mga =
     \<lparr>er_status = ''Invalid Request'', er_error_code = ''invalid_request_error'',
      er_error_message = ''Can't find a suitable gateway to process the transaction'',
      er_priority_logic_tag = tag, er_routing_approach = Some approach,
      er_info_code = ''GATEWAY_NOT_FOUND'', er_priority_logic_output = plo,
      er_is_dynamic_mga_enabled = dynamic_mga\<rparr>"

definition preferred_answer :: "decide_request \<Rightarrow> string \<Rightarrow> decided_gateway" where
  "preferred_answer q pgw =
     \<lparr>dg_decided_gateway = pgw, dg_fallback_gateways = [],
      dg_gateway_priority_map = Some (JObj [(pgw, JFloat (Fin 1))]), dg_filter_wise_gateways = None,
      dg_priority_logic_tag = None, dg_routing_approach = MerchantPreference,
      dg_gateway_before_evaluation = Some pgw, dg_priority_logic_output = None,
      dg_debit_routing_output = None, dg_reset_approach = NoReset, dg_routing_dimension = None,
      dg_routing_dimension_level = None, dg_is_scheduled_outage = False,
      dg_is_dynamic_mga_enabled = dq_dynamic_mga q, dg_gateway_mga_id_map = None,
      dg_is_rust_based_decider = True, dg_latency = Some (dq_latency q), dg_multi_objective_info = None\<rparr>"

text \<open>
  The routing dimensions of the answer come from the construction of the Redis keys, \<open>dims\<close> stands
  for them.
\<close>

definition decided_answer ::
  "decide_env \<Rightarrow> decide_request \<Rightarrow> string option \<times> string option \<Rightarrow> priority_logic_output \<Rightarrow>
   decider_state \<Rightarrow> decision \<times> gateway_decider_approach" where
  "decided_answer D q dims plo st =
     (let sm = ds_gw_score_map st in
      if sm = [] then
        (Inl (gateway_not_found (plo_priority_logic_tag plo) Approach_None (Some plo) (dq_dynamic_mga q)),
         ds_gw_decider_approach st)
      else
        (let (decided, fallbacks, approach, info) = choose_gateway D q st;
             final_approach = get_gateway_decider_approach sm approach in
         (case decided of
            Some gw \<Rightarrow> Inr
              \<lparr>dg_decided_gateway = gw,
               dg_fallback_gateways = unwrap_or fallbacks (fallback_gateways_from_score_map sm gw),
               dg_gateway_priority_map = Some (JObj (List.map (\<lambda>(gw, x). (gw, json_of_f64 x)) sm)),
               dg_filter_wise_gateways = None, dg_priority_logic_tag = plo_priority_logic_tag plo,
               dg_routing_approach = final_approach,
               dg_gateway_before_evaluation = ds_top_gateway_before_sr_downtime_evaluation st,
               dg_priority_logic_output = Some (de_render_plo D plo), dg_debit_routing_output = None,
               dg_reset_approach = ds_reset_approach st, dg_routing_dimension = fst dims,
               dg_routing_dimension_level = snd dims,
               dg_is_scheduled_outage = ds_is_scheduled_outage st,
               dg_is_dynamic_mga_enabled = dq_dynamic_mga q, dg_gateway_mga_id_map = None,
               dg_is_rust_based_decider = True, dg_latency = Some (dq_latency q),
               dg_multi_objective_info = map_option (de_render_info D) info\<rparr>
          | None \<Rightarrow> Inl (gateway_not_found (plo_priority_logic_tag plo) final_approach (Some plo)
              (dq_dynamic_mga q)),
          approach)))"

section \<open>The flow\<close>

definition priority_logic_of :: "decide_env \<Rightarrow> decide_request \<Rightarrow> string list \<Rightarrow> priority_logic_output" where
  "priority_logic_of D q functional =
     (if dq_ranking q \<noteq> Some RA_SrBasedRouting
      then (case dq_priority_output q of Some plo \<Rightarrow> plo | None \<Rightarrow> de_gateway_priority D)
      else \<lparr>plo_is_enforcement = False, plo_gws = functional, plo_priority_logic_tag = None,
            plo_gateway_reference_ids = [], plo_primary_logic = None, plo_fallback_logic = None\<rparr>)"

definition candidates ::
  "decide_env \<Rightarrow> decide_request \<Rightarrow> string list \<Rightarrow> string option \<Rightarrow> string list \<times> priority_logic_output" where
  "candidates D q functional preferred =
     (let pl = priority_logic_of D q functional;
          priority = add_preferred_gateways_to_priority_list (plo_gws pl) preferred;
          (gws, plo) = (if plo_is_enforcement pl
            then filter_functional_gateways_with_enforcement (de_fallback D) (dq_priority_output q = None)
                   functional priority pl preferred
            else (functional, pl))
      in (remdups_adj gws, plo))"

definition scoring_data_written :: "decide_request \<Rightarrow> bool \<Rightarrow> gateway_scoring_data \<Rightarrow> gateway_scoring_data" where
  "scoring_data_written q legacy gsd =
     gsd\<lparr>gsd_elimination_enabled := unwrap_or (dq_elimination_enabled q) False,
         gsd_is_legacy_decider_flow := legacy, gsd_udfs := Some (dq_udfs q)\<rparr>"

text \<open>
  The result, the approach and the scoring data that are written for the later feedback, and the
  stores. \<open>None\<close> is a panic.
\<close>

definition run_decider_flow ::
  "decide_env \<Rightarrow> 's sr_env \<Rightarrow> 'k down_env \<Rightarrow> scoring_flags \<Rightarrow> scoring_draws \<Rightarrow> txn_detail \<Rightarrow>
   txn_card_info \<Rightarrow> decide_request \<Rightarrow> bool \<Rightarrow> string option \<times> string option \<Rightarrow> sr_config_override option \<Rightarrow>
   's \<times> sr_score_cache \<times> 'k \<Rightarrow>
   (decision \<times> (gateway_decider_approach \<times> gateway_scoring_data) \<times> 's \<times> sr_score_cache \<times> 'k) option" where
  "run_decider_flow D V W F draws txn info q legacy dims override stores =
     (let st = (initial_decider_state (td_date_created txn))\<lparr>ds_ab_test_sr_override := override\<rparr>;
          functional = unwrap_or (dq_enforce_list q) [];
          preferred = opt_or (dq_txn_gateway q) (dq_order_preferred q);
          written = scoring_data_written q legacy (dw_gsd W) in
      case (preferred, dynamic_switching_enabled (dq_enforce_list q)) of
        (Some pgw, False) \<Rightarrow> Some
          (if pgw \<in> set functional then Inr (preferred_answer q pgw)
           else Inl (gateway_not_found None Approach_None None (dq_dynamic_mga q)),
           (ds_gw_decider_approach st, written), stores)
      | _ \<Rightarrow>
          (let (gws, plo) = candidates D q functional preferred in
           map_option
             (\<lambda>(st, stores).
                let (res, approach) = decided_answer D q dims plo st in (res, (approach, written), stores))
             (scoring_flow V W F draws txn info gws (plo_gws plo) (dq_ranking q) (dq_elimination_enabled q) st
                stores)))"

section \<open>Dispatch\<close>

text \<open>Success-rate routing decides, the output of debit routing is attached when there is one.\<close>

definition merge_hybrid :: "decision \<Rightarrow> decision \<Rightarrow> decision" where
  "merge_hybrid sr debit =
     (case (sr, debit) of
        (Inr g, Inr d) \<Rightarrow> Inr (g\<lparr>dg_debit_routing_output := dg_debit_routing_output d\<rparr>)
      | (Inr g, Inl _) \<Rightarrow> Inr g
      | (Inl e, _) \<Rightarrow> Inl e)"

definition debit_routing_not_enabled :: error_response where
  "debit_routing_not_enabled =
     \<lparr>er_status = ''Forbidden'', er_error_code = ''debit_routing_not_enabled'',
      er_error_message = ''Debit routing is not enabled for merchant'', er_priority_logic_tag = None,
      er_routing_approach = None, er_info_code = ''TE_05'', er_priority_logic_output = None,
      er_is_dynamic_mga_enabled = False\<rparr>"

text \<open>
  \<open>run\<close> is \<open>run_decider_flow\<close> with the ranking and the override it is called with; \<open>debit\<close> is the
  answer of debit routing.
\<close>

definition dispatch ::
  "ab_test_intercept \<Rightarrow> decide_request \<Rightarrow> bool \<Rightarrow> decision \<Rightarrow>
   (decide_request \<Rightarrow> sr_config_override option \<Rightarrow> 'r option) \<Rightarrow> ('r \<Rightarrow> decision) \<Rightarrow> decision option" where
  "dispatch arm q debit_enabled debit run result_of =
     (case arm of
        StaticArm g _ _ \<Rightarrow> Some (Inr g)
      | _ \<Rightarrow>
          (if dq_ranking q \<in> {Some RA_NtwBasedRouting, Some RA_NtwSrHybridRouting} then
             (if \<not> debit_enabled then Some (Inl debit_routing_not_enabled)
              else if dq_ranking q = Some RA_NtwSrHybridRouting then
                map_option (\<lambda>r. merge_hybrid (result_of r) debit)
                  (run (q\<lparr>dq_ranking := Some RA_SrBasedRouting\<rparr>) None)
              else Some debit)
           else map_option result_of (run q (case arm of SrArm _ _ override \<Rightarrow> override | _ \<Rightarrow> None))))"

end
