(* ===== verification/Decide_Correct.thy ===== *)
theory Decide_Correct
  imports Decide Elim_Correct
begin

text \<open>
  What is decided: only candidates are, a scheduled outage makes its gateway one, and without
  success rates the priority list is followed.
\<close>

section \<open>The gateways of a score map\<close>

definition keyed :: "string set \<Rightarrow> gateway_score_map \<Rightarrow> bool" where
  "keyed A m \<longleftrightarrow> hm_ok m \<and> fst ` set m \<subseteq> A"

lemma keyed_Nil [simp]: "keyed A []"
  by (simp add: keyed_def)

lemma keyed_insert [simp]: "keyed A m \<Longrightarrow> k \<in> A \<Longrightarrow> keyed A (hm_insert k v m)"
  by (simp add: keyed_def)

lemma keyed_map [simp]: "keyed A (List.map (\<lambda>(k, v). (k, f k v)) m) = keyed A m"
proof -
  have "List.map fst (List.map (\<lambda>(k, v). (k, f k v)) m) = List.map fst m" by (induction m) auto
  then show ?thesis unfolding keyed_def by (metis list.set_map)
qed

lemma keyed_mset: "keyed A m \<Longrightarrow> mset (List.map fst m') = mset (List.map fst m) \<Longrightarrow> keyed A m'"
  unfolding keyed_def by (metis mset_eq_imp_distinct_iff mset_eq_setD list.set_map)

lemma keyed_mono: "keyed A m \<Longrightarrow> A \<subseteq> B \<Longrightarrow> keyed B m"
  by (auto simp: keyed_def)

lemma keyed_foldl_insert:
  "keyed A m \<Longrightarrow> set gws \<subseteq> A \<Longrightarrow> keyed A (foldl (\<lambda>m gw. hm_insert gw (f gw) m) m gws)"
  by (induction gws arbitrary: m) auto

lemma keyed_create: "keyed (set gws) (create_score_map gws)"
  unfolding create_score_map_def by (rule keyed_foldl_insert) simp_all

lemma keyed_priority: "keyed (set fg) (get_score_with_priority fg prio)"
proof -
  let ?f = "\<lambda>(p, m) gw. if gw \<in> set fg then (fsub p (f64_of_rat (1 / 10)), hm_insert gw p m) else (p, m)"
  let ?g = "\<lambda>(p :: f64, m) gw. if gw \<notin> set prio then (p, hm_insert gw p m) else (p, m)"
  have f: "keyed (set fg) (snd a) \<Longrightarrow> keyed (set fg) (snd (foldl ?f a xs))" for a xs
    by (induction xs arbitrary: a) (auto simp: split_def)
  have g: "keyed (set fg) (snd a) \<Longrightarrow> set xs \<subseteq> set fg \<Longrightarrow> keyed (set fg) (snd (foldl ?g a xs))" for a xs
    by (induction xs arbitrary: a) (auto simp: split_def)
  show ?thesis
    unfolding get_score_with_priority_def Let_def
    using g [OF f [of "(Fin 1, [])" prio], of fg] by (simp add: split_def)
qed

lemma keyed_cached_scores:
  "keyed A (fst mc) \<Longrightarrow> set gws \<subseteq> A \<Longrightarrow> keyed A (fst (cached_scores R acc b keys gws s mc))"
  by (induction gws arbitrary: mc) (auto split: prod.splits option.splits)

lemma keyed_map_gateways:
  "map_gateways f gws m = Some m' \<Longrightarrow> keyed A m \<Longrightarrow> set gws \<subseteq> A \<Longrightarrow> keyed A m'"
  by (induction gws arbitrary: m) (auto split: option.splits)

lemma keyed_reset:
  "reset_sr_v3_score R sm b keys u l s = Some (sm', changed, s') \<Longrightarrow> keyed A sm \<Longrightarrow> keyed A sm'"
  by (auto simp: reset_sr_v3_score_def Let_def split: option.splits)

lemma keyed_srv3:
  assumes "get_cached_scores_based_on_srv3 R acc db dbe flags i s cache = Some (m, ra, s', cache')"
  shows "keyed (set (in_gateways i)) m"
proof -
  let ?A = "set (in_gateways i)"
  obtain m0 c0 where m0: "cached_scores R acc (input_bucket_size i) (in_redis_keys i) (in_gateways i) s ([], cache) = (m0, c0)"
    by fastforce
  have k0: "keyed ?A m0" using keyed_cached_scores [of ?A "([], cache)" "in_gateways i"] m0 by (metis keyed_Nil fst_conv subset_refl)
  from assms m0 obtain m1 d1 s1 where r: "(if fl_reset flags
            then reset_sr_v3_score R m0 (input_bucket_size i) (in_redis_keys i)
                   (upper_reset_factor_of i) (lower_reset_factor_of i) s
            else Some (m0, False, s)) = Some (m1, d1, s1)"
    by (auto simp: get_cached_scores_based_on_srv3_def Let_def split: option.splits)
  then have k1: "keyed ?A m1" using k0 by (auto split: if_splits dest: keyed_reset)
  have "keyed ?A m" if "map_gateways f (in_gateways i) [] = Some m" for f m
    using that by (rule keyed_map_gateways) simp_all
  with assms m0 r k1 show ?thesis
    by (auto simp: get_cached_scores_based_on_srv3_def Let_def split: option.splits if_splits)
qed

section \<open>The stages\<close>

lemma keyed_random_traffic:
  assumes "route_random_traffic num gws h st = Some (m, st')" "keyed A gws"
  shows "keyed A m"
proof -
  from assms(1) obtain hd tl where s: "sort_by (\<lambda>a b. fcmp (snd b) (snd a)) gws = hd # tl"
    by (auto simp: route_random_traffic_def split: list.splits)
  then have e: "mset (List.map fst gws) = add_mset (fst hd) (mset (List.map fst tl))"
    using mset_map_sort [of fst _ gws] by (metis list.simps(9) mset.simps(2))
  have k: "List.map fst (List.map (\<lambda>(gw, _). (gw, Fin 1)) tl) = List.map fst tl" by (induction tl) auto
  show ?thesis
  proof (cases "flt num h")
    case True
    with assms(1) s have "m = List.map (\<lambda>(gw, _). (gw, Fin 1)) tl @ [(fst hd, Fin (1 / 2))]"
      by (simp add: route_random_traffic_def)
    then have "List.map fst m = List.map fst tl @ [fst hd]" using k by (simp only: map_append list.map fst_conv)
    with e have "mset (List.map fst m) = mset (List.map fst gws)" by simp
    with assms(2) show ?thesis by (rule keyed_mset)
  next
    case False
    with assms(1) s have "m = sort_by (\<lambda>a b. fcmp (snd b) (snd a)) gws" by (auto simp: route_random_traffic_def)
    then show ?thesis by (intro keyed_mset [OF assms(2)]) (simp only: mset_map_sort)
  qed
qed

lemma keyed_sr_stage:
  assumes "sr_stage V F dr txn info fg st s cache = Some (st', s', cache', True)"
    "ds_functional_gateways st = fg"
  shows "keyed (set fg) (ds_gw_score_map st')"
proof -
  let ?st = "st\<lparr>ds_sr_v3_hedging_percent := Some (hedging_percent_of V txn info st)\<rparr>"
  from assms(1) obtain m st1 s1 c1 where v: "srv3_scores V F dr txn info ?st s cache = Some (m, st1, s1, c1)"
    by (auto simp: sr_stage_def Let_def split: option.splits)
  have "in_gateways (srv3_input_of V txn info ?st) = fg" by (simp add: srv3_input_of_def assms(2))
  with v have "keyed (set fg) m"
    by (auto simp: srv3_scores_def Let_def dest: keyed_srv3)
  moreover have "keyed (set fg) (create_score_map fg)" by (rule keyed_create)
  ultimately show ?thesis
    using assms(1) v
    by (auto simp: sr_stage_def Let_def split: if_splits dest: keyed_random_traffic)
qed

lemma keyed_initial_scores:
  assumes "initial_scores V F dr txn info fg prio ranking st s cache = Some (st', s', cache', sr)"
    "ds_functional_gateways st = fg"
  shows "keyed (set fg) (ds_gw_score_map st')"
proof (cases "sr_enabled F ranking")
  case False
  with assms(1) show ?thesis by (auto simp: initial_scores_def Let_def keyed_priority)
next
  case True
  then obtain q where q: "sr_stage V F dr txn info fg st s cache = Some q"
    using assms(1) by (cases "sr_stage V F dr txn info fg st s cache") (auto simp: initial_scores_def)
  obtain st1 s1 c1 b where "q = (st1, s1, c1, b)" by (cases q)
  with q have st1: "sr_stage V F dr txn info fg st s cache = Some (st1, s1, c1, b)" by simp
  show ?thesis
  proof (cases b)
    case b: True
    then have "st' = st1\<lparr>ds_is_sr_v3_metric_enabled := True, ds_is_optimized_based_on_sr_metric_enabled := False\<rparr>"
      using assms(1) st1 True by (simp add: initial_scores_def Let_def)
    then show ?thesis using keyed_sr_stage [OF st1 [unfolded eqTrueI [OF b]] assms(2)] by simp
  next
    case False
    with assms(1) st1 True have "ds_gw_score_map st' = get_score_with_priority fg prio"
      by (auto simp: initial_scores_def Let_def)
    then show ?thesis by (simp add: keyed_priority)
  qed
qed

text \<open>The gateways that some matching outage names.\<close>

definition outage_gateways :: "'k down_env \<Rightarrow> txn_detail \<Rightarrow> txn_card_info \<Rightarrow> string set" where
  "outage_gateways W txn info =
     {gw. \<exists>g\<in>set (dw_outages W). check_scheduled_outage txn info (dw_merchant W) (dw_bank_code W) g \<and>
        go_gateway g = Some gw}"

lemma keyed_outage:
  assumes "keyed A (ds_gw_score_map st)"
  shows "keyed (A \<union> outage_gateways W txn info)
    (ds_gw_score_map (update_score_for_outage (dw_outages W) txn info (dw_merchant W) (dw_bank_code W) st))"
proof -
  define B where "B = A \<union> outage_gateways W txn info"
  have step: "keyed B (fold outage_penalty gs m)"
    if "keyed B m" "\<forall>g\<in>set gs. \<forall>gw. go_gateway g = Some gw \<longrightarrow> gw \<in> B" for gs m
    using that
  proof (induction gs arbitrary: m)
    case (Cons g gs)
    then have "keyed B (outage_penalty g m)" by (auto simp: outage_penalty_def split: option.splits)
    with Cons show ?case by simp
  qed simp
  have "keyed B (fold outage_penalty
      (filter (check_scheduled_outage txn info (dw_merchant W) (dw_bank_code W)) (dw_outages W)) (ds_gw_score_map st))"
    by (rule step) (use keyed_mono [OF assms, of B] in \<open>auto simp: B_def outage_gateways_def\<close>)
  moreover have "keyed B (ds_gw_score_map st)" using keyed_mono [OF assms, of B] by (simp add: B_def)
  ultimately show ?thesis
    unfolding B_def [symmetric] by (auto simp: update_score_for_outage_def Let_def)
qed

lemma if_cases: "m = (if C then a else List.map (\<lambda>(k, x). (k, g k x)) b) \<Longrightarrow>
    m = a \<or> (\<exists>g. m = List.map (\<lambda>(k, x). (k, g k x)) b)"
  by (cases C) auto

lemma eliminate_map:
  assumes e: "eliminate W txn info sr enabled st k = Some (st', k')" and d: "hm_ok (ds_gw_score_map st)"
  obtains f where "ds_gw_score_map st' = List.map (\<lambda>(gw, x). (gw, f gw x)) (ds_gw_score_map st)"
proof (cases "(dc_payment_flow_enabled (dw_config W) \<or> enabled = Some True) \<and>
    payment_method_type_enabled (ev_merchant_input (dw_env W)) info \<and> ds_gw_score_map st \<noteq> []")
  case True
  note r = e [unfolded eliminate_def]
  from True show ?thesis
  proof (elim conjE)
    assume a: "dc_payment_flow_enabled (dw_config W) \<or> enabled = Some True"
      "payment_method_type_enabled (ev_merchant_input (dw_env W)) info" "ds_gw_score_map st \<noteq> []"
    show ?thesis
    proof (rule fold_enabled [OF a d r])
      fix st1 gf occ st2
      assume me: "merchant_elimination (dw_store W) (dw_config W) (dw_env W) (dw_merchant W) (dw_now W) txn info
           (dw_gsd W) (dw_merchant_keys W) sr (ds_gw_score_map st)
           (merchant_inputs (dw_config W) (dw_env W) (dw_gsd W) (dw_merchant W) txn info (dw_default_input W)
              (Option.bind (ds_ab_test_sr_override st) ov_elimination_threshold) (ds_gw_score_map st1))
           gf occ st1 k = Some (st2, k')"
        and st': "st' = return_sm_with_log UpdateGatewayScoreBasedOnSuccessRate True st2"
        and keys: "List.map fst (ds_gw_score_map st1) = List.map fst (ds_gw_score_map st)"
        and sm: "ds_gw_score_map st1 = List.map (\<lambda>(gw, x). (gw, fifth
           (global_down (dw_store W) (dw_now W) k (dw_global_keys W) (ev_merchant_input (dw_env W))
              (dw_default_input W) gw) x)) (ds_gw_score_map st)"
        and n: "List.map gi_gateway (unwrap_or gf []) =
           filter (global_down (dw_store W) (dw_now W) k (dw_global_keys W) (ev_merchant_input (dw_env W))
              (dw_default_input W)) (List.map fst (ds_gw_score_map st1))"
      have id: "ds_gw_score_map st = List.map (\<lambda>(gw, x). (gw, x)) (ds_gw_score_map st)" by simp
      have d1: "hm_ok (ds_gw_score_map st1)" using d keys by simp
      have cmp: "List.map (\<lambda>(gw, x). (gw, f gw x)) (List.map (\<lambda>(gw, x). (gw, g gw x)) m) =
          List.map (\<lambda>(gw, x). (gw, f gw (g gw x))) m" for f g :: "string \<Rightarrow> f64 \<Rightarrow> f64" and m
        by (induction m) auto
      let ?C = "downtime_of (global_down (dw_store W) (dw_now W) k (dw_global_keys W)
          (ev_merchant_input (dw_env W)) (dw_default_input W))
          (merchant_down (dw_store W) (dw_config W) (dw_env W) (dw_gsd W) (dw_merchant W) txn info (dw_default_input W)
            (Option.bind (ds_ab_test_sr_override st) ov_elimination_threshold) (dw_now W) k (dw_merchant_keys W))
          (List.map fst (ds_gw_score_map st1)) = AllDowntime \<and> dc_optimization_during_downtime (dw_config W) \<and> \<not> sr"
      note eq = conjunct1 [OF merchant_stage [OF me d1 refl n]]
      have "\<exists>f. ds_gw_score_map st' = List.map (\<lambda>(gw, x). (gw, f gw x)) (ds_gw_score_map st)"
      proof -
        from eq have "ds_gw_score_map st2 = ds_gw_score_map st \<or>
            (\<exists>g. ds_gw_score_map st2 = List.map (\<lambda>(gw, x). (gw, g gw x)) (ds_gw_score_map st1))"
          by (rule if_cases)
        then show ?thesis
        proof
          assume "ds_gw_score_map st2 = ds_gw_score_map st"
          then show ?thesis using id by (intro exI [of _ "\<lambda>_ x. x"]) (simp add: st')
        next
          assume "\<exists>g. ds_gw_score_map st2 = List.map (\<lambda>(gw, x). (gw, g gw x)) (ds_gw_score_map st1)"
          then obtain g where "ds_gw_score_map st2 = List.map (\<lambda>(gw, x). (gw, g gw x)) (ds_gw_score_map st1)" ..
          then have "ds_gw_score_map st' = List.map (\<lambda>(gw, x). (gw, g gw x)) (ds_gw_score_map st1)"
            by (simp add: st')
          then show ?thesis unfolding sm cmp by - (rule exI)
        qed
      qed
      then show ?thesis using that by blast
    qed
  qed
next
  case False
  have "ds_gw_score_map st' = List.map (\<lambda>(gw, x). (gw, x)) (ds_gw_score_map st)"
  proof (cases "(dc_payment_flow_enabled (dw_config W) \<or> enabled = Some True) \<and>
      payment_method_type_enabled (ev_merchant_input (dw_env W)) info")
    case True
    with False have m: "ds_gw_score_map st = []" by simp
    obtain st1 gf occ where g: "update_gateway_score_based_on_global_success_rate (dw_store W) (dw_now W) k
        (dw_global_keys W) txn (ev_merchant_input (dw_env W)) (dw_default_input W) st = (st1, gf, occ)"
      by (metis prod_cases3)
    have "ds_gw_score_map st1 = []" using global_stage [OF _ g] m by simp
    with e True g m show ?thesis
      by (auto simp: eliminate_def update_gateway_score_based_on_success_rate_def merchant_inputs_def Let_def)
  next
    case False
    with e show ?thesis
      by (auto simp: eliminate_def update_gateway_score_based_on_success_rate_def Let_def)
  qed
  then show ?thesis by (rule that)
qed

lemma keyed_eliminate:
  assumes "eliminate W txn info sr enabled st k = Some (st', k')" "keyed A (ds_gw_score_map st)"
  shows "keyed A (ds_gw_score_map st')"
proof -
  have "hm_ok (ds_gw_score_map st)" using assms(2) by (simp add: keyed_def)
  from assms(1) this obtain f where
    "ds_gw_score_map st' = List.map (\<lambda>(gw, x). (gw, f gw x)) (ds_gw_score_map st)"
    by (rule eliminate_map)
  then show ?thesis using assms(2) by simp
qed

lemma several_gateways_flow:
  assumes "length fg \<noteq> 1"
  shows "scoring_flow V W F dr txn info fg prio ranking en st (s, cache, k) =
    Option.bind (initial_scores V F dr txn info fg prio ranking (st\<lparr>ds_functional_gateways := fg\<rparr>) s cache)
      (\<lambda>(st, s, cache, sr).
         let st = update_score_for_outage (dw_outages W) txn info (dw_merchant W) (dw_bank_code W) st;
             st = st\<lparr>ds_top_gateway_before_sr_downtime_evaluation := top_gateway (ds_gw_score_map st)\<rparr> in
         map_option (\<lambda>(st, k). (return_sm_with_log FinalScoring False st, s, cache, k))
           (eliminate W txn info sr en st k))"
  using assms
  by (auto simp: scoring_flow_def Let_def split: list.split option.split)

lemma one_gateway_flow:
  "scoring_flow V W F dr txn info [gw] prio ranking en st (s, cache, k) =
    map_option (\<lambda>(st, k). (return_sm_with_log FinalScoring False st, s, cache, k))
      (eliminate W txn info False en
         (st\<lparr>ds_functional_gateways := [gw], ds_gw_score_map := [(gw, Fin 1)], ds_gw_decider_approach := Default,
            ds_top_gateway_before_sr_downtime_evaluation := Some gw\<rparr>) k)"
  by (simp add: scoring_flow_def create_score_map_def hm_insert_def)

lemma keyed_scoring_flow:
  assumes "scoring_flow V W F dr txn info fg prio ranking en st stores = Some (st', stores')"
  shows "keyed (set fg \<union> outage_gateways W txn info) (ds_gw_score_map st')"
proof -
  obtain s cache k where sc: "stores = (s, cache, k)" by (cases stores)
  obtain s' cache' k' where sc': "stores' = (s', cache', k')" by (cases stores')
  show ?thesis
  proof (cases "length fg = 1")
    case True
    then obtain gw where fg: "fg = [gw]" by (cases fg) auto
    from assms obtain st1 where "eliminate W txn info False en
         (st\<lparr>ds_functional_gateways := [gw], ds_gw_score_map := [(gw, Fin 1)], ds_gw_decider_approach := Default,
            ds_top_gateway_before_sr_downtime_evaluation := Some gw\<rparr>) k = Some (st1, k')"
      and "st' = return_sm_with_log FinalScoring False st1"
      unfolding sc sc' fg one_gateway_flow by auto
    then show ?thesis
      using keyed_mono [of "set fg" "[(gw, Fin 1)]"]
      by (simp add: fg) (elim keyed_eliminate, simp add: keyed_def)
  next
    case False
    obtain st1 s1 c1 sr st2 where
      i: "initial_scores V F dr txn info fg prio ranking (st\<lparr>ds_functional_gateways := fg\<rparr>) s cache = Some (st1, s1, c1, sr)"
      and e: "eliminate W txn info sr en
        (let st = update_score_for_outage (dw_outages W) txn info (dw_merchant W) (dw_bank_code W) st1
         in st\<lparr>ds_top_gateway_before_sr_downtime_evaluation := top_gateway (ds_gw_score_map st)\<rparr>) k = Some (st2, k')"
      and st': "st' = return_sm_with_log FinalScoring False st2"
      using assms unfolding sc sc' several_gateways_flow [OF False]
      by (auto simp: Let_def bind_eq_Some_conv)
    have "keyed (set fg) (ds_gw_score_map st1)" by (rule keyed_initial_scores [OF i]) simp
    then have "keyed (set fg \<union> outage_gateways W txn info)
        (ds_gw_score_map (let st = update_score_for_outage (dw_outages W) txn info (dw_merchant W) (dw_bank_code W) st1
         in st\<lparr>ds_top_gateway_before_sr_downtime_evaluation := top_gateway (ds_gw_score_map st)\<rparr>))"
      by (simp add: Let_def keyed_outage)
    from keyed_eliminate [OF e this] show ?thesis by (simp add: st')
  qed
qed

section \<open>What is chosen\<close>

lemma random_selection_mem: "random_gateway_selection_for_same_score sm x = Some gw \<Longrightarrow> gw \<in> fst ` set sm"
proof -
  assume a: "random_gateway_selection_for_same_score sm x = Some gw"
  then obtain v where "(case List.map fst (filter (\<lambda>(_, score). feq score v) sm) of [] \<Rightarrow> None | gw # _ \<Rightarrow> Some gw) = Some gw"
    unfolding random_gateway_selection_for_same_score_def bind_eq_Some_conv by blast
  then have "gw \<in> set (List.map fst (filter (\<lambda>(_, score). feq score v) sm))"
    by (cases "List.map fst (filter (\<lambda>(_, score). feq score v) sm)") auto
  then show ?thesis by auto
qed

lemma score_fallbacks:
  assumes "hm_ok sm"
  shows "set (fallback_gateways_from_score_map sm gw) = fst ` set sm - {gw}"
    and "distinct (fallback_gateways_from_score_map sm gw)"
proof -
  let ?l = "List.map fst (sort_by (\<lambda>a b. fcmp (snd b) (snd a)) sm)"
  have m: "mset ?l = mset (List.map fst sm)" by (rule mset_map_sort)
  show "set (fallback_gateways_from_score_map sm gw) = fst ` set sm - {gw}"
    using mset_eq_setD [OF m] by (auto simp: fallback_gateways_from_score_map_def)
  show "distinct (fallback_gateways_from_score_map sm gw)"
    using mset_eq_imp_distinct_iff [OF m] assms by (simp add: fallback_gateways_from_score_map_def)
qed

lemma cost_choice_mem:
  assumes d: "ro_cost_decision (reorder_for_cost sm margin costs) = Some d" and k: "hm_ok sm"
  shows "cd_chosen d \<in> fst ` set sm \<and> set (cd_fallbacks d) = fst ` set sm - {cd_chosen d} \<and> distinct (cd_fallbacks d)"
proof -
  from d obtain g best where c: "current_head sm = Some (g, best)" "is_finite best"
    by (auto simp: reorder_for_cost_def auth_won_def split: option.splits if_splits)
  from c obtain h s where h: "head_psp_of sm best = Some h" "(h, s) \<in> set sm" by (rule head_psp_of_Some)
  have f: "pk_psp (foldl (ev_step margin costs (Some h)) k0 xs) \<in> insert (pk_psp k0) (Some ` fst ` set xs)" for k0 xs
  proof (induction xs arbitrary: k0)
    case (Cons x xs)
    have "pk_psp (ev_step margin costs (Some h) k0 x) \<in> {pk_psp k0, Some (fst x)}"
      by (auto simp: ev_step_def Let_def split_def)
    with Cons [of "ev_step margin costs (Some h) k0 x"] show ?case by auto
  qed simp
  define k0 where "k0 = \<lparr>pk_ranked_evs = [ev margin best (cost_bps costs h)], pk_psp = Some h, pk_score = best,
    pk_cost = cost_bps costs h, pk_ev = ev margin best (cost_bps costs h), pk_ranked_count = 1\<rparr>"
  have k0: "pk_psp k0 = Some h"
    "cd_chosen d = unwrap_or (pk_psp (foldl (ev_step margin costs (Some h)) k0 sm)) []"
    "cd_fallbacks d = build_ev_ordered_fallbacks sm (cd_chosen d) margin costs"
    using d c h by (auto simp: reorder_for_cost_def auth_won_def Let_def k0_def split: if_splits)
  have "cd_chosen d \<in> fst ` set sm" using f [of k0 sm] k0(1,2) h(2) by force
  then show ?thesis unfolding k0(3) by (intro conjI fallbacks_others [OF k])
qed

lemma chosen_keyed:
  assumes c: "choose_gateway D q st = (Some gw, fb, ap, i)" and k: "keyed A (ds_gw_score_map st)"
  defines "others \<equiv> unwrap_or fb (fallback_gateways_from_score_map (ds_gw_score_map st) gw)"
  shows "gw \<in> A \<and> set others \<subseteq> A - {gw} \<and> distinct others"
proof -
  let ?sm = "ds_gw_score_map st"
  have ok: "hm_ok ?sm" and sub: "fst ` set ?sm \<subseteq> A" using k by (simp_all add: keyed_def)
  consider (score) "fb = None" "random_gateway_selection_for_same_score ?sm (map_option snd (get_max_score_gateway ?sm)) = Some gw"
    | (cost) d m costs where "ro_cost_decision (reorder_for_cost ?sm m costs) = Some d" "fb = Some (cd_fallbacks d)" "gw = cd_chosen d"
    using c
    by (auto simp: choose_gateway_def Let_def try_apply_multi_objective_post_step_def auth_won_def
        split: if_splits option.splits)
  then show ?thesis
  proof cases
    case score
    then show ?thesis
      using random_selection_mem [OF score(2)] score_fallbacks [OF ok, of gw] sub by (auto simp: others_def)
  next
    case cost
    with cost_choice_mem [OF cost(1) ok] sub show ?thesis by (auto simp: others_def)
  qed
qed

lemma remdups_adj_candidates: "set (fst (candidates D q functional preferred)) \<subseteq> set functional"
  by (auto simp: candidates_def filter_functional_gateways_with_enforcement_def Let_def split: if_splits)

lemma answer_of_map:
  assumes "decided_answer D q dims plo st = (Inr d, ap)"
  obtains fb a i where "choose_gateway D q st = (Some (dg_decided_gateway d), fb, a, i)"
    "dg_fallback_gateways d = unwrap_or fb (fallback_gateways_from_score_map (ds_gw_score_map st) (dg_decided_gateway d))"
    "dg_is_scheduled_outage d = ds_is_scheduled_outage st" "ds_gw_score_map st \<noteq> []"
  using assms by (auto simp: decided_answer_def Let_def split: if_splits prod.splits option.splits)

lemma scored_flow:
  assumes "\<not> (\<exists>pgw. opt_or (dq_txn_gateway q) (dq_order_preferred q) = Some pgw \<and>
      \<not> dynamic_switching_enabled (dq_enforce_list q))"
    and c: "candidates D q (unwrap_or (dq_enforce_list q) [])
      (opt_or (dq_txn_gateway q) (dq_order_preferred q)) = (gws, plo)"
  shows "run_decider_flow D V W F draws txn info q legacy dims override stores = map_option
      (\<lambda>(st, stores). let (res, approach) = decided_answer D q dims plo st in
         (res, (approach, scoring_data_written q legacy (dw_gsd W)), stores))
      (scoring_flow V W F draws txn info gws (plo_gws plo) (dq_ranking q) (dq_elimination_enabled q)
         ((initial_decider_state (td_date_created txn))\<lparr>ds_ab_test_sr_override := override\<rparr>) stores)"
proof -
  let ?p = "opt_or (dq_txn_gateway q) (dq_order_preferred q)"
  have "(case (?p, dynamic_switching_enabled (dq_enforce_list q)) of (Some pgw, False) \<Rightarrow> f pgw | _ \<Rightarrow> g) = g"
    for f :: "string \<Rightarrow> 'x" and g
    using assms(1) by (auto split: option.splits bool.splits)
  then show ?thesis by (simp only: run_decider_flow_def Let_def c prod.case)
qed

lemma flow_result:
  assumes r: "run_decider_flow D V W F draws txn info q legacy dims override stores = Some (Inr d, rest, stores')"
  obtains (preferred) pgw where "opt_or (dq_txn_gateway q) (dq_order_preferred q) = Some pgw"
      "pgw \<in> set (unwrap_or (dq_enforce_list q) [])" "d = preferred_answer q pgw"
    | (scored) gws plo st ap where
      "candidates D q (unwrap_or (dq_enforce_list q) []) (opt_or (dq_txn_gateway q) (dq_order_preferred q)) = (gws, plo)"
      "scoring_flow V W F draws txn info gws (plo_gws plo) (dq_ranking q) (dq_elimination_enabled q)
         ((initial_decider_state (td_date_created txn))\<lparr>ds_ab_test_sr_override := override\<rparr>) stores = Some (st, stores')"
      "decided_answer D q dims plo st = (Inr d, ap)"
proof (cases "\<exists>pgw. opt_or (dq_txn_gateway q) (dq_order_preferred q) = Some pgw \<and>
    \<not> dynamic_switching_enabled (dq_enforce_list q)")
  case True
  then obtain pgw where p: "opt_or (dq_txn_gateway q) (dq_order_preferred q) = Some pgw"
    "\<not> dynamic_switching_enabled (dq_enforce_list q)" by blast
  with r show ?thesis
    by (intro preferred [of pgw]) (auto simp: run_decider_flow_def Let_def split: if_splits)
next
  case False
  obtain gws plo where c: "candidates D q (unwrap_or (dq_enforce_list q) [])
      (opt_or (dq_txn_gateway q) (dq_order_preferred q)) = (gws, plo)" by fastforce
  from r obtain st stores'' where f: "scoring_flow V W F draws txn info gws (plo_gws plo) (dq_ranking q)
      (dq_elimination_enabled q) ((initial_decider_state (td_date_created txn))\<lparr>ds_ab_test_sr_override := override\<rparr>)
      stores = Some (st, stores'')"
    and eq: "(let (res, approach) = decided_answer D q dims plo st in
      (res, (approach, scoring_data_written q legacy (dw_gsd W)), stores'')) = (Inr d, rest, stores')"
    unfolding scored_flow [OF False c] by fastforce
  obtain res ap where "decided_answer D q dims plo st = (res, ap)" by fastforce
  with eq have "decided_answer D q dims plo st = (Inr d, ap)" "stores'' = stores'" by simp_all
  with f show ?thesis by (intro scored [OF c]) simp_all
qed

text \<open>
  C16. Whatever the priority logic, its fallback, the scores, the configurations and the costs are:
  a decided gateway is one of the eligible gateways of the request or is named by a scheduled
  outage of the transaction, and so are the fallbacks, which are distinct and do not repeat it.
\<close>

theorem decided_is_candidate:
  assumes "run_decider_flow D V W F draws txn info q legacy dims override stores = Some (Inr d, rest, stores')"
  defines "eligible \<equiv> set (unwrap_or (dq_enforce_list q) []) \<union> outage_gateways W txn info"
  shows "dg_decided_gateway d \<in> eligible \<and>
    set (dg_fallback_gateways d) \<subseteq> eligible - {dg_decided_gateway d} \<and> distinct (dg_fallback_gateways d)"
  using assms(1)
proof (cases rule: flow_result)
  case (preferred pgw)
  then show ?thesis by (simp add: preferred_answer_def eligible_def)
next
  case (scored gws plo st ap)
  have "set gws \<subseteq> set (unwrap_or (dq_enforce_list q) [])"
    using remdups_adj_candidates [of D q] scored(1) by (metis fst_conv)
  with keyed_scoring_flow [OF scored(2)] have k: "keyed eligible (ds_gw_score_map st)"
    by (auto simp: eligible_def elim: keyed_mono)
  from scored(3) obtain fb a i where c: "choose_gateway D q st = (Some (dg_decided_gateway d), fb, a, i)"
    and fb: "dg_fallback_gateways d = unwrap_or fb (fallback_gateways_from_score_map (ds_gw_score_map st) (dg_decided_gateway d))"
    by (rule answer_of_map)
  show ?thesis unfolding fb by (rule chosen_keyed [OF c k])
qed

section \<open>Outages without candidates\<close>

lemma rnd_tenth: "fdiv (Fin 1) (Fin 10) \<noteq> NaN"
  by (simp add: fdiv_def)

lemma eliminate_off:
  assumes "\<not> dc_payment_flow_enabled (dw_config W)" "en \<noteq> Some True"
  shows "eliminate W txn info sr en st k =
    Some (return_sm_with_log UpdateGatewayScoreBasedOnSuccessRate False st, k)"
  using assms by (simp add: eliminate_def update_gateway_score_based_on_success_rate_def Let_def)

lemma one_score_chosen:
  "random_gateway_selection_for_same_score [(gw, x)] (map_option snd (get_max_score_gateway [(gw, x)])) =
     (if x = NaN then None else Some gw)"
  by (simp add: random_gateway_selection_for_same_score_def get_max_score_gateway_def feq_eq)

lemma choose_single:
  assumes "ds_gw_score_map st = [(gw, x)]" "x \<noteq> NaN"
  shows "\<exists>ap i. choose_gateway D q st = (Some gw, None, ap, i)"
  using assms
  by (simp add: choose_gateway_def Let_def one_score_chosen try_apply_multi_objective_post_step_def auth_won_def)

lemma single_run:
  assumes np: "\<not> (\<exists>pgw. opt_or (dq_txn_gateway q) (dq_order_preferred q) = Some pgw \<and>
      \<not> dynamic_switching_enabled (dq_enforce_list q))"
    and off: "\<not> dc_payment_flow_enabled (dw_config W)" "dq_elimination_enabled q \<noteq> Some True"
    and c: "candidates D q (unwrap_or (dq_enforce_list q) [])
      (opt_or (dq_txn_gateway q) (dq_order_preferred q)) = ([gw], plo)"
  shows "\<exists>d rest. run_decider_flow D V W F draws txn info q legacy dims override stores =
      Some (Inr d, rest, stores) \<and> dg_decided_gateway d = gw \<and> dg_fallback_gateways d = [] \<and>
      dg_routing_approach d = Default \<and> dg_priority_logic_tag d = plo_priority_logic_tag plo"
proof -
  obtain s cache k where st: "stores = (s, cache, k)" by (cases stores)
  obtain st' where f: "scoring_flow V W F draws txn info [gw] (plo_gws plo) (dq_ranking q)
      (dq_elimination_enabled q) ((initial_decider_state (td_date_created txn))\<lparr>ds_ab_test_sr_override := override\<rparr>)
      stores = Some (st', stores)" "ds_gw_score_map st' = [(gw, Fin 1)]"
    by (simp add: st one_gateway_flow eliminate_off [OF off])
  obtain ap i where "choose_gateway D q st' = (Some gw, None, ap, i)"
    using choose_single [OF f(2)] by blast
  then show ?thesis
    by (simp add: scored_flow [OF np c] f decided_answer_def Let_def fallback_gateways_from_score_map_def
        sort_by_def get_gateway_decider_approach_def)
qed

lemma no_candidates_flow:
  assumes "\<not> sr_enabled F ranking" "\<not> dc_payment_flow_enabled (dw_config W)" "en \<noteq> Some True"
    and m: "filter (check_scheduled_outage txn info (dw_merchant W) (dw_bank_code W)) (dw_outages W) = gs"
  shows "\<exists>st'. scoring_flow V W F dr txn info [] prio ranking en st (s, cache, k) = Some (st', s, cache, k) \<and>
    ds_gw_score_map st' = fold outage_penalty gs [] \<and>
    ds_is_scheduled_outage st' = (if gs = [] then ds_is_scheduled_outage st else True)"
proof -
  have p: "get_score_with_priority [] prio = []"
    by (induction prio) (auto simp: get_score_with_priority_def)
  show ?thesis
    using assms(1)
    by (simp add: several_gateways_flow initial_scores_def Let_def eliminate_off [OF assms(2,3)] p
        update_score_for_outage_def m return_sm_with_log_def)
qed

text \<open>
  With no eligible gateway, no success-rate routing and no elimination the answer is that no
  gateway was found, unless a scheduled outage matches the transaction and names a gateway: then
  the gateway that is down is decided, without fallbacks, and the answer says there is an outage.
\<close>

theorem outage_decides_without_candidates:
  assumes "unwrap_or (dq_enforce_list q) [] = []" "dq_txn_gateway q = None" "dq_order_preferred q = None"
    "\<not> sr_enabled F (dq_ranking q)" "\<not> dc_payment_flow_enabled (dw_config W)"
    "dq_elimination_enabled q \<noteq> Some True"
    and m: "filter (check_scheduled_outage txn info (dw_merchant W) (dw_bank_code W)) (dw_outages W) =
      (case outage of None \<Rightarrow> [] | Some g \<Rightarrow> [g])"
  shows "\<exists>res rest. run_decider_flow D V W F draws txn info q legacy dims override stores = Some (res, rest, stores) \<and>
    (case Option.bind outage go_gateway of
       None \<Rightarrow> (\<exists>e. res = Inl e \<and> er_info_code e = ''GATEWAY_NOT_FOUND'')
     | Some gw \<Rightarrow> (\<exists>d. res = Inr d \<and> dg_decided_gateway d = gw \<and> dg_fallback_gateways d = [] \<and>
         dg_is_scheduled_outage d))"
proof -
  let ?p = "opt_or (dq_txn_gateway q) (dq_order_preferred q)"
  obtain s cache k where st: "stores = (s, cache, k)" by (cases stores)
  have np: "\<not> (\<exists>pgw. ?p = Some pgw \<and> \<not> dynamic_switching_enabled (dq_enforce_list q))"
    using assms(2,3) by simp
  obtain gws plo where c: "candidates D q (unwrap_or (dq_enforce_list q) []) ?p = (gws, plo)" by fastforce
  have gws: "gws = []" using remdups_adj_candidates [of D q "[]" ?p] c assms(1) by simp
  from no_candidates_flow [OF assms(4,5,6) m, of V draws "plo_gws plo"
      "(initial_decider_state (td_date_created txn))\<lparr>ds_ab_test_sr_override := override\<rparr>" s cache k]
  obtain st' where f: "scoring_flow V W F draws txn info gws (plo_gws plo) (dq_ranking q)
      (dq_elimination_enabled q) ((initial_decider_state (td_date_created txn))\<lparr>ds_ab_test_sr_override := override\<rparr>)
      stores = Some (st', stores)"
    and sm: "ds_gw_score_map st' = fold outage_penalty (case outage of None \<Rightarrow> [] | Some g \<Rightarrow> [g]) []"
    and o: "outage \<noteq> None \<longrightarrow> ds_is_scheduled_outage st'"
    unfolding gws st by (auto split: option.splits)
  note run = scored_flow [OF np c, of V W F draws txn info legacy dims override stores, unfolded f]
  show ?thesis
  proof (cases "Option.bind outage go_gateway")
    case None
    then have "ds_gw_score_map st' = []"
      using sm by (auto simp: outage_penalty_def split: option.splits)
    then show ?thesis
      by (simp add: run None decided_answer_def Let_def gateway_not_found_def)
  next
    case (Some gw)
    then obtain g where g: "outage = Some g" "go_gateway g = Some gw" by (cases outage) auto
    then have m1: "ds_gw_score_map st' = [(gw, fdiv (Fin 1) (Fin 10))]"
      using sm by (simp add: outage_penalty_def hm_insert_def)
    obtain ap i where "choose_gateway D q st' = (Some gw, None, ap, i)"
      using choose_single [OF m1 rnd_tenth] by blast
    then show ?thesis
      using o by (simp add: run Some g decided_answer_def Let_def m1 fallback_gateways_from_score_map_def sort_by_def)
  qed
qed

section \<open>An example\<close>

definition demo_sr_env :: "(string \<Rightarrow> redis_value option) sr_env" where
  "demo_sr_env = \<lparr>se_redis = mem_redis, se_access = (\<lambda>_. demo_access), se_merchant_cfg = None,
     se_default_cfg = None, se_keys = [], se_currency = ''INR''\<rparr>"

definition plo_of :: "string list \<Rightarrow> priority_logic_output" where
  "plo_of gws = \<lparr>plo_is_enforcement = False, plo_gws = gws, plo_priority_logic_tag = None,
     plo_gateway_reference_ids = [], plo_primary_logic = None, plo_fallback_logic = None\<rparr>"

definition demo_decide_env :: "string list \<Rightarrow> decide_env" where
  "demo_decide_env gws =
     \<lparr>de_gateway_priority = plo_of gws, de_fallback = (\<lambda>plo. plo), de_multi_objective_feature = False,
      de_margin = None, de_costs = (\<lambda>_. []), de_render_plo = (\<lambda>_. JNull), de_render_info = (\<lambda>_. JNull)\<rparr>"

definition demo_down :: "gateway_outage list \<Rightarrow> (string \<Rightarrow> (json \<times> int) option) down_env" where
  "demo_down outages =
     \<lparr>dw_store = mem_store, dw_config = (demo_decision False)\<lparr>dc_payment_flow_enabled := False\<rparr>,
      dw_env = demo_env None, dw_merchant = ''m'', dw_now = 0, dw_gsd = demo_gsd, dw_global_keys = [],
      dw_merchant_keys = [], dw_default_input = None, dw_outages = outages, dw_bank_code = None\<rparr>"

definition demo_flags :: scoring_flags where
  "demo_flags = \<lparr>sf_sr_payment_flow = False, sf_sr_v3_input = False, sf_explore_and_exploit = False,
     sf_route_random_traffic = False,
     sf_srv3 = \<lparr>fl_reset = False, fl_extra_score = False, fl_binomial = False, fl_beta = False\<rparr>\<rparr>"

definition demo_draws :: scoring_draws where
  "demo_draws = \<lparr>dr_explore = Fin 50, dr_random_traffic = Fin 50, dr_binomial = (\<lambda>_ _ _. None),
     dr_beta = (\<lambda>_ _ _. None)\<rparr>"

definition demo_request :: "string list \<Rightarrow> decide_request" where
  "demo_request gws =
     \<lparr>dq_enforce_list = Some gws, dq_txn_gateway = None, dq_order_preferred = None,
      dq_priority_output = None, dq_ranking = Some RA_PlBasedRouting, dq_elimination_enabled = None,
      dq_enable_multi_objective = None, dq_udfs = [], dq_dynamic_mga = False, dq_latency = 0\<rparr>"

definition demo_outage :: gateway_outage where
  "demo_outage =
     \<lparr>go_id = ''o'', go_end_time = 0, go_gateway = Some ''PAYU'', go_merchant_id = None,
      go_start_time = 0, go_bank = None, go_payment_method_type = Some ''NB'', go_payment_method = None,
      go_juspay_bank_code_id = None, go_metadata = None\<rparr>"

abbreviation demo_stores :: "(string \<Rightarrow> redis_value option) \<times> sr_score_cache \<times> (string \<Rightarrow> (json \<times> int) option)" where
  "demo_stores \<equiv> (Map.empty, sc_new 75 100, Map.empty)"

lemma demo_matches:
  "filter (check_scheduled_outage demo_txn demo_info (dw_merchant (demo_down [demo_outage]))
     (dw_bank_code (demo_down [demo_outage]))) (dw_outages (demo_down [demo_outage])) = [demo_outage]"
  by (simp add: check_scheduled_outage_def check_scheduled_outage_metadata_def demo_outage_def demo_down_def
      demo_info_def)

lemma demo_plain:
  "unwrap_or (dq_enforce_list (demo_request gws)) [] = gws" "dq_txn_gateway (demo_request gws) = None"
  "dq_order_preferred (demo_request gws) = None" "\<not> sr_enabled demo_flags (dq_ranking (demo_request gws))"
  "\<not> dc_payment_flow_enabled (dw_config (demo_down os))" "dq_elimination_enabled (demo_request gws) \<noteq> Some True"
  by (simp_all add: demo_request_def sr_enabled_def demo_flags_def demo_down_def)

lemma outage_decides_without_candidates_witness:
  "\<exists>d rest. run_decider_flow (demo_decide_env []) demo_sr_env (demo_down [demo_outage]) demo_flags demo_draws demo_txn
     demo_info (demo_request []) False (None, None) None demo_stores = Some (Inr d, rest, demo_stores) \<and>
     dg_decided_gateway d = ''PAYU''"
proof -
  have "go_gateway demo_outage = Some ''PAYU''" by (simp add: demo_outage_def)
  with outage_decides_without_candidates [OF demo_plain, of demo_txn demo_info "[demo_outage]" "Some demo_outage"
      "demo_decide_env []" demo_sr_env demo_draws False "(None, None)" None demo_stores] demo_matches
  show ?thesis by auto
qed

lemma decided_is_candidate_witness:
  "\<exists>d rest. run_decider_flow (demo_decide_env []) demo_sr_env (demo_down []) demo_flags demo_draws demo_txn
     demo_info (demo_request [''STRIPE'']) False (None, None) None demo_stores = Some (Inr d, rest, demo_stores) \<and>
     dg_decided_gateway d = ''STRIPE'' \<and> dg_fallback_gateways d = []"
proof -
  have c: "candidates (demo_decide_env []) (demo_request [''STRIPE'']) (unwrap_or (dq_enforce_list (demo_request [''STRIPE''])) [])
      (opt_or (dq_txn_gateway (demo_request [''STRIPE''])) (dq_order_preferred (demo_request [''STRIPE'']))) = ([''STRIPE''], plo_of [])"
    by (simp add: candidates_def priority_logic_of_def demo_request_def demo_decide_env_def plo_of_def)
  have np: "\<not> (\<exists>pgw. opt_or (dq_txn_gateway (demo_request [''STRIPE''])) (dq_order_preferred (demo_request [''STRIPE''])) =
      Some pgw \<and> \<not> dynamic_switching_enabled (dq_enforce_list (demo_request [''STRIPE''])))"
    by (simp add: demo_plain)
  from single_run [OF np demo_plain(5,6) c]
  obtain d rest where r: "run_decider_flow (demo_decide_env []) demo_sr_env (demo_down []) demo_flags demo_draws demo_txn
     demo_info (demo_request [''STRIPE'']) False (None, None) None demo_stores = Some (Inr d, rest, demo_stores)"
    "dg_decided_gateway d = ''STRIPE''" by blast
  have o: "outage_gateways (demo_down []) demo_txn demo_info = {}" by (simp add: outage_gateways_def demo_down_def)
  have "dg_fallback_gateways d = []"
    using decided_is_candidate [OF r(1)] unfolding r(2) o demo_plain(1) by auto
  with r show ?thesis by blast
qed

end
