(* ===== verification/Decide_Priority.thy ===== *)
theory Decide_Priority
  imports Decide_Correct
begin

text \<open>
  Decisions by priority: without success rates, elimination and outages the answer follows the
  priority list, although the scores are computed in floating point and fall below zero after ten
  gateways, where a penalty raises them.
\<close>

section \<open>The scores\<close>

definition lower :: "f64 \<Rightarrow> f64" where
  "lower p = fsub p (f64_of_rat (1 / 10))"

definition prio_score :: "nat \<Rightarrow> f64" where
  "prio_score k = (lower ^^ k) (Fin 1)"

lemma prio_score_simps [simp]: "prio_score 0 = Fin 1" "prio_score (Suc k) = lower (prio_score k)"
  by (simp_all add: prio_score_def)

lemma small_f64:
  assumes "\<bar>x\<bar> \<le> 512"
  shows "f64_of_rat x = Fin (rnd x)"
proof -
  have "rnd x \<le> rnd 512" "rnd (- 512) \<le> rnd x" using assms by (auto intro!: rnd_mono simp: abs_le_iff)
  moreover have "rnd 512 = (512 :: rat)" using rnd_of_nat [of 512] by simp
  ultimately have "- 512 \<le> rnd x" "rnd x \<le> 512" by (simp_all add: rnd_minus)
  moreover have "(512 :: rat) < 2 ^ 1024" by simp
  ultimately have "\<not> 2 ^ 1024 \<le> rnd x" "\<not> rnd x \<le> - (2 ^ 1024)" by linarith+
  then show ?thesis by (simp only: f64_of_rat_def Let_def if_False)
qed

lemma two_powi_error: "two_powi (- 44) = 1 / 17592186044416" "two_powi (- 56) = 1 / 72057594037927936"
  by (simp_all add: two_powi_def)

lemma tenth_near: "\<bar>rnd (1 / 10) - 1 / 10\<bar> \<le> 1 / 72057594037927936"
  using rnd_error [of "1 / 10" "- 3"] by (simp add: two_powi_def)

lemma lower_near:
  assumes "\<bar>r\<bar> \<le> 500"
  shows "\<exists>r'. lower (Fin r) = Fin r' \<and> \<bar>r' - (r - 1 / 10)\<bar> \<le> 1 / 1000000000000"
proof -
  let ?t = "rnd (1 / 10)"
  have t: "f64_of_rat (1 / 10) = Fin ?t" by (rule small_f64) simp
  have b: "\<bar>r - ?t\<bar> \<le> 512" using assms tenth_near unfolding abs_le_iff by simp
  then have e: "\<bar>rnd (r - ?t) - (r - ?t)\<bar> \<le> 1 / 17592186044416"
    using rnd_error [of "r - ?t" 9] by (simp add: two_powi_def)
  have "lower (Fin r) = Fin (rnd (r - ?t))"
    using small_f64 [OF b] by (simp add: lower_def t fsub_def)
  moreover have "\<bar>rnd (r - ?t) - (r - 1 / 10)\<bar> \<le> 1 / 1000000000000"
    using e tenth_near unfolding abs_le_iff by simp
  ultimately show ?thesis by blast
qed

text \<open>The scores stay close to the decimal fractions they stand for.\<close>

lemma prio_score_near:
  assumes "k \<le> 4000"
  shows "\<exists>r. prio_score k = Fin r \<and> \<bar>r - (1 - of_nat k / 10)\<bar> \<le> of_nat k / 1000000000000"
  using assms
proof (induction k)
  case (Suc k)
  then obtain r where r: "prio_score k = Fin r" "\<bar>r - (1 - of_nat k / 10)\<bar> \<le> of_nat k / 1000000000000" by auto
  have "(of_nat k :: rat) \<le> 4000" "0 \<le> (of_nat k :: rat)" using Suc.prems by simp_all
  with r(2) have "\<bar>r\<bar> \<le> 500" unfolding abs_le_iff by simp
  then obtain r' where "lower (Fin r) = Fin r'" "\<bar>r' - (r - 1 / 10)\<bar> \<le> 1 / 1000000000000" using lower_near by blast
  with r show ?case unfolding abs_le_iff by (simp add: add_divide_distrib)
qed simp

lemma prio_score_less:
  assumes "i < j" "j \<le> 4000"
  shows "flt (prio_score j) (prio_score i)"
proof -
  obtain a b where a: "prio_score i = Fin a" "\<bar>a - (1 - of_nat i / 10)\<bar> \<le> of_nat i / 1000000000000"
    and b: "prio_score j = Fin b" "\<bar>b - (1 - of_nat j / 10)\<bar> \<le> of_nat j / 1000000000000"
    using prio_score_near [of i] prio_score_near [of j] assms by auto
  have "of_nat i + 1 \<le> (of_nat j :: rat)" using assms(1) by (metis Suc_eq_plus1 Suc_leI of_nat_Suc of_nat_le_iff add.commute)
  moreover have "(of_nat j :: rat) \<le> 4000" using assms(2) by simp
  ultimately have "b < a" using a(2) b(2) unfolding abs_le_iff by simp
  then show ?thesis by (simp add: a(1) b(1))
qed

lemma prio_score_not_nan: "k \<le> 4000 \<Longrightarrow> prio_score k \<noteq> NaN"
  using prio_score_near by force

text \<open>The twelfth functional gateway of the list scores below zero; a tenth of that is more.\<close>

lemma outage_raises_late_gateways:
  "flt (prio_score 11) (Fin 0) \<and> flt (prio_score 11) (tenth (prio_score 11))"
proof -
  obtain r where r: "prio_score 11 = Fin r" "\<bar>r - (1 - 11 / 10)\<bar> \<le> 11 / 1000000000000"
    using prio_score_near [of 11] by auto
  then have b: "r \<le> - 9 / 100" "- 11 / 100 \<le> r" unfolding abs_le_iff by simp_all
  then have "\<bar>r / 10\<bar> \<le> 512" "\<bar>r / 10\<bar> \<le> two_powi 0" unfolding abs_le_iff by (simp_all add: two_powi_def)
  with small_f64 [of "r / 10"] rnd_error [of "r / 10" 0]
  have t: "f64_of_rat (r / 10) = Fin (rnd (r / 10))" "\<bar>rnd (r / 10) - r / 10\<bar> \<le> two_powi (- 53)" by simp_all
  have "two_powi (- 53) \<le> 1 / 1000" by (simp add: two_powi_def)
  with t(2) b have "r < rnd (r / 10)" unfolding abs_le_iff by simp
  with r(1) b(1) t(1) show ?thesis by (simp add: tenth_def fdiv_def)
qed

section \<open>The score map\<close>

fun prio_entries :: "nat \<Rightarrow> string list \<Rightarrow> gateway_score_map" where
  "prio_entries k [] = []"
| "prio_entries k (g # gs) = (g, prio_score k) # prio_entries (Suc k) gs"

lemma fst_prio_entries [simp]: "List.map fst (prio_entries k gs) = gs"
  by (induction gs arbitrary: k) auto

lemma prio_entries_score: "x \<in> set (prio_entries k gs) \<Longrightarrow> \<exists>i. k \<le> i \<and> i < k + length gs \<and> snd x = prio_score i"
proof (induction gs arbitrary: k)
  case (Cons g gs)
  from Cons.prems consider "x = (g, prio_score k)" | "x \<in> set (prio_entries (Suc k) gs)" by auto
  then show ?case
  proof cases
    case 2
    from Cons.IH [OF 2] obtain i where "Suc k \<le> i" "i < Suc k + length gs" "snd x = prio_score i" by blast
    then show ?thesis by (intro exI [of _ i]) simp
  qed (intro exI [of _ k], simp)
qed simp

lemma hm_insert_new: "k \<notin> fst ` set m \<Longrightarrow> hm_insert k v m = m @ [(k, v)]"
  by (induction m) (auto simp: hm_insert_def)

lemma listed_entries:
  assumes "distinct prio" "fst ` set m \<inter> set prio = {}"
  shows "foldl (\<lambda>(p, m) gw. if gw \<in> F then (fsub p (f64_of_rat (1 / 10)), hm_insert gw p m) else (p, m))
      (prio_score k, m) prio =
    (let on = filter (\<lambda>g. g \<in> F) prio in (prio_score (k + length on), m @ prio_entries k on))"
  using assms
proof (induction prio arbitrary: k m)
  case (Cons g prio)
  show ?case
  proof (cases "g \<in> F")
    case True
    have "foldl (\<lambda>(p, m) gw. if gw \<in> F then (fsub p (f64_of_rat (1 / 10)), hm_insert gw p m) else (p, m))
      (prio_score (Suc k), m @ [(g, prio_score k)]) prio =
    (let on = filter (\<lambda>g. g \<in> F) prio in (prio_score (Suc k + length on), (m @ [(g, prio_score k)]) @ prio_entries (Suc k) on))"
      using Cons.prems by (intro Cons.IH) auto
    then show ?thesis using Cons.prems True by (simp add: hm_insert_new lower_def Let_def)
  next
    case False
    with Cons show ?thesis by simp
  qed
qed simp

lemma unlisted_entries:
  assumes "distinct gws" "fst ` set m \<inter> set (filter (\<lambda>g. g \<notin> P) gws) = {}"
  shows "foldl (\<lambda>(p :: f64, m) gw. if gw \<notin> P then (p, hm_insert gw p m) else (p, m)) (p, m) gws =
    (p, m @ List.map (\<lambda>g. (g, p)) (filter (\<lambda>g. g \<notin> P) gws))"
  using assms
proof (induction gws arbitrary: m)
  case (Cons g gws)
  show ?case
  proof (cases "g \<in> P")
    case False
    have "foldl (\<lambda>(p :: f64, m) gw. if gw \<notin> P then (p, hm_insert gw p m) else (p, m)) (p, m @ [(g, p)]) gws =
      (p, (m @ [(g, p)]) @ List.map (\<lambda>g. (g, p)) (filter (\<lambda>g. g \<notin> P) gws))"
      using Cons.prems False by (intro Cons.IH) auto
    with False Cons.prems show ?thesis by (simp add: hm_insert_new)
  qed (use Cons in simp)
qed simp

lemma priority_map:
  assumes "distinct gws" "distinct prio"
  shows "get_score_with_priority gws prio =
    (let on = filter (\<lambda>g. g \<in> set gws) prio in
     prio_entries 0 on @ List.map (\<lambda>g. (g, prio_score (length on))) (filter (\<lambda>g. g \<notin> set prio) gws))"
proof -
  let ?on = "filter (\<lambda>g. g \<in> set gws) prio"
  have "fst ` set (prio_entries 0 ?on) = set ?on" by (metis fst_prio_entries list.set_map)
  then have "fst ` set (prio_entries 0 ?on) \<inter> set (filter (\<lambda>g. g \<notin> set prio) gws) = {}" by auto
  from unlisted_entries [OF assms(1) this, of "prio_score (length ?on)"]
    listed_entries [OF assms(2), of "[]" "set gws" 0]
  show ?thesis by (simp add: get_score_with_priority_def Let_def)
qed

section \<open>The order of the answer\<close>

lemma sort_by_sorted: "sorted_wrt (\<lambda>a b. c a b \<noteq> Greater) xs \<Longrightarrow> sort_by c xs = xs"
proof (induction xs)
  case (Cons x xs)
  then show ?case by (cases xs) (auto simp: sort_by_def)
qed (simp add: sort_by_def)

lemma max_by_first: "(\<And>y. y \<in> set ys \<Longrightarrow> c x y = Greater) \<Longrightarrow> max_by c (x # ys) = Some x"
proof -
  assume a: "\<And>y. y \<in> set ys \<Longrightarrow> c x y = Greater"
  then have "foldl (\<lambda>acc y. if c acc y = Greater then acc else y) x ys = x" by (induction ys) auto
  then show ?thesis by simp
qed

definition by_score :: "string \<times> f64 \<Rightarrow> string \<times> f64 \<Rightarrow> ordering" where
  "by_score a b = fcmp (snd b) (snd a)"

lemma by_score_not_greater: "flt (snd b) (snd a) \<Longrightarrow> by_score a b \<noteq> Greater"
  by (cases "snd a"; cases "snd b") (auto simp: by_score_def fcmp_def)

lemma by_score_refl: "snd a = snd b \<Longrightarrow> by_score a b \<noteq> Greater"
  by (cases "snd b") (auto simp: by_score_def fcmp_def)

lemma map_score:
  assumes "x \<in> set (prio_entries k on @ List.map (\<lambda>g. (g, prio_score (k + length on))) others)"
  shows "\<exists>i. snd x = prio_score i \<and> k \<le> i \<and> i \<le> k + length on"
proof (cases "x \<in> set (prio_entries k on)")
  case True
  from prio_entries_score [OF this] show ?thesis by (auto intro: less_imp_le)
next
  case False
  with assms have "snd x = prio_score (k + length on)" by auto
  then show ?thesis by (intro exI [of _ "k + length on"]) simp
qed

lemma sorted_prio_entries:
  assumes "k + length on \<le> 4000"
  shows "sorted_wrt (\<lambda>a b. by_score a b \<noteq> Greater)
    (prio_entries k on @ List.map (\<lambda>g. (g, prio_score (k + length on))) others)"
  using assms
proof (induction on arbitrary: k)
  case Nil
  then show ?case by (induction others) (auto simp: by_score_refl)
next
  case (Cons g on)
  have "by_score (g, prio_score k) x \<noteq> Greater"
    if x: "x \<in> set (prio_entries (Suc k) on @ List.map (\<lambda>g. (g, prio_score (Suc k + length on))) others)" for x
  proof -
    obtain i where "snd x = prio_score i" "k < i" "i \<le> k + Suc (length on)"
      using map_score [OF x] by auto
    then show ?thesis using Cons.prems prio_score_less [of k i] by (intro by_score_not_greater) simp
  qed
  moreover have "sorted_wrt (\<lambda>a b. by_score a b \<noteq> Greater)
    (prio_entries (Suc k) on @ List.map (\<lambda>g. (g, prio_score (Suc k + length on))) others)"
    using Cons.prems by (intro Cons.IH) simp
  ultimately show ?case by simp
qed

lemma priority_choice:
  fixes others
  assumes "length on < 4000" "distinct (on @ others)" "on = g # rest"
  defines "m \<equiv> prio_entries 0 on @ List.map (\<lambda>g. (g, prio_score (length on))) others"
  shows "random_gateway_selection_for_same_score m (map_option snd (get_max_score_gateway m)) = Some g"
    and "fallback_gateways_from_score_map m g = rest @ others"
proof -
  define tl where "tl = prio_entries 1 rest @ List.map (\<lambda>g. (g, prio_score (length on))) others"
  have m: "m = (g, Fin 1) # tl" by (simp add: m_def tl_def assms(3))
  have less: "flt (snd x) (Fin 1)" if x: "x \<in> set tl" for x
  proof -
    obtain i where "snd x = prio_score i" "0 < i" "i \<le> length on"
      using map_score [of x 1 rest others] x assms(3) by (auto simp: tl_def)
    then show ?thesis using prio_score_less [of 0 i] assms(1) by simp
  qed
  have "fcmp (Fin 1) (snd x) = Greater" if "x \<in> set tl" for x
    using less [OF that] by (cases "snd x") (auto simp: fcmp_def)
  then have "get_max_score_gateway m = Some (g, Fin 1)"
    unfolding m get_max_score_gateway_def by (intro max_by_first) simp
  then show "random_gateway_selection_for_same_score m (map_option snd (get_max_score_gateway m)) = Some g"
    by (simp add: random_gateway_selection_for_same_score_def m feq_eq)
  have "sort_by (\<lambda>a b. fcmp (snd b) (snd a)) m = m"
    using sorted_prio_entries [of 0 on others] assms(1)
    by (intro sort_by_sorted) (simp add: m_def by_score_def)
  moreover have "List.map fst m = on @ others" by (simp add: m_def comp_def)
  moreover have "filter (\<lambda>x. x \<noteq> g) (on @ others) = rest @ others"
  proof -
    have "filter (\<lambda>x. x \<noteq> g) xs = xs" if "g \<notin> set xs" for xs :: "string list"
      using that by (auto simp: filter_id_conv)
    then show ?thesis using assms(2,3) by simp
  qed
  ultimately show "fallback_gateways_from_score_map m g = rest @ others"
    by (simp add: fallback_gateways_from_score_map_def)
qed

section \<open>The decision\<close>

lemma priority_flow:
  assumes "length gws \<noteq> 1" "\<not> sr_enabled F ranking" "\<not> dc_payment_flow_enabled (dw_config W)" "en \<noteq> Some True"
    and m: "filter (check_scheduled_outage txn info (dw_merchant W) (dw_bank_code W)) (dw_outages W) = []"
  shows "\<exists>st'. scoring_flow V W F dr txn info gws prio ranking en st (s, cache, k) = Some (st', s, cache, k) \<and>
    ds_gw_score_map st' = get_score_with_priority gws prio \<and> ds_gw_decider_approach st' = PriorityLogic \<and>
    ds_ab_test_sr_override st' = ds_ab_test_sr_override st"
  using assms(1,2)
  by (simp add: several_gateways_flow initial_scores_def Let_def eliminate_off [OF assms(3,4)]
      update_score_for_outage_def m return_sm_with_log_def)

lemma choose_by_score:
  assumes "opt_or (Option.bind (ds_ab_test_sr_override st) ov_enable_multi_objective)
    (dq_enable_multi_objective q) = Some False"
  shows "choose_gateway D q st = (random_gateway_selection_for_same_score (ds_gw_score_map st)
    (map_option snd (get_max_score_gateway (ds_gw_score_map st))), None, ds_gw_decider_approach st, None)"
proof -
  have "\<not> multi_objective_on D q st"
    using assms by (auto simp: multi_objective_on_def opt_or_def split: option.splits)
  then show ?thesis by (simp add: choose_gateway_def Let_def)
qed

text \<open>
  C17. By priority, when the request prefers no gateway and neither success rates, elimination, costs
  (switched off by the request or the arm) nor a matching outage takes part, and the list and the
  eligible gateways are without repetition, the answer follows the list: the first eligible gateway of
  the list is decided, the other ones of the list are the first fallbacks in the order of the list, and
  the eligible gateways it leaves out come last. The scores are sums of rounded tenths; they keep the
  order in lists of less than 4000 gateways of which one is eligible at least.
\<close>

theorem priority_order:
  assumes "opt_or (dq_txn_gateway q) (dq_order_preferred q) = None"
    "\<not> sr_enabled F (dq_ranking q)" "\<not> dc_payment_flow_enabled (dw_config W)"
    "dq_elimination_enabled q \<noteq> Some True"
    "filter (check_scheduled_outage txn info (dw_merchant W) (dw_bank_code W)) (dw_outages W) = []"
    "opt_or (Option.bind override ov_enable_multi_objective) (dq_enable_multi_objective q) = Some False"
    and c: "candidates D q (unwrap_or (dq_enforce_list q) []) None = (gws, plo)"
    and d: "distinct gws" "distinct (plo_gws plo)" "length (plo_gws plo) < 4000"
    and on: "filter (\<lambda>g. g \<in> set gws) (plo_gws plo) = g # rest"
  shows "\<exists>a r tail. run_decider_flow D V W F draws txn info q legacy dims override stores = Some (Inr a, r, stores) \<and>
    dg_decided_gateway a = g \<and> dg_fallback_gateways a = rest @ tail \<and>
    mset tail = mset (filter (\<lambda>g. g \<notin> set (plo_gws plo)) gws) \<and>
    dg_routing_approach a = (if gws = [g] then Default else PriorityLogic)"
proof (cases "length gws = 1")
  case True
  then obtain g' where "gws = [g']" by (cases gws) auto
  moreover have "g \<in> set gws" and g: "g \<in> set (plo_gws plo)" and r: "set rest \<subseteq> set gws" "distinct (g # rest)"
    using arg_cong [OF on, of set] arg_cong [OF on, of distinct] d(2) by auto
  ultimately have gws: "gws = [g]" "rest = []" "filter (\<lambda>g. g \<notin> set (plo_gws plo)) gws = []"
    by (cases rest; auto)+
  have np: "\<not> (\<exists>pgw. opt_or (dq_txn_gateway q) (dq_order_preferred q) = Some pgw \<and>
      \<not> dynamic_switching_enabled (dq_enforce_list q))" using assms(1) by simp
  from single_run [OF np assms(3,4) c [folded assms(1), unfolded gws(1)], of V F draws txn info legacy dims override stores]
  show ?thesis unfolding gws using g by auto
next
  case False
  let ?others = "filter (\<lambda>g. g \<notin> set (plo_gws plo)) gws"
  let ?m = "get_score_with_priority gws (plo_gws plo)"
  obtain s cache k where st: "stores = (s, cache, k)" by (cases stores)
  have np: "\<not> (\<exists>pgw. opt_or (dq_txn_gateway q) (dq_order_preferred q) = Some pgw \<and>
      \<not> dynamic_switching_enabled (dq_enforce_list q))" using assms(1) by simp
  from priority_flow [OF False assms(2-5), of V draws "plo_gws plo"
      "(initial_decider_state (td_date_created txn))\<lparr>ds_ab_test_sr_override := override\<rparr>" s cache k]
  obtain st' where f: "scoring_flow V W F draws txn info gws (plo_gws plo) (dq_ranking q)
      (dq_elimination_enabled q) ((initial_decider_state (td_date_created txn))\<lparr>ds_ab_test_sr_override := override\<rparr>)
      stores = Some (st', stores)"
    and st': "ds_gw_score_map st' = ?m" "ds_gw_decider_approach st' = PriorityLogic" "ds_ab_test_sr_override st' = override"
    unfolding st by auto
  have m: "?m = prio_entries 0 (g # rest) @ List.map (\<lambda>h. (h, prio_score (length (g # rest)))) ?others"
    using priority_map [OF d(1,2)] by (simp only: on Let_def)
  have dd: "distinct ((g # rest) @ ?others)"
    unfolding on [symmetric] using d(1,2) by auto
  have l: "length (g # rest) < 4000"
    unfolding on [symmetric] by (rule le_less_trans [OF length_filter_le d(3)])
  note ch = priority_choice [OF l dd refl, folded m]
  have "List.map fst ?m = filter (\<lambda>g. g \<in> set gws) (plo_gws plo) @ ?others"
    unfolding on by (simp add: m comp_def)
  then have "set (List.map fst ?m) = set gws" by auto
  then have names: "fst ` set ?m = set gws" by simp
  have card: "1 < card (fst ` set ?m)"
  proof -
    have "gws \<noteq> []" using on by auto
    with False have "2 \<le> length gws" by (cases gws) (auto simp: Suc_le_eq)
    then show ?thesis by (simp add: names distinct_card [OF d(1)])
  qed
  have cg: "choose_gateway D q st' = (Some g, None, PriorityLogic, None)"
    using choose_by_score [of st' q D] assms(6) ch(1) by (simp add: st')
  have ne: "gws \<noteq> [g]" "?m \<noteq> []" using False by (auto simp: m)
  show ?thesis
    using scored_flow [OF np c [folded assms(1)], of V W F draws txn info legacy dims override stores] cg ne card
    by (simp add: f decided_answer_def Let_def st' ch(2) get_gateway_decider_approach_def)
qed

lemma priority_order_witness:
  "\<exists>a r. run_decider_flow (demo_decide_env [''A'', ''B'', ''C'']) demo_sr_env (demo_down []) demo_flags demo_draws
     demo_txn demo_info ((demo_request [''D'', ''C'', ''A''])\<lparr>dq_enable_multi_objective := Some False\<rparr>) False
     (None, None) None demo_stores = Some (Inr a, r, demo_stores) \<and>
     dg_decided_gateway a = ''A'' \<and> dg_fallback_gateways a = [''C'', ''D'']"
proof -
  let ?q = "(demo_request [''D'', ''C'', ''A''])\<lparr>dq_enable_multi_objective := Some False\<rparr>"
  have c: "candidates (demo_decide_env [''A'', ''B'', ''C'']) ?q (unwrap_or (dq_enforce_list ?q) []) None =
      ([''D'', ''C'', ''A''], plo_of [''A'', ''B'', ''C''])"
    by (simp add: candidates_def priority_logic_of_def demo_request_def demo_decide_env_def plo_of_def)
  obtain a r tail where "run_decider_flow (demo_decide_env [''A'', ''B'', ''C'']) demo_sr_env (demo_down []) demo_flags
      demo_draws demo_txn demo_info ?q False (None, None) None demo_stores = Some (Inr a, r, demo_stores)"
    "dg_decided_gateway a = ''A''" "dg_fallback_gateways a = [''C''] @ tail"
    "mset tail = mset (filter (\<lambda>g. g \<notin> set (plo_gws (plo_of [''A'', ''B'', ''C'']))) [''D'', ''C'', ''A''])"
    using priority_order [OF _ _ _ _ _ _ c, of demo_flags "demo_down []" demo_txn demo_info None "''A''" "[''C'']"
        demo_sr_env demo_draws False "(None, None)" demo_stores]
    by (auto simp: demo_request_def sr_enabled_def demo_flags_def demo_down_def plo_of_def)
  then show ?thesis by (auto simp: plo_of_def)
qed

end
