(* ===== verification/Network_Decider.thy ===== *)
theory Network_Decider
  imports Decide
begin

text \<open>
  Debit network routing (\<open>src/src/decider/network_decider/\<close>): the networks of a co-badged debit
  card, from the request or from the table of card ranges, their fees and the answer that lists
  them from the cheapest on with the saving against the global network. The table, the parser of
  the request metadata and the fee configuration are arguments. A country is its two-letter code;
  the two zeros of binary64 are one, which only \<open>total_cmp\<close> would tell apart.
\<close>

section \<open>Cards and fees\<close>

datatype network = VISA | AMEX | DINERS | RUPAY | MASTERCARD | STAR | PULSE | ACCEL | NYCE

definition network_from_string :: "string \<Rightarrow> network option" where
  "network_from_string s = map_of
     [(''VISA'', VISA), (''AMEX'', AMEX), (''DINERS'', DINERS), (''RUPAY'', RUPAY),
      (''MASTERCARD'', MASTERCARD), (''STAR'', STAR), (''PULSE'', PULSE), (''ACCEL'', ACCEL),
      (''NYCE'', NYCE)] s"

fun is_global_network :: "network \<Rightarrow> bool" where
  "is_global_network n = (n \<in> {VISA, AMEX, DINERS, RUPAY, MASTERCARD})"

datatype merchant_category_code = Mcc0001

datatype regulated_name = NonExemptWithFraud | UnknownName string

datatype network_card_type = NetworkCredit | NetworkDebit

datatype pan_or_token = Pan | Token

datatype api_error = UnknownError | MissingRequiredField string | ParsingError string

record co_badged_card_row =
  cr_card_bin_min :: int
  cr_card_bin_max :: int
  cr_issuing_bank_name :: "string option"
  cr_card_network :: string
  cr_country_code :: "string option"
  cr_card_type :: "network_card_type option"
  cr_regulated :: "bool option"
  cr_regulated_name :: "regulated_name option"
  cr_prepaid :: "bool option"
  cr_pan_or_token :: pan_or_token

record co_badged_card =
  cb_issuing_bank_name :: "string option"
  cb_card_network :: network
  cb_country_code :: "string option"
  cb_card_type :: "network_card_type option"
  cb_regulated :: "bool option"
  cb_regulated_name :: "regulated_name option"
  cb_prepaid :: "bool option"
  cb_pan_or_token :: pan_or_token

record co_badged_card_info =
  ci_co_badged_card_networks :: "network list"
  ci_issuer_country :: string
  ci_is_regulated :: bool
  ci_regulated_name :: "regulated_name option"
  ci_card_type :: network_card_type

record co_badged_card_request =
  cq_merchant_category_code :: merchant_category_code
  cq_acquirer_country :: string
  cq_co_badged_card_data :: "co_badged_card_info option"

record network_processing_data =
  np_percentage :: f64
  np_fixed_amount :: f64

record debit_routing_config =
  dr_network_fee :: "(network \<times> network_processing_data) list"
  dr_non_regulated :: "(merchant_category_code \<times> (network \<times> network_processing_data) list) list"
  dr_regulated :: network_processing_data
  dr_fraud_check_fee :: f64

record network_saving_info =
  ns_network :: network
  ns_saving_percentage :: f64

record debit_routing_result =
  do_co_badged_card_networks_info :: "network_saving_info list"
  do_issuer_country :: string
  do_is_regulated :: bool
  do_regulated_name :: "regulated_name option"
  do_card_type :: network_card_type

definition ok_or :: "'e \<Rightarrow> 'a option \<Rightarrow> 'e + 'a" where
  "ok_or e x = (case x of None \<Rightarrow> Inl e | Some a \<Rightarrow> Inr a)"

lemma ok_or_simps [simp]: "ok_or e None = Inl e" "ok_or e (Some a) = Inr a"
  by (simp_all add: ok_or_def)

lemma ok_or_Inr [simp]: "ok_or e x = Inr a \<longleftrightarrow> x = Some a"
  by (cases x) simp_all

text \<open>\<open>Iterator::map(f).collect::<Result<..>>\<close>: the first error, or all results.\<close>

fun collect_results :: "('a \<Rightarrow> 'e + 'b) \<Rightarrow> 'a list \<Rightarrow> 'e + 'b list" where
  "collect_results f [] = Inr []"
| "collect_results f (x # xs) = rbind (f x) (\<lambda>y. rbind (collect_results f xs) (\<lambda>ys. Inr (y # ys)))"

section \<open>The cards of a range\<close>

definition try_into_card :: "co_badged_card_row \<Rightarrow> api_error + co_badged_card" where
  "try_into_card r =
     rbind (ok_or (ParsingError ''NETWORK'') (network_from_string (cr_card_network r))) (\<lambda>n.
       Inr \<lparr>cb_issuing_bank_name = cr_issuing_bank_name r, cb_card_network = n,
            cb_country_code = cr_country_code r, cb_card_type = cr_card_type r,
            cb_regulated = cr_regulated r, cb_regulated_name = cr_regulated_name r,
            cb_prepaid = cr_prepaid r, cb_pan_or_token = cr_pan_or_token r\<rparr>)"

definition pad_card_number_to_19_digit :: "string \<Rightarrow> string" where
  "pad_card_number_to_19_digit card_isin = card_isin @ replicate (19 - length card_isin) (CHR ''0'')"

text \<open>\<open>str::parse::<i64>\<close>\<close>

definition parse_i64 :: "string \<Rightarrow> int option" where
  "parse_i64 s =
     (let (neg, ds) = split_sign s; v = (if neg then - int (digits_value ds) else int (digits_value ds)) in
      if ds = [] \<or> \<not> list_all is_digit ds \<or> v < - (2 ^ 63) \<or> 2 ^ 63 \<le> v then None else Some v)"

definition is_valid_length :: "co_badged_card list \<Rightarrow> bool" where
  "is_valid_length cards \<longleftrightarrow> \<not> length cards < 2"

definition is_only_one_global_network_present :: "co_badged_card list \<Rightarrow> bool" where
  "is_only_one_global_network_present cards \<longleftrightarrow>
     length (filter (\<lambda>c. is_global_network (cb_card_network c)) cards) = 1"

definition get_global_network_card :: "co_badged_card list \<Rightarrow> api_error + co_badged_card" where
  "get_global_network_card cards = ok_or UnknownError (find (\<lambda>c. is_global_network (cb_card_network c)) cards)"

definition filter_cards :: "co_badged_card list \<Rightarrow> co_badged_card list" where
  "filter_cards cards =
     filter (\<lambda>c. cb_card_type c = Some NetworkDebit \<and> cb_pan_or_token c = Pan \<and> cb_prepaid c = Some False) cards"

definition has_same_issuer :: "co_badged_card list \<Rightarrow> api_error + bool" where
  "has_same_issuer cards =
     (case cards of
        [] \<Rightarrow> Inl UnknownError
      | c # _ \<Rightarrow> Inr (list_all (\<lambda>d. cb_issuing_bank_name d = cb_issuing_bank_name c) cards))"

definition get_country_code :: "co_badged_card \<Rightarrow> api_error + string" where
  "get_country_code c = ok_or UnknownError (cb_country_code c)"

definition get_card_type :: "co_badged_card \<Rightarrow> api_error + network_card_type" where
  "get_card_type c = ok_or UnknownError (cb_card_type c)"

definition get_is_regulated :: "co_badged_card \<Rightarrow> api_error + bool" where
  "get_is_regulated c = ok_or UnknownError (cb_regulated c)"

definition is_local_transaction :: "co_badged_card list \<Rightarrow> string \<Rightarrow> api_error + bool" where
  "is_local_transaction cards acquirer_country =
     rbind (get_global_network_card cards) (\<lambda>g.
       rbind (get_country_code g) (\<lambda>issuer_country. Inr (acquirer_country = issuer_country)))"

definition extract_networks :: "co_badged_card list \<Rightarrow> network list" where
  "extract_networks cards = List.map cb_card_network cards"

definition get_co_badged_cards_info_response :: "co_badged_card list \<Rightarrow> api_error + co_badged_card_info" where
  "get_co_badged_cards_info_response cards =
     rbind (get_global_network_card cards) (\<lambda>g.
       rbind (get_country_code g) (\<lambda>country.
         rbind (get_is_regulated g) (\<lambda>regulated.
           rbind (get_card_type g) (\<lambda>card_type. Inr
             \<lparr>ci_co_badged_card_networks = extract_networks cards, ci_issuer_country = country,
              ci_is_regulated = regulated, ci_regulated_name = cb_regulated_name g,
              ci_card_type = card_type\<rparr>))))"

text \<open>\<open>None\<close> as the table is an error of the database.\<close>

definition find_co_badged_cards_info_by_card_bin ::
  "co_badged_card_row list option \<Rightarrow> int \<Rightarrow> api_error + co_badged_card_row list" where
  "find_co_badged_cards_info_by_card_bin table card_bin =
     ok_or UnknownError
       (map_option (filter (\<lambda>r. cr_card_bin_min r \<le> card_bin \<and> card_bin \<le> cr_card_bin_max r)) table)"

definition co_badged_cards_info_lookup ::
  "co_badged_card_row list option \<Rightarrow> string \<Rightarrow> api_error + co_badged_card_row list" where
  "co_badged_cards_info_lookup table card_isin =
     rbind (ok_or UnknownError (parse_i64 (pad_card_number_to_19_digit card_isin)))
       (find_co_badged_cards_info_by_card_bin table)"

definition get_co_badged_cards_info ::
  "co_badged_card_row list option \<Rightarrow> string \<Rightarrow> api_error + co_badged_card_info option" where
  "get_co_badged_cards_info table card_isin =
     rbind (co_badged_cards_info_lookup table card_isin) (\<lambda>records.
       rbind (if records = [] \<and> length card_isin = 8
              then co_badged_cards_info_lookup table (take 6 card_isin) else Inr records) (\<lambda>infos.
         (let cards = List.map_filter (\<lambda>r. case try_into_card r of Inr c \<Rightarrow> Some c | Inl _ \<Rightarrow> None) infos;
              filtered = filter_cards cards in
          if is_valid_length cards \<and> is_only_one_global_network_present cards \<and> is_valid_length filtered
          then rbind (get_co_badged_cards_info_response filtered) (\<lambda>i. Inr (Some i))
          else Inr None)))"

section \<open>Fees\<close>

definition get_non_regulated_interchange_fee ::
  "debit_routing_config \<Rightarrow> merchant_category_code \<Rightarrow> network \<Rightarrow> api_error + network_processing_data" where
  "get_non_regulated_interchange_fee cfg mcc n =
     rbind (ok_or (MissingRequiredField ''interchange fee for merchant category code'')
             (map_of (dr_non_regulated cfg) mcc))
       (\<lambda>m. ok_or (MissingRequiredField ''interchange fee for non regulated'') (map_of m n))"

definition get_network_fee :: "debit_routing_config \<Rightarrow> network \<Rightarrow> api_error + network_processing_data" where
  "get_network_fee cfg n =
     ok_or (MissingRequiredField ''interchange fee for non regulated'') (map_of (dr_network_fee cfg) n)"

definition fee_of :: "network_processing_data \<Rightarrow> f64 \<Rightarrow> f64" where
  "fee_of d amount = fadd (fdiv (fmul amount (np_percentage d)) (Fin 100)) (np_fixed_amount d)"

definition apply_fraud_check_fee_if_applicable :: "bool \<Rightarrow> regulated_name option \<Rightarrow> f64 \<Rightarrow> f64 \<Rightarrow> f64" where
  "apply_fraud_check_fee_if_applicable is_regulated name fraud_check_fee fee =
     (if is_regulated \<and> name = Some NonExemptWithFraud then fadd fee fraud_check_fee else fee)"

definition calculate_interchange_fee ::
  "network \<Rightarrow> co_badged_card_info \<Rightarrow> merchant_category_code \<Rightarrow> f64 \<Rightarrow> debit_routing_config \<Rightarrow> api_error + f64" where
  "calculate_interchange_fee n info mcc amount cfg =
     rbind (if ci_is_regulated info then Inr (dr_regulated cfg)
            else get_non_regulated_interchange_fee cfg mcc n) (\<lambda>d.
       Inr (apply_fraud_check_fee_if_applicable (ci_is_regulated info) (ci_regulated_name info)
              (dr_fraud_check_fee cfg) (fee_of d amount)))"

definition calculate_network_fee :: "network \<Rightarrow> f64 \<Rightarrow> debit_routing_config \<Rightarrow> api_error + f64" where
  "calculate_network_fee n amount cfg = rbind (get_network_fee cfg n) (\<lambda>d. Inr (fee_of d amount))"

definition total_fee ::
  "debit_routing_config \<Rightarrow> co_badged_card_info \<Rightarrow> merchant_category_code \<Rightarrow> f64 \<Rightarrow> network \<Rightarrow>
   api_error + network \<times> f64" where
  "total_fee cfg info mcc amount n =
     rbind (map_err (\<lambda>_. UnknownError) (calculate_interchange_fee n info mcc amount cfg)) (\<lambda>interchange.
       rbind (map_err (\<lambda>_. UnknownError) (calculate_network_fee n amount cfg)) (\<lambda>fee.
         Inr (n, fadd interchange fee)))"

definition calculate_total_fees_per_network ::
  "debit_routing_config \<Rightarrow> co_badged_card_info \<Rightarrow> merchant_category_code \<Rightarrow> f64 \<Rightarrow>
   api_error + (network \<times> f64) list" where
  "calculate_total_fees_per_network cfg info mcc amount =
     collect_results (total_fee cfg info mcc amount) (ci_co_badged_card_networks info)"

section \<open>The answer\<close>

definition calculate_savings :: "(network \<times> f64) list \<Rightarrow> (f64 \<Rightarrow> f64) \<Rightarrow> network_saving_info list" where
  "calculate_savings costs saving =
     List.map (\<lambda>(n, fee). \<lparr>ns_network = n, ns_saving_percentage = saving fee\<rparr>) costs"

definition saving_percentage :: "f64 \<Rightarrow> f64 \<Rightarrow> f64 \<Rightarrow> f64" where
  "saving_percentage baseline_fee amount fee =
     (let saving = fsub baseline_fee fee in
      if flt (Fin 0) saving \<and> flt (Fin 0) amount
      then fdiv (fround (fmul (fdiv saving amount) (Fin 10000))) (Fin 100) else Fin 0)"

definition calculate_network_saving_infos ::
  "(network \<times> f64) list \<Rightarrow> f64 \<Rightarrow> network_saving_info list option" where
  "calculate_network_saving_infos costs amount =
     (case costs of
        [] \<Rightarrow> None
      | (first, _) # _ \<Rightarrow> Some
          (if is_global_network first then calculate_savings costs (\<lambda>_. Fin 0)
           else (case find (\<lambda>(n, _). is_global_network n) costs of
                   Some (_, baseline_fee) \<Rightarrow> calculate_savings costs (saving_percentage baseline_fee amount)
                 | None \<Rightarrow> calculate_savings costs (\<lambda>_. Fin 0))))"

definition fetch_co_badged_card_info ::
  "co_badged_card_row list option \<Rightarrow> co_badged_card_request \<Rightarrow> string option \<Rightarrow> co_badged_card_info option" where
  "fetch_co_badged_card_info table q card_isin =
     (case cq_co_badged_card_data q of
        Some d \<Rightarrow> Some d
      | None \<Rightarrow> Option.bind card_isin (\<lambda>isin.
          case get_co_badged_cards_info table isin of Inr i \<Rightarrow> i | Inl _ \<Rightarrow> None))"

definition calculate_network_fees ::
  "debit_routing_config \<Rightarrow> co_badged_card_request \<Rightarrow> co_badged_card_info \<Rightarrow> f64 \<Rightarrow> (network \<times> f64) list option" where
  "calculate_network_fees cfg q info amount =
     (case calculate_total_fees_per_network cfg info (cq_merchant_category_code q) amount of
        Inr fees \<Rightarrow> Some fees | Inl _ \<Rightarrow> None)"

definition sorted_networks_by_fee ::
  "debit_routing_config \<Rightarrow> co_badged_card_row list option \<Rightarrow> co_badged_card_request \<Rightarrow> string option \<Rightarrow> f64 \<Rightarrow>
   debit_routing_result option" where
  "sorted_networks_by_fee cfg table q card_isin amount =
     Option.bind (fetch_co_badged_card_info table q card_isin) (\<lambda>info.
       Option.bind (calculate_network_fees cfg q info amount) (\<lambda>costs.
         Option.bind (calculate_network_saving_infos
             (sort_by (\<lambda>(_, fee1) (_, fee2). ftotal_cmp fee1 fee2) costs) amount) (\<lambda>infos. Some
           \<lparr>do_co_badged_card_networks_info = infos, do_issuer_country = ci_issuer_country info,
            do_is_regulated = ci_is_regulated info, do_regulated_name = ci_regulated_name info,
            do_card_type = ci_card_type info\<rparr>)))"

definition return_debit_routing_application_error :: error_response where
  "return_debit_routing_application_error =
     \<lparr>er_status = ''Invalid Request'', er_error_code = ''invalid_request_error'',
      er_error_message = ''Can't find the co-badged card network'', er_priority_logic_tag = None,
      er_routing_approach = None, er_info_code = ''CO_BADGED_NETWORK_NOT_FOUND'',
      er_priority_logic_output = None, er_is_dynamic_mga_enabled = False\<rparr>"

text \<open>\<open>metadata\<close> is the parsed metadata of the request, \<open>None\<close> if it is absent or does not parse.\<close>

definition perform_debit_routing ::
  "debit_routing_config \<Rightarrow> co_badged_card_row list option \<Rightarrow> (debit_routing_result \<Rightarrow> json) \<Rightarrow>
   co_badged_card_request option \<Rightarrow> string list option \<Rightarrow> string option \<Rightarrow> f64 \<Rightarrow> decision" where
  "perform_debit_routing cfg table render metadata eligible card_isin amount =
     (case Option.bind metadata (\<lambda>q. sorted_networks_by_fee cfg table q card_isin amount) of
        None \<Rightarrow> Inl return_debit_routing_application_error
      | Some result \<Rightarrow> Inr
          \<lparr>dg_decided_gateway =
             (case eligible of Some (gw # _) \<Rightarrow> gw | _ \<Rightarrow> []),
           dg_fallback_gateways = [], dg_gateway_priority_map = None, dg_filter_wise_gateways = None,
           dg_priority_logic_tag = None, dg_routing_approach = NtwBasedRouting,
           dg_gateway_before_evaluation = None, dg_priority_logic_output = None,
           dg_debit_routing_output = Some (render result), dg_reset_approach = NoReset,
           dg_routing_dimension = None, dg_routing_dimension_level = None,
           dg_is_scheduled_outage = False, dg_is_dynamic_mga_enabled = False,
           dg_gateway_mga_id_map = None, dg_is_rust_based_decider = True, dg_latency = None,
           dg_multi_objective_info = None\<rparr>)"

end
