(* ===== verification/Network_Correct.thy ===== *)
theory Network_Correct
  imports Network_Decider
begin

text \<open>
  What debit routing answers: the networks of a co-badged debit card in the order of their fees,
  and which card numbers never find their networks.
\<close>

section \<open>Savings\<close>

declare is_global_network.simps [simp del]

declare fle_infs [simp] not_fle_infs [simp]

lemma scale_pos_mono:
  assumes "fle a b" "0 < c"
  shows "fle (fdiv a (Fin c)) (fdiv b (Fin c))" "fle (fmul a (Fin c)) (fmul b (Fin c))"
proof -
  consider (fin) x y where "a = Fin x" "b = Fin y" "x \<le> y" | (top) "b = PInf" "a \<noteq> NaN" | (bot) "a = NInf" "b \<noteq> NaN"
    using assms(1) by (cases a; cases b) (auto simp: fle_def)
  note c = this
  from c show "fle (fdiv a (Fin c)) (fdiv b (Fin c))"
  proof cases
    case fin
    then show ?thesis using assms(2) by (simp add: fdiv_def f64_of_rat_mono divide_right_mono)
  next
    case top
    with assms(2) show ?thesis by (cases a) (simp_all add: fdiv_def inf_of_sign_def)
  next
    case bot
    with assms(2) show ?thesis by (cases b) (simp_all add: fdiv_def inf_of_sign_def)
  qed
  from c show "fle (fmul a (Fin c)) (fmul b (Fin c))"
  proof cases
    case fin
    then show ?thesis using assms(2) by (simp add: fmul_def f64_of_rat_mono mult_right_mono)
  next
    case top
    with assms(2) show ?thesis by (cases a) (simp_all add: fmul_def inf_of_sign_def)
  next
    case bot
    with assms(2) show ?thesis by (cases b) (simp_all add: fmul_def inf_of_sign_def)
  qed
qed

lemma fround_mono: "fle a b \<Longrightarrow> fle (fround a) (fround b)"
proof -
  assume "fle a b"
  then consider (fin) x y where "a = Fin x" "b = Fin y" "x \<le> y" | (top) "b = PInf" "a \<noteq> NaN" | (bot) "a = NInf" "b \<noteq> NaN"
    by (cases a; cases b) (auto simp: fle_def)
  then show ?thesis
  proof cases
    case fin
    have "\<lceil>x - 1 / 2\<rceil> \<le> \<lfloor>y + 1 / 2\<rfloor>" if "x < 0" "0 \<le> y"
    proof -
      have "\<lceil>x - 1 / 2\<rceil> \<le> 0" "0 \<le> \<lfloor>y + 1 / 2\<rfloor>" using that by (simp_all add: ceiling_le_iff)
      then show ?thesis by (rule order_trans)
    qed
    then show ?thesis using fin by (auto intro: floor_mono ceiling_mono)
  next
    case top
    then show ?thesis by (cases a) simp_all
  next
    case bot
    then show ?thesis by (cases b) simp_all
  qed
qed

lemma fsub_antimono: "x \<le> y \<Longrightarrow> fle (fsub (Fin b) (Fin y)) (fsub (Fin b) (Fin x))"
  by (simp add: fsub_def f64_of_rat_mono)

lemma saving_nonneg: "is_finite base \<Longrightarrow> is_finite amount \<Longrightarrow> is_finite fee \<Longrightarrow> fle (Fin 0) (saving_percentage base amount fee)"
proof -
  assume "is_finite base" "is_finite amount" "is_finite fee"
  then obtain b a f where f: "base = Fin b" "amount = Fin a" "fee = Fin f" by (cases base; cases amount; cases fee) auto
  show ?thesis
  proof (cases "flt (Fin 0) (fsub base fee) \<and> flt (Fin 0) amount")
    case True
    then have "fle (Fin 0) (fsub base fee)" "0 < a" by (simp_all add: f flt_imp_fle)
    then have "fle (fdiv (fround (fmul (fdiv (Fin 0) (Fin a)) (Fin 10000))) (Fin 100))
        (fdiv (fround (fmul (fdiv (fsub base fee) amount) (Fin 10000))) (Fin 100))"
      unfolding f by (intro scale_pos_mono fround_mono) simp_all
    moreover have "fdiv (fround (fmul (fdiv (Fin 0) (Fin a)) (Fin 10000))) (Fin 100) = Fin 0"
    proof -
      have "\<lfloor>1 / 2 :: rat\<rfloor> = 0" by (simp add: floor_eq_iff)
      then show ?thesis using \<open>0 < a\<close> by (simp add: fdiv_def fmul_def)
    qed
    ultimately show ?thesis using True by (simp only: saving_percentage_def Let_def simp_thms if_True)
  qed (auto simp: saving_percentage_def Let_def)
qed

lemma saving_antimono:
  assumes "x \<le> y"
  shows "fle (saving_percentage (Fin b) (Fin a) (Fin y)) (saving_percentage (Fin b) (Fin a) (Fin x))"
proof (cases "flt (Fin 0) (fsub (Fin b) (Fin y)) \<and> flt (Fin 0) (Fin a)")
  case True
  then have "flt (Fin 0) (fsub (Fin b) (Fin x))"
    using fsub_antimono [OF assms] flt_fle_trans by blast
  with True have "saving_percentage (Fin b) (Fin a) (Fin x) =
      fdiv (fround (fmul (fdiv (fsub (Fin b) (Fin x)) (Fin a)) (Fin 10000))) (Fin 100)"
    by (simp add: saving_percentage_def Let_def)
  with True show ?thesis
    using fsub_antimono [OF assms] by (simp add: saving_percentage_def Let_def scale_pos_mono fround_mono)
next
  case False
  then have "saving_percentage (Fin b) (Fin a) (Fin y) = Fin 0" by (auto simp: saving_percentage_def Let_def)
  then show ?thesis by (simp add: saving_nonneg)
qed

section \<open>Fees\<close>

lemma collect_results_Inr: "collect_results f xs = Inr ys \<longleftrightarrow> list_all2 (\<lambda>x y. f x = Inr y) xs ys"
  by (induction xs arbitrary: ys) (auto simp: rbind_eq_Inr list_all2_Cons1)

lemma total_fee_network: "total_fee cfg info mcc amount n = Inr (m, fee) \<Longrightarrow> m = n"
  by (auto simp: total_fee_def rbind_eq_Inr)

lemma fees_networks:
  assumes "calculate_total_fees_per_network cfg info mcc amount = Inr fees"
  shows "List.map fst fees = ci_co_badged_card_networks info"
proof -
  have "list_all2 (\<lambda>n x. total_fee cfg info mcc amount n = Inr x) (ci_co_badged_card_networks info) fees"
    using assms by (simp add: calculate_total_fees_per_network_def collect_results_Inr)
  then show ?thesis
    by (induction rule: list_all2_induct) (auto dest: total_fee_network)
qed

definition by_fee :: "network \<times> f64 \<Rightarrow> network \<times> f64 \<Rightarrow> ordering" where
  "by_fee = (\<lambda>(_, fee1) (_, fee2). ftotal_cmp fee1 fee2)"

lemma by_fee_total: "total_cmp_on A by_fee"
  unfolding by_fee_def split_def by (rule total_cmp_by_ftotal)

lemma sorted_by_fee: "sorted_wrt (\<lambda>x y. fle (snd x) (snd y) \<or> snd y = NaN) (sort_by by_fee costs)"
  using sorted_sort_by [OF by_fee_total, of costs]
  by (simp add: by_fee_def split_def ftotal_not_greater)

section \<open>The answer\<close>

lemma saving_infos_cases:
  assumes "calculate_network_saving_infos costs amount = Some infos"
  obtains (flat) "infos = calculate_savings costs (\<lambda>_. Fin 0)"
      "\<forall>n baseline. find (\<lambda>(n, _). is_global_network n) costs = Some (n, baseline) \<longrightarrow> costs ! 0 = (n, baseline)"
    | (saving) n baseline where "find (\<lambda>(n, _). is_global_network n) costs = Some (n, baseline)"
      "infos = calculate_savings costs (saving_percentage baseline amount)"
  using assms
  by (auto simp: calculate_network_saving_infos_def split: list.splits if_splits option.splits)

lemma infos_networks [simp]: "List.map ns_network (calculate_savings costs f) = List.map fst costs"
  by (auto simp: calculate_savings_def)

lemma infos_savings: "List.map ns_saving_percentage (calculate_savings costs f) = List.map (f \<circ> snd) costs"
  by (auto simp: calculate_savings_def)

text \<open>
  C19. When debit routing answers, it lists exactly the networks of the card, in the order of their
  total fees, from the cheapest on. With finite fees and amount the savings are never negative and
  never increase along the list, and every network that is not cheaper than the cheapest global
  network has saving zero; without a global network all savings are zero.
\<close>

theorem debit_networks_cheapest_first:
  assumes out: "sorted_networks_by_fee cfg table q isin amount = Some out"
    and info: "fetch_co_badged_card_info table q isin = Some info"
    and fees: "calculate_total_fees_per_network cfg info (cq_merchant_category_code q) amount = Inr fees"
    and fin: "is_finite amount" "\<forall>x\<in>set fees. is_finite (snd x)"
  shows "\<exists>sorted. mset sorted = mset fees \<and> sorted_wrt (\<lambda>x y. fle (snd x) (snd y)) sorted \<and>
    (let infos = do_co_badged_card_networks_info out; savings = List.map ns_saving_percentage infos in
      List.map ns_network infos = List.map fst sorted \<and>
      mset (List.map ns_network infos) = mset (ci_co_badged_card_networks info) \<and>
      list_all (fle (Fin 0)) savings \<and> sorted_wrt (\<lambda>a b. fle b a) savings \<and>
      (case find (\<lambda>(n, _). is_global_network n) sorted of
         None \<Rightarrow> list_all (\<lambda>s. s = Fin 0) savings
       | Some (_, baseline) \<Rightarrow>
           list_all2 (\<lambda>(_, fee) s. fle baseline fee \<longrightarrow> s = Fin 0) sorted savings))"
proof -
  let ?sorted = "sort_by by_fee fees"
  from out info fees obtain infos where infos: "calculate_network_saving_infos ?sorted amount = Some infos"
    and o: "do_co_badged_card_networks_info out = infos"
    by (auto simp: sorted_networks_by_fee_def calculate_network_fees_def bind_eq_Some_conv by_fee_def)
  have fin': "is_finite (snd x)" if "x \<in> set ?sorted" for x using fin(2) that by simp
  have sorted: "sorted_wrt (\<lambda>x y. fle (snd x) (snd y)) ?sorted"
  proof (rule sorted_wrt_mono_rel [OF _ sorted_by_fee])
    fix x y
    assume "y \<in> set ?sorted" "fle (snd x) (snd y) \<or> snd y = NaN"
    then show "fle (snd x) (snd y)" using fin' [of y] by auto
  qed
  obtain a where a: "amount = Fin a" using fin(1) by (cases amount) auto
  have nets: "mset (List.map fst ?sorted) = mset (ci_co_badged_card_networks info)"
    using fees_networks [OF fees] by (metis mset_map mset_sort_by)
  have answer: ?thesis
    if "List.map ns_network infos = List.map fst ?sorted" "List.map ns_saving_percentage infos = sv"
      "list_all (fle (Fin 0)) sv" "sorted_wrt (\<lambda>a b. fle b a) sv"
      "case find (\<lambda>(n, _). is_global_network n) ?sorted of
         None \<Rightarrow> list_all (\<lambda>s. s = Fin 0) sv
       | Some (_, baseline) \<Rightarrow> list_all2 (\<lambda>(_, fee) s. fle baseline fee \<longrightarrow> s = Fin 0) ?sorted sv" for sv
    unfolding Let_def o that(1,2) using sorted nets that(3-5) by (intro exI [of _ ?sorted] conjI) simp_all
  from infos show ?thesis
  proof (cases rule: saving_infos_cases)
    case flat
    have n: "List.map ns_network infos = List.map fst ?sorted" by (simp add: flat(1))
    have f: "List.map ns_saving_percentage infos = replicate (length ?sorted) (Fin 0)"
      unfolding flat(1) infos_savings by (simp add: comp_def map_replicate_const)
    show ?thesis
      by (rule answer [OF n f])
        (auto simp: sorted_wrt_iff_nth_less list_all_length list_all2_conv_all_nth split: option.split)
  next
    case (saving n baseline)
    have "(n, baseline) \<in> set ?sorted" using saving(1) by (auto simp: find_Some_iff) (metis length_sort_by nth_mem set_sort_by)
    then obtain b where b: "baseline = Fin b" using fin' [of "(n, baseline)"] by (cases baseline) auto
    let ?save = "saving_percentage (Fin b) (Fin a)"
    have s: "List.map ns_saving_percentage infos = List.map (?save \<circ> snd) ?sorted"
      unfolding saving(2) infos_savings a b ..
    have nonneg: "list_all (fle (Fin 0)) (List.map (?save \<circ> snd) ?sorted)"
      using fin' by (auto simp: list_all_iff intro: saving_nonneg)
    have dec: "sorted_wrt (\<lambda>a b. fle b a) (List.map (?save \<circ> snd) ?sorted)"
      unfolding sorted_wrt_map
      using sorted
    proof (rule sorted_wrt_mono_rel [rotated])
      fix x y
      assume "x \<in> set ?sorted" "y \<in> set ?sorted" and le: "fle (snd x) (snd y)"
      then obtain u v where "snd x = Fin u" "snd y = Fin v" using fin' by (metis is_finite.elims(2))
      with le show "fle ((?save \<circ> snd) y) ((?save \<circ> snd) x)" by (simp add: saving_antimono)
    qed
    have zero: "?save fee = Fin 0" if "fle baseline fee" for fee
    proof -
      have "\<not> flt (Fin 0) (fsub (Fin b) fee)"
      proof -
        have "fle (fsub (Fin b) fee) (fsub (Fin b) (Fin b))" if "is_finite fee"
          using that \<open>fle baseline fee\<close> fsub_antimono by (cases fee) (auto simp: b)
        then show ?thesis
          using \<open>fle baseline fee\<close> flt_fle_trans [of "Fin 0" "fsub (Fin b) fee" "Fin 0"]
          by (cases fee) (auto simp: b fsub_def)
      qed
      then show ?thesis by (simp add: saving_percentage_def)
    qed
    have "list_all2 (\<lambda>(_, fee) s. fle baseline fee \<longrightarrow> s = Fin 0) ?sorted (List.map (?save \<circ> snd) ?sorted)"
      by (auto simp: list_all2_conv_all_nth split_def zero)
    then show ?thesis
      using nonneg dec saving(1) by (intro answer [OF _ s]) (simp_all add: saving(2))
  qed
qed

section \<open>The table of card ranges\<close>

text \<open>
  An answer from the table of card ranges names at least two networks, exactly one of them
  global. Each is the network of a row of the table for the card number (or, without rows for its
  eight digits, for the first six) that is a physical debit card which is not prepaid.
\<close>

theorem co_badged_answer:
  assumes "get_co_badged_cards_info (Some table) isin = Inr (Some info)"
  shows "2 \<le> length (ci_co_badged_card_networks info) \<and>
    length (filter is_global_network (ci_co_badged_card_networks info)) = 1 \<and>
    (\<exists>isin'\<in>{isin, take 6 isin}. \<exists>n. parse_i64 (pad_card_number_to_19_digit isin') = Some n \<and>
      (\<forall>net\<in>set (ci_co_badged_card_networks info). \<exists>r\<in>set table.
         cr_card_bin_min r \<le> n \<and> n \<le> cr_card_bin_max r \<and> network_from_string (cr_card_network r) = Some net \<and>
         cr_card_type r = Some NetworkDebit \<and> cr_pan_or_token r = Pan \<and> cr_prepaid r = Some False))"
proof -
  from assms obtain isin' records where l: "co_badged_cards_info_lookup (Some table) isin' = Inr records"
    "isin' \<in> {isin, take 6 isin}"
    and rest: "(let cards = List.map_filter (\<lambda>r. case try_into_card r of Inr c \<Rightarrow> Some c | Inl _ \<Rightarrow> None) records;
              filtered = filter_cards cards in
          if is_valid_length cards \<and> is_only_one_global_network_present cards \<and> is_valid_length filtered
          then rbind (get_co_badged_cards_info_response filtered) (\<lambda>i. Inr (Some i))
          else Inr None) = (Inr (Some info) :: api_error + co_badged_card_info option)"
    by (auto simp: get_co_badged_cards_info_def rbind_eq_Inr split: if_splits)
  define cards where "cards = List.map_filter (\<lambda>r. case try_into_card r of Inr c \<Rightarrow> Some c | Inl _ \<Rightarrow> None) records"
  from rest have valid: "is_valid_length (filter_cards cards)" "is_only_one_global_network_present cards"
    and resp: "get_co_badged_cards_info_response (filter_cards cards) = Inr info"
    by (auto simp: Let_def cards_def rbind_eq_Inr split: if_splits)
  from resp obtain g where g: "find (\<lambda>c. is_global_network (cb_card_network c)) (filter_cards cards) = Some g"
    and nets: "ci_co_badged_card_networks info = List.map cb_card_network (filter_cards cards)"
    by (auto simp: get_co_badged_cards_info_response_def rbind_eq_Inr get_global_network_card_def extract_networks_def)
  let ?glob = "\<lambda>c. is_global_network (cb_card_network c)"
  have "length (filter ?glob (filter_cards cards)) \<le> length (filter ?glob cards)"
    unfolding filter_cards_def by (induction cards) auto
  moreover have "0 < length (filter ?glob (filter_cards cards))"
    using g by (auto simp: find_Some_iff filter_empty_conv length_greater_0_conv)
  ultimately have one: "length (filter ?glob (filter_cards cards)) = 1"
    using valid(2) by (simp add: is_only_one_global_network_present_def del: length_greater_0_conv)
  from l(1) obtain n where n: "parse_i64 (pad_card_number_to_19_digit isin') = Some n"
    and records: "records = filter (\<lambda>r. cr_card_bin_min r \<le> n \<and> n \<le> cr_card_bin_max r) table"
    by (auto simp: co_badged_cards_info_lookup_def rbind_eq_Inr find_co_badged_cards_info_by_card_bin_def)
  have row: "\<exists>r\<in>set table. cr_card_bin_min r \<le> n \<and> n \<le> cr_card_bin_max r \<and>
      network_from_string (cr_card_network r) = Some (cb_card_network c) \<and>
      cr_card_type r = Some NetworkDebit \<and> cr_pan_or_token r = Pan \<and> cr_prepaid r = Some False"
    if c: "c \<in> set (filter_cards cards)" for c
  proof -
    from c obtain r where "r \<in> set records" "try_into_card r = Inr c"
      by (auto simp: filter_cards_def cards_def map_filter_def split: sum.splits)
    with c show ?thesis
      by (intro bexI [of _ r]) (auto simp: records filter_cards_def try_into_card_def rbind_eq_Inr)
  qed
  have "length (filter is_global_network (ci_co_badged_card_networks info)) = 1"
    using one by (simp add: nets filter_map comp_def)
  moreover have "2 \<le> length (ci_co_badged_card_networks info)"
    using valid(1) by (simp add: nets is_valid_length_def)
  ultimately show ?thesis using l(2) n row unfolding nets by (intro conjI bexI [of _ isin'] exI [of _ n]) auto
qed

text \<open>
  The padded number of a card that starts with 922338 or more does not fit 64 bits: its networks
  are never found, whatever the table holds.
\<close>

lemma foldl_digits: "foldl (\<lambda>acc d. 10 * acc + (of_char d - 48)) (a :: nat) ds =
    a * 10 ^ length ds + foldl (\<lambda>acc d. 10 * acc + (of_char d - 48)) 0 ds"
proof (induction ds arbitrary: a)
  case (Cons d ds)
  show ?case using Cons [of "10 * a + (of_char d - 48)"] Cons [of "of_char d - 48"] by (simp add: algebra_simps)
qed simp

lemma digits_value_append: "digits_value (xs @ ys) = digits_value xs * 10 ^ length ys + digits_value ys"
  unfolding digits_value_def foldl_append by (rule foldl_digits)

lemma digits_value_zeros: "digits_value (replicate n (CHR ''0'')) = 0"
  by (induction n) (simp_all add: digits_value_def)

lemma high_bins_never_found:
  assumes "length isin = 6" "922338 \<le> digits_value isin" "list_all is_digit isin"
  shows "get_co_badged_cards_info table isin = Inl UnknownError"
proof -
  let ?p = "pad_card_number_to_19_digit isin"
  have v: "digits_value ?p = digits_value isin * 10 ^ 13"
    by (simp add: pad_card_number_to_19_digit_def digits_value_append digits_value_zeros assms(1))
  obtain c cs where c: "isin = c # cs" "is_digit c" using assms(1,3) by (cases isin) auto
  then have "c \<noteq> CHR ''-''" "c \<noteq> CHR ''+''" by (auto simp: is_digit_def)
  then have s: "split_sign ?p = (False, ?p)" using c by (simp add: split_sign_def pad_card_number_to_19_digit_def)
  have "2 ^ 63 \<le> int (digits_value ?p)" unfolding v using assms(2) by simp
  then have "parse_i64 ?p = None" by (simp add: parse_i64_def s)
  then show ?thesis by (simp add: get_co_badged_cards_info_def co_badged_cards_info_lookup_def)
qed

section \<open>Examples\<close>

definition flat_fee :: "nat \<Rightarrow> network_processing_data" where
  "flat_fee n = \<lparr>np_percentage = Fin 0, np_fixed_amount = Fin (of_nat n)\<rparr>"

definition demo_fees :: debit_routing_config where
  "demo_fees = \<lparr>dr_network_fee = [(VISA, flat_fee 2), (STAR, flat_fee 1)], dr_non_regulated = [],
     dr_regulated = flat_fee 1, dr_fraud_check_fee = Fin 0\<rparr>"

definition demo_card :: co_badged_card_info where
  "demo_card = \<lparr>ci_co_badged_card_networks = [VISA, STAR], ci_issuer_country = ''US'', ci_is_regulated = True,
     ci_regulated_name = None, ci_card_type = NetworkDebit\<rparr>"

definition demo_query :: co_badged_card_request where
  "demo_query = \<lparr>cq_merchant_category_code = Mcc0001, cq_acquirer_country = ''US'', cq_co_badged_card_data = Some demo_card\<rparr>"

lemma demo_total:
  "calculate_total_fees_per_network demo_fees demo_card Mcc0001 (Fin 100) = Inr [(VISA, Fin 3), (STAR, Fin 2)]"
  using f64_of_nat [of 1] f64_of_nat [of 2] f64_of_nat [of 3]
  by (simp add: calculate_total_fees_per_network_def demo_card_def total_fee_def calculate_interchange_fee_def
      calculate_network_fee_def get_network_fee_def demo_fees_def flat_fee_def fee_of_def
      apply_fraud_check_fee_if_applicable_def fmul_def fdiv_def)

lemma debit_networks_cheapest_first_witness:
  "\<exists>out. sorted_networks_by_fee demo_fees None demo_query None (Fin 100) = Some out \<and>
     mset (List.map ns_network (do_co_badged_card_networks_info out)) = {#VISA, STAR#} \<and>
     list_all (fle (Fin 0)) (List.map ns_saving_percentage (do_co_badged_card_networks_info out))"
proof -
  have f: "fetch_co_badged_card_info None demo_query None = Some demo_card"
    by (simp add: fetch_co_badged_card_info_def demo_query_def)
  have c: "cq_merchant_category_code demo_query = Mcc0001" by (simp add: demo_query_def)
  obtain infos where "calculate_network_saving_infos
      (sort_by (\<lambda>(_, fee1) (_, fee2). ftotal_cmp fee1 fee2) [(VISA, Fin 3), (STAR, Fin 2)]) (Fin 100) = Some infos"
    by (simp add: calculate_network_saving_infos_def sort_by_def ftotal_cmp_def)
  then obtain out where o: "sorted_networks_by_fee demo_fees None demo_query None (Fin 100) = Some out"
    by (simp add: sorted_networks_by_fee_def f calculate_network_fees_def c demo_total)
  have "mset (List.map ns_network (do_co_badged_card_networks_info out)) = mset (ci_co_badged_card_networks demo_card) \<and>
      list_all (fle (Fin 0)) (List.map ns_saving_percentage (do_co_badged_card_networks_info out))"
    using debit_networks_cheapest_first [OF o f, unfolded c, OF demo_total] by (auto simp: Let_def)
  with o show ?thesis by (simp add: demo_card_def)
qed

definition demo_row :: "string \<Rightarrow> co_badged_card_row" where
  "demo_row network = \<lparr>cr_card_bin_min = 0, cr_card_bin_max = 9 * 10 ^ 18, cr_issuing_bank_name = None,
     cr_card_network = network, cr_country_code = Some ''US'', cr_card_type = Some NetworkDebit,
     cr_regulated = Some True, cr_regulated_name = None, cr_prepaid = Some False, cr_pan_or_token = Pan\<rparr>"

definition demo_network_card :: "network \<Rightarrow> co_badged_card" where
  "demo_network_card n = \<lparr>cb_issuing_bank_name = None, cb_card_network = n, cb_country_code = Some ''US'',
     cb_card_type = Some NetworkDebit, cb_regulated = Some True, cb_regulated_name = None,
     cb_prepaid = Some False, cb_pan_or_token = Pan\<rparr>"

lemma demo_try_into: "network_from_string s = Some n \<Longrightarrow> try_into_card (demo_row s) = Inr (demo_network_card n)"
  by (simp add: try_into_card_def demo_row_def demo_network_card_def)

lemma demo_network_card_simps [simp]:
  "cb_card_network (demo_network_card n) = n" "get_country_code (demo_network_card n) = Inr ''US''"
  "get_is_regulated (demo_network_card n) = Inr True" "get_card_type (demo_network_card n) = Inr NetworkDebit"
  "filter_cards [demo_network_card n, demo_network_card m] = [demo_network_card n, demo_network_card m]"
  by (simp_all add: demo_network_card_def get_country_code_def get_is_regulated_def get_card_type_def filter_cards_def)

lemma co_badged_answer_witness:
  "\<exists>info. get_co_badged_cards_info (Some [demo_row ''VISA'', demo_row ''STAR'']) ''400000'' = Inr (Some info) \<and>
     2 \<le> length (ci_co_badged_card_networks info) \<and>
     length (filter is_global_network (ci_co_badged_card_networks info)) = 1"
proof -
  let ?t = "[demo_row ''VISA'', demo_row ''STAR'']"
  have p: "pad_card_number_to_19_digit ''400000'' = ''400000'' @ replicate 13 (CHR ''0'')"
    by (simp add: pad_card_number_to_19_digit_def)
  have "digits_value ''400000'' = 400000" by (simp add: digits_value_def)
  then have "digits_value (''400000'' @ replicate 13 (CHR ''0'')) = 4 * 10 ^ 18"
    unfolding digits_value_append digits_value_zeros by simp
  then have "parse_i64 (pad_card_number_to_19_digit ''400000'') = Some (4 * 10 ^ 18)"
    unfolding p by (simp add: parse_i64_def split_sign_def list_all_iff is_digit_def)
  then have l: "co_badged_cards_info_lookup (Some ?t) ''400000'' = Inr ?t"
    by (simp add: co_badged_cards_info_lookup_def find_co_badged_cards_info_by_card_bin_def demo_row_def)
  have "network_from_string ''VISA'' = Some VISA" "network_from_string ''STAR'' = Some STAR"
    by (simp_all add: network_from_string_def)
  note c = demo_try_into [OF this(1)] demo_try_into [OF this(2)]
  have "\<exists>info. get_co_badged_cards_info_response [demo_network_card VISA, demo_network_card STAR] = Inr info"
    by (simp add: get_co_badged_cards_info_response_def get_global_network_card_def is_global_network.simps)
  then have "\<exists>info. get_co_badged_cards_info (Some ?t) ''400000'' = Inr (Some info)"
    by (auto simp: get_co_badged_cards_info_def l c map_filter_def Let_def is_valid_length_def
        is_only_one_global_network_present_def is_global_network.simps)
  then obtain info where i: "get_co_badged_cards_info (Some ?t) ''400000'' = Inr (Some info)" ..
  from co_badged_answer [OF i] i show ?thesis by blast
qed

end
