(* ===== verification/Cost_Segment.thy ===== *)
theory Cost_Segment
  imports F64_Round Prelude
begin

text \<open>
  Splitting a cost cluster into straight pieces (\<open>src/src/cost_ingestion/segment.rs\<close>): least squares
  on sums per band of amounts, and the dynamic programme over the band boundaries that looks for the
  pieces that price the most volume with the fewest cuts. \<open>powf\<close> and \<open>log10\<close> are arguments.
\<close>

section \<open>Sums\<close>

definition BUCKETS_PER_DECADE :: f64 where "BUCKETS_PER_DECADE = Fin 10"
definition MIN_N :: f64 where "MIN_N = Fin 200"
definition MAX_BPS :: f64 where "MAX_BPS = Fin 15"
definition MAX_SEGMENTS :: nat where "MAX_SEGMENTS = 5"
definition SEG_FLOOR :: f64 where "SEG_FLOOR = Fin 25"
definition L2_MAX_PCT_BPS_CI :: f64 where "L2_MAX_PCT_BPS_CI = Fin 15"
definition MIN_GOOD_VOLUME_FRACTION :: f64 where "MIN_GOOD_VOLUME_FRACTION = f64_of_rat (9 / 10)"

record suff_stats =
  ss_n :: f64
  ss_sx :: f64
  ss_sy :: f64
  ss_sxx :: f64
  ss_sxy :: f64
  ss_syy :: f64
  ss_su :: f64
  ss_suu :: f64
  ss_suy :: f64
  ss_suuy :: f64
  ss_syyuu :: f64

type_synonym band = "int \<times> suff_stats"

definition default_stats :: suff_stats where
  "default_stats = \<lparr>ss_n = Fin 0, ss_sx = Fin 0, ss_sy = Fin 0, ss_sxx = Fin 0, ss_sxy = Fin 0, ss_syy = Fin 0,
     ss_su = Fin 0, ss_suu = Fin 0, ss_suy = Fin 0, ss_suuy = Fin 0, ss_syyuu = Fin 0\<rparr>"

definition add_transaction :: "suff_stats \<Rightarrow> f64 \<Rightarrow> f64 \<Rightarrow> suff_stats" where
  "add_transaction s x y =
     (let u = fdiv (Fin 1) x in
      \<lparr>ss_n = fadd (ss_n s) (Fin 1), ss_sx = fadd (ss_sx s) x, ss_sy = fadd (ss_sy s) y,
       ss_sxx = fadd (ss_sxx s) (fmul x x), ss_sxy = fadd (ss_sxy s) (fmul x y),
       ss_syy = fadd (ss_syy s) (fmul y y), ss_su = fadd (ss_su s) u, ss_suu = fadd (ss_suu s) (fmul u u),
       ss_suy = fadd (ss_suy s) (fmul u y), ss_suuy = fadd (ss_suuy s) (fmul (fmul u u) y),
       ss_syyuu = fadd (ss_syyuu s) (fmul (fmul (fmul y y) u) u)\<rparr>)"

definition add_assign :: "suff_stats \<Rightarrow> suff_stats \<Rightarrow> suff_stats" where
  "add_assign s t =
     \<lparr>ss_n = fadd (ss_n s) (ss_n t), ss_sx = fadd (ss_sx s) (ss_sx t), ss_sy = fadd (ss_sy s) (ss_sy t),
      ss_sxx = fadd (ss_sxx s) (ss_sxx t), ss_sxy = fadd (ss_sxy s) (ss_sxy t), ss_syy = fadd (ss_syy s) (ss_syy t),
      ss_su = fadd (ss_su s) (ss_su t), ss_suu = fadd (ss_suu s) (ss_suu t), ss_suy = fadd (ss_suy s) (ss_suy t),
      ss_suuy = fadd (ss_suuy s) (ss_suuy t), ss_syyuu = fadd (ss_syyuu s) (ss_syyuu t)\<rparr>"

definition stats_sub :: "suff_stats \<Rightarrow> suff_stats \<Rightarrow> suff_stats" where
  "stats_sub s t =
     \<lparr>ss_n = fsub (ss_n s) (ss_n t), ss_sx = fsub (ss_sx s) (ss_sx t), ss_sy = fsub (ss_sy s) (ss_sy t),
      ss_sxx = fsub (ss_sxx s) (ss_sxx t), ss_sxy = fsub (ss_sxy s) (ss_sxy t), ss_syy = fsub (ss_syy s) (ss_syy t),
      ss_su = fsub (ss_su s) (ss_su t), ss_suu = fsub (ss_suu s) (ss_suu t), ss_suy = fsub (ss_suy s) (ss_suy t),
      ss_suuy = fsub (ss_suuy s) (ss_suuy t), ss_syyuu = fsub (ss_syyuu s) (ss_syyuu t)\<rparr>"

datatype verdict = Good | Thin | NonLinear

fun verdict_as_str :: "verdict \<Rightarrow> string" where
  "verdict_as_str Good = ''GOOD''"
| "verdict_as_str Thin = ''THIN''"
| "verdict_as_str NonLinear = ''NON_LINEAR''"

record segment =
  sg_lo :: f64
  sg_hi :: f64
  sg_n :: nat
  sg_vol :: f64
  sg_pct_bps :: "f64 option"
  sg_fixed :: "f64 option"
  sg_bps_rmse :: "f64 option"
  sg_verdict :: verdict

section \<open>One line\<close>

text \<open>\<open>f64::powf(10.0, _)\<close> is \<open>pow10f\<close>.\<close>

definition amt_range :: "(f64 \<Rightarrow> f64) \<Rightarrow> int \<Rightarrow> f64 \<times> f64" where
  "amt_range pow10f bi =
     (pow10f (fdiv (f64_of_int bi) BUCKETS_PER_DECADE),
      pow10f (fdiv (fadd (f64_of_int bi) (Fin 1)) BUCKETS_PER_DECADE))"

text \<open>\<open>as i64\<close> and \<open>as u64\<close> saturate.\<close>

fun f64_as_i64 :: "f64 \<Rightarrow> int" where
  "f64_as_i64 (Fin x) = max (- (2 ^ 63)) (min (2 ^ 63 - 1) (if 0 \<le> x then \<lfloor>x\<rfloor> else \<lceil>x\<rceil>))"
| "f64_as_i64 PInf = 2 ^ 63 - 1"
| "f64_as_i64 NInf = - (2 ^ 63)"
| "f64_as_i64 NaN = 0"

fun f64_as_u64 :: "f64 \<Rightarrow> nat" where
  "f64_as_u64 (Fin x) = nat (min (2 ^ 64 - 1) \<lfloor>x\<rfloor>)"
| "f64_as_u64 PInf = 2 ^ 64 - 1"
| "f64_as_u64 NInf = 0"
| "f64_as_u64 NaN = 0"

definition band_of :: "(f64 \<Rightarrow> f64) \<Rightarrow> f64 \<Rightarrow> int" where
  "band_of log10f amount = f64_as_i64 (ffloor (fmul (log10f amount) BUCKETS_PER_DECADE))"

definition sum_bands :: "band list \<Rightarrow> suff_stats" where
  "sum_bands bands = foldl (\<lambda>acc (_, st). add_assign acc st) default_stats bands"

definition eval_bps :: "f64 \<Rightarrow> f64 \<Rightarrow> suff_stats \<Rightarrow> f64" where
  "eval_bps a b s =
     (let n = ss_n s in
      if fle n (Fin 0) then NaN
      else
        (let q = fadd (fsub (fsub (fadd (fadd (ss_syyuu s) (fmul (fmul a a) (ss_suu s))) (fmul (fmul n b) b))
                 (fmul (fmul (Fin 2) a) (ss_suuy s))) (fmul (fmul (Fin 2) b) (ss_suy s)))
               (fmul (fmul (fmul (Fin 2) a) b) (ss_su s)) in
         fmul (fsqrt (fdiv (fmax q (Fin 0)) n)) (Fin 10000)))"

record fitted =
  ft_slope :: f64
  ft_intercept :: f64
  ft_bps_rmse :: f64
  ft_slope_se_bps :: f64

definition unfittable :: fitted where
  "unfittable = \<lparr>ft_slope = NaN, ft_intercept = NaN, ft_bps_rmse = NaN, ft_slope_se_bps = NaN\<rparr>"

definition fit :: "suff_stats \<Rightarrow> fitted" where
  "fit s =
     (let n = ss_n s in
      if flt n (Fin 2) then unfittable
      else
        (let denom = fsub (fmul n (ss_sxx s)) (fmul (ss_sx s) (ss_sx s)) in
         if fle denom (Fin 0) then unfittable
         else
           (let slope = fdiv (fsub (fmul n (ss_sxy s)) (fmul (ss_sx s) (ss_sy s))) denom;
                intercept = fdiv (fsub (ss_sy s) (fmul slope (ss_sx s))) n;
                sse = fsub (fsub (ss_syy s) (fmul intercept (ss_sy s))) (fmul slope (ss_sxy s)) in
            \<lparr>ft_slope = slope, ft_intercept = intercept, ft_bps_rmse = eval_bps intercept slope s,
             ft_slope_se_bps =
               (if flt (Fin 2) n
                then fmul (fsqrt (fdiv (fmul (fdiv (fmax sse (Fin 0)) (fsub n (Fin 2))) n) denom)) (Fin 10000)
                else PInf)\<rparr>)))"

definition crossover :: "f64 \<Rightarrow> f64 \<Rightarrow> f64" where
  "crossover slope intercept =
     (if is_nan slope \<or> fle slope (Fin 0) \<or> fle intercept (Fin 0) then Fin 0 else fdiv intercept slope)"

definition abs_rms :: "suff_stats \<Rightarrow> f64 \<Rightarrow> f64 \<Rightarrow> f64" where
  "abs_rms s a b =
     (let n = ss_n s in
      if fle n (Fin 0) then NaN
      else
        (let sse = fadd (fadd (fadd (fsub (fsub (ss_syy s) (fmul (fmul (Fin 2) a) (ss_sy s)))
                   (fmul (fmul (Fin 2) b) (ss_sxy s))) (fmul (fmul n a) a))
                   (fmul (fmul (fmul (Fin 2) a) b) (ss_sx s))) (fmul (fmul b b) (ss_sxx s)) in
         fsqrt (fdiv (fmax sse (Fin 0)) n)))"

definition split_regime :: "(f64 \<Rightarrow> f64) \<Rightarrow> band list \<Rightarrow> f64 \<Rightarrow> suff_stats \<times> suff_stats" where
  "split_regime pow10f bands astar =
     foldl (\<lambda>(below, above) (bi, st).
        if fle (snd (amt_range pow10f bi)) astar then (add_assign below st, above) else (below, add_assign above st))
       (default_stats, default_stats) bands"

definition prop_bps :: "(f64 \<Rightarrow> f64) \<Rightarrow> band list \<Rightarrow> f64 \<Rightarrow> f64 \<Rightarrow> f64" where
  "prop_bps pow10f bands slope intercept =
     (let astar = crossover slope intercept; (below, above) = split_regime pow10f bands astar in
      if flt (Fin 0) (ss_n above) then eval_bps intercept slope above
      else if flt (Fin 0) (ss_n below) \<and> flt (Fin 0) astar
      then fmul (fdiv (abs_rms below intercept slope) astar) (Fin 10000)
      else NaN)"

definition grade_seg :: "(f64 \<Rightarrow> f64) \<Rightarrow> suff_stats \<Rightarrow> band list \<Rightarrow> verdict" where
  "grade_seg pow10f s bands =
     (let n = ss_n s in
      if flt n SEG_FLOOR then Thin
      else
        (let f = fit s in
         if is_nan (ft_slope f) then NonLinear
         else
           (let b = prop_bps pow10f bands (ft_slope f) (ft_intercept f) in
            if is_nan b \<or> flt MAX_BPS b then NonLinear
            else if fle MIN_N n then Good
            else if fle (fmul (f64_of_rat (196 / 100)) (ft_slope_se_bps f)) L2_MAX_PCT_BPS_CI then Good
            else Thin)))"

definition whole_cluster_verdict :: "(f64 \<Rightarrow> f64) \<Rightarrow> band list \<Rightarrow> verdict" where
  "whole_cluster_verdict pow10f bands =
     (let whole = sum_bands bands in
      if flt (ss_n whole) MIN_N then Thin
      else
        (let f = fit whole in
         if is_nan (ft_slope f) then NonLinear
         else
           (let b = prop_bps pow10f bands (ft_slope f) (ft_intercept f) in
            if is_nan b \<or> flt MAX_BPS b then NonLinear else Good)))"

section \<open>The dynamic programme\<close>

definition prefix_sums :: "band list \<Rightarrow> suff_stats list" where
  "prefix_sums bands = List.map (\<lambda>i. sum_bands (take i bands)) [0..<length bands + 1]"

definition range_stats :: "band list \<Rightarrow> nat \<Rightarrow> nat \<Rightarrow> suff_stats" where
  "range_stats bands i j = stats_sub (prefix_sums bands ! j) (prefix_sums bands ! i)"

definition piece_cost :: "band list \<Rightarrow> nat \<Rightarrow> nat \<Rightarrow> f64" where
  "piece_cost bands i j =
     (let s = range_stats bands i j in
      if flt (ss_n s) SEG_FLOOR then PInf
      else
        (let b = ft_bps_rmse (fit s) in
         if is_nan b then PInf
         else (let x = fdiv b (Fin 10000) in fmul (fmul x x) (ss_n s))))"

text \<open>One cell of \<open>dp\<close> and \<open>back\<close>: the scan over the start of the last piece.\<close>

definition dp_cell :: "(nat \<Rightarrow> nat \<Rightarrow> f64) \<Rightarrow> f64 list \<Rightarrow> nat \<Rightarrow> f64 \<times> nat option" where
  "dp_cell cost prev j =
     foldl (\<lambda>(best, from) i.
        if prev ! i = PInf then (best, from)
        else
          (let c = cost i j in
           if c \<noteq> PInf \<and> flt (fadd (prev ! i) c) best then (fadd (prev ! i) c, Some i) else (best, from)))
       (PInf, None) [0..<j]"

fun dp_row :: "(nat \<Rightarrow> nat \<Rightarrow> f64) \<Rightarrow> nat \<Rightarrow> nat \<Rightarrow> (f64 \<times> nat option) list" where
  "dp_row cost m 0 = (Fin 0, None) # replicate m (PInf, None)"
| "dp_row cost m (Suc k) =
     (PInf, None) # List.map (dp_cell cost (List.map fst (dp_row cost m k))) [1..<m + 1]"

text \<open>From the end of the bands back to their start.\<close>

fun rebuild :: "(nat \<Rightarrow> nat \<Rightarrow> f64) \<Rightarrow> nat \<Rightarrow> nat \<Rightarrow> nat \<Rightarrow> (nat \<times> nat) list option" where
  "rebuild cost m 0 j = Some []"
| "rebuild cost m (Suc k) j =
     (case snd (dp_row cost m (Suc k) ! j) of
        None \<Rightarrow> None
      | Some i \<Rightarrow> map_option (\<lambda>parts. parts @ [(i, j)]) (rebuild cost m k i))"

definition slice :: "nat \<Rightarrow> nat \<Rightarrow> 'a list \<Rightarrow> 'a list" where
  "slice p q xs = take (q - p) (drop p xs)"

definition good_volume :: "(f64 \<Rightarrow> f64) \<Rightarrow> band list \<Rightarrow> (nat \<times> nat) list \<Rightarrow> f64" where
  "good_volume pow10f bands parts =
     foldl (\<lambda>v (p, q).
        if grade_seg pow10f (range_stats bands p q) (slice p q bands) = Good
        then fadd v (fsub (ss_sx (prefix_sums bands ! q)) (ss_sx (prefix_sums bands ! p))) else v)
       (Fin 0) parts"

definition cents :: "f64 \<Rightarrow> f64" where
  "cents v = fdiv (fround (fmul v (Fin 100))) (Fin 100)"

text \<open>The loop over the numbers of pieces, with the best partition so far and its key.\<close>

definition pick_parts ::
  "(f64 \<Rightarrow> f64) \<Rightarrow> band list \<Rightarrow> nat list \<Rightarrow> ((nat \<times> nat) list \<times> f64 \<times> int) option" where
  "pick_parts pow10f bands ks =
     (let m = length bands; cost = piece_cost bands in
      foldl (\<lambda>best k.
         if fst (dp_row cost m k ! m) = PInf then best
         else (case rebuild cost m k m of
            None \<Rightarrow> best
          | Some parts \<Rightarrow>
              (let key = (cents (good_volume pow10f bands parts), - int k) in
               case best of
                 None \<Rightarrow> Some (parts, key)
               | Some (_, bk) \<Rightarrow>
                   if flt (fst bk) (fst key) \<or> (feq (fst key) (fst bk) \<and> snd bk < snd key)
                   then Some (parts, key) else best)))
        None ks)"

definition segment_partitions :: "(f64 \<Rightarrow> f64) \<Rightarrow> band list \<Rightarrow> (nat \<times> nat) list" where
  "segment_partitions pow10f bands =
     (if bands = [] then []
      else (case pick_parts pow10f bands [1..<MAX_SEGMENTS + 1] of
              Some (parts, _) \<Rightarrow> parts
            | None \<Rightarrow> [(0, length bands)]))"

definition is_clean_recovery :: "segment list \<Rightarrow> bool" where
  "is_clean_recovery segs =
     (if length segs < 2 then False
      else
        (let total = foldl fadd (Fin 0) (List.map sg_vol segs) in
         if fle total (Fin 0) then False
         else
           (let good = foldl fadd (Fin 0) (List.map sg_vol (filter (\<lambda>s. sg_verdict s = Good) segs)) in
            fle MIN_GOOD_VOLUME_FRACTION (fdiv good total))))"

definition not_nan :: "f64 \<Rightarrow> f64 option" where
  "not_nan x = (if is_nan x then None else Some x)"

definition segment_cluster :: "(f64 \<Rightarrow> f64) \<Rightarrow> band list \<Rightarrow> segment list" where
  "segment_cluster pow10f bands =
     List.map (\<lambda>(p, q).
        let seg = sum_bands (slice p q bands); f = fit seg in
        \<lparr>sg_lo = fst (amt_range pow10f (fst (bands ! p))),
         sg_hi = snd (amt_range pow10f (fst (bands ! (q - 1)))),
         sg_n = f64_as_u64 (ss_n seg), sg_vol = ss_sx seg,
         sg_pct_bps = map_option (\<lambda>x. fmul x (Fin 10000)) (not_nan (ft_slope f)),
         sg_fixed = not_nan (ft_intercept f), sg_bps_rmse = not_nan (ft_bps_rmse f),
         sg_verdict = grade_seg pow10f seg (slice p q bands)\<rparr>)
       (segment_partitions pow10f bands)"

end
