(* ===== verification/Segment_Optimal.thy ===== *)
theory Segment_Optimal
  imports Cost_Segment
begin

text \<open>
  The dynamic programme against the partitions it stands for: its table holds the least cost over
  all partitions into a given number of pieces, what it rebuilds is a partition with that cost, and
  the pick is the one of the most good volume.
\<close>

declare fle_infs [simp] not_fle_infs [simp]

section \<open>Partitions\<close>

fun tiles :: "nat \<Rightarrow> nat \<Rightarrow> (nat \<times> nat) list \<Rightarrow> bool" where
  "tiles i j [] = (i = j)"
| "tiles i j ((p, q) # ps) = (p = i \<and> p < q \<and> tiles q j ps)"

lemma tiles_append: "tiles i j (ps @ [(p, q)]) \<longleftrightarrow> tiles i p ps \<and> p < q \<and> q = j"
  by (induction i j ps rule: tiles.induct) auto

lemma tiles_le: "tiles i j ps \<Longrightarrow> i + length ps \<le> j"
  by (induction i j ps rule: tiles.induct) auto

lemma tiles_slices: "tiles i j ps \<Longrightarrow> j \<le> length xs \<Longrightarrow> concat (List.map (\<lambda>(p, q). slice p q xs) ps) = slice i j xs"
proof (induction i j ps rule: tiles.induct)
  case (2 i j p q ps)
  then have "q \<le> j" using tiles_le [of q j ps] by simp
  with 2 have "concat (List.map (\<lambda>(p, q). slice p q xs) ps) = slice q j xs" by simp
  moreover have "slice i j xs = slice i q xs @ slice q j xs"
    using 2 \<open>q \<le> j\<close> take_add [of "q - i" "j - q" "drop i xs"] by (simp add: slice_def add.commute)
  ultimately show ?case using 2 by simp
qed (simp add: slice_def)

definition usable :: "f64 \<Rightarrow> bool" where
  "usable c \<longleftrightarrow> c \<noteq> PInf \<and> c \<noteq> NaN"

definition parts_cost :: "(nat \<Rightarrow> nat \<Rightarrow> f64) \<Rightarrow> (nat \<times> nat) list \<Rightarrow> f64" where
  "parts_cost cost parts = foldl (\<lambda>s (p, q). fadd s (cost p q)) (Fin 0) parts"

lemma parts_cost_append: "parts_cost cost (ps @ [(p, q)]) = fadd (parts_cost cost ps) (cost p q)"
  by (simp add: parts_cost_def)

definition good_costs :: "(nat \<Rightarrow> nat \<Rightarrow> f64) \<Rightarrow> bool" where
  "good_costs cost \<longleftrightarrow> (\<forall>i j. usable (cost i j) \<longrightarrow> (\<exists>r\<ge>0. cost i j = Fin r))"

lemma good_costsE:
  assumes "good_costs cost" "usable (cost i j)"
  obtains r where "cost i j = Fin r" "0 \<le> r"
  using assms unfolding good_costs_def by blast

definition nonneg :: "f64 \<Rightarrow> bool" where
  "nonneg x \<longleftrightarrow> fle (Fin 0) x"

lemma nonneg_cases: "nonneg x \<Longrightarrow> (x = PInf \<Longrightarrow> P) \<Longrightarrow> (\<And>r. x = Fin r \<Longrightarrow> 0 \<le> r \<Longrightarrow> P) \<Longrightarrow> P"
  by (cases x) (auto simp: nonneg_def fle_def)

lemma nonneg_simps [simp]: "nonneg PInf" "nonneg (Fin r) \<longleftrightarrow> 0 \<le> r" "\<not> nonneg NaN"
  by (simp_all add: nonneg_def) (simp_all add: fle_def)

lemma nonneg_fadd: "nonneg x \<Longrightarrow> 0 \<le> r \<Longrightarrow> nonneg (fadd x (Fin r))"
  by (erule nonneg_cases) (simp_all add: nonneg_def f64_of_rat_nonneg)

lemma nonneg_not_nan: "nonneg x \<Longrightarrow> x \<noteq> NaN"
  by auto

lemma parts_cost_nonneg:
  assumes "good_costs cost" "\<forall>(p, q)\<in>set parts. usable (cost p q)"
  shows "nonneg (parts_cost cost parts)"
  using assms(2)
proof (induction parts rule: rev_induct)
  case (snoc x ps)
  obtain p q where x: "x = (p, q)" by (cases x)
  with snoc.prems have "usable (cost p q)" by simp
  with assms(1) obtain r where r: "cost p q = Fin r" "0 \<le> r" by (rule good_costsE)
  have "nonneg (parts_cost cost ps)" using snoc by auto
  then show ?case by (simp only: x parts_cost_append r(1) nonneg_fadd r(2))
qed (simp add: parts_cost_def)

section \<open>One cell\<close>

definition cell_inv :: "(nat \<Rightarrow> nat \<Rightarrow> f64) \<Rightarrow> f64 list \<Rightarrow> nat \<Rightarrow> nat \<Rightarrow> f64 \<times> nat option \<Rightarrow> bool" where
  "cell_inv cost prev j n r \<longleftrightarrow>
     (case snd r of
        None \<Rightarrow> fst r = PInf
      | Some i \<Rightarrow> i < n \<and> fst r = fadd (prev ! i) (cost i j) \<and> fst r \<noteq> PInf \<and> prev ! i \<noteq> PInf \<and> usable (cost i j)) \<and>
     nonneg (fst r) \<and>
     (\<forall>i<n. prev ! i \<noteq> PInf \<longrightarrow> usable (cost i j) \<longrightarrow> fle (fst r) (fadd (prev ! i) (cost i j)))"

lemma cell_step:
  assumes g: "good_costs cost" and p: "nonneg (prev ! n)" and inv: "cell_inv cost prev j n (best, from)"
  shows "cell_inv cost prev j (Suc n)
    (if prev ! n = PInf then (best, from)
     else let c = cost n j in
       if c \<noteq> PInf \<and> flt (fadd (prev ! n) c) best then (fadd (prev ! n) c, Some n) else (best, from))"
proof (cases "prev ! n \<noteq> PInf \<and> usable (cost n j)")
  case False
  have "\<not> flt (fadd (prev ! n) NaN) best" by (cases "prev ! n") auto
  with False inv show ?thesis
    by (auto simp: cell_inv_def usable_def Let_def less_Suc_eq split: option.splits)
next
  case True
  then have "usable (cost n j)" by simp
  with g obtain r where r: "cost n j = Fin r" "0 \<le> r" by (rule good_costsE)
  let ?new = "fadd (prev ! n) (Fin r)"
  have nn: "nonneg ?new" "nonneg best" using nonneg_fadd [OF p r(2)] inv by (simp_all add: cell_inv_def)
  show ?thesis
  proof (cases "flt ?new best")
    case less: True
    then have "?new \<noteq> PInf" by (cases best) auto
    moreover have "fle ?new y" if "fle best y" for y using less that flt_imp_fle fle_trans by blast
    ultimately show ?thesis
      using True less inv nn
      by (auto simp: cell_inv_def r(1) less_Suc_eq usable_def fle_refl nonneg_not_nan split: option.splits)
  next
    case False
    then have "fle best ?new" using nn not_flt_fle nonneg_not_nan by blast
    with True False inv show ?thesis
      by (auto simp: cell_inv_def r(1) less_Suc_eq usable_def split: option.splits)
  qed
qed

lemma dp_cell_inv:
  assumes "good_costs cost" "\<forall>i<j. nonneg (prev ! i)"
  shows "cell_inv cost prev j j (dp_cell cost prev j)"
proof -
  define step where "step = (\<lambda>(best, from) i. if prev ! i = PInf then (best, from)
        else let c = cost i j in
          if c \<noteq> PInf \<and> flt (fadd (prev ! i) c) best then (fadd (prev ! i) c, Some i) else (best, from))"
  have "cell_inv cost prev j n (foldl step (PInf, None) [0..<n])" if "n \<le> j" for n
    using that
  proof (induction n)
    case 0
    show ?case by (simp add: cell_inv_def)
  next
    case (Suc n)
    obtain best fr where b: "foldl step (PInf, None) [0..<n] = (best, fr)" by fastforce
    with Suc have "cell_inv cost prev j n (best, fr)" by simp
    from cell_step [OF assms(1) _ this] assms(2) Suc.prems
    have "cell_inv cost prev j (Suc n) (step (best, fr) n)" by (simp add: step_def)
    then show ?case by (simp add: b)
  qed
  from this [of j] show ?thesis by (simp add: dp_cell_def step_def)
qed

section \<open>The table\<close>

lemma dp_row_nth:
  assumes "j \<le> m"
  shows "dp_row cost m (Suc k) ! j =
    (if j = 0 then (PInf, None) else dp_cell cost (List.map fst (dp_row cost m k)) j)"
  using assms by (cases j) (auto simp del: upt_Suc)

lemma length_dp_row [simp]: "length (dp_row cost m k) = Suc m"
  by (cases k) simp_all

lemma dp_row_0: "j \<le> m \<Longrightarrow> dp_row cost m 0 ! j = (if j = 0 then (Fin 0, None) else (PInf, None))"
  by (cases j) auto

declare dp_row.simps [simp del]

lemma dp_row_nonneg:
  assumes "good_costs cost" "j \<le> m"
  shows "nonneg (fst (dp_row cost m k ! j))"
  using assms(2)
proof (induction k arbitrary: j)
  case 0
  then show ?case by (simp add: dp_row_0)
next
  case (Suc k)
  then have "\<forall>i<j. nonneg (List.map fst (dp_row cost m k) ! i)" by simp
  from dp_cell_inv [OF assms(1) this] Suc.prems show ?case by (simp add: dp_row_nth cell_inv_def)
qed

lemma dp_attained:
  assumes "good_costs cost" "j \<le> m" "fst (dp_row cost m k ! j) \<noteq> PInf"
  shows "\<exists>parts. rebuild cost m k j = Some parts \<and> tiles 0 j parts \<and> length parts = k \<and>
    (\<forall>(p, q)\<in>set parts. usable (cost p q)) \<and> parts_cost cost parts = fst (dp_row cost m k ! j)"
  using assms(2,3)
proof (induction k arbitrary: j)
  case 0
  then have "j = 0" by (auto simp: dp_row_0 split: if_splits)
  then show ?case by (simp add: parts_cost_def dp_row_0)
next
  case (Suc k)
  let ?prev = "List.map fst (dp_row cost m k)"
  have j: "0 < j" using Suc.prems by (auto simp: dp_row_nth split: if_splits)
  have "\<forall>i<j. nonneg (?prev ! i)" using dp_row_nonneg [OF assms(1), of _ m k] Suc.prems(1) by simp
  from dp_cell_inv [OF assms(1) this] have inv: "cell_inv cost ?prev j j (dp_row cost m (Suc k) ! j)"
    using j Suc.prems(1) by (simp add: dp_row_nth)
  then obtain i where i: "snd (dp_row cost m (Suc k) ! j) = Some i" "i < j"
    "fst (dp_row cost m (Suc k) ! j) = fadd (?prev ! i) (cost i j)" "?prev ! i \<noteq> PInf" "usable (cost i j)"
    using Suc.prems(2) by (auto simp: cell_inv_def split: option.splits)
  have "fst (dp_row cost m k ! i) \<noteq> PInf" "i \<le> m" using i(2,4) Suc.prems(1) by simp_all
  from Suc.IH [OF this(2,1)] obtain parts where parts: "rebuild cost m k i = Some parts" "tiles 0 i parts"
    "length parts = k" "\<forall>(p, q)\<in>set parts. usable (cost p q)" "parts_cost cost parts = fst (dp_row cost m k ! i)"
    by blast
  have "rebuild cost m (Suc k) j = Some (parts @ [(i, j)])" by (simp add: i(1) parts(1))
  moreover have "tiles 0 j (parts @ [(i, j)])" using parts(2) i(2) by (simp add: tiles_append)
  moreover have "parts_cost cost (parts @ [(i, j)]) = fst (dp_row cost m (Suc k) ! j)"
    using i(2,3) Suc.prems(1) by (simp only: parts_cost_append parts(5)) simp
  ultimately show ?case using parts(3,4) i(5) by (intro exI [of _ "parts @ [(i, j)]"]) auto
qed

lemma dp_least:
  assumes "good_costs cost" "tiles 0 j parts" "j \<le> m" "\<forall>(p, q)\<in>set parts. usable (cost p q)"
  shows "fle (fst (dp_row cost m (length parts) ! j)) (parts_cost cost parts)"
  using assms(2-4)
proof (induction parts arbitrary: j rule: rev_induct)
  case Nil
  then show ?case by (simp add: parts_cost_def dp_row_0)
next
  case (snoc x ps)
  obtain p where x: "x = (p, j)" "tiles 0 p ps" "p < j"
    using snoc.prems(1) by (cases x) (auto simp: tiles_append)
  let ?prev = "List.map fst (dp_row cost m (length ps))"
  have u: "usable (cost p j)" "\<forall>(p, q)\<in>set ps. usable (cost p q)" using snoc.prems(3) x(1) by auto
  obtain r where r: "cost p j = Fin r" "0 \<le> r" using assms(1) u(1) by (rule good_costsE)
  have IH: "fle (?prev ! p) (parts_cost cost ps)"
    using snoc.IH [OF x(2) _ u(2)] x(3) snoc.prems(2) by simp
  have nn: "nonneg (parts_cost cost ps)" using assms(1) u(2) by (rule parts_cost_nonneg)
  have prev: "\<forall>i<j. nonneg (?prev ! i)" using dp_row_nonneg [OF assms(1), of _ m "length ps"] snoc.prems(2) by simp
  from dp_cell_inv [OF assms(1) this] have inv: "cell_inv cost ?prev j j (dp_row cost m (Suc (length ps)) ! j)"
    using x(3) snoc.prems(2) by (simp add: dp_row_nth)
  have mono: "fle (fadd (?prev ! p) (Fin r)) (fadd (parts_cost cost ps) (Fin r))"
    using IH nonneg_fadd [OF nn r(2)] nonneg_fadd [OF _ r(2), of "?prev ! p"] prev x(3)
    by (intro fadd_mono nonneg_not_nan) auto
  have "fle (fst (dp_row cost m (Suc (length ps)) ! j)) (fadd (parts_cost cost ps) (Fin r))"
  proof (cases "?prev ! p = PInf")
    case True
    then have "parts_cost cost ps = PInf" using IH nn by (cases "parts_cost cost ps") (auto simp: fle_def)
    then show ?thesis using inv by (cases "fst (dp_row cost m (Suc (length ps)) ! j)") (auto simp: cell_inv_def fle_def)
  next
    case False
    then have "fle (fst (dp_row cost m (Suc (length ps)) ! j)) (fadd (?prev ! p) (Fin r))"
      using inv x(3) u(1) r(1) by (auto simp: cell_inv_def)
    then show ?thesis using mono by (rule fle_trans)
  qed
  then show ?case by (simp add: x(1) parts_cost_append r(1))
qed

section \<open>Costs\<close>

lemma nonneg_or_nan_fmul: "nonneg a \<Longrightarrow> nonneg b \<Longrightarrow> fmul a b = NaN \<or> nonneg (fmul a b)"
  by (elim nonneg_cases) (auto simp: fmul_def inf_of_sign_def nonneg_def f64_of_rat_nonneg sgn_if)

lemma nonneg_or_nan_fdiv: "nonneg a \<Longrightarrow> 0 < c \<Longrightarrow> nonneg (fdiv a (Fin c))"
  by (elim nonneg_cases) (auto simp: fdiv_def inf_of_sign_def nonneg_def f64_of_rat_nonneg)

lemma eval_bps_nonneg: "eval_bps a b s \<noteq> NaN \<Longrightarrow> nonneg (eval_bps a b s)"
proof -
  assume nn: "eval_bps a b s \<noteq> NaN"
  then obtain q where q: "eval_bps a b s = fmul (fsqrt q) (Fin 10000)" by (auto simp: eval_bps_def Let_def split: if_splits)
  with nn have "fsqrt q \<noteq> NaN" by (auto simp: fmul_def)
  then have "nonneg (fsqrt q)" using fsqrt_nonneg by (simp add: nonneg_def)
  from nonneg_or_nan_fmul [OF this, of "Fin 10000"] nn q show ?thesis by auto
qed

lemma piece_costs_good: "good_costs (piece_cost bands)"
  unfolding good_costs_def
proof (intro allI impI)
  fix i j
  let ?s = "range_stats bands i j"
  let ?b = "ft_bps_rmse (fit ?s)"
  assume u: "usable (piece_cost bands i j)"
  then have n: "\<not> flt (ss_n ?s) SEG_FLOOR" and b: "?b \<noteq> NaN"
    and c: "piece_cost bands i j = fmul (fmul (fdiv ?b (Fin 10000)) (fdiv ?b (Fin 10000))) (ss_n ?s)"
    by (auto simp: piece_cost_def Let_def usable_def is_nan_def split: if_splits)
  have "fit ?s \<noteq> unfittable" using b by (auto simp: unfittable_def)
  then have "nonneg ?b" using b by (auto simp: fit_def Let_def eval_bps_nonneg split: if_splits)
  then have x: "nonneg (fdiv ?b (Fin 10000))" by (rule nonneg_or_nan_fdiv) simp
  have nn: "ss_n ?s \<noteq> NaN" using u c by (auto simp: usable_def fmul_def split: f64.splits)
  then have "nonneg (ss_n ?s)" using n by (cases "ss_n ?s") (auto simp: SEG_FLOOR_def nonneg_def)
  moreover have "fmul (fdiv ?b (Fin 10000)) (fdiv ?b (Fin 10000)) \<noteq> NaN" using u c by (auto simp: usable_def fmul_def)
  then have "nonneg (fmul (fdiv ?b (Fin 10000)) (fdiv ?b (Fin 10000)))" using nonneg_or_nan_fmul [OF x x] by blast
  ultimately have "nonneg (piece_cost bands i j)"
    using nonneg_or_nan_fmul u c by (auto simp: usable_def)
  then show "\<exists>r\<ge>0. piece_cost bands i j = Fin r" using u by (elim nonneg_cases) (auto simp: usable_def)
qed

section \<open>The pick\<close>

definition parts_key :: "(f64 \<Rightarrow> f64) \<Rightarrow> band list \<Rightarrow> nat \<Rightarrow> f64" where
  "parts_key pow10f bands k =
     cents (good_volume pow10f bands (the (rebuild (piece_cost bands) (length bands) k (length bands))))"

definition reachable :: "band list \<Rightarrow> nat \<Rightarrow> bool" where
  "reachable bands k \<longleftrightarrow> fst (dp_row (piece_cost bands) (length bands) k ! length bands) \<noteq> PInf"

definition pick_spec :: "(f64 \<Rightarrow> f64) \<Rightarrow> band list \<Rightarrow> nat list \<Rightarrow> ((nat \<times> nat) list \<times> f64 \<times> int) option \<Rightarrow> bool" where
  "pick_spec pow10f bands ks best \<longleftrightarrow>
     (case best of
        None \<Rightarrow> \<forall>k\<in>set ks. \<not> reachable bands k
      | Some (parts, v, nk) \<Rightarrow>
          \<exists>k\<in>set ks. reachable bands k \<and> rebuild (piece_cost bands) (length bands) k (length bands) = Some parts \<and>
            v = parts_key pow10f bands k \<and> nk = - int k \<and>
            (\<forall>k'\<in>set ks. reachable bands k' \<longrightarrow>
               \<not> flt v (parts_key pow10f bands k') \<and> (feq (parts_key pow10f bands k') v \<longrightarrow> k \<le> k')))"

lemma reachable_rebuild:
  assumes "reachable bands k"
  obtains parts where "rebuild (piece_cost bands) (length bands) k (length bands) = Some parts"
    "tiles 0 (length bands) parts" "length parts = k" "\<forall>(p, q)\<in>set parts. usable (piece_cost bands p q)"
    "parts_cost (piece_cost bands) parts = fst (dp_row (piece_cost bands) (length bands) k ! length bands)"
  using dp_attained [OF piece_costs_good order_refl] assms unfolding reachable_def by blast

definition pick_step ::
  "(f64 \<Rightarrow> f64) \<Rightarrow> band list \<Rightarrow> ((nat \<times> nat) list \<times> f64 \<times> int) option \<Rightarrow> nat \<Rightarrow> ((nat \<times> nat) list \<times> f64 \<times> int) option" where
  "pick_step pow10f bands best k =
     (if \<not> reachable bands k then best
      else (case rebuild (piece_cost bands) (length bands) k (length bands) of
         None \<Rightarrow> best
       | Some parts \<Rightarrow>
           (let key = (cents (good_volume pow10f bands parts), - int k) in
            case best of
              None \<Rightarrow> Some (parts, key)
            | Some (_, bk) \<Rightarrow>
                if flt (fst bk) (fst key) \<or> (feq (fst key) (fst bk) \<and> snd bk < snd key)
                then Some (parts, key) else best)))"

lemma pick_parts_fold: "pick_parts pow10f bands ks = foldl (pick_step pow10f bands) None ks"
proof -
  have "pick_step pow10f bands =
    (\<lambda>best k.
         if fst (dp_row (piece_cost bands) (length bands) k ! length bands) = PInf then best
         else (case rebuild (piece_cost bands) (length bands) k (length bands) of
            None \<Rightarrow> best
          | Some parts \<Rightarrow>
              (let key = (cents (good_volume pow10f bands parts), - int k) in
               case best of
                 None \<Rightarrow> Some (parts, key)
               | Some (_, bk) \<Rightarrow>
                   if flt (fst bk) (fst key) \<or> (feq (fst key) (fst bk) \<and> snd bk < snd key)
                   then Some (parts, key) else best)))"
    by (intro ext) (simp add: pick_step_def reachable_def)
  then show ?thesis by (simp only: pick_parts_def Let_def)
qed

lemma pick_step_spec:
  assumes "pick_spec pow10f bands ks best" "\<forall>k'\<in>set ks. k' < k"
  shows "pick_spec pow10f bands (ks @ [k]) (pick_step pow10f bands best k)"
proof (cases "reachable bands k")
  case False
  with assms show ?thesis by (auto simp: pick_spec_def pick_step_def split: option.splits)
next
  case True
  then obtain parts where r: "rebuild (piece_cost bands) (length bands) k (length bands) = Some parts"
    by (rule reachable_rebuild)
  let ?key = "parts_key pow10f bands"
  have key: "cents (good_volume pow10f bands parts) = ?key k" by (simp add: parts_key_def r)
  show ?thesis
  proof (cases best)
    case None
    with assms True r show ?thesis by (auto simp: pick_spec_def pick_step_def key feq_eq)
  next
    case (Some b)
    obtain ps v nk where b: "b = (ps, v, nk)" by (cases b)
    with assms(1) Some obtain k0 where k0: "k0 \<in> set ks" "reachable bands k0"
      "rebuild (piece_cost bands) (length bands) k0 (length bands) = Some ps" "v = ?key k0" "nk = - int k0"
      "\<forall>k'\<in>set ks. reachable bands k' \<longrightarrow> \<not> flt v (?key k') \<and> (feq (?key k') v \<longrightarrow> k0 \<le> k')"
      by (auto simp: pick_spec_def)
    have "k0 < k" using k0(1) assms(2) by blast
    then have step: "pick_step pow10f bands best k = (if flt v (?key k) then Some (parts, ?key k, - int k) else best)"
      using True by (simp add: pick_step_def r key Some b k0(5))
    show ?thesis
    proof (cases "flt v (?key k)")
      case better: True
      have "\<not> flt (?key k) (?key k') \<and> (feq (?key k') (?key k) \<longrightarrow> k \<le> k')"
        if "k' \<in> set ks" "reachable bands k'" for k'
        using k0(6) that better flt_trans feq_eq by metis
      with better True r step show ?thesis
        by (auto simp: pick_spec_def)
    next
      case False
      with k0 \<open>k0 < k\<close> step Some b show ?thesis
        by (auto simp: pick_spec_def)
    qed
  qed
qed

lemma pick_parts_spec: "pick_spec pow10f bands [1..<n + 1] (pick_parts pow10f bands [1..<n + 1])"
proof (induction n)
  case 0
  show ?case by (simp add: pick_spec_def pick_parts_def)
next
  case (Suc n)
  have "[1..<Suc n + 1] = [1..<n + 1] @ [Suc n]" by simp
  moreover have "\<forall>k'\<in>set [1..<n + 1]. k' < Suc n" by auto
  note pick_step_spec [OF Suc.IH this]
  ultimately show ?case by (simp only: pick_parts_fold foldl_append foldl.simps)
qed

lemma unreachable_costs:
  assumes "\<not> reachable bands (length ps)" "tiles 0 (length bands) ps"
    "\<forall>(p, q)\<in>set ps. usable (piece_cost bands p q)"
  shows "parts_cost (piece_cost bands) ps = PInf"
proof -
  have "fle PInf (parts_cost (piece_cost bands) ps)"
    using dp_least [OF piece_costs_good assms(2) order_refl assms(3)] assms(1) by (simp add: reachable_def)
  then show ?thesis by (cases "parts_cost (piece_cost bands) ps") (auto simp: fle_def)
qed

lemma reachable_costs:
  assumes "reachable bands k" "rebuild (piece_cost bands) (length bands) k (length bands) = Some parts"
    "tiles 0 (length bands) ps" "\<forall>(p, q)\<in>set ps. usable (piece_cost bands p q)" "length ps = k"
  shows "fle (parts_cost (piece_cost bands) parts) (parts_cost (piece_cost bands) ps)"
  using dp_least [OF piece_costs_good assms(3) order_refl assms(4)] reachable_rebuild [OF assms(1)] assms(2,5)
  by (metis option.inject)

text \<open>
  C20. The pieces a cluster is cut into are consecutive, cover all its bands and are at most five.
  Either no way to cut the bands into at most five fittable pieces has a finite cost, and the
  cluster is left in one piece, or every piece is fittable, no other way to cut the bands into as
  many fittable pieces costs less, none of the cheapest cuts into another number of pieces prices
  more volume (in cents) as good, and one that prices as much has at least as many pieces.
\<close>

theorem segmentation_optimal:
  assumes "bands \<noteq> []"
  shows "let m = length bands; cost = piece_cost bands; parts = segment_partitions pow10f bands;
      usable_cut = (\<lambda>ps. tiles 0 m ps \<and> (\<forall>(p, q)\<in>set ps. usable (cost p q)));
      good = cents (good_volume pow10f bands parts) in
    tiles 0 m parts \<and> length parts \<le> MAX_SEGMENTS \<and>
    (parts = [(0, m)] \<and> (\<forall>ps. usable_cut ps \<and> length ps \<le> MAX_SEGMENTS \<longrightarrow> parts_cost cost ps = PInf) \<or>
     usable_cut parts \<and>
     (\<forall>ps. usable_cut ps \<and> length ps = length parts \<longrightarrow> fle (parts_cost cost parts) (parts_cost cost ps)) \<and>
     (\<forall>k\<in>{1..MAX_SEGMENTS}. reachable bands k \<longrightarrow>
        \<not> flt good (parts_key pow10f bands k) \<and> (feq (parts_key pow10f bands k) good \<longrightarrow> length parts \<le> k)))"
proof -
  let ?m = "length bands" and ?cost = "piece_cost bands" and ?pick = "pick_parts pow10f bands [1..<MAX_SEGMENTS + 1]"
  have ks: "set [1..<MAX_SEGMENTS + 1] = {1..MAX_SEGMENTS}" by auto
  have spec: "pick_spec pow10f bands [1..<MAX_SEGMENTS + 1] ?pick" by (rule pick_parts_spec)
  show ?thesis
  proof (cases ?pick)
    case None
    then have parts: "segment_partitions pow10f bands = [(0, ?m)]" using assms by (simp add: segment_partitions_def)
    have "\<not> reachable bands k" if "k \<in> {1..MAX_SEGMENTS}" for k
      using spec that unfolding pick_spec_def None option.case ks by blast
    moreover have "length ps \<in> {1..MAX_SEGMENTS}" if "tiles 0 ?m ps" "length ps \<le> MAX_SEGMENTS" for ps
      using that assms by (cases ps) auto
    ultimately have "parts_cost ?cost ps = PInf"
      if "tiles 0 ?m ps" "\<forall>(p, q)\<in>set ps. usable (?cost p q)" "length ps \<le> MAX_SEGMENTS" for ps
      using that unreachable_costs by blast
    then show ?thesis using assms by (simp add: Let_def parts MAX_SEGMENTS_def)
  next
    case (Some b)
    obtain parts v nk where b: "b = (parts, v, nk)" by (cases b)
    then have parts: "segment_partitions pow10f bands = parts" using assms Some by (simp add: segment_partitions_def)
    obtain k where k: "k \<in> {1..MAX_SEGMENTS}" "reachable bands k" "rebuild ?cost ?m k ?m = Some parts"
      "v = parts_key pow10f bands k"
      "\<forall>k'\<in>{1..MAX_SEGMENTS}. reachable bands k' \<longrightarrow>
         \<not> flt v (parts_key pow10f bands k') \<and> (feq (parts_key pow10f bands k') v \<longrightarrow> k \<le> k')"
      using spec unfolding pick_spec_def Some b option.case prod.case ks by blast
    from reachable_rebuild [OF k(2)] k(3) have t: "tiles 0 ?m parts" "length parts = k"
      "\<forall>(p, q)\<in>set parts. usable (?cost p q)" by (metis option.inject)+
    have good: "cents (good_volume pow10f bands parts) = v" by (simp add: k(4) parts_key_def k(3))
    have least: "\<forall>ps. (tiles 0 ?m ps \<and> (\<forall>(p, q)\<in>set ps. usable (?cost p q))) \<and> length ps = length parts \<longrightarrow>
        fle (parts_cost ?cost parts) (parts_cost ?cost ps)"
      using reachable_costs [OF k(2,3)] t(2) by blast
    show ?thesis unfolding Let_def parts good using k(1,5) t least by simp
  qed
qed

text \<open>A single band of no transactions cannot be fitted and is one piece.\<close>

definition demo_bands :: "band list" where
  "demo_bands = [(5, default_stats)]"

theorem segmentation_optimal_witness:
  "tiles 0 (length demo_bands) (segment_partitions (\<lambda>x. x) demo_bands)"
  using segmentation_optimal [of demo_bands "\<lambda>x. x"] by (simp add: Let_def demo_bands_def)

end
