(* ===== verification/Score_Keys.thy ===== *)
theory Score_Keys
  imports Txn_Types
begin

text \<open>
  The Redis keys of the scores (\<open>src/src/decider/gatewaydecider/utils.rs\<close>): the dimensions of a payment
  that \<open>GatewayScoringData\<close> collects, and the keys built from them for the decision path
  (\<open>get_consumer_key\<close>) and for the feedback path (\<open>getProducerKey\<close> of \<open>src/src/feedback/utils.rs\<close>). The lists
  and the dimension configuration of the merchant in Redis, Unicode upper-casing, the parser of JSON
  and the rendering of dates are arguments.
\<close>

section \<open>Joining\<close>

definition intercalate_without_empty_string :: "string \<Rightarrow> string list \<Rightarrow> string" where
  "intercalate_without_empty_string intercalate_with input_texts =
     join_with intercalate_with (map (\<lambda>text. if text = [] then ''UNKNOWN'' else text) input_texts)"

definition gateway_scoring_payment_source :: "gateway_scoring_data \<Rightarrow> string" where
  "gateway_scoring_payment_source gsd = unwrap_or (gsd_payment_source gsd) []"

section \<open>Success-rate keys\<close>

record sr_dimension_info =
  di_udfs :: "int list"
  di_fields :: "string list option"

record sr_dimension_config =
  dm_merchant_id :: string
  dm_payment_info :: sr_dimension_info

record sr_key_config =
  kc_dimensions :: "sr_dimension_config option"
  kc_upi_handle_list :: "string list"
  kc_upi_package_list :: "string list"
  kc_routing_top_bank_list :: "string list"

definition GATEWAY_SELECTION_V3_ORDER_TYPE_KEY_PREFIX :: string where
  "GATEWAY_SELECTION_V3_ORDER_TYPE_KEY_PREFIX = ''{gw_sr_v3_score''"

definition GATEWAY_SELECTION_ORDER_TYPE_KEY_PREFIX :: string where
  "GATEWAY_SELECTION_ORDER_TYPE_KEY_PREFIX = ''gw_sr_score''"

definition ELIMINATION_BASED_ROUTING_KEY_PREFIX :: string where
  "ELIMINATION_BASED_ROUTING_KEY_PREFIX = ''gw_score''"

definition ELIMINATION_BASED_ROUTING_GLOBAL_KEY_PREFIX :: string where
  "ELIMINATION_BASED_ROUTING_GLOBAL_KEY_PREFIX = ''gw_score_global''"

definition GLOBAL_LEVEL_OUTAGE_KEY_PREFIX :: string where
  "GLOBAL_LEVEL_OUTAGE_KEY_PREFIX = ''gw_score_global_outage''"

definition MERCHANT_LEVEL_OUTAGE_KEY_PREFIX :: string where
  "MERCHANT_LEVEL_OUTAGE_KEY_PREFIX = ''gw_score_outage''"

definition sr_base_key :: "gateway_scoring_data \<Rightarrow> bool \<Rightarrow> string list" where
  "sr_base_key gsd v3 =
     [if v3 then GATEWAY_SELECTION_V3_ORDER_TYPE_KEY_PREFIX else GATEWAY_SELECTION_ORDER_TYPE_KEY_PREFIX,
      gsd_merchant_id gsd, gsd_order_type gsd, gsd_payment_method_type gsd, gsd_payment_method gsd]"

definition get_legacy_unified_sr_key :: "sr_key_config \<Rightarrow> gateway_scoring_data \<Rightarrow> bool \<Rightarrow> bool \<Rightarrow> string" where
  "get_legacy_unified_sr_key K gsd v3 enforce1d =
     (let base_key = sr_base_key gsd v3;
          key = (\<lambda>rest. intercalate_without_empty_string ''_'' (base_key @ rest));
          pmt = gsd_payment_method_type gsd; pm = gsd_payment_method gsd;
          card_type = unwrap_or (gsd_card_type gsd) [];
          source = gateway_scoring_payment_source gsd in
      if enforce1d \<and> pmt = ''CARD'' then key [card_type]
      else if enforce1d then key []
      else if pmt = ''UPI'' then
        (if gsd_is_payment_source_enabled_for_sr_routing gsd then
           (if pm \<in> {''UPI_COLLECT'', ''COLLECT''} then
              key [if source \<in> set (kc_upi_handle_list K) then source else []]
            else if pm \<in> {''UPI_PAY'', ''PAY''} then
              key [if source \<in> set (kc_upi_package_list K) then source else []]
            else key [])
         else key [])
      else if pmt = ''CARD'' then
        (if gsd_is_auth_level_enabled_for_sr_routing gsd then key [card_type, unwrap_or (gsd_auth_type gsd) []]
         else if gsd_is_bank_level_enabled_for_sr_routing gsd then
           (let bank_code = unwrap_or (gsd_bank_code gsd) ''UNKNOWN'' in
            key [card_type, if bank_code \<in> set (kc_routing_top_bank_list K) then bank_code else []])
         else key [card_type])
      else key [])"

text \<open>The values of the configured user-defined fields, if the payment has them all.\<close>

definition udf_values_of :: "sr_key_config \<Rightarrow> gateway_scoring_data \<Rightarrow> string list option" where
  "udf_values_of K gsd =
     (let udf_keys = (case kc_dimensions K of None \<Rightarrow> [] | Some config \<Rightarrow> di_udfs (dm_payment_info config)) in
      Option.bind (gsd_udfs gsd) (\<lambda>udf_map. those (map (map_of udf_map) udf_keys)))"

definition field_component :: "gateway_scoring_data \<Rightarrow> string \<Rightarrow> string option" where
  "field_component gsd field =
     (if field = ''card_network'' then gsd_card_switch_provider gsd
      else if field = ''card_is_in'' then gsd_card_is_in gsd
      else if field = ''currency'' then gsd_currency gsd
      else if field = ''country'' then gsd_country gsd
      else if field = ''auth_type'' then gsd_auth_type gsd
      else None)"

definition get_unified_sr_key :: "sr_key_config \<Rightarrow> gateway_scoring_data \<Rightarrow> bool \<Rightarrow> bool \<Rightarrow> string" where
  "get_unified_sr_key K gsd v3 enforce1d =
     (let udf_values = udf_values_of K gsd in
      if gsd_is_legacy_decider_flow gsd then
        (let sr_keys = get_legacy_unified_sr_key K gsd v3 enforce1d in
         case udf_values of
           Some values \<Rightarrow> intercalate_without_empty_string ''_'' (sr_keys # values)
         | None \<Rightarrow> sr_keys)
      else
        (let fields = (case kc_dimensions K of None \<Rightarrow> None | Some config \<Rightarrow> di_fields (dm_payment_info config)) in
         intercalate_without_empty_string ''_''
           (sr_base_key gsd v3 @ List.map_filter (field_component gsd) (unwrap_or fields [])
            @ unwrap_or udf_values [])))"

text \<open>The only user-defined field in the key is noted in the scoring data of the running decision.\<close>

definition udfs_consumed :: "sr_key_config \<Rightarrow> gateway_scoring_data \<Rightarrow> gateway_scoring_data \<Rightarrow> gateway_scoring_data" where
  "udfs_consumed K gsd writer =
     (case udf_values_of K gsd of
        Some [v] \<Rightarrow> writer\<lparr>gsd_udfs_consumed_for_routing := Some v\<rparr>
      | _ \<Rightarrow> writer)"

section \<open>The keys of a decision\<close>

type_synonym gateway_reference_id_map = "(string \<times> string option) list"

definition per_gateway :: "(string \<Rightarrow> string option \<Rightarrow> string) \<Rightarrow> gateway_reference_id_map \<Rightarrow> string hmap" where
  "per_gateway key refs = foldl (\<lambda>acc (gw, ref_id). hm_insert gw (key gw ref_id) acc) [] refs"

definition elimination_suffix :: "gateway_scoring_data \<Rightarrow> string list" where
  "elimination_suffix gsd =
     (if gsd_payment_method_type gsd = ''CARD''
      then [gsd_payment_method_type gsd, gsd_payment_method gsd, unwrap_or (gsd_card_type gsd) []]
      else [gsd_payment_method_type gsd, gsd_payment_method gsd])"

definition outage_suffix :: "gateway_scoring_data \<Rightarrow> string list" where
  "outage_suffix gsd =
     [gsd_payment_method_type gsd, gsd_payment_method gsd] @
     (if gsd_payment_method_type gsd = ''CARD''
      then [unwrap_or (gsd_bank_code gsd) [], unwrap_or (gsd_card_type gsd) []]
      else if gsd_payment_method_type gsd = ''UPI'' then [gateway_scoring_payment_source gsd]
      else [])"

definition get_unified_key ::
  "sr_key_config \<Rightarrow> gateway_scoring_data \<Rightarrow> score_key_type \<Rightarrow> bool \<Rightarrow> gateway_reference_id_map \<Rightarrow> string hmap" where
  "get_unified_key K gsd ty enforce1d refs =
     (let join = intercalate_without_empty_string ''_'' in
      case ty of
        EliminationGlobalKey \<Rightarrow>
          per_gateway (\<lambda>gw _. join ([ELIMINATION_BASED_ROUTING_GLOBAL_KEY_PREFIX, gsd_order_type gsd] @ [gw]
             @ elimination_suffix gsd)) refs
      | EliminationMerchantKey \<Rightarrow>
          per_gateway (\<lambda>gw ref_id. join ([ELIMINATION_BASED_ROUTING_KEY_PREFIX, gsd_merchant_id gsd, gsd_order_type gsd]
             @ [gw] @ elimination_suffix gsd
             @ (if gsd_is_gri_enabled_for_elimination gsd then [unwrap_or ref_id []] else []))) refs
      | SrV2Key \<Rightarrow>
          (let key = get_unified_sr_key K gsd False enforce1d in
           if gsd_is_gri_enabled_for_sr_routing gsd
           then per_gateway (\<lambda>gw ref_id. join [key, unwrap_or ref_id []]) refs
           else [([], key)])
      | SrV3Key \<Rightarrow>
          (let base_key = get_unified_sr_key K gsd True enforce1d in
           if gsd_is_gri_enabled_for_sr_routing gsd
           then per_gateway (\<lambda>gw ref_id. join [base_key, unwrap_or ref_id [], gw]) refs
           else per_gateway (\<lambda>gw _. join [base_key, gw]) refs)
      | OutageGlobalKey \<Rightarrow> [([], join (GLOBAL_LEVEL_OUTAGE_KEY_PREFIX # outage_suffix gsd))]
      | OutageMerchantKey \<Rightarrow>
          [([], join ([MERCHANT_LEVEL_OUTAGE_KEY_PREFIX, gsd_merchant_id gsd] @ outage_suffix gsd))])"

definition get_gateway_reference_id :: "(string \<times> string) list \<Rightarrow> string \<Rightarrow> (string \<times> string) list \<Rightarrow> string option" where
  "get_gateway_reference_id metadata gw pl_ref_id_map =
     (let own = gw @ '':gateway_reference_id''; common = ''JUSPAY:gateway_reference_id'' in
      opt_filter (\<lambda>v. v \<noteq> [])
        (opt_or (map_of pl_ref_id_map own)
          (opt_or (map_of pl_ref_id_map common)
            (opt_or (map_of metadata own) (map_of metadata common)))))"

text \<open>The metadata of the order and the reference ids of the priority logic, where they count.\<close>

definition get_order_metadata_and_pl_ref_id_map ::
  "(string \<times> string) list \<Rightarrow> (string \<times> string) list \<Rightarrow> bool option \<Rightarrow>
   (string \<times> string) list \<times> (string \<times> string) list" where
  "get_order_metadata_and_pl_ref_id_map metadata pl_ref_ids enabled =
     (if unwrap_or enabled False then (metadata, pl_ref_ids) else ([], []))"

record reference_ids =
  ri_metadata :: "(string \<times> string) list"
  ri_priority_logic :: "(string \<times> string) list"
  ri_routing_enabled :: "bool option"

definition reference_id_or_null :: "reference_ids \<Rightarrow> string \<Rightarrow> string" where
  "reference_id_or_null I gw =
     (let (meta, pl) = get_order_metadata_and_pl_ref_id_map (ri_metadata I) (ri_priority_logic I) (ri_routing_enabled I) in
      unwrap_or (get_gateway_reference_id meta gw pl) ''NULL'')"

definition gw_ref_id_map_of :: "reference_ids \<Rightarrow> gateway_scoring_data \<Rightarrow> string list \<Rightarrow> gateway_reference_id_map" where
  "gw_ref_id_map_of I gsd gateway_list =
     (let with_refs = gsd_is_gri_enabled_for_elimination gsd \<or> gsd_is_gri_enabled_for_sr_routing gsd in
      foldl (\<lambda>m gw. hm_insert gw (if with_refs then Some (reference_id_or_null I gw) else None) m) [] gateway_list)"

text \<open>
  The keys, the scoring data of the running decision and the reference id it reports: that of the
  gateway the map iterates first.
\<close>

definition get_consumer_key ::
  "sr_key_config \<Rightarrow> reference_ids \<Rightarrow> gateway_scoring_data \<Rightarrow> score_key_type \<Rightarrow> bool \<Rightarrow> string list \<Rightarrow>
   gateway_scoring_data \<times> string option \<Rightarrow> string hmap \<times> gateway_scoring_data \<times> string option" where
  "get_consumer_key K I gsd ty enforce1d gateway_list w =
     (let refs = gw_ref_id_map_of I gsd gateway_list; (writer, reported) = w;
          reported = (if gsd_is_gri_enabled_for_elimination gsd \<or> gsd_is_gri_enabled_for_sr_routing gsd
            then (case refs of [] \<Rightarrow> None | (_, ref_id) # _ \<Rightarrow> ref_id) else reported);
          writer = (if ty \<in> {SrV2Key, SrV3Key} then udfs_consumed K gsd writer else writer) in
      (get_unified_key K gsd ty enforce1d refs, writer, reported))"

section \<open>The dimensions of a payment\<close>

definition get_true_string :: "string option \<Rightarrow> string option" where
  "get_true_string v = (if v = Some [] then None else v)"

definition get_value_string :: "(string \<Rightarrow> json option) \<Rightarrow> string \<Rightarrow> string \<Rightarrow> string option" where
  "get_value_string parse key json_text =
     (case parse json_text of
        Some (JObj fs) \<Rightarrow> (case map_of fs key of Some (JStr v) \<Rightarrow> Some v | _ \<Rightarrow> None)
      | _ \<Rightarrow> None)"

definition fetch_juspay_bank_code :: "(string \<Rightarrow> json option) \<Rightarrow> txn_card_info \<Rightarrow> string option" where
  "fetch_juspay_bank_code parse info = Option.bind (tci_payment_source info) (get_value_string parse ''juspay_bank_code'')"

definition get_common_gateway_ref_id :: "reference_ids \<Rightarrow> string list \<Rightarrow> bool \<times> string option" where
  "get_common_gateway_ref_id I gateway_list =
     (case map (reference_id_or_null I) gateway_list of
        [] \<Rightarrow> (False, None)
      | first # ref_ids \<Rightarrow> if list_all (\<lambda>r. r = first) ref_ids then (True, Some first) else (False, None))"

definition get_default_gateway_scoring_data ::
  "string \<Rightarrow> string \<Rightarrow> string \<Rightarrow> string \<Rightarrow> bool \<Rightarrow> bool \<Rightarrow> string option \<Rightarrow> string option \<Rightarrow> string option \<Rightarrow>
   string option \<Rightarrow> string option \<Rightarrow> bool \<Rightarrow> string option \<Rightarrow> (int \<times> string) list option \<Rightarrow> bool \<Rightarrow> gateway_scoring_data" where
  "get_default_gateway_scoring_data merchant_id order_type payment_method_type payment_method gri_elimination
       gri_sr_routing isin switch_provider currency country auth use_service_config ref_id udfs legacy =
     \<lparr>gsd_merchant_id = merchant_id, gsd_payment_method_type = payment_method_type,
      gsd_payment_method = payment_method, gsd_order_type = order_type, gsd_card_type = None,
      gsd_bank_code = None, gsd_auth_type = auth, gsd_payment_source = None,
      gsd_is_payment_source_enabled_for_sr_routing = False, gsd_is_auth_level_enabled_for_sr_routing = False,
      gsd_is_bank_level_enabled_for_sr_routing = False,
      gsd_is_gri_enabled_for_elimination = (if use_service_config then gri_elimination else False),
      gsd_is_gri_enabled_for_sr_routing = (if use_service_config then gri_sr_routing else False),
      gsd_elimination_enabled = False, gsd_card_is_in = isin, gsd_card_switch_provider = switch_provider,
      gsd_currency = currency, gsd_country = country, gsd_is_legacy_decider_flow = legacy,
      gsd_gateway_reference_id = ref_id, gsd_udfs = udfs, gsd_udfs_consumed_for_routing = None\<rparr>"

text \<open>What is reported of the dimensions, and the tag of an experiment.\<close>

record dimension_report =
  rp_routing_dimension :: "string option"
  rp_routing_dimension_level :: "string option"
  rp_elimination_dimension :: "string option"
  rp_outage_dimension :: "string option"
  rp_experiment_tag :: "string option"

definition set_routing_dimension_and_reference ::
  "sr_key_config \<Rightarrow> gateway_scoring_data \<Rightarrow> dimension_report \<Rightarrow> dimension_report" where
  "set_routing_dimension_and_reference K gsd r =
     (let base = [gsd_order_type gsd, gsd_payment_method_type gsd, gsd_payment_method gsd];
          dim = (\<lambda>rest. intercalate_without_empty_string '', '' (base @ rest));
          source = gateway_scoring_payment_source gsd; card_type = unwrap_or (gsd_card_type gsd) [];
          pm = gsd_payment_method gsd;
          (final_dimension, level) =
            (if gsd_payment_method_type gsd = ''UPI'' then
               (if gsd_is_payment_source_enabled_for_sr_routing gsd then
                  (if pm \<in> {''UPI_COLLECT'', ''COLLECT''} then
                     (dim [if source \<in> set (kc_upi_handle_list K) then source else []], ''UPI_SOURCE_LEVEL'')
                   else if pm \<in> {''UPI_PAY'', ''PAY''} then
                     (dim [if source \<in> set (kc_upi_package_list K) then source else []], ''UPI_SOURCE_LEVEL'')
                   else (dim [], ''PM_LEVEL''))
                else (dim [], ''PM_LEVEL''))
             else if gsd_payment_method_type gsd = ''CARD'' then
               (if gsd_is_auth_level_enabled_for_sr_routing gsd then
                  (dim [card_type, unwrap_or (gsd_auth_type gsd) []], ''AUTH_LEVEL'')
                else if gsd_is_bank_level_enabled_for_sr_routing gsd then
                  (dim [card_type, unwrap_or (gsd_bank_code gsd) ''UNKNOWN''], ''BANK_LEVEL'')
                else (dim [card_type], ''CARD_LEVEL''))
             else (dim [], ''PM_LEVEL''))
      in r\<lparr>rp_routing_dimension := Some final_dimension, rp_routing_dimension_level := Some level\<rparr>)"

definition set_elimination_dimension :: "gateway_scoring_data \<Rightarrow> dimension_report \<Rightarrow> dimension_report" where
  "set_elimination_dimension gsd r =
     r\<lparr>rp_elimination_dimension := Some (intercalate_without_empty_string ''/''
         ([gsd_order_type gsd, gsd_payment_method_type gsd, gsd_payment_method gsd] @
          (if gsd_payment_method_type gsd = ''CARD'' then [unwrap_or (gsd_card_type gsd) []] else [])))\<rparr>"

definition set_outage_dimension :: "gateway_scoring_data \<Rightarrow> dimension_report \<Rightarrow> dimension_report" where
  "set_outage_dimension gsd r =
     r\<lparr>rp_outage_dimension := Some (intercalate_without_empty_string ''/''
         ([gsd_payment_method_type gsd, gsd_payment_method gsd] @
          (if gsd_payment_method_type gsd = ''CARD''
           then [unwrap_or (gsd_card_type gsd) [], unwrap_or (gsd_bank_code gsd) []]
           else if gsd_payment_method_type gsd = ''UPI'' then [gateway_scoring_payment_source gsd] else [])))\<rparr>"

definition get_experiment_tag :: "string option \<Rightarrow> string \<Rightarrow> string option" where
  "get_experiment_tag date name = map_option (\<lambda>d. ''EXPERIMENT_'' @ name @ ''_'' @ d) date"

text \<open>The switches of the merchant, and the parameters of the environment.\<close>

record dimension_switches =
  sw_experiment :: bool
  sw_gri_elimination :: bool
  sw_gri_sr_routing :: bool
  sw_handle_package :: bool
  sw_auth_level :: bool
  sw_bank_level :: bool

record dimension_env =
  dn_upper :: "string \<Rightarrow> string"
  dn_parse :: "string \<Rightarrow> json option"
  dn_date :: "string option"

definition upi_scoring_data :: "dimension_env \<Rightarrow> dimension_switches \<Rightarrow> txn_card_info \<Rightarrow> gateway_scoring_data \<Rightarrow> gateway_scoring_data" where
  "upi_scoring_data E W info gsd =
     gsd\<lparr>gsd_payment_source := Some (unwrap_or
           (map_option (\<lambda>source. dn_upper E (last (split_on CHR ''@'' source))) (get_true_string (get_payment_source info)))
           []),
         gsd_is_payment_source_enabled_for_sr_routing := sw_handle_package W\<rparr>"

definition card_scoring_data :: "dimension_env \<Rightarrow> dimension_switches \<Rightarrow> txn_card_info \<Rightarrow> gateway_scoring_data \<Rightarrow> gateway_scoring_data" where
  "card_scoring_data E W info gsd =
     (let card_type = unwrap_or (map_option (\<lambda>c. dn_upper E (card_type_to_text c)) (tci_card_type info)) [];
          auth_type = unwrap_or (map_option (\<lambda>a. dn_upper E (auth_type_to_text a)) (tci_auth_type info)) [];
          card_auth_type =
            (if auth_type \<in> {''THREE_DS'', ''THREE_DS_2''} then ''THREE_DS''
             else if auth_type = ''OTP'' then ''OTP'' else ''UNKNOWN'')
      in gsd\<lparr>gsd_auth_type := Some card_auth_type, gsd_card_type := Some card_type,
             gsd_bank_code := Some (unwrap_or (fetch_juspay_bank_code (dn_parse E) info) ''UNKNOWN''),
             gsd_is_bank_level_enabled_for_sr_routing := sw_bank_level W,
             gsd_is_auth_level_enabled_for_sr_routing := sw_auth_level W\<rparr>)"

definition experiment_tags :: "dimension_env \<Rightarrow> dimension_switches \<Rightarrow> string \<Rightarrow> dimension_report \<Rightarrow> dimension_report" where
  "experiment_tags E W pmt r =
     (if pmt = ''UPI'' \<and> sw_experiment W \<and> sw_handle_package W
      then r\<lparr>rp_experiment_tag := get_experiment_tag (dn_date E) ''HANDLE_PSP''\<rparr>
      else if pmt = ''CARD'' \<and> sw_experiment W \<and> sw_auth_level W
      then r\<lparr>rp_experiment_tag := get_experiment_tag (dn_date E) ''AUTH_TYPE''\<rparr>
      else if pmt = ''CARD'' \<and> sw_experiment W \<and> sw_bank_level W
      then r\<lparr>rp_experiment_tag := get_experiment_tag (dn_date E) ''BANK_TYPE''\<rparr>
      else r)"

definition get_gateway_scoring_data ::
  "dimension_env \<Rightarrow> sr_key_config \<Rightarrow> reference_ids \<Rightarrow> dimension_switches \<Rightarrow> string \<Rightarrow> txn_detail \<Rightarrow> txn_card_info \<Rightarrow>
   string \<Rightarrow> (int \<times> string) list \<Rightarrow> bool \<Rightarrow> decider_state \<Rightarrow> dimension_report \<Rightarrow>
   gateway_scoring_data \<times> dimension_report" where
  "get_gateway_scoring_data E K I W merchant_id txn info currency udfs legacy st r =
     (let order_type = unwrap_or (map_option txn_object_type_to_text (td_txn_object_type txn)) [];
          m_source_object =
            (if tci_payment_method info = ''UPI'' then unwrap_or (td_source_object txn) []
             else tci_payment_method info);
          (use_service_config, ref_id) =
            (if sw_gri_sr_routing W \<or> sw_gri_elimination W
             then get_common_gateway_ref_id I (ds_functional_gateways st) else (True, None));
          default = get_default_gateway_scoring_data merchant_id order_type
            (dn_upper E (tci_payment_method_type info)) m_source_object (sw_gri_elimination W) (sw_gri_sr_routing W)
            (tci_card_isin info) (tci_card_switch_provider info) (Some currency) (td_country txn)
            (map_option auth_type_to_text (tci_auth_type info)) use_service_config ref_id (Some udfs) legacy;
          pmt = tci_payment_method_type info;
          gsd = (if pmt = ''UPI'' then upi_scoring_data E W info default
                 else if pmt = ''CARD'' then card_scoring_data E W info default
                 else default);
          r = experiment_tags E W pmt r;
          r = set_outage_dimension gsd (set_elimination_dimension gsd (set_routing_dimension_and_reference K gsd r));
          r = (if sw_experiment W \<and> sw_gri_elimination W
               then r\<lparr>rp_experiment_tag := get_experiment_tag (dn_date E) ''GRI_BASED_ELIMINATION''\<rparr> else r);
          r = (if sw_experiment W \<and> sw_gri_sr_routing W
               then r\<lparr>rp_experiment_tag := get_experiment_tag (dn_date E) ''GRI_BASED_SR_ROUTING''\<rparr> else r)
      in (gsd, r))"

section \<open>The key of a feedback\<close>

text \<open>
  \<open>getProducerKey\<close>; \<open>None\<close> also stands for the panic on an empty map, which \<open>unified_key_nonempty\<close>
  excludes.
\<close>

definition getProducerKey ::
  "sr_key_config \<Rightarrow> string option \<Rightarrow> gateway_scoring_data option \<Rightarrow> score_key_type \<Rightarrow> bool \<Rightarrow> string option \<Rightarrow> string option" where
  "getProducerKey K gateway redis_gateway_score_data ty enforce1d gateway_reference_id =
     Option.bind redis_gateway_score_data (\<lambda>gsd.
       let is_gri_enabled =
             (if ty = EliminationMerchantKey then gsd_is_gri_enabled_for_elimination gsd
              else if ty \<in> {SrV2Key, SrV3Key} then gsd_is_gri_enabled_for_sr_routing gsd
              else False);
           gateway = unwrap_or gateway [];
           refs = [(gateway, if is_gri_enabled then Some (unwrap_or gateway_reference_id ''NULL'') else None)] in
       case get_unified_key K gsd ty enforce1d refs of
         [] \<Rightarrow> None
       | (_, key) # _ \<Rightarrow> Some key)"

text \<open>The scoring data are stored as JSON; the payment source is serialized as a mask.\<close>

definition stored_scoring_data :: "gateway_scoring_data \<Rightarrow> gateway_scoring_data" where
  "stored_scoring_data gsd = gsd\<lparr>gsd_payment_source := Some ''FILTERED''\<rparr>"

end
