(* ===== verification/Gsm.thy ===== *)
theory Gsm
  imports Prelude
begin

text \<open>
  The gateway status map (\<open>src/crates/gsm/\<close>): the rules of a table of connector errors and their
  lookup, first by the issuer's code, then by the connector's. The reader of CSV and Unicode
  upper-casing are arguments; a table is the list of its records, each read or failed.
\<close>

section \<open>Rules\<close>

datatype gsm_decision = Retry | DoDefault

fun gsm_decision_to_string :: "gsm_decision \<Rightarrow> string" where
  "gsm_decision_to_string Retry = ''retry''"
| "gsm_decision_to_string DoDefault = ''do_default''"

definition gsm_decision_from_str :: "string \<Rightarrow> string + gsm_decision" where
  "gsm_decision_from_str s =
     (if s = ''retry'' then Inr Retry else if s = ''do_default'' then Inr DoDefault else Inl s)"

record gsm_rule =
  gr_connector :: string
  gr_flow :: string
  gr_sub_flow :: string
  gr_code :: string
  gr_message :: string
  gr_status :: string
  gr_router_error :: "string option"
  gr_decision :: gsm_decision
  gr_step_up_possible :: bool
  gr_clear_pan_possible :: bool
  gr_alternate_network_possible :: bool
  gr_feature_data_raw :: "string option"
  gr_unified_code :: "string option"
  gr_unified_message :: "string option"
  gr_error_category :: "string option"
  gr_standardised_code :: "string option"
  gr_description :: "string option"
  gr_user_guidance_message :: "string option"
  gr_feature :: "string option"

record gsm_error_info =
  ge_connector :: string
  ge_flow :: string
  ge_sub_flow :: string
  ge_error_code :: "string option"
  ge_error_message :: "string option"
  ge_issuer_error_code :: "string option"
  ge_card_network :: "string option"

record gsm_info =
  gi_decision :: string
  gi_step_up_possible :: bool
  gi_clear_pan_possible :: bool
  gi_alternate_network_possible :: bool
  gi_unified_code :: "string option"
  gi_unified_message :: "string option"
  gi_error_category :: "string option"
  gi_standardised_code :: "string option"
  gi_description :: "string option"
  gi_user_guidance_message :: "string option"

section \<open>Reading the table\<close>

record csv_row =
  cr_connector :: string
  cr_flow :: string
  cr_sub_flow :: string
  cr_code :: string
  cr_message :: string
  cr_status :: string
  cr_router_error :: string
  cr_decision :: string
  cr_created_at :: string
  cr_last_modified :: string
  cr_step_up_possible :: string
  cr_unified_code :: string
  cr_unified_message :: string
  cr_error_category :: string
  cr_clear_pan_possible :: string
  cr_feature_data :: string
  cr_feature :: string
  cr_standardised_code :: string
  cr_description :: string
  cr_user_guidance_message :: string

datatype gsm_error = Csv string | InvalidDecision string

definition none_if_empty :: "string \<Rightarrow> string option" where
  "none_if_empty s = (if s = [] then None else Some s)"

definition parse_bool_string :: "(string \<Rightarrow> string) \<Rightarrow> string \<Rightarrow> bool" where
  "parse_bool_string upper s \<longleftrightarrow> upper s \<in> {''TRUE'', ''1'', ''YES''}"

definition gsm_rule_of_row :: "(string \<Rightarrow> string) \<Rightarrow> csv_row \<Rightarrow> gsm_error + gsm_rule" where
  "gsm_rule_of_row upper row =
     rbind (map_err InvalidDecision (gsm_decision_from_str (cr_decision row))) (\<lambda>decision.
       let feature_data_raw = none_if_empty (cr_feature_data row) in
       Inr \<lparr>gr_connector = cr_connector row, gr_flow = cr_flow row, gr_sub_flow = cr_sub_flow row,
            gr_code = cr_code row, gr_message = cr_message row, gr_status = cr_status row,
            gr_router_error = none_if_empty (cr_router_error row), gr_decision = decision,
            gr_step_up_possible = parse_bool_string upper (cr_step_up_possible row),
            gr_clear_pan_possible = parse_bool_string upper (cr_clear_pan_possible row),
            gr_alternate_network_possible =
              (case feature_data_raw of None \<Rightarrow> False
               | Some s \<Rightarrow> str_contains s ''\"alternate_network_possible\":true''
                   \<or> str_contains s ''\"alternate_network_possible\": true''),
            gr_feature_data_raw = feature_data_raw,
            gr_unified_code = none_if_empty (cr_unified_code row),
            gr_unified_message = none_if_empty (cr_unified_message row),
            gr_error_category = none_if_empty (cr_error_category row),
            gr_standardised_code = none_if_empty (cr_standardised_code row),
            gr_description = none_if_empty (cr_description row),
            gr_user_guidance_message = none_if_empty (cr_user_guidance_message row),
            gr_feature = none_if_empty (cr_feature row)\<rparr>)"

type_synonym gsm_key = "string \<times> string \<times> string \<times> string \<times> string"

type_synonym gsm_store = "(gsm_key \<times> gsm_rule) list"

definition gsm_row_key :: "csv_row \<Rightarrow> gsm_key" where
  "gsm_row_key row = (cr_connector row, cr_flow row, cr_sub_flow row, cr_code row, cr_message row)"

fun gsm_load :: "(string \<Rightarrow> string) \<Rightarrow> gsm_store \<Rightarrow> (string + csv_row) list \<Rightarrow> gsm_error + gsm_store" where
  "gsm_load upper index [] = Inr index"
| "gsm_load upper index (result # results) =
     rbind (map_err Csv result) (\<lambda>row.
     rbind (gsm_rule_of_row upper row) (\<lambda>rule.
       gsm_load upper (hm_insert (gsm_row_key row) rule index) results))"

definition from_csv_str :: "(string \<Rightarrow> string) \<Rightarrow> (string + csv_row) list \<Rightarrow> gsm_error + gsm_store" where
  "from_csv_str upper results = gsm_load upper [] results"

definition find_gsm_rule :: "gsm_store \<Rightarrow> string \<Rightarrow> string \<Rightarrow> string \<Rightarrow> string \<Rightarrow> string \<Rightarrow> gsm_rule option" where
  "find_gsm_rule store connector flow sub_flow code message =
     map_of store (connector, flow, sub_flow, code, message)"

section \<open>Lookup\<close>

definition issuer_lookup_key :: "string \<Rightarrow> string \<Rightarrow> string" where
  "issuer_lookup_key card_network issuer_code =
     ''Network:'' @ card_network @ ''|IssuerCode:'' @ replicate (2 - length issuer_code) CHR ''0'' @ issuer_code"

text \<open>For any store with the lookup \<open>find_rule\<close> of the trait \<open>GsmLookup\<close>.\<close>

definition get_gsm_rule ::
  "(string \<Rightarrow> string \<Rightarrow> string \<Rightarrow> string \<Rightarrow> string \<Rightarrow> gsm_rule option) \<Rightarrow> gsm_error_info \<Rightarrow> gsm_rule option" where
  "get_gsm_rule find_rule e =
     (let rule_at = find_rule (ge_connector e) (ge_flow e) (ge_sub_flow e);
          issuer = (case (ge_card_network e, ge_issuer_error_code e) of
            (Some network, Some issuer_code) \<Rightarrow>
              (let key = issuer_lookup_key network issuer_code in rule_at key key)
          | _ \<Rightarrow> None)
      in case issuer of
           Some rule \<Rightarrow> Some rule
         | None \<Rightarrow> rule_at (unwrap_or (ge_error_code e) []) (unwrap_or (ge_error_message e) []))"

definition gsm_info_of_rule :: "gsm_rule \<Rightarrow> gsm_info" where
  "gsm_info_of_rule rule =
     \<lparr>gi_decision = gsm_decision_to_string (gr_decision rule),
      gi_step_up_possible = gr_step_up_possible rule,
      gi_clear_pan_possible = gr_clear_pan_possible rule,
      gi_alternate_network_possible = gr_alternate_network_possible rule,
      gi_unified_code = gr_unified_code rule, gi_unified_message = gr_unified_message rule,
      gi_error_category = gr_error_category rule, gi_standardised_code = gr_standardised_code rule,
      gi_description = gr_description rule, gi_user_guidance_message = gr_user_guidance_message rule\<rparr>"

definition lookup_from_error_info ::
  "(string \<Rightarrow> string \<Rightarrow> string \<Rightarrow> string \<Rightarrow> string \<Rightarrow> gsm_rule option) \<Rightarrow> gsm_error_info \<Rightarrow> gsm_info option" where
  "lookup_from_error_info find_rule e = map_option gsm_info_of_rule (get_gsm_rule find_rule e)"

record gsm_option_row =
  go_connector :: string
  go_flow :: string
  go_sub_flow :: string
  go_error_code :: string
  go_error_message :: string
  go_error_category :: "string option"
  go_unified_code :: "string option"
  go_unified_message :: "string option"
  go_decision :: string

definition gsm_options :: "gsm_store \<Rightarrow> gsm_option_row list" where
  "gsm_options store = map (\<lambda>(_, r).
     \<lparr>go_connector = gr_connector r, go_flow = gr_flow r, go_sub_flow = gr_sub_flow r,
      go_error_code = gr_code r, go_error_message = gr_message r, go_error_category = gr_error_category r,
      go_unified_code = gr_unified_code r, go_unified_message = gr_unified_message r,
      go_decision = gsm_decision_to_string (gr_decision r)\<rparr>) store"

definition gsm_lookup :: "gsm_store \<Rightarrow> gsm_error_info \<Rightarrow> gsm_info option" where
  "gsm_lookup store e = lookup_from_error_info (find_gsm_rule store) e"

section \<open>The last row counts\<close>

lemma find_append: "find P (xs @ ys) = (case find P xs of None \<Rightarrow> find P ys | Some x \<Rightarrow> Some x)"
  by (induction xs) auto

lemma gsm_load_find:
  "gsm_load upper index results = Inr store \<Longrightarrow>
     (\<forall>r\<in>set results. \<exists>row rule. r = Inr row \<and> gsm_rule_of_row upper row = Inr rule) \<and>
     map_of store k =
       (case find (\<lambda>row. gsm_row_key row = k) (rev (List.map projr results)) of
          None \<Rightarrow> map_of index k
        | Some row \<Rightarrow> Some (projr (gsm_rule_of_row upper row)))"
proof (induction upper index results rule: gsm_load.induct)
  case (2 upper index r results)
  then obtain row rule where row: "r = Inr row" "gsm_rule_of_row upper row = Inr rule"
    "gsm_load upper (hm_insert (gsm_row_key row) rule index) results = Inr store"
    by (cases r; cases "gsm_rule_of_row upper (projr r)") auto
  have IH: "(\<forall>r\<in>set results. \<exists>row rule. r = Inr row \<and> gsm_rule_of_row upper row = Inr rule) \<and>
     map_of store k =
       (case find (\<lambda>row. gsm_row_key row = k) (rev (List.map projr results)) of
          None \<Rightarrow> map_of (hm_insert (gsm_row_key row) rule index) k
        | Some row \<Rightarrow> Some (projr (gsm_rule_of_row upper row)))"
    using 2(1) row by simp
  then show ?case using row by (auto simp: find_append split: option.splits)
qed simp

end
