(* ===== verification/Feedback_Flow.thy ===== *)
theory Feedback_Flow
  imports Score_Keys Decide Gsm Ab_Test
begin

text \<open>
  A feedback from the payment's outcome to the scores it moves
  (\<open>src/src/feedback/gateway_scoring_service.rs\<close>, \<open>src/src/feedback/utils.rs\<close>): the A/B outcome event, the
  filter by the gateway status map, the scoring type, the lock against repeated feedbacks, the gates
  of the success-rate window and of the elimination scores, and the two updates. The scoring data in
  Redis, the lock, the merchant's switches and configuration and the clock are arguments. A panic is
  \<open>None\<close>. Updates of elimination scores are spawned one task per key; the keys differ, so their order does
  not matter, and they are run in sequence here. Logs and the calls to the analytics queue are left
  out, but for the score snapshot.
\<close>

section \<open>Statuses\<close>

datatype txn_status =
    Started | AuthenticationFailed | JuspayDeclined | PendingVBV | VBVSuccessful | Authorized
  | AuthorizationFailed | Charged | Authorizing | CODInitiated | Voided | VoidInitiated | Nop
  | CaptureInitiated | CaptureFailed | VoidFailed | AutoRefunded | PartialCharged | ToBeCharged
  | Pending | Failure | Declined

definition txn_success_states :: "txn_status list" where
  "txn_success_states =
     [Charged, Authorized, CODInitiated, Voided, VoidInitiated, CaptureInitiated, CaptureFailed, VoidFailed,
      AutoRefunded, PartialCharged, ToBeCharged]"

definition txn_failure_states :: "txn_status list" where
  "txn_failure_states = [AuthenticationFailed, AuthorizationFailed, JuspayDeclined, Failure]"

definition is_transaction_success :: "txn_status \<Rightarrow> bool" where
  "is_transaction_success s \<longleftrightarrow> s \<in> set txn_success_states"

definition is_transaction_failure :: "txn_status \<Rightarrow> bool" where
  "is_transaction_failure s \<longleftrightarrow> s \<in> set txn_failure_states"

definition is_transaction_pending :: "txn_status \<Rightarrow> bool" where
  "is_transaction_pending s \<longleftrightarrow> s = PendingVBV \<or> s = Started"

fun approach_to_string :: "gateway_decider_approach \<Rightarrow> string" where
  "approach_to_string SrSelection = ''SR_SELECTION''"
| "approach_to_string SrSelectionV2Routing = ''SR_SELECTION_V2_ROUTING''"
| "approach_to_string SrSelectionV3Routing = ''SR_SELECTION_V3_ROUTING''"
| "approach_to_string PriorityLogic = ''PRIORITY_LOGIC''"
| "approach_to_string Default = ''DEFAULT''"
| "approach_to_string Approach_None = ''NONE''"
| "approach_to_string MerchantPreference = ''MERCHANT_PREFERENCE''"
| "approach_to_string PlAllDowntimeRouting = ''PL_ALL_DOWNTIME_ROUTING''"
| "approach_to_string PlDowntimeRouting = ''PL_DOWNTIME_ROUTING''"
| "approach_to_string PlGlobalDowntimeRouting = ''PL_GLOBAL_DOWNTIME_ROUTING''"
| "approach_to_string SrV2AllDowntimeRouting = ''SR_V2_ALL_DOWNTIME_ROUTING''"
| "approach_to_string SrV2DowntimeRouting = ''SR_V2_DOWNTIME_ROUTING''"
| "approach_to_string SrV2GlobalDowntimeRouting = ''SR_V2_GLOBAL_DOWNTIME_ROUTING''"
| "approach_to_string SrV2Hedging = ''SR_V2_HEDGING''"
| "approach_to_string SrV2AllDowntimeHedging = ''SR_V2_ALL_DOWNTIME_HEDGING''"
| "approach_to_string SrV2DowntimeHedging = ''SR_V2_DOWNTIME_HEDGING''"
| "approach_to_string SrV2GlobalDowntimeHedging = ''SR_V2_GLOBAL_DOWNTIME_HEDGING''"
| "approach_to_string SrV3AllDowntimeRouting = ''SR_V3_ALL_DOWNTIME_ROUTING''"
| "approach_to_string SrV3DowntimeRouting = ''SR_V3_DOWNTIME_ROUTING''"
| "approach_to_string SrV3GlobalDowntimeRouting = ''SR_V3_GLOBAL_DOWNTIME_ROUTING''"
| "approach_to_string SrV3Hedging = ''SR_V3_HEDGING''"
| "approach_to_string SrV3AllDowntimeHedging = ''SR_V3_ALL_DOWNTIME_HEDGING''"
| "approach_to_string SrV3DowntimeHedging = ''SR_V3_DOWNTIME_HEDGING''"
| "approach_to_string SrV3GlobalDowntimeHedging = ''SR_V3_GLOBAL_DOWNTIME_HEDGING''"
| "approach_to_string NtwBasedRouting = ''NTW_BASED_ROUTING''"
| "approach_to_string AbTestStaticAlgorithm = ''AB_TEST_STATIC_ALGORITHM''"
| "approach_to_string SrSelectionMultiObjective = ''SR_SELECTION_MULTI_OBJECTIVE''"

section \<open>The request\<close>

record update_score_payload =
  up_merchant_id :: string
  up_gateway :: string
  up_gateway_reference_id :: "string option"
  up_status :: txn_status
  up_payment_id :: string
  up_enforce_failure :: "bool option"
  up_txn_latency :: "f64 option option"
  up_error_info :: "gsm_error_info option"

text \<open>\<open>GatewayScoringData\<close> as it is stored: with the approach of the decision and its date.\<close>

record scoring_document =
  sd_data :: gateway_scoring_data
  sd_routing_approach :: "string option"
  sd_date_created :: string

record feedback_txn = txn_detail +
  ft_status :: txn_status
  ft_uuid :: string
  ft_currency :: string
  ft_internal_metadata :: "json option"

definition internal_metadata :: "string \<Rightarrow> json" where
  "internal_metadata approach =
     JObj [(''internal_tracking_info'', JObj [(''routing_approach'', JStr approach)])]"

definition get_txn_detail_from_api_payload :: "update_score_payload \<Rightarrow> scoring_document \<Rightarrow> string + feedback_txn" where
  "get_txn_detail_from_api_payload p d =
     (let gsd = sd_data d in
      case gsd_currency gsd of
        None \<Rightarrow> Inl ''currency''
      | Some currency \<Rightarrow> Inr
          \<lparr>td_txn_id = up_payment_id p, td_date_created = sd_date_created d, td_merchant_id = up_merchant_id p,
           td_gateway = Some (up_gateway p),
           td_txn_object_type = Some (unwrap_or (txn_object_type_from_text (gsd_order_type gsd)) OrderPayment),
           td_source_object = Some (gsd_payment_method gsd), td_country = gsd_country gsd,
           ft_status = up_status p, ft_uuid = up_payment_id p, ft_currency = currency,
           ft_internal_metadata = Some (internal_metadata (unwrap_or (sd_routing_approach d) []))\<rparr>)"

definition get_txn_card_info_from_api_payload :: "scoring_document \<Rightarrow> txn_card_info" where
  "get_txn_card_info_from_api_payload d =
     (let gsd = sd_data d in
      \<lparr>tci_card_isin = None, tci_card_switch_provider = None, tci_card_type = None,
       tci_payment_method_type = gsd_payment_method_type gsd, tci_payment_method = gsd_payment_method gsd,
       tci_payment_source = gsd_payment_source gsd,
       tci_auth_type = Option.bind (gsd_auth_type gsd) text_to_auth_type\<rparr>)"

section \<open>Routing approaches\<close>

definition get_routing_approach :: "feedback_txn \<Rightarrow> string option" where
  "get_routing_approach t =
     Option.bind (ft_internal_metadata t) (\<lambda>j.
       case j of
         JObj fs \<Rightarrow> (case map_of fs ''internal_tracking_info'' of
             Some (JObj gs) \<Rightarrow> (case map_of gs ''routing_approach'' of Some (JStr a) \<Rightarrow> Some a | _ \<Rightarrow> None)
           | _ \<Rightarrow> None)
       | _ \<Rightarrow> None)"

definition isRoutingApproachInSRV2 :: "string option \<Rightarrow> bool" where
  "isRoutingApproachInSRV2 t = (case t of Some text \<Rightarrow> str_contains text ''V2'' | None \<Rightarrow> False)"

definition is_routing_approach_in_srv3 :: "string option \<Rightarrow> bool" where
  "is_routing_approach_in_srv3 t =
     (case t of Some text \<Rightarrow> str_contains text ''V3'' \<or> str_contains text ''MULTI_OBJECTIVE'' | None \<Rightarrow> False)"

definition is_routing_approach_in_explore :: "string option \<Rightarrow> bool" where
  "is_routing_approach_in_explore t =
     (case t of Some text \<Rightarrow> str_contains text ''HEDGING'' \<or> str_contains text ''MULTI_OBJECTIVE'' | None \<Rightarrow> False)"

section \<open>The environment\<close>

record feedback_switches =
  fs_gsm_filter :: bool
  fs_score_lock :: bool
  fs_srv3_producer_isolation :: bool
  fs_explore_and_exploit :: bool
  fs_global_scoring :: bool
  fs_merchant_elimination_flow :: bool
  fs_global_outage :: bool
  fs_merchant_outage :: bool

text \<open>
  Every read of the scoring data is a read of its own: the number tells the reads apart. \<open>fe_lock\<close> is
  \<open>SET NX EX\<close>, with \<open>None\<close> an error; \<open>fe_merchant\<close> holds if the merchant's account is found;
  \<open>fe_latency_threshold\<close> is the merchant's hard latency threshold.
\<close>

record 'l feedback_env =
  fe_switches :: feedback_switches
  fe_scoring_data :: "nat \<Rightarrow> string \<Rightarrow> scoring_document option"
  fe_lock :: "string \<Rightarrow> int \<Rightarrow> 'l \<Rightarrow> bool option \<times> 'l"
  fe_lock_ttl :: "int option"
  fe_merchant :: bool
  fe_now :: nat
  fe_millis :: "string \<Rightarrow> nat"
  fe_merchant_cfg :: "sr_v3_input_config option"
  fe_default_cfg :: "sr_v3_input_config option"
  fe_latency_check_in_mins :: "nat option"
  fe_latency_threshold :: "f64 option"
  fe_metrics :: metric_hash
  fe_keys :: sr_key_config
  fe_gsm :: gsm_store

section \<open>The scoring type\<close>

definition get_time_from_txn_created_in_mills :: "'l feedback_env \<Rightarrow> txn_detail \<Rightarrow> nat" where
  "get_time_from_txn_created_in_mills E t = fe_now E - fe_millis E (td_date_created t)"

definition default_sr_v3_latency_threshold_in_secs :: f64 where
  "default_sr_v3_latency_threshold_in_secs = Fin 300"

definition time_difference_threshold :: "'l feedback_env \<Rightarrow> feedback_txn \<Rightarrow> txn_card_info \<Rightarrow> f64" where
  "time_difference_threshold E t info =
     (let pmt = tci_payment_method_type info;
          pm = get_payment_method pmt (tci_payment_method info) (unwrap_or (td_source_object t) []);
          dims = dimensions_of (ft_currency t) (txn_detail.truncate t) info in
      unwrap_or
        (opt_or (get_sr_v3_latency_threshold (fe_merchant_cfg E) pmt pm dims)
           (get_sr_v3_latency_threshold (fe_default_cfg E) pmt pm dims))
        default_sr_v3_latency_threshold_in_secs)"

definition get_gateway_scoring_type ::
  "'l feedback_env \<Rightarrow> feedback_txn \<Rightarrow> txn_card_info \<Rightarrow> bool \<Rightarrow> gateway_scoring_type" where
  "get_gateway_scoring_type E t info enforce =
     (if enforce then PenaliseSrv3
      else if is_transaction_success (ft_status t) then Reward
      else if is_transaction_failure (ft_status t) then PenaliseSrv3
      else if get_time_from_txn_created_in_mills E (txn_detail.truncate t)
                < f64_as_u128 (fmul (time_difference_threshold E t info) (Fin 1000))
      then Penalise
      else PenaliseSrv3)"

definition update_gateway_score_lock :: "gateway_scoring_type \<Rightarrow> string \<Rightarrow> string \<Rightarrow> string" where
  "update_gateway_score_lock ty txn_uuid gateway =
     (case ty of
        Penalise \<Rightarrow> ''gateway_scores_lock_PENALISE_''
      | PenaliseSrv3 \<Rightarrow> ''gateway_scores_lock_PENALISE_SRV3_''
      | Reward \<Rightarrow> ''gateway_scores_lock_REWARD_'') @ txn_uuid @ ''_'' @ gateway"

definition is_gateway_healthy_failure :: "gsm_info \<Rightarrow> bool" where
  "is_gateway_healthy_failure g \<longleftrightarrow>
     gi_step_up_possible g \<or> gi_unified_message g = Some ''Issue with Payment Method details''"

section \<open>The latency window\<close>

record gateway_wise_latency_input =
  gl_gateway :: string
  gl_payment_method_type :: "string option"
  gl_payment_method :: "string option"
  gl_latency_threshold :: f64

record gateway_latency_for_scoring =
  gf_default_latency_threshold :: f64
  gf_gateway_wise_input :: "gateway_wise_latency_input list option"

definition default_gw_latency_check_in_mins :: gateway_latency_for_scoring where
  "default_gw_latency_check_in_mins =
     \<lparr>gf_default_latency_threshold = Fin 10, gf_gateway_wise_input = None\<rparr>"

definition latency_upto_gw :: "gateway_wise_latency_input list \<Rightarrow> string \<Rightarrow> gateway_wise_latency_input option" where
  "latency_upto_gw inputs gw =
     find (\<lambda>x. gl_gateway x = gw \<and> gl_payment_method_type x = None \<and> gl_payment_method x = None) inputs"

definition latency_upto_pmt ::
  "gateway_wise_latency_input list \<Rightarrow> string \<Rightarrow> string \<Rightarrow> gateway_wise_latency_input option" where
  "latency_upto_pmt inputs gw pmt =
     find (\<lambda>x. gl_gateway x = gw \<and> unwrap_or (gl_payment_method_type x) [] = pmt \<and> gl_payment_method x = None) inputs"

definition latency_upto_pm ::
  "gateway_wise_latency_input list \<Rightarrow> string \<Rightarrow> string \<Rightarrow> string \<Rightarrow> gateway_wise_latency_input option" where
  "latency_upto_pm inputs gw pmt pm =
     find (\<lambda>x. gl_gateway x = gw \<and> unwrap_or (gl_payment_method_type x) [] = pmt
        \<and> unwrap_or (gl_payment_method x) [] = pm) inputs"

definition get_gateway_wise_latency :: "gateway_latency_for_scoring \<Rightarrow> string \<Rightarrow> string \<Rightarrow> string \<Rightarrow> f64" where
  "get_gateway_wise_latency c pmt pm gw =
     (case gf_gateway_wise_input c of
        Some inputs \<Rightarrow>
          (case opt_or (latency_upto_pm inputs gw pmt pm)
                  (opt_or (latency_upto_pmt inputs gw pmt) (latency_upto_gw inputs gw)) of
             Some r \<Rightarrow> gl_latency_threshold r
           | None \<Rightarrow> gf_default_latency_threshold c)
      | None \<Rightarrow> gf_default_latency_threshold c)"

definition isGwLatencyWithinConfiguredThreshold :: "f64 option \<Rightarrow> f64 option \<Rightarrow> bool" where
  "isGwLatencyWithinConfiguredThreshold txn_latency merchant_latency_threshold =
     (case (txn_latency, merchant_latency_threshold) of
        (Some latency, Some threshold) \<Rightarrow> fle latency threshold
      | _ \<Rightarrow> True)"

definition recurringTxnObjectTypes :: "txn_object_type list" where
  "recurringTxnObjectTypes = [MandatePayment, EmandatePayment, TpvMandatePayment, TpvEmandatePayment]"

definition mandateRegisterTxnObjectTypes :: "txn_object_type list" where
  "mandateRegisterTxnObjectTypes = [MandateRegister, EmandateRegister, TpvEmandateRegister, TpvMandateRegister]"

definition isRecurringTxn :: "txn_object_type option \<Rightarrow> bool" where
  "isRecurringTxn t = (case t of Some t \<Rightarrow> t \<in> set recurringTxnObjectTypes | None \<Rightarrow> False)"

definition isMandateRegTxn :: "txn_object_type \<Rightarrow> bool" where
  "isMandateRegTxn t \<longleftrightarrow> t \<in> set mandateRegisterTxnObjectTypes"

datatype mandate_txn_type = MT_Register | MT_RegisterAndDebit | MT_Default

definition mandate_txn_type_of_json :: "json \<Rightarrow> mandate_txn_type option" where
  "mandate_txn_type_of_json j =
     (if j = JStr ''REGISTER'' then Some MT_Register
      else if j = JStr ''REGISTER_AND_DEBIT'' then Some MT_RegisterAndDebit
      else if j = JStr ''DEFAULT'' then Some MT_Default else None)"

definition getTxnTypeFromInternalMetadata :: "json option \<Rightarrow> mandate_txn_type" where
  "getTxnTypeFromInternalMetadata m =
     (case m of
        None \<Rightarrow> MT_Default
      | Some j \<Rightarrow> unwrap_or
          (Option.bind (req_field Some ''mandateTxnInfo'' j) (\<lambda>i.
           Option.bind (req_field f64_of_json ''debitAmount'' i) (\<lambda>_.
             req_field mandate_txn_type_of_json ''txnType'' i))) MT_Default)"

definition isPennyTxnType :: "feedback_txn \<Rightarrow> bool" where
  "isPennyTxnType t \<longleftrightarrow> getTxnTypeFromInternalMetadata (ft_internal_metadata t) = MT_Register"

definition isPennyMandateRegTxn :: "feedback_txn \<Rightarrow> bool" where
  "isPennyMandateRegTxn t =
     (case td_txn_object_type t of
        Some ot \<Rightarrow> if isMandateRegTxn ot then isPennyTxnType t else False
      | None \<Rightarrow> False)"

definition checkExemptIfMandateTxn :: "feedback_txn \<Rightarrow> txn_card_info \<Rightarrow> bool" where
  "checkExemptIfMandateTxn t info \<longleftrightarrow>
     isRecurringTxn (td_txn_object_type t) \<or> (tci_payment_method_type info = ''NB'' \<and> isPennyMandateRegTxn t)"

definition defaultGatewayScoreLatencyCheckInMins :: nat where
  "defaultGatewayScoreLatencyCheckInMins = 15"

definition latency_check_threshold :: "'l feedback_env \<Rightarrow> feedback_txn \<Rightarrow> txn_card_info \<Rightarrow> metric_entry option \<Rightarrow> f64" where
  "latency_check_threshold E t info m_metric_entry =
     (let configured = f64_of_int (int (unwrap_or (fe_latency_check_in_mins E) defaultGatewayScoreLatencyCheckInMins));
          pmt = tci_payment_method_type info;
          wise = get_gateway_wise_latency default_gw_latency_check_in_mins pmt
            (get_payment_method pmt (tci_payment_method info) (unwrap_or (td_source_object t) []))
            (unwrap_or (td_gateway t) []);
          threshold = fmin wise configured in
      case m_metric_entry of
        Some entry \<Rightarrow> fmin threshold (me_tp99_latency entry)
      | None \<Rightarrow> threshold)"

definition is_update_within_latency_window ::
  "'l feedback_env \<Rightarrow> feedback_txn \<Rightarrow> txn_card_info \<Rightarrow> gateway_scoring_type \<Rightarrow> f64 option option \<Rightarrow>
   metric_entry option \<Rightarrow> bool" where
  "is_update_within_latency_window E t info ty txn_latency m_metric_entry =
     (if ty = Penalise then True
      else if checkExemptIfMandateTxn t info then True
      else
        get_time_from_txn_created_in_mills E (txn_detail.truncate t)
          < f64_as_u128 (fmul (latency_check_threshold E t info m_metric_entry) (Fin 60000))
        \<and> isGwLatencyWithinConfiguredThreshold (Option.bind txn_latency (\<lambda>l. l)) (fe_latency_threshold E))"

end
