(* ===== verification/Feedback_Update.thy ===== *)
theory Feedback_Update
  imports Feedback_Flow
begin

text \<open>
  What a feedback updates (\<open>update_gateway_score\<close> and its callers in
  \<open>src/src/feedback/gateway_scoring_service.rs\<close>), with the gates in the order of the code.
\<close>

section \<open>The gates\<close>

definition scoring_data_key :: "string \<Rightarrow> string" where
  "scoring_data_key payment_id = ''gateway_scoring_data_'' @ payment_id"

definition m_source_object :: "feedback_txn \<Rightarrow> txn_card_info \<Rightarrow> string option" where
  "m_source_object t info =
     (if tci_payment_method_type info = ''UPI'' then td_source_object t else Some (tci_payment_method info))"

definition should_update_gateway_score :: "gateway_scoring_type \<Rightarrow> txn_status \<Rightarrow> bool" where
  "should_update_gateway_score ty status =
     (if ty = PenaliseSrv3 then False else if ty = Penalise then is_transaction_pending status else True)"

definition srv3_gates :: "feedback_switches \<Rightarrow> gateway_scoring_type \<Rightarrow> string option \<Rightarrow> bool" where
  "srv3_gates F ty routing_approach \<longleftrightarrow>
     ty \<noteq> Penalise
     \<and> (if fs_srv3_producer_isolation F then is_routing_approach_in_srv3 routing_approach else True)
     \<and> (if fs_explore_and_exploit F then is_routing_approach_in_explore routing_approach else True)"

definition elimination_data ::
  "'l feedback_env \<Rightarrow> gateway_scoring_type \<Rightarrow> feedback_txn \<Rightarrow> scoring_document option" where
  "elimination_data E ty t =
     (let key = scoring_data_key (ft_uuid t);
          initial = (if srv3_gates (fe_switches E) ty (get_routing_approach t) then fe_scoring_data E 1 key else None) in
      if should_update_gateway_score ty (ft_status t)
      then (case initial of None \<Rightarrow> fe_scoring_data E 2 key | Some d \<Rightarrow> Some d)
      else None)"

definition feedback_metric_entry ::
  "'l feedback_env \<Rightarrow> feedback_txn \<Rightarrow> txn_card_info \<Rightarrow> scoring_document option \<Rightarrow> metric_entry option" where
  "feedback_metric_entry E t info data =
     get_metric_entry_data (fe_metrics E) (td_merchant_id t) (tci_payment_method_type info)
       (m_source_object t info)
       (unwrap_or (map_option txn_object_type_to_text (td_txn_object_type t)) [])
       (map_option card_type_to_text (tci_card_type info))
       (case data of None \<Rightarrow> False | Some d \<Rightarrow> gsd_is_gri_enabled_for_elimination (sd_data d))
       (case data of None \<Rightarrow> None | Some d \<Rightarrow> gsd_gateway_reference_id (sd_data d))"

section \<open>The updates\<close>

definition feedback_bucket_size :: "'l feedback_env \<Rightarrow> feedback_txn \<Rightarrow> txn_card_info \<Rightarrow> int" where
  "feedback_bucket_size E t info =
     getSrV3MerchantBucketSize (fe_merchant_cfg E) (fe_default_cfg E) (tci_payment_method_type info)
       (tci_payment_method info) (td_source_object t)
       (dimensions_of (ft_currency t) (txn_detail.truncate t) info)"

definition srv3_update ::
  "'s redis \<Rightarrow> 'l feedback_env \<Rightarrow> gateway_scoring_type \<Rightarrow> feedback_txn \<Rightarrow> txn_card_info \<Rightarrow> string option \<Rightarrow> 's \<Rightarrow> 's" where
  "srv3_update R E ty t info reference_id s =
     (let data = fe_scoring_data E 3 (scoring_data_key (ft_uuid t)) in
      update_sr_v3_score R ty (td_gateway t)
        (getProducerKey (fe_keys E) (td_gateway t) (map_option sd_data data) SrV3Key False reference_id)
        (tci_payment_method_type info) (feedback_bucket_size E t info) s)"

definition elimination_update ::
  "'k score_store \<Rightarrow> elim_env \<Rightarrow> 'l feedback_env \<Rightarrow> gateway_scoring_type \<Rightarrow> feedback_txn \<Rightarrow> txn_card_info \<Rightarrow>
   string option \<Rightarrow> gateway_scoring_data \<Rightarrow> 'k \<Rightarrow> 'k" where
  "elimination_update S X E ty t info reference_id gsd k =
     (let F = fe_switches E;
          key_array = getAllUnifiedKeys
            (\<lambda>kt. getProducerKey (fe_keys E) (td_gateway t) (Some gsd) kt False reference_id)
            (fs_global_scoring F) (gsd_elimination_enabled gsd) (fs_merchant_elimination_flow F)
            (fs_global_outage F) (fs_merchant_outage F) in
      foldl (\<lambda>k key. snd (updateKeyScoreForKeysFromConsumer S X (fe_now E) (txn_detail.truncate t) info ty gsd key k))
        k key_array)"

definition update_gateway_score ::
  "'s redis \<Rightarrow> 'k score_store \<Rightarrow> elim_env \<Rightarrow> 'l feedback_env \<Rightarrow> gateway_scoring_type \<Rightarrow> feedback_txn \<Rightarrow> txn_card_info \<Rightarrow>
   string option \<Rightarrow> f64 option option \<Rightarrow> 's \<times> 'k \<Rightarrow> ('s \<times> 'k) option" where
  "update_gateway_score R S X E ty t info reference_id txn_latency st =
     (if \<not> fe_merchant E then None
      else
        (let (s, k) = st; data = elimination_data E ty t;
             in_window = is_update_within_latency_window E t info ty txn_latency (feedback_metric_entry E t info data);
             s' = (if srv3_gates (fe_switches E) ty (get_routing_approach t) \<and> in_window
                   then srv3_update R E ty t info reference_id s else s);
             k' = (if should_update_gateway_score ty (ft_status t) \<and> in_window
                   then (case (case data of None \<Rightarrow> fe_scoring_data E 4 (scoring_data_key (ft_uuid t)) | Some d \<Rightarrow> Some d) of
                           None \<Rightarrow> k
                         | Some d \<Rightarrow> elimination_update S X E ty t info reference_id (sd_data d) k)
                   else k)
         in Some (s', k')))"

definition check_and_send_should_update_gateway_score ::
  "'l feedback_env \<Rightarrow> string \<Rightarrow> int \<Rightarrow> 'l \<Rightarrow> bool \<times> 'l" where
  "check_and_send_should_update_gateway_score E lock_key lock_key_ttl l =
     (let (is_set, l') = fe_lock E lock_key lock_key_ttl l in (unwrap_or is_set False, l'))"

definition check_and_update_gateway_score ::
  "'s redis \<Rightarrow> 'k score_store \<Rightarrow> elim_env \<Rightarrow> 'l feedback_env \<Rightarrow> feedback_txn \<Rightarrow> txn_card_info \<Rightarrow> bool \<Rightarrow>
   string option \<Rightarrow> f64 option option \<Rightarrow> ('s \<times> 'k) \<times> 'l \<Rightarrow> (('s \<times> 'k) \<times> 'l) option" where
  "check_and_update_gateway_score R S X E t info enforce_failure reference_id txn_latency st =
     (let (stores, l) = st;
          ty = get_gateway_scoring_type E t info enforce_failure;
          lock_key = update_gateway_score_lock ty (ft_uuid t) (unwrap_or (td_gateway t) []);
          (should_compute, l') = check_and_send_should_update_gateway_score E lock_key
            (unwrap_or (fe_lock_ttl E) 300) l in
      if fs_score_lock (fe_switches E) \<and> \<not> should_compute then Some (stores, l')
      else map_option (\<lambda>stores'. (stores', l'))
             (update_gateway_score R S X E ty t info reference_id txn_latency stores))"

section \<open>The request\<close>

definition invalid_request_error :: "string \<Rightarrow> string \<Rightarrow> error_response" where
  "invalid_request_error detail e =
     \<lparr>er_status = ''400'', er_error_code = ''INVALID_REQUEST'',
      er_error_message = ''Failed to extract '' @ detail @ '': '' @ e, er_priority_logic_tag = None,
      er_routing_approach = None, er_info_code = ''INVALID_REQUEST'', er_priority_logic_output = None,
      er_is_dynamic_mga_enabled = False\<rparr>"

definition scoring_data_not_found :: error_response where
  "scoring_data_not_found =
     \<lparr>er_status = ''400'', er_error_code = ''GATEWAY_SCORING_DATA_NOT_FOUND'',
      er_error_message = ''GatewayScoringData is not found in redis'', er_priority_logic_tag = None,
      er_routing_approach = None, er_info_code = ''GATEWAY_SCORING_DATA_NOT_FOUND'',
      er_priority_logic_output = None, er_is_dynamic_mga_enabled = False\<rparr>"

text \<open>The connector the table is asked for is the gateway that processed the payment.\<close>

definition skipped_by_gsm :: "'l feedback_env \<Rightarrow> update_score_payload \<Rightarrow> bool" where
  "skipped_by_gsm E p =
     (case up_error_info p of
        None \<Rightarrow> False
      | Some error_info \<Rightarrow>
          fs_gsm_filter (fe_switches E) \<and>
          (case gsm_lookup (fe_gsm E) (error_info\<lparr>ge_connector := up_gateway p\<rparr>) of
             Some g \<Rightarrow> is_gateway_healthy_failure g
           | None \<Rightarrow> False))"

text \<open>
  The answer, the A/B outcome event, and the stores: windows and elimination scores, locks, records
  of A/B tests in flight. \<open>ab\<close> says whether the two calls on the latter succeed.
\<close>

definition feedback_request ::
  "'s redis \<Rightarrow> 'k score_store \<Rightarrow> elim_env \<Rightarrow> 'l feedback_env \<Rightarrow> bool \<times> bool \<Rightarrow> update_score_payload \<Rightarrow>
   (('s \<times> 'k) \<times> 'l) \<times> inflight_store \<Rightarrow>
   ((error_response + string) \<times> outcome_event option \<times> (('s \<times> 'k) \<times> 'l) \<times> inflight_store) option" where
  "feedback_request R S X E ab p st =
     (let (stores, inflight) = st;
          (event, inflight) = emit_if_in_flight (fst ab) (snd ab) inflight (up_payment_id p)
            (is_transaction_success (up_status p)) in
      if skipped_by_gsm E p then Some (Inr ''Success'', event, stores, inflight)
      else
        (case fe_scoring_data E 0 (scoring_data_key (up_payment_id p)) of
           None \<Rightarrow> Some (Inl scoring_data_not_found, event, stores, inflight)
         | Some d \<Rightarrow>
             (case get_txn_detail_from_api_payload p d of
                Inl field \<Rightarrow> Some
                  (Inl (invalid_request_error ''transaction details'' (''Missing required param: '' @ field)),
                   event, stores, inflight)
              | Inr t \<Rightarrow>
                  map_option (\<lambda>stores. (Inr ''Success'', event, stores, inflight))
                    (check_and_update_gateway_score R S X E t (get_txn_card_info_from_api_payload d)
                       (unwrap_or (up_enforce_failure p) False) (up_gateway_reference_id p)
                       (up_txn_latency p) stores))))"

end
