(* ===== verification/Keys_Correct.thy ===== *)
theory Keys_Correct
  imports Score_Keys
begin

text \<open>
  The keys of the decision path against those of the feedback path: where a feedback is written to
  the key the next decision reads, where it is not, and that the gateways of a decision have keys of
  their own.
\<close>

section \<open>Maps with a key per gateway\<close>

lemma map_of_per_gateway:
  assumes "distinct (map fst refs)"
  shows "map_of (per_gateway key refs) gw = map_option (key gw) (map_of refs gw)"
proof -
  have "map_of (foldl (\<lambda>acc (gw, ref_id). hm_insert gw (key gw ref_id) acc) acc refs) gw =
      (case map_of refs gw of None \<Rightarrow> map_of acc gw | Some r \<Rightarrow> Some (key gw r))" for acc
    using assms
  proof (induction refs arbitrary: acc)
    case (Cons x refs)
    then show ?case by (cases x) (auto simp: dom_map_of_conv_image_fst [symmetric] split: option.splits)
  qed simp
  then show ?thesis by (simp add: per_gateway_def split: option.splits)
qed

lemma per_gateway_single [simp]: "per_gateway key [(gw, r)] = [(gw, key gw r)]"
  by (simp add: per_gateway_def hm_insert_def)

lemma gw_ref_id_map:
  "distinct (map fst (gw_ref_id_map_of I gsd gws)) \<and>
   (gw \<in> set gws \<longrightarrow> map_of (gw_ref_id_map_of I gsd gws) gw = Some
      (if gsd_is_gri_enabled_for_elimination gsd \<or> gsd_is_gri_enabled_for_sr_routing gsd
       then Some (reference_id_or_null I gw) else None))"
proof -
  let ?v = "\<lambda>gw. if gsd_is_gri_enabled_for_elimination gsd \<or> gsd_is_gri_enabled_for_sr_routing gsd
       then Some (reference_id_or_null I gw) else None"
  have "hm_ok m \<Longrightarrow> hm_ok (foldl (\<lambda>m gw. hm_insert gw (?v gw) m) m gws) \<and>
      map_of (foldl (\<lambda>m gw. hm_insert gw (?v gw) m) m gws) gw = (if gw \<in> set gws then Some (?v gw) else map_of m gw)" for m
  proof (induction gws arbitrary: m)
    case (Cons g gws)
    have "hm_ok (hm_insert g (?v g) m)" using Cons.prems by (rule hm_ok_insert)
    from Cons.IH [OF this] show ?case by (auto simp only: foldl.simps map_of_hm_insert) auto
  qed simp
  from this [of "[]"] show ?thesis by (simp add: gw_ref_id_map_of_def)
qed

lemma unified_key_nonempty: "get_unified_key K gsd ty enforce1d [(gw, r)] \<noteq> []"
  by (simp add: get_unified_key_def Let_def split: score_key_type.split)

text \<open>Keys per gateway are read by the decision for three of the six types.\<close>

definition decision_key :: "score_key_type \<Rightarrow> bool" where
  "decision_key ty \<longleftrightarrow> ty \<in> {EliminationGlobalKey, EliminationMerchantKey, SrV3Key}"

definition key_for :: "sr_key_config \<Rightarrow> gateway_scoring_data \<Rightarrow> score_key_type \<Rightarrow> string \<Rightarrow> string option \<Rightarrow> string" where
  "key_for K gsd ty gw ref_id = snd (hd (get_unified_key K gsd ty False [(gw, ref_id)]))"

lemma unified_key_lookup:
  assumes "decision_key ty" "distinct (map fst refs)"
  shows "map_of (get_unified_key K gsd ty False refs) gw = map_option (key_for K gsd ty gw) (map_of refs gw)"
  using assms by (auto simp: decision_key_def get_unified_key_def key_for_def Let_def map_of_per_gateway intro!: option.map_cong)

lemma consumer_key:
  assumes "decision_key ty" "gw \<in> set gws"
  shows "map_of (fst (get_consumer_key K I gsd ty False gws w)) gw = Some (key_for K gsd ty gw
      (if gsd_is_gri_enabled_for_elimination gsd \<or> gsd_is_gri_enabled_for_sr_routing gsd
       then Some (reference_id_or_null I gw) else None))"
  using gw_ref_id_map [of I gsd gws gw] assms
  by (simp add: get_consumer_key_def Let_def unified_key_lookup split: prod.split)

lemma producer_key:
  assumes "decision_key ty"
  shows "getProducerKey K (Some gw) (Some gsd) ty False ref_id = Some (key_for K gsd ty gw
      (if (ty = EliminationMerchantKey \<and> gsd_is_gri_enabled_for_elimination gsd) \<or>
          (ty = SrV3Key \<and> gsd_is_gri_enabled_for_sr_routing gsd)
       then Some (unwrap_or ref_id ''NULL'') else None))"
  using assms
  by (auto simp: decision_key_def getProducerKey_def get_unified_key_def key_for_def Let_def)

text \<open>A reference id a type does not use does not matter.\<close>

lemma key_for_unused:
  assumes "decision_key ty"
    "\<not> (ty = EliminationMerchantKey \<and> gsd_is_gri_enabled_for_elimination gsd)"
    "\<not> (ty = SrV3Key \<and> gsd_is_gri_enabled_for_sr_routing gsd)"
  shows "key_for K gsd ty gw r = key_for K gsd ty gw r'"
  using assms by (auto simp: decision_key_def key_for_def get_unified_key_def Let_def)

section \<open>A feedback reaches the key the decision reads\<close>

definition source_in_key :: "gateway_scoring_data \<Rightarrow> bool" where
  "source_in_key gsd \<longleftrightarrow> gsd_is_legacy_decider_flow gsd \<and> gsd_payment_method_type gsd = ''UPI'' \<and>
     gsd_is_payment_source_enabled_for_sr_routing gsd \<and>
     gsd_payment_method gsd \<in> {''UPI_COLLECT'', ''COLLECT'', ''UPI_PAY'', ''PAY''}"

lemma legacy_key_source:
  assumes "\<not> source_in_key gsd" "gsd_is_legacy_decider_flow gsd"
  shows "get_legacy_unified_sr_key K (gsd\<lparr>gsd_payment_source := x\<rparr>) v3 enforce1d =
    get_legacy_unified_sr_key K gsd v3 enforce1d"
  using assms by (auto simp: source_in_key_def get_legacy_unified_sr_key_def sr_base_key_def Let_def)

lemma sr_key_source:
  assumes "\<not> source_in_key gsd"
  shows "get_unified_sr_key K (gsd\<lparr>gsd_payment_source := x\<rparr>) v3 enforce1d = get_unified_sr_key K gsd v3 enforce1d"
proof -
  have "field_component (gsd\<lparr>gsd_payment_source := x\<rparr>) = field_component gsd"
    by (intro ext) (simp add: field_component_def)
  then show ?thesis
    using legacy_key_source [OF assms]
    by (auto simp: get_unified_sr_key_def udf_values_of_def sr_base_key_def Let_def split: option.split)
qed

lemma key_for_source:
  assumes "decision_key ty" "ty = SrV3Key \<Longrightarrow> \<not> source_in_key gsd"
  shows "key_for K (gsd\<lparr>gsd_payment_source := x\<rparr>) ty gw r = key_for K gsd ty gw r"
proof (cases "ty = SrV3Key")
  case True
  with assms sr_key_source [of gsd K x True False] show ?thesis
    by (simp add: key_for_def get_unified_key_def Let_def)
next
  case False
  with assms(1) show ?thesis
    by (auto simp: decision_key_def key_for_def get_unified_key_def elimination_suffix_def Let_def)
qed

lemma producer_is_consumer:
  assumes "ty \<in> {EliminationGlobalKey, EliminationMerchantKey, SrV3Key}" "gw \<in> set gws"
    and "unwrap_or ref_id ''NULL'' = reference_id_or_null I gw"
    and "\<not> (ty = SrV3Key \<and> source_in_key gsd)"
  shows "getProducerKey K (Some gw) (Some (stored_scoring_data gsd)) ty False ref_id =
    map_of (fst (get_consumer_key K I gsd ty False gws w)) gw"
proof -
  have ty: "decision_key ty" using assms(1) by (simp add: decision_key_def)
  have "getProducerKey K (Some gw) (Some (stored_scoring_data gsd)) ty False ref_id = Some (key_for K gsd ty gw
      (if (ty = EliminationMerchantKey \<and> gsd_is_gri_enabled_for_elimination gsd) \<or>
          (ty = SrV3Key \<and> gsd_is_gri_enabled_for_sr_routing gsd)
       then Some (reference_id_or_null I gw) else None))"
    using producer_key [OF ty] key_for_source [OF ty] assms(3,4) by (auto simp: stored_scoring_data_def)
  also have "\<dots> = map_of (fst (get_consumer_key K I gsd ty False gws w)) gw"
    using consumer_key [OF ty assms(2)] key_for_unused [OF ty] by (auto simp only: split: if_splits) metis+
  finally show ?thesis .
qed

text \<open>
  C21. The key a feedback updates for a gateway is the key the decision read for it, for the elimination
  scores of the platform and of the merchant and for the success-rate window, when the feedback names
  the reference id of the decision (or none where the decision had none) - unless the key is
  to contain the source of a UPI payment.
\<close>

theorem feedback_key_is_decision_key:
  assumes "ty \<in> {EliminationGlobalKey, EliminationMerchantKey, SrV3Key}" "gw \<in> set gws"
    and "unwrap_or ref_id ''NULL'' = reference_id_or_null I gw"
    and "\<not> (ty = SrV3Key \<and> source_in_key gsd)"
  shows "getProducerKey K (Some gw) (Some (stored_scoring_data gsd)) ty False ref_id =
    map_of (fst (get_consumer_key K I gsd ty False gws w)) gw"
  using assms by (rule producer_is_consumer)

text \<open>A payment by bank transfer through two gateways, without reference ids.\<close>

definition demo_key_config :: sr_key_config where
  "demo_key_config =
     \<lparr>kc_dimensions = None, kc_upi_handle_list = [''OKAXIS''], kc_upi_package_list = [],
      kc_routing_top_bank_list = []\<rparr>"

definition demo_reference_ids :: reference_ids where
  "demo_reference_ids = \<lparr>ri_metadata = [], ri_priority_logic = [], ri_routing_enabled = None\<rparr>"

definition demo_scoring_data :: "string \<Rightarrow> string \<Rightarrow> string \<Rightarrow> gateway_scoring_data" where
  "demo_scoring_data pmt pm source =
     (get_default_gateway_scoring_data ''m'' ''ORDER_PAYMENT'' pmt pm False False None None (Some ''INR'') None
        None True None (Some []) True)
       \<lparr>gsd_payment_source := Some source, gsd_is_payment_source_enabled_for_sr_routing := True\<rparr>"

theorem feedback_key_is_decision_key_witness:
  "getProducerKey demo_key_config (Some ''b'') (Some (stored_scoring_data (demo_scoring_data ''NB'' ''NB_HDFC'' ''''))) SrV3Key
     False None =
   map_of (fst (get_consumer_key demo_key_config demo_reference_ids (demo_scoring_data ''NB'' ''NB_HDFC'' '''') SrV3Key False
     [''a'', ''b''] (demo_scoring_data ''NB'' ''NB_HDFC'' '''', None))) ''b''"
  by (rule feedback_key_is_decision_key)
    (simp_all add: demo_scoring_data_def get_default_gateway_scoring_data_def source_in_key_def
      reference_id_or_null_def demo_reference_ids_def get_order_metadata_and_pl_ref_id_map_def
      get_gateway_reference_id_def Let_def)

section \<open>Keys as concatenations\<close>

definition known_text :: "string \<Rightarrow> string" where
  "known_text t = (if t = [] then ''UNKNOWN'' else t)"

lemma join_with_Cons: "join_with sep (x # xs) = x @ concat (map (\<lambda>y. sep @ y) xs)"
  by (induction xs arbitrary: x) auto

lemma intercalate_Cons:
  "intercalate_without_empty_string sep (x # xs) = known_text x @ concat (map (\<lambda>y. sep @ known_text y) xs)"
  by (simp add: intercalate_without_empty_string_def join_with_Cons known_text_def comp_def del: join_with.simps)

lemma known_text_inj: "known_text x = known_text y \<Longrightarrow> x \<noteq> [] \<Longrightarrow> y \<noteq> [] \<Longrightarrow> x = y"
  by (simp add: known_text_def)

lemma known_text_not_Nil [simp]: "known_text t \<noteq> []"
  by (simp add: known_text_def)

text \<open>A key is a part before the gateway, the gateway, and a part after it.\<close>

lemma key_for_split:
  assumes "decision_key ty"
  obtains A B where "\<And>gw. key_for K gsd ty gw r = A @ known_text gw @ B"
proof -
  have "\<exists>A B. \<forall>gw. key_for K gsd ty gw r = A @ known_text gw @ B"
  proof (cases "ty = SrV3Key")
    case True
    let ?A = "known_text (get_unified_sr_key K gsd True False) @ ''_'' @
      (if gsd_is_gri_enabled_for_sr_routing gsd then known_text (unwrap_or r []) @ ''_'' else [])"
    have "\<forall>gw. key_for K gsd ty gw r = ?A @ known_text gw @ []"
      using True by (simp add: key_for_def get_unified_key_def Let_def intercalate_Cons)
    then show ?thesis by blast
  next
    case False
    then have "ty = EliminationGlobalKey \<or> ty = EliminationMerchantKey" using assms by (simp add: decision_key_def)
    then show ?thesis
    proof
      assume "ty = EliminationGlobalKey"
      then show ?thesis
        by (intro exI [of _ "known_text ELIMINATION_BASED_ROUTING_GLOBAL_KEY_PREFIX @ ''_'' @ known_text (gsd_order_type gsd) @ ''_''"]
            exI [of _ "concat (map (\<lambda>y. ''_'' @ known_text y) (elimination_suffix gsd))"])
          (simp add: key_for_def get_unified_key_def Let_def intercalate_Cons)
    next
      assume "ty = EliminationMerchantKey"
      then show ?thesis
        by (intro exI [of _ "known_text ELIMINATION_BASED_ROUTING_KEY_PREFIX @ ''_'' @ known_text (gsd_merchant_id gsd)
              @ ''_'' @ known_text (gsd_order_type gsd) @ ''_''"]
            exI [of _ "concat (map (\<lambda>y. ''_'' @ known_text y) (elimination_suffix gsd @
              (if gsd_is_gri_enabled_for_elimination gsd then [unwrap_or r []] else [])))"])
          (simp add: key_for_def get_unified_key_def Let_def intercalate_Cons)
    qed
  qed
  then show thesis using that by blast
qed

lemma key_for_inj:
  assumes "decision_key ty" "key_for K gsd ty gw r = key_for K gsd ty gw' r" "gw \<noteq> []" "gw' \<noteq> []"
  shows "gw = gw'"
proof -
  obtain A B where "\<And>gw. key_for K gsd ty gw r = A @ known_text gw @ B" using assms(1) key_for_split by metis
  with assms(2) have "known_text gw = known_text gw'" by simp
  then show ?thesis using assms(3,4) by (rule known_text_inj)
qed

section \<open>The source of a UPI payment\<close>

lemma legacy_key_with_source:
  assumes "source_in_key gsd"
  shows "get_legacy_unified_sr_key K gsd v3 False = intercalate_without_empty_string ''_'' (sr_base_key gsd v3 @
    [if gateway_scoring_payment_source gsd
          \<in> set (if gsd_payment_method gsd \<in> {''UPI_COLLECT'', ''COLLECT''} then kc_upi_handle_list K else kc_upi_package_list K)
     then gateway_scoring_payment_source gsd else []])"
  using assms by (auto simp: source_in_key_def get_legacy_unified_sr_key_def Let_def)

lemma intercalate_last_inj:
  assumes "intercalate_without_empty_string sep (xs @ [x]) = intercalate_without_empty_string sep (xs @ [y])"
  shows "known_text x = known_text y"
  using assms by (cases xs) (simp_all add: intercalate_Cons)

lemma sr_key_with_source:
  assumes "gsd_is_legacy_decider_flow gsd"
    and "get_unified_sr_key K gsd v3 e = get_unified_sr_key K (gsd\<lparr>gsd_payment_source := x\<rparr>) v3 e"
  shows "known_text (get_legacy_unified_sr_key K gsd v3 e) =
    known_text (get_legacy_unified_sr_key K (gsd\<lparr>gsd_payment_source := x\<rparr>) v3 e)"
  using assms by (simp add: get_unified_sr_key_def udf_values_of_def Let_def intercalate_Cons split: option.splits)

lemma base_key_not_Nil: "intercalate_without_empty_string sep (sr_base_key gsd v3 @ rest) \<noteq> []"
  by (simp add: sr_base_key_def intercalate_Cons)

lemma legacy_key_not_Nil: "get_legacy_unified_sr_key K gsd v3 e \<noteq> []"
  using base_key_not_Nil [of _ gsd v3] base_key_not_Nil [of _ gsd v3 "[]"]
  by (simp add: get_legacy_unified_sr_key_def Let_def)

text \<open>
  For a UPI payment scored by its source - a handle or an app of the configured list - a feedback
  updates another key than the decision read, for every gateway: the stored scoring data carry a
  mask instead of the source.
\<close>

theorem upi_source_feedback_misses:
  assumes "source_in_key gsd" "gsd_payment_source gsd = Some source" "source \<notin> {[], ''UNKNOWN''}"
    and "source_list = (if gsd_payment_method gsd \<in> {''UPI_COLLECT'', ''COLLECT''} then kc_upi_handle_list K else kc_upi_package_list K)"
    and "source \<in> set source_list" "''FILTERED'' \<notin> set source_list"
    and "gw \<in> set gws" "unwrap_or ref_id ''NULL'' = reference_id_or_null I gw"
  shows "getProducerKey K (Some gw) (Some (stored_scoring_data gsd)) SrV3Key False ref_id \<noteq>
    map_of (fst (get_consumer_key K I gsd SrV3Key False gws w)) gw"
proof
  assume eq: "getProducerKey K (Some gw) (Some (stored_scoring_data gsd)) SrV3Key False ref_id =
    map_of (fst (get_consumer_key K I gsd SrV3Key False gws w)) gw"
  let ?gsd = "gsd\<lparr>gsd_payment_source := Some ''FILTERED''\<rparr>"
  have ty: "decision_key SrV3Key" by (simp add: decision_key_def)
  have "key_for K ?gsd SrV3Key gw (if gsd_is_gri_enabled_for_sr_routing gsd then Some (reference_id_or_null I gw) else None)
      = key_for K gsd SrV3Key gw (if gsd_is_gri_enabled_for_sr_routing gsd then Some (reference_id_or_null I gw) else None)"
    using eq producer_key [OF ty] consumer_key [OF ty assms(7)] key_for_unused [OF ty] assms(8)
    by (auto simp: stored_scoring_data_def split: if_splits)
  then have "known_text (get_unified_sr_key K gsd True False) = known_text (get_unified_sr_key K ?gsd True False)"
    by (simp add: key_for_def get_unified_key_def Let_def intercalate_Cons split: if_splits)
  moreover have "get_unified_sr_key K g True False \<noteq> []" if "gsd_is_legacy_decider_flow g" for g
    using that legacy_key_not_Nil by (simp add: get_unified_sr_key_def Let_def intercalate_Cons split: option.split)
  moreover have legacy: "gsd_is_legacy_decider_flow gsd" "source_in_key ?gsd" using assms(1) by (simp_all add: source_in_key_def)
  ultimately have "get_unified_sr_key K gsd True False = get_unified_sr_key K ?gsd True False"
    by (simp add: known_text_inj)
  from sr_key_with_source [OF legacy(1) this]
  have "get_legacy_unified_sr_key K gsd True False = get_legacy_unified_sr_key K ?gsd True False"
    using legacy_key_not_Nil known_text_inj by blast
  then have "known_text source = known_text []"
    using legacy_key_with_source [OF assms(1), of K True] legacy_key_with_source [OF legacy(2), of K True]
      assms(2,5,6) intercalate_last_inj [of "''_''" "sr_base_key gsd True" source "[]"]
    by (simp add: assms(4) gateway_scoring_payment_source_def sr_base_key_def split: if_splits)
  then show False using assms(3) by (simp add: known_text_def)
qed

theorem upi_source_feedback_misses_witness:
  "getProducerKey demo_key_config (Some ''b'') (Some (stored_scoring_data (demo_scoring_data ''UPI'' ''UPI_COLLECT'' ''OKAXIS'')))
     SrV3Key False None \<noteq>
   map_of (fst (get_consumer_key demo_key_config demo_reference_ids (demo_scoring_data ''UPI'' ''UPI_COLLECT'' ''OKAXIS'')
     SrV3Key False [''a'', ''b''] (demo_scoring_data ''UPI'' ''UPI_COLLECT'' ''OKAXIS'', None))) ''b''"
  by (rule upi_source_feedback_misses [where source = "''OKAXIS''" and source_list = "[''OKAXIS'']"])
    (simp_all add: demo_scoring_data_def get_default_gateway_scoring_data_def source_in_key_def demo_key_config_def
      reference_id_or_null_def demo_reference_ids_def get_order_metadata_and_pl_ref_id_map_def
      get_gateway_reference_id_def Let_def)

section \<open>The keys of a decision\<close>

text \<open>The scoring data are collected before the functional gateways of the decision are known.\<close>

lemma no_common_reference_id:
  assumes "ds_functional_gateways st = []"
  shows "\<not> gsd_is_gri_enabled_for_elimination (fst (get_gateway_scoring_data E K I W m txn info cur udfs legacy st r))"
    and "\<not> gsd_is_gri_enabled_for_sr_routing (fst (get_gateway_scoring_data E K I W m txn info cur udfs legacy st r))"
  using assms
  by (auto simp: get_gateway_scoring_data_def get_common_gateway_ref_id_def get_default_gateway_scoring_data_def
      upi_scoring_data_def card_scoring_data_def Let_def)

lemma scoring_data_reference_ids:
  assumes "ds_functional_gateways st = []"
  shows "fst (get_gateway_scoring_data E K I W m txn info cur udfs legacy st r) =
    fst (get_gateway_scoring_data E K I' W m txn info cur udfs legacy st r)"
  using assms by (simp add: get_gateway_scoring_data_def get_common_gateway_ref_id_def Let_def)

lemma gw_ref_id_map_unused:
  "\<not> gsd_is_gri_enabled_for_elimination gsd \<Longrightarrow> \<not> gsd_is_gri_enabled_for_sr_routing gsd \<Longrightarrow>
     gw_ref_id_map_of I gsd gws = gw_ref_id_map_of I' gsd gws"
  by (simp add: gw_ref_id_map_of_def)

text \<open>
  Reference ids never enter the keys of a decision, whatever the switches for them say: for the
  scoring data a decision collects they are off, and all keys are the same for all reference ids.
\<close>

lemma reference_ids_never_in_keys:
  "let st = (initial_decider_state created)\<lparr>ds_ab_test_sr_override := override\<rparr>;
       collect = (\<lambda>I. fst (get_gateway_scoring_data E K I W m txn info cur udfs legacy st report));
       keys = (\<lambda>I. fst (get_consumer_key K I (collect I) ty enforce1d gws w)) in
   \<not> gsd_is_gri_enabled_for_elimination (collect I) \<and> \<not> gsd_is_gri_enabled_for_sr_routing (collect I) \<and>
   keys I = keys I'"
proof -
  let ?st = "(initial_decider_state created)\<lparr>ds_ab_test_sr_override := override\<rparr>"
  let ?gsd = "\<lambda>I. fst (get_gateway_scoring_data E K I W m txn info cur udfs legacy ?st report)"
  have st: "ds_functional_gateways ?st = []" by (simp add: initial_decider_state_def)
  note gri = no_common_reference_id [OF st, of E K _ W m txn info cur udfs legacy report]
  have "?gsd I' = ?gsd I" using st by (rule scoring_data_reference_ids)
  moreover have "gw_ref_id_map_of I (?gsd I) gws = gw_ref_id_map_of I' (?gsd I) gws"
    using gri by (rule gw_ref_id_map_unused)
  ultimately show ?thesis using gri by (simp add: Let_def get_consumer_key_def split: prod.split)
qed

text \<open>
  The gateways of a decision have keys of their own: two named gateways never share the key of
  an elimination score or of a success-rate window.
\<close>

theorem decision_keys_distinct:
  assumes "ty \<in> {EliminationGlobalKey, EliminationMerchantKey, SrV3Key}" "st = initial_decider_state created"
    and "gsd = fst (get_gateway_scoring_data E K I W m txn info cur udfs legacy st report)"
    and "gw \<in> set gws" "gw' \<in> set gws" "gw \<noteq> []" "gw' \<noteq> []" "gw \<noteq> gw'"
    and "keys = fst (get_consumer_key K I gsd ty False gws w)"
  shows "map_of keys gw \<noteq> None \<and> map_of keys gw \<noteq> map_of keys gw'"
proof -
  have ty: "decision_key ty" using assms(1) by (simp add: decision_key_def)
  have "ds_functional_gateways st = []" using assms(2) by (simp add: initial_decider_state_def)
  note gri = no_common_reference_id [OF this, of E K I W m txn info cur udfs legacy report, folded assms(3)]
  have "map_of keys g = Some (key_for K gsd ty g None)" if "g \<in> set gws" for g
    using consumer_key [OF ty that, of K I gsd w] gri assms(9) by simp
  with assms(4-8) key_for_inj [OF ty, of K gsd gw None gw'] show ?thesis by auto
qed

definition demo_dimension_env :: dimension_env where
  "demo_dimension_env = \<lparr>dn_upper = (\<lambda>s. s), dn_parse = (\<lambda>_. None), dn_date = None\<rparr>"

definition demo_switches :: dimension_switches where
  "demo_switches = \<lparr>sw_experiment = False, sw_gri_elimination = True, sw_gri_sr_routing = True, sw_handle_package = True,
     sw_auth_level = False, sw_bank_level = False\<rparr>"

definition demo_report :: dimension_report where
  "demo_report = \<lparr>rp_routing_dimension = None, rp_routing_dimension_level = None, rp_elimination_dimension = None,
     rp_outage_dimension = None, rp_experiment_tag = None\<rparr>"

definition demo_nb_txn :: txn_detail where
  "demo_nb_txn = \<lparr>td_txn_id = ''p'', td_date_created = ''t'', td_merchant_id = ''m'', td_gateway = None,
     td_txn_object_type = Some OrderPayment, td_source_object = None, td_country = None\<rparr>"

definition demo_nb_info :: txn_card_info where
  "demo_nb_info = \<lparr>tci_card_isin = None, tci_card_switch_provider = None, tci_card_type = None,
     tci_payment_method_type = ''NB'', tci_payment_method = ''NB_HDFC'', tci_payment_source = None,
     tci_auth_type = None\<rparr>"

theorem decision_keys_distinct_witness:
  "\<exists>keys :: string hmap. map_of keys ''a'' \<noteq> None \<and> map_of keys ''a'' \<noteq> map_of keys ''b''"
proof -
  define gsd where "gsd = fst (get_gateway_scoring_data demo_dimension_env demo_key_config demo_reference_ids
    demo_switches ''m'' demo_nb_txn demo_nb_info ''INR'' [] True (initial_decider_state ''t'') demo_report)"
  define keys where "keys = fst (get_consumer_key demo_key_config demo_reference_ids gsd SrV3Key False [''a'', ''b''] (gsd, None))"
  have ty: "SrV3Key \<in> {EliminationGlobalKey, EliminationMerchantKey, SrV3Key}" by simp
  have "map_of keys ''a'' \<noteq> None \<and> map_of keys ''a'' \<noteq> map_of keys ''b''"
    using decision_keys_distinct [OF ty refl gsd_def _ _ _ _ _ keys_def, of "''a''" "''b''"] by simp
  then show ?thesis by (rule exI)
qed

end
