(* ===== verification/Feedback_Correct.thy ===== *)
theory Feedback_Correct
  imports Feedback_Update Keys_Correct Elim_Correct
begin

text \<open>
  What a feedback moves: the two updates by the status of the payment, that the window the next
  decision reads gets the outcome and no other gateway's window changes, that a repeated feedback
  does not count twice under the lock, and that a failed payment never lowers an elimination score.
\<close>

section \<open>The stages of a request\<close>

lemma request_stages:
  assumes "feedback_request R S X E ab p ((stores, l), inflight) = Some (r, oc, (stores', l'), inflight')"
  obtains (skipped) "skipped_by_gsm E p" "stores' = stores" "l' = l"
  | (failed) "\<not> skipped_by_gsm E p" "stores' = stores" "l' = l" "r \<noteq> Inr ''Success''"
  | (scored) d t where "\<not> skipped_by_gsm E p" "fe_scoring_data E 0 (scoring_data_key (up_payment_id p)) = Some d"
      "get_txn_detail_from_api_payload p d = Inr t"
      "check_and_update_gateway_score R S X E t (get_txn_card_info_from_api_payload d)
         (unwrap_or (up_enforce_failure p) False) (up_gateway_reference_id p) (up_txn_latency p) (stores, l) = Some (stores', l')"
proof (cases "skipped_by_gsm E p")
  case True
  with assms skipped show thesis by (auto simp: feedback_request_def split: prod.splits)
next
  case False
  show thesis
  proof (cases "fe_scoring_data E 0 (scoring_data_key (up_payment_id p))")
    case None
    with assms False failed show thesis by (auto simp: feedback_request_def split: prod.splits)
  next
    case (Some d)
    show thesis
    proof (cases "get_txn_detail_from_api_payload p d")
      case (Inl e)
      with assms False Some failed show thesis by (auto simp: feedback_request_def split: prod.splits)
    next
      case (Inr t)
      with assms False Some scored show thesis by (auto simp: feedback_request_def split: prod.splits)
    qed
  qed
qed

lemma payload_txn:
  assumes "get_txn_detail_from_api_payload p d = Inr t"
  shows "ft_status t = up_status p" "ft_uuid t = up_payment_id p" "td_gateway t = Some (up_gateway p)"
    "td_source_object t = Some (gsd_payment_method (sd_data d))" "get_routing_approach t = Some (unwrap_or (sd_routing_approach d) [])"
  using assms by (auto simp: get_txn_detail_from_api_payload_def get_routing_approach_def internal_metadata_def
      Let_def split: option.splits)

lemma update_stages:
  assumes "check_and_update_gateway_score R S X E t info enforce ref lat ((s, k), l) = Some ((s', k'), l')"
  obtains (locked) "s' = s" "k' = k" "fs_score_lock (fe_switches E)"
  | (updated) "update_gateway_score R S X E (get_gateway_scoring_type E t info enforce) t info ref lat (s, k) = Some (s', k')"
  using assms by (auto simp: check_and_update_gateway_score_def Let_def split: prod.splits if_splits)

text \<open>A request panics only if the account of its merchant is gone.\<close>

lemma request_defined:
  assumes "fe_merchant E"
  shows "\<exists>x. feedback_request R S X E ab p ((stores, l), inflight) = Some x"
proof -
  have "\<exists>x. check_and_update_gateway_score R S X E t info enf ref lat (stores, l) = Some x" for t info enf ref lat
    using assms by (cases stores) (simp add: check_and_update_gateway_score_def update_gateway_score_def Let_def split_def)
  then show ?thesis
    by (simp add: feedback_request_def split_def Let_def split: option.split sum.split)
qed

section \<open>Failed payments and elimination\<close>

text \<open>
  The elimination scores are only moved by the feedback of a successful payment, or of one that is
  started or waits for its verification: a failed, declined or enforced-failed payment never lowers the elimination
  score of its gateway.
\<close>

theorem failures_spare_elimination:
  assumes "feedback_request R S X E ab p (((s, k), l), inflight) = Some (r, oc, ((s', k'), l'), inflight')"
    and "(\<not> is_transaction_success (up_status p) \<and> \<not> is_transaction_pending (up_status p)) \<or> up_enforce_failure p = Some True"
  shows "k' = k"
  using assms(1)
proof (cases rule: request_stages)
  case (scored d t)
  let ?info = "get_txn_card_info_from_api_payload d" and ?enf = "unwrap_or (up_enforce_failure p) False"
  have "\<not> should_update_gateway_score (get_gateway_scoring_type E t ?info ?enf) (ft_status t)"
    using assms(2) payload_txn(1) [OF scored(3)]
    by (auto simp: should_update_gateway_score_def get_gateway_scoring_type_def)
  with scored(4) show ?thesis
    by (cases rule: update_stages) (auto simp: update_gateway_score_def Let_def split: if_splits)
qed simp_all

section \<open>What a feedback moves\<close>

definition slow_payment :: "'l feedback_env \<Rightarrow> feedback_txn \<Rightarrow> txn_card_info \<Rightarrow> bool" where
  "slow_payment E t info \<longleftrightarrow>
     f64_as_u128 (fmul (time_difference_threshold E t info) (Fin 1000))
       \<le> get_time_from_txn_created_in_mills E (txn_detail.truncate t)"

text \<open>Without the gates of the merchant, and with the scoring data there for every read.\<close>

definition plain_feedback :: "'l feedback_env \<Rightarrow> update_score_payload \<Rightarrow> scoring_document \<Rightarrow> bool" where
  "plain_feedback E p d \<longleftrightarrow>
     fe_merchant E \<and> \<not> fs_score_lock (fe_switches E) \<and> \<not> fs_srv3_producer_isolation (fe_switches E) \<and>
     \<not> fs_explore_and_exploit (fe_switches E) \<and> \<not> skipped_by_gsm E p \<and>
     (\<forall>n. fe_scoring_data E n (scoring_data_key (up_payment_id p)) = Some d)"

lemma status_disjoint:
  "\<not> (is_transaction_success x \<and> is_transaction_failure x)"
  "is_transaction_pending x \<Longrightarrow> \<not> is_transaction_success x"
  "is_transaction_pending x \<Longrightarrow> \<not> is_transaction_failure x"
  by (auto simp: is_transaction_success_def is_transaction_failure_def is_transaction_pending_def
      txn_success_states_def txn_failure_states_def)

lemma scoring_type_of_status:
  assumes "get_txn_detail_from_api_payload p d = Inr t"
  shows "get_gateway_scoring_type E t info False = (if is_transaction_success (up_status p) then Reward
      else if is_transaction_failure (up_status p) \<or> slow_payment E t info then PenaliseSrv3 else Penalise)"
  using payload_txn(1) [OF assms] by (auto simp: get_gateway_scoring_type_def slow_payment_def not_less)

lemma plain_request:
  assumes "plain_feedback E p d" "get_txn_detail_from_api_payload p d = Inr t" "up_enforce_failure p \<noteq> Some True"
    and "info = get_txn_card_info_from_api_payload d" "ty = get_gateway_scoring_type E t info False"
    and "in_window = is_update_within_latency_window E t info ty (up_txn_latency p)
      (feedback_metric_entry E t info (elimination_data E ty t))"
  shows "\<exists>oc l' inflight'. feedback_request R S X E ab p (((s, k), l), inflight) = Some (Inr ''Success'', oc,
     ((if ty \<noteq> Penalise \<and> in_window then srv3_update R E ty t info (up_gateway_reference_id p) s else s,
      if should_update_gateway_score ty (up_status p) \<and> in_window
      then elimination_update S X E ty t info (up_gateway_reference_id p) (sd_data d) k else k), l'), inflight')"
proof -
  have st: "ft_status t = up_status p" "ft_uuid t = up_payment_id p" using payload_txn [OF assms(2)] by simp_all
  have enf: "unwrap_or (up_enforce_failure p) False = False" using assms(3) by (cases "up_enforce_failure p") auto
  have data: "elimination_data E ty t = (if should_update_gateway_score ty (up_status p) then Some d else None)"
    using assms(1) by (simp add: elimination_data_def plain_feedback_def st Let_def split: option.split)
  have upd: "update_gateway_score R S X E ty t info (up_gateway_reference_id p) (up_txn_latency p) (s, k) = Some
     (if ty \<noteq> Penalise \<and> in_window then srv3_update R E ty t info (up_gateway_reference_id p) s else s,
      if should_update_gateway_score ty (up_status p) \<and> in_window
      then elimination_update S X E ty t info (up_gateway_reference_id p) (sd_data d) k else k)"
    using assms(1) by (simp add: update_gateway_score_def plain_feedback_def srv3_gates_def data assms(6) st Let_def)
  show ?thesis
    using assms(1,2) upd enf
    by (simp add: feedback_request_def check_and_update_gateway_score_def plain_feedback_def Let_def assms(4) [symmetric]
        assms(5) [symmetric] split: prod.split)
qed

text \<open>
  What a feedback moves, by the status of the payment. The success-rate window gets the outcome of a
  successful or failed payment, and a failure for any other that took too long; the elimination scores are
  raised by a successful payment and lowered by one that is started or waits for its verification and is not
  yet slow. Any other status before that time moves nothing. Outside its latency window a feedback moves nothing, but
  for the lowering of the elimination scores.
\<close>

theorem feedback_effect:
  assumes "plain_feedback E p d" "get_txn_detail_from_api_payload p d = Inr t" "up_enforce_failure p \<noteq> Some True"
    and "info = get_txn_card_info_from_api_payload d" "ty = get_gateway_scoring_type E t info False"
    and "in_window = is_update_within_latency_window E t info ty (up_txn_latency p)
      (feedback_metric_entry E t info (elimination_data E ty t))"
  shows "\<exists>oc l' inflight'. feedback_request R S X E ab p (((s, k), l), inflight) = Some (Inr ''Success'', oc,
    ((if (is_transaction_success (up_status p) \<or> is_transaction_failure (up_status p) \<or> slow_payment E t info) \<and> in_window
      then srv3_update R E (if is_transaction_success (up_status p) then Reward else PenaliseSrv3) t info
             (up_gateway_reference_id p) s
      else s,
      if is_transaction_success (up_status p) \<and> in_window
      then elimination_update S X E Reward t info (up_gateway_reference_id p) (sd_data d) k
      else if is_transaction_pending (up_status p) \<and> \<not> slow_payment E t info
      then elimination_update S X E Penalise t info (up_gateway_reference_id p) (sd_data d) k
      else k), l'), inflight')"
proof -
  note ty = scoring_type_of_status [OF assms(2), of E info, folded assms(5)]
  note disj = status_disjoint
  have pen: "ty = Penalise \<Longrightarrow> in_window" using assms(6) by (simp add: is_update_within_latency_window_def)
  note ex = plain_request [OF assms(1-6), of R S X ab s k l inflight]
  have window: "(if ty \<noteq> Penalise \<and> in_window then srv3_update R E ty t info (up_gateway_reference_id p) s else s) =
     (if (is_transaction_success (up_status p) \<or> is_transaction_failure (up_status p) \<or> slow_payment E t info) \<and> in_window
      then srv3_update R E (if is_transaction_success (up_status p) then Reward else PenaliseSrv3) t info
             (up_gateway_reference_id p) s
      else s)"
    by (simp add: ty)
  have elim: "(if should_update_gateway_score ty (up_status p) \<and> in_window
      then elimination_update S X E ty t info (up_gateway_reference_id p) (sd_data d) k else k) =
     (if is_transaction_success (up_status p) \<and> in_window
      then elimination_update S X E Reward t info (up_gateway_reference_id p) (sd_data d) k
      else if is_transaction_pending (up_status p) \<and> \<not> slow_payment E t info
      then elimination_update S X E Penalise t info (up_gateway_reference_id p) (sd_data d) k
      else k)"
  proof (cases "is_transaction_success (up_status p)")
    case True
    then have "ty = Reward" by (simp add: ty)
    with True disj(2) [of "up_status p"] show ?thesis by (auto simp: should_update_gateway_score_def)
  next
    case ns: False
    show ?thesis
    proof (cases "is_transaction_failure (up_status p) \<or> slow_payment E t info")
      case True
      then have "ty = PenaliseSrv3" using ns by (simp add: ty)
      with True ns disj(3) [of "up_status p"] show ?thesis by (auto simp: should_update_gateway_score_def)
    next
      case False
      then have "ty = Penalise" using ns by (simp add: ty)
      with False ns pen show ?thesis by (simp add: should_update_gateway_score_def)
    qed
  qed
  from ex show ?thesis unfolding window elim .
qed

section \<open>The window the next decision reads\<close>

lemma updateScoreAndQueue_other:
  assumes "redis_documented R" "x \<noteq> qk" "x \<noteq> sk"
  shows "r_view R (updateScoreAndQueue R qk sk ty n s) x = r_view R s x"
  using assms(2,3)
  by (auto simp: updateScoreAndQueue_def updateMovingWindow_def updateQueue_def createKeysIfNotExist_def
      create_moving_window_and_score_def Let_def documented_multi [OF assms(1)] cmd_effect_def
      split: option.split redis_value.split)

lemma window_keys_apart:
  assumes "key \<noteq> key'"
  shows "key' @ ''_}queue'' \<notin> {key @ ''_}queue'', key @ ''_}score''} \<and> key' @ ''_}score'' \<notin> {key @ ''_}queue'', key @ ''_}score''}"
  using assms by (simp add: append_eq_append_conv)

lemma srv3_update_window:
  assumes "getProducerKey (fe_keys E) (td_gateway t) (map_option sd_data (fe_scoring_data E 3 (scoring_data_key (ft_uuid t))))
      SrV3Key False ref_id = Some key" "td_gateway t = Some gw"
  shows "srv3_update R E ty t info ref_id s =
    updateScoreAndQueue R (key @ ''_}queue'') (key @ ''_}score'') ty (feedback_bucket_size E t info) s"
  using assms by (simp add: srv3_update_def update_sr_v3_score_def Let_def)

text \<open>
  C22. Let a feedback of a successful or failed payment be accepted without the special switches - no
  lock, no producer isolation, no exploration, no GSM rule that skips it, no enforced failure - find
  its scoring data at every read, and lie inside the latency window; and let the keys carry neither a UPI
  source nor reference ids. Then it puts the outcome at the head of the window that the next decision
  with the same dimensions reads for the gateway - a new window is filled with successes - and drops
  the oldest outcomes beyond the bucket size, and the windows of the other gateways stay as they are.
\<close>

theorem feedback_reaches_next_decision:
  assumes R: "redis_documented R"
    and plain: "plain_feedback E p d" "get_txn_detail_from_api_payload p d = Inr t" "up_enforce_failure p \<noteq> Some True"
    and info: "info = get_txn_card_info_from_api_payload d" "ty = get_gateway_scoring_type E t info False"
    and in_window: "is_update_within_latency_window E t info ty (up_txn_latency p)
      (feedback_metric_entry E t info (elimination_data E ty t))"
    and status: "is_transaction_success (up_status p) \<or> is_transaction_failure (up_status p)"
    and data: "sd_data d = stored_scoring_data gsd" "\<not> source_in_key gsd"
      "\<not> gsd_is_gri_enabled_for_elimination gsd" "\<not> gsd_is_gri_enabled_for_sr_routing gsd"
    and keys: "keys = fst (get_consumer_key (fe_keys E) I gsd SrV3Key False gws w)"
      "up_gateway p \<in> set gws" "[] \<notin> set gws" "map_of keys (up_gateway p) = Some key"
    and run: "feedback_request R S X E ab p (((s, k), l), inflight) = Some (r, oc, ((s', k'), l'), inflight')"
    and old: "if r_view R s (key @ ''_}queue'') \<noteq> None \<and> r_view R s (key @ ''_}score'') \<noteq> None
      then r_view R s (key @ ''_}queue'') = Some (RList old)
      else old = replicate (nat (max (feedback_bucket_size E t info) 1)) ''1''"
  shows "r_view R s' (key @ ''_}queue'') = Some (RList (take (nat (max (feedback_bucket_size E t info) 1))
      (outcome_text (is_transaction_success (up_status p)) # old))) \<and>
    (\<forall>gw\<in>set gws - {up_gateway p}. \<exists>other. map_of keys gw = Some other \<and>
      r_view R s' (other @ ''_}queue'') = r_view R s (other @ ''_}queue'') \<and>
      r_view R s' (other @ ''_}score'') = r_view R s (other @ ''_}score''))"
proof -
  have ty: "decision_key SrV3Key" by (simp add: decision_key_def)
  have lookup: "map_of keys gw = Some (key_for (fe_keys E) gsd SrV3Key gw None)" if "gw \<in> set gws" for gw
    using consumer_key [OF ty that] data(3,4) by (simp add: keys(1))
  have "getProducerKey (fe_keys E) (Some (up_gateway p)) (Some (sd_data d)) SrV3Key False (up_gateway_reference_id p) = Some key"
    using producer_key [OF ty] key_for_source [OF ty] data lookup [OF keys(2)] keys(4)
    by (simp add: stored_scoring_data_def)
  then have "srv3_update R E ty t info (up_gateway_reference_id p) s =
      updateScoreAndQueue R (key @ ''_}queue'') (key @ ''_}score'') ty (feedback_bucket_size E t info) s"
    using plain(1) payload_txn [OF plain(2)] by (intro srv3_update_window) (auto simp: plain_feedback_def)
  moreover have tyc: "ty \<noteq> Penalise" "succeeded ty = is_transaction_success (up_status p)"
    using scoring_type_of_status [OF plain(2), of E info] status by (auto simp: info(2) succeeded_def)
  ultimately have s': "s' = updateScoreAndQueue R (key @ ''_}queue'') (key @ ''_}score'') ty (feedback_bucket_size E t info) s"
    using plain_request [OF plain info, of True R S X ab s k l inflight] in_window run by auto
  have "r_view R s' (key @ ''_}queue'') = Some (RList (take (nat (max (feedback_bucket_size E t info) 1))
      (outcome_text (is_transaction_success (up_status p)) # old)))"
    using updateScoreAndQueue_view [OF R _ old] by (simp add: s' tyc(2))
  moreover have "r_view R s' (other @ ''_}queue'') = r_view R s (other @ ''_}queue'') \<and>
      r_view R s' (other @ ''_}score'') = r_view R s (other @ ''_}score'')" if "key \<noteq> other" for other
    using window_keys_apart [OF that] by (auto simp: s' updateScoreAndQueue_other [OF R])
  moreover have "key \<noteq> key_for (fe_keys E) gsd SrV3Key gw None" if "gw \<in> set gws - {up_gateway p}" for gw
  proof
    assume "key = key_for (fe_keys E) gsd SrV3Key gw None"
    then have "key_for (fe_keys E) gsd SrV3Key gw None = key_for (fe_keys E) gsd SrV3Key (up_gateway p) None"
      using lookup [OF keys(2)] keys(4) by simp
    moreover have "gw \<noteq> []" "up_gateway p \<noteq> []" using that keys(2,3) by auto
    ultimately have "gw = up_gateway p" by (rule key_for_inj [OF ty])
    then show False using that by simp
  qed
  ultimately show ?thesis using lookup by auto
qed

section \<open>Counting once\<close>

text \<open>
  The documented effect of \<open>SET NX\<close> on a lock that does not expire meanwhile: it is taken if no one holds it.
\<close>

definition lock_documented :: "(string \<Rightarrow> int \<Rightarrow> 'l \<Rightarrow> bool option \<times> 'l) \<Rightarrow> ('l \<Rightarrow> string set) \<Rightarrow> bool" where
  "lock_documented lock held \<longleftrightarrow>
     (\<forall>key ttl l. fst (lock key ttl l) = Some (key \<notin> held l) \<and> held (snd (lock key ttl l)) = insert key (held l))"

lemma settled_type:
  assumes "get_txn_detail_from_api_payload p d = Inr t"
    and "is_transaction_success (up_status p) \<or> is_transaction_failure (up_status p) \<or> up_enforce_failure p = Some True"
  shows "get_gateway_scoring_type E t info (unwrap_or (up_enforce_failure p) False) =
    (if up_enforce_failure p \<noteq> Some True \<and> is_transaction_success (up_status p) then Reward else PenaliseSrv3)"
  using assms(2) payload_txn(1) [OF assms(1)]
  by (cases "up_enforce_failure p") (auto simp: get_gateway_scoring_type_def unwrap_or_def)

text \<open>
  C24. Counting once. Let the lock be switched on and a feedback of a successful, failed or
  enforced-failed payment be accepted: the GSM rules do not skip it and its scoring data are found.
  While its lock lives, the same outcome of the payment at the same gateway moves no score when it is
  sent again, whatever happened in between and whatever clock, configurations, scoring data and stores
  the later request finds.
\<close>

theorem repeated_feedback_counts_once:
  assumes "fs_score_lock (fe_switches E)" "fs_score_lock (fe_switches E')"
    and "lock_documented (fe_lock E) held" "fe_lock E' = fe_lock E"
    and "is_transaction_success (up_status p) \<or> is_transaction_failure (up_status p) \<or> up_enforce_failure p = Some True"
    and "\<not> skipped_by_gsm E p"
    and "feedback_request R S X E ab p ((stores, l), inflight) = Some (Inr ''Success'', oc, (stores1, l1), inflight1)"
    and "held l1 \<subseteq> held l2"
    and "up_payment_id p' = up_payment_id p" "up_gateway p' = up_gateway p" "up_status p' = up_status p"
      "up_enforce_failure p' = up_enforce_failure p"
    and "feedback_request R' S' X' E' ab' p' ((stores2, l2), inflight2) = Some (r, oc', (stores3, l3), inflight3)"
  shows "stores3 = stores2"
proof -
  let ?ty = "if up_enforce_failure p \<noteq> Some True \<and> is_transaction_success (up_status p) then Reward else PenaliseSrv3"
  let ?key = "update_gateway_score_lock ?ty (up_payment_id p) (up_gateway p)"
  have "?key \<in> held l1"
    using assms(7)
  proof (cases rule: request_stages)
    case (scored d t)
    let ?info = "get_txn_card_info_from_api_payload d" and ?enf = "unwrap_or (up_enforce_failure p) False"
    have key: "update_gateway_score_lock (get_gateway_scoring_type E t ?info ?enf) (ft_uuid t) (unwrap_or (td_gateway t) []) = ?key"
      using settled_type [OF scored(3) assms(5), of E ?info] payload_txn(2,3) [OF scored(3)] by (simp add: unwrap_or_def)
    have "l1 = snd (fe_lock E (update_gateway_score_lock (get_gateway_scoring_type E t ?info ?enf) (ft_uuid t)
        (unwrap_or (td_gateway t) [])) (unwrap_or (fe_lock_ttl E) 300) l)"
      using scored(4) by (auto simp: check_and_update_gateway_score_def check_and_send_should_update_gateway_score_def
          Let_def split: prod.splits if_splits)
    then show ?thesis unfolding key using assms(3) by (simp add: lock_documented_def)
  qed (use assms(6) in simp_all)
  then have held: "?key \<in> held l2" using assms(8) by blast
  show ?thesis
    using assms(13)
  proof (cases rule: request_stages)
    case (scored d t)
    let ?info = "get_txn_card_info_from_api_payload d" and ?enf = "unwrap_or (up_enforce_failure p') False"
    have "get_gateway_scoring_type E' t ?info ?enf = ?ty"
      using settled_type [OF scored(3), of E' ?info] assms(5,11,12) by simp
    then have key: "update_gateway_score_lock (get_gateway_scoring_type E' t ?info ?enf) (ft_uuid t) (unwrap_or (td_gateway t) []) = ?key"
      using payload_txn(2,3) [OF scored(3)] assms(9,10) by (simp add: unwrap_or_def)
    have "fst (fe_lock E' ?key ttl l2) = Some False" for ttl
      using assms(3,4) held by (simp add: lock_documented_def)
    with scored(4) assms(2) show ?thesis
      by (simp add: check_and_update_gateway_score_def check_and_send_should_update_gateway_score_def Let_def key
          unwrap_or_def [of "Some False"] split_def)
  qed simp_all
qed

section \<open>A run\<close>

text \<open>A payment by bank transfer a second old, decided for gateway \<open>b\<close>, with locks kept as a set.\<close>

definition demo_document :: scoring_document where
  "demo_document =
     \<lparr>sd_data = stored_scoring_data (demo_scoring_data ''NB'' ''NB_HDFC'' ''''),
      sd_routing_approach = Some ''SR_SELECTION_V3_ROUTING'', sd_date_created = ''t''\<rparr>"

definition demo_feedback_env :: "bool \<Rightarrow> string set feedback_env" where
  "demo_feedback_env locking =
     \<lparr>fe_switches = \<lparr>fs_gsm_filter = False, fs_score_lock = locking, fs_srv3_producer_isolation = False,
        fs_explore_and_exploit = False, fs_global_scoring = False, fs_merchant_elimination_flow = True,
        fs_global_outage = False, fs_merchant_outage = False\<rparr>,
      fe_scoring_data = (\<lambda>_ _. Some demo_document), fe_lock = (\<lambda>key _ l. (Some (key \<notin> l), insert key l)),
      fe_lock_ttl = None, fe_merchant = True, fe_now = 1000, fe_millis = (\<lambda>_. 0), fe_merchant_cfg = None,
      fe_default_cfg = None, fe_latency_check_in_mins = None, fe_latency_threshold = None,
      fe_metrics = (\<lambda>_ _. None), fe_keys = demo_key_config, fe_gsm = []\<rparr>"

definition demo_payload :: "txn_status \<Rightarrow> update_score_payload" where
  "demo_payload status =
     \<lparr>up_merchant_id = ''m'', up_gateway = ''b'', up_gateway_reference_id = None, up_status = status,
      up_payment_id = ''p'', up_enforce_failure = None, up_txn_latency = None, up_error_info = None\<rparr>"

definition demo_feedback_txn :: "txn_status \<Rightarrow> feedback_txn" where
  "demo_feedback_txn status = projr (get_txn_detail_from_api_payload (demo_payload status) demo_document)"

lemma demo_feedback_txn_payload: "get_txn_detail_from_api_payload (demo_payload status) demo_document = Inr (demo_feedback_txn status)"
  by (simp add: demo_feedback_txn_def get_txn_detail_from_api_payload_def demo_document_def stored_scoring_data_def
      demo_scoring_data_def get_default_gateway_scoring_data_def Let_def)

lemma settled_demo_plain: "plain_feedback (demo_feedback_env False) (demo_payload status) demo_document"
  by (simp add: plain_feedback_def demo_feedback_env_def skipped_by_gsm_def demo_payload_def)

lemma demo_in_window:
  "ty \<noteq> Penalise \<Longrightarrow> is_update_within_latency_window (demo_feedback_env locking) (demo_feedback_txn status)
     (get_txn_card_info_from_api_payload demo_document) ty None None"
  using f64_of_nat [of 15] f64_of_nat [of 600000]
  by (simp add: is_update_within_latency_window_def latency_check_threshold_def demo_feedback_env_def
      get_gateway_wise_latency_def default_gw_latency_check_in_mins_def defaultGatewayScoreLatencyCheckInMins_def
      get_time_from_txn_created_in_mills_def isGwLatencyWithinConfiguredThreshold_def f64_of_int_def fmin_def fmul_def is_nan_def Let_def)

lemma demo_metric: "feedback_metric_entry (demo_feedback_env locking) t info data = None"
  by (simp add: feedback_metric_entry_def demo_feedback_env_def get_metric_entry_data_def fetch_from_redis_def Let_def
      split: bind_split)

lemma demo_not_slow:
  "\<not> slow_payment (demo_feedback_env locking) (demo_feedback_txn status) (get_txn_card_info_from_api_payload demo_document)"
  using f64_of_nat [of 300000]
  by (simp add: slow_payment_def time_difference_threshold_def demo_feedback_env_def get_sr_v3_latency_threshold_def
      get_time_from_txn_created_in_mills_def default_sr_v3_latency_threshold_in_secs_def fmul_def Let_def)

abbreviation demo_start where
  "demo_start \<equiv> (((\<lambda>_. None, \<lambda>_. None), {}), Map.empty)"

theorem failures_spare_elimination_witness:
  "\<exists>r oc s' l' inflight'. feedback_request mem_redis mem_store (demo_env None) (demo_feedback_env False) (True, True)
     (demo_payload AuthorizationFailed) demo_start = Some (r, oc, ((s', \<lambda>_. None), l'), inflight')"
proof -
  have "fe_merchant (demo_feedback_env False)" by (simp add: demo_feedback_env_def)
  from request_defined [OF this] obtain r oc s' k' l' inflight' where run:
    "feedback_request mem_redis mem_store (demo_env None) (demo_feedback_env False) (True, True)
       (demo_payload AuthorizationFailed) demo_start = Some (r, oc, ((s', k'), l'), inflight')"
    by (metis prod.exhaust)
  from failures_spare_elimination [OF run] have "k' = (\<lambda>_. None)"
    by (simp add: demo_payload_def is_transaction_success_def is_transaction_pending_def txn_success_states_def)
  with run show ?thesis by blast
qed

theorem feedback_effect_witness:
  "\<exists>oc l' inflight'. feedback_request mem_redis mem_store (demo_env None) (demo_feedback_env False) (True, True)
     (demo_payload Declined) demo_start = Some (Inr ''Success'', oc, ((\<lambda>_. None, \<lambda>_. None), l'), inflight')"
  using feedback_effect [OF settled_demo_plain demo_feedback_txn_payload _ refl refl refl, of Declined mem_redis mem_store
      "demo_env None" "(True, True)" "\<lambda>_. None" "\<lambda>_. None" "{}" Map.empty] demo_not_slow [of False Declined]
  by (simp add: demo_payload_def is_transaction_success_def is_transaction_failure_def is_transaction_pending_def
      txn_success_states_def txn_failure_states_def)

text \<open>The second request comes ten minutes later.\<close>

theorem repeated_feedback_counts_once_witness:
  "\<exists>stores1 l1 inflight1 oc r oc' l3 inflight3.
     feedback_request mem_redis mem_store (demo_env None) (demo_feedback_env True) (True, True) (demo_payload Charged)
       demo_start = Some (Inr ''Success'', oc, (stores1, l1), inflight1) \<and>
     feedback_request mem_redis mem_store (demo_env None) ((demo_feedback_env True)\<lparr>fe_now := 601000\<rparr>) (True, True)
       (demo_payload Charged) ((stores1, l1), inflight1) = Some (r, oc', (stores1, l3), inflight3)"
proof -
  let ?E = "demo_feedback_env True" and ?E' = "(demo_feedback_env True)\<lparr>fe_now := 601000\<rparr>"
  have env: "fs_score_lock (fe_switches ?E)" "fs_score_lock (fe_switches ?E')" "fe_lock ?E' = fe_lock ?E"
    "lock_documented (fe_lock ?E) (\<lambda>l. l)" "fe_merchant ?E" "fe_merchant ?E'" "\<not> skipped_by_gsm ?E (demo_payload Charged)"
    by (simp_all add: demo_feedback_env_def lock_documented_def skipped_by_gsm_def demo_payload_def)
  have status: "is_transaction_success (up_status (demo_payload Charged))"
    by (simp add: demo_payload_def is_transaction_success_def txn_success_states_def)
  from request_defined [OF env(5)] obtain r1 oc stores1 l1 inflight1 where run:
    "feedback_request mem_redis mem_store (demo_env None) ?E (True, True) (demo_payload Charged) demo_start =
       Some (r1, oc, (stores1, l1), inflight1)" by (metis prod.exhaust)
  have "fe_scoring_data ?E 0 k = Some demo_document" for k by (simp add: demo_feedback_env_def)
  then have r1: "r1 = Inr ''Success''"
    using run env(7) demo_feedback_txn_payload [of Charged] by (auto simp: feedback_request_def split: prod.splits)
  from request_defined [OF env(6)] obtain r oc' stores3 l3 inflight3 where again:
    "feedback_request mem_redis mem_store (demo_env None) ?E' (True, True) (demo_payload Charged)
       ((stores1, l1), inflight1) = Some (r, oc', (stores3, l3), inflight3)" by (metis prod.exhaust)
  have "stores3 = stores1"
    by (rule repeated_feedback_counts_once [OF env(1,2,4,3) disjI1 [OF status] env(7) run [unfolded r1] subset_refl
        refl refl refl refl again])
  with run again r1 show ?thesis by blast
qed

theorem feedback_reaches_next_decision_witness:
  "\<exists>r oc s' k' l' inflight'. feedback_request mem_redis mem_store (demo_env None) (demo_feedback_env False) (True, True)
     (demo_payload AuthorizationFailed) demo_start = Some (r, oc, ((s', k'), l'), inflight') \<and>
   s' (key_for demo_key_config (demo_scoring_data ''NB'' ''NB_HDFC'' '''') SrV3Key ''b'' None @ ''_}queue'') =
     Some (RList (take 125 (''0'' # replicate 125 ''1'')))"
proof -
  let ?E = "demo_feedback_env False" and ?p = "demo_payload AuthorizationFailed" and ?t = "demo_feedback_txn AuthorizationFailed"
  let ?info = "get_txn_card_info_from_api_payload demo_document" and ?gsd = "demo_scoring_data ''NB'' ''NB_HDFC'' ''''"
  let ?keys = "fst (get_consumer_key (fe_keys ?E) demo_reference_ids ?gsd SrV3Key False [''a'', ''b''] (?gsd, None))"
  have "fe_merchant ?E" by (simp add: demo_feedback_env_def)
  from request_defined [OF this] obtain r oc s' k' l' inflight' where run:
    "feedback_request mem_redis mem_store (demo_env None) ?E (True, True) ?p demo_start = Some (r, oc, ((s', k'), l'), inflight')"
    by (metis prod.exhaust)
  have gsd: "\<not> source_in_key ?gsd" "\<not> gsd_is_gri_enabled_for_elimination ?gsd" "\<not> gsd_is_gri_enabled_for_sr_routing ?gsd"
    "sd_data demo_document = stored_scoring_data ?gsd"
    by (simp_all add: source_in_key_def demo_scoring_data_def get_default_gateway_scoring_data_def demo_document_def)
  have key: "map_of ?keys (up_gateway ?p) = Some (key_for demo_key_config ?gsd SrV3Key ''b'' None)"
    using consumer_key [of SrV3Key "''b''" "[''a'', ''b'']" "fe_keys ?E" demo_reference_ids ?gsd "(?gsd, None)"] gsd
    by (simp add: decision_key_def demo_payload_def demo_feedback_env_def)
  have status: "is_transaction_failure (up_status ?p)" "\<not> is_transaction_success (up_status ?p)"
    by (simp_all add: demo_payload_def is_transaction_failure_def txn_failure_states_def is_transaction_success_def
        txn_success_states_def)
  have ty: "get_gateway_scoring_type ?E ?t ?info False \<noteq> Penalise"
    using scoring_type_of_status [OF demo_feedback_txn_payload [of AuthorizationFailed], of ?E ?info] status by simp
  have bucket: "feedback_bucket_size ?E ?t ?info = 125"
    by (simp add: feedback_bucket_size_def getSrV3MerchantBucketSize_def demo_feedback_env_def get_sr_v3_bucket_size_def
        DEFAULT_SR_V3_BASED_BUCKET_SIZE_def Let_def)
  have latency: "up_txn_latency ?p = None" by (simp add: demo_payload_def)
  have old: "if r_view mem_redis (\<lambda>_. None) (key_for demo_key_config ?gsd SrV3Key ''b'' None @ ''_}queue'') \<noteq> None \<and>
      r_view mem_redis (\<lambda>_. None) (key_for demo_key_config ?gsd SrV3Key ''b'' None @ ''_}score'') \<noteq> None
      then r_view mem_redis (\<lambda>_. None) (key_for demo_key_config ?gsd SrV3Key ''b'' None @ ''_}queue'') = Some (RList (replicate 125 ''1''))
      else replicate 125 ''1'' = replicate (nat (max (feedback_bucket_size ?E ?t ?info) 1)) ''1''"
    by (simp add: bucket mem_redis_def)
  have in_window: "is_update_within_latency_window ?E ?t ?info (get_gateway_scoring_type ?E ?t ?info False) (up_txn_latency ?p)
      (feedback_metric_entry ?E ?t ?info (elimination_data ?E (get_gateway_scoring_type ?E ?t ?info False) ?t))"
    unfolding latency demo_metric by (rule demo_in_window [OF ty])
  have "up_enforce_failure ?p \<noteq> Some True" "up_gateway ?p \<in> set [''a'', ''b'']" "[] \<notin> set [''a'', ''b'']"
    by (simp_all add: demo_payload_def)
  from feedback_reaches_next_decision [OF mem_redis_documented settled_demo_plain demo_feedback_txn_payload this(1) refl refl in_window
      disjI2 [OF status(1)] gsd(4,1-3) refl this(2,3) key run old]
  have "r_view mem_redis s' (key_for demo_key_config ?gsd SrV3Key ''b'' None @ ''_}queue'') =
      Some (RList (take 125 (''0'' # replicate 125 ''1'')))"
    using status by (simp only: bucket outcome_text_def) simp
  with run show ?thesis by (auto simp: mem_redis_def)
qed

section \<open>What a feedback forgets\<close>

lemma feedback_forgets_card_dimensions:
  "dimensions_of currency t (get_txn_card_info_from_api_payload d) =
     \<lparr>rd_card_network = None, rd_card_isin = None, rd_currency = Some currency, rd_country = td_country t,
      rd_auth_type = map_option auth_type_to_text (Option.bind (gsd_auth_type (sd_data d)) text_to_auth_type)\<rparr>"
  by (simp add: dimensions_of_def get_txn_card_info_from_api_payload_def Let_def)

lemma gsm_filter_ignores_status: "skipped_by_gsm E (p\<lparr>up_status := status\<rparr>) = skipped_by_gsm E p"
  by (simp add: skipped_by_gsm_def split: option.split)

end
