(* ===== verification/Cost_Key.thy ===== *)
theory Cost_Key
  imports Multi_Objective Txn_Types Redis_Store
begin

text \<open>
  What a payment is priced by and the contract rates it is priced with when no other cost is known
  (\<open>src/src/decider/gatewaydecider/multi_objective/cluster_key.rs\<close>, \<open>seed_costs.rs\<close>,
  \<open>seed_store.rs\<close>, and the tables of \<open>src/src/config.rs\<close>). \<open>str::to_lowercase\<close> and
  \<open>str::to_uppercase\<close> on Unicode are the arguments \<open>lower\<close> and \<open>upper\<close>.
\<close>

section \<open>The key\<close>

record cost_cluster_key =
  ck_amount :: "f64 option"
  ck_transaction_currency :: "string option"
  ck_payment_method_type :: "string option"
  ck_card_type :: "string option"
  ck_card_network :: "string option"
  ck_mcc :: string
  ck_cross_border_flag :: bool
  ck_card_bin :: "nat option"
  ck_card_issuing_bank :: "string option"
  ck_card_issuing_country :: "string option"
  ck_card_issuing_country_raw :: "string option"
  ck_channel :: "string option"
  ck_wallet :: "string option"
  ck_psp_array :: "string list"

text \<open>
  The fields of \<open>TxnDetail\<close> and \<open>TxnCardInfo\<close> that the key is made of; the currency and the kind of
  card are the names their \<open>Debug\<close> prints.
\<close>

record priced_payment =
  pp_net_amount :: "f64 option"
  pp_currency :: string
  pp_card_type :: "string option"
  pp_card_program :: "string option"
  pp_card_switch_provider :: "string option"
  pp_card_isin :: "string option"
  pp_card_issuer_bank_name :: "string option"
  pp_card_issuer_country :: "string option"
  pp_channel :: "string option"
  pp_payment_method :: string

definition DEFAULT_MCC :: string where
  "DEFAULT_MCC = ''4722''"

definition non_empty :: "string \<Rightarrow> string option" where
  "non_empty s = (if trim s = [] then None else Some s)"

definition EU :: "string list" where
  "EU = [''eu'', ''gb'', ''uk'', ''ie'', ''de'', ''fr'', ''es'', ''it'', ''nl'', ''be'', ''pt'', ''at'', ''fi'',
     ''se'', ''dk'', ''pl'', ''cz'', ''gr'', ''hu'', ''ro'', ''sk'', ''bg'', ''hr'', ''si'', ''ee'', ''lv'', ''lt'', ''lu'',
     ''mt'', ''cy'']"

definition issuer_region :: "(string \<Rightarrow> string) \<Rightarrow> string \<Rightarrow> string" where
  "issuer_region lower raw =
     (let v = lower (trim raw) in
      if v = ''us'' \<or> v = ''usa'' then ''us''
      else if v = ''intl'' then ''intl''
      else if v \<in> set EU then ''eu''
      else ''intl'')"

definition wallet_from_payment_method :: "(string \<Rightarrow> string) \<Rightarrow> string \<Rightarrow> string option" where
  "wallet_from_payment_method lower pm =
     (let p = lower pm in
      if str_contains p ''apple'' then Some ''applepay''
      else if str_contains p ''google'' then Some ''googlepay''
      else None)"

text \<open>\<open>str::parse::<u64>\<close>: digits after an optional plus sign, up to the maximum.\<close>

definition parse_u64 :: "string \<Rightarrow> nat option" where
  "parse_u64 s =
     (let ds = (case s of c # cs \<Rightarrow> if c = CHR ''+'' then cs else s | [] \<Rightarrow> []) in
      if ds = [] \<or> \<not> list_all is_digit ds \<or> 2 ^ 64 \<le> digits_value ds then None
      else Some (digits_value ds))"

definition derive_cluster_key ::
  "(string \<Rightarrow> string) \<Rightarrow> (string \<Rightarrow> string) \<Rightarrow> priced_payment \<Rightarrow> cost_cluster_key" where
  "derive_cluster_key lower upper p =
     \<lparr>ck_amount = pp_net_amount p,
      ck_transaction_currency = Some (pp_currency p),
      ck_payment_method_type = map_option lower (pp_card_type p),
      ck_card_type = map_option lower (Option.bind (pp_card_program p) non_empty),
      ck_card_network = map_option lower (pp_card_switch_provider p),
      ck_mcc = DEFAULT_MCC,
      ck_cross_border_flag =
        unwrap_or (map_option (\<lambda>s. issuer_region lower s = ''intl'')
          (Option.bind (pp_card_issuer_country p) non_empty)) False,
      ck_card_bin = Option.bind (Option.bind (pp_card_isin p) non_empty) parse_u64,
      ck_card_issuing_bank = map_option lower (Option.bind (pp_card_issuer_bank_name p) non_empty),
      ck_card_issuing_country =
        map_option (issuer_region lower) (Option.bind (pp_card_issuer_country p) non_empty),
      ck_card_issuing_country_raw =
        map_option (\<lambda>s. upper (trim s)) (Option.bind (pp_card_issuer_country p) non_empty),
      ck_channel = map_option (\<lambda>s. lower (trim s)) (Option.bind (pp_channel p) non_empty),
      ck_wallet = wallet_from_payment_method lower (pp_payment_method p),
      ck_psp_array = []\<rparr>"

lemma issuer_region_cases: "issuer_region lower s \<in> {''us'', ''eu'', ''intl''}"
  by (simp add: issuer_region_def Let_def)

section \<open>Contract rates\<close>

record seed_fee_model =
  fm_pct_bps :: f64
  fm_fixed :: f64
  fm_interchange_bps :: "f64 option"
  fm_scheme_bps :: "f64 option"
  fm_markup_bps :: "f64 option"

record seed_cost_tier =
  ti_card_network :: "string option"
  ti_payment_method_type :: "string option"
  ti_card_type :: "string option"
  ti_transaction_currency :: "string option"
  ti_card_issuing_country :: "string option"
  ti_pct_bps :: f64
  ti_fixed :: f64
  ti_interchange_bps :: "f64 option"
  ti_scheme_bps :: "f64 option"
  ti_markup_bps :: "f64 option"
  ti_label :: "string option"
  ti_example_amount :: "f64 option"

record seed_cost_entry =
  se_psp :: string
  se_default :: seed_fee_model
  se_tiers :: "seed_cost_tier list"

definition fee_components ::
  "f64 \<Rightarrow> f64 option \<Rightarrow> f64 option \<Rightarrow> f64 option \<Rightarrow> f64 \<times> f64 \<times> f64" where
  "fee_components pct_bps interchange_bps scheme_bps markup_bps =
     (if interchange_bps = None \<and> scheme_bps = None \<and> markup_bps = None then (pct_bps, Fin 0, Fin 0)
      else (unwrap_or interchange_bps (Fin 0), unwrap_or scheme_bps (Fin 0), unwrap_or markup_bps (Fin 0)))"

definition effective_pct_bps :: "seed_fee_model \<Rightarrow> f64" where
  "effective_pct_bps m =
     (let (i, s, k) = fee_components (fm_pct_bps m) (fm_interchange_bps m) (fm_scheme_bps m) (fm_markup_bps m) in
      fadd (fadd i s) k)"

definition tier_effective_pct_bps :: "seed_cost_tier \<Rightarrow> f64" where
  "tier_effective_pct_bps t =
     (let (i, s, k) = fee_components (ti_pct_bps t) (ti_interchange_bps t) (ti_scheme_bps t) (ti_markup_bps t) in
      fadd (fadd i s) k)"

record resolved_fee =
  rf_interchange_bps :: f64
  rf_scheme_bps :: f64
  rf_markup_bps :: f64
  rf_fixed :: f64

definition resolved_pct_bps :: "resolved_fee \<Rightarrow> f64" where
  "resolved_pct_bps f = fadd (fadd (rf_interchange_bps f) (rf_scheme_bps f)) (rf_markup_bps f)"

definition effective_cost_bps :: "f64 \<Rightarrow> f64 \<Rightarrow> f64 \<Rightarrow> f64" where
  "effective_cost_bps pct_bps fixed amount =
     (if flt (Fin 0) amount then fadd pct_bps (fmul (fdiv fixed amount) (Fin 10000)) else pct_bps)"

definition field_or_empty :: "string option \<Rightarrow> string" where
  "field_or_empty v = unwrap_or v []"

definition eq_ignore_ascii_case :: "string \<Rightarrow> string \<Rightarrow> bool" where
  "eq_ignore_ascii_case a b \<longleftrightarrow> to_ascii_lowercase a = to_ascii_lowercase b"

text \<open>One field of a tier: a wildcard adds nothing, a mismatch ends the matching.\<close>

definition tier_step :: "string option \<Rightarrow> string option \<Rightarrow> nat \<Rightarrow> nat \<times> nat \<Rightarrow> (nat \<times> nat) option" where
  "tier_step v fld weight acc =
     (case v of None \<Rightarrow> Some acc
      | Some v \<Rightarrow>
          if eq_ignore_ascii_case v (field_or_empty fld) then Some (fst acc + 1, snd acc + weight) else None)"

definition tier_score :: "seed_cost_tier \<Rightarrow> cost_cluster_key \<Rightarrow> nat option" where
  "tier_score tier cluster =
     Option.bind (tier_step (ti_card_issuing_country tier) (ck_card_issuing_country cluster) 16 (0, 0)) (\<lambda>s.
     Option.bind (tier_step (ti_transaction_currency tier) (ck_transaction_currency cluster) 8 s) (\<lambda>s.
     Option.bind (tier_step (ti_card_network tier) (ck_card_network cluster) 4 s) (\<lambda>s.
     Option.bind (tier_step (ti_payment_method_type tier) (ck_payment_method_type cluster) 2 s) (\<lambda>s.
     Option.bind (tier_step (ti_card_type tier) (ck_card_type cluster) 1 s) (\<lambda>(count, tiebreak).
       Some (count * 32 + tiebreak))))))"

definition fee_from ::
  "f64 \<Rightarrow> f64 option \<Rightarrow> f64 option \<Rightarrow> f64 option \<Rightarrow> f64 \<Rightarrow> resolved_fee" where
  "fee_from pct_bps interchange_bps scheme_bps markup_bps fixed =
     (let (i, s, k) = fee_components pct_bps interchange_bps scheme_bps markup_bps in
      \<lparr>rf_interchange_bps = i, rf_scheme_bps = s, rf_markup_bps = k, rf_fixed = fixed\<rparr>)"

definition fee_of_tier :: "seed_cost_tier \<Rightarrow> resolved_fee" where
  "fee_of_tier t = fee_from (ti_pct_bps t) (ti_interchange_bps t) (ti_scheme_bps t) (ti_markup_bps t) (ti_fixed t)"

definition fee_of_default :: "seed_fee_model \<Rightarrow> resolved_fee" where
  "fee_of_default d = fee_from (fm_pct_bps d) (fm_interchange_bps d) (fm_scheme_bps d) (fm_markup_bps d) (fm_fixed d)"

definition resolve_fee :: "seed_cost_entry \<Rightarrow> cost_cluster_key \<Rightarrow> resolved_fee" where
  "resolve_fee entry cluster =
     (case max_by_key fst
             (List.map_filter (\<lambda>t. map_option (\<lambda>s. (s, t)) (tier_score t cluster)) (se_tiers entry)) of
        Some (_, t) \<Rightarrow> fee_of_tier t
      | None \<Rightarrow> fee_of_default (se_default entry))"

definition lookup_seed_costs ::
  "seed_cost_entry list \<Rightarrow> cost_cluster_key \<Rightarrow> string list \<Rightarrow> psp_cost hmap" where
  "lookup_seed_costs entries cluster psps =
     (let amount = unwrap_or (ck_amount cluster) (Fin 0) in
      foldl (\<lambda>m psp.
        case find (\<lambda>e. eq_ignore_ascii_case (se_psp e) psp) entries of
          None \<Rightarrow> m
        | Some entry \<Rightarrow>
            (let fee = resolve_fee entry cluster; pct_bps = resolved_pct_bps fee in
             hm_insert psp
               \<lparr>pc_available = True,
                pc_effective_cost_bps = effective_cost_bps pct_bps (rf_fixed fee) amount,
                pc_source = Seed,
                pc_cost_model =
                  Some \<lparr>cm_brand = ck_card_network cluster, cm_variant = None, cm_issuer = None,
                        cm_ccy = ck_transaction_currency cluster, cm_ic_category = None,
                        cm_pct_bps = Some pct_bps, cm_fixed_fee = Some (rf_fixed fee)\<rparr>\<rparr> m)) [] psps)"

text \<open>
  The table in effect (\<open>seed_store.rs\<close>): the stored one unless it is empty. \<open>stored\<close> is the result of
  reading and decoding it.
\<close>

definition effective_seed_entries :: "seed_cost_entry list option \<Rightarrow> seed_cost_entry list \<Rightarrow> seed_cost_entry list" where
  "effective_seed_entries stored config_entries =
     (case stored of Some table \<Rightarrow> if table \<noteq> [] then table else config_entries | None \<Rightarrow> config_entries)"

end
