(* ===== verification/Seed_Correct.thy ===== *)
theory Seed_Correct
  imports Cost_Key
begin

text \<open>
  Which contract rate a payment is priced with: the scores of \<open>tier_score\<close> order the matching tiers
  by how many fields they specify, then by the fields themselves.
\<close>

section \<open>Scores\<close>

definition tier_fields :: "seed_cost_tier \<Rightarrow> cost_cluster_key \<Rightarrow> (string option \<times> string option) list" where
  "tier_fields t k =
     [(ti_card_issuing_country t, ck_card_issuing_country k), (ti_transaction_currency t, ck_transaction_currency k),
      (ti_card_network t, ck_card_network k), (ti_payment_method_type t, ck_payment_method_type k),
      (ti_card_type t, ck_card_type k)]"

definition tier_applies :: "cost_cluster_key \<Rightarrow> seed_cost_tier \<Rightarrow> bool" where
  "tier_applies k t \<longleftrightarrow>
     (\<forall>(v, f) \<in> set (tier_fields t k). \<forall>x. v = Some x \<longrightarrow> eq_ignore_ascii_case x (field_or_empty f))"

definition specified :: "seed_cost_tier \<Rightarrow> bool list" where
  "specified t =
     [ti_card_issuing_country t \<noteq> None, ti_transaction_currency t \<noteq> None, ti_card_network t \<noteq> None,
      ti_payment_method_type t \<noteq> None, ti_card_type t \<noteq> None]"

definition n_specified :: "seed_cost_tier \<Rightarrow> nat" where
  "n_specified t = length (filter id (specified t))"

text \<open>Fewer fields, or as many fields and at the first difference a wildcard.\<close>

definition less_specific :: "seed_cost_tier \<Rightarrow> seed_cost_tier \<Rightarrow> bool" where
  "less_specific u t \<longleftrightarrow>
     n_specified u < n_specified t \<or> n_specified u = n_specified t \<and> specified u < specified t"

fun bits_value :: "bool list \<Rightarrow> nat" where
  "bits_value [] = 0"
| "bits_value (b # bs) = of_bool b * 2 ^ length bs + bits_value bs"

lemma bits_value_bound: "bits_value bs < 2 ^ length bs"
  by (induction bs) auto

lemma bits_value_less: "length u = length v \<Longrightarrow> bits_value u < bits_value v \<longleftrightarrow> u < v"
proof (induction u v rule: list_induct2)
  case (Cons x xs y ys)
  have "bits_value xs < 2 ^ length xs" "bits_value ys < 2 ^ length xs"
    using bits_value_bound [of xs] bits_value_bound [of ys] Cons.hyps by simp_all
  with Cons show ?case by (cases x; cases y) auto
qed simp

lemma tier_score_eq:
  "tier_score t k = (if tier_applies k t then Some (n_specified t * 32 + bits_value (specified t)) else None)"
  unfolding tier_score_def tier_step_def tier_applies_def tier_fields_def n_specified_def specified_def
  by (cases "ti_card_issuing_country t"; cases "ti_transaction_currency t"; cases "ti_card_network t";
      cases "ti_payment_method_type t"; cases "ti_card_type t") simp_all

lemma score_less:
  "n_specified u * 32 + bits_value (specified u) < n_specified t * 32 + bits_value (specified t) \<longleftrightarrow>
   less_specific u t"
proof -
  have "bits_value (specified u) < 32" "bits_value (specified t) < 32"
    using bits_value_bound [of "specified u"] bits_value_bound [of "specified t"] by (simp_all add: specified_def)
  moreover have "bits_value (specified u) < bits_value (specified t) \<longleftrightarrow> specified u < specified t"
    by (rule bits_value_less) (simp add: specified_def)
  ultimately show ?thesis unfolding less_specific_def by linarith
qed

lemma scored_tiers:
  "List.map_filter (\<lambda>t. map_option (\<lambda>s. (s, t)) (tier_score t k)) ts =
     List.map (\<lambda>t. (n_specified t * 32 + bits_value (specified t), t)) (filter (tier_applies k) ts)"
  by (induction ts) (simp_all add: List.map_filter_simps tier_score_eq)

lemma resolve_fee_cases:
  "filter (tier_applies k) (se_tiers e) = [] \<and> resolve_fee e k = fee_of_default (se_default e) \<or>
   (\<exists>xs t ys. filter (tier_applies k) (se_tiers e) = xs @ t # ys \<and> resolve_fee e k = fee_of_tier t \<and>
     (\<forall>u \<in> set xs. \<not> less_specific t u) \<and> (\<forall>u \<in> set ys. less_specific u t))"
proof -
  let ?f = "\<lambda>t. (n_specified t * 32 + bits_value (specified t), t)"
  let ?ts = "filter (tier_applies k) (se_tiers e)"
  have r: "resolve_fee e k = (case max_by_key fst (List.map ?f ?ts) of
      Some (_, t) \<Rightarrow> fee_of_tier t | None \<Rightarrow> fee_of_default (se_default e))"
    unfolding resolve_fee_def scored_tiers ..
  show ?thesis
  proof (cases "max_by_key fst (List.map ?f ?ts)")
    case None
    then show ?thesis unfolding r by (simp add: max_by_key_None)
  next
    case (Some st)
    then obtain s t where st: "max_by_key fst (List.map ?f ?ts) = Some (s, t)" by (cases st) simp
    then obtain ys zs where d: "List.map ?f ?ts = ys @ (s, t) # zs"
      "\<forall>y \<in> set ys. fst y \<le> s" "\<forall>z \<in> set zs. fst z < s"
      by (rule max_by_key_last) auto
    from d(1) obtain us v ws where m: "?ts = us @ v # ws" "List.map ?f us = ys" "?f v = (s, t)" "List.map ?f ws = zs"
      by (auto simp: map_eq_append_conv map_eq_Cons_conv)
    from m(3) have s: "s = fst (?f t)" "v = t" by auto
    have "\<not> less_specific t u" if "u \<in> set us" for u
      using d(2) that unfolding m(2) [symmetric] s(1) score_less [symmetric] by force
    moreover have "less_specific u t" if "u \<in> set ws" for u
      using d(3) that unfolding m(4) [symmetric] s(1) score_less [symmetric] by force
    moreover have "resolve_fee e k = fee_of_tier t" unfolding r st by simp
    ultimately show ?thesis using m(1) s(2) by blast
  qed
qed

lemma not_less_specific_self: "\<not> less_specific t t"
  by (simp add: less_specific_def)

lemma less_specific_asym: "less_specific u t \<Longrightarrow> \<not> less_specific t u"
  by (auto simp: less_specific_def)

text \<open>
  C25. The rate of a gateway for a payment is the default one when no tier matches; otherwise it is the
  rate of a matching tier that no matching tier is more specific than, and all matching tiers
  listed after it are less specific: more specified fields win, then the more discriminating field,
  then the later tier. A tier matches when every field it specifies equals the one of the payment
  up to the case of letters.
\<close>

theorem seed_fee_most_specific:
  "filter (tier_applies k) (se_tiers e) = [] \<and> resolve_fee e k = fee_of_default (se_default e) \<or>
   (\<exists>xs t ys. filter (tier_applies k) (se_tiers e) = xs @ t # ys \<and> resolve_fee e k = fee_of_tier t \<and>
     (\<forall>u \<in> set (filter (tier_applies k) (se_tiers e)). \<not> less_specific t u) \<and>
     (\<forall>u \<in> set ys. less_specific u t))"
proof (cases "filter (tier_applies k) (se_tiers e) = [] \<and> resolve_fee e k = fee_of_default (se_default e)")
  case False
  with resolve_fee_cases [of k e] obtain xs t ys where
    d: "filter (tier_applies k) (se_tiers e) = xs @ t # ys" "resolve_fee e k = fee_of_tier t"
      "\<forall>u \<in> set xs. \<not> less_specific t u" "\<forall>u \<in> set ys. less_specific u t" by blast
  then have "\<forall>u \<in> set (xs @ t # ys). \<not> less_specific t u"
    using not_less_specific_self less_specific_asym [of _ t] by auto
  with d show ?thesis by metis
qed blast

definition demo_tier :: "string option \<Rightarrow> string option \<Rightarrow> f64 \<Rightarrow> seed_cost_tier" where
  "demo_tier network program pct =
     \<lparr>ti_card_network = network, ti_payment_method_type = None, ti_card_type = program,
      ti_transaction_currency = None, ti_card_issuing_country = None, ti_pct_bps = pct, ti_fixed = Fin 0,
      ti_interchange_bps = None, ti_scheme_bps = None, ti_markup_bps = None, ti_label = None,
      ti_example_amount = None\<rparr>"

definition demo_entry :: seed_cost_entry where
  "demo_entry =
     \<lparr>se_psp = ''adyen'',
      se_default = \<lparr>fm_pct_bps = Fin 290, fm_fixed = Fin 0, fm_interchange_bps = None, fm_scheme_bps = None,
        fm_markup_bps = None\<rparr>,
      se_tiers = [demo_tier (Some ''VISA'') (Some ''premium'') (Fin 254), demo_tier (Some ''visa'') None (Fin 194)]\<rparr>"

definition demo_cluster :: "string \<Rightarrow> cost_cluster_key" where
  "demo_cluster program =
     \<lparr>ck_amount = Some (Fin 100), ck_transaction_currency = Some ''USD'', ck_payment_method_type = Some ''credit'',
      ck_card_type = Some program, ck_card_network = Some ''visa'', ck_mcc = DEFAULT_MCC,
      ck_cross_border_flag = False, ck_card_bin = None, ck_card_issuing_bank = None,
      ck_card_issuing_country = Some ''us'', ck_card_issuing_country_raw = Some ''US'', ck_channel = None,
      ck_wallet = None, ck_psp_array = []\<rparr>"

lemma same_case: "to_ascii_lowercase ''VISA'' = to_ascii_lowercase ''visa''"
  by code_simp

theorem seed_fee_most_specific_witness:
  "resolve_fee demo_entry (demo_cluster ''premium'') = fee_of_tier (demo_tier (Some ''VISA'') (Some ''premium'') (Fin 254))"
proof -
  let ?p = "demo_tier (Some ''VISA'') (Some ''premium'') (Fin 254)" and ?v = "demo_tier (Some ''visa'') None (Fin 194)"
  have f: "filter (tier_applies (demo_cluster ''premium'')) (se_tiers demo_entry) = [?p, ?v]"
    by (simp add: demo_entry_def demo_tier_def demo_cluster_def tier_applies_def tier_fields_def
        eq_ignore_ascii_case_def field_or_empty_def same_case)
  have l: "less_specific ?v ?p"
    by (simp add: less_specific_def n_specified_def specified_def demo_tier_def)
  from seed_fee_most_specific [of "demo_cluster ''premium''" demo_entry]
  have "\<exists>xs t ys. [?p, ?v] = xs @ t # ys \<and> resolve_fee demo_entry (demo_cluster ''premium'') = fee_of_tier t \<and>
     (\<forall>u \<in> set [?p, ?v]. \<not> less_specific t u) \<and> (\<forall>u \<in> set ys. less_specific u t)"
    unfolding f by (simp only: list.distinct simp_thms)
  then obtain xs t ys where
    t: "[?p, ?v] = xs @ t # ys" "resolve_fee demo_entry (demo_cluster ''premium'') = fee_of_tier t"
      "\<forall>u \<in> set [?p, ?v]. \<not> less_specific t u" by blast
  from t(1) have "t = ?p \<or> t = ?v" by (auto simp: Cons_eq_append_conv)
  moreover from t(3) have "\<not> less_specific t ?p" by simp
  ultimately have "t = ?p" using l by blast
  with t(2) show ?thesis by simp
qed

end
