(* ===== verification/Cost_Serving.thy ===== *)
theory Cost_Serving
  imports Cost_Key Cost_Segment
begin

text \<open>
  Serving the fitted costs (\<open>src/src/cost_ingestion/serving.rs\<close>, the keys of
  \<open>src/src/cost_ingestion/types.rs\<close>): the tables a merchant is served from, the lookup of a cost for
  a payment, and the rebuild of the tables from the rows of the database. The rows and the stored
  overlays are arguments. A \<open>None\<close> around a result is a panic.
\<close>

section \<open>The tables\<close>

record serving_cost =
  sc_pct_bps :: f64
  sc_fixed :: f64

definition serving_effective_cost_bps :: "serving_cost \<Rightarrow> f64 \<Rightarrow> f64" where
  "serving_effective_cost_bps c amount =
     (if flt (Fin 0) amount then fadd (sc_pct_bps c) (fmul (fdiv (sc_fixed c) amount) (Fin 10000))
      else sc_pct_bps c)"

definition with_addon :: "serving_cost \<Rightarrow> serving_cost option \<Rightarrow> serving_cost" where
  "with_addon c addon =
     (case addon of
        Some a \<Rightarrow> \<lparr>sc_pct_bps = fadd (sc_pct_bps c) (sc_pct_bps a), sc_fixed = fadd (sc_fixed c) (sc_fixed a)\<rparr>
      | None \<Rightarrow> c)"

record serving_segment =
  vs_lo :: f64
  vs_hi :: f64
  vs_cost :: serving_cost
  vs_good :: bool

record segmented_cost =
  gc_segments :: "serving_segment list"
  gc_blend :: serving_cost
  gc_weight :: f64

datatype member_cost = Flat serving_cost | Tiered segmented_cost

record fine_blend =
  fb_members :: "(f64 \<times> member_cost) list"
  fb_total_weight :: f64

record merchant_models =
  mm_coarse :: "serving_cost hmap"
  mm_fine :: "serving_cost hmap"
  mm_segmented :: "segmented_cost hmap"
  mm_fine_blend :: "fine_blend hmap"
  mm_predictor :: "string hmap list"
  mm_overrides :: "serving_cost hmap"
  mm_cluster_overrides :: "serving_cost hmap"
  mm_addons :: "serving_cost hmap"

definition default_models :: merchant_models where
  "default_models =
     \<lparr>mm_coarse = [], mm_fine = [], mm_segmented = [], mm_fine_blend = [], mm_predictor = [],
      mm_overrides = [], mm_cluster_overrides = [], mm_addons = []\<rparr>"

definition models_is_empty :: "merchant_models \<Rightarrow> bool" where
  "models_is_empty m \<longleftrightarrow>
     mm_coarse m = [] \<and> mm_fine m = [] \<and> mm_segmented m = [] \<and> mm_fine_blend m = [] \<and>
     list_all (\<lambda>l. l = []) (mm_predictor m) \<and> mm_overrides m = [] \<and> mm_cluster_overrides m = [] \<and>
     mm_addons m = []"

type_synonym serving_snapshot = "merchant_models hmap"

section \<open>Tiers and blends\<close>

text \<open>The tier of an amount; outside of all tiers the first one or the last one.\<close>

definition tier_of :: "serving_segment list \<Rightarrow> f64 \<Rightarrow> serving_segment option" where
  "tier_of segs amount =
     (case find (\<lambda>s. fle (vs_lo s) amount \<and> flt amount (vs_hi s)) segs of
        Some s \<Rightarrow> Some s
      | None \<Rightarrow>
          (case segs of
             [] \<Rightarrow> None
           | s # _ \<Rightarrow> Some (if flt amount (vs_lo s) then s else last segs)))"

definition segmented_for_amount :: "segmented_cost \<Rightarrow> f64 \<Rightarrow> serving_cost option" where
  "segmented_for_amount g amount =
     map_option (\<lambda>s. if vs_good s then vs_cost s else gc_blend g) (tier_of (gc_segments g) amount)"

definition member_for_amount :: "member_cost \<Rightarrow> f64 \<Rightarrow> serving_cost option" where
  "member_for_amount m amount =
     (case m of Flat c \<Rightarrow> Some c | Tiered s \<Rightarrow> segmented_for_amount s amount)"

fun blend_sums :: "f64 \<Rightarrow> (f64 \<times> member_cost) list \<Rightarrow> f64 \<times> f64 \<Rightarrow> (f64 \<times> f64) option" where
  "blend_sums amount [] acc = Some acc"
| "blend_sums amount ((w, m) # ms) (pct, fixed) =
     Option.bind (member_for_amount m amount) (\<lambda>c.
       blend_sums amount ms (fadd pct (fmul (sc_pct_bps c) w), fadd fixed (fmul (sc_fixed c) w)))"

definition blend_for_amount :: "fine_blend \<Rightarrow> f64 \<Rightarrow> serving_cost option" where
  "blend_for_amount b amount =
     (if fle (fb_total_weight b) (Fin 0) then Some \<lparr>sc_pct_bps = Fin 0, sc_fixed = Fin 0\<rparr>
      else map_option (\<lambda>(pct, fixed).
             \<lparr>sc_pct_bps = fdiv pct (fb_total_weight b), sc_fixed = fdiv fixed (fb_total_weight b)\<rparr>)
           (blend_sums amount (fb_members b) (Fin 0, Fin 0)))"

section \<open>Keys\<close>

definition amount_band :: "(f64 \<Rightarrow> f64) \<Rightarrow> f64 \<Rightarrow> string" where
  "amount_band log10f amount = (if fle amount (Fin 0) then ''0'' else show_int (band_of log10f amount))"

definition bin_key :: "string \<Rightarrow> string" where
  "bin_key bin = take 6 (takeWhile is_digit bin)"

definition resolve_bin_product :: "string hmap \<Rightarrow> string \<Rightarrow> string" where
  "resolve_bin_product bins bin = (if bin = [] then [] else unwrap_or (map_of bins (bin_key bin)) [])"

definition normalize_network :: "string \<Rightarrow> string" where
  "normalize_network network =
     (if network \<in> {''mastercard'', ''master''} then ''mc''
      else if network \<in> {''american express'', ''americanexpress''} then ''amex''
      else if network \<in> {''diners club'', ''dinersclub''} then ''diners''
      else network)"

definition coarse_key ::
  "(string \<Rightarrow> string) \<Rightarrow> string \<Rightarrow> string \<Rightarrow> string \<Rightarrow> string \<Rightarrow> string \<Rightarrow> string" where
  "coarse_key lower connector network funding currency region =
     join_with ''|'' [lower connector, normalize_network (lower network), lower funding, lower currency, lower region]"

definition fine_key ::
  "(string \<Rightarrow> string) \<Rightarrow> string \<Rightarrow> string \<Rightarrow> string \<Rightarrow> string \<Rightarrow> string \<Rightarrow> string \<Rightarrow> string \<Rightarrow> string" where
  "fine_key lower connector network variant funding issuer currency ic_category =
     join_with ''|'' [lower connector, normalize_network (lower network), lower variant, lower funding,
       lower issuer, lower currency, lower ic_category]"

definition fine_key_model :: "(string \<Rightarrow> string) \<Rightarrow> string \<Rightarrow> string \<Rightarrow> string" where
  "fine_key_model lower display_key card_product = display_key @ ''|'' @ lower card_product"

text \<open>The third of the fields between bars is blanked, if there are three bars.\<close>

definition without_variant :: "string \<Rightarrow> string option" where
  "without_variant display_key =
     (case split_on CHR ''|'' display_key of
        a # b # c # d # ds \<Rightarrow> Some (join_with ''|'' (a # b # [] # d # ds))
      | _ \<Rightarrow> None)"

definition reconstruct_variant ::
  "(string \<Rightarrow> string) \<Rightarrow> string \<Rightarrow> string \<Rightarrow> string \<Rightarrow> string \<Rightarrow> string" where
  "reconstruct_variant lower network program funding wallet =
     (let net = normalize_network (lower network); w = lower wallet in
      if str_contains w ''apple'' then net @ ''_applepay''
      else if str_contains w ''google'' then net @ ''_googlepay''
      else net @ lower program @ lower funding)"

definition predictor_level_keys ::
  "(string \<Rightarrow> string) \<Rightarrow> string \<Rightarrow> string \<Rightarrow> string \<Rightarrow> string \<Rightarrow> string \<Rightarrow> string \<Rightarrow> string list" where
  "predictor_level_keys lower network variant funding issuer band channel =
     (let net = normalize_network (lower network); var = lower variant; fnd = lower funding;
          iss = lower issuer; ch = lower channel in
      List.map (join_with ''|'')
        [[''0'', net, var, iss, ch, band],
         [''1'', net, var, iss, ch],
         [''2'', net, var, ch, band],
         [''3'', net, var, iss, band],
         [''4'', net, var, iss],
         [''5'', net, fnd, iss, ch, band],
         [''6'', net, fnd, ch, band],
         [''7'', net, fnd, band],
         [''8'', net, fnd]])"

definition PREDICTOR_LEVELS :: nat where "PREDICTOR_LEVELS = 9"

section \<open>Lookup\<close>

record inhouse_match =
  im_effective_bps :: f64
  im_pct_bps :: f64
  im_fixed :: f64
  im_brand :: string
  im_currency :: string
  im_variant :: "string option"
  im_issuer :: "string option"
  im_ic_category :: "string option"

text \<open>The arguments of the lookup after the merchant and the connector.\<close>

record serving_request =
  rq_network :: string
  rq_funding :: string
  rq_program :: string
  rq_currency :: string
  rq_issuer :: string
  rq_region :: string
  rq_channel :: string
  rq_wallet :: string
  rq_bin :: string
  rq_amount :: f64

record serving_env =
  en_lower :: "string \<Rightarrow> string"
  en_upper :: "string \<Rightarrow> string"
  en_log10 :: "f64 \<Rightarrow> f64"

fun first_hit :: "(string \<times> string hmap) list \<Rightarrow> string option" where
  "first_hit [] = None"
| "first_hit ((key, table) # r) = (case map_of table key of Some cat \<Rightarrow> Some cat | None \<Rightarrow> first_hit r)"

definition predict_category ::
  "(string \<Rightarrow> string) \<Rightarrow> merchant_models \<Rightarrow> string \<Rightarrow> string \<Rightarrow> string \<Rightarrow> string \<Rightarrow> string \<Rightarrow> string \<Rightarrow> string option" where
  "predict_category lower m network variant funding issuer band channel =
     first_hit (zip (predictor_level_keys lower network variant funding issuer band channel) (mm_predictor m))"

text \<open>The display key, the variant and the predicted category, for a known issuer.\<close>

definition resolve_fine ::
  "serving_env \<Rightarrow> merchant_models \<Rightarrow> string \<Rightarrow> serving_request \<Rightarrow> (string \<times> string \<times> string) option" where
  "resolve_fine E m connector q =
     (if rq_issuer q = [] then None
      else
        (let variant = reconstruct_variant (en_lower E) (rq_network q) (rq_program q) (rq_funding q) (rq_wallet q);
             band = amount_band (en_log10 E) (rq_amount q) in
         map_option (\<lambda>cat.
             (fine_key (en_lower E) connector (rq_network q) variant (rq_funding q) (rq_issuer q) (rq_currency q) cat,
              variant, cat))
           (predict_category (en_lower E) m (rq_network q) variant (rq_funding q) (rq_issuer q) band (rq_channel q))))"

definition match_of ::
  "serving_env \<Rightarrow> serving_request \<Rightarrow> (string \<times> string) option \<Rightarrow> serving_cost \<Rightarrow> inhouse_match" where
  "match_of E q cluster cost =
     \<lparr>im_effective_bps = serving_effective_cost_bps cost (rq_amount q),
      im_pct_bps = sc_pct_bps cost, im_fixed = sc_fixed cost,
      im_brand = normalize_network (en_lower E (rq_network q)),
      im_currency = en_upper E (rq_currency q),
      im_variant = map_option fst cluster,
      im_issuer = map_option (\<lambda>_. en_upper E (rq_issuer q)) cluster,
      im_ic_category = map_option snd cluster\<rparr>"

definition display_blend :: "merchant_models \<Rightarrow> string \<Rightarrow> fine_blend option" where
  "display_blend m key =
     (case map_of (mm_fine_blend m) key of
        Some b \<Rightarrow> Some b
      | None \<Rightarrow> Option.bind (without_variant key) (map_of (mm_fine_blend m)))"

text \<open>The learned cost of a cluster: its tiers, its line, or the blend of the products under it.\<close>

definition learned_fine ::
  "serving_env \<Rightarrow> merchant_models \<Rightarrow> string \<Rightarrow> string \<Rightarrow> f64 \<Rightarrow> serving_cost option option" where
  "learned_fine E m card_product key amount =
     (let model_key = fine_key_model (en_lower E) key card_product in
      case map_of (mm_segmented m) model_key of
        Some seg \<Rightarrow> map_option Some (segmented_for_amount seg amount)
      | None \<Rightarrow>
          (case map_of (mm_fine m) model_key of
             Some cost \<Rightarrow> Some (Some cost)
           | None \<Rightarrow>
               (case display_blend m key of
                  Some blend \<Rightarrow> map_option Some (blend_for_amount blend amount)
                | None \<Rightarrow> Some None)))"

definition coarse_match ::
  "serving_env \<Rightarrow> merchant_models \<Rightarrow> string \<Rightarrow> serving_request \<Rightarrow> inhouse_match option" where
  "coarse_match E m connector q =
     map_option (\<lambda>cost. match_of E q None (with_addon cost (map_of (mm_addons m) (en_lower E connector))))
       (map_of (mm_coarse m)
         (coarse_key (en_lower E) connector (rq_network q) (rq_funding q) (rq_currency q) (rq_region q)))"

definition serving_lookup ::
  "serving_env \<Rightarrow> serving_snapshot \<Rightarrow> string hmap \<Rightarrow> string \<Rightarrow> string \<Rightarrow> serving_request \<Rightarrow>
   inhouse_match option option" where
  "serving_lookup E snapshot bins merchant_id connector q =
     (case map_of snapshot merchant_id of
        None \<Rightarrow> Some None
      | Some m \<Rightarrow>
          (let card_product = resolve_bin_product bins (rq_bin q);
               fine = resolve_fine E m connector q;
               addon = map_of (mm_addons m) (en_lower E connector) in
           case Option.bind fine (\<lambda>(key, vc). map_option (Pair vc) (map_of (mm_cluster_overrides m) key)) of
             Some (vc, cost) \<Rightarrow> Some (Some (match_of E q (Some vc) cost))
           | None \<Rightarrow>
               (case map_of (mm_overrides m) (en_lower E connector) of
                  Some cost \<Rightarrow> Some (Some (match_of E q None cost))
                | None \<Rightarrow>
                    (case fine of
                       None \<Rightarrow> Some (coarse_match E m connector q)
                     | Some (key, vc) \<Rightarrow>
                         Option.bind (learned_fine E m card_product key (rq_amount q)) (\<lambda>r.
                           case r of
                             Some cost \<Rightarrow> Some (Some (match_of E q (Some vc) (with_addon cost addon)))
                           | None \<Rightarrow> Some (coarse_match E m connector q))))))"

end
