(* ===== verification/Cost_Lookup.thy ===== *)
theory Cost_Lookup
  imports Cost_Serving
begin

text \<open>
  The costs a decision ranks with (\<open>src/src/decider/gatewaydecider/multi_objective/hypersense_client.rs\<close>):
  the served models first, then the contract rates or the fees of the live service, behind a cache
  of fee models solved from what the service answered. The service, \<open>serde_json\<close> and the clock are
  arguments; times are in nanoseconds.
\<close>

section \<open>Fee models\<close>

definition MIN_PROBE_AMOUNT_REL_GAP :: f64 where "MIN_PROBE_AMOUNT_REL_GAP = f64_of_rat (1 / 100)"
definition MAX_PLAUSIBLE_PCT_BPS :: f64 where "MAX_PLAUSIBLE_PCT_BPS = Fin 6500"
definition MAX_PLAUSIBLE_FIXED :: f64 where "MAX_PLAUSIBLE_FIXED = Fin 2"
definition FIT_TOLERANCE_BPS :: f64 where "FIT_TOLERANCE_BPS = Fin 1"
definition MIN_OBSERVATIONS_TO_SOLVE :: nat where "MIN_OBSERVATIONS_TO_SOLVE = 3"
definition MAX_PENDING_OBSERVATIONS :: nat where "MAX_PENDING_OBSERVATIONS = 6"
definition COST_CACHE_MAX_ENTRIES :: nat where "COST_CACHE_MAX_ENTRIES = 10000"
definition TOKEN_SAFETY_BUFFER_SECS :: int where "TOKEN_SAFETY_BUFFER_SECS = 600"
definition NEAR_ZERO :: f64 where "NEAR_ZERO = f64_of_rat (- 1 / 1000000)"

record fee_model =
  fe_available :: bool
  fe_pct_bps :: f64
  fe_fixed :: f64

definition model_cost_bps :: "fee_model \<Rightarrow> f64 \<Rightarrow> f64" where
  "model_cost_bps m amount =
     (if flt (Fin 0) amount then fadd (fe_pct_bps m) (fmul (fdiv (fe_fixed m) amount) (Fin 10000))
      else fe_pct_bps m)"

type_synonym observation = "(bool \<times> f64) hmap"

datatype scenario_cost = Probing "(f64 \<times> observation) list" | Solved "fee_model hmap"

definition snap_zero :: "f64 \<Rightarrow> f64" where
  "snap_zero x = (if fle NEAR_ZERO x \<and> flt x (Fin 0) then Fin 0 else x)"

text \<open>One gateway: both answers available, and a plausible line through them.\<close>

definition solve_gateway ::
  "f64 \<Rightarrow> f64 \<Rightarrow> bool \<times> f64 \<Rightarrow> (bool \<times> f64) option \<Rightarrow> fee_model option" where
  "solve_gateway a1 inv_delta r1 r2 =
     (case r2 of None \<Rightarrow> None
      | Some (avail2, c2) \<Rightarrow>
          if \<not> fst r1 \<or> \<not> avail2 then None
          else
            (let fixed_scaled = fdiv (fsub (snd r1) c2) inv_delta;
                 fixed = snap_zero (fdiv fixed_scaled (Fin 10000));
                 pct_bps = snap_zero (fsub (snd r1) (fdiv fixed_scaled a1)) in
             if \<not> (fle (Fin 0) fixed \<and> fle fixed MAX_PLAUSIBLE_FIXED)
              \<or> \<not> (fle (Fin 0) pct_bps \<and> fle pct_bps MAX_PLAUSIBLE_PCT_BPS) then None
             else Some \<lparr>fe_available = True, fe_pct_bps = pct_bps, fe_fixed = fixed\<rparr>))"

fun solve_rows ::
  "f64 \<Rightarrow> f64 \<Rightarrow> observation \<Rightarrow> observation \<Rightarrow> fee_model hmap \<Rightarrow> fee_model hmap option" where
  "solve_rows a1 inv_delta [] obs2 models = Some models"
| "solve_rows a1 inv_delta ((gw, r1) # rows) obs2 models =
     Option.bind (solve_gateway a1 inv_delta r1 (map_of obs2 gw)) (\<lambda>m.
       solve_rows a1 inv_delta rows obs2 (hm_insert gw m models))"

definition solve_fee_models :: "f64 \<Rightarrow> observation \<Rightarrow> f64 \<Rightarrow> observation \<Rightarrow> fee_model hmap option" where
  "solve_fee_models a1 obs1 a2 obs2 =
     (if fle a1 (Fin 0) \<or> fle a2 (Fin 0) then None
      else
        (let rel_gap = fdiv (fabs (fsub a1 a2)) (fmax a1 a2) in
         if flt rel_gap MIN_PROBE_AMOUNT_REL_GAP then None
         else
           (let inv_delta = fsub (fdiv (Fin 1) a1) (fdiv (Fin 1) a2) in
            if feq inv_delta (Fin 0) then None
            else solve_rows a1 inv_delta obs1 obs2 [])))"

text \<open>The model of a gateway against what was answered at an amount.\<close>

definition reproduces :: "f64 \<times> observation \<Rightarrow> string \<times> fee_model \<Rightarrow> bool" where
  "reproduces = (\<lambda>(amount, rows) (gw, m).
     case map_of rows gw of
       None \<Rightarrow> False
     | Some (avail, actual) \<Rightarrow>
         avail \<and> \<not> flt FIT_TOLERANCE_BPS (fabs (fsub (model_cost_bps m amount) actual)))"

definition fit_from_observations :: "(f64 \<times> observation) list \<Rightarrow> fee_model hmap option" where
  "fit_from_observations obs =
     (if length obs < MIN_OBSERVATIONS_TO_SOLVE then None
      else
        Option.bind (min_by (\<lambda>a b. fcmp (fst a) (fst b)) obs) (\<lambda>lo.
        Option.bind (max_by (\<lambda>a b. fcmp (fst a) (fst b)) obs) (\<lambda>hi.
        Option.bind (solve_fee_models (fst lo) (snd lo) (fst hi) (snd hi)) (\<lambda>models.
          if list_all (\<lambda>ob. list_all (reproduces ob) models) obs then Some models else None))))"

definition near_amount :: "f64 \<Rightarrow> f64 \<Rightarrow> bool" where
  "near_amount a amount \<longleftrightarrow>
     flt (fdiv (fabs (fsub a amount)) (fmax (fmax a amount) (Fin 1))) MIN_PROBE_AMOUNT_REL_GAP"

text \<open>The rows of the first near amount are replaced, its amount is kept.\<close>

fun replace_near :: "f64 \<Rightarrow> observation \<Rightarrow> (f64 \<times> observation) list \<Rightarrow> (f64 \<times> observation) list option" where
  "replace_near amount rows [] = None"
| "replace_near amount rows ((a, r) # obs) =
     (if near_amount a amount then Some ((a, rows) # obs)
      else map_option (Cons (a, r)) (replace_near amount rows obs))"

definition upsert_observation ::
  "(f64 \<times> observation) list \<Rightarrow> f64 \<Rightarrow> observation \<Rightarrow> (f64 \<times> observation) list" where
  "upsert_observation obs amount rows =
     (case replace_near amount rows obs of
        Some obs' \<Rightarrow> obs'
      | None \<Rightarrow>
          (let obs' = obs @ [(amount, rows)] in
           if MAX_PENDING_OBSERVATIONS < length obs' then tl obs' else obs'))"

section \<open>The cache\<close>

record cost_cache =
  cc_data :: "(scenario_cost \<times> nat) hmap"
  cc_max_size :: nat

definition cost_of_model :: "f64 \<Rightarrow> fee_model \<Rightarrow> psp_cost" where
  "cost_of_model amount m =
     \<lparr>pc_available = fe_available m, pc_effective_cost_bps = model_cost_bps m amount,
      pc_source = Hypersense,
      pc_cost_model =
        Some \<lparr>cm_brand = None, cm_variant = None, cm_issuer = None, cm_ccy = None, cm_ic_category = None,
              cm_pct_bps = Some (fe_pct_bps m), cm_fixed_fee = Some (fe_fixed m)\<rparr>\<rparr>"

text \<open>\<open>lock\<close> tells whether \<open>try_lock\<close> got the lock.\<close>

definition cost_cache_get ::
  "bool \<Rightarrow> nat \<Rightarrow> cost_cache \<Rightarrow> string \<Rightarrow> f64 \<Rightarrow> nat \<Rightarrow> psp_cost hmap option" where
  "cost_cache_get lock now c key amount ttl =
     (if \<not> lock then None
      else
        (case map_of (cc_data c) key of
           None \<Rightarrow> None
         | Some (state, stored_at) \<Rightarrow>
             if ttl \<le> now - stored_at then None
             else
               (case state of
                  Solved models \<Rightarrow> Some (List.map (\<lambda>(gw, m). (gw, cost_of_model amount m)) models)
                | Probing _ \<Rightarrow> None)))"

definition eviction_age :: nat where
  "eviction_age = 3600 * 1000000000"

definition evict_if_full :: "nat \<Rightarrow> cost_cache \<Rightarrow> string \<Rightarrow> cost_cache" where
  "evict_if_full now c incoming_key =
     (if length (cc_data c) < cc_max_size c \<or> map_of (cc_data c) incoming_key \<noteq> None then c
      else
        (case opt_or (map_option fst (find (\<lambda>(_, _, stored_at). eviction_age \<le> now - stored_at) (cc_data c)))
                (case cc_data c of [] \<Rightarrow> None | (k, _) # _ \<Rightarrow> Some k) of
           None \<Rightarrow> c
         | Some k \<Rightarrow> c\<lparr>cc_data := hm_remove k (cc_data c)\<rparr>))"

definition start_probing :: "nat \<Rightarrow> cost_cache \<Rightarrow> string \<Rightarrow> f64 \<Rightarrow> observation \<Rightarrow> cost_cache" where
  "start_probing now c key amount rows =
     (let c = evict_if_full now c key in
      c\<lparr>cc_data := hm_insert key (Probing [(amount, rows)], now) (cc_data c)\<rparr>)"

definition cost_cache_record ::
  "bool \<Rightarrow> nat \<Rightarrow> cost_cache \<Rightarrow> string \<Rightarrow> f64 \<Rightarrow> observation \<Rightarrow> nat \<Rightarrow> cost_cache" where
  "cost_cache_record lock now c key amount rows ttl =
     (if \<not> lock then c
      else
        (case map_of (cc_data c) key of
           None \<Rightarrow> start_probing now c key amount rows
         | Some (state, stored_at) \<Rightarrow>
             if now - stored_at < ttl then
               (case state of
                  Solved _ \<Rightarrow> c
                | Probing obs \<Rightarrow>
                    (let obs = upsert_observation obs amount rows in
                     c\<lparr>cc_data := hm_insert key
                         (case fit_from_observations obs of
                            Some models \<Rightarrow> (Solved models, now)
                          | None \<Rightarrow> (Probing obs, stored_at)) (cc_data c)\<rparr>))
             else start_probing now c key amount rows))"

section \<open>The request and its key\<close>

definition json_field :: "string \<Rightarrow> ('a \<Rightarrow> json) \<Rightarrow> 'a option \<Rightarrow> (string \<times> json) list" where
  "json_field k f v = (case v of None \<Rightarrow> [] | Some x \<Rightarrow> [(k, f x)])"

text \<open>The serialized fields in order; absent ones are skipped, three are never sent.\<close>

definition cluster_json :: "cost_cluster_key \<Rightarrow> json" where
  "cluster_json k =
     JObj (json_field ''amount'' JFloat (ck_amount k)
       @ json_field ''transaction_currency'' JStr (ck_transaction_currency k)
       @ json_field ''payment_method_type'' JStr (ck_payment_method_type k)
       @ json_field ''card_type'' JStr (ck_card_type k)
       @ json_field ''card_network'' JStr (ck_card_network k)
       @ [(''mcc'', JStr (ck_mcc k)), (''cross_border_flag'', JBool (ck_cross_border_flag k))]
       @ json_field ''card_bin'' (\<lambda>n. JInt (int n)) (ck_card_bin k)
       @ json_field ''card_issuing_bank'' JStr (ck_card_issuing_bank k)
       @ json_field ''card_issuing_country'' JStr (ck_card_issuing_country k)
       @ [(''psp_array'', JArr (List.map JStr (ck_psp_array k)))])"

definition cost_cache_key :: "(json \<Rightarrow> string option) \<Rightarrow> string \<Rightarrow> cost_cluster_key \<Rightarrow> string option" where
  "cost_cache_key to_json merchant_id request =
     map_option (\<lambda>body. merchant_id @ ''|'' @ body)
       (to_json (cluster_json (request\<lparr>ck_amount := None, ck_psp_array := sort (ck_psp_array request)\<rparr>)))"

section \<open>The token\<close>

text \<open>\<open>i64::saturating_sub\<close> and the time a fresh token is kept.\<close>

definition saturating_sub_i64 :: "int \<Rightarrow> int \<Rightarrow> int" where
  "saturating_sub_i64 a b = max (- (2 ^ 63)) (min (2 ^ 63 - 1) (a - b))"

definition token_ttl :: "int \<Rightarrow> int option \<Rightarrow> int" where
  "token_ttl token_ttl_secs expires_in =
     (let upper = max (saturating_sub_i64 (unwrap_or expires_in 86400) TOKEN_SAFETY_BUFFER_SECS) 1 in
      max 1 (min token_ttl_secs upper))"

text \<open>
  The token, and what is written to Redis: the cached token is \<open>None\<close> when it could not be read; a
  sign-in gives the token and its lifetime.
\<close>

definition get_access_token ::
  "int \<Rightarrow> string option \<Rightarrow> (string \<times> int option) option \<Rightarrow> string option \<times> (string \<times> int) option" where
  "get_access_token token_ttl_secs cached sign_in =
     (case opt_filter (\<lambda>t. t \<noteq> []) cached of
        Some t \<Rightarrow> (Some t, None)
      | None \<Rightarrow>
          (case sign_in of
             None \<Rightarrow> (None, None)
           | Some (t, expires_in) \<Rightarrow> (Some t, Some (t, token_ttl token_ttl_secs expires_in))))"

section \<open>Costs of the gateways\<close>

record fee_rate_row =
  fr_gateway :: string
  fr_available :: bool
  fr_effective_cost_bps :: "f64 option"

record cost_env =
  ce_serving :: serving_env
  ce_use_seed_costs :: bool
  ce_stored_seed :: "string \<Rightarrow> seed_cost_entry list option"
  ce_config_seed :: "seed_cost_entry list"
  ce_ttl :: nat
  ce_to_json :: "json \<Rightarrow> string option"
  ce_cached_token :: "string option"
  ce_sign_in :: "(string \<times> int option) option"
  ce_token_ttl_secs :: int
  ce_fee_rates :: "string \<Rightarrow> cost_cluster_key \<Rightarrow> fee_rate_row list option"
  ce_get_lock :: bool
  ce_get_now :: nat
  ce_record_lock :: bool
  ce_record_now :: nat

definition request_of_cluster :: "cost_cluster_key \<Rightarrow> serving_request" where
  "request_of_cluster k =
     \<lparr>rq_network = unwrap_or (ck_card_network k) [], rq_funding = unwrap_or (ck_payment_method_type k) [],
      rq_program = unwrap_or (ck_card_type k) [], rq_currency = unwrap_or (ck_transaction_currency k) [],
      rq_issuer = unwrap_or (ck_card_issuing_country_raw k) [],
      rq_region = unwrap_or (ck_card_issuing_country k) [],
      rq_channel = unwrap_or (ck_channel k) [], rq_wallet = unwrap_or (ck_wallet k) [],
      rq_bin = (case ck_card_bin k of Some n \<Rightarrow> show_nat n | None \<Rightarrow> []),
      rq_amount = unwrap_or (ck_amount k) (Fin 0)\<rparr>"

definition cost_of_match :: "inhouse_match \<Rightarrow> psp_cost" where
  "cost_of_match m =
     \<lparr>pc_available = True, pc_effective_cost_bps = im_effective_bps m, pc_source = InHouse,
      pc_cost_model =
        Some \<lparr>cm_brand = Some (im_brand m), cm_variant = im_variant m, cm_issuer = im_issuer m,
              cm_ccy = Some (im_currency m), cm_ic_category = im_ic_category m,
              cm_pct_bps = Some (im_pct_bps m), cm_fixed_fee = Some (im_fixed m)\<rparr>\<rparr>"

fun inhouse_costs ::
  "serving_env \<Rightarrow> serving_snapshot \<Rightarrow> string hmap \<Rightarrow> string \<Rightarrow> cost_cluster_key \<Rightarrow> string list \<Rightarrow> psp_cost hmap \<Rightarrow>
   psp_cost hmap option" where
  "inhouse_costs E snapshot bins merchant_id cluster [] out = Some out"
| "inhouse_costs E snapshot bins merchant_id cluster (psp # psps) out =
     Option.bind (serving_lookup E snapshot bins merchant_id (en_lower E psp) (request_of_cluster cluster)) (\<lambda>r.
       inhouse_costs E snapshot bins merchant_id cluster psps
         (case r of None \<Rightarrow> out | Some m \<Rightarrow> hm_insert psp (cost_of_match m) out))"

definition costs_of_rows :: "fee_rate_row list \<Rightarrow> psp_cost hmap" where
  "costs_of_rows rows =
     foldl (\<lambda>m r. hm_insert (fr_gateway r)
        \<lparr>pc_available = fr_available r, pc_effective_cost_bps = unwrap_or (fr_effective_cost_bps r) (Fin 0),
         pc_source = Hypersense, pc_cost_model = None\<rparr> m) [] rows"

definition observation_of_costs :: "psp_cost hmap \<Rightarrow> observation" where
  "observation_of_costs costs = List.map (\<lambda>(gw, c). (gw, pc_available c, pc_effective_cost_bps c)) costs"

definition live_costs ::
  "cost_env \<Rightarrow> cost_cache \<Rightarrow> cost_cluster_key \<Rightarrow> string option \<Rightarrow> f64 \<Rightarrow> psp_cost hmap \<times> cost_cache" where
  "live_costs E c request cache_key amount =
     (case fst (get_access_token (ce_token_ttl_secs E) (ce_cached_token E) (ce_sign_in E)) of
        None \<Rightarrow> ([], c)
      | Some token \<Rightarrow>
          (case ce_fee_rates E token request of
             None \<Rightarrow> ([], c)
           | Some body \<Rightarrow>
               (let costs = costs_of_rows body in
                (costs,
                 case cache_key of
                   Some key \<Rightarrow>
                     if costs \<noteq> [] \<and> flt (Fin 0) amount
                     then cost_cache_record (ce_record_lock E) (ce_record_now E) c key amount
                            (observation_of_costs costs) (ce_ttl E)
                     else c
                 | None \<Rightarrow> c))))"

definition fallback_lookup_costs ::
  "cost_env \<Rightarrow> cost_cache \<Rightarrow> string \<Rightarrow> cost_cluster_key \<Rightarrow> string list \<Rightarrow> psp_cost hmap \<times> cost_cache" where
  "fallback_lookup_costs E c merchant_id cluster psps =
     (if psps = [] then ([], c)
      else if ce_use_seed_costs E then
        (lookup_seed_costs (effective_seed_entries (ce_stored_seed E merchant_id) (ce_config_seed E)) cluster psps, c)
      else
        (let request = cluster\<lparr>ck_psp_array := psps\<rparr>; amount = unwrap_or (ck_amount cluster) (Fin 0);
             cache_key = (if ce_ttl E = 0 then None else cost_cache_key (ce_to_json E) merchant_id request) in
         case Option.bind cache_key (\<lambda>key. cost_cache_get (ce_get_lock E) (ce_get_now E) c key amount (ce_ttl E)) of
           Some cached \<Rightarrow> (cached, c)
         | None \<Rightarrow> live_costs E c request cache_key amount))"

text \<open>\<open>entry(psp).or_insert(cost)\<close>\<close>

definition or_insert_all :: "psp_cost hmap \<Rightarrow> psp_cost hmap \<Rightarrow> psp_cost hmap" where
  "or_insert_all costs extra =
     foldl (\<lambda>m (psp, cost). if map_of m psp = None then hm_insert psp cost m else m) costs extra"

definition lookup_costs ::
  "cost_env \<Rightarrow> serving_snapshot \<Rightarrow> string hmap \<Rightarrow> cost_cache \<Rightarrow> string \<Rightarrow> cost_cluster_key \<Rightarrow> string list \<Rightarrow>
   (psp_cost hmap \<times> cost_cache) option" where
  "lookup_costs E snapshot bins c merchant_id cluster psps =
     (if psps = [] then Some ([], c)
      else
        Option.bind (inhouse_costs (ce_serving E) snapshot bins merchant_id cluster psps []) (\<lambda>costs.
          let missing = filter (\<lambda>p. map_of costs p = None) psps in
          if missing = [] then Some (costs, c)
          else
            (let (extra, c) = fallback_lookup_costs E c merchant_id cluster missing in
             Some (or_insert_all costs extra, c))))"

end
