(* ===== verification/Cost_Cache_Correct.thy ===== *)
theory Cost_Cache_Correct
  imports Cost_Lookup
begin

text \<open>
  The cache of fee models through any history of answers of the fee service: what is served from it
  agrees with answers at three or more amounts.
\<close>

section \<open>The cache and its history\<close>

text \<open>\<open>cost_cached n h c\<close>: from the empty cache of size \<open>n\<close>, recording the answers \<open>h\<close> can lead to \<open>c\<close>.\<close>

inductive cost_cached :: "nat \<Rightarrow> (string \<times> f64 \<times> observation) set \<Rightarrow> cost_cache \<Rightarrow> bool" where
  cost_cached_new: "cost_cached n {} \<lparr>cc_data = [], cc_max_size = n\<rparr>"
| cost_cached_record: "cost_cached n h c \<Longrightarrow>
     cost_cached n (insert (key, amount, rows) h) (cost_cache_record lock now c key amount rows ttl)"

text \<open>Rows that were answered for the key at that amount, or at one near it.\<close>

definition answered :: "(string \<times> f64 \<times> observation) set \<Rightarrow> string \<Rightarrow> f64 \<times> observation \<Rightarrow> bool" where
  "answered h key ob \<longleftrightarrow>
     (\<exists>a. (key, a, snd ob) \<in> h \<and> (a = fst ob \<or> near_amount (fst ob) a))"

definition probes_ok :: "(string \<times> f64 \<times> observation) set \<Rightarrow> string \<Rightarrow> (f64 \<times> observation) list \<Rightarrow> bool" where
  "probes_ok h key obs \<longleftrightarrow>
     (\<forall>ob \<in> set obs. answered h key ob) \<and> length obs \<le> MAX_PENDING_OBSERVATIONS \<and>
     sorted_wrt (\<lambda>x y. \<not> near_amount (fst x) (fst y)) obs"

definition plausible :: "fee_model \<Rightarrow> bool" where
  "plausible m \<longleftrightarrow>
     fe_available m \<and> fle (Fin 0) (fe_pct_bps m) \<and> fle (fe_pct_bps m) MAX_PLAUSIBLE_PCT_BPS \<and>
     fle (Fin 0) (fe_fixed m) \<and> fle (fe_fixed m) MAX_PLAUSIBLE_FIXED"

definition models_fit :: "(f64 \<times> observation) list \<Rightarrow> fee_model hmap \<Rightarrow> bool" where
  "models_fit obs models \<longleftrightarrow>
     (\<forall>gm \<in> set models. plausible (snd gm) \<and> (\<forall>ob \<in> set obs. reproduces ob gm))"

definition scenario_ok :: "(string \<times> f64 \<times> observation) set \<Rightarrow> string \<Rightarrow> scenario_cost \<Rightarrow> bool" where
  "scenario_ok h key s =
     (case s of
        Probing obs \<Rightarrow> probes_ok h key obs
      | Solved models \<Rightarrow>
          \<exists>obs. probes_ok h key obs \<and> MIN_OBSERVATIONS_TO_SOLVE \<le> length obs \<and> models_fit obs models)"

section \<open>Fitting\<close>

lemma solve_gateway_plausible: "solve_gateway a1 d r1 r2 = Some m \<Longrightarrow> plausible m"
  by (auto simp: solve_gateway_def plausible_def Let_def split: option.splits if_splits)

lemma solve_rows_plausible:
  "solve_rows a1 d rows obs2 acc = Some models \<Longrightarrow> \<forall>gm \<in> set acc. plausible (snd gm) \<Longrightarrow>
   \<forall>gm \<in> set models. plausible (snd gm)"
proof (induction rows arbitrary: acc)
  case (Cons x rows)
  obtain gw r1 where x: "x = (gw, r1)" by (cases x)
  from Cons.prems(1) obtain m where m: "solve_gateway a1 d r1 (map_of obs2 gw) = Some m"
    "solve_rows a1 d rows obs2 (hm_insert gw m acc) = Some models" by (auto simp: x bind_eq_Some_conv)
  from set_hm_insert [of gw m acc] Cons.prems(2) solve_gateway_plausible [OF m(1)]
  have "\<forall>gm \<in> set (hm_insert gw m acc). plausible (snd gm)" by auto
  with Cons.IH m(2) show ?case by blast
qed simp

lemma fit_ok:
  assumes "fit_from_observations obs = Some models"
  shows "MIN_OBSERVATIONS_TO_SOLVE \<le> length obs \<and> models_fit obs models"
proof -
  from assms obtain lo hi where f: "MIN_OBSERVATIONS_TO_SOLVE \<le> length obs"
    "solve_fee_models (fst lo) (snd lo) (fst hi) (snd hi) = Some models"
    "list_all (\<lambda>ob. list_all (reproduces ob) models) obs"
    by (auto simp: fit_from_observations_def bind_eq_Some_conv split: if_splits)
  from f(2) obtain d where "solve_rows (fst lo) d (snd lo) (snd hi) [] = Some models"
    by (auto simp: solve_fee_models_def Let_def split: if_splits)
  then have "\<forall>gm \<in> set models. plausible (snd gm)" by (rule solve_rows_plausible) simp
  with f(1,3) show ?thesis by (auto simp: models_fit_def list_all_iff)
qed

section \<open>Probes\<close>

lemma replace_near_None: "replace_near amount rows obs = None \<longleftrightarrow> (\<forall>ob \<in> set obs. \<not> near_amount (fst ob) amount)"
  by (induction obs) (auto split: if_splits)

lemma replace_near_Some:
  "replace_near amount rows obs = Some obs' \<Longrightarrow>
   List.map fst obs' = List.map fst obs \<and>
   (\<forall>ob \<in> set obs'. ob \<in> set obs \<or> snd ob = rows \<and> near_amount (fst ob) amount)"
proof (induction obs arbitrary: obs')
  case (Cons x obs)
  obtain a r where x: "x = (a, r)" by (cases x)
  show ?case
  proof (cases "near_amount a amount")
    case True
    with Cons.prems show ?thesis by (auto simp: x)
  next
    case False
    with Cons.prems obtain o' where o: "replace_near amount rows obs = Some o'" "obs' = (a, r) # o'"
      by (auto simp: x)
    from Cons.IH [OF o(1)] show ?thesis by (auto simp: x o(2))
  qed
qed simp

lemma sorted_wrt_fst: "sorted_wrt (\<lambda>x y. P (fst x) (fst y)) xs \<longleftrightarrow> sorted_wrt P (List.map fst xs)"
  by (simp add: sorted_wrt_map)

lemma answered_mono: "answered h key ob \<Longrightarrow> h \<subseteq> h' \<Longrightarrow> answered h' key ob"
  by (auto simp: answered_def)

lemma probes_ok_mono: "probes_ok h key obs \<Longrightarrow> h \<subseteq> h' \<Longrightarrow> probes_ok h' key obs"
  unfolding probes_ok_def by (meson answered_mono)

lemma scenario_ok_mono: "scenario_ok h key s \<Longrightarrow> h \<subseteq> h' \<Longrightarrow> scenario_ok h' key s"
  unfolding scenario_ok_def by (cases s) (auto intro: probes_ok_mono)

lemma upsert_probes_ok:
  assumes "probes_ok h key obs"
  shows "probes_ok (insert (key, amount, rows) h) key (upsert_observation obs amount rows)"
proof -
  let ?h = "insert (key, amount, rows) h"
  have old: "\<forall>ob \<in> set obs. answered ?h key ob"
    using probes_ok_mono [OF assms, of ?h] by (simp add: probes_ok_def subset_insertI)
  show ?thesis
  proof (cases "replace_near amount rows obs")
    case None
    let ?n = "obs @ [(amount, rows)]"
    have "answered ?h key (amount, rows)" by (auto simp: answered_def)
    with old have a: "\<forall>ob \<in> set ?n. answered ?h key ob" by simp
    have s: "sorted_wrt (\<lambda>x y. \<not> near_amount (fst x) (fst y)) ?n"
      using assms None by (simp add: probes_ok_def sorted_wrt_append replace_near_None)
    have u: "upsert_observation obs amount rows = (if MAX_PENDING_OBSERVATIONS < length ?n then tl ?n else ?n)"
      by (simp add: upsert_observation_def None Let_def)
    have l: "length (upsert_observation obs amount rows) \<le> MAX_PENDING_OBSERVATIONS"
      using assms unfolding u by (simp add: probes_ok_def)
    have t: "sorted_wrt (\<lambda>x y. \<not> near_amount (fst x) (fst y)) (tl ?n)" "set (tl ?n) \<subseteq> set ?n"
      using s by (cases obs; simp add: subset_insertI)+
    have "set (upsert_observation obs amount rows) \<subseteq> set ?n" using t(2) unfolding u by simp
    moreover have "sorted_wrt (\<lambda>x y. \<not> near_amount (fst x) (fst y)) (upsert_observation obs amount rows)"
      unfolding u using s t(1) by presburger
    ultimately show ?thesis using a l unfolding probes_ok_def by blast
  next
    case (Some obs')
    note r = replace_near_Some [OF Some]
    have "answered ?h key ob" if "ob \<in> set obs'" for ob
      using that r old by (auto simp: answered_def)
    moreover have "length obs' = length obs" using r by (metis length_map)
    moreover have "sorted_wrt (\<lambda>x y. \<not> near_amount (fst x) (fst y)) obs'"
      using assms r by (simp add: probes_ok_def sorted_wrt_fst [of "\<lambda>x y. \<not> near_amount x y"])
    ultimately show ?thesis using assms by (simp add: probes_ok_def upsert_observation_def Some)
  qed
qed

section \<open>The invariant\<close>

definition cache_ok :: "nat \<Rightarrow> (string \<times> f64 \<times> observation) set \<Rightarrow> cost_cache \<Rightarrow> bool" where
  "cache_ok n h c \<longleftrightarrow>
     cc_max_size c = n \<and> hm_ok (cc_data c) \<and> length (cc_data c) \<le> max n 1 \<and>
     (\<forall>(k, s, t) \<in> set (cc_data c). scenario_ok h k s)"

lemma cache_ok_scenario:
  assumes "cache_ok n h c" "map_of (cc_data c) k = Some (s, t)"
  shows "scenario_ok h k s"
  using assms(1) map_of_SomeD [OF assms(2)] unfolding cache_ok_def by blast

lemma cache_ok_insert:
  assumes c: "cache_ok n h c" and s: "scenario_ok h key s"
    and l: "length (cc_data c) < max n 1 \<or> map_of (cc_data c) key \<noteq> None"
  shows "cache_ok n h (c\<lparr>cc_data := hm_insert key (s, t) (cc_data c)\<rparr>)"
proof -
  have "length (hm_insert key (s, t) (cc_data c)) \<le> max n 1"
    using c l by (auto simp: hm_length_insert cache_ok_def map_of_eq_None_iff)
  with c s set_hm_insert [of key "(s, t)" "cc_data c"] show ?thesis by (auto simp: cache_ok_def)
qed

lemma evict_ok:
  assumes "cache_ok n h c"
  shows "cache_ok n h (evict_if_full now c key)"
    and "length (cc_data (evict_if_full now c key)) < max n 1 \<or> map_of (cc_data (evict_if_full now c key)) key \<noteq> None"
proof -
  let ?v = "opt_or (map_option fst (find (\<lambda>(_, _, stored_at). eviction_age \<le> now - stored_at) (cc_data c)))
                (case cc_data c of [] \<Rightarrow> None | (k, _) # _ \<Rightarrow> Some k)"
  have "cache_ok n h (evict_if_full now c key) \<and>
    (length (cc_data (evict_if_full now c key)) < max n 1 \<or> map_of (cc_data (evict_if_full now c key)) key \<noteq> None)"
  proof (cases "length (cc_data c) < cc_max_size c \<or> map_of (cc_data c) key \<noteq> None")
    case True
    then have "evict_if_full now c key = c" by (simp only: evict_if_full_def if_True)
    with True assms show ?thesis by (auto simp: cache_ok_def)
  next
    case False
    then have e: "evict_if_full now c key =
        (case ?v of None \<Rightarrow> c | Some k \<Rightarrow> c\<lparr>cc_data := hm_remove k (cc_data c)\<rparr>)"
      by (simp only: evict_if_full_def if_False)
    show ?thesis
    proof (cases ?v)
      case None
      then have "cc_data c = []" by (cases "cc_data c"; cases "find (\<lambda>(_, _, stored_at). eviction_age \<le> now - stored_at) (cc_data c)") auto
      with None assms show ?thesis by (simp add: e)
    next
      case (Some k)
      have "k \<in> fst ` set (cc_data c)"
      proof (cases "find (\<lambda>(_, _, stored_at). eviction_age \<le> now - stored_at) (cc_data c)")
        case None
        with Some show ?thesis by (cases "cc_data c") auto
      next
        case (Some x)
        then have "x \<in> set (cc_data c)" unfolding find_Some_iff by (metis nth_mem)
        with Some \<open>?v = Some k\<close> show ?thesis by auto
      qed
      then have "length (hm_remove k (cc_data c)) < length (cc_data c)" by (rule hm_length_remove)
      with assms Some set_hm_remove [of k "cc_data c"] show ?thesis by (auto simp: e cache_ok_def)
    qed
  qed
  then show "cache_ok n h (evict_if_full now c key)"
    and "length (cc_data (evict_if_full now c key)) < max n 1 \<or> map_of (cc_data (evict_if_full now c key)) key \<noteq> None"
    by blast+
qed

lemma cache_ok_mono: "cache_ok n h c \<Longrightarrow> h \<subseteq> h' \<Longrightarrow> cache_ok n h' c"
  unfolding cache_ok_def by (auto intro: scenario_ok_mono)

lemma start_probing_ok:
  assumes "cache_ok n h c" "(key, amount, rows) \<in> h"
  shows "cache_ok n h (start_probing now c key amount rows)"
proof -
  have "scenario_ok h key (Probing [(amount, rows)])"
    using assms(2) by (auto simp: scenario_ok_def probes_ok_def answered_def MAX_PENDING_OBSERVATIONS_def)
  from cache_ok_insert [OF evict_ok(1) [OF assms(1)] this evict_ok(2) [OF assms(1)]]
  show ?thesis by (simp add: start_probing_def Let_def)
qed

lemma record_ok:
  assumes c: "cache_ok n h c"
  shows "cache_ok n (insert (key, amount, rows) h) (cost_cache_record lock now c key amount rows ttl)"
proof -
  let ?h = "insert (key, amount, rows) h"
  have c': "cache_ok n ?h c" using c by (rule cache_ok_mono) blast
  have s: "cache_ok n ?h (start_probing now c key amount rows)" by (rule start_probing_ok [OF c']) simp
  show ?thesis
  proof (cases "lock")
    case False
    then show ?thesis using c' by (simp add: cost_cache_record_def)
  next
    case lock: True
    show ?thesis
    proof (cases "map_of (cc_data c) key")
      case None
      then show ?thesis using s lock by (simp add: cost_cache_record_def)
    next
      case (Some e)
      obtain sc t where e: "map_of (cc_data c) key = Some (sc, t)" using Some by (cases e) simp
      show ?thesis
      proof (cases sc)
        case (Solved m)
        then show ?thesis using s c' lock e by (simp add: cost_cache_record_def)
      next
        case (Probing obs)
        have "probes_ok h key obs"
          using cache_ok_scenario [OF c e] by (simp add: scenario_ok_def Probing)
        then have p: "probes_ok ?h key (upsert_observation obs amount rows)" by (rule upsert_probes_ok)
        let ?n = "case fit_from_observations (upsert_observation obs amount rows) of
            Some models \<Rightarrow> (Solved models, now) | None \<Rightarrow> (Probing (upsert_observation obs amount rows), t)"
        obtain s' t' where n: "?n = (s', t')" by (cases ?n)
        have "scenario_ok ?h key s'"
        proof (cases "fit_from_observations (upsert_observation obs amount rows)")
          case None
          with n p show ?thesis by (auto simp: scenario_ok_def)
        next
          case (Some models)
          with n have "s' = Solved models" by simp
          with p fit_ok [OF Some] show ?thesis by (auto simp: scenario_ok_def)
        qed
        from cache_ok_insert [OF c' this] e n s lock Probing show ?thesis
          by (simp add: cost_cache_record_def Let_def)
      qed
    qed
  qed
qed

lemma cost_cached_ok: "cost_cached n h c \<Longrightarrow> cache_ok n h c"
proof (induction rule: cost_cached.induct)
  case (cost_cached_new n)
  then show ?case by (simp add: cache_ok_def)
qed (rule record_ok)

text \<open>
  C27. Whatever the service answered and whenever, costs served from the cache are those of models that
  reproduce, within a basis point, available answers to this key at three or more amounts none of which is
  near an earlier one; their percentage and fixed fee are within the plausible bounds; and the
  cache never holds more entries than its size (or one).
\<close>

theorem cached_costs_validated:
  assumes h: "cost_cached n h c" and g: "cost_cache_get lock now c key amount ttl = Some costs"
  shows "length (cc_data c) \<le> max n 1 \<and>
    (\<exists>models obs.
       costs = List.map (\<lambda>(gw, m). (gw, cost_of_model amount m)) models \<and>
       3 \<le> length obs \<and> sorted_wrt (\<lambda>x y. \<not> near_amount (fst x) (fst y)) obs \<and>
       (\<forall>(a, rows) \<in> set obs. \<exists>a'. (key, a', rows) \<in> h \<and> (a' = a \<or> near_amount a a')) \<and>
       (\<forall>(gw, m) \<in> set models.
          fe_available m \<and> fle (Fin 0) (fe_pct_bps m) \<and> fle (fe_pct_bps m) (Fin 6500) \<and>
          fle (Fin 0) (fe_fixed m) \<and> fle (fe_fixed m) (Fin 2) \<and>
          (\<forall>(a, rows) \<in> set obs. \<exists>actual. map_of rows gw = Some (True, actual) \<and>
             \<not> flt (Fin 1) (fabs (fsub (model_cost_bps m a) actual)))))"
proof -
  have c: "cache_ok n h c" using h by (rule cost_cached_ok)
  from g obtain models t where m: "map_of (cc_data c) key = Some (Solved models, t)"
    "costs = List.map (\<lambda>(gw, m). (gw, cost_of_model amount m)) models"
    by (auto simp: cost_cache_get_def split: if_splits option.splits scenario_cost.splits)
  from cache_ok_scenario [OF c m(1)] obtain obs where o: "probes_ok h key obs" "MIN_OBSERVATIONS_TO_SOLVE \<le> length obs"
    "models_fit obs models" by (auto simp: scenario_ok_def)
  have r: "\<exists>actual. map_of rows gw = Some (True, actual) \<and> \<not> flt (Fin 1) (fabs (fsub (model_cost_bps fm a) actual))"
    if "(gw, fm) \<in> set models" "(a, rows) \<in> set obs" for gw fm a rows
  proof -
    from o(3) that have "reproduces (a, rows) (gw, fm)" by (auto simp: models_fit_def)
    then show ?thesis by (auto simp: reproduces_def FIT_TOLERANCE_BPS_def split: option.splits)
  qed
  have p: "plausible fm" if "(gw, fm) \<in> set models" for gw fm using o(3) that by (auto simp: models_fit_def)
  have "length (cc_data c) \<le> max n 1" using c by (simp add: cache_ok_def)
  moreover have "\<forall>(a, rows) \<in> set obs. \<exists>a'. (key, a', rows) \<in> h \<and> (a' = a \<or> near_amount a a')"
    using o(1) unfolding probes_ok_def answered_def by fastforce
  moreover have "3 \<le> length obs" "sorted_wrt (\<lambda>x y. \<not> near_amount (fst x) (fst y)) obs"
    using o(1,2) by (simp_all add: MIN_OBSERVATIONS_TO_SOLVE_def probes_ok_def)
  moreover have "\<forall>(gw, fm) \<in> set models.
      fe_available fm \<and> fle (Fin 0) (fe_pct_bps fm) \<and> fle (fe_pct_bps fm) (Fin 6500) \<and>
      fle (Fin 0) (fe_fixed fm) \<and> fle (fe_fixed fm) (Fin 2) \<and>
      (\<forall>(a, rows) \<in> set obs. \<exists>actual. map_of rows gw = Some (True, actual) \<and>
         \<not> flt (Fin 1) (fabs (fsub (model_cost_bps fm a) actual)))"
    using r p by (fastforce simp: plausible_def MAX_PLAUSIBLE_PCT_BPS_def MAX_PLAUSIBLE_FIXED_def)
  ultimately show ?thesis using m(2) by blast
qed

section \<open>A solved scenario\<close>

definition demo_rows :: observation where
  "demo_rows = [(''stripe'', True, Fin 200)]"

definition demo_model :: fee_model where
  "demo_model = \<lparr>fe_available = True, fe_pct_bps = Fin 200, fe_fixed = Fin 0\<rparr>"

lemma gap_bound: "1 / 64 \<le> x \<Longrightarrow> \<not> flt (Fin x) MIN_PROBE_AMOUNT_REL_GAP"
proof -
  assume x: "1 / 64 \<le> x"
  have "fle MIN_PROBE_AMOUNT_REL_GAP (Fin (1 / 64))"
    using f64_of_rat_mono [of "1 / 100" "1 / 64"] f64_dyadic [of 1 6]
    by (simp add: MIN_PROBE_AMOUNT_REL_GAP_def)
  moreover have "fle (Fin (1 / 64)) (Fin x)" using x by simp
  ultimately have "fle MIN_PROBE_AMOUNT_REL_GAP (Fin x)" by (rule fle_trans)
  then show "\<not> flt (Fin x) MIN_PROBE_AMOUNT_REL_GAP" using flt_fle_trans flt_irrefl by blast
qed

lemma demo_numbers:
  "f64_of_rat (1 / 2) = Fin (1 / 2)" "f64_of_rat (3 / 4) = Fin (3 / 4)" "f64_of_rat 64 = Fin 64"
  "f64_of_rat 128 = Fin 128" "f64_of_rat 192 = Fin 192" "f64_of_rat 200 = Fin 200"
  "f64_of_rat (1 / 64) = Fin (1 / 64)" "f64_of_rat (1 / 256) = Fin (1 / 256)" "f64_of_rat (3 / 256) = Fin (3 / 256)"
  "f64_of_rat (- 64) = Fin (- 64)" "f64_of_rat (- 128) = Fin (- 128)" "f64_of_rat (- 192) = Fin (- 192)"
proof -
  have neg: "f64_of_rat x = Fin x \<Longrightarrow> f64_of_rat (- x) = Fin (- x)" for x
    by (auto simp: f64_of_rat_def rnd_minus Let_def split: if_splits)
  show d: "f64_of_rat (1 / 2) = Fin (1 / 2)" "f64_of_rat (3 / 4) = Fin (3 / 4)" "f64_of_rat 64 = Fin 64"
    "f64_of_rat 128 = Fin 128" "f64_of_rat 192 = Fin 192" "f64_of_rat 200 = Fin 200"
    "f64_of_rat (1 / 64) = Fin (1 / 64)" "f64_of_rat (1 / 256) = Fin (1 / 256)"
    "f64_of_rat (3 / 256) = Fin (3 / 256)"
    using f64_dyadic [of 1 1] f64_dyadic [of 3 2] f64_dyadic [of 64 0] f64_dyadic [of 128 0] f64_dyadic [of 192 0]
      f64_dyadic [of 200 0] f64_dyadic [of 1 6] f64_dyadic [of 1 8] f64_dyadic [of 3 8] by simp_all
  show "f64_of_rat (- 64) = Fin (- 64)" "f64_of_rat (- 128) = Fin (- 128)" "f64_of_rat (- 192) = Fin (- 192)"
    using neg d by simp_all
qed

lemma demo_not_near:
  "\<not> near_amount (Fin 64) (Fin 128)" "\<not> near_amount (Fin 64) (Fin 256)" "\<not> near_amount (Fin 128) (Fin 256)"
  using gap_bound [of "1 / 2"] gap_bound [of "3 / 4"]
  by (simp_all add: near_amount_def fsub_def fmax_def is_nan_def fdiv_def demo_numbers)

lemma demo_solve: "solve_fee_models (Fin 64) demo_rows (Fin 256) demo_rows = Some [(''stripe'', demo_model)]"
proof -
  have "solve_gateway (Fin 64) (Fin (3 / 256)) (True, Fin 200) (Some (True, Fin 200)) = Some demo_model"
    by (simp add: solve_gateway_def Let_def fsub_def fdiv_def snap_zero_def demo_numbers demo_model_def
        MAX_PLAUSIBLE_PCT_BPS_def MAX_PLAUSIBLE_FIXED_def)
  then show ?thesis
    using gap_bound [of "3 / 4"]
    by (simp add: solve_fee_models_def demo_rows_def fsub_def fmax_def is_nan_def fdiv_def demo_numbers feq_eq
        hm_insert_def Let_def)
qed

lemma demo_reproduces: "flt (Fin 0) a \<Longrightarrow> reproduces (a, demo_rows) (''stripe'', demo_model)"
proof -
  assume a: "flt (Fin 0) a"
  then have "fdiv (Fin 0) a = Fin 0" by (cases a) (auto simp: fdiv_def)
  with a show ?thesis
    by (simp add: reproduces_def demo_rows_def demo_model_def model_cost_bps_def fmul_def fsub_def demo_numbers
        FIT_TOLERANCE_BPS_def)
qed

lemma demo_fit:
  "fit_from_observations [(Fin 64, demo_rows), (Fin 128, demo_rows), (Fin 256, demo_rows)] =
     Some [(''stripe'', demo_model)]"
  by (simp add: fit_from_observations_def MIN_OBSERVATIONS_TO_SOLVE_def fcmp_def demo_solve demo_reproduces)

definition demo_cache :: "(scenario_cost \<times> nat) list \<Rightarrow> cost_cache" where
  "demo_cache l = \<lparr>cc_data = List.map (\<lambda>e. (''m|k'', e)) l, cc_max_size = 10\<rparr>"

lemma demo_records:
  "cost_cache_record True 0 (demo_cache []) ''m|k'' (Fin 64) demo_rows 9 =
     demo_cache [(Probing [(Fin 64, demo_rows)], 0)]"
  "cost_cache_record True 1 (demo_cache [(Probing [(Fin 64, demo_rows)], 0)]) ''m|k'' (Fin 128) demo_rows 9 =
     demo_cache [(Probing [(Fin 64, demo_rows), (Fin 128, demo_rows)], 0)]"
  "cost_cache_record True 2 (demo_cache [(Probing [(Fin 64, demo_rows), (Fin 128, demo_rows)], 0)]) ''m|k'' (Fin 256)
     demo_rows 9 = demo_cache [(Solved [(''stripe'', demo_model)], 2)]"
proof -
  show "cost_cache_record True 0 (demo_cache []) ''m|k'' (Fin 64) demo_rows 9 =
     demo_cache [(Probing [(Fin 64, demo_rows)], 0)]"
    by (simp add: cost_cache_record_def demo_cache_def start_probing_def evict_if_full_def hm_insert_def Let_def)
  have u: "upsert_observation [(Fin 64, demo_rows)] (Fin 128) demo_rows = [(Fin 64, demo_rows), (Fin 128, demo_rows)]"
    "upsert_observation [(Fin 64, demo_rows), (Fin 128, demo_rows)] (Fin 256) demo_rows =
       [(Fin 64, demo_rows), (Fin 128, demo_rows), (Fin 256, demo_rows)]"
    by (simp_all add: upsert_observation_def demo_not_near MAX_PENDING_OBSERVATIONS_def)
  have "fit_from_observations [(Fin 64, demo_rows), (Fin 128, demo_rows)] = None"
    by (simp add: fit_from_observations_def MIN_OBSERVATIONS_TO_SOLVE_def)
  then show "cost_cache_record True 1 (demo_cache [(Probing [(Fin 64, demo_rows)], 0)]) ''m|k'' (Fin 128) demo_rows 9 =
     demo_cache [(Probing [(Fin 64, demo_rows), (Fin 128, demo_rows)], 0)]"
    by (simp add: cost_cache_record_def demo_cache_def u hm_insert_def Let_def)
  show "cost_cache_record True 2 (demo_cache [(Probing [(Fin 64, demo_rows), (Fin 128, demo_rows)], 0)]) ''m|k'' (Fin 256)
     demo_rows 9 = demo_cache [(Solved [(''stripe'', demo_model)], 2)]"
    by (simp add: cost_cache_record_def demo_cache_def u demo_fit hm_insert_def Let_def)
qed

definition demo_history :: "(string \<times> f64 \<times> observation) set" where
  "demo_history = {(''m|k'', Fin 256, demo_rows), (''m|k'', Fin 128, demo_rows), (''m|k'', Fin 64, demo_rows)}"

lemma demo_cached: "cost_cached 10 demo_history (demo_cache [(Solved [(''stripe'', demo_model)], 2)])"
proof -
  have "cost_cached 10 {} (demo_cache [])" using cost_cached_new [of 10] by (simp add: demo_cache_def)
  from cost_cached_record [OF cost_cached_record [OF cost_cached_record [OF this]]]
  have "cost_cached 10 (insert (''m|k'', Fin 256, demo_rows) (insert (''m|k'', Fin 128, demo_rows)
      (insert (''m|k'', Fin 64, demo_rows) {})))
      (cost_cache_record True 2 (cost_cache_record True 1 (cost_cache_record True 0 (demo_cache []) ''m|k'' (Fin 64)
         demo_rows 9) ''m|k'' (Fin 128) demo_rows 9) ''m|k'' (Fin 256) demo_rows 9)" by blast
  then show ?thesis by (simp only: demo_records demo_history_def)
qed

theorem cached_costs_validated_witness:
  "length (cc_data (demo_cache [(Solved [(''stripe'', demo_model)], 2)])) \<le> max 10 1 \<and>
   cost_cache_get True 3 (demo_cache [(Solved [(''stripe'', demo_model)], 2)]) ''m|k'' (Fin 512) 9 =
     Some [(''stripe'', cost_of_model (Fin 512) demo_model)]"
proof -
  have g: "cost_cache_get True 3 (demo_cache [(Solved [(''stripe'', demo_model)], 2)]) ''m|k'' (Fin 512) 9 =
     Some [(''stripe'', cost_of_model (Fin 512) demo_model)]"
    by (simp add: cost_cache_get_def demo_cache_def)
  from cached_costs_validated [OF demo_cached g] g show ?thesis by blast
qed

section \<open>A linear fee that is never solved\<close>

text \<open>
  An answer near an amount that is kept replaces the rows but not the amount: the rows are then
  compared with the fee at another amount than the one they are for.
\<close>

lemma near_answer_keeps_old_amount:
  assumes "near_amount a amount"
  shows "upsert_observation ((a, old) # obs) amount rows = (a, rows) # obs"
  using assms by (simp add: upsert_observation_def)

definition linear_model :: fee_model where
  "linear_model = \<lparr>fe_available = True, fe_pct_bps = Fin 0, fe_fixed = Fin 2\<rparr>"

definition linear_rows :: "f64 \<Rightarrow> observation" where
  "linear_rows a = [(''stripe'', True, model_cost_bps linear_model a)]"

lemma near_129: "near_amount (Fin 128) (Fin 129)"
proof -
  have "fle (f64_of_rat (1 / 129)) (Fin (1 / 128))"
    using f64_of_rat_mono [of "1 / 129" "1 / 128"] f64_dyadic [of 1 7] by simp
  moreover have "flt (Fin (1 / 128)) (Fin (5 / 512))" by simp
  moreover have "fle (Fin (5 / 512)) (f64_of_rat (1 / 100))"
    using f64_of_rat_mono [of "5 / 512" "1 / 100"] f64_dyadic [of 5 9] by simp
  ultimately have "flt (f64_of_rat (1 / 129)) (f64_of_rat (1 / 100))" by (meson fle_flt_trans flt_fle_trans)
  moreover have "f64_of_rat (- 1) = Fin (- 1)" using f64_dyadic [of 1 0]
    by (auto simp: f64_of_rat_def rnd_minus Let_def)
  ultimately show ?thesis
    by (simp add: near_amount_def MIN_PROBE_AMOUNT_REL_GAP_def fsub_def fmax_def is_nan_def fdiv_def)
qed

lemma linear_cost_128: "model_cost_bps linear_model (Fin 128) = Fin (625 / 4)"
  using f64_dyadic [of 1 6] f64_dyadic [of 625 2]
  by (simp add: model_cost_bps_def linear_model_def fdiv_def fmul_def)

lemma linear_cost_129: "\<exists>y. model_cost_bps linear_model (Fin 129) = Fin y \<and> 0 \<le> y \<and> y \<le> 635625 / 4096"
proof -
  have q: "fle (f64_of_rat (2 / 129)) (Fin (1017 / 65536))" "fle (Fin 0) (f64_of_rat (2 / 129))"
    using f64_of_rat_mono [of "2 / 129" "1017 / 65536"] f64_dyadic [of 1017 16] by (simp_all add: f64_of_rat_nonneg)
  then obtain x where x: "f64_of_rat (2 / 129) = Fin x" "0 \<le> x" "x \<le> 1017 / 65536"
    by (cases "f64_of_rat (2 / 129)") (auto simp: fle_def)
  have "fle (f64_of_rat (x * 10000)) (Fin (635625 / 4096))" "fle (Fin 0) (f64_of_rat (x * 10000))"
    using f64_of_rat_mono [of "x * 10000" "635625 / 4096"] f64_dyadic [of 635625 12] x by (simp_all add: f64_of_rat_nonneg)
  then obtain y where y: "f64_of_rat (x * 10000) = Fin y" "0 \<le> y" "y \<le> 635625 / 4096"
    by (cases "f64_of_rat (x * 10000)") (auto simp: fle_def)
  have "fle (f64_of_rat y) (Fin (635625 / 4096))" "fle (Fin 0) (f64_of_rat y)"
    using f64_of_rat_mono [of y "635625 / 4096"] f64_dyadic [of 635625 12] y by (simp_all add: f64_of_rat_nonneg)
  then have "\<exists>z. f64_of_rat y = Fin z \<and> 0 \<le> z \<and> z \<le> 635625 / 4096"
    by (cases "f64_of_rat y") (auto simp: fle_def)
  then show ?thesis by (simp add: model_cost_bps_def linear_model_def fdiv_def fmul_def x(1) y(1))
qed

lemma linear_fee_refused:
  "upsert_observation [(Fin 128, linear_rows (Fin 128))] (Fin 129) (linear_rows (Fin 129)) =
     [(Fin 128, linear_rows (Fin 129))]
   \<and> \<not> reproduces (Fin 128, linear_rows (Fin 129)) (''stripe'', linear_model)"
proof -
  obtain y where y: "model_cost_bps linear_model (Fin 129) = Fin y" "0 \<le> y" "y \<le> 635625 / 4096"
    using linear_cost_129 by blast
  have "fle (Fin (4375 / 4096)) (f64_of_rat (625 / 4 - y))" "fle (f64_of_rat (625 / 4 - y)) (Fin (625 / 4))"
    using f64_of_rat_mono [of "4375 / 4096" "625 / 4 - y"] f64_of_rat_mono [of "625 / 4 - y" "625 / 4"]
      f64_dyadic [of 4375 12] f64_dyadic [of 625 2] y(2,3) by simp_all
  then obtain z where z: "f64_of_rat (625 / 4 - y) = Fin z" "4375 / 4096 \<le> z"
    by (cases "f64_of_rat (625 / 4 - y)") (auto simp: fle_def)
  have "\<not> reproduces (Fin 128, linear_rows (Fin 129)) (''stripe'', linear_model)"
    using z by (simp add: reproduces_def linear_rows_def linear_cost_128 y(1) fsub_def FIT_TOLERANCE_BPS_def)
  with near_answer_keeps_old_amount [OF near_129] show ?thesis by blast
qed

end
