(* ===== verification/Cost_Refresh.thy ===== *)
theory Cost_Refresh
  imports Cost_Serving
begin

text \<open>
  Rebuilding what is served (\<open>refresh\<close>, \<open>refresh_merchant\<close> and \<open>segments_from_tsv\<close> of
  \<open>src/src/cost_ingestion/serving.rs\<close>). The answers of the database, the map of BINs and the stored
  overlays are arguments; a hash map is iterated in the order of its list.
\<close>

section \<open>Rows\<close>

text \<open>\<open>str::lines\<close>: a carriage return before the line feed belongs to the line ending.\<close>

definition strip_cr :: "string \<Rightarrow> string" where
  "strip_cr l = (if l \<noteq> [] \<and> last l = CHR 0x0D then butlast l else l)"

definition str_lines :: "string \<Rightarrow> string list" where
  "str_lines s =
     (let ps = split_on CHR 0x0A s in
      List.map strip_cr (butlast ps) @ (if last ps = [] then [] else [last ps]))"

text \<open>\<open>rsplit_once('|')\<close>\<close>

definition rsplit_bar :: "string \<Rightarrow> (string \<times> string) option" where
  "rsplit_bar s =
     (if CHR ''|'' \<in> set s
      then Some (rev (tl (dropWhile (\<lambda>c. c \<noteq> CHR ''|'') (rev s))), rev (takeWhile (\<lambda>c. c \<noteq> CHR ''|'') (rev s)))
      else None)"

definition parse_or_zero :: "string \<Rightarrow> f64" where
  "parse_or_zero s = unwrap_or (parse_f64 (trim s)) (Fin 0)"

type_synonym weighted_sums = "(f64 \<times> f64 \<times> f64) hmap"

definition accumulate :: "weighted_sums \<Rightarrow> string \<Rightarrow> f64 \<Rightarrow> f64 \<Rightarrow> f64 \<Rightarrow> weighted_sums" where
  "accumulate m key pct_num fix_num w =
     hm_entry key (Fin 0, Fin 0, Fin 0) (\<lambda>(p, x, v). (fadd p pct_num, fadd x fix_num, fadd v w)) m"

definition finalize :: "weighted_sums \<Rightarrow> serving_cost hmap" where
  "finalize keys =
     List.map (\<lambda>(k, pn, fn, w). (k, \<lparr>sc_pct_bps = fdiv pn w, sc_fixed = fdiv fn w\<rparr>))
       (filter (\<lambda>(_, _, _, w). flt (Fin 0) w) keys)"

definition sums_weights :: "weighted_sums \<Rightarrow> f64 hmap" where
  "sums_weights keys = List.map (\<lambda>(k, _, _, w). (k, w)) keys"

definition cluster_row_key :: "(string \<Rightarrow> string) \<Rightarrow> string list \<Rightarrow> string" where
  "cluster_row_key lower f =
     fine_key_model lower (fine_key lower (f ! 1) (f ! 2) (f ! 3) (f ! 4) (f ! 5) (f ! 6) (f ! 7)) (f ! 8)"

text \<open>The sums per merchant and key: those of the coarse keys and those of the clusters.\<close>

definition cost_row_step ::
  "(string \<Rightarrow> string) \<Rightarrow> weighted_sums hmap \<times> weighted_sums hmap \<Rightarrow> string \<Rightarrow> weighted_sums hmap \<times> weighted_sums hmap" where
  "cost_row_step lower acc line =
     (let f = split_on CHR 0x09 line in
      if length f < 12 then acc
      else
        (let pct_num = parse_or_zero (f ! 9); fix_num = parse_or_zero (f ! 10); w = parse_or_zero (f ! 11) in
         if fle w (Fin 0) then acc
         else
           (let ck = coarse_key lower (f ! 1) (f ! 2) (f ! 4) (f ! 6) (issuer_region lower (f ! 5));
                fk = cluster_row_key lower f in
            (hm_entry (f ! 0) [] (\<lambda>s. accumulate s ck pct_num fix_num w) (fst acc),
             hm_entry (f ! 0) [] (\<lambda>s. accumulate s fk pct_num fix_num w) (snd acc)))))"

definition cost_sums :: "(string \<Rightarrow> string) \<Rightarrow> string \<Rightarrow> weighted_sums hmap \<times> weighted_sums hmap" where
  "cost_sums lower rows = foldl (cost_row_step lower) ([], []) (str_lines rows)"

section \<open>Tiers\<close>

text \<open>A row of tiers: its merchant, its key, the tier, and its settled volume.\<close>

definition segment_row :: "(string \<Rightarrow> string) \<Rightarrow> string \<Rightarrow> (string \<times> string \<times> serving_segment \<times> f64) option" where
  "segment_row lower line =
     (let f = split_on CHR 0x09 line in
      if length f < 16 then None
      else
        Option.bind (parse_f64 (trim (f ! 10))) (\<lambda>lo.
        Option.bind (parse_f64 (trim (f ! 11))) (\<lambda>hi.
        Option.bind (parse_f64 (trim (f ! 12))) (\<lambda>pct_bps.
        Option.bind (parse_f64 (trim (f ! 13))) (\<lambda>fixed.
          Some (f ! 0, cluster_row_key lower f,
                \<lparr>vs_lo = lo, vs_hi = hi, vs_cost = \<lparr>sc_pct_bps = pct_bps, sc_fixed = fixed\<rparr>,
                 vs_good = eq_ignore_ascii_case (trim (f ! 15)) ''GOOD''\<rparr>,
                parse_or_zero (f ! 14)))))))"

definition segment_row_step ::
  "(string \<Rightarrow> string) \<Rightarrow> serving_segment list hmap hmap \<times> weighted_sums hmap \<Rightarrow> string \<Rightarrow>
   serving_segment list hmap hmap \<times> weighted_sums hmap" where
  "segment_row_step lower acc line =
     (case segment_row lower line of
        None \<Rightarrow> acc
      | Some (merchant, key, s, gross) \<Rightarrow>
          (hm_entry merchant [] (hm_entry key [] (\<lambda>l. l @ [s])) (fst acc),
           if vs_good s \<and> flt (Fin 0) gross
           then hm_entry merchant []
                  (\<lambda>m. accumulate m key (fmul (sc_pct_bps (vs_cost s)) gross) (fmul (sc_fixed (vs_cost s)) gross) gross)
                  (snd acc)
           else snd acc))"

text \<open>The ladders of a merchant that have a blend, each sorted by its lower bounds.\<close>

definition build_ladders :: "weighted_sums \<Rightarrow> serving_segment list hmap \<Rightarrow> segmented_cost hmap" where
  "build_ladders raw ladders =
     (let blends = finalize raw; blends_w = sums_weights raw in
      List.map_filter (\<lambda>(key, segments).
          map_option (\<lambda>blend. (key,
              \<lparr>gc_segments = sort_by (\<lambda>a b. ftotal_cmp (vs_lo a) (vs_lo b)) segments,
               gc_blend = blend, gc_weight = unwrap_or (map_of blends_w key) (Fin 0)\<rparr>))
            (map_of blends key)) ladders)"

definition segments_from_tsv :: "(string \<Rightarrow> string) \<Rightarrow> string \<Rightarrow> segmented_cost hmap hmap" where
  "segments_from_tsv lower rows =
     (let (acc, blend_acc) = foldl (segment_row_step lower) ([], []) (str_lines rows) in
      List.map (\<lambda>(merchant, ladders). (merchant, build_ladders (unwrap_or (map_of blend_acc merchant) []) ladders)) acc)"

section \<open>Blends of a display key\<close>

definition push_member ::
  "string \<Rightarrow> f64 \<Rightarrow> member_cost \<Rightarrow> (f64 \<times> member_cost) list hmap \<Rightarrow> (f64 \<times> member_cost) list hmap" where
  "push_member display w c members =
     (if fle w (Fin 0) then members
      else
        (let members = (case without_variant display of
              Some k \<Rightarrow> hm_entry k [] (\<lambda>l. l @ [(w, c)]) members
            | None \<Rightarrow> members) in
         hm_entry display [] (\<lambda>l. l @ [(w, c)]) members))"

definition blend_members ::
  "f64 hmap option \<Rightarrow> merchant_models \<Rightarrow> (f64 \<times> member_cost) list hmap" where
  "blend_members weights m =
     (let fine_step = (\<lambda>acc (model_key, cost).
            case rsplit_bar model_key of
              None \<Rightarrow> acc
            | Some (display, _) \<Rightarrow>
                push_member display (unwrap_or (Option.bind weights (\<lambda>ws. map_of ws model_key)) (Fin 0)) (Flat cost) acc);
          acc = (if weights = None then [] else foldl fine_step [] (mm_fine m)) in
      foldl (\<lambda>acc (model_key, ladder).
          case rsplit_bar model_key of
            None \<Rightarrow> acc
          | Some (display, _) \<Rightarrow> push_member display (gc_weight ladder) (Tiered ladder) acc)
        acc (mm_segmented m))"

definition fine_blends :: "f64 hmap option \<Rightarrow> merchant_models \<Rightarrow> fine_blend hmap" where
  "fine_blends weights m =
     List.map (\<lambda>(k, members). (k, \<lparr>fb_members = members, fb_total_weight = foldl fadd (Fin 0) (List.map fst members)\<rparr>))
       (blend_members weights m)"

section \<open>The predictor\<close>

definition MIN_SUPPORT :: nat where "MIN_SUPPORT = 20"

text \<open>Counts are \<open>u64\<close> and wrap.\<close>

definition add_count :: "string \<Rightarrow> nat \<Rightarrow> nat hmap \<Rightarrow> nat hmap" where
  "add_count ic c = hm_entry ic 0 (\<lambda>n. (n + c) mod 2 ^ 64)"

definition pred_row_step ::
  "(string \<Rightarrow> string) \<Rightarrow> nat hmap hmap list hmap \<Rightarrow> string \<Rightarrow> nat hmap hmap list hmap" where
  "pred_row_step lower acc line =
     (let f = split_on CHR 0x09 line in
      if length f < 9 then acc
      else
        (let c = unwrap_or (parse_u64 (trim (f ! 8))) 0 in
         if c = 0 then acc
         else hm_entry (f ! 0) (replicate PREDICTOR_LEVELS [])
                (\<lambda>levels. map2 (\<lambda>key level. hm_entry key [] (add_count (f ! 7) c) level)
                   (predictor_level_keys lower (f ! 1) (f ! 2) (f ! 3) (f ! 4) (f ! 5) (f ! 6)) levels) acc))"

definition modal_categories :: "nat hmap hmap \<Rightarrow> string hmap" where
  "modal_categories level =
     List.map_filter (\<lambda>(key, cats).
       if foldl (\<lambda>a n. (a + n) mod 2 ^ 64) 0 (List.map snd cats) < MIN_SUPPORT then None
       else map_option (\<lambda>(cat, _). (key, cat)) (max_by_key snd cats)) level"

definition predictor_tables :: "(string \<Rightarrow> string) \<Rightarrow> string \<Rightarrow> string hmap list hmap" where
  "predictor_tables lower rows =
     List.map (\<lambda>(merchant, levels). (merchant, List.map modal_categories levels))
       (foldl (pred_row_step lower) [] (str_lines rows))"

section \<open>Overlays\<close>

record cluster_dims =
  dm_connector :: string
  dm_card_network :: string
  dm_variant :: string
  dm_funding :: string
  dm_issuer_country :: string
  dm_currency :: string
  dm_ic_category :: string

text \<open>What the stores hold for a merchant; \<open>None\<close> is a failure of the store.\<close>

record overlay_source =
  ov_merchants :: "string list option"
  ov_addon_merchants :: "string list option"
  ov_overrides :: "string \<Rightarrow> (string \<times> serving_cost) list option"
  ov_clusters :: "string \<Rightarrow> (cluster_dims \<times> serving_cost) list option"
  ov_addons :: "string \<Rightarrow> (string \<times> serving_cost) list option"

definition collect_costs :: "('a \<Rightarrow> string) \<Rightarrow> ('a \<times> serving_cost) list \<Rightarrow> serving_cost hmap" where
  "collect_costs k xs = foldl (\<lambda>m (a, c). hm_insert (k a) c m) [] xs"

definition dims_fine_key :: "(string \<Rightarrow> string) \<Rightarrow> cluster_dims \<Rightarrow> string" where
  "dims_fine_key lower d =
     fine_key lower (dm_connector d) (dm_card_network d) (dm_variant d) (dm_funding d) (dm_issuer_country d)
       (dm_currency d) (dm_ic_category d)"

text \<open>An empty list and a failure leave the snapshot as it is.\<close>

definition overlay_entry ::
  "string \<Rightarrow> 'a list option \<Rightarrow> ('a list \<Rightarrow> merchant_models \<Rightarrow> merchant_models) \<Rightarrow> serving_snapshot \<Rightarrow> serving_snapshot" where
  "overlay_entry merchant_id r upd snap =
     (case r of
        Some (x # xs) \<Rightarrow> hm_entry merchant_id default_models (upd (x # xs)) snap
      | _ \<Rightarrow> snap)"

definition load_overlays_into ::
  "(string \<Rightarrow> string) \<Rightarrow> overlay_source \<Rightarrow> serving_snapshot \<Rightarrow> string \<Rightarrow> serving_snapshot" where
  "load_overlays_into lower V snap merchant_id =
     (let snap = overlay_entry merchant_id (ov_overrides V merchant_id)
            (\<lambda>l m. m\<lparr>mm_overrides := collect_costs lower l\<rparr>) snap;
          snap = overlay_entry merchant_id (ov_clusters V merchant_id)
            (\<lambda>l m. m\<lparr>mm_cluster_overrides := collect_costs (dims_fine_key lower) l\<rparr>) snap in
      overlay_entry merchant_id (ov_addons V merchant_id) (\<lambda>l m. m\<lparr>mm_addons := collect_costs lower l\<rparr>) snap)"

section \<open>The rebuild\<close>

record serving_state =
  sv_cache :: serving_snapshot
  sv_bins :: "string hmap"

text \<open>The answers to the three queries; an error carries its text.\<close>

record refresh_rows =
  rr_cost :: "string + string"
  rr_pred :: "string + string"
  rr_seg :: "string + string"

definition learned_snapshot :: "(string \<Rightarrow> string) \<Rightarrow> string \<Rightarrow> string \<Rightarrow> string \<Rightarrow> serving_snapshot" where
  "learned_snapshot lower cost_rows pred_rows seg_rows =
     (let (coarse_acc, fine_acc) = cost_sums lower cost_rows;
          snap = foldl (\<lambda>s (merchant, keys). hm_entry merchant default_models (\<lambda>m. m\<lparr>mm_coarse := finalize keys\<rparr>) s)
                   [] coarse_acc;
          fine_weight = List.map (\<lambda>(merchant, keys). (merchant, sums_weights keys)) fine_acc;
          snap = foldl (\<lambda>s (merchant, keys). hm_entry merchant default_models (\<lambda>m. m\<lparr>mm_fine := finalize keys\<rparr>) s)
                   snap fine_acc;
          snap = foldl (\<lambda>s (merchant, ladders). hm_entry merchant default_models (\<lambda>m. m\<lparr>mm_segmented := ladders\<rparr>) s)
                   snap (segments_from_tsv lower seg_rows);
          snap = List.map (\<lambda>(merchant, m). (merchant, m\<lparr>mm_fine_blend := fine_blends (map_of fine_weight merchant) m\<rparr>))
                   snap in
      foldl (\<lambda>s (merchant, tables). hm_entry merchant default_models (\<lambda>m. m\<lparr>mm_predictor := tables\<rparr>) s)
        snap (predictor_tables lower pred_rows))"

text \<open>The merchants with overlays, without duplicates of the second list.\<close>

definition overlay_merchants :: "overlay_source \<Rightarrow> string list" where
  "overlay_merchants V =
     foldl (\<lambda>ms mid. if mid \<in> set ms then ms else ms @ [mid])
       (unwrap_or (ov_merchants V) []) (unwrap_or (ov_addon_merchants V) [])"

definition refresh_inner ::
  "(string \<Rightarrow> string) \<Rightarrow> string hmap \<Rightarrow> refresh_rows \<Rightarrow> overlay_source \<Rightarrow> string option \<Rightarrow> serving_state \<Rightarrow>
   serving_state \<times> (string + nat)" where
  "refresh_inner lower bin_map R V merchant st =
     (let st = st\<lparr>sv_bins := bin_map\<rparr> in
      case rr_cost R of
        Inl e \<Rightarrow> (st, Inl e)
      | Inr cost_rows \<Rightarrow>
          (case rr_pred R of
             Inl e \<Rightarrow> (st, Inl e)
           | Inr pred_rows \<Rightarrow>
               (let seg_rows = (case rr_seg R of Inr r \<Rightarrow> r | Inl _ \<Rightarrow> []);
                    snap = learned_snapshot lower cost_rows pred_rows seg_rows in
                case merchant of
                  None \<Rightarrow>
                    (let snap = foldl (load_overlays_into lower V) snap (overlay_merchants V) in
                     (st\<lparr>sv_cache := snap\<rparr>, Inr (length snap)))
                | Some mid \<Rightarrow>
                    (let snap = load_overlays_into lower V snap mid;
                         merged = (case map_of snap mid of
                             Some m \<Rightarrow> if models_is_empty m then hm_remove mid (sv_cache st) else hm_insert mid m (sv_cache st)
                           | None \<Rightarrow> hm_remove mid (sv_cache st)) in
                     (st\<lparr>sv_cache := merged\<rparr>, Inr (length merged))))))"

end
