(* ===== verification/Serving_Correct.thy ===== *)
theory Serving_Correct
  imports Cost_Refresh Cost_Lookup
begin

text \<open>
  What is served: every table that a history of rebuilds leaves has only ladders with a tier, so no
  lookup panics; an amount is priced by its tier on a ladder without gaps, and by the last tier in a
  gap; and a rebuild of one merchant leaves the others.
\<close>

section \<open>Ladders\<close>

definition ladder_ok :: "segmented_cost \<Rightarrow> bool" where
  "ladder_ok g \<longleftrightarrow> gc_segments g \<noteq> [] \<and> sorted_wrt (\<lambda>a b. ftotal_cmp (vs_lo a) (vs_lo b) \<noteq> Greater) (gc_segments g)"

definition member_ok :: "member_cost \<Rightarrow> bool" where
  "member_ok m \<longleftrightarrow> (case m of Flat _ \<Rightarrow> True | Tiered g \<Rightarrow> ladder_ok g)"

definition models_ok :: "merchant_models \<Rightarrow> bool" where
  "models_ok m \<longleftrightarrow>
     (\<forall>kg \<in> set (mm_segmented m). ladder_ok (snd kg)) \<and>
     (\<forall>kb \<in> set (mm_fine_blend m). \<forall>wm \<in> set (fb_members (snd kb)). member_ok (snd wm))"

abbreviation snapshot_ok :: "serving_snapshot \<Rightarrow> bool" where
  "snapshot_ok snap \<equiv> \<forall>km \<in> set snap. models_ok (snd km)"

lemma default_models_ok: "models_ok default_models"
  by (simp add: models_ok_def default_models_def)

lemma sort_lo_sorted:
  "sorted_wrt (\<lambda>a b. ftotal_cmp (vs_lo a) (vs_lo b) \<noteq> Greater) (sort_by (\<lambda>a b. ftotal_cmp (vs_lo a) (vs_lo b)) segs)"
  by (rule sorted_sort_by) (rule total_cmp_by_ftotal)

lemma build_ladders_ok:
  assumes "\<forall>kl \<in> set ladders. snd kl \<noteq> []"
  shows "\<forall>kg \<in> set (build_ladders raw ladders). ladder_ok (snd kg)"
proof
  fix kg assume "kg \<in> set (build_ladders raw ladders)"
  then obtain key segs blend where k: "(key, segs) \<in> set ladders" "map_of (finalize raw) key = Some blend"
    "gc_segments (snd kg) = sort_by (\<lambda>a b. ftotal_cmp (vs_lo a) (vs_lo b)) segs"
    by (auto simp: build_ladders_def Let_def List.map_filter_def split: option.splits)
  from assms k(1) have "segs \<noteq> []" by auto
  then have "sort_by (\<lambda>a b. ftotal_cmp (vs_lo a) (vs_lo b)) segs \<noteq> []"
    by (metis length_0_conv length_sort_by)
  with sort_lo_sorted [of segs] show "ladder_ok (snd kg)" by (simp add: ladder_ok_def k(3))
qed

lemma segment_step_ok:
  assumes "\<forall>ml \<in> set (fst acc). \<forall>kl \<in> set (snd ml). snd kl \<noteq> []"
  shows "\<forall>ml \<in> set (fst (segment_row_step lower acc line)). \<forall>kl \<in> set (snd ml). snd kl \<noteq> []"
proof (cases "segment_row lower line")
  case None
  with assms show ?thesis by (simp add: segment_row_step_def)
next
  case (Some r)
  obtain merchant key s gross where r: "r = (merchant, key, s, gross)" by (cases r)
  have "\<forall>ml \<in> set (hm_entry merchant [] (hm_entry key [] (\<lambda>l. l @ [s])) (fst acc)). \<forall>kl \<in> set (snd ml). snd kl \<noteq> []"
  proof (rule hm_entry_all [OF assms])
    fix v :: "serving_segment list hmap"
    assume v: "\<forall>kl \<in> set v. snd kl \<noteq> []"
    have "snd kl \<noteq> []" if "kl \<in> set (hm_entry key [] (\<lambda>l. l @ [s]) v)" for kl
      using that v set_hm_insert [of key _ v] unfolding hm_entry_def by fastforce
    then show "\<forall>kl \<in> set (hm_entry key [] (\<lambda>l. l @ [s]) v). snd kl \<noteq> []" by blast
  qed simp
  then show ?thesis by (simp add: segment_row_step_def Some r)
qed

lemma segments_from_tsv_ok: "\<forall>ml \<in> set (segments_from_tsv lower rows). \<forall>kg \<in> set (snd ml). ladder_ok (snd kg)"
proof -
  obtain acc blend_acc where f: "foldl (segment_row_step lower) ([], []) (str_lines rows) = (acc, blend_acc)"
    by (cases "foldl (segment_row_step lower) ([], []) (str_lines rows)")
  have "\<forall>ml \<in> set (fst (foldl (segment_row_step lower) ([], []) (str_lines rows))). \<forall>kl \<in> set (snd ml). snd kl \<noteq> []"
    by (rule foldl_invariant) (simp, rule segment_step_ok)
  with f have "\<forall>ml \<in> set acc. \<forall>kl \<in> set (snd ml). snd kl \<noteq> []" by simp
  then show ?thesis by (auto simp: segments_from_tsv_def f intro!: build_ladders_ok [rule_format] dest: bspec)
qed

section \<open>Blends\<close>

abbreviation members_ok :: "(f64 \<times> member_cost) list hmap \<Rightarrow> bool" where
  "members_ok ms \<equiv> \<forall>kl \<in> set ms. \<forall>wm \<in> set (snd kl). member_ok (snd wm)"

lemma push_member_ok:
  assumes "members_ok ms" "member_ok c"
  shows "members_ok (push_member display w c ms)"
proof -
  have e: "members_ok (hm_entry k [] (\<lambda>l. l @ [(w, c)]) ms')" if "members_ok ms'" for k ms'
    by (rule hm_entry_all [where P = "\<lambda>l. \<forall>wm \<in> set l. member_ok (snd wm)", OF that]) (use assms(2) in auto)
  show ?thesis
  proof (cases "fle w (Fin 0)")
    case True
    with assms(1) show ?thesis by (simp add: push_member_def)
  next
    case False
    then show ?thesis using e [OF assms(1)] e [OF e [OF assms(1)]]
      by (cases "without_variant display") (simp_all only: push_member_def Let_def if_False option.case)
  qed
qed

lemma blend_members_ok:
  assumes "\<forall>kg \<in> set (mm_segmented m). ladder_ok (snd kg)"
  shows "members_ok (blend_members weights m)"
  unfolding blend_members_def Let_def
proof (rule foldl_invariant)
  have p: "members_ok acc \<Longrightarrow> member_ok c \<Longrightarrow>
      members_ok (case rsplit_bar k of None \<Rightarrow> acc | Some (display, _) \<Rightarrow> push_member display w c acc)" for acc k w c
    using push_member_ok by (cases "rsplit_bar k") (simp_all add: split_def)
  show "members_ok (if weights = None then []
      else foldl (\<lambda>acc (model_key, cost). case rsplit_bar model_key of None \<Rightarrow> acc
          | Some (display, _) \<Rightarrow> push_member display
              (unwrap_or (Option.bind weights (\<lambda>ws. map_of ws model_key)) (Fin 0)) (Flat cost) acc) [] (mm_fine m))"
  proof (cases "weights = None")
    case False
    have "members_ok (foldl (\<lambda>acc (model_key, cost). case rsplit_bar model_key of None \<Rightarrow> acc
          | Some (display, _) \<Rightarrow> push_member display
              (unwrap_or (Option.bind weights (\<lambda>ws. map_of ws model_key)) (Fin 0)) (Flat cost) acc) [] (mm_fine m))"
      by (rule foldl_invariant) (simp, simp only: split_beta, rule p [unfolded split_beta], assumption, simp add: member_ok_def)
    with False show ?thesis by (simp only: if_False)
  qed simp
  fix acc :: "(f64 \<times> member_cost) list hmap" and kg
  assume a: "members_ok acc" "kg \<in> set (mm_segmented m)"
  from a(2) assms have t: "member_ok (Tiered (snd kg))" by (simp add: member_ok_def)
  show "members_ok (case kg of (model_key, ladder) \<Rightarrow> case rsplit_bar model_key of None \<Rightarrow> acc
          | Some (display, _) \<Rightarrow> push_member display (gc_weight ladder) (Tiered ladder) acc)"
    unfolding split_beta by (rule p [unfolded split_beta, OF a(1) t])
qed

section \<open>Rebuilds\<close>

lemma fine_blends_ok:
  assumes "\<forall>kg \<in> set (mm_segmented m). ladder_ok (snd kg)"
  shows "models_ok (m\<lparr>mm_fine_blend := fine_blends weights m\<rparr>)"
  using assms blend_members_ok [OF assms, of weights] unfolding models_ok_def fine_blends_def by fastforce

lemma snapshot_entry_ok:
  assumes "snapshot_ok snap" "\<And>m. models_ok m \<Longrightarrow> models_ok (f m)"
  shows "snapshot_ok (hm_entry k default_models f snap)"
  by (rule hm_entry_all [where P = models_ok, OF assms(1) default_models_ok assms(2)])

lemma overlay_entry_ok:
  assumes "snapshot_ok snap" "\<And>l m. models_ok m \<Longrightarrow> models_ok (upd l m)"
  shows "snapshot_ok (overlay_entry mid r upd snap)"
proof -
  have "snapshot_ok (hm_entry mid default_models (upd l) snap)" for l
    by (rule snapshot_entry_ok [OF assms])
  with assms(1) show ?thesis unfolding overlay_entry_def by (simp split: option.split list.split)
qed

lemma load_overlays_ok: "snapshot_ok snap \<Longrightarrow> snapshot_ok (load_overlays_into lower V snap mid)"
  unfolding load_overlays_into_def Let_def by (intro overlay_entry_ok) (simp_all add: models_ok_def)

definition unblended_ok :: "serving_snapshot \<Rightarrow> bool" where
  "unblended_ok snap \<longleftrightarrow> (\<forall>km \<in> set snap. \<forall>kg \<in> set (mm_segmented (snd km)). ladder_ok (snd kg))"

lemma unblended_entry:
  assumes "unblended_ok snap"
    "\<And>m. \<forall>kg \<in> set (mm_segmented m). ladder_ok (snd kg) \<Longrightarrow> \<forall>kg \<in> set (mm_segmented (f m)). ladder_ok (snd kg)"
  shows "unblended_ok (hm_entry k default_models f snap)"
  unfolding unblended_ok_def
  by (rule hm_entry_all [where P = "\<lambda>m. \<forall>kg \<in> set (mm_segmented m). ladder_ok (snd kg)",
        OF assms(1) [unfolded unblended_ok_def] _ assms(2)]) (simp_all add: default_models_def)

lemma unblended_fold:
  assumes "unblended_ok snap"
    "\<And>k v m. (k, v) \<in> set xs \<Longrightarrow> \<forall>kg \<in> set (mm_segmented m). ladder_ok (snd kg) \<Longrightarrow>
       \<forall>kg \<in> set (mm_segmented (f v m)). ladder_ok (snd kg)"
  shows "unblended_ok (foldl (\<lambda>s (k, v). hm_entry k default_models (f v) s) snap xs)"
proof (rule foldl_invariant [where P = unblended_ok, OF assms(1)])
  fix s kv assume s: "unblended_ok s" "kv \<in> set xs"
  obtain k v where kv: "kv = (k, v)" by (cases kv)
  show "unblended_ok (case kv of (k, v) \<Rightarrow> hm_entry k default_models (f v) s)"
    unfolding kv prod.case by (rule unblended_entry [OF s(1)]) (rule assms(2) [OF s(2) [unfolded kv]])
qed

lemma learned_snapshot_ok: "snapshot_ok (learned_snapshot lower c p s)"
proof -
  obtain ca fa where a: "cost_sums lower c = (ca, fa)" by (cases "cost_sums lower c")
  define s1 where "s1 = foldl (\<lambda>s (merchant, keys). hm_entry merchant default_models (\<lambda>m. m\<lparr>mm_coarse := finalize keys\<rparr>) s) [] ca"
  define s2 where "s2 = foldl (\<lambda>s (merchant, keys). hm_entry merchant default_models (\<lambda>m. m\<lparr>mm_fine := finalize keys\<rparr>) s) s1 fa"
  define s3 where "s3 = foldl (\<lambda>s (merchant, ladders). hm_entry merchant default_models (\<lambda>m. m\<lparr>mm_segmented := ladders\<rparr>) s)
     s2 (segments_from_tsv lower s)"
  define s4 where "s4 = List.map (\<lambda>(merchant, m). (merchant, m\<lparr>mm_fine_blend :=
     fine_blends (map_of (List.map (\<lambda>(merchant, keys). (merchant, sums_weights keys)) fa) merchant) m\<rparr>)) s3"
  have "unblended_ok s1" unfolding s1_def by (rule unblended_fold) (simp_all add: unblended_ok_def)
  then have "unblended_ok s2" unfolding s2_def by (rule unblended_fold) simp
  then have "unblended_ok s3" unfolding s3_def
    by (rule unblended_fold) (use segments_from_tsv_ok [of lower s] in fastforce)
  then have "snapshot_ok s4" unfolding s4_def unblended_ok_def
    using fine_blends_ok by fastforce
  have step: "snapshot_ok a \<Longrightarrow> snapshot_ok (hm_entry k default_models (\<lambda>m. m\<lparr>mm_predictor := v\<rparr>) a)" for a k v
    by (rule snapshot_entry_ok) (simp_all add: models_ok_def)
  have "snapshot_ok (foldl (\<lambda>s (merchant, tables). hm_entry merchant default_models (\<lambda>m. m\<lparr>mm_predictor := tables\<rparr>) s)
      s4 (predictor_tables lower p))"
    by (rule foldl_invariant [where P = snapshot_ok, OF \<open>snapshot_ok s4\<close>])
      (unfold split_beta, rule step)
  then show ?thesis
    by (simp only: learned_snapshot_def Let_def a prod.case s1_def s2_def s3_def s4_def)
qed

text \<open>The served state through any history of rebuilds, of all merchants or of one.\<close>

inductive serving_reachable :: "(string \<Rightarrow> string) \<Rightarrow> serving_state \<Rightarrow> bool" for lower where
  serving_start: "serving_reachable lower \<lparr>sv_cache = [], sv_bins = []\<rparr>"
| serving_refresh: "serving_reachable lower st \<Longrightarrow>
     serving_reachable lower (fst (refresh_inner lower bins R V merchant st))"

lemma refresh_ok:
  assumes "snapshot_ok (sv_cache st)"
  shows "snapshot_ok (sv_cache (fst (refresh_inner lower bins R V merchant st)))"
proof (cases "rr_cost R")
  case Inl
  with assms show ?thesis by (simp add: refresh_inner_def)
next
  case c: (Inr cost_rows)
  show ?thesis
  proof (cases "rr_pred R")
    case Inl
    with assms c show ?thesis by (simp add: refresh_inner_def)
  next
    case p: (Inr pred_rows)
    define snap where "snap = learned_snapshot lower cost_rows pred_rows (case rr_seg R of Inr r \<Rightarrow> r | Inl _ \<Rightarrow> [])"
    have ok: "snapshot_ok snap" unfolding snap_def by (rule learned_snapshot_ok)
    show ?thesis
    proof (cases merchant)
      case None
      have "snapshot_ok (foldl (load_overlays_into lower V) snap (overlay_merchants V))"
        by (rule foldl_invariant [where P = snapshot_ok, OF ok]) (rule load_overlays_ok)
      moreover have "sv_cache (fst (refresh_inner lower bins R V merchant st)) =
          foldl (load_overlays_into lower V) snap (overlay_merchants V)"
        by (simp add: refresh_inner_def c p None Let_def snap_def)
      ultimately show ?thesis by (simp only:)
    next
      case (Some mid)
      define s where "s = load_overlays_into lower V snap mid"
      have s: "snapshot_ok s" unfolding s_def by (rule load_overlays_ok [OF ok])
      define merged where "merged = (case map_of s mid of
          Some m \<Rightarrow> if models_is_empty m then hm_remove mid (sv_cache st) else hm_insert mid m (sv_cache st)
        | None \<Rightarrow> hm_remove mid (sv_cache st))"
      have rem: "snapshot_ok (hm_remove mid (sv_cache st))" using assms set_hm_remove by fast
      have ins: "snapshot_ok (hm_insert mid m (sv_cache st))" if "map_of s mid = Some m" for m
        using assms s map_of_SomeD [OF that] set_hm_insert [of mid m "sv_cache st"] by fastforce
      have "snapshot_ok merged"
        unfolding merged_def using rem ins by (cases "map_of s mid") simp_all
      moreover have "sv_cache (fst (refresh_inner lower bins R V merchant st)) = merged"
        by (simp add: refresh_inner_def c p Some Let_def snap_def s_def merged_def cong: option.case_cong if_cong)
      ultimately show ?thesis by (simp only:)
    qed
  qed
qed

lemma serving_reachable_ok: "serving_reachable lower st \<Longrightarrow> snapshot_ok (sv_cache st)"
proof (induction rule: serving_reachable.induct)
  case (serving_refresh st bins R V merchant)
  from refresh_ok [OF serving_refresh.IH] show ?case .
qed simp

section \<open>No lookup panics\<close>

lemma ladder_prices: "ladder_ok g \<Longrightarrow> \<exists>c. segmented_for_amount g amount = Some c"
  by (cases "gc_segments g") (auto simp: ladder_ok_def segmented_for_amount_def tier_of_def split: option.split)

lemma blend_sums_defined: "\<forall>wm \<in> set ms. member_ok (snd wm) \<Longrightarrow> \<exists>r. blend_sums amount ms acc = Some r"
proof (induction ms arbitrary: acc)
  case (Cons wm ms)
  obtain w c pct fixed where x: "wm = (w, c)" "acc = (pct, fixed)" by (cases wm; cases acc)
  have "\<exists>d. member_for_amount c amount = Some d"
    using Cons.prems ladder_prices by (cases c) (auto simp: x member_for_amount_def member_ok_def)
  then obtain d where "member_for_amount c amount = Some d" ..
  with Cons show ?case by (simp add: x)
qed simp

lemma blend_prices: "\<forall>wm \<in> set (fb_members b). member_ok (snd wm) \<Longrightarrow> \<exists>c. blend_for_amount b amount = Some c"
  using blend_sums_defined [of "fb_members b" amount "(Fin 0, Fin 0)"] by (auto simp: blend_for_amount_def)

lemma display_blend_mem: "display_blend m key = Some b \<Longrightarrow> \<exists>k. (k, b) \<in> set (mm_fine_blend m)"
  by (auto simp: display_blend_def bind_eq_Some_conv dest: map_of_SomeD split: option.splits)

lemma learned_fine_defined:
  assumes "models_ok m"
  shows "\<exists>r. learned_fine E m card_product key amount = Some r"
proof (cases "map_of (mm_segmented m) (fine_key_model (en_lower E) key card_product)")
  case (Some g)
  with assms map_of_SomeD [OF Some] have "ladder_ok g" by (fastforce simp: models_ok_def)
  from ladder_prices [OF this, of amount] Some show ?thesis by (auto simp: learned_fine_def Let_def)
next
  case s: None
  show ?thesis
  proof (cases "map_of (mm_fine m) (fine_key_model (en_lower E) key card_product)")
    case None
    show ?thesis
    proof (cases "display_blend m key")
      case (Some b)
      with display_blend_mem [OF Some] assms have "\<forall>wm \<in> set (fb_members b). member_ok (snd wm)"
        by (fastforce simp: models_ok_def)
      from blend_prices [OF this, of amount] Some None s show ?thesis by (auto simp: learned_fine_def Let_def)
    qed (simp add: learned_fine_def s None Let_def)
  qed (simp add: learned_fine_def s Let_def)
qed

lemma lookup_defined:
  assumes "snapshot_ok snap"
  shows "\<exists>r. serving_lookup E snap bins merchant_id connector q = Some r"
proof (cases "map_of snap merchant_id")
  case (Some m)
  then have "models_ok m" using assms by (fastforce dest: map_of_SomeD)
  then have d: "\<exists>r. learned_fine E m cp key a = Some r" for cp key a by (rule learned_fine_defined)
  show ?thesis
  proof (cases "resolve_fine E m connector q")
    case None
    with Some show ?thesis by (auto simp: serving_lookup_def Let_def split: option.split)
  next
    case f: (Some kvc)
    obtain key vc where kvc: "kvc = (key, vc)" by (cases kvc)
    from d obtain r where "learned_fine E m (resolve_bin_product bins (rq_bin q)) key (rq_amount q) = Some r" by blast
    with Some f kvc show ?thesis by (auto simp: serving_lookup_def Let_def split: option.split)
  qed
qed (simp add: serving_lookup_def)

lemma inhouse_costs_defined:
  assumes "snapshot_ok snap"
  shows "\<exists>r. inhouse_costs E snap bins merchant_id cluster psps out = Some r"
proof (induction psps arbitrary: out)
  case (Cons p psps)
  obtain r where "serving_lookup E snap bins merchant_id (en_lower E p) (request_of_cluster cluster) = Some r"
    using lookup_defined [OF assms] by blast
  with Cons show ?case by simp
qed simp

section \<open>In-house costs first\<close>

lemma map_of_or_insert_all:
  "map_of (or_insert_all costs extra) p = (case map_of costs p of Some c \<Rightarrow> Some c | None \<Rightarrow> map_of extra p)"
  unfolding or_insert_all_def
proof (induction extra arbitrary: costs)
  case (Cons kc extra)
  then show ?case by (cases kc) (auto split: option.splits)
qed (simp split: option.split)

lemma inhouse_costs_map:
  assumes "inhouse_costs E snap bins mid k psps out = Some costs"
  shows "map_of costs p =
    (if p \<in> set psps
     then case serving_lookup E snap bins mid (en_lower E p) (request_of_cluster k) of
            Some (Some m) \<Rightarrow> Some (cost_of_match m) | _ \<Rightarrow> map_of out p
     else map_of out p)"
  using assms
proof (induction psps arbitrary: out)
  case (Cons q psps)
  from Cons.prems obtain r where r: "serving_lookup E snap bins mid (en_lower E q) (request_of_cluster k) = Some r"
    "inhouse_costs E snap bins mid k psps (case r of None \<Rightarrow> out | Some m \<Rightarrow> hm_insert q (cost_of_match m) out) = Some costs"
    by (auto simp: bind_eq_Some_conv)
  from Cons.IH [OF r(2)] r(1) show ?case by (cases r) (auto split: option.split)
qed simp

lemma lookup_costs_eq:
  assumes "inhouse_costs (ce_serving E) snap bins mid k psps [] = Some costs"
  shows "lookup_costs E snap bins c mid k psps =
    (let missing = filter (\<lambda>p. map_of costs p = None) psps; (extra, c') = fallback_lookup_costs E c mid k missing in
     Some (or_insert_all costs extra, c'))"
proof -
  have f: "fallback_lookup_costs E c mid k [] = ([], c)" by (simp add: fallback_lookup_costs_def)
  have o: "or_insert_all costs [] = costs" by (simp add: or_insert_all_def)
  show ?thesis
  proof (cases "psps = []")
    case True
    with assms show ?thesis by (simp add: lookup_costs_def f or_insert_all_def)
  next
    case False
    show ?thesis
    proof (cases "filter (\<lambda>p. map_of costs p = None) psps = []")
      case True
      with False assms show ?thesis by (simp add: lookup_costs_def Let_def f o)
    next
      case m: False
      with False assms show ?thesis by (simp only: lookup_costs_def if_False Option.bind.simps Let_def)
    qed
  qed
qed

text \<open>
  C26. Whatever history of rebuilds the served tables come from, pricing the gateways of a decision does
  not panic. A gateway the served models price has that price; every other one has what the
  contract rates or the fee service say, asked for exactly the gateways that are not priced, and
  only that call changes the cache of fees.
\<close>

theorem costs_served_first:
  assumes "serving_reachable lower st"
  shows "\<exists>costs. lookup_costs E (sv_cache st) (sv_bins st) c mid k psps =
      Some (costs, snd (fallback_lookup_costs E c mid k
        (filter (\<lambda>p. serving_lookup (ce_serving E) (sv_cache st) (sv_bins st) mid (en_lower (ce_serving E) p)
           (request_of_cluster k) = Some None) psps))) \<and>
    (\<forall>p \<in> set psps.
       case serving_lookup (ce_serving E) (sv_cache st) (sv_bins st) mid (en_lower (ce_serving E) p) (request_of_cluster k) of
         None \<Rightarrow> False
       | Some (Some m) \<Rightarrow> map_of costs p = Some (cost_of_match m)
       | Some None \<Rightarrow> map_of costs p = map_of (fst (fallback_lookup_costs E c mid k
           (filter (\<lambda>p. serving_lookup (ce_serving E) (sv_cache st) (sv_bins st) mid (en_lower (ce_serving E) p)
              (request_of_cluster k) = Some None) psps))) p)"
proof -
  let ?l = "\<lambda>p. serving_lookup (ce_serving E) (sv_cache st) (sv_bins st) mid (en_lower (ce_serving E) p) (request_of_cluster k)"
  note ok = serving_reachable_ok [OF assms]
  obtain ih where ih: "inhouse_costs (ce_serving E) (sv_cache st) (sv_bins st) mid k psps [] = Some ih"
    using inhouse_costs_defined [OF ok] by blast
  have d: "?l p \<noteq> None" for p using lookup_defined [OF ok] by fastforce
  have m: "map_of ih p = (case ?l p of Some (Some m) \<Rightarrow> Some (cost_of_match m) | _ \<Rightarrow> None)" if "p \<in> set psps" for p
    using inhouse_costs_map [OF ih, of p] that by (simp split: option.split)
  have f: "filter (\<lambda>p. map_of ih p = None) psps = filter (\<lambda>p. ?l p = Some None) psps"
    using m d by (intro filter_cong) (auto split: option.split)
  obtain extra c' where fb: "fallback_lookup_costs E c mid k (filter (\<lambda>p. ?l p = Some None) psps) = (extra, c')"
    by (cases "fallback_lookup_costs E c mid k (filter (\<lambda>p. ?l p = Some None) psps)")
  have l: "lookup_costs E (sv_cache st) (sv_bins st) c mid k psps = Some (or_insert_all ih extra, c')"
    unfolding lookup_costs_eq [OF ih] f Let_def fb by simp
  have "case ?l p of None \<Rightarrow> False | Some (Some m) \<Rightarrow> map_of (or_insert_all ih extra) p = Some (cost_of_match m)
      | Some None \<Rightarrow> map_of (or_insert_all ih extra) p = map_of extra p" if "p \<in> set psps" for p
    using d [of p] m [OF that] by (simp add: map_of_or_insert_all split: option.split)
  with l show ?thesis unfolding fb fst_conv snd_conv by blast
qed

section \<open>Amounts and tiers\<close>

definition contiguous :: "serving_segment list \<Rightarrow> bool" where
  "contiguous segs \<longleftrightarrow>
     (\<forall>s \<in> set segs. flt (vs_lo s) (vs_hi s)) \<and> (\<forall>i. Suc i < length segs \<longrightarrow> vs_hi (segs ! i) = vs_lo (segs ! Suc i))"

lemma contiguous_Cons2:
  "contiguous (a # b # r) \<longleftrightarrow> flt (vs_lo a) (vs_hi a) \<and> vs_hi a = vs_lo b \<and> contiguous (b # r)"
  by (fastforce simp: contiguous_def nth_Cons split: nat.split dest: spec [of _ "Suc _"] spec [of _ 0])

lemma beyond_the_last:
  assumes "contiguous segs" "segs \<noteq> []" "fle (vs_lo (hd segs)) amount"
    "\<forall>s \<in> set segs. \<not> (fle (vs_lo s) amount \<and> flt amount (vs_hi s))"
  shows "fle (vs_hi (last segs)) amount"
  using assms
proof (induction segs rule: induct_list012)
  case (2 s)
  then have "flt (vs_lo s) (vs_hi s)" "\<not> flt amount (vs_hi s)" "amount \<noteq> NaN"
    by (auto simp: contiguous_def dest: fle_not_nan)
  then show ?case using not_flt_fle [of amount "vs_hi s"] flt_not_nan by auto
next
  case (3 s t r)
  then have c: "flt (vs_lo s) (vs_hi s)" "vs_hi s = vs_lo t" "contiguous (t # r)" "\<not> flt amount (vs_hi s)" "amount \<noteq> NaN"
    by (auto simp: contiguous_Cons2 dest: fle_not_nan)
  then have "fle (vs_lo t) amount" using not_flt_fle [of amount "vs_hi s"] flt_not_nan by auto
  with "3.IH"(2) c(3) "3.prems"(4) show ?case by simp
qed simp

text \<open>
  On a ladder without gaps every amount is priced by one tier: the one it falls in, the first one
  if it is below all of them, the last one if it is above; with the rate of that tier, or with the
  blend of the ladder if the fit of the tier is not trusted.
\<close>

theorem amount_priced_by_its_tier:
  assumes "contiguous (gc_segments g)" "gc_segments g \<noteq> []" "amount \<noteq> NaN"
  shows "\<exists>s \<in> set (gc_segments g).
    segmented_for_amount g amount = Some (if vs_good s then vs_cost s else gc_blend g) \<and>
    (fle (vs_lo s) amount \<and> flt amount (vs_hi s) \<or> s = hd (gc_segments g) \<and> flt amount (vs_lo s) \<or>
     s = last (gc_segments g) \<and> fle (vs_hi s) amount)"
proof (cases "find (\<lambda>s. fle (vs_lo s) amount \<and> flt amount (vs_hi s)) (gc_segments g)")
  case (Some s)
  then have "s \<in> set (gc_segments g)" "fle (vs_lo s) amount \<and> flt amount (vs_hi s)"
    by (auto simp: find_Some_iff)
  with Some show ?thesis by (intro bexI [of _ s]) (simp_all add: segmented_for_amount_def tier_of_def)
next
  case None
  then have out: "\<forall>s \<in> set (gc_segments g). \<not> (fle (vs_lo s) amount \<and> flt amount (vs_hi s))"
    by (simp add: find_None_iff)
  obtain f r where g: "gc_segments g = f # r" using assms(2) by (cases "gc_segments g") auto
  show ?thesis
  proof (cases "flt amount (vs_lo f)")
    case True
    with None g show ?thesis
      by (intro bexI [of _ f]) (simp_all add: segmented_for_amount_def tier_of_def)
  next
    case False
    have "vs_lo f \<noteq> NaN" using assms(1) g by (auto simp: contiguous_def dest: flt_not_nan)
    with False assms(3) have "fle (vs_lo f) amount" by (simp add: not_flt_fle)
    with beyond_the_last [OF assms(1,2)] out have "fle (vs_hi (last (gc_segments g))) amount" by (simp add: g)
    with None False g show ?thesis
      by (intro bexI [of _ "last (gc_segments g)"]) (simp_all add: segmented_for_amount_def tier_of_def)
  qed
qed

text \<open>In the gap a dropped tier leaves, the price is the one of the last tier, not of a neighbour.\<close>

lemma gap_priced_by_the_last_tier:
  assumes "fle (vs_lo a) amount" "fle (vs_hi a) amount" "flt amount (vs_lo b)" "flt amount (vs_lo c)"
  shows "tier_of [a, b, c] amount = Some c"
proof -
  have "\<not> flt amount (vs_hi a)" "\<not> flt amount (vs_lo a)" "\<not> fle (vs_lo b) amount" "\<not> fle (vs_lo c) amount"
    using assms flt_fle_trans flt_irrefl by (blast dest: flt_fle_trans)+
  then show ?thesis by (simp add: tier_of_def)
qed

lemma unfitted_tier_dropped:
  "parse_f64 (trim (split_on CHR 0x09 line ! 12)) = None \<Longrightarrow> segment_row lower line = None"
  by (simp add: segment_row_def Let_def bind_eq_None_conv)

section \<open>One merchant at a time\<close>

text \<open>
  Rebuilding one merchant changes the served entry of no other merchant, and serves the merchant
  only if it has a model; when the database does not answer, nothing but the map of BINs changes.
\<close>

theorem merchant_rebuild_frame:
  "(other \<noteq> mid \<longrightarrow>
      map_of (sv_cache (fst (refresh_inner lower bins R V (Some mid) st))) other = map_of (sv_cache st) other) \<and>
   ((\<exists>n. snd (refresh_inner lower bins R V (Some mid) st) = Inr n) \<longrightarrow>
      (case map_of (sv_cache (fst (refresh_inner lower bins R V (Some mid) st))) mid of
         None \<Rightarrow> True | Some m \<Rightarrow> \<not> models_is_empty m)) \<and>
   ((\<exists>e. snd (refresh_inner lower bins R V merchant st) = Inl e) \<longrightarrow>
      fst (refresh_inner lower bins R V merchant st) = st\<lparr>sv_bins := bins\<rparr>)"
proof (cases "rr_cost R")
  case Inl
  then show ?thesis by (simp add: refresh_inner_def Let_def)
next
  case c: (Inr cost_rows)
  show ?thesis
  proof (cases "rr_pred R")
    case Inl
    with c show ?thesis by (simp add: refresh_inner_def Let_def)
  next
    case p: (Inr pred_rows)
    define s where "s = load_overlays_into lower V
      (learned_snapshot lower cost_rows pred_rows (case rr_seg R of Inr r \<Rightarrow> r | Inl _ \<Rightarrow> [])) mid"
    define merged where "merged = (case map_of s mid of
          Some m \<Rightarrow> if models_is_empty m then hm_remove mid (sv_cache st) else hm_insert mid m (sv_cache st)
        | None \<Rightarrow> hm_remove mid (sv_cache st))"
    have e: "sv_cache (fst (refresh_inner lower bins R V (Some mid) st)) = merged"
      by (simp add: refresh_inner_def c p Let_def s_def merged_def cong: option.case_cong if_cong)
    have "other \<noteq> mid \<Longrightarrow> map_of merged other = map_of (sv_cache st) other"
      by (cases "map_of s mid") (simp_all add: merged_def)
    moreover have "case map_of merged mid of None \<Rightarrow> True | Some m \<Rightarrow> \<not> models_is_empty m"
      by (cases "map_of s mid") (simp_all add: merged_def)
    moreover have "\<not> (\<exists>e. snd (refresh_inner lower bins R V merchant st) = Inl e)"
      by (cases merchant) (simp_all add: refresh_inner_def c p Let_def)
    ultimately show ?thesis unfolding e by blast
  qed
qed

section \<open>Cards whose number starts with a zero\<close>

definition demo_priced_payment :: priced_payment where
  "demo_priced_payment =
     \<lparr>pp_net_amount = Some (Fin 100), pp_currency = ''EUR'', pp_card_type = None, pp_card_program = None,
      pp_card_switch_provider = None, pp_card_isin = Some ''041234'', pp_card_issuer_bank_name = None,
      pp_card_issuer_country = None, pp_channel = None, pp_payment_method = ''CARD''\<rparr>"

text \<open>The BIN goes through an integer, so the served product of such a card is never found.\<close>

lemma bin_leading_zero_lost:
  "rq_bin (request_of_cluster (derive_cluster_key to_ascii_lowercase to_ascii_uppercase demo_priced_payment)) =
     ''41234'' \<and> bin_key ''41234'' = ''41234'' \<and> bin_key ''041234'' = ''041234''"
proof -
  have t: "non_empty ''041234'' = Some ''041234''" by code_simp
  have d: "is_digit CHR ''0''" "is_digit CHR ''1''" "is_digit CHR ''2''" "is_digit CHR ''3''" "is_digit CHR ''4''"
    by code_simp+
  have "digits_value ''041234'' = 41234" by (simp add: digits_value_def)
  then have p: "parse_u64 ''041234'' = Some 41234" by (simp add: parse_u64_def d)
  have "char_of (49 :: nat) = CHR ''1''" "char_of (50 :: nat) = CHR ''2''" "char_of (51 :: nat) = CHR ''3''"
    "char_of (52 :: nat) = CHR ''4''" by code_simp+
  then have s: "show_nat 41234 = ''41234''" by (simp add: show_nat.simps)
  show ?thesis
    by (simp add: request_of_cluster_def derive_cluster_key_def demo_priced_payment_def t p s bin_key_def d)
qed

section \<open>Instances\<close>

definition contract_rate :: serving_cost where
  "contract_rate = \<lparr>sc_pct_bps = Fin 290, sc_fixed = Fin 0\<rparr>"

definition demo_overlays :: overlay_source where
  "demo_overlays =
     \<lparr>ov_merchants = Some [''m''], ov_addon_merchants = Some [], ov_overrides = (\<lambda>_. Some [(''Stripe'', contract_rate)]),
      ov_clusters = (\<lambda>_. None), ov_addons = (\<lambda>_. Some [])\<rparr>"

definition no_rows :: refresh_rows where
  "no_rows = \<lparr>rr_cost = Inr [], rr_pred = Inr [], rr_seg = Inl ''timeout''\<rparr>"

definition demo_served :: serving_state where
  "demo_served = \<lparr>sv_cache = [(''m'', default_models\<lparr>mm_overrides := [(''stripe'', contract_rate)]\<rparr>)], sv_bins = []\<rparr>"

lemma learned_nothing: "learned_snapshot lower [] [] [] = []"
  by (simp add: learned_snapshot_def cost_sums_def str_lines_def segments_from_tsv_def predictor_tables_def Let_def)

lemma stripe_lower: "to_ascii_lowercase ''Stripe'' = ''stripe''"
  by code_simp

lemma demo_refresh:
  "refresh_inner to_ascii_lowercase [] no_rows demo_overlays None \<lparr>sv_cache = [], sv_bins = []\<rparr> = (demo_served, Inr 1)"
  by (simp add: refresh_inner_def no_rows_def demo_overlays_def learned_nothing overlay_merchants_def load_overlays_into_def
      overlay_entry_def hm_entry_def hm_insert_def collect_costs_def stripe_lower demo_served_def Let_def)

lemma demo_served_reachable: "serving_reachable to_ascii_lowercase demo_served"
  using serving_refresh [OF serving_start, of to_ascii_lowercase "[]" no_rows demo_overlays None]
  by (simp add: demo_refresh)

definition demo_cost_env :: cost_env where
  "demo_cost_env =
     \<lparr>ce_serving = \<lparr>en_lower = to_ascii_lowercase, en_upper = to_ascii_uppercase, en_log10 = (\<lambda>x. x)\<rparr>,
      ce_use_seed_costs = True, ce_stored_seed = (\<lambda>_. None), ce_config_seed = [], ce_ttl = 300, ce_to_json = (\<lambda>_. None),
      ce_cached_token = None, ce_sign_in = None, ce_token_ttl_secs = 82800, ce_fee_rates = (\<lambda>_ _. None),
      ce_get_lock = True, ce_get_now = 0, ce_record_lock = True, ce_record_now = 0\<rparr>"

definition demo_request_key :: cost_cluster_key where
  "demo_request_key = derive_cluster_key to_ascii_lowercase to_ascii_uppercase demo_priced_payment"

lemma demo_lookup:
  "serving_lookup (ce_serving demo_cost_env) (sv_cache demo_served) bins ''m'' (en_lower (ce_serving demo_cost_env) ''Stripe'')
     (request_of_cluster demo_request_key) =
   Some (Some (match_of (ce_serving demo_cost_env) (request_of_cluster demo_request_key) None contract_rate))"
proof -
  have "rq_issuer (request_of_cluster demo_request_key) = []"
    by (simp add: request_of_cluster_def demo_request_key_def derive_cluster_key_def demo_priced_payment_def)
  then have "resolve_fine E m connector (request_of_cluster demo_request_key) = None" for E m connector
    by (simp add: resolve_fine_def)
  moreover have "to_ascii_lowercase ''stripe'' = ''stripe''" by code_simp
  ultimately show ?thesis
    by (simp add: serving_lookup_def demo_served_def demo_cost_env_def stripe_lower Let_def)
qed

theorem costs_served_first_witness:
  "\<forall>c. \<exists>costs c'. lookup_costs demo_cost_env (sv_cache demo_served) (sv_bins demo_served) c ''m'' demo_request_key [''Stripe''] =
     Some (costs, c') \<and>
     map_of costs ''Stripe'' =
       Some (cost_of_match (match_of (ce_serving demo_cost_env) (request_of_cluster demo_request_key) None contract_rate))"
  (is "\<forall>c. ?P c")
proof
  fix c
  show "?P c"
    using costs_served_first [OF demo_served_reachable, of demo_cost_env c "''m''" demo_request_key "[''Stripe'']"]
    by (auto simp: demo_lookup)
qed

definition demo_ladder :: segmented_cost where
  "demo_ladder =
     \<lparr>gc_segments =
        [\<lparr>vs_lo = Fin 0, vs_hi = Fin 10, vs_cost = contract_rate, vs_good = True\<rparr>,
         \<lparr>vs_lo = Fin 10, vs_hi = Fin 20, vs_cost = \<lparr>sc_pct_bps = Fin 70, sc_fixed = Fin 2\<rparr>, vs_good = False\<rparr>],
      gc_blend = \<lparr>sc_pct_bps = Fin 90, sc_fixed = Fin 1\<rparr>, gc_weight = Fin 1\<rparr>"

theorem amount_priced_by_its_tier_witness:
  "segmented_for_amount demo_ladder (Fin 30) = Some (gc_blend demo_ladder)"
proof -
  have "contiguous (gc_segments demo_ladder)" by (simp add: contiguous_def demo_ladder_def nth_Cons split: nat.split)
  from amount_priced_by_its_tier [OF this, of "Fin 30"] show ?thesis
    by (auto simp: demo_ladder_def fle_def)
qed

theorem merchant_rebuild_frame_witness:
  "map_of (sv_cache (fst (refresh_inner to_ascii_lowercase [] no_rows demo_overlays (Some ''n'') demo_served))) ''m'' =
     Some (default_models\<lparr>mm_overrides := [(''stripe'', contract_rate)]\<rparr>)"
  using merchant_rebuild_frame [of "''m''" "''n''" to_ascii_lowercase "[]" no_rows demo_overlays demo_served]
  by (simp add: demo_served_def)

end
