(* ===== verification/Filter_Types.thy ===== *)
theory Filter_Types
  imports Decide Feature Score_Keys "HOL-Library.List_Lexorder" "HOL-Library.Char_ord"
begin

text \<open>
  The data the gateway filters work on (\<open>src/src/decider/gatewaydecider/gw_filter.rs\<close>, with the
  helpers of \<open>utils.rs\<close> and the rows of \<open>src/src/types\<close>): the merchant's gateway accounts, the rows
  of the support tables, the parameters of the decider and the part of its state the filters write.
  A table is the list of its rows, and a query that fails answers as an empty table does, which is
  what every query of the filters makes of an error. The service configurations are the documents
  found under their keys. The JSON parser, Unicode case mapping and the rounding of amounts to two
  decimals are arguments. Structures are decoded from JSON objects, and the members of a
  \<open>HashSet\<close> are listed in the order of their first occurrence.
\<close>

section \<open>The filters by name\<close>

datatype decider_filter_name =
    GetFunctionalGateways
  | FilterFunctionalGatewaysForCurrency
  | FilterBySurcharge
  | FilterFunctionalGatewaysForBrand
  | FilterFunctionalGatewaysForAuthType
  | FilterFunctionalGatewaysForValidationType
  | FilterFunctionalGatewaysForEmi
  | FilterFunctionalGatewaysForTxnOfferDetails
  | FilterFunctionalGatewaysForPaymentMethod
  | FilterFunctionalGatewaysForTokenProvider
  | FilterFunctionalGatewaysForTxnOfferInfo
  | FilterFunctionalGatewaysForWallet
  | FilterFunctionalGatewaysForNbOnly
  | FilterFunctionalGatewaysForConsumerFinance
  | FilterFunctionalGatewaysForUpi
  | FilterFunctionalGatewaysForTxnType
  | FilterFunctionalGatewaysForTxnDetailType
  | FilterFunctionalGatewaysForReward
  | FilterFunctionalGatewaysForCash
  | FilterFunctionalGatewaysForSplitSettlement
  | FilterFunctionalGateways
  | FinalFunctionalGateways
  | FilterByPriorityLogic
  | PreferredGateway
  | FilterEnforcement
  | GatewayPriorityList
  | FilterFunctionalGatewaysForMerchantRequiredFlow
  | FilterGatewaysForMGASelectionIntegrity
  | FilterGatewaysForEMITenureSpecificGatewayCreds
  | FilterFunctionalGatewaysForReversePennyDrop
  | FilterFunctionalGatewaysForOTM
  | FilterFunctionalGatewaysForPixFlows

fun filter_name_to_string :: "decider_filter_name \<Rightarrow> string" where
  "filter_name_to_string GetFunctionalGateways = ''GetFunctionalGateways''"
| "filter_name_to_string FilterFunctionalGatewaysForCurrency = ''FilterFunctionalGatewaysForCurrency''"
| "filter_name_to_string FilterBySurcharge = ''FilterBySurcharge''"
| "filter_name_to_string FilterFunctionalGatewaysForBrand = ''FilterFunctionalGatewaysForBrand''"
| "filter_name_to_string FilterFunctionalGatewaysForAuthType = ''FilterFunctionalGatewaysForAuthType''"
| "filter_name_to_string FilterFunctionalGatewaysForValidationType = ''FilterFunctionalGatewaysForValidationType''"
| "filter_name_to_string FilterFunctionalGatewaysForEmi = ''FilterFunctionalGatewaysForEmi''"
| "filter_name_to_string FilterFunctionalGatewaysForTxnOfferDetails = ''FilterFunctionalGatewaysForTxnOfferDetails''"
| "filter_name_to_string FilterFunctionalGatewaysForPaymentMethod = ''FilterFunctionalGatewaysForPaymentMethod''"
| "filter_name_to_string FilterFunctionalGatewaysForTokenProvider = ''FilterFunctionalGatewaysForTokenProvider''"
| "filter_name_to_string FilterFunctionalGatewaysForTxnOfferInfo = ''FilterFunctionalGatewaysForTxnOfferInfo''"
| "filter_name_to_string FilterFunctionalGatewaysForWallet = ''FilterFunctionalGatewaysForWallet''"
| "filter_name_to_string FilterFunctionalGatewaysForNbOnly = ''FilterFunctionalGatewaysForNbOnly''"
| "filter_name_to_string FilterFunctionalGatewaysForConsumerFinance = ''FilterFunctionalGatewaysForConsumerFinance''"
| "filter_name_to_string FilterFunctionalGatewaysForUpi = ''FilterFunctionalGatewaysForUpi''"
| "filter_name_to_string FilterFunctionalGatewaysForTxnType = ''FilterFunctionalGatewaysForTxnType''"
| "filter_name_to_string FilterFunctionalGatewaysForTxnDetailType = ''FilterFunctionalGatewaysForTxnDetailType''"
| "filter_name_to_string FilterFunctionalGatewaysForReward = ''FilterFunctionalGatewaysForReward''"
| "filter_name_to_string FilterFunctionalGatewaysForCash = ''FilterFunctionalGatewaysForCash''"
| "filter_name_to_string FilterFunctionalGatewaysForSplitSettlement = ''FilterFunctionalGatewaysForSplitSettlement''"
| "filter_name_to_string FilterFunctionalGateways = ''FilterFunctionalGateways''"
| "filter_name_to_string FinalFunctionalGateways = ''FinalFunctionalGateways''"
| "filter_name_to_string FilterByPriorityLogic = ''FilterByPriorityLogic''"
| "filter_name_to_string PreferredGateway = ''PreferredGateway''"
| "filter_name_to_string FilterEnforcement = ''FilterEnforcement''"
| "filter_name_to_string GatewayPriorityList = ''GatewayPriorityList''"
| "filter_name_to_string FilterFunctionalGatewaysForMerchantRequiredFlow = ''FilterFunctionalGatewaysForMerchantRequiredFlow''"
| "filter_name_to_string FilterGatewaysForMGASelectionIntegrity = ''FilterGatewaysForMGASelectionIntegrity''"
| "filter_name_to_string FilterGatewaysForEMITenureSpecificGatewayCreds = ''FilterGatewaysForEMITenureSpecificGatewayCreds''"
| "filter_name_to_string FilterFunctionalGatewaysForReversePennyDrop = ''FilterFunctionalGatewaysForReversePennyDrop''"
| "filter_name_to_string FilterFunctionalGatewaysForOTM = ''FilterFunctionalGatewaysForOTM''"
| "filter_name_to_string FilterFunctionalGatewaysForPixFlows = ''FilterFunctionalGatewaysForPixFlows''"

fun makeFirstLetterSmall :: "string \<Rightarrow> string" where
  "makeFirstLetterSmall [] = []"
| "makeFirstLetterSmall (c # cs) = ascii_lower_char c # cs"

section \<open>Rows\<close>

text \<open>
  A gateway account, with its payment flows as text in the table and decoded elsewhere; a card
  support row likewise with its validation type.
\<close>

record 'f gateway_account =
  mga_id :: int
  mga_account_details :: string
  mga_gateway :: string
  mga_merchant_id :: string
  mga_payment_methods :: "string option"
  mga_supported_payment_flows :: "'f option"
  mga_disabled :: "bool option"
  mga_reference_id :: "string option"
  mga_supported_currencies :: "string option"
  mga_supported_txn_type :: "string option"

record supported_payment_flows =
  payment_flow_ids :: "string list"
  enforcedPaymentFlows :: "string list option"

type_synonym merchant_gateway_account = "supported_payment_flows gateway_account"

datatype validation_type =
    VT_CardMandate | VT_Emandate | VT_Tpv | VT_TpvEmandate | VT_Reward | VT_TpvMandate

fun validation_type_to_text :: "validation_type \<Rightarrow> string" where
  "validation_type_to_text VT_CardMandate = ''CARD_MANDATE''"
| "validation_type_to_text VT_Emandate = ''EMANDATE''"
| "validation_type_to_text VT_Tpv = ''TPV''"
| "validation_type_to_text VT_TpvEmandate = ''TPV_EMANDATE''"
| "validation_type_to_text VT_Reward = ''REWARD''"
| "validation_type_to_text VT_TpvMandate = ''TPV_MANDATE''"

definition text_to_validation_type :: "string \<Rightarrow> validation_type option" where
  "text_to_validation_type t = map_of
     [(''CARD_MANDATE'', VT_CardMandate), (''EMANDATE'', VT_Emandate), (''TPV'', VT_Tpv),
      (''TPV_EMANDATE'', VT_TpvEmandate), (''REWARD'', VT_Reward),
      (''TPV_MANDATE'', VT_TpvMandate)] t"

lemma text_to_validation_type_to_text [simp]:
  "text_to_validation_type (validation_type_to_text v) = Some v"
  by (cases v) (simp_all add: text_to_validation_type_def)

record 'v card_info_row =
  gci_id :: int
  gci_isin :: "string option"
  gci_gateway :: "string option"
  gci_auth_type :: "string option"
  gci_bank_code_id :: "int option"
  gci_disabled :: "bool option"
  gci_validation_type :: "'v option"
  gci_payment_method_type :: "string option"

type_synonym gateway_card_info = "validation_type card_info_row"

record merchant_gateway_card_info =
  mgci_disabled :: bool
  mgci_gateway_card_info_id :: int
  mgci_merchant_account_id :: int
  mgci_emandate_register_max_amount :: "f64 option"
  mgci_merchant_gateway_account_id :: "int option"

record gateway_payment_method_flow =
  gpmf_id :: string
  gpmf_gateway :: string
  gpmf_payment_method_id :: "int option"
  gpmf_payment_flow_id :: string
  gpmf_bank_code_id :: "int option"
  gpmf_country_code :: "string option"
  gpmf_disabled :: bool
  gpmf_payment_method_type :: "string option"

record merchant_gateway_payment_method_flow =
  mgpmf_merchant_gateway_account_id :: int
  mgpmf_gateway_payment_method_flow_id :: string
  mgpmf_disabled :: bool

record gateway_bank_emi_support =
  gbes_gateway :: string
  gbes_bank :: string
  gbes_scope :: "string option"

record gateway_bank_emi_support_v2 =
  gbes2_gateway :: string
  gbes2_bank_code_id :: int
  gbes2_scope :: string
  gbes2_card_type :: string
  gbes2_tenure :: int
  gbes2_metadata :: "string option"

record user_eligibility_info =
  uei_flow_type :: string
  uei_identifier_name :: string
  uei_identifier_value :: string
  uei_provider_name :: string
  uei_disabled :: "bool option"

record merchant_gateway_account_sub_info =
  mgasi_merchant_gateway_account_id :: int
  mgasi_sub_info_type :: string
  mgasi_sub_id_type :: string
  mgasi_juspay_sub_account_id :: string
  mgasi_disabled :: bool

record filter_feature =
  ff_enabled :: bool
  ff_name :: string
  ff_merchant_id :: "string option"

record internal_meta =
  im_isCvvLessTxn :: "bool option"
  im_storedCardVaultProvider :: "string option"
  im_paymentOption :: "string option"
  im_tokenProvider :: "string option"
  im_paymentChannel :: "string option"

datatype vault_provider = VP_Juspay | VP_PayU | VP_Sodexo | VP_Cof | VP_NetworkToken | VP_IssuerToken

section \<open>Parameters, tables and state\<close>

text \<open>What a request carries (\<open>DeciderParams\<close>).\<close>

record filter_params =
  fp_txn :: txn_detail
  fp_is_emi :: "bool option"
  fp_emi_bank :: "string option"
  fp_emi_tenure :: "int option"
  fp_currency :: string
  fp_txn_internal_metadata :: "string option"
  fp_txn_internal_tracking_info :: "string option"
  fp_express_checkout :: "bool option"
  fp_detail_txn_type :: "string option"
  fp_txn_amount :: "f64 option"
  fp_surcharge_amount :: "f64 option"
  fp_tax_amount :: "f64 option"
  fp_card :: txn_card_info
  fp_card_issuer_bank_name :: "string option"
  fp_order_currency :: string
  fp_order_metadata :: "string option"
  fp_merchant_id :: string
  fp_merchant_pid :: int
  fp_gateway_reference_id_based_routing :: "bool option"
  fp_enforce_gateway_list :: "string list option"
  fp_edcc_applied :: "bool option"
  fp_pl_gateway_reference_ids :: "string hmap option"
  fp_vault_provider :: "vault_provider option"
  fp_txn_offer_details :: "string option list option"
  fp_txn_type :: "string option"

text \<open>The stores the filters read, and the code outside the repository they call.\<close>

record filter_env =
  fe_parse :: "string \<Rightarrow> json option"
  fe_render :: "json \<Rightarrow> string"
  fe_upper :: "string \<Rightarrow> string"
  fe_lower :: "string \<Rightarrow> string"
  fe_round2 :: "f64 \<Rightarrow> f64"
  fe_config :: "string \<Rightarrow> json option"
  fe_feature_conf :: "string \<Rightarrow> feature_conf option"
  fe_dimension_conf :: "string \<Rightarrow> dimension_conf option"
  fe_draws :: "string \<Rightarrow> string \<Rightarrow> int \<times> int"
  fe_cvvless_enabled_by_config :: bool
  fe_card_brand_cache :: "string \<Rightarrow> string option"
  fe_card_infos :: "(string \<times> string) list"
  fe_accounts :: "string gateway_account list"
  fe_card_rows :: "string card_info_row list"
  fe_merchant_card_infos :: "merchant_gateway_card_info list"
  fe_method_flows :: "gateway_payment_method_flow list"
  fe_merchant_method_flows :: "merchant_gateway_payment_method_flow list"
  fe_payment_methods :: "(string \<times> int) list"
  fe_bank_codes :: "(string \<times> int) list"
  fe_emi_bank_codes :: "(string \<times> int) list"
  fe_emi_support :: "gateway_bank_emi_support list"
  fe_emi_support_v2 :: "gateway_bank_emi_support_v2 list"
  fe_eligibility :: "user_eligibility_info list"
  fe_sub_infos :: "merchant_gateway_account_sub_info list"
  fe_features :: "filter_feature list"
  fe_offer_discounts :: "f64 list"

text \<open>The part of \<open>DeciderState\<close> that the filters write.\<close>

record filter_state =
  fs_functionalGateways :: "string list"
  fs_mgas :: "merchant_gateway_account list option"
  fs_debugFilterList :: "(string \<times> string list) list"
  fs_paymentFlowList :: "string list"
  fs_is_dynamic_mga_enabled :: bool
  fs_cardBrand :: "string option"
  fs_metadata :: "string hmap option"
  fs_internalMetaData :: "internal_meta option"

definition initial_filter_state :: filter_state where
  "initial_filter_state =
     \<lparr>fs_functionalGateways = [], fs_mgas = None, fs_debugFilterList = [], fs_paymentFlowList = [],
      fs_is_dynamic_mga_enabled = False, fs_cardBrand = None, fs_metadata = None,
      fs_internalMetaData = None\<rparr>"

section \<open>Reading documents\<close>

fun json_bool :: "json \<Rightarrow> bool option" where
  "json_bool (JBool b) = Some b"
| "json_bool _ = None"

fun json_text :: "json \<Rightarrow> string option" where
  "json_text (JStr s) = Some s"
| "json_text _ = None"

fun json_i32 :: "json \<Rightarrow> int option" where
  "json_i32 (JInt i) = (if - (2 ^ 31) \<le> i \<and> i < 2 ^ 31 then Some i else None)"
| "json_i32 _ = None"

fun json_f64 :: "json \<Rightarrow> f64 option" where
  "json_f64 (JFloat x) = Some x"
| "json_f64 (JInt i) = Some (f64_of_int i)"
| "json_f64 _ = None"

definition all_some :: "('a \<Rightarrow> 'b option) \<Rightarrow> 'a list \<Rightarrow> 'b list option" where
  "all_some f xs =
     (if \<forall>x\<in>set xs. f x \<noteq> None then Some (List.map_filter f xs) else None)"

fun json_list :: "(json \<Rightarrow> 'a option) \<Rightarrow> json \<Rightarrow> 'a list option" where
  "json_list f (JArr vs) = all_some f vs"
| "json_list f _ = None"

fun json_dict :: "(json \<Rightarrow> 'a option) \<Rightarrow> json \<Rightarrow> (string \<times> 'a) list option" where
  "json_dict f (JObj kvs) = all_some (\<lambda>(k, v). map_option (Pair k) (f v)) kvs"
| "json_dict f _ = None"

fun json_pair :: "(json \<Rightarrow> 'a option) \<Rightarrow> (json \<Rightarrow> 'b option) \<Rightarrow> json \<Rightarrow> ('a \<times> 'b) option" where
  "json_pair f g (JArr [a, b]) = Option.bind (f a) (\<lambda>x. map_option (Pair x) (g b))"
| "json_pair f g _ = None"

text \<open>A required field of a structure, and one that may be missing or null.\<close>

fun json_member :: "string \<Rightarrow> (json \<Rightarrow> 'a option) \<Rightarrow> json \<Rightarrow> 'a option" where
  "json_member key f (JObj kvs) = Option.bind (map_of kvs key) f"
| "json_member key f _ = None"

fun json_optional :: "string \<Rightarrow> (json \<Rightarrow> 'a option) \<Rightarrow> json \<Rightarrow> 'a option option" where
  "json_optional key f (JObj kvs) =
     (case map_of kvs key of
        None \<Rightarrow> Some None
      | Some JNull \<Rightarrow> Some None
      | Some v \<Rightarrow> map_option Some (f v))"
| "json_optional key f _ = None"

text \<open>
  A key of an account's details: its value, or the value written inside its text.
\<close>

definition get_value :: "filter_env \<Rightarrow> (json \<Rightarrow> 'a option) \<Rightarrow> string \<Rightarrow> string \<Rightarrow> 'a option" where
  "get_value e f key text =
     Option.bind (Option.bind (fe_parse e text) (json_member key Some)) (\<lambda>val.
       opt_or (f val)
         (case val of
            JStr s \<Rightarrow>
              Option.bind
                (if s = ''True'' then Some (JBool True)
                 else if s = ''False'' then Some (JBool False)
                 else fe_parse e s) f
          | _ \<Rightarrow> None))"

text \<open>The configuration under a key, when it has the expected shape.\<close>

definition findByNameFromRedis :: "filter_env \<Rightarrow> (json \<Rightarrow> 'a option) \<Rightarrow> string \<Rightarrow> 'a option" where
  "findByNameFromRedis e f key = Option.bind (fe_config e key) f"

definition gateways_config :: "filter_env \<Rightarrow> string \<Rightarrow> string list" where
  "gateways_config e key = unwrap_or (findByNameFromRedis e (json_list json_text) key) []"

definition gateways_by_name :: "filter_env \<Rightarrow> string \<Rightarrow> string list hmap" where
  "gateways_by_name e key =
     unwrap_or (findByNameFromRedis e (json_dict (json_list json_text)) key) []"

end
