(* ===== verification/Filter_Utils.thy ===== *)
theory Filter_Utils
  imports Filter_Types
begin

text \<open>
  What the gateway filters share (\<open>gw_filter.rs\<close>, \<open>utils.rs\<close> and
  \<open>src/src/decider/storage/utils\<close>): setting the functional gateways and the accounts, the order
  metadata and the reference identifiers found in it, the queries over the gateway accounts, the
  flags of an account and the kinds of a transaction.
\<close>

section \<open>Lists\<close>

definition ord_nub :: "'a::linorder list \<Rightarrow> 'a list" where
  "ord_nub v = remdups (sort v)"

lemma set_ord_nub [simp]: "set (ord_nub v) = set v"
  by (simp add: ord_nub_def)

lemma distinct_ord_nub [simp]: "distinct (ord_nub v)"
  by (simp add: ord_nub_def)

definition catMaybes :: "'a option list \<Rightarrow> 'a list" where
  "catMaybes options = List.map_filter (\<lambda>opt. opt) options"

lemma set_catMaybes: "set (catMaybes os) = {x. Some x \<in> set os}"
  by (force simp: catMaybes_def List.map_filter_def)

definition intersect :: "'a list \<Rightarrow> 'a list \<Rightarrow> 'a list" where
  "intersect a b = filter (\<lambda>x. x \<in> set b) (remdups a)"

lemma set_intersect [simp]: "set (intersect a b) = set a \<inter> set b"
  by (auto simp: intersect_def)

definition ends_with :: "string \<Rightarrow> string \<Rightarrow> bool" where
  "ends_with s suf \<longleftrightarrow> take (length suf) (rev s) = rev suf"

section \<open>The state\<close>

definition getGws :: "filter_state \<Rightarrow> string list" where
  "getGws s = fs_functionalGateways s"

definition get_mgas :: "filter_state \<Rightarrow> merchant_gateway_account list option" where
  "get_mgas s = fs_mgas s"

definition set_mgas :: "merchant_gateway_account list \<Rightarrow> filter_state \<Rightarrow> filter_state" where
  "set_mgas mgas s = s\<lparr>fs_mgas := Some mgas\<rparr>"

definition returnGwListWithLog :: "decider_filter_name \<Rightarrow> bool \<Rightarrow> filter_state \<Rightarrow> filter_state" where
  "returnGwListWithLog fName doOrNot s =
     (if doOrNot
      then s\<lparr>fs_debugFilterList :=
               fs_debugFilterList s
               @ [(makeFirstLetterSmall (filter_name_to_string fName), getGws s)]\<rparr>
      else s)"

definition setGwsAndMgas :: "merchant_gateway_account list \<Rightarrow> filter_state \<Rightarrow> filter_state" where
  "setGwsAndMgas filteredMgas s =
     (set_mgas filteredMgas s)
       \<lparr>fs_functionalGateways := ord_nub (List.map mga_gateway filteredMgas)\<rparr>"

definition setGws :: "string list \<Rightarrow> filter_state \<Rightarrow> filter_state" where
  "setGws gws s =
     (let s1 = (case get_mgas s of
                  Some mgas \<Rightarrow> set_mgas (filter (\<lambda>val. mga_gateway val \<in> set gws) mgas) s
                | None \<Rightarrow> s)
      in s1\<lparr>fs_functionalGateways := gws\<rparr>)"

section \<open>Order metadata and reference identifiers\<close>

definition decode_metadata :: "filter_env \<Rightarrow> string \<Rightarrow> string hmap" where
  "decode_metadata e text =
     List.map (\<lambda>(k, v). (k, case v of JStr s \<Rightarrow> s | _ \<Rightarrow> fe_render e v))
       (unwrap_or (Option.bind (fe_parse e text) (json_dict Some)) [])"

definition get_metadata :: "filter_env \<Rightarrow> filter_params \<Rightarrow> filter_state \<Rightarrow> string hmap \<times> filter_state" where
  "get_metadata e p s =
     (case fs_metadata s of
        Some m \<Rightarrow> (m, s)
      | None \<Rightarrow>
          (let m = (case fp_order_metadata p of Some text \<Rightarrow> decode_metadata e text | None \<Rightarrow> [])
           in (m, s\<lparr>fs_metadata := Some m\<rparr>)))"

definition is_enabled_for_all_mgas :: "filter_env \<Rightarrow> filter_params \<Rightarrow> filter_state \<Rightarrow> bool \<times> filter_state" where
  "is_enabled_for_all_mgas e p s =
     (let (m, s1) = get_metadata e p s in (map_of m ''enabledForAllMgas'' \<noteq> None, s1))"

definition get_pl_gw_ref_id_map :: "filter_params \<Rightarrow> string hmap" where
  "get_pl_gw_ref_id_map p = unwrap_or (fp_pl_gateway_reference_ids p) []"

definition order_metadata_and_pl_ref_ids ::
  "filter_env \<Rightarrow> filter_params \<Rightarrow> filter_state \<Rightarrow> (string hmap \<times> string hmap) \<times> filter_state" where
  "order_metadata_and_pl_ref_ids e p s =
     (if unwrap_or (fp_gateway_reference_id_based_routing p) False
      then (let (order_metadata, s1) = get_metadata e p s
            in ((order_metadata, get_pl_gw_ref_id_map p), s1))
      else (([], []), s))"

definition is_suffix_of_gateway_ref_id :: "string hmap \<Rightarrow> string list" where
  "is_suffix_of_gateway_ref_id kvs =
     List.map snd (filter (\<lambda>(key, _). ends_with key ''gateway_reference_id'') kvs)"

definition get_all_possible_ref_ids :: "string hmap \<Rightarrow> string hmap \<Rightarrow> string list" where
  "get_all_possible_ref_ids metadata pl_ref_id_map =
     is_suffix_of_gateway_ref_id metadata @ is_suffix_of_gateway_ref_id pl_ref_id_map"

section \<open>Queries over the accounts\<close>

definition to_supported_payment_flows :: "filter_env \<Rightarrow> string \<Rightarrow> supported_payment_flows option" where
  "to_supported_payment_flows e text =
     Option.bind (fe_parse e text) (\<lambda>v.
       Option.bind (json_member ''paymentFlowIds'' (json_list json_text) v) (\<lambda>ids.
         map_option (\<lambda>enforced. \<lparr>payment_flow_ids = ids, enforcedPaymentFlows = enforced\<rparr>)
           (json_optional ''enforcedPaymentFlows'' (json_list json_text) v)))"

definition mga_try_from :: "filter_env \<Rightarrow> string gateway_account \<Rightarrow> merchant_gateway_account option" where
  "mga_try_from e r =
     map_option
       (\<lambda>flows.
          \<lparr>mga_id = mga_id r, mga_account_details = mga_account_details r, mga_gateway = mga_gateway r,
           mga_merchant_id = mga_merchant_id r, mga_payment_methods = mga_payment_methods r,
           mga_supported_payment_flows = flows, mga_disabled = mga_disabled r,
           mga_reference_id = mga_reference_id r,
           mga_supported_currencies = mga_supported_currencies r,
           mga_supported_txn_type = mga_supported_txn_type r\<rparr>)
       (case mga_supported_payment_flows r of
          None \<Rightarrow> Some None
        | Some text \<Rightarrow> map_option Some (to_supported_payment_flows e text))"

definition getEnabledMgasByMerchantId :: "filter_env \<Rightarrow> string \<Rightarrow> merchant_gateway_account list" where
  "getEnabledMgasByMerchantId e mid =
     List.map_filter (mga_try_from e) (filter (\<lambda>r. mga_merchant_id r = mid) (fe_accounts e))"

definition getEnabledMgasByMerchantIdAndRefId ::
  "filter_env \<Rightarrow> string \<Rightarrow> string list \<Rightarrow> merchant_gateway_account list" where
  "getEnabledMgasByMerchantIdAndRefId e mid ref_ids =
     List.map_filter (mga_try_from e)
       (filter (\<lambda>r. mga_merchant_id r = mid
                   \<and> (case mga_reference_id r of None \<Rightarrow> True | Some i \<Rightarrow> i \<in> set ref_ids)
                   \<and> mga_disabled r \<noteq> Some True)
          (fe_accounts e))"

definition filter_morpheus :: "merchant_gateway_account list \<Rightarrow> merchant_gateway_account list" where
  "filter_morpheus mgas = filter (\<lambda>mga. mga_gateway mga \<noteq> ''MORPHEUS'') mgas"

definition get_all_enabled_mgas_by_merchant_id :: "filter_env \<Rightarrow> string \<Rightarrow> merchant_gateway_account list" where
  "get_all_enabled_mgas_by_merchant_id e mid = filter_morpheus (getEnabledMgasByMerchantId e mid)"

definition get_enabled_mgas_by_merchant_id_and_ref_id ::
  "filter_env \<Rightarrow> filter_params \<Rightarrow> string list \<Rightarrow> filter_state
   \<Rightarrow> merchant_gateway_account list \<times> filter_state" where
  "get_enabled_mgas_by_merchant_id_and_ref_id e p ref_ids s =
     (case get_mgas s of
        Some c_mgas \<Rightarrow> (c_mgas, s)
      | None \<Rightarrow>
          (let filtered_mgas =
             filter_morpheus (getEnabledMgasByMerchantIdAndRefId e (fp_merchant_id p) ref_ids)
           in (filtered_mgas, set_mgas filtered_mgas s)))"

section \<open>Flags of an account\<close>

definition is_payment_flow_enabled_in_mga :: "merchant_gateway_account \<Rightarrow> string \<Rightarrow> bool option" where
  "is_payment_flow_enabled_in_mga mga payment_flow =
     map_option (\<lambda>flows. payment_flow \<in> set (payment_flow_ids flows)) (mga_supported_payment_flows mga)"

definition check_if_enabled_in_mga ::
  "filter_env \<Rightarrow> merchant_gateway_account \<Rightarrow> string \<Rightarrow> string \<Rightarrow> bool" where
  "check_if_enabled_in_mga e mga payment_flow flag =
     unwrap_or (is_payment_flow_enabled_in_mga mga payment_flow)
       (unwrap_or (get_value e json_bool flag (mga_account_details mga)) False)"

definition check_if_no_ds_enabled_in_mga ::
  "filter_env \<Rightarrow> merchant_gateway_account \<Rightarrow> string \<Rightarrow> string \<Rightarrow> bool" where
  "check_if_no_ds_enabled_in_mga e mga payment_flow flag =
     unwrap_or (is_payment_flow_enabled_in_mga mga payment_flow)
       (unwrap_or (get_value e json_bool flag (mga_account_details mga)) True)"

definition check_for_reverse_penny_drop_in_mga :: "merchant_gateway_account \<Rightarrow> bool" where
  "check_for_reverse_penny_drop_in_mga mga =
     (case mga_supported_payment_flows mga of
        None \<Rightarrow> False
      | Some pf \<Rightarrow> ''REVERSE_PENNY_DROP'' \<in> set (payment_flow_ids pf))"

definition is_seamless :: "filter_env \<Rightarrow> merchant_gateway_account \<Rightarrow> bool" where
  "is_seamless e mga = unwrap_or (get_value e json_bool ''seamless'' (mga_account_details mga)) False"

definition is_subscription :: "filter_env \<Rightarrow> merchant_gateway_account \<Rightarrow> bool" where
  "is_subscription e mga = check_if_enabled_in_mga e mga ''MANDATE'' ''subscription''"

definition is_emandate_enabled :: "filter_env \<Rightarrow> merchant_gateway_account \<Rightarrow> bool" where
  "is_emandate_enabled e mga = check_if_enabled_in_mga e mga ''EMANDATE'' ''enableEmandate''"

definition is_only_subscription :: "filter_env \<Rightarrow> merchant_gateway_account \<Rightarrow> bool" where
  "is_only_subscription e mga = check_if_enabled_in_mga e mga ''SUBSCRIPTION_ONLY'' ''onlySubscription''"

definition is_otm_enabled :: "filter_env \<Rightarrow> merchant_gateway_account \<Rightarrow> bool" where
  "is_otm_enabled e mga = check_if_enabled_in_mga e mga ''ONE_TIME_MANDATE'' ''OTM_ENABLED''"

definition is_pix_flows_enabled ::
  "filter_env \<Rightarrow> merchant_gateway_account \<Rightarrow> string \<Rightarrow> string \<Rightarrow> bool" where
  "is_pix_flows_enabled e mga payment_flow flag = check_if_enabled_in_mga e mga payment_flow flag"

definition is_tpv_only_gateway :: "filter_env \<Rightarrow> merchant_gateway_account \<Rightarrow> bool" where
  "is_tpv_only_gateway e mga = check_if_enabled_in_mga e mga ''TPV_ONLY'' ''tpvOnly''"

definition is_vies_enabled :: "filter_env \<Rightarrow> merchant_gateway_account \<Rightarrow> bool" where
  "is_vies_enabled e mga = check_if_enabled_in_mga e mga ''CARD_VIES'' ''viesEnabled''"

definition is_split_settlement_only_gateway :: "filter_env \<Rightarrow> merchant_gateway_account \<Rightarrow> bool" where
  "is_split_settlement_only_gateway e mga =
     check_if_enabled_in_mga e mga ''SPLIT_SETTLE_ONLY'' ''splitSettlementOnly''"

definition get_emandate_enabled_mga ::
  "filter_env \<Rightarrow> filter_params \<Rightarrow> string list \<Rightarrow> filter_state
   \<Rightarrow> merchant_gateway_account list \<times> filter_state" where
  "get_emandate_enabled_mga e p ref_ids s =
     (let (enabled_mgas, s1) = get_enabled_mgas_by_merchant_id_and_ref_id e p ref_ids s
      in (filter (is_emandate_enabled e) enabled_mgas, s1))"

definition get_tpv_only_gateway_accounts ::
  "filter_env \<Rightarrow> filter_params \<Rightarrow> string list \<Rightarrow> merchant_gateway_account list" where
  "get_tpv_only_gateway_accounts e p ref_ids =
     filter (is_tpv_only_gateway e)
       (filter_morpheus (getEnabledMgasByMerchantIdAndRefId e (fp_merchant_id p) ref_ids))"

definition get_split_settlement_only_gateway_accounts ::
  "filter_env \<Rightarrow> filter_params \<Rightarrow> string list \<Rightarrow> merchant_gateway_account list" where
  "get_split_settlement_only_gateway_accounts e p ref_ids =
     filter (is_split_settlement_only_gateway e)
       (filter_morpheus (getEnabledMgasByMerchantIdAndRefId e (fp_merchant_id p) ref_ids))"

section \<open>Kinds of transaction\<close>

definition is_nb_transaction :: "txn_card_info \<Rightarrow> bool" where
  "is_nb_transaction i \<longleftrightarrow> tci_card_type i = Some CT_Nb"

definition is_google_pay_txn :: "txn_card_info \<Rightarrow> bool" where
  "is_google_pay_txn i \<longleftrightarrow> tci_payment_method_type i = ''WALLET'' \<and> tci_payment_method i = ''GOOGLEPAY''"

definition is_emandate_supported_payment_method :: "txn_card_info \<Rightarrow> bool" where
  "is_emandate_supported_payment_method i \<longleftrightarrow>
     tci_payment_method_type i \<in>
       {''CARD'', ''NB'', ''WALLET'', ''UPI'', ''AADHAAR'', ''PAPERNACH'', ''PAN'', ''RTP''}"

definition is_emandate_transaction :: "txn_detail \<Rightarrow> bool" where
  "is_emandate_transaction t \<longleftrightarrow>
     td_txn_object_type t \<in> {Some EmandateRegister, Some TpvEmandateRegister, Some EmandatePayment,
                               Some TpvEmandatePayment}"

definition is_emandate_payment_transaction :: "txn_detail \<Rightarrow> bool" where
  "is_emandate_payment_transaction t \<longleftrightarrow>
     td_txn_object_type t \<in> {Some EmandatePayment, Some TpvEmandatePayment}"

definition is_recurring_payment_transaction :: "txn_detail \<Rightarrow> bool" where
  "is_recurring_payment_transaction t \<longleftrightarrow>
     td_txn_object_type t \<in> {Some EmandatePayment, Some TpvEmandatePayment, Some MandatePayment,
                               Some TpvMandatePayment}"

definition is_tpv_transaction :: "txn_detail \<Rightarrow> bool" where
  "is_tpv_transaction t \<longleftrightarrow> td_txn_object_type t = Some TpvPayment"

definition is_tpv_mandate_transaction :: "txn_detail \<Rightarrow> bool" where
  "is_tpv_mandate_transaction t \<longleftrightarrow> td_txn_object_type t = Some TpvEmandateRegister"

definition is_mandate_transaction :: "txn_detail \<Rightarrow> bool" where
  "is_mandate_transaction t \<longleftrightarrow> td_txn_object_type t \<in> {Some MandateRegister, Some MandatePayment}"

definition is_emandate_register_transaction :: "txn_detail \<Rightarrow> bool" where
  "is_emandate_register_transaction t \<longleftrightarrow> td_txn_object_type t = Some EmandateRegister"

section \<open>Payment flows and internal metadata\<close>

definition PAYMENT_FLOWS_REQUIRED_FOR_GW_FILTERING :: "string list" where
  "PAYMENT_FLOWS_REQUIRED_FOR_GW_FILTERING =
     [''DOTP'', ''CARD_MOTO'', ''MANDATE_REGISTER'', ''MANDATE_PAYMENT'', ''EMANDATE_REGISTER'',
      ''EMANDATE_PAYMENT'', ''TA_FILE'', ''REVERSE_PENNY_DROP'', ''MUTUAL_FUND'',
      ''CROSS_BORDER_PAYMENT'', ''SINGLE_BLOCK_MULTIPLE_DEBIT'', ''ONE_TIME_MANDATE'',
      ''PIX_AUTOMATIC_REDIRECT'']"

definition get_payment_flow_list_from_txn_detail :: "filter_env \<Rightarrow> filter_params \<Rightarrow> string list" where
  "get_payment_flow_list_from_txn_detail e p =
     (case Option.bind (Option.bind (fp_txn_internal_tracking_info p) (fe_parse e))
             (json_member ''paymentFlowInfo'' (json_member ''paymentFlows'' (json_list json_text))) of
        Some flows \<Rightarrow> filter (\<lambda>flow. flow \<in> set PAYMENT_FLOWS_REQUIRED_FOR_GW_FILTERING) flows
      | None \<Rightarrow> [])"

definition is_reverse_penny_drop_txn :: "filter_env \<Rightarrow> filter_params \<Rightarrow> bool" where
  "is_reverse_penny_drop_txn e p \<longleftrightarrow>
     ''REVERSE_PENNY_DROP'' \<in> set (get_payment_flow_list_from_txn_detail e p)"

definition decode_internal_metadata :: "json \<Rightarrow> internal_meta option" where
  "decode_internal_metadata v =
     Option.bind (json_optional ''isCvvLessTxn'' json_bool v) (\<lambda>a.
     Option.bind (json_optional ''storedCardVaultProvider'' json_text v) (\<lambda>b.
     Option.bind (json_optional ''paymentOption'' json_text v) (\<lambda>c.
     Option.bind (json_optional ''tokenProvider'' json_text v) (\<lambda>d.
     map_option
       (\<lambda>f. \<lparr>im_isCvvLessTxn = a, im_storedCardVaultProvider = b, im_paymentOption = c,
             im_tokenProvider = d, im_paymentChannel = f\<rparr>)
       (json_optional ''paymentChannel'' json_text v)))))"

definition stored_card_vault_provider :: "internal_meta option \<Rightarrow> string option" where
  "stored_card_vault_provider m = Option.bind m im_storedCardVaultProvider"

definition is_token_repeat_txn :: "internal_meta option \<Rightarrow> bool" where
  "is_token_repeat_txn m \<longleftrightarrow>
     stored_card_vault_provider m \<in> {Some ''NETWORK_TOKEN'', Some ''ISSUER_TOKEN'', Some ''ALT_ID''}"

definition is_network_token_repeat_txn :: "internal_meta option \<Rightarrow> bool" where
  "is_network_token_repeat_txn m \<longleftrightarrow> stored_card_vault_provider m = Some ''NETWORK_TOKEN''"

definition is_issuer_token_repeat_txn :: "internal_meta option \<Rightarrow> bool" where
  "is_issuer_token_repeat_txn m \<longleftrightarrow> stored_card_vault_provider m = Some ''ISSUER_TOKEN''"

definition is_alt_id_based_txn :: "internal_meta option \<Rightarrow> bool" where
  "is_alt_id_based_txn m \<longleftrightarrow> stored_card_vault_provider m = Some ''ALT_ID''"

definition get_juspay_bank_code_from_internal_metadata :: "filter_env \<Rightarrow> filter_params \<Rightarrow> string option" where
  "get_juspay_bank_code_from_internal_metadata e p =
     Option.bind (Option.bind (fp_txn_internal_metadata p) (fe_parse e)) (json_member ''juspayBankCode'' json_text)"

definition payment_source_value :: "filter_env \<Rightarrow> string \<Rightarrow> txn_card_info \<Rightarrow> string option" where
  "payment_source_value e key i = Option.bind (tci_payment_source i) (get_value e json_text key)"

definition fetch_emi_type :: "filter_env \<Rightarrow> txn_card_info \<Rightarrow> string option" where
  "fetch_emi_type e i = payment_source_value e ''emi_type'' i"

definition check_no_or_low_cost_emi :: "filter_env \<Rightarrow> txn_card_info \<Rightarrow> bool" where
  "check_no_or_low_cost_emi e i \<longleftrightarrow> fetch_emi_type e i \<in> {Some ''NO_COST_EMI'', Some ''LOW_COST_EMI''}"

section \<open>Features\<close>

definition feature_on :: "filter_env \<Rightarrow> string \<Rightarrow> string \<Rightarrow> bool" where
  "feature_on e f_name mid =
     is_feature_enabled (fe_lower e) (fst (fe_draws e f_name mid)) (fe_feature_conf e) f_name mid"

definition dimension_on :: "filter_env \<Rightarrow> string \<Rightarrow> string \<Rightarrow> bool" where
  "dimension_on e f_name dimension =
     check_dimension_enabled (fe_lower e) (fst (fe_draws e f_name dimension)) (snd (fe_draws e f_name dimension))
       (fe_dimension_conf e f_name) dimension"

definition get_feature_enabled :: "filter_env \<Rightarrow> string \<Rightarrow> string \<Rightarrow> bool \<Rightarrow> filter_feature option" where
  "get_feature_enabled e feature_name mid enabled =
     find (\<lambda>r. ff_name r = feature_name \<and> ff_merchant_id r = Some mid \<and> ff_enabled r = enabled)
       (fe_features e)"

section \<open>Card numbers\<close>

definition get_bin_list :: "string option \<Rightarrow> string option list" where
  "get_bin_list card_bin =
     (case get_true_string card_bin of
        None \<Rightarrow> []
      | Some bin \<Rightarrow>
          if 6 < length bin then List.map (\<lambda>len. Some (take (min len (length bin)) bin)) [6, 7, 8, 9]
          else [Some bin])"

definition is_ascii_digit :: "char \<Rightarrow> bool" where
  "is_ascii_digit c \<longleftrightarrow> 48 \<le> (of_char c :: nat) \<and> (of_char c :: nat) \<le> 57"

definition to_isin :: "string \<Rightarrow> string option" where
  "to_isin value =
     (let digits = filter is_ascii_digit value
      in if length digits \<in> {6, 7, 8, 9} then Some digits else None)"

definition get_card_brand_from_db :: "filter_env \<Rightarrow> string option \<Rightarrow> string option" where
  "get_card_brand_from_db e isin =
     map_option (fe_upper e) (Option.bind (Option.bind isin to_isin) (map_of (fe_card_infos e)))"

definition get_card_brand :: "filter_env \<Rightarrow> filter_params \<Rightarrow> filter_state \<Rightarrow> string option \<times> filter_state" where
  "get_card_brand e p s =
     (case fs_cardBrand s of
        Some cb \<Rightarrow> (Some cb, s)
      | None \<Rightarrow>
          (let m_isin = tci_card_isin (fp_card p);
               brand =
                 (case get_true_string m_isin of
                    None \<Rightarrow> None
                  | Some isin \<Rightarrow>
                      (case to_isin (filter is_ascii_digit isin) of
                         None \<Rightarrow> None
                       | Some card_isin \<Rightarrow>
                           (case fe_card_brand_cache e (''card_brand_'' @ card_isin) of
                              Some val \<Rightarrow> Some val
                            | None \<Rightarrow> get_card_brand_from_db e m_isin)))
           in (brand, s\<lparr>fs_cardBrand := brand\<rparr>)))"

section \<open>Gateways that take tokens\<close>

definition get_stored_card_vault_provider :: "internal_meta option \<Rightarrow> string" where
  "get_stored_card_vault_provider m = unwrap_or (stored_card_vault_provider m) ''DEFAULT''"

definition get_token_provider :: "filter_env \<Rightarrow> internal_meta option \<Rightarrow> txn_card_info \<Rightarrow> string \<Rightarrow> string" where
  "get_token_provider e m i card_switch_provider =
     (let by_bank = unwrap_or (fetch_juspay_bank_code (fe_parse e) i) ''DEFAULT'' in
      case m of
        Some im \<Rightarrow>
          (case im_tokenProvider im of
             Some token_provider \<Rightarrow> token_provider
           | None \<Rightarrow>
               if im_storedCardVaultProvider im = Some ''NETWORK_TOKEN'' then card_switch_provider
               else by_bank)
      | None \<Rightarrow> by_bank)"

definition gateways_or_none :: "filter_env \<Rightarrow> string \<Rightarrow> string list option" where
  "gateways_or_none e key =
     unwrap_or (findByNameFromRedis e (\<lambda>v. if v = JNull then Some None else map_option Some (json_list json_text v)) key) None"

definition get_network_token_supported_gateways :: "filter_env \<Rightarrow> string \<Rightarrow> string \<Rightarrow> string list option" where
  "get_network_token_supported_gateways e flow network =
     (if flow = ''OTP'' then gateways_or_none e (network @ ''_TOKEN_REPEAT_OTP_SUPPORTED_GATEWAYS'')
      else if flow = ''CVV_LESS'' then
        gateways_or_none e (network @ ''_TOKEN_REPEAT_CVVLESS_SUPPORTED_GATEWAYS'')
      else if flow = ''MANDATE'' then
        gateways_or_none e (network @ ''_TOKEN_REPEAT_MANDATE_SUPPORTED_GATEWAYS'')
      else if flow = ''CARD'' then gateways_or_none e (network @ ''_TOKEN_REPEAT_SUPPORTED_GATEWAYS'')
      else Some [])"

definition TokenSupportedGateways_key :: "string \<Rightarrow> string option \<Rightarrow> string \<Rightarrow> string \<Rightarrow> string" where
  "TokenSupportedGateways_key brand token_provider provider_category flow =
     brand @ ''_'' @ unwrap_or token_provider [] @ ''_'' @ provider_category @ ''_'' @ flow
     @ ''_SUPPORTED_GATEWAYS''"

definition get_token_supported_gateways_key ::
  "filter_env \<Rightarrow> string \<Rightarrow> string \<Rightarrow> string \<Rightarrow> string \<Rightarrow> string list option" where
  "get_token_supported_gateways_key e brand provider_category token_provider flow =
     gateways_or_none e
       (TokenSupportedGateways_key brand (if brand = token_provider then None else Some token_provider)
          provider_category flow)"

definition get_token_supported_gateways ::
  "filter_env \<Rightarrow> filter_params \<Rightarrow> string \<Rightarrow> internal_meta option \<Rightarrow> string list option" where
  "get_token_supported_gateways e p flow m =
     (let token_type = get_stored_card_vault_provider m;
          brand = unwrap_or (tci_card_switch_provider (fp_card p)) ''DEFAULT'';
          token_provider = get_token_provider e m (fp_card p) brand
      in if token_type = ''NETWORK_TOKEN'' then get_network_token_supported_gateways e flow brand
         else get_token_supported_gateways_key e brand token_type token_provider flow)"

end
