(* ===== verification/Filter_Functional.thy ===== *)
theory Filter_Functional
  imports Filter_Utils
begin

text \<open>
  The functional gateways of a payment (\<open>getFunctionalGateways\<close> and \<open>filterFunctionalGateways\<close> of
  \<open>gw_filter.rs\<close>): the merchant's accounts narrowed by the enforced list, the reference identifier,
  dynamic currency conversion, the enforced payment flows, the currency, reverse penny drop and the
  transaction's kind, and then by what card payments without CVV, repeated with a token or filed by
  travel agents need. Whether the merchant's configuration enables the flow without CVV is an
  argument.
\<close>

section \<open>Currencies\<close>

definition currency_codes :: "string list" where
  "currency_codes =
    [''AED'', ''ALL'', ''AMD'', ''ARS'', ''AUD'', ''AWG'', ''AZN'', ''BBD'', ''BDT'', ''BHD'',
     ''BMD'', ''BND'', ''BOB'', ''BRL'', ''BSD'', ''BWP'', ''BZD'', ''CAD'', ''CHF'', ''CNY'',
     ''COP'', ''CRC'', ''CUP'', ''CZK'', ''DKK'', ''DOP'', ''DZD'', ''EGP'', ''ETB'', ''EUR'',
     ''FJD'', ''GBP'', ''GHS'', ''GIP'', ''GMD'', ''GTQ'', ''GYD'', ''HKD'', ''HNL'', ''HRK'',
     ''HTG'', ''HUF'', ''IDR'', ''ILS'', ''INR'', ''JMD'', ''JOD'', ''JPY'', ''KES'', ''KGS'',
     ''KHR'', ''KRW'', ''KWD'', ''KYD'', ''KZT'', ''LAK'', ''LBP'', ''LKR'', ''LRD'', ''LSL'',
     ''MAD'', ''MDL'', ''MKD'', ''MMK'', ''MNT'', ''MOP'', ''MUR'', ''MVR'', ''MWK'', ''MXN'',
     ''MYR'', ''NAD'', ''NGN'', ''NIO'', ''NOK'', ''NPR'', ''NZD'', ''OMR'', ''PEN'', ''PGK'',
     ''PHP'', ''PKR'', ''PLN'', ''QAR'', ''RUB'', ''SAR'', ''SCR'', ''SEK'', ''SGD'', ''SLL'',
     ''SOS'', ''SSP'', ''SVC'', ''SZL'', ''THB'', ''TTD'', ''TWD'', ''TZS'', ''USD'', ''UYU'',
     ''UZS'', ''YER'', ''ZAR'', ''TRY'', ''AFN'', ''ANG'', ''AOA'', ''BAM'', ''BGN'', ''BIF'',
     ''BOV'', ''BTN'', ''BYN'', ''CDF'', ''CHE'', ''CHW'', ''CLF'', ''CLP'', ''COU'', ''CUC'',
     ''CVE'', ''DJF'', ''ERN'', ''FKP'', ''GEL'', ''GNF'', ''IQD'', ''IRR'', ''ISK'', ''KMF'',
     ''KPW'', ''LYD'', ''MGA'', ''MRO'', ''MXV'', ''MZN'', ''PAB'', ''PYG'', ''RSD'', ''RWF'',
     ''SBD'', ''SDG'', ''SHP'', ''SRD'', ''STD'', ''SYP'', ''TJS'', ''TMT'', ''TND'', ''TOP'',
     ''UAH'', ''UGX'', ''USN'', ''UYI'', ''VEF'', ''VND'', ''VUV'', ''WST'', ''XAF'', ''XAG'',
     ''XAU'', ''XBA'', ''XBB'', ''XBC'', ''XBD'', ''XCD'', ''XDR'', ''XOF'', ''XPD'', ''XPF'',
     ''XPT'', ''XSU'', ''XTS'', ''XUA'', ''XXX'', ''ZMW'', ''ZWL'']"

definition text_to_curr :: "string \<Rightarrow> string option" where
  "text_to_curr text = (if text \<in> set currency_codes then Some text else None)"

definition canAcceptCurrency :: "filter_env \<Rightarrow> string \<Rightarrow> string \<Rightarrow> bool" where
  "canAcceptCurrency e supported_mga_currencies currency =
     (let curr_list =
        List.map_filter text_to_curr
          (unwrap_or (Option.bind (fe_parse e supported_mga_currencies) (json_list json_text)) [])
      in currency \<in> set curr_list \<or> (curr_list = [] \<and> currency = ''INR''))"

definition currencyFilter :: "filter_env \<Rightarrow> string \<Rightarrow> merchant_gateway_account \<Rightarrow> bool" where
  "currencyFilter e order_curr mga =
     (case get_true_string (mga_supported_currencies mga) of
        Some currencies \<Rightarrow> canAcceptCurrency e currencies order_curr
      | None \<Rightarrow> order_curr = ''INR'')"

section \<open>Eligible accounts\<close>

definition isCardOrNbTxn :: "txn_card_info \<Rightarrow> bool" where
  "isCardOrNbTxn i \<longleftrightarrow> is_card_transaction i \<or> is_nb_transaction i"

definition validateMga ::
  "filter_env \<Rightarrow> merchant_gateway_account \<Rightarrow> txn_card_info \<Rightarrow> txn_object_type \<Rightarrow> string list \<Rightarrow> bool \<Rightarrow> bool \<Rightarrow> bool" where
  "validateMga e mga txnCI mTxnObjType mgaEligibleSeamlessGateways is_otm_flow is_pix_flow =
     (if mga_gateway mga \<in> set mgaEligibleSeamlessGateways \<and> isCardOrNbTxn txnCI then is_seamless e mga
      else if mTxnObjType = MandateRegister then is_subscription e mga
      else if mTxnObjType = EmandateRegister \<and> \<not> is_otm_flow \<and> \<not> is_pix_flow then is_emandate_enabled e mga
      else \<not> is_only_subscription e mga)"

definition isMgaEligible :: "filter_env \<Rightarrow> filter_params \<Rightarrow> string list \<Rightarrow> merchant_gateway_account \<Rightarrow> bool" where
  "isMgaEligible e p mgaEligibleSeamlessGateways mga =
     (let payment_flow_list = get_payment_flow_list_from_txn_detail e p
      in validateMga e mga (fp_card p) (unwrap_or (td_txn_object_type (fp_txn p)) TO_Unknown)
           mgaEligibleSeamlessGateways
           (''ONE_TIME_MANDATE'' \<in> set payment_flow_list)
           (''PIX_AUTOMATIC_REDIRECT'' \<in> set payment_flow_list))"

definition validateAndSetDynamicMGAFlag ::
  "bool \<Rightarrow> merchant_gateway_account list \<Rightarrow> filter_state \<Rightarrow> filter_state" where
  "validateAndSetDynamicMGAFlag proceed_with_all_mgas mgas s =
     (if \<not> proceed_with_all_mgas \<and> length mgas \<noteq> length (remdups (List.map mga_gateway mgas))
      then s\<lparr>fs_is_dynamic_mga_enabled := True\<rparr> else s)"

section \<open>Enforced payment flows\<close>

definition areEqualArrays :: "string list \<Rightarrow> string list \<Rightarrow> bool" where
  "areEqualArrays xs ys \<longleftrightarrow> sort xs = sort ys"

definition enforced_flows_of :: "merchant_gateway_account \<Rightarrow> string list" where
  "enforced_flows_of mga = unwrap_or (Option.bind (mga_supported_payment_flows mga) enforcedPaymentFlows) []"

definition evaluatePaymentFlowEnforcement ::
  "string hmap \<Rightarrow> string hmap \<Rightarrow> string list \<Rightarrow> merchant_gateway_account list \<Rightarrow> string
   \<Rightarrow> merchant_gateway_account list" where
  "evaluatePaymentFlowEnforcement meta pl_ref_id_map txn_payment_flows initial_mgas gateway =
     (let gw_ref_id = get_gateway_reference_id meta gateway pl_ref_id_map;
          filtered_mgas =
            filter (\<lambda>mga. mga_reference_id mga = gw_ref_id \<and> mga_gateway mga = gateway) initial_mgas;
          enforced_payment_flows = remdups (concat (List.map enforced_flows_of filtered_mgas))
      in if enforced_payment_flows \<noteq> [] then
           (let flows_to_enforce = filter (\<lambda>flow. flow \<in> set enforced_payment_flows) txn_payment_flows
            in filter (\<lambda>mga. areEqualArrays (enforced_flows_of mga) flows_to_enforce) filtered_mgas)
         else filtered_mgas)"

definition filterMGAsByEnforcedPaymentFlows ::
  "filter_env \<Rightarrow> filter_params \<Rightarrow> merchant_gateway_account list \<Rightarrow> filter_state
   \<Rightarrow> merchant_gateway_account list \<times> filter_state" where
  "filterMGAsByEnforcedPaymentFlows e p initial_mgas s =
     (let gateways = remdups (List.map mga_gateway initial_mgas);
          ((meta, pl_ref_id_map), s1) = order_metadata_and_pl_ref_ids e p s;
          txn_payment_flows = remdups (get_payment_flow_list_from_txn_detail e p)
      in (concat (List.map (evaluatePaymentFlowEnforcement meta pl_ref_id_map txn_payment_flows initial_mgas)
                    gateways), s1))"

section \<open>The functional gateways\<close>

definition enforced_gateway_accounts ::
  "filter_params \<Rightarrow> merchant_gateway_account list \<Rightarrow> merchant_gateway_account list" where
  "enforced_gateway_accounts p accounts =
     (if unwrap_or (fp_is_emi p) False \<or> is_recurring_payment_transaction (fp_txn p) then
        (case fp_enforce_gateway_list p of
           None \<Rightarrow> accounts
         | Some en_gateway_list \<Rightarrow>
             if en_gateway_list = [] then accounts
             else filter (\<lambda>mga. mga_gateway mga \<in> set en_gateway_list) accounts)
      else accounts)"

definition accounts_with_reference_id ::
  "string hmap \<Rightarrow> string hmap \<Rightarrow> merchant_gateway_account list \<Rightarrow> merchant_gateway_account list" where
  "accounts_with_reference_id meta pl_ref_id_map mgas =
     filter (\<lambda>mga. mga_reference_id mga = get_gateway_reference_id meta (mga_gateway mga) pl_ref_id_map) mgas"

definition edcc_accounts ::
  "filter_env \<Rightarrow> filter_params \<Rightarrow> merchant_gateway_account list \<Rightarrow> merchant_gateway_account list" where
  "edcc_accounts e p mgas =
     (if fp_currency p \<noteq> fp_order_currency p \<and> fp_edcc_applied p = Some True then
        filter (\<lambda>mga. mga_gateway mga \<in> set (gateways_config e ''EDCC_SUPPORTED_GATEWAYS'')
                      \<and> check_if_enabled_in_mga e mga ''DYNAMIC_CURRENCY_CONVERSION'' ''isEdccSupported'') mgas
      else mgas)"

definition currency_and_kind ::
  "filter_env \<Rightarrow> filter_params \<Rightarrow> bool \<Rightarrow> merchant_gateway_account list \<Rightarrow> filter_state \<Rightarrow> filter_state" where
  "currency_and_kind e p proceed_with_all_mgas mgas s =
     (let currency_filtered_mgas = filter (currencyFilter e (fp_currency p)) mgas;
          rpd_filter_mgas =
            (if is_reverse_penny_drop_txn e p
             then filter check_for_reverse_penny_drop_in_mga currency_filtered_mgas
             else currency_filtered_mgas);
          s1 = returnGwListWithLog FilterFunctionalGatewaysForCurrency True
                 (setGwsAndMgas currency_filtered_mgas s);
          filtered_mgas =
            (if proceed_with_all_mgas then rpd_filter_mgas
             else filter (isMgaEligible e p (gateways_config e ''MGA_ELIGIBLE_SEAMLESS_GATEWAYS''))
                    rpd_filter_mgas)
      in returnGwListWithLog FilterFunctionalGatewaysForReversePennyDrop True
           (setGwsAndMgas filtered_mgas s1))"

definition getFunctionalGateways :: "filter_env \<Rightarrow> filter_params \<Rightarrow> filter_state \<Rightarrow> filter_state" where
  "getFunctionalGateways e p s =
     (let ((meta, pl_ref_id_map), s1) = order_metadata_and_pl_ref_ids e p s;
          (proceed_with_all_mgas, s2) = is_enabled_for_all_mgas e p s1;
          (enabled_gateway_accounts, s3) =
            (if proceed_with_all_mgas
             then (get_all_enabled_mgas_by_merchant_id e (fp_merchant_id p), s2)
             else get_enabled_mgas_by_merchant_id_and_ref_id e p
                    (get_all_possible_ref_ids meta pl_ref_id_map) s2);
          s4 = s3\<lparr>fs_paymentFlowList := get_payment_flow_list_from_txn_detail e p\<rparr>;
          mgas_1 = enforced_gateway_accounts p enabled_gateway_accounts;
          mgas_2 = (if proceed_with_all_mgas then mgas_1
                    else accounts_with_reference_id meta pl_ref_id_map mgas_1);
          s5 = validateAndSetDynamicMGAFlag proceed_with_all_mgas mgas_2 s4;
          edcc_mgas = edcc_accounts e p mgas_2;
          (mgas, s6) = (if proceed_with_all_mgas then (edcc_mgas, s5)
                        else filterMGAsByEnforcedPaymentFlows e p edcc_mgas s5)
      in if mgas = [] then returnGwListWithLog GetFunctionalGateways True (setGwsAndMgas [] s6)
         else currency_and_kind e p proceed_with_all_mgas mgas s6)"

section \<open>Payments without CVV\<close>

text \<open>
  The rows of method flows are those with a readable country or none: the conversion to domain
  values drops the others, and the query by country never selects them.
\<close>

definition find_all_gpmf_by_gateway_payment_flow_payment_method ::
  "filter_env \<Rightarrow> string list \<Rightarrow> int \<Rightarrow> string \<Rightarrow> gateway_payment_method_flow list" where
  "find_all_gpmf_by_gateway_payment_flow_payment_method e gw_ls pm_id pf_id =
     filter (\<lambda>r. gpmf_gateway r \<in> set gw_ls \<and> gpmf_payment_method_id r = Some pm_id
                 \<and> gpmf_payment_flow_id r = pf_id \<and> \<not> gpmf_disabled r) (fe_method_flows e)"

definition get_all_mgpmf_by_mga_id_and_gpmf_ids ::
  "filter_env \<Rightarrow> int list \<Rightarrow> string list \<Rightarrow> merchant_gateway_payment_method_flow list" where
  "get_all_mgpmf_by_mga_id_and_gpmf_ids e mga_ids gpmf_ids =
     filter (\<lambda>r. mgpmf_merchant_gateway_account_id r \<in> set mga_ids
                 \<and> mgpmf_gateway_payment_method_flow_id r \<in> set gpmf_ids \<and> \<not> mgpmf_disabled r)
       (fe_merchant_method_flows e)"

text \<open>The accounts for which the merchant has switched on one of the given method flows.\<close>

definition accounts_with_method_flow ::
  "filter_env \<Rightarrow> string list \<Rightarrow> merchant_gateway_account list \<Rightarrow> merchant_gateway_account list" where
  "accounts_with_method_flow e gpmf_ids mgas =
     (let enabled = List.map mgpmf_merchant_gateway_account_id
                      (get_all_mgpmf_by_mga_id_and_gpmf_ids e (List.map mga_id mgas) gpmf_ids)
      in filter (\<lambda>mga. mga_id mga \<in> set enabled) mgas)"

definition check_cvv_less_support_rupay :: "filter_env \<Rightarrow> txn_card_info \<Rightarrow> bool" where
  "check_cvv_less_support_rupay e i =
     (case fetch_juspay_bank_code (fe_parse e) i of
        Some bCode \<Rightarrow>
          dimension_on e
            (unwrap_or (tci_card_switch_provider i) ''DEFAULT'' @ ''_TOKEN_REPEAT_CVVLESS_SUPPORTED_BANKS'')
            (bCode @ ''::'' @ fe_upper e (unwrap_or (map_option card_type_to_text (tci_card_type i)) []))
      | None \<Rightarrow> False)"

definition is_brand_supports_cvvless :: "filter_env \<Rightarrow> txn_card_info \<Rightarrow> string \<Rightarrow> bool" where
  "is_brand_supports_cvvless e i brand = (if brand = ''RUPAY'' then check_cvv_less_support_rupay e i else True)"

fun auth_type_from_key :: "string \<Rightarrow> auth_type option" where
  "auth_type_from_key t =
     (if t = ''THREE_DS2'' then Some ThreeDs2 else if t = ''THREE_DS_2'' then None else text_to_auth_type t)"

fun json_auth_dict :: "json \<Rightarrow> (auth_type \<times> string list) list option" where
  "json_auth_dict (JObj kvs) =
     all_some (\<lambda>(k, v). Option.bind (auth_type_from_key k) (\<lambda>a. map_option (Pair a) (json_list json_text v))) kvs"
| "json_auth_dict _ = None"

definition cvvless_moto :: "filter_env \<Rightarrow> filter_params \<Rightarrow> filter_state \<Rightarrow> filter_state" where
  "cvvless_moto e p s =
     (let restricted = unwrap_or (findByNameFromRedis e json_auth_dict ''AUTH_TYPE_RESTRICTED_GATEWAYS'') [];
          motoSupportedGateways =
            unwrap_or (Option.bind (tci_auth_type (fp_card p)) (map_of restricted)) []
      in setGws (filter (\<lambda>gw. gw \<in> set motoSupportedGateways) (getGws s)) s)"

definition cvvless_token_repeat_v2 :: "filter_env \<Rightarrow> filter_params \<Rightarrow> string \<Rightarrow> filter_state \<Rightarrow> filter_state" where
  "cvvless_token_repeat_v2 e p brand s =
     (if fe_cvvless_enabled_by_config e \<and> is_brand_supports_cvvless e (fp_card p) brand then
        (case map_of (fe_payment_methods e) brand of
           Some pm_id \<Rightarrow>
             (let flows = find_all_gpmf_by_gateway_payment_flow_payment_method e (getGws s) pm_id ''CVVLESS'';
                  filteredMga = filter (\<lambda>mga. mga_gateway mga \<in> set (List.map gpmf_gateway flows))
                                  (unwrap_or (get_mgas s) []);
                  finalFilteredMga = accounts_with_method_flow e (List.map gpmf_id flows) filteredMga
              in setGws (List.map mga_gateway finalFilteredMga) (set_mgas finalFilteredMga s))
         | None \<Rightarrow> setGws [] s)
      else setGws [] s)"

definition cvvless_token_repeat :: "filter_env \<Rightarrow> filter_params \<Rightarrow> internal_meta option \<Rightarrow> string \<Rightarrow> filter_state \<Rightarrow> filter_state" where
  "cvvless_token_repeat e p im brand s =
     setGws
       (if is_brand_supports_cvvless e (fp_card p) brand then
          filter (\<lambda>gw. gw \<in> set (unwrap_or (get_token_supported_gateways e p ''CVV_LESS'' im) [])) (getGws s)
        else []) s"

definition cvvless_plain :: "filter_env \<Rightarrow> filter_params \<Rightarrow> filter_state \<Rightarrow> filter_state" where
  "cvvless_plain e p s =
     (let supported =
        remdups (gateways_config e ''CVVLESS_TXN_SUPPORTED_COMMON_GATEWAYS''
                 @ unwrap_or (map_of (gateways_by_name e ''CARD_BRAND_TO_CVVLESS_TXN_SUPPORTED_GATEWAYS'')
                                (tci_payment_method (fp_card p))) [])
      in if supported \<noteq> [] then setGws (filter (\<lambda>gw. gw \<in> set supported) (getGws s)) s else s)"

definition filter_for_cvvless ::
  "filter_env \<Rightarrow> filter_params \<Rightarrow> internal_meta option \<Rightarrow> filter_state \<Rightarrow> filter_state" where
  "filter_for_cvvless e p im s =
     (if is_card_transaction (fp_card p) \<and> Option.bind im im_isCvvLessTxn = Some True then
        (if tci_auth_type (fp_card p) = Some Moto then cvvless_moto e p s
         else if is_token_repeat_txn im then
           (let brand = unwrap_or (tci_card_switch_provider (fp_card p)) ''DEFAULT''
            in if feature_on e ''ENABLED_CVVLESS_V2_ENABLED_MERCHANTS'' (fp_merchant_id p)
               then cvvless_token_repeat_v2 e p brand s
               else cvvless_token_repeat e p im brand s)
         else cvvless_plain e p s)
      else s)"

section \<open>The remaining functional filters\<close>

definition filter_for_token_repeat ::
  "filter_env \<Rightarrow> filter_params \<Rightarrow> internal_meta option \<Rightarrow> filter_state \<Rightarrow> filter_state" where
  "filter_for_token_repeat e p im s =
     (if is_card_transaction (fp_card p) \<and> is_token_repeat_txn im then
        (let s1 = (if tci_auth_type (fp_card p) = Some Otp
                   then setGws (filter (\<lambda>gw. gw \<in> set (unwrap_or (get_token_supported_gateways e p ''OTP'' im) []))
                                  (getGws s)) s
                   else s);
             supported = unwrap_or (get_token_supported_gateways e p ''CARD'' im) []
         in setGws (if supported = [] then getGws s1 else filter (\<lambda>gw. gw \<in> set supported) (getGws s1)) s1)
      else s)"

definition filter_for_ta_file :: "filter_env \<Rightarrow> filter_params \<Rightarrow> filter_state \<Rightarrow> filter_state" where
  "filter_for_ta_file e p s =
     (if is_card_transaction (fp_card p) \<and> tci_auth_type (fp_card p) = Some Moto
         \<and> ''TA_FILE'' \<in> set (get_payment_flow_list_from_txn_detail e p)
      then setGws (filter (\<lambda>gw. gw \<in> set (gateways_config e ''TA_OFFLINE_ENABLED_GATEWAYS'')) (getGws s)) s
      else s)"

definition filter_for_merchant_container :: "filter_env \<Rightarrow> filter_params \<Rightarrow> filter_state \<Rightarrow> filter_state" where
  "filter_for_merchant_container e p s =
     (let supported = set (gateways_config e ''MERCHANT_CONTAINER_SUPPORTED_GATEWAYS'')
      in setGws
           (if tci_payment_method_type (fp_card p) = ''MERCHANT_CONTAINER''
            then filter (\<lambda>gw. gw \<in> supported) (getGws s)
            else filter (\<lambda>gw. gw \<notin> supported) (getGws s)) s)"

definition filterFunctionalGateways :: "filter_env \<Rightarrow> filter_params \<Rightarrow> filter_state \<Rightarrow> filter_state" where
  "filterFunctionalGateways e p s =
     (let im = Option.bind (Option.bind (fp_txn_internal_metadata p) (fe_parse e)) decode_internal_metadata;
          s1 = s\<lparr>fs_internalMetaData := im\<rparr>;
          s2 = filter_for_cvvless e p im s1;
          s3 = filter_for_token_repeat e p im s2;
          s4 = filter_for_ta_file e p s3
      in returnGwListWithLog FilterFunctionalGateways True (filter_for_merchant_container e p s4))"

end
