(* ===== verification/Filter_Card.thy ===== *)
theory Filter_Card
  imports Filter_Functional
begin

text \<open>
  The filters on the card (\<open>gw_filter.rs\<close>): its brand, its authentication, the support rows of its
  number prefixes, mandates on cards and on bank accounts, one-time mandates and Pix.
\<close>

section \<open>Brand\<close>

definition filterByCardBrand :: "filter_env \<Rightarrow> string list \<Rightarrow> string option \<Rightarrow> string list" where
  "filterByCardBrand e st card_brand =
     (let amex_supported = set (gateways_config e ''AMEX_SUPPORTED_GATEWAYS'');
          amex_not_supported = set (gateways_config e ''AMEX_NOT_SUPPORTED_GATEWAYS'');
          sodexo_only = set (gateways_config e ''SODEXO_ONLY_GATEWAYS'');
          sodexo_also = set (gateways_config e ''SODEXO_ALSO_GATEWAYS'')
      in case card_brand of
           Some brand \<Rightarrow>
             if brand = ''AMEX'' then filter (\<lambda>gw. gw \<in> amex_supported) st
             else if brand = ''SODEXO'' then filter (\<lambda>gw. gw \<in> sodexo_only \<or> gw \<in> sodexo_also) st
             else filter (\<lambda>gw. gw \<notin> sodexo_only) (filter (\<lambda>gw. gw \<notin> amex_not_supported) st)
         | None \<Rightarrow> filter (\<lambda>gw. gw \<notin> amex_not_supported) st)"

definition filterGatewaysForBrand :: "filter_env \<Rightarrow> filter_params \<Rightarrow> filter_state \<Rightarrow> filter_state" where
  "filterGatewaysForBrand e p s =
     (let st = getGws s;
          (card_brand, s1) = get_card_brand e p s
      in returnGwListWithLog FilterFunctionalGatewaysForBrand True
           (setGws (filterByCardBrand e st card_brand) s1))"

section \<open>Support rows of a card's prefixes\<close>

definition gci_try_from :: "string card_info_row \<Rightarrow> gateway_card_info option" where
  "gci_try_from r =
     map_option
       (\<lambda>vt. \<lparr>gci_id = gci_id r, gci_isin = gci_isin r, gci_gateway = gci_gateway r,
              gci_auth_type = gci_auth_type r, gci_bank_code_id = gci_bank_code_id r,
              gci_disabled = gci_disabled r, gci_validation_type = vt,
              gci_payment_method_type = gci_payment_method_type r\<rparr>)
       (case gci_validation_type r of
          None \<Rightarrow> Some None
        | Some text \<Rightarrow> map_option Some (text_to_validation_type text))"

definition get_enabled_gateway_card_info_for_gateways ::
  "filter_env \<Rightarrow> string option list \<Rightarrow> string list \<Rightarrow> gateway_card_info list" where
  "get_enabled_gateway_card_info_for_gateways e card_bins gateways =
     (if card_bins = [] \<and> gateways = [] then []
      else List.map_filter gci_try_from
             (filter (\<lambda>r. gci_isin r \<noteq> None \<and> gci_isin r \<in> set card_bins
                         \<and> gci_gateway r \<in> Some ` set gateways \<and> gci_disabled r \<noteq> Some True)
                (fe_card_rows e)))"

definition get_all_by_mgci_ids :: "filter_env \<Rightarrow> int list \<Rightarrow> gateway_card_info list" where
  "get_all_by_mgci_ids e ids =
     List.map_filter gci_try_from (filter (\<lambda>r. gci_id r \<in> set ids) (fe_card_rows e))"

definition record_parsing_error :: error_response where
  "record_parsing_error =
     \<lparr>er_status = ''500'', er_error_code = ''INTERNAL_SERVER_ERROR'',
      er_error_message = ''Internal Server Error'', er_priority_logic_tag = None,
      er_routing_approach = None, er_info_code = ''INTERNAL_SERVER_ERROR'',
      er_priority_logic_output = None, er_is_dynamic_mga_enabled = False\<rparr>"

definition get_supported_gateway_card_info_for_bins ::
  "filter_env \<Rightarrow> int \<Rightarrow> string option list \<Rightarrow> error_response + gateway_card_info list" where
  "get_supported_gateway_card_info_for_bins e merchant_pid card_bins =
     (let gci_records =
            filter (\<lambda>r. gci_isin r \<noteq> None \<and> gci_isin r \<in> set card_bins \<and> gci_disabled r = Some False)
              (fe_card_rows e)
      in if gci_records = [] then Inr []
         else
           (let gcis_filtered =
                  List.map mgci_gateway_card_info_id
                    (filter (\<lambda>r. mgci_merchant_account_id r = merchant_pid \<and> \<not> mgci_disabled r
                                \<and> mgci_gateway_card_info_id r \<in> set (List.map gci_id gci_records))
                       (fe_merchant_card_infos e))
            in case all_some gci_try_from (filter (\<lambda>gci. gci_id gci \<in> set gcis_filtered) gci_records) of
                 Some records \<Rightarrow> Inr records
               | None \<Rightarrow> Inl record_parsing_error))"

definition get_merchant_wise_mandate_bin_eligible_gateways ::
  "filter_env \<Rightarrow> filter_params \<Rightarrow> string list \<Rightarrow> string list" where
  "get_merchant_wise_mandate_bin_eligible_gateways e p mandate_enabled_gateways =
     filter (\<lambda>gw. get_feature_enabled e (''MERCHANT_WISE_SI_BINS_'' @ gw) (fp_merchant_id p) True \<noteq> None)
       (filter (\<lambda>gw. gw \<in> set mandate_enabled_gateways)
          (gateways_config e ''MERCHANT_WISE_MANDATE_BIN_ENFORCED_GATEWAYS''))"

definition get_merchant_gateway_card_info_feature_name ::
  "auth_type option \<Rightarrow> validation_type option \<Rightarrow> string \<Rightarrow> string option" where
  "get_merchant_gateway_card_info_feature_name auth validation gw =
     map_option (\<lambda>flow. ''MERCHANT_GATEWAY_CARD_INFO_'' @ flow @ ''_'' @ gw)
       (opt_or (map_option validation_type_to_text validation) (map_option auth_type_to_text auth))"

definition is_merchant_wise_auth_type_check_needed ::
  "filter_env \<Rightarrow> filter_params \<Rightarrow> auth_type option \<Rightarrow> validation_type option \<Rightarrow> string \<Rightarrow> bool" where
  "is_merchant_wise_auth_type_check_needed e p auth validation gw =
     (if gw \<in> set (gateways_config e ''MERCHANT_WISE_AUTH_TYPE_BIN_ENFORCED_GATEWAYS'') then
        (case get_merchant_gateway_card_info_feature_name auth validation gw of
           Some feature_key \<Rightarrow> get_feature_enabled e feature_key (fp_merchant_id p) True \<noteq> None
         | None \<Rightarrow> False)
      else False)"

definition find_all_mgcis_by_macc_and_gci_p_id ::
  "filter_env \<Rightarrow> int \<Rightarrow> int list \<Rightarrow> merchant_gateway_card_info list" where
  "find_all_mgcis_by_macc_and_gci_p_id e m_pid gci_ids =
     filter (\<lambda>r. mgci_gateway_card_info_id r \<in> set gci_ids \<and> mgci_merchant_account_id r = m_pid
                 \<and> \<not> mgci_disabled r) (fe_merchant_card_infos e)"

text \<open>Rows that allow mandates on the card with the given authentication.\<close>

definition card_mandate_row :: "auth_type option \<Rightarrow> gateway_card_info \<Rightarrow> bool" where
  "card_mandate_row m_auth ci \<longleftrightarrow>
     gci_validation_type ci = Some VT_CardMandate
     \<and> unwrap_or (gci_auth_type ci) ''THREE_DS'' = auth_type_to_text (unwrap_or m_auth ThreeDs)"

definition card_mandate_rows ::
  "filter_env \<Rightarrow> filter_params \<Rightarrow> string option list \<Rightarrow> string list \<Rightarrow> auth_type option
   \<Rightarrow> error_response + gateway_card_info list" where
  "card_mandate_rows e p card_bins enabled_gateways m_auth =
     (let merchant_wise = get_merchant_wise_mandate_bin_eligible_gateways e p enabled_gateways
      in rbind
           (if enabled_gateways \<noteq> [] then
              rbind (get_supported_gateway_card_info_for_bins e (fp_merchant_pid p) card_bins)
                (\<lambda>supported.
                   Inr (filter (\<lambda>ci. gci_gateway ci \<in> Some ` set merchant_wise
                                    \<and> card_mandate_row m_auth ci) supported))
            else Inr [])
           (\<lambda>merchant_wise_rows.
              Inr (filter (card_mandate_row m_auth)
                     (get_enabled_gateway_card_info_for_gateways e card_bins
                        (filter (\<lambda>g. g \<notin> set merchant_wise) enabled_gateways))
                   @ merchant_wise_rows)))"

definition validated_card_rows ::
  "filter_env \<Rightarrow> filter_params \<Rightarrow> string option list \<Rightarrow> string list \<Rightarrow> auth_type option
   \<Rightarrow> validation_type option \<Rightarrow> gateway_card_info list" where
  "validated_card_rows e p card_bins enabled_gateways m_auth m_validation =
     (let needed = is_merchant_wise_auth_type_check_needed e p m_auth m_validation;
          merchant_gws = filter needed enabled_gateways;
          gci_gws = filter (\<lambda>gw. \<not> needed gw) enabled_gateways;
          gcis = get_enabled_gateway_card_info_for_gateways e card_bins enabled_gateways;
          gateway_of = (\<lambda>gci. unwrap_or (gci_gateway gci) ''none'');
          without_merchant = filter (\<lambda>gci. gateway_of gci \<in> set gci_gws \<and> gateway_of gci \<notin> set merchant_gws) gcis;
          gci_ids = List.map gci_id (filter (\<lambda>gci. gateway_of gci \<in> set merchant_gws) gcis);
          mgcis = (if gci_ids = [] then [] else find_all_mgcis_by_macc_and_gci_p_id e (fp_merchant_pid p) gci_ids);
          enabled_ids = List.map mgci_gateway_card_info_id (filter (\<lambda>m. \<not> mgci_disabled m) mgcis);
          after_merchant = filter (\<lambda>gci. gci_id gci \<in> set enabled_ids) gcis;
          eligible = without_merchant @ after_merchant
      in case m_validation of
           Some v_type \<Rightarrow>
             filter (\<lambda>ci. map_option validation_type_to_text (gci_validation_type ci)
                          = Some (validation_type_to_text v_type)) eligible
         | None \<Rightarrow> filter (\<lambda>ci. gci_auth_type ci = map_option auth_type_to_text m_auth) eligible)"

definition filterGatewaysCardInfo ::
  "filter_env \<Rightarrow> filter_params \<Rightarrow> string option list \<Rightarrow> string list \<Rightarrow> auth_type option
   \<Rightarrow> validation_type option \<Rightarrow> error_response + gateway_card_info list" where
  "filterGatewaysCardInfo e p card_bins enabled_gateways m_auth m_validation =
     (if enabled_gateways \<noteq> [] \<and> None \<notin> set card_bins \<and> (m_auth \<noteq> None \<or> m_validation \<noteq> None) then
        (if m_validation = Some VT_CardMandate
         then card_mandate_rows e p card_bins enabled_gateways m_auth
         else Inr (validated_card_rows e p card_bins enabled_gateways m_auth m_validation))
      else Inr [])"

section \<open>Authentication\<close>

definition isGatewayCardInfoCheckNeeded ::
  "txn_card_info \<Rightarrow> string list \<Rightarrow> string list \<Rightarrow> string list \<Rightarrow> string \<Rightarrow> bool" where
  "isGatewayCardInfoCheckNeeded i atm_pin_restricted otp_supported moto_supported gateway \<longleftrightarrow>
     (tci_auth_type i = Some Atmpin \<and> gateway \<in> set atm_pin_restricted)
     \<or> (tci_auth_type i = Some Otp \<and> gateway \<in> set otp_supported)
     \<or> (tci_auth_type i = Some Moto \<and> gateway \<in> set moto_supported)"

definition isAuthTypeSupportedGateway ::
  "txn_card_info \<Rightarrow> string list \<Rightarrow> string list \<Rightarrow> (auth_type \<times> string list) list \<Rightarrow> string \<Rightarrow> bool" where
  "isAuthTypeSupportedGateway i atm_pin_restricted otp_restricted auth_type_restricted gateway =
     (case Option.bind (tci_auth_type i) (map_of auth_type_restricted) of
        Some gws \<Rightarrow> gateway \<in> set gws
      | None \<Rightarrow>
          (case tci_auth_type i of
             None \<Rightarrow> True
           | Some a \<Rightarrow>
               a = Vies
               \<or> (\<not> (a \<noteq> Atmpin \<and> gateway \<in> set atm_pin_restricted)
                   \<and> \<not> (a \<noteq> Otp \<and> gateway \<in> set otp_restricted))))"

definition isAuthTypeSupported ::
  "filter_env \<Rightarrow> filter_params \<Rightarrow> string \<Rightarrow> string list \<Rightarrow> auth_type option \<Rightarrow> error_response + string list" where
  "isAuthTypeSupported e p cardbin gws mauth =
     rbind (filterGatewaysCardInfo e p (get_bin_list (Some cardbin)) gws mauth None)
       (\<lambda>enabled_gcis. Inr (List.map_filter gci_gateway enabled_gcis))"

definition auth_type_accounts :: "filter_env \<Rightarrow> auth_type option \<Rightarrow> (merchant_gateway_account \<Rightarrow> bool) option" where
  "auth_type_accounts e auth =
     (if auth = Some Otp then Some (\<lambda>mga. check_if_enabled_in_mga e mga ''CARD_DOTP'' ''cardDirectOtpEnabled'')
      else if auth = Some Moto then Some (\<lambda>mga. check_if_enabled_in_mga e mga ''CARD_MOTO'' ''cardMotoEnabled'')
      else if auth = Some NoThreeDs then
        Some (\<lambda>mga. check_if_no_ds_enabled_in_mga e mga ''CARD_NO_3DS'' ''cardNo3DsEnabled'')
      else if auth = Some Vies then Some (is_vies_enabled e)
      else None)"

definition auth_type_pairs :: "filter_env \<Rightarrow> (auth_type \<times> string list) list" where
  "auth_type_pairs e =
     rev (unwrap_or
       (findByNameFromRedis e
          (json_list (json_pair (\<lambda>v. Option.bind (json_text v) auth_type_from_key) (json_list json_text)))
          ''AUTH_TYPE_RESTRICTED_GATEWAYS'') [])"

definition bin_eligibility ::
  "filter_env \<Rightarrow> filter_params \<Rightarrow> string \<Rightarrow> filter_state \<Rightarrow> error_response + filter_state" where
  "bin_eligibility e p card_isin s =
     (let stt = getGws s;
          i = fp_card p;
          atm_pin_restricted = gateways_config e ''ATM_PIN_CARD_INFO_RESTRICTED_GATEWAYS'';
          otp_restricted = gateways_config e ''OTP_CARD_INFO_RESTRICTED_GATEWAYS'';
          otp_supported = gateways_config e ''OTP_CARD_INFO_SUPPORTED_GATEWAYS'';
          moto_supported = gateways_config e ''MOTO_CARD_INFO_SUPPORTED_GATEWAYS'';
          needed = isGatewayCardInfoCheckNeeded i atm_pin_restricted otp_supported moto_supported;
          auth_type_supported_gws =
            filter (isAuthTypeSupportedGateway i atm_pin_restricted otp_restricted (auth_type_pairs e))
              (filter (\<lambda>gw. \<not> needed gw) stt)
      in rbind (isAuthTypeSupported e p card_isin (filter needed stt) (tci_auth_type i))
           (\<lambda>gci_validated_gws. Inr (setGws (gci_validated_gws @ auth_type_supported_gws) s)))"

definition filterGatewaysForAuthType ::
  "filter_env \<Rightarrow> filter_params \<Rightarrow> filter_state \<Rightarrow> error_response + filter_state" where
  "filterGatewaysForAuthType e p s =
     rbind
       (case tci_card_isin (fp_card p) of
          None \<Rightarrow> Inr s
        | Some card_isin \<Rightarrow>
            (let s1 = (case auth_type_accounts e (tci_auth_type (fp_card p)) of
                         Some supports \<Rightarrow>
                           setGwsAndMgas
                             (filter (\<lambda>mga. supports mga \<and> mga_gateway mga \<in> set (getGws s))
                                (unwrap_or (get_mgas s) [])) s
                       | None \<Rightarrow> s)
             in if get_feature_enabled e ''DISABLE_DECIDER_BIN_ELIGIBILITY_CHECK'' (fp_merchant_id p) True = None
                then bin_eligibility e p card_isin s1 else Inr s1))
       (\<lambda>s2. Inr (returnGwListWithLog FilterFunctionalGatewaysForAuthType True s2))"

section \<open>One-time mandates and Pix\<close>

definition find_bank_code :: "filter_env \<Rightarrow> string \<Rightarrow> int option" where
  "find_bank_code e code = map_of (fe_bank_codes e) code"

definition find_all_gpmf_by_country_code_gw_pf_id_pmt_jbcid ::
  "filter_env \<Rightarrow> string \<Rightarrow> string list \<Rightarrow> string \<Rightarrow> string \<Rightarrow> int \<Rightarrow> gateway_payment_method_flow list" where
  "find_all_gpmf_by_country_code_gw_pf_id_pmt_jbcid e country_code gw_ls pf_id pmt jbc_id =
     filter (\<lambda>r. gpmf_gateway r \<in> set gw_ls \<and> gpmf_bank_code_id r = Some jbc_id
                 \<and> gpmf_payment_flow_id r = pf_id \<and> \<not> gpmf_disabled r
                 \<and> gpmf_country_code r = Some country_code \<and> gpmf_payment_method_type r = Some pmt)
       (fe_method_flows e)"

text \<open>
  The steps one-time mandates and Pix share: the accounts that have the flow switched on, on a
  functional gateway, and, when the payment method is a bank the table of bank codes lists, with
  the method flow switched on by the merchant; otherwise nothing changes.
\<close>

definition filter_for_bank_flow ::
  "filter_env \<Rightarrow> filter_params \<Rightarrow> string \<Rightarrow> string \<Rightarrow> (merchant_gateway_account \<Rightarrow> bool) \<Rightarrow> filter_state \<Rightarrow> filter_state" where
  "filter_for_bank_flow e p country_code pf_id enabled s =
     (let st = getGws s;
          ((metadata, pl_ref_id_map), s1) = order_metadata_and_pl_ref_ids e p s;
          (mgas, s2) = get_enabled_mgas_by_merchant_id_and_ref_id e p
                         (get_all_possible_ref_ids metadata pl_ref_id_map) s1;
          eligible = filter (\<lambda>mga. mga_gateway mga \<in> set st) (filter enabled mgas)
      in case find_bank_code e (tci_payment_method (fp_card p)) of
           Some jbc_id \<Rightarrow>
             (let entries = find_all_gpmf_by_country_code_gw_pf_id_pmt_jbcid e country_code
                              (List.map mga_gateway eligible) pf_id
                              (tci_payment_method_type (fp_card p)) jbc_id;
                  eligible_with_flow = accounts_with_method_flow e (List.map gpmf_id entries) eligible
              in setGws (List.map mga_gateway eligible_with_flow) (set_mgas eligible_with_flow s2))
         | None \<Rightarrow> setGws st s2)"

definition filterFunctionalGatewaysForOTMFlow :: "filter_env \<Rightarrow> filter_params \<Rightarrow> filter_state \<Rightarrow> filter_state" where
  "filterFunctionalGatewaysForOTMFlow e p s =
     returnGwListWithLog FilterFunctionalGatewaysForOTM True
       (if ''ONE_TIME_MANDATE'' \<in> set (get_payment_flow_list_from_txn_detail e p)
        then filter_for_bank_flow e p ''IND'' ''ONE_TIME_MANDATE'' (is_otm_enabled e) s
        else setGws (getGws s) s)"

definition PIX_PAYMENT_FLOWS :: "string list" where
  "PIX_PAYMENT_FLOWS = [''PIX_AUTOMATIC_REDIRECT'']"

definition filterFunctionalGatewaysForPixFlows :: "filter_env \<Rightarrow> filter_params \<Rightarrow> filter_state \<Rightarrow> filter_state" where
  "filterFunctionalGatewaysForPixFlows e p s =
     returnGwListWithLog FilterFunctionalGatewaysForPixFlows True
       (case find (\<lambda>flow. flow \<in> set (get_payment_flow_list_from_txn_detail e p)) PIX_PAYMENT_FLOWS of
          Some pix_payment_flow \<Rightarrow>
            filter_for_bank_flow e p ''BRA'' pix_payment_flow
              (\<lambda>mga. is_pix_flows_enabled e mga pix_payment_flow ''enablePixAutomaticRedirect'') s
        | None \<Rightarrow> setGws (getGws s) s)"

end
