(* ===== verification/Filter_Mandate.thy ===== *)
theory Filter_Mandate
  imports Filter_Card
begin

text \<open>
  The filter on the validation a transaction needs (\<open>filterGatewaysForValidationType\<close> of
  \<open>gw_filter.rs\<close>): mandates on cards, third-party validation and mandates on bank accounts, and the
  gateways that serve third-party validation only.
\<close>

section \<open>Amounts\<close>

definition effective_amount_with_txn_amount :: "filter_env \<Rightarrow> filter_params \<Rightarrow> f64" where
  "effective_amount_with_txn_amount e p =
     (let def_amount = fe_round2 e (Fin 0);
          amount_txn = unwrap_or (fp_txn_amount p) def_amount;
          discount_sum = fe_round2 e (foldl fadd (Fin 0) (fe_offer_discounts e))
      in fadd (fadd (fsub amount_txn discount_sum) (unwrap_or (fp_surcharge_amount p) def_amount))
           (unwrap_or (fp_tax_amount p) def_amount))"

definition is_emandate_amount_filter_needed :: "filter_params \<Rightarrow> bool" where
  "is_emandate_amount_filter_needed p \<longleftrightarrow>
     is_emandate_register_transaction (fp_txn p)
     \<and> tci_payment_method_type (fp_card p) \<in> {''CARD'', ''NB'', ''AADHAAR'', ''PAN''}"

definition filter_gateway_card_info_for_max_register_amount ::
  "filter_env \<Rightarrow> filter_params \<Rightarrow> merchant_gateway_card_info list \<Rightarrow> f64 \<Rightarrow> merchant_gateway_card_info list" where
  "filter_gateway_card_info_for_max_register_amount e p mgcis amount =
     (let min_amount = fe_round2 e (f64_of_int 10000)
      in if is_emandate_amount_filter_needed p then
           filter (\<lambda>mgci. case mgci_emandate_register_max_amount mgci of
                            Some amt \<Rightarrow> fle amount (fe_round2 e (fmul (fe_round2 e amt) (f64_of_int 10000)))
                          | None \<Rightarrow> fle amount min_amount) mgcis
         else mgcis)"

section \<open>Accounts validated for a bank\<close>

definition filter_gateways_for_payment_method_and_validation_type ::
  "filter_env \<Rightarrow> filter_params \<Rightarrow> merchant_gateway_account list \<Rightarrow> validation_type
   \<Rightarrow> merchant_gateway_card_info list" where
  "filter_gateways_for_payment_method_and_validation_type e p enabled_gateway_accounts validation =
     (let jpbc_ids = List.map snd (filter (\<lambda>(code, _). code = tci_payment_method (fp_card p)) (fe_bank_codes e));
          gci_ids =
            List.map gci_id
              (filter (\<lambda>r. gci_bank_code_id r \<in> Some ` set jpbc_ids \<and> gci_disabled r = Some False
                          \<and> gci_validation_type r = Some (validation_type_to_text validation)
                          \<and> gci_payment_method_type r = Some (tci_payment_method_type (fp_card p)))
                 (fe_card_rows e))
      in if enabled_gateway_accounts = [] \<or> jpbc_ids = [] \<or> gci_ids = [] then []
         else filter (\<lambda>r. mgci_gateway_card_info_id r \<in> set gci_ids
                         \<and> mgci_merchant_account_id r = fp_merchant_pid p \<and> \<not> mgci_disabled r
                         \<and> mgci_merchant_gateway_account_id r
                             \<in> Some ` set (List.map mga_id enabled_gateway_accounts))
                (fe_merchant_card_infos e))"

definition predicate :: "string hmap \<Rightarrow> string hmap \<Rightarrow> merchant_gateway_account \<Rightarrow> bool" where
  "predicate metadata pl_ref_id_map mga \<longleftrightarrow>
     mga_reference_id mga = get_gateway_reference_id metadata (mga_gateway mga) pl_ref_id_map"

definition group_into_map ::
  "filter_env \<Rightarrow> filter_params \<Rightarrow> string list \<Rightarrow> (merchant_gateway_account \<Rightarrow> string)
   \<Rightarrow> merchant_gateway_account list hmap" where
  "group_into_map e p ref_ids proj =
     foldl (\<lambda>acc mga. hm_entry (proj mga) [] (\<lambda>v. v @ [mga]) acc) []
       (get_tpv_only_gateway_accounts e p ref_ids)"

section \<open>The three cases\<close>

definition narrow_or_keep :: "string list option \<Rightarrow> string list \<Rightarrow> string list" where
  "narrow_or_keep supported new_gws =
     (let gws = (case supported of
                   Some supported_gateways \<Rightarrow> filter (\<lambda>x. x \<in> set supported_gateways) new_gws
                 | None \<Rightarrow> new_gws)
      in if gws = [] then new_gws else gws)"

definition card_mandate_filter ::
  "filter_env \<Rightarrow> filter_params \<Rightarrow> filter_state \<Rightarrow> error_response + filter_state" where
  "card_mandate_filter e p s =
     (let st = getGws s;
          excluded = intersect (gateways_config e ''CARD_MANDATE_BIN_FILTER_EXCLUDED_GATEWAYS'') st
      in rbind (filterGatewaysCardInfo e p (get_bin_list (tci_card_isin (fp_card p))) st None
                  (Some VT_CardMandate))
           (\<lambda>rows.
              let new_gws = ord_nub (catMaybes (List.map gci_gateway rows)) @ excluded;
                  im = fs_internalMetaData s;
                  s1 = setGws new_gws s;
                  s2 = (if is_token_repeat_txn im
                        then setGws (narrow_or_keep (get_token_supported_gateways e p ''MANDATE'' im) new_gws) s1
                        else s1);
                  s3 = (if \<not> unwrap_or (fp_express_checkout p) False \<and> \<not> is_token_repeat_txn im
                        then setGws
                               (narrow_or_keep
                                  (findByNameFromRedis e (json_list json_text)
                                     (unwrap_or (tci_card_switch_provider (fp_card p)) ''DEFAULT''
                                      @ ''_MANDATE_GUEST_CHECKOUT_SUPPORTED_GATEWAYS'')) new_gws) s2
                        else s2)
              in Inr s3))"

definition bank_validation_filter ::
  "filter_env \<Rightarrow> filter_params \<Rightarrow> string hmap \<Rightarrow> string hmap \<Rightarrow> filter_state \<Rightarrow> filter_state" where
  "bank_validation_filter e p metadata pl_ref_id_map s =
     (let ref_ids = get_all_possible_ref_ids metadata pl_ref_id_map;
          (validation, e_mgas, s1) =
            (if is_emandate_transaction (fp_txn p) then
               (let (mgas, s1) = get_emandate_enabled_mga e p ref_ids s
                in (if is_tpv_mandate_transaction (fp_txn p) then VT_TpvEmandate else VT_Emandate, mgas, s1))
             else (VT_Tpv, getEnabledMgasByMerchantIdAndRefId e (fp_merchant_id p) ref_ids, s));
          enabled = filter (predicate metadata pl_ref_id_map) e_mgas;
          mgcis =
            filter_gateway_card_info_for_max_register_amount e p
              (filter_gateways_for_payment_method_and_validation_type e p enabled validation)
              (effective_amount_with_txn_amount e p);
          new_st = catMaybes (List.map gci_gateway
                     (get_all_by_mgci_ids e (List.map mgci_gateway_card_info_id mgcis)))
      in setGwsAndMgas
           (filter (\<lambda>mga. mga_gateway mga \<in> set new_st
                         \<and> Some (mga_id mga) \<in> set (List.map mgci_merchant_gateway_account_id mgcis)) enabled)
           s1)"

definition tpv_only_filter ::
  "filter_env \<Rightarrow> filter_params \<Rightarrow> string hmap \<Rightarrow> string hmap \<Rightarrow> filter_state \<Rightarrow> filter_state" where
  "tpv_only_filter e p metadata pl_ref_id_map s =
     (let st = getGws s;
          ref_ids = get_all_possible_ref_ids metadata pl_ref_id_map;
          tpv_only_supported = gateways_config e ''TPV_ONLY_SUPPORTED_GATEWAYS''
      in if tpv_only_supported \<noteq> [] \<and> intersect tpv_only_supported st \<noteq> [] then
           (let tpv_only_mgas = group_into_map e p ref_ids mga_gateway;
                all_mgas = group_into_map e p ref_ids mga_gateway;
                to_be_removed =
                  List.map fst
                    (filter (\<lambda>(k, v). case map_of all_mgas k of
                                        Some a \<Rightarrow> length a = length v
                                      | None \<Rightarrow> False) tpv_only_mgas)
            in setGws (filter (\<lambda>g. g \<notin> set to_be_removed) st) s)
         else s)"

definition filterGatewaysForValidationType ::
  "filter_env \<Rightarrow> filter_params \<Rightarrow> filter_state \<Rightarrow> error_response + filter_state" where
  "filterGatewaysForValidationType e p s =
     (let ((metadata, pl_ref_id_map), s1) = order_metadata_and_pl_ref_ids e p s;
          flows = get_payment_flow_list_from_txn_detail e p
      in rbind
           (if is_mandate_transaction (fp_txn p) \<and> is_card_transaction (fp_card p)
            then card_mandate_filter e p s1
            else if is_tpv_transaction (fp_txn p)
                    \<or> (is_emandate_transaction (fp_txn p) \<and> is_emandate_supported_payment_method (fp_card p))
            then Inr (if ''ONE_TIME_MANDATE'' \<in> set flows \<or> ''PIX_AUTOMATIC_REDIRECT'' \<in> set flows then s1
                      else bank_validation_filter e p metadata pl_ref_id_map s1)
            else Inr (tpv_only_filter e p metadata pl_ref_id_map s1))
           (\<lambda>s2. Inr (returnGwListWithLog FilterFunctionalGatewaysForValidationType True s2)))"

end
