(* ===== verification/Filter_Emi.thy ===== *)
theory Filter_Emi
  imports Filter_Mandate
begin

text \<open>
  The filter on instalments and the filter on offers (\<open>filterGatewaysForEmi\<close> and
  \<open>filterGatewaysForTxnOfferDetails\<close> of \<open>gw_filter.rs\<close>), with the queries of
  \<open>src/src/decider/storage/utils/gateway_bank_emi_support.rs\<close>.
\<close>

section \<open>Support of a bank's instalments\<close>

definition gbes_rows :: "filter_env \<Rightarrow> string \<Rightarrow> string list \<Rightarrow> string \<Rightarrow> gateway_bank_emi_support list" where
  "gbes_rows e emi_bank gws scp =
     filter (\<lambda>r. gbes_bank r = emi_bank \<and> gbes_gateway r \<in> set gws
                 \<and> (if scp = ''NULL'' then gbes_scope r = None else gbes_scope r = Some scp))
       (fe_emi_support e)"

definition get_gateway_bank_emi_support ::
  "filter_env \<Rightarrow> string option \<Rightarrow> string list \<Rightarrow> string \<Rightarrow> gateway_bank_emi_support list" where
  "get_gateway_bank_emi_support e emiBank gws scp =
     (case emiBank of
        None \<Rightarrow> []
      | Some emi_bank \<Rightarrow>
          if gws = [] then []
          else if scp = ''CARDLESS'' then gbes_rows e emi_bank gws ''CARD''
          else gbes_rows e emi_bank gws scp)"

definition trim_suffix :: "string \<Rightarrow> string" where
  "trim_suffix str =
     (if ends_with str ''_CLEMI'' then take (length str - 6) str
      else if ends_with str ''_CC'' then take (length str - 3) str
      else if ends_with str ''DC'' then take (length str - 2) str
      else str)"

definition gbes_v2_rows ::
  "filter_env \<Rightarrow> int \<Rightarrow> string list \<Rightarrow> string \<Rightarrow> string \<Rightarrow> int \<Rightarrow> gateway_bank_emi_support_v2 list" where
  "gbes_v2_rows e jbc_id gws scp ct ten =
     filter (\<lambda>r. gbes2_bank_code_id r = jbc_id \<and> gbes2_gateway r \<in> set gws \<and> gbes2_scope r = scp
                 \<and> gbes2_card_type r = ct \<and> gbes2_tenure r = ten) (fe_emi_support_v2 e)"

definition get_gateway_bank_emi_support_v2 ::
  "filter_env \<Rightarrow> string option \<Rightarrow> string list \<Rightarrow> string \<Rightarrow> int option \<Rightarrow> gateway_bank_emi_support_v2 list" where
  "get_gateway_bank_emi_support_v2 e emiBank gws scp tenure =
     (case (emiBank, tenure) of
        (Some emi_bank, Some ten) \<Rightarrow>
          (case filter (\<lambda>(bank, _). bank = trim_suffix emi_bank) (fe_emi_bank_codes e) of
             [(_, jbc_id)] \<Rightarrow>
               if scp = ''CARDLESS'' then gbes_v2_rows e jbc_id gws scp ''CONSUMER_FINANCE'' ten
               else gbes_v2_rows e jbc_id gws scp (if ends_with emi_bank ''DC'' then ''DEBIT'' else ''CREDIT'') ten
           | _ \<Rightarrow> [])
      | _ \<Rightarrow> [])"

text \<open>The networks a row of the second table is restricted to.\<close>

definition network_names :: "(string \<times> string) list" where
  "network_names =
     [(''VISA'', ''VISA''), (''visa'', ''VISA''), (''Visa'', ''VISA''),
      (''AMEX'', ''AMEX''), (''amex'', ''AMEX''), (''Amex'', ''AMEX''),
      (''DINERS'', ''DINERS''), (''dinersclub'', ''DINERS''), (''DinersClub'', ''DINERS''),
      (''RUPAY'', ''RUPAY''), (''rupay'', ''RUPAY''), (''RuPay'', ''RUPAY''),
      (''MASTERCARD'', ''MASTERCARD''), (''mastercard'', ''MASTERCARD''), (''Mastercard'', ''MASTERCARD''),
      (''STAR'', ''STAR''), (''star'', ''STAR''), (''Star'', ''STAR''),
      (''PULSE'', ''PULSE''), (''pulse'', ''PULSE''), (''Pulse'', ''PULSE''),
      (''ACCEL'', ''ACCEL''), (''accel'', ''ACCEL''), (''Accel'', ''ACCEL''),
      (''NYCE'', ''NYCE''), (''nyce'', ''NYCE''), (''Nyce'', ''NYCE'')]"

definition supported_networks :: "filter_env \<Rightarrow> gateway_bank_emi_support_v2 \<Rightarrow> string list option" where
  "supported_networks e row =
     unwrap_or
       (Option.bind (Option.bind (gbes2_metadata row) (fe_parse e))
          (json_optional ''supported_networks''
             (json_list (\<lambda>v. Option.bind (json_text v) (map_of network_names)))))
       None"

section \<open>Eligible prefixes\<close>

definition get_eligibility_info ::
  "filter_env \<Rightarrow> string list \<Rightarrow> string \<Rightarrow> string \<Rightarrow> string \<Rightarrow> user_eligibility_info list" where
  "get_eligibility_info e identifiers identifier_name provider_name flow_type =
     filter (\<lambda>r. uei_identifier_value r \<in> set identifiers \<and> uei_identifier_name r = identifier_name
                 \<and> uei_provider_name r = provider_name \<and> uei_flow_type r = flow_type
                 \<and> uei_disabled r \<noteq> Some True) (fe_eligibility e)"

definition check_if_bin_is_eligible_for_emi ::
  "filter_env \<Rightarrow> string option \<Rightarrow> string option \<Rightarrow> string option \<Rightarrow> bool" where
  "check_if_bin_is_eligible_for_emi e card_isin juspay_bank_code card_type =
     (case (card_isin, juspay_bank_code, card_type) of
        (Some isin, Some bank, Some ct) \<Rightarrow>
          if (bank @ ''::'' @ ct) \<in> set (gateways_config e ''EMI_BIN_VALIDATION_SUPPORTED_BANKS'') then
            get_eligibility_info e (catMaybes (get_bin_list (Some isin))) ''BIN'' bank ''PG_EMI'' \<noteq> []
          else True
      | _ \<Rightarrow> True)"

section \<open>Instalments\<close>

definition emi_scope :: "filter_env \<Rightarrow> filter_params \<Rightarrow> internal_meta option \<Rightarrow> string" where
  "emi_scope e p im =
     (if is_card_transaction (fp_card p) \<and> is_network_token_repeat_txn im then ''NETWORK_TOKEN''
      else if is_card_transaction (fp_card p) \<and> is_issuer_token_repeat_txn im then ''ISSUER_TOKEN''
      else if is_card_transaction (fp_card p) \<and> is_alt_id_based_txn im then ''ALT_ID''
      else if (case fp_emi_bank p of Some bank \<Rightarrow> ends_with bank ''_CLEMI'' | None \<Rightarrow> False) then ''CARDLESS''
      else ''CARD'')"

definition alt_id_enabled :: "filter_env \<Rightarrow> filter_params \<Rightarrow> string \<Rightarrow> bool" where
  "alt_id_enabled e p gateway =
     (case fp_emi_bank p of
        Some emi_bank \<Rightarrow> dimension_on e ''ALT_ID_ENABLED_GATEWAY_FOR_EMIBANK'' (gateway @ ''::'' @ emi_bank)
      | None \<Rightarrow> False)"

definition extractGateways :: "gateway_bank_emi_support list \<Rightarrow> string list" where
  "extractGateways gbes = List.map gbes_gateway gbes"

definition extractGatewaysV2 :: "gateway_bank_emi_support_v2 list \<Rightarrow> string list" where
  "extractGatewaysV2 gbes_v2 = List.map gbes2_gateway gbes_v2"

definition emi_bank_gateways :: "filter_env \<Rightarrow> filter_params \<Rightarrow> string \<Rightarrow> string list \<Rightarrow> string list" where
  "emi_bank_gateways e p scope gws =
     (if feature_on e ''IS_GBESV2_ENABLED'' (fp_merchant_id p) then
        (let rows = get_gateway_bank_emi_support_v2 e (fp_emi_bank p) gws scope (fp_emi_tenure p);
             rows1 = (if scope = ''ALT_ID'' then filter (\<lambda>r. alt_id_enabled e p (gbes2_gateway r)) rows else rows)
         in extractGatewaysV2
              (filter (\<lambda>r. case supported_networks e r of
                             Some networks \<Rightarrow> tci_payment_method (fp_card p) \<in> set networks
                           | None \<Rightarrow> True) rows1))
      else
        (let rows = get_gateway_bank_emi_support e (fp_emi_bank p) gws scope;
             rows1 = (if scope = ''ALT_ID'' then filter (\<lambda>r. alt_id_enabled e p (gbes_gateway r)) rows else rows)
         in extractGateways rows1))"

definition mandate_emi_gateways ::
  "filter_env \<Rightarrow> filter_params \<Rightarrow> string list \<Rightarrow> filter_state \<Rightarrow> string list \<times> filter_state" where
  "mandate_emi_gateways e p gws s =
     (if is_mandate_transaction (fp_txn p) then
        (let st = filter (\<lambda>gw. gw \<in> set (gateways_config e ''SI_ON_EMI_CARD_SUPPORTED_GATEWAYS'')) gws;
             (card_brand, s1) = get_card_brand e p s;
             disabled_gws =
               unwrap_or (map_of (gateways_by_name e ''SI_ON_EMI_DISABLED_CARD_BRAND_GATEWAY_MAPPING'')
                            (unwrap_or card_brand [])) []
         in (filter (\<lambda>gw. gw \<notin> set disabled_gws) st, s1))
      else (gws, s))"

definition filterGatewaysForEmi :: "filter_env \<Rightarrow> filter_params \<Rightarrow> filter_state \<Rightarrow> filter_state" where
  "filterGatewaysForEmi e p s =
     returnGwListWithLog FilterFunctionalGatewaysForEmi True
       (if unwrap_or (fp_is_emi p) False then
          (let (gws1, s1) = mandate_emi_gateways e p (getGws s) s;
               gws2 = (if check_no_or_low_cost_emi e (fp_card p)
                       then filter (\<lambda>gw. gw \<in> set (gateways_config e ''NO_OR_LOW_COST_EMI_SUPPORTED_GATEWAYS'')) gws1
                       else gws1);
               gws3 = (if is_card_transaction (fp_card p) \<and> gws2 \<noteq> []
                       then (if check_if_bin_is_eligible_for_emi e (tci_card_isin (fp_card p))
                                  (get_juspay_bank_code_from_internal_metadata e p)
                                  (map_option card_type_to_text (tci_card_type (fp_card p)))
                             then gws2 else [])
                       else gws2);
               gws4 = (if gws3 \<noteq> []
                       then emi_bank_gateways e p (emi_scope e p (fs_internalMetaData s1)) gws3
                       else gws3)
           in setGws gws4 s1)
        else if is_card_transaction (fp_card p) then
          setGws (filter (\<lambda>gw. gw \<notin> set (gateways_config e ''CARD_EMI_EXPLICIT_GATEWAYS'')) (getGws s)) s
        else s)"

section \<open>Offers\<close>

definition decode_gateway_rule :: "json \<Rightarrow> (bool option \<times> string list) option" where
  "decode_gateway_rule v =
     Option.bind (json_optional ''force_routing'' json_bool v) (\<lambda>force_routing.
       map_option (Pair force_routing)
         (json_member ''gateway_info''
            (json_list (\<lambda>info. Option.bind (json_member ''name'' json_text info)
               (\<lambda>name. map_option (\<lambda>_. name) (json_optional ''offer_code'' json_text info)))) v))"

definition filterByGatewayRule :: "filter_env \<Rightarrow> string list \<Rightarrow> string option \<Rightarrow> string list" where
  "filterByGatewayRule e gw_list_acc gateway_info =
     (case gateway_info of
        None \<Rightarrow> gw_list_acc
      | Some txt \<Rightarrow>
          (case Option.bind (fe_parse e txt) decode_gateway_rule of
             Some (force_routing, names) \<Rightarrow>
               if unwrap_or force_routing False then filter (\<lambda>gw. gw \<in> set names) gw_list_acc
               else gw_list_acc
           | None \<Rightarrow> gw_list_acc))"

definition filterGatewaysForTxnOfferDetails :: "filter_env \<Rightarrow> filter_params \<Rightarrow> filter_state \<Rightarrow> filter_state" where
  "filterGatewaysForTxnOfferDetails e p s =
     returnGwListWithLog FilterFunctionalGatewaysForTxnOfferDetails True
       (case fp_txn_offer_details p of
          Some details \<Rightarrow>
            (let filtered_gws = foldl (filterByGatewayRule e) (getGws s) details
             in if length (getGws s) \<noteq> length filtered_gws then setGws filtered_gws s else s)
        | None \<Rightarrow> s)"

end
