(* ===== verification/Filter_Methods.thy ===== *)
theory Filter_Methods
  imports Filter_Emi
begin

text \<open>
  The filters on the payment method, the token provider, wallets, net banking, consumer finance,
  UPI, the transaction's type, rewards and cash (\<open>gw_filter.rs\<close>).
\<close>

section \<open>Payment methods\<close>

definition canAcceptPaymentMethod :: "filter_env \<Rightarrow> merchant_gateway_account \<Rightarrow> string \<Rightarrow> bool" where
  "canAcceptPaymentMethod e mga pm =
     (case Option.bind (mga_payment_methods mga) (get_value e Some ''paymentMethods'') of
        Some (JArr arr) \<Rightarrow> pm \<in> set (List.map_filter json_text arr)
      | _ \<Rightarrow> False)"

definition getGatewaysAcceptingPaymentMethod ::
  "filter_env \<Rightarrow> merchant_gateway_account list \<Rightarrow> string list \<Rightarrow> string
   \<Rightarrow> string list \<times> merchant_gateway_account list" where
  "getGatewaysAcceptingPaymentMethod e eligible_mgas gateways payment_method =
     (let filtered_mgas =
            filter (\<lambda>mga. canAcceptPaymentMethod e mga payment_method \<and> mga_gateway mga \<in> set gateways)
              eligible_mgas
      in (List.map mga_gateway filtered_mgas, filtered_mgas))"

definition getPaymentMethodForNonCardTransaction :: "filter_params \<Rightarrow> string" where
  "getPaymentMethodForNonCardTransaction p =
     (if tci_payment_method_type (fp_card p) \<in> {''CONSUMER_FINANCE'', ''UPI'', ''REWARD'', ''CASH''}
      then tci_payment_method (fp_card p)
      else unwrap_or (fp_card_issuer_bank_name p) [])"

definition is_disjoint :: "string list \<Rightarrow> string list \<Rightarrow> bool" where
  "is_disjoint gateways1 gateways2 \<longleftrightarrow> set gateways1 \<inter> set gateways2 = {}"

definition v2_integration_flag :: "filter_env \<Rightarrow> merchant_gateway_account \<Rightarrow> string option" where
  "v2_integration_flag e mga =
     opt_or (map_option (\<lambda>enabled. if enabled then ''true'' else ''0'')
               (is_payment_flow_enabled_in_mga mga ''V2_INTEGRATION''))
       (get_value e json_text ''shouldUseV2Integration'' (mga_account_details mga))"

definition filterGatewaysForUpiPayBasedOnSupportedFlow ::
  "filter_env \<Rightarrow> merchant_gateway_account list \<Rightarrow> string list \<Rightarrow> string list
   \<Rightarrow> string list \<times> merchant_gateway_account list" where
  "filterGatewaysForUpiPayBasedOnSupportedFlow e mgas v2_not_supported intent_not_supported =
     (let upd_mgas =
            filter (\<lambda>mga. mga_gateway mga \<notin> set v2_not_supported
                          \<or> v2_integration_flag e mga \<in> {Some ''true'', Some ''1''}) mgas;
          upd_mgas1 =
            filter (\<lambda>mga. mga_gateway mga \<notin> set intent_not_supported
                          \<or> get_value e json_text ''isUpiIntentEnabled'' (mga_account_details mga)
                            = Some ''true'') upd_mgas
      in (List.map mga_gateway upd_mgas1, upd_mgas1))"

definition non_card_accounts ::
  "filter_env \<Rightarrow> filter_params \<Rightarrow> string list \<Rightarrow> merchant_gateway_account list \<Rightarrow> merchant_gateway_account list" where
  "non_card_accounts e p st eligible_mgas =
     (let pm = getPaymentMethodForNonCardTransaction p;
          v2_not_supported = gateways_config e ''V2_INTEGRATION_NOT_SUPPORTED_GATEWAYS'';
          intent_not_supported = gateways_config e ''UPI_INTENT_NOT_SUPPORTED_GATEWAYS'';
          (st1, filtered_mgas) =
            (if (pm = ''UPI_PAY'' \<or> pm = ''UPI_QR'') \<and> st \<noteq> [] \<and> \<not> is_disjoint v2_not_supported st
             then filterGatewaysForUpiPayBasedOnSupportedFlow e eligible_mgas v2_not_supported
                    intent_not_supported
             else (st, eligible_mgas))
      in snd (getGatewaysAcceptingPaymentMethod e filtered_mgas st1 pm))"

definition filterGatewaysForPaymentMethod :: "filter_env \<Rightarrow> filter_params \<Rightarrow> filter_state \<Rightarrow> filter_state" where
  "filterGatewaysForPaymentMethod e p s =
     (let st = getGws s;
          ((metadata, pl_ref_id_map), s1) = order_metadata_and_pl_ref_ids e p s;
          (proceed_with_all_mgas, s2) = is_enabled_for_all_mgas e p s1;
          (mgas, s3) =
            (if proceed_with_all_mgas
             then (get_all_enabled_mgas_by_merchant_id e (fp_merchant_id p), s2)
             else get_enabled_mgas_by_merchant_id_and_ref_id e p
                    (get_all_possible_ref_ids metadata pl_ref_id_map) s2);
          eligible_mgas = filter (\<lambda>mga. mga_gateway mga \<in> set st) mgas
      in returnGwListWithLog FilterFunctionalGatewaysForPaymentMethod True
           (if st = [] \<or> is_emandate_transaction (fp_txn p) \<or> is_tpv_transaction (fp_txn p)
               \<or> is_emandate_payment_transaction (fp_txn p)
            then s3
            else if is_card_transaction (fp_card p) then
              (let (card_brand, s4) = get_card_brand e p s3;
                   maybe_payment_method =
                     (if tci_payment_method (fp_card p) = [] then card_brand
                      else Some (tci_payment_method (fp_card p)))
               in case maybe_payment_method of
                    Some payment_method \<Rightarrow>
                      setGwsAndMgas (snd (getGatewaysAcceptingPaymentMethod e eligible_mgas st payment_method)) s4
                  | None \<Rightarrow> s4)
            else setGwsAndMgas (non_card_accounts e p st eligible_mgas) s3))"

section \<open>Token providers\<close>

definition vault_provider_from_text :: "filter_env \<Rightarrow> string \<Rightarrow> vault_provider option" where
  "vault_provider_from_text e value = map_of
     [(''JUSPAY'', VP_Juspay), (''PAYU'', VP_PayU), (''SODEXO'', VP_Sodexo), (''COF_ISSUER'', VP_Cof),
      (''NETWORK_TOKEN'', VP_NetworkToken), (''ISSUER_TOKEN'', VP_IssuerToken)] (fe_upper e value)"

text \<open>The provider of a later key replaces that of an earlier key with the same meaning.\<close>

definition token_provider_gateways :: "filter_env \<Rightarrow> (vault_provider \<times> string) list" where
  "token_provider_gateways e =
     rev (unwrap_or
       (Option.bind (findByNameFromRedis e (json_dict json_text) ''TOKEN_PROVIDER_GATEWAY_MAPPING'')
          (all_some (\<lambda>(k, g). map_option (\<lambda>v. (v, g)) (vault_provider_from_text e k)))) [])"

definition filterGatewaysForTokenProvider :: "filter_env \<Rightarrow> filter_params \<Rightarrow> filter_state \<Rightarrow> filter_state" where
  "filterGatewaysForTokenProvider e p s =
     (case fp_vault_provider p of
        None \<Rightarrow> returnGwListWithLog FilterFunctionalGatewaysForTokenProvider False s
      | Some VP_Juspay \<Rightarrow> returnGwListWithLog FilterFunctionalGatewaysForTokenProvider True s
      | Some v \<Rightarrow>
          returnGwListWithLog FilterFunctionalGatewaysForTokenProvider True
            (setGws (filter (\<lambda>gateway. map_of (token_provider_gateways e) v = Some gateway) (getGws s)) s))"

section \<open>Wallets, net banking, consumer finance, rewards and cash\<close>

definition filterGatewaysForWallet :: "filter_env \<Rightarrow> filter_params \<Rightarrow> filter_state \<Rightarrow> filter_state" where
  "filterGatewaysForWallet e p s =
     (let upi_only = set (gateways_config e ''UPI_ONLY_GATEWAYS'');
          wallet_only = set (gateways_config e ''WALLET_ONLY_GATEWAYS'');
          wallet_also = set (gateways_config e ''WALLET_ALSO_GATEWAYS'')
      in returnGwListWithLog FilterFunctionalGatewaysForWallet True
           (setGws
              (if tci_card_type (fp_card p) = Some CT_Wallet then
                 filter (\<lambda>gateway. gateway \<in> wallet_only \<or> gateway \<in> wallet_also
                                   \<or> (is_google_pay_txn (fp_card p) \<and> gateway \<in> upi_only)) (getGws s)
               else filter (\<lambda>gateway. gateway \<notin> wallet_only) (getGws s)) s))"

definition filterGatewaysForNbOnly :: "filter_env \<Rightarrow> filter_params \<Rightarrow> filter_state \<Rightarrow> filter_state" where
  "filterGatewaysForNbOnly e p s =
     returnGwListWithLog FilterFunctionalGatewaysForNbOnly True
       (if tci_card_type (fp_card p) \<noteq> Some CT_Nb
        then setGws (filter (\<lambda>gateway. gateway \<notin> set (gateways_config e ''NB_ONLY_GATEWAYS'')) (getGws s)) s
        else s)"

definition filterGatewaysForConsumerFinance :: "filter_env \<Rightarrow> filter_params \<Rightarrow> filter_state \<Rightarrow> filter_state" where
  "filterGatewaysForConsumerFinance e p s =
     (let cf_only = set (gateways_config e ''CONSUMER_FINANCE_ONLY_GATEWAYS'');
          cf_also = set (gateways_config e ''CONSUMER_FINANCE_ALSO_GATEWAYS'')
      in returnGwListWithLog FilterFunctionalGatewaysForConsumerFinance True
           (setGws
              (if tci_payment_method_type (fp_card p) = ''CONSUMER_FINANCE''
               then filter (\<lambda>gw. gw \<in> cf_only \<union> cf_also) (getGws s)
               else filter (\<lambda>gw. gw \<notin> cf_only) (getGws s)) s))"

definition filterGatewaysForReward :: "filter_env \<Rightarrow> filter_params \<Rightarrow> filter_state \<Rightarrow> filter_state" where
  "filterGatewaysForReward e p s =
     (let reward_also = set (gateways_config e ''REWARD_ALSO_GATEWAYS'');
          reward_only = set (gateways_config e ''REWARD_ONLY_GATEWAYS'')
      in returnGwListWithLog FilterFunctionalGatewaysForReward True
           (setGws
              (if tci_card_type (fp_card p) = Some CT_Reward \<or> tci_payment_method_type (fp_card p) = ''REWARD''
               then filter (\<lambda>gw. gw \<in> reward_also \<or> gw \<in> reward_only) (getGws s)
               else filter (\<lambda>gw. gw \<notin> reward_only) (getGws s)) s))"

definition filterGatewaysForCash :: "filter_env \<Rightarrow> filter_params \<Rightarrow> filter_state \<Rightarrow> filter_state" where
  "filterGatewaysForCash e p s =
     returnGwListWithLog FilterFunctionalGatewaysForCash True
       (if tci_payment_method_type (fp_card p) \<noteq> ''CASH''
        then setGws (filter (\<lambda>gw. gw \<notin> set (gateways_config e ''CASH_ONLY_GATEWAYS'')) (getGws s)) s
        else s)"

section \<open>UPI and transaction types\<close>

definition filterGatewaysForUpi :: "filter_env \<Rightarrow> filter_params \<Rightarrow> filter_state \<Rightarrow> filter_state" where
  "filterGatewaysForUpi e p s =
     (let upi_only = set (gateways_config e ''UPI_ONLY_GATEWAYS'');
          upi_also = set (gateways_config e ''UPI_ALSO_GATEWAYS'')
      in returnGwListWithLog FilterFunctionalGatewaysForUpi True
           (if tci_payment_method_type (fp_card p) = ''UPI''
            then setGws (filter (\<lambda>gateway. gateway \<in> upi_only \<union> upi_also) (getGws s)) s
            else if \<not> is_google_pay_txn (fp_card p)
            then setGws (filter (\<lambda>gateway. gateway \<notin> upi_only) (getGws s)) s
            else s))"

definition is_txn_type_enabled :: "filter_env \<Rightarrow> string option \<Rightarrow> string \<Rightarrow> string \<Rightarrow> bool" where
  "is_txn_type_enabled e supported_txn_type payment_method_type txn_type =
     (case Option.bind supported_txn_type (get_value e (json_list json_text) payment_method_type) of
        Some types \<Rightarrow> txn_type \<in> set types
      | None \<Rightarrow> True)"

definition getTxnTypeSupportedGateways :: "string \<Rightarrow> string list hmap \<Rightarrow> string list" where
  "getTxnTypeSupportedGateways txn_type txn_type_gateway_mapping =
     unwrap_or (map_of txn_type_gateway_mapping txn_type) []"

definition txn_type_accounts ::
  "filter_env \<Rightarrow> filter_params \<Rightarrow> string \<Rightarrow> string list \<Rightarrow> merchant_gateway_account list
   \<Rightarrow> merchant_gateway_account list" where
  "txn_type_accounts e p txn_type st0 mgas =
     (let (st, curr_mgas) =
            (if tci_payment_method_type (fp_card p) = ''UPI'' \<and> tci_payment_method (fp_card p) = ''UPI'' then
               (let functional_mgas =
                      filter (\<lambda>mga. mga_gateway mga \<in> set st0
                                    \<and> is_txn_type_enabled e (mga_supported_txn_type mga) ''UPI'' txn_type) mgas
                in (List.map mga_gateway functional_mgas, functional_mgas))
             else (st0, mgas));
          v2_not_supported = gateways_config e ''V2_INTEGRATION_NOT_SUPPORTED_GATEWAYS'';
          intent_not_supported = gateways_config e ''UPI_INTENT_NOT_SUPPORTED_GATEWAYS''
      in if txn_type \<in> {''UPI_PAY'', ''UPI_QR''}
            \<and> intersect st (v2_not_supported @ intent_not_supported) \<noteq> []
         then snd (filterGatewaysForUpiPayBasedOnSupportedFlow e curr_mgas v2_not_supported intent_not_supported)
         else curr_mgas)"

definition filterGatewaysForTxnType :: "filter_env \<Rightarrow> filter_params \<Rightarrow> filter_state \<Rightarrow> filter_state" where
  "filterGatewaysForTxnType e p s =
     returnGwListWithLog FilterFunctionalGatewaysForTxnType True
       (case get_true_string (fp_txn_type p) of
          None \<Rightarrow> s
        | Some txn_type \<Rightarrow>
            (let mapping = gateways_by_name e ''TXN_TYPE_GATEWAY_MAPPING''
             in setGwsAndMgas
                  (filter (\<lambda>mga. mga_gateway mga \<in> set (getTxnTypeSupportedGateways txn_type mapping))
                     (txn_type_accounts e p txn_type (getGws s) (unwrap_or (get_mgas s) []))) s))"

definition get_zero_auth_supported_gateways :: "string \<Rightarrow> (string \<times> string list) list \<Rightarrow> string list" where
  "get_zero_auth_supported_gateways txn_type restricted = unwrap_or (map_of restricted txn_type) []"

definition filterGatewaysForTxnDetailType :: "filter_env \<Rightarrow> filter_params \<Rightarrow> filter_state \<Rightarrow> filter_state" where
  "filterGatewaysForTxnDetailType e p s =
     (let txn_type = unwrap_or (fp_detail_txn_type p) [];
          restricted =
            unwrap_or
              (findByNameFromRedis e (json_list (json_pair json_text (json_list json_text)))
                 ''TXN_DETAIL_TYPE_RESTRICTED_GATEWAYS'') []
      in returnGwListWithLog FilterFunctionalGatewaysForTxnDetailType True
           (setGws
              (if txn_type = ''ZERO_AUTH''
               then filter (\<lambda>gw. gw \<in> set (get_zero_auth_supported_gateways txn_type restricted)) (getGws s)
               else getGws s) s))"

end
