(* ===== verification/Filter_Flow.thy ===== *)
theory Filter_Flow
  imports Filter_Methods
begin

text \<open>
  The last filters and their composition (\<open>gw_filter.rs\<close>): split settlement, the flows a merchant
  requires, one account per gateway, and \<open>newGwFilters\<close>, which runs every filter in turn and
  answers the gateways, with their accounts when the merchant selects accounts dynamically.
\<close>

section \<open>Split settlement\<close>

definition decode_split_settlement :: "json \<Rightarrow> string list option" where
  "decode_split_settlement v =
     Option.bind (json_member ''mdr_borne_by'' json_text v) (\<lambda>_.
     Option.bind (json_member ''marketplace'' (json_member ''amount'' json_f64) v) (\<lambda>_.
       json_member ''vendor''
         (json_member ''split''
            (json_list (\<lambda>w.
               Option.bind (json_member ''sub_mid'' json_text w) (\<lambda>sub_mid.
               Option.bind (json_member ''amount'' json_f64 w) (\<lambda>_.
               map_option (\<lambda>_. sub_mid) (json_member ''merchant_commission'' json_f64 w)))))) v))"

definition get_split_settlement_details ::
  "filter_env \<Rightarrow> filter_params \<Rightarrow> filter_state \<Rightarrow> string list option \<times> filter_state" where
  "get_split_settlement_details e p s =
     (let (meta, s1) = get_metadata e p s
      in (Option.bind (Option.bind (map_of meta ''split_settlement_details'') (fe_parse e))
            decode_split_settlement, s1))"

definition find_all_mgasi_by_maga_ids :: "filter_env \<Rightarrow> int list \<Rightarrow> merchant_gateway_account_sub_info list" where
  "find_all_mgasi_by_maga_ids e mga_ids =
     filter (\<lambda>r. mgasi_merchant_gateway_account_id r \<in> set mga_ids
                 \<and> mgasi_sub_info_type r = ''SPLIT_SETTLEMENT''
                 \<and> mgasi_sub_id_type r \<in> {''MARKETPLACE'', ''VENDOR''}) (fe_sub_infos e)"

definition vendor_sub_accounts :: "merchant_gateway_account_sub_info list \<Rightarrow> int \<Rightarrow> string list" where
  "vendor_sub_accounts infos i =
     List.map mgasi_juspay_sub_account_id
       (filter (\<lambda>r. mgasi_merchant_gateway_account_id r = i \<and> mgasi_sub_id_type r = ''VENDOR''
                   \<and> mgasi_sub_info_type r = ''SPLIT_SETTLEMENT'' \<and> \<not> mgasi_disabled r) infos)"

definition split_to_vendors ::
  "filter_env \<Rightarrow> filter_params \<Rightarrow> string hmap \<Rightarrow> string hmap \<Rightarrow> string list \<Rightarrow> filter_state \<Rightarrow> filter_state" where
  "split_to_vendors e p metadata pl_ref_id_map given_sub_mids s =
     (let st = getGws s;
          accounts =
            filter (\<lambda>gwacc. mga_reference_id gwacc
                              = get_gateway_reference_id metadata (mga_gateway gwacc) pl_ref_id_map
                            \<and> mga_gateway gwacc \<in> set st)
              (getEnabledMgasByMerchantIdAndRefId e (fp_merchant_id p)
                 (get_all_possible_ref_ids metadata pl_ref_id_map));
          infos = find_all_mgasi_by_maga_ids e (List.map mga_id accounts);
          sub_accounts = foldl (\<lambda>acc mga. hm_insert (mga_id mga) (vendor_sub_accounts infos (mga_id mga)) acc)
                           [] accounts;
          mga_ids =
            ord_nub (List.map fst
              (filter (\<lambda>(_, v). length (intersect given_sub_mids v) = length given_sub_mids) sub_accounts))
      in setGwsAndMgas (filter (\<lambda>mga. mga_id mga \<in> set mga_ids) (unwrap_or (get_mgas s) [])) s)"

definition without_split_only ::
  "filter_env \<Rightarrow> filter_params \<Rightarrow> string hmap \<Rightarrow> string hmap \<Rightarrow> filter_state \<Rightarrow> filter_state" where
  "without_split_only e p metadata pl_ref_id_map s =
     (if intersect (gateways_config e ''SPLIT_SETTLEMENT_SUPPORTED_GATEWAYS'') (getGws s) \<noteq> [] then
        (let only = get_split_settlement_only_gateway_accounts e p
                      (get_all_possible_ref_ids metadata pl_ref_id_map)
         in setGwsAndMgas
              (filter (\<lambda>mga. mga_id mga \<notin> mga_id ` set only) (unwrap_or (get_mgas s) [])) s)
      else s)"

definition filterFunctionalGatewaysForSplitSettlement :: "filter_env \<Rightarrow> filter_params \<Rightarrow> filter_state \<Rightarrow> filter_state" where
  "filterFunctionalGatewaysForSplitSettlement e p s =
     (let (details, s1) = get_split_settlement_details e p s;
          ((metadata, pl_ref_id_map), s2) = order_metadata_and_pl_ref_ids e p s1
      in returnGwListWithLog FilterFunctionalGatewaysForSplitSettlement True
           (case details of
              Some given_sub_mids \<Rightarrow>
                if given_sub_mids = [] then s2
                else split_to_vendors e p metadata pl_ref_id_map given_sub_mids s2
            | None \<Rightarrow> without_split_only e p metadata pl_ref_id_map s2))"

section \<open>Required flows\<close>

definition filter_gateways_for_flow :: "filter_env \<Rightarrow> bool \<Rightarrow> string \<Rightarrow> string list \<Rightarrow> string list" where
  "filter_gateways_for_flow e cond redis_key gateways =
     (if cond then filter (\<lambda>gateway. gateway \<in> set (gateways_config e redis_key)) gateways else gateways)"

definition filterFunctionalGatewaysForMerchantRequiredFlow ::
  "filter_env \<Rightarrow> filter_params \<Rightarrow> filter_state \<Rightarrow> filter_state" where
  "filterFunctionalGatewaysForMerchantRequiredFlow e p s =
     (let flows = get_payment_flow_list_from_txn_detail e p;
          mf = filter_gateways_for_flow e (''MUTUAL_FUND'' \<in> set flows)
                 ''MUTUAL_FUND_FLOW_SUPPORTED_GATEWAYS'' (getGws s);
          mf_and_cb = filter_gateways_for_flow e (''CROSS_BORDER_PAYMENT'' \<in> set flows)
                 ''CROSS_BORDER_FLOW_SUPPORTED_GATEWAYS'' mf;
          filtered_gw = filter_gateways_for_flow e (''SINGLE_BLOCK_MULTIPLE_DEBIT'' \<in> set flows)
                 ''SBMD_SUPPORTED_GATEWAYS'' mf_and_cb
      in returnGwListWithLog FilterFunctionalGatewaysForMerchantRequiredFlow True (setGws filtered_gw s))"

section \<open>One account per gateway\<close>

definition validate_only_one_mga :: "merchant_gateway_account list \<Rightarrow> string list \<Rightarrow> string list" where
  "validate_only_one_mga mgas st =
     filter (\<lambda>gwt. length (filter (\<lambda>mga. mga_gateway mga = gwt) mgas) = 1) st"

definition GATEWAYS_WITH_TENURE_BASED_CREDS :: "string list" where
  "GATEWAYS_WITH_TENURE_BASED_CREDS = [''HDFC'', ''HDFC_CC_EMI'', ''ICICI'']"

definition decode_emi_account_details :: "json \<Rightarrow> (int option \<times> json option) option" where
  "decode_emi_account_details v =
     Option.bind (json_optional ''emiTenure'' json_i32 v) (\<lambda>tenure.
       map_option (Pair tenure) (json_optional ''isEmi'' Some v))"

definition get_emi :: "filter_env \<Rightarrow> json option \<Rightarrow> bool" where
  "get_emi e is_emi =
     (case is_emi of
        Some (JBool b) \<Rightarrow> b
      | Some (JStr s) \<Rightarrow> fe_lower e s = ''true''
      | _ \<Rightarrow> False)"

definition get_tenure :: "int option \<Rightarrow> int" where
  "get_tenure tenure = unwrap_or tenure 0"

definition tenure_matches :: "filter_env \<Rightarrow> filter_params \<Rightarrow> merchant_gateway_account \<Rightarrow> bool" where
  "tenure_matches e p gw_account =
     (if mga_gateway gw_account \<in> set GATEWAYS_WITH_TENURE_BASED_CREDS then
        (case Option.bind (fe_parse e (mga_account_details gw_account)) decode_emi_account_details of
           Some (tenure, is_emi) \<Rightarrow>
             get_emi e is_emi = unwrap_or (fp_is_emi p) False
             \<and> get_tenure tenure = unwrap_or (fp_emi_tenure p) 0
         | None \<Rightarrow> True)
      else True)"

definition filterForEMITenureSpecificMGAs :: "filter_env \<Rightarrow> filter_params \<Rightarrow> filter_state \<Rightarrow> filter_state" where
  "filterForEMITenureSpecificMGAs e p s =
     returnGwListWithLog FilterGatewaysForEMITenureSpecificGatewayCreds True
       (if unwrap_or (fp_is_emi p) False then
          setGwsAndMgas
            (filter (\<lambda>gw_account. mga_gateway gw_account \<in> set (getGws s) \<and> tenure_matches e p gw_account)
               (unwrap_or (get_mgas s) [])) s
        else s)"

definition filterGatewaysForMGASelectionIntegrity :: "filter_env \<Rightarrow> filter_params \<Rightarrow> filter_state \<Rightarrow> filter_state" where
  "filterGatewaysForMGASelectionIntegrity e p s =
     returnGwListWithLog FilterGatewaysForMGASelectionIntegrity True
       (if fs_is_dynamic_mga_enabled s then
          (let s1 = filterForEMITenureSpecificMGAs e p s;
               st = getGws s1;
               filtered_mgas = filter (\<lambda>mga. mga_gateway mga \<in> set st) (unwrap_or (get_mgas s1) [])
           in setGws (validate_only_one_mga filtered_mgas st) s1)
        else s)"

section \<open>All filters\<close>

definition filters_after_validation :: "filter_env \<Rightarrow> filter_params \<Rightarrow> filter_state \<Rightarrow> filter_state" where
  "filters_after_validation e p s =
     foldl (\<lambda>s f. f e p s) s
       [filterGatewaysForEmi, filterGatewaysForTxnOfferDetails, filterGatewaysForPaymentMethod,
        filterGatewaysForTokenProvider, filterGatewaysForWallet, filterGatewaysForNbOnly,
        filterGatewaysForConsumerFinance, filterGatewaysForUpi, filterGatewaysForTxnType,
        filterGatewaysForTxnDetailType, filterGatewaysForReward, filterGatewaysForCash,
        filterFunctionalGatewaysForSplitSettlement, filterFunctionalGatewaysForMerchantRequiredFlow,
        filterFunctionalGatewaysForOTMFlow, filterFunctionalGatewaysForPixFlows,
        filterGatewaysForMGASelectionIntegrity]"

definition final_gateways :: "filter_state \<Rightarrow> string list \<times> merchant_gateway_account list" where
  "final_gateways s =
     (getGws s, unwrap_or (if fs_is_dynamic_mga_enabled s then get_mgas s else None) [])"

definition newGwFilters ::
  "filter_env \<Rightarrow> filter_params \<Rightarrow> filter_state
   \<Rightarrow> error_response + (string list \<times> merchant_gateway_account list) \<times> filter_state" where
  "newGwFilters e p s =
     (let s1 = filterFunctionalGateways e p (getFunctionalGateways e p s)
      in if getGws s1 = [] then Inr (([], []), s1)
         else
           rbind (filterGatewaysForAuthType e p (filterGatewaysForBrand e p s1)) (\<lambda>s2.
           rbind (filterGatewaysForValidationType e p s2) (\<lambda>s3.
             let s4 = returnGwListWithLog FinalFunctionalGateways False (filters_after_validation e p s3)
             in Inr (final_gateways s4, s4))))"

end
