(* ===== verification/Filter_Correct.thy ===== *)
theory Filter_Correct
  imports Filter_Flow
begin

text \<open>
  What the gateway filters keep. The functional gateways are those of the accounts in the state,
  every account comes from the merchant's rows of the table, and no filter but the one on
  third-party validation brings a gateway back, so that the gateways reported filter by filter
  form a decreasing chain.
\<close>

section \<open>The invariant\<close>

definition order_metadata :: "filter_env \<Rightarrow> filter_params \<Rightarrow> string hmap" where
  "order_metadata e p = (case fp_order_metadata p of Some text \<Rightarrow> decode_metadata e text | None \<Rightarrow> [])"

definition all_accounts_enabled :: "filter_env \<Rightarrow> filter_params \<Rightarrow> bool" where
  "all_accounts_enabled e p \<longleftrightarrow> map_of (order_metadata e p) ''enabledForAllMgas'' \<noteq> None"

definition metadata_ok :: "filter_env \<Rightarrow> filter_params \<Rightarrow> filter_state \<Rightarrow> bool" where
  "metadata_ok e p s \<longleftrightarrow> fs_metadata s \<in> {None, Some (order_metadata e p)}"

definition allowed_accounts :: "filter_env \<Rightarrow> filter_params \<Rightarrow> merchant_gateway_account set" where
  "allowed_accounts e p =
     {m. mga_merchant_id m = fp_merchant_id p \<and> (\<not> all_accounts_enabled e p \<longrightarrow> mga_disabled m \<noteq> Some True)
         \<and> (\<exists>r \<in> set (fe_accounts e). mga_try_from e r = Some m)}"

definition filter_sound :: "filter_env \<Rightarrow> filter_params \<Rightarrow> filter_state \<Rightarrow> bool" where
  "filter_sound e p s \<longleftrightarrow>
     metadata_ok e p s
     \<and> (\<exists>ms. fs_mgas s = Some ms \<and> set (getGws s) = mga_gateway ` set ms \<and> set ms \<subseteq> allowed_accounts e p)"

text \<open>The reports of the filters between two states.\<close>

definition chain_between :: "filter_state \<Rightarrow> filter_state \<Rightarrow> (string \<times> string list) list \<Rightarrow> bool" where
  "chain_between s s' l \<longleftrightarrow>
     fs_debugFilterList s' = fs_debugFilterList s @ l
     \<and> sorted_wrt (\<lambda>a b. set (snd b) \<subseteq> set (snd a)) l
     \<and> (\<forall>d \<in> set l. set (getGws s') \<subseteq> set (snd d) \<and> set (snd d) \<subseteq> set (getGws s))"

definition narrows :: "filter_state \<Rightarrow> filter_state \<Rightarrow> bool" where
  "narrows s s' \<longleftrightarrow> set (getGws s') \<subseteq> set (getGws s) \<and> (\<exists>l. chain_between s s' l)"

definition keeps :: "filter_env \<Rightarrow> filter_params \<Rightarrow> filter_state \<Rightarrow> filter_state \<Rightarrow> bool" where
  "keeps e p s s' \<longleftrightarrow>
     (filter_sound e p s \<longrightarrow>
        filter_sound e p s' \<and> (\<not> is_tpv_transaction (fp_txn p) \<longrightarrow> narrows s s'))"

lemma narrows_quiet: "set (getGws s') \<subseteq> set (getGws s) \<Longrightarrow> fs_debugFilterList s' = fs_debugFilterList s \<Longrightarrow> narrows s s'"
  unfolding narrows_def chain_between_def by auto

lemma narrows_trans: "narrows s s' \<Longrightarrow> narrows s' s'' \<Longrightarrow> narrows s s''"
proof -
  assume "narrows s s'" "narrows s' s''"
  then obtain l l' where l: "chain_between s s' l" "chain_between s' s'' l'"
    and g: "set (getGws s') \<subseteq> set (getGws s)" "set (getGws s'') \<subseteq> set (getGws s')"
    by (auto simp: narrows_def)
  have below: "set (snd b) \<subseteq> set (snd a)" if "a \<in> set l" "b \<in> set l'" for a b
    using that l unfolding chain_between_def by blast
  have "set (getGws s'') \<subseteq> set (snd d) \<and> set (snd d) \<subseteq> set (getGws s)" if "d \<in> set (l @ l')" for d
    using that l g unfolding chain_between_def set_append by blast
  with l below have "chain_between s s'' (l @ l')"
    by (simp add: chain_between_def sorted_wrt_append)
  with g show ?thesis unfolding narrows_def by blast
qed

lemma keeps_refl: "keeps e p s s"
  by (simp add: keeps_def narrows_quiet)

lemma keeps_trans: "keeps e p s s' \<Longrightarrow> keeps e p s' s'' \<Longrightarrow> keeps e p s s''"
  unfolding keeps_def using narrows_trans by blast

lemma keepsI:
  "(filter_sound e p s \<Longrightarrow> filter_sound e p s') \<Longrightarrow>
   (filter_sound e p s \<Longrightarrow> \<not> is_tpv_transaction (fp_txn p) \<Longrightarrow> narrows s s') \<Longrightarrow> keeps e p s s'"
  by (simp add: keeps_def)

section \<open>The elementary steps\<close>

lemma getGws_setGws [simp]: "getGws (setGws gws s) = gws"
  by (simp add: getGws_def setGws_def Let_def)

lemma getGws_setGwsAndMgas [simp]: "getGws (setGwsAndMgas ms s) = ord_nub (List.map mga_gateway ms)"
  by (simp add: getGws_def setGwsAndMgas_def)

lemma getGws_log [simp]: "getGws (returnGwListWithLog n b s) = getGws s"
  by (simp add: getGws_def returnGwListWithLog_def)

lemma log_frame [simp]:
  "fs_mgas (returnGwListWithLog n b s) = fs_mgas s"
  "fs_metadata (returnGwListWithLog n b s) = fs_metadata s"
  "fs_is_dynamic_mga_enabled (returnGwListWithLog n b s) = fs_is_dynamic_mga_enabled s"
  by (simp_all add: returnGwListWithLog_def)

lemma setGws_frame [simp]:
  "fs_mgas (setGws gws s) = map_option (filter (\<lambda>m. mga_gateway m \<in> set gws)) (fs_mgas s)"
  "fs_metadata (setGws gws s) = fs_metadata s"
  "fs_debugFilterList (setGws gws s) = fs_debugFilterList s"
  "fs_is_dynamic_mga_enabled (setGws gws s) = fs_is_dynamic_mga_enabled s"
  by (simp_all add: setGws_def get_mgas_def set_mgas_def Let_def split: option.split)

lemma setGwsAndMgas_frame [simp]:
  "fs_mgas (setGwsAndMgas ms s) = Some ms"
  "fs_metadata (setGwsAndMgas ms s) = fs_metadata s"
  "fs_debugFilterList (setGwsAndMgas ms s) = fs_debugFilterList s"
  "fs_is_dynamic_mga_enabled (setGwsAndMgas ms s) = fs_is_dynamic_mga_enabled s"
  by (simp_all add: setGwsAndMgas_def set_mgas_def)

lemma narrows_log: "narrows s (returnGwListWithLog n b s)"
proof -
  have "chain_between s (returnGwListWithLog n b s)
      (if b then [(makeFirstLetterSmall (filter_name_to_string n), getGws s)] else [])"
    by (simp add: chain_between_def) (simp add: returnGwListWithLog_def)
  then show ?thesis by (auto simp: narrows_def)
qed

lemma keeps_log: "keeps e p s (returnGwListWithLog n b s)"
  by (rule keepsI) (simp_all add: filter_sound_def metadata_ok_def narrows_log)

lemma keeps_logI: "keeps e p s s' \<Longrightarrow> keeps e p s (returnGwListWithLog n b s')"
  by (rule keeps_trans [OF _ keeps_log])

lemma filter_soundE:
  assumes "filter_sound e p s"
  obtains ms where "fs_mgas s = Some ms" "set (getGws s) = mga_gateway ` set ms"
    "set ms \<subseteq> allowed_accounts e p" "metadata_ok e p s"
  using assms by (auto simp: filter_sound_def)

lemma keeps_setGws:
  assumes "set gws \<subseteq> set (getGws s)"
  shows "keeps e p s (setGws gws s)"
proof (rule keepsI)
  show "narrows s (setGws gws s)" using assms by (simp add: narrows_quiet)
  assume "filter_sound e p s"
  then obtain ms where "fs_mgas s = Some ms" "set (getGws s) = mga_gateway ` set ms"
    "set ms \<subseteq> allowed_accounts e p" "metadata_ok e p s"
    by (rule filter_soundE)
  with assms show "filter_sound e p (setGws gws s)"
    by (auto simp: filter_sound_def metadata_ok_def)
qed

lemma keeps_setGwsAndMgas:
  assumes "\<And>m. filter_sound e p s \<Longrightarrow> m \<in> set ms \<Longrightarrow> m \<in> allowed_accounts e p"
    and "\<And>m. filter_sound e p s \<Longrightarrow> \<not> is_tpv_transaction (fp_txn p) \<Longrightarrow> m \<in> set ms
           \<Longrightarrow> mga_gateway m \<in> set (getGws s)"
  shows "keeps e p s (setGwsAndMgas ms s)"
proof (rule keepsI)
  show "filter_sound e p s \<Longrightarrow> filter_sound e p (setGwsAndMgas ms s)"
    using assms(1) by (auto simp: filter_sound_def metadata_ok_def)
  show "filter_sound e p s \<Longrightarrow> \<not> is_tpv_transaction (fp_txn p) \<Longrightarrow> narrows s (setGwsAndMgas ms s)"
    using assms(2) by (auto intro!: narrows_quiet)
qed

text \<open>Accounts of the state may be kept, whatever selects them.\<close>

lemma keeps_own_accounts:
  assumes "set ms \<subseteq> set (unwrap_or (get_mgas s) [])"
  shows "keeps e p s (setGwsAndMgas ms s)"
  using assms
  by (intro keeps_setGwsAndMgas; elim filter_soundE) (auto simp: get_mgas_def)

lemma keeps_setGws_set_mgas:
  assumes "set ms \<subseteq> set (unwrap_or (get_mgas s) [])"
  shows "keeps e p s (setGws (List.map mga_gateway ms) (set_mgas ms s))"
proof (rule keepsI)
  have g: "getGws (set_mgas ms s) = getGws s" by (simp add: getGws_def set_mgas_def)
  assume "filter_sound e p s"
  then obtain ms0 where m: "fs_mgas s = Some ms0" "set (getGws s) = mga_gateway ` set ms0"
    "set ms0 \<subseteq> allowed_accounts e p" "metadata_ok e p s"
    by (rule filter_soundE)
  with assms show "filter_sound e p (setGws (List.map mga_gateway ms) (set_mgas ms s))"
    by (auto simp: filter_sound_def metadata_ok_def get_mgas_def set_mgas_def)
  show "narrows s (setGws (List.map mga_gateway ms) (set_mgas ms s))"
    using assms m by (intro narrows_quiet) (auto simp: get_mgas_def set_mgas_def)
qed

lemma keeps_frame:
  assumes "fs_mgas s' = fs_mgas s" "getGws s' = getGws s" "fs_debugFilterList s' = fs_debugFilterList s"
    "metadata_ok e p s \<Longrightarrow> metadata_ok e p s'"
  shows "keeps e p s s'"
  using assms by (intro keepsI narrows_quiet) (auto simp: filter_sound_def)

section \<open>Reading leaves the gateways alone\<close>

definition quiet :: "filter_env \<Rightarrow> filter_params \<Rightarrow> filter_state \<Rightarrow> filter_state \<Rightarrow> bool" where
  "quiet e p s s' \<longleftrightarrow>
     fs_mgas s' = fs_mgas s \<and> getGws s' = getGws s \<and> fs_debugFilterList s' = fs_debugFilterList s
     \<and> fs_is_dynamic_mga_enabled s' = fs_is_dynamic_mga_enabled s
     \<and> (metadata_ok e p s \<longrightarrow> metadata_ok e p s')"

lemma quiet_trans: "quiet e p s s' \<Longrightarrow> quiet e p s' s'' \<Longrightarrow> quiet e p s s''"
  by (simp add: quiet_def)

lemma quiet_keeps: "quiet e p s s' \<Longrightarrow> keeps e p s s'"
  by (rule keeps_frame) (simp_all add: quiet_def)

lemma quiet_sound: "quiet e p s s' \<Longrightarrow> filter_sound e p s \<Longrightarrow> filter_sound e p s'"
  by (auto simp: quiet_def filter_sound_def)

lemma quiet_metadata:
  "get_metadata e p s = (m, s1) \<Longrightarrow> quiet e p s s1 \<and> (metadata_ok e p s \<longrightarrow> m = order_metadata e p)"
  by (auto simp: get_metadata_def quiet_def metadata_ok_def order_metadata_def getGws_def Let_def
        split: option.splits)

lemma quiet_all:
  "is_enabled_for_all_mgas e p s = (b, s1) \<Longrightarrow>
   quiet e p s s1 \<and> (metadata_ok e p s \<longrightarrow> b = all_accounts_enabled e p)"
  using quiet_metadata
  by (auto simp: is_enabled_for_all_mgas_def all_accounts_enabled_def split: prod.splits)

lemma quiet_refs: "order_metadata_and_pl_ref_ids e p s = (x, s1) \<Longrightarrow> quiet e p s s1"
  using quiet_metadata
  by (auto simp: order_metadata_and_pl_ref_ids_def Let_def quiet_def split: prod.splits if_splits)

lemma quiet_brand: "get_card_brand e p s = (b, s1) \<Longrightarrow> quiet e p s s1"
  by (auto simp: get_card_brand_def quiet_def metadata_ok_def getGws_def Let_def split: option.splits)

lemma enabled_mgas_of_state:
  "fs_mgas s = Some ms \<Longrightarrow> get_enabled_mgas_by_merchant_id_and_ref_id e p ref_ids s = (ms, s)"
  by (simp add: get_enabled_mgas_by_merchant_id_and_ref_id_def get_mgas_def)

section \<open>Accounts read from the table\<close>

lemma mga_try_from_fields:
  "mga_try_from e r = Some m \<Longrightarrow>
   mga_id m = mga_id r \<and> mga_merchant_id m = mga_merchant_id r \<and> mga_disabled m = mga_disabled r
   \<and> mga_gateway m = mga_gateway r \<and> mga_reference_id m = mga_reference_id r"
  by (auto simp: mga_try_from_def)

lemma all_accounts_allowed:
  "all_accounts_enabled e p \<Longrightarrow>
   set (get_all_enabled_mgas_by_merchant_id e (fp_merchant_id p)) \<subseteq> allowed_accounts e p"
  using mga_try_from_fields
  by (fastforce simp: get_all_enabled_mgas_by_merchant_id_def filter_morpheus_def
        getEnabledMgasByMerchantId_def allowed_accounts_def List.map_filter_def)

lemma enabled_accounts_allowed:
  "set (getEnabledMgasByMerchantIdAndRefId e (fp_merchant_id p) ref_ids) \<subseteq> allowed_accounts e p"
  using mga_try_from_fields
  by (fastforce simp: getEnabledMgasByMerchantIdAndRefId_def allowed_accounts_def List.map_filter_def)

section \<open>The functional gateways\<close>

lemma keeps_if: "keeps e p s a \<Longrightarrow> keeps e p s b \<Longrightarrow> keeps e p s (if c then a else b)"
  by simp

lemma keeps_filter: "keeps e p s (setGws (filter P (getGws s)) s)"
  by (rule keeps_setGws) auto

lemma keeps_no_gateways: "keeps e p s (setGws [] s)"
  by (rule keeps_setGws) simp

lemma keeps_cvvless_v2: "keeps e p s (cvvless_token_repeat_v2 e p brand s)"
proof -
  have "keeps e p s (setGws (List.map mga_gateway (accounts_with_method_flow e ids
      (filter P (unwrap_or (get_mgas s) []))))
      (set_mgas (accounts_with_method_flow e ids (filter P (unwrap_or (get_mgas s) []))) s))" for ids P
    by (rule keeps_setGws_set_mgas) (auto simp: accounts_with_method_flow_def)
  then show ?thesis
    unfolding cvvless_token_repeat_v2_def Let_def
    by (simp add: keeps_no_gateways split: option.split)
qed

lemma keeps_cvvless: "keeps e p s (filter_for_cvvless e p im s)"
proof -
  have "keeps e p s (cvvless_token_repeat e p im brand s)" for brand
    unfolding cvvless_token_repeat_def by (rule keeps_setGws) auto
  moreover have "keeps e p s (cvvless_moto e p s)"
    unfolding cvvless_moto_def Let_def by (rule keeps_filter)
  moreover have "keeps e p s (cvvless_plain e p s)"
    unfolding cvvless_plain_def Let_def by (intro keeps_if keeps_filter keeps_refl)
  ultimately show ?thesis
    unfolding filter_for_cvvless_def Let_def by (intro keeps_if keeps_cvvless_v2 keeps_refl)
qed

lemma keeps_token_repeat: "keeps e p s (filter_for_token_repeat e p im s)"
proof -
  have otp: "keeps e p s (if c then setGws (filter P (getGws s)) s else s)" for c P
    by (intro keeps_if keeps_filter keeps_refl)
  have kept: "keeps e p s1 (setGws (if c then getGws s1 else filter P (getGws s1)) s1)" for c P s1
    by (rule keeps_setGws) auto
  show ?thesis
    unfolding filter_for_token_repeat_def Let_def
    by (intro keeps_if keeps_refl keeps_trans [OF otp kept])
qed

lemma keeps_ta_file: "keeps e p s (filter_for_ta_file e p s)"
  unfolding filter_for_ta_file_def by (auto intro!: keeps_setGws keeps_refl)

lemma keeps_merchant_container: "keeps e p s (filter_for_merchant_container e p s)"
  unfolding filter_for_merchant_container_def Let_def by (auto intro!: keeps_setGws)

lemma keeps_filterFunctionalGateways: "keeps e p s (filterFunctionalGateways e p s)"
proof -
  let ?im = "Option.bind (Option.bind (fp_txn_internal_metadata p) (fe_parse e)) decode_internal_metadata"
  have "keeps e p s (s\<lparr>fs_internalMetaData := ?im\<rparr>)"
    by (rule keeps_frame) (simp_all add: getGws_def metadata_ok_def)
  then show ?thesis
    unfolding filterFunctionalGateways_def Let_def
    by (intro keeps_logI keeps_trans [OF _ keeps_merchant_container] keeps_trans [OF _ keeps_ta_file]
          keeps_trans [OF _ keeps_token_repeat] keeps_trans [OF _ keeps_cvvless])
qed

section \<open>The card\<close>

lemma keeps_brand: "keeps e p s (filterGatewaysForBrand e p s)"
proof (cases "get_card_brand e p s")
  case (Pair b s1)
  then have q: "quiet e p s s1" by (rule quiet_brand)
  have "set (filterByCardBrand e (getGws s) b) \<subseteq> set (getGws s)"
    by (auto simp: filterByCardBrand_def Let_def split: option.split)
  with q have "keeps e p s1 (setGws (filterByCardBrand e (getGws s) b) s1)"
    by (intro keeps_setGws) (simp add: quiet_def)
  with q Pair show ?thesis
    unfolding filterGatewaysForBrand_def Let_def
    by (simp add: keeps_logI keeps_trans [OF quiet_keeps])
qed

lemma gci_try_from_fields:
  "gci_try_from r = Some c \<Longrightarrow> gci_gateway c = gci_gateway r \<and> gci_id c = gci_id r \<and> gci_isin c = gci_isin r"
  by (auto simp: gci_try_from_def)

lemma enabled_rows_gateways:
  assumes "c \<in> set (get_enabled_gateway_card_info_for_gateways e bins gws)"
  shows "gci_gateway c \<in> Some ` set gws"
proof -
  from assms obtain r where "gci_try_from r = Some c" "gci_gateway r \<in> Some ` set gws"
    by (fastforce simp: get_enabled_gateway_card_info_for_gateways_def List.map_filter_def split: if_splits)
  then show ?thesis using gci_try_from_fields [of r c] by simp
qed

lemma validated_rows_gateways:
  assumes "c \<in> set (validated_card_rows e p bins gws auth validation)"
  shows "gci_gateway c \<in> Some ` set gws"
proof -
  from assms have "c \<in> set (get_enabled_gateway_card_info_for_gateways e bins gws)"
    by (auto simp: validated_card_rows_def Let_def split: option.splits)
  then show ?thesis by (rule enabled_rows_gateways)
qed

lemma mandate_rows_gateways:
  assumes "card_mandate_rows e p bins gws auth = Inr rows" "c \<in> set rows"
  shows "gci_gateway c \<in> Some ` set gws"
proof -
  let ?wise = "get_merchant_wise_mandate_bin_eligible_gateways e p gws"
  have wise: "set ?wise \<subseteq> set gws" by (auto simp: get_merchant_wise_mandate_bin_eligible_gateways_def)
  from assms have "c \<in> set (get_enabled_gateway_card_info_for_gateways e bins (filter (\<lambda>g. g \<notin> set ?wise) gws))
      \<or> gci_gateway c \<in> Some ` set ?wise"
    by (auto simp: card_mandate_rows_def Let_def rbind_eq_Inr split: if_splits)
  with wise show ?thesis using enabled_rows_gateways [of c] by fastforce
qed

lemma card_info_gateways:
  assumes "filterGatewaysCardInfo e p bins gws auth validation = Inr rows"
  shows "{g. Some g \<in> gci_gateway ` set rows} \<subseteq> set gws"
  using assms mandate_rows_gateways validated_rows_gateways
  by (fastforce simp: filterGatewaysCardInfo_def split: if_splits)

lemma set_map_filter_Some: "set (List.map_filter f xs) = {y. Some y \<in> f ` set xs}"
  by (induction xs) (auto simp: List.map_filter_simps split: option.splits)

lemma keeps_bin_eligibility: "bin_eligibility e p isin s = Inr s' \<Longrightarrow> keeps e p s s'"
proof -
  assume "bin_eligibility e p isin s = Inr s'"
  then obtain rows P Q where
    rows: "filterGatewaysCardInfo e p (get_bin_list (Some isin)) (filter P (getGws s)) (tci_auth_type (fp_card p)) None
             = Inr rows"
    and s': "s' = setGws (List.map_filter gci_gateway rows @ filter Q (filter (\<lambda>gw. \<not> P gw) (getGws s))) s"
    unfolding bin_eligibility_def isAuthTypeSupported_def Let_def rbind_eq_Inr by blast
  have "set (List.map_filter gci_gateway rows) \<subseteq> set (getGws s)"
    using card_info_gateways [OF rows] unfolding set_map_filter_Some by auto
  then show ?thesis unfolding s' by (intro keeps_setGws) auto
qed

lemma keeps_auth_type:
  assumes "filterGatewaysForAuthType e p s = Inr s'"
  shows "keeps e p s s'"
proof -
  have sel: "keeps e p s (setGwsAndMgas (filter P (unwrap_or (get_mgas s) [])) s)" for P
    by (rule keeps_own_accounts) auto
  show ?thesis
  proof (cases "tci_card_isin (fp_card p)")
    case None
    with assms show ?thesis by (auto simp: filterGatewaysForAuthType_def keeps_log)
  next
    case (Some isin)
    define s1 where "s1 =
      (case auth_type_accounts e (tci_auth_type (fp_card p)) of
         Some supports \<Rightarrow>
           setGwsAndMgas (filter (\<lambda>mga. supports mga \<and> mga_gateway mga \<in> set (getGws s))
             (unwrap_or (get_mgas s) [])) s
       | None \<Rightarrow> s)"
    have s1: "keeps e p s s1" unfolding s1_def by (auto intro: sel keeps_refl split: option.split)
    from assms Some obtain s2 where s2: "s2 = s1 \<or> bin_eligibility e p isin s1 = Inr s2"
      and s': "s' = returnGwListWithLog FilterFunctionalGatewaysForAuthType True s2"
      unfolding filterGatewaysForAuthType_def rbind_eq_Inr Let_def s1_def [symmetric]
      by (auto split: if_splits)
    from s2 have "keeps e p s s2" using s1 keeps_trans [OF s1 keeps_bin_eligibility] by blast
    then show ?thesis unfolding s' by (rule keeps_logI)
  qed
qed

lemma keeps_bank_flow: "keeps e p s (filter_for_bank_flow e p cc pf enabled s)"
proof (cases "order_metadata_and_pl_ref_ids e p s")
  case (Pair refs s1)
  then have q: "quiet e p s s1" by (rule quiet_refs)
  show ?thesis
  proof (cases "fs_mgas s")
    case None
    then show ?thesis by (simp add: keeps_def filter_sound_def)
  next
    case (Some ms)
    with q have ms: "fs_mgas s1 = Some ms" by (simp add: quiet_def)
    have gws: "getGws s1 = getGws s" using q by (simp add: quiet_def)
    have "keeps e p s1 (setGws (List.map mga_gateway (accounts_with_method_flow e ids (filter P ms)))
        (set_mgas (accounts_with_method_flow e ids (filter P ms)) s1))" for ids P
      by (rule keeps_setGws_set_mgas) (auto simp: accounts_with_method_flow_def get_mgas_def ms)
    moreover have "keeps e p s1 (setGws (getGws s) s1)" by (rule keeps_setGws) (simp add: gws)
    ultimately show ?thesis
      using quiet_keeps [OF q]
      unfolding filter_for_bank_flow_def Let_def Pair
      by (cases refs) (auto simp: enabled_mgas_of_state [OF ms] intro: keeps_trans split: option.split)
  qed
qed

lemma keeps_otm: "keeps e p s (filterFunctionalGatewaysForOTMFlow e p s)"
  unfolding filterFunctionalGatewaysForOTMFlow_def
  by (intro keeps_logI keeps_if keeps_bank_flow keeps_setGws order_refl)

lemma keeps_pix: "keeps e p s (filterFunctionalGatewaysForPixFlows e p s)"
proof -
  have "keeps e p s (setGws (getGws s) s)" by (intro keeps_setGws order_refl)
  then show ?thesis
    unfolding filterFunctionalGatewaysForPixFlows_def
    by (auto intro!: keeps_logI keeps_bank_flow split: option.split)
qed

section \<open>Validation\<close>

lemma narrow_or_keep_subset: "set (narrow_or_keep only gws) \<subseteq> set gws"
  by (auto simp: narrow_or_keep_def Let_def split: option.splits if_splits)

lemma card_mandate_gateways:
  assumes "card_mandate_filter e p s = Inr s'"
  obtains new_gws only where "set new_gws \<subseteq> set (getGws s)"
    "s' = setGws new_gws s \<or> s' = setGws (narrow_or_keep only new_gws) (setGws new_gws s)"
proof -
  define excluded where
    "excluded = intersect (gateways_config e ''CARD_MANDATE_BIN_FILTER_EXCLUDED_GATEWAYS'') (getGws s)"
  from assms obtain rows where
    rows: "filterGatewaysCardInfo e p (get_bin_list (tci_card_isin (fp_card p))) (getGws s) None
             (Some VT_CardMandate) = Inr rows"
    by (auto simp: card_mandate_filter_def Let_def rbind_eq_Inr)
  define new_gws where "new_gws = ord_nub (catMaybes (List.map gci_gateway rows)) @ excluded"
  have "set new_gws \<subseteq> set (getGws s)"
    using card_info_gateways [OF rows] by (auto simp: new_gws_def excluded_def set_catMaybes)
  moreover from assms have "\<exists>only. s' = setGws new_gws s \<or> s' = setGws (narrow_or_keep only new_gws) (setGws new_gws s)"
    unfolding card_mandate_filter_def Let_def excluded_def [symmetric] rows rbind_simps new_gws_def [symmetric]
    by (auto split: if_splits)
  ultimately show ?thesis using that by blast
qed

lemma keeps_card_mandate:
  assumes "card_mandate_filter e p s = Inr s'"
  shows "keeps e p s s'"
proof -
  obtain new_gws only where new: "set new_gws \<subseteq> set (getGws s)"
    and s': "s' = setGws new_gws s \<or> s' = setGws (narrow_or_keep only new_gws) (setGws new_gws s)"
    using card_mandate_gateways [OF assms] by blast
  have "keeps e p (setGws new_gws s) (setGws (narrow_or_keep only new_gws) (setGws new_gws s))"
    by (rule keeps_setGws) (simp add: narrow_or_keep_subset)
  with keeps_setGws [OF new] s' show ?thesis by (blast intro: keeps_trans)
qed

lemma keeps_bank_validation:
  assumes "is_tpv_transaction (fp_txn p) \<or> is_emandate_transaction (fp_txn p)"
  shows "keeps e p s (bank_validation_filter e p metadata pl s)"
proof (cases "fs_mgas s")
  case None
  then show ?thesis by (simp add: keeps_def filter_sound_def)
next
  case (Some ms)
  let ?refs = "get_all_possible_ref_ids metadata pl"
  let ?tpv = "getEnabledMgasByMerchantIdAndRefId e (fp_merchant_id p) ?refs"
  have own: "keeps e p s (setGwsAndMgas (filter P (filter Q (filter R ms))) s)" for P Q R
    by (rule keeps_own_accounts) (auto simp: get_mgas_def Some)
  have tpv: "keeps e p s (setGwsAndMgas (filter P (filter Q ?tpv)) s)" if "is_tpv_transaction (fp_txn p)" for P Q
    using that enabled_accounts_allowed by (intro keeps_setGwsAndMgas) auto
  show ?thesis
  proof (cases "is_emandate_transaction (fp_txn p)")
    case True
    show ?thesis
      unfolding bank_validation_filter_def Let_def get_emandate_enabled_mga_def enabled_mgas_of_state [OF Some]
        split_beta if_P [OF True] fst_conv snd_conv
      by (rule own)
  next
    case False
    with assms show ?thesis
      unfolding bank_validation_filter_def Let_def split_beta if_not_P [OF False] fst_conv snd_conv
      by (intro tpv) simp
  qed
qed

lemma keeps_tpv_only: "keeps e p s (tpv_only_filter e p metadata pl s)"
  unfolding tpv_only_filter_def Let_def by (intro keeps_if keeps_filter keeps_refl)

lemma keeps_validation_type:
  assumes "filterGatewaysForValidationType e p s = Inr s'"
  shows "keeps e p s s'"
proof (cases "order_metadata_and_pl_ref_ids e p s")
  case (Pair refs s1)
  then have q: "keeps e p s s1" using quiet_refs quiet_keeps by blast
  obtain metadata pl where refs: "refs = (metadata, pl)" by (cases refs)
  from assms obtain s2 where s': "s' = returnGwListWithLog FilterFunctionalGatewaysForValidationType True s2"
    and s2: "card_mandate_filter e p s1 = Inr s2
      \<or> (is_tpv_transaction (fp_txn p) \<or> is_emandate_transaction (fp_txn p))
         \<and> (s2 = s1 \<or> s2 = bank_validation_filter e p metadata pl s1)
      \<or> s2 = tpv_only_filter e p metadata pl s1"
    unfolding filterGatewaysForValidationType_def Pair refs Let_def
    by (auto simp: rbind_eq_Inr split: if_splits)
  have "keeps e p s1 s2"
    using s2 keeps_card_mandate keeps_bank_validation keeps_tpv_only keeps_refl by blast
  with q show ?thesis unfolding s' by (intro keeps_logI) (rule keeps_trans)
qed

section \<open>Instalments, offers and payment methods\<close>

lemma mandate_emi_subset:
  "mandate_emi_gateways e p gws s = (gws1, s1) \<Longrightarrow> set gws1 \<subseteq> set gws \<and> quiet e p s s1"
  using quiet_brand by (auto simp: mandate_emi_gateways_def Let_def quiet_def split: prod.splits if_splits)

lemma emi_support_subset: "gbes_gateway ` set (get_gateway_bank_emi_support e b gws scp) \<subseteq> set gws"
  by (auto simp: get_gateway_bank_emi_support_def gbes_rows_def split: option.splits if_splits)

lemma emi_support_v2_subset: "gbes2_gateway ` set (get_gateway_bank_emi_support_v2 e b gws scp t) \<subseteq> set gws"
  by (auto simp: get_gateway_bank_emi_support_v2_def gbes_v2_rows_def split: option.splits list.splits if_splits)

lemma emi_bank_subset: "set (emi_bank_gateways e p scp gws) \<subseteq> set gws"
  using emi_support_subset [of e "fp_emi_bank p" gws scp]
    emi_support_v2_subset [of e "fp_emi_bank p" gws scp "fp_emi_tenure p"]
  by (auto simp: emi_bank_gateways_def extractGateways_def extractGatewaysV2_def Let_def)

lemma keeps_emi: "keeps e p s (filterGatewaysForEmi e p s)"
proof -
  obtain gws1 s1 where m: "mandate_emi_gateways e p (getGws s) s = (gws1, s1)" by fastforce
  then have g: "set gws1 \<subseteq> set (getGws s)" and q: "quiet e p s s1" using mandate_emi_subset by blast+
  have emi: "keeps e p s (setGws (if a then emi_bank_gateways e p scp gws else gws) s1)"
    if "set gws \<subseteq> set gws1" for a scp gws
    using that g q emi_bank_subset [of e p scp gws]
    by (intro keeps_trans [OF quiet_keeps [OF q]] keeps_setGws) (auto simp: quiet_def)
  have sub: "set (if b then (if c then (if d then filter P gws1 else gws1) else []) else (if d then filter P gws1 else gws1))
      \<subseteq> set gws1" for b c d P
    by auto
  show ?thesis
    unfolding filterGatewaysForEmi_def Let_def m prod.case
    by (intro keeps_logI keeps_if keeps_filter keeps_refl emi sub)
qed

lemma gateway_rule_subset: "set (filterByGatewayRule e gws info) \<subseteq> set gws"
  by (auto simp: filterByGatewayRule_def split: option.splits prod.splits if_splits)

lemma keeps_offers: "keeps e p s (filterGatewaysForTxnOfferDetails e p s)"
proof -
  have "set (foldl (filterByGatewayRule e) gws ds) \<subseteq> set gws" for gws ds
    by (rule foldl_invariant) (use gateway_rule_subset in blast)+
  then show ?thesis
    unfolding filterGatewaysForTxnOfferDetails_def Let_def
    by (auto intro!: keeps_logI keeps_if keeps_setGws keeps_refl split: option.split)
qed

lemma upi_flow_subset:
  "set (snd (filterGatewaysForUpiPayBasedOnSupportedFlow e mgas v i)) \<subseteq> set mgas"
  by (auto simp: filterGatewaysForUpiPayBasedOnSupportedFlow_def Let_def)

lemma non_card_subset: "set (non_card_accounts e p st mgas) \<subseteq> set mgas"
proof -
  have "set (snd (if c then filterGatewaysForUpiPayBasedOnSupportedFlow e mgas v i else (st, mgas))) \<subseteq> set mgas"
    for c v i
    using upi_flow_subset by simp
  then show ?thesis
    unfolding non_card_accounts_def getGatewaysAcceptingPaymentMethod_def Let_def split_beta snd_conv set_filter
    by blast
qed

lemma keeps_setGwsAndMgas_quiet:
  assumes q: "quiet e p s s1"
    and "\<And>m. filter_sound e p s \<Longrightarrow> m \<in> set ms \<Longrightarrow> m \<in> allowed_accounts e p"
    and "\<And>m. filter_sound e p s \<Longrightarrow> m \<in> set ms \<Longrightarrow> mga_gateway m \<in> set (getGws s)"
  shows "keeps e p s (setGwsAndMgas ms s1)"
proof (rule keepsI)
  assume sound: "filter_sound e p s"
  with q assms(2) show "filter_sound e p (setGwsAndMgas ms s1)"
    by (auto simp: filter_sound_def metadata_ok_def quiet_def)
  from sound q assms(3) show "narrows s (setGwsAndMgas ms s1)"
    by (intro narrows_quiet) (auto simp: quiet_def)
qed

lemma keeps_payment_method: "keeps e p s (filterGatewaysForPaymentMethod e p s)"
proof (cases "fs_mgas s")
  case None
  then show ?thesis by (simp add: keeps_def filter_sound_def)
next
  case (Some ms)
  obtain refs s1 where r: "order_metadata_and_pl_ref_ids e p s = (refs, s1)" by fastforce
  obtain whole s2 where a: "is_enabled_for_all_mgas e p s1 = (whole, s2)" by fastforce
  obtain brand s4 where b: "get_card_brand e p s2 = (brand, s4)" by fastforce
  have q1: "quiet e p s s1" using r by (rule quiet_refs)
  have q: "quiet e p s s2" using quiet_trans [OF q1] quiet_all [OF a] by blast
  have q4: "quiet e p s s4" using quiet_trans [OF q quiet_brand [OF b]] .
  define mgas where
    "mgas = (if whole then get_all_enabled_mgas_by_merchant_id e (fp_merchant_id p) else ms)"
  have allowed: "set mgas \<subseteq> allowed_accounts e p" if sound: "filter_sound e p s"
  proof -
    have "whole = all_accounts_enabled e p"
      using sound q1 quiet_all [OF a] by (auto simp: filter_sound_def quiet_def)
    with sound Some all_accounts_allowed [of e p] show ?thesis
      by (auto simp: filter_sound_def mgas_def)
  qed
  have fetched: "(if whole then (get_all_enabled_mgas_by_merchant_id e (fp_merchant_id p), s2)
      else get_enabled_mgas_by_merchant_id_and_ref_id e p ids s2) = (mgas, s2)" for ids
    using q Some by (simp add: mgas_def enabled_mgas_of_state quiet_def)
  let ?eligible = "filter (\<lambda>mga. mga_gateway mga \<in> set (getGws s)) mgas"
  have step: "keeps e p s (setGwsAndMgas ms' s3)" if "set ms' \<subseteq> set ?eligible" "quiet e p s s3" for ms' s3
    using that allowed by (intro keeps_setGwsAndMgas_quiet) auto
  have pm: "set (snd (getGatewaysAcceptingPaymentMethod e ?eligible (getGws s) m)) \<subseteq> set ?eligible" for m
    by (auto simp: getGatewaysAcceptingPaymentMethod_def Let_def)
  have card: "keeps e p s (case m of
      Some payment_method \<Rightarrow>
        setGwsAndMgas (snd (getGatewaysAcceptingPaymentMethod e ?eligible (getGws s) payment_method)) s4
    | None \<Rightarrow> s4)" for m
    using quiet_keeps [OF q4] step [OF pm q4] by (simp split: option.split)
  show ?thesis
    unfolding filterGatewaysForPaymentMethod_def Let_def r a prod.case split_beta fst_conv snd_conv fetched b
    by (intro keeps_logI keeps_if quiet_keeps [OF q] card step [OF non_card_subset q])
qed

section \<open>The other filters\<close>

lemma keeps_token_provider: "keeps e p s (filterGatewaysForTokenProvider e p s)"
  unfolding filterGatewaysForTokenProvider_def
  by (auto intro: keeps_logI keeps_filter keeps_refl split: option.split vault_provider.split)

lemma keeps_wallet: "keeps e p s (filterGatewaysForWallet e p s)"
  unfolding filterGatewaysForWallet_def Let_def by (intro keeps_logI keeps_setGws) auto

lemma keeps_nb: "keeps e p s (filterGatewaysForNbOnly e p s)"
  unfolding filterGatewaysForNbOnly_def by (intro keeps_logI keeps_if keeps_filter keeps_refl)

lemma keeps_consumer_finance: "keeps e p s (filterGatewaysForConsumerFinance e p s)"
  unfolding filterGatewaysForConsumerFinance_def Let_def by (intro keeps_logI keeps_setGws) auto

lemma keeps_reward: "keeps e p s (filterGatewaysForReward e p s)"
  unfolding filterGatewaysForReward_def Let_def by (intro keeps_logI keeps_setGws) auto

lemma keeps_cash: "keeps e p s (filterGatewaysForCash e p s)"
  unfolding filterGatewaysForCash_def by (intro keeps_logI keeps_if keeps_filter keeps_refl)

lemma keeps_upi: "keeps e p s (filterGatewaysForUpi e p s)"
  unfolding filterGatewaysForUpi_def Let_def by (intro keeps_logI keeps_if keeps_filter keeps_refl)

lemma keeps_txn_type: "keeps e p s (filterGatewaysForTxnType e p s)"
proof -
  have "set (txn_type_accounts e p t st mgas) \<subseteq> set mgas" for t st mgas
    using upi_flow_subset by (fastforce simp: txn_type_accounts_def Let_def split: if_splits)
  then have "keeps e p s (setGwsAndMgas (filter P (txn_type_accounts e p t st (unwrap_or (get_mgas s) []))) s)" for P t st
    by (intro keeps_own_accounts) auto
  then show ?thesis
    unfolding filterGatewaysForTxnType_def Let_def
    by (auto intro: keeps_logI keeps_refl split: option.split)
qed

lemma keeps_txn_detail_type: "keeps e p s (filterGatewaysForTxnDetailType e p s)"
  unfolding filterGatewaysForTxnDetailType_def Let_def by (intro keeps_logI keeps_setGws) auto

lemma keeps_split_settlement: "keeps e p s (filterFunctionalGatewaysForSplitSettlement e p s)"
proof -
  obtain details s1 where d: "get_split_settlement_details e p s = (details, s1)" by fastforce
  obtain metadata pl s2 where r: "order_metadata_and_pl_ref_ids e p s1 = ((metadata, pl), s2)"
    by (metis prod.exhaust)
  have "quiet e p s s1"
    using d quiet_metadata by (auto simp: get_split_settlement_details_def split: prod.splits)
  then have q: "keeps e p s s2" using quiet_refs [OF r] by (blast intro: quiet_keeps quiet_trans)
  have "keeps e p s2 (split_to_vendors e p metadata pl mids s2)" for mids
    unfolding split_to_vendors_def Let_def by (rule keeps_own_accounts) auto
  moreover have "keeps e p s2 (without_split_only e p metadata pl s2)"
    unfolding without_split_only_def Let_def by (intro keeps_if keeps_refl keeps_own_accounts) auto
  ultimately show ?thesis
    unfolding filterFunctionalGatewaysForSplitSettlement_def Let_def d r prod.case
    by (intro keeps_logI keeps_trans [OF q]) (auto simp: keeps_refl split: option.split)
qed

lemma flow_subset: "set (filter_gateways_for_flow e c k gws) \<subseteq> set gws"
  by (auto simp: filter_gateways_for_flow_def)

lemma keeps_required_flow: "keeps e p s (filterFunctionalGatewaysForMerchantRequiredFlow e p s)"
  unfolding filterFunctionalGatewaysForMerchantRequiredFlow_def Let_def
  by (intro keeps_logI keeps_setGws) (meson flow_subset order_trans)

lemma keeps_tenure: "keeps e p s (filterForEMITenureSpecificMGAs e p s)"
  unfolding filterForEMITenureSpecificMGAs_def
  by (intro keeps_logI keeps_if keeps_own_accounts keeps_refl) auto

lemma keeps_integrity: "keeps e p s (filterGatewaysForMGASelectionIntegrity e p s)"
proof -
  have "keeps e p s1 (setGws (validate_only_one_mga mgas (getGws s1)) s1)" for mgas s1
    unfolding validate_only_one_mga_def by (rule keeps_filter)
  then show ?thesis
    unfolding filterGatewaysForMGASelectionIntegrity_def Let_def
    by (rule keeps_logI [OF keeps_if [OF keeps_trans [OF keeps_tenure] keeps_refl]])
qed

section \<open>The functional gateways are sound from the start\<close>

lemma enforced_flows_subset:
  "filterMGAsByEnforcedPaymentFlows e p mgas s = (r, s1) \<Longrightarrow> set r \<subseteq> set mgas \<and> quiet e p s s1"
  using quiet_refs
  by (fastforce simp: filterMGAsByEnforcedPaymentFlows_def evaluatePaymentFlowEnforcement_def Let_def
        split: prod.splits if_splits)

definition chained :: "filter_state \<Rightarrow> bool" where
  "chained s \<longleftrightarrow>
     sorted_wrt (\<lambda>a b. set (snd b) \<subseteq> set (snd a)) (fs_debugFilterList s)
     \<and> (\<forall>d \<in> set (fs_debugFilterList s). set (getGws s) \<subseteq> set (snd d))"

lemma chained_narrows: "chained s \<Longrightarrow> narrows s s' \<Longrightarrow> chained s'"
proof -
  assume c: "chained s" and "narrows s s'"
  then obtain l where l: "chain_between s s' l" and g: "set (getGws s') \<subseteq> set (getGws s)"
    by (auto simp: narrows_def)
  have below: "set (snd b) \<subseteq> set (snd a)" if "a \<in> set (fs_debugFilterList s)" "b \<in> set l" for a b
    using that l c unfolding chain_between_def chained_def by blast
  have "set (getGws s') \<subseteq> set (snd d)" if "d \<in> set (fs_debugFilterList s @ l)" for d
    using that l c g unfolding chain_between_def chained_def set_append by blast
  with below l c show "chained s'" by (simp add: chained_def chain_between_def sorted_wrt_append)
qed

lemma narrows_set: "mga_gateway ` set ms \<subseteq> set (getGws s) \<Longrightarrow> narrows s (setGwsAndMgas ms s)"
  by (rule narrows_quiet) auto

lemma currency_and_kind_sound:
  assumes "metadata_ok e p s" "set ms \<subseteq> allowed_accounts e p" "fs_debugFilterList s = []"
  shows "filter_sound e p (currency_and_kind e p w ms s) \<and> chained (currency_and_kind e p w ms s)"
proof -
  let ?cur = "filter (currencyFilter e (fp_currency p)) ms"
  let ?s1 = "returnGwListWithLog FilterFunctionalGatewaysForCurrency True (setGwsAndMgas ?cur s)"
  obtain fin where fin: "set fin \<subseteq> set ?cur"
    and r: "currency_and_kind e p w ms s
      = returnGwListWithLog FilterFunctionalGatewaysForReversePennyDrop True (setGwsAndMgas fin ?s1)"
  proof
    show "set (if w then (if is_reverse_penny_drop_txn e p
             then filter check_for_reverse_penny_drop_in_mga ?cur else ?cur)
           else filter (isMgaEligible e p (gateways_config e ''MGA_ELIGIBLE_SEAMLESS_GATEWAYS''))
             (if is_reverse_penny_drop_txn e p
              then filter check_for_reverse_penny_drop_in_mga ?cur else ?cur)) \<subseteq> set ?cur"
      by auto
  qed (simp only: currency_and_kind_def Let_def)
  have "chained (setGwsAndMgas ?cur s)" using assms(3) by (simp add: chained_def)
  then have "chained ?s1" using narrows_log by (rule chained_narrows)
  then have "chained (setGwsAndMgas fin ?s1)" by (rule chained_narrows) (rule narrows_set, use fin in auto)
  then have "chained (currency_and_kind e p w ms s)" unfolding r using narrows_log by (rule chained_narrows)
  moreover have "filter_sound e p (currency_and_kind e p w ms s)"
    unfolding r using assms(1,2) fin by (auto simp: filter_sound_def metadata_ok_def)
  ultimately show ?thesis by blast
qed

lemma functional_gateways_sound:
  assumes m: "metadata_ok e p s" and none: "fs_mgas s = None" and log: "fs_debugFilterList s = []"
  shows "filter_sound e p (getFunctionalGateways e p s) \<and> chained (getFunctionalGateways e p s)"
proof -
  obtain meta pl s1 where r: "order_metadata_and_pl_ref_ids e p s = ((meta, pl), s1)" by (metis prod.exhaust)
  obtain whole s2 where a: "is_enabled_for_all_mgas e p s1 = (whole, s2)" by fastforce
  have q1: "quiet e p s s1" using r by (rule quiet_refs)
  have q: "quiet e p s s2" using quiet_trans [OF q1] quiet_all [OF a] by blast
  have w: "whole = all_accounts_enabled e p" using m q1 quiet_all [OF a] by (auto simp: quiet_def)
  obtain accounts s3 where f: "(if whole then (get_all_enabled_mgas_by_merchant_id e (fp_merchant_id p), s2)
      else get_enabled_mgas_by_merchant_id_and_ref_id e p (get_all_possible_ref_ids meta pl) s2) = (accounts, s3)"
    by fastforce
  have s3: "metadata_ok e p s3 \<and> fs_debugFilterList s3 = []"
    using f q m log by (auto simp: quiet_def get_enabled_mgas_by_merchant_id_and_ref_id_def Let_def set_mgas_def
        metadata_ok_def split: if_splits option.splits)
  have acc: "set accounts \<subseteq> allowed_accounts e p"
  proof (cases whole)
    case True
    with f w all_accounts_allowed [of e p] show ?thesis by simp
  next
    case False
    with f q none have "accounts = filter_morpheus (getEnabledMgasByMerchantIdAndRefId e (fp_merchant_id p)
        (get_all_possible_ref_ids meta pl))"
      by (simp add: get_enabled_mgas_by_merchant_id_and_ref_id_def get_mgas_def quiet_def Let_def)
    then show ?thesis using enabled_accounts_allowed by (fastforce simp: filter_morpheus_def)
  qed
  define s4 where "s4 = s3\<lparr>fs_paymentFlowList := get_payment_flow_list_from_txn_detail e p\<rparr>"
  define mgas2 where "mgas2 = (if whole then enforced_gateway_accounts p accounts
      else accounts_with_reference_id meta pl (enforced_gateway_accounts p accounts))"
  define s5 where "s5 = validateAndSetDynamicMGAFlag whole mgas2 s4"
  define edcc where "edcc = edcc_accounts e p mgas2"
  obtain mgas s6 where g: "(if whole then (edcc, s5) else filterMGAsByEnforcedPaymentFlows e p edcc s5) = (mgas, s6)"
    by fastforce
  have s5: "metadata_ok e p s5 \<and> fs_debugFilterList s5 = []"
    using s3 by (simp add: s5_def s4_def validateAndSetDynamicMGAFlag_def metadata_ok_def)
  have "set edcc \<subseteq> set accounts"
    by (auto simp: edcc_def edcc_accounts_def mgas2_def enforced_gateway_accounts_def accounts_with_reference_id_def
        split: if_splits option.splits)
  then have mgas: "set mgas \<subseteq> allowed_accounts e p" and s6: "metadata_ok e p s6 \<and> fs_debugFilterList s6 = []"
    using g acc s5 enforced_flows_subset [of e p edcc s5 mgas s6] by (auto simp: quiet_def split: if_splits)
  have eq: "getFunctionalGateways e p s =
      (if mgas = [] then returnGwListWithLog GetFunctionalGateways True (setGwsAndMgas [] s6)
       else currency_and_kind e p whole mgas s6)"
    unfolding getFunctionalGateways_def Let_def r a prod.case f
    unfolding s4_def [symmetric] mgas2_def [symmetric] s5_def [symmetric] edcc_def [symmetric] g prod.case ..
  have "chained (setGwsAndMgas [] s6)" using s6 by (simp add: chained_def)
  then have "chained (returnGwListWithLog GetFunctionalGateways True (setGwsAndMgas [] s6))"
    using narrows_log by (rule chained_narrows)
  moreover have "filter_sound e p (returnGwListWithLog GetFunctionalGateways True (setGwsAndMgas [] s6))"
    using s6 by (simp add: filter_sound_def metadata_ok_def ord_nub_def)
  ultimately show ?thesis
    unfolding eq using currency_and_kind_sound [of e p s6 mgas whole] s6 mgas by simp
qed

section \<open>The composition\<close>

lemma keeps_after_validation: "keeps e p s (filters_after_validation e p s)"
  unfolding filters_after_validation_def foldl.simps
  by (intro keeps_trans [OF _ keeps_integrity] keeps_trans [OF _ keeps_pix] keeps_trans [OF _ keeps_otm]
        keeps_trans [OF _ keeps_required_flow] keeps_trans [OF _ keeps_split_settlement]
        keeps_trans [OF _ keeps_cash] keeps_trans [OF _ keeps_reward] keeps_trans [OF _ keeps_txn_detail_type]
        keeps_trans [OF _ keeps_txn_type] keeps_trans [OF _ keeps_upi] keeps_trans [OF _ keeps_consumer_finance]
        keeps_trans [OF _ keeps_nb] keeps_trans [OF _ keeps_wallet] keeps_trans [OF _ keeps_token_provider]
        keeps_trans [OF _ keeps_payment_method] keeps_trans [OF _ keeps_offers] keeps_emi)

lemma newGwFilters_keeps:
  assumes "newGwFilters e p s = Inr (out, s')"
  shows "keeps e p (getFunctionalGateways e p s) s'
    \<and> (out = ([], []) \<and> getGws s' = [] \<or> out = final_gateways s'
         \<and> (\<exists>s0. s' = returnGwListWithLog FinalFunctionalGateways False
                 (filterGatewaysForMGASelectionIntegrity e p s0)))"
proof (cases "getGws (filterFunctionalGateways e p (getFunctionalGateways e p s)) = []")
  case True
  with assms keeps_filterFunctionalGateways show ?thesis by (auto simp: newGwFilters_def Let_def)
next
  case False
  let ?s1 = "filterFunctionalGateways e p (getFunctionalGateways e p s)"
  from assms False obtain s2 s3 where
    s2: "filterGatewaysForAuthType e p (filterGatewaysForBrand e p ?s1) = Inr s2"
    and s3: "filterGatewaysForValidationType e p s2 = Inr s3"
    and s': "s' = returnGwListWithLog FinalFunctionalGateways False (filters_after_validation e p s3)"
    and out: "out = final_gateways s'"
    by (auto simp: newGwFilters_def Let_def rbind_eq_Inr)
  have "keeps e p (getFunctionalGateways e p s) s'"
    unfolding s'
    by (intro keeps_logI keeps_trans [OF _ keeps_after_validation] keeps_trans [OF _ keeps_validation_type [OF s3]]
          keeps_trans [OF _ keeps_auth_type [OF s2]] keeps_trans [OF _ keeps_brand] keeps_filterFunctionalGateways)
  moreover have "\<exists>s0. filters_after_validation e p s3 = filterGatewaysForMGASelectionIntegrity e p s0"
    by (auto simp: filters_after_validation_def)
  ultimately show ?thesis using s' out by auto
qed

section \<open>What the filters promise\<close>

lemma remaining_accounts:
  assumes "newGwFilters e p initial_filter_state = Inr ((gws, mgas), s)"
  shows "set gws = mga_gateway ` set (unwrap_or (fs_mgas s) [])
    \<and> set mgas \<subseteq> set (unwrap_or (fs_mgas s) [])
    \<and> (\<forall>m \<in> set (unwrap_or (fs_mgas s) []).
         mga_merchant_id m = fp_merchant_id p
         \<and> (map_of (order_metadata e p) ''enabledForAllMgas'' = None \<longrightarrow> mga_disabled m \<noteq> Some True)
         \<and> (\<exists>r \<in> set (fe_accounts e). mga_try_from e r = Some m))"
proof -
  have start: "filter_sound e p (getFunctionalGateways e p initial_filter_state)"
    by (intro functional_gateways_sound [THEN conjunct1]) (simp_all add: initial_filter_state_def metadata_ok_def)
  note k = newGwFilters_keeps [OF assms]
  then have "filter_sound e p s" using start by (simp add: keeps_def)
  then obtain ms where ms: "fs_mgas s = Some ms" "set (getGws s) = mga_gateway ` set ms" "set ms \<subseteq> allowed_accounts e p"
    by (rule filter_soundE)
  from k ms(1) have "gws = getGws s \<and> set mgas \<subseteq> set ms"
    by (auto simp: final_gateways_def get_mgas_def split: if_splits)
  with ms show ?thesis by (auto simp: allowed_accounts_def all_accounts_enabled_def)
qed

text \<open>
  C28. The merchant's own accounts. Whatever the filters answer, the gateways are exactly those of the
  accounts that remain, the accounts they answer are among these, and every account that remains is a
  row of the table of the payment's merchant, decoded; unless the order switches the filters to all
  accounts of the merchant, none of them is disabled.
\<close>

theorem accounts_are_the_merchants:
  assumes "newGwFilters e p initial_filter_state = Inr ((gws, mgas), s)"
  shows "set gws = mga_gateway ` set (unwrap_or (fs_mgas s) [])
    \<and> set mgas \<subseteq> set (unwrap_or (fs_mgas s) [])
    \<and> (\<forall>m \<in> set (unwrap_or (fs_mgas s) []).
         mga_merchant_id m = fp_merchant_id p
         \<and> (map_of (order_metadata e p) ''enabledForAllMgas'' = None \<longrightarrow> mga_disabled m \<noteq> Some True)
         \<and> (\<exists>r \<in> set (fe_accounts e). mga_try_from e r = Some m))"
  using assms by (rule remaining_accounts)

lemma reports_shrink:
  assumes "newGwFilters e p initial_filter_state = Inr ((gws, mgas), s)" and "\<not> is_tpv_transaction (fp_txn p)"
  shows "sorted_wrt (\<lambda>before after. set (snd after) \<subseteq> set (snd before)) (fs_debugFilterList s)
    \<and> (\<forall>report \<in> set (fs_debugFilterList s). set gws \<subseteq> set (snd report))
    \<and> set gws \<subseteq> set (getGws (getFunctionalGateways e p initial_filter_state))"
proof -
  have start: "filter_sound e p (getFunctionalGateways e p initial_filter_state)
      \<and> chained (getFunctionalGateways e p initial_filter_state)"
    by (intro functional_gateways_sound) (simp_all add: initial_filter_state_def metadata_ok_def)
  note k = newGwFilters_keeps [OF assms(1)]
  then have n: "narrows (getFunctionalGateways e p initial_filter_state) s"
    using start assms(2) by (simp add: keeps_def)
  then have "chained s" using start chained_narrows by blast
  moreover from k have "gws = getGws s" by (auto simp: final_gateways_def)
  ultimately show ?thesis using n by (auto simp: chained_def narrows_def)
qed

text \<open>
  C29. Filters only narrow. The candidates the filters report, one report after the other, only shrink,
  the answer is contained in every report and in the functional gateways the filters started from.
  Payments with third-party validation are left out: there the accounts are read again.
\<close>

theorem filters_only_narrow:
  assumes "newGwFilters e p initial_filter_state = Inr ((gws, mgas), s)" and "\<not> is_tpv_transaction (fp_txn p)"
  shows "sorted_wrt (\<lambda>before after. set (snd after) \<subseteq> set (snd before)) (fs_debugFilterList s)
    \<and> (\<forall>report \<in> set (fs_debugFilterList s). set gws \<subseteq> set (snd report))
    \<and> set gws \<subseteq> set (getGws (getFunctionalGateways e p initial_filter_state))"
  using assms by (rule reports_shrink)

lemma distinct_map_of_single:
  "(\<And>g. length (filter (\<lambda>m. f m = g) xs) \<le> 1) \<Longrightarrow> distinct (List.map f xs)"
proof (induction xs)
  case (Cons x xs)
  have "filter (\<lambda>m. f m = f x) xs = []" using Cons.prems [of "f x"] by simp
  then have "f x \<notin> f ` set xs" by (auto simp: filter_empty_conv)
  moreover have "length (filter (\<lambda>m. f m = g) xs) \<le> 1" for g
    using Cons.prems [of g] by (simp split: if_splits)
  ultimately show ?case using Cons.IH by simp
qed simp

lemma one_account_each:
  assumes "\<forall>g \<in> G. length (filter (\<lambda>m. f m = g) (filter (\<lambda>m. f m \<in> H) ms)) = 1" "G \<subseteq> H"
  shows "distinct (List.map f (filter (\<lambda>m. f m \<in> G) ms))"
proof (rule distinct_map_of_single)
  fix g
  show "length (filter (\<lambda>m. f m = g) (filter (\<lambda>m. f m \<in> G) ms)) \<le> 1"
  proof (cases "g \<in> G")
    case True
    with assms(2) have "filter (\<lambda>m. f m = g) (filter (\<lambda>m. f m \<in> G) ms)
        = filter (\<lambda>m. f m = g) (filter (\<lambda>m. f m \<in> H) ms)"
      by (auto intro!: filter_cong)
    with assms(1) True show ?thesis by simp
  next
    case False
    then have "filter (\<lambda>m. f m = g) (filter (\<lambda>m. f m \<in> G) ms) = []" by (auto simp: filter_empty_conv)
    then show ?thesis by simp
  qed
qed

lemma integrity_single:
  assumes "s = filterGatewaysForMGASelectionIntegrity e p s0" "fs_is_dynamic_mga_enabled s"
  shows "distinct (List.map mga_gateway (unwrap_or (fs_mgas s) []))"
proof -
  let ?s1 = "filterForEMITenureSpecificMGAs e p s0"
  let ?ms = "unwrap_or (fs_mgas ?s1) []"
  let ?gws = "validate_only_one_mga (filter (\<lambda>m. mga_gateway m \<in> set (getGws ?s1)) ?ms) (getGws ?s1)"
  have "fs_is_dynamic_mga_enabled s0"
    using assms by (auto simp: filterGatewaysForMGASelectionIntegrity_def Let_def split: if_splits)
  then have s: "s = returnGwListWithLog FilterGatewaysForMGASelectionIntegrity True (setGws ?gws ?s1)"
    using assms(1) by (simp add: filterGatewaysForMGASelectionIntegrity_def get_mgas_def Let_def)
  have "distinct (List.map mga_gateway (filter (\<lambda>m. mga_gateway m \<in> set ?gws) ?ms))"
    by (rule one_account_each [where H = "set (getGws ?s1)"]) (auto simp: validate_only_one_mga_def)
  then show ?thesis unfolding s by (cases "fs_mgas ?s1") simp_all
qed

text \<open>
  C30. One account per gateway. No two accounts of the answer have the same gateway, and when the
  answer names gateways and accounts are chosen by the filters, every gateway of the answer has its
  account; when they are not, no accounts are answered.
\<close>

theorem one_account_per_gateway:
  assumes "newGwFilters e p initial_filter_state = Inr ((gws, mgas), s)"
  shows "distinct (List.map mga_gateway mgas)
    \<and> (gws \<noteq> [] \<longrightarrow> set (List.map mga_gateway mgas) = (if fs_is_dynamic_mga_enabled s then set gws else {}))"
proof -
  have start: "filter_sound e p (getFunctionalGateways e p initial_filter_state)"
    by (intro functional_gateways_sound [THEN conjunct1]) (simp_all add: initial_filter_state_def metadata_ok_def)
  note k = newGwFilters_keeps [OF assms]
  then have "filter_sound e p s" using start by (simp add: keeps_def)
  then obtain ms where ms: "fs_mgas s = Some ms" "set (getGws s) = mga_gateway ` set ms"
    by (auto simp: filter_sound_def)
  have "distinct (List.map mga_gateway ms)" if dyn: "fs_is_dynamic_mga_enabled s"
  proof (cases "getGws s = []")
    case True
    with ms show ?thesis by simp
  next
    case False
    with k obtain s0 where s: "s = returnGwListWithLog FinalFunctionalGateways False
        (filterGatewaysForMGASelectionIntegrity e p s0)" by auto
    with dyn integrity_single [OF refl, of e p s0] ms show ?thesis by simp
  qed
  with k ms show ?thesis
    by (cases "fs_is_dynamic_mga_enabled s") (auto simp: final_gateways_def get_mgas_def)
qed

section \<open>Failures\<close>

lemma all_some_None: "all_some f xs = None \<Longrightarrow> \<exists>x \<in> set xs. f x = None"
  by (auto simp: all_some_def split: if_splits)

lemma unreadable_row: "gci_try_from r = None \<Longrightarrow> \<exists>t. gci_validation_type r = Some t \<and> text_to_validation_type t = None"
  by (auto simp: gci_try_from_def split: option.splits)

lemma supported_rows_fail:
  "get_supported_gateway_card_info_for_bins e pid bins = Inl err \<Longrightarrow>
   err = record_parsing_error
   \<and> (\<exists>r \<in> set (fe_card_rows e). gci_disabled r = Some False
        \<and> (\<exists>t. gci_validation_type r = Some t \<and> text_to_validation_type t = None))"
proof -
  assume "get_supported_gateway_card_info_for_bins e pid bins = Inl err"
  then obtain P where err: "err = record_parsing_error"
    and none: "all_some gci_try_from (filter P (filter (\<lambda>r. gci_isin r \<noteq> None \<and> gci_isin r \<in> set bins
        \<and> gci_disabled r = Some False) (fe_card_rows e))) = None"
    unfolding get_supported_gateway_card_info_for_bins_def Let_def by (auto split: if_splits option.splits)
  from all_some_None [OF none] obtain r where
    "r \<in> set (fe_card_rows e)" "gci_disabled r = Some False" "gci_try_from r = None"
    by auto
  with err unreadable_row [of r] show ?thesis by blast
qed

lemma auth_type_never_fails: "filterGatewaysForAuthType e p s \<noteq> Inl err"
proof -
  have "filterGatewaysCardInfo e p bins gws auth None \<noteq> Inl err" for bins gws auth
    by (simp add: filterGatewaysCardInfo_def)
  then have "bin_eligibility e p isin s \<noteq> Inl err" for isin s
    by (auto simp: bin_eligibility_def isAuthTypeSupported_def Let_def rbind_eq_Inl)
  then show ?thesis
    by (auto simp: filterGatewaysForAuthType_def Let_def rbind_eq_Inl split: option.splits)
qed

lemma validation_fails:
  assumes "filterGatewaysForValidationType e p s = Inl err"
  shows "is_mandate_transaction (fp_txn p) \<and> is_card_transaction (fp_card p) \<and> err = record_parsing_error
   \<and> (\<exists>r \<in> set (fe_card_rows e). gci_disabled r = Some False
        \<and> (\<exists>t. gci_validation_type r = Some t \<and> text_to_validation_type t = None))"
proof -
  obtain refs s1 where r: "order_metadata_and_pl_ref_ids e p s = (refs, s1)" by fastforce
  from assms have k: "is_mandate_transaction (fp_txn p) \<and> is_card_transaction (fp_card p)"
    and m: "card_mandate_filter e p s1 = Inl err"
    unfolding filterGatewaysForValidationType_def r Let_def
    by (auto simp: rbind_eq_Inl split: prod.splits if_splits)
  from m obtain bins gws auth where "card_mandate_rows e p bins gws auth = Inl err"
    by (auto simp: card_mandate_filter_def filterGatewaysCardInfo_def Let_def rbind_eq_Inl split: if_splits)
  then have "get_supported_gateway_card_info_for_bins e (fp_merchant_pid p) bins = Inl err"
    by (auto simp: card_mandate_rows_def Let_def rbind_eq_Inl split: if_splits)
  with k supported_rows_fail show ?thesis by blast
qed

text \<open>
  C23. The only failure. The filters fail only for mandate payments by card, when an enabled support row
  of the table carries a validation type the code does not know, and always with the error of a record
  that cannot be parsed.
\<close>

theorem filters_fail_on_unreadable_row:
  assumes "newGwFilters e p s = Inl err"
  shows "err = record_parsing_error
   \<and> is_mandate_transaction (fp_txn p) \<and> is_card_transaction (fp_card p)
   \<and> (\<exists>r \<in> set (fe_card_rows e). gci_disabled r = Some False
        \<and> (\<exists>t. gci_validation_type r = Some t \<and> text_to_validation_type t = None))"
  using assms auth_type_never_fails validation_fails
  by (auto simp: newGwFilters_def Let_def rbind_eq_Inl split: if_splits)

section \<open>Where the filters surprise\<close>

text \<open>
  The order that asks for all accounts gets the disabled ones as well: the query for it, although
  named after enabled accounts, does not look at the flag.
\<close>

lemma disabled_accounts_among_all:
  assumes "r \<in> set (fe_accounts e)" and "mga_merchant_id r = mid" and "mga_try_from e r = Some m"
    and "mga_gateway m \<noteq> ''MORPHEUS''" and "mga_disabled r = Some True"
  shows "m \<in> set (get_all_enabled_mgas_by_merchant_id e mid) \<and> mga_disabled m = Some True"
proof -
  have "m \<in> set (List.map_filter (mga_try_from e) (filter (\<lambda>r. mga_merchant_id r = mid) (fe_accounts e)))"
    using assms(1-3) by (force simp: List.map_filter_def)
  moreover have "mga_disabled m = Some True"
    using assms(3,5) by (auto simp: mga_try_from_def split: option.splits)
  ultimately show ?thesis
    using assms(4) by (simp add: get_all_enabled_mgas_by_merchant_id_def filter_morpheus_def getEnabledMgasByMerchantId_def)
qed

text \<open>
  The restrictions by authentication are read as an object by one filter and as a list of pairs by
  another, so no configuration serves both.
\<close>

lemma auth_restrictions_read_one_way:
  "auth_type_pairs e = [] \<or> findByNameFromRedis e json_auth_dict ''AUTH_TYPE_RESTRICTED_GATEWAYS'' = None"
proof (cases "fe_config e ''AUTH_TYPE_RESTRICTED_GATEWAYS''")
  case (Some v)
  then show ?thesis by (cases v) (simp_all add: auth_type_pairs_def findByNameFromRedis_def)
qed (simp add: auth_type_pairs_def findByNameFromRedis_def)

text \<open>
  A vendor that occurs twice in a split leaves no account: the vendors are compared as a set with the
  length of the list.
\<close>

lemma repeated_vendor_leaves_no_account:
  assumes "\<not> distinct given_sub_mids"
  shows "getGws (split_to_vendors e p metadata pl_ref_id_map given_sub_mids s) = []"
proof -
  have "remdups given_sub_mids \<noteq> given_sub_mids" using assms by simp
  then have "length (remdups given_sub_mids) < length given_sub_mids"
    using length_remdups_leq [of given_sub_mids] length_remdups_eq [of given_sub_mids] by linarith
  then have "length (intersect given_sub_mids v) \<noteq> length given_sub_mids" for v
    using length_filter_le [of "\<lambda>x. x \<in> set v" "remdups given_sub_mids"] unfolding intersect_def by linarith
  then show ?thesis by (simp add: split_to_vendors_def Let_def setGwsAndMgas_def getGws_def ord_nub_def)
qed

text \<open>
  The gateways whose accounts all take only validated payments are looked for by comparing two
  groupings, but both hold the same accounts: every gateway with one such account is removed.
\<close>

lemma one_validated_only_account_removes_gateway:
  assumes "m \<in> set (get_tpv_only_gateway_accounts e p (get_all_possible_ref_ids metadata refs))"
    and "intersect (gateways_config e ''TPV_ONLY_SUPPORTED_GATEWAYS'') (getGws s) \<noteq> []"
  shows "mga_gateway m \<notin> set (getGws (tpv_only_filter e p metadata refs s))"
proof -
  let ?acc = "\<lambda>ms. foldl (\<lambda>acc mga. hm_entry (mga_gateway mga) [] (\<lambda>v. v @ [mga]) acc) [] ms"
  have dom: "mga_gateway ` set ms \<subseteq> dom (map_of (?acc ms))" for ms :: "merchant_gateway_account list"
    by (induction ms rule: rev_induct) auto
  let ?groups = "group_into_map e p (get_all_possible_ref_ids metadata refs) mga_gateway"
  obtain v where v: "map_of ?groups (mga_gateway m) = Some v"
    using dom assms(1) unfolding group_into_map_def by blast
  then have "(mga_gateway m, v) \<in> set ?groups" by (rule map_of_SomeD)
  with v have "mga_gateway m \<in> set (List.map fst (filter (\<lambda>(k, v). case map_of ?groups k of
      Some a \<Rightarrow> length a = length v | None \<Rightarrow> False) ?groups))"
    by force
  moreover have "gateways_config e ''TPV_ONLY_SUPPORTED_GATEWAYS'' \<noteq> []"
    using assms(2) by (auto simp: intersect_def)
  ultimately show ?thesis
    using assms(2) by (simp add: tpv_only_filter_def Let_def setGws_def getGws_def)
qed

section \<open>A payment through the filters\<close>

definition demo_account :: "int \<Rightarrow> string \<Rightarrow> string option \<Rightarrow> string gateway_account" where
  "demo_account i gw methods =
     \<lparr>mga_id = i, mga_account_details = ''{}'', mga_gateway = gw, mga_merchant_id = ''m'',
      mga_payment_methods = methods, mga_supported_payment_flows = None, mga_disabled = None,
      mga_reference_id = None, mga_supported_currencies = None, mga_supported_txn_type = None\<rparr>"

definition demo_filter_env :: filter_env where
  "demo_filter_env =
     \<lparr>fe_parse = (\<lambda>t. if t = ''hdfc'' then Some (JObj [(''paymentMethods'', JArr [JStr ''HDFC''])]) else None),
      fe_render = (\<lambda>_. []), fe_upper = to_ascii_uppercase, fe_lower = to_ascii_lowercase,
      fe_round2 = (\<lambda>x. x), fe_config = (\<lambda>_. None), fe_feature_conf = (\<lambda>_. None),
      fe_dimension_conf = (\<lambda>_. None), fe_draws = (\<lambda>_ _. (1, 1)), fe_cvvless_enabled_by_config = False,
      fe_card_brand_cache = (\<lambda>_. None), fe_card_infos = [],
      fe_accounts = [demo_account 1 ''payu'' (Some ''hdfc''), demo_account 2 ''payu'' None,
        demo_account 3 ''stripe'' None],
      fe_card_rows = [\<lparr>gci_id = 9, gci_isin = Some ''411111'', gci_gateway = Some ''payu'', gci_auth_type = None,
        gci_bank_code_id = None, gci_disabled = Some False, gci_validation_type = Some ''MANDATE'',
        gci_payment_method_type = None\<rparr>],
      fe_merchant_card_infos = [\<lparr>mgci_disabled = False, mgci_gateway_card_info_id = 9,
        mgci_merchant_account_id = 7, mgci_emandate_register_max_amount = None,
        mgci_merchant_gateway_account_id = None\<rparr>], fe_method_flows = [], fe_merchant_method_flows = [],
      fe_payment_methods = [], fe_bank_codes = [], fe_emi_bank_codes = [], fe_emi_support = [],
      fe_emi_support_v2 = [], fe_eligibility = [], fe_sub_infos = [], fe_features = [\<lparr>ff_enabled = True, ff_name = ''DISABLE_DECIDER_BIN_ELIGIBILITY_CHECK'', ff_merchant_id = Some ''m''\<rparr>],
      fe_offer_discounts = []\<rparr>"

definition demo_params :: "txn_card_info \<Rightarrow> txn_object_type \<Rightarrow> filter_params" where
  "demo_params i t =
     \<lparr>fp_txn = \<lparr>td_txn_id = ''t'', td_date_created = ''d'', td_merchant_id = ''m'', td_gateway = None,
        td_txn_object_type = Some t, td_source_object = None, td_country = None\<rparr>,
      fp_is_emi = None, fp_emi_bank = None, fp_emi_tenure = None, fp_currency = ''INR'',
      fp_txn_internal_metadata = None, fp_txn_internal_tracking_info = None, fp_express_checkout = None,
      fp_detail_txn_type = None, fp_txn_amount = None, fp_surcharge_amount = None, fp_tax_amount = None,
      fp_card = i,
      fp_card_issuer_bank_name = Some ''HDFC'', fp_order_currency = ''INR'', fp_order_metadata = None,
      fp_merchant_id = ''m'', fp_merchant_pid = 7, fp_gateway_reference_id_based_routing = None,
      fp_enforce_gateway_list = None, fp_edcc_applied = None, fp_pl_gateway_reference_ids = None,
      fp_vault_provider = None, fp_txn_offer_details = None, fp_txn_type = None\<rparr>"

definition demo_netbanking :: txn_card_info where
  "demo_netbanking =
     \<lparr>tci_card_isin = None, tci_card_switch_provider = None, tci_card_type = Some CT_Nb,
      tci_payment_method_type = ''NB'', tci_payment_method = ''NB_HDFC'', tci_payment_source = None,
      tci_auth_type = None\<rparr>"

abbreviation demo_filter_params :: filter_params where
  "demo_filter_params \<equiv> demo_params demo_netbanking OrderPayment"

lemma demo_reads [simp]:
  "gateways_config demo_filter_env k = []" "gateways_by_name demo_filter_env k = []"
  "findByNameFromRedis demo_filter_env dec k = None"
  "get_payment_flow_list_from_txn_detail demo_filter_env (demo_params i t) = []"
  "order_metadata_and_pl_ref_ids demo_filter_env (demo_params i t) s = (([], []), s)"
  "get_feature_enabled demo_filter_env ''DISABLE_DECIDER_BIN_ELIGIBILITY_CHECK'' ''m'' True \<noteq> None"
  by (simp_all add: gateways_config_def gateways_by_name_def findByNameFromRedis_def demo_filter_env_def
      get_payment_flow_list_from_txn_detail_def demo_params_def order_metadata_and_pl_ref_ids_def
      get_feature_enabled_def)

definition demo_mga :: "int \<Rightarrow> string \<Rightarrow> string option \<Rightarrow> merchant_gateway_account" where
  "demo_mga i gw methods =
     \<lparr>mga_id = i, mga_account_details = ''{}'', mga_gateway = gw, mga_merchant_id = ''m'',
      mga_payment_methods = methods, mga_supported_payment_flows = None, mga_disabled = None,
      mga_reference_id = None, mga_supported_currencies = None, mga_supported_txn_type = None\<rparr>"

lemma demo_rows:
  "getEnabledMgasByMerchantIdAndRefId demo_filter_env ''m'' ids =
     [demo_mga 1 ''payu'' (Some ''hdfc''), demo_mga 2 ''payu'' None, demo_mga 3 ''stripe'' None]"
  by (simp add: getEnabledMgasByMerchantIdAndRefId_def demo_filter_env_def demo_account_def demo_mga_def
      mga_try_from_def List.map_filter_simps)

lemma demo_flags [simp]:
  "check_if_enabled_in_mga demo_filter_env (demo_mga i g m) flow flag = False"
  "mga_gateway (demo_mga i g m) = g" "mga_id (demo_mga i g m) = i" "mga_reference_id (demo_mga i g m) = None"
  "currencyFilter demo_filter_env ''INR'' (demo_mga i g m)" "enforced_flows_of (demo_mga i g m) = []"
  by (simp_all add: check_if_enabled_in_mga_def is_payment_flow_enabled_in_mga_def demo_mga_def get_value_def
      demo_filter_env_def currencyFilter_def get_true_string_def enforced_flows_of_def)

definition demo_state :: "string list \<Rightarrow> merchant_gateway_account list \<Rightarrow> (string \<times> string list) list \<Rightarrow> filter_state" where
  "demo_state gws mgas reports =
     \<lparr>fs_functionalGateways = gws, fs_mgas = Some mgas, fs_debugFilterList = reports, fs_paymentFlowList = [],
      fs_is_dynamic_mga_enabled = True, fs_cardBrand = None, fs_metadata = Some [], fs_internalMetaData = None\<rparr>"

lemma demo_sorted: "ord_nub [''payu'', ''payu'', ''stripe''] = [''payu'', ''stripe'']"
  by code_simp


abbreviation demo_mgas :: "merchant_gateway_account list" where
  "demo_mgas \<equiv> [demo_mga 1 ''payu'' (Some ''hdfc''), demo_mga 2 ''payu'' None, demo_mga 3 ''stripe'' None]"

lemma demo_fields [simp]:
  "fp_merchant_id (demo_params i t) = ''m''" "fp_is_emi (demo_params i t) = None"
  "fp_currency (demo_params i t) = ''INR''" "fp_order_currency (demo_params i t) = ''INR''"
  "td_txn_object_type (fp_txn (demo_params i t)) = Some t" "fp_card (demo_params i t) = i"
  "fp_order_metadata (demo_params i t) = None" "fp_txn_internal_metadata (demo_params i t) = None"
  "fp_enforce_gateway_list (demo_params i t) = None"
  by (simp_all add: demo_params_def)

lemma demo_netbanking_fields [simp]:
  "tci_payment_method_type demo_netbanking = ''NB''" "tci_payment_method demo_netbanking = ''NB_HDFC''"
  "tci_card_type demo_netbanking = Some CT_Nb" "tci_card_isin demo_netbanking = None"
  by (simp_all add: demo_netbanking_def)

lemma demo_enforced:
  "filterMGAsByEnforcedPaymentFlows demo_filter_env (demo_params i t) demo_mgas s = (demo_mgas, s)"
proof -
  have payu: "evaluatePaymentFlowEnforcement [] [] [] demo_mgas ''payu'' = [demo_mga 1 ''payu'' (Some ''hdfc''), demo_mga 2 ''payu'' None]"
    by (simp add: evaluatePaymentFlowEnforcement_def get_gateway_reference_id_def)
  have stripe: "evaluatePaymentFlowEnforcement [] [] [] demo_mgas ''stripe'' = [demo_mga 3 ''stripe'' None]"
    by (simp add: evaluatePaymentFlowEnforcement_def get_gateway_reference_id_def)
  have "remdups (List.map mga_gateway demo_mgas) = [''payu'', ''stripe'']" by simp
  then show ?thesis
    unfolding filterMGAsByEnforcedPaymentFlows_def by (simp only: demo_reads) (simp add: payu stripe)
qed

lemma demo_steps [simp]:
  "getGws (demo_state g m r) = g" "get_mgas (demo_state g m r) = Some m"
  "fs_is_dynamic_mga_enabled (demo_state g m r)"
  "setGws g' (demo_state g m r) = demo_state g' (filter (\<lambda>val. mga_gateway val \<in> set g') m) r"
  "setGwsAndMgas m' (demo_state g m r) = demo_state (ord_nub (List.map mga_gateway m')) m' r"
  "returnGwListWithLog nm True (demo_state g m r) =
     demo_state g m (r @ [(makeFirstLetterSmall (filter_name_to_string nm), g)])"
  "is_enabled_for_all_mgas demo_filter_env (demo_params i t) (demo_state g m r) = (False, demo_state g m r)"
  "(demo_state g m r)\<lparr>fs_internalMetaData := None\<rparr> = demo_state g m r"
  "get_card_brand demo_filter_env demo_filter_params (demo_state g m r) = (None, demo_state g m r)"
  by (simp_all add: getGws_def get_mgas_def setGws_def setGwsAndMgas_def set_mgas_def demo_state_def
      returnGwListWithLog_def is_enabled_for_all_mgas_def get_metadata_def get_card_brand_def get_true_string_def Let_def)

lemma demo_state_inject [simp]: "demo_state g m r = demo_state g' m' r' \<longleftrightarrow> g = g' \<and> m = m' \<and> r = r'"
  by (simp add: demo_state_def)

lemma demo_kind [simp]:
  "is_card_transaction demo_netbanking = False" "is_mandate_transaction (fp_txn demo_filter_params) = False"
  "is_tpv_transaction (fp_txn demo_filter_params) = False" "is_emandate_transaction (fp_txn demo_filter_params) = False"
  "is_emandate_payment_transaction (fp_txn demo_filter_params) = False"
  by (simp_all add: is_card_transaction_def is_mandate_transaction_def is_tpv_transaction_def
      is_emandate_transaction_def is_emandate_payment_transaction_def)

lemma demo_functional:
  assumes "t \<noteq> MandateRegister" and "t \<noteq> EmandateRegister"
    and container: "tci_payment_method_type i \<noteq> ''MERCHANT_CONTAINER''"
  shows "\<exists>r. filterFunctionalGateways demo_filter_env (demo_params i t)
         (getFunctionalGateways demo_filter_env (demo_params i t) initial_filter_state)
       = demo_state [''payu'', ''stripe''] demo_mgas r"
proof -
  have "\<exists>r. getFunctionalGateways demo_filter_env (demo_params i t) initial_filter_state =
          demo_state [''payu'', ''stripe''] demo_mgas r"
    using assms
    by (simp add: getFunctionalGateways_def is_enabled_for_all_mgas_def get_metadata_def initial_filter_state_def
      get_enabled_mgas_by_merchant_id_and_ref_id_def get_mgas_def set_mgas_def filter_morpheus_def demo_rows
      enforced_gateway_accounts_def accounts_with_reference_id_def
      get_gateway_reference_id_def validateAndSetDynamicMGAFlag_def edcc_accounts_def
      demo_enforced currency_and_kind_def
      is_reverse_penny_drop_txn_def isMgaEligible_def validateMga_def is_only_subscription_def
      returnGwListWithLog_def setGwsAndMgas_def getGws_def demo_sorted demo_state_def Let_def
      del: makeFirstLetterSmall.simps filter_name_to_string.simps)
  then show ?thesis
    by (auto simp: container filterFunctionalGateways_def filter_for_cvvless_def filter_for_token_repeat_def
        is_token_repeat_txn_def stored_card_vault_provider_def
        filter_for_ta_file_def filter_for_merchant_container_def Let_def
        del: makeFirstLetterSmall.simps filter_name_to_string.simps)
qed

lemma demo_brand_to_method:
  "\<exists>r'. rbind (filterGatewaysForAuthType demo_filter_env demo_filter_params
           (filterGatewaysForBrand demo_filter_env demo_filter_params (demo_state [''payu'', ''stripe''] demo_mgas r)))
         (filterGatewaysForValidationType demo_filter_env demo_filter_params) =
       Inr (demo_state [''payu'', ''stripe''] demo_mgas r')"
  by (simp add: filterGatewaysForBrand_def filterByCardBrand_def filterGatewaysForAuthType_def rbind_def
      filterGatewaysForValidationType_def tpv_only_filter_def Let_def
      del: makeFirstLetterSmall.simps filter_name_to_string.simps)

lemma demo_method:
  "\<exists>r'. filterGatewaysForPaymentMethod demo_filter_env demo_filter_params
      (filterGatewaysForTxnOfferDetails demo_filter_env demo_filter_params
        (filterGatewaysForEmi demo_filter_env demo_filter_params (demo_state [''payu'', ''stripe''] demo_mgas r)))
    = demo_state [''payu''] [demo_mga 1 ''payu'' (Some ''hdfc'')] r'"
proof -
  have enabled: "get_enabled_mgas_by_merchant_id_and_ref_id demo_filter_env demo_filter_params ids (demo_state g m r)
      = (m, demo_state g m r)" for ids g m r
    by (simp add: get_enabled_mgas_by_merchant_id_and_ref_id_def)
  have "fp_txn_offer_details demo_filter_params = None" "fp_card_issuer_bank_name demo_filter_params = Some ''HDFC''"
    by (simp_all add: demo_params_def)
  moreover have "canAcceptPaymentMethod demo_filter_env (demo_mga 1 ''payu'' (Some ''hdfc'')) ''HDFC''"
    "\<not> canAcceptPaymentMethod demo_filter_env (demo_mga i g None) ''HDFC''" for i g
    by (simp_all add: canAcceptPaymentMethod_def demo_mga_def get_value_def demo_filter_env_def List.map_filter_simps)
  ultimately show ?thesis
    by (simp add: filterGatewaysForEmi_def filterGatewaysForTxnOfferDetails_def filterGatewaysForPaymentMethod_def
        enabled non_card_accounts_def getPaymentMethodForNonCardTransaction_def ord_nub_def
        getGatewaysAcceptingPaymentMethod_def Let_def del: makeFirstLetterSmall.simps filter_name_to_string.simps)
qed

abbreviation demo_left :: "(string \<times> string list) list \<Rightarrow> filter_state" where
  "demo_left r \<equiv> demo_state [''payu''] [demo_mga 1 ''payu'' (Some ''hdfc'')] r"

definition leaves_left :: "(filter_env \<Rightarrow> filter_params \<Rightarrow> filter_state \<Rightarrow> filter_state) \<Rightarrow> bool" where
  "leaves_left f \<longleftrightarrow> (\<forall>r. \<exists>r'. f demo_filter_env demo_filter_params (demo_left r) = demo_left r')"

lemma demo_left_alone:
  "leaves_left filterGatewaysForTokenProvider" "leaves_left filterGatewaysForWallet"
  "leaves_left filterGatewaysForNbOnly" "leaves_left filterGatewaysForConsumerFinance"
  "leaves_left filterGatewaysForUpi" "leaves_left filterGatewaysForTxnType"
  "leaves_left filterGatewaysForTxnDetailType" "leaves_left filterGatewaysForReward"
  "leaves_left filterGatewaysForCash" "leaves_left filterFunctionalGatewaysForSplitSettlement"
  "leaves_left filterFunctionalGatewaysForMerchantRequiredFlow" "leaves_left filterFunctionalGatewaysForOTMFlow"
  "leaves_left filterFunctionalGatewaysForPixFlows" "leaves_left filterGatewaysForMGASelectionIntegrity"
proof -
  have "fp_vault_provider demo_filter_params = None" "fp_txn_type demo_filter_params = None"
    "fp_detail_txn_type demo_filter_params = None"
    by (simp_all add: demo_params_def)
  moreover have "get_metadata demo_filter_env demo_filter_params (demo_left r) = ([], demo_left r)" for r
    by (simp add: get_metadata_def demo_state_def)
  moreover have "returnGwListWithLog nm False s = s" for nm s by (simp add: returnGwListWithLog_def)
  ultimately show
    "leaves_left filterGatewaysForTokenProvider" "leaves_left filterGatewaysForWallet"
    "leaves_left filterGatewaysForNbOnly" "leaves_left filterGatewaysForConsumerFinance"
    "leaves_left filterGatewaysForUpi" "leaves_left filterGatewaysForTxnType"
    "leaves_left filterGatewaysForTxnDetailType" "leaves_left filterGatewaysForReward"
    "leaves_left filterGatewaysForCash" "leaves_left filterFunctionalGatewaysForSplitSettlement"
    "leaves_left filterFunctionalGatewaysForMerchantRequiredFlow" "leaves_left filterFunctionalGatewaysForOTMFlow"
    "leaves_left filterFunctionalGatewaysForPixFlows" "leaves_left filterGatewaysForMGASelectionIntegrity"
    by (simp_all add: leaves_left_def filterGatewaysForTokenProvider_def filterGatewaysForWallet_def filterGatewaysForNbOnly_def
        filterGatewaysForConsumerFinance_def filterGatewaysForUpi_def filterGatewaysForTxnType_def get_true_string_def
        filterGatewaysForTxnDetailType_def filterGatewaysForReward_def filterGatewaysForCash_def
        filterFunctionalGatewaysForSplitSettlement_def get_split_settlement_details_def
        filterFunctionalGatewaysForMerchantRequiredFlow_def filter_gateways_for_flow_def without_split_only_def
        filterFunctionalGatewaysForOTMFlow_def filterFunctionalGatewaysForPixFlows_def PIX_PAYMENT_FLOWS_def
        filterGatewaysForMGASelectionIntegrity_def filterForEMITenureSpecificMGAs_def validate_only_one_mga_def
        is_google_pay_txn_def intersect_def Let_def
        del: makeFirstLetterSmall.simps filter_name_to_string.simps)
qed

lemma leaves_left_fold:
  assumes "list_all leaves_left fs"
  shows "\<exists>r'. foldl (\<lambda>s f. f demo_filter_env demo_filter_params s) (demo_left r) fs = demo_left r'"
  using assms
proof (induction fs arbitrary: r)
  case (Cons f fs)
  then obtain r1 where "f demo_filter_env demo_filter_params (demo_left r) = demo_left r1"
    by (auto simp: leaves_left_def)
  with Cons show ?case by simp
qed simp

lemma demo_run:
  "\<exists>r. newGwFilters demo_filter_env demo_filter_params initial_filter_state =
     Inr (([''payu''], [demo_mga 1 ''payu'' (Some ''hdfc'')]), demo_left r)"
proof -
  obtain r1 where 1: "filterFunctionalGateways demo_filter_env demo_filter_params
      (getFunctionalGateways demo_filter_env demo_filter_params initial_filter_state)
      = demo_state [''payu'', ''stripe''] demo_mgas r1"
    using demo_functional [of OrderPayment demo_netbanking] by auto
  obtain r2 where 2: "rbind (filterGatewaysForAuthType demo_filter_env demo_filter_params
        (filterGatewaysForBrand demo_filter_env demo_filter_params (demo_state [''payu'', ''stripe''] demo_mgas r1)))
       (filterGatewaysForValidationType demo_filter_env demo_filter_params)
      = Inr (demo_state [''payu'', ''stripe''] demo_mgas r2)"
    using demo_brand_to_method by blast
  then obtain s2 where s2: "filterGatewaysForAuthType demo_filter_env demo_filter_params
      (filterGatewaysForBrand demo_filter_env demo_filter_params (demo_state [''payu'', ''stripe''] demo_mgas r1)) = Inr s2"
      "filterGatewaysForValidationType demo_filter_env demo_filter_params s2 = Inr (demo_state [''payu'', ''stripe''] demo_mgas r2)"
    by (auto simp: rbind_def split: sum.splits)
  obtain r3 where 3: "filterGatewaysForPaymentMethod demo_filter_env demo_filter_params
      (filterGatewaysForTxnOfferDetails demo_filter_env demo_filter_params
        (filterGatewaysForEmi demo_filter_env demo_filter_params (demo_state [''payu'', ''stripe''] demo_mgas r2))) = demo_left r3"
    using demo_method by blast
  obtain r4 where "foldl (\<lambda>s f. f demo_filter_env demo_filter_params s) (demo_left r3)
       [filterGatewaysForTokenProvider, filterGatewaysForWallet, filterGatewaysForNbOnly,
        filterGatewaysForConsumerFinance, filterGatewaysForUpi, filterGatewaysForTxnType,
        filterGatewaysForTxnDetailType, filterGatewaysForReward, filterGatewaysForCash,
        filterFunctionalGatewaysForSplitSettlement, filterFunctionalGatewaysForMerchantRequiredFlow,
        filterFunctionalGatewaysForOTMFlow, filterFunctionalGatewaysForPixFlows,
        filterGatewaysForMGASelectionIntegrity] = demo_left r4"
    using leaves_left_fold [of _ r3] by (fastforce simp: demo_left_alone simp del: foldl_Cons)
  then have "filters_after_validation demo_filter_env demo_filter_params
      (demo_state [''payu'', ''stripe''] demo_mgas r2) = demo_left r4"
    by (simp add: filters_after_validation_def 3)
  then show ?thesis
    by (simp add: newGwFilters_def 1 s2 rbind_def final_gateways_def returnGwListWithLog_def)
qed

text \<open>A mandate payment by a card with a support row of an unknown validation type.\<close>

definition demo_mandate_card :: txn_card_info where
  "demo_mandate_card =
     \<lparr>tci_card_isin = Some ''411111'', tci_card_switch_provider = None, tci_card_type = Some CT_Credit,
      tci_payment_method_type = ''CARD'', tci_payment_method = ''VISA'', tci_payment_source = None,
      tci_auth_type = None\<rparr>"

lemma demo_supported_rows:
  "get_supported_gateway_card_info_for_bins demo_filter_env 7 [Some ''411111''] = Inl record_parsing_error"
  by (simp add: get_supported_gateway_card_info_for_bins_def demo_filter_env_def all_some_def gci_try_from_def
      text_to_validation_type_def Let_def)

lemma demo_unreadable:
  "newGwFilters demo_filter_env (demo_params demo_mandate_card MandatePayment) initial_filter_state
     = Inl record_parsing_error"
proof -
  let ?p = "demo_params demo_mandate_card MandatePayment"
  obtain r where 1: "filterFunctionalGateways demo_filter_env ?p (getFunctionalGateways demo_filter_env ?p initial_filter_state)
      = demo_state [''payu'', ''stripe''] demo_mgas r"
    using demo_functional [of MandatePayment demo_mandate_card] by (auto simp: demo_mandate_card_def)
  have card: "is_card_transaction demo_mandate_card" "tci_card_isin demo_mandate_card = Some ''411111''"
    "tci_auth_type demo_mandate_card = None" "get_bin_list (Some ''411111'') = [Some ''411111'']"
    "fp_merchant_pid ?p = 7"
    by (simp_all add: is_card_transaction_def demo_mandate_card_def get_bin_list_def get_true_string_def demo_params_def)
  have brand: "get_card_brand demo_filter_env ?p (demo_state g m r) = (None, demo_state g m r)" for g m r
    by (simp add: get_card_brand_def demo_state_def card get_true_string_def get_card_brand_from_db_def Let_def
        demo_filter_env_def split: option.splits bind_splits)
  obtain s3 where auth: "filterGatewaysForAuthType demo_filter_env ?p
      (filterGatewaysForBrand demo_filter_env ?p (demo_state [''payu'', ''stripe''] demo_mgas r)) = Inr s3"
    and left: "getGws s3 = [''payu'', ''stripe'']"
    using brand
    by (simp add: filterGatewaysForAuthType_def card auth_type_accounts_def rbind_def filterGatewaysForBrand_def
        filterByCardBrand_def Let_def del: makeFirstLetterSmall.simps filter_name_to_string.simps)
  have "filterGatewaysForValidationType demo_filter_env ?p s3 = Inl record_parsing_error"
    by (simp add: filterGatewaysForValidationType_def is_mandate_transaction_def card card_mandate_filter_def left
        filterGatewaysCardInfo_def card_mandate_rows_def demo_supported_rows rbind_def Let_def)
  then show ?thesis by (simp add: newGwFilters_def 1 auth rbind_def)
qed

lemma accounts_are_the_merchants_witness:
  "\<exists>s. newGwFilters demo_filter_env demo_filter_params initial_filter_state =
         Inr (([''payu''], [demo_mga 1 ''payu'' (Some ''hdfc'')]), s)
       \<and> set [''payu''] = mga_gateway ` set (unwrap_or (fs_mgas s) [])"
  using demo_run accounts_are_the_merchants by blast

lemma filters_only_narrow_witness:
  "\<exists>s. newGwFilters demo_filter_env demo_filter_params initial_filter_state =
         Inr (([''payu''], [demo_mga 1 ''payu'' (Some ''hdfc'')]), s)
       \<and> sorted_wrt (\<lambda>before after. set (snd after) \<subseteq> set (snd before)) (fs_debugFilterList s)"
proof -
  have "\<not> is_tpv_transaction (fp_txn demo_filter_params)" by simp
  with demo_run show ?thesis using filters_only_narrow by blast
qed

lemma one_account_per_gateway_witness:
  "\<exists>s. newGwFilters demo_filter_env demo_filter_params initial_filter_state =
         Inr (([''payu''], [demo_mga 1 ''payu'' (Some ''hdfc'')]), s)
       \<and> distinct (List.map mga_gateway [demo_mga 1 ''payu'' (Some ''hdfc'')])"
  using demo_run one_account_per_gateway by blast

lemma filters_fail_on_unreadable_row_witness:
  "newGwFilters demo_filter_env (demo_params demo_mandate_card MandatePayment) initial_filter_state
     = Inl record_parsing_error
   \<and> is_mandate_transaction (fp_txn (demo_params demo_mandate_card MandatePayment))"
  using demo_unreadable filters_fail_on_unreadable_row by blast

end
