(* ===== verification/Priority_Logic.thy ===== *)
theory Priority_Logic
  imports Filter_Utils
begin

text \<open>
  The priority logic runner (\<open>src/src/decider/gatewaydecider/runner.rs\<close>): which script of the merchant
  is evaluated, what is sent to the executor, how its answers and failures become a priority list,
  the retry and the fallback script. The executor is a parameter that may answer every call
  differently; the rows of the database and the draw of a staggered rollout are parameters as well.
\<close>

section \<open>Scripts, merchants and rows\<close>

datatype stagger = StaggerBtwnTwo string int | UnhandledText string

record priority_logic_config =
  plc_stagger :: "stagger option"
  plc_active_logic :: string
  plc_fallback_logic :: "string option"

record merchant_priority_logic =
  mpl_id :: string
  mpl_merchant_account_id :: int
  mpl_priority_logic :: string
  mpl_name :: "string option"
  mpl_is_active_logic :: bool

datatype filter_dimension = Dim_MCC | Dim_TIER | Dim_TRACK

record tenant_config =
  tc_tenant_account_id :: string
  tc_config_value :: string
  tc_filter_dimension :: "filter_dimension option"
  tc_filter_group_id :: "string option"

record pl_merchant =
  plm_pid :: int
  plm_merchant_id :: string
  plm_use_code_for_gateway_priority :: bool
  plm_gateway_priority :: "string option"
  plm_gateway_priority_logic :: string
  plm_priority_logic_config :: "string option"
  plm_internal_metadata :: "string option"
  plm_tenant_account_id :: "string option"
  plm_merchant_category_code :: "string option"

record pl_order =
  plord_amount :: f64
  plord_currency :: string
  plord_customer_id :: "string option"
  plord_order_id :: string
  plord_product_id :: "string option"
  plord_description :: "string option"
  plord_preferred_gateway :: "string option"
  plord_udfs :: "(int \<times> string) list"

record card_info =
  ci_card_isin :: string
  ci_card_type :: "card_type option"
  ci_card_sub_type :: "string option"
  ci_card_sub_type_category :: "string option"
  ci_card_issuer_country :: "string option"
  ci_country_code :: "string option"
  ci_extended_card_type :: "string option"

section \<open>What the executor is sent\<close>

record filtered_order_info =
  foi_amount :: f64
  foi_currency :: string
  foi_customer_id :: "string option"
  foi_order_id :: string
  foi_product_id :: "string option"
  foi_description :: "string option"
  foi_preferred_gateway :: "string option"
  foi_udfs :: "string option list"
  foi_order_metadata :: "json option"

record filtered_txn_info =
  fti_is_emi :: bool
  fti_emi_bank :: "string option"
  fti_emi_tenure :: "int option"
  fti_txn_id :: string
  fti_add_to_locker :: bool
  fti_express_checkout :: bool
  fti_source_object :: "string option"
  fti_txn_object_type :: txn_object_type

record filtered_payment_info =
  fpi_card_bin :: "string option"
  fpi_extended_card_bin :: "string option"
  fpi_card_brand :: "string option"
  fpi_card_issuer :: "string option"
  fpi_card_type :: "string option"
  fpi_card_issuer_country :: "string option"
  fpi_payment_method :: "string option"
  fpi_payment_method_type :: "string option"
  fpi_auth_type :: "string option"
  fpi_payment_source :: "string option"
  fpi_emi_type :: "string option"
  fpi_card_sub_type :: "string option"
  fpi_stored_card_provider :: "string option"
  fpi_extended_card_type :: "string option"
  fpi_cvv_less_txn :: "bool option"
  fpi_juspay_bank_code :: "string option"
  fpi_card_sub_type_category :: "string option"
  fpi_country_code :: "string option"

record groovy_eval_payload =
  gep_order_info :: filtered_order_info
  gep_txn_info :: filtered_txn_info
  gep_payment_info :: filtered_payment_info
  gep_merchant_id :: string
  gep_script :: string

text \<open>The user-defined fields 0 to 9 of the order are sent one by one.\<close>

definition filter_order :: "pl_order \<Rightarrow> json option \<Rightarrow> filtered_order_info" where
  "filter_order ord metadata =
     \<lparr>foi_amount = fdiv (plord_amount ord) (Fin 10000), foi_currency = plord_currency ord,
      foi_customer_id = plord_customer_id ord, foi_order_id = plord_order_id ord,
      foi_product_id = plord_product_id ord, foi_description = plord_description ord,
      foi_preferred_gateway = plord_preferred_gateway ord,
      foi_udfs = List.map (map_of (plord_udfs ord)) [0..9], foi_order_metadata = metadata\<rparr>"

definition filter_txn :: "filter_params \<Rightarrow> bool option \<Rightarrow> filtered_txn_info" where
  "filter_txn p add_to_locker =
     \<lparr>fti_is_emi = unwrap_or (fp_is_emi p) False, fti_emi_bank = fp_emi_bank p,
      fti_emi_tenure = fp_emi_tenure p, fti_txn_id = td_txn_id (fp_txn p),
      fti_add_to_locker = unwrap_or add_to_locker False,
      fti_express_checkout = unwrap_or (fp_express_checkout p) False,
      fti_source_object = td_source_object (fp_txn p),
      fti_txn_object_type = unwrap_or (td_txn_object_type (fp_txn p)) TO_Unknown\<rparr>"

datatype log_entry = Log_Info string | Log_Error string string

definition runner_fetch_emi_type :: "filter_env \<Rightarrow> txn_card_info \<Rightarrow> log_entry list + string" where
  "runner_fetch_emi_type e i =
     (case tci_payment_source i of
        None \<Rightarrow> Inl []
      | Some ps \<Rightarrow>
          if str_contains ps ''emi_type'' then Inl []
          else
            (case fe_parse e ps of
               Some (JObj fs) \<Rightarrow>
                 (case map_of fs ''emi_type'' of
                    Some (JStr t) \<Rightarrow> Inr t
                  | Some _ \<Rightarrow> Inl [Log_Error ''Invalid emi_type'' ''Error while parsing emi_type value from JSON'']
                  | None \<Rightarrow> Inl [Log_Error ''emi_type not found'' ''Error while parsing emi_type value from JSON''])
             | Some _ \<Rightarrow> Inl [Log_Error ''emi_type not found'' ''Error while parsing emi_type value from JSON'']
             | None \<Rightarrow> Inl []))"

definition fetch_extended_card_bin :: "filter_env \<Rightarrow> txn_card_info \<Rightarrow> string option" where
  "fetch_extended_card_bin e i = payment_source_value e ''extended_card_bin'' i"

definition card_sub_type_category :: "filter_env \<Rightarrow> card_info option \<Rightarrow> string option \<Rightarrow> string option" where
  "card_sub_type_category e m_card_info card_sub_type =
     Option.bind m_card_info (\<lambda>ci.
       case ci_card_sub_type_category ci of
         Some category \<Rightarrow> Some (fe_upper e category)
       | None \<Rightarrow>
           map_option
             (\<lambda>sub_type. if str_contains (fe_lower e sub_type) ''business'' \<or> str_contains (fe_lower e sub_type) ''corp''
                         then ''CORPORATE'' else ''RETAIL'')
             (get_true_string card_sub_type))"

definition go_card_isin ::
  "filter_env \<Rightarrow> filter_params \<Rightarrow> card_info option \<Rightarrow> internal_meta option \<Rightarrow> string option \<Rightarrow> string \<Rightarrow> filtered_payment_info" where
  "go_card_isin e p m_card_info im juspay_bank_code card_isin =
     (let i = fp_card p;
          or_empty = (\<lambda>v. opt_or v (Some []));
          brand = map_option (fe_upper e) (tci_card_switch_provider i);
          sub_type = map_option (fe_upper e)
                       (case m_card_info of Some ci \<Rightarrow> ci_card_sub_type ci | None \<Rightarrow> Some [])
      in \<lparr>fpi_card_bin = Some (take 6 card_isin),
          fpi_extended_card_bin =
            opt_or (Option.bind (fetch_extended_card_bin e i) to_isin) (map_option ci_card_isin m_card_info),
          fpi_card_brand = brand,
          fpi_card_issuer = map_option (fe_upper e) (fp_card_issuer_bank_name p),
          fpi_card_type = map_option card_type_to_text (opt_or (tci_card_type i) (Some CT_Credit)),
          fpi_card_issuer_country =
            or_empty (Option.bind m_card_info (\<lambda>ci. map_option (fe_upper e) (ci_card_issuer_country ci))),
          fpi_payment_method = brand, fpi_payment_method_type = Some ''CARD'',
          fpi_auth_type = map_option auth_type_to_text (tci_auth_type i), fpi_payment_source = None,
          fpi_emi_type = Some (case runner_fetch_emi_type e i of Inr t \<Rightarrow> t | Inl _ \<Rightarrow> []),
          fpi_card_sub_type = sub_type,
          fpi_stored_card_provider = opt_or (stored_card_vault_provider im) (Some ''JUSPAY''),
          fpi_extended_card_type =
            or_empty (map_option (fe_upper e)
              (opt_or (Option.bind m_card_info ci_extended_card_type)
                 (map_option card_type_to_text (Option.bind m_card_info ci_card_type)))),
          fpi_cvv_less_txn = Option.bind im im_isCvvLessTxn,
          fpi_juspay_bank_code = or_empty (map_option (fe_upper e) juspay_bank_code),
          fpi_card_sub_type_category = card_sub_type_category e m_card_info sub_type,
          fpi_country_code = or_empty (Option.bind m_card_info ci_country_code)\<rparr>)"

definition make_payment_info ::
  "filter_env \<Rightarrow> filter_params \<Rightarrow> card_info option \<Rightarrow> internal_meta option \<Rightarrow> string option \<Rightarrow> filtered_payment_info" where
  "make_payment_info e p m_card_info im juspay_bank_code =
     (let i = fp_card p in
      case tci_card_isin i of
        Some card_isin \<Rightarrow> go_card_isin e p m_card_info im juspay_bank_code card_isin
      | None \<Rightarrow>
          \<lparr>fpi_card_bin = None, fpi_extended_card_bin = None, fpi_card_brand = None,
           fpi_card_issuer = fp_card_issuer_bank_name p,
           fpi_card_type = map_option card_type_to_text (tci_card_type i),
           fpi_card_issuer_country = None,
           fpi_payment_method = opt_or (fp_card_issuer_bank_name p) (Some (tci_payment_method i)),
           fpi_payment_method_type =
             opt_or (map_option card_type_to_text (tci_card_type i)) (Some (tci_payment_method_type i)),
           fpi_auth_type = None, fpi_payment_source = tci_payment_source i, fpi_emi_type = None,
           fpi_card_sub_type = None, fpi_stored_card_provider = None, fpi_extended_card_type = None,
           fpi_cvv_less_txn = None,
           fpi_juspay_bank_code = map_option (fe_upper e) (opt_or juspay_bank_code (Some [])),
           fpi_card_sub_type_category = None, fpi_country_code = None\<rparr>)"

text \<open>The longest known prefix of the card; prefixes are compared as numbers.\<close>

definition get_int_isin :: "string \<Rightarrow> nat" where
  "get_int_isin isin = digits_value isin"

definition get_card_info_by_bin :: "card_info list \<Rightarrow> string option \<Rightarrow> card_info option" where
  "get_card_info_by_bin card_infos card_bin =
     (case get_true_string card_bin of
        None \<Rightarrow> None
      | Some bin \<Rightarrow>
          (let bins =
             (if 6 < length bin
              then List.map_filter (\<lambda>len. to_isin (take len bin)) (filter (\<lambda>len. len \<le> length bin) [6, 7, 8, 9])
              else List.map_filter to_isin [bin]);
               found = filter (\<lambda>ci. ci_card_isin ci \<in> set bins) card_infos;
               extended_card_bin = show_nat (foldl max 0 (List.map (\<lambda>ci. get_int_isin (ci_card_isin ci)) found))
           in find (\<lambda>ci. ci_card_isin ci = extended_card_bin) found))"

section \<open>The executor\<close>

datatype api_client_error =
    BadRequest string | Unauthorized string | InternalServerError string | ResponseDecodingFailed
  | RequestNotSent | Unexpected nat string | Other_client_error

record response_body =
  rb_ok :: bool
  rb_log :: "string list list option"
  rb_is_enforcement :: "bool option"
  rb_gateway_priority :: "string list option"
  rb_gateway_reference_ids :: "string hmap option"

datatype evaluation_result =
    PLResponse priority_logic_output priority_logic_data "log_entry list" pl_status
  | EvaluationError priority_logic_data "log_entry list"

text \<open>The calls a request can make, in their order.\<close>

datatype pl_call = PrimaryCall | RetryCall | FallbackCall | EnforcementCall

record pl_env =
  ple_call :: "pl_call \<Rightarrow> groovy_eval_payload \<Rightarrow> api_client_error + response_body"
  ple_logics :: "merchant_priority_logic list"
  ple_tenant_configs :: "tenant_config list"
  ple_tenant_config_filters :: "(string \<times> string) \<rightharpoonup> string"
  ple_card_infos :: "card_info list"
  ple_roll :: int

definition parse_log_entry :: "string list \<Rightarrow> log_entry" where
  "parse_log_entry entry =
     (case entry of
        [val, descr] \<Rightarrow>
          if val = ''Info'' then Log_Info descr
          else Log_Error ''Malformed log entry'' ''no logs from executor''
      | [val, descr, err] \<Rightarrow>
          if val = ''Error'' then Log_Error descr err
          else Log_Error ''Malformed log entry'' ''no logs from executor''
      | _ \<Rightarrow> Log_Error ''Malformed log entry'' ''no logs from executor'')"

text \<open>The failure an error of the client stands for, and its log.\<close>

fun handle_client_error :: "api_client_error \<Rightarrow> priority_logic_failure \<times> string list list" where
  "handle_client_error (BadRequest bytes) = (CompilationError, [[''Error'', ''Bad request'', bytes]])"
| "handle_client_error (Unauthorized bytes) = (ConnectionFailed, [[''Error'', ''Unauthorized access'', bytes]])"
| "handle_client_error (InternalServerError bytes) =
     (UnhandledException, [[''Error'', ''Internal server error'', bytes]])"
| "handle_client_error ResponseDecodingFailed =
     (ResponseDecodeFailure, [[''Error'', ''Response decoding failed'', ''Failed to parse the response.'']])"
| "handle_client_error RequestNotSent =
     (ConnectionFailed, [[''Error'', ''Request not sent'', ''The request could not be sent.'']])"
| "handle_client_error (Unexpected status_code message) =
     (UnhandledException, [[''Error'', ''Unexpected error: '' @ show_nat status_code, message]])"
| "handle_client_error Other_client_error =
     (UnhandledException, [[''Error'', ''Unknown error'', ''No additional details available.'']])"

definition handle_failure_response :: "string option \<Rightarrow> log_entry list \<Rightarrow> evaluation_result" where
  "handle_failure_response tag logs =
     EvaluationError \<lparr>pld_name = tag, pld_status = Pl_Failure, pld_failure_reason = PlEvaluationFailed\<rparr> logs"

definition handle_success_response :: "response_body \<Rightarrow> string option \<Rightarrow> log_entry list \<Rightarrow> evaluation_result" where
  "handle_success_response body tag logs =
     PLResponse
       \<lparr>plo_is_enforcement = unwrap_or (rb_is_enforcement body) False,
        plo_gws = unwrap_or (rb_gateway_priority body) [], plo_priority_logic_tag = tag,
        plo_gateway_reference_ids = unwrap_or (rb_gateway_reference_ids body) [],
        plo_primary_logic = None, plo_fallback_logic = None\<rparr>
       \<lparr>pld_name = tag, pld_status = Pl_Success, pld_failure_reason = NoError\<rparr> logs Pl_Success"

definition handle_response :: "api_client_error + response_body \<Rightarrow> string option \<Rightarrow> evaluation_result" where
  "handle_response response tag =
     (case response of
        Inl client_error \<Rightarrow>
          (let (reason, entries) = handle_client_error client_error
           in EvaluationError \<lparr>pld_name = tag, pld_status = Pl_Failure, pld_failure_reason = reason\<rparr>
                (List.map parse_log_entry entries))
      | Inr body \<Rightarrow>
          (let logs = List.map parse_log_entry (unwrap_or (rb_log body) [])
           in if \<not> rb_ok body then handle_failure_response tag logs
              else handle_success_response body tag logs))"

text \<open>The parts of a request that the runner needs.\<close>

record pl_request =
  plr_merchant :: pl_merchant
  plr_order :: pl_order
  plr_add_to_locker :: "bool option"
  plr_order_metadata :: "string option"
  plr_internal_meta :: "internal_meta option"

definition eval_payload ::
  "filter_env \<Rightarrow> filter_params \<Rightarrow> pl_request \<Rightarrow> card_info option \<Rightarrow> string \<Rightarrow> groovy_eval_payload" where
  "eval_payload e p r m_card_info script =
     \<lparr>gep_order_info = filter_order (plr_order r) (Option.bind (plr_order_metadata r) (fe_parse e)),
      gep_txn_info = filter_txn p (plr_add_to_locker r),
      gep_payment_info = make_payment_info e p m_card_info (plr_internal_meta r)
        (get_juspay_bank_code_from_internal_metadata e p),
      gep_merchant_id = plm_merchant_id (plr_merchant r), gep_script = script\<rparr>"

definition eval_script ::
  "filter_env \<Rightarrow> pl_env \<Rightarrow> pl_call \<Rightarrow> filter_params \<Rightarrow> pl_request \<Rightarrow> card_info option \<Rightarrow> string \<Rightarrow> string option \<Rightarrow> evaluation_result" where
  "eval_script e E site p r m_card_info script tag =
     handle_response (ple_call E site (eval_payload e p r m_card_info script)) tag"

section \<open>The script of a merchant\<close>

definition decode_stagger :: "json \<Rightarrow> stagger option" where
  "decode_stagger v =
     (case v of
        JObj [(variant, w)] \<Rightarrow>
          if variant = ''StaggerBtwnTwo'' then
            Option.bind (json_member ''staggeredLogic'' json_text w) (\<lambda>logic.
              map_option (StaggerBtwnTwo logic) (json_member ''rollout'' json_i32 w))
          else if variant = ''UnhandledText'' then map_option UnhandledText (json_text w)
          else None
      | _ \<Rightarrow> None)"

definition decode_pl_config :: "json \<Rightarrow> priority_logic_config option" where
  "decode_pl_config v =
     Option.bind (json_optional ''stagger'' decode_stagger v) (\<lambda>s.
     Option.bind (json_member ''activeLogic'' json_text v) (\<lambda>a.
       map_option (\<lambda>f. \<lparr>plc_stagger = s, plc_active_logic = a, plc_fallback_logic = f\<rparr>)
         (json_optional ''fallbackLogic'' json_text v)))"

definition find_priority_logic_by_id :: "pl_env \<Rightarrow> string \<Rightarrow> merchant_priority_logic option" where
  "find_priority_logic_by_id E i = find (\<lambda>l. mpl_id l = i) (ple_logics E)"

definition find_all_priority_logic_by_merchant_pid :: "pl_env \<Rightarrow> int \<Rightarrow> merchant_priority_logic list" where
  "find_all_priority_logic_by_merchant_pid E pid = filter (\<lambda>l. mpl_merchant_account_id l = pid) (ple_logics E)"

definition get_active_priority_logic_name_from_db :: "pl_env \<Rightarrow> pl_merchant \<Rightarrow> string option" where
  "get_active_priority_logic_name_from_db E m =
     Option.bind (find mpl_is_active_logic (find_all_priority_logic_by_merchant_pid E (plm_pid m))) mpl_name"

definition get_active_priority_logic_name :: "filter_env \<Rightarrow> pl_env \<Rightarrow> pl_merchant \<Rightarrow> string option" where
  "get_active_priority_logic_name e E m =
     opt_or (Option.bind (plm_internal_metadata m) (get_value e json_text ''active_priority_logic_name''))
       (get_active_priority_logic_name_from_db E m)"

definition decode_tenant_pl_config :: "filter_env \<Rightarrow> string \<Rightarrow> string \<times> string option" where
  "decode_tenant_pl_config e config_value =
     (case Option.bind (fe_parse e config_value) (\<lambda>v.
             Option.bind (json_member ''name'' json_text v) (\<lambda>name.
             Option.bind (json_member ''priorityLogic'' json_text v) (\<lambda>logic.
               map_option (\<lambda>_. (logic, Some name)) (json_optional ''priorityLogicRules'' json_text v)))) of
        Some res \<Rightarrow> res
      | None \<Rightarrow> ([], None))"

definition get_pl_by_merchant_category_code ::
  "filter_env \<Rightarrow> pl_env \<Rightarrow> pl_merchant \<Rightarrow> string \<Rightarrow> string \<Rightarrow> string \<times> string option" where
  "get_pl_by_merchant_category_code e E m filter_group_id config_value =
     decode_tenant_pl_config e
       (case plm_merchant_category_code m of
          Some mcc \<Rightarrow> unwrap_or (ple_tenant_config_filters E (filter_group_id, mcc)) config_value
        | None \<Rightarrow> config_value)"

definition get_pl_by_filter_dimension ::
  "filter_env \<Rightarrow> pl_env \<Rightarrow> pl_merchant \<Rightarrow> filter_dimension \<Rightarrow> string \<Rightarrow> string \<Rightarrow> string \<times> string option" where
  "get_pl_by_filter_dimension e E m dimension filter_group_id config_value =
     (if dimension = Dim_MCC then get_pl_by_merchant_category_code e E m filter_group_id config_value
      else decode_tenant_pl_config e config_value)"

definition get_priority_logic_script_from_tenant_config ::
  "filter_env \<Rightarrow> pl_env \<Rightarrow> pl_merchant \<Rightarrow> string \<times> string option" where
  "get_priority_logic_script_from_tenant_config e E m =
     (case Option.bind (plm_tenant_account_id m)
             (\<lambda>tenant. find (\<lambda>c. tc_tenant_account_id c = tenant) (ple_tenant_configs E)) of
        Some c \<Rightarrow>
          (case (tc_filter_dimension c, tc_filter_group_id c) of
             (Some dimension, Some group_id) \<Rightarrow>
               get_pl_by_filter_dimension e E m dimension group_id (tc_config_value c)
           | _ \<Rightarrow> decode_tenant_pl_config e (tc_config_value c))
      | None \<Rightarrow> ([], None))"

definition active_logic_id :: "pl_env \<Rightarrow> priority_logic_config \<Rightarrow> string" where
  "active_logic_id E c =
     (case plc_stagger c of
        Some (StaggerBtwnTwo staggered rollout) \<Rightarrow>
          if ple_roll E \<le> rollout then staggered else plc_active_logic c
      | _ \<Rightarrow> plc_active_logic c)"

definition get_priority_logic_script :: "filter_env \<Rightarrow> pl_env \<Rightarrow> pl_merchant \<Rightarrow> string \<times> string option" where
  "get_priority_logic_script e E m =
     (let own = (plm_gateway_priority_logic m, get_active_priority_logic_name e E m) in
      case plm_priority_logic_config m of
        Some text \<Rightarrow>
          (case Option.bind (Option.bind (fe_parse e text) decode_pl_config)
                  (\<lambda>c. find_priority_logic_by_id E (active_logic_id E c)) of
             Some mpl \<Rightarrow> (mpl_priority_logic mpl, mpl_name mpl)
           | None \<Rightarrow> own)
      | None \<Rightarrow>
          (if trim (plm_gateway_priority_logic m) = []
           then get_priority_logic_script_from_tenant_config e E m else own))"

definition get_script :: "filter_env \<Rightarrow> pl_env \<Rightarrow> pl_merchant \<Rightarrow> string option \<Rightarrow> string \<times> string option" where
  "get_script e E m maybe_script =
     (case maybe_script of
        Some script \<Rightarrow> (script, Some ''TEST_PL'')
      | None \<Rightarrow> get_priority_logic_script e E m)"

definition get_fallback_priority_logic_script ::
  "filter_env \<Rightarrow> pl_env \<Rightarrow> pl_merchant \<Rightarrow> string option \<times> string option" where
  "get_fallback_priority_logic_script e E m =
     (case Option.bind (Option.bind (Option.bind (plm_priority_logic_config m) (fe_parse e)) decode_pl_config)
             (\<lambda>c. Option.bind (plc_fallback_logic c) (find_priority_logic_by_id E)) of
        Some mpl \<Rightarrow> (Some (mpl_priority_logic mpl), mpl_name mpl)
      | None \<Rightarrow> (None, None))"

section \<open>From a script to a priority list\<close>

definition default_gateway_priority_logic_output :: priority_logic_output where
  "default_gateway_priority_logic_output =
     \<lparr>plo_is_enforcement = False, plo_gws = [], plo_priority_logic_tag = None,
      plo_gateway_reference_ids = [], plo_primary_logic = None, plo_fallback_logic = None\<rparr>"

definition check_and_update_pl_failure_reason ::
  "priority_logic_data option \<Rightarrow> priority_logic_failure \<Rightarrow> priority_logic_data option" where
  "check_and_update_pl_failure_reason data reason =
     map_option
       (\<lambda>d. if pld_failure_reason d \<noteq> reason
            then d\<lparr>pld_status := Pl_Failure, pld_failure_reason := reason\<rparr> else d) data"

definition handle_fallback_logic ::
  "filter_env \<Rightarrow> pl_env \<Rightarrow> pl_call \<Rightarrow> filter_params \<Rightarrow> pl_request \<Rightarrow> card_info option \<Rightarrow>
   priority_logic_failure \<Rightarrow> priority_logic_output \<Rightarrow> priority_logic_output" where
  "handle_fallback_logic e E site p r m_card_info reason out =
     (if plo_fallback_logic out = None \<and> plo_primary_logic out \<noteq> None then
        (case get_fallback_priority_logic_script e E (plr_merchant r) of
           (Some fallback_script, tag) \<Rightarrow>
             (case eval_script e E site p r m_card_info fallback_script tag of
                PLResponse gws pl_data logs status \<Rightarrow>
                  out\<lparr>plo_fallback_logic := Some pl_data, plo_priority_logic_tag := tag,
                      plo_primary_logic := check_and_update_pl_failure_reason (plo_primary_logic out) reason\<rparr>
              | EvaluationError pl_data err \<Rightarrow>
                  out\<lparr>plo_primary_logic := check_and_update_pl_failure_reason (plo_primary_logic out) reason,
                      plo_fallback_logic := Some pl_data, plo_priority_logic_tag := tag\<rparr>)
         | (None, tag) \<Rightarrow>
             out\<lparr>plo_primary_logic := check_and_update_pl_failure_reason (plo_primary_logic out) reason\<rparr>)
      else out\<lparr>plo_fallback_logic := check_and_update_pl_failure_reason (plo_fallback_logic out) reason\<rparr>)"

definition pl_execution_retry_failure_reasons :: "priority_logic_failure list" where
  "pl_execution_retry_failure_reasons =
     [ConnectionFailed, ResponseContentTypeNotSupported, ResponseDecodeFailure, ResponseParseError]"

text \<open>The answer of a successful evaluation, and the output a failed one starts the fallback from.\<close>

definition evaluated_output :: "priority_logic_output \<Rightarrow> priority_logic_data \<Rightarrow> priority_logic_output" where
  "evaluated_output gws pl_data = gws\<lparr>plo_primary_logic := Some pl_data\<rparr>"

definition failed_output :: "string option \<Rightarrow> priority_logic_data \<Rightarrow> priority_logic_output" where
  "failed_output tag pl_data =
     default_gateway_priority_logic_output\<lparr>plo_priority_logic_tag := tag, plo_primary_logic := Some pl_data\<rparr>"

definition evaluated_priority ::
  "filter_env \<Rightarrow> pl_env \<Rightarrow> filter_params \<Rightarrow> pl_request \<Rightarrow> string option \<Rightarrow> priority_logic_output" where
  "evaluated_priority e E p r script_m =
     (let m_card_info = get_card_info_by_bin (ple_card_infos E) (tci_card_isin (fp_card p));
          (script, tag) = get_script e E (plr_merchant r) script_m
      in case eval_script e E PrimaryCall p r m_card_info script tag of
           PLResponse gws pl_data logs status \<Rightarrow> evaluated_output gws pl_data
         | EvaluationError pl_data err \<Rightarrow>
             if pld_failure_reason pl_data \<in> set pl_execution_retry_failure_reasons then
               (case eval_script e E RetryCall p r m_card_info script tag of
                  PLResponse retry_gws retry_data logs status \<Rightarrow> evaluated_output retry_gws retry_data
                | EvaluationError retry_data err \<Rightarrow>
                    handle_fallback_logic e E FallbackCall p r m_card_info (pld_failure_reason pl_data)
                      (failed_output tag retry_data))
             else
               handle_fallback_logic e E FallbackCall p r m_card_info (pld_failure_reason pl_data)
                 (failed_output tag pl_data))"

definition listed_priority :: "string \<Rightarrow> string list" where
  "listed_priority t = filter (\<lambda>s. s \<noteq> []) (List.map trim (split_on (CHR '','') t))"

definition get_gateway_priority ::
  "filter_env \<Rightarrow> pl_env \<Rightarrow> filter_params \<Rightarrow> pl_request \<Rightarrow> string option \<Rightarrow> priority_logic_output" where
  "get_gateway_priority e E p r script_m =
     (if plm_use_code_for_gateway_priority (plr_merchant r) then evaluated_priority e E p r script_m
      else
        (case plm_gateway_priority (plr_merchant r) of
           None \<Rightarrow> default_gateway_priority_logic_output
         | Some t \<Rightarrow> default_gateway_priority_logic_output\<lparr>plo_gws := listed_priority t\<rparr>))"

end
