(* ===== verification/Legacy_Flow.thy ===== *)
theory Legacy_Flow
  imports Filter_Flow Priority_Logic
begin

text \<open>
  The older decider flow (\<open>src/src/decider/gatewaydecider/flows.rs\<close>): the filters give the functional
  gateways, the priority logic orders or enforces them, \<open>scoring_flow\<close> scores them, and the first of
  the best is answered, or an error that names the filter that left nothing. The debug form of a text
  in one message is written without escapes; collecting the scoring data and the Redis keys is done
  elsewhere and their results are arguments.
\<close>

section \<open>Reading the request\<close>

definition get_vault_provider :: "string option \<Rightarrow> vault_provider option" where
  "get_vault_provider token =
     map_option (\<lambda>t. if prefix ''sodexo'' t then VP_Sodexo else if prefix ''payu'' t then VP_PayU else VP_Juspay) token"

text \<open>The card prefix behind a token prefix, from Redis or the table, and what is cached.\<close>

definition get_card_bin_from_token_bin ::
  "(string \<Rightarrow> string option) \<Rightarrow> (string \<Rightarrow> string option) \<Rightarrow> nat \<Rightarrow> string \<Rightarrow> string \<times> (string \<times> string) option" where
  "get_card_bin_from_token_bin redis token_infos len token_bin =
     (let key = ''token_bin_'' @ token_bin in
      case redis key of
        Some bin \<Rightarrow> (take len bin, None)
      | None \<Rightarrow>
          (case token_infos token_bin of
             Some card_bin \<Rightarrow> (take len card_bin, Some (key, card_bin))
           | None \<Rightarrow> (token_bin, None)))"

definition resolve_bin ::
  "filter_env \<Rightarrow> (string \<Rightarrow> string option) \<Rightarrow> (string \<Rightarrow> string option) \<Rightarrow> txn_card_info \<Rightarrow> string option" where
  "resolve_bin e redis token_infos i =
     (case fetch_extended_card_bin e i of
        Some card_bin \<Rightarrow> Some card_bin
      | None \<Rightarrow> map_option (\<lambda>c_isin. fst (get_card_bin_from_token_bin redis token_infos 6 c_isin)) (tci_card_isin i))"

text \<open>The priority logic alone, for a request that asks for its output.\<close>

definition execute_priority_logic ::
  "filter_env \<Rightarrow> pl_env \<Rightarrow> (string \<Rightarrow> string option) \<Rightarrow> (string \<Rightarrow> string option) \<Rightarrow> filter_params \<Rightarrow>
   pl_request \<Rightarrow> priority_logic_output" where
  "execute_priority_logic e E redis token_infos p r =
     get_gateway_priority e E
       (p\<lparr>fp_card := (fp_card p)\<lparr>tci_card_isin := resolve_bin e redis token_infos (fp_card p)\<rparr>\<rparr>)
       (r\<lparr>plr_internal_meta :=
            Option.bind (Option.bind (fp_txn_internal_metadata p) (fe_parse e)) decode_internal_metadata\<rparr>)
       None"

record legacy_request =
  lgr_params :: filter_params
  lgr_merchant :: pl_merchant
  lgr_order :: pl_order
  lgr_add_to_locker :: "bool option"
  lgr_dynamic_switching_enabled :: bool
  lgr_priority_logic_output :: "priority_logic_output option"
  lgr_priority_logic_script :: "string option"
  lgr_should_consume_result :: "bool option"

section \<open>Reports in order\<close>

definition decider_filter_order :: "string \<Rightarrow> nat" where
  "decider_filter_order filter_name = unwrap_or (map_of
     [(''getFunctionalGateways'', 1), (''filterFunctionalGatewaysForCurrency'', 2),
      (''filterFunctionalGatewaysForReversePennyDrop'', 3), (''filterFunctionalGateways'', 4),
      (''filterFunctionalGatewaysForBrand'', 5), (''filterFunctionalGatewaysForAuthType'', 6),
      (''filterFunctionalGatewaysForValidationType'', 7), (''filterFunctionalGatewaysForEmi'', 8),
      (''filterFunctionalGatewaysForTxnOfferDetails'', 9), (''filterFunctionalGatewaysForPaymentMethod'', 10),
      (''filterFunctionalGatewaysForTokenProvider'', 11), (''filterFunctionalGatewaysForWallet'', 12),
      (''filterFunctionalGatewaysForNbOnly'', 13), (''filterFunctionalGatewaysForConsumerFinance'', 14),
      (''filterFunctionalGatewaysForUpi'', 15), (''filterFunctionalGatewaysForTxnType'', 16),
      (''filterFunctionalGatewaysForTxnDetailType'', 17), (''filterFunctionalGatewaysForReward'', 18),
      (''filterFunctionalGatewaysForCash'', 19), (''filterFunctionalGatewaysForSplitSettlement'', 20),
      (''preferredGateway'', 21), (''filterEnforcement'', 22),
      (''filterFunctionalGatewaysForMerchantRequiredFlow'', 23),
      (''filterGatewaysForEMITenureSpecificGatewayCreds'', 24),
      (''filterGatewaysForMGASelectionIntegrity'', 25), (''FilterFunctionalGatewaysForOTM'', 26)] filter_name) 27"

definition sortedFilterList :: "(string \<times> string list) list \<Rightarrow> (string \<times> string list) list" where
  "sortedFilterList reports = sort_key (\<lambda>(name, _). decider_filter_order name) reports"

section \<open>Why there is no gateway\<close>

definition getValidationType :: "txn_detail \<Rightarrow> txn_card_info \<Rightarrow> validation_type option" where
  "getValidationType txn i =
     (if is_mandate_transaction txn \<and> is_card_transaction i then Some VT_CardMandate
      else if is_tpv_transaction txn \<or> is_emandate_transaction txn then
        (if is_emandate_transaction txn
         then Some (if is_tpv_mandate_transaction txn then VT_TpvMandate else VT_Emandate)
         else Some VT_Tpv)
      else None)"

fun vault_provider_to_text :: "vault_provider \<Rightarrow> string" where
  "vault_provider_to_text VP_Juspay = ''JUSPAY''"
| "vault_provider_to_text VP_PayU = ''PAYU''"
| "vault_provider_to_text VP_Sodexo = ''SODEXO''"
| "vault_provider_to_text VP_Cof = ''COF_ISSUER''"
| "vault_provider_to_text VP_NetworkToken = ''NETWORK_TOKEN''"
| "vault_provider_to_text VP_IssuerToken = ''ISSUER_TOKEN''"

definition get_all_ref_ids :: "string hmap \<Rightarrow> string hmap \<Rightarrow> string hmap" where
  "get_all_ref_ids metadata pl_ref_id_map =
     foldl (\<lambda>m (k, v). hm_insert k v m) []
       (filter (\<lambda>(k, _). ends_with k '':gateway_reference_id'') pl_ref_id_map
        @ filter (\<lambda>(k, _). ends_with k '':gateway_reference_id'') metadata)"

definition debug_option :: "string option \<Rightarrow> string" where
  "debug_option v = (case v of None \<Rightarrow> ''None'' | Some t \<Rightarrow> ''Some('' @ [CHR 0x22] @ t @ [CHR 0x22] @ '')'')"

definition scope_text :: "filter_env \<Rightarrow> filter_state \<Rightarrow> string" where
  "scope_text e s =
     (case stored_card_vault_provider (fs_internalMetaData s) of
        Some provider \<Rightarrow> fe_lower e provider | None \<Rightarrow> ''card'') @ '' ''"

definition emi_failure_reason :: "filter_env \<Rightarrow> filter_params \<Rightarrow> filter_state \<Rightarrow> string" where
  "emi_failure_reason e p s =
     (let i = fp_card p;
          emi_type = (case fetch_emi_type e i of Some t \<Rightarrow> fe_lower e t | None \<Rightarrow> ''emi'') @ '' '';
          emi_bank = unwrap_or (fp_emi_bank p) [] @ '' '';
          unsupported = ''No functional gateways supporting '' @ emi_bank @ scope_text e s @ emi_type @ ''transaction.''
      in if is_card_transaction i \<and> fp_is_emi p \<noteq> Some True then ''Gateways configured supports only emi transaction.''
         else if is_card_transaction i then
           (if check_if_bin_is_eligible_for_emi e (tci_card_isin i) (get_juspay_bank_code_from_internal_metadata e p)
                 (map_option card_type_to_text (tci_card_type i))
            then unsupported else ''Bin doesn't support emi transaction.'')
         else unsupported)"

definition functional_failure_reason :: "filter_env \<Rightarrow> filter_params \<Rightarrow> filter_state \<Rightarrow> string" where
  "functional_failure_reason e p s =
     (let cvv_less = unwrap_or (Option.bind (fs_internalMetaData s) im_isCvvLessTxn) False in
      if is_card_transaction (fp_card p) then
        (if cvv_less \<and> tci_auth_type (fp_card p) = Some Moto
         then ''No functional gateways supporting cvv less '' @ scope_text e s @ ''repeat moto transaction.''
         else if cvv_less then ''No functional gateways supporting cvv less '' @ scope_text e s @ '' transaction.''
         else if is_token_repeat_txn (fs_internalMetaData s)
         then ''No functional gateways supporting '' @ scope_text e s @ ''transaction.''
         else ''No functional gateways supporting transaction.'')
      else ''No functional gateways supporting transaction.'')"

definition required_flow_failure_reason :: "filter_env \<Rightarrow> filter_params \<Rightarrow> string" where
  "required_flow_failure_reason e p =
     (let flows = set (get_payment_flow_list_from_txn_detail e p)
      in ''No functional gateways after filtering for '' @
         (if ''MUTUAL_FUND'' \<in> flows then ''Mutual Fund transaction flow''
          else if ''CROSS_BORDER_PAYMENT'' \<in> flows then ''Cross Border transaction flow''
          else if ''SINGLE_BLOCK_MULTIPLE_DEBIT'' \<in> flows then ''Single Block Multiple Debit''
          else ''Merchant requested payment flows ''))"

definition preferred_failure_reason :: "string option \<Rightarrow> (string \<times> string list) list \<Rightarrow> string" where
  "preferred_failure_reason preferred reports =
     (case preferred of
        Some gw \<Rightarrow>
          if gw \<in> set (case find (\<lambda>(name, _). name = ''filterFunctionalGatewaysForCurrency'') reports of
                          Some (_, gws) \<Rightarrow> gws | None \<Rightarrow> [])
          then gw @ '' is not supporting this transaction.'' else gw @ '' is not configured.''
      | None \<Rightarrow> ''No functional gateways supporting this transaction.'')"

definition only_or_none :: "bool \<Rightarrow> string \<Rightarrow> string" where
  "only_or_none asked kind =
     (if asked then ''No functional gateways supporting '' @ kind @ '' transaction.''
      else ''Gateways configured supports only '' @ kind @ '' transaction.'')"

definition getFailureReasonWithFilter ::
  "filter_env \<Rightarrow> filter_params \<Rightarrow> string option \<Rightarrow> filter_state \<Rightarrow> (string \<times> string list) list \<Rightarrow>
   priority_logic_output option \<Rightarrow> string \<Rightarrow> string" where
  "getFailureReasonWithFilter e p preferred s reports plo name =
     (let i = fp_card p in
      if name = ''getFunctionalGateways'' then
        ''No gateways are configured with the referenceIds ''
        @ fe_render e (JObj (List.map (\<lambda>(k, v). (k, JStr v))
            (get_all_ref_ids (unwrap_or (fs_metadata s) [])
               (case plo of Some out \<Rightarrow> plo_gateway_reference_ids out | None \<Rightarrow> []))))
        @ '' to proceed transaction ''
      else if name = ''filterFunctionalGatewaysForCurrency'' then
        ''No functional gateways after filtering for currency '' @ fe_render e (JStr (fp_currency p))
      else if name = ''filterFunctionalGatewaysForBrand'' then
        ''No functional gateways after filtering for brand '' @ unwrap_or (fs_cardBrand s) []
      else if name = ''filterFunctionalGatewaysForAuthType'' then
        ''No functional gateways after filtering for authType ''
        @ (case tci_auth_type i of Some a \<Rightarrow> auth_type_to_text a | None \<Rightarrow> [])
      else if name = ''filterFunctionalGatewaysForValidationType'' then
        ''No functional gateways after filtering for validationType ''
        @ (case getValidationType (fp_txn p) i of Some v \<Rightarrow> validation_type_to_text v | None \<Rightarrow> [])
      else if name = ''filterFunctionalGatewaysForEmi'' then emi_failure_reason e p s
      else if name = ''filterFunctionalGatewaysForPaymentMethod'' then
        ''No functional gateways supporting '' @ tci_payment_method i @ '' payment method.''
      else if name = ''filterFunctionalGatewaysForTokenProvider'' then
        ''No functional gateways supporting '' @ vault_provider_to_text (unwrap_or (fp_vault_provider p) VP_Juspay)
        @ '' saved cards.''
      else if name = ''filterFunctionalGatewaysForWallet'' then
        only_or_none (tci_card_type i = Some CT_Wallet) ''wallet''
      else if name = ''filterFunctionalGatewaysForNbOnly'' then
        only_or_none (tci_card_type i = Some CT_Nb) ''Net Banking''
      else if name = ''filterFunctionalGatewaysForConsumerFinance'' then
        only_or_none (tci_payment_method_type i = ''CONSUMER_FINANCE'') ''Consumer Finance''
      else if name = ''filterFunctionalGatewaysForUpi'' then
        (if tci_payment_method_type i = ''UPI'' then ''No functional gateways supporting UPI transaction.''
         else if \<not> is_google_pay_txn i then ''Gateways configured supports only UPI transaction.''
         else ''No functional gateways'')
      else if name = ''filterFunctionalGatewaysForTxnType'' then
        (case fp_txn_type p of
           None \<Rightarrow> ''No functional gateways''
         | Some t \<Rightarrow> ''No functional gateways supporting '' @ t @ '' transaction.'')
      else if name = ''filterFunctionalGatewaysForTxnDetailType'' then
        ''No functional gateways supporting '' @ debug_option (fp_detail_txn_type p) @ ''transaction.''
      else if name = ''filterFunctionalGatewaysForReward'' then
        only_or_none (tci_card_type i = Some CT_Reward \<or> tci_payment_method_type i = ''REWARD'') ''Reward''
      else if name = ''filterFunctionalGatewaysForCash'' then
        only_or_none (tci_payment_method_type i = ''CASH'') ''CASH''
      else if name = ''filterFunctionalGatewaysForSplitSettlement'' then
        ''No functional gateways after validating split.''
      else if name = ''filterFunctionalGatewaysForOTMFlow'' then
        ''No functional gateways after filtering for OTM flow.''
      else if name = ''filterFunctionalGateways'' then functional_failure_reason e p s
      else if name = ''preferredGateway'' then preferred_failure_reason preferred reports
      else if name = ''filterEnforcement'' then
        ''Priority logic enforced gateways are not supporting this transaction.''
      else if name = ''filterFunctionalGatewaysForMerchantRequiredFlow'' then required_flow_failure_reason e p
      else if name = ''filterGatewaysForMGASelectionIntegrity'' then
        ''Conflicting configurations found or no functional gateways supporting this transaction''
      else if name = ''filterGatewaysForEMITenureSpecificGatewayCreds'' then
        ''No functional gateways supporting for emi.''
      else if name = ''FilterFunctionalGatewaysForReversePennyDrop'' then
        ''No functional gateways after filtering for Reverse Penny Drop transaction ''
      else ''No functional gateways supporting this transaction.'')"

definition getDeciderFailureReason ::
  "filter_env \<Rightarrow> filter_params \<Rightarrow> string option \<Rightarrow> filter_state \<Rightarrow> (string \<times> string list) list \<Rightarrow>
   priority_logic_output option \<Rightarrow> string" where
  "getDeciderFailureReason e p preferred s reports plo =
     getFailureReasonWithFilter e p preferred s reports plo
       (case find (\<lambda>(_, gws). gws = []) (sortedFilterList reports) of
          Some (name, _) \<Rightarrow> name | None \<Rightarrow> ''NO_EMPTY'')"

section \<open>Candidates\<close>

text \<open>The reference identifiers the filters use are those of the priority logic output of the request.\<close>

definition legacy_params :: "legacy_request \<Rightarrow> filter_params" where
  "legacy_params r =
     (lgr_params r)
       \<lparr>fp_pl_gateway_reference_ids := map_option plo_gateway_reference_ids (lgr_priority_logic_output r)\<rparr>"

definition legacy_preferred :: "legacy_request \<Rightarrow> string option" where
  "legacy_preferred r = opt_or (td_gateway (fp_txn (lgr_params r))) (plord_preferred_gateway (lgr_order r))"

definition pl_request_of :: "legacy_request \<Rightarrow> filter_state \<Rightarrow> pl_request" where
  "pl_request_of r s =
     \<lparr>plr_merchant = lgr_merchant r, plr_order = lgr_order r, plr_add_to_locker = lgr_add_to_locker r,
      plr_order_metadata = fp_order_metadata (lgr_params r), plr_internal_meta = fs_internalMetaData s\<rparr>"

definition report :: "string \<Rightarrow> string list \<Rightarrow> filter_state \<Rightarrow> filter_state" where
  "report name gws s = s\<lparr>fs_debugFilterList := fs_debugFilterList s @ [(name, gws)]\<rparr>"

definition legacy_candidates ::
  "filter_env \<Rightarrow> pl_env \<Rightarrow> legacy_request \<Rightarrow> string list \<Rightarrow> filter_state \<Rightarrow>
   (string list \<times> priority_logic_output) \<times> filter_state" where
  "legacy_candidates e E r functional s =
     (let p = legacy_params r;
          q = pl_request_of r s;
          preferred = legacy_preferred r;
          pl = (case lgr_priority_logic_output r of
                  Some out \<Rightarrow> out
                | None \<Rightarrow> get_gateway_priority e E p q (lgr_priority_logic_script r));
          priority = add_preferred_gateways_to_priority_list (plo_gws pl) preferred
      in if plo_is_enforcement pl then
           (let m_card_info = get_card_info_by_bin (ple_card_infos E) (tci_card_isin (fp_card p));
                (res, plo) =
                  filter_functional_gateways_with_enforcement
                    (handle_fallback_logic e E EnforcementCall p q m_card_info NullAfterEnforce)
                    (lgr_priority_logic_output r = None) functional priority pl preferred
            in ((remdups_adj res, plo), report ''filterEnforcement'' res s))
         else ((remdups_adj functional, pl), s))"

section \<open>Answers\<close>

definition get_gateway_to_mga_id_map_f :: "merchant_gateway_account list \<Rightarrow> string list \<Rightarrow> json" where
  "get_gateway_to_mga_id_map_f all_mgas gateways =
     JObj (List.map (\<lambda>x. (x, case find (\<lambda>mga. mga_gateway mga = x) all_mgas of
                               Some mga \<Rightarrow> JInt (mga_id mga) | None \<Rightarrow> JNull)) (remdups gateways))"

text \<open>The tag, the approach and the output of the priority logic of a failure.\<close>

type_synonym legacy_failure = "string option \<times> gateway_decider_approach \<times> priority_logic_output option"

definition legacy_decided ::
  "bool \<Rightarrow> bool \<Rightarrow> json \<Rightarrow> string \<Rightarrow> decided_gateway" where
  "legacy_decided consume dynamic_mga mga_ids pgw =
     \<lparr>dg_decided_gateway = pgw, dg_fallback_gateways = [],
      dg_gateway_priority_map = Some (JObj [(pgw, JFloat (Fin 1))]), dg_filter_wise_gateways = None,
      dg_priority_logic_tag = None, dg_routing_approach = MerchantPreference,
      dg_gateway_before_evaluation = Some pgw, dg_priority_logic_output = None,
      dg_debit_routing_output = None, dg_reset_approach = NoReset, dg_routing_dimension = None,
      dg_routing_dimension_level = None, dg_is_scheduled_outage = False,
      dg_is_dynamic_mga_enabled = dynamic_mga, dg_gateway_mga_id_map = Some mga_ids,
      dg_is_rust_based_decider = consume, dg_latency = None, dg_multi_objective_info = None\<rparr>"

definition legacy_preferred_result ::
  "bool \<Rightarrow> json \<Rightarrow> string \<Rightarrow> string list \<Rightarrow> filter_state \<Rightarrow> (legacy_failure + decided_gateway) \<times> filter_state" where
  "legacy_preferred_result consume mga_ids pgw functional s =
     (if pgw \<in> set functional
      then (Inr (legacy_decided consume (fs_is_dynamic_mga_enabled s) mga_ids pgw), s)
      else (Inl (None, Approach_None, None), report ''preferredGateway'' [] s))"

definition legacy_scored_result ::
  "(priority_logic_output \<Rightarrow> json) \<Rightarrow> bool \<Rightarrow> bool \<Rightarrow> json \<Rightarrow> string option \<times> string option \<Rightarrow>
   priority_logic_output \<Rightarrow> decider_state \<Rightarrow> legacy_failure + decided_gateway" where
  "legacy_scored_result render consume dynamic_mga mga_ids dims plo st =
     (let sm = ds_gw_score_map st;
          tag = plo_priority_logic_tag plo;
          final_approach = get_gateway_decider_approach sm (ds_gw_decider_approach st)
      in if sm = [] then Inl (tag, Approach_None, Some plo)
         else
           (case random_gateway_selection_for_same_score sm (map_option snd (get_max_score_gateway sm)) of
              Some gw \<Rightarrow> Inr
                \<lparr>dg_decided_gateway = gw, dg_fallback_gateways = fallback_gateways_from_score_map sm gw,
                 dg_gateway_priority_map = Some (JObj (List.map (\<lambda>(gw, x). (gw, json_of_f64 x)) sm)),
                 dg_filter_wise_gateways = None, dg_priority_logic_tag = tag,
                 dg_routing_approach = final_approach,
                 dg_gateway_before_evaluation = ds_top_gateway_before_sr_downtime_evaluation st,
                 dg_priority_logic_output = Some (render plo), dg_debit_routing_output = None,
                 dg_reset_approach = ds_reset_approach st, dg_routing_dimension = fst dims,
                 dg_routing_dimension_level = snd dims,
                 dg_is_scheduled_outage = ds_is_scheduled_outage st,
                 dg_is_dynamic_mga_enabled = dynamic_mga, dg_gateway_mga_id_map = Some mga_ids,
                 dg_is_rust_based_decider = consume, dg_latency = None, dg_multi_objective_info = None\<rparr>
            | None \<Rightarrow> Inl (tag, final_approach, Some plo)))"

text \<open>An error with its message for developers.\<close>

type_synonym legacy_error = "error_response \<times> string"

definition legacy_answer ::
  "filter_env \<Rightarrow> legacy_request \<Rightarrow> filter_state \<Rightarrow> legacy_failure + decided_gateway \<Rightarrow>
   legacy_error + decided_gateway \<times> (string \<times> string list) list" where
  "legacy_answer e r s result =
     (case result of
        Inr d \<Rightarrow> Inr (d, sortedFilterList (fs_debugFilterList s))
      | Inl (tag, approach, plo) \<Rightarrow>
          Inl (gateway_not_found tag approach plo (fs_is_dynamic_mga_enabled s),
               getDeciderFailureReason e (legacy_params r) (legacy_preferred r) s (fs_debugFilterList s) plo))"

definition legacy_scoring_data ::
  "legacy_request \<Rightarrow> bool \<Rightarrow> gateway_decider_approach \<Rightarrow> gateway_scoring_data \<Rightarrow>
   (gateway_decider_approach \<times> gateway_scoring_data) option" where
  "legacy_scoring_data r legacy approach gsd =
     (if unwrap_or (lgr_should_consume_result r) False
      then Some (approach, gsd\<lparr>gsd_is_legacy_decider_flow := legacy, gsd_udfs := Some (plord_udfs (lgr_order r))\<rparr>)
      else None)"

section \<open>The flow\<close>

text \<open>
  The answer, the scoring data kept for the feedback when the result is consumed, and the stores.
  \<open>None\<close> is a panic.
\<close>

definition run_legacy_flow ::
  "filter_env \<Rightarrow> pl_env \<Rightarrow> (priority_logic_output \<Rightarrow> json) \<Rightarrow> 's sr_env \<Rightarrow> 'k down_env \<Rightarrow> scoring_flags \<Rightarrow>
   scoring_draws \<Rightarrow> string option \<times> string option \<Rightarrow> legacy_request \<Rightarrow> bool \<Rightarrow> 's \<times> sr_score_cache \<times> 'k \<Rightarrow>
   ((legacy_error + decided_gateway \<times> (string \<times> string list) list)
    \<times> (gateway_decider_approach \<times> gateway_scoring_data) option \<times> 's \<times> sr_score_cache \<times> 'k) option" where
  "run_legacy_flow e E render V W F draws dims r legacy stores =
     (let p = legacy_params r;
          st = initial_decider_state (td_date_created (fp_txn p));
          consume = unwrap_or (lgr_should_consume_result r) False in
      case newGwFilters e p initial_filter_state of
        Inl err \<Rightarrow> Some (Inl (err, ''record parsing failed.''), None, stores)
      | Inr ((functional, all_mgas), s) \<Rightarrow>
          (let mga_ids = get_gateway_to_mga_id_map_f all_mgas functional in
           case (legacy_preferred r, lgr_dynamic_switching_enabled r) of
             (Some pgw, False) \<Rightarrow>
               (let (result, s1) = legacy_preferred_result consume mga_ids pgw functional s
                in Some (legacy_answer e r s1 result,
                         legacy_scoring_data r legacy (ds_gw_decider_approach st) (dw_gsd W), stores))
           | _ \<Rightarrow>
               (let ((gws, plo), s1) = legacy_candidates e E r functional s in
                map_option
                  (\<lambda>(st', stores').
                     (legacy_answer e r s1
                        (legacy_scored_result render consume (fs_is_dynamic_mga_enabled s1) mga_ids dims plo st'),
                      legacy_scoring_data r legacy (ds_gw_decider_approach st') (dw_gsd W), stores'))
                  (scoring_flow V W F draws (fp_txn p) (fp_card p) gws (plo_gws plo) None None st stores))))"

definition merchant_prefs_not_found :: error_response where
  "merchant_prefs_not_found =
     \<lparr>er_status = ''400'', er_error_code = ''DATA_NOT_FOUND'',
      er_error_message = ''merchant iframe preferences not found'', er_priority_logic_tag = None,
      er_routing_approach = None, er_info_code = ''MERCHANT_IFRAME_PREFERENCES_NOT_FOUND'',
      er_priority_logic_output = None, er_is_dynamic_mga_enabled = False\<rparr>"

text \<open>The request with the prefix resolved, an empty enforced list dropped and the vault of its token.\<close>

definition full_payload_request ::
  "filter_env \<Rightarrow> (string \<Rightarrow> string option) \<Rightarrow> (string \<Rightarrow> string option) \<Rightarrow> string option \<Rightarrow> bool \<Rightarrow>
   legacy_request \<Rightarrow> legacy_request" where
  "full_payload_request e redis token_infos card_token dynamic_switching r =
     (let p = lgr_params r in
      r\<lparr>lgr_params :=
          p\<lparr>fp_card := (fp_card p)\<lparr>tci_card_isin := resolve_bin e redis token_infos (fp_card p)\<rparr>,
            fp_enforce_gateway_list := handle_enforced_gateway (fp_enforce_gateway_list p),
            fp_vault_provider := get_vault_provider card_token\<rparr>,
        lgr_dynamic_switching_enabled := dynamic_switching\<rparr>)"

definition decider_full_payload_hs_function ::
  "filter_env \<Rightarrow> pl_env \<Rightarrow> (priority_logic_output \<Rightarrow> json) \<Rightarrow> 's sr_env \<Rightarrow> 'k down_env \<Rightarrow> scoring_flags \<Rightarrow>
   scoring_draws \<Rightarrow> string option \<times> string option \<Rightarrow> (string \<Rightarrow> string option) \<Rightarrow> (string \<Rightarrow> string option) \<Rightarrow>
   (string \<rightharpoonup> bool) \<Rightarrow> string option \<Rightarrow> legacy_request \<Rightarrow> 's \<times> sr_score_cache \<times> 'k \<Rightarrow>
   ((legacy_error + decided_gateway \<times> (string \<times> string list) list)
    \<times> (gateway_decider_approach \<times> gateway_scoring_data) option \<times> 's \<times> sr_score_cache \<times> 'k) option" where
  "decider_full_payload_hs_function e E render V W F draws dims redis token_infos prefs card_token r stores =
     (case prefs (td_merchant_id (fp_txn (lgr_params r))) of
        None \<Rightarrow> Some (Inl (merchant_prefs_not_found, ''merchant iframe preferences not found''), None, stores)
      | Some dynamic_switching \<Rightarrow>
          run_legacy_flow e E render V W F draws dims
            (full_payload_request e redis token_infos card_token dynamic_switching r) True stores)"

end
