(* ===== verification/Legacy_Correct.thy ===== *)
theory Legacy_Correct
  imports Legacy_Flow Decide_Correct Filter_Correct
begin

text \<open>
  What the older flow decides: the gateways of the merchant's own accounts that the filters left, in
  the order of the executor's answer, and never what the fallback script says.
\<close>

section \<open>The answer of the executor\<close>

lemma fallback_keeps [simp]:
  "plo_gws (handle_fallback_logic e E site p q ci reason out) = plo_gws out"
  "plo_is_enforcement (handle_fallback_logic e E site p q ci reason out) = plo_is_enforcement out"
  "plo_gateway_reference_ids (handle_fallback_logic e E site p q ci reason out) = plo_gateway_reference_ids out"
  by (simp_all add: handle_fallback_logic_def split: prod.splits option.splits evaluation_result.splits)

text \<open>Errors after which the same script is sent once more.\<close>

fun sent_again :: "api_client_error \<Rightarrow> bool" where
  "sent_again (Unauthorized _) = True"
| "sent_again RequestNotSent = True"
| "sent_again ResponseDecodingFailed = True"
| "sent_again _ = False"

definition accepted :: "api_client_error + response_body \<Rightarrow> response_body option" where
  "accepted response = (case response of Inr body \<Rightarrow> if rb_ok body then Some body else None | Inl _ \<Rightarrow> None)"

definition accepted_body ::
  "filter_env \<Rightarrow> pl_env \<Rightarrow> filter_params \<Rightarrow> pl_request \<Rightarrow> string option \<Rightarrow> response_body option" where
  "accepted_body e E p q script_m =
     (let payload = eval_payload e p q (get_card_info_by_bin (ple_card_infos E) (tci_card_isin (fp_card p)))
                      (fst (get_script e E (plr_merchant q) script_m))
      in case ple_call E PrimaryCall payload of
           Inl err \<Rightarrow> if sent_again err then accepted (ple_call E RetryCall payload) else None
         | Inr body \<Rightarrow> accepted (Inr body))"

lemma retried_iff:
  "fst (handle_client_error err) \<in> set pl_execution_retry_failure_reasons \<longleftrightarrow> sent_again err"
  by (cases err) (simp_all add: pl_execution_retry_failure_reasons_def)

definition answer_fields :: "response_body option \<Rightarrow> string list \<times> bool \<times> string hmap" where
  "answer_fields body =
     (case body of
        None \<Rightarrow> ([], False, [])
      | Some b \<Rightarrow> (unwrap_or (rb_gateway_priority b) [], unwrap_or (rb_is_enforcement b) False,
                  unwrap_or (rb_gateway_reference_ids b) []))"

definition output_fields :: "priority_logic_output \<Rightarrow> string list \<times> bool \<times> string hmap" where
  "output_fields out = (plo_gws out, plo_is_enforcement out, plo_gateway_reference_ids out)"

lemma response_fields:
  "case handle_response response tag of
     PLResponse gws pl_data logs status \<Rightarrow>
       accepted response \<noteq> None \<and> output_fields gws = answer_fields (accepted response)
   | EvaluationError pl_data logs \<Rightarrow>
       accepted response = None
       \<and> (pld_failure_reason pl_data \<in> set pl_execution_retry_failure_reasons
          \<longleftrightarrow> (case response of Inl err \<Rightarrow> sent_again err | Inr _ \<Rightarrow> False))"
proof (cases response)
  case (Inl err)
  then show ?thesis
    using retried_iff [of err] by (auto simp: handle_response_def accepted_def Let_def split: prod.splits)
next
  case (Inr body)
  then show ?thesis
    by (simp add: handle_response_def accepted_def handle_failure_response_def handle_success_response_def
        output_fields_def answer_fields_def pl_execution_retry_failure_reasons_def Let_def)
qed

text \<open>
  C32. The executor decides, its fallback does not. The priority list, the enforcement and the reference
  identifiers of an evaluated priority logic are those of the first accepted answer for the primary
  script, which is sent a second time only when the first failed for one of three transport errors;
  otherwise nothing is listed, whatever the fallback script of the merchant is and answers.
\<close>

theorem fallback_script_never_counts:
  "output_fields (evaluated_priority e E p q script_m) = answer_fields (accepted_body e E p q script_m)"
proof -
  obtain script tag where s: "get_script e E (plr_merchant q) script_m = (script, tag)" by fastforce
  define payload where "payload =
    eval_payload e p q (get_card_info_by_bin (ple_card_infos E) (tci_card_isin (fp_card p))) script"
  have failed: "output_fields (failed_output t d) = ([], False, [])" for t d
    by (simp add: output_fields_def failed_output_def default_gateway_priority_logic_output_def)
  have updated: "output_fields (evaluated_output out d) = output_fields out" for out d
    by (simp add: output_fields_def evaluated_output_def)
  have fb: "output_fields (handle_fallback_logic e E site p q ci reason out) = output_fields out" for site ci reason out
    by (simp add: output_fields_def)
  note 1 = response_fields [of "ple_call E PrimaryCall payload" tag]
  note 2 = response_fields [of "ple_call E RetryCall payload" tag]
  have body: "accepted_body e E p q script_m =
      (case ple_call E PrimaryCall payload of
         Inl err \<Rightarrow> if sent_again err then accepted (ple_call E RetryCall payload) else None
       | Inr body \<Rightarrow> accepted (Inr body))"
    unfolding accepted_body_def s fst_conv payload_def Let_def ..
  show ?thesis
    using 1 2
    by (cases "ple_call E PrimaryCall payload")
      (auto simp: evaluated_priority_def s eval_script_def payload_def [symmetric] body failed updated fb
        answer_fields_def accepted_def Let_def
        split: evaluation_result.splits if_splits)
qed

section \<open>The decided gateway\<close>

lemma legacy_candidates_functional: "set (fst (fst (legacy_candidates e E r functional s))) \<subseteq> set functional"
  by (auto simp: legacy_candidates_def filter_functional_gateways_with_enforcement_def Let_def
      split: if_splits prod.splits)

lemma legacy_scored_run:
  assumes "newGwFilters e (legacy_params r) initial_filter_state = Inr ((gws, mgas), s)"
    and "\<not> (\<exists>pgw. legacy_preferred r = Some pgw \<and> \<not> lgr_dynamic_switching_enabled r)"
    and "legacy_candidates e E r gws s = ((fg, plo), s1)"
  shows "run_legacy_flow e E render V W F draws dims r legacy stores = map_option
      (\<lambda>(st, stores).
         (legacy_answer e r s1 (legacy_scored_result render (unwrap_or (lgr_should_consume_result r) False)
            (fs_is_dynamic_mga_enabled s1) (get_gateway_to_mga_id_map_f mgas gws) dims plo st),
          legacy_scoring_data r legacy (ds_gw_decider_approach st) (dw_gsd W), stores))
      (scoring_flow V W F draws (fp_txn (legacy_params r)) (fp_card (legacy_params r)) fg (plo_gws plo) None None
         (initial_decider_state (td_date_created (fp_txn (legacy_params r)))) stores)"
proof -
  have "(case (legacy_preferred r, lgr_dynamic_switching_enabled r) of (Some pgw, False) \<Rightarrow> f pgw | _ \<Rightarrow> g) = g"
    for f :: "string \<Rightarrow> 'x" and g
    using assms(2) by (auto split: option.splits bool.splits)
  then show ?thesis by (simp only: run_legacy_flow_def Let_def assms(1,3) sum.case prod.case)
qed

lemma legacy_result:
  assumes run: "run_legacy_flow e E render V W F draws dims r legacy stores = Some (Inr (d, reports), written, stores')"
  obtains (preferred) gws mgas s where
      "newGwFilters e (legacy_params r) initial_filter_state = Inr ((gws, mgas), s)"
      "dg_decided_gateway d \<in> set gws" "dg_fallback_gateways d = []"
    | (scored) gws mgas s fg and plo :: priority_logic_output and st where
      "newGwFilters e (legacy_params r) initial_filter_state = Inr ((gws, mgas), s)" "set fg \<subseteq> set gws"
      "scoring_flow V W F draws (fp_txn (legacy_params r)) (fp_card (legacy_params r)) fg (plo_gws plo) None None
         (initial_decider_state (td_date_created (fp_txn (legacy_params r)))) stores = Some (st, stores')"
      "random_gateway_selection_for_same_score (ds_gw_score_map st)
         (map_option snd (get_max_score_gateway (ds_gw_score_map st))) = Some (dg_decided_gateway d)"
      "dg_fallback_gateways d = fallback_gateways_from_score_map (ds_gw_score_map st) (dg_decided_gateway d)"
proof (cases "newGwFilters e (legacy_params r) initial_filter_state")
  case (Inl err)
  with run show ?thesis by (simp add: run_legacy_flow_def Let_def)
next
  case (Inr res)
  then obtain gws mgas s where f: "newGwFilters e (legacy_params r) initial_filter_state = Inr ((gws, mgas), s)"
    by (cases res) auto
  show ?thesis
  proof (cases "\<exists>pgw. legacy_preferred r = Some pgw \<and> \<not> lgr_dynamic_switching_enabled r")
    case True
    with run f have "dg_decided_gateway d \<in> set gws" "dg_fallback_gateways d = []"
      by (auto simp: run_legacy_flow_def legacy_preferred_result_def legacy_answer_def legacy_decided_def Let_def
          split: if_splits)
    with f show ?thesis by (rule preferred)
  next
    case False
    obtain fg plo s1 where c: "legacy_candidates e E r gws s = ((fg, plo), s1)" by (metis prod.collapse)
    from run obtain st where flow: "scoring_flow V W F draws (fp_txn (legacy_params r)) (fp_card (legacy_params r)) fg
        (plo_gws plo) None None (initial_decider_state (td_date_created (fp_txn (legacy_params r)))) stores = Some (st, stores')"
      and ans: "legacy_answer e r s1 (legacy_scored_result render (unwrap_or (lgr_should_consume_result r) False)
         (fs_is_dynamic_mga_enabled s1) (get_gateway_to_mga_id_map_f mgas gws) dims plo st) = Inr (d, reports)"
      unfolding legacy_scored_run [OF f False c] by auto
    from ans show ?thesis
      using scored [OF f _ flow] legacy_candidates_functional [of e E r gws s]
      by (auto simp: c legacy_answer_def legacy_scored_result_def Let_def split: if_splits option.splits)
  qed
qed

text \<open>
  C31. Nothing but the merchant's own accounts. Whatever the priority logic, its executor, the scores and
  the configurations are, a gateway the older flow decides is the gateway of a decoded account row of the
  payment's merchant, or a scheduled outage of the transaction names it; the fallbacks are so too,
  they are distinct and do not repeat it.
\<close>

theorem legacy_decision_is_the_merchants:
  assumes "run_legacy_flow e E render V W F draws dims r legacy stores = Some (Inr (d, reports), written, stores')"
  defines "own \<equiv> {mga_gateway m | m row. row \<in> set (fe_accounts e) \<and> mga_try_from e row = Some m
      \<and> mga_merchant_id m = fp_merchant_id (lgr_params r)}
    \<union> outage_gateways W (fp_txn (lgr_params r)) (fp_card (lgr_params r))"
  shows "dg_decided_gateway d \<in> own
    \<and> set (dg_fallback_gateways d) \<subseteq> own - {dg_decided_gateway d} \<and> distinct (dg_fallback_gateways d)"
proof -
  have same: "fp_merchant_id (legacy_params r) = fp_merchant_id (lgr_params r)"
    "fp_txn (legacy_params r) = fp_txn (lgr_params r)" "fp_card (legacy_params r) = fp_card (lgr_params r)"
    by (simp_all add: legacy_params_def)
  have accounts: "set gws \<subseteq> own"
    if "newGwFilters e (legacy_params r) initial_filter_state = Inr ((gws, mgas), s)" for gws mgas s
    using remaining_accounts [OF that] same unfolding own_def by (auto simp: image_iff) metis
  from assms(1) show ?thesis
  proof (cases rule: legacy_result)
    case (preferred gws mgas s)
    then show ?thesis using accounts by auto
  next
    case (scored gws mgas s fg plo st)
    have "keyed own (ds_gw_score_map st)"
      using keyed_mono [OF keyed_scoring_flow [OF scored(3)], of own] scored(2) accounts [OF scored(1)] same
      by (auto simp: own_def)
    then show ?thesis
      using random_selection_mem [OF scored(4)] score_fallbacks [of "ds_gw_score_map st" "dg_decided_gateway d"]
      unfolding scored(5) keyed_def by blast
  qed
qed

section \<open>Enforcement that leaves nothing\<close>

lemma only_empty_report:
  assumes "\<forall>report \<in> set reports. snd report \<noteq> []"
  shows "find (\<lambda>(_, gws). gws = []) (sortedFilterList (reports @ [(name, [])])) = Some (name, [])"
proof -
  let ?l = "sortedFilterList (reports @ [(name, [])])"
  have s: "set ?l = set reports \<union> {(name, [])}" by (simp add: sortedFilterList_def)
  then have "find (\<lambda>(_, gws). gws = []) ?l \<noteq> None" by (auto simp: find_None_iff)
  then obtain x where x: "find (\<lambda>(_, gws). gws = []) ?l = Some x" by blast
  then have "x \<in> set ?l" "snd x = []" by (auto simp: find_Some_iff split_beta)
  then have "x = (name, [])" using s assms by auto
  with x show ?thesis by simp
qed

lemma enforced_nothing:
  assumes "lgr_priority_logic_output r = None" "legacy_preferred r = None"
    and "plo_is_enforcement pl" "set (plo_gws pl) \<inter> set gws = {}"
    and "pl = get_gateway_priority e E (legacy_params r) (pl_request_of r s) (lgr_priority_logic_script r)"
  shows "\<exists>plo. legacy_candidates e E r gws s = (([], plo), report ''filterEnforcement'' [] s)"
proof -
  have "filter (\<lambda>gw. gw \<in> set (plo_gws pl)) gws = []" using assms(4) by (auto simp: filter_empty_conv)
  then show ?thesis
    using assms(1-3)
    by (simp add: legacy_candidates_def assms(5) filter_functional_gateways_with_enforcement_def
        add_preferred_gateways_to_priority_list_def Let_def)
qed

text \<open>
  C33. When the priority logic that is evaluated for the payment (none is supplied with it) enforces
  gateways of which none is functional, the payment is not validated by a third party, no gateway is
  preferred, success rates and elimination are off and no outage matches, then the payment is refused
  and the message blames the enforcement, although functional gateways are left and whatever the
  fallback script of the merchant would allow. The stores do not change. A preferred gateway or one
  that a matching outage names is a candidate all the same, whatever is enforced.
\<close>

theorem enforcement_leaves_nothing:
  assumes "newGwFilters e (legacy_params r) initial_filter_state = Inr ((gws, mgas), s)" and "gws \<noteq> []"
    and "\<not> is_tpv_transaction (fp_txn (legacy_params r))"
    and "lgr_priority_logic_output r = None" and "legacy_preferred r = None"
    and "pl = get_gateway_priority e E (legacy_params r) (pl_request_of r s) (lgr_priority_logic_script r)"
    and "plo_is_enforcement pl" and "set (plo_gws pl) \<inter> set gws = {}"
    and "\<not> sr_enabled F None" and "\<not> dc_payment_flow_enabled (dw_config W)"
    and "outage_gateways W (fp_txn (legacy_params r)) (fp_card (legacy_params r)) = {}"
  shows "\<exists>err written. run_legacy_flow e E render V W F draws dims r legacy stores =
      Some (Inl (err, ''Priority logic enforced gateways are not supporting this transaction.''), written, stores)
    \<and> er_info_code err = ''GATEWAY_NOT_FOUND''"
proof -
  obtain sr cache k where st: "stores = (sr, cache, k)" by (cases stores)
  obtain plo where c: "legacy_candidates e E r gws s = (([], plo), report ''filterEnforcement'' [] s)"
    using enforced_nothing [OF assms(4,5,7,8,6)] by blast
  let ?st = "initial_decider_state (td_date_created (fp_txn (legacy_params r)))"
  let ?gs = "filter (check_scheduled_outage (fp_txn (legacy_params r)) (fp_card (legacy_params r))
      (dw_merchant W) (dw_bank_code W)) (dw_outages W)"
  obtain st' where f: "scoring_flow V W F draws (fp_txn (legacy_params r)) (fp_card (legacy_params r)) [] (plo_gws plo)
      None None ?st stores = Some (st', stores)" and sm: "ds_gw_score_map st' = fold outage_penalty ?gs []"
    using no_candidates_flow [OF assms(9,10) _ refl, of None] st by fastforce
  have "\<forall>g \<in> set ?gs. outage_penalty g [] = []"
    using assms(11) by (auto simp: outage_penalty_def outage_gateways_def split: option.splits)
  moreover have "\<forall>g \<in> set gs. outage_penalty g [] = [] \<Longrightarrow> fold outage_penalty gs [] = []" for gs
    by (induction gs) auto
  ultimately have "fold outage_penalty ?gs [] = []" by blast
  then have none: "ds_gw_score_map st' = []" using sm by simp
  have "\<forall>report \<in> set (fs_debugFilterList s). snd report \<noteq> []"
    using reports_shrink [OF assms(1,3)] assms(2) by fastforce
  from only_empty_report [OF this, of "''filterEnforcement''"]
  have reason: "getDeciderFailureReason e (legacy_params r) (legacy_preferred r) (report ''filterEnforcement'' [] s)
      (fs_debugFilterList (report ''filterEnforcement'' [] s)) out =
      ''Priority logic enforced gateways are not supporting this transaction.''" for out
    by (simp add: getDeciderFailureReason_def report_def getFailureReasonWithFilter_def)
  show ?thesis
    using none
    by (simp add: legacy_scored_run [OF assms(1) _ c] assms(5) f legacy_scored_result_def legacy_answer_def
        reason [unfolded assms(5)] gateway_not_found_def Let_def)
qed

section \<open>Reports without a reason of their own\<close>

text \<open>
  The names that the filters for one-time mandates and for reverse penny drops report are not the names
  their messages are filed under, and the first has no place of its own in the order either.
\<close>

lemma reported_names:
  "makeFirstLetterSmall (filter_name_to_string FilterFunctionalGatewaysForOTM) = ''filterFunctionalGatewaysForOTM''"
  "makeFirstLetterSmall (filter_name_to_string FilterFunctionalGatewaysForReversePennyDrop) =
     ''filterFunctionalGatewaysForReversePennyDrop''"
  by code_simp+

lemma unmatched_report_names:
  assumes "name = makeFirstLetterSmall (filter_name_to_string FilterFunctionalGatewaysForOTM)
    \<or> name = makeFirstLetterSmall (filter_name_to_string FilterFunctionalGatewaysForReversePennyDrop)"
  shows "getFailureReasonWithFilter e p preferred s reports plo name =
    ''No functional gateways supporting this transaction.''"
  using assms unfolding reported_names by (elim disjE) (simp_all add: getFailureReasonWithFilter_def)

lemma otm_report_is_last:
  "decider_filter_order (makeFirstLetterSmall (filter_name_to_string FilterFunctionalGatewaysForOTM)) = 27"
  unfolding reported_names by (simp add: decider_filter_order_def)

section \<open>What the executor does not see\<close>

text \<open>A source that names an instalment type is read as one that does not.\<close>

lemma emi_type_not_sent:
  assumes "tci_payment_source (fp_card p) = Some ps" and "str_contains ps ''emi_type''"
  shows "fpi_emi_type (go_card_isin e p ci im bank isin) = Some []"
  using assms by (simp add: go_card_isin_def runner_fetch_emi_type_def Let_def)

text \<open>A known prefix that starts with a zero is not found: as a number it is shorter.\<close>

lemma leading_zero_prefix_unknown:
  "get_card_info_by_bin [ci\<lparr>ci_card_isin := ''012345''\<rparr>] (Some ''012345'') = None"
  by (simp add: get_card_info_by_bin_def get_true_string_def to_isin_def get_int_isin_def List.map_filter_simps
      is_ascii_digit_def digits_value_def show_nat.simps Let_def)

section \<open>A payment through the older flow\<close>

text \<open>The primary script enforces a gateway that is not functional, the fallback script another one.\<close>

definition demo_executor :: pl_env where
  "demo_executor =
     \<lparr>ple_call = (\<lambda>site _. Inr
        \<lparr>rb_ok = True, rb_log = None, rb_is_enforcement = Some (site = PrimaryCall),
         rb_gateway_priority = Some (if site = PrimaryCall then [''adyen''] else [''payu'']),
         rb_gateway_reference_ids = None\<rparr>),
      ple_logics = [], ple_tenant_configs = [], ple_tenant_config_filters = Map.empty, ple_card_infos = [],
      ple_roll = 1\<rparr>"

definition demo_legacy :: "bool \<Rightarrow> legacy_request" where
  "demo_legacy scripted =
     \<lparr>lgr_params = demo_filter_params,
      lgr_merchant =
        \<lparr>plm_pid = 7, plm_merchant_id = ''m'', plm_use_code_for_gateway_priority = scripted,
         plm_gateway_priority = None, plm_gateway_priority_logic = ''logic'', plm_priority_logic_config = None,
         plm_internal_metadata = None, plm_tenant_account_id = None, plm_merchant_category_code = None\<rparr>,
      lgr_order =
        \<lparr>plord_amount = Fin 10000, plord_currency = ''INR'', plord_customer_id = None, plord_order_id = ''o'',
         plord_product_id = None, plord_description = None, plord_preferred_gateway = None, plord_udfs = []\<rparr>,
      lgr_add_to_locker = None, lgr_dynamic_switching_enabled = False, lgr_priority_logic_output = None,
      lgr_priority_logic_script = Some ''script'', lgr_should_consume_result = Some True\<rparr>"

lemma demo_legacy_reads [simp]:
  "legacy_params (demo_legacy b) = demo_filter_params" "legacy_preferred (demo_legacy b) = None"
  "lgr_priority_logic_output (demo_legacy b) = None" "lgr_params (demo_legacy b) = demo_filter_params"
  by (simp_all add: legacy_params_def legacy_preferred_def demo_legacy_def demo_params_def)

lemma demo_legacy_off [simp]:
  "\<not> sr_enabled demo_flags None" "\<not> dc_payment_flow_enabled (dw_config (demo_down os))"
  "outage_gateways (demo_down []) txn info = {}"
  by (simp_all add: sr_enabled_def demo_flags_def demo_down_def outage_gateways_def)

lemma demo_priority:
  "plo_gws (get_gateway_priority demo_filter_env demo_executor demo_filter_params (pl_request_of (demo_legacy b) s) script)
     = (if b then [''adyen''] else [])"
  "plo_is_enforcement
     (get_gateway_priority demo_filter_env demo_executor demo_filter_params (pl_request_of (demo_legacy b) s) script) = b"
  by (auto simp: get_gateway_priority_def pl_request_of_def demo_legacy_def evaluated_priority_def eval_script_def
      demo_executor_def handle_response_def handle_success_response_def evaluated_output_def
      default_gateway_priority_logic_output_def Let_def split: prod.splits)

lemma legacy_decision_is_the_merchants_witness:
  "\<exists>d reports written. run_legacy_flow demo_filter_env demo_executor (\<lambda>_. JNull) demo_sr_env (demo_down []) demo_flags
       demo_draws (None, None) (demo_legacy False) True demo_stores = Some (Inr (d, reports), written, demo_stores)
     \<and> dg_decided_gateway d = ''payu'' \<and> ''payu'' \<notin> set (dg_fallback_gateways d)"
proof -
  obtain r where f: "newGwFilters demo_filter_env (legacy_params (demo_legacy False)) initial_filter_state =
     Inr (([''payu''], [demo_mga 1 ''payu'' (Some ''hdfc'')]), demo_left r)"
    using demo_run by auto
  obtain plo :: priority_logic_output where c: "legacy_candidates demo_filter_env demo_executor (demo_legacy False)
      [''payu''] (demo_left r) = (([''payu''], plo), demo_left r)"
    by (simp add: legacy_candidates_def demo_priority Let_def)
  have np: "\<not> (\<exists>pgw. legacy_preferred (demo_legacy False) = Some pgw \<and>
      \<not> lgr_dynamic_switching_enabled (demo_legacy False))"
    by simp
  obtain st' where flow: "scoring_flow demo_sr_env (demo_down []) demo_flags demo_draws
      (fp_txn (legacy_params (demo_legacy False))) (fp_card (legacy_params (demo_legacy False))) [''payu'']
      (plo_gws plo) None None (initial_decider_state (td_date_created (fp_txn (legacy_params (demo_legacy False)))))
      demo_stores = Some (st', demo_stores)"
    and sm: "ds_gw_score_map st' = [(''payu'', Fin 1)]"
    by (simp add: one_gateway_flow eliminate_off)
  have scored: "\<exists>d reports. legacy_answer e q s (legacy_scored_result render consume dynamic mga_ids (None, None) plo st')
      = Inr (d, reports) \<and> dg_decided_gateway d = ''payu''" for e q s render consume dynamic mga_ids
    by (simp add: legacy_answer_def legacy_scored_result_def sm one_score_chosen Let_def)
  have "\<exists>d reports written. run_legacy_flow demo_filter_env demo_executor (\<lambda>_. JNull) demo_sr_env (demo_down [])
       demo_flags demo_draws (None, None) (demo_legacy False) True demo_stores = Some (Inr (d, reports), written, demo_stores)
     \<and> dg_decided_gateway d = ''payu''"
    unfolding legacy_scored_run [OF f np c] flow option.map prod.case
    using scored by (simp only: option.inject prod.inject simp_thms ex_simps)
  then obtain d reports written where run:
    "run_legacy_flow demo_filter_env demo_executor (\<lambda>_. JNull) demo_sr_env (demo_down []) demo_flags
       demo_draws (None, None) (demo_legacy False) True demo_stores = Some (Inr (d, reports), written, demo_stores)"
    and d: "dg_decided_gateway d = ''payu''"
    by blast
  have "dg_decided_gateway d \<notin> set (dg_fallback_gateways d)"
    using subsetD [OF conjunct1 [OF conjunct2 [OF legacy_decision_is_the_merchants [OF run]]],
        of "dg_decided_gateway d"] by (simp only: Diff_iff singleton_iff) blast
  with run d show ?thesis by (intro exI conjI) simp_all
qed

lemma enforcement_leaves_nothing_witness:
  "\<exists>err written. run_legacy_flow demo_filter_env demo_executor (\<lambda>_. JNull) demo_sr_env (demo_down []) demo_flags
       demo_draws (None, None) (demo_legacy True) True demo_stores =
     Some (Inl (err, ''Priority logic enforced gateways are not supporting this transaction.''), written, demo_stores)"
proof -
  obtain r where f: "newGwFilters demo_filter_env (legacy_params (demo_legacy True)) initial_filter_state =
     Inr (([''payu''], [demo_mga 1 ''payu'' (Some ''hdfc'')]), demo_left r)"
    using demo_run by auto
  show ?thesis
    using enforcement_leaves_nothing [OF f, of _ demo_executor demo_flags "demo_down []" "\<lambda>_. JNull" demo_sr_env
        demo_draws "(None, None)" True demo_stores]
    by (auto simp: demo_priority)
qed

end
