(* ===== verification/Routing_Rules.thy ===== *)
theory Routing_Rules
  imports Euclid_Validate PmFilter Ab_Test
begin

text \<open>
  The handlers of routing rules (\<open>src/src/euclid/handlers/routing_rules.rs\<close>): rules are created, edited
  and deleted in one table, a second one says which are active, and a cache in Redis holds the rule of
  a merchant that is evaluated. The database refuses a row whose key is taken, as the migrations
  declare the tables; the handlers do not look, they report a refused insert as a storage error. A query
  for one row takes the first, in whatever order the rows are. Which calls of a request succeed is an
  argument, as are JSON, the clock and fresh identifiers. Analytics events and metrics are left out.
\<close>

section \<open>Tables and cache\<close>

record routing_algorithm =
  ra_id :: string
  ra_created_by :: string
  ra_name :: string
  ra_description :: string
  ra_algorithm_data :: string
  ra_algorithm_for :: string
  ra_metadata :: "string option"
  ra_created_at :: nat
  ra_modified_at :: nat

record routing_algorithm_mapper =
  am_id :: nat
  am_created_by :: string
  am_routing_algorithm_id :: string
  am_algorithm_for :: string

record cached_routing_algorithm =
  ch_id :: string
  ch_algorithm_data :: string

record rules_state =
  rs_algorithms :: "routing_algorithm list"
  rs_mappers :: "routing_algorithm_mapper list"
  rs_next_id :: nat
  rs_cache :: "string \<rightharpoonup> cached_routing_algorithm"

text \<open>Which calls of one request succeed: a connection, reads and writes of the tables, and Redis.\<close>

record rules_io =
  io_conn :: bool
  io_find_algorithm :: bool
  io_find_mapper :: bool
  io_write :: bool
  io_cache_read :: bool
  io_cache_write :: bool
  io_cache_delete :: bool

datatype rules_error =
    ER_StorageError
  | ER_InvalidRequest string
  | ER_InvalidRequestParameter string
  | ER_GlobalRoutingConfigsUnavailable
  | ER_FailedToEvaluateOutput string
  | ER_ActiveRoutingAlgorithmNotFound string
  | ER_RoutingAlgorithmNotFound string
  | ER_FieldValidationFailed message "validation_error_details list"

text \<open>The keys of the tables: \<open>id\<close> of the rules, \<open>(created_by, algorithm_for)\<close> of the active ones.\<close>

definition algorithm_id_free :: "rules_state \<Rightarrow> string \<Rightarrow> bool" where
  "algorithm_id_free s i \<longleftrightarrow> i \<notin> ra_id ` set (rs_algorithms s)"

definition mapper_key_free :: "rules_state \<Rightarrow> string \<Rightarrow> string \<Rightarrow> bool" where
  "mapper_key_free s created_by algorithm_for \<longleftrightarrow>
     (created_by, algorithm_for) \<notin> (\<lambda>m. (am_created_by m, am_algorithm_for m)) ` set (rs_mappers s)"

definition find_algorithm :: "rules_state \<Rightarrow> string \<Rightarrow> routing_algorithm option" where
  "find_algorithm s i = find (\<lambda>a. ra_id a = i) (rs_algorithms s)"

definition read_algorithm :: "rules_io \<Rightarrow> rules_state \<Rightarrow> string \<Rightarrow> routing_algorithm option" where
  "read_algorithm io s i = (if io_find_algorithm io then find_algorithm s i else None)"

definition read_mapper ::
  "rules_io \<Rightarrow> (routing_algorithm_mapper \<Rightarrow> bool) \<Rightarrow> rules_state \<Rightarrow> routing_algorithm_mapper option" where
  "read_mapper io P s = (if io_find_mapper io then find P (rs_mappers s) else None)"

definition routing_algo_cache_key :: "string \<Rightarrow> string" where
  "routing_algo_cache_key merchant_id = ''DE_routing_algo_eval:'' @ merchant_id"

definition cache_routing_algorithm :: "rules_io \<Rightarrow> string \<Rightarrow> routing_algorithm \<Rightarrow> rules_state \<Rightarrow> rules_state" where
  "cache_routing_algorithm io merchant_id a s =
     (if io_cache_write io
      then s\<lparr>rs_cache := (rs_cache s)(routing_algo_cache_key merchant_id \<mapsto>
               \<lparr>ch_id = ra_id a, ch_algorithm_data = ra_algorithm_data a\<rparr>)\<rparr>
      else s)"

definition invalidate_routing_algorithm_cache :: "rules_io \<Rightarrow> string \<Rightarrow> rules_state \<Rightarrow> rules_state" where
  "invalidate_routing_algorithm_cache io merchant_id s =
     (if io_cache_delete io then s\<lparr>rs_cache := (rs_cache s)(routing_algo_cache_key merchant_id := None)\<rparr> else s)"

section \<open>Creating a rule\<close>

record routing_dictionary_record =
  rd_rule_id :: string
  rd_name :: string
  rd_algorithm_for :: string
  rd_created_at :: nat
  rd_modified_at :: nat

fun algorithm_type_to_string :: "algorithm_type \<Rightarrow> string" where
  "algorithm_type_to_string Payment = ''payment''"
| "algorithm_type_to_string Payout = ''payout''"
| "algorithm_type_to_string ThreeDsAuthentication = ''three_ds_authentication''"

record rules_env =
  en_regex :: regex_new
  en_config :: "toml_config option"
  en_encode :: "static_routing_algorithm \<Rightarrow> string"
  en_decode :: "string \<Rightarrow> string + static_routing_algorithm"
  en_text :: "json option \<Rightarrow> string"
  en_json :: "string \<Rightarrow> json option"
  en_sampler :: "u8 list \<Rightarrow> nat option"
  en_bundle :: "pm_filter_graph_bundle option"

text \<open>An insert into a table: it fails on a key that is taken.\<close>

definition insert_algorithm :: "rules_io \<Rightarrow> routing_algorithm \<Rightarrow> rules_state \<Rightarrow> rules_state option" where
  "insert_algorithm io a s =
     (if io_conn io \<and> io_write io \<and> algorithm_id_free s (ra_id a)
      then Some (s\<lparr>rs_algorithms := rs_algorithms s @ [a]\<rparr>) else None)"

text \<open>\<open>parsed\<close> is the body of the request, or what serde says of it.\<close>

definition routing_create ::
  "rules_env \<Rightarrow> rules_io \<Rightarrow> nat \<Rightarrow> string \<Rightarrow> string + routing_rule \<Rightarrow> rules_state \<Rightarrow>
   (rules_error + routing_dictionary_record) \<times> rules_state" where
  "routing_create V io timestamp fresh parsed s =
     (case parsed of
        Inl err \<Rightarrow> (Inl (ER_InvalidRequest (''could not parse routing rule: '' @ err)), s)
      | Inr r \<Rightarrow>
          (case validate_routing_rule (en_regex V) r (en_config V) of
             Inl _ \<Rightarrow> (Inl ER_GlobalRoutingConfigsUnavailable, s)
           | Inr result \<Rightarrow>
               if \<not> is_valid result then
                 (Inl (ER_FieldValidationFailed (to_error_message result) (vr_errors result)), s)
               else
                 (let algorithm_id = unwrap_or (rr_rule_id r) fresh;
                      algorithm_for = algorithm_type_to_string (rr_algorithm_for r);
                      new_algo = \<lparr>ra_id = algorithm_id, ra_created_by = rr_created_by r, ra_name = rr_name r,
                        ra_description = unwrap_or (rr_description r) [],
                        ra_algorithm_data = en_encode V (rr_algorithm r), ra_algorithm_for = algorithm_for,
                        ra_metadata = Some (en_text V (rr_metadata r)),
                        ra_created_at = timestamp, ra_modified_at = timestamp\<rparr>
                  in case insert_algorithm io new_algo s of
                       None \<Rightarrow> (Inl ER_StorageError, s)
                     | Some s' \<Rightarrow>
                         (Inr \<lparr>rd_rule_id = algorithm_id, rd_name = rr_name r, rd_algorithm_for = algorithm_for,
                               rd_created_at = timestamp, rd_modified_at = timestamp\<rparr>, s'))))"

section \<open>Activating and deactivating\<close>

definition insert_mapper :: "rules_io \<Rightarrow> string \<Rightarrow> string \<Rightarrow> string \<Rightarrow> rules_state \<Rightarrow> rules_state option" where
  "insert_mapper io created_by i algorithm_for s =
     (if io_conn io \<and> io_write io \<and> mapper_key_free s created_by algorithm_for
      then Some (s\<lparr>rs_mappers := rs_mappers s @
                     [\<lparr>am_id = rs_next_id s, am_created_by = created_by, am_routing_algorithm_id = i,
                       am_algorithm_for = algorithm_for\<rparr>],
                   rs_next_id := Suc (rs_next_id s)\<rparr>)
      else None)"

definition update_mappers ::
  "(routing_algorithm_mapper \<Rightarrow> bool) \<Rightarrow> string \<Rightarrow> string \<Rightarrow> rules_state \<Rightarrow> rules_state" where
  "update_mappers P i algorithm_for s =
     s\<lparr>rs_mappers := List.map (\<lambda>m. if P m then m\<lparr>am_routing_algorithm_id := i, am_algorithm_for := algorithm_for\<rparr>
                                     else m) (rs_mappers s)\<rparr>"

definition activate_routing_rule ::
  "rules_io \<Rightarrow> string \<Rightarrow> string \<Rightarrow> rules_state \<Rightarrow> (rules_error + unit) \<times> rules_state" where
  "activate_routing_rule io created_by i s =
     (if \<not> io_conn io then (Inl ER_StorageError, s)
      else
        (case read_algorithm io s i of
           None \<Rightarrow> (Inl (ER_RoutingAlgorithmNotFound i), s)
         | Some algorithm \<Rightarrow>
             (let algorithm_for = ra_algorithm_for algorithm;
                  mine = (\<lambda>m. am_created_by m = created_by \<and> am_algorithm_for m = algorithm_for)
              in case read_mapper io mine s of
                   Some existing \<Rightarrow>
                     if am_routing_algorithm_id existing \<noteq> i then
                       (if io_write io
                        then (Inr (), cache_routing_algorithm io created_by algorithm
                                        (update_mappers mine i algorithm_for s))
                        else (Inl ER_StorageError, s))
                     else (Inr (), cache_routing_algorithm io created_by algorithm s)
                 | None \<Rightarrow>
                     (case insert_mapper io created_by i algorithm_for s of
                        Some s' \<Rightarrow> (Inr (), cache_routing_algorithm io created_by algorithm s')
                      | None \<Rightarrow> (Inl ER_StorageError, s)))))"

definition deactivate_routing_rule ::
  "rules_io \<Rightarrow> string \<Rightarrow> string \<Rightarrow> rules_state \<Rightarrow> (rules_error + unit) \<times> rules_state" where
  "deactivate_routing_rule io created_by i s =
     (if \<not> io_conn io then (Inl ER_StorageError, s)
      else
        (case read_algorithm io s i of
           None \<Rightarrow> (Inl (ER_RoutingAlgorithmNotFound i), s)
         | Some algorithm \<Rightarrow>
             (case read_mapper io (\<lambda>m. am_created_by m = created_by \<and> am_routing_algorithm_id m = i
                                        \<and> am_algorithm_for m = ra_algorithm_for algorithm) s of
                None \<Rightarrow> (Inr (), s)
              | Some mapping \<Rightarrow>
                  if io_write io
                  then (Inr (), invalidate_routing_algorithm_cache io created_by
                          (s\<lparr>rs_mappers := filter (\<lambda>m. am_id m \<noteq> am_id mapping) (rs_mappers s)\<rparr>))
                  else (Inl ER_StorageError, s))))"

section \<open>Editing and deleting\<close>

text \<open>Only rules the merchant has not activated can be edited or deleted.\<close>

definition ensure_routing_algorithm_inactive ::
  "rules_io \<Rightarrow> rules_state \<Rightarrow> string \<Rightarrow> string \<Rightarrow> rules_error + unit" where
  "ensure_routing_algorithm_inactive io s created_by i =
     (if \<not> io_find_mapper io then Inl ER_StorageError
      else if find (\<lambda>m. am_created_by m = created_by \<and> am_routing_algorithm_id m = i) (rs_mappers s) \<noteq> None
      then Inl (ER_InvalidRequest ''This experiment is active. Stop it before editing or deleting.'')
      else Inr ())"

record update_routing_config_request =
  up_created_by :: string
  up_routing_algorithm_id :: string
  up_name :: string
  up_description :: string
  up_algorithm :: static_routing_algorithm

definition update_routing_rule ::
  "rules_env \<Rightarrow> rules_io \<Rightarrow> nat \<Rightarrow> update_routing_config_request \<Rightarrow> rules_state \<Rightarrow>
   (rules_error + routing_dictionary_record) \<times> rules_state" where
  "update_routing_rule V io timestamp p s =
     (let i = up_routing_algorithm_id p in
      if \<not> io_conn io then (Inl ER_StorageError, s)
      else
        (case ensure_routing_algorithm_inactive io s (up_created_by p) i of
           Inl err \<Rightarrow> (Inl err, s)
         | Inr _ \<Rightarrow>
             (case read_algorithm io s i of
                None \<Rightarrow> (Inl (ER_RoutingAlgorithmNotFound i), s)
              | Some existing \<Rightarrow>
                  if ra_created_by existing \<noteq> up_created_by p then
                    (Inl (ER_InvalidRequest ''Routing algorithm does not belong to this merchant''), s)
                  else if \<not> io_write io then (Inl ER_StorageError, s)
                  else
                    (Inr \<lparr>rd_rule_id = i, rd_name = up_name p, rd_algorithm_for = ra_algorithm_for existing,
                          rd_created_at = ra_created_at existing, rd_modified_at = timestamp\<rparr>,
                     invalidate_routing_algorithm_cache io (up_created_by p)
                       (s\<lparr>rs_algorithms := List.map
                            (\<lambda>a. if ra_id a = i
                                  then a\<lparr>ra_name := up_name p, ra_description := up_description p,
                                         ra_algorithm_data := en_encode V (up_algorithm p),
                                         ra_modified_at := timestamp\<rparr>
                                  else a) (rs_algorithms s)\<rparr>)))))"

definition delete_routing_rule ::
  "rules_io \<Rightarrow> string \<Rightarrow> string \<Rightarrow> rules_state \<Rightarrow> (rules_error + unit) \<times> rules_state" where
  "delete_routing_rule io created_by i s =
     (if \<not> io_conn io then (Inl ER_StorageError, s)
      else
        (case ensure_routing_algorithm_inactive io s created_by i of
           Inl err \<Rightarrow> (Inl err, s)
         | Inr _ \<Rightarrow>
             if io_write io \<and> i \<in> ra_id ` set (rs_algorithms s)
             then (Inr (), invalidate_routing_algorithm_cache io created_by
                     (s\<lparr>rs_algorithms := filter (\<lambda>a. ra_id a \<noteq> i) (rs_algorithms s)\<rparr>))
             else (Inl ER_StorageError, s)))"

section \<open>Listing\<close>

record jsonified_routing_algorithm =
  ja_id :: string
  ja_created_by :: string
  ja_name :: string
  ja_description :: string
  ja_algorithm_data :: json
  ja_algorithm_for :: string
  ja_created_at :: nat
  ja_modified_at :: nat

definition jsonified :: "(string \<Rightarrow> json option) \<Rightarrow> routing_algorithm \<Rightarrow> jsonified_routing_algorithm" where
  "jsonified parse a =
     \<lparr>ja_id = ra_id a, ja_created_by = ra_created_by a, ja_name = ra_name a, ja_description = ra_description a,
      ja_algorithm_data = unwrap_or (parse (ra_algorithm_data a)) JNull, ja_algorithm_for = ra_algorithm_for a,
      ja_created_at = ra_created_at a, ja_modified_at = ra_modified_at a\<rparr>"

definition list_all_routing_algorithm_id ::
  "rules_env \<Rightarrow> rules_io \<Rightarrow> string \<Rightarrow> rules_state \<Rightarrow> rules_error + jsonified_routing_algorithm list" where
  "list_all_routing_algorithm_id V io created_by s =
     (if \<not> io_find_algorithm io then Inl ER_StorageError
      else Inr (List.map (jsonified (en_json V)) (filter (\<lambda>a. ra_created_by a = created_by) (rs_algorithms s))))"

definition list_active_routing_algorithm ::
  "rules_env \<Rightarrow> rules_io \<Rightarrow> string \<Rightarrow> rules_state \<Rightarrow> rules_error + jsonified_routing_algorithm list" where
  "list_active_routing_algorithm V io created_by s =
     (if \<not> io_find_mapper io then Inl (ER_ActiveRoutingAlgorithmNotFound created_by)
      else
        (let ids = List.map am_routing_algorithm_id (filter (\<lambda>m. am_created_by m = created_by) (rs_mappers s)) in
         if \<not> io_find_algorithm io then Inl ER_StorageError
         else Inr (List.map (jsonified (en_json V)) (filter (\<lambda>a. ra_id a \<in> set ids) (rs_algorithms s)))))"


section \<open>Evaluating\<close>

text \<open>The two halves of a lookup past the cache: the rows are read, then the cache is written.\<close>

definition fetch_algorithm_from_db ::
  "rules_io \<Rightarrow> rules_state \<Rightarrow> string \<Rightarrow> rules_error + routing_algorithm" where
  "fetch_algorithm_from_db io s merchant_id =
     (case read_mapper io (\<lambda>m. am_created_by m = merchant_id) s of
        None \<Rightarrow> Inl (ER_ActiveRoutingAlgorithmNotFound merchant_id)
      | Some m \<Rightarrow>
          (case read_algorithm io s (am_routing_algorithm_id m) of
             None \<Rightarrow> Inl ER_StorageError
           | Some a \<Rightarrow> Inr a))"

definition fetch_algorithm_from_db_and_cache ::
  "rules_io \<Rightarrow> string \<Rightarrow> rules_state \<Rightarrow> (rules_error + routing_algorithm) \<times> rules_state" where
  "fetch_algorithm_from_db_and_cache io merchant_id s =
     (case fetch_algorithm_from_db io s merchant_id of
        Inl err \<Rightarrow> (Inl err, s)
      | Inr a \<Rightarrow> (Inr a, cache_routing_algorithm io merchant_id a s))"

text \<open>The identifier and the data of the rule a request is evaluated by.\<close>

definition active_algorithm ::
  "rules_io \<Rightarrow> string \<Rightarrow> rules_state \<Rightarrow> (rules_error + string \<times> string) \<times> rules_state" where
  "active_algorithm io merchant_id s =
     (case (if io_cache_read io then rs_cache s (routing_algo_cache_key merchant_id) else None) of
        Some cached \<Rightarrow> (Inr (ch_id cached, ch_algorithm_data cached), s)
      | None \<Rightarrow>
          (let (res, s') = fetch_algorithm_from_db_and_cache io merchant_id s
           in (rbind res (\<lambda>a. Inr (ra_id a, ra_algorithm_data a)), s')))"

record routing_request =
  rq_payment_id :: "string option"
  rq_created_by :: string
  rq_fallback_output :: "connector_info list option"
  rq_parameters :: "value_type option hmap"

text \<open>What is wrong with a parameter, given all of them.\<close>

definition parameter_error ::
  "toml_config \<Rightarrow> value_type option hmap \<Rightarrow> string \<times> value_type option \<Rightarrow> rules_error option" where
  "parameter_error config parameters kv =
     (let (key, value) = kv in
      case map_of (toml_keys config) key of
        None \<Rightarrow>
          (case value of
             Some v \<Rightarrow> if \<not> is_metadata v then Some (ER_InvalidRequestParameter key) else None
           | None \<Rightarrow> None)
      | Some key_config \<Rightarrow>
          if kc_data_type key_config = KEnum then
            (case map_of parameters key of
               Some (Some (EnumVariant variant)) \<Rightarrow>
                 if \<not> is_valid_enum_value config key variant
                 then Some (ER_InvalidRequest
                        (''Invalid enum value '' @ [CHR 0x27] @ variant @ [CHR 0x27] @ '' for key '' @ [CHR 0x27] @ key @ [CHR 0x27]))
                 else None
             | _ \<Rightarrow> Some (ER_InvalidRequest (''Expected enum value for key '' @ [CHR 0x27] @ key @ [CHR 0x27])))
          else None)"

fun first_error :: "('a \<Rightarrow> 'e option) \<Rightarrow> 'a list \<Rightarrow> 'e option" where
  "first_error f [] = None"
| "first_error f (x # xs) = (case f x of Some err \<Rightarrow> Some err | None \<Rightarrow> first_error f xs)"

definition validate_parameters ::
  "toml_config \<Rightarrow> value_type option hmap \<Rightarrow> rules_error option" where
  "validate_parameters config parameters = first_error (parameter_error config parameters) parameters"

definition default_output_present :: "routing_request \<Rightarrow> bool" where
  "default_output_present r =
     (case rq_fallback_output r of Some out \<Rightarrow> out \<noteq> [] | None \<Rightarrow> False)"

definition interpreter_error_debug :: "interpreter_error_type \<Rightarrow> string" where
  "interpreter_error_debug t =
     (let quoted = (\<lambda>name x. name @ ''('' @ [CHR 0x22] @ x @ [CHR 0x22] @ '')'') in
      case t of
        InvalidKey k \<Rightarrow> quoted ''InvalidKey'' k
      | InvalidComparison \<Rightarrow> ''InvalidComparison''
      | OutputEvaluationFailed o' \<Rightarrow> quoted ''OutputEvaluationFailed'' o')"

fun preview_failure :: "preview_error \<Rightarrow> rules_error" where
  "preview_failure (PE_InvalidRequest m) = ER_InvalidRequest m"
| "preview_failure (PE_FailedToEvaluateOutput m) = ER_FailedToEvaluateOutput m"
| "preview_failure PE_StorageError = ER_StorageError"

type_synonym evaluation = "algo_output \<times> connector_info list \<times> string option"

definition evaluate_fixed ::
  "rules_env \<Rightarrow> algo_output \<Rightarrow> string \<Rightarrow> string \<Rightarrow> rules_error + evaluation" where
  "evaluate_fixed V out kind name =
     rbind (map_err (\<lambda>_. ER_FailedToEvaluateOutput kind) (evaluate_output (en_sampler V) out))
       (\<lambda>ev. Inr (out, ev, Some name))"

definition evaluate_advanced :: "rules_env \<Rightarrow> routing_request \<Rightarrow> program \<Rightarrow> rules_error + evaluation" where
  "evaluate_advanced V r p =
     rbind (map_err (\<lambda>err. ER_InvalidRequest (''Interpreter error: '' @ interpreter_error_debug (ie_error_type err)))
         (eval_program (en_sampler V) p (map_of (rq_parameters r))))
       (\<lambda>ir. Inr
          (case (default_output_present r \<and> bo_output ir = default_selection p, rq_fallback_output r) of
             (True, Some fallback) \<Rightarrow> (Priority fallback, fallback, Some ''default_fallback'')
           | _ \<Rightarrow> (bo_output ir, bo_evaluated_output ir, bo_rule_name ir)))"

definition arm_algorithms :: "rules_env \<Rightarrow> rules_io \<Rightarrow> rules_state \<Rightarrow> string \<Rightarrow> unit + static_routing_algorithm option" where
  "arm_algorithms V io s i =
     (case read_algorithm io s i of
        None \<Rightarrow> Inl ()
      | Some a \<Rightarrow> Inr (case en_decode V (ra_algorithm_data a) of Inr algorithm \<Rightarrow> Some algorithm | Inl _ \<Rightarrow> None))"

definition evaluate_algorithm ::
  "rules_env \<Rightarrow> rules_io \<Rightarrow> rules_state \<Rightarrow> routing_request \<Rightarrow> static_routing_algorithm \<Rightarrow> rules_error + evaluation" where
  "evaluate_algorithm V io s r algorithm =
     (case algorithm of
        Alg_Single c \<Rightarrow> evaluate_fixed V (Single c) ''Single'' ''straight_through_rule''
      | Alg_Priority cs \<Rightarrow> evaluate_fixed V (Priority cs) ''Priority'' ''priority_rule''
      | Alg_VolumeSplit splits \<Rightarrow> evaluate_fixed V (VolumeSplit splits) ''VolumeSplit'' ''volume_split_rule''
      | Alg_Advanced p \<Rightarrow> evaluate_advanced V r p
      | Alg_AbTest data \<Rightarrow>
          (let arm = assign_arm (unwrap_or (rq_payment_id r) []) (variant_split_pct data) in
           rbind (map_err preview_failure
               (evaluate_arm (en_sampler V) (arm_algorithms V io s) arm (arm_algorithm_id arm data)
                  (map_of (rq_parameters r)) (rq_fallback_output r) (default_output_present r)))
             (\<lambda>out. Inr (ao_output out, ao_evaluated_output out, ao_rule_name out))))"

section \<open>The answer\<close>

definition connector_json :: "connector_info \<Rightarrow> json" where
  "connector_json c =
     JObj [(''gateway_name'', JStr (gateway_name c)),
           (''gateway_id'', case gateway_id c of Some i \<Rightarrow> JStr i | None \<Rightarrow> JNull)]"

fun format_output :: "algo_output \<Rightarrow> json" where
  "format_output (Single c) = JObj [(''type'', JStr ''straight_through''), (''connector'', connector_json c)]"
| "format_output (Priority cs) =
     JObj [(''type'', JStr ''priority''), (''connectors'', JArr (List.map connector_json cs))]"
| "format_output (VolumeSplit splits) =
     JObj [(''type'', JStr ''volume_split''),
           (''splits'', JArr (List.map (\<lambda>v. JObj [(''connector'', connector_json (vs_output v)),
              (''split'', JInt (uint (vs_split v)))]) splits))]"
| "format_output (VolumeSplitPriority splits) =
     JObj [(''type'', JStr ''volume_split_priority''),
           (''splits'', JArr (List.map (\<lambda>v. JObj [(''connectors'', JArr (List.map connector_json (vs_output v))),
              (''split'', JInt (uint (vs_split v)))]) splits))]"

record routing_evaluate_response =
  re_payment_id :: "string option"
  re_status :: string
  re_output :: json
  re_evaluated_output :: "connector_info list"
  re_eligible_connectors :: "connector_info list"

definition evaluate_status :: "string option \<Rightarrow> string" where
  "evaluate_status matched =
     (case matched of
        Some name \<Rightarrow> if name = ''default_selection'' \<or> name = ''default_fallback'' then ''default_selection'' else ''success''
      | None \<Rightarrow> ''default_selection'')"

definition preview_gateway :: "routing_evaluate_response \<Rightarrow> string option" where
  "preview_gateway response =
     (case re_evaluated_output response of
        c # _ \<Rightarrow> Some (gateway_name c)
      | [] \<Rightarrow> (case re_eligible_connectors response of c # _ \<Rightarrow> Some (gateway_name c) | [] \<Rightarrow> None))"

text \<open>\<open>None\<close>: the fuel of the graph check ran out.\<close>

definition evaluate_response ::
  "nat \<Rightarrow> rules_env \<Rightarrow> routing_request \<Rightarrow> evaluation \<Rightarrow> routing_evaluate_response option" where
  "evaluate_response fuel V r evaluation =
     (let (out, evaluated, matched) = evaluation;
          parameters = map_of (rq_parameters r)
      in map_option
           (\<lambda>eligible. \<lparr>re_payment_id = rq_payment_id r, re_status = evaluate_status matched,
              re_output = format_output out,
              re_evaluated_output = narrow_evaluated_output_to_eligible evaluated eligible,
              re_eligible_connectors = eligible\<rparr>)
           (eligibility_for_output fuel (if has_payment_method_type parameters then en_bundle V else None)
              parameters (extract_connectors_for_eligibility out)))"

definition routing_evaluate ::
  "nat \<Rightarrow> rules_env \<Rightarrow> rules_io \<Rightarrow> routing_request \<Rightarrow> rules_state \<Rightarrow>
   (rules_error + routing_evaluate_response) option \<times> rules_state" where
  "routing_evaluate fuel V io r s =
     (case en_config V of
        None \<Rightarrow> (Some (Inl ER_GlobalRoutingConfigsUnavailable), s)
      | Some config \<Rightarrow>
          (case validate_parameters config (rq_parameters r) of
             Some err \<Rightarrow> (Some (Inl err), s)
           | None \<Rightarrow>
               (let (found, s') = active_algorithm io (rq_created_by r) s in
                case found of
                  Inl err \<Rightarrow> (Some (Inl err), s')
                | Inr (_, data) \<Rightarrow>
                    (case en_decode V data of
                       Inl err \<Rightarrow> (Some (Inl (ER_InvalidRequest (''Invalid algorithm data format: '' @ err))), s')
                     | Inr algorithm \<Rightarrow>
                         (case evaluate_algorithm V io s' r algorithm of
                            Inl err \<Rightarrow> (Some (Inl err), s')
                          | Inr evaluation \<Rightarrow> (map_option Inr (evaluate_response fuel V r evaluation), s'))))))"

end
