(* ===== verification/Routing_Correct.thy ===== *)
theory Routing_Correct
  imports Routing_Rules
begin

text \<open>
  What the handlers of routing rules do: an activation replaces the active rule of its kind and touches
  nothing else, under any failures; and when requests run one at a time, merchants activate and delete
  only rules of their own and Redis takes the writes, the rule that evaluates a request is an active one
  of the merchant, as it is stored. That the keys of the tables stay unique is the database's doing;
  that the handlers do not break on it is proved here.
\<close>

section \<open>Requests as steps\<close>

text \<open>
  Any request with any failures, the late write of a lookup that has read its row before, whatever
  happened since, and the expiry of a cached rule.
\<close>

inductive rules_step :: "rules_env \<Rightarrow> rules_state \<Rightarrow> rules_state \<Rightarrow> bool" for V where
  create: "routing_create V io t fresh parsed s = (res, s') \<Longrightarrow> rules_step V s s'"
| activate: "activate_routing_rule io merchant i s = (r, s') \<Longrightarrow> rules_step V s s'"
| deactivate: "deactivate_routing_rule io merchant i s = (r, s') \<Longrightarrow> rules_step V s s'"
| update: "update_routing_rule V io t p s = (res, s') \<Longrightarrow> rules_step V s s'"
| delete: "delete_routing_rule io merchant i s = (r, s') \<Longrightarrow> rules_step V s s'"
| evaluate: "routing_evaluate fuel V io q s = (out, s') \<Longrightarrow> rules_step V s s'"
| late_write: "rules_step V s (cache_routing_algorithm io merchant a s)"
| expire: "rules_step V s (s\<lparr>rs_cache := (rs_cache s)(key := None)\<rparr>)"

definition no_rules :: rules_state where
  "no_rules = \<lparr>rs_algorithms = [], rs_mappers = [], rs_next_id = 1, rs_cache = Map.empty\<rparr>"

inductive rules_reachable :: "rules_env \<Rightarrow> rules_state \<Rightarrow> bool" for V where
  start: "rules_reachable V no_rules"
| step: "rules_reachable V s \<Longrightarrow> rules_step V s s' \<Longrightarrow> rules_reachable V s'"

abbreviation active_for :: "routing_algorithm_mapper \<Rightarrow> string \<times> string" where
  "active_for m \<equiv> (am_created_by m, am_algorithm_for m)"

definition tables_ok :: "rules_state \<Rightarrow> bool" where
  "tables_ok s \<longleftrightarrow>
     distinct (List.map ra_id (rs_algorithms s))
     \<and> distinct (List.map active_for (rs_mappers s))
     \<and> distinct (List.map am_id (rs_mappers s)) \<and> (\<forall>m \<in> set (rs_mappers s). am_id m < rs_next_id s)"

section \<open>What a request can change\<close>

lemma cache_frame [simp]:
  "rs_algorithms (cache_routing_algorithm io merchant a s) = rs_algorithms s"
  "rs_mappers (cache_routing_algorithm io merchant a s) = rs_mappers s"
  "rs_next_id (cache_routing_algorithm io merchant a s) = rs_next_id s"
  "rs_algorithms (invalidate_routing_algorithm_cache io merchant s) = rs_algorithms s"
  "rs_mappers (invalidate_routing_algorithm_cache io merchant s) = rs_mappers s"
  "rs_next_id (invalidate_routing_algorithm_cache io merchant s) = rs_next_id s"
  by (simp_all add: cache_routing_algorithm_def invalidate_routing_algorithm_cache_def)

lemma tables_ok_cache [simp]:
  "tables_ok (cache_routing_algorithm io merchant a s) = tables_ok s"
  "tables_ok (invalidate_routing_algorithm_cache io merchant s) = tables_ok s"
  "tables_ok (s\<lparr>rs_cache := c\<rparr>) = tables_ok s"
  by (simp_all add: tables_ok_def)

lemma insert_algorithm_Some:
  "insert_algorithm io a s = Some s' \<Longrightarrow>
     ra_id a \<notin> ra_id ` set (rs_algorithms s) \<and> s' = s\<lparr>rs_algorithms := rs_algorithms s @ [a]\<rparr>"
  by (auto simp: insert_algorithm_def algorithm_id_free_def split: if_splits)

lemma create_cases:
  assumes "routing_create V io t fresh parsed s = (res, s')"
  shows "s' = s \<or> (\<exists>a. insert_algorithm io a s = Some s')"
  using assms unfolding routing_create_def Let_def
  by (auto split: sum.split_asm if_split_asm option.split_asm)

lemma createE:
  assumes "routing_create V io t fresh parsed s = (res, s')"
  obtains "s' = s" | a where "ra_id a \<notin> ra_id ` set (rs_algorithms s)" "s' = s\<lparr>rs_algorithms := rs_algorithms s @ [a]\<rparr>"
  using create_cases [OF assms] insert_algorithm_Some by metis

lemma read_algorithm_Some: "read_algorithm io s i = Some a \<Longrightarrow> a \<in> set (rs_algorithms s) \<and> ra_id a = i"
  by (auto simp: read_algorithm_def find_algorithm_def find_Some_iff split: if_splits)

lemma read_mapper_Some: "read_mapper io P s = Some m \<Longrightarrow> m \<in> set (rs_mappers s) \<and> P m"
  by (auto simp: read_mapper_def find_Some_iff split: if_splits)

text \<open>An activation that succeeds caches the rule and leaves one of three tables of active rules.\<close>

lemma activateE:
  assumes "activate_routing_rule io merchant i s = (r, s')"
  obtains (failed) err where "r = Inl err" "s' = s"
    | (succeeded) a s1 where "r = Inr ()" "read_algorithm io s i = Some a"
        "s' = cache_routing_algorithm io merchant a s1"
        "s1 = s \<and> (\<exists>m \<in> set (rs_mappers s). am_created_by m = merchant \<and> am_routing_algorithm_id m = i
             \<and> am_algorithm_for m = ra_algorithm_for a)
         \<or> s1 = update_mappers (\<lambda>m. am_created_by m = merchant \<and> am_algorithm_for m = ra_algorithm_for a) i
                  (ra_algorithm_for a) s
             \<and> (\<exists>m \<in> set (rs_mappers s). am_created_by m = merchant \<and> am_algorithm_for m = ra_algorithm_for a)
         \<or> insert_mapper io merchant i (ra_algorithm_for a) s = Some s1"
proof (cases "read_algorithm io s i")
  case None
  with assms have "\<exists>err. r = Inl err \<and> s' = s" by (auto simp: activate_routing_rule_def split: if_splits)
  then show ?thesis using failed by blast
next
  case (Some a)
  let ?mine = "\<lambda>m. am_created_by m = merchant \<and> am_algorithm_for m = ra_algorithm_for a"
  let ?done = "\<lambda>s1. r = Inr () \<and> s' = cache_routing_algorithm io merchant a s1"
  have "(\<exists>err. r = Inl err \<and> s' = s)
    \<or> ?done s \<and> (\<exists>m. read_mapper io ?mine s = Some m \<and> am_routing_algorithm_id m = i)
    \<or> ?done (update_mappers ?mine i (ra_algorithm_for a) s) \<and> (\<exists>m. read_mapper io ?mine s = Some m)
    \<or> (\<exists>s1. insert_mapper io merchant i (ra_algorithm_for a) s = Some s1 \<and> ?done s1)"
    using assms by (auto simp: activate_routing_rule_def Some Let_def split: if_split_asm option.split_asm)
  then show ?thesis
  proof (elim disjE exE conjE)
    fix m
    assume "read_mapper io ?mine s = Some m" "am_routing_algorithm_id m = i" "r = Inr ()"
      "s' = cache_routing_algorithm io merchant a s"
    then show ?thesis using read_mapper_Some [of io ?mine s m] by (intro succeeded [OF _ Some]) auto
  next
    fix m
    assume "read_mapper io ?mine s = Some m" "r = Inr ()"
      "s' = cache_routing_algorithm io merchant a (update_mappers ?mine i (ra_algorithm_for a) s)"
    then show ?thesis using read_mapper_Some [of io ?mine s m] by (intro succeeded [OF _ Some]) auto
  next
    fix s1
    assume "insert_mapper io merchant i (ra_algorithm_for a) s = Some s1" "r = Inr ()"
      "s' = cache_routing_algorithm io merchant a s1"
    then show ?thesis by (intro succeeded [OF _ Some]) auto
  qed (use failed in blast)
qed

lemma deactivateE:
  assumes "deactivate_routing_rule io merchant i s = (r, s')"
  obtains "s' = s"
    | m where "m \<in> set (rs_mappers s)" "am_created_by m = merchant" "r = Inr ()"
        "s' = invalidate_routing_algorithm_cache io merchant
                (s\<lparr>rs_mappers := filter (\<lambda>m'. am_id m' \<noteq> am_id m) (rs_mappers s)\<rparr>)"
proof -
  have "s' = s \<or> (\<exists>m P. read_mapper io P s = Some m \<and> am_created_by m = merchant \<and> r = Inr () \<and>
      s' = invalidate_routing_algorithm_cache io merchant
                (s\<lparr>rs_mappers := filter (\<lambda>m'. am_id m' \<noteq> am_id m) (rs_mappers s)\<rparr>))"
    using assms
    by (auto simp: deactivate_routing_rule_def split: if_split_asm option.split_asm dest: read_mapper_Some)
  then show ?thesis using that read_mapper_Some by metis
qed

lemma inactive_iff:
  "ensure_routing_algorithm_inactive io s merchant i = Inr () \<longleftrightarrow>
     io_find_mapper io \<and> (\<forall>m \<in> set (rs_mappers s). \<not> (am_created_by m = merchant \<and> am_routing_algorithm_id m = i))"
  by (auto simp: ensure_routing_algorithm_inactive_def find_None_iff)

lemma updateE:
  assumes "update_routing_rule V io t p s = (res, s')"
  obtains "s' = s"
    | a f where "a \<in> set (rs_algorithms s)" "ra_id a = up_routing_algorithm_id p" "ra_created_by a = up_created_by p"
        "\<forall>m \<in> set (rs_mappers s).
           \<not> (am_created_by m = up_created_by p \<and> am_routing_algorithm_id m = up_routing_algorithm_id p)"
        "\<And>b. ra_id (f b) = ra_id b \<and> ra_created_by (f b) = ra_created_by b \<and> ra_algorithm_for (f b) = ra_algorithm_for b"
        "s' = invalidate_routing_algorithm_cache io (up_created_by p)
                (s\<lparr>rs_algorithms := List.map (\<lambda>b. if ra_id b = up_routing_algorithm_id p then f b else b) (rs_algorithms s)\<rparr>)"
proof (cases "ensure_routing_algorithm_inactive io s (up_created_by p) (up_routing_algorithm_id p)")
  case (Inl err)
  with assms that(1) show ?thesis by (auto simp: update_routing_rule_def Let_def split: if_splits)
next
  case (Inr u)
  then have inactive: "ensure_routing_algorithm_inactive io s (up_created_by p) (up_routing_algorithm_id p) = Inr ()"
    by simp
  show ?thesis
  proof (cases "read_algorithm io s (up_routing_algorithm_id p)")
    case None
    with assms inactive that(1) show ?thesis by (auto simp: update_routing_rule_def Let_def split: if_splits)
  next
    case (Some a)
    let ?f = "\<lambda>a. a\<lparr>ra_name := up_name p, ra_description := up_description p,
      ra_algorithm_data := en_encode V (up_algorithm p), ra_modified_at := t\<rparr>"
    have "s' = s \<or> ra_created_by a = up_created_by p \<and> s' = invalidate_routing_algorithm_cache io (up_created_by p)
        (s\<lparr>rs_algorithms := List.map (\<lambda>b. if ra_id b = up_routing_algorithm_id p then ?f b else b) (rs_algorithms s)\<rparr>)"
      using assms inactive Some by (auto simp: update_routing_rule_def Let_def split: if_splits)
    then show ?thesis
      using that(1) that(2) [of a ?f] read_algorithm_Some [OF Some] inactive [unfolded inactive_iff] by auto
  qed
qed

lemma deleteE:
  assumes "delete_routing_rule io merchant i s = (r, s')"
  obtains "s' = s"
    | "\<forall>m \<in> set (rs_mappers s). \<not> (am_created_by m = merchant \<and> am_routing_algorithm_id m = i)"
        "i \<in> ra_id ` set (rs_algorithms s)"
        "s' = invalidate_routing_algorithm_cache io merchant
                (s\<lparr>rs_algorithms := filter (\<lambda>a. ra_id a \<noteq> i) (rs_algorithms s)\<rparr>)"
proof (cases "ensure_routing_algorithm_inactive io s merchant i")
  case (Inl err)
  with assms that(1) show ?thesis by (simp add: delete_routing_rule_def split: if_split_asm)
next
  case (Inr u)
  then have inactive: "\<forall>m \<in> set (rs_mappers s). \<not> (am_created_by m = merchant \<and> am_routing_algorithm_id m = i)"
    using inactive_iff [of io s merchant i] by simp
  have "s' = s \<or> i \<in> ra_id ` set (rs_algorithms s) \<and> s' = invalidate_routing_algorithm_cache io merchant
      (s\<lparr>rs_algorithms := filter (\<lambda>a. ra_id a \<noteq> i) (rs_algorithms s)\<rparr>)"
    using assms by (simp add: delete_routing_rule_def Inr split: if_split_asm)
  then show ?thesis using that inactive by blast
qed

lemma fetch_cases:
  "snd (fetch_algorithm_from_db_and_cache io merchant s) \<in>
     insert s ((\<lambda>a. cache_routing_algorithm io merchant a s) ` {a. fetch_algorithm_from_db io s merchant = Inr a})"
  by (auto simp: fetch_algorithm_from_db_and_cache_def split: sum.splits)

lemma evaluateE:
  assumes "routing_evaluate fuel V io q s = (out, s')"
  obtains "s' = s"
    | a where "fetch_algorithm_from_db io s (rq_created_by q) = Inr a"
        "s' = cache_routing_algorithm io (rq_created_by q) a s"
proof -
  have "s' = s \<or> s' = snd (fetch_algorithm_from_db_and_cache io (rq_created_by q) s)"
    using assms
    by (auto simp: routing_evaluate_def active_algorithm_def Let_def split_def split: option.splits sum.splits if_splits)
  with fetch_cases [of io "rq_created_by q" s] that show ?thesis by auto
qed

section \<open>The tables\<close>

lemma map_update_mappers [simp]:
  "List.map am_created_by (rs_mappers (update_mappers P i f s)) = List.map am_created_by (rs_mappers s)"
  "List.map am_id (rs_mappers (update_mappers P i f s)) = List.map am_id (rs_mappers s)"
  by (auto simp: update_mappers_def)

lemma update_mappers_frame [simp]:
  "rs_algorithms (update_mappers P i f s) = rs_algorithms s"
  "rs_next_id (update_mappers P i f s) = rs_next_id s"
  "rs_cache (update_mappers P i f s) = rs_cache s"
  by (simp_all add: update_mappers_def)

lemma insert_mapper_Some:
  "insert_mapper io merchant i f s = Some s' \<longleftrightarrow> io_conn io \<and> io_write io \<and> (merchant, f) \<notin> active_for ` set (rs_mappers s) \<and>
     s' = s\<lparr>rs_mappers := rs_mappers s @ [\<lparr>am_id = rs_next_id s, am_created_by = merchant,
              am_routing_algorithm_id = i, am_algorithm_for = f\<rparr>], rs_next_id := Suc (rs_next_id s)\<rparr>"
  by (auto simp: insert_mapper_def mapper_key_free_def)

lemma tables_ok_insert: "tables_ok s \<Longrightarrow> insert_mapper io merchant i f s = Some s' \<Longrightarrow> tables_ok s'"
  by (auto simp: tables_ok_def insert_mapper_Some)

lemma tables_ok_update:
  "tables_ok s \<Longrightarrow> tables_ok (update_mappers (\<lambda>m. am_created_by m = merchant \<and> am_algorithm_for m = f) i f s)"
proof -
  assume a: "tables_ok s"
  let ?P = "\<lambda>m. am_created_by m = merchant \<and> am_algorithm_for m = f"
  have "List.map active_for (rs_mappers (update_mappers ?P i f s)) = List.map active_for (rs_mappers s)"
    by (auto simp: update_mappers_def)
  moreover have "\<forall>m \<in> set (rs_mappers (update_mappers ?P i f s)). \<exists>m' \<in> set (rs_mappers s). am_id m = am_id m'"
    by (auto simp: update_mappers_def)
  ultimately show ?thesis using a by (auto simp: tables_ok_def)
qed

lemma tables_ok_mappers_filter: "tables_ok s \<Longrightarrow> tables_ok (s\<lparr>rs_mappers := filter P (rs_mappers s)\<rparr>)"
  by (auto simp: tables_ok_def distinct_map_filter)

lemma tables_ok_algorithms:
  "List.map ra_id xs = List.map ra_id (rs_algorithms s) \<Longrightarrow> tables_ok s \<Longrightarrow> tables_ok (s\<lparr>rs_algorithms := xs\<rparr>)"
  by (simp add: tables_ok_def)

lemma tables_ok_step: "rules_step V s s' \<Longrightarrow> tables_ok s \<Longrightarrow> tables_ok s'"
proof (induction rule: rules_step.induct)
  case create
  then show ?case by (elim createE) (auto simp: tables_ok_def)
next
  case activate
  then show ?case by (elim activateE) (auto intro: tables_ok_insert tables_ok_update)
next
  case deactivate
  then show ?case by (elim deactivateE) (auto intro: tables_ok_mappers_filter)
next
  case (update io t p s res s')
  from update(1) show ?case
  proof (cases rule: updateE)
    case (2 a f)
    have "List.map ra_id (List.map (\<lambda>b. if ra_id b = up_routing_algorithm_id p then f b else b) (rs_algorithms s))
        = List.map ra_id (rs_algorithms s)"
      using 2(5) by simp
    then show ?thesis using update(2) unfolding 2(6) tables_ok_cache by (rule tables_ok_algorithms)
  qed (use update(2) in simp)
next
  case delete
  then show ?case by (elim deleteE) (auto simp: tables_ok_def distinct_map_filter)
next
  case evaluate
  then show ?case by (elim evaluateE) auto
qed auto

lemma reachable_tables_ok: "rules_reachable V s \<Longrightarrow> tables_ok s"
proof (induction rule: rules_reachable.induct)
  case start
  then show ?case by (simp add: no_rules_def tables_ok_def)
qed (rule tables_ok_step)

abbreviation rule_slot :: "string \<Rightarrow> string \<Rightarrow> routing_algorithm_mapper \<Rightarrow> bool" where
  "rule_slot merchant kind m \<equiv> am_created_by m = merchant \<and> am_algorithm_for m = kind"

lemma slot_single:
  "distinct (List.map active_for xs) \<Longrightarrow> x \<in> set xs \<Longrightarrow> rule_slot merchant kind x \<Longrightarrow>
     filter (rule_slot merchant kind) xs = [x]"
proof (induction xs)
  case (Cons y ys)
  show ?case
  proof (cases "rule_slot merchant kind y")
    case True
    then have none: "\<forall>z \<in> set ys. \<not> rule_slot merchant kind z" using Cons.prems(1) by (auto simp: image_iff)
    then have "x = y" using Cons.prems(2,3) by auto
    moreover have "filter (rule_slot merchant kind) ys = []" using none by (simp add: filter_empty_conv)
    ultimately show ?thesis using True by simp
  qed (use Cons in auto)
qed simp

lemma slot_update:
  "filter (rule_slot merchant kind) (rs_mappers (update_mappers (rule_slot merchant kind) i kind s)) =
     List.map (\<lambda>m. m\<lparr>am_routing_algorithm_id := i, am_algorithm_for := kind\<rparr>) (filter (rule_slot merchant kind) (rs_mappers s))"
  "filter (\<lambda>m. \<not> rule_slot merchant kind m) (rs_mappers (update_mappers (rule_slot merchant kind) i kind s)) =
     filter (\<lambda>m. \<not> rule_slot merchant kind m) (rs_mappers s)"
proof -
  let ?f = "\<lambda>m. if rule_slot merchant kind m then m\<lparr>am_routing_algorithm_id := i, am_algorithm_for := kind\<rparr> else m"
  have "filter (rule_slot merchant kind) (List.map ?f xs) =
      List.map (\<lambda>m. m\<lparr>am_routing_algorithm_id := i, am_algorithm_for := kind\<rparr>) (filter (rule_slot merchant kind) xs)"
    and "filter (\<lambda>m. \<not> rule_slot merchant kind m) (List.map ?f xs) = filter (\<lambda>m. \<not> rule_slot merchant kind m) xs" for xs
    by (induction xs) auto
  then show "filter (rule_slot merchant kind) (rs_mappers (update_mappers (rule_slot merchant kind) i kind s)) =
     List.map (\<lambda>m. m\<lparr>am_routing_algorithm_id := i, am_algorithm_for := kind\<rparr>) (filter (rule_slot merchant kind) (rs_mappers s))"
    and "filter (\<lambda>m. \<not> rule_slot merchant kind m) (rs_mappers (update_mappers (rule_slot merchant kind) i kind s)) =
     filter (\<lambda>m. \<not> rule_slot merchant kind m) (rs_mappers s)"
    by (simp_all add: update_mappers_def)
qed

lemma slot_free: "mapper_key_free s merchant kind \<longleftrightarrow> filter (rule_slot merchant kind) (rs_mappers s) = []"
  by (force simp: mapper_key_free_def filter_empty_conv image_iff)

lemma insert_slot:
  assumes "insert_mapper io merchant i kind s = Some s1"
  shows "filter (rule_slot merchant kind) (rs_mappers s) = []"
    and "rs_mappers s1 = rs_mappers s @ [\<lparr>am_id = rs_next_id s, am_created_by = merchant, am_routing_algorithm_id = i,
           am_algorithm_for = kind\<rparr>]"
    and "rs_algorithms s1 = rs_algorithms s"
  using assms by (auto simp: insert_mapper_def slot_free split: if_splits)

text \<open>
  C34. Activation replaces. On tables that requests have built, whatever calls fail, activating a stored
  rule either fails and changes nothing, or leaves exactly one row of the merchant for the kind of the
  rule, and it names this rule: it is the row that was there or, only if there was none, a new one. The
  other rows, of this merchant and of others, and the rules are as before. It succeeds when the
  database answers.
\<close>

theorem activation_replaces:
  assumes "rules_reachable V s" and "find_algorithm s i = Some a"
    and "activate_routing_rule io merchant i s = (res, s')"
  shows "(res \<noteq> Inr () \<longrightarrow> s' = s)
    \<and> (res = Inr () \<longrightarrow> (\<exists>m. filter (rule_slot merchant (ra_algorithm_for a)) (rs_mappers s') = [m]
        \<and> am_routing_algorithm_id m = i
        \<and> (filter (rule_slot merchant (ra_algorithm_for a)) (rs_mappers s) = []
           \<or> (\<exists>old. filter (rule_slot merchant (ra_algorithm_for a)) (rs_mappers s) = [old] \<and> am_id m = am_id old))))
    \<and> filter (\<lambda>m. \<not> rule_slot merchant (ra_algorithm_for a) m) (rs_mappers s') =
        filter (\<lambda>m. \<not> rule_slot merchant (ra_algorithm_for a) m) (rs_mappers s)
    \<and> rs_algorithms s' = rs_algorithms s
    \<and> (io_conn io \<and> io_find_algorithm io \<and> io_find_mapper io \<and> io_write io \<longrightarrow> res = Inr ())"
proof -
  let ?slot = "rule_slot merchant (ra_algorithm_for a)"
  have distinct: "distinct (List.map active_for (rs_mappers s))"
    using reachable_tables_ok [OF assms(1)] by (simp add: tables_ok_def)
  have answered: "res = Inr ()" if "io_conn io \<and> io_find_algorithm io \<and> io_find_mapper io \<and> io_write io"
    using assms(2,3) that
    by (auto simp: activate_routing_rule_def read_algorithm_def read_mapper_def insert_mapper_def slot_free
        find_None_iff filter_empty_conv Let_def split: option.splits if_splits)
  show ?thesis
    using assms(3)
  proof (cases rule: activateE)
    case (succeeded a' s1)
    then have "a' = a" using assms(2) by (auto simp: read_algorithm_def split: if_splits)
    from succeeded(4) [unfolded this]
    have "(\<exists>m. filter ?slot (rs_mappers s1) = [m] \<and> am_routing_algorithm_id m = i
        \<and> (filter ?slot (rs_mappers s) = [] \<or> (\<exists>old. filter ?slot (rs_mappers s) = [old] \<and> am_id m = am_id old)))
      \<and> filter (\<lambda>m. \<not> ?slot m) (rs_mappers s1) = filter (\<lambda>m. \<not> ?slot m) (rs_mappers s)
      \<and> rs_algorithms s1 = rs_algorithms s"
    proof (elim disjE bexE conjE)
      fix m
      assume "m \<in> set (rs_mappers s)" "am_created_by m = merchant" "am_algorithm_for m = ra_algorithm_for a"
        and "s1 = update_mappers ?slot i (ra_algorithm_for a) s"
      then show ?thesis
        using slot_single [OF distinct, of m merchant "ra_algorithm_for a"] slot_update [of merchant "ra_algorithm_for a" i s]
        by simp
    next
      assume "insert_mapper io merchant i (ra_algorithm_for a) s = Some s1"
      then show ?thesis using insert_slot [of io merchant i "ra_algorithm_for a" s s1] by simp
    qed (use slot_single [OF distinct, of _ merchant "ra_algorithm_for a"] in auto)
    with \<open>res = Inr ()\<close> succeeded(3) show ?thesis by simp
  qed (use answered in auto)
qed

section \<open>Rules of one's own\<close>

text \<open>Merchants activate and delete rules of their own, and Redis takes what is written.\<close>

abbreviation cache_works :: "rules_io \<Rightarrow> bool" where
  "cache_works io \<equiv> io_cache_write io \<and> io_cache_delete io"

definition owns :: "rules_state \<Rightarrow> string \<Rightarrow> string \<Rightarrow> bool" where
  "owns s merchant i \<longleftrightarrow> (\<forall>a \<in> set (rs_algorithms s). ra_id a = i \<longrightarrow> ra_created_by a = merchant)"

inductive own_step :: "rules_env \<Rightarrow> rules_state \<Rightarrow> rules_state \<Rightarrow> bool" for V where
  create: "routing_create V io t fresh parsed s = (res, s') \<Longrightarrow> own_step V s s'"
| activate: "activate_routing_rule io merchant i s = (r, s') \<Longrightarrow> owns s merchant i \<Longrightarrow> cache_works io \<Longrightarrow> own_step V s s'"
| deactivate: "deactivate_routing_rule io merchant i s = (r, s') \<Longrightarrow> cache_works io \<Longrightarrow> own_step V s s'"
| update: "update_routing_rule V io t p s = (res, s') \<Longrightarrow> cache_works io \<Longrightarrow> own_step V s s'"
| delete: "delete_routing_rule io merchant i s = (r, s') \<Longrightarrow> owns s merchant i \<Longrightarrow> cache_works io \<Longrightarrow> own_step V s s'"
| evaluate: "routing_evaluate fuel V io q s = (out, s') \<Longrightarrow> own_step V s s'"
| expire: "own_step V s (s\<lparr>rs_cache := (rs_cache s)(key := None)\<rparr>)"

inductive own_reachable :: "rules_env \<Rightarrow> rules_state \<Rightarrow> bool" for V where
  start: "own_reachable V no_rules"
| step: "own_reachable V s \<Longrightarrow> own_step V s s' \<Longrightarrow> own_reachable V s'"

definition active_rule :: "rules_state \<Rightarrow> string \<Rightarrow> string \<Rightarrow> string \<Rightarrow> bool" where
  "active_rule s merchant i data \<longleftrightarrow>
     (\<exists>m \<in> set (rs_mappers s). am_created_by m = merchant \<and> am_routing_algorithm_id m = i)
     \<and> (\<exists>a \<in> set (rs_algorithms s). ra_id a = i \<and> ra_created_by a = merchant \<and> ra_algorithm_data a = data)"

definition own_rules :: "rules_state \<Rightarrow> bool" where
  "own_rules s \<longleftrightarrow>
     (\<forall>m \<in> set (rs_mappers s). \<exists>a \<in> set (rs_algorithms s).
        ra_id a = am_routing_algorithm_id m \<and> ra_created_by a = am_created_by m)
     \<and> (\<forall>merchant c. rs_cache s (routing_algo_cache_key merchant) = Some c \<longrightarrow>
          active_rule s merchant (ch_id c) (ch_algorithm_data c))"

lemma cache_key_inject [simp]: "routing_algo_cache_key m = routing_algo_cache_key m' \<longleftrightarrow> m = m'"
  by (simp add: routing_algo_cache_key_def)

lemma own_rules_no_cache:
  "own_rules s \<Longrightarrow> own_rules (s\<lparr>rs_cache := (rs_cache s)(key := None)\<rparr>)"
  by (auto simp: own_rules_def active_rule_def)

text \<open>A rule that is cached because it is active, over any change that leaves the other merchants' rules.\<close>

lemma own_rules_cache:
  assumes "own_rules s \<or> (\<forall>m \<in> set (rs_mappers s). \<exists>a \<in> set (rs_algorithms s).
        ra_id a = am_routing_algorithm_id m \<and> ra_created_by a = am_created_by m)
      \<and> (\<forall>m c. m \<noteq> merchant \<longrightarrow> rs_cache s (routing_algo_cache_key m) = Some c \<longrightarrow> active_rule s m (ch_id c) (ch_algorithm_data c))"
    and "active_rule s merchant (ra_id a) (ra_algorithm_data a)" "io_cache_write io \<or> own_rules s"
  shows "own_rules (cache_routing_algorithm io merchant a s)"
  using assms
  by (auto simp: own_rules_def active_rule_def cache_routing_algorithm_def)

lemma own_rules_invalidate:
  assumes "\<forall>m \<in> set (rs_mappers s). \<exists>a \<in> set (rs_algorithms s).
        ra_id a = am_routing_algorithm_id m \<and> ra_created_by a = am_created_by m"
    and "\<forall>m c. m \<noteq> merchant \<longrightarrow> rs_cache s (routing_algo_cache_key m) = Some c \<longrightarrow> active_rule s m (ch_id c) (ch_algorithm_data c)"
    and "io_cache_delete io"
  shows "own_rules (invalidate_routing_algorithm_cache io merchant s)"
  using assms by (auto simp: own_rules_def active_rule_def invalidate_routing_algorithm_cache_def)

lemma unique_id:
  "tables_ok s \<Longrightarrow> a \<in> set (rs_algorithms s) \<Longrightarrow> b \<in> set (rs_algorithms s) \<Longrightarrow> ra_id a = ra_id b \<Longrightarrow> a = b"
  by (auto simp: tables_ok_def distinct_map inj_on_def)

lemma own_fetch:
  assumes "own_rules s" "tables_ok s" "fetch_algorithm_from_db io s merchant = Inr a"
  shows "active_rule s merchant (ra_id a) (ra_algorithm_data a)"
proof -
  from assms(3) obtain m where m: "read_mapper io (\<lambda>m. am_created_by m = merchant) s = Some m"
    "read_algorithm io s (am_routing_algorithm_id m) = Some a"
    by (auto simp: fetch_algorithm_from_db_def split: option.splits)
  from read_mapper_Some [OF m(1)] read_algorithm_Some [OF m(2)] assms(1)
  obtain a' where a': "a' \<in> set (rs_algorithms s)" "ra_id a' = ra_id a" "ra_created_by a' = merchant"
    and am: "am_created_by m = merchant" "m \<in> set (rs_mappers s)" "a \<in> set (rs_algorithms s)" "ra_id a = am_routing_algorithm_id m"
    by (auto simp: own_rules_def)
  have "a' = a" using unique_id [OF assms(2)] a' am(3) by blast
  with a' am show ?thesis by (auto simp: active_rule_def)
qed

lemma update_mappers_mem:
  "m \<in> set (rs_mappers s) \<Longrightarrow> P m \<Longrightarrow>
     m\<lparr>am_routing_algorithm_id := i, am_algorithm_for := f\<rparr> \<in> set (rs_mappers (update_mappers P i f s))"
  by (auto simp: update_mappers_def intro!: image_eqI [of _ _ m])

lemma own_algorithm:
  "owns s merchant i \<Longrightarrow> a \<in> set (rs_algorithms s) \<Longrightarrow> ra_id a = i \<Longrightarrow> ra_created_by a = merchant"
  by (auto simp: owns_def)

lemma own_activate:
  assumes act: "activate_routing_rule io merchant i s = (r, s')"
    and own: "owns s merchant i" "io_cache_write io" "own_rules s" "tables_ok s"
  shows "own_rules s'"
  using act
proof (cases rule: activateE)
  case (failed err)
  then show ?thesis using own by simp
next
  case (succeeded a s1)
  have a: "a \<in> set (rs_algorithms s)" "ra_id a = i" using read_algorithm_Some [OF succeeded(2)] by auto
  then have cb: "ra_created_by a = merchant" using own_algorithm [OF own(1)] by auto
  have algos: "rs_algorithms s1 = rs_algorithms s" and cache: "rs_cache s1 = rs_cache s"
    using succeeded(4) by (auto simp: insert_mapper_Some)
  have others: "m \<in> set (rs_mappers s1) \<or> am_created_by m = merchant" if "m \<in> set (rs_mappers s)" for m
    using succeeded(4) that by (auto simp: insert_mapper_Some update_mappers_def image_iff)
  have rows: "m \<in> set (rs_mappers s) \<or> am_created_by m = merchant \<and> am_routing_algorithm_id m = i"
    if "m \<in> set (rs_mappers s1)" for m
    using succeeded(4) that by (auto simp: insert_mapper_Some update_mappers_def split: if_splits)
  have mine: "\<exists>m \<in> set (rs_mappers s1). am_created_by m = merchant \<and> am_routing_algorithm_id m = i"
    using succeeded(4)
  proof (elim disjE conjE bexE)
    fix m
    assume s1: "s1 = update_mappers (\<lambda>m. am_created_by m = merchant \<and> am_algorithm_for m = ra_algorithm_for a) i
        (ra_algorithm_for a) s"
      and m: "m \<in> set (rs_mappers s)" "am_created_by m = merchant" "am_algorithm_for m = ra_algorithm_for a"
    have "m\<lparr>am_routing_algorithm_id := i, am_algorithm_for := ra_algorithm_for a\<rparr> \<in> set (rs_mappers s1)"
      unfolding s1 by (rule update_mappers_mem) (use m in simp_all)
    then show ?thesis by (rule bexI [rotated]) (simp add: m(2))
  qed (auto simp: insert_mapper_Some)
  have "\<forall>m \<in> set (rs_mappers s1). \<exists>b \<in> set (rs_algorithms s1).
      ra_id b = am_routing_algorithm_id m \<and> ra_created_by b = am_created_by m"
  proof
    fix m
    assume "m \<in> set (rs_mappers s1)"
    then consider "m \<in> set (rs_mappers s)" | "am_created_by m = merchant" "am_routing_algorithm_id m = i"
      using rows by blast
    then show "\<exists>b \<in> set (rs_algorithms s1). ra_id b = am_routing_algorithm_id m \<and> ra_created_by b = am_created_by m"
      unfolding algos by cases (use own(3) a cb in \<open>auto simp: own_rules_def\<close>)
  qed
  moreover have "active_rule s1 m (ch_id c) (ch_algorithm_data c)"
    if "m \<noteq> merchant" "rs_cache s1 (routing_algo_cache_key m) = Some c" for m c
  proof -
    have "active_rule s m (ch_id c) (ch_algorithm_data c)" using that own(3) by (simp add: cache own_rules_def)
    then show ?thesis using others that(1) unfolding active_rule_def algos by blast
  qed
  moreover have "active_rule s1 merchant (ra_id a) (ra_algorithm_data a)"
    using mine a cb by (auto simp: active_rule_def algos)
  ultimately show ?thesis unfolding succeeded(3) using own(2) by (intro own_rules_cache) auto
qed

lemma own_deactivate:
  assumes "deactivate_routing_rule io merchant i s = (r, s')" "io_cache_delete io" "own_rules s" "tables_ok s"
  shows "own_rules s'"
  using assms(1)
proof (cases rule: deactivateE)
  case (2 m)
  have keep: "m' \<in> set (rs_mappers s) \<Longrightarrow> am_created_by m' \<noteq> merchant \<Longrightarrow> am_id m' \<noteq> am_id m" for m'
    using 2(1,2) assms(4) by (auto simp: tables_ok_def distinct_map dest: inj_onD)
  show ?thesis
    unfolding 2(4) using assms(2,3) keep
    by (intro own_rules_invalidate) (auto simp: own_rules_def active_rule_def, blast+)
qed (use assms in simp)

lemma own_update:
  assumes "update_routing_rule V io t p s = (res, s')" "io_cache_delete io" "own_rules s" "tables_ok s"
  shows "own_rules s'"
  using assms(1)
proof (cases rule: updateE)
  case (2 a f)
  let ?i = "up_routing_algorithm_id p"
  let ?algos = "List.map (\<lambda>b. if ra_id b = ?i then f b else b) (rs_algorithms s)"
  have unused: "am_routing_algorithm_id m \<noteq> ?i" if m: "m \<in> set (rs_mappers s)" for m
  proof
    assume i: "am_routing_algorithm_id m = ?i"
    with assms(3) m obtain b where b: "b \<in> set (rs_algorithms s)" "ra_id b = ?i" "ra_created_by b = am_created_by m"
      by (auto simp: own_rules_def)
    have "b = a" using unique_id [OF assms(4)] b(1,2) 2(1,2) by simp
    with b 2(3,4) m i show False by auto
  qed
  have keep: "b \<in> set ?algos" if "b \<in> set (rs_algorithms s)" "ra_id b \<noteq> ?i" for b
    using that by (auto simp: image_iff)
  show ?thesis
    unfolding 2(6)
  proof (intro own_rules_invalidate ballI allI impI)
    fix m
    assume "m \<in> set (rs_mappers (s\<lparr>rs_algorithms := ?algos\<rparr>))"
    then have m: "m \<in> set (rs_mappers s)" by simp
    then obtain b where "b \<in> set (rs_algorithms s)" "ra_id b = am_routing_algorithm_id m" "ra_created_by b = am_created_by m"
      using assms(3) by (auto simp: own_rules_def)
    with keep [of b] unused [OF m] show "\<exists>a \<in> set (rs_algorithms (s\<lparr>rs_algorithms := ?algos\<rparr>)).
        ra_id a = am_routing_algorithm_id m \<and> ra_created_by a = am_created_by m" by (intro bexI [of _ b]) simp_all
  next
    fix m c
    assume "rs_cache (s\<lparr>rs_algorithms := ?algos\<rparr>) (routing_algo_cache_key m) = Some c"
    with assms(3) have act: "active_rule s m (ch_id c) (ch_algorithm_data c)" by (simp add: own_rules_def)
    then obtain m' b where *: "m' \<in> set (rs_mappers s)" "am_routing_algorithm_id m' = ch_id c" "am_created_by m' = m"
      "b \<in> set (rs_algorithms s)" "ra_id b = ch_id c" "ra_created_by b = m" "ra_algorithm_data b = ch_algorithm_data c"
      by (auto simp: active_rule_def)
    with unused [OF *(1)] keep [of b]
    show "active_rule (s\<lparr>rs_algorithms := ?algos\<rparr>) m (ch_id c) (ch_algorithm_data c)"
      unfolding active_rule_def by (intro conjI bexI [of _ m'] bexI [of _ b]) simp_all
  qed (rule assms(2))
qed (use assms in simp)

lemma own_delete:
  assumes "delete_routing_rule io merchant i s = (r, s')" "owns s merchant i" "io_cache_delete io" "own_rules s"
  shows "own_rules s'"
  using assms(1)
proof (cases rule: deleteE)
  case 2
  have unused: "am_routing_algorithm_id m \<noteq> i" if m: "m \<in> set (rs_mappers s)" for m
    using assms(2,4) 2(1) m by (fastforce simp: own_rules_def owns_def)
  show ?thesis
    unfolding 2(3) using assms(3,4) unused
    by (intro own_rules_invalidate) (fastforce simp: own_rules_def active_rule_def)+
qed (use assms in simp)

lemma own_rules_step: "own_step V s s' \<Longrightarrow> own_rules s \<Longrightarrow> tables_ok s \<Longrightarrow> own_rules s'"
proof (induction rule: own_step.induct)
  case create
  then show ?case by (elim createE) (auto simp: own_rules_def active_rule_def)
next
  case (evaluate fuel io q s out s')
  from evaluate(1) show ?case
  proof (cases rule: evaluateE)
    case (2 a)
    then show ?thesis using evaluate(2,3) own_fetch [OF evaluate(2,3) 2(1)] by (auto intro!: own_rules_cache)
  qed (use evaluate(2) in simp)
qed (auto intro: own_activate own_deactivate own_update own_delete own_rules_no_cache)

lemma own_step_rules_step: "own_step V s s' \<Longrightarrow> rules_step V s s'"
  by (induction rule: own_step.induct) (blast intro: rules_step.intros)+

lemma own_reachable_ok: "own_reachable V s \<Longrightarrow> own_rules s \<and> tables_ok s"
proof (induction rule: own_reachable.induct)
  case start
  then show ?case by (simp add: no_rules_def own_rules_def tables_ok_def)
next
  case (step s s')
  then show ?case using own_rules_step own_step_rules_step tables_ok_step by blast
qed

text \<open>
  C35. When requests run one at a time, so that no lookup writes to the cache what it has read before
  another request's change, merchants activate and delete only rules of their own, and Redis takes what
  activations, deactivations, edits and deletions send it, then the rule that evaluates a request of a
  merchant is an active rule of that merchant, with the definition stored last, whether it comes from
  the cache or from the tables. Without the order it fails: \<open>late_write_revives_rule\<close> below.
\<close>

theorem evaluated_rule_is_active:
  assumes "own_reachable V s" and "active_algorithm io merchant s = (Inr (i, data), s')"
  shows "\<exists>m \<in> set (rs_mappers s). am_created_by m = merchant \<and> am_routing_algorithm_id m = i
    \<and> (\<exists>a \<in> set (rs_algorithms s). ra_id a = i \<and> ra_created_by a = merchant \<and> ra_algorithm_data a = data)"
proof -
  have ok: "own_rules s" "tables_ok s" using own_reachable_ok [OF assms(1)] by auto
  have "active_rule s merchant i data"
  proof (cases "if io_cache_read io then rs_cache s (routing_algo_cache_key merchant) else None")
    case None
    with assms(2) obtain a where "fetch_algorithm_from_db io s merchant = Inr a" "i = ra_id a" "data = ra_algorithm_data a"
      by (auto simp: active_algorithm_def fetch_algorithm_from_db_and_cache_def rbind_def Let_def split: sum.splits)
    then show ?thesis using own_fetch [OF ok] by simp
  next
    case (Some c)
    with assms(2) ok(1) show ?thesis by (auto simp: active_algorithm_def own_rules_def split: if_splits)
  qed
  then show ?thesis by (auto simp: active_rule_def)
qed

section \<open>Activation\<close>

lemma find_map_same:
  "(\<And>x. x \<in> set xs \<Longrightarrow> P (f x) = P x) \<Longrightarrow> (\<And>x. x \<in> set xs \<Longrightarrow> P x \<Longrightarrow> f x = x) \<Longrightarrow>
     find P (List.map f xs) = find P xs"
  by (induction xs) auto

lemma read_algorithm_same: "rs_algorithms s = rs_algorithms s' \<Longrightarrow> read_algorithm io s = read_algorithm io s'"
  by (rule ext) (simp add: read_algorithm_def find_algorithm_def)

lemma fetch_same:
  assumes "rs_algorithms s = rs_algorithms s'"
    and "find (\<lambda>m. am_created_by m = merchant) (rs_mappers s) = find (\<lambda>m. am_created_by m = merchant) (rs_mappers s')"
  shows "fetch_algorithm_from_db io s merchant = fetch_algorithm_from_db io s' merchant"
  using assms(2) read_algorithm_same [OF assms(1), of io]
  by (simp add: fetch_algorithm_from_db_def read_mapper_def cong: option.case_cong)

lemma find_append_none: "\<not> P y \<Longrightarrow> find P (xs @ [y]) = find P xs"
  by (induction xs) auto

text \<open>
  C36. Activation takes effect and touches nobody else. Once a rule is activated and cached, a request of
  the merchant is evaluated by exactly this rule and its stored definition, and whatever rule answers
  the other merchants is the same as before.
\<close>

theorem activation_takes_effect:
  assumes "activate_routing_rule io merchant i s = (Inr (), s')" and "io_cache_write io"
  shows "\<exists>a. find_algorithm s i = Some a
    \<and> (\<forall>io'. io_cache_read io' \<longrightarrow> active_algorithm io' merchant s' = (Inr (i, ra_algorithm_data a), s'))
    \<and> (\<forall>io' m. m \<noteq> merchant \<longrightarrow> fst (active_algorithm io' m s') = fst (active_algorithm io' m s))"
  using assms(1)
proof (cases rule: activateE)
  case (succeeded a s1)
  have a: "find_algorithm s i = Some a" "ra_id a = i"
    using succeeded(2) read_algorithm_Some [OF succeeded(2)] by (auto simp: read_algorithm_def split: if_splits)
  have algos: "rs_algorithms s1 = rs_algorithms s" and cache: "rs_cache s1 = rs_cache s"
    using succeeded(4) by (auto simp: insert_mapper_Some)
  have "find (\<lambda>m. am_created_by m = m') (rs_mappers s1) = find (\<lambda>m. am_created_by m = m') (rs_mappers s)"
    if "m' \<noteq> merchant" for m'
    using succeeded(4)
  proof (elim disjE conjE)
    assume "s1 = update_mappers (\<lambda>m. am_created_by m = merchant \<and> am_algorithm_for m = ra_algorithm_for a) i
        (ra_algorithm_for a) s"
    then show ?thesis using that by (auto simp: update_mappers_def intro: find_map_same)
  qed (use that in \<open>auto simp: insert_mapper_Some find_append_none\<close>)
  then have other: "fetch_algorithm_from_db io' s' m' = fetch_algorithm_from_db io' s m'" if "m' \<noteq> merchant" for io' m'
    using that by (intro fetch_same) (simp_all add: succeeded(3) algos)
  have "fst (active_algorithm io' m s') = fst (active_algorithm io' m s)" if "m \<noteq> merchant" for io' m
  proof -
    have "rs_cache s' (routing_algo_cache_key m) = rs_cache s (routing_algo_cache_key m)"
      using that by (simp add: succeeded(3) cache_routing_algorithm_def cache)
    then show ?thesis
      using other [OF that] by (simp add: active_algorithm_def fetch_algorithm_from_db_and_cache_def split: option.split sum.split)
  qed
  moreover have "active_algorithm io' merchant s' = (Inr (i, ra_algorithm_data a), s')" if "io_cache_read io'" for io'
    using that assms(2) a(2) by (simp add: succeeded(3) active_algorithm_def cache_routing_algorithm_def)
  ultimately show ?thesis using a(1) by blast
qed simp

text \<open>
  C37. A rule that a merchant has activated can neither be edited nor deleted by the merchant: both
  requests fail and change nothing, whatever else fails, and where the tables can be read the answer
  says that the rule is active.
\<close>

theorem active_rule_is_protected:
  assumes "m \<in> set (rs_mappers s)" "am_created_by m = merchant" "am_routing_algorithm_id m = i"
    and "up_created_by p = merchant" "up_routing_algorithm_id p = i"
  shows "\<exists>err. update_routing_rule V io t p s = (Inl err, s) \<and> delete_routing_rule io merchant i s = (Inl err, s)
    \<and> (io_conn io \<and> io_find_mapper io \<longrightarrow>
        err = ER_InvalidRequest ''This experiment is active. Stop it before editing or deleting.'')"
proof -
  have "find (\<lambda>m. am_created_by m = merchant \<and> am_routing_algorithm_id m = i) (rs_mappers s) \<noteq> None"
    using assms(1-3) by (auto simp: find_None_iff)
  then show ?thesis
    using assms(4,5)
    by (auto simp: update_routing_rule_def delete_routing_rule_def ensure_routing_algorithm_inactive_def Let_def)
qed

section \<open>What is not protected\<close>

text \<open>A merchant that has not activated a rule can delete it, whoever created it and has activated it.\<close>

lemma foreign_rule_deleted:
  assumes "io_conn io" "io_write io" "io_find_mapper io" "i \<in> ra_id ` set (rs_algorithms s)"
    and "\<forall>m \<in> set (rs_mappers s). \<not> (am_created_by m = merchant \<and> am_routing_algorithm_id m = i)"
  shows "\<exists>s'. delete_routing_rule io merchant i s = (Inr (), s') \<and> find_algorithm s' i = None
    \<and> rs_mappers s' = rs_mappers s"
proof -
  have "find (\<lambda>m. am_created_by m = merchant \<and> am_routing_algorithm_id m = i) (rs_mappers s) = None"
    using assms(5) by (auto simp: find_None_iff)
  then show ?thesis
    using assms(1-4)
    by (auto simp: delete_routing_rule_def ensure_routing_algorithm_inactive_def find_algorithm_def find_None_iff)
qed

text \<open>When Redis does not take the new rule, the old one stays cached and is evaluated.\<close>

lemma failed_cache_write_keeps_old_rule:
  assumes "activate_routing_rule io merchant i s = (Inr (), s')" "\<not> io_cache_write io" "io_cache_read io'"
    and "rs_cache s (routing_algo_cache_key merchant) = Some c"
  shows "active_algorithm io' merchant s' = (Inr (ch_id c, ch_algorithm_data c), s')"
  using assms(1)
proof (cases rule: activateE)
  case (succeeded a s1)
  then have "rs_cache s' = rs_cache s"
    using assms(2) by (auto simp: cache_routing_algorithm_def insert_mapper_Some)
  then show ?thesis using assms(3,4) by (simp add: active_algorithm_def)
qed simp

text \<open>A lookup that read its row before a deactivation and writes the cache after it revives the rule.\<close>

lemma late_write_revives_rule:
  assumes "fetch_algorithm_from_db io s merchant = Inr a" "io_cache_write io" "io_cache_read io'"
    and "deactivate_routing_rule io'' merchant (ra_id a) s = (Inr (), s')"
  shows "fst (active_algorithm io' merchant (cache_routing_algorithm io merchant a s')) =
    Inr (ra_id a, ra_algorithm_data a)"
  using assms(2,3) by (simp add: active_algorithm_def cache_routing_algorithm_def)

text \<open>A rule that matches with the output of the default selection is answered as if nothing matched.\<close>

lemma matching_rule_taken_for_default:
  assumes "eval_program (en_sampler V) p (map_of (rq_parameters r)) = Inr ir"
    and "bo_output ir = default_selection p" and "rq_fallback_output r = Some (c # cs)"
  shows "evaluate_advanced V r p = Inr (Priority (c # cs), c # cs, Some ''default_fallback'')"
  using assms by (simp add: evaluate_advanced_def default_output_present_def map_err_def rbind_def)

section \<open>A merchant with one rule\<close>

definition demo_rules_io :: rules_io where
  "demo_rules_io = \<lparr>io_conn = True, io_find_algorithm = True, io_find_mapper = True, io_write = True,
     io_cache_read = True, io_cache_write = True, io_cache_delete = True\<rparr>"

definition demo_rules_env :: rules_env where
  "demo_rules_env = \<lparr>en_regex = (\<lambda>_. None), en_config = Some \<lparr>toml_keys = []\<rparr>, en_encode = (\<lambda>_. ''data''),
     en_decode = (\<lambda>_. Inr (Alg_Priority [conn ''stripe''])),
     en_text = (\<lambda>_. ''null''), en_json = (\<lambda>_. None), en_sampler = (\<lambda>_. None),
     en_bundle = None\<rparr>"

definition demo_routing_rule :: routing_rule where
  "demo_routing_rule = \<lparr>rr_rule_id = Some ''r1'', rr_name = ''rule'', rr_description = None, rr_created_by = ''m'',
     rr_algorithm = Alg_Priority [conn ''stripe''], rr_algorithm_for = Payment, rr_metadata = None\<rparr>"

definition demo_created :: rules_state where
  "demo_created = snd (routing_create demo_rules_env demo_rules_io 1 ''f'' (Inr demo_routing_rule) no_rules)"

definition demo_active :: rules_state where
  "demo_active = snd (activate_routing_rule demo_rules_io ''m'' ''r1'' demo_created)"

lemma demo_created_rules:
  "rs_algorithms demo_created = [\<lparr>ra_id = ''r1'', ra_created_by = ''m'', ra_name = ''rule'', ra_description = [],
     ra_algorithm_data = ''data'', ra_algorithm_for = ''payment'', ra_metadata = Some ''null'', ra_created_at = 1,
     ra_modified_at = 1\<rparr>]" "rs_mappers demo_created = []"
  by (simp_all add: demo_created_def routing_create_def demo_routing_rule_def demo_rules_env_def demo_rules_io_def
      validate_routing_rule_def vr_success_def insert_algorithm_def algorithm_id_free_def no_rules_def unwrap_or_def Let_def)

lemma demo_activates: "activate_routing_rule demo_rules_io ''m'' ''r1'' demo_created = (Inr (), demo_active)"
  by (simp add: demo_active_def activate_routing_rule_def read_algorithm_def find_algorithm_def read_mapper_def
      demo_created_rules insert_mapper_def mapper_key_free_def demo_rules_io_def)

lemma demo_own_reachable: "own_reachable demo_rules_env demo_active"
proof -
  have "own_step demo_rules_env no_rules demo_created"
    unfolding demo_created_def
    by (rule own_step.create [of _ demo_rules_io 1 "''f''" "Inr demo_routing_rule"]) (rule prod.collapse [symmetric])
  moreover have "own_step demo_rules_env demo_created demo_active"
    using demo_activates by (rule own_step.activate) (simp_all add: owns_def demo_created_rules demo_rules_io_def)
  ultimately show ?thesis by (blast intro: own_reachable.intros)
qed

lemma own_reachable_reachable: "own_reachable V s \<Longrightarrow> rules_reachable V s"
  by (induction rule: own_reachable.induct) (blast intro: rules_reachable.intros own_step_rules_step)+

lemma demo_active_mapper:
  "\<exists>m \<in> set (rs_mappers demo_active). am_created_by m = ''m'' \<and> am_routing_algorithm_id m = ''r1''"
  by (simp add: demo_active_def activate_routing_rule_def read_algorithm_def find_algorithm_def read_mapper_def
      demo_created_rules insert_mapper_def mapper_key_free_def demo_rules_io_def)

lemma demo_active_found:
  "active_algorithm demo_rules_io ''m'' demo_active = (Inr (''r1'', ''data''), demo_active)"
  by (simp add: demo_active_def active_algorithm_def activate_routing_rule_def read_algorithm_def find_algorithm_def
      read_mapper_def demo_created_rules insert_mapper_def mapper_key_free_def cache_routing_algorithm_def demo_rules_io_def)

text \<open>A second rule of the same kind, created while the first one is active.\<close>

definition demo_second :: rules_state where
  "demo_second = snd (routing_create demo_rules_env demo_rules_io 2 ''f''
     (Inr (demo_routing_rule\<lparr>rr_rule_id := Some ''r2''\<rparr>)) demo_active)"

lemma demo_active_tables:
  "rs_algorithms demo_active = rs_algorithms demo_created"
  "\<exists>n. rs_mappers demo_active = [\<lparr>am_id = n, am_created_by = ''m'', am_routing_algorithm_id = ''r1'', am_algorithm_for = ''payment''\<rparr>]"
  by (simp_all add: demo_active_def activate_routing_rule_def read_algorithm_def find_algorithm_def read_mapper_def
      demo_created_rules insert_mapper_def mapper_key_free_def demo_rules_io_def)

lemma demo_second_tables:
  "rs_mappers demo_second = rs_mappers demo_active"
  "\<exists>a. find_algorithm demo_second ''r2'' = Some a \<and> ra_algorithm_for a = ''payment''"
  by (simp_all add: demo_second_def routing_create_def demo_routing_rule_def demo_rules_env_def demo_rules_io_def
      validate_routing_rule_def vr_success_def insert_algorithm_def algorithm_id_free_def demo_active_tables
      demo_created_rules find_algorithm_def unwrap_or_def Let_def)

lemma activation_replaces_witness:
  "\<exists>s' m old. activate_routing_rule demo_rules_io ''m'' ''r2'' demo_second = (Inr (), s')
    \<and> filter (rule_slot ''m'' ''payment'') (rs_mappers demo_second) = [old] \<and> am_routing_algorithm_id old = ''r1''
    \<and> filter (rule_slot ''m'' ''payment'') (rs_mappers s') = [m] \<and> am_routing_algorithm_id m = ''r2'' \<and> am_id m = am_id old"
proof -
  have "rules_reachable demo_rules_env demo_second"
    unfolding demo_second_def
    by (rule rules_reachable.step [OF own_reachable_reachable [OF demo_own_reachable]],
        rule rules_step.create, rule prod.collapse [symmetric])
  moreover obtain a where a: "find_algorithm demo_second ''r2'' = Some a" "ra_algorithm_for a = ''payment''"
    using demo_second_tables(2) by blast
  moreover obtain res s' where act: "activate_routing_rule demo_rules_io ''m'' ''r2'' demo_second = (res, s')" by fastforce
  ultimately have new: "res = Inr ()"
      "\<exists>m. filter (rule_slot ''m'' ''payment'') (rs_mappers s') = [m] \<and> am_routing_algorithm_id m = ''r2''
        \<and> (filter (rule_slot ''m'' ''payment'') (rs_mappers demo_second) = []
           \<or> (\<exists>old. filter (rule_slot ''m'' ''payment'') (rs_mappers demo_second) = [old] \<and> am_id m = am_id old))"
    using activation_replaces [of demo_rules_env demo_second "''r2''" a demo_rules_io "''m''" res s']
    by (simp_all add: demo_rules_io_def)
  obtain old where old: "filter (rule_slot ''m'' ''payment'') (rs_mappers demo_second) = [old]"
      "am_routing_algorithm_id old = ''r1''"
    using demo_active_tables(2) demo_second_tables(1) by fastforce
  show ?thesis using new act old by fastforce
qed

lemma activation_takes_effect_witness:
  "active_algorithm demo_rules_io ''m'' demo_active = (Inr (''r1'', ''data''), demo_active)"
  using activation_takes_effect [OF demo_activates]
  by (auto simp: find_algorithm_def demo_created_rules) (simp_all add: demo_rules_io_def)

lemma evaluated_rule_is_active_witness:
  "active_algorithm demo_rules_io ''m'' demo_active = (Inr (''r1'', ''data''), demo_active)
   \<and> (\<exists>m \<in> set (rs_mappers demo_active). am_created_by m = ''m'' \<and> am_routing_algorithm_id m = ''r1'')"
  using demo_active_found evaluated_rule_is_active [OF demo_own_reachable] by blast

lemma active_rule_is_protected_witness:
  "\<exists>err. delete_routing_rule demo_rules_io ''m'' ''r1'' demo_active = (Inl err, demo_active)"
proof -
  obtain m where m: "m \<in> set (rs_mappers demo_active)" "am_created_by m = ''m''" "am_routing_algorithm_id m = ''r1''"
    using demo_active_mapper by blast
  from active_rule_is_protected [OF m, of "\<lparr>up_created_by = ''m'', up_routing_algorithm_id = ''r1'', up_name = [],
      up_description = [], up_algorithm = Alg_Priority []\<rparr>" demo_rules_env demo_rules_io 2]
  show ?thesis by auto
qed

end
