(* ===== verification/Service_Config.thy ===== *)
theory Service_Config
  imports Mem_Cache Cost_Key Score_Keys
begin

text \<open>
  The service configuration (\<open>src/src/types/service_configuration.rs\<close>, \<open>src/src/redis/cache.rs\<close>): rows of
  a table behind a cache in Redis that all processes share and the registry of the process. Writes go
  through both; reads fill them. Which calls of a request succeed is an argument, and a request sees
  one clock reading. \<open>cc_string\<close> stands for serde reading a text from Redis as a JSON string; the
  rows of a query come in table order.
\<close>

section \<open>The table and the caches\<close>

record service_configuration =
  cf_id :: nat
  cf_name :: string
  cf_value :: "string option"
  cf_new_value :: "string option"
  cf_previous_value :: "string option"
  cf_new_value_status :: "string option"

record config_store =
  cs_rows :: "service_configuration list"
  cs_next_id :: nat
  cs_redis :: "string \<rightharpoonup> string"

record cache_config =
  service_config_redis_prefix :: string
  service_config_ttl :: nat

record config_env =
  cc_config :: cache_config
  cc_string :: "string \<Rightarrow> string option"
  cc_extract :: "string \<Rightarrow> json option"

text \<open>Which calls of one request succeed; \<open>ci_read_lock\<close> and \<open>ci_write_lock\<close>: the registry's lock is not poisoned.\<close>

record config_io =
  ci_conn :: bool
  ci_find :: bool
  ci_write :: bool
  ci_redis_read :: bool
  ci_redis_write :: bool
  ci_read_lock :: bool
  ci_write_lock :: bool

datatype mesh_error =
    Mesh_DatabaseConnectionError
  | Mesh_NotFound
  | Mesh_UniqueViolation
  | Mesh_NoFieldsToUpdate
  | Mesh_QueryGenerationFailed
  | Mesh_NoRowstoUpdate
  | Mesh_NoRowstoDelete
  | Mesh_Others

definition add_prefix :: "cache_config \<Rightarrow> string \<Rightarrow> string" where
  "add_prefix c key = service_config_redis_prefix c @ key"

definition string_of_value :: "json \<Rightarrow> string + string" where
  "string_of_value j = (case j of JStr s \<Rightarrow> Inr s | _ \<Rightarrow> Inl ''invalid type'')"

definition get_from_memory_cache :: "config_io \<Rightarrow> nat \<Rightarrow> string \<Rightarrow> registry \<Rightarrow> (string + string) \<times> registry" where
  "get_from_memory_cache io now key m =
     apfst (map_err ((@) ''Memory cache get failed: ''))
       (rg_get string_of_value (ci_read_lock io) (ci_write_lock io) m m now now key)"

definition set_to_memory_cache :: "config_io \<Rightarrow> nat \<Rightarrow> string \<Rightarrow> string \<Rightarrow> nat option \<Rightarrow> registry \<Rightarrow> registry" where
  "set_to_memory_cache io now key value ttl m =
     snd (rg_store (\<lambda>s. Inr (JStr s)) (ci_write_lock io) m now now key value ttl)"

text \<open>The message of an error is not read. An empty text is no value for the client.\<close>

definition get_from_redis_cache :: "config_env \<Rightarrow> config_io \<Rightarrow> string \<Rightarrow> config_store \<Rightarrow> string option" where
  "get_from_redis_cache V io key s =
     (if \<not> ci_redis_read io then None
      else
        (case cs_redis s key of
           None \<Rightarrow> None
         | Some raw \<Rightarrow> if raw = [] then None else cc_string V raw))"

definition set_to_redis_cache :: "config_io \<Rightarrow> string \<Rightarrow> string \<Rightarrow> config_store \<Rightarrow> config_store" where
  "set_to_redis_cache io key value s =
     (if ci_redis_write io then s\<lparr>cs_redis := (cs_redis s)(key \<mapsto> value)\<rparr> else s)"

section \<open>Reading\<close>

definition find_row :: "string \<Rightarrow> config_store \<Rightarrow> service_configuration option" where
  "find_row name s = find (\<lambda>r. cf_name r = name) (cs_rows s)"

definition find_config_by_name ::
  "config_io \<Rightarrow> string \<Rightarrow> config_store \<Rightarrow> mesh_error + service_configuration option" where
  "find_config_by_name io name s = (if ci_find io then Inr (find_row name s) else Inl Mesh_Others)"

definition decoded :: "config_env \<Rightarrow> (string \<Rightarrow> json option) option \<Rightarrow> string \<Rightarrow> json option" where
  "decoded V decode_fn = (case decode_fn of Some f \<Rightarrow> f | None \<Rightarrow> cc_extract V)"

definition findByNameFromRedisHelper ::
  "config_env \<Rightarrow> config_io \<Rightarrow> nat \<Rightarrow> string \<Rightarrow> (string \<Rightarrow> json option) option \<Rightarrow> config_store \<times> registry \<Rightarrow>
   json option \<times> config_store \<times> registry" where
  "findByNameFromRedisHelper V io now key decode_fn st =
     (let (s, m) = st;
          prefixed_key = add_prefix (cc_config V) key;
          ttl_seconds = service_config_ttl (cc_config V);
          (cached, m) = get_from_memory_cache io now prefixed_key m;
          remember = (\<lambda>v. set_to_memory_cache io now prefixed_key v (Some ttl_seconds) m)
      in case cached of
           Inr cache_value \<Rightarrow> (if cache_value = [] then None else decoded V decode_fn cache_value, s, m)
         | Inl _ \<Rightarrow>
             (case get_from_redis_cache V io prefixed_key s of
                Some redis_value \<Rightarrow>
                  if redis_value \<noteq> [] then (decoded V decode_fn redis_value, s, remember redis_value)
                  else (None, s, remember [])
              | None \<Rightarrow>
                  (case find_config_by_name io key s of
                     Inr (Some service_config) \<Rightarrow>
                       (case cf_value service_config of
                          Some value \<Rightarrow>
                            (decoded V decode_fn value, set_to_redis_cache io prefixed_key value s, remember value)
                        | None \<Rightarrow> (None, s, remember []))
                   | Inr None \<Rightarrow> (None, s, remember [])
                   | Inl _ \<Rightarrow> (None, s, m))))"

definition findByNameFromRedis_cached ::
  "config_env \<Rightarrow> config_io \<Rightarrow> nat \<Rightarrow> string \<Rightarrow> config_store \<times> registry \<Rightarrow> json option \<times> config_store \<times> registry" where
  "findByNameFromRedis_cached V io now key = findByNameFromRedisHelper V io now key (Some (cc_extract V))"

definition findByNameFromRedisWithDecode ::
  "config_env \<Rightarrow> config_io \<Rightarrow> nat \<Rightarrow> string \<Rightarrow> (string \<Rightarrow> json option) \<Rightarrow> config_store \<times> registry \<Rightarrow>
   json option \<times> config_store \<times> registry" where
  "findByNameFromRedisWithDecode V io now key decode_fn = findByNameFromRedisHelper V io now key (Some decode_fn)"

text \<open>\<open>encode\<close>: serde writing the default, which may fail.\<close>

definition findByNameFromRedisWithDefault ::
  "config_env \<Rightarrow> config_io \<Rightarrow> nat \<Rightarrow> (json \<Rightarrow> string option) \<Rightarrow> string \<Rightarrow> json \<Rightarrow> config_store \<times> registry \<Rightarrow>
   json \<times> config_store \<times> registry" where
  "findByNameFromRedisWithDefault V io now encode key default_value st =
     (let (result, s, m) = findByNameFromRedisHelper V io now key (Some (cc_extract V)) st
      in case result of
           Some value \<Rightarrow> (value, s, m)
         | None \<Rightarrow>
             (case encode default_value of
                Some default_json \<Rightarrow>
                  (let prefixed_key = add_prefix (cc_config V) key
                   in (default_value, set_to_redis_cache io prefixed_key default_json s,
                       set_to_memory_cache io now prefixed_key default_json (Some (service_config_ttl (cc_config V))) m))
              | None \<Rightarrow> (default_value, s, m)))"

section \<open>Writing\<close>

definition write_through_service_config ::
  "config_env \<Rightarrow> config_io \<Rightarrow> nat \<Rightarrow> string \<Rightarrow> string \<Rightarrow> config_store \<times> registry \<Rightarrow> config_store \<times> registry" where
  "write_through_service_config V io now key value st =
     (let (s, m) = st; prefixed_key = add_prefix (cc_config V) key
      in (set_to_redis_cache io prefixed_key value s,
          set_to_memory_cache io now prefixed_key value (Some (service_config_ttl (cc_config V))) m))"

definition evict_service_config ::
  "config_env \<Rightarrow> config_io \<Rightarrow> nat \<Rightarrow> string \<Rightarrow> config_store \<times> registry \<Rightarrow> config_store \<times> registry" where
  "evict_service_config V io now key st =
     (let (s, m) = st; prefixed_key = add_prefix (cc_config V) key
      in (set_to_redis_cache io prefixed_key [] s,
          set_to_memory_cache io now prefixed_key [] (Some (service_config_ttl (cc_config V))) m))"

definition publish_config ::
  "config_env \<Rightarrow> config_io \<Rightarrow> nat \<Rightarrow> string \<Rightarrow> string option \<Rightarrow> config_store \<times> registry \<Rightarrow> config_store \<times> registry" where
  "publish_config V io now name value =
     (case value of
        Some v \<Rightarrow> write_through_service_config V io now name v
      | None \<Rightarrow> evict_service_config V io now name)"

definition insert_config ::
  "config_env \<Rightarrow> config_io \<Rightarrow> nat \<Rightarrow> string \<Rightarrow> string option \<Rightarrow> config_store \<times> registry \<Rightarrow>
   (mesh_error + unit) \<times> config_store \<times> registry" where
  "insert_config V io now name value st =
     (let (s, m) = st in
      if \<not> (ci_conn io \<and> ci_write io) then (Inl Mesh_Others, s, m)
      else
        (let row = \<lparr>cf_id = cs_next_id s, cf_name = name, cf_value = value, cf_new_value = None,
                    cf_previous_value = None, cf_new_value_status = None\<rparr>
         in (Inr (), publish_config V io now name value
               (s\<lparr>cs_rows := cs_rows s @ [row], cs_next_id := Suc (cs_next_id s)\<rparr>, m))))"

definition update_config ::
  "config_env \<Rightarrow> config_io \<Rightarrow> nat \<Rightarrow> string \<Rightarrow> string option \<Rightarrow> config_store \<times> registry \<Rightarrow>
   (mesh_error + unit) \<times> config_store \<times> registry" where
  "update_config V io now name value st =
     (let (s, m) = st in
      if \<not> ci_conn io then (Inl Mesh_DatabaseConnectionError, s, m)
      else if \<not> ci_write io then (Inl Mesh_Others, s, m)
      else if find_row name s = None then (Inl Mesh_NoRowstoUpdate, s, m)
      else
        (Inr (), publish_config V io now name value
           (s\<lparr>cs_rows := List.map (\<lambda>r. if cf_name r = name then r\<lparr>cf_value := value\<rparr> else r) (cs_rows s)\<rparr>, m)))"

definition delete_config ::
  "config_env \<Rightarrow> config_io \<Rightarrow> nat \<Rightarrow> string \<Rightarrow> config_store \<times> registry \<Rightarrow>
   (mesh_error + unit) \<times> config_store \<times> registry" where
  "delete_config V io now name st =
     (let (s, m) = st in
      if \<not> ci_conn io then (Inl Mesh_DatabaseConnectionError, s, m)
      else if \<not> ci_write io then (Inl Mesh_NotFound, s, m)
      else if find_row name s = None then (Inl Mesh_NoRowstoDelete, s, m)
      else
        (Inr (), evict_service_config V io now name
           (s\<lparr>cs_rows := filter (\<lambda>r. cf_name r \<noteq> name) (cs_rows s)\<rparr>, m)))"

section \<open>What is stored there: dimensions and contract rates\<close>

definition ELIGIBLE_DIMENSIONS :: "string list" where
  "ELIGIBLE_DIMENSIONS = [''currency'', ''country'', ''auth_type'', ''card_is_in'', ''card_network'']"

datatype sr_dimensions_error = SD_StorageError | SD_InvalidSrDimensionConfig string

definition invalid_dimensions :: "sr_dimension_config \<Rightarrow> string list" where
  "invalid_dimensions payload =
     (case di_fields (dm_payment_info payload) of
        Some dims \<Rightarrow> filter (\<lambda>d. d \<notin> set ELIGIBLE_DIMENSIONS) dims
      | None \<Rightarrow> [])"

definition sr_dimensions_name :: "string \<Rightarrow> string" where
  "sr_dimensions_name mid = ''SR_DIMENSION_CONFIG_'' @ mid"

text \<open>\<open>show_list\<close>: Rust's debug format of a list of texts.\<close>

definition config_sr_dimensions ::
  "config_env \<Rightarrow> config_io \<Rightarrow> nat \<Rightarrow> (string list \<Rightarrow> string) \<Rightarrow> (sr_dimension_config \<Rightarrow> string) \<Rightarrow>
   sr_dimension_config \<Rightarrow> config_store \<times> registry \<Rightarrow> (sr_dimensions_error + string) \<times> config_store \<times> registry" where
  "config_sr_dimensions V io now show_list encode payload st =
     (if invalid_dimensions payload \<noteq> [] then
        (Inl (SD_InvalidSrDimensionConfig (''Invalid dimensions: '' @ show_list (invalid_dimensions payload)
           @ ''. Valid dimensions are: '' @ join_with '', '' ELIGIBLE_DIMENSIONS)), st)
      else
        (let name = sr_dimensions_name (dm_merchant_id payload); config = encode payload
         in case find_config_by_name io name (fst st) of
              Inl _ \<Rightarrow> (Inl SD_StorageError, st)
            | Inr service_config \<Rightarrow>
                (let (result, st') =
                   (case service_config of
                      Some _ \<Rightarrow> update_config V io now name (Some config) st
                    | None \<Rightarrow> insert_config V io now name (Some config) st)
                 in case result of
                      Inl _ \<Rightarrow> (Inl SD_StorageError, st')
                    | Inr _ \<Rightarrow> (Inr ''SR Dimension configuration updated successfully'', st'))))"

definition get_sr_dimensions ::
  "config_io \<Rightarrow> (string \<Rightarrow> sr_dimension_config option) \<Rightarrow> string \<Rightarrow> config_store \<Rightarrow>
   sr_dimensions_error + sr_dimension_config" where
  "get_sr_dimensions io decode merchant_id s =
     (case find_config_by_name io (sr_dimensions_name merchant_id) s of
        Inl _ \<Rightarrow> Inl SD_StorageError
      | Inr stored \<Rightarrow>
          Inr (unwrap_or (Option.bind (Option.bind stored cf_value) decode)
            \<lparr>dm_merchant_id = merchant_id, dm_payment_info = \<lparr>di_udfs = [], di_fields = None\<rparr>\<rparr>))"

definition seed_costs_name :: "string \<Rightarrow> string" where
  "seed_costs_name merchant_id = ''cost_seed_costs::'' @ merchant_id"

definition get_seed_table ::
  "config_io \<Rightarrow> (string \<Rightarrow> seed_cost_entry list option) \<Rightarrow> string \<Rightarrow> config_store \<Rightarrow> seed_cost_entry list option" where
  "get_seed_table io decode merchant_id s =
     (case find_config_by_name io (seed_costs_name merchant_id) s of
        Inl _ \<Rightarrow> None
      | Inr stored \<Rightarrow> Option.bind (Option.bind stored cf_value) decode)"

definition put_seed_table ::
  "config_env \<Rightarrow> config_io \<Rightarrow> nat \<Rightarrow> (seed_cost_entry list \<Rightarrow> string) \<Rightarrow> string \<Rightarrow> seed_cost_entry list \<Rightarrow>
   config_store \<times> registry \<Rightarrow> (mesh_error + unit) \<times> config_store \<times> registry" where
  "put_seed_table V io now encode merchant_id table st =
     (let name = seed_costs_name merchant_id
      in case find_config_by_name io name (fst st) of
           Inl err \<Rightarrow> (Inl err, st)
         | Inr (Some _) \<Rightarrow> update_config V io now name (Some (encode table)) st
         | Inr None \<Rightarrow> insert_config V io now name (Some (encode table)) st)"

definition delete_seed_table ::
  "config_env \<Rightarrow> config_io \<Rightarrow> nat \<Rightarrow> string \<Rightarrow> config_store \<times> registry \<Rightarrow>
   (mesh_error + unit) \<times> config_store \<times> registry" where
  "delete_seed_table V io now merchant_id = delete_config V io now (seed_costs_name merchant_id)"

end
