(* ===== verification/Config_Correct.thy ===== *)
theory Config_Correct
  imports Service_Config
begin

text \<open>
  What readers of the service configuration see while several processes read and write it, calls fail
  and caches lose entries: a value that was in the table at most one time to live ago or a default that
  a reader left in the caches since, and one's own writes at once.
\<close>

section \<open>Processes, requests and the past\<close>

record config_system =
  sy_store :: config_store
  sy_memory :: "nat \<Rightarrow> registry"
  sy_now :: nat

text \<open>The default a reader leaves in the caches, with its time: when it got no value and could encode it.\<close>

definition default_left ::
  "config_env \<Rightarrow> config_io \<Rightarrow> nat \<Rightarrow> (json \<Rightarrow> string option) \<Rightarrow> string \<Rightarrow> json \<Rightarrow> config_store \<times> registry \<Rightarrow>
   (nat \<times> string \<times> string) list" where
  "default_left V io now encode key dflt st =
     (case (fst (findByNameFromRedisHelper V io now key (Some (cc_extract V)) st), encode dflt) of
        (None, Some text) \<Rightarrow> [(now, key, text)]
      | _ \<Rightarrow> [])"

text \<open>
  Callers insert a name only after they found no row of it. Redis may lose a key at any time, by expiry
  or eviction, and a process may start anew. A step comes with the defaults it leaves in the caches.
\<close>

inductive config_step ::
  "config_env \<Rightarrow> config_system \<Rightarrow> (nat \<times> string \<times> string) list \<Rightarrow> config_system \<Rightarrow> bool" for V where
  pass: "config_step V y [] (y\<lparr>sy_now := sy_now y + d\<rparr>)"
| read: "findByNameFromRedisHelper V io (sy_now y) key dec (sy_store y, sy_memory y p) = (res, s, m) \<Longrightarrow>
    config_step V y [] (y\<lparr>sy_store := s, sy_memory := (sy_memory y)(p := m)\<rparr>)"
| read_default: "findByNameFromRedisWithDefault V io (sy_now y) encode key dflt (sy_store y, sy_memory y p) = (res', s, m) \<Longrightarrow>
    config_step V y (default_left V io (sy_now y) encode key dflt (sy_store y, sy_memory y p))
      (y\<lparr>sy_store := s, sy_memory := (sy_memory y)(p := m)\<rparr>)"
| insert: "find_row name (sy_store y) = None \<Longrightarrow>
    insert_config V io (sy_now y) name value (sy_store y, sy_memory y p) = (r, s, m) \<Longrightarrow>
    config_step V y [] (y\<lparr>sy_store := s, sy_memory := (sy_memory y)(p := m)\<rparr>)"
| update: "update_config V io (sy_now y) name value (sy_store y, sy_memory y p) = (r, s, m) \<Longrightarrow>
    config_step V y [] (y\<lparr>sy_store := s, sy_memory := (sy_memory y)(p := m)\<rparr>)"
| delete: "delete_config V io (sy_now y) name (sy_store y, sy_memory y p) = (r, s, m) \<Longrightarrow>
    config_step V y [] (y\<lparr>sy_store := s, sy_memory := (sy_memory y)(p := m)\<rparr>)"
| forget: "config_step V y [] (y\<lparr>sy_store := (sy_store y)\<lparr>cs_redis := (cs_redis (sy_store y))(key := None)\<rparr>\<rparr>)"
| restart: "config_step V y [] (y\<lparr>sy_memory := (sy_memory y)(p := rg_new n)\<rparr>)"

text \<open>
  A system together with the states its table has been in, with their times, and the defaults that
  were left in the caches.
\<close>

inductive config_reach ::
  "config_env \<Rightarrow> config_system \<Rightarrow> (nat \<times> config_store) list \<Rightarrow> (nat \<times> string \<times> string) list \<Rightarrow> bool" for V where
  start: "cs_redis s = Map.empty \<Longrightarrow>
    config_reach V \<lparr>sy_store = s, sy_memory = (\<lambda>_. rg_new n), sy_now = 0\<rparr> [(0, s)] []"
| step: "config_reach V y H D \<Longrightarrow> config_step V y ds y' \<Longrightarrow> config_reach V y' ((sy_now y', sy_store y') # H) (ds @ D)"

definition config_value :: "string \<Rightarrow> config_store \<Rightarrow> string option" where
  "config_value name s = Option.bind (find_row name s) cf_value"

text \<open>No row holds a JSON string.\<close>

definition plain_rows :: "config_env \<Rightarrow> config_store \<Rightarrow> bool" where
  "plain_rows V s \<longleftrightarrow> (\<forall>row \<in> set (cs_rows s). \<forall>v. cf_value row = Some v \<longrightarrow> cc_string V v = None)"

section \<open>The registry\<close>

lemma set_AList_update: "set (AList.update k v xs) \<subseteq> insert (k, v) (set xs)"
  by (induction xs) auto

lemma hm_remove_subset: "set (hm_remove k xs) \<subseteq> set xs"
  by (induction xs) (auto simp: hm_remove_def)

lemma make_space_subset:
  "set (if length xs \<ge> n then (case xs of [] \<Rightarrow> xs | (k, _) # _ \<Rightarrow> hm_remove k xs) else xs) \<subseteq> set xs"
proof (cases xs)
  case (Cons x ys)
  then show ?thesis using hm_remove_subset [of "fst x" xs] by (simp add: split_def)
qed simp

lemma set_to_memory_entries:
  "set (rg_data (set_to_memory_cache io now k v ttl m)) \<subseteq>
     insert (k, \<lparr>ce_value = JStr v, ce_expires_at = map_option (\<lambda>t. now + 1000 * t) ttl\<rparr>) (set (rg_data m))"
proof (cases "ci_write_lock io")
  case True
  let ?e = "\<lparr>ce_value = JStr v, ce_expires_at = map_option (\<lambda>t. now + 1000 * t) ttl\<rparr>"
  let ?c = "cleanup_expired now (rg_data m)"
  let ?d = "if length ?c \<ge> rg_max_size m then (case ?c of [] \<Rightarrow> ?c | (k, _) # _ \<Rightarrow> hm_remove k ?c) else ?c"
  have "rg_data (set_to_memory_cache io now k v ttl m) = AList.update k ?e ?d"
    using True by (simp add: set_to_memory_cache_def rg_store_def hm_insert_def Let_def)
  moreover have "set ?c \<subseteq> set (rg_data m)" by (auto simp: cleanup_expired_def)
  then have "set ?d \<subseteq> set (rg_data m)" using make_space_subset [of "rg_max_size m" ?c] by (rule subset_trans [rotated])
  ultimately show ?thesis using set_AList_update [of k ?e ?d] by (simp only:) blast
qed (auto simp: set_to_memory_cache_def rg_store_def)

lemma get_from_memory_entries:
  "get_from_memory_cache io now k m = (r, m') \<Longrightarrow> set (rg_data m') \<subseteq> set (rg_data m)"
  using hm_remove_subset [of k "rg_data m"]
  by (auto simp: get_from_memory_cache_def rg_get_def split: if_splits option.splits)

lemma memory_hit:
  assumes "get_from_memory_cache io now k m = (Inr v, m')"
  shows "\<exists>e. (k, e) \<in> set (rg_data m) \<and> ce_value e = JStr v \<and> \<not> expired now e \<and> m' = m"
proof -
  have "\<exists>e. map_of (rg_data m) k = Some e \<and> \<not> expired now e \<and> string_of_value (ce_value e) = Inr v \<and> m' = m"
    using assms
    by (auto simp: get_from_memory_cache_def rg_get_def map_err_def split: if_splits option.splits sum.splits)
  moreover have "string_of_value j = Inr v \<Longrightarrow> j = JStr v" for j by (cases j) (simp_all add: string_of_value_def)
  ultimately show ?thesis by (blast dest: map_of_SomeD)
qed

section \<open>Nothing in a cache is older than its time to live\<close>

abbreviation config_ttl_ms :: "config_env \<Rightarrow> nat" where
  "config_ttl_ms V \<equiv> 1000 * service_config_ttl (cc_config V)"

text \<open>What a process may have noted of a name at some time: a value of the table or a default.\<close>

definition known ::
  "(nat \<times> config_store) set \<Rightarrow> (nat \<times> string \<times> string) set \<Rightarrow> nat \<Rightarrow> string \<Rightarrow> string \<Rightarrow> bool" where
  "known H D t key v \<longleftrightarrow>
     (\<exists>S. (t, S) \<in> H \<and> (config_value key S = Some v \<or> v = [] \<and> config_value key S = None)) \<or> (t, key, v) \<in> D"

definition memory_ok ::
  "config_env \<Rightarrow> (nat \<times> config_store) set \<Rightarrow> (nat \<times> string \<times> string) set \<Rightarrow> registry \<Rightarrow> bool" where
  "memory_ok V H D m \<longleftrightarrow> (\<forall>key e. (add_prefix (cc_config V) key, e) \<in> set (rg_data m) \<longrightarrow>
     (\<exists>v t. ce_value e = JStr v \<and> ce_expires_at e = Some (t + config_ttl_ms V) \<and> known H D t key v))"

definition redis_ok :: "config_env \<Rightarrow> config_store \<Rightarrow> bool" where
  "redis_ok V s \<longleftrightarrow> (\<forall>key raw. cs_redis s key = Some raw \<longrightarrow> raw = [] \<or> cc_string V raw = None)"

lemma add_prefix_inject [simp]: "add_prefix c k = add_prefix c k' \<longleftrightarrow> k = k'"
  by (simp add: add_prefix_def)

lemma known_mono: "known H D t key v \<Longrightarrow> H \<subseteq> H' \<Longrightarrow> D \<subseteq> D' \<Longrightarrow> known H' D' t key v"
  by (auto simp: known_def)

lemma memory_ok_mono: "memory_ok V H D m \<Longrightarrow> H \<subseteq> H' \<Longrightarrow> D \<subseteq> D' \<Longrightarrow> memory_ok V H' D' m"
  unfolding memory_ok_def using known_mono by meson

lemma memory_ok_subset: "memory_ok V H D m \<Longrightarrow> set (rg_data m') \<subseteq> set (rg_data m) \<Longrightarrow> memory_ok V H D m'"
  unfolding memory_ok_def by blast

lemma memory_ok_set:
  assumes "memory_ok V H D m" "known H D now key v"
  shows "memory_ok V H D (set_to_memory_cache io now (add_prefix (cc_config V) key) v
    (Some (service_config_ttl (cc_config V))) m)"
proof -
  let ?e = "\<lparr>ce_value = JStr v, ce_expires_at = Some (now + config_ttl_ms V)\<rparr>"
  have "(k, e) = (add_prefix (cc_config V) key, ?e) \<or> (k, e) \<in> set (rg_data m)"
    if "(k, e) \<in> set (rg_data (set_to_memory_cache io now (add_prefix (cc_config V) key) v
      (Some (service_config_ttl (cc_config V))) m))" for k e
    using set_to_memory_entries [of io now "add_prefix (cc_config V) key" v "Some (service_config_ttl (cc_config V))" m] that
    by auto
  then show ?thesis using assms unfolding memory_ok_def by fastforce
qed

lemma set_to_redis_rows [simp]: "cs_rows (set_to_redis_cache io k v s) = cs_rows s"
  by (simp add: set_to_redis_cache_def)

lemma config_value_rows: "cs_rows s = cs_rows s' \<Longrightarrow> config_value name s = config_value name s'"
  by (simp add: config_value_def find_row_def)

lemma redis_ok_set: "redis_ok V s \<Longrightarrow> v = [] \<or> cc_string V v = None \<Longrightarrow> redis_ok V (set_to_redis_cache io k v s)"
  by (auto simp: redis_ok_def set_to_redis_cache_def)

lemma redis_miss: "redis_ok V s \<Longrightarrow> get_from_redis_cache V io k s = None"
  by (auto simp: redis_ok_def get_from_redis_cache_def split: option.splits)

lemma plain_value: "plain_rows V s \<Longrightarrow> config_value name s = Some v \<Longrightarrow> cc_string V v = None"
  by (auto simp: plain_rows_def config_value_def find_row_def find_Some_iff bind_eq_Some_conv)

text \<open>A request that misses the registry and Redis answers the row and remembers it.\<close>

lemma read_past_caches:
  assumes "get_from_memory_cache io now (add_prefix (cc_config V) key) m = (Inl err, m1)"
    and "get_from_redis_cache V io (add_prefix (cc_config V) key) s = None"
    and "findByNameFromRedisHelper V io now key f (s, m) = (res, s', m')"
  shows "if ci_find io
    then res = Option.bind (config_value key s) (decoded V f)
      \<and> m' = set_to_memory_cache io now (add_prefix (cc_config V) key) (unwrap_or (config_value key s) [])
          (Some (service_config_ttl (cc_config V))) m1
      \<and> s' = (case config_value key s of
          Some v \<Rightarrow> set_to_redis_cache io (add_prefix (cc_config V) key) v s | None \<Rightarrow> s)
    else res = None \<and> m' = m1 \<and> s' = s"
  using assms
  by (auto simp: findByNameFromRedisHelper_def find_config_by_name_def config_value_def Let_def unwrap_or_def
      split: option.splits)

lemma known_value: "(now, s) \<in> H \<Longrightarrow> known H D now key (unwrap_or (config_value key s) [])"
  by (auto simp: known_def unwrap_or_def split: option.splits)

lemma read_keeps:
  assumes read: "findByNameFromRedisHelper V io now key f (s, m) = (res, s', m')"
    and ok: "memory_ok V H D m" "redis_ok V s" "plain_rows V s" "(now, s) \<in> H"
  shows "memory_ok V H D m'" "redis_ok V s'" "cs_rows s' = cs_rows s"
    and "decoded V f [] = None \<Longrightarrow> \<not> ci_find io \<and> res = None
        \<or> (\<exists>t v. known H D t key v \<and> now \<le> t + config_ttl_ms V \<and> res = decoded V f v)"
proof -
  let ?k = "add_prefix (cc_config V) key"
  obtain cached m1 where mem: "get_from_memory_cache io now ?k m = (cached, m1)" by fastforce
  have "memory_ok V H D m' \<and> redis_ok V s' \<and> cs_rows s' = cs_rows s
    \<and> (decoded V f [] = None \<longrightarrow> \<not> ci_find io \<and> res = None
        \<or> (\<exists>t v. known H D t key v \<and> now \<le> t + config_ttl_ms V \<and> res = decoded V f v))"
  proof (cases cached)
    case (Inr v)
    with mem read have r: "res = (if v = [] then None else decoded V f v)" "s' = s" "m' = m1"
      by (auto simp: findByNameFromRedisHelper_def Let_def)
    obtain e where e: "(?k, e) \<in> set (rg_data m)" "ce_value e = JStr v" "\<not> expired now e" "m1 = m"
      using memory_hit [of io now ?k m v m1] mem Inr by auto
    with ok(1) obtain t where "ce_expires_at e = Some (t + config_ttl_ms V)" "known H D t key v"
      unfolding memory_ok_def by fastforce
    then have "\<exists>t v. known H D t key v \<and> now \<le> t + config_ttl_ms V \<and> res = decoded V f v" if "decoded V f [] = None"
      using e r that by (intro exI [of _ t] exI [of _ v]) (auto simp: expired_def)
    then show ?thesis using e ok r by simp
  next
    case (Inl err)
    have mem': "get_from_memory_cache io now ?k m = (Inl err, m1)" using mem Inl by simp
    note past = read_past_caches [OF mem' redis_miss [OF ok(2)] read]
    have m1: "memory_ok V H D m1" using memory_ok_subset [OF ok(1) get_from_memory_entries [OF mem]] .
    show ?thesis
    proof (cases "ci_find io")
      case True
      have "memory_ok V H D m'" using past True memory_ok_set [OF m1 known_value [OF ok(4)]] by simp
      moreover have "redis_ok V s'"
        using past True ok(2) plain_value [OF ok(3)] redis_ok_set [OF ok(2)] by (auto split: option.splits)
      moreover have "res = decoded V f (unwrap_or (config_value key s) [])" if "decoded V f [] = None"
        using past True that by (cases "config_value key s") (simp_all add: unwrap_or_def)
      then have "decoded V f [] = None \<longrightarrow> (\<exists>t v. known H D t key v \<and> now \<le> t + config_ttl_ms V \<and> res = decoded V f v)"
        using known_value [OF ok(4), of D key] by (intro impI exI [of _ now]) auto
      ultimately show ?thesis using past True by (auto split: option.splits)
    next
      case False
      then show ?thesis using past m1 ok by simp
    qed
  qed
  then show "memory_ok V H D m'" "redis_ok V s'" "cs_rows s' = cs_rows s"
    and "decoded V f [] = None \<Longrightarrow> \<not> ci_find io \<and> res = None
        \<or> (\<exists>t v. known H D t key v \<and> now \<le> t + config_ttl_ms V \<and> res = decoded V f v)"
    by blast+
qed

text \<open>A reader with a default that gets no value leaves the default, which is known from then on.\<close>

lemma read_default_keeps:
  assumes read: "findByNameFromRedisWithDefault V io now encode key dflt (s, m) = (res, s', m')"
    and ok: "memory_ok V H D m" "redis_ok V s" "plain_rows V s" "(now, s) \<in> H"
    and D: "set (default_left V io now encode key dflt (s, m)) \<subseteq> D" "\<forall>(t, k, text) \<in> D. cc_string V text = None"
  shows "memory_ok V H D m' \<and> redis_ok V s' \<and> cs_rows s' = cs_rows s"
proof -
  obtain res1 s1 m1 where helper: "findByNameFromRedisHelper V io now key (Some (cc_extract V)) (s, m) = (res1, s1, m1)"
    by (metis prod_cases3)
  note kept = read_keeps [OF helper ok]
  show ?thesis
  proof (cases "res1 = None \<and> encode dflt \<noteq> None")
    case True
    then obtain d where d: "encode dflt = Some d" by auto
    have "(now, key, d) \<in> D" using D(1) True by (simp add: default_left_def helper d)
    then have "known H D now key d" "cc_string V d = None" using D(2) by (auto simp: known_def)
    then have "memory_ok V H D (set_to_memory_cache io now (add_prefix (cc_config V) key) d
        (Some (service_config_ttl (cc_config V))) m1)"
      and "redis_ok V (set_to_redis_cache io (add_prefix (cc_config V) key) d s1)"
      using memory_ok_set [OF kept(1)] redis_ok_set [OF kept(2)] by auto
    then show ?thesis
      using read helper True d kept(3) by (auto simp: findByNameFromRedisWithDefault_def Let_def)
  next
    case False
    then have "s' = s1 \<and> m' = m1"
      using read helper by (auto simp: findByNameFromRedisWithDefault_def Let_def split: option.splits)
    then show ?thesis using kept(1-3) by simp
  qed
qed

section \<open>Writes\<close>

lemma publish_eq:
  "publish_config V io now name value (s, m) =
     (set_to_redis_cache io (add_prefix (cc_config V) name) (unwrap_or value []) s,
      set_to_memory_cache io now (add_prefix (cc_config V) name) (unwrap_or value [])
        (Some (service_config_ttl (cc_config V))) m)"
  by (cases "value")
    (simp_all add: publish_config_def write_through_service_config_def evict_service_config_def Let_def unwrap_or_def)

lemma publish_keeps:
  assumes "publish_config V io now name value (s, m) = (s', m')" "config_value name s = value"
    and "memory_ok V H D m" "redis_ok V s" "plain_rows V s" "(now, s') \<in> H"
  shows "memory_ok V H D m' \<and> redis_ok V s'"
proof -
  have s': "cs_rows s' = cs_rows s" using assms(1) by (auto simp: publish_eq)
  then have "config_value name s' = value" using assms(2) by (simp add: config_value_rows [OF s'])
  then have "memory_ok V H D m'"
    using assms(1) memory_ok_set [OF assms(3) known_value [OF assms(6)], of io name] by (auto simp: publish_eq)
  moreover have "redis_ok V s'"
    using assms(1,2) redis_ok_set [OF assms(4)] plain_value [OF assms(5), of name]
    by (auto simp: publish_eq unwrap_or_def split: option.splits)
  ultimately show ?thesis by simp
qed

lemma find_snoc: "find P (xs @ [y]) = (case find P xs of Some x \<Rightarrow> Some x | None \<Rightarrow> if P y then Some y else None)"
  by (induction xs) auto

lemma find_map_if:
  "(\<And>x. P (f x) = P x) \<Longrightarrow> find P (List.map (\<lambda>x. if P x then f x else x) xs) = map_option f (find P xs)"
  by (induction xs) auto

lemma find_filter_neg: "find P (filter (\<lambda>x. \<not> P x) xs) = None"
  by (induction xs) auto

text \<open>What a write that succeeds leaves: the value in the table, published to the caches.\<close>

lemma insert_config_cases:
  assumes "insert_config V io now name value (s, m) = (r, s', m')"
  shows "r \<noteq> Inr () \<and> s' = s \<and> m' = m
    \<or> r = Inr () \<and> (find_row name s = None \<longrightarrow> (\<exists>s1. cs_redis s1 = cs_redis s \<and> config_value name s1 = value
        \<and> publish_config V io now name value (s1, m) = (s', m')))"
proof (cases "ci_conn io \<and> ci_write io")
  case True
  let ?s1 = "s\<lparr>cs_rows := cs_rows s @ [\<lparr>cf_id = cs_next_id s, cf_name = name, cf_value = value, cf_new_value = None,
    cf_previous_value = None, cf_new_value_status = None\<rparr>], cs_next_id := Suc (cs_next_id s)\<rparr>"
  have "find_row name s = None \<Longrightarrow> config_value name ?s1 = value"
    by (simp add: config_value_def find_row_def find_snoc)
  with assms True show ?thesis by (intro disjI2) (auto simp: insert_config_def Let_def intro!: exI [of _ ?s1])
qed (use assms in \<open>auto simp: insert_config_def\<close>)

lemma update_config_cases:
  assumes "update_config V io now name value (s, m) = (r, s', m')"
  shows "r \<noteq> Inr () \<and> s' = s \<and> m' = m
    \<or> r = Inr () \<and> (\<exists>s1. cs_redis s1 = cs_redis s \<and> config_value name s1 = value
        \<and> publish_config V io now name value (s1, m) = (s', m'))"
proof (cases "ci_conn io \<and> ci_write io \<and> find_row name s \<noteq> None")
  case True
  let ?s1 = "s\<lparr>cs_rows := List.map (\<lambda>r. if cf_name r = name then r\<lparr>cf_value := value\<rparr> else r) (cs_rows s)\<rparr>"
  have "config_value name ?s1 = value"
    using True find_map_if [of "\<lambda>r. cf_name r = name" "\<lambda>r. r\<lparr>cf_value := value\<rparr>" "cs_rows s"]
    by (auto simp: config_value_def find_row_def)
  with assms True show ?thesis by (intro disjI2) (auto simp: update_config_def Let_def intro!: exI [of _ ?s1])
qed (use assms in \<open>auto simp: update_config_def split: if_splits\<close>)

lemma delete_config_cases:
  assumes "delete_config V io now name (s, m) = (r, s', m')"
  shows "r \<noteq> Inr () \<and> s' = s \<and> m' = m
    \<or> r = Inr () \<and> (\<exists>s1. cs_redis s1 = cs_redis s \<and> config_value name s1 = None
        \<and> publish_config V io now name None (s1, m) = (s', m'))"
proof (cases "ci_conn io \<and> ci_write io \<and> find_row name s \<noteq> None")
  case True
  let ?s1 = "s\<lparr>cs_rows := filter (\<lambda>r. cf_name r \<noteq> name) (cs_rows s)\<rparr>"
  have "config_value name ?s1 = None"
    using find_filter_neg [of "\<lambda>r. cf_name r = name" "cs_rows s"] by (simp add: config_value_def find_row_def)
  with assms True show ?thesis
    by (intro disjI2) (auto simp: delete_config_def publish_config_def Let_def intro!: exI [of _ ?s1])
qed (use assms in \<open>auto simp: delete_config_def split: if_splits\<close>)


section \<open>Reads are at most one time to live old\<close>

definition config_inv ::
  "config_env \<Rightarrow> config_system \<Rightarrow> (nat \<times> config_store) set \<Rightarrow> (nat \<times> string \<times> string) set \<Rightarrow> bool" where
  "config_inv V y H D \<longleftrightarrow>
     (sy_now y, sy_store y) \<in> H \<and> redis_ok V (sy_store y) \<and> (\<forall>p. memory_ok V H D (sy_memory y p))"

lemma plain_rows_cong: "cs_rows s = cs_rows s' \<Longrightarrow> plain_rows V s = plain_rows V s'"
  by (simp add: plain_rows_def)

lemma publish_rows: "publish_config V io now name v (s, m) = (s', m') \<Longrightarrow> cs_rows s' = cs_rows s"
  by (auto simp: publish_eq)

lemma write_keeps:
  assumes inv: "config_inv V y H D" and plain: "plain_rows V s" and H: "insert (sy_now y, s) H = H'"
    and wrote: "s = sy_store y \<and> m = sy_memory y p
      \<or> (\<exists>s1. cs_redis s1 = cs_redis (sy_store y) \<and> config_value name s1 = v
          \<and> publish_config V io (sy_now y) name v (s1, sy_memory y p) = (s, m))"
  shows "config_inv V (y\<lparr>sy_store := s, sy_memory := (sy_memory y)(p := m)\<rparr>) H' D"
proof -
  have mem: "memory_ok V H' D (sy_memory y q)" for q
    using inv H by (auto simp: config_inv_def intro: memory_ok_mono)
  have "memory_ok V H' D m \<and> redis_ok V s"
    using wrote
  proof (elim disjE exE conjE)
    fix s1
    assume s1: "cs_redis s1 = cs_redis (sy_store y)" "config_value name s1 = v"
      "publish_config V io (sy_now y) name v (s1, sy_memory y p) = (s, m)"
    have "redis_ok V s1" using inv s1(1) by (simp add: config_inv_def redis_ok_def)
    moreover have "plain_rows V s1" using plain plain_rows_cong [OF publish_rows [OF s1(3)]] by simp
    ultimately show ?thesis using publish_keeps [OF s1(3,2) mem] H by auto
  qed (use inv mem in \<open>simp add: config_inv_def\<close>)
  with mem H show ?thesis by (auto simp: config_inv_def)
qed

text \<open>A reader leaves the table as it is.\<close>

lemma reader_keeps:
  assumes "config_inv V y H D" "insert (sy_now y, s) H = H'"
    and "memory_ok V H D m \<and> redis_ok V s \<and> cs_rows s = cs_rows (sy_store y)"
  shows "config_inv V (y\<lparr>sy_store := s, sy_memory := (sy_memory y)(p := m)\<rparr>) H' D"
proof -
  have "memory_ok V H' D m'" if "memory_ok V H D m'" for m'
    by (rule memory_ok_mono [OF that]) (use assms(2) in auto)
  moreover have "(sy_now y, s) \<in> H'" using assms(2) by auto
  ultimately show ?thesis using assms(1,3) by (simp add: config_inv_def)
qed

lemma config_inv_mono_default: "config_inv V y H D \<Longrightarrow> D \<subseteq> D' \<Longrightarrow> config_inv V y H D'"
  by (auto simp: config_inv_def intro: memory_ok_mono)

lemma config_inv_step:
  assumes "config_step V y ds y'" "config_inv V y H D" "plain_rows V (sy_store y)" "plain_rows V (sy_store y')"
    and "set ds \<subseteq> D" "\<forall>(t, k, text) \<in> D. cc_string V text = None"
  shows "config_inv V y' (insert (sy_now y', sy_store y') H) D"
  using assms
proof (induction rule: config_step.induct)
  case (read io y key dec p res s m)
  have "memory_ok V H D m \<and> redis_ok V s \<and> cs_rows s = cs_rows (sy_store y)"
    using read_keeps [OF read(1), of H D] read(2,3) by (simp add: config_inv_def)
  with reader_keeps [OF read(2) refl] show ?case by simp
next
  case (read_default io y encode key dflt p res' s m)
  have "memory_ok V H D m \<and> redis_ok V s \<and> cs_rows s = cs_rows (sy_store y)"
    using read_default(2,3,5,6) by (intro read_default_keeps [OF read_default(1)]) (simp_all add: config_inv_def)
  with reader_keeps [OF read_default(2) refl] show ?case by simp
next
  case (insert name y io val p r s m)
  have "s = sy_store y \<and> m = sy_memory y p
      \<or> (\<exists>s1. cs_redis s1 = cs_redis (sy_store y) \<and> config_value name s1 = val
          \<and> publish_config V io (sy_now y) name val (s1, sy_memory y p) = (s, m))"
    using insert_config_cases [OF insert(2)] insert(1) by blast
  with insert(3,5) show ?case using write_keeps [of V y H D s] by simp
next
  case (update io y name val p r s m)
  have "s = sy_store y \<and> m = sy_memory y p
      \<or> (\<exists>s1. cs_redis s1 = cs_redis (sy_store y) \<and> config_value name s1 = val
          \<and> publish_config V io (sy_now y) name val (s1, sy_memory y p) = (s, m))"
    using update_config_cases [OF update(1)] by blast
  with update(2,4) show ?case using write_keeps [of V y H D s] by simp
next
  case (delete io y name p r s m)
  have "s = sy_store y \<and> m = sy_memory y p
      \<or> (\<exists>s1. cs_redis s1 = cs_redis (sy_store y) \<and> config_value name s1 = None
          \<and> publish_config V io (sy_now y) name None (s1, sy_memory y p) = (s, m))"
    using delete_config_cases [OF delete(1)] by blast
  with delete(2,4) show ?case using write_keeps [of V y H D s] by simp
next
  case (restart y p n)
  then show ?case by (auto simp: config_inv_def rg_new_def intro: memory_ok_mono) (simp add: memory_ok_def)
qed (auto simp: config_inv_def redis_ok_def intro: memory_ok_mono)

lemma config_reach_inv:
  "config_reach V y H D \<Longrightarrow> (\<forall>(t, S) \<in> set H. plain_rows V S) \<and> (\<forall>(t, k, text) \<in> set D. cc_string V text = None) \<longrightarrow>
     config_inv V y (set H) (set D)"
proof (induction rule: config_reach.induct)
  case (start s n)
  then show ?case by (simp add: config_inv_def redis_ok_def memory_ok_def rg_new_def)
next
  case (step y H D ds y')
  show ?case
  proof
    assume plain: "(\<forall>(t, S) \<in> set ((sy_now y', sy_store y') # H). plain_rows V S)
      \<and> (\<forall>(t, k, text) \<in> set (ds @ D). cc_string V text = None)"
    with step(3) have "config_inv V y (set H) (set D)" by auto
    then have inv: "config_inv V y (set H) (set (ds @ D))" by (rule config_inv_mono_default) simp
    then have "plain_rows V (sy_store y)" using plain by (auto simp: config_inv_def)
    with config_inv_step [OF step(2) inv] plain
    show "config_inv V y' (set ((sy_now y', sy_store y') # H)) (set (ds @ D))" by auto
  qed
qed

text \<open>
  C38. Bounded staleness. Processes read with and without a default, insert, update and delete
  configurations through their own registry and a shared Redis; calls fail, Redis loses keys and
  processes restart at any time. Callers insert only names without a row, and neither a row nor a
  default is the text of a JSON string, nor does the reader decode the empty text. Then a read answers,
  decoded, the value the table held at some moment at most one time to live ago, or none where it held
  none; or a default that a reader of the name that got no value left in the caches at most one time to
  live ago; or none, if the table could not be read.
\<close>

theorem reads_at_most_ttl_old:
  assumes "config_reach V y H D" and "\<forall>(t, S) \<in> set H. plain_rows V S"
    and "\<forall>(t, k, text) \<in> set D. cc_string V text = None" and "decoded V f [] = None"
    and "findByNameFromRedisHelper V io (sy_now y) key f (sy_store y, sy_memory y p) = (res, s, m)"
  shows "(\<exists>(t, S) \<in> set H. sy_now y \<le> t + 1000 * service_config_ttl (cc_config V)
        \<and> res = Option.bind (config_value key S) (decoded V f))
    \<or> (\<exists>t text. (t, key, text) \<in> set D \<and> sy_now y \<le> t + 1000 * service_config_ttl (cc_config V) \<and> res = decoded V f text)
    \<or> \<not> ci_find io \<and> res = None"
proof -
  have inv: "config_inv V y (set H) (set D)" using config_reach_inv [OF assms(1)] assms(2,3) by simp
  then have "plain_rows V (sy_store y)" using assms(2) by (auto simp: config_inv_def)
  with read_keeps(4) [OF assms(5), of "set H" "set D"] inv assms(4)
  consider "\<not> ci_find io \<and> res = None" | t v where "known (set H) (set D) t key v" "sy_now y \<le> t + config_ttl_ms V"
    "res = decoded V f v" by (auto simp: config_inv_def)
  then show ?thesis
  proof cases
    case 2
    then show ?thesis using assms(4) by (auto simp: known_def intro: bexI [rotated])
  qed simp
qed

section \<open>One's own writes\<close>

lemma rg_data_set_same:
  "ci_write_lock io \<Longrightarrow> map_of (rg_data (set_to_memory_cache io now k v (Some ttl) m)) k =
     Some \<lparr>ce_value = JStr v, ce_expires_at = Some (now + 1000 * ttl)\<rparr>"
  by (simp add: set_to_memory_cache_def rg_store_def Let_def)

lemma get_own_entry:
  assumes "map_of (rg_data m) k = Some e" "ce_value e = JStr v"
    and "get_from_memory_cache io now k m = (r, m')"
  shows "r = Inr v \<or> (\<exists>err. r = Inl err) \<and> (\<not> ci_read_lock io \<or> expired now e)"
  using assms by (cases r) (auto simp: get_from_memory_cache_def rg_get_def string_of_value_def map_err_def split: if_splits option.splits)

lemma written_is_read:
  assumes "publish_config V io now name v (s1, m) = (s', m')" "config_value name s1 = v"
    and "ci_redis_write io" "ci_write_lock io" "\<And>x. v = Some x \<Longrightarrow> cc_string V x = None"
    and "decoded V f [] = None"
  shows "fst (findByNameFromRedisHelper V io' now' name f (s', m')) = Option.bind v (decoded V f)
    \<or> \<not> ci_find io' \<and> (\<not> ci_read_lock io' \<or> now + 1000 * service_config_ttl (cc_config V) < now')
        \<and> fst (findByNameFromRedisHelper V io' now' name f (s', m')) = None"
proof -
  let ?k = "add_prefix (cc_config V) name"
  obtain cached m1 where mem: "get_from_memory_cache io' now' ?k m' = (cached, m1)" by fastforce
  obtain res s2 m2 where read: "findByNameFromRedisHelper V io' now' name f (s', m') = (res, s2, m2)"
    by (metis prod_cases3)
  have val: "config_value name s' = v"
    using config_value_rows [OF publish_rows [OF assms(1)]] assms(2) by simp
  have "map_of (rg_data m') ?k = Some \<lparr>ce_value = JStr (unwrap_or v []), ce_expires_at =
      Some (now + config_ttl_ms V)\<rparr>"
    using assms(1) rg_data_set_same [OF assms(4)] by (auto simp: publish_eq)
  from get_own_entry [OF this _ mem] consider "cached = Inr (unwrap_or v [])"
    | err where "cached = Inl err" "\<not> ci_read_lock io' \<or> now + config_ttl_ms V < now'"
    by (auto simp: expired_def)
  then show ?thesis
  proof cases
    case 1
    with mem read assms(6) show ?thesis
      by (cases v) (auto simp: findByNameFromRedisHelper_def Let_def unwrap_or_def split: if_splits)
  next
    case 2
    have "cs_redis s' ?k = Some (unwrap_or v [])"
      using assms(1,3) by (auto simp: publish_eq set_to_redis_cache_def)
    then have "get_from_redis_cache V io' ?k s' = None"
      using assms(5) by (cases v) (auto simp: get_from_redis_cache_def unwrap_or_def)
    from read_past_caches [OF mem [unfolded 2(1)] this read] show ?thesis using 2(2) read val by (auto split: if_splits)
  qed
qed

text \<open>
  C39. A process reads what it has written. After an update or a delete that succeeded and whose value,
  not the text of a JSON string, went into the registry and Redis, a read of the name by the process in
  the state it left, at any later time and with a decoder that rejects the empty text, answers the new
  value, decoded, or none for a deleted name: the registry may still hold it, have let it expire or not be lockable, and Redis may answer or not. Only
  when neither the registry nor the table can be read does it answer none instead.
\<close>

theorem own_writes_are_read:
  assumes "update_config V io now name v (s, m) = (Inr (), s', m')
      \<or> v = None \<and> delete_config V io now name (s, m) = (Inr (), s', m')"
    and "ci_redis_write io" "ci_write_lock io" "\<And>x. v = Some x \<Longrightarrow> cc_string V x = None"
    and "decoded V f [] = None"
  shows "fst (findByNameFromRedisHelper V io' now' name f (s', m')) = Option.bind v (decoded V f)
    \<or> \<not> ci_find io' \<and> (\<not> ci_read_lock io' \<or> now + 1000 * service_config_ttl (cc_config V) < now')
        \<and> fst (findByNameFromRedisHelper V io' now' name f (s', m')) = None"
proof -
  obtain s1 where "config_value name s1 = v" "publish_config V io now name v (s1, m) = (s', m')"
    using assms(1) update_config_cases [of V io now name v s m "Inr ()" s' m']
      delete_config_cases [of V io now name s m "Inr ()" s' m'] by auto
  then show ?thesis using written_is_read [OF _ _ assms(2-5)] by blast
qed

section \<open>Settings kept in the table\<close>

text \<open>Inserted when there is no row, updated else: what the callers do.\<close>

lemma upsert_value:
  assumes "(case find_row name s of Some _ \<Rightarrow> update_config V io now name v (s, m)
      | None \<Rightarrow> insert_config V io now name v (s, m)) = (Inr (), s', m')"
  shows "config_value name s' = v"
proof -
  obtain s1 where "config_value name s1 = v" "publish_config V io now name v (s1, m) = (s', m')"
    using assms update_config_cases [of V io now name v s m "Inr ()" s' m']
      insert_config_cases [of V io now name v s m "Inr ()" s' m'] by (auto split: option.splits)
  then show ?thesis using config_value_rows [OF publish_rows] by metis
qed

lemma find_config_Inr: "find_config_by_name io name s = Inr r \<longleftrightarrow> ci_find io \<and> r = find_row name s"
  by (auto simp: find_config_by_name_def)

lemma get_sr_dimensions_stored:
  "ci_find io \<Longrightarrow> config_value (sr_dimensions_name mid) s = Some v \<Longrightarrow> decode v = Some c \<Longrightarrow>
     get_sr_dimensions io decode mid s = Inr c"
  by (auto simp: get_sr_dimensions_def find_config_by_name_def config_value_def unwrap_or_def bind_eq_Some_conv)

lemma get_seed_table_stored:
  "ci_find io \<Longrightarrow> config_value (seed_costs_name merchant) s = Some v \<Longrightarrow> get_seed_table io decode merchant s = decode v"
  by (auto simp: get_seed_table_def find_config_by_name_def config_value_def bind_eq_Some_conv)

text \<open>Contract rates that are stored supersede those of the configuration unless they are empty.\<close>

lemma stored_rates_supersede:
  assumes "put_seed_table V io now encode merchant table (s, m) = (Inr (), s', m')" "ci_find io'"
    and "decode (encode table) = Some table"
  shows "effective_seed_entries (get_seed_table io' decode merchant s') defaults = (if table = [] then defaults else table)"
proof -
  have "config_value (seed_costs_name merchant) s' = Some (encode table)"
    by (rule upsert_value [of V io now _ _ s m s' m'])
      (use assms(1) in \<open>auto simp: put_seed_table_def find_config_by_name_def Let_def split: if_splits option.splits\<close>)
  then show ?thesis
    using get_seed_table_stored [OF assms(2)] assms(3) by (auto simp: effective_seed_entries_def split: list.splits)
qed

text \<open>
  The dimensions a merchant asks for are stored exactly when all of them are eligible and the table
  can be read and written, and are then what every later request reads; a request that fails changes
  neither the table nor a cache, and blames the dimensions only if one of them is not eligible.
\<close>

theorem sr_dimensions_read_back:
  assumes "decode (encode payload) = Some payload"
  shows "case config_sr_dimensions V io now show_list encode payload (s, m) of
      (Inr msg, s', m') \<Rightarrow> invalid_dimensions payload = []
        \<and> (\<forall>io'. ci_find io' \<longrightarrow> get_sr_dimensions io' decode (dm_merchant_id payload) s' = Inr payload)
    | (Inl err, s', m') \<Rightarrow> s' = s \<and> m' = m \<and> (err = SD_StorageError \<longleftrightarrow> invalid_dimensions payload = [])"
proof -
  let ?name = "sr_dimensions_name (dm_merchant_id payload)"
  let ?up = "case find_row ?name s of
      Some _ \<Rightarrow> update_config V io now ?name (Some (encode payload)) (s, m)
    | None \<Rightarrow> insert_config V io now ?name (Some (encode payload)) (s, m)"
  obtain r s1 m1 where up: "?up = (r, s1, m1)" by (metis prod_cases3)
  have failed: "r \<noteq> Inr () \<Longrightarrow> s1 = s \<and> m1 = m"
    using up update_config_cases [of V io now ?name "Some (encode payload)" s m r s1 m1]
      insert_config_cases [of V io now ?name "Some (encode payload)" s m r s1 m1] by (auto split: option.splits)
  have ok: "config_value ?name s1 = Some (encode payload)" if "r = Inr ()"
    by (rule upsert_value [of V io now _ _ s m s1 m1]) (use up that in simp)
  show ?thesis
  proof (cases "invalid_dimensions payload = [] \<and> ci_find io")
    case True
    then have "config_sr_dimensions V io now show_list encode payload (s, m) =
        (case r of Inl _ \<Rightarrow> Inl SD_StorageError | Inr _ \<Rightarrow> Inr ''SR Dimension configuration updated successfully'', s1, m1)"
      using up by (auto simp: config_sr_dimensions_def find_config_by_name_def Let_def split: option.splits sum.splits)
    moreover have "ci_find io' \<Longrightarrow> get_sr_dimensions io' decode (dm_merchant_id payload) s1 = Inr payload" if "r = Inr ()" for io'
      by (rule get_sr_dimensions_stored [where decode = decode, OF _ ok [OF that] assms])
    ultimately show ?thesis using True failed by (auto split: sum.splits)
  qed (auto simp: config_sr_dimensions_def find_config_by_name_def)
qed

section \<open>What is not kept\<close>

text \<open>
  The mark of a name without value is never read from Redis, a text there that is a JSON string comes
  back without its quotes, and a second row of a name is shadowed by the first once the caches expire.
\<close>

lemma negative_mark_not_read: "cs_redis s key = Some [] \<Longrightarrow> get_from_redis_cache V io key s = None"
  by (simp add: get_from_redis_cache_def)

lemma json_string_loses_quotes:
  assumes "get_from_memory_cache io now (add_prefix (cc_config V) key) m = (Inl err, m1)"
    and "ci_redis_read io" "cs_redis s (add_prefix (cc_config V) key) = Some raw" "raw \<noteq> []"
    and "cc_string V raw = Some text" "text \<noteq> []"
  shows "fst (findByNameFromRedisHelper V io now key f (s, m)) = decoded V f text"
  using assms by (simp add: findByNameFromRedisHelper_def get_from_redis_cache_def Let_def)

lemma second_row_is_shadowed:
  assumes "find_row name s = Some row" "insert_config V io now name v (s, m) = (Inr (), s', m')"
  shows "find_row name s' = Some row"
  using assms
  by (auto simp: insert_config_def find_row_def find_snoc publish_eq Let_def split: if_splits)

text \<open>After a failed read of the table the default is cached and answered to all readers of the name.\<close>

lemma default_supersedes_row:
  assumes "get_from_memory_cache io now (add_prefix (cc_config V) key) m = (Inl err, m1)" "\<not> ci_find io"
    and "get_from_redis_cache V io (add_prefix (cc_config V) key) s = None" "ci_write_lock io"
    and "encode dflt = Some text" "findByNameFromRedisWithDefault V io now encode key dflt (s, m) = (out, s', m')"
    and "text \<noteq> []" "ci_read_lock io'" "now' \<le> now + 1000 * service_config_ttl (cc_config V)"
  shows "fst (findByNameFromRedisHelper V io' now' key f (s', m')) = decoded V f text"
proof -
  let ?k = "add_prefix (cc_config V) key"
  have "findByNameFromRedisHelper V io now key (Some (cc_extract V)) (s, m) = (None, s, m1)"
    using assms(1-3) by (simp add: findByNameFromRedisHelper_def find_config_by_name_def Let_def)
  then have "m' = set_to_memory_cache io now ?k text (Some (service_config_ttl (cc_config V))) m1"
    using assms(5,6) by (auto simp: findByNameFromRedisWithDefault_def Let_def)
  then have "map_of (rg_data m') ?k = Some \<lparr>ce_value = JStr text, ce_expires_at = Some (now + config_ttl_ms V)\<rparr>"
    using rg_data_set_same [OF assms(4)] by simp
  then have "get_from_memory_cache io' now' ?k m' = (Inr text, m')"
    using assms(8,9) by (simp add: get_from_memory_cache_def rg_get_def expired_def string_of_value_def)
  then show ?thesis using assms(7) by (simp add: findByNameFromRedisHelper_def Let_def)
qed

section \<open>Two processes\<close>

definition demo_config_io :: config_io where
  "demo_config_io = \<lparr>ci_conn = True, ci_find = True, ci_write = True, ci_redis_read = True, ci_redis_write = True,
     ci_read_lock = True, ci_write_lock = True\<rparr>"

definition demo_config_env :: config_env where
  "demo_config_env = \<lparr>cc_config = \<lparr>service_config_redis_prefix = ''DE_'', service_config_ttl = 300\<rparr>,
     cc_string = (\<lambda>_. None), cc_extract = (\<lambda>s. if s = [] then None else Some (JStr s))\<rparr>"

definition demo_config_row :: service_configuration where
  "demo_config_row = \<lparr>cf_id = 1, cf_name = ''k'', cf_value = Some ''old'', cf_new_value = None, cf_previous_value = None,
     cf_new_value_status = None\<rparr>"

definition demo_config_store :: config_store where
  "demo_config_store = \<lparr>cs_rows = [demo_config_row], cs_next_id = 2, cs_redis = Map.empty\<rparr>"

definition demo_config_system :: config_system where
  "demo_config_system = \<lparr>sy_store = demo_config_store, sy_memory = (\<lambda>_. rg_new 2), sy_now = 0\<rparr>"

text \<open>A process reads the row, another one changes it: the first answers one of the two values.\<close>

lemma reads_at_most_ttl_old_witness:
  "\<exists>y H. config_reach demo_config_env y H [] \<and> length H = 3 \<and> config_value ''k'' (sy_store y) = Some ''new''
    \<and> fst (findByNameFromRedisHelper demo_config_env demo_config_io (sy_now y) ''k'' None (sy_store y, sy_memory y (1::nat)))
        \<in> {Some (JStr ''old''), Some (JStr ''new'')}"
proof -
  let ?V = demo_config_env and ?io = demo_config_io
  obtain r1 s1 m1 where first: "findByNameFromRedisHelper ?V ?io 0 ''k'' None (demo_config_store, rg_new 2) = (r1, s1, m1)"
    by (metis prod_cases3)
  define y1 where "y1 = demo_config_system\<lparr>sy_store := s1, sy_memory := (sy_memory demo_config_system)(1 := m1)\<rparr>"
  obtain r2 s2 m2 where second: "update_config ?V ?io 0 ''k'' (Some ''new'') (s1, rg_new 2) = (r2, s2, m2)"
    by (metis prod_cases3)
  define y2 where "y2 = y1\<lparr>sy_store := s2, sy_memory := (sy_memory y1)(2 := m2)\<rparr>"
  let ?H = "[(0, s2), (0, s1), (0, demo_config_store)]"
  have "config_reach ?V demo_config_system [(0, demo_config_store)] []"
    unfolding demo_config_system_def by (rule config_reach.start) (simp add: demo_config_store_def)
  moreover have "config_step ?V demo_config_system [] y1"
    unfolding y1_def by (rule config_step.read [of _ ?io _ "''k''" None 1 r1]) (use first in \<open>simp add: demo_config_system_def\<close>)
  moreover have "config_step ?V y1 [] y2"
    unfolding y2_def
    by (rule config_step.update [of _ ?io _ "''k''" "Some ''new''" 2 r2]) (use second in \<open>simp add: y1_def demo_config_system_def\<close>)
  ultimately have reach: "config_reach ?V y2 ?H []"
    using config_reach.step [of ?V y1 "[(0, s1), (0, demo_config_store)]" "[]" "[]" y2]
      config_reach.step [of ?V demo_config_system "[(0, demo_config_store)]" "[]" "[]" y1]
    by (simp add: y1_def y2_def demo_config_system_def)
  have rows: "cs_rows s1 = [demo_config_row]" "cs_rows s2 = [demo_config_row\<lparr>cf_value := Some ''new''\<rparr>]"
    using first second
    by (auto simp: findByNameFromRedisHelper_def get_from_memory_cache_def rg_get_def rg_new_def get_from_redis_cache_def
        find_config_by_name_def find_row_def update_config_def publish_eq demo_config_store_def demo_config_row_def
        demo_config_io_def Let_def)
  obtain res s m where read: "findByNameFromRedisHelper ?V ?io (sy_now y2) ''k'' None (sy_store y2, sy_memory y2 1) = (res, s, m)"
    by (metis prod_cases3)
  from reads_at_most_ttl_old [OF reach _ _ _ read]
  have "\<exists>(t, S) \<in> set ?H. res = Option.bind (config_value ''k'' S) (decoded ?V None)"
    by (auto simp: demo_config_env_def demo_config_io_def plain_rows_def decoded_def)
  moreover have "config_value ''k'' s1 = Some ''old''" "config_value ''k'' s2 = Some ''new''"
    "config_value ''k'' demo_config_store = Some ''old''"
    using rows by (simp_all add: config_value_def find_row_def demo_config_row_def demo_config_store_def)
  ultimately have "res \<in> {Some (JStr ''old''), Some (JStr ''new'')}" "config_value ''k'' (sy_store y2) = Some ''new''"
    by (auto simp: decoded_def demo_config_env_def y2_def)
  then show ?thesis using reach read by (intro exI [of _ y2] exI [of _ ?H]) simp
qed

lemma own_writes_are_read_witness:
  "\<exists>s' m'. update_config demo_config_env demo_config_io 0 ''k'' (Some ''new'') (demo_config_store, rg_new 2) = (Inr (), s', m')
    \<and> fst (findByNameFromRedisHelper demo_config_env demo_config_io 400000 ''k'' None (s', m')) = Some (JStr ''new'')"
proof -
  obtain s' m' where up:
    "update_config demo_config_env demo_config_io 0 ''k'' (Some ''new'') (demo_config_store, rg_new 2) = (Inr (), s', m')"
    by (cases "update_config demo_config_env demo_config_io 0 ''k'' (Some ''new'') (demo_config_store, rg_new 2)")
      (auto simp: update_config_def demo_config_io_def demo_config_store_def demo_config_row_def find_row_def)
  have "fst (findByNameFromRedisHelper demo_config_env demo_config_io 400000 ''k'' None (s', m')) =
      Option.bind (Some ''new'') (decoded demo_config_env None)"
    using own_writes_are_read [of demo_config_env demo_config_io 0 "''k''" "Some ''new''" demo_config_store "rg_new 2" s' m'
        None demo_config_io 400000] up
    by (auto simp: demo_config_env_def demo_config_io_def decoded_def)
  then show ?thesis using up by (auto simp: decoded_def demo_config_env_def)
qed

definition demo_dimensions :: sr_dimension_config where
  "demo_dimensions = \<lparr>dm_merchant_id = ''m'', dm_payment_info = \<lparr>di_udfs = [], di_fields = Some [''currency'', ''bank'']\<rparr>\<rparr>"

lemma sr_dimensions_read_back_witness:
  "\<exists>err. err \<noteq> SD_StorageError \<and> config_sr_dimensions demo_config_env demo_config_io 0 (\<lambda>_. []) (\<lambda>_. ''c'') demo_dimensions
     (demo_config_store, rg_new 2) = (Inl err, demo_config_store, rg_new 2)"
proof -
  have bad: "invalid_dimensions demo_dimensions \<noteq> []"
    by (simp add: invalid_dimensions_def demo_dimensions_def ELIGIBLE_DIMENSIONS_def)
  obtain r s m where req: "config_sr_dimensions demo_config_env demo_config_io 0 (\<lambda>_. []) (\<lambda>_. ''c'') demo_dimensions
     (demo_config_store, rg_new 2) = (r, s, m)" by (metis prod_cases3)
  from sr_dimensions_read_back [where decode = "\<lambda>_. Some demo_dimensions" and encode = "\<lambda>_. ''c''"
      and payload = demo_dimensions and V = demo_config_env and io = demo_config_io and now = 0
      and show_list = "\<lambda>_. []" and s = demo_config_store and m = "rg_new 2"] bad req
  show ?thesis by (cases r) auto
qed

end
