(* ===== verification/Spec2Isabelle.thy ===== *)
theory Spec2Isabelle
  imports PmFilter_Correct Mem_Cache Ab_Test Sr_Reset Sr_Calibration Outage Elim_Readmit Elim_Scores Decide_Priority Network_Correct Segment_Optimal Feedback_Correct Seed_Correct Cost_Cache_Correct Serving_Correct Filter_Correct Legacy_Correct Routing_Correct Config_Correct
begin

text \<open>
  The decision engine chooses the gateway a payment is sent through. A request is first met by the
  merchant's rules: programs of the Euclid language (\<open>src/src/euclid/\<close>) that name connectors, with a
  constraint graph that removes the connectors the configuration does not allow. For success-rate
  routing the decider (\<open>src/src/decider/gatewaydecider/gw_scoring.rs\<close>, \<open>utils.rs\<close>) scores the
  functional gateways: the score of each in a window of past outcomes, changed by resets, extra
  scores and draws, then lowered by scheduled outages and by elimination. The outcome of a payment
  comes back as a feedback (\<open>src/src/feedback/\<close>) that updates windows and elimination scores in
  Redis, which is the state the next decision reads. An A/B test may divert a payment before, and a
  periodic job tunes bucket sizes and hedging from past traffic.

  The theories, in the order they build on one another:

  \<^item> \<open>F64\<close>: binary64 numbers as exact rationals with the infinities and NaN, rounding to nearest
    even, comparison and arithmetic, with the bounds the scores need (monotone rounding, exactness
    of small integers). \<open>Prelude\<close>: results, association lists for hash maps, string functions,
    lookups and the lemmas the components share.
  \<^item> \<open>Euclid_Ast\<close>, \<open>Euclid_Interp\<close>, \<open>Euclid_Validate\<close> (\<open>ast.rs\<close>, \<open>types.rs\<close>, \<open>interpreter.rs\<close>,
    \<open>utils.rs\<close>, \<open>errors.rs\<close>): the rule language, its evaluation as the first rule with a satisfied
    path, volume splits, and validation, with the theorem that on a well-typed request the only
    comparisons of a validated rule that can be malformed are those that negate a global reference.
  \<^item> \<open>CGraph\<close>, \<open>PmFilter\<close>, \<open>PmFilter_Correct\<close> (\<open>cgraph.rs\<close>, \<open>pm_filter_graph.rs\<close>): constraint graphs,
    the compiler from the filter configuration, and that the compiled graph keeps exactly the
    connectors a direct reading of the configuration allows. The recursive node check takes fuel; it
    returns on acyclic graphs with fuel above the rank of the node, and four is enough for every
    compiled graph.
  \<^item> \<open>Mem_Cache\<close>, \<open>Feature\<close> (\<open>src/src/redis/\<close>): the in-memory caches and the feature flags.
  \<^item> \<open>Decider_Types\<close>, \<open>Ab_Test\<close> (\<open>ab_test/\<close>): assignment of arms, interception and outcome events.
  \<^item> \<open>Redis_Store\<close>, \<open>Sr_Config\<close>, \<open>Sr_Score\<close>, \<open>Sr_Reset\<close>: the windows of outcomes, the lookup of
    their parameters, resets, extra scores and draws; that a score is the success share of the latest
    outcomes and stays between zero and one.
  \<^item> \<open>Sr_Calibration\<close> (\<open>sr_auto_calibration.rs\<close>): the periodic tuning of bucket sizes and hedging.
  \<^item> \<open>Txn_Types\<close>, \<open>Outage\<close>: transactions, the decider state and scheduled outages.
  \<^item> \<open>Elim_Config\<close>, \<open>Score_Store\<close>, \<open>Elim_Feedback\<close> (\<open>src/src/feedback/gateway_elimination_scoring/\<close>):
    success rates and thresholds, the JSON documents of the scores, and their update by a feedback.
  \<^item> \<open>Elim_Decide\<close>, \<open>Elim_Merchant\<close>, \<open>Elim_Flow\<close>: the platform stage of elimination, the merchant
    stage with resets, and the whole function; \<open>Elim_Correct\<close> describes its scores and approach,
    \<open>Elim_Resets\<close> and \<open>Elim_Readmit\<close> what is reported and when a gateway comes back, \<open>Elim_Scores\<close>
    what the feedback path keeps of the scores.
  \<^item> \<open>F64_Round\<close>: the error of rounding and the exact dyadic numbers. \<open>Scoring_Flow\<close>
    (\<open>scoring_flow\<close> of \<open>gw_scoring.rs\<close>): the order of the stages, hedging and the scores by
    priority. \<open>Multi_Objective\<close> (\<open>multi_objective/\<close>): the pick by expected value and that no gateway
    exceeds it. \<open>Decide\<close> (\<open>flow_new.rs\<close>): candidates, choice, answers, dispatch.
    \<open>Decide_Correct\<close> and \<open>Decide_Priority\<close>: only candidates are decided, what an outage does without
    them, and that decisions by priority follow the list.
  \<^item> \<open>Score_Keys\<close>, \<open>Keys_Correct\<close> (\<open>utils.rs\<close>, \<open>feedback/utils.rs\<close>): the dimensions of a payment and the Redis
    keys of its scores; that a feedback updates the key the decision read, and where it does not.
  \<^item> \<open>Gsm\<close> (\<open>src/crates/gsm/\<close>), \<open>Feedback_Flow\<close>, \<open>Feedback_Update\<close>, \<open>Feedback_Correct\<close>
    (\<open>feedback/gateway_scoring_service.rs\<close>): a feedback from the request through its gates to the window
    and the elimination scores, what it moves by the status of the payment, and that the next decision
    reads it.
  \<^item> \<open>Network_Decider\<close>, \<open>Network_Correct\<close> (\<open>src/src/decider/network_decider/\<close>): the networks of a
    co-badged debit card, their fees and the answer in the order of the fees.
  \<^item> \<open>Cost_Segment\<close>, \<open>Segment_Optimal\<close> (\<open>src/src/cost_ingestion/segment.rs\<close>): the statistics of fee
    bands, the line fitted to a piece, and the dynamic programme that cuts a cluster into pieces,
    against all the ways to cut it.
  \<^item> \<open>Cost_Key\<close>, \<open>Seed_Correct\<close> (\<open>multi_objective/cluster_key.rs\<close>, \<open>seed_costs.rs\<close>): the key a payment is
    priced by and the contract rates, with the order of their tiers. \<open>Cost_Serving\<close>, \<open>Cost_Refresh\<close>,
    \<open>Serving_Correct\<close> (\<open>src/src/cost_ingestion/serving.rs\<close>): the fitted costs served per merchant, their
    rebuild from database rows, that no lookup panics on what a rebuild leaves, and which tier prices an
    amount. \<open>Cost_Lookup\<close>, \<open>Cost_Cache_Correct\<close> (\<open>multi_objective/hypersense_client.rs\<close>): the costs a
    decision ranks with, and the cache of fee models solved from the answers of the fee service, whose
    models agree with three answers at distinct amounts.
  \<^item> \<open>Filter_Types\<close>, \<open>Filter_Utils\<close>, \<open>Filter_Functional\<close>, \<open>Filter_Card\<close>, \<open>Filter_Mandate\<close>, \<open>Filter_Emi\<close>,
    \<open>Filter_Methods\<close>, \<open>Filter_Flow\<close>, \<open>Filter_Correct\<close> (\<open>gw_filter.rs\<close>, the queries under
    \<open>src/src/types/\<close> and \<open>src/src/decider/storage/utils/\<close>): the filters of the older decider flow, from
    the accounts of the merchant to the functional gateways. One invariant, which ties the gateways to
    the accounts that remain, is kept by every filter; from it follow that the answer holds only
    accounts of the merchant, that the reports shrink, that an answer has one account per gateway, and
    the only way to fail.
  \<^item> \<open>Priority_Logic\<close>, \<open>Legacy_Flow\<close>, \<open>Legacy_Correct\<close> (\<open>runner.rs\<close>, \<open>flows.rs\<close>): the priority logic of the
    merchant, from the script and the payload to the list, with the executor as a parameter that may
    answer every call differently, and the older flow that puts filters, priority logic and scores
    together; that it decides only gateways of the merchant's accounts, that a fallback script never
    changes the list, and what enforcement does when none of its gateways is left.

  \<^item> \<open>Routing_Rules\<close>, \<open>Routing_Correct\<close> (\<open>euclid/handlers/routing_rules.rs\<close>): the handlers that create, activate,
    edit, delete, list and evaluate rules, over the table of rules, the table of active rules and the
    cached rule of a merchant. That the keys of the tables are unique is the database's work
    (\<open>algorithm_id_free\<close> and \<open>mapper_key_free\<close> stand for the constraints of the migrations); on such tables
    an activation replaces the active rule of its kind, under any failures. When requests run one at a
    time, without foreign rules and lost cache writes, the evaluated rule is an active one. At the end
    of this theory the evaluation is followed to its answer: the connectors of the active rule's output
    less those the configuration does not allow.
  \<^item> \<open>Service_Config\<close>, \<open>Config_Correct\<close> (\<open>redis/cache.rs\<close>, \<open>types/service_configuration.rs\<close>): the table of
    configurations behind Redis and the registry of each process, with the settings kept there; that
    under any failures a read answers a value of the table, or a default that a reader left in the
    caches, at most one time to live old, or nothing when the table cannot be read; and that a process
    reads its own writes.

  How the model stands for the code. Structs are records with the fields the modelled functions
  use, enums are datatypes, hash maps are association lists in the order of iteration (a theorem
  about a map holds for every order), strings are char lists. The mutable decider state is passed
  explicitly. A panic is \<open>None\<close> and an error a value of a sum. Integers keep their ranges where the
  code can leave them: the build is the release one, so unsigned subtraction and the counters wrap,
  and casts truncate or saturate as Rust's do.

  Parameters, with the documented behaviour that is assumed of them where a theorem needs any:
  Redis lists and keys (\<open>redis_documented\<close>, satisfied by an in-memory store in \<open>Redis_Store\<close>) and
  \<open>GET\<close> and \<open>SET EX\<close> (\<open>store_documented\<close>, satisfied by \<open>mem_store\<close>); the draws and constructors of the
  crate rand_distr; the weighted sampler; \<open>powf\<close>; the crate regex; Unicode lower-casing; clocks,
  lock contention, and for the decider the values of the service configuration. Documents written to Redis read back
  as written: floating-point numbers are taken to survive the decimal text of serde_json.

  Not modelled: HTTP handlers other than those of the rules and the dimensions, the database engine,
  ClickHouse and Kafka, logging and metrics (they do not feed back into a decision), secrets, start-up,
  the reports of cost ingestion and the queries of the analytics service, which are database work.
\<close>

section \<open>From a rule's output to the eligible connectors\<close>

lemma evaluate_output_connectors:
  assumes "evaluate_output sampler out = Inr cs"
  shows "set (extract_connectors_for_eligibility out) = set cs"
proof (cases out)
  case (VolumeSplit splits)
  with assms have "mset cs = image_mset vs_output (mset splits)"
    by (simp add: perform_volume_split_def sample_split_winner_first_mset)
  then have "set cs = vs_output ` set splits" by (metis set_image_mset set_mset_mset)
  with VolumeSplit push_new_foldl [of "[]" "List.map vs_output splits"] show ?thesis by simp
next
  case (VolumeSplitPriority splits)
  with assms obtain os where os: "sample_split_winner_first sampler splits = Inr os"
    "cs = foldl push_new [] (concat os)"
    by (auto simp: perform_volume_split_priority_def rbind_eq_Inr)
  from sample_split_winner_first_mset [OF os(1)]
  have "set os = vs_output ` set splits" by (metis set_image_mset set_mset_mset)
  with VolumeSplitPriority os(2) push_new_foldl [of "[]" "concat (List.map vs_output splits)"]
    push_new_foldl [of "[]" "concat os"]
  show ?thesis by simp
qed (use assms push_new_foldl [of "[]" cs] in \<open>auto simp: push_new_def\<close>)

text \<open>
  The connectors a request is answered with are the connectors its evaluated output lists, in
  that order and as often, less those the configuration does not allow for the request: narrowing
  the evaluated output to the eligible connectors of the selected output loses nothing else.
\<close>

theorem evaluated_then_narrowed:
  assumes "evaluate_output sampler out = Inr cs"
    and "build_pm_filter_graph_bundle filters config = Inr bundle" "4 \<le> fuel"
    and "compute_routing_evaluate_eligibility fuel (Some bundle) params
      (extract_connectors_for_eligibility out) = Some eligible"
  shows "narrow_evaluated_output_to_eligible cs eligible =
    filter (connector_allowed filters config params) cs"
proof -
  have "eligible = filter (connector_allowed filters config params)
      (extract_connectors_for_eligibility out)"
  proof (cases "has_payment_method_type params")
    case True
    with assms(2-4) filter_connectors_exact [OF assms(3), of filters config params] show ?thesis
      by (auto simp: compute_routing_evaluate_eligibility_def eligibility_for_output_def
          apply_pm_filter_eligibility_def)
  next
    case False
    then have "connector_allowed filters config params c" for c
      by (simp add: connector_allowed_def build_pm_filter_context_def nonempty_trimmed_def
          has_payment_method_type_def)
    with False assms(4) show ?thesis
      by (simp add: compute_routing_evaluate_eligibility_def eligibility_for_output_def)
  qed
  then show ?thesis
    using evaluate_output_connectors [OF assms(1)]
    by (auto simp: narrow_evaluated_output_to_eligible_def intro: filter_cong)
qed

definition demo_filters :: connector_filters where
  "demo_filters =
     [(''Stripe'', [(''credit'', \<lparr>ccf_country = None, ccf_currency = Some [''usd''],
        ccf_not_available_flows = None\<rparr>)])]"

definition demo_params :: ctx where
  "demo_params = [''payment_method_type'' \<mapsto> Some (EnumVariant ''credit''),
     ''currency'' \<mapsto> Some (EnumVariant ''EUR'')]"

section \<open>From the active rule to the answer\<close>

text \<open>Whatever kind of rule is evaluated, the connectors are those of the output that is answered.\<close>

lemma eval_rules_evaluates:
  "eval_rules sampler p ctx rs = Inr ir \<Longrightarrow> evaluate_output sampler (bo_output ir) = Inr (bo_evaluated_output ir)"
  by (induction rs)
    (auto simp: rbind_eq_Inr map_err_def split: sum.splits if_splits)

lemma map_err_Inr: "map_err f r = Inr a \<longleftrightarrow> r = Inr a"
  by (cases r) auto

lemma evaluate_arm_evaluates:
  assumes "evaluate_arm sampler lookup arm i ctx fallback present = Inr res"
  shows "evaluate_output sampler (ao_output res) = Inr (ao_evaluated_output res)"
proof (cases "i = sr_routing")
  case True
  with assms show ?thesis
    by (simp add: evaluate_arm_def rbind_eq_Inr map_err_Inr split: option.splits list.splits) auto
next
  case False
  with assms obtain alg where alg: "lookup i = Inr (Some alg)"
    by (simp add: evaluate_arm_def split: sum.splits option.splits)
  show ?thesis
  proof (cases alg)
    case (Alg_Advanced p)
    with assms False alg obtain ir where ir: "eval_program sampler p ctx = Inr ir"
      "res = (case (present \<and> bo_output ir = default_selection p, fallback) of
         (True, Some fallback) \<Rightarrow> \<lparr>ao_output = Priority fallback, ao_evaluated_output = fallback,
            ao_rule_name = Some ''default_fallback''\<rparr>
       | _ \<Rightarrow> \<lparr>ao_output = bo_output ir, ao_evaluated_output = bo_evaluated_output ir, ao_rule_name = bo_rule_name ir\<rparr>)"
      by (auto simp: evaluate_arm_def rbind_eq_Inr map_err_Inr)
    from ir(1) have "evaluate_output sampler (bo_output ir) = Inr (bo_evaluated_output ir)"
      by (simp add: eval_program_def eval_rules_evaluates)
    then show ?thesis by (auto simp: ir(2) split: option.split bool.split)
  qed (use assms False alg in \<open>auto simp: evaluate_arm_def rbind_eq_Inr map_err_Inr\<close>)
qed

lemma evaluate_advanced_evaluates:
  assumes "evaluate_advanced V r p = Inr (out, cs, matched)"
  shows "evaluate_output (en_sampler V) out = Inr cs"
proof -
  from assms obtain ir where ir: "eval_program (en_sampler V) p (map_of (rq_parameters r)) = Inr ir"
    "(out, cs, matched) = (case (default_output_present r \<and> bo_output ir = default_selection p, rq_fallback_output r) of
         (True, Some fallback) \<Rightarrow> (Priority fallback, fallback, Some ''default_fallback'')
       | _ \<Rightarrow> (bo_output ir, bo_evaluated_output ir, bo_rule_name ir))"
    by (auto simp: evaluate_advanced_def rbind_eq_Inr map_err_Inr)
  from ir(1) have "evaluate_output (en_sampler V) (bo_output ir) = Inr (bo_evaluated_output ir)"
    by (simp add: eval_program_def eval_rules_evaluates)
  with ir(2) show ?thesis by (simp split: option.splits bool.splits)
qed

lemma evaluate_algorithm_evaluates:
  assumes "evaluate_algorithm V io s r algorithm = Inr (out, cs, matched)"
  shows "evaluate_output (en_sampler V) out = Inr cs"
proof (cases algorithm)
  case (Alg_Advanced p)
  with assms show ?thesis by (intro evaluate_advanced_evaluates) (simp add: evaluate_algorithm_def)
next
  case (Alg_AbTest d)
  with assms show ?thesis
    by (auto simp: evaluate_algorithm_def Let_def rbind_eq_Inr map_err_Inr evaluate_arm_evaluates)
qed (use assms in \<open>auto simp: evaluate_algorithm_def evaluate_fixed_def rbind_eq_Inr map_err_Inr\<close>)

lemma evaluate_response_allowed:
  assumes "build_pm_filter_graph_bundle filters config = Inr bundle" "en_bundle V = Some bundle" "4 \<le> fuel"
    and "evaluate_output (en_sampler V) out = Inr cs"
  shows "\<exists>response. evaluate_response fuel V r (out, cs, matched) = Some response \<and> re_output response = format_output out
    \<and> re_evaluated_output response = filter (connector_allowed filters config (map_of (rq_parameters r))) cs"
proof -
  let ?params = "map_of (rq_parameters r)"
  let ?cs = "extract_connectors_for_eligibility out"
  let ?graph = "if has_payment_method_type ?params then en_bundle V else None"
  obtain eligible where el: "compute_routing_evaluate_eligibility fuel (Some bundle) ?params ?cs = Some eligible"
    using filter_connectors_exact [OF assms(3), of filters config ?params] assms(1)
    by (cases "has_payment_method_type ?params")
      (auto simp: compute_routing_evaluate_eligibility_def eligibility_for_output_def apply_pm_filter_eligibility_def)
  then have "eligibility_for_output fuel ?graph ?params ?cs = Some eligible"
    using assms(2) by (auto simp: compute_routing_evaluate_eligibility_def eligibility_for_output_def)
  then show ?thesis
    using evaluated_then_narrowed [OF assms(4,1,3) el] by (simp add: evaluate_response_def Let_def)
qed

text \<open>
  C40. An evaluation always answers: either with an error, or with the output of the rule it found
  active and, in the order of that output's evaluation and as often, its connectors less those the
  configuration does not allow for the request. Fuel of four is enough for the check of the graph.
\<close>

theorem evaluation_answers_allowed:
  assumes "build_pm_filter_graph_bundle filters config = Inr bundle" "en_bundle V = Some bundle" "4 \<le> fuel"
  shows "case routing_evaluate fuel V io r s of
      (None, _) \<Rightarrow> False
    | (Some (Inl _), _) \<Rightarrow> True
    | (Some (Inr response), s') \<Rightarrow> \<exists>i data algorithm out cs matched.
        active_algorithm io (rq_created_by r) s = (Inr (i, data), s') \<and> en_decode V data = Inr algorithm
        \<and> evaluate_algorithm V io s' r algorithm = Inr (out, cs, matched)
        \<and> re_output response = format_output out
        \<and> re_evaluated_output response = filter (connector_allowed filters config (map_of (rq_parameters r))) cs"
proof -
  obtain found s' where active: "active_algorithm io (rq_created_by r) s = (found, s')" by fastforce
  show ?thesis
  proof (cases "\<exists>c i data algorithm out cs matched. en_config V = Some c \<and> validate_parameters c (rq_parameters r) = None
      \<and> found = Inr (i, data) \<and> en_decode V data = Inr algorithm
      \<and> evaluate_algorithm V io s' r algorithm = Inr (out, cs, matched)")
    case True
    then obtain c i data algorithm out cs matched where *: "en_config V = Some c"
      "validate_parameters c (rq_parameters r) = None" "found = Inr (i, data)" "en_decode V data = Inr algorithm"
      "evaluate_algorithm V io s' r algorithm = Inr (out, cs, matched)" by blast
    obtain response where "evaluate_response fuel V r (out, cs, matched) = Some response"
      "re_output response = format_output out"
      "re_evaluated_output response = filter (connector_allowed filters config (map_of (rq_parameters r))) cs"
      using evaluate_response_allowed [OF assms evaluate_algorithm_evaluates [OF *(5)]] by blast
    then show ?thesis using * active by (simp add: routing_evaluate_def)
  next
    case False
    then show ?thesis using active
      by (auto simp: routing_evaluate_def split: option.split sum.split)
  qed
qed

definition demo_evaluate_request :: routing_request where
  "demo_evaluate_request = \<lparr>rq_payment_id = None, rq_created_by = ''m'', rq_fallback_output = None,
     rq_parameters = [(''payment_method_type'', Some (EnumVariant ''credit'')), (''currency'', Some (EnumVariant ''EUR''))]\<rparr>"

definition demo_text_key :: key_config where
  "demo_text_key = \<lparr>kc_data_type = KStrValue, kc_values = None, kc_min_value = None, kc_max_value = None,
     kc_min_length = None, kc_max_length = None, kc_exact_length = None, kc_regex = None\<rparr>"

definition demo_evaluate_env :: "pm_filter_graph_bundle \<Rightarrow> rules_env" where
  "demo_evaluate_env b = demo_rules_env\<lparr>
     en_config := Some \<lparr>toml_keys = [(''payment_method_type'', demo_text_key), (''currency'', demo_text_key)]\<rparr>,
     en_decode := (\<lambda>_. Inr (Alg_Priority [conn ''stripe'', conn ''adyen''])), en_bundle := Some b\<rparr>"

lemma evaluation_answers_allowed_witness:
  "\<exists>V response s. routing_evaluate 4 V demo_rules_io demo_evaluate_request demo_active = (Some (Inr response), s)
    \<and> re_evaluated_output response = [conn ''adyen'']"
proof -
  obtain b where b: "build_pm_filter_graph_bundle demo_filters None = Inr b"
    using filter_connectors_exact [of 4 demo_filters None demo_params] by auto
  let ?V = "demo_evaluate_env b"
  have params: "map_of (rq_parameters demo_evaluate_request) = demo_params"
    by (auto simp: demo_evaluate_request_def demo_params_def)
  have cfg: "en_config ?V = Some \<lparr>toml_keys = [(''payment_method_type'', demo_text_key), (''currency'', demo_text_key)]\<rparr>"
    "en_decode ?V = (\<lambda>_. Inr (Alg_Priority [conn ''stripe'', conn ''adyen'']))" "en_bundle ?V = Some b"
    by (simp_all add: demo_evaluate_env_def)
  have valid: "validate_parameters \<lparr>toml_keys = [(''payment_method_type'', demo_text_key), (''currency'', demo_text_key)]\<rparr>
      (rq_parameters demo_evaluate_request) = None"
    by (simp add: validate_parameters_def parameter_error_def demo_evaluate_request_def demo_text_key_def)
  have active: "active_algorithm demo_rules_io (rq_created_by demo_evaluate_request) demo_active = (Inr (''r1'', ''data''), demo_active)"
    using demo_active_found by (simp add: demo_evaluate_request_def)
  have alg: "evaluate_algorithm ?V demo_rules_io demo_active demo_evaluate_request (Alg_Priority [conn ''stripe'', conn ''adyen''])
      = Inr (Priority [conn ''stripe'', conn ''adyen''], [conn ''stripe'', conn ''adyen''], Some ''priority_rule'')"
    by (simp add: evaluate_algorithm_def evaluate_fixed_def)
  from evaluation_answers_allowed [OF b cfg(3) order_refl, of demo_rules_io demo_evaluate_request demo_active]
  obtain response where ev: "routing_evaluate 4 ?V demo_rules_io demo_evaluate_request demo_active = (Some (Inr response), demo_active)"
    "re_evaluated_output response = filter (connector_allowed demo_filters None demo_params) [conn ''stripe'', conn ''adyen'']"
    by (auto simp: routing_evaluate_def cfg valid active alg params split: option.splits)
  have "filter (connector_allowed demo_filters None demo_params) [conn ''stripe'', conn ''adyen''] = [conn ''adyen'']"
    by code_simp
  with ev show ?thesis by metis
qed

end
